(* ===== verification/Prelude.thy ===== *)
theory Prelude
  imports Complex_Main "HOL-Library.Multiset" "HOL-Library.List_Lexorder" "HOL-Library.Char_ord"
begin

text \<open>
  Shared vocabulary of the development: the collections of simplification facts, the
  result type of fallible Go functions and its sequencing, Go's insertion sort, and the
  generic lemmas on lists and sums that the components use.
\<close>

section \<open>Collections\<close>

text \<open>
  \<open>go_consts\<close> unfolds the named string constants of the Go packages, \<open>validate_defs\<close>
  the validators (functions returning an error or nil), \<open>amount_simps\<close> the arithmetic
  of money amounts.
\<close>

named_theorems go_consts
named_theorems validate_defs
named_theorems amount_simps

section \<open>Fallible functions\<close>

text \<open>
  A Go function returning \<open>(T, error)\<close> returns \<open>Inl e\<close> for a non-nil error and
  \<open>Inr x\<close> otherwise; one returning just \<open>error\<close> returns an option, \<open>None\<close> for nil.
\<close>

fun rbind :: "'e + 'a \<Rightarrow> ('a \<Rightarrow> 'e + 'b) \<Rightarrow> 'e + 'b" where
  "rbind (Inl e) f = Inl e"
| "rbind (Inr x) f = f x"

text \<open>\<open>if err != nil { return err }\<close> chains: the first error wins.\<close>

fun orelse :: "'e option \<Rightarrow> 'e option \<Rightarrow> 'e option" where
  "orelse (Some e) rest = Some e"
| "orelse None rest = rest"

text \<open>A validator guarding the rest of a function.\<close>

fun guarded :: "'e option \<Rightarrow> 'e + 'a \<Rightarrow> 'e + 'a" where
  "guarded (Some e) rest = Inl e"
| "guarded None rest = rest"

lemma rbind_Inr_iff [simp]: "rbind r f = Inr y \<longleftrightarrow> (\<exists>x. r = Inr x \<and> f x = Inr y)"
  by (cases r) auto

lemma orelse_None_iff [simp]: "orelse a b = None \<longleftrightarrow> a = None \<and> b = None"
  by (cases a) auto

lemma orelse_Some_iff: "orelse a b = Some e \<longleftrightarrow> a = Some e \<or> a = None \<and> b = Some e"
  by (cases a) auto

lemma guarded_Inr_iff [simp]: "guarded a r = Inr y \<longleftrightarrow> a = None \<and> r = Inr y"
  by (cases a) auto

text \<open>A loop that validates every element, with its index, and stops at the first error.\<close>

fun check_each :: "nat \<Rightarrow> (nat \<Rightarrow> 'a \<Rightarrow> 'e option) \<Rightarrow> 'a list \<Rightarrow> 'e option" where
  "check_each i f [] = None"
| "check_each i f (x # xs) = orelse (f i x) (check_each (Suc i) f xs)"

lemma check_each_None_iff:
  "check_each i f xs = None \<longleftrightarrow> (\<forall>k < length xs. f (i + k) (xs ! k) = None)"
proof (induction xs arbitrary: i)
  case Nil
  then show ?case by simp
next
  case (Cons x xs)
  then show ?case
    by (auto simp: less_Suc_eq_0_disj)
qed

lemma check_each_all: "check_each i f xs = None \<Longrightarrow> x \<in> set xs \<Longrightarrow> \<exists>k. f k x = None"
  by (auto simp: check_each_None_iff in_set_conv_nth)

lemma check_each_None_I: "(\<And>k x. x \<in> set xs \<Longrightarrow> f k x = None) \<Longrightarrow> check_each i f xs = None"
  by (simp add: check_each_None_iff)

section \<open>Go's sort for short slices\<close>

text \<open>
  \<open>slices.SortStableFunc\<close> and \<open>sort.Slice\<close> on a short slice are an insertion sort: each
  element moves left over the neighbours it is strictly less than. \<open>go_sink lt x ys\<close>
  inserts \<open>x\<close> into the sorted prefix \<open>ys\<close>, held in reverse.
\<close>

fun go_sink :: "('a \<Rightarrow> 'a \<Rightarrow> bool) \<Rightarrow> 'a \<Rightarrow> 'a list \<Rightarrow> 'a list" where
  "go_sink lt x [] = [x]"
| "go_sink lt x (y # ys) = (if lt x y then y # go_sink lt x ys else x # y # ys)"

definition go_sort :: "('a \<Rightarrow> 'a \<Rightarrow> bool) \<Rightarrow> 'a list \<Rightarrow> 'a list" where
  "go_sort lt xs = rev (fold (go_sink lt) xs [])"

lemma mset_go_sink [simp]: "mset (go_sink lt x ys) = add_mset x (mset ys)"
  by (induction ys) auto

lemma mset_fold_go_sink: "mset (fold (go_sink lt) xs acc) = mset xs + mset acc"
  by (induction xs arbitrary: acc) auto

lemma mset_go_sort [simp]: "mset (go_sort lt xs) = mset xs"
  by (simp add: go_sort_def mset_fold_go_sink)

lemma set_go_sort [simp]: "set (go_sort lt xs) = set xs"
  by (metis mset_go_sort set_mset_mset)

lemma length_go_sort [simp]: "length (go_sort lt xs) = length xs"
  by (metis mset_go_sort size_mset)

text \<open>
  The contract a comparison function has to honour for the sort to mean anything: a
  strict weak order.
\<close>

locale weak_order =
  fixes lt :: "'a \<Rightarrow> 'a \<Rightarrow> bool"
  assumes asym: "lt x y \<Longrightarrow> \<not> lt y x"
    and nless_trans: "\<not> lt y x \<Longrightarrow> \<not> lt z y \<Longrightarrow> \<not> lt z x"
begin

lemma go_sink_sorted:
  assumes "sorted_wrt (\<lambda>a b. \<not> lt a b) ys"
  shows "sorted_wrt (\<lambda>a b. \<not> lt a b) (go_sink lt x ys)"
  using assms
proof (induction ys)
  case Nil
  then show ?case by simp
next
  case (Cons y ys)
  have mem: "set (go_sink lt x ys) = insert x (set ys)"
    by (metis mset_go_sink set_mset_add_mset_insert set_mset_mset)
  show ?case
  proof (cases "lt x y")
    case True
    then have "\<not> lt y x" by (rule asym)
    with Cons True mem show ?thesis by auto
  next
    case False
    with Cons.prems nless_trans show ?thesis by auto
  qed
qed

lemma fold_go_sink_sorted:
  assumes "sorted_wrt (\<lambda>a b. \<not> lt a b) acc"
  shows "sorted_wrt (\<lambda>a b. \<not> lt a b) (fold (go_sink lt) xs acc)"
  using assms by (induction xs arbitrary: acc) (auto intro: go_sink_sorted)

lemma go_sort_sorted: "sorted_wrt (\<lambda>a b. \<not> lt b a) (go_sort lt xs)"
  using fold_go_sink_sorted [of "[]" xs] by (simp add: go_sort_def sorted_wrt_rev)

text \<open>What a truncated sort keeps is never beaten by what it drops.\<close>

lemma go_sort_take_drop:
  assumes "x \<in> set (take n (go_sort lt xs))" and "y \<in> set (drop n (go_sort lt xs))"
  shows "\<not> lt y x"
proof -
  have "sorted_wrt (\<lambda>a b. \<not> lt b a) (take n (go_sort lt xs) @ drop n (go_sort lt xs))"
    using go_sort_sorted [of xs] by simp
  with assms show ?thesis
    by (auto simp only: sorted_wrt_append)
qed

end

section \<open>Sums over lists\<close>

lemma sum_list_nonneg_map: "(\<And>x. x \<in> set xs \<Longrightarrow> (0::'b::ordered_comm_monoid_add) \<le> f x) \<Longrightarrow> 0 \<le> sum_list (map f xs)"
  by (rule sum_list_nonneg) auto

lemma sum_list_filter_le:
  fixes f :: "'a \<Rightarrow> rat"
  assumes "\<And>x. x \<in> set xs \<Longrightarrow> 0 \<le> f x"
  shows "sum_list (map f (filter P xs)) \<le> sum_list (map f xs)"
  using assms
proof (induction xs)
  case Nil
  then show ?case by simp
next
  case (Cons x xs)
  then have "sum_list (map f (filter P xs)) \<le> sum_list (map f xs)" "0 \<le> f x" by auto
  then show ?case by simp
qed

lemma sum_list_take_le:
  fixes f :: "'a \<Rightarrow> rat"
  assumes "\<And>x. x \<in> set xs \<Longrightarrow> 0 \<le> f x"
  shows "sum_list (map f (take n xs)) \<le> sum_list (map f xs)"
proof -
  have "sum_list (map f xs) = sum_list (map f (take n xs)) + sum_list (map f (drop n xs))"
    by (metis append_take_drop_id map_append sum_list_append)
  moreover have "0 \<le> sum_list (map f (drop n xs))"
    using assms by (intro sum_list_nonneg_map) (auto dest: in_set_dropD)
  ultimately show ?thesis by simp
qed

lemma sum_list_mset_eq:
  fixes f :: "'a \<Rightarrow> 'b::comm_monoid_add"
  assumes "mset xs = mset ys"
  shows "sum_list (map f xs) = sum_list (map f ys)"
  by (metis assms mset_map sum_mset_sum_list)

lemma sum_list_map_mult: "sum_list (map (\<lambda>x. f x * (c::rat)) xs) = sum_list (map f xs) * c"
  by (induction xs) (auto simp: algebra_simps)

end
