(* ===== verification/Go_Float.thy ===== *)
theory Go_Float
  imports Prelude "HOL-Library.Log_Nat"
begin

text \<open>
  Go's \<open>float64\<close>: IEEE 754 binary64 with round to nearest, ties to even. A value is NaN,
  an infinity or an exact rational; every arithmetic operation computes the exact rational
  result and rounds it once (\<open>fl\<close>). Negative zero is identified with zero: no modelled
  code divides by a zero or prints one. Operations round one at a time, as the compiler
  does on amd64 (no fused multiply-add).
\<close>

section \<open>Values and rounding\<close>

datatype f64 = NaN | PInf | NInf | Fin rat

definition exp2 :: "int \<Rightarrow> rat" where
  "exp2 e = (if 0 \<le> e then 2 ^ nat e else 1 / 2 ^ nat (- e))"

text \<open>The binary exponent of a positive rational: \<open>exp2 (ilog2 q) \<le> q < exp2 (ilog2 q + 1)\<close>.\<close>

definition ilog2 :: "rat \<Rightarrow> int" where
  "ilog2 q = (case quotient_of q of (a, b) \<Rightarrow>
     (let k = bitlen a - bitlen b in if exp2 k \<le> q then k else k - 1))"

definition round_even :: "rat \<Rightarrow> int" where
  "round_even q = (let n = \<lfloor>q\<rfloor>; d = q - of_int n in
     if d < 1/2 then n else if 1/2 < d then n + 1 else if even n then n else n + 1)"

text \<open>Significands have 53 bits, the smallest positive subnormal is \<open>exp2 (-1074)\<close>.\<close>

definition fl :: "rat \<Rightarrow> f64" where
  "fl q = (if q = 0 then Fin 0 else
     (let e = max (ilog2 \<bar>q\<bar> - 52) (-1074);
          r = of_int (round_even (q / exp2 e)) * exp2 e
      in if exp2 1024 \<le> \<bar>r\<bar> then (if 0 < q then PInf else NInf) else Fin r))"

section \<open>Comparison and classification\<close>

text \<open>Every comparison with NaN is false (\<open>!=\<close> is the negation of \<open>==\<close>).\<close>

fun flt :: "f64 \<Rightarrow> f64 \<Rightarrow> bool" where
  "flt NaN y = False"
| "flt x NaN = False"
| "flt PInf y = False"
| "flt x NInf = False"
| "flt NInf y = True"
| "flt x PInf = True"
| "flt (Fin a) (Fin b) = (a < b)"

fun feq :: "f64 \<Rightarrow> f64 \<Rightarrow> bool" where
  "feq NaN y = False"
| "feq x y = (x = y)"

definition fle :: "f64 \<Rightarrow> f64 \<Rightarrow> bool" where
  "fle x y = (flt x y \<or> feq x y)"

abbreviation fgt :: "f64 \<Rightarrow> f64 \<Rightarrow> bool" where
  "fgt x y \<equiv> flt y x"

abbreviation fge :: "f64 \<Rightarrow> f64 \<Rightarrow> bool" where
  "fge x y \<equiv> fle y x"

definition is_nan :: "f64 \<Rightarrow> bool" where
  "is_nan x = (x = NaN)"

text \<open>\<open>math.IsInf(x, 0)\<close>: either infinity.\<close>

definition is_inf :: "f64 \<Rightarrow> bool" where
  "is_inf x = (x = PInf \<or> x = NInf)"

section \<open>Arithmetic\<close>

fun fneg :: "f64 \<Rightarrow> f64" where
  "fneg NaN = NaN"
| "fneg PInf = NInf"
| "fneg NInf = PInf"
| "fneg (Fin a) = Fin (- a)"

fun fadd :: "f64 \<Rightarrow> f64 \<Rightarrow> f64" where
  "fadd (Fin a) (Fin b) = fl (a + b)"
| "fadd NaN y = NaN"
| "fadd x NaN = NaN"
| "fadd PInf NInf = NaN"
| "fadd NInf PInf = NaN"
| "fadd PInf y = PInf"
| "fadd NInf y = NInf"
| "fadd x y = y"

definition fsub :: "f64 \<Rightarrow> f64 \<Rightarrow> f64" where
  "fsub x y = fadd x (fneg y)"

text \<open>The sign of a value, \<open>0\<close> for zero and NaN.\<close>

fun fsgn :: "f64 \<Rightarrow> int" where
  "fsgn NaN = 0"
| "fsgn PInf = 1"
| "fsgn NInf = -1"
| "fsgn (Fin a) = (if 0 < a then 1 else if a < 0 then -1 else 0)"

definition inf_of_sgn :: "int \<Rightarrow> f64" where
  "inf_of_sgn s = (if 0 < s then PInf else if s < 0 then NInf else NaN)"

fun fmul :: "f64 \<Rightarrow> f64 \<Rightarrow> f64" where
  "fmul (Fin a) (Fin b) = fl (a * b)"
| "fmul NaN y = NaN"
| "fmul x NaN = NaN"
| "fmul x y = inf_of_sgn (fsgn x * fsgn y)"

fun fdiv :: "f64 \<Rightarrow> f64 \<Rightarrow> f64" where
  "fdiv (Fin a) (Fin b) = (if b = 0 then inf_of_sgn (fsgn (Fin a)) else fl (a / b))"
| "fdiv NaN y = NaN"
| "fdiv x NaN = NaN"
| "fdiv (Fin a) y = Fin 0"
| "fdiv x (Fin b) = inf_of_sgn (fsgn x * (if b < 0 then -1 else 1))"
| "fdiv x y = NaN"

fun fabs :: "f64 \<Rightarrow> f64" where
  "fabs NaN = NaN"
| "fabs (Fin a) = Fin \<bar>a\<bar>"
| "fabs x = PInf"

text \<open>\<open>math.Ceil\<close> and the conversion \<open>float64(n)\<close> of an integer.\<close>

fun fceil :: "f64 \<Rightarrow> f64" where
  "fceil (Fin a) = Fin (of_int \<lceil>a\<rceil>)"
| "fceil x = x"

definition f64_of_int :: "int \<Rightarrow> f64" where
  "f64_of_int n = fl (of_int n)"

text \<open>The value of a finite float (\<open>Rat.SetFloat64\<close>, which is nil for the others).\<close>

fun rat_of_f64 :: "f64 \<Rightarrow> rat" where
  "rat_of_f64 (Fin q) = q"
| "rat_of_f64 x = 0"

section \<open>Facts\<close>

lemma fle_Fin [simp]: "fle (Fin a) (Fin b) \<longleftrightarrow> a \<le> b"
  by (auto simp: fle_def)

lemma flt_irrefl [simp]: "\<not> flt x x"
  by (cases x) auto

lemma flt_asym: "flt x y \<Longrightarrow> \<not> flt y x"
  by (cases x; cases y) auto

lemma flt_trans: "flt x y \<Longrightarrow> flt y z \<Longrightarrow> flt x z"
  by (cases x; cases y; cases z) auto

text \<open>A value strictly inside finite bounds is finite: the in-range form rejects NaN.\<close>

lemma flt_fle_finite: "flt (Fin a) x \<Longrightarrow> fle x (Fin b) \<Longrightarrow> \<exists>q. x = Fin q \<and> a < q \<and> q \<le> b"
  by (cases x) (auto simp: fle_def)

lemma fle_flt_finite: "fle (Fin a) x \<Longrightarrow> flt x (Fin b) \<Longrightarrow> \<exists>q. x = Fin q \<and> a \<le> q \<and> q < b"
  by (cases x) (auto simp: fle_def)

lemma not_nan_inf_finite: "\<not> is_nan x \<Longrightarrow> \<not> is_inf x \<Longrightarrow> \<exists>q. x = Fin q"
  by (cases x) (auto simp: is_nan_def is_inf_def)

lemma exp2_pos [simp]: "0 < exp2 e"
  by (simp add: exp2_def)

lemma exp2_nonneg [simp]: "0 \<le> exp2 e"
  using exp2_pos [of e] by linarith

lemma exp2_nz [simp]: "exp2 e \<noteq> 0"
  using exp2_pos [of e] by linarith

lemma fl_0 [simp]: "fl 0 = Fin 0"
  by (simp add: fl_def)

lemma round_even_bounds: "\<bar>of_int (round_even q) - q\<bar> \<le> 1/2"
proof -
  define n where "n = \<lfloor>q\<rfloor>"
  have "of_int n \<le> q" "q < of_int n + 1" using floor_correct [of q] by (simp_all add: n_def)
  then show ?thesis by (auto simp: round_even_def Let_def n_def [symmetric] abs_if)
qed

lemma round_even_nonneg: "0 \<le> q \<Longrightarrow> 0 \<le> round_even q"
  by (auto simp: round_even_def Let_def)

lemma round_even_of_int [simp]: "round_even (of_int n) = n"
  by (simp add: round_even_def)

lemma round_even_mono: "p \<le> q \<Longrightarrow> round_even p \<le> round_even q"
proof -
  assume le: "p \<le> q"
  then have fl_le: "\<lfloor>p\<rfloor> \<le> \<lfloor>q\<rfloor>" by (rule floor_mono)
  show ?thesis
  proof (cases "\<lfloor>p\<rfloor> = \<lfloor>q\<rfloor>")
    case True
    with le show ?thesis by (auto simp: round_even_def Let_def)
  next
    case False
    with fl_le have "\<lfloor>p\<rfloor> + 1 \<le> \<lfloor>q\<rfloor>" by simp
    then show ?thesis by (auto simp: round_even_def Let_def)
  qed
qed

lemma fl_nonneg: "0 \<le> q \<Longrightarrow> fl q = Fin r \<Longrightarrow> 0 \<le> r"
  by (auto simp: fl_def Let_def round_even_nonneg split: if_splits)

lemma fl_not_nan [simp]: "fl q \<noteq> NaN"
  by (simp add: fl_def Let_def)

section \<open>Exactness\<close>

lemma exp2_powi: "exp2 e = 2 powi e"
  by (simp add: exp2_def power_int_def power_one_over inverse_eq_divide)

lemma exp2_add: "exp2 (a + b) = exp2 a * exp2 b"
  by (simp add: exp2_powi power_int_add)

lemma exp2_mono: "a \<le> b \<Longrightarrow> exp2 a \<le> exp2 b"
  by (simp add: exp2_powi power_int_increasing)

lemma exp2_less_imp: "exp2 a < exp2 b \<Longrightarrow> a < b"
  by (metis exp2_mono not_le)

lemma ilog2_lower:
  assumes "0 < q"
  shows "exp2 (ilog2 q) \<le> q"
proof -
  obtain a b where ab: "quotient_of q = (a, b)" by (cases "quotient_of q")
  then have b: "0 < b" and q: "q = of_int a / of_int b"
    using quotient_of_denom_pos quotient_of_div by auto
  with assms have a: "0 < a" by (simp add: zero_less_divide_iff)
  define k where "k = bitlen a - bitlen b"
  have "exp2 (k - 1) \<le> q"
  proof -
    have "2 ^ nat (bitlen a - 1) \<le> a" using bitlen_bounds [OF a] by simp
    then have "of_int (2 ^ nat (bitlen a - 1)) \<le> (of_int a :: rat)" by (simp only: of_int_le_iff)
    moreover have "0 \<le> bitlen a - 1" using bitlen_bounds [OF a] a by (cases "bitlen a = 0") (auto simp: bitlen_nonneg order_le_less)
    ultimately have "exp2 (bitlen a - 1) \<le> of_int a" by (simp add: exp2_def)
    moreover have "b \<le> 2 ^ nat (bitlen b)" using bitlen_bounds [OF b] by simp
    then have "(of_int b :: rat) \<le> of_int (2 ^ nat (bitlen b))" by (simp only: of_int_le_iff)
    then have "of_int b \<le> exp2 (bitlen b)" by (simp add: exp2_def bitlen_nonneg)
    ultimately have "exp2 (bitlen a - 1) / exp2 (bitlen b) \<le> q"
      unfolding q using a b by (intro frac_le) auto
    moreover have "exp2 (k - 1) * exp2 (bitlen b) = exp2 (bitlen a - 1)"
      by (simp add: k_def flip: exp2_add)
    ultimately have "exp2 (k - 1) * exp2 (bitlen b) \<le> q * exp2 (bitlen b)" by (simp add: field_simps)
    then show ?thesis by simp
  qed
  then show ?thesis by (auto simp: ilog2_def ab Let_def k_def)
qed

text \<open>A dyadic rational of at most 53 bits is its own nearest float.\<close>

lemma fl_dyadic:
  assumes q: "q = of_int m * exp2 e" and m: "\<bar>m\<bar> < 2 ^ 53" and e: "-1074 \<le> e" "e \<le> 900"
  shows "fl q = Fin q"
proof (cases "q = 0")
  case False
  define x where "x = max (ilog2 \<bar>q\<bar> - 52) (-1074)"
  have aq: "\<bar>q\<bar> < exp2 53 * exp2 e"
  proof -
    have "of_int \<bar>m\<bar> < (of_int (2 ^ 53) :: rat)" using m by (simp only: of_int_less_iff)
    then have "of_int \<bar>m\<bar> < exp2 53" by (simp add: exp2_def)
    then have "of_int \<bar>m\<bar> * exp2 e < exp2 53 * exp2 e" by (rule mult_strict_right_mono) simp
    then show ?thesis by (simp add: q abs_mult)
  qed
  have "exp2 (ilog2 \<bar>q\<bar>) \<le> \<bar>q\<bar>" using False by (intro ilog2_lower) simp
  with aq have "exp2 (ilog2 \<bar>q\<bar>) < exp2 (53 + e)" by (simp add: exp2_add)
  then have "x \<le> e" using e by (auto simp: x_def dest: exp2_less_imp)
  then have "exp2 e = 2 ^ nat (e - x) * exp2 x"
    using exp2_add [of "e - x" x] by (simp add: exp2_def [of "e - x"])
  then have "q / exp2 x = of_int (m * 2 ^ nat (e - x))" by (simp add: q)
  then have r: "of_int (round_even (q / exp2 x)) * exp2 x = q"
    by (metis exp2_nz nonzero_eq_divide_eq round_even_of_int)
  have "exp2 (53 + e) \<le> exp2 1024" using e by (intro exp2_mono) simp
  with aq have "\<not> exp2 1024 \<le> \<bar>q\<bar>" by (simp add: exp2_add)
  then show ?thesis using False r by (simp add: fl_def x_def [symmetric] Let_def)
qed simp

lemma fl_of_int: "\<bar>m\<bar> < 2 ^ 53 \<Longrightarrow> fl (of_int m) = Fin (of_int m)"
  by (rule fl_dyadic [of _ m 0]) (simp_all add: exp2_def)

lemma fl_int_div_pow2: "\<bar>m\<bar> < 2 ^ 53 \<Longrightarrow> n \<le> 1000 \<Longrightarrow> fl (of_int m / 2 ^ n) = Fin (of_int m / 2 ^ n)"
  by (rule fl_dyadic [of _ m "- int n"]) (simp_all add: exp2_def)

lemma fl_numeral [simp]: "numeral k < (2 ^ 53 :: int) \<Longrightarrow> fl (numeral k) = Fin (numeral k)"
  using fl_of_int [of "numeral k"] by simp

lemma fl_one [simp]: "fl 1 = Fin 1"
  using fl_of_int [of 1] by simp

lemma fl_half [simp]: "fl (1 / 2) = Fin (1 / 2)"
  using fl_int_div_pow2 [of 1 1] by simp

lemma fl_quarters [simp]: "fl (1 / 4) = Fin (1 / 4)" "fl (3 / 4) = Fin (3 / 4)"
  using fl_int_div_pow2 [of 1 2] fl_int_div_pow2 [of 3 2] by simp_all

text \<open>Rounding keeps a normal positive number positive and finite.\<close>

lemma fl_pos_finite:
  assumes "exp2 (-1022) \<le> q" "q < exp2 1000"
  shows "\<exists>r. fl q = Fin r \<and> 0 < r \<and> q / 2 \<le> r \<and> r \<le> 2 * q"
proof -
  have q: "0 < q" using assms(1) exp2_pos [of "-1022"] by linarith
  define x where "x = max (ilog2 q - 52) (-1074)"
  define r where "r = of_int (round_even (q / exp2 x)) * exp2 x"
  have "exp2 x \<le> q"
  proof (cases "ilog2 q - 52 \<le> -1074")
    case True
    then show ?thesis using assms(1) exp2_mono [of "-1074" "-1022"] by (simp add: x_def max_def)
  next
    case False
    then have "exp2 x \<le> exp2 (ilog2 q)" by (intro exp2_mono) (simp add: x_def)
    then show ?thesis using ilog2_lower [OF q] by simp
  qed
  moreover have "\<bar>r - q\<bar> \<le> exp2 x / 2"
  proof -
    have "\<bar>of_int (round_even (q / exp2 x)) - q / exp2 x\<bar> * exp2 x \<le> 1 / 2 * exp2 x"
      by (intro mult_right_mono round_even_bounds) simp
    moreover have "\<bar>of_int (round_even (q / exp2 x)) - q / exp2 x\<bar> * exp2 x = \<bar>r - q\<bar>"
    proof -
      have "(of_int (round_even (q / exp2 x)) - q / exp2 x) * exp2 x = r - q"
        by (simp add: r_def left_diff_distrib)
      then show ?thesis by (metis abs_mult abs_of_pos exp2_pos)
    qed
    ultimately show ?thesis by simp
  qed
  ultimately have "\<bar>r - q\<bar> \<le> q / 2" by linarith
  then have r: "q / 2 \<le> r" "r \<le> 2 * q" using q by (simp_all add: abs_if split: if_splits)
  have "exp2 1024 = exp2 24 * exp2 1000" by (simp flip: exp2_add)
  also have "exp2 24 = 16777216" by (simp add: exp2_def)
  finally have "\<not> exp2 1024 \<le> \<bar>r\<bar>" using r q assms(2) by auto
  then have "fl q = Fin r" using q by (simp add: fl_def Let_def x_def [symmetric] r_def [symmetric])
  then show ?thesis using r q by auto
qed

text \<open>Rounding does not cross an integer.\<close>

lemma fl_scale:
  assumes "0 < q" "q < 2 ^ 53" "fl q = Fin r"
  obtains x where "x \<le> 0" "r = of_int (round_even (q / exp2 x)) * exp2 x"
proof -
  define x where "x = max (ilog2 q - 52) (-1074)"
  have "exp2 (ilog2 q) < exp2 53" using ilog2_lower [OF assms(1)] assms(2) by (simp add: exp2_def [of 53])
  then have "x \<le> 0" by (auto simp: x_def dest: exp2_less_imp)
  moreover have "r = of_int (round_even (q / exp2 x)) * exp2 x"
    using assms(1,3) by (auto simp: fl_def Let_def x_def split: if_splits)
  ultimately show thesis by (rule that)
qed

lemma int_div_exp2:
  assumes "x \<le> 0"
  shows "of_int k / exp2 x = of_int (k * 2 ^ nat (- x))" and "(of_int k :: rat) = of_int (k * 2 ^ nat (- x)) * exp2 x"
  using assms by (cases "x = 0"; simp add: exp2_def field_simps)+

lemma fl_le_of_int:
  assumes "0 < q" "q < 2 ^ 53" "fl q = Fin r" "q \<le> of_int k"
  shows "r \<le> of_int k"
proof -
  obtain x where x: "x \<le> 0" "r = of_int (round_even (q / exp2 x)) * exp2 x" using fl_scale [OF assms(1-3)] .
  have "q / exp2 x \<le> of_int k / exp2 x" using assms(4) by (intro divide_right_mono) simp_all
  then have "q / exp2 x \<le> of_int (k * 2 ^ nat (- x))" by (simp only: int_div_exp2(1) [OF x(1)])
  then have "round_even (q / exp2 x) \<le> k * 2 ^ nat (- x)" using round_even_mono round_even_of_int by metis
  then have "(of_int (round_even (q / exp2 x)) :: rat) \<le> of_int (k * 2 ^ nat (- x))" by (simp only: of_int_le_iff)
  then show ?thesis unfolding x(2) by (subst int_div_exp2(2) [OF x(1)]) (rule mult_right_mono, simp_all)
qed

lemma fl_ge_of_int:
  assumes "0 < q" "q < 2 ^ 53" "fl q = Fin r" "of_int k \<le> q"
  shows "of_int k \<le> r"
proof -
  obtain x where x: "x \<le> 0" "r = of_int (round_even (q / exp2 x)) * exp2 x" using fl_scale [OF assms(1-3)] .
  have "of_int k / exp2 x \<le> q / exp2 x" using assms(4) by (intro divide_right_mono) simp_all
  then have "of_int (k * 2 ^ nat (- x)) \<le> q / exp2 x" by (simp only: int_div_exp2(1) [OF x(1)])
  then have "k * 2 ^ nat (- x) \<le> round_even (q / exp2 x)" using round_even_mono round_even_of_int by metis
  then have "(of_int (k * 2 ^ nat (- x)) :: rat) \<le> of_int (round_even (q / exp2 x))" by (simp only: of_int_le_iff)
  then show ?thesis unfolding x(2) by (subst int_div_exp2(2) [OF x(1)]) (rule mult_right_mono, simp_all)
qed

lemma fl_ceiling_le:
  assumes "0 < q" "q < 2 ^ 53" "fl q = Fin r"
  shows "\<lceil>r\<rceil> \<le> \<lceil>q\<rceil>"
  using fl_le_of_int [OF assms le_of_int_ceiling] by (simp add: ceiling_le_iff)

text \<open>Non-negative values, infinity included.\<close>

definition f64_nonneg :: "f64 \<Rightarrow> bool" where
  "f64_nonneg x = (x = PInf \<or> (\<exists>q. x = Fin q \<and> 0 \<le> q))"

lemma f64_nonneg_not_nan: "f64_nonneg x \<Longrightarrow> x \<noteq> NaN"
  by (auto simp: f64_nonneg_def)

lemma f64_nonneg_Fin [simp]: "f64_nonneg (Fin q) \<longleftrightarrow> 0 \<le> q"
  by (simp add: f64_nonneg_def)

lemma fl_nonneg_value: "0 \<le> q \<Longrightarrow> f64_nonneg (fl q)"
  using fl_nonneg [of q] by (cases "fl q") (auto simp: f64_nonneg_def fl_def Let_def split: if_splits)

lemma fadd_nonneg: "f64_nonneg x \<Longrightarrow> f64_nonneg y \<Longrightarrow> f64_nonneg (fadd x y)"
  by (auto simp: f64_nonneg_def [of x] f64_nonneg_def [of y] fl_nonneg_value) (auto simp: f64_nonneg_def)

lemma fmul_nonneg: "f64_nonneg x \<Longrightarrow> f64_nonneg (Fin q) \<Longrightarrow> x \<noteq> PInf \<Longrightarrow> f64_nonneg (fmul x (Fin q))"
  by (auto simp: f64_nonneg_def [of x] fl_nonneg_value)

lemma fl_unit_finite: "0 \<le> q \<Longrightarrow> q \<le> 1 \<Longrightarrow> fl q \<noteq> PInf"
proof
  assume q: "0 \<le> q" "q \<le> 1" and inf: "fl q = PInf"
  show False
  proof (cases "exp2 (-1022) \<le> q")
    case True
    moreover have "q < exp2 1000" using q exp2_mono [of 1 1000] by (simp add: exp2_def [of 1])
    ultimately show False using fl_pos_finite inf by fastforce
  next
    case False
    have "q \<noteq> 0" using inf by auto
    define x where "x = max (ilog2 q - 52) (-1074)"
    have "0 < q" using q \<open>q \<noteq> 0\<close> by simp
    then have "exp2 (ilog2 q) < exp2 (-1022)" using ilog2_lower False by fastforce
    then have x: "x = -1074" by (auto simp: x_def dest!: exp2_less_imp)
    have "q / exp2 x \<le> exp2 (-1022) / exp2 x" using False by (intro divide_right_mono) auto
    also have "exp2 (-1022) = exp2 52 * exp2 x" using exp2_add [of 52 x] by (simp add: x)
    finally have "q / exp2 x \<le> of_int (2 ^ 52)" by (simp add: exp2_def [of 52])
    then have "round_even (q / exp2 x) \<le> 2 ^ 52" using round_even_mono round_even_of_int by metis
    then have "(of_int (round_even (q / exp2 x)) :: rat) \<le> of_int (2 ^ 52)" by (simp only: of_int_le_iff)
    then have "of_int (round_even (q / exp2 x)) * exp2 x \<le> exp2 52 * exp2 x"
      by (intro mult_right_mono) (simp_all add: exp2_def [of 52])
    also have "\<dots> = exp2 (-1022)" using exp2_add [of 52 x] by (simp add: x)
    also have "\<dots> < exp2 1024" by (simp add: exp2_powi power_int_strict_increasing)
    finally have lt: "of_int (round_even (q / exp2 x)) * exp2 x < exp2 1024" .
    have "0 \<le> of_int (round_even (q / exp2 x)) * exp2 x"
      using q by (intro mult_nonneg_nonneg) (simp_all add: round_even_nonneg)
    then show False using inf lt \<open>0 < q\<close> by (simp add: fl_def Let_def x_def [symmetric] split: if_splits)
  qed
qed

end
