(* ===== verification/Go_Text.thy ===== *)
theory Go_Text
  imports Go_Float
begin

text \<open>
  Go strings and the parts of \<open>fmt\<close>, \<open>strconv\<close>, \<open>strings\<close> and \<open>errors\<close> the code
  uses. A Go string is its sequence of bytes, here a HOL \<open>string\<close>; case folding and
  white space are those of ASCII. Errors are values that keep the wrapping structure
  (\<open>%w\<close>), so that \<open>errors.Is\<close> and \<open>errors.As\<close> can be answered, and render to the text
  \<open>Error()\<close> gives.
\<close>

section \<open>Decimal integers\<close>

definition digit_char :: "int \<Rightarrow> char" where
  "digit_char d = char_of (48 + d)"

text \<open>The digits of a natural number, given as a non-negative integer.\<close>

function nat_dec :: "int \<Rightarrow> string" where
  "nat_dec n = (if n < 10 then [digit_char n] else nat_dec (n div 10) @ [digit_char (n mod 10)])"
  by pat_completeness auto
termination
  by (relation "measure nat") auto

declare nat_dec.simps [simp del]

text \<open>\<open>strconv.Itoa\<close>.\<close>

definition itoa :: "int \<Rightarrow> string" where
  "itoa n = (if n < 0 then CHR ''-'' # nat_dec (- n) else nat_dec n)"

definition pad_left :: "nat \<Rightarrow> string \<Rightarrow> string" where
  "pad_left n s = replicate (n - length s) (CHR ''0'') @ s"

lemma nat_dec_nonempty [simp]: "nat_dec n \<noteq> []"
  by (subst nat_dec.simps) simp

lemma itoa_nonempty [simp]: "itoa n \<noteq> []"
  by (simp add: itoa_def)

section \<open>Floating-point formatting\<close>

text \<open>\<open>%.nf\<close>: the exact value rounded to \<open>n\<close> decimals, ties to even.\<close>

definition fixed_digits :: "nat \<Rightarrow> int \<Rightarrow> string" where
  "fixed_digits n m = nat_dec (m div 10 ^ n) @
     (if n = 0 then [] else CHR ''.'' # pad_left n (nat_dec (m mod 10 ^ n)))"

definition fmt_fixed :: "nat \<Rightarrow> rat \<Rightarrow> string" where
  "fmt_fixed n q = (if q < 0 then ''-'' else []) @
     fixed_digits n (round_even (\<bar>q\<bar> * 10 ^ n))"

definition exp10 :: "int \<Rightarrow> rat" where
  "exp10 e = (if 0 \<le> e then 10 ^ nat e else 1 / 10 ^ nat (- e))"

definition ilog10 :: "rat \<Rightarrow> int" where
  "ilog10 q = (case quotient_of q of (a, b) \<Rightarrow>
     (let k = int (length (nat_dec a)) - int (length (nat_dec b))
      in if exp10 k \<le> q then k else k - 1))"

text \<open>A positive rational at \<open>p\<close> significant digits: the digits as a number and the
  decimal exponent of the first one.\<close>

definition sig_digits :: "nat \<Rightarrow> rat \<Rightarrow> int \<times> int" where
  "sig_digits p q = (let x = ilog10 q; m = round_even (q / exp10 (x - int p + 1))
     in if m = 10 ^ p then (10 ^ (p - 1), x + 1) else (m, x))"

fun strip_zeros :: "string \<Rightarrow> string" where
  "strip_zeros s = rev (dropWhile (\<lambda>c. c = CHR ''0'') (rev s))"

text \<open>The least number of digits that reads back as the same float, at most 17.\<close>

fun shortest_prec :: "nat \<Rightarrow> nat \<Rightarrow> rat \<Rightarrow> nat" where
  "shortest_prec 0 p q = p"
| "shortest_prec (Suc fuel) p q = (case sig_digits p q of (m, x) \<Rightarrow>
     if fl (of_int m * exp10 (x - int p + 1)) = Fin q then p else shortest_prec fuel (Suc p) q)"

definition fmt_exp :: "string \<Rightarrow> int \<Rightarrow> string" where
  "fmt_exp ds x = take 1 ds @ (if 1 < length ds then CHR ''.'' # drop 1 ds else []) @
     CHR ''e'' # (if x < 0 then CHR ''-'' else CHR ''+'') # pad_left 2 (nat_dec \<bar>x\<bar>)"

text \<open>Plain notation of the digits \<open>ds\<close> whose first one has exponent \<open>x\<close>.\<close>

definition fmt_plain :: "string \<Rightarrow> int \<Rightarrow> string" where
  "fmt_plain ds x =
     (if x < 0 then ''0.'' @ replicate (nat (- x) - 1) (CHR ''0'') @ ds
      else let k = nat x + 1 in
        take k ds @ replicate (k - length ds) (CHR ''0'') @
        (if k < length ds then CHR ''.'' # drop k ds else []))"

definition fmt_g :: "nat option \<Rightarrow> rat \<Rightarrow> string" where
  "fmt_g prec q = (if q = 0 then ''0'' else (if q < 0 then ''-'' else []) @
     (let p = (case prec of None \<Rightarrow> shortest_prec 16 1 \<bar>q\<bar> | Some n \<Rightarrow> max n 1)
      in case sig_digits p \<bar>q\<bar> of (m, x) \<Rightarrow>
        (let ds = strip_zeros (nat_dec m);
             nd = int (length ds);
             eprec = (case prec of None \<Rightarrow> 6
               | Some n \<Rightarrow> (if nd < int p \<and> x + 1 \<le> nd then nd else int p))
         in if x < -4 \<or> eprec \<le> x then fmt_exp ds x else fmt_plain ds x)))"

fun fmt_f64 :: "(rat \<Rightarrow> string) \<Rightarrow> f64 \<Rightarrow> string" where
  "fmt_f64 f NaN = ''NaN''"
| "fmt_f64 f PInf = ''+Inf''"
| "fmt_f64 f NInf = ''-Inf''"
| "fmt_f64 f (Fin q) = f q"

section \<open>\<open>fmt.Sprintf\<close>\<close>

datatype farg = FStr string | FInt int | FF64 f64 | FStrs "string list"

fun join :: "string \<Rightarrow> string list \<Rightarrow> string" where
  "join sep [] = []"
| "join sep [x] = x"
| "join sep (x # y # ys) = x @ sep @ join sep (y # ys)"

text \<open>\<open>%q\<close> on printable ASCII.\<close>

fun quote_char :: "char \<Rightarrow> string" where
  "quote_char c = (if c = CHR 0x22 \<or> c = CHR 0x5C then [CHR 0x5C, c]
     else if c = CHR 0x0A then [CHR 0x5C, CHR ''n'']
     else if c = CHR 0x09 then [CHR 0x5C, CHR ''t'']
     else if c = CHR 0x0D then [CHR 0x5C, CHR ''r''] else [c])"

definition quoted :: "string \<Rightarrow> string" where
  "quoted s = CHR 0x22 # concat (map quote_char s) @ [CHR 0x22]"

fun show_v :: "farg \<Rightarrow> string" where
  "show_v (FStr s) = s"
| "show_v (FInt n) = itoa n"
| "show_v (FF64 x) = fmt_f64 (fmt_g None) x"
| "show_v (FStrs ss) = CHR ''['' # join '' '' ss @ '']''"

definition fmt_verb :: "nat option \<Rightarrow> char \<Rightarrow> farg \<Rightarrow> string" where
  "fmt_verb prec v a = (case a of
     FStr s \<Rightarrow> (if v = CHR ''q'' then quoted s else s)
   | FF64 x \<Rightarrow> (if v = CHR ''f'' then fmt_f64 (fmt_fixed (case prec of None \<Rightarrow> 6 | Some n \<Rightarrow> n)) x
               else fmt_f64 (fmt_g prec) x)
   | _ \<Rightarrow> show_v a)"

definition digit_val :: "char \<Rightarrow> nat option" where
  "digit_val c = (let n = of_char c :: nat in if 48 \<le> n \<and> n \<le> 57 then Some (n - 48) else None)"

text \<open>Scans the format: literal text, \<open>%%\<close>, or a verb with an optional precision digit.\<close>

fun sprintf :: "string \<Rightarrow> farg list \<Rightarrow> string" where
  "sprintf [] args = []"
| "sprintf [c] args = [c]"
| "sprintf (c # v # cs) args =
     (if c \<noteq> CHR ''%'' then c # sprintf (v # cs) args
      else if v = CHR ''%'' then v # sprintf cs args
      else case args of
        [] \<Rightarrow> ''%!'' @ v # ''(MISSING)'' @ sprintf cs []
      | a # as \<Rightarrow>
        (if v = CHR ''.'' then
           (case cs of d # w # rest \<Rightarrow> fmt_verb (digit_val d) w a @ sprintf rest as | _ \<Rightarrow> [])
         else fmt_verb None v a @ sprintf cs as))"

text \<open>A format that starts with literal text never renders to the empty string.\<close>

lemma sprintf_nonempty: "c \<noteq> CHR ''%'' \<Longrightarrow> sprintf (c # cs) args \<noteq> []"
  by (cases cs) auto

section \<open>Errors\<close>

text \<open>
  \<open>Sentinel\<close> is a package-level \<open>errors.New\<close> value (compared by identity), \<open>Typed\<close> a value
  of an error type (its type name and its message), \<open>Errorf\<close> a \<open>fmt.Errorf\<close>: \<open>EWrap\<close>
  arguments are those of a \<open>%w\<close> verb, \<open>EErr\<close> those printed with \<open>%v\<close> or \<open>%s\<close>.
\<close>

datatype goerr = Sentinel string | Typed string string | Errorf string "earg list"
  and earg = EArg farg | EErr goerr | EWrap goerr

abbreviation EStr :: "string \<Rightarrow> earg" where "EStr s \<equiv> EArg (FStr s)"
abbreviation EInt :: "int \<Rightarrow> earg" where "EInt n \<equiv> EArg (FInt n)"
abbreviation EF64 :: "f64 \<Rightarrow> earg" where "EF64 x \<equiv> EArg (FF64 x)"
abbreviation EStrs :: "string list \<Rightarrow> earg" where "EStrs ss \<equiv> EArg (FStrs ss)"

fun err_string :: "goerr \<Rightarrow> string" and earg_farg :: "earg \<Rightarrow> farg" where
  "err_string (Sentinel s) = s"
| "err_string (Typed n s) = s"
| "err_string (Errorf f as) = sprintf f (map earg_farg as)"
| "earg_farg (EArg a) = a"
| "earg_farg (EErr e) = FStr (err_string e)"
| "earg_farg (EWrap e) = FStr (err_string e)"

text \<open>\<open>errors.Is\<close> with a sentinel target and \<open>errors.As\<close> with a target type.\<close>

fun errors_is :: "string \<Rightarrow> goerr \<Rightarrow> bool" and errors_is_arg :: "string \<Rightarrow> earg \<Rightarrow> bool" where
  "errors_is t (Sentinel s) = (s = t)"
| "errors_is t (Typed n s) = False"
| "errors_is t (Errorf f as) = list_ex (errors_is_arg t) as"
| "errors_is_arg t (EArg a) = False"
| "errors_is_arg t (EErr e) = False"
| "errors_is_arg t (EWrap e) = errors_is t e"

fun errors_as :: "string \<Rightarrow> goerr \<Rightarrow> bool" and errors_as_arg :: "string \<Rightarrow> earg \<Rightarrow> bool" where
  "errors_as t (Sentinel s) = False"
| "errors_as t (Typed n s) = (n = t)"
| "errors_as t (Errorf f as) = list_ex (errors_as_arg t) as"
| "errors_as_arg t (EArg a) = False"
| "errors_as_arg t (EErr e) = False"
| "errors_as_arg t (EWrap e) = errors_as t e"

text \<open>\<open>fmt.Errorf\<close> wrapping one error under a fixed prefix.\<close>

definition wrap_err :: "string \<Rightarrow> goerr \<Rightarrow> goerr" where
  "wrap_err prefix e = Errorf (prefix @ ''%w'') [EWrap e]"

definition wrap_opt :: "string \<Rightarrow> goerr option \<Rightarrow> goerr option" where
  "wrap_opt prefix r = map_option (wrap_err prefix) r"

lemma wrap_opt_None_iff [simp]: "wrap_opt p r = None \<longleftrightarrow> r = None"
  by (simp add: wrap_opt_def)

lemma errors_is_wrap [simp]: "errors_is t (wrap_err p e) = errors_is t e"
  by (simp add: wrap_err_def)

section \<open>Strings\<close>

definition is_space :: "char \<Rightarrow> bool" where
  "is_space c = (c = CHR '' '' \<or> c = CHR 0x09 \<or> c = CHR 0x0A \<or> c = CHR 0x0B \<or> c = CHR 0x0C \<or> c = CHR 0x0D)"

text \<open>\<open>strings.TrimSpace\<close>.\<close>

definition trim_space :: "string \<Rightarrow> string" where
  "trim_space s = rev (dropWhile is_space (rev (dropWhile is_space s)))"

definition lower_char :: "char \<Rightarrow> char" where
  "lower_char c = (let n = of_char c :: nat in if 65 \<le> n \<and> n \<le> 90 then char_of (n + 32) else c)"

text \<open>\<open>strings.ToLower\<close> and \<open>strings.EqualFold\<close>.\<close>

definition to_lower :: "string \<Rightarrow> string" where
  "to_lower s = map lower_char s"

definition equal_fold :: "string \<Rightarrow> string \<Rightarrow> bool" where
  "equal_fold a b = (to_lower a = to_lower b)"

lemma equal_fold_refl [simp]: "equal_fold a a"
  by (simp add: equal_fold_def)

lemma equal_fold_sym: "equal_fold a b = equal_fold b a"
  by (auto simp: equal_fold_def)

section \<open>UTF-8\<close>

definition byte_in :: "nat \<Rightarrow> nat \<Rightarrow> char \<Rightarrow> bool" where
  "byte_in lo hi c = (let n = of_char c :: nat in lo \<le> n \<and> n \<le> hi)"

text \<open>The replacement character that stands for an invalid byte.\<close>

definition rune_error :: string where
  "rune_error = [CHR 0xEF, CHR 0xBF, CHR 0xBD]"

text \<open>The bounds of the second byte of a sequence of three and of four bytes.\<close>

definition second3 :: "char \<Rightarrow> char \<Rightarrow> bool" where
  "second3 a b = (if a = CHR 0xE0 then byte_in 0xA0 0xBF b
     else if a = CHR 0xED then byte_in 0x80 0x9F b else byte_in 0x80 0xBF b)"

definition second4 :: "char \<Rightarrow> char \<Rightarrow> bool" where
  "second4 a b = (if a = CHR 0xF0 then byte_in 0x90 0xBF b
     else if a = CHR 0xF4 then byte_in 0x80 0x8F b else byte_in 0x80 0xBF b)"

text \<open>\<open>rune_at s\<close>: the encoding of the first rune of \<open>s\<close> and the bytes after it. An
  invalid byte is the replacement character and one byte wide.\<close>

fun rune_at :: "string \<Rightarrow> string \<times> string" where
  "rune_at [] = ([], [])"
| "rune_at (a # s) =
    (if byte_in 0 0x7F a then ([a], s)
     else if byte_in 0xC2 0xDF a then
       (case s of b # s' \<Rightarrow> (if byte_in 0x80 0xBF b then ([a, b], s') else (rune_error, s))
        | _ \<Rightarrow> (rune_error, s))
     else if byte_in 0xE0 0xEF a then
       (case s of b # c # s' \<Rightarrow> (if second3 a b \<and> byte_in 0x80 0xBF c then ([a, b, c], s') else (rune_error, s))
        | _ \<Rightarrow> (rune_error, s))
     else if byte_in 0xF0 0xF4 a then
       (case s of b # c # d # s' \<Rightarrow>
          (if second4 a b \<and> byte_in 0x80 0xBF c \<and> byte_in 0x80 0xBF d then ([a, b, c, d], s')
           else (rune_error, s))
        | _ \<Rightarrow> (rune_error, s))
     else (rune_error, s))"

lemma rune_at_shorter: "length (snd (rune_at (a # s))) < length (a # s)"
  by (auto split: list.splits)

function runes :: "string \<Rightarrow> string list" where
  "runes s = (if s = [] then [] else fst (rune_at s) # runes (snd (rune_at s)))"
  by pat_completeness auto
termination
  by (relation "measure length") (auto simp: neq_Nil_conv intro!: rune_at_shorter)

declare runes.simps [simp del]

text \<open>\<open>unicode.IsControl\<close>: the C0 controls, DEL and the C1 controls.\<close>

definition is_control :: "string \<Rightarrow> bool" where
  "is_control r = (case r of
     [a] \<Rightarrow> byte_in 0 0x1F a \<or> a = CHR 0x7F
   | [a, b] \<Rightarrow> a = CHR 0xC2 \<and> byte_in 0x80 0x9F b
   | _ \<Rightarrow> False)"

section \<open>Text without line breaks\<close>

abbreviation newline :: char where "newline \<equiv> CHR 0x0A"

definition one_line :: "string \<Rightarrow> bool" where
  "one_line s = (newline \<notin> set s)"

lemma one_line_append [simp]: "one_line (a @ b) \<longleftrightarrow> one_line a \<and> one_line b"
  by (auto simp: one_line_def)

lemma one_line_Nil [simp]: "one_line []"
  by (simp add: one_line_def)

lemma one_line_Cons: "one_line (c # s) \<longleftrightarrow> c \<noteq> newline \<and> one_line s"
  by (auto simp: one_line_def)

lemma one_line_take [simp]: "one_line s \<Longrightarrow> one_line (take n s)"
  by (auto simp: one_line_def dest: in_set_takeD)

lemma one_line_drop [simp]: "one_line s \<Longrightarrow> one_line (drop n s)"
  by (auto simp: one_line_def dest: in_set_dropD)

lemma digit_cases: "0 \<le> d \<Longrightarrow> d < 10 \<Longrightarrow> d \<in> {0, 1, 2, 3, 4, 5, 6, 7, 8, (9::int)}"
  by (simp only: insert_iff empty_iff) presburger

lemma digit_char_simps [simp]:
  "digit_char 0 = CHR ''0''" "digit_char 1 = CHR ''1''" "digit_char 2 = CHR ''2''"
  "digit_char 3 = CHR ''3''" "digit_char 4 = CHR ''4''" "digit_char 5 = CHR ''5''"
  "digit_char 6 = CHR ''6''" "digit_char 7 = CHR ''7''" "digit_char 8 = CHR ''8''"
  "digit_char 9 = CHR ''9''"
  by (simp_all add: digit_char_def char_of_def bit_iff_odd)

lemma digit_char_one_line: "0 \<le> d \<Longrightarrow> d < 10 \<Longrightarrow> digit_char d \<noteq> newline"
  by (drule (1) digit_cases) auto

lemma one_line_nat_dec [simp]: "0 \<le> n \<Longrightarrow> one_line (nat_dec n)"
proof (induction n rule: nat_dec.induct)
  case (1 n)
  then show ?case
    by (subst nat_dec.simps)
       (auto simp: one_line_Cons pos_imp_zdiv_nonneg_iff dest: digit_char_one_line [THEN notE, rotated 2])
qed

lemma one_line_itoa [simp]: "one_line (itoa n)"
  by (simp add: itoa_def one_line_Cons)

lemma one_line_pad_left [simp]: "one_line s \<Longrightarrow> one_line (pad_left n s)"
  by (auto simp: pad_left_def one_line_def)

lemma one_line_replicate0 [simp]: "one_line (replicate n (CHR ''0''))"
  by (auto simp: one_line_def)

lemma one_line_fixed_digits [simp]: "0 \<le> m \<Longrightarrow> one_line (fixed_digits n m)"
  by (auto simp: fixed_digits_def one_line_Cons pos_imp_zdiv_nonneg_iff)

lemma one_line_fmt_fixed [simp]: "one_line (fmt_fixed n q)"
  by (auto simp: fmt_fixed_def one_line_Cons round_even_nonneg)

lemma sig_digits_nonneg: "0 \<le> q \<Longrightarrow> sig_digits p q = (m, x) \<Longrightarrow> 0 \<le> m"
  by (auto simp: sig_digits_def Let_def exp10_def round_even_nonneg split: if_splits)

lemma one_line_strip_zeros [simp]: "one_line s \<Longrightarrow> one_line (strip_zeros s)"
  by (auto simp: one_line_def dest!: set_dropWhileD)

declare strip_zeros.simps [simp del]

lemma one_line_fmt_g [simp]: "one_line (fmt_g prec q)"
proof -
  have digits: "one_line (strip_zeros (nat_dec m))" if "sig_digits p \<bar>q\<bar> = (m, x)" for p m x
    using sig_digits_nonneg [OF _ that] by simp
  show ?thesis
    by (auto simp: fmt_g_def fmt_exp_def fmt_plain_def Let_def one_line_Cons digits
        split: prod.split option.split)
qed

lemma one_line_quoted [simp]: "one_line (quoted s)"
proof -
  have "one_line (quote_char c)" for c by (auto simp: one_line_Cons)
  then show ?thesis by (induction s) (auto simp: quoted_def one_line_Cons one_line_def)
qed

fun arg_one_line :: "farg \<Rightarrow> bool" where
  "arg_one_line (FStr s) = one_line s"
| "arg_one_line (FInt n) = True"
| "arg_one_line (FF64 x) = True"
| "arg_one_line (FStrs ss) = list_all one_line ss"

lemma one_line_join [simp]: "one_line sep \<Longrightarrow> list_all one_line ss \<Longrightarrow> one_line (join sep ss)"
  by (induction sep ss rule: join.induct) auto

lemma one_line_fmt_f64 [simp]: "(\<And>q. one_line (f q)) \<Longrightarrow> one_line (fmt_f64 f x)"
  by (cases x) (auto simp: one_line_Cons)

lemma one_line_fmt_verb [simp]: "arg_one_line a \<Longrightarrow> one_line (fmt_verb prec v a)"
  by (cases a) (auto simp: fmt_verb_def one_line_Cons)

text \<open>A format without a line break and arguments without one render to one line.\<close>

lemma one_line_sprintf:
  "one_line fmt \<Longrightarrow> list_all arg_one_line args \<Longrightarrow> one_line (sprintf fmt args)"
proof (induction fmt args rule: sprintf.induct)
  case (3 c v cs args)
  show ?case
  proof (cases "c = CHR ''%'' \<and> v \<noteq> CHR ''%''")
    case False
    with 3 show ?thesis by (auto simp: one_line_Cons)
  next
    case pct: True
    show ?thesis
    proof (cases args)
      case Nil
      with 3 pct show ?thesis by (simp add: one_line_Cons)
    next
      case (Cons a as)
      with 3 pct show ?thesis
        by (cases "v = CHR ''.''") (auto simp add: one_line_Cons split: list.split)
    qed
  qed
qed simp_all

declare sprintf.simps [simp del]

end
