(* ===== verification/Go_Rat.thy ===== *)
theory Go_Rat
  imports Go_Text
begin

text \<open>
  The text conversions of \<open>math/big.Rat\<close>: \<open>RatString\<close>, \<open>FloatString\<close> and \<open>SetString\<close>
  (with base prefixes, digit separators, fractions and exponents), and the round trips the
  money paths rely on.
\<close>

section \<open>Printing\<close>

text \<open>\<open>RatString\<close>: \<open>a/b\<close> in lowest terms, or \<open>a\<close> alone for an integer.\<close>

definition rat_string :: "rat \<Rightarrow> string" where
  "rat_string q = (case quotient_of q of (a, b) \<Rightarrow>
     if b = 1 then itoa a else itoa a @ CHR ''/'' # nat_dec b)"

text \<open>\<open>FloatString\<close>: \<open>n\<close> decimals, halves rounded away from zero.\<close>

definition float_string :: "nat \<Rightarrow> rat \<Rightarrow> string" where
  "float_string n q = (if q < 0 then ''-'' else []) @ fixed_digits n \<lfloor>\<bar>q\<bar> * 10 ^ n + 1 / 2\<rfloor>"

section \<open>Scanning\<close>

definition digit_value :: "char \<Rightarrow> int" where
  "digit_value c = (let n = of_char c :: int in
     if 48 \<le> n \<and> n \<le> 57 then n - 48
     else if 97 \<le> n \<and> n \<le> 122 then n - 87
     else if 65 \<le> n \<and> n \<le> 90 then n - 55 else 63)"

text \<open>
  The digit loop of \<open>nat.scan\<close> (base argument 0): \<open>prev\<close> is the class of the previous
  character, \<open>inval\<close> a misplaced separator, \<open>dp\<close> the position of the radix point.
\<close>

record scanned =
  sc_val :: int
  sc_count :: nat
  sc_dp :: "nat option"
  sc_prev :: char
  sc_inval :: bool
  sc_rest :: string

fun scan_digits :: "int \<Rightarrow> bool \<Rightarrow> char \<Rightarrow> bool \<Rightarrow> int \<Rightarrow> nat \<Rightarrow> nat option \<Rightarrow> string \<Rightarrow> scanned" where
  "scan_digits b fok prev inval acc n dp [] =
     \<lparr>sc_val = acc, sc_count = n, sc_dp = dp, sc_prev = prev, sc_inval = inval, sc_rest = []\<rparr>"
| "scan_digits b fok prev inval acc n dp (c # cs) =
     (if c = CHR ''.'' \<and> fok then
        scan_digits b False (CHR ''.'') (inval \<or> prev = CHR ''_'') acc n (Some n) cs
      else if c = CHR ''_'' then
        scan_digits b fok (CHR ''_'') (inval \<or> prev \<noteq> CHR ''0'') acc n dp cs
      else if digit_value c < b then
        scan_digits b fok (CHR ''0'') inval (acc * b + digit_value c) (Suc n) dp cs
      else \<lparr>sc_val = acc, sc_count = n, sc_dp = dp, sc_prev = prev, sc_inval = inval, sc_rest = c # cs\<rparr>)"

text \<open>The end of \<open>nat.scan\<close>: digit count, separator check, count of fractional digits.\<close>

definition scan_finish :: "int \<Rightarrow> bool \<Rightarrow> scanned \<Rightarrow> (int \<times> int \<times> nat \<times> string) option" where
  "scan_finish b octal s =
     (if sc_count s = 0 then (if octal then Some (0, 10, 0, sc_rest s) else None)
      else if sc_inval s \<or> sc_prev s = CHR ''_'' then None
      else Some (sc_val s, b, (case sc_dp s of None \<Rightarrow> 0 | Some d \<Rightarrow> sc_count s - d), sc_rest s))"

definition scan_base :: "int \<Rightarrow> bool \<Rightarrow> bool \<Rightarrow> char \<Rightarrow> nat \<Rightarrow> string \<Rightarrow> (int \<times> int \<times> nat \<times> string) option" where
  "scan_base b fok octal prev n s = scan_finish b octal (scan_digits b fok prev False 0 n None s)"

fun scan_nat :: "bool \<Rightarrow> string \<Rightarrow> (int \<times> int \<times> nat \<times> string) option" where
  "scan_nat fok [] = None"
| "scan_nat fok [c] = scan_base 10 fok False (CHR ''.'') 0 [c]"
| "scan_nat fok (c # p # cs) =
     (if c \<noteq> CHR ''0'' then scan_base 10 fok False (CHR ''.'') 0 (c # p # cs)
      else if p = CHR ''b'' \<or> p = CHR ''B'' then scan_base 2 fok False (CHR ''0'') 0 cs
      else if p = CHR ''o'' \<or> p = CHR ''O'' then scan_base 8 fok False (CHR ''0'') 0 cs
      else if p = CHR ''x'' \<or> p = CHR ''X'' then scan_base 16 fok False (CHR ''0'') 0 cs
      else if fok then scan_base 10 fok False (CHR ''0'') 1 (p # cs)
      else scan_base 8 fok True (CHR ''0'') 0 (p # cs))"

fun scan_sign :: "string \<Rightarrow> (bool \<times> string) option" where
  "scan_sign [] = None"
| "scan_sign (c # cs) = Some (if c = CHR ''-'' then (True, cs)
     else if c = CHR ''+'' then (False, cs) else (False, c # cs))"

text \<open>Exponent digits: value, digit count, previous class, misplaced separator, rest.\<close>

fun scan_exp_digits :: "char \<Rightarrow> bool \<Rightarrow> int \<Rightarrow> nat \<Rightarrow> string \<Rightarrow> int \<times> nat \<times> char \<times> bool \<times> string" where
  "scan_exp_digits prev inval acc n [] = (acc, n, prev, inval, [])"
| "scan_exp_digits prev inval acc n (c # cs) =
     (if digit_value c < 10 then scan_exp_digits (CHR ''0'') inval (acc * 10 + digit_value c) (Suc n) cs
      else if c = CHR ''_'' then scan_exp_digits (CHR ''_'') (inval \<or> prev \<noteq> CHR ''0'') acc n cs
      else (acc, n, prev, inval, c # cs))"

text \<open>\<open>scanExponent\<close> with binary exponents allowed: the exponent, its base and the rest.\<close>

fun scan_exponent :: "string \<Rightarrow> (int \<times> int \<times> string) option" where
  "scan_exponent [] = Some (0, 10, [])"
| "scan_exponent (c # cs) =
     (if c = CHR ''e'' \<or> c = CHR ''E'' \<or> c = CHR ''p'' \<or> c = CHR ''P'' then
        (let eb = (if c = CHR ''e'' \<or> c = CHR ''E'' then 10 else 2);
             sg = (case cs of [] \<Rightarrow> (False, []) | d # ds \<Rightarrow> the (scan_sign (d # ds)))
         in case scan_exp_digits (CHR ''.'') False 0 0 (snd sg) of (x, n, prev, inval, rest) \<Rightarrow>
              (let y = (if fst sg then - x else x) in
               if n = 0 \<or> y < - (2 ^ 63) \<or> 2 ^ 63 \<le> y \<or> inval \<or> prev = CHR ''_'' then None
               else Some (y, eb, rest)))
      else Some (0, 10, c # cs))"

definition scale :: "int \<Rightarrow> int \<Rightarrow> int \<Rightarrow> rat" where
  "scale m e5 e2 = of_int m * (if 0 \<le> e5 then 5 ^ nat e5 else 1 / 5 ^ nat (- e5)) * exp2 e2"

definition fraction_exps :: "int \<Rightarrow> nat \<Rightarrow> int \<times> int" where
  "fraction_exps b fc = (if b = 10 then (- int fc, - int fc)
     else if b = 2 then (0, - int fc) else if b = 8 then (0, - 3 * int fc) else (0, - 4 * int fc))"

definition parse_float :: "string \<Rightarrow> rat option" where
  "parse_float s = Option.bind (scan_sign s) (\<lambda>(neg, s1).
     Option.bind (scan_nat True s1) (\<lambda>(m, b, fc, s2).
     Option.bind (scan_exponent s2) (\<lambda>(x, eb, s3).
       if s3 \<noteq> [] then None
       else if m = 0 then Some 0
       else (case fraction_exps b fc of (f5, f2) \<Rightarrow>
         (let e5 = (if eb = 10 then f5 + x else f5); e2 = f2 + x in
          if 10 ^ 6 < \<bar>e5\<bar> \<or> 10 ^ 7 < \<bar>e2\<bar> then None
          else Some (if neg then - scale m e5 e2 else scale m e5 e2))))))"

text \<open>The two integers of a fraction; the numerator may be signed.\<close>

definition parse_nat_all :: "string \<Rightarrow> int option" where
  "parse_nat_all s = Option.bind (scan_nat False s) (\<lambda>(m, b, fc, rest). if rest = [] then Some m else None)"

definition parse_int_all :: "string \<Rightarrow> int option" where
  "parse_int_all s = Option.bind (scan_sign s) (\<lambda>(neg, s1).
     map_option (\<lambda>m. if neg then - m else m) (parse_nat_all s1))"

text \<open>\<open>Rat.SetString\<close>; \<open>None\<close> is \<open>ok = false\<close>.\<close>

definition rat_set_string :: "string \<Rightarrow> rat option" where
  "rat_set_string s =
     (if s = [] then None
      else if CHR ''/'' \<in> set s then
        (let num = takeWhile (\<lambda>c. c \<noteq> CHR ''/'') s; den = tl (dropWhile (\<lambda>c. c \<noteq> CHR ''/'') s)
         in Option.bind (parse_int_all num) (\<lambda>a.
            Option.bind (parse_nat_all den) (\<lambda>b. if b = 0 then None else Some (of_int a / of_int b))))
      else parse_float s)"

section \<open>Round trips\<close>

lemma digit_value_digit_char [simp]: "0 \<le> d \<Longrightarrow> d < 10 \<Longrightarrow> digit_value (digit_char d) = d"
  by (drule (1) digit_cases) (auto simp: digit_value_def)

lemma digit_char_not_punct:
  assumes "0 \<le> d" "d < 10"
  shows "digit_char d \<notin> {CHR ''.'', CHR ''_'', CHR ''/'', CHR ''-'', CHR ''+''}"
  using digit_cases [OF assms] by auto

lemma digit_char_zero_iff: "0 \<le> d \<Longrightarrow> d < 10 \<Longrightarrow> digit_char d = CHR ''0'' \<longleftrightarrow> d = 0"
  by (drule (1) digit_cases) auto

lemma nat_dec_lt: "n < 10 \<Longrightarrow> nat_dec n = [digit_char n]"
  by (simp add: nat_dec.simps)

lemma nat_dec_ge: "\<not> n < 10 \<Longrightarrow> nat_dec n = nat_dec (n div 10) @ [digit_char (n mod 10)]"
  by (subst nat_dec.simps) simp

lemma set_nat_dec: "0 \<le> n \<Longrightarrow> c \<in> set (nat_dec n) \<Longrightarrow> \<exists>d. 0 \<le> d \<and> d < 10 \<and> c = digit_char d"
proof (induction n rule: nat_dec.induct)
  case (1 n)
  show ?case
  proof (cases "n < 10")
    case True
    with "1.prems" show ?thesis by (auto simp: nat_dec_lt)
  next
    case False
    then have "c \<in> set (nat_dec (n div 10)) \<or> c = digit_char (n mod 10)"
      using "1.prems" by (auto simp: nat_dec_ge)
    then show ?thesis
    proof
      assume "c \<in> set (nat_dec (n div 10))"
      moreover have "0 \<le> n div 10" using "1.prems" by (simp add: pos_imp_zdiv_nonneg_iff)
      ultimately show ?thesis using "1.IH" False by blast
    next
      assume "c = digit_char (n mod 10)"
      then show ?thesis by (intro exI [of _ "n mod 10"]) simp
    qed
  qed
qed

lemma nat_dec_no_punct:
  "0 \<le> n \<Longrightarrow> c \<in> {CHR ''.'', CHR ''_'', CHR ''/'', CHR ''-'', CHR ''+''} \<Longrightarrow> c \<notin> set (nat_dec n)"
  by (metis set_nat_dec digit_char_not_punct)

lemma hd_nat_dec: "0 < n \<Longrightarrow> hd (nat_dec n) \<noteq> CHR ''0''"
proof (induction n rule: nat_dec.induct)
  case (1 n)
  show ?case
  proof (cases "n < 10")
    case True
    with 1 show ?thesis by (simp add: nat_dec_lt digit_char_zero_iff)
  next
    case False
    then have "0 < n div 10" by (simp add: pos_imp_zdiv_pos_iff)
    moreover have "nat_dec (n div 10) \<noteq> []" by simp
    ultimately show ?thesis using "1.IH" False by (simp add: nat_dec_ge)
  qed
qed

lemma nat_dec_0 [simp]: "nat_dec 0 = ''0''"
  by (simp add: nat_dec.simps)

lemma scan_digits_nat_dec:
  "0 \<le> n \<Longrightarrow> scan_digits 10 fok pv iv acc k dp (nat_dec n @ rest) =
     scan_digits 10 fok (CHR ''0'') iv (acc * 10 ^ length (nat_dec n) + n) (k + length (nat_dec n)) dp rest"
proof (induction n arbitrary: pv acc k rest rule: nat_dec.induct)
  case (1 n)
  show ?case
  proof (cases "n < 10")
    case True
    with 1 digit_char_not_punct [of n] show ?thesis by (simp add: nat_dec_lt)
  next
    case False
    have d: "0 \<le> n mod 10" "n mod 10 < 10" "0 \<le> n div 10" using 1 by (auto simp: pos_imp_zdiv_nonneg_iff)
    have "scan_digits 10 fok pv iv acc k dp (nat_dec n @ rest)
        = scan_digits 10 fok pv iv acc k dp (nat_dec (n div 10) @ digit_char (n mod 10) # rest)"
      using False by (simp add: nat_dec_ge)
    also have "\<dots> = scan_digits 10 fok (CHR ''0'') iv (acc * 10 ^ length (nat_dec (n div 10)) + n div 10)
        (k + length (nat_dec (n div 10))) dp (digit_char (n mod 10) # rest)"
      using "1.IH" False d by simp
    finally show ?thesis
      using False d digit_char_not_punct [of "n mod 10"]
      by (simp add: nat_dec_ge algebra_simps)
  qed
qed

lemma scan_digits_zeros:
  "scan_digits 10 fok (CHR ''0'') iv acc k dp (replicate z (CHR ''0'') @ rest) =
   scan_digits 10 fok (CHR ''0'') iv (acc * 10 ^ z) (k + z) dp rest"
proof (induction z arbitrary: acc k)
  case 0
  then show ?case by simp
next
  case (Suc z)
  have "digit_value (CHR ''0'') = 0" by (simp add: digit_value_def)
  with Suc show ?case by (simp add: algebra_simps)
qed

text \<open>A decimal literal scans to its value, whether or not a fraction is allowed.\<close>

lemma scan_nat_dec:
  assumes n: "0 \<le> n" and ok: "fok \<or> 0 < n"
    and rest: "rest = [] \<or> hd rest \<notin> {CHR ''b'', CHR ''B'', CHR ''o'', CHR ''O'', CHR ''x'', CHR ''X''}"
  shows "scan_nat fok (nat_dec n @ rest) = scan_finish 10 False
    (scan_digits 10 fok (CHR ''0'') False n (length (nat_dec n)) None rest)"
proof -
  have all: "scan_digits 10 fok (CHR ''.'') False 0 0 None (nat_dec n @ rest) =
      scan_digits 10 fok (CHR ''0'') False n (length (nat_dec n)) None rest"
    using n by (simp add: scan_digits_nat_dec)
  show ?thesis
  proof (cases "n = 0")
    case True
    have "digit_value (CHR ''0'') = 0" by (simp add: digit_value_def)
    with True rest ok show ?thesis
      by (cases rest) (auto simp: scan_base_def)
  next
    case False
    then have hd0: "hd (nat_dec n) \<noteq> CHR ''0''" using n by (simp add: hd_nat_dec)
    obtain c cs where cs: "nat_dec n = c # cs" using nat_dec_nonempty [of n] by (meson neq_Nil_conv)
    with hd0 have "c \<noteq> CHR ''0''" by simp
    then have "scan_nat fok (nat_dec n @ rest) = scan_base 10 fok False (CHR ''.'') 0 (nat_dec n @ rest)"
      by (cases "cs @ rest") (auto simp: cs)
    with all show ?thesis by (simp add: scan_base_def)
  qed
qed

lemma parse_nat_all_dec: "0 < n \<Longrightarrow> parse_nat_all (nat_dec n) = Some n"
  using scan_nat_dec [of n False "[]"] by (simp add: parse_nat_all_def scan_finish_def)

lemma scan_sign_dec: "0 \<le> n \<Longrightarrow> scan_sign (nat_dec n @ rest) = Some (False, nat_dec n @ rest)"
proof -
  assume n: "0 \<le> n"
  obtain c cs where cs: "nat_dec n = c # cs" using nat_dec_nonempty [of n] by (meson neq_Nil_conv)
  then have "c \<in> set (nat_dec n)" by simp
  with n have "c \<noteq> CHR ''-''" "c \<noteq> CHR ''+''"
    using nat_dec_no_punct [of n "CHR ''-''"] nat_dec_no_punct [of n "CHR ''+''"] by auto
  with cs show ?thesis by simp
qed

lemma parse_int_all_itoa: "a \<noteq> 0 \<Longrightarrow> parse_int_all (itoa a) = Some a"
  using scan_sign_dec [of a "[]"]
  by (auto simp: parse_int_all_def itoa_def parse_nat_all_dec)

lemma scale_0 [simp]: "scale m 0 0 = of_int m"
  by (simp add: scale_def exp2_def)

lemma parse_float_itoa: "parse_float (itoa a) = Some (of_int a)"
proof -
  have "scan_nat True (nat_dec n) = Some (n, 10, 0, [])" if "0 \<le> n" for n
    using that scan_nat_dec [of n True "[]"] by (simp add: scan_finish_def)
  then show ?thesis
    using scan_sign_dec [of a "[]"]
    by (auto simp: parse_float_def itoa_def fraction_exps_def)
qed

lemma slash_not_in_itoa: "CHR ''/'' \<notin> set (itoa a)"
  using nat_dec_no_punct [of a "CHR ''/''"] nat_dec_no_punct [of "- a" "CHR ''/''"]
  by (auto simp: itoa_def)

text \<open>\<open>SetString\<close> reads back exactly what \<open>RatString\<close> wrote.\<close>

lemma rat_string_roundtrip: "rat_set_string (rat_string q) = Some q"
proof -
  obtain a b where ab: "quotient_of q = (a, b)" by (cases "quotient_of q")
  then have b: "0 < b" and q: "q = of_int a / of_int b"
    by (auto simp: quotient_of_denom_pos quotient_of_div)
  show ?thesis
  proof (cases "b = 1")
    case True
    with ab q show ?thesis
      using slash_not_in_itoa [of a] by (simp add: rat_string_def rat_set_string_def parse_float_itoa)
  next
    case False
    have a0: "a \<noteq> 0"
    proof
      assume "a = 0"
      with q have "q = 0" by simp
      with ab have "b = 1" by (simp add: rat_zero_code)
      with False show "False" by simp
    qed
    have tw: "takeWhile (\<lambda>c. c \<noteq> CHR ''/'') (itoa a @ CHR ''/'' # nat_dec b) = itoa a"
      using slash_not_in_itoa [of a] by (subst takeWhile_append2) auto
    have dw: "dropWhile (\<lambda>c. c \<noteq> CHR ''/'') (itoa a @ CHR ''/'' # nat_dec b) = CHR ''/'' # nat_dec b"
      using slash_not_in_itoa [of a] by (subst dropWhile_append2) auto
    from False b a0 ab q show ?thesis
      by (simp add: rat_string_def rat_set_string_def tw dw parse_int_all_itoa parse_nat_all_dec)
  qed
qed

text \<open>
  \<open>FloatString\<close> output parses too, to the value rounded to \<open>n\<close> decimals: the comment in
  \<open>processAutoExchange\<close> that a payment string is always a decimal rests on this.
\<close>

definition float_round :: "nat \<Rightarrow> rat \<Rightarrow> rat" where
  "float_round n q = (let r = of_int \<lfloor>\<bar>q\<bar> * 10 ^ n + 1 / 2\<rfloor> / 10 ^ n in if q < 0 then - r else r)"

lemma scan_digits_padded:
  "0 \<le> m \<Longrightarrow> scan_digits 10 fok pv iv acc k dp (replicate z (CHR ''0'') @ nat_dec m) =
   scan_digits 10 fok (CHR ''0'') iv (acc * 10 ^ (z + length (nat_dec m)) + m) (k + z + length (nat_dec m)) dp []"
proof (induction z arbitrary: pv acc k)
  case 0
  then show ?case using scan_digits_nat_dec [of m fok pv iv acc k dp "[]"] by simp
next
  case (Suc z)
  have "digit_value (CHR ''0'') = 0" by (simp add: digit_value_def)
  with Suc show ?case by (simp add: algebra_simps)
qed

lemma length_nat_dec_le: "0 \<le> m \<Longrightarrow> m < 10 ^ Suc n \<Longrightarrow> length (nat_dec m) \<le> Suc n"
proof (induction n arbitrary: m)
  case 0
  then show ?case by (simp add: nat_dec_lt)
next
  case (Suc n)
  show ?case
  proof (cases "m < 10")
    case True
    then show ?thesis by (simp add: nat_dec_lt)
  next
    case False
    have "m div 10 < 10 ^ Suc n" using Suc.prems by (simp add: div_less_iff_less_mult algebra_simps)
    then have "length (nat_dec (m div 10)) \<le> Suc n"
      using Suc.IH Suc.prems by (simp add: pos_imp_zdiv_nonneg_iff)
    with False show ?thesis by (simp add: nat_dec_ge)
  qed
qed

lemma scan_fixed_digits:
  assumes m: "0 \<le> m" and n: "0 < n"
  shows "scan_nat True (fixed_digits n m) = Some (m, 10, n, [])"
proof -
  define i where "i = m div 10 ^ n"
  define f where "f = m mod 10 ^ n"
  define z where "z = n - length (nat_dec f)"
  have i: "0 \<le> i" and f: "0 \<le> f" "f < 10 ^ n" using m by (auto simp: i_def f_def pos_imp_zdiv_nonneg_iff)
  have len: "z + length (nat_dec f) = n"
    using length_nat_dec_le [of f "n - 1"] f n by (simp add: z_def)
  have whole: "i * 10 ^ n + f = m" unfolding i_def f_def by (rule div_mult_mod_eq)
  have eq: "fixed_digits n m = nat_dec i @ CHR ''.'' # replicate z (CHR ''0'') @ nat_dec f"
    using n by (simp add: fixed_digits_def i_def f_def z_def pad_left_def)
  show ?thesis
    unfolding eq using i f len whole
    by (simp add: scan_nat_dec scan_digits_padded scan_finish_def add.assoc)
qed

lemma scan_sign_fixed: "0 \<le> m \<Longrightarrow> scan_sign (fixed_digits n m) = Some (False, fixed_digits n m)"
  using scan_sign_dec [of "m div 10 ^ n"]
  by (simp add: fixed_digits_def pos_imp_zdiv_nonneg_iff)

lemma parse_fixed_digits:
  assumes m: "0 \<le> m" and n: "0 < n" "n \<le> 10 ^ 6"
  shows "parse_float (fixed_digits n m) = Some (of_int m / 10 ^ n)"
    and "parse_float (CHR ''-'' # fixed_digits n m) = Some (- (of_int m / 10 ^ n))"
proof -
  have sc: "scale m (- int n) (- int n) = of_int m / 10 ^ n"
    using n power_mult_distrib [of "5::rat" 2 n] by (simp add: scale_def exp2_def)
  have le: "\<not> 10 ^ 6 < int n" "\<not> 10 ^ 7 < int n" using n by auto
  show "parse_float (fixed_digits n m) = Some (of_int m / 10 ^ n)"
    using m n le sc by (simp add: parse_float_def scan_sign_fixed scan_fixed_digits fraction_exps_def)
  show "parse_float (CHR ''-'' # fixed_digits n m) = Some (- (of_int m / 10 ^ n))"
    using m n le sc by (simp add: parse_float_def scan_fixed_digits fraction_exps_def)
qed

lemma slash_not_in_fixed: "0 \<le> m \<Longrightarrow> CHR ''/'' \<notin> set (fixed_digits n m)"
  using nat_dec_no_punct [of "m div 10 ^ n" "CHR ''/''"] nat_dec_no_punct [of "m mod 10 ^ n" "CHR ''/''"]
  by (auto simp: fixed_digits_def pad_left_def pos_imp_zdiv_nonneg_iff)

lemma float_string_parses:
  assumes n: "0 < n" "n \<le> 10 ^ 6"
  shows "rat_set_string (float_string n q) = Some (float_round n q)"
proof -
  define m where "m = \<lfloor>\<bar>q\<bar> * 10 ^ n + 1 / 2\<rfloor>"
  have m: "0 \<le> m" by (simp add: m_def)
  have ne: "fixed_digits n m \<noteq> []" by (simp add: fixed_digits_def)
  from parse_fixed_digits [OF m n] ne slash_not_in_fixed [OF m, of n] show ?thesis
    by (simp add: float_string_def rat_set_string_def float_round_def m_def [symmetric] Let_def)
qed

lemma float_round_close: "\<bar>float_round n q - q\<bar> \<le> 1 / (2 * 10 ^ n)"
proof -
  define m where "m = \<lfloor>\<bar>q\<bar> * 10 ^ n + 1 / 2\<rfloor>"
  have p: "(0::rat) < 10 ^ n" by simp
  have "of_int m \<le> \<bar>q\<bar> * 10 ^ n + 1 / 2" "\<bar>q\<bar> * 10 ^ n + 1 / 2 < of_int m + 1"
    using floor_correct [of "\<bar>q\<bar> * 10 ^ n + 1 / 2"] by (simp_all add: m_def)
  then have "\<bar>of_int m - \<bar>q\<bar> * 10 ^ n\<bar> \<le> 1 / 2" by linarith
  moreover have "of_int m - \<bar>q\<bar> * 10 ^ n = (of_int m / 10 ^ n - \<bar>q\<bar>) * 10 ^ n"
    using p by (simp add: field_simps)
  ultimately have "\<bar>of_int m / 10 ^ n - \<bar>q\<bar>\<bar> * 10 ^ n \<le> 1 / 2"
    by (simp add: abs_mult)
  then have "\<bar>of_int m / 10 ^ n - \<bar>q\<bar>\<bar> \<le> 1 / (2 * 10 ^ n)"
    using p by (simp add: field_simps)
  moreover have "float_round n q = (if q < 0 then - (of_int m / 10 ^ n) else of_int m / 10 ^ n)"
    by (simp add: float_round_def m_def)
  ultimately show ?thesis by (auto simp: abs_if split: if_splits)
qed

lemma float_round_0 [simp]: "float_round n 0 = 0"
proof -
  have "\<lfloor>1 / 2 :: rat\<rfloor> = 0" by (rule floor_unique) auto
  then show ?thesis by (simp add: float_round_def)
qed

end
