(* ===== verification/Ladder_Types.thy ===== *)
theory Ladder_Types
  imports Go_Rat
begin

text \<open>
  The vocabulary of the commitment-laddering engine, \<open>pkg/ladder/types.go\<close>: its typed
  strings with their validators and parsers, the ramp schedule, the run configuration and
  the provider snapshots, with the error of every rejected value. A pointer field is an
  option, a Go map an association list in the order the runtime happens to iterate it.
\<close>

section \<open>Typed strings\<close>

type_synonym layer_type = string
type_synonym layer_role = string
type_synonym action_type = string

abbreviation LayerEC2InstanceSP :: layer_type where "LayerEC2InstanceSP \<equiv> ''ec2-instance-sp''"
abbreviation LayerComputeSP :: layer_type where "LayerComputeSP \<equiv> ''compute-sp''"
abbreviation LayerConvertibleRI :: layer_type where "LayerConvertibleRI \<equiv> ''convertible-ri''"
abbreviation LayerAzureReservation :: layer_type where "LayerAzureReservation \<equiv> ''azure-reservation''"
abbreviation LayerAzureSavingsPlan :: layer_type where "LayerAzureSavingsPlan \<equiv> ''azure-savings-plan''"

definition validate_layer_type :: "layer_type \<Rightarrow> goerr option" where
  "validate_layer_type l = (if l = LayerEC2InstanceSP \<or> l = LayerComputeSP \<or> l = LayerConvertibleRI \<or>
      l = LayerAzureReservation \<or> l = LayerAzureSavingsPlan then None
    else Some (Errorf ''unknown layer type %q'' [EStr l]))"

definition parse_layer_type :: "string \<Rightarrow> goerr + layer_type" where
  "parse_layer_type s = guarded (validate_layer_type s) (Inr s)"

abbreviation RoleBase :: layer_role where "RoleBase \<equiv> ''base''"
abbreviation RoleFlex :: layer_role where "RoleFlex \<equiv> ''flex''"
abbreviation RoleBuffer :: layer_role where "RoleBuffer \<equiv> ''buffer''"

definition validate_layer_role :: "layer_role \<Rightarrow> goerr option" where
  "validate_layer_role r = (if r = RoleBase \<or> r = RoleFlex \<or> r = RoleBuffer then None
    else Some (Errorf ''unknown layer role %q'' [EStr r]))"

definition parse_layer_role :: "string \<Rightarrow> goerr + layer_role" where
  "parse_layer_role s = guarded (validate_layer_role s) (Inr s)"

abbreviation ActionPurchase :: action_type where "ActionPurchase \<equiv> ''purchase''"
abbreviation ActionReshape :: action_type where "ActionReshape \<equiv> ''reshape''"
abbreviation ActionHold :: action_type where "ActionHold \<equiv> ''hold''"

definition validate_action_type :: "action_type \<Rightarrow> goerr option" where
  "validate_action_type a = (if a = ActionPurchase \<or> a = ActionReshape \<or> a = ActionHold then None
    else Some (Errorf ''unknown action type %q'' [EStr a]))"

definition parse_action_type :: "string \<Rightarrow> goerr + action_type" where
  "parse_action_type s = guarded (validate_action_type s) (Inr s)"

abbreviation ModeEmailApproval :: string where "ModeEmailApproval \<equiv> ''email_approval''"
abbreviation ModeAutoApprove :: string where "ModeAutoApprove \<equiv> ''auto_approve''"

definition validate_ladder_mode :: "string \<Rightarrow> goerr option" where
  "validate_ladder_mode m = (if m = ModeEmailApproval \<or> m = ModeAutoApprove then None
    else Some (Errorf ''unknown ladder mode %q'' [EStr m]))"

definition parse_ladder_mode :: "string \<Rightarrow> goerr + string" where
  "parse_ladder_mode s = guarded (validate_ladder_mode s) (Inr s)"

abbreviation CadenceDaily :: string where "CadenceDaily \<equiv> ''daily''"
abbreviation CadenceWeekly :: string where "CadenceWeekly \<equiv> ''weekly''"

definition validate_ladder_cadence :: "string \<Rightarrow> goerr option" where
  "validate_ladder_cadence c = (if c = CadenceDaily \<or> c = CadenceWeekly then None
    else Some (Errorf ''unknown ladder cadence %q'' [EStr c]))"

definition parse_ladder_cadence :: "string \<Rightarrow> goerr + string" where
  "parse_ladder_cadence s = guarded (validate_ladder_cadence s) (Inr s)"

abbreviation Term1Year :: string where "Term1Year \<equiv> ''1yr''"
abbreviation Term3Year :: string where "Term3Year \<equiv> ''3yr''"

definition validate_commit_term :: "string \<Rightarrow> goerr option" where
  "validate_commit_term t = (if t = Term1Year \<or> t = Term3Year then None
    else Some (Errorf ''unknown term %q'' [EStr t]))"

definition parse_commit_term :: "string \<Rightarrow> goerr + string" where
  "parse_commit_term s = guarded (validate_commit_term s) (Inr s)"

abbreviation PaymentAllUpfront :: string where "PaymentAllUpfront \<equiv> ''all-upfront''"
abbreviation PaymentPartialUpfront :: string where "PaymentPartialUpfront \<equiv> ''partial-upfront''"
abbreviation PaymentNoUpfront :: string where "PaymentNoUpfront \<equiv> ''no-upfront''"

definition validate_payment_option :: "string \<Rightarrow> goerr option" where
  "validate_payment_option p =
    (if p = PaymentAllUpfront \<or> p = PaymentPartialUpfront \<or> p = PaymentNoUpfront then None
     else Some (Errorf ''unknown payment option %q'' [EStr p]))"

definition parse_payment_option :: "string \<Rightarrow> goerr + string" where
  "parse_payment_option s = guarded (validate_payment_option s) (Inr s)"

section \<open>Layers and scope\<close>

record layer_spec =
  spec_type :: layer_type
  spec_roles :: "layer_role list"

abbreviation ProviderAWS :: string where "ProviderAWS \<equiv> ''aws''"
abbreviation ProviderAzure :: string where "ProviderAzure \<equiv> ''azure''"
abbreviation ProviderGCP :: string where "ProviderGCP \<equiv> ''gcp''"

record ladder_scope =
  sp_provider :: string
  sp_account :: string

definition validate_scope :: "ladder_scope \<Rightarrow> goerr option" where
  "validate_scope s =
    (if sp_provider s \<notin> {ProviderAWS, ProviderAzure, ProviderGCP} then
       Some (Errorf ''unknown provider %q (allowed: %s, %s, %s)''
         [EStr (sp_provider s), EStr ProviderAWS, EStr ProviderAzure, EStr ProviderGCP])
     else if sp_account s = [] then Some (Errorf ''account ID is required'' [])
     else None)"

section \<open>Ramp schedule\<close>

definition rampSumEpsilon :: f64 where
  "rampSumEpsilon = fl (1 / 10 ^ 9)"

record ramp_step =
  rs_after_days :: int
  rs_fraction :: f64

record ramp_schedule =
  ramp_steps :: "ramp_step list"

definition fraction_ok :: "f64 \<Rightarrow> bool" where
  "fraction_ok f = (\<not> (is_nan f \<or> \<not> (fgt f (Fin 0) \<and> fle f (Fin 1))))"

text \<open>The loop of \<open>RampSchedule.Validate\<close>: the running sum, or the first error.\<close>

fun ramp_loop :: "int \<Rightarrow> int \<Rightarrow> f64 \<Rightarrow> ramp_step list \<Rightarrow> goerr + f64" where
  "ramp_loop i prev acc [] = Inr acc"
| "ramp_loop i prev acc (s # ss) =
    (if rs_after_days s \<le> prev then
       Inl (Errorf ''ramp step %d: AfterDays %d must be strictly greater than previous %d''
         [EInt i, EInt (rs_after_days s), EInt prev])
     else if \<not> fraction_ok (rs_fraction s) then
       Inl (Errorf ''ramp step %d: fraction %g must be in (0, 1]'' [EInt i, EF64 (rs_fraction s)])
     else ramp_loop (i + 1) (rs_after_days s) (fadd acc (rs_fraction s)) ss)"

definition validate_ramp :: "ramp_schedule \<Rightarrow> goerr option" where
  "validate_ramp r =
    (if ramp_steps r = [] then Some (Errorf ''ramp schedule has no steps'' [])
     else case ramp_loop 0 (-1) (Fin 0) (ramp_steps r) of
       Inl e \<Rightarrow> Some e
     | Inr acc \<Rightarrow>
       (if is_nan acc then Some (Errorf ''ramp step fractions sum to NaN'' [])
        else let diff = fsub acc (Fin 1) in
          if flt diff (fneg rampSumEpsilon) \<or> fgt diff rampSumEpsilon then
            Some (Errorf ''ramp step fractions sum to %g, must equal 1.0'' [EF64 acc])
          else None))"

section \<open>Run configuration\<close>

record ladder_config =
  lc_scope :: ladder_scope
  lc_mode :: string
  lc_cadence :: string
  lc_max_hourly :: "f64 option"
  lc_ramp :: ramp_schedule
  lc_target_pct :: f64
  lc_buffer_fraction :: f64
  lc_percentile :: f64
  lc_lookback_days :: int
  lc_max_actions :: int
  lc_util_threshold :: f64

definition withinExclIncl :: "f64 \<Rightarrow> f64 \<Rightarrow> f64 \<Rightarrow> bool" where
  "withinExclIncl v lo hi = (\<not> is_nan v \<and> fgt v lo \<and> fle v hi)"

definition validateBaselineBounds :: "ladder_config \<Rightarrow> goerr option" where
  "validateBaselineBounds c =
    (if \<not> withinExclIncl (lc_target_pct c) (Fin 0) (Fin 100) then
       Some (Errorf ''target_coverage_pct %g must be in (0, 100]'' [EF64 (lc_target_pct c)])
     else if is_nan (lc_buffer_fraction c) \<or>
         \<not> (fge (lc_buffer_fraction c) (Fin 0) \<and> flt (lc_buffer_fraction c) (Fin 1)) then
       Some (Errorf ''buffer_fraction %g must be in [0, 1)'' [EF64 (lc_buffer_fraction c)])
     else if \<not> withinExclIncl (lc_percentile c) (Fin 0) (Fin 50) then
       Some (Errorf ''baseline_percentile %g must be in (0, 50]'' [EF64 (lc_percentile c)])
     else if lc_lookback_days c \<le> 0 then
       Some (Errorf ''lookback_days %d must be > 0'' [EInt (lc_lookback_days c)])
     else None)"

definition validateRunLimits :: "ladder_config \<Rightarrow> goerr option" where
  "validateRunLimits c = orelse
    (case lc_max_hourly c of None \<Rightarrow> None
     | Some v \<Rightarrow> (if is_nan v \<or> is_inf v \<or> \<not> fgt v (Fin 0) then
         Some (Errorf ''max_hourly_commit_per_run %g must be a positive finite number when set (leave nil for no cap)''
           [EF64 v]) else None))
    (if lc_max_actions c \<le> 0 then
       Some (Errorf ''max_actions_per_run %d must be > 0'' [EInt (lc_max_actions c)])
     else if \<not> withinExclIncl (lc_util_threshold c) (Fin 0) (Fin 100) then
       Some (Errorf ''buffer_utilization_threshold_pct %g must be in (0, 100]'' [EF64 (lc_util_threshold c)])
     else None)"

definition validate_ladder_config :: "ladder_config \<Rightarrow> goerr option" where
  "validate_ladder_config c =
    orelse (wrap_opt ''scope: '' (validate_scope (lc_scope c)))
   (orelse (validateBaselineBounds c)
   (orelse (wrap_opt ''mode: '' (validate_ladder_mode (lc_mode c)))
   (orelse (wrap_opt ''cadence: '' (validate_ladder_cadence (lc_cadence c)))
   (orelse (wrap_opt ''ramp: '' (validate_ramp (lc_ramp c)))
     (validateRunLimits c)))))"

section \<open>Provider snapshots\<close>

record usage_baseline =
  ub_low_water :: "f64 option"
  ub_stable :: "f64 option"
  ub_series :: "f64 list"
  ub_lookback_days :: int
  ub_percentile :: f64

record layer_state =
  st_existing :: "f64 option"
  st_expiring :: "f64 option"
  st_coverage :: "f64 option"
  st_utilization :: "f64 option"
  st_layer :: layer_type

section \<open>What the validators guarantee\<close>

lemma fraction_ok_iff: "fraction_ok f \<longleftrightarrow> (\<exists>q. f = Fin q \<and> 0 < q \<and> q \<le> 1)"
  by (cases f) (auto simp: fraction_ok_def is_nan_def fle_def)

lemma withinExclIncl_iff: "withinExclIncl v (Fin lo) (Fin hi) \<longleftrightarrow> (\<exists>q. v = Fin q \<and> lo < q \<and> q \<le> hi)"
  by (cases v) (auto simp: withinExclIncl_def is_nan_def fle_def)

text \<open>Strictly ascending from a bound, the shape the loop enforces.\<close>

fun ascending_from :: "int \<Rightarrow> ramp_step list \<Rightarrow> bool" where
  "ascending_from prev [] = True"
| "ascending_from prev (s # ss) = (prev < rs_after_days s \<and> ascending_from (rs_after_days s) ss)"

lemma ramp_loop_Inr:
  "ramp_loop i prev acc ss = Inr t \<Longrightarrow> ascending_from prev ss \<and> (\<forall>s \<in> set ss. fraction_ok (rs_fraction s))"
  by (induction ss arbitrary: i prev acc) (auto split: if_splits)

lemma ascending_from_ge: "ascending_from prev ss \<Longrightarrow> s \<in> set ss \<Longrightarrow> prev < rs_after_days s"
  by (induction ss arbitrary: prev) fastforce+

lemma ascending_from_distinct: "ascending_from prev ss \<Longrightarrow> distinct (map rs_after_days ss)"
  by (induction ss arbitrary: prev) (auto dest: ascending_from_ge)

lemma validate_ramp_None:
  assumes "validate_ramp r = None"
  shows "ramp_steps r \<noteq> []" and "ascending_from (-1) (ramp_steps r)"
    and "s \<in> set (ramp_steps r) \<Longrightarrow> \<exists>q. rs_fraction s = Fin q \<and> 0 < q \<and> q \<le> 1"
proof -
  show "ramp_steps r \<noteq> []" using assms by (auto simp: validate_ramp_def)
  from assms obtain t where "ramp_loop 0 (-1) (Fin 0) (ramp_steps r) = Inr t"
    by (auto simp: validate_ramp_def split: if_splits sum.splits)
  then have asc: "ascending_from (-1) (ramp_steps r)"
    and fr: "\<forall>s \<in> set (ramp_steps r). fraction_ok (rs_fraction s)"
    by (auto dest: ramp_loop_Inr)
  from asc show "ascending_from (-1) (ramp_steps r)" .
  from fr show "s \<in> set (ramp_steps r) \<Longrightarrow> \<exists>q. rs_fraction s = Fin q \<and> 0 < q \<and> q \<le> 1"
    by (auto simp: fraction_ok_iff)
qed

text \<open>A validated configuration, as the numeric facts the engine relies on.\<close>

lemma validate_ladder_config_None:
  assumes "validate_ladder_config c = None"
  shows "\<exists>p. lc_target_pct c = Fin p \<and> 0 < p \<and> p \<le> 100"
    and "\<exists>b. lc_buffer_fraction c = Fin b \<and> 0 \<le> b \<and> b < 1"
    and "validate_ramp (lc_ramp c) = None"
    and "0 < lc_max_actions c"
    and "lc_max_hourly c = Some v \<Longrightarrow> \<exists>q. v = Fin q \<and> 0 < q"
    and "\<exists>u. lc_util_threshold c = Fin u \<and> 0 < u \<and> u \<le> 100"
proof -
  from assms have bb: "validateBaselineBounds c = None" and rl: "validateRunLimits c = None"
    and rp: "validate_ramp (lc_ramp c) = None"
    by (auto simp: validate_ladder_config_def)
  show "\<exists>p. lc_target_pct c = Fin p \<and> 0 < p \<and> p \<le> 100"
    using bb by (auto simp: validateBaselineBounds_def withinExclIncl_iff split: if_splits)
  show "\<exists>b. lc_buffer_fraction c = Fin b \<and> 0 \<le> b \<and> b < 1"
    using bb by (auto simp: validateBaselineBounds_def dest: fle_flt_finite split: if_splits)
  show "validate_ramp (lc_ramp c) = None" by (rule rp)
  show "0 < lc_max_actions c"
    using rl by (auto simp: validateRunLimits_def split: if_splits)
  show "lc_max_hourly c = Some v \<Longrightarrow> \<exists>q. v = Fin q \<and> 0 < q"
    using rl by (cases v) (auto simp: validateRunLimits_def is_nan_def is_inf_def split: if_splits)
  show "\<exists>u. lc_util_threshold c = Fin u \<and> 0 < u \<and> u \<le> 100"
    using rl by (auto simp: validateRunLimits_def withinExclIncl_iff split: if_splits)
qed

lemma rampSumEpsilon_pos: "\<exists>e. rampSumEpsilon = Fin e \<and> 0 < e"
proof -
  have "exp2 (-1022) \<le> exp2 (-30)" by (intro exp2_mono) simp
  also have "exp2 (-30) \<le> (1 / 10 ^ 9 :: rat)" by (simp add: exp2_def)
  finally have "exp2 (-1022) \<le> (1 / 10 ^ 9 :: rat)" .
  moreover have "(1 / 10 ^ 9 :: rat) < exp2 1000"
  proof -
    have "(1 / 10 ^ 9 :: rat) < exp2 0" by (simp add: exp2_def)
    also have "\<dots> \<le> exp2 1000" by (intro exp2_mono) simp
    finally show ?thesis .
  qed
  ultimately show ?thesis using fl_pos_finite [of "1 / 10 ^ 9"] by (auto simp: rampSumEpsilon_def)
qed

text \<open>A sum of exactly one passes the tolerance check.\<close>

lemma validate_ramp_exact:
  assumes "ramp_steps r \<noteq> []" and "ramp_loop 0 (-1) (Fin 0) (ramp_steps r) = Inr (Fin 1)"
  shows "validate_ramp r = None"
proof -
  obtain e where e: "rampSumEpsilon = Fin e" "0 < e" using rampSumEpsilon_pos by blast
  show ?thesis using assms e(2) by (simp add: validate_ramp_def is_nan_def fsub_def Let_def e(1))
qed

end
