(* ===== verification/Go_Time.thy ===== *)
theory Go_Time
  imports Go_Rat
begin

text \<open>
  \<open>time.Time\<close> in UTC: nanoseconds since Go's zero time, midnight of 1 January of the year 1.
  \<open>AddDate(0, 0, n)\<close> adds whole days (UTC has no offset changes); \<open>rfc3339\<close> is
  \<open>Format(time.RFC3339)\<close> in the proleptic Gregorian calendar.
\<close>

type_synonym gotime = int

definition second_ns :: int where "second_ns = 1000000000"
definition minute_ns :: int where "minute_ns = 60 * second_ns"
definition hour_ns :: int where "hour_ns = 3600 * second_ns"
definition day_ns :: int where "day_ns = 86400 * second_ns"

lemmas duration_defs = second_ns_def minute_ns_def hour_ns_def day_ns_def

definition is_zero_time :: "gotime \<Rightarrow> bool" where
  "is_zero_time t = (t = 0)"

definition add_days :: "gotime \<Rightarrow> int \<Rightarrow> gotime" where
  "add_days t n = t + n * day_ns"

section \<open>Calendar dates\<close>

definition leap_year :: "int \<Rightarrow> bool" where
  "leap_year y = (4 dvd y \<and> (\<not> 100 dvd y \<or> 400 dvd y))"

text \<open>The year and the day of the year (from 0) of a day number.\<close>

definition year_day :: "int \<Rightarrow> int \<times> int" where
  "year_day d = (let n400 = d div 146097; r400 = d mod 146097;
     n100 = min 3 (r400 div 36524); r100 = r400 - n100 * 36524;
     n4 = r100 div 1461; r4 = r100 mod 1461;
     n1 = min 3 (r4 div 365)
   in (400 * n400 + 100 * n100 + 4 * n4 + n1 + 1, r4 - n1 * 365))"

definition month_lengths :: "int \<Rightarrow> int list" where
  "month_lengths y = [31, if leap_year y then 29 else 28, 31, 30, 31, 30, 31, 31, 30, 31, 30, 31]"

fun month_day :: "int \<Rightarrow> int list \<Rightarrow> int \<Rightarrow> int \<times> int" where
  "month_day m [] d = (m, d + 1)"
| "month_day m (l # ls) d = (if d < l then (m, d + 1) else month_day (m + 1) ls (d - l))"

definition civil_date :: "int \<Rightarrow> int \<times> int \<times> int" where
  "civil_date d = (case year_day d of (y, yd) \<Rightarrow> (y, month_day 1 (month_lengths y) yd))"

definition pad_int :: "nat \<Rightarrow> int \<Rightarrow> string" where
  "pad_int w n = (if n < 0 then ''-'' else []) @ pad_left w (nat_dec \<bar>n\<bar>)"

definition format_date :: "gotime \<Rightarrow> string" where
  "format_date t = (case civil_date (t div day_ns) of (y, m, d) \<Rightarrow>
     pad_int 4 y @ ''-'' @ pad_int 2 m @ ''-'' @ pad_int 2 d)"

definition rfc3339 :: "gotime \<Rightarrow> string" where
  "rfc3339 t = (let s = t mod day_ns div second_ns in
     format_date t @ ''T'' @ pad_int 2 (s div 3600) @ '':'' @
     pad_int 2 (s div 60 mod 60) @ '':'' @ pad_int 2 (s mod 60) @ ''Z'')"

lemma one_line_pad_int [simp]: "one_line (pad_int w n)"
  by (simp add: pad_int_def one_line_Cons)

lemma one_line_rfc3339 [simp]: "one_line (rfc3339 t)"
  by (simp add: rfc3339_def format_date_def Let_def one_line_Cons split: prod.split)

end
