(* ===== verification/Ladder_Plan.thy ===== *)
theory Ladder_Plan
  imports Ladder_Types Go_Time
begin

text \<open>
  \<open>pkg/ladder/plan.go\<close>: the planned action and its validation, the plan of a run, and the
  text that goes into the approval email. The plan's fields that a caller may fill with
  free text are sanitised, so that no field can add a line to the email.
\<close>

section \<open>Planned actions\<close>

record planned_action =
  pa_action :: action_type
  pa_layer :: layer_type
  pa_amount :: "rat option"
  pa_term :: string
  pa_payment :: string
  pa_rationale :: string
  pa_sources :: "string list"

definition validatePurchaseFields :: "planned_action \<Rightarrow> goerr option" where
  "validatePurchaseFields a = (case pa_amount a of
     None \<Rightarrow> Some (Errorf ''purchase action requires a non-nil AmountUSDPerHour'' [])
   | Some q \<Rightarrow>
     if q \<le> 0 then
       Some (Errorf ''purchase action requires a positive AmountUSDPerHour, got %s'' [EStr (rat_string q)])
     else orelse (wrap_opt ''purchase action term: '' (validate_commit_term (pa_term a)))
       (wrap_opt ''purchase action payment option: '' (validate_payment_option (pa_payment a))))"

definition validate_action :: "planned_action \<Rightarrow> goerr option" where
  "validate_action a =
    orelse (wrap_opt ''action: '' (validate_action_type (pa_action a)))
   (orelse (wrap_opt ''layer: '' (validate_layer_type (pa_layer a)))
    (if pa_rationale a = [] then
       Some (Errorf ''rationale is required (money-path auditability)'' [])
     else if pa_action a = ActionPurchase then validatePurchaseFields a
     else if pa_action a = ActionHold \<or> pa_action a = ActionReshape then
       (case pa_amount a of
          Some q \<Rightarrow> Some (Errorf ''%s action requires nil AmountUSDPerHour, got %s''
            [EStr (pa_action a), EStr (rat_string q)])
        | None \<Rightarrow>
          if pa_term a \<noteq> [] \<or> pa_payment a \<noteq> [] then
            Some (Errorf ''%s action requires empty Term and PaymentOption'' [EStr (pa_action a)])
          else None)
     else None))"

section \<open>The plan\<close>

record ladder_plan =
  lp_scope :: ladder_scope
  lp_generated :: gotime
  lp_target :: "rat option"
  lp_existing :: "rat option"
  lp_gap :: "rat option"
  lp_actions :: "planned_action list"
  lp_baseline :: usage_baseline

definition validate_plan :: "ladder_plan \<Rightarrow> goerr option" where
  "validate_plan p =
    orelse (wrap_opt ''scope: '' (validate_scope (lp_scope p)))
    (if is_zero_time (lp_generated p) then Some (Errorf ''generated_at must be set'' [])
     else check_each 0 (\<lambda>i a. map_option (\<lambda>e. Errorf ''action[%d]: %w'' [EInt (int i), EWrap e])
       (validate_action a)) (lp_actions p))"

section \<open>The approval text\<close>

definition sanitizeLine :: "string \<Rightarrow> string" where
  "sanitizeLine s = concat (filter (\<lambda>r. \<not> is_control r) (runes s))"

definition formatUSDPerHour :: "rat option \<Rightarrow> string" where
  "formatUSDPerHour v = (case v of None \<Rightarrow> ''unknown''
     | Some q \<Rightarrow> sprintf ''$%s/hr'' [FStr (float_string 2 q)])"

text \<open>The loops of \<open>collectDataSources\<close>: \<open>sources\<close> and \<open>seen\<close> hold the same strings.\<close>

fun collect_sources :: "string list \<Rightarrow> string list \<Rightarrow> string list" where
  "collect_sources sources [] = sources"
| "collect_sources sources (s # ss) =
    (let s = sanitizeLine s in
     if s \<in> set sources then collect_sources sources ss else collect_sources (sources @ [s]) ss)"

definition collectDataSources :: "planned_action list \<Rightarrow> string list" where
  "collectDataSources as = fold (\<lambda>a sources. collect_sources sources (pa_sources a)) as []"

text \<open>One \<open>Fprintf\<close> of a format ending in a line break.\<close>

definition fline :: "string \<Rightarrow> farg list \<Rightarrow> string" where
  "fline fmt args = sprintf fmt args @ [newline]"

definition action_line :: "nat \<Rightarrow> planned_action \<Rightarrow> string" where
  "action_line i a =
    (if pa_action a = ActionPurchase then
       fline ''  %d. %s %s %s term=%s payment=%s -- %s''
         [FInt (int i + 1), FStr (pa_action a), FStr (pa_layer a), FStr (formatUSDPerHour (pa_amount a)),
          FStr (sanitizeLine (pa_term a)), FStr (sanitizeLine (pa_payment a)),
          FStr (sanitizeLine (pa_rationale a))]
     else fline ''  %d. %s %s -- %s''
         [FInt (int i + 1), FStr (pa_action a), FStr (pa_layer a), FStr (sanitizeLine (pa_rationale a))])"

fun action_lines :: "nat \<Rightarrow> planned_action list \<Rightarrow> string" where
  "action_lines i [] = []"
| "action_lines i (a # as) = action_line i a @ action_lines (Suc i) as"

definition explain :: "ladder_plan \<Rightarrow> string" where
  "explain p =
    fline ''Scope: provider=%s account=%s''
      [FStr (sp_provider (lp_scope p)), FStr (sanitizeLine (sp_account (lp_scope p)))] @
    fline ''Generated: %s'' [FStr (rfc3339 (lp_generated p))] @
    fline ''Baseline: lookback=%dd percentile=%g''
      [FInt (ub_lookback_days (lp_baseline p)), FF64 (ub_percentile (lp_baseline p))] @
    fline ''Target:   %s'' [FStr (formatUSDPerHour (lp_target p))] @
    fline ''Existing: %s'' [FStr (formatUSDPerHour (lp_existing p))] @
    fline ''Gap:      %s'' [FStr (formatUSDPerHour (lp_gap p))] @
    (if lp_actions p = [] then fline ''Actions: none'' []
     else fline ''Actions (%d):'' [FInt (int (length (lp_actions p)))] @
       action_lines 0 (lp_actions p) @
       (let sources = collectDataSources (lp_actions p) in
        if sources = [] then [] else fline ''Data sources: %s'' [FStr (join '', '' sources)]))"

section \<open>What validation guarantees\<close>

lemma validate_layer_type_None:
  "validate_layer_type l = None \<longleftrightarrow> l \<in> {LayerEC2InstanceSP, LayerComputeSP, LayerConvertibleRI,
     LayerAzureReservation, LayerAzureSavingsPlan}"
  by (auto simp: validate_layer_type_def)

lemma validate_layer_type_one_line: "validate_layer_type l = None \<Longrightarrow> one_line l"
  by (auto simp: validate_layer_type_None one_line_Cons)

lemma validate_action_type_None:
  "validate_action_type a = None \<longleftrightarrow> a \<in> {ActionPurchase, ActionReshape, ActionHold}"
  by (auto simp: validate_action_type_def)

lemma validate_action_type_one_line: "validate_action_type a = None \<Longrightarrow> one_line a"
  by (auto simp: validate_action_type_None one_line_Cons)

lemma validate_action_purchase_iff:
  assumes "pa_action a = ActionPurchase"
  shows "validate_action a = None \<longleftrightarrow> validate_layer_type (pa_layer a) = None \<and> pa_rationale a \<noteq> [] \<and>
    (\<exists>q. pa_amount a = Some q \<and> 0 < q) \<and> validate_commit_term (pa_term a) = None \<and>
    validate_payment_option (pa_payment a) = None"
  using assms
  by (auto simp: validate_action_def validatePurchaseFields_def validate_action_type_def split: option.splits)

lemma validate_action_passive_iff:
  assumes "pa_action a = ActionHold \<or> pa_action a = ActionReshape"
  shows "validate_action a = None \<longleftrightarrow> validate_layer_type (pa_layer a) = None \<and> pa_rationale a \<noteq> [] \<and>
    pa_amount a = None \<and> pa_term a = [] \<and> pa_payment a = []"
  using assms by (auto simp: validate_action_def validate_action_type_def split: option.splits)

lemma validate_action_enums:
  assumes "validate_action a = None"
  shows "one_line (pa_action a)" "one_line (pa_layer a)"
  using assms by (auto simp: validate_action_def intro: validate_action_type_one_line validate_layer_type_one_line)

lemma validate_scope_one_line: "validate_scope s = None \<Longrightarrow> one_line (sp_provider s)"
  by (auto simp: validate_scope_def one_line_Cons split: if_splits)

lemma validate_plan_None:
  assumes "validate_plan p = None"
  shows "validate_scope (lp_scope p) = None" and "\<forall>a \<in> set (lp_actions p). validate_action a = None"
  using assms by (auto simp: validate_plan_def dest!: check_each_all split: if_splits)

section \<open>Sanitised text\<close>

lemma byte_in_newline [simp]: "byte_in lo hi newline \<longleftrightarrow> lo \<le> 10 \<and> 10 \<le> hi"
  by (simp add: byte_in_def)

lemma high_byte: "byte_in lo hi c \<Longrightarrow> 10 < lo \<Longrightarrow> c \<noteq> newline"
  by (auto simp: byte_in_def Let_def)

lemma second_newline: "second3 a b \<Longrightarrow> b \<noteq> newline" "second4 a b \<Longrightarrow> b \<noteq> newline"
  by (auto simp: second3_def second4_def split: if_splits)

lemma one_line_rune_error: "newline \<notin> set rune_error"
  by (simp add: rune_error_def)

lemma rune_at_multibyte: "\<not> byte_in 0 0x7F a \<Longrightarrow> newline \<notin> set (fst (rune_at (a # s)))"
  by (auto simp: one_line_rune_error dest!: high_byte second_newline split: list.split if_split)

lemma rune_at_newline:
  assumes "newline \<in> set (fst (rune_at s))"
  shows "is_control (fst (rune_at s))"
proof (cases s)
  case Nil
  with assms show ?thesis by simp
next
  case (Cons a s')
  with assms rune_at_multibyte [of a s'] have "byte_in 0 0x7F a" by blast
  with Cons assms show ?thesis by (auto simp: is_control_def)
qed

lemma runes_newline: "r \<in> set (runes s) \<Longrightarrow> newline \<in> set r \<Longrightarrow> is_control r"
proof (induction s rule: runes.induct)
  case (1 s)
  then show ?case
    by (subst (asm) (2) runes.simps) (auto simp: rune_at_newline split: if_splits)
qed

lemma one_line_sanitizeLine [simp]: "one_line (sanitizeLine s)"
  by (auto simp: one_line_def sanitizeLine_def dest: runes_newline)

lemma one_line_formatUSDPerHour [simp]: "one_line (formatUSDPerHour v)"
  by (auto simp: formatUSDPerHour_def float_string_def one_line_Cons
      intro!: one_line_sprintf split: option.split)

lemma collect_sources_one_line:
  "list_all one_line sources \<Longrightarrow> list_all one_line (collect_sources sources ss)"
  by (induction sources ss rule: collect_sources.induct) (auto simp: Let_def)

lemma collect_sources_distinct:
  "distinct sources \<Longrightarrow> distinct (collect_sources sources ss)"
  by (induction sources ss rule: collect_sources.induct) (auto simp: Let_def)

lemma set_collect_sources:
  "set (collect_sources sources ss) = set sources \<union> sanitizeLine ` set ss"
  by (induction sources ss rule: collect_sources.induct) (auto simp: Let_def)

lemma collectDataSources_one_line: "list_all one_line (collectDataSources as)"
proof -
  have "list_all one_line acc \<Longrightarrow>
      list_all one_line (fold (\<lambda>a sources. collect_sources sources (pa_sources a)) as acc)" for acc
    by (induction as arbitrary: acc) (auto simp: collect_sources_one_line)
  then show ?thesis by (simp add: collectDataSources_def)
qed

section \<open>Line breaks in the email\<close>

definition line_count :: "string \<Rightarrow> nat" where
  "line_count s = count_list s newline"

lemma line_count_append [simp]: "line_count (a @ b) = line_count a + line_count b"
  by (simp add: line_count_def)

lemma line_count_Nil [simp]: "line_count [] = 0"
  by (simp add: line_count_def)

lemma line_count_fline:
  assumes "one_line fmt" "list_all arg_one_line args"
  shows "line_count (fline fmt args) = Suc 0"
  using one_line_sprintf [OF assms] by (simp add: fline_def line_count_def one_line_def)

lemma line_count_action_line:
  assumes "validate_action a = None"
  shows "line_count (action_line i a) = Suc 0"
  using validate_action_enums [OF assms]
  by (simp add: action_line_def line_count_fline one_line_Cons)

lemma line_count_action_lines:
  "\<forall>a \<in> set as. validate_action a = None \<Longrightarrow> line_count (action_lines i as) = length as"
  by (induction as arbitrary: i) (auto simp: line_count_action_line)

end
