(* ===== verification/Ladder_Allocate.thy ===== *)
theory Ladder_Allocate
  imports Ladder_Plan
begin

text \<open>
  \<open>pkg/ladder/allocate.go\<close>: how much new commitment one run places on each layer. Money is
  exact (\<open>*big.Rat\<close> is \<open>rat\<close>), provider inputs are floats converted at the boundary. The
  map \<open>LayerStates\<close> is the list of its entries in iteration order. A nil dereference the
  Go code would panic on is the error \<open>nil_panic\<close>, so that its absence is a theorem.
\<close>

section \<open>Inputs and results\<close>

record allocation_input =
  ai_now :: gotime
  ai_states :: "(layer_type \<times> layer_state) list"
  ai_layers :: "layer_spec list"
  ai_sources :: "string list"
  ai_baseline :: usage_baseline
  ai_config :: ladder_config
  ai_inflight :: "f64 option"

record allocation =
  al_layer :: layer_type
  al_gap :: rat
  al_rationale :: string
  al_sources :: "string list"

record allocate_result =
  ar_allocations :: "allocation list"
  ar_reshapes :: "planned_action list"
  ar_holds :: "planned_action list"

definition IsNoOp :: "allocate_result \<Rightarrow> bool" where
  "IsNoOp r = (ar_allocations r = [] \<and> ar_reshapes r = [])"

definition nil_panic :: goerr where
  "nil_panic = Typed ''runtime.Error'' ''invalid memory address or nil pointer dereference''"

definition minAllocatableGap :: rat where
  "minAllocatableGap = 1 / 100"

text \<open>An informational action: no amount, term or payment option.\<close>

definition mk_passive :: "action_type \<Rightarrow> layer_type \<Rightarrow> string \<Rightarrow> string list \<Rightarrow> planned_action" where
  "mk_passive kind layer why sources = \<lparr>pa_action = kind, pa_layer = layer, pa_amount = None,
     pa_term = [], pa_payment = [], pa_rationale = why, pa_sources = sources\<rparr>"

definition withMaintenance :: "allocate_result \<Rightarrow> planned_action list \<Rightarrow> planned_action list \<Rightarrow> allocate_result" where
  "withMaintenance r reshapes maint = r\<lparr>ar_reshapes := ar_reshapes r @ reshapes, ar_holds := ar_holds r @ maint\<rparr>"

definition ratFromFloat :: "string \<Rightarrow> f64 \<Rightarrow> goerr + rat" where
  "ratFromFloat name v =
    (if is_nan v then Inl (Errorf ''%s: NaN is not a valid monetary value'' [EStr name])
     else if is_inf v then Inl (Errorf ''%s: Inf is not a valid monetary value'' [EStr name])
     else if flt v (Fin 0) then
       Inl (Errorf ''%s: negative value %g is not allowed'' [EStr name, EF64 v])
     else case v of Fin q \<Rightarrow> Inr q | _ \<Rightarrow> Inl nil_panic)"

definition minRat :: "rat \<Rightarrow> rat \<Rightarrow> rat" where
  "minRat a b = (if a \<le> b then a else b)"

definition fmtRatUSD :: "rat \<Rightarrow> string" where
  "fmtRatUSD r = sprintf ''$%.4f/hr'' [FF64 (fl r)]"

section \<open>Input validation\<close>

fun validateLayerUniqueness :: "layer_type set \<Rightarrow> layer_spec list \<Rightarrow> goerr option" where
  "validateLayerUniqueness seen [] = None"
| "validateLayerUniqueness seen (ls # rest) =
    (if spec_type ls \<in> seen then Some (Errorf ''duplicate layer type %q'' [EStr (spec_type ls)])
     else validateLayerUniqueness (insert (spec_type ls) seen) rest)"

definition validateLayerEnums :: "layer_spec \<Rightarrow> goerr option" where
  "validateLayerEnums ls = orelse (wrap_opt ''layer type: '' (validate_layer_type (spec_type ls)))
    (check_each 0 (\<lambda>_ r. map_option (\<lambda>e. Errorf ''layer %q: role: %w'' [EStr (spec_type ls), EWrap e])
      (validate_layer_role r)) (spec_roles ls))"

definition validateLayerRoleCombo :: "layer_spec \<Rightarrow> goerr option" where
  "validateLayerRoleCombo ls =
    (if RoleFlex \<in> set (spec_roles ls) \<and> (RoleBase \<in> set (spec_roles ls) \<or> RoleBuffer \<in> set (spec_roles ls)) then
       Some (Errorf ''layer %q: %s role must not be combined with other roles (only the %s+%s merge is allowed)''
         [EStr (spec_type ls), EStr RoleFlex, EStr RoleBase, EStr RoleBuffer])
     else None)"

definition validateRoleCounts :: "int \<Rightarrow> int \<Rightarrow> int \<Rightarrow> goerr option" where
  "validateRoleCounts flexCount baseCount bufferCount =
    (if flexCount \<noteq> 1 then
       Some (Errorf ''exactly one %s layer required, got %d'' [EStr RoleFlex, EInt flexCount])
     else if baseCount > 1 then
       Some (Errorf ''at most one %s layer allowed, got %d'' [EStr RoleBase, EInt baseCount])
     else if bufferCount > 1 then
       Some (Errorf ''at most one %s layer allowed, got %d'' [EStr RoleBuffer, EInt bufferCount])
     else None)"

definition count_role :: "layer_role \<Rightarrow> layer_spec \<Rightarrow> int" where
  "count_role r ls = (if r \<in> set (spec_roles ls) then 1 else 0)"

fun layers_loop :: "int \<Rightarrow> int \<Rightarrow> int \<Rightarrow> layer_spec list \<Rightarrow> goerr option" where
  "layers_loop flexCount baseCount bufferCount [] = validateRoleCounts flexCount baseCount bufferCount"
| "layers_loop flexCount baseCount bufferCount (ls # rest) =
    orelse (validateLayerEnums ls) (orelse (validateLayerRoleCombo ls)
      (layers_loop (flexCount + count_role RoleFlex ls) (baseCount + count_role RoleBase ls)
        (bufferCount + count_role RoleBuffer ls) rest))"

definition validateLayers :: "layer_spec list \<Rightarrow> goerr option" where
  "validateLayers layers = orelse (validateLayerUniqueness {} layers) (layers_loop 0 0 0 layers)"

definition validateUtilizationPct :: "layer_type \<Rightarrow> f64 option \<Rightarrow> goerr option" where
  "validateUtilizationPct layer pct = (case pct of
     None \<Rightarrow> None
   | Some p \<Rightarrow>
     if is_nan p \<or> is_inf p then
       Some (Errorf ''layer %q: UtilizationPct must be finite, got %g'' [EStr layer, EF64 p])
     else if flt p (Fin 0) \<or> fgt p (Fin 100) then
       Some (Errorf ''layer %q: UtilizationPct %g must be in [0, 100]'' [EStr layer, EF64 p])
     else None)"

definition validateNoUnknownStateKeys :: "layer_spec list \<Rightarrow> (layer_type \<times> layer_state) list \<Rightarrow> goerr option" where
  "validateNoUnknownStateKeys layers states =
    check_each 0 (\<lambda>_ kv. if fst kv \<in> spec_type ` set layers then None
      else Some (Errorf ''layer_states contains unknown layer %q not present in the supported layers; its commitments would be excluded from coverage accounting''
        [EStr (fst kv)])) states"

definition validate_layer_state :: "layer_spec \<Rightarrow> layer_state option \<Rightarrow> goerr option" where
  "validate_layer_state ls entry = (case entry of
     None \<Rightarrow> Some (Errorf ''layer %q: missing state entry (provider data incomplete)'' [EStr (spec_type ls)])
   | Some st \<Rightarrow>
     if st_existing st = None then
       Some (Errorf ''layer %q: ExistingUSDPerHour is nil; provider must supply explicit zero if none''
         [EStr (spec_type ls)])
     else if st_expiring st = None then
       Some (Errorf ''layer %q: ExpiringUSDPerHour is nil; provider must supply explicit zero if none''
         [EStr (spec_type ls)])
     else validateUtilizationPct (spec_type ls) (st_utilization st))"

definition validateLayerStates :: "layer_spec list \<Rightarrow> (layer_type \<times> layer_state) list \<Rightarrow> goerr option" where
  "validateLayerStates layers states =
    orelse (check_each 0 (\<lambda>_ ls. validate_layer_state ls (map_of states (spec_type ls))) layers)
      (validateNoUnknownStateKeys layers states)"

definition validateAllocateInput :: "allocation_input \<Rightarrow> goerr option" where
  "validateAllocateInput i =
    (if ai_inflight i = None then
       Some (Errorf ''InFlightUSDPerHour must not be nil: callers must always supply the in-flight commitment; pass a pointer to 0.0 when there is no in-flight commitment'' [])
     else orelse (wrap_opt ''config: '' (validate_ladder_config (ai_config i)))
      (if ai_layers i = [] then Some (Errorf ''layers must not be empty'' [])
       else orelse (wrap_opt ''layers: '' (validateLayers (ai_layers i)))
         (wrap_opt ''layer_states: '' (validateLayerStates (ai_layers i) (ai_states i)))))"

section \<open>Existing coverage and target\<close>

fun findLayerForRole :: "layer_spec list \<Rightarrow> layer_role \<Rightarrow> layer_type \<times> bool" where
  "findLayerForRole [] role = ([], False)"
| "findLayerForRole (ls # rest) role =
    (if role \<in> set (spec_roles ls) then (spec_type ls, True) else findLayerForRole rest role)"

fun net_loop :: "(layer_type \<times> layer_state) list \<Rightarrow> (layer_type \<rightharpoonup> rat) \<Rightarrow> rat \<Rightarrow> layer_spec list \<Rightarrow>
    goerr + (layer_type \<rightharpoonup> rat) \<times> rat" where
  "net_loop states nets tot [] = Inr (nets, tot)"
| "net_loop states nets tot (ls # rest) =
    (case map_of states (spec_type ls) of
       Some st \<Rightarrow> (case (st_existing st, st_expiring st) of
         (Some ex, Some xp) \<Rightarrow>
           rbind (ratFromFloat (spec_type ls @ ''.ExistingUSDPerHour'') ex) (\<lambda>existing.
           rbind (ratFromFloat (spec_type ls @ ''.ExpiringUSDPerHour'') xp) (\<lambda>expiring.
             let net = existing - expiring in
             if net < 0 then
               Inl (Errorf ''%s: ExpiringUSDPerHour (%s) exceeds ExistingUSDPerHour (%s); inconsistent provider snapshot''
                 [EStr (spec_type ls), EStr (fmtRatUSD expiring), EStr (fmtRatUSD existing)])
             else net_loop states (nets(spec_type ls \<mapsto> net)) (tot + net) rest))
       | _ \<Rightarrow> Inl nil_panic)
     | None \<Rightarrow> Inl nil_panic)"

definition computeNetExisting ::
    "layer_spec list \<Rightarrow> (layer_type \<times> layer_state) list \<Rightarrow> goerr + (layer_type \<rightharpoonup> rat) \<times> rat" where
  "computeNetExisting layers states = net_loop states Map.empty 0 layers"

definition computeBaselineAndTarget :: "allocation_input \<Rightarrow> goerr + rat \<times> rat" where
  "computeBaselineAndTarget i = (case ub_low_water (ai_baseline i) of
     None \<Rightarrow> Inl nil_panic
   | Some w \<Rightarrow>
     rbind (ratFromFloat ''low_water_usd_per_hour'' w) (\<lambda>lowWater.
     rbind (ratFromFloat ''target_coverage_pct'' (lc_target_pct (ai_config i))) (\<lambda>pct.
       Inr (lowWater, lowWater * (pct / 100)))))"

definition baselineUnavailableHold :: "allocation_input \<Rightarrow> allocate_result" where
  "baselineUnavailableHold i = \<lparr>ar_allocations = [], ar_reshapes = [], ar_holds =
     [mk_passive ActionHold (fst (findLayerForRole (ai_layers i) RoleFlex))
       ''baseline unavailable: LowWaterUSDPerHour is nil; cannot compute allocation gap'' (ai_sources i)]\<rparr>"

definition gapBelowMinHold :: "rat \<Rightarrow> rat \<Rightarrow> rat \<Rightarrow> rat \<Rightarrow> rat \<Rightarrow> allocation_input \<Rightarrow> allocate_result" where
  "gapBelowMinHold gap lowWater target existingTotal inFlight i =
    \<lparr>ar_allocations = [], ar_reshapes = [], ar_holds =
     [mk_passive ActionHold (fst (findLayerForRole (ai_layers i) RoleFlex))
       (sprintf ''target already met: low_water=%s, target=%.2f%%, existing=%s, in_flight=%s, target_commitment=%s, gap=%s <= min_allocatable=%s''
         [FStr (fmtRatUSD lowWater), FF64 (lc_target_pct (ai_config i)), FStr (fmtRatUSD existingTotal),
          FStr (fmtRatUSD inFlight), FStr (fmtRatUSD target), FStr (fmtRatUSD gap),
          FStr (fmtRatUSD minAllocatableGap)]) (ai_sources i)]\<rparr>"

section \<open>Splitting the gap\<close>

record allocation_context =
  cx_low_water :: rat
  cx_target :: rat
  cx_existing :: rat
  cx_gap :: rat
  cx_base_note :: string
  cx_sources :: "string list"
  cx_config :: ladder_config

definition computeBaseGap ::
    "rat \<Rightarrow> bool \<Rightarrow> usage_baseline \<Rightarrow> layer_type \<Rightarrow> (layer_type \<rightharpoonup> rat) \<Rightarrow> goerr + rat \<times> string" where
  "computeBaseGap coreGap hasBase baseline baseLayer nets =
    (if \<not> hasBase then Inr (0, ''no base layer configured; routing all core gap to flex'')
     else case ub_stable baseline of
       None \<Rightarrow> Inr (0, ''stable usage unknown; routing all core gap to flex'')
     | Some s \<Rightarrow> rbind (ratFromFloat ''stable_usd_per_hour'' s) (\<lambda>stableRat.
         let existingBaseNet = (case nets baseLayer of None \<Rightarrow> 0 | Some n \<Rightarrow> n);
             stableLeft = (if stableRat - existingBaseNet < 0 then 0 else stableRat - existingBaseNet)
         in if coreGap \<le> stableLeft then Inr (coreGap, []) else Inr (stableLeft, [])))"

definition mkAllocation :: "allocation_context \<Rightarrow> layer_type \<Rightarrow> rat \<Rightarrow> string \<Rightarrow> string \<Rightarrow> allocation" where
  "mkAllocation ctx layer layerGap role extraNote =
    (let detail = (if extraNote \<noteq> [] then ''; '' @ extraNote else [])
     in \<lparr>al_layer = layer, al_gap = layerGap,
         al_rationale = sprintf ''%s layer: low_water=%s, target=%.2f%%, existing=%s, target_commitment=%s, total_gap=%s, %s_gap=%s, buffer_fraction=%.2f%s''
           [FStr role, FStr (fmtRatUSD (cx_low_water ctx)), FF64 (lc_target_pct (cx_config ctx)),
            FStr (fmtRatUSD (cx_existing ctx)), FStr (fmtRatUSD (cx_target ctx)), FStr (fmtRatUSD (cx_gap ctx)),
            FStr role, FStr (fmtRatUSD layerGap), FF64 (lc_buffer_fraction (cx_config ctx)), FStr detail],
         al_sources = cx_sources ctx\<rparr>)"

definition flexRoutingNote :: "string \<Rightarrow> bool \<Rightarrow> rat \<Rightarrow> string" where
  "flexRoutingNote baseNote hasBase baseGap =
    (if baseNote \<noteq> [] \<and> (\<not> hasBase \<or> baseGap = 0) then baseNote else [])"

definition assembleAllocations :: "allocation_context \<Rightarrow> rat \<Rightarrow> rat \<Rightarrow> rat \<Rightarrow> layer_type \<Rightarrow> layer_type \<Rightarrow>
    layer_type \<Rightarrow> bool \<Rightarrow> allocation list" where
  "assembleAllocations ctx baseGap flexGap bufferGap baseLayer flexLayer bufferLayer hasBase =
    (if hasBase \<and> bufferLayer = baseLayer then
       (if 0 < baseGap + bufferGap then [mkAllocation ctx bufferLayer (baseGap + bufferGap) ''base+buffer'' []] else [])
     else
       (if hasBase \<and> 0 < baseGap then [mkAllocation ctx baseLayer baseGap ''base'' (cx_base_note ctx)] else []) @
       (if 0 < bufferGap then [mkAllocation ctx bufferLayer bufferGap ''buffer'' []] else [])) @
    (if 0 < flexGap then
       [mkAllocation ctx flexLayer flexGap ''flex'' (flexRoutingNote (cx_base_note ctx) hasBase baseGap)]
     else [])"

definition splitGap :: "allocation_input \<Rightarrow> rat \<Rightarrow> (layer_type \<rightharpoonup> rat) \<Rightarrow> rat \<Rightarrow> rat \<Rightarrow> rat \<Rightarrow>
    goerr + allocation list" where
  "splitGap i gap nets lowWater target existingTotal =
    rbind (ratFromFloat ''buffer_fraction'' (lc_buffer_fraction (ai_config i))) (\<lambda>bufferFracRat.
    let bufferGap = gap * bufferFracRat;
        coreGap = gap - bufferGap;
        flexLayer = fst (findLayerForRole (ai_layers i) RoleFlex);
        (baseLayer, hasBase) = findLayerForRole (ai_layers i) RoleBase;
        (bufferLayer, hasBuffer) = findLayerForRole (ai_layers i) RoleBuffer
    in if 0 < bufferGap \<and> \<not> hasBuffer then
         Inl (Errorf ''buffer_fraction %g > 0 but no buffer-role layer configured''
           [EF64 (lc_buffer_fraction (ai_config i))])
       else rbind (computeBaseGap coreGap hasBase (ai_baseline i) baseLayer nets) (\<lambda>(baseGap, baseNote).
         let flexGap = coreGap - baseGap;
             ctx = \<lparr>cx_low_water = lowWater, cx_target = target, cx_existing = existingTotal, cx_gap = gap,
                    cx_base_note = baseNote, cx_sources = ai_sources i, cx_config = ai_config i\<rparr>
         in Inr (assembleAllocations ctx baseGap flexGap bufferGap baseLayer flexLayer bufferLayer hasBase)))"

section \<open>Guardrails\<close>

definition alloc_total :: "allocation list \<Rightarrow> rat" where
  "alloc_total as = sum_list (map al_gap as)"

definition scale_allocation :: "rat \<Rightarrow> f64 \<Rightarrow> allocation \<Rightarrow> allocation" where
  "scale_allocation ratio scalePct a = \<lparr>al_layer = al_layer a, al_gap = al_gap a * ratio,
     al_rationale = al_rationale a @
       sprintf ''; capped by max_hourly_commit_per_run: scaled to %s (%.2f%% of requested)''
         [FStr (fmtRatUSD (al_gap a * ratio)), FF64 scalePct],
     al_sources = al_sources a\<rparr>"

definition applyCapGuardrail :: "allocation list \<Rightarrow> f64 option \<Rightarrow> goerr + allocation list" where
  "applyCapGuardrail allocs maxPerRun = (case maxPerRun of
     None \<Rightarrow> Inr allocs
   | Some m \<Rightarrow>
     if allocs = [] then Inr allocs
     else rbind (ratFromFloat ''max_hourly_commit_per_run'' m) (\<lambda>capRat.
       let tot = alloc_total allocs in
       if tot \<le> 0 \<or> tot \<le> capRat then Inr allocs
       else let ratio = capRat / tot
         in Inr (map (scale_allocation ratio (fl (ratio * 100))) allocs)))"

definition skip_hold :: "string list \<Rightarrow> allocation \<Rightarrow> planned_action" where
  "skip_hold sources a = mk_passive ActionHold (al_layer a)
     (sprintf ''allocation of %s on layer %s is below minimum allocatable amount; skipped (minimum %s)''
       [FStr (fmtRatUSD (al_gap a)), FStr (al_layer a), FStr (fmtRatUSD minAllocatableGap)]) sources"

fun dropSubMinimumAllocations :: "allocation list \<Rightarrow> string list \<Rightarrow> allocation list \<times> planned_action list" where
  "dropSubMinimumAllocations [] sources = ([], [])"
| "dropSubMinimumAllocations (a # as) sources =
    (case dropSubMinimumAllocations as sources of (kept, holds) \<Rightarrow>
      if al_gap a < minAllocatableGap then (kept, skip_hold sources a # holds) else (a # kept, holds))"

text \<open>Descending by amount, ties by layer name.\<close>

definition alloc_before :: "allocation \<Rightarrow> allocation \<Rightarrow> bool" where
  "alloc_before a b = (al_gap b < al_gap a \<or> al_gap a = al_gap b \<and> al_layer a < al_layer b)"

definition defer_hold :: "int \<Rightarrow> string list \<Rightarrow> allocation \<Rightarrow> planned_action" where
  "defer_hold maxActions sources a = mk_passive ActionHold (al_layer a)
     (sprintf ''deferred to a later run: max_actions_per_run=%d reached (dropped %s on %s)''
       [FInt maxActions, FStr (fmtRatUSD (al_gap a)), FStr (al_layer a)]) sources"

definition truncatePurchases :: "allocation list \<Rightarrow> int \<Rightarrow> int \<Rightarrow> string list \<Rightarrow>
    allocation list \<times> planned_action list" where
  "truncatePurchases allocs purchaseCap maxActions sources =
    (let sorted = go_sort alloc_before allocs in
     (take (nat purchaseCap) sorted, map (defer_hold maxActions sources) (drop (nat purchaseCap) sorted)))"

definition layerUtilPctOrMax :: "(layer_type \<times> layer_state) list \<Rightarrow> layer_type \<Rightarrow> f64" where
  "layerUtilPctOrMax states layer = (case map_of states layer of
     Some st \<Rightarrow> (case st_utilization st of Some u \<Rightarrow> u | None \<Rightarrow> Fin 100)
   | None \<Rightarrow> Fin 100)"

definition reshape_before :: "(layer_type \<times> layer_state) list \<Rightarrow> planned_action \<Rightarrow> planned_action \<Rightarrow> bool" where
  "reshape_before states a b =
    (let au = layerUtilPctOrMax states (pa_layer a); bu = layerUtilPctOrMax states (pa_layer b)
     in if flt au bu then True else if fgt au bu then False else pa_layer a < pa_layer b)"

definition truncateReshapes :: "planned_action list \<Rightarrow> int \<Rightarrow> (layer_type \<times> layer_state) list \<Rightarrow> string list \<Rightarrow>
    planned_action list \<times> planned_action list" where
  "truncateReshapes reshapes maxActions states sources =
    (let sorted = go_sort (reshape_before states) reshapes in
     (take (nat maxActions) sorted,
      map (\<lambda>r. mk_passive ActionHold (pa_layer r)
        (sprintf ''deferred to a later run: max_actions_per_run=%d reached (dropped reshape on %s)''
          [FInt maxActions, FStr (pa_layer r)]) sources) (drop (nat maxActions) sorted)))"

definition truncateToMaxActions :: "allocation list \<Rightarrow> planned_action list \<Rightarrow> int \<Rightarrow>
    (layer_type \<times> layer_state) list \<Rightarrow> string list \<Rightarrow>
    allocation list \<times> planned_action list \<times> planned_action list" where
  "truncateToMaxActions allocs reshapes maxActions states sources =
    (if int (length allocs) + int (length reshapes) \<le> maxActions then (allocs, reshapes, [])
     else if maxActions \<le> int (length reshapes) then
       (case truncateReshapes reshapes maxActions states sources of (keptReshapes, reshapeHolds) \<Rightarrow>
        case truncatePurchases allocs 0 maxActions sources of (_, allocHolds) \<Rightarrow>
          ([], keptReshapes, allocHolds @ reshapeHolds))
     else (case truncatePurchases allocs (maxActions - int (length reshapes)) maxActions sources of
       (kept, holds) \<Rightarrow> (kept, reshapes, holds)))"

section \<open>Buffer maintenance\<close>

fun detectReshapes :: "layer_spec list \<Rightarrow> (layer_type \<times> layer_state) list \<Rightarrow> f64 \<Rightarrow> string list \<Rightarrow>
    goerr + planned_action list \<times> planned_action list" where
  "detectReshapes [] states threshold sources = Inr ([], [])"
| "detectReshapes (ls # rest) states threshold sources =
    (if RoleBuffer \<notin> set (spec_roles ls) then detectReshapes rest states threshold sources
     else case map_of states (spec_type ls) of
       None \<Rightarrow> Inl nil_panic
     | Some st \<Rightarrow> (case st_existing st of
         None \<Rightarrow> Inl nil_panic
       | Some ex \<Rightarrow>
         rbind (detectReshapes rest states threshold sources) (\<lambda>(reshapes, holds).
           if feq ex (Fin 0) then Inr (reshapes, holds)
           else case st_utilization st of
             None \<Rightarrow> Inr (reshapes, mk_passive ActionHold (spec_type ls)
               (sprintf ''buffer layer %s: utilization unknown; reshape not evaluated'' [FStr (spec_type ls)])
               sources # holds)
           | Some u \<Rightarrow>
             if flt u threshold then
               Inr (mk_passive ActionReshape (spec_type ls)
                 (sprintf ''buffer layer %s: utilization %.1f%% is below threshold %.1f%%; reshape recommended''
                   [FStr (spec_type ls), FF64 u, FF64 threshold]) sources # reshapes, holds)
             else Inr (reshapes, holds))))"

section \<open>\<open>Allocate\<close>\<close>

definition buildResult :: "allocation_input \<Rightarrow> rat \<Rightarrow> rat \<Rightarrow> rat \<Rightarrow> rat \<Rightarrow> (layer_type \<rightharpoonup> rat) \<Rightarrow>
    planned_action list \<Rightarrow> planned_action list \<Rightarrow> goerr + allocate_result" where
  "buildResult i lowWater target existingTotal gap nets reshapes maintHolds =
    rbind (splitGap i gap nets lowWater target existingTotal) (\<lambda>split.
    rbind (applyCapGuardrail split (lc_max_hourly (ai_config i))) (\<lambda>capped.
      case dropSubMinimumAllocations capped (ai_sources i) of (kept, skipHolds) \<Rightarrow>
      case truncateToMaxActions kept reshapes (lc_max_actions (ai_config i)) (ai_states i) (ai_sources i) of
        (allocs, keptReshapes, truncHolds) \<Rightarrow>
        Inr \<lparr>ar_allocations = allocs, ar_reshapes = keptReshapes,
             ar_holds = maintHolds @ skipHolds @ truncHolds\<rparr>))"

definition allocate :: "allocation_input option \<Rightarrow> goerr + allocate_result" where
  "allocate inp = (case inp of
     None \<Rightarrow> Inl (Errorf ''allocation input must not be nil'' [])
   | Some i \<Rightarrow>
     guarded (validateAllocateInput i)
      (rbind (detectReshapes (ai_layers i) (ai_states i) (lc_util_threshold (ai_config i)) (ai_sources i))
        (\<lambda>(reshapes, maintHolds).
       if ub_low_water (ai_baseline i) = None then
         Inr (withMaintenance (baselineUnavailableHold i) reshapes maintHolds)
       else
         rbind (computeNetExisting (ai_layers i) (ai_states i)) (\<lambda>(nets, existingTotal).
         rbind (computeBaselineAndTarget i) (\<lambda>(lowWater, target).
         case ai_inflight i of None \<Rightarrow> Inl nil_panic | Some f \<Rightarrow>
         (case ratFromFloat ''in_flight_usd_hr'' f of
            Inl e \<Rightarrow> Inl (wrap_err ''in_flight_usd_hr: '' e)
          | Inr inFlight \<Rightarrow>
            let gap = minRat (target - existingTotal) (lowWater - existingTotal) - inFlight in
            if gap \<le> minAllocatableGap then
              Inr (withMaintenance (gapBelowMinHold gap lowWater target existingTotal inFlight i) reshapes maintHolds)
            else buildResult i lowWater target existingTotal gap nets reshapes maintHolds))))))"

end
