(* ===== verification/Ladder_Allocate_Facts.thy ===== *)
theory Ladder_Allocate_Facts
  imports Ladder_Allocate
begin

text \<open>
  What \<open>Allocate\<close> guarantees: the helper lemmas stage by stage (validation, net existing,
  gap split, cap, minimum, action limit), the decomposition of a successful run, and the
  properties of its result.
\<close>

section \<open>Inputs\<close>

lemma ratFromFloat_Inr [simp]: "ratFromFloat name v = Inr q \<longleftrightarrow> v = Fin q \<and> 0 \<le> q"
  by (cases v) (auto simp: ratFromFloat_def is_nan_def is_inf_def)

text \<open>A computation that does not end in a nil dereference.\<close>

definition no_panic :: "goerr + 'a \<Rightarrow> bool" where
  "no_panic r = (r \<noteq> Inl nil_panic)"

lemma no_panic_simps [simp]: "no_panic (Inr x)" "no_panic (Inl (Errorf fmt args))" "no_panic (Inl (wrap_err p e))"
  by (simp_all add: no_panic_def nil_panic_def wrap_err_def)

lemma no_panic_rbind [intro!]:
  "no_panic r \<Longrightarrow> (\<And>x. r = Inr x \<Longrightarrow> no_panic (f x)) \<Longrightarrow> no_panic (rbind r f)"
  by (cases r) (auto simp: no_panic_def)

lemma no_panic_guarded_Errorf:
  "(a = None \<Longrightarrow> no_panic r) \<Longrightarrow> (\<And>e. a = Some e \<Longrightarrow> e \<noteq> nil_panic) \<Longrightarrow> no_panic (guarded a r)"
  by (cases a) (auto simp: no_panic_def)

lemma no_panic_ratFromFloat [simp]: "no_panic (ratFromFloat name v)"
  by (cases v) (auto simp: ratFromFloat_def is_nan_def is_inf_def)

lemma layers_loop_flex:
  "layers_loop f b u layers = None \<Longrightarrow> f + (\<Sum>ls\<leftarrow>layers. count_role RoleFlex ls) = 1"
proof (induction layers arbitrary: f b u)
  case Nil
  then show ?case by (auto simp: validateRoleCounts_def split: if_splits)
next
  case (Cons ls layers)
  from Cons.prems have "layers_loop (f + count_role RoleFlex ls) (b + count_role RoleBase ls)
      (u + count_role RoleBuffer ls) layers = None" by simp
  from Cons.IH [OF this] show ?case by simp
qed

lemma layers_loop_buffer:
  "layers_loop f b u layers = None \<Longrightarrow> u + (\<Sum>ls\<leftarrow>layers. count_role RoleBuffer ls) \<le> 1"
proof (induction layers arbitrary: f b u)
  case Nil
  then show ?case by (auto simp: validateRoleCounts_def split: if_splits)
next
  case (Cons ls layers)
  from Cons.prems have "layers_loop (f + count_role RoleFlex ls) (b + count_role RoleBase ls)
      (u + count_role RoleBuffer ls) layers = None" by simp
  from Cons.IH [OF this] show ?case by simp
qed

lemma layers_loop_types:
  "layers_loop f b u layers = None \<Longrightarrow> ls \<in> set layers \<Longrightarrow> validate_layer_type (spec_type ls) = None"
proof (induction layers arbitrary: f b u)
  case Nil
  then show ?case by simp
next
  case (Cons x layers)
  from Cons.prems(1) have x: "validateLayerEnums x = None"
    and rest: "layers_loop (f + count_role RoleFlex x) (b + count_role RoleBase x)
      (u + count_role RoleBuffer x) layers = None" by simp_all
  from x have "validate_layer_type (spec_type x) = None" by (simp add: validateLayerEnums_def)
  with Cons.IH [OF rest] Cons.prems(2) show ?case by auto
qed

lemma validateLayerUniqueness_None:
  "validateLayerUniqueness seen layers = None \<Longrightarrow>
     distinct (map spec_type layers) \<and> seen \<inter> spec_type ` set layers = {}"
  by (induction seen layers rule: validateLayerUniqueness.induct) (auto split: if_splits)

lemma findLayerForRole_found:
  "findLayerForRole layers role = (t, True) \<Longrightarrow> \<exists>ls \<in> set layers. spec_type ls = t \<and> role \<in> set (spec_roles ls)"
  by (induction layers) (auto split: if_splits)

lemma findLayerForRole_exists:
  "ls \<in> set layers \<Longrightarrow> role \<in> set (spec_roles ls) \<Longrightarrow> snd (findLayerForRole layers role)"
  by (induction layers) auto

lemma count_role_sum_pos:
  "(\<Sum>ls\<leftarrow>layers. count_role r ls) = 1 \<Longrightarrow> \<exists>ls \<in> set layers. r \<in> set (spec_roles ls)"
  by (induction layers) (auto simp: count_role_def split: if_splits)

lemma validateAllocateInput_None:
  assumes "validateAllocateInput i = None"
  shows "ai_inflight i \<noteq> None"
    and "validate_ladder_config (ai_config i) = None"
    and "validateLayers (ai_layers i) = None"
    and "validateLayerStates (ai_layers i) (ai_states i) = None"
  using assms by (auto simp: validateAllocateInput_def split: if_splits)

lemma validateLayers_None:
  assumes "validateLayers layers = None"
  shows "distinct (map spec_type layers)"
    and "\<exists>t. findLayerForRole layers RoleFlex = (t, True)"
    and "(\<Sum>ls\<leftarrow>layers. count_role RoleBuffer ls) \<le> 1"
    and "\<forall>ls \<in> set layers. validate_layer_type (spec_type ls) = None"
proof -
  from assms have u: "validateLayerUniqueness {} layers = None" and l: "layers_loop 0 0 0 layers = None"
    by (auto simp: validateLayers_def)
  show "distinct (map spec_type layers)" using validateLayerUniqueness_None [OF u] by simp
  from layers_loop_flex [OF l] obtain ls where "ls \<in> set layers" "RoleFlex \<in> set (spec_roles ls)"
    using count_role_sum_pos by auto
  then show "\<exists>t. findLayerForRole layers RoleFlex = (t, True)"
    by (metis findLayerForRole_exists prod.collapse)
  show "(\<Sum>ls\<leftarrow>layers. count_role RoleBuffer ls) \<le> 1" using layers_loop_buffer [OF l] by simp
  show "\<forall>ls \<in> set layers. validate_layer_type (spec_type ls) = None" using layers_loop_types [OF l] by blast
qed

lemma validateLayerStates_entry:
  assumes "validateLayerStates layers states = None" and "ls \<in> set layers"
  obtains st ex xp where "map_of states (spec_type ls) = Some st" "st_existing st = Some ex" "st_expiring st = Some xp"
    "validateUtilizationPct (spec_type ls) (st_utilization st) = None"
proof -
  from assms have "check_each 0 (\<lambda>_ ls. validate_layer_state ls (map_of states (spec_type ls))) layers = None"
    by (simp add: validateLayerStates_def)
  from check_each_all [OF this assms(2)]
  have "validate_layer_state ls (map_of states (spec_type ls)) = None" by simp
  with that show thesis by (auto simp: validate_layer_state_def split: option.splits if_splits)
qed

section \<open>Existing coverage\<close>

text \<open>The net commitment of one layer, the specification \<open>computeNetExisting\<close> sums.\<close>

definition net_of :: "(layer_type \<times> layer_state) list \<Rightarrow> layer_type \<Rightarrow> rat" where
  "net_of states t = (case map_of states t of
     Some st \<Rightarrow> (case (st_existing st, st_expiring st) of (Some (Fin a), Some (Fin b)) \<Rightarrow> a - b | _ \<Rightarrow> 0)
   | None \<Rightarrow> 0)"

lemma net_loop_Inr:
  "net_loop states nets tot layers = Inr (nets', tot') \<Longrightarrow>
     tot' = tot + (\<Sum>ls\<leftarrow>layers. net_of states (spec_type ls)) \<and>
     (\<forall>ls \<in> set layers. 0 \<le> net_of states (spec_type ls)) \<and>
     (\<forall>t. nets' t = (if t \<in> spec_type ` set layers then Some (net_of states t) else nets t))"
proof (induction layers arbitrary: nets tot)
  case Nil
  then show ?case by simp
next
  case (Cons ls rest)
  from Cons.prems obtain st ex xp where st: "map_of states (spec_type ls) = Some st"
      "st_existing st = Some (Fin ex)" "st_expiring st = Some (Fin xp)"
    and n: "\<not> ex - xp < 0"
    and rest: "net_loop states (nets(spec_type ls \<mapsto> ex - xp)) (tot + (ex - xp)) rest = Inr (nets', tot')"
    by (auto simp: Let_def split: option.splits if_splits)
  have net: "net_of states (spec_type ls) = ex - xp" using st by (simp add: net_of_def)
  from Cons.IH [OF rest] net n show ?case by auto
qed

lemma computeNetExisting_Inr:
  assumes "computeNetExisting layers states = Inr (nets, tot)"
  shows "tot = (\<Sum>ls\<leftarrow>layers. net_of states (spec_type ls))" and "0 \<le> tot"
    and "ls \<in> set layers \<Longrightarrow> nets (spec_type ls) = Some (net_of states (spec_type ls))"
  using net_loop_Inr [OF assms [unfolded computeNetExisting_def]]
  by (auto intro: sum_list_nonneg_map)

lemma net_loop_no_panic:
  "validateLayerStates layers0 states = None \<Longrightarrow> set layers \<subseteq> set layers0 \<Longrightarrow>
     no_panic (net_loop states nets tot layers)"
proof (induction layers arbitrary: nets tot)
  case Nil
  then show ?case by simp
next
  case (Cons ls layers)
  from Cons.prems have "ls \<in> set layers0" by simp
  with Cons.prems(1) obtain st ex xp where st: "map_of states (spec_type ls) = Some st"
    "st_existing st = Some ex" "st_expiring st = Some xp" by (rule validateLayerStates_entry)
  then show ?case using Cons
    by (auto simp: Let_def)
qed

section \<open>Splitting the gap\<close>

lemma al_gap_mkAllocation [simp]: "al_gap (mkAllocation ctx layer g role why) = g"
  and al_layer_mkAllocation [simp]: "al_layer (mkAllocation ctx layer g role why) = layer"
  by (simp_all add: mkAllocation_def)

lemma computeBaseGap_Inr:
  assumes "computeBaseGap coreGap hasBase baseline baseLayer nets = Inr (baseGap, why)" and "0 \<le> coreGap"
  shows "0 \<le> baseGap" "baseGap \<le> coreGap" "\<not> hasBase \<Longrightarrow> baseGap = 0"
  using assms by (auto simp: computeBaseGap_def Let_def split: if_splits option.splits)

lemma assembleAllocations_total:
  assumes "0 \<le> baseGap" "0 \<le> flexGap" "0 \<le> bufferGap" "\<not> hasBase \<Longrightarrow> baseGap = 0"
  shows "alloc_total (assembleAllocations ctx baseGap flexGap bufferGap bl xl ul hasBase) =
    baseGap + flexGap + bufferGap"
  using assms by (auto simp: assembleAllocations_def alloc_total_def)

lemma assembleAllocations_pos:
  "a \<in> set (assembleAllocations ctx baseGap flexGap bufferGap bl xl ul hasBase) \<Longrightarrow> 0 < al_gap a"
  by (auto simp: assembleAllocations_def split: if_splits)

lemma assembleAllocations_layer:
  assumes "a \<in> set (assembleAllocations ctx baseGap flexGap bufferGap bl xl ul hasBase)"
  shows "al_layer a = xl \<or> (hasBase \<and> al_layer a = bl) \<or> (0 < bufferGap \<and> al_layer a = ul)"
  using assms by (auto simp: assembleAllocations_def split: if_splits)

lemma splitGap_Inr:
  assumes s: "splitGap i gap nets lowWater target existingTotal = Inr split"
    and v: "validateAllocateInput i = None" and g: "0 \<le> gap"
  shows "alloc_total split = gap" and "\<forall>a \<in> set split. 0 < al_gap a"
    and "\<forall>a \<in> set split. al_layer a \<in> spec_type ` set (ai_layers i)"
proof -
  obtain xl where xl: "findLayerForRole (ai_layers i) RoleFlex = (xl, True)"
    using validateLayers_None(2) [OF validateAllocateInput_None(3) [OF v]] by blast
  obtain bl hb where b: "findLayerForRole (ai_layers i) RoleBase = (bl, hb)" by (cases "findLayerForRole (ai_layers i) RoleBase")
  obtain ul hu where u: "findLayerForRole (ai_layers i) RoleBuffer = (ul, hu)" by (cases "findLayerForRole (ai_layers i) RoleBuffer")
  obtain f where f: "lc_buffer_fraction (ai_config i) = Fin f" "0 \<le> f" "f < 1"
    using validate_ladder_config_None(2) [OF validateAllocateInput_None(2) [OF v]] by blast
  have core: "0 \<le> gap - gap * f" "0 \<le> gap * f"
    using g f mult_left_mono [of f 1 gap] by auto
  from s f xl b u obtain baseGap why ctx where
      cb: "computeBaseGap (gap - gap * f) hb (ai_baseline i) bl nets = Inr (baseGap, why)"
    and nb: "\<not> (0 < gap * f \<and> \<not> hu)"
    and split: "split = assembleAllocations ctx baseGap (gap - gap * f - baseGap) (gap * f) bl xl ul hb"
    by (auto simp: splitGap_def Let_def split: if_splits)
  note base = computeBaseGap_Inr [OF cb core(1)]
  show "alloc_total split = gap"
    using base core by (simp add: split assembleAllocations_total)
  show "\<forall>a \<in> set split. 0 < al_gap a"
    by (auto simp: split dest: assembleAllocations_pos)
  have found: "t \<in> spec_type ` set (ai_layers i)" if "findLayerForRole (ai_layers i) role = (t, True)" for role t
    using findLayerForRole_found [OF that] by auto
  show "\<forall>a \<in> set split. al_layer a \<in> spec_type ` set (ai_layers i)"
  proof
    fix a assume "a \<in> set split"
    from assembleAllocations_layer [OF this [unfolded split]]
    have "al_layer a = xl \<or> hb \<and> al_layer a = bl \<or> hu \<and> al_layer a = ul" using nb by blast
    then show "al_layer a \<in> spec_type ` set (ai_layers i)"
      using found [OF xl] found b u by auto
  qed
qed

section \<open>Guardrails\<close>

lemma scale_allocation_simps [simp]:
  "al_gap (scale_allocation k p a) = al_gap a * k" "al_layer (scale_allocation k p a) = al_layer a"
  by (simp_all add: scale_allocation_def)

lemma applyCapGuardrail_layers:
  "applyCapGuardrail as m = Inr bs \<Longrightarrow> map al_layer bs = map al_layer as"
  by (auto simp: applyCapGuardrail_def Let_def split: if_splits option.splits)

text \<open>Either nothing changes and the total is within the cap, or everything is scaled to it.\<close>

lemma applyCapGuardrail_cases:
  assumes "applyCapGuardrail as m = Inr bs"
  obtains (within) "bs = as" "\<And>c. m = Some (Fin c) \<Longrightarrow> 0 \<le> c \<Longrightarrow> alloc_total as \<le> c"
  | (scaled) q where "m = Some (Fin q)" "0 \<le> q" "q < alloc_total as" "0 < alloc_total as"
      "bs = map (scale_allocation (q / alloc_total as) (fl (q / alloc_total as * 100))) as"
proof (cases "\<exists>q. m = Some (Fin q) \<and> as \<noteq> [] \<and> 0 < alloc_total as \<and> q < alloc_total as")
  case True
  with assms scaled show thesis by (auto simp: applyCapGuardrail_def Let_def not_le split: if_splits)
next
  case False
  have "bs = as" using assms False
    by (auto simp: applyCapGuardrail_def Let_def split: if_splits option.splits)
  moreover have "alloc_total as \<le> c" if "m = Some (Fin c)" "0 \<le> c" for c
  proof (cases "as = [] \<or> alloc_total as \<le> 0")
    case True
    then show ?thesis using that by (auto simp: alloc_total_def)
  next
    case nonempty: False
    with False that show ?thesis by auto
  qed
  ultimately show thesis by (rule within)
qed

lemma alloc_total_scale: "alloc_total (map (scale_allocation k p) as) = alloc_total as * k"
  by (induction as) (auto simp: alloc_total_def algebra_simps)

lemma applyCapGuardrail_total:
  assumes c: "applyCapGuardrail as m = Inr bs" and pos: "\<forall>a \<in> set as. 0 < al_gap a"
  shows "alloc_total bs \<le> alloc_total as" and "m = Some (Fin c) \<Longrightarrow> 0 \<le> c \<Longrightarrow> alloc_total bs \<le> c"
    and "\<forall>b \<in> set bs. 0 \<le> al_gap b"
  using c
proof (atomize (full), cases rule: applyCapGuardrail_cases)
  case within
  then show "alloc_total bs \<le> alloc_total as \<and> (m = Some (Fin c) \<longrightarrow> 0 \<le> c \<longrightarrow> alloc_total bs \<le> c) \<and>
    (\<forall>b \<in> set bs. 0 \<le> al_gap b)" using pos by force
next
  case (scaled q)
  then have "alloc_total bs = q" by (simp add: alloc_total_scale)
  moreover have "\<forall>b \<in> set bs. 0 \<le> al_gap b" using scaled less_imp_le [OF pos [rule_format]]
    by (auto simp: less_imp_le)
  ultimately show "alloc_total bs \<le> alloc_total as \<and> (m = Some (Fin c) \<longrightarrow> 0 \<le> c \<longrightarrow> alloc_total bs \<le> c) \<and>
    (\<forall>b \<in> set bs. 0 \<le> al_gap b)" using scaled by auto
qed

lemma dropSubMinimumAllocations_kept:
  "fst (dropSubMinimumAllocations as src) = filter (\<lambda>a. minAllocatableGap \<le> al_gap a) as"
  by (induction as) (auto split: prod.splits)

lemma dropSubMinimumAllocations_holds:
  "snd (dropSubMinimumAllocations as src) = map (skip_hold src) (filter (\<lambda>a. al_gap a < minAllocatableGap) as)"
  by (induction as) (auto split: prod.splits)

interpretation alloc_order: weak_order alloc_before
  by unfold_locales (auto simp: alloc_before_def)

lemma truncatePurchases_set:
  "set (fst (truncatePurchases as n m src)) \<subseteq> set as"
  by (auto simp: truncatePurchases_def Let_def dest!: in_set_takeD)

lemma truncatePurchases_conserves:
  assumes "a \<in> set as"
  shows "a \<in> set (fst (truncatePurchases as n m src)) \<or> defer_hold m src a \<in> set (snd (truncatePurchases as n m src))"
proof -
  have "a \<in> set (take (nat n) (go_sort alloc_before as) @ drop (nat n) (go_sort alloc_before as))"
    using assms by simp
  then show ?thesis by (auto simp: truncatePurchases_def Let_def simp del: append_take_drop_id)
qed

lemma truncatePurchases_total:
  assumes "\<forall>a \<in> set as. 0 \<le> al_gap a"
  shows "alloc_total (fst (truncatePurchases as n m src)) \<le> alloc_total as"
proof -
  have "alloc_total (take (nat n) (go_sort alloc_before as)) \<le> alloc_total (go_sort alloc_before as)"
    unfolding alloc_total_def using assms by (intro sum_list_take_le) simp
  also have "\<dots> = alloc_total as" by (simp add: alloc_total_def sum_list_mset_eq [of "go_sort alloc_before as" as])
  finally show ?thesis by (simp add: truncatePurchases_def Let_def)
qed

lemma truncateToMaxActions_cases:
  assumes "truncateToMaxActions as rs m states src = (ks, krs, hs)"
  shows "ks = as \<and> hs = [] \<and> krs = rs \<or>
    (\<exists>n. ks = fst (truncatePurchases as n m src) \<and>
       set (snd (truncatePurchases as n m src)) \<subseteq> set hs)"
  using assms
  by (auto simp: truncateToMaxActions_def truncatePurchases_def Let_def split: if_splits prod.splits)

section \<open>Buffer maintenance\<close>

lemma pa_mk_passive [simp]:
  "pa_action (mk_passive k l w src) = k" "pa_layer (mk_passive k l w src) = l"
  "pa_rationale (mk_passive k l w src) = w"
  by (simp_all add: mk_passive_def)

lemma mk_passive_inj [simp]: "mk_passive k l w src = mk_passive k l w' src \<longleftrightarrow> w = w'"
  by (simp add: mk_passive_def)

lemma validate_mk_passive:
  assumes "k = ActionHold \<or> k = ActionReshape"
  shows "validate_action (mk_passive k l w src) = None \<longleftrightarrow> validate_layer_type l = None \<and> w \<noteq> []"
proof -
  have "pa_action (mk_passive k l w src) = ActionHold \<or> pa_action (mk_passive k l w src) = ActionReshape"
    using assms by simp
  from validate_action_passive_iff [OF this] show ?thesis by (simp add: mk_passive_def)
qed

lemma detectReshapes_length:
  "detectReshapes layers states thr src = Inr (rs, hs) \<Longrightarrow>
     int (length rs) \<le> (\<Sum>ls\<leftarrow>layers. count_role RoleBuffer ls)"
proof (induction layers arbitrary: rs hs)
  case Nil
  then show ?case by simp
next
  case (Cons ls layers)
  show ?case
  proof (cases "RoleBuffer \<in> set (spec_roles ls)")
    case False
    with Cons show ?thesis by (auto simp: count_role_def)
  next
    case True
    with Cons.prems obtain rs' hs' where rec: "detectReshapes layers states thr src = Inr (rs', hs')"
      and le: "length rs \<le> Suc (length rs')"
      by (auto split: option.splits if_splits)
    from Cons.IH [OF rec] le True show ?thesis by (simp add: count_role_def)
  qed
qed

lemma detectReshapes_valid:
  "detectReshapes layers states thr src = Inr (rs, hs) \<Longrightarrow>
     \<forall>ls \<in> set layers. validate_layer_type (spec_type ls) = None \<Longrightarrow>
     \<forall>a \<in> set rs \<union> set hs. validate_action a = None"
proof (induction layers arbitrary: rs hs)
  case Nil
  then show ?case by simp
next
  case (Cons ls layers)
  show ?case
  proof (cases "RoleBuffer \<in> set (spec_roles ls)")
    case False
    with Cons show ?thesis by auto
  next
    case True
    with Cons.prems(1) obtain rs' hs' where rec: "detectReshapes layers states thr src = Inr (rs', hs')"
      and cs: "(rs = rs' \<and> hs = hs') \<or>
        (\<exists>w. w \<noteq> [] \<and> rs = rs' \<and> hs = mk_passive ActionHold (spec_type ls) w src # hs') \<or>
        (\<exists>w. w \<noteq> [] \<and> hs = hs' \<and> rs = mk_passive ActionReshape (spec_type ls) w src # rs')"
      by (auto split: option.splits if_splits simp: sprintf_nonempty)
    from Cons.prems(2) have ih: "\<forall>a \<in> set rs' \<union> set hs'. validate_action a = None"
      and l: "validate_layer_type (spec_type ls) = None" using Cons.IH [OF rec] by auto
    from cs ih l show ?thesis by (elim disjE exE conjE) (auto simp: validate_mk_passive)
  qed
qed

lemma no_panic_detectReshapes:
  "validateLayerStates layers0 states = None \<Longrightarrow> set layers \<subseteq> set layers0 \<Longrightarrow>
     no_panic (detectReshapes layers states thr src)"
proof (induction layers)
  case Nil
  then show ?case by simp
next
  case (Cons ls layers)
  from Cons.prems have "ls \<in> set layers0" by simp
  with Cons.prems(1) obtain st ex xp where "map_of states (spec_type ls) = Some st"
    "st_existing st = Some ex" "st_expiring st = Some xp" by (rule validateLayerStates_entry)
  then show ?case using Cons by (auto split: option.split)
qed

section \<open>A successful run\<close>

lemma computeBaselineAndTarget_Inr:
  "computeBaselineAndTarget i = Inr (lw, tgt) \<longleftrightarrow>
     (\<exists>p. ub_low_water (ai_baseline i) = Some (Fin lw) \<and> 0 \<le> lw \<and>
        lc_target_pct (ai_config i) = Fin p \<and> 0 \<le> p \<and> tgt = lw * (p / 100))"
  by (auto simp: computeBaselineAndTarget_def split: option.splits)

text \<open>The gap the run has to close, from the provider's numbers.\<close>

definition existing_total :: "allocation_input \<Rightarrow> rat" where
  "existing_total i = (\<Sum>ls\<leftarrow>ai_layers i. net_of (ai_states i) (spec_type ls))"

definition low_water :: "allocation_input \<Rightarrow> rat" where
  "low_water i = (case ub_low_water (ai_baseline i) of Some w \<Rightarrow> rat_of_f64 w | None \<Rightarrow> 0)"

definition in_flight :: "allocation_input \<Rightarrow> rat" where
  "in_flight i = (case ai_inflight i of Some w \<Rightarrow> rat_of_f64 w | None \<Rightarrow> 0)"

definition target_of :: "allocation_input \<Rightarrow> rat" where
  "target_of i = low_water i * (rat_of_f64 (lc_target_pct (ai_config i)) / 100)"

definition gap_of :: "allocation_input \<Rightarrow> rat" where
  "gap_of i = target_of i - existing_total i - in_flight i"

lemma target_le_low_water:
  assumes "validateAllocateInput i = None" "0 \<le> low_water i"
  shows "target_of i \<le> low_water i"
proof -
  obtain p where "lc_target_pct (ai_config i) = Fin p" "0 < p" "p \<le> 100"
    using validate_ladder_config_None(1) [OF validateAllocateInput_None(2) [OF assms(1)]] by blast
  then show ?thesis using assms(2) mult_left_mono [of "p / 100" 1 "low_water i"] by (simp add: target_of_def)
qed

lemma buildResult_Inr:
  assumes "buildResult i lw tgt tot gap nets rs hs = Inr r"
  obtains split capped th where "splitGap i gap nets lw tgt tot = Inr split"
    "applyCapGuardrail split (lc_max_hourly (ai_config i)) = Inr capped"
    "truncateToMaxActions (fst (dropSubMinimumAllocations capped (ai_sources i))) rs
       (lc_max_actions (ai_config i)) (ai_states i) (ai_sources i) = (ar_allocations r, ar_reshapes r, th)"
    "ar_holds r = hs @ snd (dropSubMinimumAllocations capped (ai_sources i)) @ th"
proof -
  from assms obtain split capped where sc: "splitGap i gap nets lw tgt tot = Inr split"
    "applyCapGuardrail split (lc_max_hourly (ai_config i)) = Inr capped"
    by (auto simp: buildResult_def)
  obtain kept skip where ks: "dropSubMinimumAllocations capped (ai_sources i) = (kept, skip)"
    by (cases "dropSubMinimumAllocations capped (ai_sources i)")
  obtain al krs th where t: "truncateToMaxActions kept rs
       (lc_max_actions (ai_config i)) (ai_states i) (ai_sources i) = (al, krs, th)"
    by (cases "truncateToMaxActions kept rs (lc_max_actions (ai_config i)) (ai_states i) (ai_sources i)") auto
  from assms have "r = \<lparr>ar_allocations = al, ar_reshapes = krs, ar_holds = hs @ skip @ th\<rparr>"
    by (simp add: buildResult_def sc ks t)
  with sc t show thesis by (intro that [OF sc]) (simp_all add: ks)
qed

lemma allocate_cases:
  assumes "allocate (Some i) = Inr r"
  obtains (hold) rs hs h where "validateAllocateInput i = None"
      "detectReshapes (ai_layers i) (ai_states i) (lc_util_threshold (ai_config i)) (ai_sources i) = Inr (rs, hs)"
      "ar_allocations r = []" "ar_reshapes r = rs" "ar_holds r = h # hs" "pa_action h = ActionHold"
      "validate_action h = None" "ub_low_water (ai_baseline i) = None \<or> gap_of i \<le> minAllocatableGap"
  | (run) rs hs nets split capped th where "validateAllocateInput i = None"
      "detectReshapes (ai_layers i) (ai_states i) (lc_util_threshold (ai_config i)) (ai_sources i) = Inr (rs, hs)"
      "ub_low_water (ai_baseline i) \<noteq> None" "0 \<le> low_water i" "minAllocatableGap < gap_of i"
      "splitGap i (gap_of i) nets (low_water i) (target_of i) (existing_total i) = Inr split"
      "applyCapGuardrail split (lc_max_hourly (ai_config i)) = Inr capped"
      "truncateToMaxActions (fst (dropSubMinimumAllocations capped (ai_sources i))) rs
         (lc_max_actions (ai_config i)) (ai_states i) (ai_sources i) =
         (ar_allocations r, ar_reshapes r, th)"
      "ar_holds r = hs @ snd (dropSubMinimumAllocations capped (ai_sources i)) @ th"
proof -
  from assms obtain rs hs where v: "validateAllocateInput i = None"
    and d: "detectReshapes (ai_layers i) (ai_states i) (lc_util_threshold (ai_config i)) (ai_sources i) = Inr (rs, hs)"
    by (auto simp: allocate_def)
  note ls = validateLayers_None [OF validateAllocateInput_None(3) [OF v]]
  have flex: "validate_layer_type (fst (findLayerForRole (ai_layers i) RoleFlex)) = None"
    using ls(2,4) findLayerForRole_found by fastforce
  show thesis
  proof (cases "ub_low_water (ai_baseline i)")
    case None
    with assms v d have "r = withMaintenance (baselineUnavailableHold i) rs hs" by (simp add: allocate_def)
    with v d None flex show thesis
      by (intro hold) (auto simp: withMaintenance_def baselineUnavailableHold_def validate_mk_passive)
  next
    case (Some w)
    obtain f0 where f0: "ai_inflight i = Some f0" using validateAllocateInput_None(1) [OF v] by auto
    from assms v d Some f0 obtain nets tot lw tgt where
        n: "computeNetExisting (ai_layers i) (ai_states i) = Inr (nets, tot)"
      and b: "computeBaselineAndTarget i = Inr (lw, tgt)"
      and cont: "(case ratFromFloat ''in_flight_usd_hr'' f0 of
          Inl e \<Rightarrow> Inl (wrap_err ''in_flight_usd_hr: '' e)
        | Inr inFlight \<Rightarrow> (let gap = minRat (tgt - tot) (lw - tot) - inFlight in
            if gap \<le> minAllocatableGap then Inr (withMaintenance (gapBelowMinHold gap lw tgt tot inFlight i) rs hs)
            else buildResult i lw tgt tot gap nets rs hs)) = Inr r"
      by (auto simp: allocate_def)
    then obtain f where rf: "ratFromFloat ''in_flight_usd_hr'' f0 = Inr f"
      by (cases "ratFromFloat ''in_flight_usd_hr'' f0") auto
    then have f: "ai_inflight i = Some (Fin f)" "0 \<le> f" using f0 by auto
    have res: "(let gap = minRat (tgt - tot) (lw - tot) - f in
            if gap \<le> minAllocatableGap then Inr (withMaintenance (gapBelowMinHold gap lw tgt tot f i) rs hs)
            else buildResult i lw tgt tot gap nets rs hs) = Inr r"
      using cont unfolding rf by simp
    have tot: "tot = existing_total i" using computeNetExisting_Inr(1) [OF n] by (simp add: existing_total_def)
    have lw: "lw = low_water i" "tgt = target_of i" "0 \<le> low_water i"
      using b by (auto simp: computeBaselineAndTarget_Inr low_water_def target_of_def)
    have "minRat (tgt - tot) (lw - tot) - f = gap_of i"
      using target_le_low_water [OF v lw(3)] f by (simp add: minRat_def gap_of_def lw tot in_flight_def)
    with res have res: "(if gap_of i \<le> minAllocatableGap
        then Inr (withMaintenance (gapBelowMinHold (gap_of i) lw tgt tot f i) rs hs)
        else buildResult i lw tgt tot (gap_of i) nets rs hs) = Inr r" by (simp add: Let_def)
    show thesis
    proof (cases "gap_of i \<le> minAllocatableGap")
      case True
      with res have r: "r = withMaintenance (gapBelowMinHold (gap_of i) lw tgt tot f i) rs hs" by simp
      show thesis
        by (rule hold [OF v d, where h = "hd (ar_holds r)"])
          (use r flex True in \<open>simp_all add: withMaintenance_def gapBelowMinHold_def validate_mk_passive sprintf_nonempty\<close>)
    next
      case False
      with res have "buildResult i lw tgt tot (gap_of i) nets rs hs = Inr r" by simp
      then obtain split capped th where "splitGap i (gap_of i) nets lw tgt tot = Inr split"
        "applyCapGuardrail split (lc_max_hourly (ai_config i)) = Inr capped"
        "truncateToMaxActions (fst (dropSubMinimumAllocations capped (ai_sources i))) rs
           (lc_max_actions (ai_config i)) (ai_states i) (ai_sources i) =
           (ar_allocations r, ar_reshapes r, th)"
        "ar_holds r = hs @ snd (dropSubMinimumAllocations capped (ai_sources i)) @ th"
        by (rule buildResult_Inr)
      with v d Some False lw tot show thesis by (intro run) auto
    qed
  qed
qed

section \<open>What the guardrails leave\<close>

lemma alloc_total_split_filter:
  "alloc_total (filter P as) + alloc_total (filter (\<lambda>a. \<not> P a) as) = alloc_total as"
  by (induction as) (auto simp: alloc_total_def)

lemma alloc_total_append [simp]: "alloc_total (as @ bs) = alloc_total as + alloc_total bs"
  by (simp add: alloc_total_def)

lemma alloc_total_mset: "mset as = mset bs \<Longrightarrow> alloc_total as = alloc_total bs"
  unfolding alloc_total_def by (rule sum_list_mset_eq)

lemma alloc_total_nonneg: "\<forall>a \<in> set as. 0 \<le> al_gap a \<Longrightarrow> 0 \<le> alloc_total as"
  by (auto simp: alloc_total_def intro: sum_list_nonneg_map)

lemma truncatePurchases_split:
  obtains dropped where "mset as = mset (fst (truncatePurchases as n m src)) + mset dropped"
    "snd (truncatePurchases as n m src) = map (defer_hold m src) dropped"
    "\<forall>d \<in> set dropped. \<forall>k \<in> set (fst (truncatePurchases as n m src)). \<not> alloc_before d k"
proof
  let ?s = "go_sort alloc_before as"
  have "mset as = mset (take (nat n) ?s @ drop (nat n) ?s)" by simp
  then show "mset as = mset (fst (truncatePurchases as n m src)) + mset (drop (nat n) ?s)"
    by (simp add: truncatePurchases_def Let_def del: append_take_drop_id)
  show "snd (truncatePurchases as n m src) = map (defer_hold m src) (drop (nat n) ?s)"
    by (simp add: truncatePurchases_def Let_def)
  show "\<forall>d \<in> set (drop (nat n) ?s). \<forall>k \<in> set (fst (truncatePurchases as n m src)). \<not> alloc_before d k"
    by (simp add: truncatePurchases_def Let_def alloc_order.go_sort_take_drop)
qed

lemma truncateToMaxActions_split:
  assumes "truncateToMaxActions as rs m states src = (ks, krs, th)"
  obtains dropped where "mset as = mset ks + mset dropped"
    "\<forall>d \<in> set dropped. defer_hold m src d \<in> set th \<and> (\<forall>k \<in> set ks. \<not> alloc_before d k)"
  using truncateToMaxActions_cases [OF assms]
proof (elim disjE exE conjE)
  assume "ks = as" "th = []"
  then show thesis by (intro that [of "[]"]) simp_all
next
  fix n assume ks: "ks = fst (truncatePurchases as n m src)" "set (snd (truncatePurchases as n m src)) \<subseteq> set th"
  obtain dropped where "mset as = mset ks + mset dropped"
    "snd (truncatePurchases as n m src) = map (defer_hold m src) dropped"
    "\<forall>d \<in> set dropped. \<forall>k \<in> set ks. \<not> alloc_before d k"
    using truncatePurchases_split [of as n m src] unfolding ks(1) by blast
  with ks(2) show thesis by (intro that [of dropped]) auto
qed

lemma truncateToMaxActions_length:
  assumes "truncateToMaxActions as rs m states src = (ks, krs, th)" and "0 < m"
  shows "int (length ks) + int (length krs) \<le> m"
  using assms by (auto simp: truncateToMaxActions_def truncatePurchases_def truncateReshapes_def Let_def
      split: if_splits)

lemma truncateToMaxActions_reshapes:
  assumes "truncateToMaxActions as rs m states src = (ks, krs, th)"
  shows "set krs \<subseteq> set rs"
  using assms by (auto simp: truncateToMaxActions_def truncatePurchases_def truncateReshapes_def Let_def
      split: if_splits dest!: in_set_takeD)

lemma truncateToMaxActions_holds:
  assumes "truncateToMaxActions as rs m states src = (ks, krs, th)" and "h \<in> set th"
  shows "\<exists>w. w \<noteq> [] \<and> pa_layer h \<in> al_layer ` set as \<union> pa_layer ` set rs \<and> h = mk_passive ActionHold (pa_layer h) w src"
  using assms
  by (auto simp: truncateToMaxActions_def truncatePurchases_def truncateReshapes_def defer_hold_def Let_def
      sprintf_nonempty split: if_splits dest!: in_set_dropD)

text \<open>The spending cap as a function of the requested amount.\<close>

definition spec_cap :: "f64 option \<Rightarrow> rat \<Rightarrow> rat" where
  "spec_cap m x = (case m of None \<Rightarrow> x | Some v \<Rightarrow> min (rat_of_f64 v) x)"

lemma applyCapGuardrail_spec:
  assumes c: "applyCapGuardrail as m = Inr bs" and pos: "\<forall>a \<in> set as. 0 < al_gap a"
    and fin: "\<And>v. m = Some v \<Longrightarrow> \<exists>q. v = Fin q \<and> 0 < q"
  shows "alloc_total bs = spec_cap m (alloc_total as)"
  using c
proof (cases rule: applyCapGuardrail_cases)
  case within
  then show ?thesis
  proof (cases m)
    case (Some v)
    with fin obtain q where "m = Some (Fin q)" "0 < q" by blast
    with within show ?thesis by (auto simp: spec_cap_def)
  qed (simp add: spec_cap_def)
next
  case (scaled q)
  then show ?thesis by (auto simp: spec_cap_def alloc_total_scale)
qed

section \<open>The decomposition in terms of the requested amounts\<close>

lemma hold_fields:
  "pa_action (skip_hold src d) = ActionHold" "pa_layer (skip_hold src d) = al_layer d"
  "pa_action (defer_hold m src d) = ActionHold" "pa_layer (defer_hold m src d) = al_layer d"
  by (simp_all add: skip_hold_def defer_hold_def)

text \<open>The allocations a run dropped, with what is known of them and of those it kept.\<close>

definition run_dropped :: "allocation_input \<Rightarrow> allocate_result \<Rightarrow> allocation list \<Rightarrow> bool" where
  "run_dropped i r dropped \<longleftrightarrow>
    alloc_total (ar_allocations r) + alloc_total dropped = spec_cap (lc_max_hourly (ai_config i)) (gap_of i) \<and>
    (\<forall>a \<in> set (ar_allocations r) \<union> set dropped. 0 \<le> al_gap a \<and> al_layer a \<in> spec_type ` set (ai_layers i)) \<and>
    (\<forall>a \<in> set (ar_allocations r). minAllocatableGap \<le> al_gap a) \<and>
    (\<forall>d \<in> set dropped. (al_gap d < minAllocatableGap \<or> (\<forall>k \<in> set (ar_allocations r). \<not> alloc_before d k)) \<and>
       (\<exists>h \<in> set (ar_holds r). pa_action h = ActionHold \<and> pa_layer h = al_layer d)) \<and>
    int (length (ar_allocations r)) + int (length (ar_reshapes r)) \<le> lc_max_actions (ai_config i)"

lemma run_droppedD:
  assumes "run_dropped i r dropped"
  shows "alloc_total (ar_allocations r) + alloc_total dropped = spec_cap (lc_max_hourly (ai_config i)) (gap_of i)"
    and "a \<in> set (ar_allocations r) \<Longrightarrow> al_layer a \<in> spec_type ` set (ai_layers i) \<and> minAllocatableGap \<le> al_gap a"
    and "d \<in> set dropped \<Longrightarrow> al_gap d < minAllocatableGap \<or> (\<forall>k \<in> set (ar_allocations r). \<not> alloc_before d k)"
    and "d \<in> set dropped \<Longrightarrow> \<exists>h \<in> set (ar_holds r). pa_action h = ActionHold \<and> pa_layer h = al_layer d"
    and "int (length (ar_allocations r)) + int (length (ar_reshapes r)) \<le> lc_max_actions (ai_config i)"
    and "0 \<le> alloc_total dropped"
  using assms unfolding run_dropped_def by (simp_all add: alloc_total_nonneg)

lemma capped_layers:
  assumes "validateAllocateInput i = None" "minAllocatableGap < gap_of i"
    and "splitGap i (gap_of i) nets lw tgt tot = Inr split" "applyCapGuardrail split m = Inr capped"
  shows "\<forall>a \<in> set capped. al_layer a \<in> spec_type ` set (ai_layers i)"
proof -
  have "0 \<le> gap_of i" using assms(2) by (simp add: minAllocatableGap_def)
  note sp = splitGap_Inr(3) [OF assms(3,1) this]
  from applyCapGuardrail_layers [OF assms(4)] have "al_layer ` set capped = al_layer ` set split"
    by (metis list.set_map)
  then show ?thesis using sp by (simp flip: image_subset_iff)
qed

lemma allocate_run_facts:
  assumes "allocate (Some i) = Inr r" and "ub_low_water (ai_baseline i) \<noteq> None" and "minAllocatableGap < gap_of i"
  shows "\<exists>dropped. run_dropped i r dropped"
  using assms(1)
proof (cases rule: allocate_cases)
  case (hold rs hs h)
  with assms show ?thesis by auto
next
  case (run rs hs nets split capped th)
  note vc = validateAllocateInput_None(2) [OF run(1)]
  have gap: "0 \<le> gap_of i" using run(5) by (simp add: minAllocatableGap_def)
  note sp = splitGap_Inr [OF run(6) run(1) gap]
  have tot: "alloc_total capped = spec_cap (lc_max_hourly (ai_config i)) (gap_of i)"
    using applyCapGuardrail_spec [OF run(7) sp(2)] validate_ladder_config_None(5) [OF vc] sp(1) by simp
  note nn = applyCapGuardrail_total(3) [OF run(7) sp(2)]
  note lay = capped_layers [OF run(1,5,6,7)]
  let ?kept = "filter (\<lambda>a. minAllocatableGap \<le> al_gap a) capped"
  let ?skip = "filter (\<lambda>a. \<not> minAllocatableGap \<le> al_gap a) capped"
  have trunc: "truncateToMaxActions ?kept rs (lc_max_actions (ai_config i)) (ai_states i) (ai_sources i) =
      (ar_allocations r, ar_reshapes r, th)"
    using run(8) by (simp add: dropSubMinimumAllocations_kept)
  obtain dr where dr: "mset ?kept = mset (ar_allocations r) + mset dr"
    "\<forall>d \<in> set dr. defer_hold (lc_max_actions (ai_config i)) (ai_sources i) d \<in> set th \<and>
      (\<forall>k \<in> set (ar_allocations r). \<not> alloc_before d k)"
    using truncateToMaxActions_split [OF trunc] by blast
  have sub: "set ?kept = set (ar_allocations r) \<union> set dr"
    by (metis dr(1) set_mset_mset set_mset_union)
  have holds: "set (ar_holds r) = set hs \<union> skip_hold (ai_sources i) ` set ?skip \<union> set th"
    using run(9) by (auto simp: dropSubMinimumAllocations_holds not_le)
  show ?thesis unfolding run_dropped_def
  proof (intro exI [of _ "?skip @ dr"] conjI)
    have "alloc_total ?kept = alloc_total (ar_allocations r) + alloc_total dr"
      using alloc_total_mset [of ?kept "ar_allocations r @ dr"] dr(1) by simp
    then show "alloc_total (ar_allocations r) + alloc_total (?skip @ dr) =
        spec_cap (lc_max_hourly (ai_config i)) (gap_of i)"
      using tot alloc_total_split_filter [of "\<lambda>a. minAllocatableGap \<le> al_gap a" capped] by simp
    show "\<forall>a \<in> set (ar_allocations r) \<union> set (?skip @ dr). 0 \<le> al_gap a \<and> al_layer a \<in> spec_type ` set (ai_layers i)"
      using sub nn lay by auto
    show "\<forall>a \<in> set (ar_allocations r). minAllocatableGap \<le> al_gap a" using sub by auto
    show "int (length (ar_allocations r)) + int (length (ar_reshapes r)) \<le> lc_max_actions (ai_config i)"
      by (rule truncateToMaxActions_length [OF trunc validate_ladder_config_None(4) [OF vc]])
    have "\<exists>h \<in> set (ar_holds r). pa_action h = ActionHold \<and> pa_layer h = al_layer d"
      if "d \<in> set ?skip \<union> set dr" for d
    proof -
      have "skip_hold (ai_sources i) d \<in> set (ar_holds r) \<or>
          defer_hold (lc_max_actions (ai_config i)) (ai_sources i) d \<in> set (ar_holds r)"
        using that holds dr(2) by auto
      then show ?thesis by (metis hold_fields)
    qed
    then show "\<forall>d \<in> set (?skip @ dr). (al_gap d < minAllocatableGap \<or> (\<forall>k \<in> set (ar_allocations r). \<not> alloc_before d k)) \<and>
       (\<exists>h \<in> set (ar_holds r). pa_action h = ActionHold \<and> pa_layer h = al_layer d)"
      using dr(2) by auto
  qed
qed

lemma allocate_no_run:
  assumes "allocate (Some i) = Inr r" and "ub_low_water (ai_baseline i) = None \<or> gap_of i \<le> minAllocatableGap"
  shows "ar_allocations r = []" and "ar_holds r \<noteq> []"
  using assms(1) by (cases rule: allocate_cases; use assms(2) in auto)+

section \<open>Rationales\<close>

lemma mkAllocation_rationale: "role \<noteq> [] \<Longrightarrow> al_rationale (mkAllocation ctx l g role why) \<noteq> []"
  by (simp add: mkAllocation_def Let_def sprintf.simps fmt_verb_def)

lemma assembleAllocations_rationale:
  "a \<in> set (assembleAllocations ctx baseGap flexGap bufferGap bl xl ul hasBase) \<Longrightarrow> al_rationale a \<noteq> []"
  by (auto simp: assembleAllocations_def mkAllocation_rationale split: if_splits)

lemma splitGap_rationale:
  "splitGap i gap nets lw tgt tot = Inr split \<Longrightarrow> a \<in> set split \<Longrightarrow> al_rationale a \<noteq> []"
  by (cases "findLayerForRole (ai_layers i) RoleBase"; cases "findLayerForRole (ai_layers i) RoleBuffer")
     (auto simp: splitGap_def Let_def assembleAllocations_rationale split: if_splits)

lemma applyCapGuardrail_rationale:
  "applyCapGuardrail as m = Inr bs \<Longrightarrow> \<forall>a \<in> set as. al_rationale a \<noteq> [] \<Longrightarrow> b \<in> set bs \<Longrightarrow> al_rationale b \<noteq> []"
  by (auto simp: applyCapGuardrail_def Let_def scale_allocation_def split: if_splits option.splits)

lemma truncateToMaxActions_kept:
  "truncateToMaxActions as rs m states src = (ks, krs, th) \<Longrightarrow> set ks \<subseteq> set as"
  using truncateToMaxActions_cases [of as rs m states src ks krs th] truncatePurchases_set by blast

lemma allocate_rationales:
  assumes "allocate (Some i) = Inr r" and "a \<in> set (ar_allocations r)"
  shows "al_rationale a \<noteq> []"
  using assms(1)
proof (cases rule: allocate_cases)
  case (hold rs hs h)
  with assms(2) show ?thesis by simp
next
  case (run rs hs nets split capped th)
  have "a \<in> set capped" using truncateToMaxActions_kept [OF run(8)] assms(2)
    by (auto simp: dropSubMinimumAllocations_kept)
  with applyCapGuardrail_rationale [OF run(7)] splitGap_rationale [OF run(6)] show ?thesis by blast
qed

lemma allocate_valid:
  assumes "allocate (Some i) = Inr r"
  shows "validateAllocateInput i = None"
  using assms by (cases rule: allocate_cases)

end
