(* ===== verification/Ladder_Allocate_Props.thy ===== *)
theory Ladder_Allocate_Props
  imports Ladder_Allocate_Facts
begin

text \<open>
  The properties of \<open>Allocate\<close> (\<open>pkg/ladder/allocate.go\<close>) and a concrete run that
  instantiates them: no over-commitment, the spending cap and the action limit, the
  conservation of the requested amount, valid explained actions, and no nil dereference.
\<close>

section \<open>A concrete run\<close>

text \<open>Three AWS layers, a three-step ramp, a spending cap of 2, an under-utilised buffer.\<close>

definition ex_config :: ladder_config where
  "ex_config = \<lparr>lc_scope = \<lparr>sp_provider = ''aws'', sp_account = ''123456789012''\<rparr>,
     lc_mode = ''email_approval'', lc_cadence = ''daily'', lc_max_hourly = Some (Fin 2),
     lc_ramp = \<lparr>ramp_steps = [\<lparr>rs_after_days = 0, rs_fraction = Fin (1/2)\<rparr>,
       \<lparr>rs_after_days = 30, rs_fraction = Fin (1/4)\<rparr>, \<lparr>rs_after_days = 60, rs_fraction = Fin (1/4)\<rparr>]\<rparr>,
     lc_target_pct = Fin 80, lc_buffer_fraction = Fin (1/4), lc_percentile = Fin 5,
     lc_lookback_days = 30, lc_max_actions = 2, lc_util_threshold = Fin 70\<rparr>"

definition ex_state :: "rat \<Rightarrow> layer_type \<Rightarrow> layer_type \<times> layer_state" where
  "ex_state q t = (t, \<lparr>st_existing = Some (Fin q), st_expiring = Some (Fin 0), st_coverage = None,
     st_utilization = Some (Fin 50), st_layer = t\<rparr>)"

definition ex_input :: allocation_input where
  "ex_input = \<lparr>ai_now = 1,
     ai_states = [ex_state 1 ''ec2-instance-sp'', ex_state 1 ''compute-sp'', ex_state 1 ''convertible-ri''],
     ai_layers = [\<lparr>spec_type = ''ec2-instance-sp'', spec_roles = [''base'']\<rparr>,
       \<lparr>spec_type = ''compute-sp'', spec_roles = [''flex'']\<rparr>,
       \<lparr>spec_type = ''convertible-ri'', spec_roles = [''buffer'']\<rparr>],
     ai_sources = [''cost-explorer''],
     ai_baseline = \<lparr>ub_low_water = Some (Fin 10), ub_stable = Some (Fin 2), ub_series = [],
       ub_lookback_days = 30, ub_percentile = Fin 5\<rparr>,
     ai_config = ex_config, ai_inflight = Some (Fin 1)\<rparr>"


lemma ex_config_valid: "validate_ladder_config ex_config = None"
proof -
  have "validate_ramp (lc_ramp ex_config) = None"
    by (rule validate_ramp_exact) (simp_all add: ex_config_def fraction_ok_def is_nan_def)
  then show ?thesis
    by (simp add: validate_ladder_config_def validate_scope_def validateBaselineBounds_def withinExclIncl_def
        is_nan_def is_inf_def validate_ladder_mode_def validate_ladder_cadence_def validateRunLimits_def)
       (simp add: ex_config_def is_nan_def is_inf_def)
qed

lemmas ex_layer_defs = validateLayers_def validateLayerEnums_def validateLayerRoleCombo_def
  validateRoleCounts_def count_role_def validate_layer_type_def validate_layer_role_def

lemma ex_input_valid: "validateAllocateInput ex_input = None"
proof -
  have "validateLayers (ai_layers ex_input) = None"
    by (simp add: ex_input_def ex_layer_defs)
  moreover have "validateLayerStates (ai_layers ex_input) (ai_states ex_input) = None"
    by (simp add: ex_input_def validateLayerStates_def ex_state_def validate_layer_state_def
        validateUtilizationPct_def validateNoUnknownStateKeys_def is_nan_def is_inf_def)
  ultimately show ?thesis
    by (simp add: validateAllocateInput_def) (simp add: ex_input_def ex_config_valid)
qed

lemma ex_low_water: "ub_low_water (ai_baseline ex_input) \<noteq> None"
  by (simp add: ex_input_def)

lemma ex_gap: "gap_of ex_input = 4"
  by (simp add: ex_input_def ex_config_def gap_of_def target_of_def low_water_def existing_total_def
      in_flight_def net_of_def ex_state_def)

lemma ex_allocate: "\<exists>r. allocate (Some ex_input) = Inr r"
proof -
  have rs: "\<exists>rs hs. detectReshapes (ai_layers ex_input) (ai_states ex_input)
      (lc_util_threshold (ai_config ex_input)) (ai_sources ex_input) = Inr (rs, hs)"
    by (simp add: ex_input_def ex_config_def ex_state_def)
  have n: "\<exists>nets. computeNetExisting (ai_layers ex_input) (ai_states ex_input) = Inr (nets, 3)"
    by (simp add: ex_input_def computeNetExisting_def ex_state_def ratFromFloat_def is_nan_def is_inf_def)
  have b: "computeBaselineAndTarget ex_input = Inr (10, 8)"
    by (simp add: ex_input_def ex_config_def computeBaselineAndTarget_Inr)
  have f: "ai_inflight ex_input = Some (Fin 1)" "ratFromFloat name (Fin 1) = Inr 1" for name
    by (simp_all add: ex_input_def)
  have cap: "\<exists>bs. applyCapGuardrail as (lc_max_hourly (ai_config ex_input)) = Inr bs" for as
    by (simp add: ex_input_def ex_config_def applyCapGuardrail_def ratFromFloat_def is_nan_def is_inf_def Let_def)
  have cb: "\<exists>p. computeBaseGap c hb (ai_baseline ex_input) bl nets = Inr p" for c hb bl nets
    by (simp add: ex_input_def computeBaseGap_def ratFromFloat_def is_nan_def is_inf_def Let_def)
  have sp: "\<exists>split. splitGap ex_input gap nets lw tgt tot = Inr split" for gap nets lw tgt tot
  proof -
    have x: "findLayerForRole (ai_layers ex_input) RoleFlex = (LayerComputeSP, True)"
      "findLayerForRole (ai_layers ex_input) RoleBase = (LayerEC2InstanceSP, True)"
      "findLayerForRole (ai_layers ex_input) RoleBuffer = (LayerConvertibleRI, True)"
      "ratFromFloat name (lc_buffer_fraction (ai_config ex_input)) = Inr (1 / 4)" for name
      by (simp_all add: ex_input_def ex_config_def)
    obtain p where "computeBaseGap (gap - gap * (1 / 4)) True (ai_baseline ex_input) LayerEC2InstanceSP nets = Inr p"
      using cb by blast
    then show ?thesis by (cases p) (simp add: splitGap_def Let_def x)
  qed
  have br: "\<exists>r. buildResult ex_input lw tgt tot gap nets rs hs = Inr r" for lw tgt tot gap nets rs hs
  proof -
    obtain split bs where "splitGap ex_input gap nets lw tgt tot = Inr split"
      "applyCapGuardrail split (lc_max_hourly (ai_config ex_input)) = Inr bs" using sp cap by blast
    then show ?thesis by (simp add: buildResult_def split: prod.split)
  qed
  obtain rs hs nets where "detectReshapes (ai_layers ex_input) (ai_states ex_input)
      (lc_util_threshold (ai_config ex_input)) (ai_sources ex_input) = Inr (rs, hs)"
    "computeNetExisting (ai_layers ex_input) (ai_states ex_input) = Inr (nets, 3)" using rs n by blast
  then show ?thesis
    using br by (auto simp: allocate_def ex_input_valid ex_low_water b f Let_def)
qed

section \<open>Properties\<close>

text \<open>C1: a run never over-commits. Whatever it proposes to buy, on top of the net
  commitments that exist and of the tranches already in flight, stays within the coverage
  target, and the target within the observed low-water mark.\<close>

theorem allocate_never_overcommits:
  assumes "allocate (Some i) = Inr r" and "ar_allocations r \<noteq> []"
  shows "existing_total i + in_flight i + alloc_total (ar_allocations r) \<le> target_of i \<and>
    target_of i \<le> low_water i"
  using assms(1)
proof (cases rule: allocate_cases)
  case (hold rs hs h)
  with assms(2) show ?thesis by simp
next
  case (run rs hs nets split capped th)
  obtain dropped where d: "run_dropped i r dropped" using allocate_run_facts [OF assms(1) run(3,5)] by blast
  have "spec_cap (lc_max_hourly (ai_config i)) (gap_of i) \<le> gap_of i"
    by (simp add: spec_cap_def split: option.split)
  then have "alloc_total (ar_allocations r) \<le> gap_of i" using run_droppedD(1,6) [OF d] by linarith
  then show ?thesis using target_le_low_water [OF run(1,4)] by (simp add: gap_of_def)
qed

theorem allocate_never_overcommits_witness:
  "\<exists>r. allocate (Some ex_input) = Inr r \<and>
    (ar_allocations r \<noteq> [] \<longrightarrow> existing_total ex_input + in_flight ex_input + alloc_total (ar_allocations r) \<le> 8)"
proof -
  obtain r where r: "allocate (Some ex_input) = Inr r" using ex_allocate by blast
  have "target_of ex_input = 8" by (simp add: target_of_def low_water_def ex_input_def ex_config_def)
  with allocate_never_overcommits [OF r] r show ?thesis by auto
qed

lemma allocate_limits:
  assumes "allocate (Some i) = Inr r"
  shows "(\<forall>c. lc_max_hourly (ai_config i) = Some (Fin c) \<longrightarrow> alloc_total (ar_allocations r) \<le> c) \<and>
    int (length (ar_allocations r)) + int (length (ar_reshapes r)) \<le> lc_max_actions (ai_config i) \<and>
    (\<forall>a \<in> set (ar_allocations r). 1 / 100 \<le> al_gap a \<and> al_layer a \<in> spec_type ` set (ai_layers i))"
  using assms
proof (cases rule: allocate_cases)
  case (hold rs hs h)
  note v = validate_ladder_config_None [OF validateAllocateInput_None(2) [OF hold(1)]]
  have "int (length rs) \<le> 1"
    using detectReshapes_length [OF hold(2)] validateLayers_None(3) [OF validateAllocateInput_None(3) [OF hold(1)]]
    by linarith
  with hold v(4,5) show ?thesis by (fastforce simp: alloc_total_def)
next
  case (run rs hs nets split capped th)
  obtain dropped where d: "run_dropped i r dropped" using allocate_run_facts [OF assms run(3,5)] by blast
  have "alloc_total (ar_allocations r) \<le> c" if "lc_max_hourly (ai_config i) = Some (Fin c)" for c
    using that run_droppedD(1,6) [OF d] by (simp add: spec_cap_def)
  then show ?thesis using run_droppedD(2,5) [OF d] by (auto simp: minAllocatableGap_def)
qed

text \<open>C4: the run's guardrails. New spend stays within the configured hourly cap, purchases
  and reshapes together within the action limit, every purchase is at least one cent an
  hour and on a configured layer.\<close>

theorem allocate_respects_limits:
  assumes "allocate (Some i) = Inr r"
  shows "(\<forall>c. lc_max_hourly (ai_config i) = Some (Fin c) \<longrightarrow> alloc_total (ar_allocations r) \<le> c) \<and>
    int (length (ar_allocations r)) + int (length (ar_reshapes r)) \<le> lc_max_actions (ai_config i) \<and>
    (\<forall>a \<in> set (ar_allocations r). 1 / 100 \<le> al_gap a \<and> al_layer a \<in> spec_type ` set (ai_layers i))"
  using assms by (rule allocate_limits)

theorem allocate_respects_limits_witness:
  "\<exists>r. allocate (Some ex_input) = Inr r \<and> alloc_total (ar_allocations r) \<le> 2 \<and>
    int (length (ar_allocations r)) + int (length (ar_reshapes r)) \<le> 2"
proof -
  obtain r where r: "allocate (Some ex_input) = Inr r" using ex_allocate by blast
  have "lc_max_hourly (ai_config ex_input) = Some (Fin 2)" "lc_max_actions (ai_config ex_input) = 2"
    by (simp_all add: ex_input_def ex_config_def)
  with allocate_respects_limits [OF r] r show ?thesis by auto
qed



text \<open>Every reshape and hold a run reports passes the validation of a planned action: a
  known layer, an explanation, no amount, term or payment option.\<close>

theorem allocate_actions_valid:
  assumes "allocate (Some i) = Inr r" and "a \<in> set (ar_reshapes r) \<union> set (ar_holds r)"
  shows "validate_action a = None"
  using assms(1)
proof (cases rule: allocate_cases)
  case (hold rs hs h)
  note lt = validateLayers_None(4) [OF validateAllocateInput_None(3) [OF hold(1)]]
  from detectReshapes_valid [OF hold(2) lt] hold assms(2) show ?thesis by auto
next
  case (run rs hs nets split capped th)
  note lt = validateLayers_None(4) [OF validateAllocateInput_None(3) [OF run(1)]]
  note rs = detectReshapes_valid [OF run(2) lt]
  have cl: "\<forall>b \<in> set capped. validate_layer_type (al_layer b) = None"
    using capped_layers [OF run(1,5,6,7)] lt by fastforce
  have th: "validate_action h = None" if "h \<in> set th" for h
  proof -
    from truncateToMaxActions_holds [OF run(8) that]
    obtain w where w: "w \<noteq> []" "h = mk_passive ActionHold (pa_layer h) w (ai_sources i)"
      "pa_layer h \<in> al_layer ` set capped \<union> pa_layer ` set rs"
      by (auto simp: dropSubMinimumAllocations_kept)
    have "validate_layer_type (pa_layer h) = None"
      using w(3) cl rs by (auto simp: validate_action_def)
    then show ?thesis using w(1) by (subst w(2)) (simp add: validate_mk_passive)
  qed
  have sk: "validate_action h = None" if "h \<in> set (snd (dropSubMinimumAllocations capped (ai_sources i)))" for h
    using that cl by (auto simp: dropSubMinimumAllocations_holds skip_hold_def validate_mk_passive sprintf_nonempty)
  from assms(2) run(9) truncateToMaxActions_reshapes [OF run(8)] th sk rs show ?thesis by auto
qed

theorem allocate_actions_valid_witness:
  "\<exists>r. allocate (Some ex_input) = Inr r \<and> (\<forall>a \<in> set (ar_reshapes r) \<union> set (ar_holds r). validate_action a = None)"
  using ex_allocate allocate_actions_valid by blast

text \<open>A run that proposes nothing explains why: a no-op result carries a hold.\<close>

theorem allocate_noop_explained:
  assumes "allocate (Some i) = Inr r" and "IsNoOp r"
  shows "ar_holds r \<noteq> []"
proof (cases "ub_low_water (ai_baseline i) = None \<or> gap_of i \<le> minAllocatableGap")
  case True
  then show ?thesis using allocate_no_run [OF assms(1)] by simp
next
  case False
  then have low: "ub_low_water (ai_baseline i) \<noteq> None" and gap: "minAllocatableGap < gap_of i" by auto
  from assms(1) have "validateAllocateInput i = None" by (cases rule: allocate_cases)
  note v = validate_ladder_config_None(5) [OF validateAllocateInput_None(2) [OF this]]
  obtain dropped where d: "run_dropped i r dropped" using allocate_run_facts [OF assms(1) low gap] by blast
  have "0 < spec_cap (lc_max_hourly (ai_config i)) (gap_of i)"
    using gap v by (cases "lc_max_hourly (ai_config i)") (fastforce simp: spec_cap_def minAllocatableGap_def)+
  with run_droppedD(1) [OF d] assms(2) have "dropped \<noteq> []" by (auto simp: IsNoOp_def alloc_total_def)
  then obtain x where "x \<in> set dropped" by (cases dropped) auto
  from run_droppedD(4) [OF d this] show ?thesis by auto
qed

definition ex_met :: allocation_input where
  "ex_met = ex_input\<lparr>ai_baseline := (ai_baseline ex_input)\<lparr>ub_low_water := None\<rparr>,
     ai_states := [ex_state 0 ''ec2-instance-sp'', ex_state 0 ''compute-sp'', ex_state 0 ''convertible-ri'']\<rparr>"

theorem allocate_noop_explained_witness:
  "\<exists>r. allocate (Some ex_met) = Inr r \<and> IsNoOp r \<and> ar_holds r \<noteq> []"
proof -
  have "validateLayerStates (ai_layers ex_met) (ai_states ex_met) = None"
    by (simp add: ex_met_def ex_input_def validateLayerStates_def ex_state_def validate_layer_state_def
        validateUtilizationPct_def validateNoUnknownStateKeys_def is_nan_def is_inf_def)
  then have v: "validateAllocateInput ex_met = None"
    using validateAllocateInput_None [OF ex_input_valid]
    by (simp add: validateAllocateInput_def ex_met_def) (simp add: ex_input_def)
  have d: "detectReshapes (ai_layers ex_met) (ai_states ex_met) (lc_util_threshold (ai_config ex_met))
      (ai_sources ex_met) = Inr ([], [])"
    by (simp add: ex_met_def ex_input_def ex_state_def)
  have "ub_low_water (ai_baseline ex_met) = None" by (simp add: ex_met_def)
  then have a: "allocate (Some ex_met) = Inr (withMaintenance (baselineUnavailableHold ex_met) [] [])"
    by (simp add: allocate_def v d)
  have "IsNoOp (withMaintenance (baselineUnavailableHold ex_met) [] [])"
    by (simp add: IsNoOp_def withMaintenance_def baselineUnavailableHold_def)
  with allocate_noop_explained [OF a] a show ?thesis by blast
qed

lemma validateAllocateInput_no_panic: "validateAllocateInput i = Some e \<Longrightarrow> e \<noteq> nil_panic"
  by (auto simp: validateAllocateInput_def wrap_opt_def wrap_err_def nil_panic_def orelse_Some_iff split: if_splits)

lemma no_panic_computeBaseGap: "no_panic (computeBaseGap c hb b bl nets)"
  by (auto simp: computeBaseGap_def Let_def split: option.split)

lemma no_panic_splitGap: "no_panic (splitGap i gap nets lw tgt tot)"
  by (auto simp: splitGap_def Let_def no_panic_computeBaseGap split: prod.split)

lemma no_panic_applyCapGuardrail: "no_panic (applyCapGuardrail as m)"
  by (auto simp: applyCapGuardrail_def Let_def split: option.split)

lemma no_panic_buildResult: "no_panic (buildResult i lw tgt tot gap nets rs hs)"
  by (auto simp: buildResult_def no_panic_splitGap no_panic_applyCapGuardrail split: prod.split)

text \<open>C6: \<open>Allocate\<close> never dereferences a nil pointer, on any input: the validation that
  precedes them covers every field the later stages read.\<close>

theorem allocate_never_panics: "allocate inp \<noteq> Inl nil_panic"
proof (cases inp)
  case None
  then show ?thesis by (simp add: allocate_def nil_panic_def)
next
  case (Some i)
  have "no_panic (allocate (Some i))"
  proof (cases "validateAllocateInput i")
    case (Some e)
    then show ?thesis using validateAllocateInput_no_panic by (simp add: allocate_def no_panic_def)
  next
    case None
    note v = validateAllocateInput_None [OF this]
    have "no_panic (computeBaselineAndTarget i)" if "ub_low_water (ai_baseline i) \<noteq> None"
      using that by (auto simp: computeBaselineAndTarget_def)
    moreover have "no_panic (computeNetExisting (ai_layers i) (ai_states i))"
      unfolding computeNetExisting_def by (rule net_loop_no_panic [OF v(4)]) simp
    moreover have "no_panic (detectReshapes (ai_layers i) (ai_states i) thr src)" for thr src
      by (rule no_panic_detectReshapes [OF v(4)]) simp
    ultimately show ?thesis using None v(1)
      by (auto simp: allocate_def Let_def no_panic_buildResult split: sum.split prod.split)
  qed
  then show ?thesis using Some by (simp add: no_panic_def)
qed

end
