(* ===== verification/Ladder_Tranches.thy ===== *)
theory Ladder_Tranches
  imports Ladder_Allocate_Props
begin

text \<open>
  \<open>pkg/ladder/store.go\<close> (run and tranche records and their validation) and
  \<open>pkg/ladder/ladder.go\<close>: how an allocation is spread over the ramp schedule, into
  immediate purchases and scheduled tranches. The injected \<open>NewID\<close> is a function of the
  number of calls made so far; the call count is threaded through the run.
\<close>

section \<open>Run records\<close>

definition run_statuses :: "string list" where
  "run_statuses = [''planned'', ''awaiting_approval'', ''approved'', ''executing'', ''completed'',
     ''failed'', ''cancelled'', ''expired'']"

definition validate_run_status :: "string \<Rightarrow> goerr option" where
  "validate_run_status s = (if s \<in> set run_statuses then None
     else Some (Errorf ''unknown run status %q'' [EStr s]))"

definition run_status_terminal :: "string \<Rightarrow> bool" where
  "run_status_terminal s = (s \<in> {''completed'', ''failed'', ''cancelled'', ''expired''})"

definition parse_run_status :: "string \<Rightarrow> goerr + string" where
  "parse_run_status s = guarded (validate_run_status s) (Inr s)"

record run_record =
  rr_id :: string
  rr_scope :: ladder_scope
  rr_status :: string
  rr_created :: gotime
  rr_completed :: "gotime option"
  rr_plan_json :: string

definition validate_run_record :: "run_record \<Rightarrow> goerr option" where
  "validate_run_record r =
    (if rr_id r = [] then Some (Errorf ''run ID is required'' [])
     else orelse (wrap_opt ''scope: '' (validate_scope (rr_scope r)))
      (if is_zero_time (rr_created r) then Some (Errorf ''created_at must be set'' [])
       else orelse (wrap_opt ''status: '' (validate_run_status (rr_status r)))
        (if rr_completed r \<noteq> None \<and> \<not> run_status_terminal (rr_status r) then
           Some (Errorf ''completed_at must be nil for non-terminal status %q'' [EStr (rr_status r)])
         else None)))"

section \<open>Tranches\<close>

abbreviation TrancheScheduled :: string where "TrancheScheduled \<equiv> ''scheduled''"
abbreviation TrancheFired :: string where "TrancheFired \<equiv> ''fired''"
abbreviation TrancheCompleted :: string where "TrancheCompleted \<equiv> ''completed''"
abbreviation TrancheCancelled :: string where "TrancheCancelled \<equiv> ''cancelled''"
abbreviation TrancheFailed :: string where "TrancheFailed \<equiv> ''failed''"

definition validate_tranche_status :: "string \<Rightarrow> goerr option" where
  "validate_tranche_status s =
    (if s \<in> {TrancheScheduled, TrancheFired, TrancheCompleted, TrancheCancelled, TrancheFailed} then None
     else Some (Errorf ''unknown tranche status %q'' [EStr s]))"

definition allows_fired_at :: "string \<Rightarrow> bool" where
  "allows_fired_at s = (s \<in> {TrancheFired, TrancheCompleted, TrancheFailed})"

definition parse_tranche_status :: "string \<Rightarrow> goerr + string" where
  "parse_tranche_status s = guarded (validate_tranche_status s) (Inr s)"

record tranche =
  tr_fire_after :: gotime
  tr_fired_at :: "gotime option"
  tr_amount :: string
  tr_id :: string
  tr_run_id :: string
  tr_status :: string
  tr_layer :: layer_type
  tr_term :: string
  tr_payment :: string
  tr_step :: int

definition validateAmountUSDPerHour :: "tranche \<Rightarrow> goerr option" where
  "validateAmountUSDPerHour t =
    (if tr_amount t = [] then
       Some (Errorf (''amount_usd_per_hour is required (must parse as a positive rational via big.Rat SetString, e.g. '' @
         [CHR 0x22] @ ''3/2'' @ [CHR 0x22] @ '')'') [])
     else case rat_set_string (tr_amount t) of
       None \<Rightarrow> Some (Errorf ''amount_usd_per_hour %q must parse as a positive rational (big.Rat SetString)''
         [EStr (tr_amount t)])
     | Some r \<Rightarrow> (if r \<le> 0 then Some (Errorf ''amount_usd_per_hour must be positive, got %s'' [EStr (tr_amount t)])
         else None))"

definition validateExecutionFields :: "tranche \<Rightarrow> goerr option" where
  "validateExecutionFields t =
    orelse (wrap_opt ''layer: '' (validate_layer_type (tr_layer t)))
   (orelse (validateAmountUSDPerHour t)
   (orelse (wrap_opt ''term: '' (validate_commit_term (tr_term t)))
     (wrap_opt ''payment_option: '' (validate_payment_option (tr_payment t)))))"

definition validate_tranche :: "tranche \<Rightarrow> goerr option" where
  "validate_tranche t =
    (if tr_id t = [] then Some (Errorf ''tranche ID is required'' [])
     else if tr_run_id t = [] then Some (Errorf ''tranche RunID is required'' [])
     else if tr_step t < 0 then Some (Errorf ''step_index %d must be >= 0'' [EInt (tr_step t)])
     else if is_zero_time (tr_fire_after t) then
       Some (Errorf ''fire_after must be set (zero time would fire immediately)'' [])
     else orelse (validateExecutionFields t)
      (orelse (wrap_opt ''status: '' (validate_tranche_status (tr_status t)))
       (if tr_fired_at t \<noteq> None \<and> \<not> allows_fired_at (tr_status t) then
          Some (Errorf ''fired_at must be nil for status %q (tranche has not fired)'' [EStr (tr_status t)])
        else None)))"

section \<open>The ramp\<close>

record tranche_input =
  ti_config :: "ladder_config option"
  ti_run_id :: string
  ti_term :: string
  ti_payment :: string
  ti_new_id :: "(nat \<Rightarrow> string) option"
  ti_now :: gotime
  ti_allocations :: "allocation list"

text \<open>The result under construction, with the number of calls made to \<open>NewID\<close>.\<close>

record tranche_result =
  ts_calls :: nat
  ts_buy_now :: "planned_action list"
  ts_tranches :: "tranche list"

text \<open>A nil gap fails the same check as one that is not positive; it is represented by zero.\<close>

definition validateInputAllocations :: "allocation list \<Rightarrow> goerr option" where
  "validateInputAllocations allocs = check_each 0 (\<lambda>i a.
     orelse (map_option (\<lambda>e. Errorf ''allocation[%d]: layer: %w'' [EInt (int i), EWrap e])
         (validate_layer_type (al_layer a)))
      (if al_gap a \<le> 0 then Some (Errorf ''allocation[%d]: gap_usd_per_hour must be positive'' [EInt (int i)])
       else if al_rationale a = [] then
         Some (Errorf ''allocation[%d]: rationale is required (money-path auditability)'' [EInt (int i)])
       else None)) allocs"

definition validateTrancheInput :: "tranche_input option \<Rightarrow> goerr option" where
  "validateTrancheInput inp = (case inp of
     None \<Rightarrow> Some (Errorf ''tranche input must not be nil'' [])
   | Some i \<Rightarrow> (case ti_config i of
       None \<Rightarrow> Some (Errorf ''config must not be nil'' [])
     | Some c \<Rightarrow> orelse (wrap_opt ''config: '' (validate_ladder_config c))
        (if ti_run_id i = [] then Some (Errorf ''run_id is required'' [])
         else if is_zero_time (ti_now i) then
           Some (Errorf ''now must not be zero (inject the run wall-clock time)'' [])
         else if ti_new_id i = None then
           Some (Errorf ''new_id must not be nil (inject an ID generator)'' [])
         else orelse (wrap_opt ''term: '' (validate_commit_term (ti_term i)))
          (orelse (wrap_opt ''payment_option: '' (validate_payment_option (ti_payment i)))
            (validateInputAllocations (ti_allocations i))))))"

definition computeStepAmount :: "rat \<Rightarrow> f64 \<Rightarrow> bool \<Rightarrow> rat \<Rightarrow> rat" where
  "computeStepAmount gap fraction isLast priorSum =
    (let remaining = (if gap - priorSum < 0 then 0 else gap - priorSum)
     in if isLast then remaining
        else let amount = gap * rat_of_f64 fraction in if amount > remaining then remaining else amount)"

definition stepRationale :: "allocation \<Rightarrow> int \<Rightarrow> int \<Rightarrow> f64 \<Rightarrow> rat \<Rightarrow> rat \<Rightarrow> string" where
  "stepRationale alloc stepIdx totalSteps fraction amount gap =
    sprintf ''ramp step %d/%d (%.4g%%): %s of %s total. %s''
      [FInt (stepIdx + 1), FInt totalSteps, FF64 (fmul fraction (Fin 100)), FStr (fmtRatUSD amount),
       FStr (fmtRatUSD gap), FStr (al_rationale alloc)]"

definition buildBuyNowAction :: "tranche_input \<Rightarrow> allocation \<Rightarrow> ramp_step \<Rightarrow> int \<Rightarrow> int \<Rightarrow> rat \<Rightarrow> goerr + planned_action" where
  "buildBuyNowAction i alloc step stepIdx nSteps amount =
    (let action = \<lparr>pa_action = ActionPurchase, pa_layer = al_layer alloc, pa_amount = Some amount,
           pa_term = ti_term i, pa_payment = ti_payment i,
           pa_rationale = stepRationale alloc stepIdx nSteps (rs_fraction step) amount (al_gap alloc),
           pa_sources = al_sources alloc\<rparr>
     in guarded (map_option (\<lambda>e. Errorf ''buy-now action (layer %s, step %d): %w''
           [EStr (al_layer alloc), EInt stepIdx, EWrap e]) (validate_action action)) (Inr action))"

definition buildFutureTranche :: "tranche_input \<Rightarrow> nat \<Rightarrow> allocation \<Rightarrow> ramp_step \<Rightarrow> int \<Rightarrow> rat \<Rightarrow> goerr + tranche" where
  "buildFutureTranche i calls alloc step stepIdx amount =
    (let tr = \<lparr>tr_fire_after = add_days (ti_now i) (rs_after_days step), tr_fired_at = None,
           tr_amount = rat_string amount, tr_id = (case ti_new_id i of None \<Rightarrow> [] | Some newID \<Rightarrow> newID calls),
           tr_run_id = ti_run_id i, tr_status = TrancheScheduled, tr_layer = al_layer alloc,
           tr_term = ti_term i, tr_payment = ti_payment i, tr_step = stepIdx\<rparr>
     in guarded (map_option (\<lambda>e. Errorf ''tranche (layer %s, step %d): %w''
           [EStr (al_layer alloc), EInt stepIdx, EWrap e]) (validate_tranche tr)) (Inr tr))"

definition appendStep :: "tranche_input \<Rightarrow> allocation \<Rightarrow> ramp_step \<Rightarrow> int \<Rightarrow> int \<Rightarrow> rat \<Rightarrow> tranche_result \<Rightarrow>
    goerr + tranche_result" where
  "appendStep i alloc step stepIdx nSteps amount r =
    (if rs_after_days step = 0 then
       rbind (buildBuyNowAction i alloc step stepIdx nSteps amount)
         (\<lambda>a. Inr (r\<lparr>ts_buy_now := ts_buy_now r @ [a]\<rparr>))
     else rbind (buildFutureTranche i (ts_calls r) alloc step stepIdx amount)
       (\<lambda>t. Inr (r\<lparr>ts_calls := Suc (ts_calls r), ts_tranches := ts_tranches r @ [t]\<rparr>)))"

fun process_steps :: "tranche_input \<Rightarrow> allocation \<Rightarrow> int \<Rightarrow> int \<Rightarrow> rat \<Rightarrow> ramp_step list \<Rightarrow> tranche_result \<Rightarrow>
    goerr + tranche_result" where
  "process_steps i alloc nSteps idx priorSum [] r = Inr r"
| "process_steps i alloc nSteps idx priorSum (step # steps) r =
    (let isLast = (idx = nSteps - 1);
         amount = computeStepAmount (al_gap alloc) (rs_fraction step) isLast priorSum;
         priorSum' = (if isLast then priorSum else priorSum + amount)
     in if amount = 0 then process_steps i alloc nSteps (idx + 1) priorSum' steps r
        else rbind (appendStep i alloc step idx nSteps amount r)
          (process_steps i alloc nSteps (idx + 1) priorSum' steps))"

definition processAllocation :: "tranche_input \<Rightarrow> allocation \<Rightarrow> ramp_step list \<Rightarrow> tranche_result \<Rightarrow> goerr + tranche_result" where
  "processAllocation i alloc steps r = process_steps i alloc (int (length steps)) 0 0 steps r"

fun process_allocations :: "tranche_input \<Rightarrow> ramp_step list \<Rightarrow> allocation list \<Rightarrow> tranche_result \<Rightarrow> goerr + tranche_result" where
  "process_allocations i steps [] r = Inr r"
| "process_allocations i steps (a # as) r =
    rbind (processAllocation i a steps r) (process_allocations i steps as)"

fun validate_ids_from :: "int \<Rightarrow> string set \<Rightarrow> tranche list \<Rightarrow> goerr option" where
  "validate_ids_from k seen [] = None"
| "validate_ids_from k seen (t # ts) =
    (if tr_id t = [] then
       Some (Errorf ''tranche[%d] (layer %s, step %d): NewID returned an empty ID''
         [EInt k, EStr (tr_layer t), EInt (tr_step t)])
     else if tr_id t \<in> seen then
       Some (Errorf ''tranche[%d] (layer %s, step %d): NewID returned duplicate ID %q; upsert-by-ID would silently drop a scheduled purchase''
         [EInt k, EStr (tr_layer t), EInt (tr_step t), EStr (tr_id t)])
     else validate_ids_from (k + 1) (insert (tr_id t) seen) ts)"

definition validateTrancheIDs :: "tranche list \<Rightarrow> goerr option" where
  "validateTrancheIDs ts = validate_ids_from 0 {} ts"

definition buildTrancheResult :: "tranche_input \<Rightarrow> ladder_config \<Rightarrow> goerr + tranche_result" where
  "buildTrancheResult i c =
    rbind (process_allocations i (ramp_steps (lc_ramp c)) (ti_allocations i)
        \<lparr>ts_calls = 0, ts_buy_now = [], ts_tranches = []\<rparr>)
      (\<lambda>r. guarded (validateTrancheIDs (ts_tranches r)) (Inr r))"

definition build_tranches :: "tranche_input option \<Rightarrow> goerr + tranche_result" where
  "build_tranches inp = guarded (validateTrancheInput inp)
    (case inp of Some i \<Rightarrow> (case ti_config i of Some c \<Rightarrow> buildTrancheResult i c | None \<Rightarrow> Inl nil_panic)
     | None \<Rightarrow> Inl nil_panic)"

section \<open>What a ramp commits\<close>

text \<open>The hourly amount a result commits to the layers satisfying \<open>P\<close>, now and in the future.\<close>

definition action_amount :: "planned_action \<Rightarrow> rat" where
  "action_amount a = (case pa_amount a of Some q \<Rightarrow> q | None \<Rightarrow> 0)"

definition tranche_amount :: "tranche \<Rightarrow> rat" where
  "tranche_amount t = (case rat_set_string (tr_amount t) of Some q \<Rightarrow> q | None \<Rightarrow> 0)"

definition committed :: "(layer_type \<Rightarrow> bool) \<Rightarrow> tranche_result \<Rightarrow> rat" where
  "committed P r = (\<Sum>a\<leftarrow>filter (\<lambda>a. P (pa_layer a)) (ts_buy_now r). action_amount a) +
     (\<Sum>t\<leftarrow>filter (\<lambda>t. P (tr_layer t)) (ts_tranches r). tranche_amount t)"

lemma buildBuyNowAction_Inr:
  assumes "buildBuyNowAction i alloc step k n amount = Inr a"
  shows "pa_layer a = al_layer alloc" "action_amount a = amount" "validate_action a = None"
    "pa_action a = ActionPurchase"
  using assms by (auto simp: buildBuyNowAction_def Let_def action_amount_def)

lemma buildFutureTranche_Inr:
  assumes "buildFutureTranche i c alloc step k amount = Inr t"
  shows "tr_layer t = al_layer alloc" "tranche_amount t = amount" "validate_tranche t = None"
    "tr_status t = TrancheScheduled" "tr_fired_at t = None"
    "tr_fire_after t = add_days (ti_now i) (rs_after_days step)" "tr_run_id t = ti_run_id i"
    "tr_id t = (case ti_new_id i of None \<Rightarrow> [] | Some newID \<Rightarrow> newID c)"
  using assms by (auto simp: buildFutureTranche_def Let_def tranche_amount_def rat_string_roundtrip)

lemma appendStep_committed:
  assumes "appendStep i alloc step k n amount r = Inr r'"
  shows "committed P r' = committed P r + (if P (al_layer alloc) then amount else 0)"
  using assms
  by (auto simp: appendStep_def committed_def buildBuyNowAction_Inr buildFutureTranche_Inr split: if_splits)

lemma computeStepAmount_bounds:
  assumes "0 \<le> gap" "0 \<le> rat_of_f64 fraction" "p \<le> gap"
  shows "0 \<le> computeStepAmount gap fraction isLast p" "computeStepAmount gap fraction isLast p \<le> gap - p"
    "computeStepAmount gap fraction True p = gap - p"
  using assms by (auto simp: computeStepAmount_def Let_def)

lemma process_steps_committed:
  assumes "process_steps i alloc n idx p steps r = Inr r'"
    and "steps \<noteq> []" "idx + int (length steps) = n" "p \<le> al_gap alloc" "0 \<le> al_gap alloc"
    and "\<forall>s \<in> set steps. 0 \<le> rat_of_f64 (rs_fraction s)"
  shows "committed P r' = committed P r + (if P (al_layer alloc) then al_gap alloc - p else 0)"
  using assms
proof (induction steps arbitrary: idx p r)
  case Nil
  then show ?case by simp
next
  case (Cons s steps)
  define lst where "lst = (idx = n - 1)"
  define amount where "amount = computeStepAmount (al_gap alloc) (rs_fraction s) lst p"
  define p' where "p' = (if lst then p else p + amount)"
  have fr: "0 \<le> rat_of_f64 (rs_fraction s)" using Cons.prems by simp
  note b = computeStepAmount_bounds [OF Cons.prems(5) fr Cons.prems(4)]
  have p': "p' \<le> al_gap alloc" using b(2) [of False] Cons.prems(4) by (simp add: p'_def amount_def)
  have step: "(if amount = 0 then process_steps i alloc n (idx + 1) p' steps r
      else rbind (appendStep i alloc s idx n amount r) (process_steps i alloc n (idx + 1) p' steps)) = Inr r'"
    using Cons.prems(1) by (simp only: process_steps.simps Let_def lst_def amount_def p'_def)
  obtain r1 where r1: "committed P r1 = committed P r + (if P (al_layer alloc) then amount else 0)"
    and rest: "process_steps i alloc n (idx + 1) p' steps r1 = Inr r'"
  proof (cases "amount = 0")
    case True
    with step that [of r] show thesis by simp
  next
    case False
    with step obtain r1 where "appendStep i alloc s idx n amount r = Inr r1"
      "process_steps i alloc n (idx + 1) p' steps r1 = Inr r'" by auto
    with that [of r1] appendStep_committed show thesis by blast
  qed
  show ?case
  proof (cases "steps = []")
    case True
    then have "lst" using Cons.prems(3) by (simp add: lst_def)
    then have "amount = al_gap alloc - p" using b(3) by (simp add: amount_def)
    with True rest r1 show ?thesis by simp
  next
    case False
    then have "\<not> lst" using Cons.prems(3) by (cases steps) (auto simp: lst_def)
    then have "p' = p + amount" by (simp add: p'_def)
    with Cons.IH [OF rest False _ p'] Cons.prems(3,5,6) r1 show ?thesis by simp
  qed
qed

lemma process_allocations_committed:
  assumes "process_allocations i steps as r = Inr r'" and "steps \<noteq> []"
    and "\<forall>a \<in> set as. 0 \<le> al_gap a" "\<forall>s \<in> set steps. 0 \<le> rat_of_f64 (rs_fraction s)"
  shows "committed P r' = committed P r + alloc_total (filter (\<lambda>a. P (al_layer a)) as)"
  using assms
proof (induction as arbitrary: r)
  case Nil
  then show ?case by (simp add: alloc_total_def)
next
  case (Cons a as)
  then obtain r1 where r1: "processAllocation i a steps r = Inr r1" and rest: "process_allocations i steps as r1 = Inr r'"
    by auto
  have "committed P r1 = committed P r + (if P (al_layer a) then al_gap a - 0 else 0)"
    using Cons.prems by (intro process_steps_committed [OF r1 [unfolded processAllocation_def]]) auto
  with Cons.IH [OF rest] Cons.prems show ?case by (simp add: alloc_total_def)
qed

section \<open>Valid input\<close>

lemma validateTrancheInput_None:
  assumes "validateTrancheInput (Some i) = None"
  obtains c newID where "ti_config i = Some c" "validate_ladder_config c = None" "ti_run_id i \<noteq> []"
    "ti_now i \<noteq> 0" "ti_new_id i = Some newID" "validate_commit_term (ti_term i) = None"
    "validate_payment_option (ti_payment i) = None" "validateInputAllocations (ti_allocations i) = None"
  using assms by (auto simp: validateTrancheInput_def is_zero_time_def split: option.splits if_splits)

lemma validateInputAllocations_all:
  assumes "validateInputAllocations as = None" and "a \<in> set as"
  shows "validate_layer_type (al_layer a) = None" "0 < al_gap a" "al_rationale a \<noteq> []"
  using check_each_all [OF assms(1) [unfolded validateInputAllocations_def] assms(2)]
  by (auto split: if_splits)

lemma valid_steps:
  assumes "validate_ladder_config c = None"
  shows "ramp_steps (lc_ramp c) \<noteq> []" "ascending_from (-1) (ramp_steps (lc_ramp c))"
    "\<forall>s \<in> set (ramp_steps (lc_ramp c)). 0 < rat_of_f64 (rs_fraction s) \<and> 0 \<le> rs_after_days s"
proof -
  note r = validate_ramp_None [OF validate_ladder_config_None(3) [OF assms]]
  show "ramp_steps (lc_ramp c) \<noteq> []" "ascending_from (-1) (ramp_steps (lc_ramp c))" by (rule r(1,2))+
  show "\<forall>s \<in> set (ramp_steps (lc_ramp c)). 0 < rat_of_f64 (rs_fraction s) \<and> 0 \<le> rs_after_days s"
    using r(3) ascending_from_ge [OF r(2)] by fastforce
qed

section \<open>Every produced item\<close>

definition tranche_ok :: "tranche_input \<Rightarrow> ramp_step list \<Rightarrow> tranche \<Rightarrow> bool" where
  "tranche_ok i steps t \<longleftrightarrow> validate_tranche t = None \<and> tr_status t = TrancheScheduled \<and> tr_fired_at t = None \<and>
     tr_run_id t = ti_run_id i \<and>
     (\<exists>s \<in> set steps. rs_after_days s \<noteq> 0 \<and> tr_fire_after t = add_days (ti_now i) (rs_after_days s))"

definition items_ok :: "tranche_input \<Rightarrow> ramp_step list \<Rightarrow> tranche_result \<Rightarrow> bool" where
  "items_ok i steps r \<longleftrightarrow>
     (\<forall>a \<in> set (ts_buy_now r). validate_action a = None \<and> pa_action a = ActionPurchase) \<and>
     (\<forall>t \<in> set (ts_tranches r). tranche_ok i steps t)"

lemma future_tranche_ok:
  "buildFutureTranche i c alloc s k amount = Inr t \<Longrightarrow> s \<in> set steps \<Longrightarrow> rs_after_days s \<noteq> 0 \<Longrightarrow> tranche_ok i steps t"
  by (auto simp: tranche_ok_def buildFutureTranche_Inr)

lemma appendStep_items:
  "appendStep i alloc s k n amount r = Inr r' \<Longrightarrow> s \<in> set steps \<Longrightarrow> items_ok i steps r \<Longrightarrow> items_ok i steps r'"
  by (auto simp: appendStep_def items_ok_def buildBuyNowAction_Inr future_tranche_ok split: if_splits)

lemma process_steps_items:
  "process_steps i alloc n idx p ss r = Inr r' \<Longrightarrow> set ss \<subseteq> set steps \<Longrightarrow> items_ok i steps r \<Longrightarrow> items_ok i steps r'"
  by (induction ss arbitrary: idx p r) (auto simp: Let_def split: if_splits, (metis appendStep_items)+)

lemma process_allocations_items:
  "process_allocations i steps as r = Inr r' \<Longrightarrow> items_ok i steps r \<Longrightarrow> items_ok i steps r'"
  by (induction as arbitrary: r) (auto simp: processAllocation_def dest: process_steps_items)

lemma validate_ids_from_None:
  "validate_ids_from k seen ts = None \<longleftrightarrow>
     distinct (map tr_id ts) \<and> set (map tr_id ts) \<inter> seen = {} \<and> [] \<notin> set (map tr_id ts)"
  by (induction ts arbitrary: k seen) auto

section \<open>Totality\<close>

text \<open>The identifiers of the tranches produced so far are the first values of the generator.\<close>

definition ids_in_order :: "(nat \<Rightarrow> string) \<Rightarrow> tranche_result \<Rightarrow> bool" where
  "ids_in_order newID r \<longleftrightarrow> map tr_id (ts_tranches r) = map newID [0..<ts_calls r]"

definition good_input :: "tranche_input \<Rightarrow> (nat \<Rightarrow> string) \<Rightarrow> bool" where
  "good_input i newID \<longleftrightarrow> ti_new_id i = Some newID \<and> (\<forall>k. newID k \<noteq> []) \<and> ti_run_id i \<noteq> [] \<and> 0 < ti_now i \<and>
     validate_commit_term (ti_term i) = None \<and> validate_payment_option (ti_payment i) = None"

lemma rat_string_nonempty [simp]: "rat_string q \<noteq> []"
  by (simp add: rat_string_def split: prod.split)

lemma appendStep_total:
  assumes "good_input i newID" "validate_layer_type (al_layer alloc) = None" "0 < amount" "0 \<le> k"
    "0 \<le> rs_after_days s" "ids_in_order newID r"
  shows "\<exists>r'. appendStep i alloc s k n amount r = Inr r' \<and> ids_in_order newID r'"
proof (cases "rs_after_days s = 0")
  case True
  have "\<exists>a. buildBuyNowAction i alloc s k n amount = Inr a"
    using assms by (simp add: buildBuyNowAction_def Let_def validate_action_purchase_iff good_input_def
        stepRationale_def sprintf_nonempty)
  with True assms(6) show ?thesis by (auto simp: appendStep_def ids_in_order_def)
next
  case False
  have "0 < rs_after_days s * day_ns" using False assms(5) by (simp add: day_ns_def second_ns_def)
  then have fire: "add_days (ti_now i) (rs_after_days s) \<noteq> 0"
    using assms(1) by (simp add: add_days_def good_input_def)
  have "\<exists>t. buildFutureTranche i (ts_calls r) alloc s k amount = Inr t"
    using assms fire
    by (simp add: buildFutureTranche_def Let_def validate_tranche_def good_input_def is_zero_time_def
        validateExecutionFields_def validateAmountUSDPerHour_def rat_string_roundtrip validate_tranche_status_def)
  with False assms(1,6) show ?thesis
    by (auto simp: appendStep_def ids_in_order_def good_input_def buildFutureTranche_Inr)
qed

lemma process_steps_total:
  assumes "good_input i newID" "validate_layer_type (al_layer alloc) = None" "0 \<le> al_gap alloc"
    "\<forall>s \<in> set steps. 0 < rat_of_f64 (rs_fraction s) \<and> 0 \<le> rs_after_days s"
    "0 \<le> idx" "p \<le> al_gap alloc" "ids_in_order newID r"
  shows "\<exists>r'. process_steps i alloc n idx p steps r = Inr r' \<and> ids_in_order newID r'"
  using assms(4-)
proof (induction steps arbitrary: idx p r)
  case Nil
  then show ?case by simp
next
  case (Cons s steps)
  define lst where "lst = (idx = n - 1)"
  define amount where "amount = computeStepAmount (al_gap alloc) (rs_fraction s) lst p"
  define p' where "p' = (if lst then p else p + amount)"
  have fr: "0 \<le> rat_of_f64 (rs_fraction s)" using Cons.prems(1) by fastforce
  note b = computeStepAmount_bounds [OF assms(3) fr Cons.prems(3)]
  have p': "p' \<le> al_gap alloc" using b(2) [of False] Cons.prems(3) by (simp add: p'_def amount_def)
  have eq: "process_steps i alloc n idx p (s # steps) r =
      (if amount = 0 then process_steps i alloc n (idx + 1) p' steps r
      else rbind (appendStep i alloc s idx n amount r) (process_steps i alloc n (idx + 1) p' steps))"
    by (simp only: process_steps.simps Let_def lst_def amount_def p'_def)
  have ih: "\<exists>r'. process_steps i alloc n (idx + 1) p' steps r0 = Inr r' \<and> ids_in_order newID r'"
    if "ids_in_order newID r0" for r0
    using Cons.IH [OF _ _ p' that, of "idx + 1"] Cons.prems by simp
  show ?case
  proof (cases "amount = 0")
    case True
    with ih [OF Cons.prems(4)] eq show ?thesis by simp
  next
    case False
    then have "0 < amount" using b(1) [of lst] by (simp add: amount_def)
    then obtain r1 where "appendStep i alloc s idx n amount r = Inr r1" "ids_in_order newID r1"
      using appendStep_total [OF assms(1,2)] Cons.prems by (metis list.set_intros(1))
    with ih [of r1] eq False show ?thesis by simp
  qed
qed

lemma process_allocations_total:
  assumes "good_input i newID" "\<forall>a \<in> set as. validate_layer_type (al_layer a) = None \<and> 0 < al_gap a"
    "\<forall>s \<in> set steps. 0 < rat_of_f64 (rs_fraction s) \<and> 0 \<le> rs_after_days s" "ids_in_order newID r"
  shows "\<exists>r'. process_allocations i steps as r = Inr r' \<and> ids_in_order newID r'"
  using assms(2,4)
proof (induction as arbitrary: r)
  case Nil
  then show ?case by simp
next
  case (Cons a as)
  then have a: "validate_layer_type (al_layer a) = None" "0 < al_gap a" by auto
  then obtain r1 where "processAllocation i a steps r = Inr r1" "ids_in_order newID r1"
    using process_steps_total [OF assms(1) a(1) _ assms(3) _ _ Cons.prems(2), of 0 0 "int (length steps)"]
    by (auto simp: processAllocation_def)
  with Cons show ?case by auto
qed

end
