(* ===== verification/Ladder_Tranches_Props.thy ===== *)
theory Ladder_Tranches_Props
  imports Ladder_Tranches
begin

text \<open>
  The properties of \<open>BuildTranches\<close> (\<open>pkg/ladder/ladder.go\<close>) and of the plan text
  (\<open>pkg/ladder/plan.go\<close>), with concrete instances.
\<close>

section \<open>From a run to its tranches\<close>

lemma build_tranches_Inr:
  assumes "build_tranches (Some i) = Inr r"
  obtains c where "validateTrancheInput (Some i) = None" "ti_config i = Some c" "validate_ladder_config c = None"
    "process_allocations i (ramp_steps (lc_ramp c)) (ti_allocations i)
       \<lparr>ts_calls = 0, ts_buy_now = [], ts_tranches = []\<rparr> = Inr r"
    "validateTrancheIDs (ts_tranches r) = None"
proof -
  from assms have v: "validateTrancheInput (Some i) = None" by (simp add: build_tranches_def)
  then obtain c where c: "ti_config i = Some c" "validate_ladder_config c = None"
    by (rule validateTrancheInput_None)
  with assms v show thesis by (intro that) (auto simp: build_tranches_def buildTrancheResult_def)
qed

lemma build_tranches_committed:
  assumes "build_tranches (Some i) = Inr r"
  shows "committed P r = alloc_total (filter (\<lambda>a. P (al_layer a)) (ti_allocations i))"
  using assms
proof (rule build_tranches_Inr)
  fix c
  assume v: "validateTrancheInput (Some i) = None" and c: "validate_ladder_config c = None"
    and p: "process_allocations i (ramp_steps (lc_ramp c)) (ti_allocations i)
       \<lparr>ts_calls = 0, ts_buy_now = [], ts_tranches = []\<rparr> = Inr r"
  from v have "validateInputAllocations (ti_allocations i) = None" by (rule validateTrancheInput_None)
  then have "\<forall>a \<in> set (ti_allocations i). 0 \<le> al_gap a" using validateInputAllocations_all(2) less_imp_le by blast
  moreover have "\<forall>s \<in> set (ramp_steps (lc_ramp c)). 0 \<le> rat_of_f64 (rs_fraction s)"
    using valid_steps(3) [OF c] less_imp_le by blast
  ultimately show ?thesis
    using process_allocations_committed [OF p valid_steps(1) [OF c], of P]
    by (simp add: committed_def [of P "\<lparr>ts_calls = 0, ts_buy_now = [], ts_tranches = []\<rparr>"])
qed

lemma build_tranches_succeeds:
  assumes "validateTrancheInput (Some i) = None" and "ti_new_id i = Some newID" and "inj newID"
    and "\<forall>k. newID k \<noteq> []" and "0 < ti_now i"
  shows "\<exists>r. build_tranches (Some i) = Inr r"
  using assms(1)
proof (rule validateTrancheInput_None)
  fix c newID'
  assume c: "ti_config i = Some c" "validate_ladder_config c = None" and i: "ti_run_id i \<noteq> []"
    "validate_commit_term (ti_term i) = None" "validate_payment_option (ti_payment i) = None"
    and al: "validateInputAllocations (ti_allocations i) = None"
  have good: "good_input i newID" using assms i by (simp add: good_input_def)
  obtain r where r: "process_allocations i (ramp_steps (lc_ramp c)) (ti_allocations i)
       \<lparr>ts_calls = 0, ts_buy_now = [], ts_tranches = []\<rparr> = Inr r" and ids: "ids_in_order newID r"
    using process_allocations_total [OF good _ valid_steps(3) [OF c(2)]] validateInputAllocations_all [OF al]
    by (metis ids_in_order_def list.simps(8) tranche_result.select_convs(1,3) upt_0 upt_conv_Nil le_refl)
  have "distinct (map tr_id (ts_tranches r))"
    using ids assms(3) by (simp add: ids_in_order_def distinct_map) (rule inj_on_subset, auto)
  moreover have "[] \<notin> set (map tr_id (ts_tranches r))"
    using ids assms(4) by (metis (no_types, lifting) ids_in_order_def image_iff list.set_map)
  ultimately have "validateTrancheIDs (ts_tranches r) = None"
    by (simp add: validateTrancheIDs_def validate_ids_from_None)
  with r c assms(1) show ?thesis by (simp add: build_tranches_def buildTrancheResult_def)
qed

section \<open>A concrete ramp\<close>

definition ex_alloc :: "layer_type \<Rightarrow> rat \<Rightarrow> allocation" where
  "ex_alloc l q = \<lparr>al_layer = l, al_gap = q, al_rationale = ''gap'', al_sources = []\<rparr>"

definition ex_ids :: "nat \<Rightarrow> string" where
  "ex_ids k = replicate (Suc k) (CHR ''x'')"

definition ex_ramp :: tranche_input where
  "ex_ramp = \<lparr>ti_config = Some ex_config, ti_run_id = ''run-1'', ti_term = ''1yr'', ti_payment = ''no-upfront'',
     ti_new_id = Some ex_ids, ti_now = 5, ti_allocations = [ex_alloc ''compute-sp'' 1, ex_alloc ''ec2-instance-sp'' (1/3)]\<rparr>"

lemma ex_ramp_valid: "validateTrancheInput (Some ex_ramp) = None"
  by (simp add: ex_ramp_def validateTrancheInput_def ex_config_valid is_zero_time_def validate_commit_term_def
      validate_payment_option_def validateInputAllocations_def ex_alloc_def validate_layer_type_def)

lemma ex_ids_ok: "inj ex_ids" "\<forall>k. ex_ids k \<noteq> []"
proof -
  show "inj ex_ids"
  proof (rule injI)
    fix a b assume "ex_ids a = ex_ids b"
    then have "length (ex_ids a) = length (ex_ids b)" by simp
    then show "a = b" by (simp add: ex_ids_def)
  qed
qed (simp add: ex_ids_def)

lemma ex_ramp_result: "\<exists>r. build_tranches (Some ex_ramp) = Inr r"
  by (rule build_tranches_succeeds [OF ex_ramp_valid _ ex_ids_ok]) (simp_all add: ex_ramp_def)

section \<open>Properties\<close>

text \<open>C2: splitting an allocation over the ramp loses, duplicates and over-allocates nothing.
  On every layer the immediate purchases and the scheduled tranches, their amounts parsed
  back from the stored text, sum exactly to the allocated gap, despite the binary fractions
  of the schedule.\<close>

theorem tranches_reconstruct_gap:
  assumes "build_tranches (Some i) = Inr r"
  shows "committed (\<lambda>x. x = l) r = alloc_total (filter (\<lambda>a. al_layer a = l) (ti_allocations i))"
  using assms by (rule build_tranches_committed)

text \<open>C7: a validated input never fails later on. With an identifier generator that returns
  distinct non-empty identifiers and a clock after the year 1, \<open>BuildTranches\<close> returns a
  result: the schedules its validator accepts never produce an amount it rejects.\<close>

theorem build_tranches_total:
  assumes "validateTrancheInput (Some i) = None" and "ti_new_id i = Some newID" and "inj newID"
    and "\<forall>k. newID k \<noteq> []" and "0 < ti_now i"
  shows "\<exists>r. build_tranches (Some i) = Inr r"
  using assms by (rule build_tranches_succeeds)

theorem build_tranches_total_witness: "\<exists>r. build_tranches (Some ex_ramp) = Inr r"
  by (rule build_tranches_total [OF ex_ramp_valid _ ex_ids_ok]) (simp_all add: ex_ramp_def)

theorem tranches_reconstruct_gap_witness:
  "\<exists>r. build_tranches (Some ex_ramp) = Inr r \<and> committed (\<lambda>x. x = ''ec2-instance-sp'') r = 1 / 3"
proof -
  obtain r where r: "build_tranches (Some ex_ramp) = Inr r" using ex_ramp_result by blast
  from tranches_reconstruct_gap [OF r, of "''ec2-instance-sp''"] r show ?thesis
    by (auto simp: ex_ramp_def ex_alloc_def alloc_total_def)
qed



text \<open>C5: end to end, whatever \<open>Allocate\<close> proposes, \<open>BuildTranches\<close> accepts, and what it
  commits, now and in all its scheduled tranches together, is exactly the proposed amount
  and within the configured hourly cap.\<close>

theorem ladder_run_end_to_end:
  assumes "allocate (Some i) = Inr r" and "run_id \<noteq> []" and "0 < now"
    and "validate_commit_term commit_term = None" and "validate_payment_option payment = None"
    and "inj newID" and "\<forall>k. newID k \<noteq> []"
  shows "\<exists>tr. build_tranches (Some \<lparr>ti_config = Some (ai_config i), ti_run_id = run_id, ti_term = commit_term,
      ti_payment = payment, ti_new_id = Some newID, ti_now = now, ti_allocations = ar_allocations r\<rparr>) = Inr tr \<and>
    committed (\<lambda>_. True) tr = alloc_total (ar_allocations r) \<and>
    (\<forall>c. lc_max_hourly (ai_config i) = Some (Fin c) \<longrightarrow> committed (\<lambda>_. True) tr \<le> c)"
proof -
  let ?ti = "\<lparr>ti_config = Some (ai_config i), ti_run_id = run_id, ti_term = commit_term,
      ti_payment = payment, ti_new_id = Some newID, ti_now = now, ti_allocations = ar_allocations r\<rparr>"
  note v = validateAllocateInput_None [OF allocate_valid [OF assms(1)]]
  note lim = allocate_limits [OF assms(1)]
  have lt: "validate_layer_type (al_layer a) = None" if "a \<in> set (ar_allocations r)" for a
    using lim that validateLayers_None(4) [OF v(3)] by fastforce
  have "validateInputAllocations (ar_allocations r) = None"
    unfolding validateInputAllocations_def
  proof (rule check_each_None_I)
    fix k a assume a: "a \<in> set (ar_allocations r)"
    then have "1 / 100 \<le> al_gap a" using lim by blast
    then have "\<not> al_gap a \<le> 0" by linarith
    with lt [OF a] allocate_rationales [OF assms(1) a]
    show "orelse (map_option (\<lambda>e. Errorf ''allocation[%d]: layer: %w'' [EInt (int k), EWrap e])
         (validate_layer_type (al_layer a)))
      (if al_gap a \<le> 0 then Some (Errorf ''allocation[%d]: gap_usd_per_hour must be positive'' [EInt (int k)])
       else if al_rationale a = [] then
         Some (Errorf ''allocation[%d]: rationale is required (money-path auditability)'' [EInt (int k)])
       else None) = None" by simp
  qed
  then have "validateTrancheInput (Some ?ti) = None"
    using assms v(2) by (simp add: validateTrancheInput_def is_zero_time_def)
  then obtain tr where tr: "build_tranches (Some ?ti) = Inr tr"
    using build_tranches_succeeds [of ?ti newID] assms(3,6,7) by auto
  have "committed (\<lambda>_. True) tr = alloc_total (ar_allocations r)"
    using build_tranches_committed [OF tr, of "\<lambda>_. True"] by simp
  with tr lim show ?thesis by auto
qed

theorem ladder_run_end_to_end_witness:
  "\<exists>r tr. allocate (Some ex_input) = Inr r \<and> committed (\<lambda>_. True) tr = alloc_total (ar_allocations r) \<and>
    committed (\<lambda>_. True) tr \<le> 2"
proof -
  obtain r where r: "allocate (Some ex_input) = Inr r" using ex_allocate by blast
  have "lc_max_hourly (ai_config ex_input) = Some (Fin 2)" by (simp add: ex_input_def ex_config_def)
  with ladder_run_end_to_end [OF r, of "''run''" 1 "''1yr''" "''no-upfront''", OF _ _ _ _ ex_ids_ok] r
  show ?thesis by (auto simp: validate_commit_term_def validate_payment_option_def)
qed

text \<open>The approval email of a validated plan has exactly the lines of its layout: no account
  name, rationale, term or data source can add one.\<close>

theorem explain_line_count:
  assumes "validate_plan p = None"
  shows "line_count (explain p) = 7 + length (lp_actions p) +
    (if collectDataSources (lp_actions p) = [] then 0 else 1)"
proof -
  note v = validate_plan_None [OF assms]
  have "list_all one_line (collectDataSources (lp_actions p))" by (rule collectDataSources_one_line)
  then have "one_line (join '', '' (collectDataSources (lp_actions p)))" by (simp add: one_line_Cons)
  moreover have "collectDataSources [] = []" by (simp add: collectDataSources_def)
  ultimately show ?thesis
    by (auto simp: explain_def Let_def line_count_fline one_line_Cons validate_scope_one_line [OF v(1)]
        line_count_action_lines [OF v(2)])
qed

definition ex_plan :: ladder_plan where
  "ex_plan = \<lparr>lp_scope = \<lparr>sp_provider = ''aws'', sp_account = ''1'' @ [newline] @ ''2''\<rparr>, lp_generated = 5,
     lp_target = Some 2, lp_existing = None, lp_gap = None,
     lp_actions = [mk_passive ActionHold ''compute-sp'' (''fine'' @ [newline] @ ''  2. fake action'') [''a'' @ [newline]]],
     lp_baseline = \<lparr>ub_low_water = None, ub_stable = None, ub_series = [], ub_lookback_days = 30,
       ub_percentile = Fin 5\<rparr>\<rparr>"

lemma ex_plan_valid: "validate_plan ex_plan = None"
  by (simp add: validate_plan_def ex_plan_def validate_scope_def is_zero_time_def validate_mk_passive
      validate_layer_type_def)

theorem explain_line_count_witness:
  "line_count (explain ex_plan) = (if collectDataSources (lp_actions ex_plan) = [] then 8 else 9)"
  using explain_line_count [OF ex_plan_valid] by (simp add: ex_plan_def)

text \<open>A ramp schedule that validates has steps on strictly increasing days from day 0 on,
  each with a finite fraction of the gap in (0, 1].\<close>

theorem validated_ramp_shape:
  assumes "validate_ramp r = None"
  shows "ramp_steps r \<noteq> [] \<and> distinct (map rs_after_days (ramp_steps r)) \<and>
    (\<forall>s \<in> set (ramp_steps r). 0 \<le> rs_after_days s \<and> (\<exists>q. rs_fraction s = Fin q \<and> 0 < q \<and> q \<le> 1))"
  using validate_ramp_None [OF assms] ascending_from_distinct ascending_from_ge by fastforce

theorem validated_ramp_shape_witness:
  "validate_ramp (lc_ramp ex_config) = None \<and> distinct (map rs_after_days (ramp_steps (lc_ramp ex_config)))"
  using validated_ramp_shape [OF validate_ladder_config_None(3) [OF ex_config_valid]]
    validate_ladder_config_None(3) [OF ex_config_valid] by blast

end
