(* ===== verification/Exchange_Reshape.thy ===== *)
theory Exchange_Reshape
  imports Go_Time
begin

text \<open>
  \<open>pkg/exchange/reshape.go\<close>: the analysis of under-utilised convertible reserved
  instances, the size that fits their use, and the cross-family alternatives with their
  score. Prices, utilisation and normalisation factors are floats as in the code; counts are
  integers (\<open>int32\<close> in the code, see \<open>i32_of_f64\<close> for the one conversion). \<open>sort.Slice\<close> is
  the insertion sort it is for up to 12 elements; on longer slices it may order equal
  elements differently.
\<close>

section \<open>Data\<close>

record ri_info =
  ri_id :: string
  ri_type :: string
  ri_count :: int
  ri_class :: string
  ri_nf :: f64
  ri_monthly_cost :: f64
  ri_currency :: string
  ri_term_seconds :: int

record utilization_info =
  ui_id :: string
  ui_percent :: f64

record offering_option =
  of_type :: string
  of_id :: string
  of_cost :: f64
  of_nf :: f64
  of_currency :: string
  of_term_seconds :: int
  of_savings :: "f64 option"
  of_rec_count :: int

record reshape_rec =
  rc_source_id :: string
  rc_source_type :: string
  rc_source_count :: int
  rc_target_type :: string
  rc_target_count :: int
  rc_alternatives :: "offering_option list"
  rc_util :: f64
  rc_used :: f64
  rc_purchased :: f64
  rc_reason :: string

section \<open>Instance types\<close>

definition is_digit_char :: "char \<Rightarrow> bool" where
  "is_digit_char c = (digit_val c \<noteq> None)"

definition is_lower_char :: "char \<Rightarrow> bool" where
  "is_lower_char c = byte_in 97 122 c"

definition parseInstanceType :: "string \<Rightarrow> string \<times> string" where
  "parseInstanceType t =
    (if CHR ''.'' \<in> set t then
       (takeWhile (\<lambda>c. c \<noteq> CHR ''.'') t, tl (dropWhile (\<lambda>c. c \<noteq> CHR ''.'') t))
     else ([], []))"

definition familyPrefix :: "string \<Rightarrow> string" where
  "familyPrefix family = takeWhile (\<lambda>c. \<not> is_digit_char c) family"

definition isARMFamily :: "string \<Rightarrow> bool" where
  "isARMFamily family =
    (let pre = familyPrefix family in
     if pre = ''im'' \<or> pre = ''is'' then False
     else let genSuffix = dropWhile is_lower_char family;
              suffix = dropWhile is_digit_char genSuffix
          in suffix = ''g'' \<or> suffix = ''gd'' \<or> suffix = ''gn'')"

definition nf_table :: "(string \<times> rat) list" where
  "nf_table = [(''nano'', 1/4), (''micro'', 1/2), (''small'', 1), (''medium'', 2), (''large'', 4),
     (''xlarge'', 8), (''2xlarge'', 16), (''3xlarge'', 24), (''4xlarge'', 32), (''6xlarge'', 48),
     (''8xlarge'', 64), (''9xlarge'', 72), (''10xlarge'', 80), (''12xlarge'', 96), (''16xlarge'', 128),
     (''18xlarge'', 144), (''24xlarge'', 192), (''metal'', 192)]"

definition sizeOrder :: "string list" where
  "sizeOrder = [''nano'', ''micro'', ''small'', ''medium'', ''large'', ''xlarge'',
     ''2xlarge'', ''3xlarge'', ''4xlarge'', ''6xlarge'', ''8xlarge'',
     ''9xlarge'', ''10xlarge'', ''12xlarge'', ''16xlarge'', ''18xlarge'',
     ''24xlarge'', ''metal'']"

text \<open>A missing key of the Go map reads as zero.\<close>

definition normalizationFactors :: "string \<Rightarrow> f64" where
  "normalizationFactors sz = (case map_of nf_table sz of Some q \<Rightarrow> Fin q | None \<Rightarrow> Fin 0)"

definition NormalizationFactorForSize :: "string \<Rightarrow> f64" where
  "NormalizationFactorForSize sz = normalizationFactors sz"

section \<open>Scores\<close>

definition passesDollarUnitsCheck :: "f64 \<Rightarrow> f64 \<Rightarrow> string \<Rightarrow> offering_option \<Rightarrow> bool" where
  "passesDollarUnitsCheck srcNF srcMonthlyCost srcCurrency target =
    (if srcCurrency \<noteq> [] \<and> of_currency target \<noteq> [] \<and> srcCurrency \<noteq> of_currency target then False
     else if fle srcNF (Fin 0) \<or> fle (of_cost target) (Fin 0) \<or> fle (of_nf target) (Fin 0) then False
     else fge (fmul (of_nf target) (of_cost target)) (fmul srcNF srcMonthlyCost))"

definition scoreWeightCost :: f64 where "scoreWeightCost = fl (60 / 100)"
definition scoreWeightFamilyGen :: f64 where "scoreWeightFamilyGen = fl (15 / 100)"
definition scoreWeightArch :: f64 where "scoreWeightArch = fl (10 / 100)"
definition scoreWeightConfidence :: f64 where "scoreWeightConfidence = fl (10 / 100)"
definition scoreWeightNFProximity :: f64 where "scoreWeightNFProximity = fl (5 / 100)"

definition costComponent :: "offering_option \<Rightarrow> ri_info \<Rightarrow> f64" where
  "costComponent off src =
    (if fle (ri_monthly_cost src) (Fin 0) \<or> fle (of_cost off) (Fin 0) then Fin (1/2)
     else let ratio = fdiv (ri_monthly_cost src) (of_cost off) in fdiv ratio (fadd (Fin 1) ratio))"

definition familyGenComponent :: "offering_option \<Rightarrow> ri_info \<Rightarrow> f64" where
  "familyGenComponent off src =
    (let srcFamily = fst (parseInstanceType (ri_type src)); offFamily = fst (parseInstanceType (of_type off)) in
     if srcFamily = [] \<or> offFamily = [] then Fin 0
     else if familyPrefix srcFamily = familyPrefix offFamily then Fin 1 else Fin 0)"

definition archComponent :: "offering_option \<Rightarrow> ri_info \<Rightarrow> f64" where
  "archComponent off src =
    (let srcFamily = fst (parseInstanceType (ri_type src)); offFamily = fst (parseInstanceType (of_type off)) in
     if srcFamily = [] \<or> offFamily = [] then Fin (1/2)
     else if isARMFamily srcFamily = isARMFamily offFamily then Fin 1 else Fin 0)"

definition confidenceComponent :: "offering_option \<Rightarrow> f64" where
  "confidenceComponent off = (case of_savings off of
     None \<Rightarrow> Fin (1/2)
   | Some savings \<Rightarrow>
     if of_rec_count off = 0 then Fin (1/2)
     else if fge savings (Fin 200) \<and> 3 \<le> of_rec_count off then Fin 1
     else if fge savings (Fin 50) then Fin (1/2)
     else Fin 0)"

definition nfProximityComponent :: "offering_option \<Rightarrow> ri_info \<Rightarrow> f64" where
  "nfProximityComponent off src =
    (let srcNF = (if fle (ri_nf src) (Fin 0) then normalizationFactors (snd (parseInstanceType (ri_type src)))
                  else ri_nf src)
     in if fle srcNF (Fin 0) \<or> fle (of_nf off) (Fin 0) then Fin (1/2)
        else let deviation = fabs (fsub (fdiv (of_nf off) srcNF) (Fin 1)) in
          if fge deviation (Fin 1) then Fin 0 else fsub (Fin 1) deviation)"

definition compositeScore :: "offering_option \<Rightarrow> ri_info \<Rightarrow> f64" where
  "compositeScore off src =
    fadd (fadd (fadd (fadd (fmul scoreWeightCost (costComponent off src))
      (fmul scoreWeightFamilyGen (familyGenComponent off src)))
      (fmul scoreWeightArch (archComponent off src)))
      (fmul scoreWeightConfidence (confidenceComponent off)))
      (fmul scoreWeightNFProximity (nfProximityComponent off src))"

section \<open>The base analysis\<close>

definition resolveNormFactor :: "ri_info \<Rightarrow> string \<Rightarrow> f64" where
  "resolveNormFactor ri sz = (if \<not> feq (ri_nf ri) (Fin 0) then ri_nf ri else normalizationFactors sz)"

text \<open>The conversion \<open>int32(x)\<close> of a float, truncating; a value out of range gives the least
  integer, as on amd64.\<close>

definition i32_of_f64 :: "f64 \<Rightarrow> int" where
  "i32_of_f64 x = (case x of
     Fin q \<Rightarrow> (let n = (if 0 \<le> q then \<lfloor>q\<rfloor> else \<lceil>q\<rceil>) in
       if -2147483648 \<le> n \<and> n \<le> 2147483647 then n else -2147483648)
   | _ \<Rightarrow> -2147483648)"

text \<open>The scan for the last size of the list whose factor fits.\<close>

fun best_size :: "f64 \<Rightarrow> string option \<Rightarrow> string list \<Rightarrow> string option" where
  "best_size used best [] = best"
| "best_size used best (s # ss) =
    (let nf = normalizationFactors s in
     best_size used (if fgt nf (Fin 0) \<and> fle nf used then Some s else best) ss)"

definition findBestFit :: "f64 \<Rightarrow> string \<times> int" where
  "findBestFit normalizedUsed =
    (if fle normalizedUsed (Fin 0) then ([], 0)
     else case best_size normalizedUsed None sizeOrder of
       Some s \<Rightarrow> (s, i32_of_f64 (fceil (fdiv normalizedUsed (normalizationFactors s))))
     | None \<Rightarrow> (hd sizeOrder, 1))"

text \<open>\<open>utilMap\<close>: a later entry for the same reserved instance replaces an earlier one.\<close>

definition util_map :: "utilization_info list \<Rightarrow> string \<rightharpoonup> f64" where
  "util_map us = map_of (rev (map (\<lambda>u. (ui_id u, ui_percent u)) us))"

definition analyzeRI :: "ri_info \<Rightarrow> (string \<rightharpoonup> f64) \<Rightarrow> f64 \<Rightarrow> reshape_rec option" where
  "analyzeRI ri utilMap threshold =
    (if \<not> equal_fold (ri_class ri) ''convertible'' then None
     else case utilMap (ri_id ri) of
       None \<Rightarrow> None
     | Some util \<Rightarrow>
       if fge util threshold then None
       else case parseInstanceType (ri_type ri) of (family, sz) \<Rightarrow>
         if family = [] then None
         else let normFactor = resolveNormFactor ri sz in
           if feq normFactor (Fin 0) then None
           else let normalizedPurchased = fmul normFactor (f64_of_int (ri_count ri));
                    normalizedUsed = fmul normalizedPurchased (fdiv util (Fin 100)) in
             if fle normalizedUsed (Fin 0) then
               Some \<lparr>rc_source_id = ri_id ri, rc_source_type = ri_type ri, rc_source_count = ri_count ri,
                 rc_target_type = [], rc_target_count = 0, rc_alternatives = [], rc_util = util,
                 rc_used = Fin 0, rc_purchased = normalizedPurchased,
                 rc_reason = sprintf ''RI is completely unused (%.0f%% utilization, %.1f normalized units wasted). Consider letting it expire or exchanging for needed capacity.''
                   [FF64 util, FF64 normalizedPurchased]\<rparr>
             else case findBestFit normalizedUsed of (targetSize, targetCount) \<Rightarrow>
               if targetSize = [] then None
               else let targetInstanceType = family @ ''.'' @ targetSize in
                 if targetInstanceType = ri_type ri \<and> targetCount = ri_count ri then None
                 else Some \<lparr>rc_source_id = ri_id ri, rc_source_type = ri_type ri, rc_source_count = ri_count ri,
                   rc_target_type = targetInstanceType, rc_target_count = targetCount, rc_alternatives = [],
                   rc_util = util, rc_used = normalizedUsed, rc_purchased = normalizedPurchased,
                   rc_reason = sprintf ''RI at %.0f%% utilization (%.1f/%.1f normalized units). Suggest exchanging %dx %s for %dx %s.''
                     [FF64 util, FF64 normalizedUsed, FF64 normalizedPurchased, FInt (ri_count ri),
                      FStr (ri_type ri), FInt targetCount, FStr targetInstanceType]\<rparr>)"

definition AnalyzeReshaping :: "ri_info list \<Rightarrow> utilization_info list \<Rightarrow> f64 \<Rightarrow> reshape_rec list" where
  "AnalyzeReshaping ris utilization threshold =
    List.map_filter (\<lambda>ri. analyzeRI ri (util_map utilization) threshold) ris"

section \<open>Alternatives\<close>

definition isCrossFamilyAlternative :: "offering_option \<Rightarrow> string \<Rightarrow> string \<Rightarrow> bool" where
  "isCrossFamilyAlternative off srcFamily primaryTarget =
    (let offFamily = fst (parseInstanceType (of_type off)) in
     if offFamily = [] \<or> equal_fold offFamily srcFamily then False
     else if of_type off = primaryTarget then False
     else True)"

definition termMatchesIfKnown :: "ri_info \<Rightarrow> offering_option \<Rightarrow> bool \<Rightarrow> bool" where
  "termMatchesIfKnown src off hasSrc =
    (if \<not> hasSrc \<or> ri_term_seconds src \<le> 0 \<or> of_term_seconds off \<le> 0 then True
     else ri_term_seconds src = of_term_seconds off)"

definition pricingGatePasses :: "ri_info \<Rightarrow> offering_option \<Rightarrow> bool \<Rightarrow> bool" where
  "pricingGatePasses src off hasSrc =
    (if \<not> hasSrc \<or> fle (ri_monthly_cost src) (Fin 0) then True
     else let srcNF = (if fle (ri_nf src) (Fin 0)
                then NormalizationFactorForSize (snd (parseInstanceType (ri_type src))) else ri_nf src)
       in passesDollarUnitsCheck srcNF (ri_monthly_cost src) (ri_currency src) off)"

definition alternativeIsEligible :: "reshape_rec \<Rightarrow> offering_option \<Rightarrow> ri_info \<Rightarrow> bool \<Rightarrow> string \<Rightarrow> bool" where
  "alternativeIsEligible rec off src hasSrc srcFamily =
    (if \<not> isCrossFamilyAlternative off srcFamily (rc_target_type rec) then False
     else if \<not> termMatchesIfKnown src off hasSrc then False
     else if \<not> pricingGatePasses src off hasSrc then False
     else True)"

text \<open>The order of the alternatives; \<open>src\<close> is the zero value when the source is unknown.\<close>

definition alternative_before :: "ri_info \<Rightarrow> offering_option \<Rightarrow> offering_option \<Rightarrow> bool" where
  "alternative_before src a b =
    (let sa = compositeScore a src; sb = compositeScore b src in
     if \<not> feq sa sb then fgt sa sb
     else if \<not> feq (of_cost a) (of_cost b) then flt (of_cost a) (of_cost b)
     else of_type a < of_type b)"

definition zero_ri :: ri_info where
  "zero_ri = \<lparr>ri_id = [], ri_type = [], ri_count = 0, ri_class = [], ri_nf = Fin 0, ri_monthly_cost = Fin 0,
     ri_currency = [], ri_term_seconds = 0\<rparr>"

definition fill_alternatives :: "offering_option list \<Rightarrow> (string \<rightharpoonup> ri_info) \<Rightarrow> reshape_rec \<Rightarrow> reshape_rec" where
  "fill_alternatives offerings risByID rec =
    (let hasSrc = risByID (rc_source_id rec) \<noteq> None;
         src = (case risByID (rc_source_id rec) of Some r \<Rightarrow> r | None \<Rightarrow> zero_ri);
         srcFamily = fst (parseInstanceType (rc_source_type rec))
     in rec\<lparr>rc_alternatives := go_sort (alternative_before src)
          (filter (\<lambda>off. alternativeIsEligible rec off src hasSrc srcFamily) offerings)\<rparr>)"

definition fillAlternativesFromRecs :: "reshape_rec list \<Rightarrow> offering_option list \<Rightarrow> (string \<rightharpoonup> ri_info) \<Rightarrow> reshape_rec list" where
  "fillAlternativesFromRecs recs offerings risByID = map (fill_alternatives offerings risByID) recs"

text \<open>The recommendations lookup is a parameter (\<open>None\<close> for a nil closure).\<close>

definition AnalyzeReshapingWithRecs :: "ri_info list \<Rightarrow> utilization_info list \<Rightarrow> f64 \<Rightarrow> string \<Rightarrow> string \<Rightarrow>
    (string \<Rightarrow> string \<Rightarrow> goerr + offering_option list) option \<Rightarrow> reshape_rec list" where
  "AnalyzeReshapingWithRecs ris utilization threshold region currencyCode lookup =
    (let recs = AnalyzeReshaping ris utilization threshold in
     case lookup of
       None \<Rightarrow> recs
     | Some f \<Rightarrow>
       if recs = [] then recs
       else (case f region currencyCode of
           Inl e \<Rightarrow> recs
         | Inr offerings \<Rightarrow>
           if offerings = [] then recs
           else fillAlternativesFromRecs recs offerings (map_of (rev (map (\<lambda>r. (ri_id r, r)) ris)))))"

end
