(* ===== verification/Exchange_Reshape_Props.thy ===== *)
theory Exchange_Reshape_Props
  imports Exchange_Reshape
begin

text \<open>
  What the reshape analysis (\<open>pkg/exchange/reshape.go\<close>) recommends: only under-utilised
  convertible reservations, the largest size that fits with less than twice the used
  capacity, and eligible alternatives in the order of their score.
\<close>

section \<open>The size scan\<close>

definition size_nf :: "string \<Rightarrow> rat" where
  "size_nf s = rat_of_f64 (normalizationFactors s)"

lemma normalizationFactors_fin: "normalizationFactors s = Fin (size_nf s)"
  by (simp add: size_nf_def normalizationFactors_def split: option.split)

lemma best_size_spec:
  "best_size (Fin q) b ss =
     (let fits = filter (\<lambda>s. 0 < size_nf s \<and> size_nf s \<le> q) ss in if fits = [] then b else Some (last fits))"
  by (induction ss arbitrary: b) (simp_all add: Let_def normalizationFactors_fin)

lemma sizeOrder_sorted: "sorted (map size_nf sizeOrder)"
  by (simp add: sizeOrder_def size_nf_def normalizationFactors_def nf_table_def)

lemma sizeOrder_pos: "s \<in> set sizeOrder \<Longrightarrow> 0 < size_nf s"
  by (auto simp: sizeOrder_def size_nf_def normalizationFactors_def nf_table_def)

lemma size_nf_nano: "hd sizeOrder = ''nano''" "size_nf ''nano'' = 1/4"
  by (simp_all add: sizeOrder_def size_nf_def normalizationFactors_def nf_table_def)

lemma size_nf_large: "s \<in> set sizeOrder \<Longrightarrow> 1/4 \<le> size_nf s"
  by (auto simp: sizeOrder_def size_nf_def normalizationFactors_def nf_table_def)

lemma sorted_last_max:
  assumes "sorted (map f xs)" "x \<in> set xs"
  shows "f x \<le> f (last xs)"
  using assms by (induction xs) (auto split: if_splits)

lemma best_size_Some:
  assumes "1/4 \<le> q"
  obtains s where "best_size (Fin q) None sizeOrder = Some s" "s \<in> set sizeOrder" "size_nf s \<le> q"
    "\<forall>t \<in> set sizeOrder. size_nf t \<le> q \<longrightarrow> size_nf t \<le> size_nf s"
proof -
  let ?fits = "filter (\<lambda>s. 0 < size_nf s \<and> size_nf s \<le> q) sizeOrder"
  have "''nano'' \<in> set ?fits" using assms by (simp add: sizeOrder_def size_nf_nano)
  then have ne: "?fits \<noteq> []" by (metis empty_iff empty_set)
  have "sorted (map size_nf ?fits)" using sizeOrder_sorted by (simp add: sorted_filter)
  then have "\<forall>t \<in> set ?fits. size_nf t \<le> size_nf (last ?fits)" by (auto intro: sorted_last_max)
  moreover have "last ?fits \<in> set ?fits" using ne by (rule last_in_set)
  ultimately show thesis using ne sizeOrder_pos
    by (intro that [of "last ?fits"]) (auto simp: best_size_spec)
qed

lemma findBestFit_small: "0 < q \<Longrightarrow> q < 1/4 \<Longrightarrow> findBestFit (Fin q) = (''nano'', 1)"
proof -
  assume q: "0 < q" "q < 1/4"
  have "filter (\<lambda>s. 0 < size_nf s \<and> size_nf s \<le> q) sizeOrder = []"
    using q size_nf_large by (fastforce simp: filter_empty_conv)
  then show ?thesis using q by (simp add: findBestFit_def best_size_spec size_nf_nano)
qed

lemma findBestFit_fits:
  assumes "1/4 \<le> q" "q \<le> 536870911" "findBestFit (Fin q) = (s, c)"
  shows "s \<in> set sizeOrder" "size_nf s \<le> q" "\<forall>t \<in> set sizeOrder. size_nf t \<le> q \<longrightarrow> size_nf t \<le> size_nf s"
    "1 \<le> c" "of_int c * size_nf s < 2 * q"
proof -
  obtain b where b: "best_size (Fin q) None sizeOrder = Some b" "b \<in> set sizeOrder" "size_nf b \<le> q"
    "\<forall>t \<in> set sizeOrder. size_nf t \<le> q \<longrightarrow> size_nf t \<le> size_nf b"
    using best_size_Some [OF assms(1)] by blast
  define nf where "nf = size_nf b"
  have nf: "1/4 \<le> nf" "nf \<le> q" using b size_nf_large by (auto simp: nf_def)
  have x: "1 \<le> q / nf" "q / nf < 2 ^ 53"
    using nf assms(2) by (auto simp: field_simps)
  have pos: "0 < q / nf" using x by linarith
  have "exp2 (-1022) \<le> q / nf" using exp2_mono [of "-1022" 0] x(1) by (simp add: exp2_def [of 0])
  moreover have "q / nf < exp2 1000" using exp2_mono [of 53 1000] x(2) by (simp add: exp2_def [of 53])
  ultimately obtain r where r: "fl (q / nf) = Fin r" "0 < r" using fl_pos_finite by blast
  have r1: "1 \<le> r" using fl_ge_of_int [OF pos x(2) r(1), of 1] x(1) by simp
  have c1: "1 \<le> \<lceil>r\<rceil>" using r1 by (simp add: le_ceiling_iff)
  have c2: "\<lceil>r\<rceil> \<le> \<lceil>q / nf\<rceil>" by (rule fl_ceiling_le [OF pos x(2) r(1)])
  have bound: "of_int \<lceil>q / nf\<rceil> < q / nf + 1" by linarith
  have "q / nf \<le> 4 * q" using nf assms(1) by (simp add: field_simps)
  have res: "s = b" "c = i32_of_f64 (Fin (of_int \<lceil>r\<rceil>))"
    using assms(1,3) b(1) r nf by (auto simp: findBestFit_def normalizationFactors_fin nf_def)
  have "q / nf \<le> of_int 2147483647" using \<open>q / nf \<le> 4 * q\<close> assms(2) by simp
  then have "\<lceil>q / nf\<rceil> \<le> 2147483647" by (simp only: ceiling_le_iff)
  with c2 have "\<lceil>r\<rceil> \<le> 2147483647" by linarith
  with c1 have c: "c = \<lceil>r\<rceil>" by (simp add: res(2) i32_of_f64_def Let_def)
  have "of_int c * nf \<le> of_int \<lceil>q / nf\<rceil> * nf" using c c2 nf by (intro mult_right_mono) auto
  also have "\<dots> < (q / nf + 1) * nf" using bound nf by (intro mult_strict_right_mono) auto
  also have "\<dots> = q + nf" using nf by (simp add: field_simps)
  also have "\<dots> \<le> 2 * q" using nf by simp
  finally show "of_int c * size_nf s < 2 * q" by (simp add: res nf_def)
  show "s \<in> set sizeOrder" "size_nf s \<le> q" "\<forall>t \<in> set sizeOrder. size_nf t \<le> q \<longrightarrow> size_nf t \<le> size_nf s"
    using b by (simp_all add: res)
  show "1 \<le> c" using c c1 by simp
qed

section \<open>The order of the alternatives\<close>

text \<open>On floats that are not NaN the comparison is a strict weak order; NaN is put first to
  extend it to all.\<close>

definition flt_total :: "f64 \<Rightarrow> f64 \<Rightarrow> bool" where
  "flt_total x y = (if x = NaN then y \<noteq> NaN else y \<noteq> NaN \<and> flt x y)"

lemma flt_total_cases: "x = y \<or> flt_total x y \<or> flt_total y x"
  by (cases x; cases y) (auto simp: flt_total_def)

lemma flt_total_irrefl [simp]: "\<not> flt_total x x"
  by (simp add: flt_total_def)

lemma flt_total_trans: "flt_total x y \<Longrightarrow> flt_total y z \<Longrightarrow> flt_total x z"
  by (auto simp: flt_total_def split: if_splits intro: flt_trans)

lemma flt_total_asym: "flt_total x y \<Longrightarrow> \<not> flt_total y x"
  using flt_total_trans flt_total_irrefl by blast

definition alternative_key_before :: "(offering_option \<Rightarrow> f64) \<Rightarrow> offering_option \<Rightarrow> offering_option \<Rightarrow> bool" where
  "alternative_key_before sc a b =
    (flt_total (sc b) (sc a) \<or> sc a = sc b \<and>
      (flt_total (of_cost a) (of_cost b) \<or> of_cost a = of_cost b \<and> of_type a < of_type b))"

interpretation alternatives: weak_order "alternative_key_before sc"
proof
  show "alternative_key_before sc x y \<Longrightarrow> \<not> alternative_key_before sc y x" for x y
    by (auto simp: alternative_key_before_def dest: flt_total_asym)
  show "\<not> alternative_key_before sc y x \<Longrightarrow> \<not> alternative_key_before sc z y \<Longrightarrow> \<not> alternative_key_before sc z x"
    for x y z
    using flt_total_cases [of "sc x" "sc y"] flt_total_cases [of "sc y" "sc z"]
      flt_total_cases [of "of_cost x" "of_cost y"] flt_total_cases [of "of_cost y" "of_cost z"]
    unfolding alternative_key_before_def
    by (metis flt_total_asym flt_total_trans not_less_iff_gr_or_eq order_less_trans)
qed

lemma go_sink_cong:
  "(\<And>y. y \<in> set ys \<Longrightarrow> lt x y = lt' x y) \<Longrightarrow> go_sink lt x ys = go_sink lt' x ys"
  by (induction ys) auto

lemma set_go_sink: "set (go_sink lt x ys) = insert x (set ys)"
  by (metis mset_go_sink set_mset_add_mset_insert set_mset_mset)

lemma go_sort_cong:
  assumes "\<And>x y. x \<in> set xs \<Longrightarrow> y \<in> set xs \<Longrightarrow> lt x y = lt' x y"
  shows "go_sort lt xs = go_sort lt' xs"
proof -
  have "set acc \<subseteq> set xs \<Longrightarrow> set zs \<subseteq> set xs \<Longrightarrow> fold (go_sink lt) zs acc = fold (go_sink lt') zs acc" for zs acc
  proof (induction zs arbitrary: acc)
    case Nil
    then show ?case by simp
  next
    case (Cons z zs)
    have "go_sink lt z acc = go_sink lt' z acc" using Cons.prems assms by (intro go_sink_cong) auto
    with Cons show ?case by (simp add: set_go_sink)
  qed
  from this [of "[]" xs] show ?thesis by (simp add: go_sort_def)
qed

lemma alternative_before_key:
  assumes "compositeScore a src \<noteq> NaN" "compositeScore b src \<noteq> NaN" "of_cost a \<noteq> NaN" "of_cost b \<noteq> NaN"
  shows "alternative_before src a b = alternative_key_before (\<lambda>o'. compositeScore o' src) a b"
proof -
  have feq: "feq x y = (x = y)" if "x \<noteq> NaN" for x y using that by (cases x) auto
  show ?thesis using assms
    by (auto simp: alternative_before_def alternative_key_before_def Let_def feq flt_total_def)
qed

section \<open>Properties\<close>

text \<open>the size \<open>findBestFit\<close> picks fits the used capacity, no larger size does, and the
  recommended count stays below twice the used capacity, whatever the rounding of the
  division.\<close>

theorem findBestFit_bounds:
  assumes "1/4 \<le> q" and "q \<le> 536870911" and "findBestFit (Fin q) = (s, c)"
  shows "s \<in> set sizeOrder \<and> size_nf s \<le> q \<and> (\<forall>t \<in> set sizeOrder. size_nf t \<le> q \<longrightarrow> size_nf t \<le> size_nf s) \<and>
    1 \<le> c \<and> of_int c * size_nf s < 2 * q"
  using findBestFit_fits [OF assms] by blast

lemma fl_30_24: "fl (5 / 4) = Fin (5 / 4)"
  using fl_int_div_pow2 [of 5 2] by simp

lemma ceiling_54: "\<lceil>5 / 4 :: rat\<rceil> = 2"
  by (simp add: ceiling_eq_iff)

lemma findBestFit_30: "findBestFit (Fin 30) = (''3xlarge'', 2)"
  by (simp add: findBestFit_def best_size_spec Let_def sizeOrder_def size_nf_def normalizationFactors_def nf_table_def
      fl_30_24 i32_of_f64_def ceiling_54)

theorem findBestFit_bounds_witness:
  "findBestFit (Fin 30) = (''3xlarge'', 2) \<and> (of_int 2 * size_nf ''3xlarge'' :: rat) < 60"
  using findBestFit_bounds [of 30 "''3xlarge''" 2] findBestFit_30 by simp

definition ex_ri :: ri_info where
  "ex_ri = \<lparr>ri_id = ''ri-1'', ri_type = ''m5.4xlarge'', ri_count = 1, ri_class = ''convertible'', ri_nf = Fin 0,
     ri_monthly_cost = Fin 0, ri_currency = [], ri_term_seconds = 0\<rparr>"

text \<open>The recommendation for an under-utilised reservation can ask for more capacity than
  the reservation has. One m5.4xlarge (32 units) used at 93.75 percent, below the default
  threshold of 95, is recommended for exchange into two m5.3xlarge (48 units).\<close>

theorem reshape_can_grow:
  "\<exists>rec. AnalyzeReshaping [ex_ri] [\<lparr>ui_id = ''ri-1'', ui_percent = Fin (375/4)\<rparr>] (Fin 95) = [rec] \<and>
    rc_target_type rec = ''m5.3xlarge'' \<and> rc_target_count rec = 2 \<and> rc_purchased rec = Fin 32 \<and>
    rc_used rec = Fin 30 \<and> of_int (rc_target_count rec) * size_nf ''3xlarge'' = 48"
proof -
  have f: "fl (15 / 16) = Fin (15 / 16)" using fl_int_div_pow2 [of 15 4] by simp
  have p: "parseInstanceType ''m5.4xlarge'' = (''m5'', ''4xlarge'')" by (simp add: parseInstanceType_def)
  have c: "equal_fold ''convertible'' ''convertible''" by simp
  show ?thesis
    by (simp add: AnalyzeReshaping_def List.map_filter_def analyzeRI_def ex_ri_def util_map_def p f resolveNormFactor_def
        findBestFit_30 normalizationFactors_def nf_table_def f64_of_int_def size_nf_def Let_def)
qed

text \<open>Only convertible reservations whose known utilisation is below the threshold get a
  recommendation, and it never proposes what is already there: either no target (idle) or a
  different type or count of the same family.\<close>

theorem analyze_only_underutilized:
  assumes "rec \<in> set (AnalyzeReshaping ris us threshold)"
  shows "\<exists>ri \<in> set ris. \<exists>u. rc_source_id rec = ri_id ri \<and> equal_fold (ri_class ri) ''convertible'' \<and>
    util_map us (ri_id ri) = Some u \<and> \<not> fge u threshold \<and>
    (rc_target_type rec = [] \<or>
     (\<exists>s. rc_target_type rec = fst (parseInstanceType (ri_type ri)) @ ''.'' @ s \<and>
        (rc_target_type rec, rc_target_count rec) \<noteq> (ri_type ri, ri_count ri)))"
proof -
  from assms obtain ri where ri: "ri \<in> set ris" "analyzeRI ri (util_map us) threshold = Some rec"
    by (auto simp: AnalyzeReshaping_def List.map_filter_def)
  then show ?thesis
    by (intro bexI [of _ ri]) (auto simp: analyzeRI_def Let_def split: if_splits option.splits prod.splits)
qed

theorem analyze_only_underutilized_witness:
  "\<exists>rec. rec \<in> set (AnalyzeReshaping [ex_ri] [\<lparr>ui_id = ''ri-1'', ui_percent = Fin 0\<rparr>] (Fin 95)) \<and>
    rc_source_id rec = ''ri-1''"
proof -
  have p: "parseInstanceType ''m5.4xlarge'' = (''m5'', ''4xlarge'')" by (simp add: parseInstanceType_def)
  have "\<exists>rec. rec \<in> set (AnalyzeReshaping [ex_ri] [\<lparr>ui_id = ''ri-1'', ui_percent = Fin 0\<rparr>] (Fin 95))"
    by (simp add: AnalyzeReshaping_def List.map_filter_def analyzeRI_def ex_ri_def util_map_def p resolveNormFactor_def
        normalizationFactors_def nf_table_def f64_of_int_def Let_def)
  then obtain rec where rec: "rec \<in> set (AnalyzeReshaping [ex_ri] [\<lparr>ui_id = ''ri-1'', ui_percent = Fin 0\<rparr>] (Fin 95))"
    by blast
  from analyze_only_underutilized [OF this] rec show ?thesis by (auto simp: ex_ri_def)
qed

text \<open>The alternatives attached to a recommendation are exactly the eligible offerings (none
  lost, none duplicated): of another family, not the primary target, of the same term when
  both are known; and, when no score or price is NaN, they are listed best first.\<close>

theorem alternatives_eligible_and_ranked:
  assumes "r = fill_alternatives offerings risByID rec" and "risByID (rc_source_id rec) = Some src"
    and "\<forall>off \<in> set offerings. compositeScore off src \<noteq> NaN \<and> of_cost off \<noteq> NaN"
  shows "mset (rc_alternatives r) = filter_mset (\<lambda>off. alternativeIsEligible rec off src True
        (fst (parseInstanceType (rc_source_type rec)))) (mset offerings) \<and>
    (\<forall>off \<in> set (rc_alternatives r). \<not> equal_fold (fst (parseInstanceType (of_type off))) (fst (parseInstanceType (rc_source_type rec))) \<and>
       of_type off \<noteq> rc_target_type rec \<and>
       (ri_term_seconds src \<le> 0 \<or> of_term_seconds off \<le> 0 \<or> ri_term_seconds src = of_term_seconds off)) \<and>
    sorted_wrt (\<lambda>a b. \<not> alternative_before src b a) (rc_alternatives r)"
proof -
  let ?el = "filter (\<lambda>off. alternativeIsEligible rec off src True (fst (parseInstanceType (rc_source_type rec)))) offerings"
  have alts: "rc_alternatives r = go_sort (alternative_before src) ?el"
    by (simp add: assms(1,2) fill_alternatives_def Let_def)
  have key: "alternative_before src a b = alternative_key_before (\<lambda>o'. compositeScore o' src) a b"
    if "a \<in> set offerings" "b \<in> set offerings" for a b
    using that assms(3) by (intro alternative_before_key) auto
  have "go_sort (alternative_before src) ?el = go_sort (alternative_key_before (\<lambda>o'. compositeScore o' src)) ?el"
    by (rule go_sort_cong) (auto simp: key)
  then have "sorted_wrt (\<lambda>a b. \<not> alternative_key_before (\<lambda>o'. compositeScore o' src) b a) (rc_alternatives r)"
    using alternatives.go_sort_sorted alts by simp
  moreover have sub: "set (rc_alternatives r) \<subseteq> set offerings" by (auto simp: alts)
  have "\<not> alternative_before src b a" if "a \<in> set (rc_alternatives r)" "b \<in> set (rc_alternatives r)"
    "\<not> alternative_key_before (\<lambda>o'. compositeScore o' src) b a" for a b
    using key [of b a] that sub by (simp add: subset_iff)
  ultimately have "sorted_wrt (\<lambda>a b. \<not> alternative_before src b a) (rc_alternatives r)"
    by (rule sorted_wrt_mono_rel [rotated])
  moreover have "mset (rc_alternatives r) = filter_mset (\<lambda>off. alternativeIsEligible rec off src True
        (fst (parseInstanceType (rc_source_type rec)))) (mset offerings)"
    by (simp add: alts)
  moreover have "\<forall>off \<in> set (rc_alternatives r). \<not> equal_fold (fst (parseInstanceType (of_type off))) (fst (parseInstanceType (rc_source_type rec))) \<and>
       of_type off \<noteq> rc_target_type rec \<and>
       (ri_term_seconds src \<le> 0 \<or> of_term_seconds off \<le> 0 \<or> ri_term_seconds src = of_term_seconds off)"
    by (auto simp: alts alternativeIsEligible_def isCrossFamilyAlternative_def termMatchesIfKnown_def Let_def
        split: if_splits)
  ultimately show ?thesis by blast
qed

lemma weights_nonneg:
  "f64_nonneg scoreWeightCost" "f64_nonneg scoreWeightFamilyGen" "f64_nonneg scoreWeightArch"
  "f64_nonneg scoreWeightConfidence" "f64_nonneg scoreWeightNFProximity"
  by (simp_all add: scoreWeightCost_def scoreWeightFamilyGen_def scoreWeightArch_def scoreWeightConfidence_def
      scoreWeightNFProximity_def fl_nonneg_value)

lemma weights_finite:
  "scoreWeightCost \<noteq> PInf" "scoreWeightFamilyGen \<noteq> PInf" "scoreWeightArch \<noteq> PInf"
  "scoreWeightConfidence \<noteq> PInf" "scoreWeightNFProximity \<noteq> PInf"
  by (simp_all add: scoreWeightCost_def scoreWeightFamilyGen_def scoreWeightArch_def scoreWeightConfidence_def
      scoreWeightNFProximity_def fl_unit_finite)

lemma compositeScore_not_nan:
  assumes "costComponent off src = Fin a" "familyGenComponent off src = Fin b" "archComponent off src = Fin c"
    "confidenceComponent off = Fin d" "nfProximityComponent off src = Fin e"
    and "0 \<le> a" "0 \<le> b" "0 \<le> c" "0 \<le> d" "0 \<le> e"
  shows "compositeScore off src \<noteq> NaN"
  unfolding compositeScore_def assms(1-5)
  by (intro f64_nonneg_not_nan fadd_nonneg fmul_nonneg weights_nonneg weights_finite) (simp_all add: assms)

definition ex_offering :: offering_option where
  "ex_offering = \<lparr>of_type = ''r5.4xlarge'', of_id = ''o'', of_cost = Fin 100, of_nf = Fin 32, of_currency = ''USD'',
     of_term_seconds = 0, of_savings = None, of_rec_count = 0\<rparr>"

definition ex_rec :: reshape_rec where
  "ex_rec = \<lparr>rc_source_id = ''ri-1'', rc_source_type = ''m5.4xlarge'', rc_source_count = 1,
     rc_target_type = ''m5.3xlarge'', rc_target_count = 2, rc_alternatives = [], rc_util = Fin (375/4),
     rc_used = Fin 30, rc_purchased = Fin 32, rc_reason = []\<rparr>"

lemma ex_parse: "parseInstanceType ''m5.4xlarge'' = (''m5'', ''4xlarge'')"
  "parseInstanceType ''r5.4xlarge'' = (''r5'', ''4xlarge'')"
  by (simp_all add: parseInstanceType_def)

lemma ex_score: "compositeScore ex_offering ex_ri \<noteq> NaN"
proof (rule compositeScore_not_nan)
  show "costComponent ex_offering ex_ri = Fin (1/2)" by (simp add: costComponent_def ex_offering_def ex_ri_def)
  show "familyGenComponent ex_offering ex_ri = Fin 0"
    by (simp add: familyGenComponent_def ex_offering_def ex_ri_def ex_parse familyPrefix_def is_digit_char_def
        digit_val_def Let_def)
  show "archComponent ex_offering ex_ri = Fin 1"
    by (simp add: archComponent_def ex_offering_def ex_ri_def ex_parse isARMFamily_def familyPrefix_def is_digit_char_def
        digit_val_def Let_def is_lower_char_def byte_in_def)
  show "confidenceComponent ex_offering = Fin (1/2)" by (simp add: confidenceComponent_def ex_offering_def)
  show "nfProximityComponent ex_offering ex_ri = Fin 1"
    by (simp add: nfProximityComponent_def ex_offering_def ex_ri_def ex_parse normalizationFactors_def nf_table_def
        fsub_def Let_def)
qed simp_all

theorem alternatives_eligible_and_ranked_witness:
  "mset (rc_alternatives (fill_alternatives [ex_offering] (Map.empty(''ri-1'' \<mapsto> ex_ri)) ex_rec)) = {# ex_offering #}"
proof -
  have "compositeScore ex_offering ex_ri \<noteq> NaN \<and> of_cost ex_offering \<noteq> NaN" using ex_score by (simp add: ex_offering_def)
  then have c: "\<forall>off \<in> set [ex_offering]. compositeScore off ex_ri \<noteq> NaN \<and> of_cost off \<noteq> NaN" by simp
  have m: "(Map.empty(''ri-1'' \<mapsto> ex_ri)) (rc_source_id ex_rec) = Some ex_ri" by (simp add: ex_rec_def)
  have "alternativeIsEligible ex_rec ex_offering ex_ri True (fst (parseInstanceType (rc_source_type ex_rec)))"
    by (simp add: alternativeIsEligible_def isCrossFamilyAlternative_def termMatchesIfKnown_def pricingGatePasses_def
        ex_rec_def ex_offering_def ex_ri_def ex_parse equal_fold_def to_lower_def lower_char_def Let_def)
  with alternatives_eligible_and_ranked [of _ "[ex_offering]" "Map.empty(''ri-1'' \<mapsto> ex_ri)" ex_rec ex_ri, OF refl m c] show ?thesis by simp
qed

end
