(* ===== verification/Exchange_Quote.thy ===== *)
theory Exchange_Quote
  imports Go_Time
begin

text \<open>
  \<open>pkg/exchange/exchange.go\<close>: quotes for convertible reserved-instance exchanges and their
  guarded execution. The EC2 and STS services are parameters: an \<open>ec2_api\<close> is a pair of
  functions on an arbitrary state of the provider, so that the order and the number of its
  calls show in the state they leave. A \<open>*string\<close> or \<open>*bool\<close> of the SDK is an option.
\<close>

section \<open>Quotes\<close>

record quote_summary =
  qs_valid :: bool
  qs_reason :: string
  qs_currency :: string
  qs_payment_raw :: string
  qs_payment :: "rat option"
  qs_payment_str :: string
  qs_output_exp :: string
  qs_source_hourly :: string
  qs_source_upfront :: string
  qs_source_total :: string
  qs_target_hourly :: string
  qs_target_upfront :: string
  qs_target_total :: string

definition ParseDecimalRat :: "string \<Rightarrow> goerr + rat" where
  "ParseDecimalRat s =
    (let s = trim_space s in
     if s = [] then Inl (Errorf ''empty decimal string'' [])
     else case rat_set_string s of
       None \<Rightarrow> Inl (Errorf ''invalid decimal: %q'' [EStr s])
     | Some r \<Rightarrow> Inr r)"

record target_config =
  tc_offering :: string
  tc_count :: int

record quote_request =
  qr_region :: string
  qr_account :: string
  qr_ids :: "string list"
  qr_targets :: "target_config list"
  qr_offering :: string
  qr_count :: int
  qr_dry_run :: bool

record execute_request =
  xr_region :: string
  xr_account :: string
  xr_ids :: "string list"
  xr_targets :: "target_config list"
  xr_offering :: string
  xr_count :: int
  xr_max_payment :: "rat option"

text \<open>The SDK's target configuration: an offering identifier and an instance count.\<close>

definition buildTargetConfigs :: "target_config list \<Rightarrow> string \<Rightarrow> int \<Rightarrow> (string \<times> int) list" where
  "buildTargetConfigs targets legacyOfferingID legacyCount =
    (if targets \<noteq> [] then map (\<lambda>t. (tc_offering t, tc_count t)) targets
     else [(legacyOfferingID, legacyCount)])"

definition quote_targetConfigs :: "quote_request \<Rightarrow> (string \<times> int) list" where
  "quote_targetConfigs r = buildTargetConfigs (qr_targets r) (qr_offering r) (qr_count r)"

definition execute_targetConfigs :: "execute_request \<Rightarrow> (string \<times> int) list" where
  "execute_targetConfigs r = buildTargetConfigs (xr_targets r) (xr_offering r) (xr_count r)"

definition validateTargets :: "target_config list \<Rightarrow> string \<Rightarrow> int \<Rightarrow> goerr option" where
  "validateTargets targets legacyOfferingID legacyCount =
    (if targets \<noteq> [] then
       check_each 0 (\<lambda>i t.
         if trim_space (tc_offering t) = [] then
           Some (Errorf ''targets[%d].offering_id must be non-empty'' [EInt (int i)])
         else if tc_count t \<le> 0 then
           Some (Errorf ''targets[%d].count must be >= 1, got %d'' [EInt (int i), EInt (tc_count t)])
         else None) targets
     else if trim_space legacyOfferingID = [] then
       Some (Errorf ''must provide target offering ID (either targets[] or target_offering_id)'' [])
     else if legacyCount \<le> 0 then
       Some (Errorf ''target_count must be >= 1, got %d'' [EInt legacyCount])
     else None)"

section \<open>The EC2 interface\<close>

record value_rollup =
  vr_hourly :: "string option"
  vr_upfront :: "string option"
  vr_total :: "string option"

record quote_output =
  qo_valid :: "bool option"
  qo_reason :: "string option"
  qo_currency :: "string option"
  qo_payment :: "string option"
  qo_expire_at :: "gotime option"
  qo_source_rollup :: "value_rollup option"
  qo_target_rollup :: "value_rollup option"

text \<open>\<open>api_quote dryRun ids targets\<close> and \<open>api_accept ids targets\<close> on the provider's state.\<close>

record 'w ec2_api =
  api_quote :: "bool \<Rightarrow> string list \<Rightarrow> (string \<times> int) list \<Rightarrow> 'w \<Rightarrow> (goerr + quote_output) \<times> 'w"
  api_accept :: "string list \<Rightarrow> (string \<times> int) list \<Rightarrow> 'w \<Rightarrow> (goerr + string option) \<times> 'w"

text \<open>\<open>sdkaws.ToString\<close> and \<open>sdkaws.ToBool\<close>.\<close>

definition to_string :: "string option \<Rightarrow> string" where
  "to_string s = (case s of None \<Rightarrow> [] | Some x \<Rightarrow> x)"

definition to_bool :: "bool option \<Rightarrow> bool" where
  "to_bool b = (b = Some True)"

definition rollup_field :: "(value_rollup \<Rightarrow> string option) \<Rightarrow> value_rollup option \<Rightarrow> string" where
  "rollup_field f r = (case r of None \<Rightarrow> [] | Some v \<Rightarrow> to_string (f v))"

text \<open>The part of \<open>getQuoteWithAPI\<close> after the service call.\<close>

definition summarize_quote :: "quote_output \<Rightarrow> goerr + quote_summary" where
  "summarize_quote out =
    (let raw = to_string (qo_payment out);
         s = \<lparr>qs_valid = to_bool (qo_valid out), qs_reason = to_string (qo_reason out),
              qs_currency = to_string (qo_currency out), qs_payment_raw = raw,
              qs_payment = None, qs_payment_str = [],
              qs_output_exp = (case qo_expire_at out of None \<Rightarrow> [] | Some t \<Rightarrow> format_date t),
              qs_source_hourly = rollup_field vr_hourly (qo_source_rollup out),
              qs_source_upfront = rollup_field vr_upfront (qo_source_rollup out),
              qs_source_total = rollup_field vr_total (qo_source_rollup out),
              qs_target_hourly = rollup_field vr_hourly (qo_target_rollup out),
              qs_target_upfront = rollup_field vr_upfront (qo_target_rollup out),
              qs_target_total = rollup_field vr_total (qo_target_rollup out)\<rparr>
     in if raw \<noteq> [] then
          (case ParseDecimalRat raw of
             Inl e \<Rightarrow> Inl (Errorf ''quote returned invalid paymentDue %q: %w'' [EStr raw, EWrap e])
           | Inr p \<Rightarrow> Inr (s\<lparr>qs_payment := Some p, qs_payment_str := float_string 6 p\<rparr>))
        else Inr s)"

definition getQuoteWithAPI :: "'w ec2_api \<Rightarrow> quote_request \<Rightarrow> 'w \<Rightarrow> (goerr + quote_summary) \<times> 'w" where
  "getQuoteWithAPI api req w =
    (if qr_ids req = [] then (Inl (Errorf ''must provide at least one reserved instance ID'' []), w)
     else case validateTargets (qr_targets req) (qr_offering req) (qr_count req) of
       Some e \<Rightarrow> (Inl e, w)
     | None \<Rightarrow> (case api_quote api (qr_dry_run req) (qr_ids req) (quote_targetConfigs req) w of
         (Inl e, w') \<Rightarrow> (Inl e, w')
       | (Inr out, w') \<Rightarrow> (summarize_quote out, w')))"

section \<open>Spend-cap checks\<close>

definition resolvePaymentDue :: "quote_summary \<Rightarrow> rat" where
  "resolvePaymentDue q = (case qs_payment q of Some p \<Rightarrow> p | None \<Rightarrow> 0)"

definition checkInitialQuote :: "quote_summary \<Rightarrow> rat \<Rightarrow> goerr option" where
  "checkInitialQuote q maxPayment =
    (if \<not> qs_valid q then Some (Errorf ''exchange is not valid: %s'' [EStr (qs_reason q)])
     else let paymentDue = resolvePaymentDue q in
       if maxPayment < paymentDue then
         Some (Errorf ''paymentDue %s exceeds max %s''
           [EStr (float_string 2 paymentDue), EStr (float_string 2 maxPayment)])
       else None)"

definition checkReQuote :: "quote_summary \<Rightarrow> rat \<Rightarrow> goerr option" where
  "checkReQuote q maxPayment =
    (if \<not> qs_valid q then Some (Errorf ''exchange no longer valid at accept time: %s'' [EStr (qs_reason q)])
     else let paymentDue = resolvePaymentDue q in
       if maxPayment < paymentDue then
         Some (Errorf ''aborting exchange: re-quoted payment %s USD exceeds cap %s USD (pricing changed between initial quote and accept)''
           [EStr (float_string 2 paymentDue), EStr (float_string 2 maxPayment)])
       else None)"

section \<open>Execution\<close>

text \<open>The three results of \<open>executeWithAPI\<close>: exchange identifier, quote, error.\<close>

record execute_result =
  ex_id :: string
  ex_quote :: "quote_summary option"
  ex_err :: "goerr option"

definition exec_fail :: "quote_summary option \<Rightarrow> goerr \<Rightarrow> execute_result" where
  "exec_fail q e = \<lparr>ex_id = [], ex_quote = q, ex_err = Some e\<rparr>"

definition exec_quote_request :: "execute_request \<Rightarrow> quote_request" where
  "exec_quote_request req = \<lparr>qr_region = xr_region req, qr_account = xr_account req, qr_ids = xr_ids req,
     qr_targets = xr_targets req, qr_offering = xr_offering req, qr_count = xr_count req, qr_dry_run = False\<rparr>"

definition no_cap_error :: goerr where
  "no_cap_error = Errorf ''refusing to execute without max-payment-due-usd guardrail'' []"

definition executeWithAPI :: "'w ec2_api \<Rightarrow> execute_request \<Rightarrow> 'w \<Rightarrow> execute_result \<times> 'w" where
  "executeWithAPI api req w = (case xr_max_payment req of
     None \<Rightarrow> (exec_fail None no_cap_error, w)
   | Some maxPayment \<Rightarrow>
     (case getQuoteWithAPI api (exec_quote_request req) w of
        (Inl e, w1) \<Rightarrow> (exec_fail None e, w1)
      | (Inr q, w1) \<Rightarrow>
        (case checkInitialQuote q maxPayment of
           Some e \<Rightarrow> (exec_fail (Some q) e, w1)
         | None \<Rightarrow>
           (case getQuoteWithAPI api (exec_quote_request req) w1 of
              (Inl e, w2) \<Rightarrow> (exec_fail (Some q) (wrap_err ''pre-accept re-quote failed: '' e), w2)
            | (Inr freshQ, w2) \<Rightarrow>
              (case checkReQuote freshQ maxPayment of
                 Some e \<Rightarrow> (exec_fail (Some freshQ) e, w2)
               | None \<Rightarrow>
                 (case api_accept api (xr_ids req) (execute_targetConfigs req) w2 of
                    (Inl e, w3) \<Rightarrow> (exec_fail (Some freshQ) e, w3)
                  | (Inr out, w3) \<Rightarrow>
                    (\<lparr>ex_id = to_string out, ex_quote = Some freshQ, ex_err = None\<rparr>, w3)))))))"

section \<open>Client construction\<close>

text \<open>
  The AWS configuration loader and the STS identity call are parameters: \<open>load region\<close>
  gives an EC2 client for the region or an error, \<open>identity\<close> the caller's account.
\<close>

definition loadCfg :: "(string \<Rightarrow> goerr + 'c) \<Rightarrow> string \<Rightarrow> goerr + 'c" where
  "loadCfg load region =
    (if trim_space region = [] then
       Inl (Errorf ''region must be specified explicitly; refusing to default to us-east-1 on an RI exchange path'' [])
     else load region)"

definition assertAccount :: "(goerr + string option) \<Rightarrow> string \<Rightarrow> goerr option" where
  "assertAccount identity expected =
    (if expected = [] then None
     else case identity of
       Inl e \<Rightarrow> Some e
     | Inr account \<Rightarrow> (if to_string account \<noteq> expected then
         Some (Errorf ''unexpected AWS account: got %s want %s'' [EStr (to_string account), EStr expected]) else None))"

definition GetExchangeQuote :: "(string \<Rightarrow> goerr + 'w ec2_api) \<Rightarrow> (goerr + string option) \<Rightarrow> quote_request \<Rightarrow> 'w \<Rightarrow>
    (goerr + quote_summary) \<times> 'w" where
  "GetExchangeQuote load identity req w = (case loadCfg load (qr_region req) of
     Inl e \<Rightarrow> (Inl e, w)
   | Inr api \<Rightarrow> (case assertAccount identity (qr_account req) of
       Some e \<Rightarrow> (Inl e, w)
     | None \<Rightarrow> getQuoteWithAPI api req w))"

definition ExecuteExchange :: "(string \<Rightarrow> goerr + 'w ec2_api) \<Rightarrow> (goerr + string option) \<Rightarrow> execute_request \<Rightarrow> 'w \<Rightarrow>
    execute_result \<times> 'w" where
  "ExecuteExchange load identity req w =
    (if xr_max_payment req = None then (exec_fail None no_cap_error, w)
     else case loadCfg load (xr_region req) of
       Inl e \<Rightarrow> (exec_fail None e, w)
     | Inr api \<Rightarrow> (case assertAccount identity (xr_account req) of
         Some e \<Rightarrow> (exec_fail None e, w)
       | None \<Rightarrow> executeWithAPI api req w))"

section \<open>Facts\<close>

lemma summarize_quote_Inr:
  assumes "summarize_quote out = Inr q"
  shows "qs_valid q = to_bool (qo_valid out)"
    and "(qs_payment q = None \<and> qs_payment_str q = [] \<and> to_string (qo_payment out) = []) \<or>
      (\<exists>p. qs_payment q = Some p \<and> qs_payment_str q = float_string 6 p \<and>
         ParseDecimalRat (to_string (qo_payment out)) = Inr p)"
  using assms by (auto simp: summarize_quote_def Let_def split: if_splits sum.splits)

lemma getQuoteWithAPI_Inr:
  assumes "getQuoteWithAPI api req w = (Inr q, w')"
  obtains out where "api_quote api (qr_dry_run req) (qr_ids req) (quote_targetConfigs req) w = (Inr out, w')"
    "summarize_quote out = Inr q" "qr_ids req \<noteq> []"
    "validateTargets (qr_targets req) (qr_offering req) (qr_count req) = None"
  using assms by (auto simp: getQuoteWithAPI_def split: if_splits option.splits prod.splits sum.splits)

lemma checkInitialQuote_None:
  "checkInitialQuote q c = None \<longleftrightarrow> qs_valid q \<and> resolvePaymentDue q \<le> c"
  by (auto simp: checkInitialQuote_def Let_def)

lemma checkReQuote_None:
  "checkReQuote q c = None \<longleftrightarrow> qs_valid q \<and> resolvePaymentDue q \<le> c"
  by (auto simp: checkReQuote_def Let_def)

text \<open>A run that got as far as accepting, whatever the answer.\<close>

definition accept_reached :: "'w ec2_api \<Rightarrow> execute_request \<Rightarrow> 'w \<Rightarrow> quote_summary \<Rightarrow> quote_summary \<Rightarrow> 'w \<Rightarrow> bool" where
  "accept_reached api req w q freshQ w2 \<longleftrightarrow> (\<exists>w1 cap. xr_max_payment req = Some cap \<and>
     getQuoteWithAPI api (exec_quote_request req) w = (Inr q, w1) \<and>
     qs_valid q \<and> resolvePaymentDue q \<le> cap \<and>
     getQuoteWithAPI api (exec_quote_request req) w1 = (Inr freshQ, w2) \<and>
     qs_valid freshQ \<and> resolvePaymentDue freshQ \<le> cap)"

lemma executeWithAPI_cases:
  assumes "executeWithAPI api req w = (r, w')"
  obtains (refused) e where "ex_err r = Some e" "ex_id r = []"
      "w' = w \<or> w' = snd (getQuoteWithAPI api (exec_quote_request req) w) \<or>
       w' = snd (getQuoteWithAPI api (exec_quote_request req) (snd (getQuoteWithAPI api (exec_quote_request req) w)))"
  | (accepted) q freshQ w2 where "accept_reached api req w q freshQ w2"
      "w' = snd (api_accept api (xr_ids req) (execute_targetConfigs req) w2)" "ex_quote r = Some freshQ"
proof (cases "xr_max_payment req")
  case None
  with assms refused show thesis by (auto simp: executeWithAPI_def exec_fail_def)
next
  case cap: (Some cap)
  obtain r1 w1 where q1: "getQuoteWithAPI api (exec_quote_request req) w = (r1, w1)" by fastforce
  obtain r2 w2 where q2: "getQuoteWithAPI api (exec_quote_request req) w1 = (r2, w2)" by fastforce
  obtain r3 w3 where a: "api_accept api (xr_ids req) (execute_targetConfigs req) w2 = (r3, w3)" by fastforce
  show thesis
  proof (cases "\<exists>q freshQ. r1 = Inr q \<and> checkInitialQuote q cap = None \<and> r2 = Inr freshQ \<and> checkReQuote freshQ cap = None")
    case True
    then obtain q freshQ where x: "r1 = Inr q" "checkInitialQuote q cap = None" "r2 = Inr freshQ" "checkReQuote freshQ cap = None"
      by blast
    have "accept_reached api req w q freshQ w2"
      using x cap q1 q2 by (auto simp: accept_reached_def checkInitialQuote_None checkReQuote_None)
    moreover have "w' = w3" "ex_quote r = Some freshQ"
      using assms x by (auto simp: executeWithAPI_def cap q1 q2 a exec_fail_def split: sum.splits)
    ultimately show thesis using accepted a by simp
  next
    case False
    then show thesis using assms
      by (intro refused [of "the (ex_err r)"])
         (auto simp: executeWithAPI_def cap q1 q2 exec_fail_def split: sum.splits option.splits)
  qed
qed

lemma executeWithAPI_success:
  assumes "executeWithAPI api req w = (r, w')" and "ex_err r = None"
  obtains freshQ cap where "ex_quote r = Some freshQ" "xr_max_payment req = Some cap"
    "qs_valid freshQ" "resolvePaymentDue freshQ \<le> cap"
    "(qs_payment freshQ = None \<and> qs_payment_str freshQ = []) \<or>
     (\<exists>p. qs_payment freshQ = Some p \<and> qs_payment_str freshQ = float_string 6 p)"
  using assms(1)
proof (cases rule: executeWithAPI_cases)
  case (refused e)
  with assms(2) show thesis by simp
next
  case (accepted q freshQ w2)
  from accepted(1) obtain w1 cap where x: "xr_max_payment req = Some cap"
    "getQuoteWithAPI api (exec_quote_request req) w1 = (Inr freshQ, w2)"
    "qs_valid freshQ" "resolvePaymentDue freshQ \<le> cap" by (auto simp: accept_reached_def)
  from x(2) obtain out where "summarize_quote out = Inr freshQ" by (rule getQuoteWithAPI_Inr)
  from summarize_quote_Inr(2) [OF this] x accepted(3) show thesis by (intro that) auto
qed

end
