(* ===== verification/Exchange_Store.thy ===== *)
theory Exchange_Store
  imports Go_Time
begin

text \<open>
  The exchange ledger: the records of \<open>pkg/exchange\<close> and \<open>internal/config\<close>, the statements
  of \<open>PostgresStore\<close> on \<open>ri_exchange_history\<close> and \<open>ri_exchange_idempotency\<close>
  (\<open>internal/config/store_postgres.go\<close>) and the adapter between the two record types
  (\<open>internal/server/handler_ri_exchange.go\<close>).

  The table is the list of its rows in insertion order, with the money column as a decimal of
  six places; the constraints of its migrations (identifiers and tokens unique, twelve-digit
  account, non-negative payment, known status and mode) reject an insert. PostgreSQL itself is
  a parameter: \<open>db_fault n\<close> is the error, if any, of the \<open>n\<close>-th statement, \<open>db_uuid n\<close> the
  \<open>n\<close>-th generated identifier. \<open>NOW()\<close> and \<open>time.Now()\<close> are the argument \<open>now\<close>. Column
  widths, the foreign key of \<open>ladder_run_id\<close> and the audit-only columns \<open>transitioned_by\<close>, \<open>transitioned_at\<close> are left out.
\<close>

section \<open>Records\<close>

text \<open>\<open>exchange.ExchangeRecord\<close>.\<close>

record exchange_record =
  er_id :: string
  er_account :: string
  er_exchange_id :: string
  er_region :: string
  er_source_ids :: "string list"
  er_source_type :: string
  er_source_count :: int
  er_target_offering :: string
  er_target_type :: string
  er_target_count :: int
  er_payment :: string
  er_status :: string
  er_token :: string
  er_error :: string
  er_mode :: string
  er_ladder_run :: "string option"
  er_created :: gotime
  er_updated :: gotime
  er_completed :: "gotime option"
  er_expires :: "gotime option"

text \<open>\<open>config.RIExchangeRecord\<close>: the same fields and the attribution columns.\<close>

record config_record = exchange_record +
  cr_created_by :: "string option"
  cr_approved_by :: "string option"

definition exchangeToConfigRecord :: "exchange_record \<Rightarrow> config_record" where
  "exchangeToConfigRecord r = exchange_record.extend r \<lparr>cr_created_by = None, cr_approved_by = None\<rparr>"

definition configToExchangeRecord :: "config_record \<Rightarrow> exchange_record" where
  "configToExchangeRecord r = exchange_record.truncate r"

section \<open>The database\<close>

text \<open>A row: the record as stored, with \<open>payment_due\<close> as a number.\<close>

record ri_row =
  row_rec :: config_record
  row_payment :: rat

record ri_db =
  db_rows :: "ri_row list"
  db_keys :: "string \<rightharpoonup> gotime"
  db_statements :: nat
  db_generated :: nat

record db_env =
  db_fault :: "nat \<Rightarrow> goerr option"
  db_uuid :: "nat \<Rightarrow> string"

abbreviation StatusCanceled :: string where "StatusCanceled \<equiv> ''canceled''"

definition pg_error :: "string \<Rightarrow> goerr" where
  "pg_error sqlstate = Typed ''pgconn.PgError'' sqlstate"

text \<open>Runs one statement: the fault of this statement, or its effect on the rows.\<close>

definition db_exec :: "db_env \<Rightarrow> (ri_row list \<Rightarrow> goerr + ri_row list \<times> 'r) \<Rightarrow> ri_db \<Rightarrow> (goerr + 'r) \<times> ri_db" where
  "db_exec env stmt db =
    (let db' = db\<lparr>db_statements := Suc (db_statements db)\<rparr> in
     case db_fault env (db_statements db) of
       Some e \<Rightarrow> (Inl e, db')
     | None \<Rightarrow> (case stmt (db_rows db) of
         Inl e \<Rightarrow> (Inl e, db')
       | Inr (rows, r) \<Rightarrow> (Inr r, db'\<lparr>db_rows := rows\<rparr>)))"

section \<open>Saving a record\<close>

definition ri_statuses :: "string list" where
  "ri_statuses = [''pending'', ''processing'', ''completed'', ''failed'', ''cancelled'', ''canceled'']"

definition account_id_ok :: "string \<Rightarrow> bool" where
  "account_id_ok a = (length a = 12 \<and> list_all (\<lambda>c. digit_val c \<noteq> None) a)"

text \<open>The value of a \<open>DECIMAL(20,6)\<close> column for a text: rounded to six places, halves away
  from zero, within its fourteen integer digits.\<close>

definition decimal_value :: "string \<Rightarrow> goerr + rat" where
  "decimal_value s = (case rat_set_string s of
     None \<Rightarrow> Inl (pg_error ''22P02'')
   | Some q \<Rightarrow> (let d = float_round 6 q in if 10 ^ 14 \<le> \<bar>d\<bar> then Inl (pg_error ''22003'') else Inr d))"

definition insert_row :: "config_record \<Rightarrow> string \<Rightarrow> ri_row list \<Rightarrow> goerr + ri_row list \<times> unit" where
  "insert_row r paymentDue rows =
    rbind (decimal_value paymentDue) (\<lambda>payment.
      if \<not> account_id_ok (er_account r) \<or> payment < 0 \<or> er_status r \<notin> set ri_statuses \<or>
         er_mode r \<notin> {''manual'', ''auto''} then Inl (pg_error ''23514'')
      else if er_id r \<in> (\<lambda>x. er_id (row_rec x)) ` set rows \<or>
         (er_token r \<noteq> [] \<and> er_token r \<in> (\<lambda>x. er_token (row_rec x)) ` set rows) then Inl (pg_error ''23505'')
      else Inr (rows @ [\<lparr>row_rec = r, row_payment = payment\<rparr>], ()))"

text \<open>The error, if any, and the record as the function leaves it through its pointer.\<close>

definition save_ri_exchange :: "db_env \<Rightarrow> gotime \<Rightarrow> config_record \<Rightarrow> ri_db \<Rightarrow> (goerr option \<times> config_record) \<times> ri_db" where
  "save_ri_exchange env now rec db =
    (let (rec, db) = (if er_id rec = [] then (rec\<lparr>er_id := db_uuid env (db_generated db)\<rparr>,
           db\<lparr>db_generated := Suc (db_generated db)\<rparr>) else (rec, db));
         rec = (if is_zero_time (er_created rec) then rec\<lparr>er_created := now\<rparr> else rec);
         rec = rec\<lparr>er_updated := now\<rparr>;
         paymentDue = (if er_payment rec = [] then ''0'' else er_payment rec)
     in case db_exec env (insert_row rec paymentDue) db of
          (Inl e, db') \<Rightarrow> ((Some (wrap_err ''failed to save ri exchange record: '' e), rec), db')
        | (Inr _, db') \<Rightarrow> ((None, rec), db'))"

section \<open>Reading records\<close>

text \<open>\<open>payment_due::text\<close> shows all six places.\<close>

definition row_record :: "ri_row \<Rightarrow> config_record" where
  "row_record x = (row_rec x)\<lparr>er_payment := float_string 6 (row_payment x)\<rparr>"

definition queryRIExchangeRecords :: "db_env \<Rightarrow> (ri_row list \<Rightarrow> ri_row list) \<Rightarrow> ri_db \<Rightarrow> (goerr + config_record list) \<times> ri_db" where
  "queryRIExchangeRecords env sel db =
    (case db_exec env (\<lambda>rows. Inr (rows, map row_record (sel rows))) db of
       (Inl e, db') \<Rightarrow> (Inl (wrap_err ''failed to query ri exchange records: '' e), db')
     | (Inr rs, db') \<Rightarrow> (Inr rs, db'))"

definition GetRIExchangeRecord :: "db_env \<Rightarrow> string \<Rightarrow> ri_db \<Rightarrow> (goerr + config_record) \<times> ri_db" where
  "GetRIExchangeRecord env rid db =
    (case queryRIExchangeRecords env (filter (\<lambda>x. er_id (row_rec x) = rid)) db of
       (Inl e, db') \<Rightarrow> (Inl e, db')
     | (Inr [], db') \<Rightarrow> (Inl (Errorf ''ri exchange record not found: %s'' [EStr rid]), db')
     | (Inr (r # _), db') \<Rightarrow> (Inr r, db'))"

text \<open>An empty token is stored as NULL, which equals nothing.\<close>

definition GetRIExchangeRecordByToken :: "db_env \<Rightarrow> string \<Rightarrow> ri_db \<Rightarrow> (goerr + config_record) \<times> ri_db" where
  "GetRIExchangeRecordByToken env token db =
    (case queryRIExchangeRecords env
       (filter (\<lambda>x. er_token (row_rec x) \<noteq> [] \<and> er_token (row_rec x) = token)) db of
       (Inl e, db') \<Rightarrow> (Inl e, db')
     | (Inr [], db') \<Rightarrow> (Inl (Errorf ''ri exchange record not found for token'' []), db')
     | (Inr (r # _), db') \<Rightarrow> (Inr r, db'))"

definition GetRIExchangeHistory :: "db_env \<Rightarrow> gotime \<Rightarrow> nat \<Rightarrow> ri_db \<Rightarrow> (goerr + config_record list) \<times> ri_db" where
  "GetRIExchangeHistory env since maxRows db = queryRIExchangeRecords env
     (\<lambda>rows. take maxRows (go_sort (\<lambda>a b. er_created (row_rec b) < er_created (row_rec a))
        (filter (\<lambda>x. since \<le> er_created (row_rec x)) rows))) db"

definition GetStaleProcessingExchanges :: "db_env \<Rightarrow> gotime \<Rightarrow> int \<Rightarrow> ri_db \<Rightarrow> (goerr + config_record list) \<times> ri_db" where
  "GetStaleProcessingExchanges env now olderThan db = queryRIExchangeRecords env
     (filter (\<lambda>x. er_status (row_rec x) = ''processing'' \<and>
        er_updated (row_rec x) < now - olderThan div second_ns * second_ns)) db"

section \<open>Status changes\<close>

definition update_where :: "(ri_row \<Rightarrow> bool) \<Rightarrow> (ri_row \<Rightarrow> ri_row) \<Rightarrow> ri_row list \<Rightarrow> goerr + ri_row list \<times> ri_row list" where
  "update_where p f rows = Inr (map (\<lambda>x. if p x then f x else x) rows, map f (filter p rows))"

definition set_rec :: "(config_record \<Rightarrow> config_record) \<Rightarrow> ri_row \<Rightarrow> ri_row" where
  "set_rec f x = x\<lparr>row_rec := f (row_rec x)\<rparr>"

definition not_expired :: "gotime \<Rightarrow> config_record \<Rightarrow> bool" where
  "not_expired now r = (case er_expires r of None \<Rightarrow> True | Some t \<Rightarrow> now < t)"

definition diagnoseTransitionFailure :: "db_env \<Rightarrow> gotime \<Rightarrow> string \<Rightarrow> string \<Rightarrow> ri_db \<Rightarrow> goerr \<times> ri_db" where
  "diagnoseTransitionFailure env now rid fromStatus db =
    (case db_exec env (\<lambda>rows. Inr (rows, filter (\<lambda>x. er_id (row_rec x) = rid) rows)) db of
       (Inl e, db') \<Rightarrow> (wrap_err ''failed to diagnose transition failure: '' e, db')
     | (Inr [], db') \<Rightarrow> (Errorf ''ri exchange record not found: %s'' [EStr rid], db')
     | (Inr (x # _), db') \<Rightarrow>
       (if \<not> not_expired now (row_rec x) then (Errorf ''ri exchange has expired'' [], db')
        else (Errorf ''ri exchange status transition failed: expected status %q but current status is %q''
          [EStr fromStatus, EStr (er_status (row_rec x))], db')))"

definition TransitionRIExchangeStatus :: "db_env \<Rightarrow> gotime \<Rightarrow> string \<Rightarrow> string \<Rightarrow> string \<Rightarrow> ri_db \<Rightarrow>
    (goerr + config_record) \<times> ri_db" where
  "TransitionRIExchangeStatus env now rid fromStatus toStatus db =
    (case db_exec env (\<lambda>rows.
         if toStatus \<notin> set ri_statuses \<and> (\<exists>x \<in> set rows. er_id (row_rec x) = rid \<and>
           er_status (row_rec x) = fromStatus \<and> not_expired now (row_rec x)) then Inl (pg_error ''23514'')
         else update_where (\<lambda>x. er_id (row_rec x) = rid \<and> er_status (row_rec x) = fromStatus \<and> not_expired now (row_rec x))
           (set_rec (\<lambda>r. r\<lparr>er_status := toStatus, er_updated := now\<rparr>)) rows) db of
       (Inl e, db') \<Rightarrow> (Inl (wrap_err ''failed to query ri exchange records: '' e), db')
     | (Inr [], db') \<Rightarrow> (case diagnoseTransitionFailure env now rid fromStatus db' of (e, db'') \<Rightarrow> (Inl e, db''))
     | (Inr (x # _), db') \<Rightarrow> (Inr (row_record x), db'))"

text \<open>An update of the row with an identifier that reports a missing row (the table's trigger
  stamps \<open>updated_at\<close>).\<close>

definition update_by_id :: "db_env \<Rightarrow> gotime \<Rightarrow> string \<Rightarrow> string \<Rightarrow> string \<Rightarrow> (ri_row list \<Rightarrow> goerr + (ri_row \<Rightarrow> ri_row)) \<Rightarrow> ri_db \<Rightarrow>
    goerr option \<times> ri_db" where
  "update_by_id env now what missing rid f db =
    (case db_exec env (\<lambda>rows.
         if \<exists>x \<in> set rows. er_id (row_rec x) = rid then
           rbind (f rows) (\<lambda>g. update_where (\<lambda>x. er_id (row_rec x) = rid)
             (\<lambda>x. set_rec (\<lambda>r. r\<lparr>er_updated := now\<rparr>) (g x)) rows)
         else Inr (rows, [])) db of
       (Inl e, db') \<Rightarrow> (Some (wrap_err what e), db')
     | (Inr [], db') \<Rightarrow> (Some (Errorf missing [EStr rid]), db')
     | (Inr _, db') \<Rightarrow> (None, db'))"

definition CompleteRIExchange :: "db_env \<Rightarrow> gotime \<Rightarrow> string \<Rightarrow> string \<Rightarrow> ri_db \<Rightarrow> goerr option \<times> ri_db" where
  "CompleteRIExchange env now rid exchangeID =
    update_by_id env now ''failed to complete ri exchange: '' ''ri exchange record not found: %s'' rid
      (\<lambda>_. Inr (set_rec (\<lambda>r. r\<lparr>er_status := ''completed'', er_exchange_id := exchangeID, er_completed := Some now\<rparr>)))"

definition CompleteRIExchangeWithPayment :: "db_env \<Rightarrow> gotime \<Rightarrow> string \<Rightarrow> string \<Rightarrow> string \<Rightarrow> ri_db \<Rightarrow> goerr option \<times> ri_db" where
  "CompleteRIExchangeWithPayment env now rid exchangeID accepted =
    update_by_id env now ''failed to complete ri exchange with payment: '' ''ri exchange record not found: %s'' rid
      (\<lambda>_. rbind (decimal_value accepted) (\<lambda>payment.
        if payment < 0 then Inl (pg_error ''23514'')
        else Inr (\<lambda>x. set_rec (\<lambda>r. r\<lparr>er_status := ''completed'', er_exchange_id := exchangeID, er_completed := Some now\<rparr>)
          (x\<lparr>row_payment := payment\<rparr>))))"

definition StampRIExchangeApprovedBy :: "db_env \<Rightarrow> gotime \<Rightarrow> string \<Rightarrow> string \<Rightarrow> ri_db \<Rightarrow> goerr option \<times> ri_db" where
  "StampRIExchangeApprovedBy env now rid approverEmail =
    update_by_id env now (''failed to stamp approved_by on ri exchange '' @ rid @ '': '')
      ''ri exchange record not found when stamping approved_by: %s'' rid
      (\<lambda>_. Inr (set_rec (\<lambda>r. r\<lparr>cr_approved_by := Some approverEmail\<rparr>)))"

definition FailRIExchange :: "db_env \<Rightarrow> gotime \<Rightarrow> string \<Rightarrow> string \<Rightarrow> ri_db \<Rightarrow> goerr option \<times> ri_db" where
  "FailRIExchange env now rid errorMsg =
    update_by_id env now ''failed to fail ri exchange: '' ''ri exchange record not found: %s'' rid
      (\<lambda>_. Inr (set_rec (\<lambda>r. r\<lparr>er_status := ''failed'', er_error := errorMsg\<rparr>)))"

section \<open>The daily spend\<close>

definition same_day :: "gotime \<Rightarrow> gotime \<Rightarrow> bool" where
  "same_day a b = (a div day_ns = b div day_ns)"

definition counts_on :: "gotime \<Rightarrow> config_record \<Rightarrow> bool" where
  "counts_on date r = (er_status r \<in> {''completed'', ''processing''} \<and>
     same_day date (case er_completed r of Some t \<Rightarrow> t | None \<Rightarrow> er_updated r))"

definition daily_total :: "gotime \<Rightarrow> ri_row list \<Rightarrow> rat" where
  "daily_total date rows = sum_list (map row_payment (filter (\<lambda>x. counts_on date (row_rec x)) rows))"

text \<open>\<open>COALESCE(SUM(payment_due), 0)::text\<close>: \<open>0\<close> without rows, six places otherwise.\<close>

definition GetRIExchangeDailySpend :: "db_env \<Rightarrow> gotime \<Rightarrow> ri_db \<Rightarrow> (goerr + string) \<times> ri_db" where
  "GetRIExchangeDailySpend env date db =
    (case db_exec env (\<lambda>rows. Inr (rows,
         if filter (\<lambda>x. counts_on date (row_rec x)) rows = [] then ''0'' else float_string 6 (daily_total date rows))) db of
       (Inl e, db') \<Rightarrow> (Inl (wrap_err ''failed to get ri exchange daily spend: '' e), db')
     | (Inr s, db') \<Rightarrow> (Inr s, db'))"

section \<open>Cancelling pending records\<close>

abbreviation OriginStandalone :: string where "OriginStandalone \<equiv> ''standalone-ri-exchange''"
abbreviation OriginLadder :: string where "OriginLadder \<equiv> ''cudly-ladder''"

definition validate_origin :: "string \<Rightarrow> goerr option" where
  "validate_origin o' = (if o' = OriginStandalone \<or> o' = OriginLadder then None
     else Some (Errorf ''unknown exchange origin %q (allowed: %s, %s)'' [EStr o', EStr OriginStandalone, EStr OriginLadder]))"

definition cancel_where :: "gotime \<Rightarrow> (config_record \<Rightarrow> bool) \<Rightarrow> ri_row list \<Rightarrow> goerr + ri_row list \<times> ri_row list" where
  "cancel_where now p = update_where (\<lambda>x. er_status (row_rec x) = ''pending'' \<and> p (row_rec x))
     (set_rec (\<lambda>r. r\<lparr>er_status := StatusCanceled, er_updated := now\<rparr>))"

definition CancelAllPendingExchanges :: "db_env \<Rightarrow> gotime \<Rightarrow> ri_db \<Rightarrow> (goerr + int) \<times> ri_db" where
  "CancelAllPendingExchanges env now db = (case db_exec env (cancel_where now (\<lambda>_. True)) db of
     (Inl e, db') \<Rightarrow> (Inl (wrap_err ''failed to cancel pending exchanges: '' e), db')
   | (Inr xs, db') \<Rightarrow> (Inr (int (length xs)), db'))"

definition CancelPendingExchangesByOrigin :: "db_env \<Rightarrow> gotime \<Rightarrow> string \<Rightarrow> ri_db \<Rightarrow> (goerr + int) \<times> ri_db" where
  "CancelPendingExchangesByOrigin env now origin db =
    (case validate_origin origin of
       Some e \<Rightarrow> (Inl (wrap_err ''CancelPendingExchangesByOrigin: '' e), db)
     | None \<Rightarrow>
       (case db_exec env (cancel_where now
            (if origin = OriginLadder then (\<lambda>r. er_ladder_run r \<noteq> None) else (\<lambda>r. er_ladder_run r = None))) db of
          (Inl e, db') \<Rightarrow> (Inl (Errorf ''failed to cancel pending exchanges by origin %q: %w'' [EStr origin, EWrap e]), db')
        | (Inr xs, db') \<Rightarrow> (Inr (int (length xs)), db')))"

section \<open>Idempotency keys\<close>

text \<open>The single upsert: a new key, or the takeover of one claimed before the window (the error
  for an empty window shows it in nanoseconds).\<close>

definition ClaimRIExchangeIdempotencyKey :: "db_env \<Rightarrow> gotime \<Rightarrow> string \<Rightarrow> int \<Rightarrow> ri_db \<Rightarrow> (goerr + bool) \<times> ri_db" where
  "ClaimRIExchangeIdempotencyKey env now key window db =
    (if key = [] then (Inl (Errorf ''refusing to claim an empty RI exchange idempotency key'' []), db)
     else if window \<le> 0 then
       (Inl (Errorf ''RI exchange idempotency window must be positive, got %s'' [EInt window]), db)
     else let db' = db\<lparr>db_statements := Suc (db_statements db)\<rparr> in
       case db_fault env (db_statements db) of
         Some e \<Rightarrow> (Inl (wrap_err ''failed to claim RI exchange idempotency key: '' e), db')
       | None \<Rightarrow> (case db_keys db key of
           None \<Rightarrow> (Inr True, db'\<lparr>db_keys := (db_keys db)(key \<mapsto> now)\<rparr>)
         | Some claimed \<Rightarrow>
           if claimed < now - window then (Inr True, db'\<lparr>db_keys := (db_keys db)(key \<mapsto> now)\<rparr>)
           else (Inr False, db')))"

section \<open>The adapter\<close>

text \<open>The record handed to the store is a copy: what the store writes through its pointer
  (identifier, timestamps) stays in the copy.\<close>

definition adapter_save :: "db_env \<Rightarrow> gotime \<Rightarrow> exchange_record \<Rightarrow> ri_db \<Rightarrow> (goerr option \<times> exchange_record) \<times> ri_db" where
  "adapter_save env now rec db =
    (case save_ri_exchange env now (exchangeToConfigRecord rec) db of ((e, cfgRecord), db') \<Rightarrow> ((e, rec), db'))"

definition adapter_stale :: "db_env \<Rightarrow> gotime \<Rightarrow> int \<Rightarrow> ri_db \<Rightarrow> (goerr + exchange_record list) \<times> ri_db" where
  "adapter_stale env now olderThan db = (case GetStaleProcessingExchanges env now olderThan db of
     (Inl e, db') \<Rightarrow> (Inl e, db')
   | (Inr rs, db') \<Rightarrow> (Inr (map configToExchangeRecord rs), db'))"

definition adapter_daily_spend :: "db_env \<Rightarrow> gotime \<Rightarrow> ri_db \<Rightarrow> (goerr + string) \<times> ri_db" where
  "adapter_daily_spend env date db = GetRIExchangeDailySpend env date db"

definition adapter_cancel_by_origin :: "db_env \<Rightarrow> gotime \<Rightarrow> string \<Rightarrow> ri_db \<Rightarrow> (goerr + int) \<times> ri_db" where
  "adapter_cancel_by_origin env now origin db = CancelPendingExchangesByOrigin env now origin db"

end
