(* ===== verification/Exchange_Auto.thy ===== *)
theory Exchange_Auto
  imports Exchange_Quote Exchange_Reshape Exchange_Store
begin

text \<open>
  \<open>pkg/exchange/auto.go\<close>: one automated exchange run. The store, the exchange client, the
  offering lookup, the clock and the token generator are the interface \<open>auto_deps\<close> on the
  states \<open>'s\<close> of the store and \<open>'c\<close> of the provider, both threaded through the run; the
  \<open>n\<close>-th reading of the clock is \<open>dep_now n\<close>, the \<open>n\<close>-th generated token \<open>dep_token n\<close>.
  Logging is left out. The float caps are finite (Go would dereference a nil rational on NaN
  or an infinity).
\<close>

section \<open>Configuration, outcomes, dependencies\<close>

record metadata_info =
  mi_product :: string
  mi_tenancy :: string
  mi_scope :: string
  mi_duration :: int

record exchange_config =
  xc_mode :: string
  xc_threshold :: f64
  xc_max_per_exchange :: f64
  xc_max_daily :: f64
  xc_lookback_days :: int

record auto_params =
  ap_ris :: "ri_info list"
  ap_utilization :: "utilization_info list"
  ap_config :: exchange_config
  ap_account :: string
  ap_region :: string
  ap_dashboard :: string
  ap_metadata :: "string \<rightharpoonup> metadata_info"
  ap_ladder_run :: "string option"
  ap_dry_run :: bool

record exchange_outcome =
  oc_record_id :: string
  oc_token :: string
  oc_source_id :: string
  oc_source_type :: string
  oc_target_type :: string
  oc_target_offering :: string
  oc_target_count :: int
  oc_payment :: string
  oc_exchange_id :: string
  oc_util :: f64
  oc_error :: string
  oc_simulated :: bool

record skipped_rec =
  sk_source_id :: string
  sk_source_type :: string
  sk_reason :: string

record auto_result =
  au_mode :: string
  au_completed :: "exchange_outcome list"
  au_pending :: "exchange_outcome list"
  au_failed :: "exchange_outcome list"
  au_skipped :: "skipped_rec list"

record ('s, 'c) auto_deps =
  dep_cancel :: "gotime \<Rightarrow> string \<Rightarrow> 's \<Rightarrow> (goerr + int) \<times> 's"
  dep_stale :: "gotime \<Rightarrow> int \<Rightarrow> 's \<Rightarrow> (goerr + exchange_record list) \<times> 's"
  dep_daily :: "gotime \<Rightarrow> 's \<Rightarrow> (goerr + string) \<times> 's"
  dep_save :: "gotime \<Rightarrow> exchange_record \<Rightarrow> 's \<Rightarrow> (goerr option \<times> exchange_record) \<times> 's"
  dep_quote :: "quote_request \<Rightarrow> 'c \<Rightarrow> (goerr + quote_summary) \<times> 'c"
  dep_execute :: "execute_request \<Rightarrow> 'c \<Rightarrow> execute_result \<times> 'c"
  dep_lookup :: "string \<Rightarrow> string \<Rightarrow> string \<Rightarrow> string \<Rightarrow> int \<Rightarrow> 'c \<Rightarrow> (goerr + string) \<times> 'c"
  dep_now :: "nat \<Rightarrow> gotime"
  dep_token :: "nat \<Rightarrow> goerr + string"

record ('s, 'c) world =
  w_store :: 's
  w_client :: 'c
  w_ticks :: nat
  w_draws :: nat

definition tick :: "('s, 'c) auto_deps \<Rightarrow> ('s, 'c) world \<Rightarrow> gotime \<times> ('s, 'c) world" where
  "tick d w = (dep_now d (w_ticks w), w\<lparr>w_ticks := Suc (w_ticks w)\<rparr>)"

text \<open>A store call reads the clock once and changes the store's state.\<close>

definition on_store :: "('s, 'c) auto_deps \<Rightarrow> (gotime \<Rightarrow> 's \<Rightarrow> 'r \<times> 's) \<Rightarrow> ('s, 'c) world \<Rightarrow> 'r \<times> ('s, 'c) world" where
  "on_store d f w = (case tick d w of (now, w) \<Rightarrow>
     (case f now (w_store w) of (r, s) \<Rightarrow> (r, w\<lparr>w_store := s\<rparr>)))"

definition on_client :: "('c \<Rightarrow> 'r \<times> 'c) \<Rightarrow> ('s, 'c) world \<Rightarrow> 'r \<times> ('s, 'c) world" where
  "on_client f w = (case f (w_client w) of (r, c) \<Rightarrow> (r, w\<lparr>w_client := c\<rparr>))"

definition staleProcessingThreshold :: int where
  "staleProcessingThreshold = 15 * minute_ns"

section \<open>Offering and quote\<close>

definition skip_rec :: "reshape_rec \<Rightarrow> string \<Rightarrow> skipped_rec" where
  "skip_rec rec reason = \<lparr>sk_source_id = rc_source_id rec, sk_source_type = rc_source_type rec, sk_reason = reason\<rparr>"

definition resolveOffering :: "('s, 'c) auto_deps \<Rightarrow> auto_params \<Rightarrow> reshape_rec \<Rightarrow> ('s, 'c) world \<Rightarrow>
    (skipped_rec + string) \<times> ('s, 'c) world" where
  "resolveOffering d p rec w = (case ap_metadata p (rc_source_id rec) of
     None \<Rightarrow> (Inl (skip_rec rec ''missing RI metadata''), w)
   | Some meta \<Rightarrow>
     (case on_client (dep_lookup d (rc_target_type rec) (mi_product meta) (mi_tenancy meta) (mi_scope meta) (mi_duration meta)) w of
        (Inl e, w) \<Rightarrow> (Inl (skip_rec rec (err_string (Errorf ''no matching offering found: %v'' [EErr e]))), w)
      | (Inr offeringID, w) \<Rightarrow> (Inr offeringID, w)))"

definition getValidatedQuote :: "('s, 'c) auto_deps \<Rightarrow> auto_params \<Rightarrow> reshape_rec \<Rightarrow> string \<Rightarrow> rat \<Rightarrow> ('s, 'c) world \<Rightarrow>
    (skipped_rec + quote_summary) \<times> ('s, 'c) world" where
  "getValidatedQuote d p rec offeringID perExchangeCap w =
    (case on_client (dep_quote d \<lparr>qr_region = ap_region p, qr_account = [], qr_ids = [rc_source_id rec], qr_targets = [],
          qr_offering = offeringID, qr_count = rc_target_count rec, qr_dry_run = False\<rparr>) w of
       (Inl e, w) \<Rightarrow> (Inl (skip_rec rec (err_string (Errorf ''quote failed: %v'' [EErr e]))), w)
     | (Inr quote, w) \<Rightarrow>
       (if \<not> qs_valid quote then
          (Inl (skip_rec rec (sprintf ''invalid exchange: %s'' [FStr (qs_reason quote)])), w)
        else (case qs_payment quote of
            Some payment \<Rightarrow>
              (if perExchangeCap < payment then
                 (Inl (skip_rec rec (sprintf ''exceeds per-exchange cap: payment $%s > cap $%.2f''
                   [FStr (float_string 2 payment), FF64 (xc_max_per_exchange (ap_config p))])), w)
               else (Inr quote, w))
          | None \<Rightarrow> (Inr quote, w))))"

section \<open>Records and outcomes\<close>

text \<open>The outcome fields all paths share.\<close>

definition base_outcome :: "reshape_rec \<Rightarrow> string \<Rightarrow> string \<Rightarrow> exchange_outcome" where
  "base_outcome rec offeringID paymentDueStr = \<lparr>oc_record_id = [], oc_token = [], oc_source_id = rc_source_id rec,
     oc_source_type = rc_source_type rec, oc_target_type = rc_target_type rec, oc_target_offering = offeringID,
     oc_target_count = rc_target_count rec, oc_payment = paymentDueStr, oc_exchange_id = [], oc_util = rc_util rec,
     oc_error = [], oc_simulated = False\<rparr>"

text \<open>The record fields all paths share.\<close>

definition base_record :: "auto_params \<Rightarrow> reshape_rec \<Rightarrow> string \<Rightarrow> string \<Rightarrow> string \<Rightarrow> string \<Rightarrow> exchange_record" where
  "base_record p rec offeringID paymentDueStr status mode = \<lparr>er_id = [], er_account = ap_account p, er_exchange_id = [],
     er_region = ap_region p, er_source_ids = [rc_source_id rec], er_source_type = rc_source_type rec,
     er_source_count = rc_source_count rec, er_target_offering = offeringID, er_target_type = rc_target_type rec,
     er_target_count = rc_target_count rec, er_payment = paymentDueStr, er_status = status, er_token = [],
     er_error = [], er_mode = mode, er_ladder_run = ap_ladder_run p, er_created = 0, er_updated = 0,
     er_completed = None, er_expires = None\<rparr>"

abbreviation ExchangeModeAuto :: string where "ExchangeModeAuto \<equiv> ''auto''"
abbreviation ExchangeModeManual :: string where "ExchangeModeManual \<equiv> ''manual''"

definition saveFailedRecord :: "('s, 'c) auto_deps \<Rightarrow> auto_params \<Rightarrow> reshape_rec \<Rightarrow> string \<Rightarrow> string \<Rightarrow> string \<Rightarrow> string \<Rightarrow>
    ('s, 'c) world \<Rightarrow> ('s, 'c) world" where
  "saveFailedRecord d p rec offeringID paymentDueStr errMsg mode w =
    snd (on_store d (\<lambda>now. dep_save d now
      ((base_record p rec offeringID paymentDueStr ''failed'' mode)\<lparr>er_error := errMsg\<rparr>)) w)"

section \<open>Manual mode\<close>

definition processManualExchange :: "('s, 'c) auto_deps \<Rightarrow> auto_params \<Rightarrow> reshape_rec \<Rightarrow> string \<Rightarrow> string \<Rightarrow>
    ('s, 'c) world \<Rightarrow> exchange_outcome \<times> ('s, 'c) world" where
  "processManualExchange d p rec offeringID paymentDueStr w =
    (let outcome = base_outcome rec offeringID paymentDueStr in
     if ap_dry_run p then (outcome\<lparr>oc_simulated := True\<rparr>, w)
     else let draw = dep_token d (w_draws w); w = w\<lparr>w_draws := Suc (w_draws w)\<rparr> in
       case draw of
         Inl e \<Rightarrow>
           (let errMsg = err_string (Errorf ''failed to generate approval token: %v'' [EErr e])
            in (outcome\<lparr>oc_error := errMsg\<rparr>,
                saveFailedRecord d p rec offeringID paymentDueStr errMsg ExchangeModeManual w))
       | Inr token \<Rightarrow>
         (case tick d w of (now, w) \<Rightarrow>
          let record' = (base_record p rec offeringID paymentDueStr ''pending'' ExchangeModeManual)
                \<lparr>er_token := token, er_expires := Some (now + 24 * hour_ns)\<rparr>
          in (case on_store d (\<lambda>now. dep_save d now record') w of
                ((Some e, _), w) \<Rightarrow>
                  (outcome\<lparr>oc_error := err_string (Errorf ''failed to save record: %v'' [EErr e])\<rparr>, w)
              | ((None, saved), w) \<Rightarrow> (outcome\<lparr>oc_record_id := er_id saved, oc_token := token\<rparr>, w))))"

section \<open>Auto mode\<close>

definition maxLedgerAttempts :: nat where
  "maxLedgerAttempts = 3"

definition chooseEffectiveCap :: "rat \<Rightarrow> rat \<Rightarrow> rat \<Rightarrow> rat" where
  "chooseEffectiveCap dailyCap dailySpent perExchangeCap =
    (let remaining = dailyCap - dailySpent in if remaining < perExchangeCap then remaining else perExchangeCap)"

definition acceptedAmountFromQuote :: "quote_summary option \<Rightarrow> string \<Rightarrow> string" where
  "acceptedAmountFromQuote freshQ fallback = (case freshQ of
     None \<Rightarrow> fallback
   | Some q \<Rightarrow> if qs_payment_str q \<noteq> [] then qs_payment_str q else ''0'')"

text \<open>Up to \<open>n\<close> attempts; the record is the one the store last left behind the pointer.\<close>

fun saveLedgerRecord :: "nat \<Rightarrow> ('s, 'c) auto_deps \<Rightarrow> exchange_record \<Rightarrow> goerr option \<Rightarrow> ('s, 'c) world \<Rightarrow>
    (goerr option \<times> exchange_record) \<times> ('s, 'c) world" where
  "saveLedgerRecord 0 d rec err w = ((err, rec), w)"
| "saveLedgerRecord (Suc n) d rec err w =
    (case on_store d (\<lambda>now. dep_save d now rec) w of
       ((None, saved), w) \<Rightarrow> ((None, saved), w)
     | ((Some e, saved), w) \<Rightarrow> saveLedgerRecord n d saved (Some e) w)"

text \<open>Every refusal of \<open>processAutoExchange\<close> records a failed exchange.\<close>

definition auto_fail :: "('s, 'c) auto_deps \<Rightarrow> auto_params \<Rightarrow> reshape_rec \<Rightarrow> string \<Rightarrow> string \<Rightarrow> string \<Rightarrow> ('s, 'c) world \<Rightarrow>
    (exchange_outcome \<times> bool) \<times> ('s, 'c) world" where
  "auto_fail d p rec offeringID paymentDueStr msg w =
    (((base_outcome rec offeringID paymentDueStr)\<lparr>oc_error := msg\<rparr>, False),
     saveFailedRecord d p rec offeringID paymentDueStr msg ExchangeModeAuto w)"

definition execute_auto :: "('s, 'c) auto_deps \<Rightarrow> auto_params \<Rightarrow> reshape_rec \<Rightarrow> string \<Rightarrow> string \<Rightarrow> rat \<Rightarrow> ('s, 'c) world \<Rightarrow>
    (exchange_outcome \<times> bool) \<times> ('s, 'c) world" where
  "execute_auto d p rec offeringID paymentDueStr effectiveCap w =
    (case on_client (dep_execute d \<lparr>xr_region = ap_region p, xr_account = [], xr_ids = [rc_source_id rec], xr_targets = [],
          xr_offering = offeringID, xr_count = rc_target_count rec, xr_max_payment = Some effectiveCap\<rparr>) w of
       (x, w) \<Rightarrow>
       (case ex_err x of
          Some e \<Rightarrow> auto_fail d p rec offeringID paymentDueStr (err_string e) w
        | None \<Rightarrow>
          (case tick d w of (now, w) \<Rightarrow>
           let accepted = acceptedAmountFromQuote (ex_quote x) paymentDueStr;
               record' = (base_record p rec offeringID accepted ''completed'' ExchangeModeAuto)
                 \<lparr>er_exchange_id := ex_id x, er_completed := Some now\<rparr>;
               outcome = (base_outcome rec offeringID paymentDueStr)\<lparr>oc_exchange_id := ex_id x\<rparr>
           in (case saveLedgerRecord maxLedgerAttempts d record' None w of
                 ((Some e, _), w) \<Rightarrow>
                   ((outcome\<lparr>oc_error := err_string (Errorf ''ledger save failed after exchange executed: %v'' [EErr e])\<rparr>, True), w)
               | ((None, saved), w) \<Rightarrow> ((outcome\<lparr>oc_record_id := er_id saved\<rparr>, False), w)))))"

definition processAutoExchange :: "('s, 'c) auto_deps \<Rightarrow> auto_params \<Rightarrow> reshape_rec \<Rightarrow> string \<Rightarrow> string \<Rightarrow> rat \<Rightarrow>
    ('s, 'c) world \<Rightarrow> (exchange_outcome \<times> bool) \<times> ('s, 'c) world" where
  "processAutoExchange d p rec offeringID paymentDueStr perExchangeCap w =
    (if ap_dry_run p then (((base_outcome rec offeringID paymentDueStr)\<lparr>oc_simulated := True\<rparr>, False), w)
     else case on_store d (\<lambda>now. dep_daily d now) w of
       (Inl e, w) \<Rightarrow> auto_fail d p rec offeringID paymentDueStr
         (err_string (Errorf ''daily cap check failed: %v'' [EErr e])) w
     | (Inr dailySpendStr, w) \<Rightarrow>
       (case ParseDecimalRat dailySpendStr of
          Inl e \<Rightarrow> auto_fail d p rec offeringID paymentDueStr
            (err_string (Errorf ''failed to parse daily spend: %v'' [EErr e])) w
        | Inr dailySpent \<Rightarrow>
          (case ParseDecimalRat paymentDueStr of
             Inl e \<Rightarrow> auto_fail d p rec offeringID paymentDueStr
               (err_string (Errorf ''failed to parse payment due %q: %v'' [EStr paymentDueStr, EErr e])) w
           | Inr paymentDue \<Rightarrow>
             let dailyCap = rat_of_f64 (xc_max_daily (ap_config p)) in
             if dailyCap < dailySpent + paymentDue then
               auto_fail d p rec offeringID paymentDueStr
                 (sprintf ''daily cap exceeded: spent $%s + payment $%s > cap $%.2f''
                   [FStr (float_string 2 dailySpent), FStr (float_string 2 paymentDue), FF64 (xc_max_daily (ap_config p))]) w
             else execute_auto d p rec offeringID paymentDueStr
               (chooseEffectiveCap dailyCap dailySpent perExchangeCap) w)))"

section \<open>The run\<close>

definition add_outcome :: "exchange_outcome \<Rightarrow> (exchange_outcome \<Rightarrow> auto_result \<Rightarrow> auto_result) \<Rightarrow> auto_result \<Rightarrow> auto_result" where
  "add_outcome oc add r = (if oc_error oc \<noteq> [] then r\<lparr>au_failed := au_failed r @ [oc]\<rparr> else add oc r)"

definition add_skip :: "skipped_rec \<Rightarrow> auto_result \<Rightarrow> auto_result" where
  "add_skip s r = r\<lparr>au_skipped := au_skipped r @ [s]\<rparr>"

text \<open>Returns whether to halt, the result so far and the world.\<close>

definition processRecommendation :: "('s, 'c) auto_deps \<Rightarrow> auto_params \<Rightarrow> reshape_rec \<Rightarrow> rat \<Rightarrow> auto_result \<Rightarrow>
    ('s, 'c) world \<Rightarrow> bool \<times> auto_result \<times> ('s, 'c) world" where
  "processRecommendation d p rec perExchangeCap r w =
    (if rc_target_type rec = [] then
       (False, add_skip (skip_rec rec ''RI is idle (0% utilization) - no target instance type recommended'') r, w)
     else case resolveOffering d p rec w of
       (Inl s, w) \<Rightarrow> (False, add_skip s r, w)
     | (Inr offeringID, w) \<Rightarrow>
       (case getValidatedQuote d p rec offeringID perExchangeCap w of
          (Inl s, w) \<Rightarrow> (False, add_skip s r, w)
        | (Inr quote, w) \<Rightarrow>
          let paymentDueStr = (case qs_payment quote of Some q \<Rightarrow> float_string 6 q | None \<Rightarrow> ''0'') in
          if xc_mode (ap_config p) = ''manual'' then
            (case processManualExchange d p rec offeringID paymentDueStr w of (oc, w) \<Rightarrow>
              (False, add_outcome oc (\<lambda>oc r. r\<lparr>au_pending := au_pending r @ [oc]\<rparr>) r, w))
          else
            (case processAutoExchange d p rec offeringID paymentDueStr perExchangeCap w of ((oc, halt), w) \<Rightarrow>
              (halt, add_outcome oc (\<lambda>oc r. r\<lparr>au_completed := au_completed r @ [oc]\<rparr>) r, w))))"

fun process_recs :: "('s, 'c) auto_deps \<Rightarrow> auto_params \<Rightarrow> rat \<Rightarrow> reshape_rec list \<Rightarrow> auto_result \<Rightarrow> ('s, 'c) world \<Rightarrow>
    auto_result \<times> ('s, 'c) world" where
  "process_recs d p cap [] r w = (r, w)"
| "process_recs d p cap (rec # recs) r w =
    (case processRecommendation d p rec cap r w of
       (halt, r, w) \<Rightarrow> if halt then (r, w) else process_recs d p cap recs r w)"

definition run_origin :: "auto_params \<Rightarrow> string" where
  "run_origin p = (if ap_ladder_run p \<noteq> None then OriginLadder else OriginStandalone)"

definition RunAutoExchange :: "('s, 'c) auto_deps \<Rightarrow> auto_params \<Rightarrow> ('s, 'c) world \<Rightarrow> auto_result \<times> ('s, 'c) world" where
  "RunAutoExchange d p w =
    (let r = \<lparr>au_mode = xc_mode (ap_config p), au_completed = [], au_pending = [], au_failed = [], au_skipped = []\<rparr>;
         w = (if ap_dry_run p then w else snd (on_store d (\<lambda>now. dep_cancel d now (run_origin p)) w));
         w = snd (on_store d (\<lambda>now. dep_stale d now staleProcessingThreshold) w);
         recs = AnalyzeReshaping (ap_ris p) (ap_utilization p) (xc_threshold (ap_config p))
     in if recs = [] then (r, w)
        else process_recs d p (rat_of_f64 (xc_max_per_exchange (ap_config p))) recs r w)"

end
