(* ===== verification/Exchange_Service.thy ===== *)
theory Exchange_Service
  imports Exchange_Auto
begin

text \<open>
  \<open>internal/server/handler_ri_exchange.go\<close>: the scheduled task around \<open>RunAutoExchange\<close>.
  It converts the provider's reservations, wires the exchange client and the Postgres store
  into the run and mails the result. The AWS calls of the task (listing, utilization), the
  \<open>ec2_api\<close>, the offering lookup and the mail sender are parameters. \<open>handleRIExchangeReshape\<close>
  up to the call of \<open>executeRIExchangeReshape\<close> builds the real clients and is not modelled,
  \<open>resolveAccountID\<close> is.
\<close>

section \<open>Conversion\<close>

record convertible_ri =
  cv_id :: string
  cv_type :: string
  cv_count :: int
  cv_fixed :: f64
  cv_usage :: f64
  cv_recurring :: f64
  cv_nf :: f64
  cv_product :: string
  cv_tenancy :: string
  cv_scope :: string
  cv_duration :: int
  cv_currency :: string

definition monthlyCostFromConvertibleRI :: "convertible_ri \<Rightarrow> f64" where
  "monthlyCostFromConvertibleRI ri =
    (if cv_duration ri \<le> 0 then Fin 0
     else let hoursPerTerm = fdiv (f64_of_int (cv_duration ri)) (Fin 3600) in
       if fle hoursPerTerm (Fin 0) then Fin 0
       else fmul (fadd (fadd (fdiv (cv_fixed ri) hoursPerTerm) (cv_usage ri)) (cv_recurring ri)) (Fin 730))"

definition convert_ri :: "convertible_ri \<Rightarrow> ri_info" where
  "convert_ri inst = \<lparr>ri_id = cv_id inst, ri_type = cv_type inst, ri_count = cv_count inst,
     ri_class = ''convertible'', ri_nf = cv_nf inst, ri_monthly_cost = monthlyCostFromConvertibleRI inst,
     ri_currency = cv_currency inst, ri_term_seconds = 0\<rparr>"

definition ri_metadata :: "convertible_ri \<Rightarrow> metadata_info" where
  "ri_metadata inst = \<lparr>mi_product = cv_product inst, mi_tenancy = cv_tenancy inst, mi_scope = cv_scope inst,
     mi_duration = cv_duration inst\<rparr>"

text \<open>Utilization rows are pairs of a reservation and its percentage.\<close>

definition convertForAutoExchange :: "convertible_ri list \<Rightarrow> (string \<times> f64) list \<Rightarrow>
    ri_info list \<times> utilization_info list \<times> (string \<rightharpoonup> metadata_info)" where
  "convertForAutoExchange instances utilData =
    (map convert_ri instances,
     map (\<lambda>(i, pct). \<lparr>ui_id = i, ui_percent = pct\<rparr>) utilData,
     fold (\<lambda>inst m. m(cv_id inst \<mapsto> ri_metadata inst)) instances Map.empty)"

text \<open>STS failing, or answering without an account.\<close>

definition resolveAccountID :: "(goerr + string option) \<Rightarrow> string" where
  "resolveAccountID identity = (case identity of
     Inr (Some account) \<Rightarrow> account
   | _ \<Rightarrow> ''unknown'')"

section \<open>Notification\<close>

record exchange_item =
  xi_record_id :: string
  xi_token :: string
  xi_source_id :: string
  xi_source_type :: string
  xi_target_type :: string
  xi_target_count :: int
  xi_payment :: string
  xi_exchange_id :: string
  xi_util :: f64
  xi_error :: string

record exchange_mail =
  xm_dashboard :: string
  xm_mode :: string
  xm_recipient :: string
  xm_exchanges :: "exchange_item list"
  xm_skipped :: "skipped_rec list"

datatype mail_call = SendRIExchangePendingApproval exchange_mail | SendRIExchangeCompleted exchange_mail

definition exchangeHasResults :: "auto_result \<Rightarrow> bool" where
  "exchangeHasResults r = (0 < length (au_completed r) + length (au_pending r) + length (au_failed r) + length (au_skipped r))"

definition outcome_item :: "exchange_outcome \<Rightarrow> exchange_item" where
  "outcome_item oc = \<lparr>xi_record_id = oc_record_id oc, xi_token = oc_token oc, xi_source_id = oc_source_id oc,
     xi_source_type = oc_source_type oc, xi_target_type = oc_target_type oc, xi_target_count = oc_target_count oc,
     xi_payment = oc_payment oc, xi_exchange_id = oc_exchange_id oc, xi_util = oc_util oc, xi_error = oc_error oc\<rparr>"

definition buildExchangeNotificationData :: "auto_result \<Rightarrow> string \<Rightarrow> string \<Rightarrow> exchange_mail" where
  "buildExchangeNotificationData r dashboardURL notifyEmail =
    \<lparr>xm_dashboard = dashboardURL, xm_mode = au_mode r, xm_recipient = notifyEmail,
     xm_exchanges = map outcome_item (au_completed r @ au_pending r @ au_failed r),
     xm_skipped = au_skipped r\<rparr>"

text \<open>The mail that is sent, if any; \<open>hasEmail\<close> is \<open>app.Email != nil\<close>, errors are only logged.\<close>

definition sendExchangeNotification :: "bool \<Rightarrow> string \<Rightarrow> auto_result \<Rightarrow> string \<Rightarrow> mail_call option" where
  "sendExchangeNotification hasEmail dashboardURL r notifyEmail =
    (if \<not> hasEmail then None
     else if \<not> exchangeHasResults r then None
     else let data = buildExchangeNotificationData r dashboardURL [] in
       if au_mode r = ''manual'' \<and> au_pending r \<noteq> [] then
         Some (SendRIExchangePendingApproval (data\<lparr>xm_recipient := notifyEmail\<rparr>))
       else if 0 < length (au_completed r) + length (au_failed r) then Some (SendRIExchangeCompleted data)
       else None)"

section \<open>The task\<close>

record global_config =
  gc_mode :: string
  gc_threshold :: f64
  gc_max_per_exchange :: f64
  gc_max_daily :: f64
  gc_lookback_days :: int
  gc_notify :: "string option"

text \<open>The store adapter and the exchange client on an EC2 service, as dependencies of the run.\<close>

definition service_deps :: "db_env \<Rightarrow> 'w ec2_api \<Rightarrow>
    (string \<Rightarrow> string \<Rightarrow> string \<Rightarrow> string \<Rightarrow> int \<Rightarrow> 'w \<Rightarrow> (goerr + string) \<times> 'w) \<Rightarrow> (nat \<Rightarrow> gotime) \<Rightarrow>
    (nat \<Rightarrow> goerr + string) \<Rightarrow> (ri_db, 'w) auto_deps" where
  "service_deps env api lookup clock token = \<lparr>
     dep_cancel = adapter_cancel_by_origin env, dep_stale = adapter_stale env,
     dep_daily = adapter_daily_spend env, dep_save = adapter_save env,
     dep_quote = getQuoteWithAPI api, dep_execute = executeWithAPI api, dep_lookup = lookup,
     dep_now = clock, dep_token = token\<rparr>"

definition service_params :: "global_config \<Rightarrow> convertible_ri list \<Rightarrow> (string \<times> f64) list \<Rightarrow> string \<Rightarrow> string \<Rightarrow> string \<Rightarrow> auto_params" where
  "service_params cfg instances utilData account region dashboardURL =
    (case convertForAutoExchange instances utilData of (riInfos, utilInfos, riMetadata) \<Rightarrow>
      \<lparr>ap_ris = riInfos, ap_utilization = utilInfos,
       ap_config = \<lparr>xc_mode = gc_mode cfg, xc_threshold = gc_threshold cfg, xc_max_per_exchange = gc_max_per_exchange cfg,
         xc_max_daily = gc_max_daily cfg, xc_lookback_days = gc_lookback_days cfg\<rparr>,
       ap_account = account, ap_region = region, ap_dashboard = dashboardURL, ap_metadata = riMetadata,
       ap_ladder_run = None, ap_dry_run = False\<rparr>)"

definition executeRIExchangeReshape :: "('s, 'c) auto_deps \<Rightarrow> (goerr + convertible_ri list) \<Rightarrow>
    (int \<Rightarrow> goerr + (string \<times> f64) list) \<Rightarrow> bool \<Rightarrow> global_config \<Rightarrow> string \<Rightarrow> string \<Rightarrow> string \<Rightarrow> ('s, 'c) world \<Rightarrow>
    (goerr + auto_result) \<times> mail_call option \<times> ('s, 'c) world" where
  "executeRIExchangeReshape d listConvertible getUtilization hasEmail cfg account region dashboardURL w =
    (case listConvertible of
       Inl e \<Rightarrow> (Inl (wrap_err ''failed to list convertible RIs: '' e), None, w)
     | Inr instances \<Rightarrow> (case getUtilization (gc_lookback_days cfg) of
         Inl e \<Rightarrow> (Inl (wrap_err ''failed to get RI utilization: '' e), None, w)
       | Inr utilData \<Rightarrow>
         (case RunAutoExchange d (service_params cfg instances utilData account region dashboardURL) w of (r, w) \<Rightarrow>
           (Inr r, sendExchangeNotification hasEmail dashboardURL r
              (case gc_notify cfg of None \<Rightarrow> [] | Some e \<Rightarrow> e), w))))"

end
