(* ===== verification/Exchange_Ledger.thy ===== *)
theory Exchange_Ledger
  imports Exchange_Service
begin

text \<open>
  What a run needs of its store and of its exchange client, as two locales, and their
  interpretation on the Postgres statements behind the adapter and on \<open>executeWithAPI\<close>. The
  ledger is abstracted to one number per UTC day: the sum its daily-spend query reports.
\<close>

section \<open>Money text\<close>

text \<open>A whole number of micro-dollars: what a column of six decimals can hold.\<close>

definition micros :: "rat \<Rightarrow> bool" where
  "micros q \<longleftrightarrow> q * 10 ^ 6 \<in> \<int>"

lemma micros_0 [simp]: "micros 0"
  by (simp add: micros_def)

lemma micros_add: "micros a \<Longrightarrow> micros b \<Longrightarrow> micros (a + b)"
  by (simp add: micros_def distrib_right)

lemma micros_sum_list: "(\<And>x. x \<in> set xs \<Longrightarrow> micros (f x)) \<Longrightarrow> micros (sum_list (map f xs))"
  by (induction xs) (auto intro: micros_add)

lemma micros_float_round [simp]: "micros (float_round 6 q)"
  by (simp add: micros_def float_round_def Let_def)

lemma float_round_micros: "micros q \<Longrightarrow> float_round 6 q = q"
proof -
  assume "micros q"
  then obtain k :: int where k: "q * 10 ^ 6 = of_int k" by (auto simp: micros_def elim: Ints_cases)
  have pos: "(0::rat) < 10 ^ 6" by simp
  have "\<bar>q\<bar> * 10 ^ 6 = \<bar>q * 10 ^ 6\<bar>" by (simp add: abs_mult)
  then have "\<bar>q\<bar> * 10 ^ 6 = of_int \<bar>k\<bar>" using k by simp
  moreover have "\<lfloor>of_int \<bar>k\<bar> + 1 / 2 :: rat\<rfloor> = \<bar>k\<bar>" by (rule floor_unique) auto
  ultimately have f: "\<lfloor>\<bar>q\<bar> * 10 ^ 6 + 1 / 2\<rfloor> = \<bar>k\<bar>" by (simp only:)
  have q: "q = of_int k / 10 ^ 6" using k pos by (simp add: field_simps)
  have "q < 0 \<longleftrightarrow> q * 10 ^ 6 < 0" using pos by (simp add: mult_less_0_iff)
  then have "q < 0 \<longleftrightarrow> k < 0" unfolding k by simp
  then show ?thesis unfolding float_round_def Let_def f
    by (simp add: q)
qed

lemma space_not_digit_char: "0 \<le> d \<Longrightarrow> d < 10 \<Longrightarrow> \<not> is_space (digit_char d)"
  by (drule (1) digit_cases) (auto simp: is_space_def)

lemma space_not_in_nat_dec: "0 \<le> n \<Longrightarrow> c \<in> set (nat_dec n) \<Longrightarrow> \<not> is_space c"
  by (metis set_nat_dec space_not_digit_char)

lemma space_not_in_float_string: "c \<in> set (float_string n q) \<Longrightarrow> \<not> is_space c"
  by (auto simp: float_string_def fixed_digits_def pad_left_def is_space_def pos_imp_zdiv_nonneg_iff
      dest: space_not_in_nat_dec [rotated] split: if_splits)

lemma trim_space_id: "(\<And>c. c \<in> set s \<Longrightarrow> \<not> is_space c) \<Longrightarrow> trim_space s = s"
  by (simp add: trim_space_def dropWhile_eq_self_iff)
     (metis hd_in_set rev_is_Nil_conv rev_rev_ident dropWhile_eq_self_iff set_rev)

lemma parse_money: "ParseDecimalRat (float_string 6 q) = Inr (float_round 6 q)"
proof -
  have "float_string 6 q \<noteq> []" by (auto simp: float_string_def fixed_digits_def)
  then show ?thesis
    using float_string_parses [of 6 q] space_not_in_float_string
    by (simp add: ParseDecimalRat_def trim_space_id)
qed

lemma float_string_nonempty [simp]: "float_string n q \<noteq> []" "[] \<noteq> float_string n q"
  by (auto simp: float_string_def fixed_digits_def)

lemma rat_set_string_zero: "rat_set_string ''0'' = Some 0"
  using rat_string_roundtrip [of 0] by (simp add: rat_string_def itoa_def)

lemma parse_zero: "ParseDecimalRat ''0'' = Inr 0"
  by (simp add: ParseDecimalRat_def trim_space_def is_space_def rat_set_string_zero)

section \<open>The interfaces\<close>

text \<open>\<open>ok s\<close> is the invariant of the store, \<open>spent D s\<close> what it counts for the day numbered \<open>D\<close>.\<close>

locale exchange_ledger =
  fixes cancel :: "gotime \<Rightarrow> string \<Rightarrow> 's \<Rightarrow> (goerr + int) \<times> 's"
    and stale :: "gotime \<Rightarrow> int \<Rightarrow> 's \<Rightarrow> (goerr + exchange_record list) \<times> 's"
    and daily :: "gotime \<Rightarrow> 's \<Rightarrow> (goerr + string) \<times> 's"
    and save :: "gotime \<Rightarrow> exchange_record \<Rightarrow> 's \<Rightarrow> (goerr option \<times> exchange_record) \<times> 's"
    and ok :: "'s \<Rightarrow> bool" and spent :: "int \<Rightarrow> 's \<Rightarrow> rat"
  assumes spent_micros: "ok s \<Longrightarrow> micros (spent D s)"
    and cancel_spent: "ok s \<Longrightarrow> cancel t origin s = (rc, s') \<Longrightarrow> ok s' \<and> spent D s' = spent D s"
    and stale_spent: "ok s \<Longrightarrow> stale t age s = (rs, s') \<Longrightarrow> ok s' \<and> spent D s' = spent D s"
    and daily_spent: "ok s \<Longrightarrow> daily t s = (rd, s') \<Longrightarrow> ok s' \<and> spent D s' = spent D s"
    and daily_reports: "ok s \<Longrightarrow> daily t s = (Inr str, s') \<Longrightarrow> ParseDecimalRat str = Inr (spent (t div day_ns) s)"
    and save_error: "ok s \<Longrightarrow> save t r s = ((Some e, r'), s') \<Longrightarrow> ok s' \<and> spent D s' = spent D s"
    and save_record: "save t r s = (x, s') \<Longrightarrow> er_payment (snd x) = er_payment r \<and>
      er_status (snd x) = er_status r \<and> er_completed (snd x) = er_completed r"
    and save_uncounted: "ok s \<Longrightarrow> save t r s = ((None, r'), s') \<Longrightarrow> er_status r \<in> {''pending'', ''failed''} \<Longrightarrow>
      ok s' \<and> spent D s' = spent D s"
    and save_counted: "ok s \<Longrightarrow> save t r s = ((None, r'), s') \<Longrightarrow> er_status r = ''completed'' \<Longrightarrow>
      er_completed r = Some c \<Longrightarrow> ParseDecimalRat (er_payment r) = Inr q \<Longrightarrow> trim_space (er_payment r) = er_payment r \<Longrightarrow>
      ok s' \<and> spent D s' = spent D s + (if c div day_ns = D then float_round 6 q else 0)"

text \<open>A successful execution paid no more than the cap it was given, and says what it paid.\<close>

locale exchange_client =
  fixes execute :: "execute_request \<Rightarrow> 'c \<Rightarrow> execute_result \<times> 'c"
  assumes execute_capped: "execute req c = (x, c') \<Longrightarrow> ex_err x = None \<Longrightarrow>
    \<exists>q cap. ex_quote x = Some q \<and> xr_max_payment req = Some cap \<and> resolvePaymentDue q \<le> cap \<and>
      (qs_payment q = None \<and> qs_payment_str q = [] \<or>
       (\<exists>p. qs_payment q = Some p \<and> qs_payment_str q = float_string 6 p))"
begin

text \<open>The text that goes to the ledger is the accepted payment, rounded to micro-dollars.\<close>

lemma execute_accepted:
  assumes "execute req c = (x, c')" "ex_err x = None"
  obtains q p cap where "ex_quote x = Some q" "xr_max_payment req = Some cap" "p \<le> cap"
    "ParseDecimalRat (acceptedAmountFromQuote (ex_quote x) fb) = Inr (float_round 6 p)"
    "trim_space (acceptedAmountFromQuote (ex_quote x) fb) = acceptedAmountFromQuote (ex_quote x) fb"
proof -
  from execute_capped [OF assms] obtain q cap where q: "ex_quote x = Some q" "xr_max_payment req = Some cap"
    "resolvePaymentDue q \<le> cap" "qs_payment q = None \<and> qs_payment_str q = [] \<or>
       (\<exists>p. qs_payment q = Some p \<and> qs_payment_str q = float_string 6 p)" by blast
  from q have "ParseDecimalRat (acceptedAmountFromQuote (ex_quote x) fb) = Inr (float_round 6 (resolvePaymentDue q))"
    by (auto simp: acceptedAmountFromQuote_def resolvePaymentDue_def parse_zero parse_money)
  moreover have "trim_space (acceptedAmountFromQuote (ex_quote x) fb) = acceptedAmountFromQuote (ex_quote x) fb"
    using q space_not_in_float_string
    by (auto simp: acceptedAmountFromQuote_def is_space_def intro!: trim_space_id)
  ultimately show thesis using q by (intro that) auto
qed

end

section \<open>The daily cap\<close>

locale auto_run = exchange_ledger cancel stale daily save ok spent + exchange_client execute
  for cancel :: "gotime \<Rightarrow> string \<Rightarrow> 's \<Rightarrow> (goerr + int) \<times> 's"
    and stale :: "gotime \<Rightarrow> int \<Rightarrow> 's \<Rightarrow> (goerr + exchange_record list) \<times> 's"
    and daily :: "gotime \<Rightarrow> 's \<Rightarrow> (goerr + string) \<times> 's"
    and save :: "gotime \<Rightarrow> exchange_record \<Rightarrow> 's \<Rightarrow> (goerr option \<times> exchange_record) \<times> 's"
    and ok :: "'s \<Rightarrow> bool" and spent :: "int \<Rightarrow> 's \<Rightarrow> rat"
    and execute :: "execute_request \<Rightarrow> 'c \<Rightarrow> execute_result \<times> 'c" +
  fixes d :: "('s, 'c) auto_deps"
  assumes wired: "dep_cancel d = cancel" "dep_stale d = stale" "dep_daily d = daily" "dep_save d = save"
    "dep_execute d = execute"
begin

definition in_budget :: "rat \<Rightarrow> int \<Rightarrow> ('s, 'c) world \<Rightarrow> bool" where
  "in_budget B D w \<longleftrightarrow> ok (w_store w) \<and> spent D (w_store w) \<le> B"

lemma budget_ticks [simp]: "in_budget B D (w\<lparr>w_ticks := n\<rparr>) = in_budget B D w"
    "in_budget B D (w\<lparr>w_client := c\<rparr>) = in_budget B D w" "in_budget B D (w\<lparr>w_draws := m\<rparr>) = in_budget B D w"
  by (simp_all add: in_budget_def)

lemma budget_client: "on_client f w = (r, w') \<Longrightarrow> in_budget B D w' = in_budget B D w"
  by (auto simp: on_client_def split: prod.splits)

lemma budget_cancel: "in_budget B D w \<Longrightarrow> in_budget B D (snd (on_store d (\<lambda>now. dep_cancel d now origin) w))"
  by (auto simp: on_store_def tick_def in_budget_def wired dest: cancel_spent [where D = D] split: prod.splits)

lemma budget_stale: "in_budget B D w \<Longrightarrow> in_budget B D (snd (on_store d (\<lambda>now. dep_stale d now age) w))"
  by (auto simp: on_store_def tick_def in_budget_def wired dest: stale_spent [where D = D] split: prod.splits)

lemma budget_daily: "in_budget B D w \<Longrightarrow> on_store d (\<lambda>now. dep_daily d now) w = (r, w') \<Longrightarrow> in_budget B D w'"
  by (auto simp: on_store_def tick_def in_budget_def wired dest: daily_spent [where D = D] split: prod.splits)

lemma budget_save_uncounted:
  assumes "in_budget B D w" "er_status r \<in> {''pending'', ''failed''}"
    "on_store d (\<lambda>now. dep_save d now r) w = (x, w')"
  shows "in_budget B D w'"
proof -
  obtain y s where y: "save (dep_now d (w_ticks w)) r (w_store w) = (y, s)" by fastforce
  obtain e r' where e: "y = (e, r')" by fastforce
  have s: "ok (w_store w)" "spent D (w_store w) \<le> B" using assms(1) by (auto simp: in_budget_def)
  have "ok s \<and> spent D s = spent D (w_store w)"
    using save_error [of "w_store w"] save_uncounted [of "w_store w"] y e s assms(2) by (cases e) blast+
  then show ?thesis using assms(3) y s by (auto simp: on_store_def tick_def wired in_budget_def)
qed

lemma budget_save_failed: "in_budget B D w \<Longrightarrow> in_budget B D (saveFailedRecord d p rec offeringID pay msg mode w)"
  unfolding saveFailedRecord_def
  by (rule budget_save_uncounted [OF _ _ prod.collapse [symmetric]]) (simp_all add: base_record_def)

lemma budget_auto_fail: "in_budget B D w \<Longrightarrow> in_budget B D (snd (auto_fail d p rec offeringID pay msg w))"
  by (simp add: auto_fail_def budget_save_failed)

lemma budget_manual: "in_budget B D w \<Longrightarrow> in_budget B D (snd (processManualExchange d p rec offeringID pay w))"
  by (auto simp: processManualExchange_def Let_def tick_def base_record_def
      intro: budget_save_failed elim: budget_save_uncounted [rotated 2] split: sum.splits prod.splits option.splits)

text \<open>The attempts to write a completed record add its payment once or leave the day alone.\<close>

lemma budget_ledger_save:
  assumes "in_budget B0 D w" "er_status r = ''completed''" "er_completed r = Some c" "ParseDecimalRat (er_payment r) = Inr q"
    "trim_space (er_payment r) = er_payment r"
    "spent D (w_store w) + float_round 6 q \<le> B" "B0 \<le> B"
  shows "in_budget B D (snd (saveLedgerRecord n d r e w))"
  using assms
proof (induction n arbitrary: r e w)
  case 0
  then show ?case by (auto simp: in_budget_def)
next
  case (Suc n)
  obtain y s where y: "save (dep_now d (w_ticks w)) r (w_store w) = (y, s)" by fastforce
  obtain e' r' where e: "y = (e', r')" by fastforce
  have k: "ok (w_store w)" "spent D (w_store w) \<le> B0" using Suc.prems(1) by (auto simp: in_budget_def)
  have r': "er_payment r' = er_payment r" "er_status r' = er_status r" "er_completed r' = er_completed r"
    using save_record [OF y] e by auto
  have os: "on_store d (\<lambda>now. dep_save d now r) w = ((e', r'), w\<lparr>w_ticks := Suc (w_ticks w), w_store := s\<rparr>)"
    using y e by (simp add: on_store_def tick_def wired)
  show ?case
  proof (cases e')
    case None
    have "ok s \<and> spent D s = spent D (w_store w) + (if c div day_ns = D then float_round 6 q else 0)"
      using save_counted [OF k(1)] y e None Suc.prems by blast
    then show ?thesis using os None k Suc.prems by (auto simp: in_budget_def)
  next
    case (Some e2)
    have "ok s \<and> spent D s = spent D (w_store w)" using save_error [OF k(1)] y e Some by blast
    then have "in_budget B D (snd (saveLedgerRecord n d r' (Some e2) (w\<lparr>w_ticks := Suc (w_ticks w), w_store := s\<rparr>)))"
      using Suc.prems r' k by (intro Suc.IH) (auto simp: in_budget_def)
    then show ?thesis by (simp add: os Some)
  qed
qed

text \<open>What the day can hold: the daily cap to the nearest micro-dollar, or what it held before.\<close>

definition holds_cap :: "auto_params \<Rightarrow> rat \<Rightarrow> bool" where
  "holds_cap p B \<longleftrightarrow> (\<forall>x. micros x \<longrightarrow> x \<le> rat_of_f64 (xc_max_daily (ap_config p)) + 1 / 2000000 \<longrightarrow> x \<le> B)"

lemma budget_execute:
  assumes w: "in_budget B D w" and cap: "holds_cap p B" and e: "effectiveCap \<le> rat_of_f64 (xc_max_daily (ap_config p)) - spent D (w_store w)"
  shows "in_budget B D (snd (execute_auto d p rec offeringID pay effectiveCap w))"
proof -
  define req where "req = \<lparr>xr_region = ap_region p, xr_account = [], xr_ids = [rc_source_id rec], xr_targets = [],
     xr_offering = offeringID, xr_count = rc_target_count rec, xr_max_payment = Some effectiveCap\<rparr>"
  obtain x c where x: "execute req (w_client w) = (x, c)" by fastforce
  have oc: "on_client (dep_execute d req) w = (x, w\<lparr>w_client := c\<rparr>)" by (simp add: on_client_def wired x)
  show ?thesis
  proof (cases "ex_err x")
    case (Some e)
    then show ?thesis using w by (simp add: execute_auto_def req_def [symmetric] oc budget_auto_fail)
  next
    case None
    define accepted where "accepted = acceptedAmountFromQuote (ex_quote x) pay"
    from execute_accepted [OF x None, of pay] obtain p' cap' where p': "xr_max_payment req = Some cap'" "p' \<le> cap'"
      "ParseDecimalRat accepted = Inr (float_round 6 p')" "trim_space accepted = accepted" unfolding accepted_def by blast
    have "p' \<le> effectiveCap" using p' by (simp add: req_def)
    moreover have "float_round 6 p' \<le> p' + 1 / 2000000"
      using order_trans [OF abs_ge_self float_round_close [of 6 p']] by (simp add: field_simps)
    ultimately have "spent D (w_store w) + float_round 6 p' \<le> rat_of_f64 (xc_max_daily (ap_config p)) + 1 / 2000000"
      using e by linarith
    moreover have "micros (spent D (w_store w) + float_round 6 p')"
      using w spent_micros by (auto simp: in_budget_def intro: micros_add)
    ultimately have le: "spent D (w_store w) + float_round 6 p' \<le> B" using cap by (simp add: holds_cap_def)
    define record' where "record' = (base_record p rec offeringID accepted ''completed'' ExchangeModeAuto)
      \<lparr>er_exchange_id := ex_id x, er_completed := Some (dep_now d (w_ticks w))\<rparr>"
    have "in_budget B D (snd (saveLedgerRecord maxLedgerAttempts d record' None (w\<lparr>w_client := c, w_ticks := Suc (w_ticks w)\<rparr>)))"
      using w p' le by (intro budget_ledger_save [where q = "float_round 6 p'" and ?B0.0 = B])
        (auto simp: record'_def base_record_def float_round_micros)
    then show ?thesis
      by (auto simp: execute_auto_def req_def [symmetric] oc None tick_def Let_def accepted_def [symmetric]
          record'_def [symmetric] split: prod.splits option.splits)
  qed
qed

lemma budget_auto:
  assumes "in_budget B D w" "holds_cap p B" "\<forall>n. dep_now d n div day_ns = D"
  shows "in_budget B D (snd (processAutoExchange d p rec offeringID pay perExchangeCap w))"
proof (cases "ap_dry_run p")
  case True
  with assms show ?thesis by (simp add: processAutoExchange_def)
next
  case False
  obtain r w1 where r: "on_store d (\<lambda>now. dep_daily d now) w = (r, w1)" by fastforce
  have w1: "in_budget B D w1" using assms(1) r by (rule budget_daily)
  show ?thesis
  proof (cases r)
    case (Inl e)
    then show ?thesis using False r w1 by (simp add: processAutoExchange_def budget_auto_fail)
  next
    case (Inr str)
    have ok: "ok (w_store w)" using assms(1) by (simp add: in_budget_def)
    have dl: "daily (dep_now d (w_ticks w)) (w_store w) = (Inr str, w_store w1)"
      using r Inr by (auto simp: on_store_def tick_def wired split: prod.splits)
    have "ParseDecimalRat str = Inr (spent D (w_store w))" "spent D (w_store w1) = spent D (w_store w)"
      using daily_reports [OF ok dl] daily_spent [OF ok dl, of D] assms(3) by simp_all
    moreover have "chooseEffectiveCap a b c \<le> a - b" for a b c by (simp add: chooseEffectiveCap_def Let_def)
    ultimately show ?thesis using False r Inr w1 assms(2)
      by (auto simp: processAutoExchange_def Let_def intro!: budget_auto_fail budget_execute split: sum.split)
  qed
qed

lemma budget_recommendation:
  assumes "in_budget B D w" "holds_cap p B" "\<forall>n. dep_now d n div day_ns = D"
    "processRecommendation d p rec perExchangeCap r w = (h, r', w')"
  shows "in_budget B D w'"
proof -
  have ro: "in_budget B D w1" if "resolveOffering d p rec w = (x, w1)" for x w1
    using that assms(1) by (auto simp: resolveOffering_def dest: budget_client [where B = B and D = D] split: option.splits prod.splits sum.splits)
  have gq: "in_budget B D w2" if "getValidatedQuote d p rec off perExchangeCap w1 = (x, w2)" "in_budget B D w1" for off x w1 w2
    using that by (auto simp: getValidatedQuote_def dest: budget_client [where B = B and D = D] split: option.splits prod.splits sum.splits if_splits)
  have m: "in_budget B D w2" if "processManualExchange d p rec off pay w1 = (x, w2)" "in_budget B D w1" for off pay x w1 w2
    using that budget_manual [of B D w1] by (metis snd_conv)
  have a: "in_budget B D w2" if "processAutoExchange d p rec off pay perExchangeCap w1 = (x, w2)" "in_budget B D w1" for off pay x w1 w2
    using that budget_auto [of B D w1] assms(2,3) by (metis snd_conv)
  show ?thesis using assms(4) assms(1)
    by (auto simp: processRecommendation_def Let_def split: if_splits prod.splits sum.splits elim!: m a dest!: ro gq)
qed

lemma budget_recs:
  assumes "\<forall>n. dep_now d n div day_ns = D" "holds_cap p B" "in_budget B D w"
  shows "in_budget B D (snd (process_recs d p perExchangeCap recs r w))"
  using assms(3)
  by (induction recs arbitrary: r w)
     (auto dest: budget_recommendation [OF _ assms(2,1)] split: prod.splits)

lemma budget_run:
  assumes "\<forall>n. dep_now d n div day_ns = D" "holds_cap p B" "in_budget B D w"
  shows "in_budget B D (snd (RunAutoExchange d p w))"
  using assms by (simp add: RunAutoExchange_def Let_def budget_recs budget_stale budget_cancel)

text \<open>At the end of a run the day holds at most the cap, or what it held before.\<close>

lemma daily_cap_kept:
  assumes "\<forall>n. dep_now d n div day_ns = D" "ok (w_store w)"
  shows "spent D (w_store (snd (RunAutoExchange d p w))) \<le>
    max (spent D (w_store w)) (of_int \<lfloor>rat_of_f64 (xc_max_daily (ap_config p)) * 10 ^ 6 + 1 / 2\<rfloor> / 10 ^ 6)"
proof -
  let ?cap = "rat_of_f64 (xc_max_daily (ap_config p))"
  let ?B = "max (spent D (w_store w)) (of_int \<lfloor>?cap * 10 ^ 6 + 1 / 2\<rfloor> / 10 ^ 6)"
  have "x \<le> ?B" if x: "micros x" "x \<le> ?cap + 1 / 2000000" for x
  proof -
    from x(1) obtain k :: int where k: "x * 10 ^ 6 = of_int k" by (auto simp: micros_def elim: Ints_cases)
    have "x * 10 ^ 6 \<le> ?cap * 10 ^ 6 + 1 / 2" using x(2) by simp
    then have "k \<le> \<lfloor>?cap * 10 ^ 6 + 1 / 2\<rfloor>" unfolding k by (simp only: le_floor_iff)
    then have "x * 10 ^ 6 \<le> of_int \<lfloor>?cap * 10 ^ 6 + 1 / 2\<rfloor>" unfolding k by simp
    then show ?thesis by (simp add: field_simps max.coboundedI2)
  qed
  then have "holds_cap p ?B" by (simp add: holds_cap_def)
  from budget_run [OF assms(1) this] assms(2) show ?thesis by (simp add: in_budget_def)
qed

end

end
