(* ===== verification/Exchange_Postgres.thy ===== *)
theory Exchange_Postgres
  imports Exchange_Ledger
begin

text \<open>
  Facts about the statements of the exchange ledger, and the interpretation of the run's
  interfaces on them: every row holds a non-negative whole number of micro-dollars, and
  only inserting a completed record changes what a day has spent.
\<close>

section \<open>Statements\<close>

lemma db_exec_rows:
  assumes "db_exec env stmt db = (r, db')"
  shows "db_rows db' = db_rows db \<or> (\<exists>x. r = Inr x \<and> stmt (db_rows db) = Inr (db_rows db', x))"
  using assms by (auto simp: db_exec_def Let_def split: option.splits sum.splits)

lemma db_exec_Inr:
  assumes "db_exec env stmt db = (Inr x, db')"
  shows "stmt (db_rows db) = Inr (db_rows db', x)" and "db_fault env (db_statements db) = None"
    and "db_statements db' = Suc (db_statements db)"
  using assms by (auto simp: db_exec_def Let_def split: option.splits sum.splits)

lemma db_exec_Inl_rows:
  assumes "db_exec env stmt db = (Inl e, db')"
  shows "db_rows db' = db_rows db" and "db_keys db' = db_keys db"
  using assms by (auto simp: db_exec_def Let_def split: option.splits sum.splits)

lemma db_exec_keys [simp]: "db_keys (snd (db_exec env stmt db)) = db_keys db"
  by (auto simp: db_exec_def Let_def split: option.splits sum.splits)

section \<open>The ledger invariant\<close>

definition ledger_ok :: "ri_db \<Rightarrow> bool" where
  "ledger_ok db \<longleftrightarrow> (\<forall>x \<in> set (db_rows db). micros (row_payment x) \<and> 0 \<le> row_payment x)"

definition day_spent :: "int \<Rightarrow> ri_db \<Rightarrow> rat" where
  "day_spent D db = daily_total (D * day_ns) (db_rows db)"

lemma day_ns_pos [simp]: "0 < day_ns" "day_ns \<noteq> 0"
  by (simp_all add: duration_defs)

lemma counts_on_day: "counts_on (t div day_ns * day_ns) r = counts_on t r"
  by (simp add: counts_on_def same_day_def)

lemma daily_total_day: "daily_total t rows = daily_total (t div day_ns * day_ns) rows"
  by (simp add: daily_total_def counts_on_day)

lemma day_spent_rows: "db_rows db' = db_rows db \<Longrightarrow> day_spent D db' = day_spent D db"
  "db_rows db' = db_rows db \<Longrightarrow> ledger_ok db' = ledger_ok db"
  by (simp_all add: day_spent_def ledger_ok_def)

lemma day_spent_micros: "ledger_ok db \<Longrightarrow> micros (day_spent D db)"
  by (auto simp: ledger_ok_def day_spent_def daily_total_def intro: micros_sum_list)

lemma decimal_value_Inr: "decimal_value s = Inr q \<Longrightarrow> micros q"
  by (auto simp: decimal_value_def Let_def split: option.splits if_splits)

lemma insert_row_Inr:
  assumes "insert_row r pay rows = Inr (rows', u)"
  obtains q where "decimal_value pay = Inr q" "0 \<le> q" "rows' = rows @ [\<lparr>row_rec = r, row_payment = q\<rparr>]"
    "account_id_ok (er_account r)" "er_status r \<in> set ri_statuses" "er_mode r \<in> {''manual'', ''auto''}"
    "er_id r \<notin> (\<lambda>x. er_id (row_rec x)) ` set rows"
  using assms by (auto simp: insert_row_def split: if_splits)

text \<open>What a successful insert through the adapter leaves behind.\<close>

lemma save_ri_exchange_None:
  assumes "save_ri_exchange env now r db = ((None, r'), db')"
  obtains q where "decimal_value (if er_payment r = [] then ''0'' else er_payment r) = Inr q" "0 \<le> q"
    "db_rows db' = db_rows db @ [\<lparr>row_rec = r', row_payment = q\<rparr>]" "account_id_ok (er_account r)"
    "r' = r\<lparr>er_id := er_id r', er_created := er_created r', er_updated := now\<rparr>"
    "er_id r \<noteq> [] \<Longrightarrow> er_id r' = er_id r" "er_id r' \<notin> (\<lambda>x. er_id (row_rec x)) ` set (db_rows db)"
proof -
  define rec1 where "rec1 = (if er_id r = [] then r\<lparr>er_id := db_uuid env (db_generated db)\<rparr> else r)"
  define db1 where "db1 = (if er_id r = [] then db\<lparr>db_generated := Suc (db_generated db)\<rparr> else db)"
  define rec2 where "rec2 = (if is_zero_time (er_created rec1) then rec1\<lparr>er_created := now\<rparr> else rec1)\<lparr>er_updated := now\<rparr>"
  have eqs: "er_payment rec2 = er_payment r" "er_account rec2 = er_account r" "db_rows db1 = db_rows db"
    "rec2 = r\<lparr>er_id := er_id rec2, er_created := er_created rec2, er_updated := now\<rparr>" "er_id r \<noteq> [] \<Longrightarrow> er_id rec2 = er_id r"
    by (simp_all add: rec2_def rec1_def db1_def)
  have "save_ri_exchange env now r db =
    (case db_exec env (insert_row rec2 (if er_payment rec2 = [] then ''0'' else er_payment rec2)) db1 of
       (Inl e, db') \<Rightarrow> ((Some (wrap_err ''failed to save ri exchange record: '' e), rec2), db')
     | (Inr _, db') \<Rightarrow> ((None, rec2), db'))"
    unfolding save_ri_exchange_def Let_def rec2_def rec1_def db1_def by (cases "er_id r = []") (simp_all only: simp_thms if_True if_False prod.case)
  with assms obtain u where u: "db_exec env (insert_row rec2 (if er_payment rec2 = [] then ''0'' else er_payment rec2)) db1 = (Inr u, db')"
    and r': "r' = rec2"
    by (auto simp only: split: prod.splits sum.splits)
  from db_exec_Inr(1) [OF u] obtain q where q: "decimal_value (if er_payment r = [] then ''0'' else er_payment r) = Inr q" "0 \<le> q"
    "db_rows db' = db_rows db @ [\<lparr>row_rec = r', row_payment = q\<rparr>]" "account_id_ok (er_account r)"
    "er_id r' \<notin> (\<lambda>x. er_id (row_rec x)) ` set (db_rows db)"
    unfolding eqs(1,3) r' by (rule insert_row_Inr) (simp add: eqs(2))
  show thesis by (rule that [OF q(1-4)]) (use eqs(4,5) q(5) r' in auto)
qed

lemma save_ri_exchange_Some:
  assumes "save_ri_exchange env now r db = ((Some e, r'), db')"
  shows "db_rows db' = db_rows db"
  using assms unfolding save_ri_exchange_def Let_def
  by (cases "er_id r = []") (auto simp del: db_exec_keys dest!: db_exec_Inl_rows(1) split: prod.splits sum.splits)

lemma daily_total_append [simp]:
  "daily_total t (rows @ [x]) = daily_total t rows + (if counts_on t (row_rec x) then row_payment x else 0)"
  by (simp add: daily_total_def)

section \<open>The interfaces on Postgres\<close>

lemma update_where_spent:
  assumes "update_where p f rows = Inr (rows', xs)"
    "\<And>x. p x \<Longrightarrow> counts_on t (row_rec (f x)) = counts_on t (row_rec x) \<and> row_payment (f x) = row_payment x"
  shows "daily_total t rows' = daily_total t rows"
proof -
  have "daily_total t (map (\<lambda>x. if p x then f x else x) rows) = daily_total t rows"
    using assms(2) by (induction rows) (auto simp: daily_total_def)
  then show ?thesis using assms(1) by (simp add: update_where_def)
qed

lemma cancel_where_spent:
  assumes "cancel_where now p (db_rows db) = Inr (db_rows db', xs)"
  shows "day_spent D db' = day_spent D db" and "ledger_ok db \<Longrightarrow> ledger_ok db'"
proof -
  show "day_spent D db' = day_spent D db"
    using update_where_spent [OF assms [unfolded cancel_where_def]]
    by (auto simp: day_spent_def counts_on_def set_rec_def)
  have "db_rows db' = map (\<lambda>x. if er_status (row_rec x) = ''pending'' \<and> p (row_rec x)
      then set_rec (\<lambda>r. r\<lparr>er_status := StatusCanceled, er_updated := now\<rparr>) x else x) (db_rows db)"
    using assms by (simp add: cancel_where_def update_where_def)
  then show "ledger_ok db \<Longrightarrow> ledger_ok db'" by (auto simp: ledger_ok_def set_rec_def)
qed

lemma cancel_origin_spent:
  assumes "ledger_ok db" "CancelPendingExchangesByOrigin env t origin db = (r, db')"
  shows "ledger_ok db' \<and> day_spent D db' = day_spent D db"
proof (cases "validate_origin origin")
  case (Some e)
  with assms show ?thesis by (simp add: CancelPendingExchangesByOrigin_def)
next
  case None
  let ?p = "if origin = OriginLadder then (\<lambda>r. er_ladder_run r \<noteq> None) else (\<lambda>r. er_ladder_run r = None) :: config_record \<Rightarrow> bool"
  obtain x db1 where x: "db_exec env (cancel_where t ?p) db = (x, db1)" by fastforce
  have "db' = db1" using assms(2) None x by (auto simp: CancelPendingExchangesByOrigin_def split: sum.splits)
  with db_exec_rows [OF x] cancel_where_spent [of t ?p db db1] assms(1) day_spent_rows [of db1 db] show ?thesis by blast
qed

lemma query_keeps_rows:
  "queryRIExchangeRecords env sel db = (r, db') \<Longrightarrow> db_rows db' = db_rows db"
  by (auto simp: queryRIExchangeRecords_def db_exec_def Let_def split: option.splits sum.splits)

lemma adapter_stale_rows: "adapter_stale env t age db = (r, db') \<Longrightarrow> db_rows db' = db_rows db"
  by (auto simp: adapter_stale_def GetStaleProcessingExchanges_def dest!: query_keeps_rows split: sum.splits prod.splits)

lemma daily_spend_rows: "GetRIExchangeDailySpend env t db = (r, db') \<Longrightarrow> db_rows db' = db_rows db"
  by (auto simp: GetRIExchangeDailySpend_def db_exec_def Let_def split: option.splits sum.splits)

lemma daily_spend_reports:
  assumes "ledger_ok db" "GetRIExchangeDailySpend env t db = (Inr s, db')"
  shows "ParseDecimalRat s = Inr (day_spent (t div day_ns) db)"
proof -
  have "s = (if filter (\<lambda>x. counts_on t (row_rec x)) (db_rows db) = [] then ''0'' else float_string 6 (daily_total t (db_rows db)))"
    using assms(2) by (auto simp: GetRIExchangeDailySpend_def split: sum.splits prod.splits dest!: db_exec_Inr(1))
  moreover have "daily_total t (db_rows db) = day_spent (t div day_ns) db"
    unfolding day_spent_def by (rule daily_total_day)
  moreover have "daily_total t (db_rows db) = 0" if "filter (\<lambda>x. counts_on t (row_rec x)) (db_rows db) = []"
    using that by (simp add: daily_total_def)
  ultimately show ?thesis
    using float_round_micros [OF day_spent_micros [OF assms(1)]] by (auto simp: parse_money parse_zero)
qed

lemma exchangeToConfigRecord_fields [simp]:
  "er_payment (exchangeToConfigRecord r) = er_payment r" "er_status (exchangeToConfigRecord r) = er_status r"
  "er_completed (exchangeToConfigRecord r) = er_completed r" "er_account (exchangeToConfigRecord r) = er_account r"
  "er_id (exchangeToConfigRecord r) = er_id r" "er_mode (exchangeToConfigRecord r) = er_mode r"
  "er_ladder_run (exchangeToConfigRecord r) = er_ladder_run r"
  by (simp_all add: exchangeToConfigRecord_def exchange_record.defs)

lemma adapter_save_error: "adapter_save env t r db = ((Some e, r'), db') \<Longrightarrow> db_rows db' = db_rows db"
  by (auto simp: adapter_save_def dest!: save_ri_exchange_Some split: prod.splits)

lemma adapter_save_row:
  assumes "adapter_save env t r db = ((None, r'), db')"
  obtains q c where "decimal_value (if er_payment r = [] then ''0'' else er_payment r) = Inr q" "0 \<le> q"
    "db_rows db' = db_rows db @ [\<lparr>row_rec = c, row_payment = q\<rparr>]" "account_id_ok (er_account r)"
    "er_status c = er_status r" "er_completed c = er_completed r" "er_mode c = er_mode r"
proof -
  from assms obtain c where c: "save_ri_exchange env t (exchangeToConfigRecord r) db = ((None, c), db')"
    by (auto simp: adapter_save_def split: prod.splits)
  from c show thesis
  proof (rule save_ri_exchange_None)
    fix q
    assume q: "decimal_value (if er_payment (exchangeToConfigRecord r) = [] then ''0'' else er_payment (exchangeToConfigRecord r)) = Inr q"
      "0 \<le> q" "db_rows db' = db_rows db @ [\<lparr>row_rec = c, row_payment = q\<rparr>]"
      "account_id_ok (er_account (exchangeToConfigRecord r))"
      and eq: "c = (exchangeToConfigRecord r)\<lparr>er_id := er_id c, er_created := er_created c, er_updated := t\<rparr>"
    have "er_status c = er_status r" "er_completed c = er_completed r" "er_mode c = er_mode r" by (subst eq, simp)+
    with q [unfolded exchangeToConfigRecord_fields] show thesis by (rule that)
  qed
qed

lemma adapter_save_ok:
  assumes "ledger_ok db" "adapter_save env t r db = ((None, r'), db')"
  shows "ledger_ok db'"
  using assms(2) by (rule adapter_save_row) (use assms(1) in \<open>auto simp: ledger_ok_def dest: decimal_value_Inr\<close>)

lemma ParseDecimalRat_value:
  assumes "ParseDecimalRat s = Inr q" "decimal_value (if s = [] then ''0'' else s) = Inr v" "trim_space s = s"
  shows "v = float_round 6 q"
  using assms by (auto simp: ParseDecimalRat_def decimal_value_def Let_def split: if_splits option.splits)

interpretation pg: exchange_ledger "adapter_cancel_by_origin env" "adapter_stale env" "adapter_daily_spend env"
    "adapter_save env" ledger_ok day_spent for env
proof
  fix s D
  assume "ledger_ok s"
  then show "micros (day_spent D s)" by (rule day_spent_micros)
next
  fix s t origin rc s' D
  assume "ledger_ok s" "adapter_cancel_by_origin env t origin s = (rc, s')"
  then show "ledger_ok s' \<and> day_spent D s' = day_spent D s"
    unfolding adapter_cancel_by_origin_def by (rule cancel_origin_spent)
next
  fix s t age rs s' D
  assume "ledger_ok s" "adapter_stale env t age s = (rs, s')"
  then show "ledger_ok s' \<and> day_spent D s' = day_spent D s"
    using adapter_stale_rows day_spent_rows by metis
next
  fix s t rd s' D
  assume "ledger_ok s" "adapter_daily_spend env t s = (rd, s')"
  then show "ledger_ok s' \<and> day_spent D s' = day_spent D s"
    unfolding adapter_daily_spend_def using daily_spend_rows day_spent_rows by metis
next
  fix s t str s'
  assume "ledger_ok s" "adapter_daily_spend env t s = (Inr str, s')"
  then show "ParseDecimalRat str = Inr (day_spent (t div day_ns) s)"
    unfolding adapter_daily_spend_def by (rule daily_spend_reports)
next
  fix s t r e r' s' D
  assume "ledger_ok s" "adapter_save env t r s = ((Some e, r'), s')"
  then show "ledger_ok s' \<and> day_spent D s' = day_spent D s"
    using adapter_save_error day_spent_rows by metis
next
  fix t r s x s'
  assume "adapter_save env t r s = (x, s')"
  then show "er_payment (snd x) = er_payment r \<and> er_status (snd x) = er_status r \<and> er_completed (snd x) = er_completed r"
    by (auto simp: adapter_save_def split: prod.splits)
next
  fix s t r r' s' D
  assume s: "ledger_ok s" "adapter_save env t r s = ((None, r'), s')" "er_status r \<in> {''pending'', ''failed''}"
  from s(2) obtain q c where "db_rows s' = db_rows s @ [\<lparr>row_rec = c, row_payment = q\<rparr>]" "er_status c = er_status r"
    by (rule adapter_save_row)
  with s adapter_save_ok [OF s(1,2)] show "ledger_ok s' \<and> day_spent D s' = day_spent D s"
    by (auto simp: day_spent_def counts_on_def)
next
  fix s t r r' s' c q D
  assume s: "ledger_ok s" "adapter_save env t r s = ((None, r'), s')" "er_status r = ''completed''"
    "er_completed r = Some c" "ParseDecimalRat (er_payment r) = Inr q" "trim_space (er_payment r) = er_payment r"
  from s(2) obtain v x where v: "decimal_value (if er_payment r = [] then ''0'' else er_payment r) = Inr v"
    "db_rows s' = db_rows s @ [\<lparr>row_rec = x, row_payment = v\<rparr>]" "er_status x = er_status r" "er_completed x = er_completed r"
    by (rule adapter_save_row)
  have "v = float_round 6 q" using ParseDecimalRat_value [OF s(5) v(1) s(6)] .
  with s v adapter_save_ok [OF s(1,2)]
  show "ledger_ok s' \<and> day_spent D s' = day_spent D s + (if c div day_ns = D then float_round 6 q else 0)"
    by (auto simp: day_spent_def counts_on_def same_day_def)
qed

interpretation ec: exchange_client "executeWithAPI api" for api
proof
  fix req c x c'
  assume "executeWithAPI api req c = (x, c')" "ex_err x = None"
  then show "\<exists>q cap. ex_quote x = Some q \<and> xr_max_payment req = Some cap \<and> resolvePaymentDue q \<le> cap \<and>
      (qs_payment q = None \<and> qs_payment_str q = [] \<or>
       (\<exists>p. qs_payment q = Some p \<and> qs_payment_str q = float_string 6 p))"
    by (rule executeWithAPI_success) blast
qed

interpretation svc: auto_run "adapter_cancel_by_origin env" "adapter_stale env" "adapter_daily_spend env"
    "adapter_save env" ledger_ok day_spent "executeWithAPI api" "service_deps env api lookup clock token"
  for env api lookup clock token
  by unfold_locales (simp_all add: service_deps_def)

end
