(* ===== verification/Exchange_Auto_Props.thy ===== *)
theory Exchange_Auto_Props
  imports Exchange_Postgres
begin

text \<open>
  Properties of the automated exchange run (\<open>pkg/exchange/auto.go\<close>,
  \<open>pkg/exchange/exchange.go\<close>) and of the task around it
  (\<open>internal/server/handler_ri_exchange.go\<close>): what it may spend, what a dry run and the manual
  mode never do, what happens to every recommendation, and where the wiring loses data.
\<close>

section \<open>Example instance\<close>

text \<open>A service that offers every exchange at 12.5 dollars and accepts it.\<close>

definition ex_quote_output :: quote_output where
  "ex_quote_output = \<lparr>qo_valid = Some True, qo_reason = None, qo_currency = Some ''USD'', qo_payment = Some ''12.500000'',
     qo_expire_at = None, qo_source_rollup = None, qo_target_rollup = None\<rparr>"

definition ex_api :: "nat ec2_api" where
  "ex_api = \<lparr>api_quote = (\<lambda>dry ids ts n. (Inr ex_quote_output, Suc n)), api_accept = (\<lambda>ids ts n. (Inr (Some ''exch-1''), Suc n))\<rparr>"

definition ex_env :: db_env where
  "ex_env = \<lparr>db_fault = (\<lambda>_. None), db_uuid = (\<lambda>n. ''row-'' @ itoa (int n))\<rparr>"

definition ex_db :: ri_db where
  "ex_db = \<lparr>db_rows = [], db_keys = Map.empty, db_statements = 0, db_generated = 0\<rparr>"

definition ex_deps :: "(ri_db, nat) auto_deps" where
  "ex_deps = service_deps ex_env ex_api (\<lambda>_ _ _ _ _ n. (Inr ''offering-1'', n)) (\<lambda>_. 0) (\<lambda>_. Inr ''token'')"

definition ex_world :: "(ri_db, nat) world" where
  "ex_world = \<lparr>w_store = ex_db, w_client = 0, w_ticks = 0, w_draws = 0\<rparr>"

definition ex_ri :: convertible_ri where
  "ex_ri = \<lparr>cv_id = ''ri-1'', cv_type = ''m5.4xlarge'', cv_count = 1, cv_fixed = Fin 0, cv_usage = Fin 0, cv_recurring = Fin 1,
     cv_nf = Fin 32, cv_product = ''Linux/UNIX'', cv_tenancy = ''default'', cv_scope = ''Region'', cv_duration = 31536000,
     cv_currency = ''USD''\<rparr>"

definition ex_cfg :: global_config where
  "ex_cfg = \<lparr>gc_mode = ''auto'', gc_threshold = Fin 95, gc_max_per_exchange = Fin 100, gc_max_daily = Fin 500,
     gc_lookback_days = 30, gc_notify = None\<rparr>"

definition ex_params :: auto_params where
  "ex_params = service_params ex_cfg [ex_ri] [(''ri-1'', Fin 50)] ''123456789012'' ''us-east-1'' []"

section \<open>Spending\<close>

lemma ledger_ok_ex_db: "ledger_ok ex_db"
  by (simp add: ledger_ok_def ex_db_def)

text \<open>C9: the daily cap holds. On the Postgres ledger and the EC2 client the task wires in, when
  every clock reading of a run falls on the same UTC day, the day's ledger total after the run
  is at most the daily cap rounded to the micro-dollar, or what it already was.\<close>

theorem auto_daily_cap:
  assumes "\<forall>n. clock n div day_ns = D" and "ledger_ok (w_store w)"
  shows "day_spent D (w_store (snd (RunAutoExchange (service_deps env api lookup clock token) p w))) \<le>
    max (day_spent D (w_store w)) (of_int \<lfloor>rat_of_f64 (xc_max_daily (ap_config p)) * 10 ^ 6 + 1 / 2\<rfloor> / 10 ^ 6)"
  using assms by (intro svc.daily_cap_kept) (simp_all add: service_deps_def)

theorem auto_daily_cap_witness:
  "day_spent 0 (w_store (snd (RunAutoExchange ex_deps ex_params ex_world))) \<le>
    max 0 (of_int \<lfloor>rat_of_f64 (xc_max_daily (ap_config ex_params)) * 10 ^ 6 + 1 / 2\<rfloor> / 10 ^ 6)"
proof -
  have "day_spent 0 (w_store ex_world) = 0"
    by (simp add: day_spent_def daily_total_def ex_world_def ex_db_def)
  then show ?thesis
    using auto_daily_cap [of "\<lambda>_. 0" 0 ex_world ex_env ex_api "\<lambda>_ _ _ _ _ n. (Inr ''offering-1'', n)" "\<lambda>_. Inr ''token''" ex_params]
      ledger_ok_ex_db by (simp add: ex_deps_def ex_world_def)
qed

text \<open>C10: \<open>executeWithAPI\<close> accepts an exchange only after two quotes, the second fresh, both valid
  and both within the cap it was given; a run that does not get there returns an error and has
  asked at most those two quotes; without a cap it does not call the service at all.\<close>

theorem execute_guarded:
  assumes "executeWithAPI api req w = (r, w')"
  shows "(\<exists>q freshQ w2. accept_reached api req w q freshQ w2 \<and> ex_quote r = Some freshQ \<and>
       w' = snd (api_accept api (xr_ids req) (execute_targetConfigs req) w2)) \<or>
     (ex_err r \<noteq> None \<and> ex_id r = [] \<and>
      w' \<in> {w, snd (getQuoteWithAPI api (exec_quote_request req) w),
        snd (getQuoteWithAPI api (exec_quote_request req) (snd (getQuoteWithAPI api (exec_quote_request req) w)))} \<and>
      (xr_max_payment req = None \<longrightarrow> w' = w))"
  using assms
proof (cases rule: executeWithAPI_cases)
  case (refused e)
  moreover have "xr_max_payment req = None \<longrightarrow> w' = w" using assms by (auto simp: executeWithAPI_def)
  ultimately show ?thesis by auto
next
  case (accepted q freshQ w2)
  then show ?thesis by auto
qed

definition ex_request :: execute_request where
  "ex_request = \<lparr>xr_region = ''us-east-1'', xr_account = [], xr_ids = [''ri-1''], xr_targets = [], xr_offering = ''offering-1'',
     xr_count = 1, xr_max_payment = Some 10\<rparr>"

theorem execute_guarded_witness:
  "(\<exists>q freshQ w2. accept_reached ex_api (ex_request\<lparr>xr_max_payment := None\<rparr>) 7 q freshQ w2) \<or>
   snd (executeWithAPI ex_api (ex_request\<lparr>xr_max_payment := None\<rparr>) 7) = 7"
  using execute_guarded [of ex_api "ex_request\<lparr>xr_max_payment := None\<rparr>" 7
    "fst (executeWithAPI ex_api (ex_request\<lparr>xr_max_payment := None\<rparr>) 7)" "snd (executeWithAPI ex_api (ex_request\<lparr>xr_max_payment := None\<rparr>) 7)"]
  by (auto simp: ex_request_def)

section \<open>What a run does not do\<close>

text \<open>Replacing the operations a mode never calls.\<close>

definition with_mutations :: "('s, 'c) auto_deps \<Rightarrow> (gotime \<Rightarrow> string \<Rightarrow> 's \<Rightarrow> (goerr + int) \<times> 's) \<Rightarrow>
    (gotime \<Rightarrow> exchange_record \<Rightarrow> 's \<Rightarrow> (goerr option \<times> exchange_record) \<times> 's) \<Rightarrow>
    (execute_request \<Rightarrow> 'c \<Rightarrow> execute_result \<times> 'c) \<Rightarrow> (gotime \<Rightarrow> 's \<Rightarrow> (goerr + string) \<times> 's) \<Rightarrow>
    (nat \<Rightarrow> goerr + string) \<Rightarrow> ('s, 'c) auto_deps" where
  "with_mutations d c s x y t = d\<lparr>dep_cancel := c, dep_save := s, dep_execute := x, dep_daily := y, dep_token := t\<rparr>"

lemma same_clock [simp]:
  "on_store (with_mutations d c s x y t) f w = on_store d f w"
  "on_store (d\<lparr>dep_execute := x, dep_daily := y\<rparr>) f w = on_store d f w"
  "tick (d\<lparr>dep_execute := x, dep_daily := y\<rparr>) w = tick d w"
  by (simp_all add: on_store_def tick_def with_mutations_def)

text \<open>One recommendation on two sets of dependencies that agree on what it calls.\<close>

lemma processRecommendation_cong:
  assumes "dep_lookup d = dep_lookup d'" "dep_quote d = dep_quote d'"
    "\<And>off pay w. xc_mode (ap_config p) = ''manual'' \<Longrightarrow> processManualExchange d p rec off pay w = processManualExchange d' p rec off pay w"
    "\<And>off pay w. xc_mode (ap_config p) \<noteq> ''manual'' \<Longrightarrow> processAutoExchange d p rec off pay cap w = processAutoExchange d' p rec off pay cap w"
  shows "processRecommendation d p rec cap r w = processRecommendation d' p rec cap r w"
proof -
  have r: "resolveOffering d p rec = resolveOffering d' p rec" "getValidatedQuote d p rec = getValidatedQuote d' p rec"
    unfolding resolveOffering_def getValidatedQuote_def assms(1,2) by (rule refl)+
  show ?thesis
  proof (cases "xc_mode (ap_config p) = ''manual''")
    case True
    then have m: "processManualExchange d p rec = processManualExchange d' p rec" using assms(3) by (intro ext) simp
    show ?thesis unfolding processRecommendation_def Let_def r m True simp_thms if_True by (rule TrueI)
  next
    case False
    then have a: "processAutoExchange d p rec off pay cap w = processAutoExchange d' p rec off pay cap w" for off pay w
      by (rule assms(4))
    show ?thesis unfolding processRecommendation_def Let_def r a if_not_P [OF False] by (rule refl)
  qed
qed

lemma process_recs_cong:
  assumes "\<And>rec r w. processRecommendation d p rec cap r w = processRecommendation d' p rec cap r w"
  shows "process_recs d p cap recs r w = process_recs d' p cap recs r w"
  by (induction recs arbitrary: r w) (simp_all add: assms split: prod.split)

text \<open>A dry run has no effect but its reads: whatever cancelling, saving, executing, the
  daily-spend query and the token generator do, its result and the state it leaves are the
  same, so it calls none of them.\<close>

theorem dry_run_pure:
  "RunAutoExchange (with_mutations d c s x y t) (p\<lparr>ap_dry_run := True\<rparr>) w = RunAutoExchange d (p\<lparr>ap_dry_run := True\<rparr>) w"
proof -
  let ?p = "p\<lparr>ap_dry_run := True\<rparr>" and ?d = "with_mutations d c s x y t"
  have "processRecommendation ?d ?p rec cap r w = processRecommendation d ?p rec cap r w" for rec cap r w
    by (rule processRecommendation_cong) (simp_all add: with_mutations_def processManualExchange_def processAutoExchange_def)
  then have "process_recs ?d ?p cap recs r w = process_recs d ?p cap recs r w" for cap recs r w
    by (rule process_recs_cong)
  moreover have "dep_stale ?d = dep_stale d" by (simp add: with_mutations_def)
  ultimately show ?thesis by (simp add: RunAutoExchange_def Let_def)
qed

lemma manual_same_clock:
  "processManualExchange (d\<lparr>dep_execute := x, dep_daily := y\<rparr>) p rec off pay w = processManualExchange d p rec off pay w"
proof -
  have e: "dep_save (d\<lparr>dep_execute := x, dep_daily := y\<rparr>) = dep_save d" "dep_token (d\<lparr>dep_execute := x, dep_daily := y\<rparr>) = dep_token d"
    by simp_all
  show ?thesis unfolding processManualExchange_def saveFailedRecord_def same_clock e by (rule refl)
qed

text \<open>In manual mode a run executes nothing: whatever executing and the daily-spend query do,
  its result and the state it leaves are the same.\<close>

theorem manual_never_executes:
  "RunAutoExchange (d\<lparr>dep_execute := x, dep_daily := y\<rparr>) (p\<lparr>ap_config := (ap_config p)\<lparr>xc_mode := ''manual''\<rparr>\<rparr>) w =
   RunAutoExchange d (p\<lparr>ap_config := (ap_config p)\<lparr>xc_mode := ''manual''\<rparr>\<rparr>) w"
proof -
  let ?p = "p\<lparr>ap_config := (ap_config p)\<lparr>xc_mode := ''manual''\<rparr>\<rparr>" and ?d = "d\<lparr>dep_execute := x, dep_daily := y\<rparr>"
  have "processRecommendation ?d ?p rec cap r w = processRecommendation d ?p rec cap r w" for rec cap r w
    by (rule processRecommendation_cong)
       (simp_all add: manual_same_clock)
  then have "process_recs ?d ?p cap recs r w = process_recs d ?p cap recs r w" for cap recs r w
    by (rule process_recs_cong)
  then show ?thesis by (simp add: RunAutoExchange_def Let_def)
qed

section \<open>What happens to each recommendation\<close>

lemma resolveOffering_skip: "resolveOffering d p rec w = (Inl s, w') \<Longrightarrow> sk_source_id s = rc_source_id rec"
  by (auto simp: resolveOffering_def skip_rec_def split: option.splits prod.splits sum.splits)

lemma getValidatedQuote_skip: "getValidatedQuote d p rec off cap w = (Inl s, w') \<Longrightarrow> sk_source_id s = rc_source_id rec"
  by (auto simp: getValidatedQuote_def skip_rec_def split: option.splits prod.splits sum.splits if_splits)

lemma err_nonempty [simp]: "err_string (Errorf (c # cs) as) \<noteq> []" if "c \<noteq> CHR ''%''"
  using that by (simp add: sprintf_nonempty)

text \<open>The shape of a manual and of an auto outcome.\<close>

lemma processManualExchange_shape:
  assumes "processManualExchange d p rec off pay w = (oc, w')"
  shows "oc_source_id oc = rc_source_id rec" "oc_exchange_id oc = []" "oc_error oc \<noteq> [] \<Longrightarrow> oc_token oc = []"
  using assms by (auto simp: processManualExchange_def Let_def base_outcome_def split: if_splits sum.splits prod.splits option.splits)

definition ledger_failure :: "exchange_outcome \<Rightarrow> bool" where
  "ledger_failure oc \<longleftrightarrow> (\<exists>e. oc_error oc = err_string (Errorf ''ledger save failed after exchange executed: %v'' [EErr e]))"

lemma ledger_failure_error: "ledger_failure oc \<Longrightarrow> oc_error oc \<noteq> []"
  by (auto simp: ledger_failure_def sprintf_nonempty sprintf_nonempty [symmetric])

lemma processAutoExchange_shape:
  assumes "processAutoExchange d p rec off pay cap w = ((oc, h), w')"
  shows "oc_source_id oc = rc_source_id rec" "oc_token oc = []" "h \<Longrightarrow> ledger_failure oc"
  using assms by (auto simp: processAutoExchange_def execute_auto_def auto_fail_def Let_def base_outcome_def ledger_failure_def
      split: if_splits sum.splits prod.splits option.splits)

text \<open>Exactly one list of the result grows, by one entry for the recommendation.\<close>

lemma processRecommendation_cases:
  assumes "processRecommendation d p rec cap r w = (h, r', w')"
  obtains (skipped) s where "\<not> h" "r' = add_skip s r" "sk_source_id s = rc_source_id rec"
  | (manual) oc off pay w1 where "\<not> h" "xc_mode (ap_config p) = ''manual''"
      "processManualExchange d p rec off pay w1 = (oc, w')"
      "r' = (if oc_error oc \<noteq> [] then r\<lparr>au_failed := au_failed r @ [oc]\<rparr> else r\<lparr>au_pending := au_pending r @ [oc]\<rparr>)"
  | (auto) oc off pay w1 where "xc_mode (ap_config p) \<noteq> ''manual''"
      "processAutoExchange d p rec off pay cap w1 = ((oc, h), w')"
      "r' = (if oc_error oc \<noteq> [] then r\<lparr>au_failed := au_failed r @ [oc]\<rparr> else r\<lparr>au_completed := au_completed r @ [oc]\<rparr>)"
  using assms unfolding processRecommendation_def Let_def add_outcome_def
  by (auto simp: skip_rec_def dest: resolveOffering_skip getValidatedQuote_skip split: if_splits prod.splits sum.splits)

definition counted :: "auto_result \<Rightarrow> string multiset" where
  "counted r = mset (map oc_source_id (au_completed r @ au_pending r @ au_failed r)) + mset (map sk_source_id (au_skipped r))"

lemma processRecommendation_counted:
  assumes "processRecommendation d p rec cap r w = (h, r', w')"
  shows "counted r' = add_mset (rc_source_id rec) (counted r)"
  using assms
proof (cases rule: processRecommendation_cases)
  case (auto oc off pay w1)
  with processAutoExchange_shape(1) [OF auto(2)] show ?thesis by (simp add: counted_def)
next
  case (manual oc off pay w1)
  with processManualExchange_shape(1) [OF manual(3)] show ?thesis by (simp add: counted_def)
qed (simp add: counted_def add_skip_def)

lemma processRecommendation_halt:
  assumes "processRecommendation d p rec cap r w = (True, r', w')"
  shows "au_failed r' \<noteq> [] \<and> ledger_failure (last (au_failed r'))"
  using assms
proof (cases rule: processRecommendation_cases)
  case (auto oc off pay w1)
  then have "ledger_failure oc" by (auto dest: processAutoExchange_shape(3))
  with auto(3) ledger_failure_error show ?thesis by simp
qed simp_all

lemma process_recs_counted:
  "\<exists>n \<le> length recs. counted (fst (process_recs d p cap recs r w)) = counted r + mset (map rc_source_id (take n recs)) \<and>
     (n = length recs \<or> (au_failed (fst (process_recs d p cap recs r w)) \<noteq> [] \<and>
        ledger_failure (last (au_failed (fst (process_recs d p cap recs r w))))))"
proof (induction recs arbitrary: r w)
  case Nil
  then show ?case by simp
next
  case (Cons rec recs)
  obtain h r' w' where pr: "processRecommendation d p rec cap r w = (h, r', w')" by (metis prod_cases3)
  note c = processRecommendation_counted [OF pr]
  have hl: "h \<Longrightarrow> au_failed r' \<noteq> [] \<and> ledger_failure (last (au_failed r'))"
    using pr by (auto dest: processRecommendation_halt)
  show ?case
  proof (cases h)
    case True
    with pr c hl show ?thesis by (intro exI [of _ 1]) simp
  next
    case False
    from Cons.IH [of r' w'] obtain n where "n \<le> length recs"
      "counted (fst (process_recs d p cap recs r' w')) = counted r' + mset (map rc_source_id (take n recs))"
      "n = length recs \<or> (au_failed (fst (process_recs d p cap recs r' w')) \<noteq> [] \<and>
        ledger_failure (last (au_failed (fst (process_recs d p cap recs r' w')))))" by blast
    with pr c False show ?thesis by (intro exI [of _ "Suc n"]) auto
  qed
qed

text \<open>A run is the processing of its recommendations from the world its first two calls leave.\<close>

definition empty_result :: "auto_params \<Rightarrow> auto_result" where
  "empty_result p = \<lparr>au_mode = xc_mode (ap_config p), au_completed = [], au_pending = [], au_failed = [], au_skipped = []\<rparr>"

definition start_world :: "('s, 'c) auto_deps \<Rightarrow> auto_params \<Rightarrow> ('s, 'c) world \<Rightarrow> ('s, 'c) world" where
  "start_world d p w = snd (on_store d (\<lambda>now. dep_stale d now staleProcessingThreshold)
     (if ap_dry_run p then w else snd (on_store d (\<lambda>now. dep_cancel d now (run_origin p)) w)))"

lemma run_as_recs:
  "RunAutoExchange d p w = process_recs d p (rat_of_f64 (xc_max_per_exchange (ap_config p)))
     (AnalyzeReshaping (ap_ris p) (ap_utilization p) (xc_threshold (ap_config p))) (empty_result p) (start_world d p w)"
  by (auto simp: RunAutoExchange_def Let_def empty_result_def start_world_def)

text \<open>Every recommendation is accounted for: the completed, pending, failed and skipped entries
  of a run are exactly those of the first \<open>n\<close> recommendations of the analysis, each counted
  once, and \<open>n\<close> is all of them unless the run ended with an exchange whose ledger write
  failed after it was executed.\<close>

theorem run_accounts_for_all:
  fixes d p w
  defines "recs \<equiv> AnalyzeReshaping (ap_ris p) (ap_utilization p) (xc_threshold (ap_config p))"
    and "r \<equiv> fst (RunAutoExchange d p w)"
  shows "\<exists>n \<le> length recs. counted r = mset (map rc_source_id (take n recs)) \<and>
     (n = length recs \<or> (au_failed r \<noteq> [] \<and> ledger_failure (last (au_failed r))))"
proof -
  have "counted (empty_result p) = {#}" by (simp add: counted_def empty_result_def)
  then show ?thesis
    using process_recs_counted [of recs d p _ "empty_result p"] by (simp add: r_def run_as_recs recs_def)
qed

section \<open>Approval tokens\<close>

definition well_filed :: "auto_result \<Rightarrow> bool" where
  "well_filed r \<longleftrightarrow> list_all (\<lambda>oc. oc_token oc = []) (au_completed r @ au_failed r) \<and>
     (au_mode r \<noteq> ''manual'' \<longrightarrow> au_pending r = []) \<and> (au_mode r = ''manual'' \<longrightarrow> au_completed r = [])"

lemma processRecommendation_filed:
  assumes "processRecommendation d p rec cap r w = (h, r', w')" "well_filed r" "au_mode r = xc_mode (ap_config p)"
  shows "well_filed r' \<and> au_mode r' = xc_mode (ap_config p)"
  using assms(1)
proof (cases rule: processRecommendation_cases)
  case (auto oc off pay w1)
  with processAutoExchange_shape(2) [OF auto(2)] assms(2,3) show ?thesis by (auto simp: well_filed_def)
next
  case (manual oc off pay w1)
  with processManualExchange_shape(3) [OF manual(3)] assms(2,3) show ?thesis by (auto simp: well_filed_def)
qed (use assms(2,3) in \<open>simp add: well_filed_def add_skip_def\<close>)

lemma process_recs_filed:
  "well_filed r \<Longrightarrow> au_mode r = xc_mode (ap_config p) \<Longrightarrow>
   well_filed (fst (process_recs d p cap recs r w)) \<and> au_mode (fst (process_recs d p cap recs r w)) = xc_mode (ap_config p)"
  by (induction recs arbitrary: r w) (auto dest: processRecommendation_filed split: prod.split)

lemma run_filed: "well_filed (fst (RunAutoExchange d p w))" "au_mode (fst (RunAutoExchange d p w)) = xc_mode (ap_config p)"
proof -
  have e: "well_filed (empty_result p)" "au_mode (empty_result p) = xc_mode (ap_config p)"
    by (simp_all add: well_filed_def empty_result_def)
  show "well_filed (fst (RunAutoExchange d p w))" "au_mode (fst (RunAutoExchange d p w)) = xc_mode (ap_config p)"
    by (simp_all add: run_as_recs process_recs_filed [OF e])
qed

text \<open>Who a mail goes to and what it may carry: a broadcast carries no token.\<close>

fun mail_safe :: "string \<Rightarrow> mail_call option \<Rightarrow> bool" where
  "mail_safe notify None = True"
| "mail_safe notify (Some (SendRIExchangePendingApproval m)) = (xm_recipient m = notify \<and> xm_mode m = ''manual'')"
| "mail_safe notify (Some (SendRIExchangeCompleted m)) = list_all (\<lambda>x. xi_token x = []) (xm_exchanges m)"

text \<open>The scheduled task never broadcasts an approval token: the mail it sends is either the
  approval mail of a manual run, addressed to the configured recipient alone, or a completion
  mail in which every item's token is empty.\<close>

theorem tokens_not_broadcast:
  "mail_safe (case gc_notify cfg of None \<Rightarrow> [] | Some e \<Rightarrow> e)
     (fst (snd (executeRIExchangeReshape d instances util hasEmail cfg account region url w)))"
proof -
  have *: "mail_safe to (sendExchangeNotification b url r to)" if "well_filed r" for to b r
    using that by (auto simp: sendExchangeNotification_def Let_def buildExchangeNotificationData_def well_filed_def
        list_all_iff outcome_item_def)
  have "mail_safe to (sendExchangeNotification hasEmail url (fst (RunAutoExchange d p w)) to)" for to p
    by (rule *, rule run_filed)
  then show ?thesis
    by (auto simp: executeRIExchangeReshape_def split: sum.split prod.split) (metis fst_conv)+
qed

section \<open>Where the wiring loses data\<close>

lemma service_save_keeps: "fst (dep_save (service_deps env api lookup clock token) now r s) = (e, saved) \<Longrightarrow> saved = r"
  by (auto simp: service_deps_def adapter_save_def split: prod.splits)

lemma saveLedgerRecord_keeps:
  "saveLedgerRecord n (service_deps env api lookup clock token) rec e w = ((e', saved), w') \<Longrightarrow> saved = rec"
proof (induction n arbitrary: rec e w)
  case (Suc n)
  obtain x s where x: "dep_save (service_deps env api lookup clock token) (dep_now (service_deps env api lookup clock token) (w_ticks w))
      rec (w_store w) = (x, s)" by fastforce
  obtain e2 r2 where e2: "x = (e2, r2)" by fastforce
  have "r2 = rec" using service_save_keeps x e2 by (metis fst_conv)
  with Suc x e2 show ?case by (auto simp: on_store_def tick_def split: option.splits)
qed simp

definition no_ids :: "auto_result \<Rightarrow> bool" where
  "no_ids r \<longleftrightarrow> list_all (\<lambda>oc. oc_record_id oc = []) (au_completed r @ au_pending r @ au_failed r)"

lemma service_manual_id:
  "processManualExchange (service_deps env api lookup clock token) p rec off pay w = (oc, w') \<Longrightarrow> oc_record_id oc = []"
  by (auto simp: processManualExchange_def Let_def base_outcome_def base_record_def on_store_def tick_def
      service_deps_def adapter_save_def split: if_splits sum.splits prod.splits option.splits)

lemma service_auto_id:
  "processAutoExchange (service_deps env api lookup clock token) p rec off pay cap w = ((oc, h), w') \<Longrightarrow> oc_record_id oc = []"
  by (auto simp: processAutoExchange_def execute_auto_def auto_fail_def Let_def base_outcome_def base_record_def
      dest!: saveLedgerRecord_keeps split: if_splits sum.splits prod.splits option.splits)

lemma service_recs_ids:
  "no_ids r \<Longrightarrow> no_ids (fst (process_recs (service_deps env api lookup clock token) p cap recs r w))"
proof (induction recs arbitrary: r w)
  case (Cons rec recs)
  obtain h r' w' where pr: "processRecommendation (service_deps env api lookup clock token) p rec cap r w = (h, r', w')"
    by (metis prod_cases3)
  from pr have "no_ids r'"
  proof (cases rule: processRecommendation_cases)
    case (skipped s)
    with Cons.prems show ?thesis by (simp add: no_ids_def add_skip_def)
  next
    case (manual oc off pay w1)
    with Cons.prems service_manual_id [OF manual(3)] show ?thesis by (simp add: no_ids_def)
  next
    case (auto oc off pay w1)
    with Cons.prems service_auto_id [OF auto(2)] show ?thesis by (simp add: no_ids_def)
  qed
  with Cons.IH pr show ?case by simp
qed simp

text \<open>With the store adapter of the task, no outcome of a run ever carries the identifier of
  its record: the store generates it in the adapter's copy. The approval mail builds its
  approve and reject links from that empty identifier.\<close>

theorem record_ids_lost:
  "no_ids (fst (RunAutoExchange (service_deps env api lookup clock token) p w))"
proof -
  have "no_ids (empty_result p)" by (simp add: no_ids_def empty_result_def)
  then show ?thesis by (simp add: run_as_recs service_recs_ids)
qed

text \<open>A run whose account is not twelve digits writes no row.\<close>

lemma service_save_rejected:
  assumes "\<not> account_id_ok (er_account r)"
  shows "\<exists>e s'. dep_save (service_deps env api lookup clock token) now r s = ((Some e, r), s') \<and> db_rows s' = db_rows s"
proof -
  obtain x s' where x: "adapter_save env now r s = (x, s')" by fastforce
  obtain e r' where e: "x = (e, r')" by fastforce
  have r': "r' = r" using x e by (auto simp: adapter_save_def split: prod.splits)
  show ?thesis
  proof (cases e)
    case None
    from x e None have "adapter_save env now r s = ((None, r'), s')" by simp
    then have "account_id_ok (er_account r)" by (rule adapter_save_row)
    with assms show ?thesis by simp
  next
    case (Some e2)
    with x e r' adapter_save_error [of env now r s] show ?thesis by (simp add: service_deps_def)
  qed
qed

definition rows_of :: "(ri_db, 'c) world \<Rightarrow> ri_row list" where
  "rows_of w = db_rows (w_store w)"

lemma rows_of_simps [simp]: "rows_of (w\<lparr>w_ticks := n\<rparr>) = rows_of w" "rows_of (w\<lparr>w_client := c\<rparr>) = rows_of w"
    "rows_of (w\<lparr>w_draws := m\<rparr>) = rows_of w"
  by (simp_all add: rows_of_def)

lemma rows_on_client: "on_client f w = (x, w') \<Longrightarrow> rows_of w' = rows_of w"
  by (auto simp: on_client_def split: prod.splits)

lemma rejected_save:
  assumes "\<not> account_id_ok (er_account r)"
    "on_store (service_deps env api lookup clock token) (\<lambda>now. dep_save (service_deps env api lookup clock token) now r) w = (x, w')"
  shows "\<exists>e. x = (Some e, r)" and "rows_of w' = rows_of w"
  using assms(2) service_save_rejected [OF assms(1), of env api lookup clock token "dep_now (service_deps env api lookup clock token) (w_ticks w)" "w_store w"]
  by (auto simp: on_store_def tick_def rows_of_def)

lemma rejected_failed:
  "\<not> account_id_ok (ap_account p) \<Longrightarrow> rows_of (saveFailedRecord (service_deps env api lookup clock token) p rec off pay msg mode w) = rows_of w"
  unfolding saveFailedRecord_def by (rule rejected_save(2) [OF _ prod.collapse [symmetric]]) (simp add: base_record_def)

lemma rejected_ledger:
  "\<not> account_id_ok (er_account r) \<Longrightarrow> saveLedgerRecord n (service_deps env api lookup clock token) r e w = ((e', r'), w') \<Longrightarrow>
   rows_of w' = rows_of w \<and> (n \<noteq> 0 \<longrightarrow> e' \<noteq> None)"
proof (induction n arbitrary: e w)
  case (Suc n)
  obtain x w1 where x: "on_store (service_deps env api lookup clock token) (\<lambda>now. dep_save (service_deps env api lookup clock token) now r) w = (x, w1)"
    by fastforce
  from rejected_save [OF Suc.prems(1) x] obtain e2 where "x = (Some e2, r)" "rows_of w1 = rows_of w" by blast
  with Suc x show ?case by (cases n) auto
qed simp

lemma rejected_auto:
  assumes "\<not> account_id_ok (ap_account p)"
    "processAutoExchange (service_deps env api lookup clock token) p rec off pay cap w = ((oc, h), w')"
  shows "rows_of w' = rows_of w" and "oc_exchange_id oc \<noteq> [] \<Longrightarrow> h \<and> ledger_failure oc"
proof -
  have d: "rows_of w1 = rows_of w" if "on_store (service_deps env api lookup clock token) (\<lambda>now. dep_daily (service_deps env api lookup clock token) now) w = (x, w1)" for x w1
    using that by (auto simp: on_store_def tick_def rows_of_def service_deps_def adapter_daily_spend_def dest!: daily_spend_rows split: prod.splits)
  have f: "rows_of w2 = rows_of w1 \<and> oc_exchange_id oc = []"
    if "auto_fail (service_deps env api lookup clock token) p rec off pay msg w1 = ((oc, h), w2)" for msg w1 w2 oc h
    using that rejected_failed [OF assms(1)] by (auto simp: auto_fail_def base_outcome_def)
  have e: "rows_of w2 = rows_of w1 \<and> (oc_exchange_id oc \<noteq> [] \<longrightarrow> h \<and> ledger_failure oc)"
    if x: "execute_auto (service_deps env api lookup clock token) p rec off pay c w1 = ((oc, h), w2)" for c w1 w2 oc h
    using x unfolding execute_auto_def
    by (auto simp: Let_def tick_def base_outcome_def base_record_def ledger_failure_def assms(1) maxLedgerAttempts_def
        split: prod.splits option.splits dest!: f rows_on_client rejected_ledger [rotated])
  show "rows_of w' = rows_of w" and "oc_exchange_id oc \<noteq> [] \<Longrightarrow> h \<and> ledger_failure oc"
    using assms(2) unfolding processAutoExchange_def
    by (auto simp: Let_def base_outcome_def split: if_splits prod.splits sum.splits dest!: d f e)
qed

lemma rejected_manual:
  assumes "\<not> account_id_ok (ap_account p)"
    "processManualExchange (service_deps env api lookup clock token) p rec off pay w = (oc, w')"
  shows "rows_of w' = rows_of w"
proof -
  have s: "rows_of w2 = rows_of w1"
    if "on_store (service_deps env api lookup clock token) (\<lambda>now. dep_save (service_deps env api lookup clock token) now r) w1 = (x, w2)"
      "er_account r = ap_account p" for r x w1 w2
    using rejected_save(2) [OF _ that(1)] that(2) assms(1) by simp
  show ?thesis using assms(2) unfolding processManualExchange_def Let_def tick_def
    by (auto simp: base_record_def rejected_failed [OF assms(1)] split: if_splits prod.splits sum.splits option.splits dest!: s)
qed

definition unrecorded :: "auto_result \<Rightarrow> bool" where
  "unrecorded r \<longleftrightarrow> list_all (\<lambda>oc. oc_exchange_id oc = []) (au_completed r @ au_pending r) \<and>
     list_all (\<lambda>oc. oc_exchange_id oc = [] \<or> ledger_failure oc) (au_failed r)"

lemma rejected_recs:
  assumes "\<not> account_id_ok (ap_account p)" "unrecorded r"
  shows "unrecorded (fst (process_recs (service_deps env api lookup clock token) p cap recs r w)) \<and>
     rows_of (snd (process_recs (service_deps env api lookup clock token) p cap recs r w)) = rows_of w"
  using assms(2)
proof (induction recs arbitrary: r w)
  case (Cons rec recs)
  let ?d = "service_deps env api lookup clock token"
  obtain h r' w' where pr: "processRecommendation ?d p rec cap r w = (h, r', w')" by (metis prod_cases3)
  have ro: "rows_of w1 = rows_of w0" if "resolveOffering ?d p rec w0 = (x, w1)" for x w0 w1
    using that by (auto simp: resolveOffering_def dest: rows_on_client split: option.splits prod.splits sum.splits)
  have gq: "rows_of w1 = rows_of w0" if "getValidatedQuote ?d p rec off cap w0 = (x, w1)" for off x w0 w1
    using that by (auto simp: getValidatedQuote_def dest: rows_on_client split: option.splits prod.splits sum.splits if_splits)
  have "rows_of w' = rows_of w" using pr
    by (auto simp: processRecommendation_def Let_def dest!: ro gq rejected_manual [OF assms(1)] rejected_auto(1) [OF assms(1)]
        split: if_splits prod.splits sum.splits)
  moreover from pr have "unrecorded r'"
  proof (cases rule: processRecommendation_cases)
    case (skipped s)
    with Cons.prems show ?thesis by (simp add: unrecorded_def add_skip_def)
  next
    case (manual oc off pay w1)
    with Cons.prems processManualExchange_shape(2) [OF manual(3)] show ?thesis by (simp add: unrecorded_def)
  next
    case (auto oc off pay w1)
    with Cons.prems rejected_auto(2) [OF assms(1) auto(2)] ledger_failure_error show ?thesis by (auto simp: unrecorded_def)
  qed
  ultimately show ?case using Cons.IH pr by simp
qed simp

lemma rejected_run:
  assumes "\<not> account_id_ok (ap_account p)" "ledger_ok (w_store w)"
  shows "unrecorded (fst (RunAutoExchange (service_deps env api lookup clock token) p w))"
    and "day_spent D (w_store (snd (RunAutoExchange (service_deps env api lookup clock token) p w))) = day_spent D (w_store w)"
proof -
  let ?d = "service_deps env api lookup clock token" and ?w = "start_world (service_deps env api lookup clock token) p w"
  have "unrecorded (empty_result p)" by (simp add: unrecorded_def empty_result_def)
  note r = rejected_recs [OF assms(1) this]
  show "unrecorded (fst (RunAutoExchange ?d p w))" unfolding run_as_recs using r by blast
  have c: "ledger_ok (w_store w1) \<and> day_spent D (w_store w1) = day_spent D (w_store w)"
    if "on_store ?d (\<lambda>now. dep_cancel ?d now o') w = (x, w1)" for o' x w1
    using that assms(2) by (auto simp: on_store_def tick_def service_deps_def split: prod.splits dest!: pg.cancel_spent [rotated])
  have s: "rows_of w2 = rows_of w1" if "on_store ?d (\<lambda>now. dep_stale ?d now age) w1 = (x, w2)" for age x w1 w2
    using that by (auto simp: on_store_def tick_def service_deps_def rows_of_def split: prod.splits dest!: adapter_stale_rows)
  have "day_spent D (w_store ?w) = day_spent D (w_store w)"
  proof -
    define w1 where "w1 = (if ap_dry_run p then w else snd (on_store ?d (\<lambda>now. dep_cancel ?d now (run_origin p)) w))"
    obtain x w0 where on: "on_store ?d (\<lambda>now. dep_cancel ?d now (run_origin p)) w = (x, w0)" by fastforce
    have "day_spent D (w_store w1) = day_spent D (w_store w)"
      using c [OF on] by (simp add: w1_def on)
    moreover obtain y w2 where st: "on_store ?d (\<lambda>now. dep_stale ?d now staleProcessingThreshold) w1 = (y, w2)" by fastforce
    then have "?w = w2" unfolding start_world_def w1_def [symmetric] by simp
    then have "rows_of ?w = rows_of w1" using s [OF st] by simp
    ultimately show ?thesis by (simp add: rows_of_def day_spent_def)
  qed
  then show "day_spent D (w_store (snd (RunAutoExchange ?d p w))) = day_spent D (w_store w)"
    by (simp add: run_as_recs day_spent_def r [THEN conjunct2, unfolded rows_of_def])
qed

definition zero_rec :: reshape_rec where
  "zero_rec = \<lparr>rc_source_id = ''ri-1'', rc_source_type = [], rc_source_count = 1, rc_target_type = [], rc_target_count = 1,
     rc_alternatives = [], rc_util = Fin 0, rc_used = Fin 0, rc_purchased = Fin 0, rc_reason = []\<rparr>"

text \<open>A run under the account \<open>unknown\<close> does move money: here two quotes and one accept, and an
  empty ledger.\<close>

lemma ex_price: "ParseDecimalRat ''12.500000'' = Inr (25 / 2)"
proof -
  have f: "\<lfloor>25000001 / 2 :: rat\<rfloor> = 12500000" by (rule floor_unique) auto
  have "''12.500000'' = float_string 6 (25 / 2)"
    by (simp add: float_string_def fixed_digits_def pad_left_def f nat_dec_lt nat_dec_ge)
  moreover have "float_round 6 (25 / 2) = 25 / 2" by (rule float_round_micros) (simp add: micros_def)
  ultimately show ?thesis by (simp only: parse_money)
qed

lemma ex_quote: "getQuoteWithAPI ex_api \<lparr>qr_region = r, qr_account = a, qr_ids = [i], qr_targets = [], qr_offering = ''offering-1'', qr_count = 1,
    qr_dry_run = False\<rparr> n = (summarize_quote ex_quote_output, Suc n)"
  by (simp add: getQuoteWithAPI_def validateTargets_def trim_space_def is_space_def ex_api_def)

lemma ex_summary: "\<exists>q. summarize_quote ex_quote_output = Inr q \<and> qs_valid q \<and> qs_payment q = Some (25 / 2) \<and> qs_payment_str q = float_string 6 (25 / 2)"
  by (simp add: summarize_quote_def ex_quote_output_def ex_price Let_def to_string_def to_bool_def)

lemma ex_execute:
  assumes "25 / 2 \<le> cap"
  shows "\<exists>q. executeWithAPI ex_api \<lparr>xr_region = r, xr_account = a, xr_ids = [i], xr_targets = [], xr_offering = ''offering-1'', xr_count = 1,
     xr_max_payment = Some cap\<rparr> n = (\<lparr>ex_id = ''exch-1'', ex_quote = Some q, ex_err = None\<rparr>, Suc (Suc (Suc n)))"
proof -
  obtain q where q: "summarize_quote ex_quote_output = Inr q" "qs_valid q" "qs_payment q = Some (25 / 2)" using ex_summary by blast
  have "checkInitialQuote q cap = None" "checkReQuote q cap = None"
    using q assms by (simp_all add: checkInitialQuote_None checkReQuote_None resolvePaymentDue_def)
  then show ?thesis
    by (simp add: executeWithAPI_def exec_quote_request_def ex_quote q) (simp add: ex_api_def to_string_def)
qed

lemma ledger_client: "w_client (snd (saveLedgerRecord n d r e w)) = w_client w"
  by (induction n arbitrary: r e w) (auto simp: on_store_def tick_def split: prod.split option.split)

lemma unknown_account_executes:
  "\<exists>oc w'. processAutoExchange ex_deps (ex_params\<lparr>ap_account := ''unknown''\<rparr>) zero_rec ''offering-1'' ''12.500000'' 100 ex_world = ((oc, True), w') \<and>
     oc_exchange_id oc = ''exch-1'' \<and> w_client w' = 3 \<and> rows_of w' = []"
proof -
  let ?p = "ex_params\<lparr>ap_account := ''unknown''\<rparr>"
  let ?w = "ex_world\<lparr>w_store := ex_db\<lparr>db_statements := 1\<rparr>, w_ticks := 1\<rparr>"
  have d: "on_store ex_deps (\<lambda>now. dep_daily ex_deps now) ex_world = (Inr ''0'', ?w)"
    by (simp add: on_store_def tick_def ex_deps_def service_deps_def ex_world_def adapter_daily_spend_def GetRIExchangeDailySpend_def
        db_exec_def ex_db_def ex_env_def)
  have p: "ap_dry_run ?p = False" "rat_of_f64 (xc_max_daily (ap_config ?p)) = 500" "ap_region ?p = ''us-east-1''"
    by (simp_all add: ex_params_def service_params_def convertForAutoExchange_def ex_cfg_def)
  have c: "rat_of_f64 (xc_max_daily (ap_config ex_params)) = 500" using p(2) by simp
  obtain q where q: "dep_execute ex_deps \<lparr>xr_region = ''us-east-1'', xr_account = [], xr_ids = [rc_source_id zero_rec], xr_targets = [],
      xr_offering = ''offering-1'', xr_count = rc_target_count zero_rec, xr_max_payment = Some 100\<rparr> 0 =
      (\<lparr>ex_id = ''exch-1'', ex_quote = Some q, ex_err = None\<rparr>, 3)"
    using ex_execute [of 100 "''us-east-1''" "[]" "''ri-1''" 0] by (auto simp: ex_deps_def service_deps_def zero_rec_def numeral_3_eq_3)
  define r where "r = (base_record ?p zero_rec ''offering-1'' (acceptedAmountFromQuote (Some q) ''12.500000'') ''completed'' ExchangeModeAuto)
      \<lparr>er_exchange_id := ''exch-1'', er_completed := Some (dep_now ex_deps 1)\<rparr>"
  let ?w2 = "?w\<lparr>w_client := 3, w_ticks := 2\<rparr>"
  obtain x w' where "saveLedgerRecord maxLedgerAttempts ex_deps r None ?w2 = (x, w')" by fastforce
  then obtain e r' where sl: "saveLedgerRecord maxLedgerAttempts ex_deps r None ?w2 = ((e, r'), w')" by (cases x) simp
  have acc: "\<not> account_id_ok (er_account r)" by (simp add: r_def base_record_def account_id_ok_def)
  from rejected_ledger [OF acc sl [unfolded ex_deps_def]] have w': "e \<noteq> None" "rows_of w' = rows_of ?w2"
    by (simp_all add: maxLedgerAttempts_def)
  have "w_client w' = 3" using ledger_client [of maxLedgerAttempts ex_deps r None ?w2] sl by simp
  have ea: "execute_auto ex_deps ?p zero_rec ''offering-1'' ''12.500000'' 100 ?w =
      (((base_outcome zero_rec ''offering-1'' ''12.500000'')\<lparr>oc_exchange_id := ''exch-1'',
         oc_error := err_string (Errorf ''ledger save failed after exchange executed: %v'' [EErr (the e)])\<rparr>, True), w')"
    using w' sl by (auto simp: execute_auto_def on_client_def q p tick_def r_def ex_world_def numeral_2_eq_2 Let_def)
  have "processAutoExchange ex_deps ?p zero_rec ''offering-1'' ''12.500000'' 100 ex_world =
      execute_auto ex_deps ?p zero_rec ''offering-1'' ''12.500000'' 100 ?w"
    by (simp add: processAutoExchange_def p c d parse_zero ex_price Let_def chooseEffectiveCap_def)
  with ea w' \<open>w_client w' = 3\<close> show ?thesis by (auto simp: rows_of_def ex_world_def ex_db_def)
qed
text \<open>\<open>resolveAccountID\<close> answers \<open>unknown\<close> when STS fails, "stored for audit trail only"; but
  the ledger rejects an account that is not twelve digits. Such a run executes exchanges
  (\<open>unknown_account_executes\<close>) and none of them reaches the ledger: no outcome with an exchange identifier is
  reported completed, each is a ledger failure, and no day's total changes.\<close>

theorem unknown_account_unrecorded:
  assumes "ledger_ok (w_store w)" and "\<forall>account. identity \<noteq> Inr (Some account)"
  shows "unrecorded (fst (RunAutoExchange (service_deps env api lookup clock token) (p\<lparr>ap_account := resolveAccountID identity\<rparr>) w)) \<and>
    day_spent D (w_store (snd (RunAutoExchange (service_deps env api lookup clock token) (p\<lparr>ap_account := resolveAccountID identity\<rparr>) w))) =
    day_spent D (w_store w)"
proof -
  have "resolveAccountID identity = ''unknown''"
    using assms(2) by (auto simp: resolveAccountID_def split: sum.split option.split)
  moreover have "\<not> account_id_ok ''unknown''" by (simp add: account_id_ok_def)
  ultimately show ?thesis using rejected_run [of "p\<lparr>ap_account := ''unknown''\<rparr>" w] assms(1) by simp
qed

theorem unknown_account_unrecorded_witness:
  "unrecorded (fst (RunAutoExchange ex_deps (ex_params\<lparr>ap_account := resolveAccountID (Inr None)\<rparr>) ex_world))"
  using unknown_account_unrecorded [of ex_world "Inr None" ex_env ex_api "\<lambda>_ _ _ _ _ n. (Inr ''offering-1'', n)" "\<lambda>_. 0" "\<lambda>_. Inr ''token''" ex_params]
    ledger_ok_ex_db by (simp add: ex_deps_def ex_world_def)

text \<open>The ledger rejects a payment below zero, which \<open>ParseDecimalRat\<close> documents as possible:
  saving a record that carries one fails and changes no row, so an exchange that was executed
  at such a price has no ledger row.\<close>

theorem negative_payment_rejected:
  assumes "float_round 6 payment < 0" and "er_payment r = float_string 6 payment"
  shows "\<exists>e db'. adapter_save env now r db = ((Some e, r), db') \<and> db_rows db' = db_rows db"
proof -
  obtain x db' where x: "adapter_save env now r db = (x, db')" by fastforce
  obtain e r' where e: "x = (e, r')" by fastforce
  have r': "r' = r" using x e by (auto simp: adapter_save_def split: prod.splits)
  show ?thesis
  proof (cases e)
    case None
    with x e have "adapter_save env now r db = ((None, r'), db')" by simp
    then obtain q where "decimal_value (float_string 6 payment) = Inr q" "0 \<le> q"
      by (rule adapter_save_row) (simp add: assms(2))
    then have "0 \<le> float_round 6 (float_round 6 payment)"
      by (auto simp: decimal_value_def float_string_parses Let_def split: if_splits)
    with assms(1) show ?thesis by (simp add: float_round_micros)
  next
    case (Some e2)
    with x e r' adapter_save_error [of env now r db] show ?thesis by simp
  qed
qed

theorem negative_payment_rejected_witness:
  "\<exists>e db'. adapter_save ex_env 0 ((base_record ex_params zero_rec ''o'' (float_string 6 (- 9 / 500)) ''completed'' ''auto'')) ex_db =
     ((Some e, (base_record ex_params zero_rec ''o'' (float_string 6 (- 9 / 500)) ''completed'' ''auto'')), db') \<and> db_rows db' = []"
proof -
  have "float_round 6 (- 9 / 500) = - 9 / 500" by (rule float_round_micros) (simp add: micros_def)
  then show ?thesis
    using negative_payment_rejected [of "- 9 / 500" "base_record ex_params zero_rec ''o'' (float_string 6 (- 9 / 500)) ''completed'' ''auto''" ex_env 0 ex_db]
    by (simp add: base_record_def ex_db_def)
qed

end
