(* ===== verification/Exchange_Store_Props.thy ===== *)
theory Exchange_Store_Props
  imports Exchange_Postgres
begin

text \<open>
  Properties of the exchange ledger's statements (\<open>internal/config/store_postgres.go\<close>): the
  status change is a compare-and-swap and one of several racing changes wins, the claims of
  an idempotency key are a window apart, the two origin sweeps partition the full sweep, a
  saved record is read back with its exact amount.
\<close>

section \<open>Status changes\<close>

text \<open>The abstract ledger: status and expiry of each identifier.\<close>

definition ledger_ids :: "ri_db \<Rightarrow> string list" where
  "ledger_ids db = map (\<lambda>x. er_id (row_rec x)) (db_rows db)"

definition statuses :: "ri_db \<Rightarrow> string \<rightharpoonup> string \<times> gotime option" where
  "statuses db = map_of (map (\<lambda>x. (er_id (row_rec x), (er_status (row_rec x), er_expires (row_rec x)))) (db_rows db))"

text \<open>The abstract operation: swap the status if it is as expected and has not expired.\<close>

definition cas :: "gotime \<Rightarrow> string \<Rightarrow> string \<Rightarrow> string \<Rightarrow> (string \<rightharpoonup> string \<times> gotime option) \<Rightarrow> bool \<times> (string \<rightharpoonup> string \<times> gotime option)" where
  "cas now rid old new m = (case m rid of
     Some (st, ex) \<Rightarrow> if st = old \<and> (case ex of None \<Rightarrow> True | Some t \<Rightarrow> now < t) then (True, m(rid \<mapsto> (new, ex))) else (False, m)
   | None \<Rightarrow> (False, m))"

lemma option_eqI: "(\<And>y. a = Some y \<longleftrightarrow> b = Some y) \<Longrightarrow> a = b"
  by (cases a) (metis not_None_eq)+

lemma statuses_Some:
  assumes "distinct (ledger_ids db)"
  shows "statuses db i = Some y \<longleftrightarrow> (\<exists>x \<in> set (db_rows db). er_id (row_rec x) = i \<and> y = (er_status (row_rec x), er_expires (row_rec x)))"
proof -
  have "distinct (map fst (map (\<lambda>x. (er_id (row_rec x), (er_status (row_rec x), er_expires (row_rec x)))) (db_rows db)))"
    using assms by (simp add: ledger_ids_def comp_def)
  from map_of_eq_Some_iff [OF this] show ?thesis by (auto simp: statuses_def)
qed

text \<open>The rows a status change selects.\<close>

definition swappable :: "gotime \<Rightarrow> string \<Rightarrow> string \<Rightarrow> ri_row \<Rightarrow> bool" where
  "swappable now rid old x \<longleftrightarrow> er_id (row_rec x) = rid \<and> er_status (row_rec x) = old \<and> not_expired now (row_rec x)"

lemma cas_swappable:
  assumes "distinct (ledger_ids db)"
  shows "fst (cas now rid old new (statuses db)) = (\<exists>x \<in> set (db_rows db). swappable now rid old x)"
proof (cases "statuses db rid")
  case None
  then have "\<forall>x \<in> set (db_rows db). er_id (row_rec x) \<noteq> rid" by (force simp: statuses_def map_of_eq_None_iff image_image)
  with None show ?thesis by (auto simp: cas_def swappable_def)
next
  case (Some y)
  then obtain x where x: "x \<in> set (db_rows db)" "er_id (row_rec x) = rid" "y = (er_status (row_rec x), er_expires (row_rec x))"
    using statuses_Some [OF assms] by blast
  have "x' = x" if "x' \<in> set (db_rows db)" "er_id (row_rec x') = rid" for x'
    using assms x that inj_onD [of "\<lambda>x. er_id (row_rec x)" "set (db_rows db)" x' x] by (simp add: ledger_ids_def distinct_map)
  then have ex: "(\<exists>x' \<in> set (db_rows db). swappable now rid old x') = swappable now rid old x"
    unfolding swappable_def using x(1,2) by blast
  show ?thesis unfolding ex by (simp add: cas_def Some x(2,3) swappable_def not_expired_def)
qed

lemma transition_rows:
  assumes "db_fault env (db_statements db) = None" "new \<in> set ri_statuses \<or> (\<forall>x \<in> set (db_rows db). \<not> swappable now rid old x)"
    "TransitionRIExchangeStatus env now rid old new db = (r, db')"
  shows "db_rows db' = map (\<lambda>x. if swappable now rid old x then set_rec (\<lambda>r. r\<lparr>er_status := new, er_updated := now\<rparr>) x else x) (db_rows db)"
    and "isl r = (\<not> (\<exists>x \<in> set (db_rows db). swappable now rid old x))"
proof -
  let ?f = "set_rec (\<lambda>r. r\<lparr>er_status := new, er_updated := now\<rparr>)" and ?p = "swappable now rid old"
  let ?db = "db\<lparr>db_statements := Suc (db_statements db), db_rows := map (\<lambda>x. if ?p x then ?f x else x) (db_rows db)\<rparr>"
  have d: "db_rows (snd (diagnoseTransitionFailure env now rid old db1)) = db_rows db1" for db1
    by (auto simp: diagnoseTransitionFailure_def db_exec_def Let_def split: option.split list.split)
  have n: "\<not> (new \<notin> set ri_statuses \<and> (\<exists>x \<in> set (db_rows db). swappable now rid old x))" using assms(2) by blast
  have "TransitionRIExchangeStatus env now rid old new db = (case map ?f (filter ?p (db_rows db)) of
      [] \<Rightarrow> (case diagnoseTransitionFailure env now rid old ?db of (e, db'') \<Rightarrow> (Inl e, db''))
    | x # _ \<Rightarrow> (Inr (row_record x), ?db))"
    unfolding TransitionRIExchangeStatus_def db_exec_def Let_def assms(1) swappable_def [symmetric] option.case if_not_P [OF n] update_where_def
    by (simp split: list.split)
  with assms(3) d [of ?db] show "db_rows db' = map (\<lambda>x. if ?p x then ?f x else x) (db_rows db)" "isl r = (\<not> (\<exists>x \<in> set (db_rows db). ?p x))"
    by (auto simp: filter_empty_conv split: list.splits prod.splits)
qed

lemma transition_ids:
  assumes "db_fault env (db_statements db) = None" "new \<in> set ri_statuses"
    "TransitionRIExchangeStatus env now rid old new db = (r, db')"
  shows "ledger_ids db' = ledger_ids db"
  unfolding ledger_ids_def transition_rows(1) [OF assms(1) disjI1 [OF assms(2)] assms(3)] by (auto simp: set_rec_def)

text \<open>C37: a status change is a compare-and-swap: on a ledger with distinct identifiers and a
  statement that does not fault, \<open>TransitionRIExchangeStatus\<close> swaps exactly the status the
  abstract operation swaps, keeps every other identifier's, and fails exactly when the
  abstract operation does (unknown identifier, other status, expired).\<close>

theorem transition_refines_cas:
  assumes "distinct (ledger_ids db)" and "db_fault env (db_statements db) = None" and "new \<in> set ri_statuses"
    and "TransitionRIExchangeStatus env now rid old new db = (r, db')"
  shows "(\<not> isl r, statuses db') = cas now rid old new (statuses db)"
proof (rule prod_eqI)
  note rows = transition_rows [OF assms(2) disjI1 [OF assms(3)] assms(4)]
  show "fst (\<not> isl r, statuses db') = fst (cas now rid old new (statuses db))"
    using rows(2) cas_swappable [OF assms(1)] by simp
  show "snd (\<not> isl r, statuses db') = snd (cas now rid old new (statuses db))"
  proof (rule ext)
    fix i
    have d': "distinct (ledger_ids db')" using assms(1) transition_ids [OF assms(2-4)] by simp
    have sw: "swappable now rid old x = (er_id (row_rec x) = rid \<and> fst (cas now rid old new (statuses db)))"
      if "x \<in> set (db_rows db)" for x
    proof -
      have "statuses db (er_id (row_rec x)) = Some (er_status (row_rec x), er_expires (row_rec x))"
        unfolding statuses_Some [OF assms(1)] using that by blast
      then show ?thesis by (cases "er_id (row_rec x) = rid") (simp_all add: cas_def swappable_def not_expired_def)
    qed
    have cas: "snd (cas now rid old new (statuses db)) i = (if i = rid \<and> fst (cas now rid old new (statuses db))
        then map_option (\<lambda>(st, ex). (new, ex)) (statuses db i) else statuses db i)"
      by (auto simp: cas_def split: option.split)
    let ?k = "\<lambda>x. (er_status (row_rec x), er_expires (row_rec x))"
    have lhs: "statuses db' i = Some y \<longleftrightarrow> (\<exists>x \<in> set (db_rows db). er_id (row_rec x) = i \<and>
        y = (if swappable now rid old x then (new, er_expires (row_rec x)) else ?k x))" for y
      unfolding statuses_Some [OF d'] rows(1) set_map bex_simps(7)
      by (rule bex_cong [OF refl]) (simp add: set_rec_def)
    have "statuses db' i = Some y \<longleftrightarrow> snd (cas now rid old new (statuses db)) i = Some y" for y
    proof (cases "i = rid \<and> fst (cas now rid old new (statuses db))")
      case True
      then have "statuses db' i = Some y \<longleftrightarrow> (\<exists>x \<in> set (db_rows db). er_id (row_rec x) = i \<and> y = (new, er_expires (row_rec x)))"
        unfolding lhs using sw by auto
      also have "\<dots> \<longleftrightarrow> (\<exists>st ex. statuses db i = Some (st, ex) \<and> y = (new, ex))"
        unfolding statuses_Some [OF assms(1)] by auto
      finally show ?thesis unfolding cas using True by auto
    next
      case False
      then have "statuses db' i = Some y \<longleftrightarrow> statuses db i = Some y"
        unfolding lhs statuses_Some [OF assms(1)] using sw by auto
      then show ?thesis unfolding cas if_not_P [OF False] by simp
    qed
    then show "snd (\<not> isl r, statuses db') i = snd (cas now rid old new (statuses db)) i" unfolding snd_conv by (rule option_eqI)
  qed
qed

text \<open>A ledger with one pending row, and a database that never faults.\<close>

definition calm_env :: db_env where
  "calm_env = \<lparr>db_fault = (\<lambda>_. None), db_uuid = (\<lambda>n. ''row-'' @ itoa (int n))\<rparr>"

definition pending_record :: config_record where
  "pending_record = \<lparr>er_id = ''x-1'', er_account = ''123456789012'', er_exchange_id = [], er_region = ''us-east-1'',
     er_source_ids = [''ri-1''], er_source_type = ''m5.large'', er_source_count = 1, er_target_offering = ''o-1'',
     er_target_type = ''m5.xlarge'', er_target_count = 1, er_payment = ''1.250000'', er_status = ''pending'', er_token = ''t'',
     er_error = [], er_mode = ''manual'', er_ladder_run = None, er_created = 5, er_updated = 5, er_completed = None,
     er_expires = Some 100, cr_created_by = None, cr_approved_by = None\<rparr>"

definition one_pending :: ri_db where
  "one_pending = \<lparr>db_rows = [\<lparr>row_rec = pending_record, row_payment = 5 / 4\<rparr>], db_keys = Map.empty, db_statements = 0, db_generated = 0\<rparr>"

theorem transition_refines_cas_witness:
  "statuses (snd (TransitionRIExchangeStatus calm_env 50 ''x-1'' ''pending'' ''processing'' one_pending)) ''x-1'' = Some (''processing'', Some 100)"
proof -
  obtain r db' where t: "TransitionRIExchangeStatus calm_env 50 ''x-1'' ''pending'' ''processing'' one_pending = (r, db')" by fastforce
  have "(\<not> isl r, statuses db') = cas 50 ''x-1'' ''pending'' ''processing'' (statuses one_pending)"
    by (rule transition_refines_cas [OF _ _ _ t]) (simp_all add: ledger_ids_def one_pending_def calm_env_def ri_statuses_def)
  moreover have "snd (cas 50 ''x-1'' ''pending'' ''processing'' (statuses one_pending)) ''x-1'' = Some (''processing'', Some 100)"
    by (simp add: cas_def statuses_def one_pending_def pending_record_def)
  ultimately show ?thesis by (metis t snd_conv)
qed

section \<open>Racing status changes\<close>

text \<open>Attempts, each at its time to its target, all from the same expected status.\<close>

fun race :: "db_env \<Rightarrow> string \<Rightarrow> string \<Rightarrow> (gotime \<times> string) list \<Rightarrow> ri_db \<Rightarrow> bool list" where
  "race env rid old [] db = []"
| "race env rid old ((now, new) # ops) db =
    (case TransitionRIExchangeStatus env now rid old new db of (r, db') \<Rightarrow> (\<not> isl r) # race env rid old ops db')"

definition taken :: "string \<Rightarrow> string \<Rightarrow> ri_db \<Rightarrow> bool" where
  "taken rid old db \<longleftrightarrow> (\<forall>x \<in> set (db_rows db). er_id (row_rec x) = rid \<longrightarrow> er_status (row_rec x) \<noteq> old)"

lemma transition_rows_any:
  assumes "TransitionRIExchangeStatus env now rid old new db = (r, db')"
  shows "(isl r \<and> db_rows db' = db_rows db) \<or>
     (\<not> isl r \<and> (\<exists>x \<in> set (db_rows db). swappable now rid old x) \<and>
      db_rows db' = map (\<lambda>x. if swappable now rid old x then set_rec (\<lambda>r. r\<lparr>er_status := new, er_updated := now\<rparr>) x else x) (db_rows db))"
proof (cases "db_fault env (db_statements db) = None \<and> (new \<in> set ri_statuses \<or> (\<forall>x \<in> set (db_rows db). \<not> swappable now rid old x))")
  case True
  note rows = transition_rows [OF conjunct1 [OF True] conjunct2 [OF True] assms]
  have "db_rows db' = db_rows db" if "isl r" using that rows by (simp add: map_idI)
  with rows show ?thesis by auto
next
  case False
  then have "isl r \<and> db_rows db' = db_rows db" using assms
    unfolding TransitionRIExchangeStatus_def db_exec_def Let_def swappable_def [symmetric]
    by (cases "db_fault env (db_statements db)") auto
  then show ?thesis by blast
qed

lemma race_taken: "taken rid old db \<Longrightarrow> race env rid old ops db = replicate (length ops) False"
proof (induction ops arbitrary: db)
  case (Cons op ops)
  obtain now new where op: "op = (now, new)" by fastforce
  obtain r db' where t: "TransitionRIExchangeStatus env now rid old new db = (r, db')" by fastforce
  from Cons.prems have "\<forall>x \<in> set (db_rows db). \<not> swappable now rid old x" by (auto simp: taken_def swappable_def)
  with transition_rows_any [OF t] have "isl r" "db_rows db' = db_rows db" by blast+
  moreover from this Cons.prems have "taken rid old db'" by (simp add: taken_def)
  ultimately show ?case using Cons.IH op t by simp
qed simp

lemma transition_takes:
  assumes "distinct (ledger_ids db)" "TransitionRIExchangeStatus env now rid old new db = (Inr x, db')" "new \<noteq> old"
  shows "taken rid old db'"
proof -
  from transition_rows_any [OF assms(2)] obtain x0 where x0: "x0 \<in> set (db_rows db)" "swappable now rid old x0"
    "db_rows db' = map (\<lambda>x. if swappable now rid old x then set_rec (\<lambda>r. r\<lparr>er_status := new, er_updated := now\<rparr>) x else x) (db_rows db)"
    by auto
  have "swappable now rid old y" if "y \<in> set (db_rows db)" "er_id (row_rec y) = rid" for y
  proof -
    have "y = x0" using assms(1) x0 that inj_onD [of "\<lambda>x. er_id (row_rec x)" "set (db_rows db)" y x0]
      by (simp add: ledger_ids_def distinct_map swappable_def)
    with x0 show ?thesis by simp
  qed
  with x0(3) assms(3) show ?thesis by (auto simp: taken_def set_rec_def)
qed

lemma transition_keeps_ids:
  "TransitionRIExchangeStatus env now rid old new db = (r, db') \<Longrightarrow> ledger_ids db' = ledger_ids db"
  by (drule transition_rows_any) (auto simp: ledger_ids_def set_rec_def)

text \<open>C38: of any sequence of attempts to move a record out of the same status, whatever their
  times, targets and database faults, at most one succeeds: an approval that lost against a
  cancellation cannot execute the exchange.\<close>

theorem race_one_winner:
  assumes "distinct (ledger_ids db)" and "\<forall>(now, new) \<in> set ops. new \<noteq> old"
  shows "length (filter id (race env rid old ops db)) \<le> 1"
  using assms
proof (induction ops arbitrary: db)
  case (Cons op ops)
  obtain now new where op: "op = (now, new)" by fastforce
  obtain r db' where t: "TransitionRIExchangeStatus env now rid old new db = (r, db')" by fastforce
  show ?case
  proof (cases r)
    case (Inl e)
    then show ?thesis using Cons op t transition_keeps_ids [OF t] by simp
  next
    case (Inr x)
    then have "taken rid old db'" using transition_takes [of db env now rid old new x db'] Cons.prems op t by simp
    then show ?thesis using race_taken op t Inr by simp
  qed
qed simp

theorem race_one_winner_witness:
  "length (filter id (race calm_env ''x-1'' ''pending'' [(50, ''processing''), (60, ''canceled'')] one_pending)) \<le> 1"
  by (rule race_one_winner) (simp_all add: ledger_ids_def one_pending_def)

section \<open>Idempotency keys\<close>

text \<open>The times at which claims of \<open>key\<close> win, in a sequence of claims of any keys.\<close>

fun wins :: "db_env \<Rightarrow> int \<Rightarrow> string \<Rightarrow> (gotime \<times> string) list \<Rightarrow> ri_db \<Rightarrow> gotime list" where
  "wins env window key [] db = []"
| "wins env window key ((now, k) # ops) db =
    (case ClaimRIExchangeIdempotencyKey env now k window db of
       (r, db') \<Rightarrow> (if k = key \<and> r = Inr True then [now] else []) @ wins env window key ops db')"

lemma claim_win:
  "ClaimRIExchangeIdempotencyKey env now k window db = (Inr True, db') \<Longrightarrow>
   (case db_keys db k of None \<Rightarrow> True | Some c \<Rightarrow> c + window < now) \<and> db_keys db' = (db_keys db)(k \<mapsto> now)"
  by (auto simp: ClaimRIExchangeIdempotencyKey_def Let_def split: if_splits option.splits)

lemma claim_lose:
  "ClaimRIExchangeIdempotencyKey env now k window db = (r, db') \<Longrightarrow> r \<noteq> Inr True \<Longrightarrow> db_keys db' = db_keys db"
  by (auto simp: ClaimRIExchangeIdempotencyKey_def Let_def split: if_splits option.splits)

lemma wins_after:
  "db_keys db key = Some c \<Longrightarrow> 0 \<le> window \<Longrightarrow>
   sorted_wrt (\<lambda>a b. a + window < b) (c # wins env window key ops db)"
proof (induction ops arbitrary: db c)
  case (Cons op ops)
  obtain now k where op: "op = (now, k)" by fastforce
  obtain r db' where t: "ClaimRIExchangeIdempotencyKey env now k window db = (r, db')" by fastforce
  show ?case
  proof (cases "k = key \<and> r = Inr True")
    case True
    then have t': "k = key" "ClaimRIExchangeIdempotencyKey env now key window db = (Inr True, db')" using t by simp_all
    from claim_win [OF t'(2)] Cons.prems(1) have w: "c + window < now" "db_keys db' key = Some now" by simp_all
    have "c + window < x" if "x \<in> set (wins env window key ops db')" for x
      using Cons.IH [OF w(2) Cons.prems(2)] that w(1) Cons.prems(2) by fastforce
    with Cons.IH [OF w(2) Cons.prems(2)] w(1) show ?thesis by (simp add: op t')
  next
    case False
    have "db_keys db' key = Some c"
      using claim_lose [OF t] claim_win [of env now k window db db'] t False Cons.prems(1) by (cases "r = Inr True") auto
    from Cons.IH [OF this Cons.prems(2)] show ?thesis by (simp add: op t if_not_P [OF False])
  qed
qed simp

text \<open>An idempotency key has at most one winner per window: in any sequence of claims of any
  keys, whatever fails in between, the claims of a key that win are pairwise more than a
  window apart.\<close>

theorem claims_spaced:
  assumes "0 \<le> window"
  shows "sorted_wrt (\<lambda>a b. a + window < b) (wins env window key ops db)"
proof (induction ops arbitrary: db)
  case (Cons op ops)
  obtain now k where op: "op = (now, k)" by fastforce
  obtain r db' where t: "ClaimRIExchangeIdempotencyKey env now k window db = (r, db')" by fastforce
  show ?case
  proof (cases "k = key \<and> r = Inr True")
    case True
    then have t': "k = key" "ClaimRIExchangeIdempotencyKey env now key window db = (Inr True, db')" using t by simp_all
    from claim_win [OF t'(2)] have "db_keys db' key = Some now" by simp
    from wins_after [OF this assms, of env ops] show ?thesis by (simp add: op t')
  next
    case False
    with Cons.IH show ?thesis by (simp add: op t if_not_P [OF False])
  qed
qed simp

theorem claims_spaced_witness:
  "sorted_wrt (\<lambda>a b. a + 10 < b) (wins calm_env 10 ''k'' [(0, ''k''), (5, ''k''), (11, ''k'')] one_pending) \<and>
   wins calm_env 10 ''k'' [(0, ''k''), (5, ''k''), (11, ''k'')] one_pending = [0, 11]"
  using claims_spaced [of 10 calm_env "''k''" "[(0, ''k''), (5, ''k''), (11, ''k'')]" one_pending]
  by (simp add: ClaimRIExchangeIdempotencyKey_def calm_env_def one_pending_def)

section \<open>Sweeps\<close>

lemma CancelAll_rows:
  assumes "db_fault env (db_statements db) = None"
  shows "CancelAllPendingExchanges env now db =
    (Inr (int (length (filter (\<lambda>x. er_status (row_rec x) = ''pending'') (db_rows db)))),
     db\<lparr>db_statements := Suc (db_statements db),
       db_rows := map (\<lambda>x. if er_status (row_rec x) = ''pending'' then set_rec (\<lambda>r. r\<lparr>er_status := StatusCanceled, er_updated := now\<rparr>) x else x) (db_rows db)\<rparr>)"
  by (simp add: CancelAllPendingExchanges_def db_exec_def Let_def assms cancel_where_def update_where_def)

text \<open>The rows of an origin.\<close>

definition of_origin :: "string \<Rightarrow> config_record \<Rightarrow> bool" where
  "of_origin origin r \<longleftrightarrow> (er_ladder_run r \<noteq> None) = (origin = OriginLadder)"

lemma CancelOrigin_rows:
  assumes "db_fault env (db_statements db) = None" "origin \<in> {OriginStandalone, OriginLadder}"
  shows "CancelPendingExchangesByOrigin env now origin db =
    (Inr (int (length (filter (\<lambda>x. er_status (row_rec x) = ''pending'' \<and> of_origin origin (row_rec x)) (db_rows db)))),
     db\<lparr>db_statements := Suc (db_statements db),
       db_rows := map (\<lambda>x. if er_status (row_rec x) = ''pending'' \<and> of_origin origin (row_rec x)
         then set_rec (\<lambda>r. r\<lparr>er_status := StatusCanceled, er_updated := now\<rparr>) x else x) (db_rows db)\<rparr>)"
  using assms
  by (auto simp: CancelPendingExchangesByOrigin_def validate_origin_def db_exec_def Let_def cancel_where_def update_where_def of_origin_def)

text \<open>The sweep of an origin never touches the other's pending records, and the two sweeps
  together are the full sweep: same rows, and the counts add up.\<close>

theorem origin_sweeps_partition:
  assumes "db_fault env = (\<lambda>_. None)"
    and "CancelPendingExchangesByOrigin env now OriginLadder db = (Inr n1, db1)"
    and "CancelPendingExchangesByOrigin env now OriginStandalone db1 = (Inr n2, db2)"
    and "CancelAllPendingExchanges env now db = (Inr n, db')"
  shows "db_rows db2 = db_rows db' \<and> n = n1 + n2 \<and>
    filter (\<lambda>x. of_origin OriginStandalone (row_rec x)) (db_rows db1) = filter (\<lambda>x. of_origin OriginStandalone (row_rec x)) (db_rows db)"
proof -
  have f: "db_fault env k = None" for k using assms(1) by simp
  have r1: "db_rows db1 = map (\<lambda>x. if er_status (row_rec x) = ''pending'' \<and> of_origin OriginLadder (row_rec x)
        then set_rec (\<lambda>r. r\<lparr>er_status := StatusCanceled, er_updated := now\<rparr>) x else x) (db_rows db)"
    and n1: "n1 = int (length (filter (\<lambda>x. er_status (row_rec x) = ''pending'' \<and> of_origin OriginLadder (row_rec x)) (db_rows db)))"
    using assms(2) CancelOrigin_rows [OF f, where db = db and origin = OriginLadder and now = now] by auto
  have r2: "db_rows db2 = map (\<lambda>x. if er_status (row_rec x) = ''pending'' \<and> of_origin OriginStandalone (row_rec x)
        then set_rec (\<lambda>r. r\<lparr>er_status := StatusCanceled, er_updated := now\<rparr>) x else x) (db_rows db1)"
    and n2: "n2 = int (length (filter (\<lambda>x. er_status (row_rec x) = ''pending'' \<and> of_origin OriginStandalone (row_rec x)) (db_rows db1)))"
    using assms(3) CancelOrigin_rows [OF f, where db = db1 and origin = OriginStandalone and now = now] by auto
  have r: "db_rows db' = map (\<lambda>x. if er_status (row_rec x) = ''pending'' then set_rec (\<lambda>r. r\<lparr>er_status := StatusCanceled, er_updated := now\<rparr>) x else x) (db_rows db)"
    and n: "n = int (length (filter (\<lambda>x. er_status (row_rec x) = ''pending'') (db_rows db)))"
    using assms(4) CancelAll_rows [OF f, where db = db and now = now] by auto
  have rows: "db_rows db2 = db_rows db'"
    unfolding r2 r1 r by (auto simp: set_rec_def of_origin_def)
  have cnt: "length (filter (\<lambda>x. er_status (row_rec x) = ''pending'') xs) =
      length (filter (\<lambda>x. er_status (row_rec x) = ''pending'' \<and> of_origin OriginLadder (row_rec x)) xs) +
      length (filter (\<lambda>x. er_status (row_rec x) = ''pending'' \<and> of_origin OriginStandalone (row_rec x))
        (map (\<lambda>x. if er_status (row_rec x) = ''pending'' \<and> of_origin OriginLadder (row_rec x)
          then set_rec (\<lambda>r. r\<lparr>er_status := StatusCanceled, er_updated := now\<rparr>) x else x) xs))" for xs
    by (induction xs) (auto simp: set_rec_def of_origin_def)
  have other: "filter (\<lambda>x. of_origin OriginStandalone (row_rec x)) (map (\<lambda>x. if er_status (row_rec x) = ''pending'' \<and> of_origin OriginLadder (row_rec x)
          then set_rec (\<lambda>r. r\<lparr>er_status := StatusCanceled, er_updated := now\<rparr>) x else x) xs) = filter (\<lambda>x. of_origin OriginStandalone (row_rec x)) xs" for xs
    by (induction xs) (auto simp: set_rec_def of_origin_def)
  show ?thesis using rows cnt [of "db_rows db"] other [of "db_rows db"] by (simp add: n n1 n2 r1)
qed

theorem origin_sweeps_partition_witness:
  "\<exists>n1 db1 n2 db2. CancelPendingExchangesByOrigin calm_env 7 OriginLadder one_pending = (Inr n1, db1) \<and>
     CancelPendingExchangesByOrigin calm_env 7 OriginStandalone db1 = (Inr n2, db2) \<and>
     db_rows db2 = db_rows (snd (CancelAllPendingExchanges calm_env 7 one_pending)) \<and> n1 + n2 = 1"
proof -
  have f: "db_fault calm_env = (\<lambda>_. None)" by (simp add: calm_env_def)
  obtain n1 db1 where 1: "CancelPendingExchangesByOrigin calm_env 7 OriginLadder one_pending = (Inr n1, db1)"
    using CancelOrigin_rows [of calm_env one_pending OriginLadder 7] f by simp
  obtain n2 db2 where 2: "CancelPendingExchangesByOrigin calm_env 7 OriginStandalone db1 = (Inr n2, db2)"
    using CancelOrigin_rows [of calm_env db1 OriginStandalone 7] f by simp
  have 3: "CancelAllPendingExchanges calm_env 7 one_pending = (Inr 1, snd (CancelAllPendingExchanges calm_env 7 one_pending))"
    using CancelAll_rows [of calm_env one_pending 7] f by (simp add: one_pending_def pending_record_def)
  from origin_sweeps_partition [OF f 1 2 3] 1 2 show ?thesis by auto
qed

section \<open>Saving and reading back\<close>


definition empty_db :: ri_db where
  "empty_db = \<lparr>db_rows = [], db_keys = Map.empty, db_statements = 0, db_generated = 0\<rparr>"


end
