(* ===== verification/Purchase_Types.thy ===== *)
theory Purchase_Types
  imports Go_Time
begin

text \<open>
  The data of the purchase workflow (\<open>internal/config/types.go\<close>): recommendations, purchase
  executions, plans with their ramp schedule, cloud accounts, and the pure predicates on them.
  The fields of a recommendation that only the scheduler and the dashboard use (identifier,
  on-demand cost, percentages, suppression and usage figures) are left out,
  and so are the services of a plan and the descriptive fields of an account.
\<close>

section \<open>Recommendations and executions\<close>

record recommendation =
  rr_provider :: string
  rr_service :: string
  rr_region :: string
  rr_type :: string
  rr_engine :: string
  rr_details :: string
  rr_count :: int
  rr_recommended :: int
  rr_term :: int
  rr_payment :: string
  rr_upfront :: f64
  rr_monthly :: "f64 option"
  rr_savings :: f64
  rr_selected :: bool
  rr_purchased :: bool
  rr_purchase_id :: string
  rr_error :: string
  rr_account :: "string option"

record execution =
  pe_plan :: string
  pe_id :: string
  pe_status :: string
  pe_step :: int
  pe_scheduled :: gotime
  pe_notified :: "gotime option"
  pe_token :: string
  pe_recs :: "recommendation list"
  pe_upfront :: f64
  pe_savings :: f64
  pe_completed :: "gotime option"
  pe_error :: string
  pe_ttl :: int
  pe_account :: "string option"
  pe_source :: string
  pe_approved_by :: "string option"
  pe_cancelled_by :: "string option"
  pe_creator :: "string option"
  pe_retry :: "string option"
  pe_attempt :: int
  pe_capacity :: int
  pe_token_expires :: "gotime option"
  pe_executed_by :: "string option"
  pe_executed_at :: "gotime option"
  pe_skip_reason :: "string option"
  pe_key :: string
  pe_fire_at :: "gotime option"

definition HealthScoredExecutionStatuses :: "string list" where
  "HealthScoredExecutionStatuses = [''failed'', ''canceled'', ''cancelled'']"

definition IsCancelable :: "execution \<Rightarrow> bool" where
  "IsCancelable e = (pe_status e = ''pending'' \<or> pe_status e = ''notified'' \<or> pe_status e = ''scheduled'')"

text \<open>The sentinel errors of \<open>internal/config/errors.go\<close>.\<close>

definition ErrNotFound :: goerr where "ErrNotFound = Sentinel ''not found''"
definition ErrExecutionNotInExpectedStatus :: goerr where
  "ErrExecutionNotInExpectedStatus = Sentinel ''execution not in expected status''"
definition ErrAuditLoss :: goerr where
  "ErrAuditLoss = Sentinel ''audit loss: execution persistence failed after purchase''"

abbreviation is_not_found :: "goerr \<Rightarrow> bool" where "is_not_found \<equiv> errors_is ''not found''"
abbreviation is_unexpected_status :: "goerr \<Rightarrow> bool" where
  "is_unexpected_status \<equiv> errors_is ''execution not in expected status''"
abbreviation is_audit_loss :: "goerr \<Rightarrow> bool" where
  "is_audit_loss \<equiv> errors_is ''audit loss: execution persistence failed after purchase''"

section \<open>Plans\<close>

record plan_ramp =
  rp_type :: string
  rp_percent :: f64
  rp_interval_days :: int
  rp_current :: int
  rp_total :: int
  rp_start :: gotime

record purchase_plan =
  pp_id :: string
  pp_name :: string
  pp_enabled :: bool
  pp_auto :: bool
  pp_notify_days :: int
  pp_ramp :: plan_ramp
  pp_updated :: gotime
  pp_next :: "gotime option"
  pp_last :: "gotime option"
  pp_last_notified :: "gotime option"

definition GetCurrentCoverage :: "plan_ramp \<Rightarrow> f64 \<Rightarrow> f64" where
  "GetCurrentCoverage r base =
    (if rp_type r = ''immediate'' then base
     else let done = fmul (f64_of_int (rp_current r)) (rp_percent r);
              done = (if fgt done (Fin 100) then Fin 100 else done)
       in fdiv (fmul base done) (Fin 100))"

definition GetNextPurchaseDate :: "gotime \<Rightarrow> plan_ramp \<Rightarrow> gotime" where
  "GetNextPurchaseDate now r =
    (if is_zero_time (rp_start r) then now
     else add_days (rp_start r) (rp_current r * rp_interval_days r))"

definition IsComplete :: "plan_ramp \<Rightarrow> bool" where
  "IsComplete r = (rp_total r \<le> rp_current r)"

section \<open>Accounts, configuration and history\<close>

record cloud_account =
  ca_id :: string
  ca_name :: string
  ca_contact :: string
  ca_provider :: string
  ca_external :: string
  ca_aws_mode :: string
  ca_azure_mode :: string
  ca_gcp_mode :: string

text \<open>The settings the workflow reads from \<open>GlobalConfig\<close>.\<close>

record purchase_config =
  pc_notify :: "string option"
  pc_offering_class :: string
  pc_different_approver :: bool
  pc_delay_hours :: int
  pc_grace :: "(string \<times> int) list"

definition DefaultGracePeriodDays :: int where "DefaultGracePeriodDays = 7"
definition MaxGracePeriodDays :: int where "MaxGracePeriodDays = 90"
definition MaxPurchaseDelayHours :: int where "MaxPurchaseDelayHours = 168"

text \<open>Every caller passes the configuration it has read, never a nil one.\<close>

definition GetPurchaseDelay :: "purchase_config \<Rightarrow> int" where
  "GetPurchaseDelay c = min MaxPurchaseDelayHours (max 0 (pc_delay_hours c)) * hour_ns"

definition GracePeriodFor :: "purchase_config \<Rightarrow> string \<Rightarrow> int" where
  "GracePeriodFor c provider =
    (case map_of (pc_grace c) provider of
       None \<Rightarrow> DefaultGracePeriodDays
     | Some days \<Rightarrow> min MaxGracePeriodDays (max 0 days))"

text \<open>A row of \<open>purchase_suppressions\<close>.\<close>

record suppression =
  su_id :: string
  su_execution :: string
  su_account :: string
  su_provider :: string
  su_service :: string
  su_region :: string
  su_type :: string
  su_engine :: string
  su_count :: int
  su_expires :: gotime

record history_row =
  hr_account :: string
  hr_purchase_id :: string
  hr_time :: gotime
  hr_provider :: string
  hr_service :: string
  hr_region :: string
  hr_type :: string
  hr_count :: int
  hr_term :: int
  hr_payment :: string
  hr_upfront :: f64
  hr_monthly :: "f64 option"
  hr_savings :: f64
  hr_plan :: string
  hr_plan_name :: string
  hr_step :: int
  hr_cloud_account :: "string option"
  hr_source :: string
  hr_window_closes :: "gotime option"
  hr_offering_class :: string
  hr_in_flight :: bool
  hr_revoked :: "(gotime \<times> string) option"

definition RevocationWindowClosesAtFor :: "string \<Rightarrow> gotime \<Rightarrow> gotime option" where
  "RevocationWindowClosesAtFor provider t =
    (if equal_fold provider ''azure'' then Some (add_days t 7) else None)"

section \<open>Purchase sources\<close>

abbreviation PurchaseSourceCLI :: string where "PurchaseSourceCLI \<equiv> ''cudly-cli''"
abbreviation PurchaseSourceWeb :: string where "PurchaseSourceWeb \<equiv> ''cudly-web''"
abbreviation PurchaseSourceMCP :: string where "PurchaseSourceMCP \<equiv> ''cudly-mcp''"

definition NormalizeSource :: "string \<Rightarrow> goerr + string" where
  "NormalizeSource s =
    (let lower = to_lower (trim_space s) in
     if lower = PurchaseSourceCLI \<or> lower = PurchaseSourceWeb \<or> lower = PurchaseSourceMCP then Inr lower
     else if lower = [] then Inl (Errorf ''purchase source is required'' [])
     else Inl (Errorf ''invalid purchase source %q (allowed: %s, %s, %s)''
       [EStr s, EStr PurchaseSourceCLI, EStr PurchaseSourceWeb, EStr PurchaseSourceMCP]))"

section \<open>Safety of a second attempt\<close>

text \<open>The reason a recommendation cannot be bought a second time without risking a
  duplicate, empty when it can (\<open>internal/purchase/manager.go\<close>).\<close>

definition recRedriveRefusalReason :: "recommendation \<Rightarrow> string" where
  "recRedriveRefusalReason rec =
    (if rr_provider rec = [] \<or> rr_provider rec = ''aws'' then []
     else if rr_provider rec = ''azure'' then
       (if rr_service rec = ''savingsplans'' \<or> rr_service rec = ''savings-plans''
        then ''Azure savings plans have no provider-side duplicate guard, so re-driving this purchase would buy a second savings plan that cannot be canceled''
        else [])
     else if rr_provider rec = ''gcp'' then []
     else sprintf ''provider %q is not known to reject a duplicate purchase, so re-driving this could buy a second commitment''
       [FStr (rr_provider rec)])"

fun refusal_reason :: "recommendation list \<Rightarrow> string" where
  "refusal_reason [] = []"
| "refusal_reason (r # rs) =
    (let reason = recRedriveRefusalReason r in if reason \<noteq> [] then reason else refusal_reason rs)"

definition RedriveRefusalReason :: "execution \<Rightarrow> string" where
  "RedriveRefusalReason e = refusal_reason (pe_recs e)"

definition allRecsSafeToRedrive :: "execution \<Rightarrow> bool" where
  "allRecsSafeToRedrive e = (pe_recs e \<noteq> [] \<and> RedriveRefusalReason e = [])"

definition armedRedriveRefusal :: "execution \<Rightarrow> goerr option" where
  "armedRedriveRefusal e =
    (if pe_attempt e \<le> 0 then None
     else let reason = RedriveRefusalReason e in
       if reason = [] then None
       else Some (Errorf ''refusing to execute retry attempt %d: %s'' [EInt (pe_attempt e), EStr reason]))"

section \<open>Lineage\<close>

definition idempotencyLineageKey :: "execution \<Rightarrow> string" where
  "idempotencyLineageKey e = (if pe_key e \<noteq> [] then pe_key e else pe_id e)"

text \<open>\<open>hash\<close> is SHA-256 in hexadecimal.\<close>

definition DeriveIdempotencyToken :: "(string \<Rightarrow> string) \<Rightarrow> string \<Rightarrow> nat \<Rightarrow> string" where
  "DeriveIdempotencyToken hash key i = hash (sprintf ''%s:%d'' [FStr key, FInt (int i)])"

definition appendErrNote :: "string \<Rightarrow> string \<Rightarrow> string" where
  "appendErrNote existing note' =
    (if existing = [] then note' else if note' = [] then existing else existing @ ''; '' @ note')"

definition selectedIndices :: "recommendation list \<Rightarrow> nat list" where
  "selectedIndices recs = filter (\<lambda>i. rr_selected (recs ! i)) [0..<length recs]"

definition anyRecPurchased :: "recommendation list \<Rightarrow> bool" where
  "anyRecPurchased recs = list_ex rr_purchased recs"

text \<open>The account all the recommendations that name one agree on.\<close>

fun single_account :: "string option \<Rightarrow> recommendation list \<Rightarrow> string option" where
  "single_account found [] = found"
| "single_account found (r # rs) =
    (case rr_account r of
       None \<Rightarrow> single_account found rs
     | Some i \<Rightarrow> if i = [] then single_account found rs
       else (case found of
          None \<Rightarrow> single_account (Some i) rs
        | Some f \<Rightarrow> if f \<noteq> i then None else single_account found rs))"

definition singleCloudAccountIDFromRecs :: "recommendation list \<Rightarrow> string option" where
  "singleCloudAccountIDFromRecs recs = single_account None recs"

end
