(* ===== verification/Purchase_Store.thy ===== *)
theory Purchase_Store
  imports Purchase_Types
begin

text \<open>
  The statements of \<open>PostgresStore\<close> (\<open>internal/config/store_postgres.go\<close>,
  \<open>store_postgres_suppressions.go\<close>) the purchase workflow issues.

  The state holds the tables the workflow reads and writes: executions and history rows in
  insertion order, plans, accounts, users, suppressions. PostgreSQL and its driver are the
  parameter \<open>pdb_env\<close>: \<open>pv_fault n\<close> is the error, if any, of the \<open>n\<close>-th statement (a broken
  connection, a constraint not spelled out below), \<open>pv_uuid\<close> the generated identifiers,
  \<open>pv_now n\<close> the time after \<open>n\<close> statements, read by \<open>NOW()\<close> and \<open>time.Now()\<close> alike, and
  \<open>pv_money\<close> the conversion of a float to the \<open>DECIMAL(12,2)\<close> columns. A commit that fails
  has not happened. The audit-only columns \<open>transitioned_by\<close> and \<open>transitioned_at\<close>, the column
  widths and the rounding of timestamps to microseconds are left out; error texts show a time
  in RFC 3339 and a duration in nanoseconds.
\<close>

section \<open>Tables and statements\<close>

text \<open>\<open>pe_cancelled_by\<close> of the stored execution is the legacy column \<open>cancelled_by\<close>.\<close>

record purchase_row =
  xr_exec :: execution
  xr_canceled_by :: "string option"
  xr_updated :: gotime

record pdb =
  pd_rows :: "purchase_row list"
  pd_plans :: "string \<rightharpoonup> purchase_plan"
  pd_plan_ids :: "string list"
  pd_accounts :: "string \<rightharpoonup> cloud_account"
  pd_account_ids :: "string list"
  pd_plan_accounts :: "string \<Rightarrow> cloud_account list"
  pd_users :: "string \<rightharpoonup> string"
  pd_config :: "purchase_config option"
  pd_history :: "history_row list"
  pd_suppressions :: "suppression list"
  pd_statements :: nat
  pd_generated :: nat

record pdb_env =
  pv_fault :: "nat \<Rightarrow> goerr option"
  pv_uuid :: "nat \<Rightarrow> string"
  pv_now :: "nat \<Rightarrow> gotime"
  pv_money :: "f64 \<Rightarrow> goerr + f64"

definition clock :: "pdb_env \<Rightarrow> pdb \<Rightarrow> gotime" where
  "clock env db = pv_now env (pd_statements db)"

definition constraint_error :: "string \<Rightarrow> goerr" where
  "constraint_error sqlstate = Typed ''pgconn.PgError'' sqlstate"

definition run_stmt :: "pdb_env \<Rightarrow> (pdb \<Rightarrow> goerr + pdb \<times> 'r) \<Rightarrow> pdb \<Rightarrow> (goerr + 'r) \<times> pdb" where
  "run_stmt env f db =
    (let db' = db\<lparr>pd_statements := Suc (pd_statements db)\<rparr> in
     case pv_fault env (pd_statements db) of
       Some e \<Rightarrow> (Inl e, db')
     | None \<Rightarrow> (case f db' of Inl e \<Rightarrow> (Inl e, db') | Inr (db'', r) \<Rightarrow> (Inr r, db'')))"

definition ask :: "pdb_env \<Rightarrow> (pdb \<Rightarrow> 'r) \<Rightarrow> pdb \<Rightarrow> (goerr + 'r) \<times> pdb" where
  "ask env q = run_stmt env (\<lambda>db. Inr (db, q db))"

text \<open>\<open>WithTx\<close>: a body that fails, or a commit that fails, leaves the tables as they were; the
  variables \<open>a\<close> the body assigns keep their values.\<close>

definition rolled_back :: "pdb \<Rightarrow> pdb \<Rightarrow> pdb" where
  "rolled_back db db' = db\<lparr>pd_statements := pd_statements db', pd_generated := pd_generated db'\<rparr>"

definition WithTx :: "pdb_env \<Rightarrow> 'a \<Rightarrow> (pdb \<Rightarrow> (goerr option \<times> 'a) \<times> pdb) \<Rightarrow> pdb \<Rightarrow> (goerr option \<times> 'a) \<times> pdb" where
  "WithTx env a body db =
    (case ask env (\<lambda>_. ()) db of
       (Inl e, db1) \<Rightarrow> ((Some (wrap_err ''failed to begin transaction: '' e), a), db1)
     | (Inr _, db1) \<Rightarrow>
       (case body db1 of
          ((Some e, a), db2) \<Rightarrow> ((Some e, a), rolled_back db1 db2)
        | ((None, a), db2) \<Rightarrow>
          (case ask env (\<lambda>_. ()) db2 of
             (Inl e, db3) \<Rightarrow> ((Some (wrap_err ''failed to commit transaction: '' e), a), rolled_back db1 db3)
           | (Inr _, db3) \<Rightarrow> ((None, a), db3))))"

section \<open>Saving an execution\<close>

definition execution_statuses :: "string list" where
  "execution_statuses = [''pending'', ''notified'', ''approved'', ''running'', ''completed'', ''partially_completed'',
     ''failed'', ''cancelled'', ''canceled'', ''expired'', ''paused'', ''revocation_requested'', ''scheduled'']"

text \<open>\<open>json.Marshal\<close> rejects NaN and infinities.\<close>

definition is_finite :: "f64 \<Rightarrow> bool" where
  "is_finite x = (\<not> is_nan x \<and> \<not> is_inf x)"

definition json_ok :: "recommendation \<Rightarrow> bool" where
  "json_ok r = (is_finite (rr_upfront r) \<and> (case rr_monthly r of None \<Rightarrow> True | Some x \<Rightarrow> is_finite x) \<and> is_finite (rr_savings r))"

definition unix_seconds :: int where "unix_seconds = 62135596800"

definition expires_at :: "execution \<Rightarrow> gotime option" where
  "expires_at e = (if pe_ttl e = 0 then None else Some ((pe_ttl e + unix_seconds) * second_ns))"

text \<open>What the statement stores: the money columns converted, the capacity defaulted.\<close>

definition stored_execution :: "pdb_env \<Rightarrow> execution \<Rightarrow> goerr + execution" where
  "stored_execution env e =
    rbind (pv_money env (pe_upfront e)) (\<lambda>upfront.
    rbind (pv_money env (pe_savings e)) (\<lambda>savings.
      let capacity = (if pe_capacity e \<le> 0 then 100 else pe_capacity e) in
      if pe_status e \<notin> set execution_statuses \<or> 100 < capacity then Inl (constraint_error ''23514'')
      else Inr (e\<lparr>pe_upfront := upfront, pe_savings := savings, pe_capacity := capacity\<rparr>)))"

text \<open>The columns an existing row keeps.\<close>

definition updated_row :: "gotime \<Rightarrow> execution \<Rightarrow> purchase_row \<Rightarrow> purchase_row" where
  "updated_row now e x = x\<lparr>xr_exec := e\<lparr>pe_plan := pe_plan (xr_exec x), pe_step := pe_step (xr_exec x),
     pe_scheduled := pe_scheduled (xr_exec x), pe_creator := pe_creator (xr_exec x),
     pe_attempt := pe_attempt (xr_exec x), pe_key := pe_key (xr_exec x)\<rparr>, xr_updated := now\<rparr>"

definition has_row :: "string \<Rightarrow> purchase_row list \<Rightarrow> bool" where
  "has_row i rows = (i \<in> (\<lambda>x. pe_id (xr_exec x)) ` set rows)"

definition update_rows :: "(purchase_row \<Rightarrow> bool) \<Rightarrow> (purchase_row \<Rightarrow> purchase_row) \<Rightarrow> purchase_row list \<Rightarrow> purchase_row list" where
  "update_rows p f rows = map (\<lambda>x. if p x then f x else x) rows"

definition upsert :: "pdb_env \<Rightarrow> gotime \<Rightarrow> execution \<Rightarrow> pdb \<Rightarrow> goerr + pdb \<times> unit" where
  "upsert env now e db =
    rbind (stored_execution env e) (\<lambda>e.
      Inr (db\<lparr>pd_rows := (if has_row (pe_id e) (pd_rows db)
          then update_rows (\<lambda>x. pe_id (xr_exec x) = pe_id e) (updated_row now e) (pd_rows db)
          else pd_rows db @ [\<lparr>xr_exec = e, xr_canceled_by = None, xr_updated = now\<rparr>])\<rparr>, ()))"

definition with_id :: "pdb_env \<Rightarrow> execution \<Rightarrow> pdb \<Rightarrow> execution \<times> pdb" where
  "with_id env e db = (if pe_id e = [] then (e\<lparr>pe_id := pv_uuid env (pd_generated db)\<rparr>,
     db\<lparr>pd_generated := Suc (pd_generated db)\<rparr>) else (e, db))"

definition with_key :: "pdb_env \<Rightarrow> execution \<Rightarrow> pdb \<Rightarrow> execution \<times> pdb" where
  "with_key env e db = (if pe_key e = [] then (e\<lparr>pe_key := pv_uuid env (pd_generated db)\<rparr>,
     db\<lparr>pd_generated := Suc (pd_generated db)\<rparr>) else (e, db))"

text \<open>The error, if any, and the execution as the function leaves it through its pointer.\<close>

definition SavePurchaseExecutionTx :: "pdb_env \<Rightarrow> execution \<Rightarrow> pdb \<Rightarrow> (goerr option \<times> execution) \<times> pdb" where
  "SavePurchaseExecutionTx env e db =
    (let (e, db) = with_id env e db; (e, db) = with_key env e db in
     if \<not> list_all json_ok (pe_recs e) then
       ((Some (wrap_err ''failed to marshal recommendations: '' (Typed ''json.UnsupportedValueError'' [])), e), db)
     else (case run_stmt env (upsert env (clock env db) e) db of
         (Inl err, db') \<Rightarrow> ((Some (wrap_err ''failed to save purchase execution: '' err), e), db')
       | (Inr _, db') \<Rightarrow> ((None, e), db')))"

definition SavePurchaseExecution :: "pdb_env \<Rightarrow> execution \<Rightarrow> pdb \<Rightarrow> (goerr option \<times> execution) \<times> pdb" where
  "SavePurchaseExecution env e db =
    (let (e, db) = with_id env e db in WithTx env e (SavePurchaseExecutionTx env e) db)"

section \<open>Reading executions\<close>

text \<open>A read prefers the new attribution column.\<close>

definition row_execution :: "purchase_row \<Rightarrow> execution" where
  "row_execution x = (xr_exec x)\<lparr>pe_cancelled_by :=
     (case xr_canceled_by x of None \<Rightarrow> pe_cancelled_by (xr_exec x) | Some c \<Rightarrow> Some c)\<rparr>"

definition queryExecutions :: "pdb_env \<Rightarrow> (purchase_row list \<Rightarrow> purchase_row list) \<Rightarrow> pdb \<Rightarrow> (goerr + execution list) \<times> pdb" where
  "queryExecutions env sel db =
    (case ask env (\<lambda>db. map row_execution (sel (pd_rows db))) db of
       (Inl e, db') \<Rightarrow> (Inl (wrap_err ''failed to query executions: '' e), db')
     | (Inr es, db') \<Rightarrow> (Inr es, db'))"

abbreviation row_status :: "purchase_row \<Rightarrow> string" where "row_status x \<equiv> pe_status (xr_exec x)"
abbreviation row_id :: "purchase_row \<Rightarrow> string" where "row_id x \<equiv> pe_id (xr_exec x)"

definition not_found_error :: "string \<Rightarrow> goerr" where
  "not_found_error i = Errorf ''%w: execution %s'' [EWrap ErrNotFound, EStr i]"

definition GetExecutionByID :: "pdb_env \<Rightarrow> string \<Rightarrow> pdb \<Rightarrow> (goerr + execution) \<times> pdb" where
  "GetExecutionByID env i db =
    (case queryExecutions env (filter (\<lambda>x. row_id x = i)) db of
       (Inl e, db') \<Rightarrow> (Inl e, db')
     | (Inr [], db') \<Rightarrow> (Inl (not_found_error i), db')
     | (Inr (e # _), db') \<Rightarrow> (Inr e, db'))"

definition GetExecutionByPlanAndDate :: "pdb_env \<Rightarrow> string \<Rightarrow> gotime \<Rightarrow> pdb \<Rightarrow> (goerr + execution) \<times> pdb" where
  "GetExecutionByPlanAndDate env planID date db =
    (case queryExecutions env (filter (\<lambda>x. planID \<noteq> [] \<and> pe_plan (xr_exec x) = planID \<and> pe_scheduled (xr_exec x) = date)) db of
       (Inl e, db') \<Rightarrow> (Inl e, db')
     | (Inr [], db') \<Rightarrow> (Inl (Errorf ''%w: plan %s at %v'' [EWrap ErrNotFound, EStr planID, EStr (rfc3339 date)]), db')
     | (Inr (e # _), db') \<Rightarrow> (Inr e, db'))"

abbreviation MaxListLimit :: int where "MaxListLimit \<equiv> 1000"

definition list_limit :: "int \<Rightarrow> nat" where
  "list_limit n = (let n = (if n \<le> 0 then 100 else n) in nat (if MaxListLimit < n then MaxListLimit else n))"

definition GetExecutionsByStatuses :: "pdb_env \<Rightarrow> string list \<Rightarrow> int \<Rightarrow> pdb \<Rightarrow> (goerr + execution list) \<times> pdb" where
  "GetExecutionsByStatuses env statuses n db =
    (if statuses = [] then (Inr [], db)
     else queryExecutions env (\<lambda>rows. take (list_limit n)
       (sort_key (\<lambda>x. - pe_scheduled (xr_exec x)) (filter (\<lambda>x. row_status x \<in> set statuses) rows))) db)"

definition GetPlannedExecutions :: "pdb_env \<Rightarrow> string list \<Rightarrow> int \<Rightarrow> pdb \<Rightarrow> (goerr + execution list) \<times> pdb" where
  "GetPlannedExecutions env statuses n db =
    (if statuses = [] then (Inr [], db)
     else queryExecutions env (\<lambda>rows. take (list_limit n)
       (sort_key (\<lambda>x. pe_scheduled (xr_exec x)) (filter (\<lambda>x. row_status x \<in> set statuses) rows))) db)"

definition older_than :: "gotime \<Rightarrow> int \<Rightarrow> purchase_row \<Rightarrow> bool" where
  "older_than now age x = (xr_updated x < now - age div second_ns * second_ns)"

definition GetStaleApprovedExecutions :: "pdb_env \<Rightarrow> int \<Rightarrow> pdb \<Rightarrow> (goerr + execution list) \<times> pdb" where
  "GetStaleApprovedExecutions env age db = queryExecutions env
     (filter (\<lambda>x. row_status x = ''approved'' \<and> older_than (clock env db) age x)) db"

definition ListStuckExecutions :: "pdb_env \<Rightarrow> string list \<Rightarrow> int \<Rightarrow> pdb \<Rightarrow> (goerr + execution list) \<times> pdb" where
  "ListStuckExecutions env statuses age db =
    (if statuses = [] then (Inr [], db)
     else if age \<le> 0 then (Inl (Errorf ''ListStuckExecutions: olderThan must be > 0, got %s'' [EInt age]), db)
     else queryExecutions env (\<lambda>rows. take (nat MaxListLimit) (sort_key xr_updated
       (filter (\<lambda>x. row_status x \<in> set statuses \<and> older_than (clock env db) age x) rows))) db)"

definition unexpired :: "gotime \<Rightarrow> purchase_row \<Rightarrow> bool" where
  "unexpired now x = (case expires_at (xr_exec x) of None \<Rightarrow> True | Some t \<Rightarrow> now < t)"

definition GetPendingExecutions :: "pdb_env \<Rightarrow> pdb \<Rightarrow> (goerr + execution list) \<times> pdb" where
  "GetPendingExecutions env db = queryExecutions env
     (\<lambda>rows. take 1000 (sort_key (\<lambda>x. pe_scheduled (xr_exec x))
       (filter (\<lambda>x. row_status x \<in> {''pending'', ''notified''} \<and> unexpired (clock env db) x) rows))) db"

text \<open>The variant inside a transaction locks the rows it reads.\<close>

definition GetPendingExecutionsTx :: "pdb_env \<Rightarrow> pdb \<Rightarrow> (goerr + execution list) \<times> pdb" where
  "GetPendingExecutionsTx env db =
    (case ask env (\<lambda>db'. map row_execution (take 1000 (sort_key (\<lambda>x. pe_scheduled (xr_exec x))
         (filter (\<lambda>x. row_status x \<in> {''pending'', ''notified''} \<and> unexpired (clock env db) x) (pd_rows db'))))) db of
       (Inl e, db') \<Rightarrow> (Inl (wrap_err ''failed to query pending executions in tx: '' e), db')
     | (Inr es, db') \<Rightarrow> (Inr es, db'))"

definition fire_due :: "gotime \<Rightarrow> purchase_row \<Rightarrow> bool" where
  "fire_due now x = (case pe_fire_at (xr_exec x) of None \<Rightarrow> False | Some t \<Rightarrow> t \<le> now)"

definition GetScheduledExecutionsDue :: "pdb_env \<Rightarrow> pdb \<Rightarrow> (goerr + execution list) \<times> pdb" where
  "GetScheduledExecutionsDue env db =
    (case ask env (\<lambda>db'. map row_execution (take (nat MaxListLimit) (sort_key (\<lambda>x. the (pe_fire_at (xr_exec x)))
         (filter (\<lambda>x. row_status x = ''scheduled'' \<and> fire_due (clock env db) x) (pd_rows db'))))) db of
       (Inl e, db') \<Rightarrow> (Inl (wrap_err ''GetScheduledExecutionsDue: query failed: '' e), db')
     | (Inr es, db') \<Rightarrow> (Inr es, db'))"

definition pending_for_account :: "string \<Rightarrow> purchase_row \<Rightarrow> bool" where
  "pending_for_account account x = (pe_account (xr_exec x) = Some account \<and> row_status x \<in> {''pending'', ''notified''})"

definition CountPendingExecutionsForAccount :: "pdb_env \<Rightarrow> string \<Rightarrow> pdb \<Rightarrow> (goerr + int) \<times> pdb" where
  "CountPendingExecutionsForAccount env account db =
    (case ask env (\<lambda>db. int (length (filter (pending_for_account account) (pd_rows db)))) db of
       (Inl e, db') \<Rightarrow> (Inl (wrap_err ''failed to count pending executions for account: '' e), db')
     | (Inr n, db') \<Rightarrow> (Inr n, db'))"

definition ListPendingExecutionIDsForAccount :: "pdb_env \<Rightarrow> string \<Rightarrow> pdb \<Rightarrow> (goerr + string list) \<times> pdb" where
  "ListPendingExecutionIDsForAccount env account db =
    (case ask env (\<lambda>db. map row_id (take 1000 (sort_key (\<lambda>x. pe_scheduled (xr_exec x))
         (filter (pending_for_account account) (pd_rows db))))) db of
       (Inl e, db') \<Rightarrow> (Inl (wrap_err ''failed to list pending execution ids for account: '' e), db')
     | (Inr ids, db') \<Rightarrow> (Inr ids, db'))"

text \<open>The counts are keyed by plan and status; an absent key counts zero.\<close>

definition CountExecutionsByPlanAndStatus :: "pdb_env \<Rightarrow> string list \<Rightarrow> gotime \<Rightarrow> pdb \<Rightarrow>
    (goerr + (string \<Rightarrow> string \<Rightarrow> int)) \<times> pdb" where
  "CountExecutionsByPlanAndStatus env statuses since db =
    (if statuses = [] then (Inr (\<lambda>_ _. 0), db)
     else (case ask env (\<lambda>db. \<lambda>plan status. int (length (filter (\<lambda>x. plan \<noteq> [] \<and> pe_plan (xr_exec x) = plan \<and>
         row_status x = status \<and> status \<in> set statuses \<and> since \<le> xr_updated x) (pd_rows db)))) db of
       (Inl e, db') \<Rightarrow> (Inl (wrap_err ''failed to count executions by plan and status: '' e), db')
     | (Inr f, db') \<Rightarrow> (Inr f, db')))"

section \<open>Status changes\<close>

definition set_status :: "string \<Rightarrow> gotime \<Rightarrow> purchase_row \<Rightarrow> purchase_row" where
  "set_status st now x = x\<lparr>xr_exec := (xr_exec x)\<lparr>pe_status := st\<rparr>, xr_updated := now\<rparr>"

definition movable :: "string \<Rightarrow> string list \<Rightarrow> purchase_row \<Rightarrow> bool" where
  "movable i froms x = (row_id x = i \<and> row_status x \<in> set froms)"

text \<open>\<open>UPDATE ... WHERE execution_id = i AND status = ANY(froms) RETURNING\<close>; the rows returned.\<close>

definition move_rows :: "string \<Rightarrow> string list \<Rightarrow> string \<Rightarrow> (purchase_row \<Rightarrow> purchase_row) \<Rightarrow> pdb \<Rightarrow>
    goerr + pdb \<times> purchase_row list" where
  "move_rows i froms to f db =
    (if to \<notin> set execution_statuses \<and> (\<exists>x \<in> set (pd_rows db). movable i froms x) then Inl (constraint_error ''23514'')
     else Inr (db\<lparr>pd_rows := update_rows (movable i froms) f (pd_rows db)\<rparr>, map f (filter (movable i froms) (pd_rows db))))"

definition TransitionExecutionStatus :: "pdb_env \<Rightarrow> string \<Rightarrow> string list \<Rightarrow> string \<Rightarrow> pdb \<Rightarrow> (goerr + execution) \<times> pdb" where
  "TransitionExecutionStatus env i froms to db =
    (case run_stmt env (move_rows i froms to (set_status to (clock env db))) db of
       (Inl e, db') \<Rightarrow> (Inl (wrap_err ''failed to query executions: '' e), db')
     | (Inr (x # _), db') \<Rightarrow> (Inr (xr_exec x), db')
     | (Inr [], db') \<Rightarrow>
       (case GetExecutionByID env i db' of
          (Inl e, db'') \<Rightarrow>
            (Inl (if is_not_found e then not_found_error i
              else Errorf ''transition %s: probe after zero-row CAS failed: %w'' [EStr i, EWrap e]), db'')
        | (Inr existing, db'') \<Rightarrow>
            (Inl (Errorf ''%w: execution %s cannot transition from %q to %q''
              [EWrap ErrExecutionNotInExpectedStatus, EStr i, EStr (pe_status existing), EStr to]), db'')))"

definition SetCancelledBy :: "pdb_env \<Rightarrow> string \<Rightarrow> string \<Rightarrow> pdb \<Rightarrow> goerr option \<times> pdb" where
  "SetCancelledBy env i who db =
    (case run_stmt env (\<lambda>db'. Inr (db'\<lparr>pd_rows := update_rows (\<lambda>x. row_id x = i)
         (\<lambda>x. x\<lparr>xr_exec := (xr_exec x)\<lparr>pe_cancelled_by := Some who\<rparr>, xr_canceled_by := Some who,
            xr_updated := clock env db\<rparr>) (pd_rows db')\<rparr>, ())) db of
       (Inl e, db') \<Rightarrow> (Some e, db')
     | (Inr _, db') \<Rightarrow> (None, db'))"

text \<open>Both cancellations share their shape: the statuses they accept and the error text differ.\<close>

definition cancel_from :: "string list \<Rightarrow> string \<Rightarrow> pdb_env \<Rightarrow> string \<Rightarrow> string option \<Rightarrow> pdb \<Rightarrow> (goerr + bool \<times> string) \<times> pdb" where
  "cancel_from froms what env i who db =
    (case run_stmt env (move_rows i froms ''canceled''
        (\<lambda>x. (set_status ''canceled'' (clock env db) x)\<lparr>xr_canceled_by := who\<rparr>)) db of
       (Inl e, db') \<Rightarrow> (Inl (wrap_err what e), db')
     | (Inr (x # _), db') \<Rightarrow> (Inr (True, row_status x), db')
     | (Inr [], db') \<Rightarrow>
       (case GetExecutionByID env i db' of
          (Inl e, db'') \<Rightarrow> (Inl (wrap_err ''execution not found or db error: '' e), db'')
        | (Inr existing, db'') \<Rightarrow> (Inr (False, pe_status existing), db'')))"

definition CancelExecutionAtomic :: "pdb_env \<Rightarrow> string \<Rightarrow> string option \<Rightarrow> pdb \<Rightarrow> (goerr + bool \<times> string) \<times> pdb" where
  "CancelExecutionAtomic = cancel_from [''pending'', ''notified''] ''failed to cancel execution: ''"

definition CancelScheduledExecutionAtomic :: "pdb_env \<Rightarrow> string \<Rightarrow> string option \<Rightarrow> pdb \<Rightarrow> (goerr + bool \<times> string) \<times> pdb" where
  "CancelScheduledExecutionAtomic = cancel_from [''scheduled''] ''failed to cancel scheduled execution: ''"

definition DeleteSuppressionsByExecutionTx :: "pdb_env \<Rightarrow> string \<Rightarrow> pdb \<Rightarrow> goerr option \<times> pdb" where
  "DeleteSuppressionsByExecutionTx env i db =
    (if i = [] then (Some (Errorf ''executionID is required'' []), db)
     else (case run_stmt env (\<lambda>db. Inr (db\<lparr>pd_suppressions := filter (\<lambda>x. su_execution x \<noteq> i) (pd_suppressions db)\<rparr>, ())) db of
         (Inl e, db') \<Rightarrow> (Some (wrap_err ''failed to delete purchase suppressions: '' e), db')
       | (Inr _, db') \<Rightarrow> (None, db')))"

definition validateSuppression :: "suppression \<Rightarrow> goerr option" where
  "validateSuppression x =
    (if su_execution x = [] then Some (Errorf ''suppression.ExecutionID is required'' [])
     else if su_count x \<le> 0 then Some (Errorf ''suppression.SuppressedCount must be > 0, got %d'' [EInt (su_count x)])
     else if is_zero_time (su_expires x) then Some (Errorf ''suppression.ExpiresAt is required'' [])
     else None)"

text \<open>The columns of the unique constraint.\<close>

definition suppressed_tuple :: "suppression \<Rightarrow> string list" where
  "suppressed_tuple x = [su_execution x, su_account x, su_provider x, su_service x, su_region x, su_type x, su_engine x]"

definition insert_suppression :: "suppression \<Rightarrow> pdb \<Rightarrow> goerr + pdb \<times> unit" where
  "insert_suppression x db =
    (if suppressed_tuple x \<in> suppressed_tuple ` set (pd_suppressions db) then Inl (constraint_error ''23505'')
     else Inr (db\<lparr>pd_suppressions := pd_suppressions db @ [x]\<rparr>, ()))"

definition CreateSuppressionTx :: "pdb_env \<Rightarrow> suppression \<Rightarrow> pdb \<Rightarrow> goerr option \<times> pdb" where
  "CreateSuppressionTx env x db =
    (case validateSuppression x of Some e \<Rightarrow> (Some e, db)
     | None \<Rightarrow>
       let (x, db) = (if su_id x = [] then (x\<lparr>su_id := pv_uuid env (pd_generated db)\<rparr>, db\<lparr>pd_generated := Suc (pd_generated db)\<rparr>)
                      else (x, db)) in
       (case run_stmt env (insert_suppression x) db of
          (Inl e, db') \<Rightarrow> (Some (wrap_err ''failed to insert purchase suppression: '' e), db')
        | (Inr _, db') \<Rightarrow> (None, db')))"

definition cleanable :: "gotime \<Rightarrow> int \<Rightarrow> purchase_row \<Rightarrow> bool" where
  "cleanable now days x =
    (let horizon = add_days now (- days) in
     row_status x = ''completed'' \<and> pe_scheduled (xr_exec x) < horizon \<or>
     row_status x \<in> {''cancelled'', ''canceled''} \<and> xr_updated x < horizon \<or>
     row_status x \<notin> set HealthScoredExecutionStatuses \<and>
       (case expires_at (xr_exec x) of None \<Rightarrow> False | Some t \<Rightarrow> t < horizon))"

definition CleanupOldExecutions :: "pdb_env \<Rightarrow> int \<Rightarrow> pdb \<Rightarrow> (goerr + int) \<times> pdb" where
  "CleanupOldExecutions env days db =
    (case run_stmt env (\<lambda>db'. Inr (db'\<lparr>pd_rows := filter (\<lambda>x. \<not> cleanable (clock env db) days x) (pd_rows db')\<rparr>,
         int (length (filter (cleanable (clock env db) days) (pd_rows db'))))) db of
       (Inl e, db') \<Rightarrow> (Inl (wrap_err ''failed to cleanup old executions: '' e), db')
     | (Inr n, db') \<Rightarrow> (Inr n, db'))"

section \<open>Other tables\<close>

definition default_config :: purchase_config where
  "default_config = \<lparr>pc_notify = None, pc_offering_class = ''convertible'', pc_different_approver = False,
     pc_delay_hours = 48, pc_grace = []\<rparr>"

definition GetGlobalConfig :: "pdb_env \<Rightarrow> pdb \<Rightarrow> (goerr + purchase_config) \<times> pdb" where
  "GetGlobalConfig env db =
    (case ask env pd_config db of
       (Inl e, db') \<Rightarrow> (Inl (wrap_err ''failed to get global config: '' e), db')
     | (Inr None, db') \<Rightarrow> (Inr default_config, db')
     | (Inr (Some c), db') \<Rightarrow> (Inr c, db'))"

definition GetUserEmailByID :: "pdb_env \<Rightarrow> string \<Rightarrow> pdb \<Rightarrow> (goerr + string) \<times> pdb" where
  "GetUserEmailByID env u db =
    (case ask env (\<lambda>db. pd_users db u) db of
       (Inl e, db') \<Rightarrow> (Inl (wrap_err ''failed to get user email: '' e), db')
     | (Inr None, db') \<Rightarrow> (Inr [], db')
     | (Inr (Some email), db') \<Rightarrow> (Inr email, db'))"

definition GetCloudAccount :: "pdb_env \<Rightarrow> string \<Rightarrow> pdb \<Rightarrow> (goerr + cloud_account option) \<times> pdb" where
  "GetCloudAccount env i db =
    (case ask env (\<lambda>db. pd_accounts db i) db of
       (Inl e, db') \<Rightarrow> (Inl (wrap_err ''failed to get cloud account: '' e), db')
     | (Inr a, db') \<Rightarrow> (Inr a, db'))"

text \<open>Without a filter.\<close>

definition ListCloudAccounts :: "pdb_env \<Rightarrow> pdb \<Rightarrow> (goerr + cloud_account list) \<times> pdb" where
  "ListCloudAccounts env db =
    (case ask env (\<lambda>db. List.map_filter (pd_accounts db) (pd_account_ids db)) db of
       (Inl e, db') \<Rightarrow> (Inl (wrap_err ''failed to list cloud accounts: '' e), db')
     | (Inr as, db') \<Rightarrow> (Inr as, db'))"

definition GetPlanAccounts :: "pdb_env \<Rightarrow> string \<Rightarrow> pdb \<Rightarrow> (goerr + cloud_account list) \<times> pdb" where
  "GetPlanAccounts env planID db =
    (case ask env (\<lambda>db. pd_plan_accounts db planID) db of
       (Inl e, db') \<Rightarrow> (Inl (wrap_err ''failed to get plan accounts: '' e), db')
     | (Inr as, db') \<Rightarrow> (Inr as, db'))"

definition GetPurchasePlan :: "pdb_env \<Rightarrow> string \<Rightarrow> pdb \<Rightarrow> (goerr + purchase_plan) \<times> pdb" where
  "GetPurchasePlan env planID db =
    (case ask env (\<lambda>db. pd_plans db planID) db of
       (Inl e, db') \<Rightarrow> (Inl (wrap_err ''failed to get purchase plan: '' e), db')
     | (Inr None, db') \<Rightarrow> (Inl (Errorf ''%w: purchase plan %s'' [EWrap ErrNotFound, EStr planID]), db')
     | (Inr (Some p), db') \<Rightarrow> (Inr p, db'))"

text \<open>Without a filter: every plan, newest first, which is the order of \<open>pd_plan_ids\<close>.\<close>

definition ListPurchasePlans :: "pdb_env \<Rightarrow> pdb \<Rightarrow> (goerr + purchase_plan list) \<times> pdb" where
  "ListPurchasePlans env db =
    (case ask env (\<lambda>db. List.map_filter (pd_plans db) (pd_plan_ids db)) db of
       (Inl e, db') \<Rightarrow> (Inl (wrap_err ''failed to list purchase plans: '' e), db')
     | (Inr ps, db') \<Rightarrow> (Inr ps, db'))"

text \<open>The ramp is stored as JSON, which has no NaN and no infinity.\<close>

definition UpdatePurchasePlanTx :: "pdb_env \<Rightarrow> purchase_plan \<Rightarrow> pdb \<Rightarrow> goerr option \<times> pdb" where
  "UpdatePurchasePlanTx env p db =
    (let p = (if is_zero_time (pp_updated p) then p\<lparr>pp_updated := clock env db\<rparr> else p) in
     if \<not> is_finite (rp_percent (pp_ramp p)) then
       (Some (wrap_err ''failed to marshal ramp_schedule: '' (Typed ''json.UnsupportedValueError'' [])), db)
     else (case run_stmt env (\<lambda>db. Inr (if pd_plans db (pp_id p) = None then (db, False)
          else (db\<lparr>pd_plans := (pd_plans db)(pp_id p \<mapsto> p)\<rparr>, True))) db of
         (Inl e, db') \<Rightarrow> (Some (wrap_err ''failed to update purchase plan: '' e), db')
       | (Inr False, db') \<Rightarrow> (Some (Errorf ''purchase plan not found: %s'' [EStr (pp_id p)]), db')
       | (Inr True, db') \<Rightarrow> (None, db')))"

definition UpdatePurchasePlan :: "pdb_env \<Rightarrow> purchase_plan \<Rightarrow> pdb \<Rightarrow> goerr option \<times> pdb" where
  "UpdatePurchasePlan env p db =
    (let p = p\<lparr>pp_updated := clock env db\<rparr> in
     case WithTx env () (\<lambda>db. case UpdatePurchasePlanTx env p db of (e, db') \<Rightarrow> ((e, ()), db')) db of
       ((e, _), db') \<Rightarrow> (e, db'))"

text \<open>The ramp after step \<open>n\<close> completed: nothing to write, an error, or the new position.\<close>

definition advance_ramp :: "string \<Rightarrow> int \<Rightarrow> plan_ramp \<Rightarrow> goerr + plan_ramp option" where
  "advance_ramp planID n r =
    (if IsComplete r then Inr (Some r)
     else if n \<le> rp_current r then Inr None
     else if rp_current r \<noteq> n - 1 then
       Inl (Errorf ''refusing to advance plan %s from ramp step %d to %d: step(s) %d-%d never completed''
         [EStr planID, EInt (rp_current r), EInt n, EInt (rp_current r + 1), EInt (n - 1)])
     else Inr (Some (r\<lparr>rp_current := n\<rparr>)))"

definition complete_step_tx :: "pdb_env \<Rightarrow> string \<Rightarrow> int \<Rightarrow> pdb \<Rightarrow> goerr option \<times> pdb" where
  "complete_step_tx env planID n db =
    (case ask env (\<lambda>db. pd_plans db planID) db of
       (Inl e, db') \<Rightarrow> (Some (Errorf ''failed to lock purchase plan %s: %w'' [EStr planID, EWrap e]), db')
     | (Inr None, db') \<Rightarrow> (None, db')
     | (Inr (Some p), db') \<Rightarrow>
       (case advance_ramp planID n (pp_ramp p) of
          Inl e \<Rightarrow> (Some e, db')
        | Inr None \<Rightarrow> (None, db')
        | Inr (Some r) \<Rightarrow>
          let now = clock env db' in
          UpdatePurchasePlanTx env (p\<lparr>pp_ramp := r,
            pp_next := (if IsComplete r then None else Some (GetNextPurchaseDate now r)),
            pp_last := Some now, pp_updated := now\<rparr>) db'))"

definition CompletePlanStep :: "pdb_env \<Rightarrow> string \<Rightarrow> int \<Rightarrow> pdb \<Rightarrow> goerr option \<times> pdb" where
  "CompletePlanStep env planID n db =
    (if n \<le> 0 then (Some (Errorf ''cannot complete ramp step %d of plan %s: step numbers are 1-based'' [EInt n, EStr planID]), db)
     else (case WithTx env () (\<lambda>db. case complete_step_tx env planID n db of (e, db') \<Rightarrow> ((e, ()), db')) db of
       ((e, _), db') \<Rightarrow> (e, db')))"

definition stored_history :: "pdb_env \<Rightarrow> history_row \<Rightarrow> goerr + history_row" where
  "stored_history env h =
    rbind (pv_money env (hr_upfront h)) (\<lambda>upfront.
    rbind (case hr_monthly h of None \<Rightarrow> Inr None | Some x \<Rightarrow> rbind (pv_money env x) (\<lambda>y. Inr (Some y))) (\<lambda>monthly.
    rbind (pv_money env (hr_savings h)) (\<lambda>savings.
      Inr (h\<lparr>hr_upfront := upfront, hr_monthly := monthly, hr_savings := savings\<rparr>))))"

definition SavePurchaseHistory :: "pdb_env \<Rightarrow> history_row \<Rightarrow> pdb \<Rightarrow> goerr option \<times> pdb" where
  "SavePurchaseHistory env h db =
    (case run_stmt env (\<lambda>db. rbind (stored_history env h) (\<lambda>h. Inr (db\<lparr>pd_history := pd_history db @ [h]\<rparr>, ()))) db of
       (Inl e, db') \<Rightarrow> (Some (wrap_err ''failed to save purchase history: '' e), db')
     | (Inr _, db') \<Rightarrow> (None, db'))"

definition GetPurchaseHistoryByPurchaseID :: "pdb_env \<Rightarrow> string \<Rightarrow> pdb \<Rightarrow> (goerr + history_row option) \<times> pdb" where
  "GetPurchaseHistoryByPurchaseID env pid db =
    (case ask env (\<lambda>db. find (\<lambda>h. hr_purchase_id h = pid) (pd_history db)) db of
       (Inl e, db') \<Rightarrow> (Inl (wrap_err ''GetPurchaseHistoryByPurchaseID: '' e), db')
     | (Inr h, db') \<Rightarrow> (Inr h, db'))"

definition GetPurchaseHistoryInFlight :: "pdb_env \<Rightarrow> pdb \<Rightarrow> (goerr + history_row list) \<times> pdb" where
  "GetPurchaseHistoryInFlight env db =
    (case ask env (\<lambda>db. filter (\<lambda>h. hr_in_flight h \<and> hr_revoked h = None) (pd_history db)) db of
       (Inl e, db') \<Rightarrow> (Inl (wrap_err ''GetPurchaseHistoryInFlight: '' e), db')
     | (Inr hs, db') \<Rightarrow> (Inr hs, db'))"

text \<open>The support case and the refund columns are left out: the sweep passes none.\<close>

definition MarkPurchaseRevoked :: "pdb_env \<Rightarrow> string \<Rightarrow> gotime \<Rightarrow> string \<Rightarrow> pdb \<Rightarrow> goerr option \<times> pdb" where
  "MarkPurchaseRevoked env pid when via db =
    (case run_stmt env (\<lambda>db. Inr (db\<lparr>pd_history := map (\<lambda>h. if hr_purchase_id h = pid \<and> hr_revoked h = None
           then h\<lparr>hr_revoked := Some (when, via)\<rparr> else h) (pd_history db)\<rparr>,
         \<exists>h \<in> set (pd_history db). hr_purchase_id h = pid \<and> hr_revoked h = None)) db of
       (Inl e, db') \<Rightarrow> (Some (wrap_err ''MarkPurchaseRevoked: '' e), db')
     | (Inr True, db') \<Rightarrow> (None, db')
     | (Inr False, db') \<Rightarrow>
       (case ask env (\<lambda>db. \<exists>h \<in> set (pd_history db). hr_purchase_id h = pid) db' of
          (Inl e, db'') \<Rightarrow> (Some (wrap_err ''MarkPurchaseRevoked existence check: '' e), db'')
        | (Inr found, db'') \<Rightarrow>
          (if found then None else Some (Errorf ''MarkPurchaseRevoked: purchase_id %q not found'' [EStr pid]), db'')))"

end
