(* ===== verification/Purchase_Execution.thy ===== *)
theory Purchase_Execution
  imports Purchase_Store
begin

text \<open>
  \<open>internal/purchase/execution.go\<close> and the fan-out of \<open>internal/execution\<close>: how one purchase
  execution turns into calls of a cloud provider, per recommendation and per account, and how
  the outcomes come back onto its row.

  The manager's collaborators are the fields of \<open>manager\<close>: the database, the provider SDKs
  (\<open>mg_buy\<close> is \<open>PurchaseCommitment\<close>), the credential resolvers of \<open>internal/credentials\<close>, the
  JSON codec of the service details, the mail sender, the token generator, SHA-256. The
  goroutines of a fan-out of \<open>n\<close> tasks run one after the other in the order \<open>mg_order n\<close>; a task
  that does not occur in it is one whose context was canceled before it got a slot. Log lines
  are left out except the opening one of \<open>executePurchase\<close>, kept as the list \<open>pw_driven\<close> of the
  executions it was called on. Deadlines and panics inside a task are not modelled.
\<close>

section \<open>The world and the collaborators\<close>

record 'c pworld =
  pw_db :: pdb
  pw_cloud :: 'c
  pw_driven :: "string list"

datatype service_details =
  DatabaseDetails string string | CacheDetails string string | OtherDetails string

record commitment =
  cm_provider :: string
  cm_service :: string
  cm_region :: string
  cm_type :: string
  cm_count :: int
  cm_term :: string
  cm_payment :: string
  cm_cost :: f64
  cm_details :: "service_details option"

record buy_options =
  bo_source :: string
  bo_execution :: string
  bo_class :: string
  bo_token :: string

record purchase_result =
  pr_success :: bool
  pr_error :: "goerr option"
  pr_commitment :: string
  pr_cost :: f64

record mail_rec =
  ml_service :: string
  ml_type :: string
  ml_engine :: string
  ml_region :: string
  ml_count :: int
  ml_savings :: f64

record purchase_mail =
  pm_dashboard :: string
  pm_token :: string
  pm_execution :: string
  pm_plan_id :: string
  pm_plan :: string
  pm_savings :: f64
  pm_upfront :: f64
  pm_date :: gotime
  pm_days :: int
  pm_recipient :: string
  pm_education :: string
  pm_recs :: "mail_rec list"

record ('p, 'c) manager =
  mg_env :: pdb_env
  mg_sts :: "(goerr + string option) option"
  mg_assume_role :: bool
  mg_cred_store :: bool
  mg_dashboard :: string
  mg_aws_creds :: "cloud_account \<Rightarrow> goerr + 'p"
  mg_azure_token :: "cloud_account \<Rightarrow> goerr option"
  mg_azure_provider :: "cloud_account \<Rightarrow> goerr + 'p"
  mg_gcp_creds :: "cloud_account \<Rightarrow> goerr + 'p option"
  mg_provider :: "string \<Rightarrow> 'p option \<Rightarrow> goerr option"
  mg_client :: "string \<Rightarrow> 'p option \<Rightarrow> string \<Rightarrow> string \<Rightarrow> goerr option"
  mg_decode :: "string \<Rightarrow> string \<Rightarrow> goerr + service_details option"
  mg_buy :: "'p option \<Rightarrow> commitment \<Rightarrow> buy_options \<Rightarrow> 'c \<Rightarrow> (goerr + purchase_result) \<times> 'c"
  mg_confirm :: "purchase_mail \<Rightarrow> 'c \<Rightarrow> goerr option \<times> 'c"
  mg_announce :: "purchase_mail \<Rightarrow> 'c \<Rightarrow> goerr option \<times> 'c"
  mg_token :: "nat \<Rightarrow> goerr + string"
  mg_hash :: "string \<Rightarrow> string"
  mg_order :: "nat \<Rightarrow> nat list"

text \<open>A store operation, and the next generated value, in the world.\<close>

definition on_db :: "(pdb \<Rightarrow> 'r \<times> pdb) \<Rightarrow> 'c pworld \<Rightarrow> 'r \<times> 'c pworld" where
  "on_db f w = (case f (pw_db w) of (r, db) \<Rightarrow> (r, w\<lparr>pw_db := db\<rparr>))"

definition on_cloud :: "('c \<Rightarrow> 'r \<times> 'c) \<Rightarrow> 'c pworld \<Rightarrow> 'r \<times> 'c pworld" where
  "on_cloud f w = (case f (pw_cloud w) of (r, c) \<Rightarrow> (r, w\<lparr>pw_cloud := c\<rparr>))"

definition fresh :: "(nat \<Rightarrow> 'r) \<Rightarrow> 'c pworld \<Rightarrow> 'r \<times> 'c pworld" where
  "fresh f = on_db (\<lambda>db. (f (pd_generated db), db\<lparr>pd_generated := Suc (pd_generated db)\<rparr>))"

definition now_in :: "('p, 'c) manager \<Rightarrow> 'c pworld \<Rightarrow> gotime" where
  "now_in m w = clock (mg_env m) (pw_db w)"

section \<open>Fan-out\<close>

fun run_tasks :: "('k \<Rightarrow> 'w \<Rightarrow> 'r \<times> 'w) \<Rightarrow> 'k list \<Rightarrow> nat list \<Rightarrow> (nat \<rightharpoonup> 'r) \<Rightarrow> 'w \<Rightarrow> (nat \<rightharpoonup> 'r) \<times> 'w" where
  "run_tasks f ids [] slots w = (slots, w)"
| "run_tasks f ids (i # is) slots w =
    (if i < length ids \<and> slots i = None
     then (case f (ids ! i) w of (r, w') \<Rightarrow> run_tasks f ids is (slots(i \<mapsto> r)) w')
     else run_tasks f ids is slots w)"

definition context_canceled :: goerr where "context_canceled = Sentinel ''context canceled''"

definition FanOutWithConcurrency :: "nat list \<Rightarrow> 'r \<Rightarrow> ('k \<Rightarrow> 'w \<Rightarrow> ('r \<times> goerr option) \<times> 'w) \<Rightarrow> 'k list \<Rightarrow> 'w \<Rightarrow>
    ('r \<times> goerr option) list \<times> 'w" where
  "FanOutWithConcurrency order zero f ids w =
    (case run_tasks f ids order Map.empty w of (slots, w') \<Rightarrow>
      (map (\<lambda>i. case slots i of None \<Rightarrow> (zero, Some context_canceled) | Some r \<Rightarrow> r) [0..<length ids], w'))"

section \<open>One purchase\<close>

definition mapSavingsPlansSlug :: "string \<Rightarrow> string option" where
  "mapSavingsPlansSlug = map_of [(''savings-plans'', ''savingsplans''), (''savingsplans'', ''savingsplans''),
     (''savings-plans-compute'', ''savings-plans-compute''), (''savingsplans-compute'', ''savings-plans-compute''),
     (''savings-plans-ec2instance'', ''savings-plans-ec2instance''), (''savingsplans-ec2instance'', ''savings-plans-ec2instance''),
     (''savings-plans-sagemaker'', ''savings-plans-sagemaker''), (''savingsplans-sagemaker'', ''savings-plans-sagemaker''),
     (''savings-plans-database'', ''savings-plans-database''), (''savingsplans-database'', ''savings-plans-database'')]"

definition mapServiceSlug :: "string \<Rightarrow> string option" where
  "mapServiceSlug = map_of [(''compute'', ''compute''), (''relational-db'', ''relational-db''), (''cache'', ''cache''),
     (''search'', ''search''), (''data-warehouse'', ''data-warehouse''), (''ec2'', ''ec2''), (''rds'', ''rds''),
     (''elasticache'', ''elasticache''), (''opensearch'', ''opensearch''), (''redshift'', ''redshift''), (''memorydb'', ''memorydb'')]"

definition mapServiceType :: "string \<Rightarrow> string" where
  "mapServiceType service = (case mapSavingsPlansSlug service of
     Some svc \<Rightarrow> svc
   | None \<Rightarrow> (case mapServiceSlug service of Some svc \<Rightarrow> svc | None \<Rightarrow> service))"

fun applyEngineFallback :: "service_details \<Rightarrow> string \<Rightarrow> service_details" where
  "applyEngineFallback (DatabaseDetails e rest) engine = DatabaseDetails (if engine \<noteq> [] \<and> e = [] then engine else e) rest"
| "applyEngineFallback (CacheDetails e rest) engine = CacheDetails (if engine \<noteq> [] \<and> e = [] then engine else e) rest"
| "applyEngineFallback (OtherDetails rest) engine = OtherDetails rest"

definition rec_commitment :: "recommendation \<Rightarrow> service_details option \<Rightarrow> commitment" where
  "rec_commitment rec details = \<lparr>cm_provider = rr_provider rec, cm_service = mapServiceType (rr_service rec),
     cm_region = rr_region rec, cm_type = rr_type rec, cm_count = rr_count rec,
     cm_term = sprintf ''%dyr'' [FInt (rr_term rec)], cm_payment = rr_payment rec, cm_cost = rr_upfront rec,
     cm_details = map_option (\<lambda>d. applyEngineFallback d (rr_engine rec)) details\<rparr>"

definition executeSinglePurchase :: "('p, 'c) manager \<Rightarrow> recommendation \<Rightarrow> 'p option \<Rightarrow> buy_options \<Rightarrow> 'c \<Rightarrow>
    (goerr + purchase_result) \<times> 'c" where
  "executeSinglePurchase m rec cred opts c =
    (case mg_provider m (rr_provider rec) cred of
       Some e \<Rightarrow> (Inl (Errorf ''failed to create %s provider: %w'' [EStr (rr_provider rec), EWrap e]), c)
     | None \<Rightarrow>
       (case mg_client m (rr_provider rec) cred (mapServiceType (rr_service rec)) (rr_region rec) of
          Some e \<Rightarrow> (Inl (wrap_err ''failed to get service client: '' e), c)
        | None \<Rightarrow>
          (case mg_decode m (rr_service rec) (rr_details rec) of
             Inl e \<Rightarrow> (Inl (Errorf ''decode service details for %s rec %s: %w''
               [EStr (rr_service rec), EStr (rr_type rec), EWrap e]), c)
           | Inr details \<Rightarrow>
             (case mg_buy m cred (rec_commitment rec details) opts c of
                (Inl e, c') \<Rightarrow> (Inl (wrap_err ''purchase failed: '' e), c')
              | (Inr r, c') \<Rightarrow>
                if pr_success r then (Inr r, c')
                else (Inl (case pr_error r of Some e \<Rightarrow> e | None \<Rightarrow> Errorf ''purchase was not successful'' []), c')))))"

section \<open>The recommendations of one account\<close>

definition normalizePurchaseSource :: "execution \<Rightarrow> string" where
  "normalizePurchaseSource e = (if pe_source e = [] then [] else
     (case NormalizeSource (pe_source e) of Inl _ \<Rightarrow> [] | Inr s \<Rightarrow> s))"

definition history_record :: "execution \<Rightarrow> purchase_plan \<Rightarrow> recommendation \<Rightarrow> purchase_result \<Rightarrow> string \<Rightarrow> gotime \<Rightarrow> history_row" where
  "history_record e plan rec result account now =
    \<lparr>hr_account = account, hr_purchase_id = pr_commitment result, hr_time = now, hr_provider = rr_provider rec,
     hr_service = rr_service rec, hr_region = rr_region rec, hr_type = rr_type rec, hr_count = rr_count rec,
     hr_term = rr_term rec, hr_payment = rr_payment rec, hr_upfront = pr_cost result, hr_monthly = rr_monthly rec,
     hr_savings = rr_savings rec, hr_plan = pe_plan e, hr_plan_name = pp_name plan, hr_step = pe_step e,
     hr_cloud_account = pe_account e, hr_source = pe_source e,
     hr_window_closes = RevocationWindowClosesAtFor (rr_provider rec) now,
     hr_offering_class = (if rr_provider rec = ''aws'' \<and> rr_service rec = ''ec2'' then ''convertible'' else []),
     hr_in_flight = False, hr_revoked = None\<rparr>"

definition savePurchaseHistory :: "('p, 'c) manager \<Rightarrow> execution \<Rightarrow> purchase_plan \<Rightarrow> recommendation \<Rightarrow>
    purchase_result \<Rightarrow> string \<Rightarrow> pdb \<Rightarrow> goerr option \<times> pdb" where
  "savePurchaseHistory m e plan rec result account db =
    SavePurchaseHistory (mg_env m) (history_record e plan rec result account (clock (mg_env m) db)) db"

definition recordHistoryAuditGap :: "execution \<Rightarrow> string \<Rightarrow> execution" where
  "recordHistoryAuditGap e commitmentID = e\<lparr>pe_error := appendErrNote (pe_error e)
     (sprintf ''%s: commitment %s purchased but its history record failed to save''
       [FStr ''history_write_failed'', FStr commitmentID])\<rparr>"

type_synonym rec_outcome = "nat \<times> (goerr + purchase_result)"

definition zero_outcome :: rec_outcome where
  "zero_outcome = (0, Inr \<lparr>pr_success = False, pr_error = None, pr_commitment = [], pr_cost = Fin 0\<rparr>)"

record tally =
  ty_savings :: f64
  ty_upfront :: f64
  ty_errors :: "string list"

abbreviation no_tally :: tally where
  "no_tally \<equiv> \<lparr>ty_savings = Fin 0, ty_upfront = Fin 0, ty_errors = []\<rparr>"

definition add_error :: "string \<Rightarrow> tally \<Rightarrow> tally" where
  "add_error s t = t\<lparr>ty_errors := ty_errors t @ [s]\<rparr>"

definition mark_failed :: "goerr \<Rightarrow> recommendation \<Rightarrow> recommendation" where
  "mark_failed err r = r\<lparr>rr_error := err_string err\<rparr>"

definition mark_purchased :: "purchase_result \<Rightarrow> recommendation \<Rightarrow> recommendation" where
  "mark_purchased res r = r\<lparr>rr_purchased := True, rr_purchase_id := pr_commitment res\<rparr>"

definition update_rec :: "nat \<Rightarrow> (recommendation \<Rightarrow> recommendation) \<Rightarrow> execution \<Rightarrow> execution" where
  "update_rec i f e = e\<lparr>pe_recs := (pe_recs e)[i := f (pe_recs e ! i)]\<rparr>"

definition aggregate_one :: "('p, 'c) manager \<Rightarrow> purchase_plan \<Rightarrow> string \<Rightarrow> rec_outcome \<times> goerr option \<Rightarrow>
    tally \<Rightarrow> execution \<Rightarrow> pdb \<Rightarrow> tally \<times> execution \<times> pdb" where
  "aggregate_one m plan account r t e db =
    (case r of
       (_, Some err) \<Rightarrow> (add_error (sprintf ''internal fan-out error: %v'' [FStr (err_string err)]) t, e, db)
     | ((i, res), None) \<Rightarrow>
       if length (pe_recs e) \<le> i then (add_error (sprintf ''aggregator index %d out of range'' [FInt (int i)]) t, e, db)
       else let rec = pe_recs e ! i in
         (case res of
            Inl err \<Rightarrow> (add_error (sprintf ''%s: %v'' [FStr (rr_type rec), FStr (err_string err)]) t,
              update_rec i (mark_failed err) e, db)
          | Inr result \<Rightarrow>
            let e = update_rec i (mark_purchased result) e;
                t = t\<lparr>ty_savings := fadd (ty_savings t) (rr_savings rec), ty_upfront := fadd (ty_upfront t) (rr_upfront rec)\<rparr>
            in (case savePurchaseHistory m e plan rec result account db of
                  (None, db) \<Rightarrow> (t, e, db)
                | (Some _, db) \<Rightarrow> (t, recordHistoryAuditGap e (pr_commitment result), db))))"

fun aggregatePurchaseOutcomes :: "('p, 'c) manager \<Rightarrow> purchase_plan \<Rightarrow> string \<Rightarrow> (rec_outcome \<times> goerr option) list \<Rightarrow>
    tally \<Rightarrow> execution \<Rightarrow> pdb \<Rightarrow> tally \<times> execution \<times> pdb" where
  "aggregatePurchaseOutcomes m plan account [] t e db = (t, e, db)"
| "aggregatePurchaseOutcomes m plan account (r # rs) t e db =
    (case aggregate_one m plan account r t e db of (t, e, db) \<Rightarrow> aggregatePurchaseOutcomes m plan account rs t e db)"

definition purchase_task :: "('p, 'c) manager \<Rightarrow> execution \<Rightarrow> 'p option \<Rightarrow> buy_options \<Rightarrow> nat \<Rightarrow> 'c \<Rightarrow>
    (rec_outcome \<times> goerr option) \<times> 'c" where
  "purchase_task m e cred opts i c =
    (if length (pe_recs e) \<le> i then
       ((zero_outcome, Some (Errorf ''fan-out index %d out of range for %d recommendations''
          [EInt (int i), EInt (int (length (pe_recs e)))])), c)
     else (case executeSinglePurchase m (pe_recs e ! i) cred
         (opts\<lparr>bo_token := DeriveIdempotencyToken (mg_hash m) (idempotencyLineageKey e) i\<rparr>) c of
       (r, c') \<Rightarrow> (((i, r), None), c')))"

text \<open>The totals and errors, or the error before anything was bought; the execution as mutated.\<close>

definition processPurchaseRecommendations :: "('p, 'c) manager \<Rightarrow> execution \<Rightarrow> purchase_plan \<Rightarrow> string \<Rightarrow> 'p option \<Rightarrow>
    'c pworld \<Rightarrow> ((goerr + tally) \<times> execution) \<times> 'c pworld" where
  "processPurchaseRecommendations m e plan account cred w =
    (case on_db (GetGlobalConfig (mg_env m)) w of
       (Inl err, w) \<Rightarrow> ((Inl (Errorf ''purchase[%s]: failed to load GlobalConfig for offering class: %w''
         [EStr (pe_id e), EWrap err]), e), w)
     | (Inr cfg, w) \<Rightarrow>
       let opts = \<lparr>bo_source = normalizePurchaseSource e, bo_execution = pe_id e, bo_class = pc_offering_class cfg, bo_token = []\<rparr>;
           selected = selectedIndices (pe_recs e)
       in if selected = [] then ((Inr no_tally, e), w)
       else (case on_cloud (FanOutWithConcurrency (mg_order m (length selected)) zero_outcome
             (purchase_task m e cred opts) selected) w of
         (results, w) \<Rightarrow>
           (case aggregatePurchaseOutcomes m plan account results no_tally e (pw_db w) of
              (t, e, db) \<Rightarrow> ((Inr t, e), w\<lparr>pw_db := db\<rparr>))))"

section \<open>Confirmation mail\<close>

definition trim_right_slash :: "string \<Rightarrow> string" where
  "trim_right_slash s = rev (dropWhile (\<lambda>c. c = CHR ''/'') (rev s))"

definition mail_summary :: "recommendation \<Rightarrow> mail_rec" where
  "mail_summary rec = \<lparr>ml_service = rr_service rec, ml_type = rr_type rec, ml_engine = rr_engine rec,
     ml_region = rr_region rec, ml_count = rr_count rec, ml_savings = rr_savings rec\<rparr>"

definition buildPurchaseConfirmationData :: "('p, 'c) manager \<Rightarrow> execution \<Rightarrow> purchase_plan \<Rightarrow> tally \<Rightarrow> purchase_mail" where
  "buildPurchaseConfirmationData m e plan t =
    (let base = trim_right_slash (mg_dashboard m) in
     \<lparr>pm_dashboard = base, pm_token = [], pm_execution = [], pm_plan_id = [], pm_plan = pp_name plan,
      pm_savings = ty_savings t, pm_upfront = ty_upfront t, pm_date = 0, pm_days = 0, pm_recipient = [],
      pm_education = (if base \<noteq> [] then base @ ''/archera-insurance'' else []),
      pm_recs = map mail_summary (filter rr_purchased (pe_recs e))\<rparr>)"

definition sendPurchaseNotification :: "('p, 'c) manager \<Rightarrow> execution \<Rightarrow> purchase_plan \<Rightarrow> tally \<Rightarrow> 'c pworld \<Rightarrow>
    goerr option \<times> 'c pworld" where
  "sendPurchaseNotification m e plan t = on_cloud (mg_confirm m (buildPurchaseConfirmationData m e plan t))"

section \<open>Credentials\<close>

text \<open>\<open>Inr None\<close> is a nil configuration: ambient credentials.\<close>

definition resolveAWSProvider :: "('p, 'c) manager \<Rightarrow> cloud_account \<Rightarrow> goerr + 'p option" where
  "resolveAWSProvider m a =
    (if ca_aws_mode a \<noteq> ''access_keys'' \<and> \<not> mg_assume_role m then
       Inl (Errorf ''credentials: STS client not configured for non-access_keys mode (account %s)'' [EStr (ca_id a)])
     else (case mg_aws_creds m a of
         Inl e \<Rightarrow> Inl (Errorf ''credentials: resolve AWS for account %s (%s): %w'' [EStr (ca_id a), EStr (ca_name a), EWrap e])
       | Inr p \<Rightarrow> Inr (Some p)))"

definition resolveAzureProvider :: "('p, 'c) manager \<Rightarrow> cloud_account \<Rightarrow> goerr + 'p option" where
  "resolveAzureProvider m a =
    (if ca_azure_mode a \<noteq> ''managed_identity'' \<and> \<not> mg_cred_store m then
       Inl (Errorf ''credentials: credential store required for non-managed_identity Azure account %s'' [EStr (ca_id a)])
     else (case mg_azure_token m a of
         Some e \<Rightarrow> Inl (Errorf ''credentials: resolve Azure for account %s (%s): %w'' [EStr (ca_id a), EStr (ca_name a), EWrap e])
       | None \<Rightarrow> (case mg_azure_provider m a of
           Inl e \<Rightarrow> Inl (Errorf ''credentials: create Azure provider for account %s (%s): %w''
             [EStr (ca_id a), EStr (ca_name a), EWrap e])
         | Inr p \<Rightarrow> Inr (Some p))))"

definition resolveGCPProvider :: "('p, 'c) manager \<Rightarrow> cloud_account \<Rightarrow> goerr + 'p option" where
  "resolveGCPProvider m a =
    (if ca_gcp_mode a \<noteq> ''application_default'' \<and> \<not> mg_cred_store m then
       Inl (Errorf ''credentials: credential store required for non-ADC GCP account %s'' [EStr (ca_id a)])
     else (case mg_gcp_creds m a of
         Inl e \<Rightarrow> Inl (Errorf ''credentials: resolve GCP for account %s (%s): %w'' [EStr (ca_id a), EStr (ca_name a), EWrap e])
       | Inr p \<Rightarrow> Inr p))"

definition resolveAccountProvider :: "('p, 'c) manager \<Rightarrow> cloud_account \<Rightarrow> goerr + 'p option" where
  "resolveAccountProvider m a =
    (if ca_provider a = ''aws'' then resolveAWSProvider m a
     else if ca_provider a = ''azure'' then resolveAzureProvider m a
     else if ca_provider a = ''gcp'' then resolveGCPProvider m a
     else Inl (Errorf ''credentials: unknown cloud provider %q for account %s'' [EStr (ca_provider a), EStr (ca_id a)]))"

definition credential_error :: "string \<Rightarrow> goerr \<Rightarrow> goerr" where
  "credential_error i e = Errorf ''credential resolution failed for account %s: %w'' [EStr i, EWrap e]"

definition target_account :: "execution \<Rightarrow> string option" where
  "target_account e = (case pe_account e of Some a \<Rightarrow> Some a | None \<Rightarrow> singleCloudAccountIDFromRecs (pe_recs e))"

definition resolveSingleAccountProvider :: "('p, 'c) manager \<Rightarrow> execution \<Rightarrow> 'c pworld \<Rightarrow>
    (goerr + 'p option \<times> string) \<times> 'c pworld" where
  "resolveSingleAccountProvider m e w =
    (if selectedIndices (pe_recs e) = [] then (Inr (None, []), w)
     else (case target_account e of
         None \<Rightarrow> (Inr (None, []), w)
       | Some i \<Rightarrow>
         (case on_db (GetCloudAccount (mg_env m) i) w of
            (Inl err, w) \<Rightarrow> (Inl (credential_error i err), w)
          | (Inr None, w) \<Rightarrow> (Inl (Errorf ''credential resolution failed for account %s: account not found'' [EStr i]), w)
          | (Inr (Some a), w) \<Rightarrow>
            (case resolveAccountProvider m a of
               Inl err \<Rightarrow> (Inl (credential_error i err), w)
             | Inr p \<Rightarrow> (Inr (p, ca_external a), w)))))"

definition getAWSAccountID :: "('p, 'c) manager \<Rightarrow> goerr + string" where
  "getAWSAccountID m = (case mg_sts m of
     None \<Rightarrow> Inl (Errorf ''STS client not configured'' [])
   | Some (Inl e) \<Rightarrow> Inl (wrap_err ''STS GetCallerIdentity: '' e)
   | Some (Inr None) \<Rightarrow> Inl (Errorf ''STS returned nil Account'' [])
   | Some (Inr (Some a)) \<Rightarrow> Inr a)"

section \<open>One account\<close>

abbreviation partial_error :: string where "partial_error \<equiv> ''*purchase.partialPurchaseError''"
abbreviation multi_partial_error :: string where "multi_partial_error \<equiv> ''*purchase.multiAccountPartialError''"

definition partialPurchaseError :: "string list \<Rightarrow> goerr" where
  "partialPurchaseError errs = Typed partial_error (''some purchases failed (partial success): '' @ join ''; '' errs)"

definition some_failed :: "string list \<Rightarrow> goerr" where
  "some_failed errs = Errorf ''some purchases failed: %v'' [EStrs errs]"

definition executeSingleAccount :: "('p, 'c) manager \<Rightarrow> execution \<Rightarrow> purchase_plan \<Rightarrow> 'c pworld \<Rightarrow>
    (goerr option \<times> execution) \<times> 'c pworld" where
  "executeSingleAccount m e plan w =
    (case resolveSingleAccountProvider m e w of
       (Inl err, w) \<Rightarrow> ((Some err, e), w)
     | (Inr (cred, target), w) \<Rightarrow>
       let account = (if target \<noteq> [] then target else (case getAWSAccountID m of Inl _ \<Rightarrow> [] | Inr a \<Rightarrow> a)) in
       (case processPurchaseRecommendations m e plan account cred w of
          ((Inl err, e), w) \<Rightarrow> ((Some err, e), w)
        | ((Inr t, e), w) \<Rightarrow>
          if ty_errors t \<noteq> [] \<and> \<not> anyRecPurchased (pe_recs e) then ((Some (some_failed (ty_errors t)), e), w)
          else (case sendPurchaseNotification m e plan t w of
              (_, w) \<Rightarrow> ((if ty_errors t \<noteq> [] then Some (partialPurchaseError (ty_errors t)) else None, e), w))))"

section \<open>Several accounts\<close>

text \<open>Whether the run was partial, whether anything was committed, and the stamped execution.\<close>

definition applyAccountOutcome :: "gotime \<Rightarrow> execution \<Rightarrow> string list \<Rightarrow> bool \<times> bool \<times> execution" where
  "applyAccountOutcome now e errs =
    (let committed = anyRecPurchased (pe_recs e); partial = (errs \<noteq> [] \<and> committed) in
     (partial, committed,
      if partial then e\<lparr>pe_status := ''partially_completed'', pe_error := appendErrNote (pe_error e) (join ''; '' errs),
        pe_completed := Some now\<rparr>
      else if errs \<noteq> [] then e\<lparr>pe_status := ''failed'', pe_error := appendErrNote (pe_error e) (join ''; '' errs)\<rparr>
      else e\<lparr>pe_status := ''completed'', pe_completed := Some now\<rparr>))"

definition audit_loss_account :: "cloud_account \<Rightarrow> goerr \<Rightarrow> goerr" where
  "audit_loss_account a err = Errorf ''AUDIT LOSS: failed to save execution record for account %s: %w'' [EStr (ca_id a), EWrap err]"

definition persistFailedAccountExecution :: "('p, 'c) manager \<Rightarrow> execution \<Rightarrow> cloud_account \<Rightarrow> goerr \<Rightarrow> 'c pworld \<Rightarrow>
    goerr \<times> 'c pworld" where
  "persistFailedAccountExecution m e a cause w =
    (case on_db (SavePurchaseExecution (mg_env m) e) w of
       ((Some err, _), w) \<Rightarrow> (Errorf (''%w'' @ [newline] @ ''%w'') [EWrap (audit_loss_account a err), EWrap cause], w)
     | ((None, _), w) \<Rightarrow> (cause, w))"

definition account_execution :: "execution \<Rightarrow> cloud_account \<Rightarrow> string \<Rightarrow> execution" where
  "account_execution base a i = base\<lparr>pe_id := i, pe_key := idempotencyLineageKey base @ '':'' @ ca_id a,
     pe_account := Some (ca_id a)\<rparr>"

definition executeForAccount :: "('p, 'c) manager \<Rightarrow> execution \<Rightarrow> purchase_plan \<Rightarrow> cloud_account \<Rightarrow> 'c pworld \<Rightarrow>
    (bool \<times> goerr option) \<times> 'c pworld" where
  "executeForAccount m base plan a w =
    (case fresh (pv_uuid (mg_env m)) w of (i, w) \<Rightarrow>
     let e = account_execution base a i in
     (case resolveAccountProvider m a of
        Inl err \<Rightarrow>
          (case persistFailedAccountExecution m (e\<lparr>pe_status := ''failed'', pe_error := err_string err\<rparr>) a
              (credential_error (ca_id a) err) w of (err, w) \<Rightarrow> ((False, Some err), w))
      | Inr cred \<Rightarrow>
        (case processPurchaseRecommendations m e plan (ca_external a) cred w of
           ((Inl err, e), w) \<Rightarrow>
             (case on_db (SavePurchaseExecution (mg_env m) (e\<lparr>pe_status := ''failed'', pe_error := err_string err\<rparr>)) w of
                (_, w) \<Rightarrow> ((False, Some err), w))
         | ((Inr t, e), w) \<Rightarrow>
           (case applyAccountOutcome (now_in m w) e (ty_errors t) of (partial, committed, e) \<Rightarrow>
             (case on_db (SavePurchaseExecution (mg_env m) e) w of
                ((Some err, _), w) \<Rightarrow> ((committed, Some (audit_loss_account a err)), w)
              | ((None, e), w) \<Rightarrow>
                (case (if ty_errors t = [] \<or> partial then snd (sendPurchaseNotification m e plan t w) else w) of w \<Rightarrow>
                  ((committed, if ty_errors t \<noteq> [] then Some (some_failed (ty_errors t)) else None), w)))))))"

definition multiAccountPartialError :: "string list \<Rightarrow> int \<Rightarrow> goerr" where
  "multiAccountPartialError errs committed = Typed multi_partial_error
     (sprintf ''multi-account execution: %d account(s) committed, %d failed: %s''
       [FInt committed, FInt (int (length errs)), FStr (join ''; '' errs)])"

definition errAllAccountsFailed :: goerr where
  "errAllAccountsFailed = Sentinel ''multi-account execution: all accounts failed''"

definition account_errors :: "cloud_account list \<Rightarrow> (bool \<times> goerr option) list \<Rightarrow> string list" where
  "account_errors accounts results = concat (map (\<lambda>(a, (_, err)). case err of None \<Rightarrow> []
     | Some err \<Rightarrow> [sprintf ''account %s: %v'' [FStr (ca_id a), FStr (err_string err)]]) (zip accounts results))"

text \<open>Accounts are looked up by identifier: of two with the same one, the last is used twice.\<close>

definition account_by_id :: "cloud_account list \<Rightarrow> string \<Rightarrow> cloud_account" where
  "account_by_id accounts i = last (filter (\<lambda>a. ca_id a = i) accounts)"

definition executeMultiAccount :: "('p, 'c) manager \<Rightarrow> execution \<Rightarrow> purchase_plan \<Rightarrow> cloud_account list \<Rightarrow> 'c pworld \<Rightarrow>
    goerr option \<times> 'c pworld" where
  "executeMultiAccount m base plan accounts w =
    (case FanOutWithConcurrency (mg_order m (length accounts)) False
        (\<lambda>i. executeForAccount m base plan (account_by_id accounts i)) (map ca_id accounts) w of
       (results, w) \<Rightarrow>
         let committed = length (filter fst results); errs = account_errors accounts results in
         (if errs = [] then None
          else if 0 < committed then Some (multiAccountPartialError errs (int committed))
          else Some (Errorf ''%w: %s'' [EWrap errAllAccountsFailed, EStr (join ''; '' errs)]), w))"

section \<open>The whole execution\<close>

definition ends_with :: "string \<Rightarrow> string \<Rightarrow> bool" where
  "ends_with s suffix = (length suffix \<le> length s \<and> drop (length s - length suffix) s = suffix)"

definition after_last_colon :: "string \<Rightarrow> string" where
  "after_last_colon s = rev (takeWhile (\<lambda>c. c \<noteq> CHR '':'') (rev s))"

definition reattachAccountScope :: "execution \<Rightarrow> cloud_account list \<Rightarrow> goerr + execution" where
  "reattachAccountScope e accounts =
    (let key = idempotencyLineageKey e in
     if CHR '':'' \<notin> set key then Inr e
     else (case find (\<lambda>a. ca_id a \<noteq> [] \<and> ends_with key ('':'' @ ca_id a)) accounts of
         Some a \<Rightarrow> Inr (e\<lparr>pe_account := Some (ca_id a)\<rparr>)
       | None \<Rightarrow> Inl (Errorf ''refusing to fan out execution %s across %d plan accounts: its idempotency lineage key is scoped to account %s, which is no longer on plan %s, and the row carries no cloud_account_id, so the scope cannot be recovered; re-deriving the key would double-purchase every account that already committed (issue #1537). Re-add account %s to the plan to let the retry complete, or cancel this execution''
           [EStr (pe_id e), EInt (int (length accounts)), EStr (after_last_colon key), EStr (pe_plan e), EStr (after_last_colon key)])))"

definition executeScopeAware :: "('p, 'c) manager \<Rightarrow> execution \<Rightarrow> purchase_plan \<Rightarrow> cloud_account list \<Rightarrow> 'c pworld \<Rightarrow>
    (goerr option \<times> execution) \<times> 'c pworld" where
  "executeScopeAware m e plan accounts w =
    (case reattachAccountScope e accounts of
       Inl err \<Rightarrow> ((Some err, e), w)
     | Inr e \<Rightarrow>
       if pe_account e \<noteq> None then executeSingleAccount m e plan w
       else (case executeMultiAccount m e plan accounts w of (err, w) \<Rightarrow> ((err, e), w)))"

definition direct_plan :: purchase_plan where
  "direct_plan = \<lparr>pp_id = [], pp_name = ''Direct purchase'', pp_enabled = False, pp_auto = False, pp_notify_days = 0,
     pp_ramp = \<lparr>rp_type = [], rp_percent = Fin 0, rp_interval_days = 0, rp_current = 0, rp_total = 0, rp_start = 0\<rparr>,
     pp_updated = 0, pp_next = None, pp_last = None, pp_last_notified = None\<rparr>"

definition executePurchase :: "('p, 'c) manager \<Rightarrow> execution \<Rightarrow> 'c pworld \<Rightarrow> (goerr option \<times> execution) \<times> 'c pworld" where
  "executePurchase m e w0 =
    (let w = w0\<lparr>pw_driven := pw_driven w0 @ [pe_id e]\<rparr> in
     if pe_plan e = [] then executeSingleAccount m e direct_plan w
     else (case on_db (GetPurchasePlan (mg_env m) (pe_plan e)) w of
         (Inl err, w) \<Rightarrow> ((Some (wrap_err ''failed to get plan: '' err), e), w)
       | (Inr plan, w) \<Rightarrow>
         if pe_account e \<noteq> None then executeSingleAccount m e plan w
         else (case on_db (GetPlanAccounts (mg_env m) (pe_plan e)) w of
             (Inl err, w) \<Rightarrow> ((Some (Errorf ''failed to load plan accounts for plan %s: %w'' [EStr (pe_plan e), EWrap err]), e), w)
           | (Inr accounts, w) \<Rightarrow>
             if accounts \<noteq> [] then executeScopeAware m e plan accounts w
             else executeSingleAccount m e plan w)))"

definition updatePlanProgress :: "('p, 'c) manager \<Rightarrow> execution \<Rightarrow> 'c pworld \<Rightarrow> goerr option \<times> 'c pworld" where
  "updatePlanProgress m e w =
    (if pe_plan e = [] then (None, w)
     else if pe_step e \<le> 0 then
       (Some (Errorf ''execution %s is attributed to plan %s but carries ramp step %d: refusing to advance the ramp''
          [EStr (pe_id e), EStr (pe_plan e), EInt (pe_step e)]), w)
     else on_db (CompletePlanStep (mg_env m) (pe_plan e) (pe_step e)) w)"

end
