(* ===== verification/Purchase_Manager.thy ===== *)
theory Purchase_Manager
  imports Purchase_Execution
begin

text \<open>
  \<open>internal/purchase/manager.go\<close>, \<open>reaper.go\<close>, \<open>scheduled_fire.go\<close> and
  \<open>finalize_revocations.go\<close>: claiming an execution, driving it to a terminal status, and the
  scheduled sweeps. Each sweep works through the list it read at its start.
\<close>

section \<open>Finalizing\<close>

definition finalizeExecution :: "gotime \<Rightarrow> execution \<Rightarrow> goerr option \<Rightarrow> execution" where
  "finalizeExecution now e err = (case err of
     None \<Rightarrow> e\<lparr>pe_status := ''completed'', pe_completed := Some now\<rparr>
   | Some er \<Rightarrow>
     if errors_as partial_error er \<or> errors_as multi_partial_error er then
       e\<lparr>pe_status := ''partially_completed'', pe_error := appendErrNote (pe_error e) (err_string er), pe_completed := Some now\<rparr>
     else e\<lparr>pe_status := ''failed'', pe_error := err_string er\<rparr>)"

definition isMultiAccountAckable :: "goerr option \<Rightarrow> bool" where
  "isMultiAccountAckable err = (case err of None \<Rightarrow> True | Some er \<Rightarrow> errors_as multi_partial_error er)"

definition recordRampAdvanceRefusal :: "('p, 'c) manager \<Rightarrow> execution \<Rightarrow> goerr \<Rightarrow> 'c pworld \<Rightarrow> execution \<times> 'c pworld" where
  "recordRampAdvanceRefusal m e cause w =
    (case on_db (SavePurchaseExecution (mg_env m) (e\<lparr>pe_error :=
         appendErrNote (pe_error e) (sprintf ''ramp not advanced: %v'' [FStr (err_string cause)])\<rparr>)) w of
       ((_, e), w) \<Rightarrow> (e, w))"

definition with_audit_loss :: "goerr option \<Rightarrow> goerr \<Rightarrow> goerr" where
  "with_audit_loss execErr err = (case execErr of
     None \<Rightarrow> Errorf ''%w: %w'' [EWrap ErrAuditLoss, EWrap err]
   | Some ee \<Rightarrow> Errorf ''%w: terminal save failed (%w); original execution error: %w'' [EWrap ErrAuditLoss, EWrap err, EWrap ee])"

definition drive :: "('p, 'c) manager \<Rightarrow> execution \<Rightarrow> 'c pworld \<Rightarrow> (goerr option \<times> execution) \<times> 'c pworld" where
  "drive m e w = (case armedRedriveRefusal e of
     Some err \<Rightarrow> ((Some err, e), w)
   | None \<Rightarrow> executePurchase m e w)"

definition executeAndFinalize :: "('p, 'c) manager \<Rightarrow> execution \<Rightarrow> 'c pworld \<Rightarrow> goerr option \<times> 'c pworld" where
  "executeAndFinalize m e w =
    (case drive m e w of ((execErr, e), w) \<Rightarrow>
     (case on_db (SavePurchaseExecution (mg_env m) (finalizeExecution (now_in m w) e execErr)) w of
        ((Some err, _), w) \<Rightarrow> (Some (with_audit_loss execErr err), w)
      | ((None, e), w) \<Rightarrow>
        (case execErr of
           Some err \<Rightarrow> (Some err, w)
         | None \<Rightarrow>
           (case updatePlanProgress m e w of
              (None, w) \<Rightarrow> (None, w)
            | (Some err, w) \<Rightarrow> (None, snd (recordRampAdvanceRefusal m e err w))))))"

section \<open>Claiming\<close>

definition benign_race :: "goerr \<Rightarrow> bool" where
  "benign_race e = (is_not_found e \<or> is_unexpected_status e)"

abbreviation move :: "('p, 'c) manager \<Rightarrow> string \<Rightarrow> string list \<Rightarrow> string \<Rightarrow> 'c pworld \<Rightarrow> (goerr + execution) \<times> 'c pworld" where
  "move m i froms to \<equiv> on_db (TransitionExecutionStatus (mg_env m) i froms to)"

definition claimAndExecute :: "('p, 'c) manager \<Rightarrow> execution \<Rightarrow> 'c pworld \<Rightarrow> (bool \<times> goerr option) \<times> 'c pworld" where
  "claimAndExecute m e w =
    (case move m (pe_id e) [''approved'', ''pending'', ''notified''] ''running'' w of
       (Inl err, w) \<Rightarrow>
         ((False, if benign_race err then None
            else Some (Errorf ''failed to claim execution %s for execution: %w'' [EStr (pe_id e), EWrap err])), w)
     | (Inr updated, w) \<Rightarrow> (case executeAndFinalize m updated w of (err, w) \<Rightarrow> ((True, err), w)))"

definition claimAndRedrive :: "('p, 'c) manager \<Rightarrow> execution \<Rightarrow> 'c pworld \<Rightarrow> (goerr + bool) \<times> 'c pworld" where
  "claimAndRedrive m e w =
    (case move m (pe_id e) [''approved''] ''running'' w of
       (Inl err, w) \<Rightarrow>
         (if benign_race err then Inr False
          else Inl (Errorf ''failed to claim execution %s for re-drive: %w'' [EStr (pe_id e), EWrap err]), w)
     | (Inr claimed, w) \<Rightarrow>
       (case executeAndFinalize m (e\<lparr>pe_status := pe_status claimed\<rparr>) w of
          (None, w) \<Rightarrow> (Inr True, w)
        | (Some err, w) \<Rightarrow>
          (if is_audit_loss err then
             Inl (Errorf ''persistence failure re-driving execution %s (row stranded in running): %w'' [EStr (pe_id e), EWrap err])
           else Inr False, w)))"

definition stranded_note :: string where
  "stranded_note = ''execution was approved but its purchase run was interrupted before completing and never finalized; failed by the recovery sweep so it is not silently stuck (issue #632). Verify on the cloud provider that no commitment was created, then Retry.''"

definition safeFail :: "('p, 'c) manager \<Rightarrow> execution \<Rightarrow> 'c pworld \<Rightarrow> (goerr + bool) \<times> 'c pworld" where
  "safeFail m e w =
    (case move m (pe_id e) [''approved''] ''failed'' w of
       (Inl err, w) \<Rightarrow>
         if benign_race err then (Inr False, w)
         else (case on_db (GetExecutionByID (mg_env m) (pe_id e)) w of
             (Inr current, w) \<Rightarrow>
               (if pe_status current \<noteq> ''approved'' then Inr False
                else Inl (Errorf ''failed to transition stranded execution %s to failed: %w'' [EStr (pe_id e), EWrap err]), w)
           | (Inl _, w) \<Rightarrow>
               (Inl (Errorf ''failed to transition stranded execution %s to failed: %w'' [EStr (pe_id e), EWrap err]), w))
     | (Inr updated, w) \<Rightarrow>
       (case on_db (SavePurchaseExecution (mg_env m) (updated\<lparr>pe_error := stranded_note\<rparr>)) w of (_, w) \<Rightarrow> (Inr True, w)))"

section \<open>Recovery of stranded approvals\<close>

definition recover_one :: "('p, 'c) manager \<Rightarrow> execution \<Rightarrow> 'c pworld \<Rightarrow> (goerr + bool) \<times> 'c pworld" where
  "recover_one m e = (if allRecsSafeToRedrive e \<and> pe_id e \<noteq> [] then claimAndRedrive m e else safeFail m e)"

text \<open>The number recovered, and the error that stopped the sweep.\<close>

fun recover_all :: "('p, 'c) manager \<Rightarrow> execution list \<Rightarrow> int \<Rightarrow> 'c pworld \<Rightarrow> (int \<times> goerr option) \<times> 'c pworld" where
  "recover_all m [] n w = ((n, None), w)"
| "recover_all m (e # es) n w =
    (case recover_one m e w of
       (Inl err, w) \<Rightarrow> ((n, Some err), w)
     | (Inr counted, w) \<Rightarrow> recover_all m es (if counted then n + 1 else n) w)"

definition staleApprovedThreshold :: int where "staleApprovedThreshold = 15 * minute_ns"

definition RecoverStrandedApprovals :: "('p, 'c) manager \<Rightarrow> 'c pworld \<Rightarrow> (int \<times> goerr option) \<times> 'c pworld" where
  "RecoverStrandedApprovals m w =
    (case on_db (GetStaleApprovedExecutions (mg_env m) staleApprovedThreshold) w of
       (Inl err, w) \<Rightarrow> ((0, Some (wrap_err ''failed to list stranded approved executions: '' err)), w)
     | (Inr stranded, w) \<Rightarrow> recover_all m stranded 0 w)"

section \<open>Scheduled purchases\<close>

record process_result =
  ps_errors :: "string list"
  ps_processed :: int
  ps_executed :: int
  ps_failed :: int
  ps_recovered :: int

definition count_failure :: "string \<Rightarrow> process_result \<Rightarrow> process_result" where
  "count_failure msg r = r\<lparr>ps_failed := ps_failed r + 1, ps_errors := ps_errors r @ [msg]\<rparr>"

definition executableByScheduler :: "('p, 'c) manager \<Rightarrow> execution \<Rightarrow> 'c pworld \<Rightarrow> (goerr + bool) \<times> 'c pworld" where
  "executableByScheduler m e w =
    (if pe_source e = PurchaseSourceWeb then (Inr False, w)
     else (case on_db (GetPurchasePlan (mg_env m) (pe_plan e)) w of
         (Inl err, w) \<Rightarrow> (Inl (Errorf ''failed to fetch plan %s for AutoPurchase gate: %w'' [EStr (pe_plan e), EWrap err]), w)
       | (Inr plan, w) \<Rightarrow> (Inr (pp_auto plan), w)))"

definition processOneExecution :: "('p, 'c) manager \<Rightarrow> execution \<Rightarrow> process_result \<Rightarrow> 'c pworld \<Rightarrow> process_result \<times> 'c pworld" where
  "processOneExecution m e r w =
    (case executableByScheduler m e w of
       (Inl err, w) \<Rightarrow> (count_failure (sprintf ''%s: AutoPurchase gate check failed: %v'' [FStr (pe_id e), FStr (err_string err)]) r, w)
     | (Inr False, w) \<Rightarrow> (r, w)
     | (Inr True, w) \<Rightarrow>
       let r = r\<lparr>ps_processed := ps_processed r + 1\<rparr> in
       (case claimAndExecute m e w of
          ((False, None), w) \<Rightarrow> (r, w)
        | ((False, Some err), w) \<Rightarrow> (count_failure (sprintf ''%s: claim failed: %v'' [FStr (pe_id e), FStr (err_string err)]) r, w)
        | ((True, err), w) \<Rightarrow>
          (if isMultiAccountAckable err then r\<lparr>ps_executed := ps_executed r + 1\<rparr>
           else count_failure (sprintf ''%s: %v'' [FStr (pe_id e), FStr (case err of None \<Rightarrow> [] | Some er \<Rightarrow> err_string er)]) r, w)))"

fun process_due :: "('p, 'c) manager \<Rightarrow> gotime \<Rightarrow> execution list \<Rightarrow> process_result \<Rightarrow> 'c pworld \<Rightarrow> process_result \<times> 'c pworld" where
  "process_due m now [] r w = (r, w)"
| "process_due m now (e # es) r w =
    (if now < pe_scheduled e \<or> pe_status e \<notin> {''pending'', ''notified''} then process_due m now es r w
     else (case processOneExecution m e r w of (r, w) \<Rightarrow> process_due m now es r w))"

definition ProcessScheduledPurchases :: "('p, 'c) manager \<Rightarrow> 'c pworld \<Rightarrow> (goerr + process_result) \<times> 'c pworld" where
  "ProcessScheduledPurchases m w =
    (case RecoverStrandedApprovals m w of ((recovered, _), w) \<Rightarrow>
     (case on_db (GetPendingExecutions (mg_env m)) w of
        (Inl err, w) \<Rightarrow> (Inl (wrap_err ''failed to get pending executions: '' err), w)
      | (Inr es, w) \<Rightarrow>
        (case process_due m (now_in m w) es
            \<lparr>ps_errors = [], ps_processed = 0, ps_executed = 0, ps_failed = 0, ps_recovered = recovered\<rparr> w of
           (r, w) \<Rightarrow> (Inr r, w))))"

section \<open>The reaper\<close>

record reap_result =
  re_found :: int
  re_reaped :: int
  re_race_lost :: int
  re_errored :: int

definition stuckStatuses :: "string list" where "stuckStatuses = [''approved'', ''running'']"

definition DefaultReapAfter :: int where "DefaultReapAfter = 10 * minute_ns"

text \<open>\<open>parse\<close> is \<open>time.ParseDuration\<close>.\<close>

definition ParseReapAfterFromEnv :: "(string \<Rightarrow> int option) \<Rightarrow> string \<Rightarrow> int" where
  "ParseReapAfterFromEnv parse raw =
    (if raw = [] then DefaultReapAfter
     else (case parse raw of None \<Rightarrow> DefaultReapAfter | Some d \<Rightarrow> if d \<le> 0 then DefaultReapAfter else d))"

text \<open>\<open>Round(time.Minute)\<close> rounds halves up, for a positive age.\<close>

definition age_minutes :: "int \<Rightarrow> int" where
  "age_minutes age = max 1 ((age + minute_ns div 2) div minute_ns)"

definition em_dash :: string where "em_dash = [CHR 0xE2, CHR 0x80, CHR 0x94]"

definition reap_note :: "execution \<Rightarrow> int \<Rightarrow> string" where
  "reap_note e age = sprintf (''reaped after %dm in %s state '' @ em_dash @ '' executor did not complete%s'')
     [FInt (age_minutes age), FStr (pe_status e), FStr (if allRecsSafeToRedrive e then ''; safe to retry'' else [])]"

definition reapOne :: "('p, 'c) manager \<Rightarrow> execution \<Rightarrow> int \<Rightarrow> reap_result \<Rightarrow> 'c pworld \<Rightarrow> reap_result \<times> 'c pworld" where
  "reapOne m e age r w =
    (case move m (pe_id e) stuckStatuses ''failed'' w of
       (Inl err, w) \<Rightarrow>
         (if benign_race err then r\<lparr>re_race_lost := re_race_lost r + 1\<rparr> else r\<lparr>re_errored := re_errored r + 1\<rparr>, w)
     | (Inr updated, w) \<Rightarrow>
       (case on_db (SavePurchaseExecution (mg_env m) (updated\<lparr>pe_error := reap_note e age\<rparr>)) w of
          ((None, _), w) \<Rightarrow> (r\<lparr>re_reaped := re_reaped r + 1\<rparr>, w)
        | ((Some _, _), w) \<Rightarrow> (r\<lparr>re_errored := re_errored r + 1, re_reaped := re_reaped r + 1\<rparr>, w)))"

fun reap_all :: "('p, 'c) manager \<Rightarrow> int \<Rightarrow> execution list \<Rightarrow> reap_result \<Rightarrow> 'c pworld \<Rightarrow> reap_result \<times> 'c pworld" where
  "reap_all m age [] r w = (r, w)"
| "reap_all m age (e # es) r w = (case reapOne m e age r w of (r, w) \<Rightarrow> reap_all m age es r w)"

definition ReapStuckExecutions :: "('p, 'c) manager \<Rightarrow> int \<Rightarrow> 'c pworld \<Rightarrow> (goerr + reap_result) \<times> 'c pworld" where
  "ReapStuckExecutions m age w =
    (case on_db (ListStuckExecutions (mg_env m) stuckStatuses age) w of
       (Inl err, w) \<Rightarrow> (Inl (wrap_err ''failed to list stuck executions: '' err), w)
     | (Inr stuck, w) \<Rightarrow>
       (case reap_all m age stuck \<lparr>re_found = int (length stuck), re_reaped = 0, re_race_lost = 0, re_errored = 0\<rparr> w of
          (r, w) \<Rightarrow> (Inr r, w)))"

section \<open>Firing delayed purchases\<close>

record fire_result =
  fi_found :: int
  fi_fired :: int
  fi_race_lost :: int
  fi_errored :: int

definition fireOneDue :: "('p, 'c) manager \<Rightarrow> execution \<Rightarrow> 'c pworld \<Rightarrow> (bool \<times> bool) \<times> 'c pworld" where
  "fireOneDue m e w =
    (case move m (pe_id e) [''scheduled''] ''approved'' w of
       (Inl err, w) \<Rightarrow> ((False, benign_race err), w)
     | (Inr updated, w) \<Rightarrow>
       (case on_db (SavePurchaseExecution (mg_env m) (updated\<lparr>pe_approved_by := Some ''scheduler''\<rparr>)) w of
          ((_, updated), w) \<Rightarrow>
            (case executeAndFinalize m updated w of
               (Some _, w) \<Rightarrow> ((False, False), w)
             | (None, w) \<Rightarrow> ((True, False), w))))"

definition count_fire :: "bool \<times> bool \<Rightarrow> fire_result \<Rightarrow> fire_result" where
  "count_fire o' r = (case o' of
     (True, _) \<Rightarrow> r\<lparr>fi_fired := fi_fired r + 1\<rparr>
   | (False, True) \<Rightarrow> r\<lparr>fi_race_lost := fi_race_lost r + 1\<rparr>
   | (False, False) \<Rightarrow> r\<lparr>fi_errored := fi_errored r + 1\<rparr>)"

fun fire_all :: "('p, 'c) manager \<Rightarrow> execution list \<Rightarrow> fire_result \<Rightarrow> 'c pworld \<Rightarrow> fire_result \<times> 'c pworld" where
  "fire_all m [] r w = (r, w)"
| "fire_all m (e # es) r w = (case fireOneDue m e w of (o', w) \<Rightarrow> fire_all m es (count_fire o' r) w)"

definition FireScheduledDelayedPurchases :: "('p, 'c) manager \<Rightarrow> 'c pworld \<Rightarrow> (goerr + fire_result) \<times> 'c pworld" where
  "FireScheduledDelayedPurchases m w =
    (case on_db (GetScheduledExecutionsDue (mg_env m)) w of
       (Inl err, w) \<Rightarrow> (Inl (wrap_err ''fire scheduled purchases: list due rows: '' err), w)
     | (Inr due, w) \<Rightarrow>
       (case fire_all m due \<lparr>fi_found = int (length due), fi_fired = 0, fi_race_lost = 0, fi_errored = 0\<rparr> w of
          (r, w) \<Rightarrow> (Inr r, w)))"

section \<open>Finalizing revocations\<close>

record finalize_result =
  fz_found :: int
  fz_finalized :: int
  fz_errored :: int

text \<open>One attempt and a retry per backoff.\<close>

definition finalizeRevocationBackoffs :: "int list" where
  "finalizeRevocationBackoffs = [2 * second_ns, 6 * second_ns]"

fun mark_with_retries :: "pdb_env \<Rightarrow> string \<Rightarrow> gotime \<Rightarrow> int list \<Rightarrow> pdb \<Rightarrow> goerr option \<times> pdb" where
  "mark_with_retries env pid now [] db = MarkPurchaseRevoked env pid now ''direct-api'' db"
| "mark_with_retries env pid now (b # bs) db =
    (case MarkPurchaseRevoked env pid now ''direct-api'' db of
       (None, db) \<Rightarrow> (None, db)
     | (Some _, db) \<Rightarrow> mark_with_retries env pid now bs db)"

fun finalize_all :: "pdb_env \<Rightarrow> gotime \<Rightarrow> history_row list \<Rightarrow> finalize_result \<Rightarrow> pdb \<Rightarrow> finalize_result \<times> pdb" where
  "finalize_all env now [] r db = (r, db)"
| "finalize_all env now (h # hs) r db =
    (case mark_with_retries env (hr_purchase_id h) now finalizeRevocationBackoffs db of
       (None, db) \<Rightarrow> finalize_all env now hs (r\<lparr>fz_finalized := fz_finalized r + 1\<rparr>) db
     | (Some _, db) \<Rightarrow> finalize_all env now hs (r\<lparr>fz_errored := fz_errored r + 1\<rparr>) db)"

definition FinalizeInFlightRevocations :: "pdb_env \<Rightarrow> pdb \<Rightarrow> (goerr + finalize_result) \<times> pdb" where
  "FinalizeInFlightRevocations env db =
    (case GetPurchaseHistoryInFlight env db of
       (Inl err, db) \<Rightarrow> (Inl err, db)
     | (Inr rows, db) \<Rightarrow>
       (case finalize_all env (clock env db) rows \<lparr>fz_found = int (length rows), fz_finalized = 0, fz_errored = 0\<rparr> db of
          (r, db) \<Rightarrow> (Inr r, db)))"

end
