(* ===== verification/Purchase_Approvals.thy ===== *)
theory Purchase_Approvals
  imports Purchase_Manager
begin

text \<open>
  \<open>internal/purchase/approvals.go\<close>, \<open>messages.go\<close> and \<open>notifications.go\<close>: approving and
  canceling an execution with a token, the queue messages, and the announcements that create
  the executions of a plan. The parsed queue message is the argument of \<open>ProcessMessage\<close>;
  \<open>None\<close> is a body that is not JSON.
\<close>

section \<open>Tokens and orphans\<close>

text \<open>The stored and the supplied token are compared through their hashes.\<close>

definition token_matches :: "('p, 'c) manager \<Rightarrow> execution \<Rightarrow> string \<Rightarrow> bool" where
  "token_matches m e token = (pe_token e \<noteq> [] \<and> token \<noteq> [] \<and> mg_hash m (pe_token e) = mg_hash m token)"

definition token_expired :: "gotime \<Rightarrow> execution \<Rightarrow> bool" where
  "token_expired now e = (case pe_token_expires e of None \<Rightarrow> False | Some t \<Rightarrow> t < now)"

definition validateApprovalToken :: "('p, 'c) manager \<Rightarrow> gotime \<Rightarrow> execution \<Rightarrow> string \<Rightarrow> goerr option" where
  "validateApprovalToken m now e token =
    (if \<not> token_matches m e token then Some (Errorf ''invalid approval token'' [])
     else if token_expired now e then Some (Errorf ''approval token has expired'' [])
     else None)"

definition OrphanExecutionError :: "execution \<Rightarrow> goerr option" where
  "OrphanExecutionError e =
    (if pe_account e \<noteq> None then None
     else (case pe_recs e of
         [] \<Rightarrow> None
       | r # _ \<Rightarrow>
         if rr_provider r = [] \<or> rr_provider r = ''aws'' then None
         else if list_ex (\<lambda>r. rr_account r \<noteq> None) (pe_recs e) then None
         else Some (Errorf (''execution %s references an account that no longer exists (provider: %s): cancel this purchase '' @
             em_dash @ '' it cannot execute'') [EStr (pe_id e), EStr (rr_provider r)])))"

section \<open>The four-eyes policy\<close>

definition same_person_error :: goerr where
  "same_person_error = Errorf ''approval declined: 4-eyes mode requires a different approver than the requester'' []"

definition checkDifferentApprover :: "('p, 'c) manager \<Rightarrow> execution \<Rightarrow> string \<Rightarrow> string option \<Rightarrow> 'c pworld \<Rightarrow>
    goerr option \<times> 'c pworld" where
  "checkDifferentApprover m e actorEmail actorUserID w =
    (case pe_creator e of
       None \<Rightarrow> (Some (Errorf ''approval declined: this execution predates the dual-control feature and has no recorded creator; an admin must disable 4-eyes mode to approve'' []), w)
     | Some creator \<Rightarrow>
       (case actorUserID of
          Some u \<Rightarrow> (if u = creator then Some same_person_error else None, w)
        | None \<Rightarrow>
          let actorEmail = trim_space actorEmail in
          if actorEmail = [] then
            (Some (Errorf ''4-eyes approval mode is enabled but no approver identity could be determined; sign in or supply a verified actor before approving'' []), w)
          else (case on_db (GetUserEmailByID (mg_env m) creator) w of
              (Inl err, w) \<Rightarrow> (Some (wrap_err ''4-eyes policy check: failed to resolve creator identity: '' err), w)
            | (Inr creatorEmail, w) \<Rightarrow>
              let creatorEmail = trim_space creatorEmail in
              (if creatorEmail = [] then
                 Some (Errorf ''4-eyes approval mode is enabled but the creator's account could not be resolved; an admin must investigate before approving'' [])
               else if equal_fold creatorEmail actorEmail then Some same_person_error
               else None, w))))"

definition loadExecutionForFourEyes :: "('p, 'c) manager \<Rightarrow> string \<Rightarrow> 'c pworld \<Rightarrow> (goerr + execution option) \<times> 'c pworld" where
  "loadExecutionForFourEyes m i w =
    (case on_db (GetExecutionByID (mg_env m) i) w of
       (Inl err, w) \<Rightarrow>
         (if is_not_found err then Inr None
          else Inl (wrap_err ''4-eyes policy check: failed to load execution: '' err), w)
     | (Inr e, w) \<Rightarrow> (Inr (Some e), w))"

definition enforceFourEyesPolicy :: "('p, 'c) manager \<Rightarrow> string \<Rightarrow> string \<Rightarrow> string option \<Rightarrow> 'c pworld \<Rightarrow> goerr option \<times> 'c pworld" where
  "enforceFourEyesPolicy m i actorEmail actorUserID w =
    (case on_db (GetGlobalConfig (mg_env m)) w of
       (Inl err, w) \<Rightarrow> (Some (wrap_err ''4-eyes policy check: failed to load global config: '' err), w)
     | (Inr cfg, w) \<Rightarrow>
       if \<not> pc_different_approver cfg then (None, w)
       else (case loadExecutionForFourEyes m i w of
           (Inl err, w) \<Rightarrow> (Some err, w)
         | (Inr None, w) \<Rightarrow> (None, w)
         | (Inr (Some e), w) \<Rightarrow> checkDifferentApprover m e actorEmail actorUserID w))"

section \<open>Approving\<close>

definition ApproveAndExecute :: "('p, 'c) manager \<Rightarrow> string \<Rightarrow> string \<Rightarrow> string option \<Rightarrow> 'c pworld \<Rightarrow> goerr option \<times> 'c pworld" where
  "ApproveAndExecute m i actor transitionedBy w =
    (case enforceFourEyesPolicy m i actor transitionedBy w of
       (Some err, w) \<Rightarrow> (Some err, w)
     | (None, w) \<Rightarrow>
       (case move m i [''pending'', ''notified''] ''approved'' w of
          (Inl err, w) \<Rightarrow> (Some (wrap_err ''approve: '' err), w)
        | (Inr updated, w) \<Rightarrow>
          if actor = [] then executeAndFinalize m updated w
          else (case on_db (SavePurchaseExecution (mg_env m) (updated\<lparr>pe_approved_by := Some actor\<rparr>)) w of
              ((_, updated), w) \<Rightarrow> executeAndFinalize m updated w)))"

definition RevocationWindow :: int where "RevocationWindow = 24 * hour_ns"

definition mintRevocationToken :: "('p, 'c) manager \<Rightarrow> string \<Rightarrow> 'c pworld \<Rightarrow> goerr option \<times> 'c pworld" where
  "mintRevocationToken m i w =
    (case on_db (GetExecutionByID (mg_env m) i) w of
       (Inl err, w) \<Rightarrow> (Some (wrap_err ''mintRevocationToken: failed to fetch execution: '' err), w)
     | (Inr e, w) \<Rightarrow>
       (case fresh (mg_token m) w of
          (Inl err, w) \<Rightarrow> (Some (wrap_err ''mintRevocationToken: failed to generate token: '' err), w)
        | (Inr tok, w) \<Rightarrow>
          (case on_db (SavePurchaseExecution (mg_env m) (e\<lparr>pe_token := tok,
              pe_token_expires := Some (now_in m w + RevocationWindow)\<rparr>)) w of ((err, _), w) \<Rightarrow> (err, w))))"

definition execution_not_found :: "string \<Rightarrow> goerr" where
  "execution_not_found i = Errorf ''execution not found: %s'' [EStr i]"

definition load_execution :: "('p, 'c) manager \<Rightarrow> string \<Rightarrow> 'c pworld \<Rightarrow> (goerr + execution) \<times> 'c pworld" where
  "load_execution m i w =
    (case on_db (GetExecutionByID (mg_env m) i) w of
       (Inl err, w) \<Rightarrow>
         (Inl (if is_not_found err then execution_not_found i else wrap_err ''failed to get execution: '' err), w)
     | (Inr e, w) \<Rightarrow> (Inr e, w))"

definition ApproveExecution :: "('p, 'c) manager \<Rightarrow> string \<Rightarrow> string \<Rightarrow> string \<Rightarrow> 'c pworld \<Rightarrow> goerr option \<times> 'c pworld" where
  "ApproveExecution m i token actor w =
    (case load_execution m i w of
       (Inl err, w) \<Rightarrow> (Some err, w)
     | (Inr e, w) \<Rightarrow>
       (case orelse (validateApprovalToken m (now_in m w) e token) (OrphanExecutionError e) of
          Some err \<Rightarrow> (Some err, w)
        | None \<Rightarrow>
          (case ApproveAndExecute m i actor None w of
             (Some err, w) \<Rightarrow> (Some err, w)
           | (None, w) \<Rightarrow> (None, snd (mintRevocationToken m i w)))))"

section \<open>Canceling\<close>

definition clearApprovalToken :: "('p, 'c) manager \<Rightarrow> string \<Rightarrow> 'c pworld \<Rightarrow> goerr option \<times> 'c pworld" where
  "clearApprovalToken m i w =
    (case on_db (GetExecutionByID (mg_env m) i) w of
       (Inl err, w) \<Rightarrow> (Some (wrap_err ''clearApprovalToken: failed to fetch execution: '' err), w)
     | (Inr e, w) \<Rightarrow>
       (case on_db (SavePurchaseExecution (mg_env m) (e\<lparr>pe_token := [], pe_token_expires := None\<rparr>)) w of
          ((err, _), w) \<Rightarrow> (err, w)))"

definition loadCancelableExecution :: "('p, 'c) manager \<Rightarrow> string \<Rightarrow> string \<Rightarrow> 'c pworld \<Rightarrow> (goerr + execution) \<times> 'c pworld" where
  "loadCancelableExecution m i token w =
    (case load_execution m i w of
       (Inl err, w) \<Rightarrow> (Inl err, w)
     | (Inr e, w) \<Rightarrow>
       (case validateApprovalToken m (now_in m w) e token of
          Some err \<Rightarrow> (Inl err, w)
        | None \<Rightarrow>
          (if IsCancelable e then Inr e
           else Inl (Errorf ''execution cannot be canceled, current status: %s'' [EStr (pe_status e)]), w)))"

text \<open>The body of the transaction; its variables are whether the row moved and its status.\<close>

definition cancel_tx :: "pdb_env \<Rightarrow> string \<Rightarrow> string option \<Rightarrow> pdb \<Rightarrow> (goerr option \<times> bool \<times> string) \<times> pdb" where
  "cancel_tx env i who db =
    (case CancelExecutionAtomic env i who db of
       (Inl err, db) \<Rightarrow> ((Some err, False, []), db)
     | (Inr (False, st), db) \<Rightarrow> ((None, False, st), db)
     | (Inr (True, st), db) \<Rightarrow>
       (case DeleteSuppressionsByExecutionTx env i db of (err, db) \<Rightarrow> ((err, True, st), db)))"

definition CancelExecution :: "('p, 'c) manager \<Rightarrow> string \<Rightarrow> string \<Rightarrow> string \<Rightarrow> 'c pworld \<Rightarrow> goerr option \<times> 'c pworld" where
  "CancelExecution m i token actor w =
    (case loadCancelableExecution m i token w of
       (Inl err, w) \<Rightarrow> (Some err, w)
     | (Inr _, w) \<Rightarrow>
       (case on_db (WithTx (mg_env m) (False, []) (cancel_tx (mg_env m) i (if actor = [] then None else Some actor))) w of
          ((Some err, _), w) \<Rightarrow> (Some (wrap_err ''failed to cancel execution: '' err), w)
        | ((None, False, st), w) \<Rightarrow>
          (Some (Errorf ''execution %s cannot be canceled: concurrent operation already transitioned it to %q''
            [EStr i, EStr st]), w)
        | ((None, True, _), w) \<Rightarrow> (None, snd (clearApprovalToken m i w))))"

section \<open>Queue messages\<close>

definition checkAutoExecuteGate :: "('p, 'c) manager \<Rightarrow> execution \<Rightarrow> 'c pworld \<Rightarrow> goerr option \<times> 'c pworld" where
  "checkAutoExecuteGate m e w =
    (if pe_status e \<notin> {''pending'', ''notified''} then (None, w)
     else (case executableByScheduler m e w of
         (Inl err, w) \<Rightarrow> (Some (Errorf ''AutoPurchase gate check failed for execution %s: %w'' [EStr (pe_id e), EWrap err]), w)
       | (Inr True, w) \<Rightarrow> (None, w)
       | (Inr False, w) \<Rightarrow>
         (Some (Errorf (''execution %s (status=%s source=%q) is not eligible for auto-execution: AutoPurchase=false or source=web '' @
             em_dash @ '' approve via the approval link'') [EStr (pe_id e), EStr (pe_status e), EStr (pe_source e)]), w)))"

definition handleExecutePurchase :: "('p, 'c) manager \<Rightarrow> string \<Rightarrow> 'c pworld \<Rightarrow> goerr option \<times> 'c pworld" where
  "handleExecutePurchase m i w =
    (if i = [] then (Some (Errorf ''execution_id required for execute_purchase message'' []), w)
     else (case on_db (GetExecutionByID (mg_env m) i) w of
         (Inl err, w) \<Rightarrow>
           (Some (if is_not_found err then execution_not_found i
             else Errorf ''failed to get execution %s: %w'' [EStr i, EWrap err]), w)
       | (Inr e, w) \<Rightarrow>
         (case checkAutoExecuteGate m e w of
            (Some err, w) \<Rightarrow> (Some err, w)
          | (None, w) \<Rightarrow>
            (case claimAndExecute m e w of
               ((False, None), w) \<Rightarrow> (None, w)
             | ((False, Some err), w) \<Rightarrow> (Some (Errorf ''failed to claim execution %s: %w'' [EStr i, EWrap err]), w)
             | ((True, err), w) \<Rightarrow> (if isMultiAccountAckable err then None else err, w)))))"

text \<open>The contact addresses, trimmed, without duplicates up to case, in order.\<close>

fun gather_contacts :: "('p, 'c) manager \<Rightarrow> string set \<Rightarrow> string set \<Rightarrow> recommendation list \<Rightarrow> 'c pworld \<Rightarrow>
    (goerr + string list) \<times> 'c pworld" where
  "gather_contacts m accounts emails [] w = (Inr [], w)"
| "gather_contacts m accounts emails (r # rs) w =
    (case rr_account r of
       None \<Rightarrow> gather_contacts m accounts emails rs w
     | Some i \<Rightarrow>
       if i = [] \<or> i \<in> accounts then gather_contacts m accounts emails rs w
       else (case on_db (GetCloudAccount (mg_env m) i) w of
           (Inl err, w) \<Rightarrow> (Inl (Errorf ''failed to get cloud account %s: %w'' [EStr i, EWrap err]), w)
         | (Inr None, w) \<Rightarrow> gather_contacts m (insert i accounts) emails rs w
         | (Inr (Some a), w) \<Rightarrow>
           let addr = trim_space (ca_contact a) in
           if addr = [] \<or> to_lower addr \<in> emails then gather_contacts m (insert i accounts) emails rs w
           else (case gather_contacts m (insert i accounts) (insert (to_lower addr) emails) rs w of
               (Inl err, w) \<Rightarrow> (Inl err, w)
             | (Inr out, w) \<Rightarrow> (Inr (addr # out), w))))"

definition gatherApproverContactEmails :: "('p, 'c) manager \<Rightarrow> recommendation list \<Rightarrow> 'c pworld \<Rightarrow> (goerr + string list) \<times> 'c pworld" where
  "gatherApproverContactEmails m recs = gather_contacts m {} {} recs"

definition matchActorAgainstApprovers :: "('p, 'c) manager \<Rightarrow> string \<Rightarrow> recommendation list \<Rightarrow> 'c pworld \<Rightarrow> goerr option \<times> 'c pworld" where
  "matchActorAgainstApprovers m actor recs w =
    (case gatherApproverContactEmails m recs w of
       (Inl err, w) \<Rightarrow> (Some (wrap_err ''failed to resolve approvers: '' err), w)
     | (Inr approvers, w) \<Rightarrow>
       (if approvers = [] then
          Some (Errorf ''no per-account contact email configured for this execution; set the cloud account's contact_email before approving'' [])
        else if list_ex (\<lambda>addr. to_lower (trim_space addr) = to_lower (trim_space actor)) approvers then None
        else Some (Errorf ''actor email is not an authorized approver for this purchase'' []), w))"

definition loadAsyncExecutionForApproval :: "('p, 'c) manager \<Rightarrow> string \<Rightarrow> string \<Rightarrow> 'c pworld \<Rightarrow> (goerr + execution) \<times> 'c pworld" where
  "loadAsyncExecutionForApproval m i token w =
    (case load_execution m i w of
       (Inl err, w) \<Rightarrow> (Inl err, w)
     | (Inr e, w) \<Rightarrow> (if token_matches m e token then Inr e else Inl (Errorf ''invalid approval token'' []), w))"

definition verifyAsyncApprovalActor :: "('p, 'c) manager \<Rightarrow> string \<Rightarrow> string \<Rightarrow> string \<Rightarrow> 'c pworld \<Rightarrow> goerr option \<times> 'c pworld" where
  "verifyAsyncApprovalActor m i token actor w =
    (if trim_space actor = [] then (Some (Errorf ''actor_email required for approve/cancel message'' []), w)
     else (case loadAsyncExecutionForApproval m i token w of
         (Inl err, w) \<Rightarrow> (Some err, w)
       | (Inr e, w) \<Rightarrow> matchActorAgainstApprovers m actor (pe_recs e) w))"

definition handleApproveMessage :: "('p, 'c) manager \<Rightarrow> string \<Rightarrow> string \<Rightarrow> string \<Rightarrow> 'c pworld \<Rightarrow> goerr option \<times> 'c pworld" where
  "handleApproveMessage m i token actor w =
    (if i = [] \<or> token = [] then (Some (Errorf ''execution_id and token required for approve message'' []), w)
     else (case verifyAsyncApprovalActor m i token actor w of
         (Some err, w) \<Rightarrow> (Some err, w)
       | (None, w) \<Rightarrow> ApproveExecution m i token actor w))"

definition handleCancelMessage :: "('p, 'c) manager \<Rightarrow> string \<Rightarrow> string \<Rightarrow> string \<Rightarrow> 'c pworld \<Rightarrow> goerr option \<times> 'c pworld" where
  "handleCancelMessage m i token actor w =
    (if i = [] \<or> token = [] then (Some (Errorf ''execution_id and token required for cancel message'' []), w)
     else (case verifyAsyncApprovalActor m i token actor w of
         (Some err, w) \<Rightarrow> (Some err, w)
       | (None, w) \<Rightarrow> CancelExecution m i token actor w))"

end
