(* ===== verification/Purchase_Messages.thy ===== *)
theory Purchase_Messages
  imports Purchase_Approvals
begin

text \<open>
  \<open>internal/purchase/notifications.go\<close>: announcing the next purchase of a plan, which creates
  its execution, and \<open>ProcessMessage\<close> of \<open>messages.go\<close>, the dispatch of the queue.
\<close>

section \<open>When to announce\<close>

text \<open>\<open>Duration.Hours()\<close> and the conversion of a finite float to an integer, both of which
  truncate towards zero.\<close>

definition truncated :: "rat \<Rightarrow> int" where
  "truncated q = (if q < 0 then - \<lfloor>- q\<rfloor> else \<lfloor>q\<rfloor>)"

definition duration_hours :: "int \<Rightarrow> f64" where
  "duration_hours d = (let h = truncated (of_int d / of_int hour_ns) in
     fadd (f64_of_int h) (fdiv (f64_of_int (d - h * hour_ns)) (Fin (of_int hour_ns))))"

definition days_until :: "gotime \<Rightarrow> gotime \<Rightarrow> int" where
  "days_until now t = truncated (rat_of_f64 (fdiv (duration_hours (t - now)) (Fin 24)))"

definition shouldNotifyPlan :: "gotime \<Rightarrow> purchase_plan \<Rightarrow> bool" where
  "shouldNotifyPlan now p =
    (pp_enabled p \<and> pp_auto p \<and>
     (case pp_next p of
        None \<Rightarrow> False
      | Some next' \<Rightarrow>
        \<not> (days_until now next' < 0 \<or> pp_notify_days p < days_until now next') \<and>
        (case pp_last_notified p of
           None \<Rightarrow> True
         | Some last' \<Rightarrow> \<not> flt (duration_hours (now - last')) (Fin 24))))"

section \<open>Announcing\<close>

definition ApprovalTokenTTL :: int where "ApprovalTokenTTL = 7 * 24 * hour_ns"

definition plan_execution :: "purchase_plan \<Rightarrow> gotime \<Rightarrow> string \<Rightarrow> gotime \<Rightarrow> string \<Rightarrow> execution" where
  "plan_execution p date tok expires i = \<lparr>pe_plan = pp_id p, pe_id = i, pe_status = ''pending'',
     pe_step = rp_current (pp_ramp p) + 1, pe_scheduled = date, pe_notified = None, pe_token = tok, pe_recs = [],
     pe_upfront = Fin 0, pe_savings = Fin 0, pe_completed = None, pe_error = [], pe_ttl = 0, pe_account = None,
     pe_source = [], pe_approved_by = None, pe_cancelled_by = None, pe_creator = None, pe_retry = None, pe_attempt = 0,
     pe_capacity = 0, pe_token_expires = Some expires, pe_executed_by = None, pe_executed_at = None,
     pe_skip_reason = None, pe_key = [], pe_fire_at = None\<rparr>"

definition getOrCreateExecution :: "('p, 'c) manager \<Rightarrow> purchase_plan \<Rightarrow> gotime \<Rightarrow> 'c pworld \<Rightarrow> (goerr + execution) \<times> 'c pworld" where
  "getOrCreateExecution m p date w =
    (case on_db (GetExecutionByPlanAndDate (mg_env m) (pp_id p) date) w of
       (Inr e, w) \<Rightarrow> (Inr e, w)
     | (Inl err, w) \<Rightarrow>
       if \<not> is_not_found err then (Inl (wrap_err ''failed to check for existing execution: '' err), w)
       else (case fresh (mg_token m) w of
           (Inl err, w) \<Rightarrow> (Inl (wrap_err ''failed to generate approval token: '' err), w)
         | (Inr tok, w) \<Rightarrow>
           (case fresh (pv_uuid (mg_env m)) w of (i, w) \<Rightarrow>
            (case on_db (SavePurchaseExecution (mg_env m) (plan_execution p date tok (now_in m w + ApprovalTokenTTL) i)) w of
               ((Some err, _), w) \<Rightarrow> (Inl err, w)
             | ((None, e), w) \<Rightarrow> (Inr e, w)))))"

definition buildNotificationData :: "('p, 'c) manager \<Rightarrow> purchase_plan \<Rightarrow> execution \<Rightarrow> int \<Rightarrow> string \<Rightarrow> purchase_mail" where
  "buildNotificationData m p e days recipient =
    \<lparr>pm_dashboard = mg_dashboard m, pm_token = pe_token e, pm_execution = pe_id e, pm_plan_id = pp_id p,
     pm_plan = pp_name p, pm_savings = pe_savings e, pm_upfront = pe_upfront e, pm_date = pe_scheduled e,
     pm_days = days, pm_recipient = recipient, pm_education = [], pm_recs = map mail_summary (pe_recs e)\<rparr>"

definition notify_email :: "('p, 'c) manager \<Rightarrow> 'c pworld \<Rightarrow> string \<times> 'c pworld" where
  "notify_email m w =
    (case on_db (GetGlobalConfig (mg_env m)) w of
       (Inl _, w) \<Rightarrow> ([], w)
     | (Inr cfg, w) \<Rightarrow> (case pc_notify cfg of None \<Rightarrow> [] | Some a \<Rightarrow> a, w))"

text \<open>\<open>date\<close> is the plan's next execution date, which the caller has checked to be there.\<close>

definition sendPlanNotification :: "('p, 'c) manager \<Rightarrow> purchase_plan \<Rightarrow> gotime \<Rightarrow> 'c pworld \<Rightarrow> bool \<times> 'c pworld" where
  "sendPlanNotification m p date w =
    (let days = days_until (now_in m w) date in
     case getOrCreateExecution m p date w of
       (Inl _, w) \<Rightarrow> (False, w)
     | (Inr e, w) \<Rightarrow>
       (case notify_email m w of (recipient, w) \<Rightarrow>
          if recipient = [] then (False, w)
          else (case on_cloud (mg_announce m (buildNotificationData m p e days recipient)) w of
              (Some _, w) \<Rightarrow> (False, w)
            | (None, w) \<Rightarrow>
              (case on_db (UpdatePurchasePlan (mg_env m) (p\<lparr>pp_last_notified := Some (now_in m w)\<rparr>)) w of
                 (Some _, w) \<Rightarrow> (False, w)
               | (None, w) \<Rightarrow> (True, w)))))"

fun notify_plans :: "('p, 'c) manager \<Rightarrow> purchase_plan list \<Rightarrow> int \<Rightarrow> 'c pworld \<Rightarrow> int \<times> 'c pworld" where
  "notify_plans m [] n w = (n, w)"
| "notify_plans m (p # ps) n w =
    (if shouldNotifyPlan (now_in m w) p then
       (case sendPlanNotification m p (the (pp_next p)) w of (sent, w) \<Rightarrow> notify_plans m ps (if sent then n + 1 else n) w)
     else notify_plans m ps n w)"

definition SendUpcomingPurchaseNotifications :: "('p, 'c) manager \<Rightarrow> 'c pworld \<Rightarrow> (goerr + int) \<times> 'c pworld" where
  "SendUpcomingPurchaseNotifications m w =
    (case on_db (ListPurchasePlans (mg_env m)) w of
       (Inl err, w) \<Rightarrow> (Inl (wrap_err ''failed to list purchase plans: '' err), w)
     | (Inr ps, w) \<Rightarrow> (case notify_plans m ps 0 w of (n, w) \<Rightarrow> (Inr n, w)))"

section \<open>The queue\<close>

record async_message =
  am_type :: string
  am_execution :: string
  am_plan :: string
  am_token :: string
  am_actor :: string

definition ProcessMessage :: "('p, 'c) manager \<Rightarrow> async_message option \<Rightarrow> 'c pworld \<Rightarrow> goerr option \<times> 'c pworld" where
  "ProcessMessage m body w = (case body of
     None \<Rightarrow> (None, w)
   | Some msg \<Rightarrow>
     if am_type msg = ''execute_purchase'' then handleExecutePurchase m (am_execution msg) w
     else if am_type msg = ''approve'' then handleApproveMessage m (am_execution msg) (am_token msg) (am_actor msg) w
     else if am_type msg = ''cancel'' then handleCancelMessage m (am_execution msg) (am_token msg) (am_actor msg) w
     else if am_type msg = ''send_notification'' then
       (case SendUpcomingPurchaseNotifications m w of (Inl err, w) \<Rightarrow> (Some err, w) | (Inr _, w) \<Rightarrow> (None, w))
     else (None, w))"

end
