(* ===== verification/Purchase_Store_Facts.thy ===== *)
theory Purchase_Store_Facts
  imports Purchase_Store
begin

text \<open>
  What the statements of \<open>Purchase_Store\<close> do to the executions table: reads change nothing,
  a status change moves the one row it matches, a save inserts a row or rewrites one. The
  status of an execution follows the lifecycle below; the store keeps identifiers unique.
\<close>

named_theorems read_facts

section \<open>Tables without the statement counters\<close>

definition tables :: "pdb \<Rightarrow> pdb" where
  "tables db = db\<lparr>pd_statements := 0, pd_generated := 0\<rparr>"

lemma tables_counters [simp]:
  "tables (db\<lparr>pd_statements := n\<rparr>) = tables db" "tables (db\<lparr>pd_generated := k\<rparr>) = tables db"
  "tables (rolled_back db db') = tables db"
  by (simp_all add: tables_def rolled_back_def)

lemma tables_rows: "tables db' = tables db \<Longrightarrow> pd_rows db' = pd_rows db"
  unfolding tables_def by (cases db; cases db') simp

lemma tables_plans: "tables db' = tables db \<Longrightarrow> pd_plans db' = pd_plans db \<and> pd_plan_accounts db' = pd_plan_accounts db \<and>
    pd_accounts db' = pd_accounts db \<and> pd_users db' = pd_users db \<and> pd_config db' = pd_config db"
  unfolding tables_def by (cases db; cases db') simp

lemma run_stmt_cases:
  assumes "run_stmt env f db = (r, db')"
  obtains (failed) err where "r = Inl err" "tables db' = tables db" "pd_generated db' = pd_generated db"
  | (ran) x where "r = Inr x" "pv_fault env (pd_statements db) = None"
      "f (db\<lparr>pd_statements := Suc (pd_statements db)\<rparr>) = Inr (db', x)"
  using assms by (auto simp: run_stmt_def Let_def split: option.splits sum.splits)

lemma ask_facts [read_facts]: "ask env q db = (r, db') \<Longrightarrow> tables db' = tables db"
  by (auto simp: ask_def run_stmt_def Let_def split: option.splits sum.splits)

lemma ask_generated [read_facts]: "ask env q db = (r, db') \<Longrightarrow> pd_generated db' = pd_generated db"
  by (auto simp: ask_def run_stmt_def Let_def split: option.splits sum.splits)

lemma ask_answer: "ask env q db = (Inr x, db') \<Longrightarrow> x = q (db\<lparr>pd_statements := Suc (pd_statements db)\<rparr>)"
  by (auto simp: ask_def run_stmt_def Let_def split: option.splits sum.splits)

text \<open>A read leaves the tables and the generator alone.\<close>

definition reads :: "(pdb \<Rightarrow> 'r \<times> pdb) \<Rightarrow> bool" where
  "reads f = (\<forall>db. tables (snd (f db)) = tables db \<and> pd_generated (snd (f db)) = pd_generated db)"

lemma readsD: "reads f \<Longrightarrow> f db = (r, db') \<Longrightarrow> tables db' = tables db \<and> pd_generated db' = pd_generated db"
  by (metis reads_def snd_conv)

lemma reads_ask: "reads (ask env q)"
  using ask_facts ask_generated unfolding reads_def by (metis prod.collapse)

lemma reads_queryExecutions: "reads (queryExecutions env sel)"
  using ask_facts ask_generated unfolding reads_def queryExecutions_def
  by (auto split: prod.splits sum.splits)

lemma reads_via: "reads f \<Longrightarrow> (\<And>db. snd (g db) = snd (f db)) \<Longrightarrow> reads g"
  by (simp add: reads_def)

lemma reads_GetExecutionByID: "reads (GetExecutionByID env i)"
  by (rule reads_via [OF reads_queryExecutions [of env "filter (\<lambda>x. row_id x = i)"]])
     (simp add: GetExecutionByID_def split: prod.split sum.split list.split)

lemma reads_GetExecutionByPlanAndDate: "reads (GetExecutionByPlanAndDate env p d)"
  by (rule reads_via [OF reads_queryExecutions [of env
       "filter (\<lambda>x. p \<noteq> [] \<and> pe_plan (xr_exec x) = p \<and> pe_scheduled (xr_exec x) = d)"]])
     (simp add: GetExecutionByPlanAndDate_def split: prod.split sum.split list.split)

lemma reads_lists: "reads (GetStaleApprovedExecutions env age)" "reads (ListStuckExecutions env sts age)"
  "reads (GetPendingExecutions env)" "reads (GetScheduledExecutionsDue env)"
  using reads_queryExecutions ask_facts ask_generated
  unfolding reads_def GetStaleApprovedExecutions_def ListStuckExecutions_def GetPendingExecutions_def GetScheduledExecutionsDue_def
  by (auto split: prod.splits sum.splits)

lemma reads_tables: "reads (GetGlobalConfig env)" "reads (GetUserEmailByID env u)" "reads (GetCloudAccount env i)"
  "reads (GetPlanAccounts env p)" "reads (GetPurchasePlan env p)" "reads (ListPurchasePlans env)"
  using ask_facts ask_generated
  unfolding reads_def GetGlobalConfig_def GetUserEmailByID_def GetCloudAccount_def GetPlanAccounts_def GetPurchasePlan_def ListPurchasePlans_def
  by (auto split: prod.splits sum.splits option.splits)

lemmas reads_store = reads_ask reads_queryExecutions reads_GetExecutionByID reads_GetExecutionByPlanAndDate reads_lists reads_tables

section \<open>Rows by identifier\<close>

definition row_of :: "pdb \<Rightarrow> string \<Rightarrow> purchase_row option" where
  "row_of db i = map_of (map (\<lambda>x. (row_id x, x)) (pd_rows db)) i"

definition status_of :: "pdb \<Rightarrow> string \<Rightarrow> string option" where
  "status_of db i = map_option row_status (row_of db i)"

definition ids :: "pdb \<Rightarrow> string set" where
  "ids db = row_id ` set (pd_rows db)"

lemma row_of_id: "row_of db i = Some x \<Longrightarrow> row_id x = i \<and> x \<in> set (pd_rows db)"
  by (auto simp: row_of_def dest: map_of_SomeD)

lemma ids_dom: "i \<in> ids db \<longleftrightarrow> row_of db i \<noteq> None"
  by (force simp: ids_def row_of_def map_of_eq_None_iff image_image)

lemma rows_same: "pd_rows db' = pd_rows db \<Longrightarrow> row_of db' = row_of db \<and> status_of db' = status_of db \<and> ids db' = ids db"
  by (simp add: row_of_def status_of_def ids_def fun_eq_iff)

lemma map_of_update_rows:
  assumes "\<And>x. row_id (f x) = row_id x"
  shows "map_of (map (\<lambda>x. (row_id x, x)) (update_rows p f rows)) i =
    map_option (\<lambda>x. if p x then f x else x) (map_of (map (\<lambda>x. (row_id x, x)) rows) i)"
  using assms by (induction rows) (auto simp: update_rows_def)

lemma row_of_update:
  assumes "\<And>x. row_id (f x) = row_id x" "pd_rows db' = update_rows p f (pd_rows db)"
  shows "row_of db' i = map_option (\<lambda>x. if p x then f x else x) (row_of db i)"
  using map_of_update_rows [of f p "pd_rows db" i] assms by (simp add: row_of_def)

lemma ids_update:
  assumes "\<And>x. row_id (f x) = row_id x" "pd_rows db' = update_rows p f (pd_rows db)"
  shows "map row_id (pd_rows db') = map row_id (pd_rows db)"
  using assms by (simp add: update_rows_def)

lemma has_row_ids: "has_row i (pd_rows db) \<longleftrightarrow> i \<in> ids db"
  by (simp add: has_row_def ids_def)

text \<open>A read by identifier finds the row.\<close>

lemma filter_id_row_of:
  assumes "distinct (map row_id rows)"
  shows "filter (\<lambda>x. row_id x = i) rows = (case map_of (map (\<lambda>x. (row_id x, x)) rows) i of None \<Rightarrow> [] | Some x \<Rightarrow> [x])"
  using assms
proof (induction rows)
  case (Cons x rows)
  show ?case
  proof (cases "row_id x = i")
    case True
    from Cons.prems have "row_id x \<notin> row_id ` set rows" by simp
    with True have "filter (\<lambda>x. row_id x = i) rows = []" unfolding filter_empty_conv by (metis imageI)
    with True show ?thesis by simp
  next
    case False
    with Cons show ?thesis by simp
  qed
qed simp

section \<open>The lifecycle of an execution\<close>

text \<open>The status changes the workflow makes.\<close>

inductive lifecycle :: "string \<Rightarrow> string \<Rightarrow> bool" where
  approve: "s \<in> {''pending'', ''notified''} \<Longrightarrow> lifecycle s ''approved''"
| fire: "lifecycle ''scheduled'' ''approved''"
| claim: "s \<in> {''approved'', ''pending'', ''notified''} \<Longrightarrow> lifecycle s ''running''"
| finish: "s \<in> {''approved'', ''running''} \<Longrightarrow> t \<in> {''completed'', ''partially_completed'', ''failed''} \<Longrightarrow> lifecycle s t"
| cancel: "s \<in> {''pending'', ''notified''} \<Longrightarrow> lifecycle s ''canceled''"

definition final_status :: "string \<Rightarrow> bool" where
  "final_status s = (s \<notin> {''pending'', ''notified'', ''scheduled'', ''approved'', ''running'', ''paused''})"

lemma final_lifecycle: "lifecycle s t \<Longrightarrow> \<not> final_status s"
  by (erule lifecycle.cases) (auto simp: final_status_def)

lemma final_stays: "lifecycle\<^sup>*\<^sup>* s t \<Longrightarrow> final_status s \<Longrightarrow> t = s"
  by (erule converse_rtranclpE) (simp, blast dest: final_lifecycle)

text \<open>Nothing goes back to a status before the claim.\<close>

definition stage :: "string \<Rightarrow> nat" where
  "stage s = (if s \<in> {''pending'', ''notified'', ''scheduled''} then 0 else if s = ''approved'' then 1
     else if s = ''running'' then 2 else 3)"

lemma lifecycle_stage: "lifecycle s t \<Longrightarrow> stage s < stage t"
  by (erule lifecycle.cases) (auto simp: stage_def)

lemma lifecycle_stages: "lifecycle\<^sup>*\<^sup>* s t \<Longrightarrow> stage s \<le> stage t"
  by (induction rule: rtranclp_induct) (auto dest: lifecycle_stage)

text \<open>Along a run every row stays and moves along the relation \<open>R\<close> of its
  status, here the lifecycle; a new row is one that was
  announced, or one that an account's run wrote when it was over.\<close>

definition first_status :: "string \<Rightarrow> bool" where
  "first_status s = (s \<in> {''pending'', ''completed'', ''partially_completed'', ''failed''})"

definition leads_by :: "(string \<Rightarrow> string \<Rightarrow> bool) \<Rightarrow> pdb \<Rightarrow> pdb \<Rightarrow> bool" where
  "leads_by R db db' = (\<forall>i. case status_of db i of
     None \<Rightarrow> (case status_of db' i of None \<Rightarrow> True
       | Some t \<Rightarrow> (\<exists>s. first_status s \<and> R\<^sup>*\<^sup>* s t))
   | Some s \<Rightarrow> (\<exists>t. status_of db' i = Some t \<and> R\<^sup>*\<^sup>* s t))"

abbreviation leads :: "pdb \<Rightarrow> pdb \<Rightarrow> bool" where
  "leads \<equiv> leads_by lifecycle"

lemma leads_refl: "leads_by R db db"
  by (auto simp: leads_by_def split: option.split)

lemma leads_same: "status_of db' = status_of db \<Longrightarrow> leads_by R db db'"
  by (auto simp: leads_by_def split: option.split)

lemma leads_Some: "leads_by R db db' \<Longrightarrow> status_of db i = Some s \<Longrightarrow> \<exists>t. status_of db' i = Some t \<and> R\<^sup>*\<^sup>* s t"
  unfolding leads_by_def by (drule spec [of _ i]) simp

lemma leads_None: "leads_by R db db' \<Longrightarrow> status_of db i = None \<Longrightarrow> status_of db' i = Some t \<Longrightarrow>
    \<exists>s. first_status s \<and> R\<^sup>*\<^sup>* s t"
  unfolding leads_by_def by (drule spec [of _ i]) simp

lemma leadsI:
  assumes "\<And>i s. status_of db i = Some s \<Longrightarrow> \<exists>t. status_of db' i = Some t \<and> R\<^sup>*\<^sup>* s t"
    and "\<And>i t. status_of db i = None \<Longrightarrow> status_of db' i = Some t \<Longrightarrow>
      \<exists>s. first_status s \<and> R\<^sup>*\<^sup>* s t"
  shows "leads_by R db db'"
  unfolding leads_by_def
proof
  fix i
  show "case status_of db i of
     None \<Rightarrow> (case status_of db' i of None \<Rightarrow> True
       | Some t \<Rightarrow> (\<exists>s. first_status s \<and> R\<^sup>*\<^sup>* s t))
   | Some s \<Rightarrow> (\<exists>t. status_of db' i = Some t \<and> R\<^sup>*\<^sup>* s t)"
    using assms(1) [of i] assms(2) [of i] by (cases "status_of db i"; cases "status_of db' i") simp_all
qed

lemma leads_trans:
  assumes "leads_by R db1 db2" "leads_by R db2 db3"
  shows "leads_by R db1 db3"
proof (rule leadsI)
  fix i s
  assume "status_of db1 i = Some s"
  from leads_Some [OF assms(1) this] obtain t where t: "status_of db2 i = Some t" "R\<^sup>*\<^sup>* s t" by blast
  from leads_Some [OF assms(2) t(1)] t(2) show "\<exists>u. status_of db3 i = Some u \<and> R\<^sup>*\<^sup>* s u"
    by (meson rtranclp_trans)
next
  fix i u
  assume n: "status_of db1 i = None" and u: "status_of db3 i = Some u"
  show "\<exists>s. first_status s \<and> R\<^sup>*\<^sup>* s u"
  proof (cases "status_of db2 i")
    case None
    from leads_None [OF assms(2) this u] show ?thesis .
  next
    case (Some t)
    from leads_None [OF assms(1) n Some] obtain s where s: "first_status s" "R\<^sup>*\<^sup>* s t" by blast
    from leads_Some [OF assms(2) Some] u have "R\<^sup>*\<^sup>* t u" by simp
    with s show ?thesis by (meson rtranclp_trans)
  qed
qed

section \<open>Saving\<close>

definition saved_rows :: "gotime \<Rightarrow> execution \<Rightarrow> purchase_row list \<Rightarrow> purchase_row list" where
  "saved_rows now e rows = (if has_row (pe_id e) rows
     then update_rows (\<lambda>x. row_id x = pe_id e) (updated_row now e) rows
     else rows @ [\<lparr>xr_exec = e, xr_canceled_by = None, xr_updated = now\<rparr>])"

lemma stored_id: "stored_execution env e = Inr s \<Longrightarrow> pe_id s = pe_id e \<and> pe_status s = pe_status e \<and> pe_recs s = pe_recs e \<and>
    pe_status e \<in> set execution_statuses"
  by (auto simp: stored_execution_def Let_def split: if_splits)

lemma WithTx_cases:
  assumes "WithTx env a body db = ((r, x), db')"
  obtains (failed) err where "r = Some err" "tables db' = tables db"
  | (committed) db1 db2 where "r = None" "tables db1 = tables db" "pd_generated db1 = pd_generated db"
      "body db1 = ((None, x), db2)" "tables db' = tables db2" "pd_generated db' = pd_generated db2"
proof -
  obtain r1 db1 where b: "ask env (\<lambda>_. ()) db = (r1, db1)" by fastforce
  show thesis
  proof (cases r1)
    case (Inl e)
    with assms b show thesis by (intro failed [of "wrap_err ''failed to begin transaction: '' e"]) (auto simp: WithTx_def dest: ask_facts)
  next
    case (Inr u)
    obtain r2 y db2 where body: "body db1 = ((r2, y), db2)" by (metis surj_pair)
    show thesis
    proof (cases r2)
      case (Some e)
      with assms b Inr body show thesis by (intro failed [of e]) (auto simp: WithTx_def dest: ask_facts)
    next
      case None
      obtain r3 db3 where c: "ask env (\<lambda>_. ()) db2 = (r3, db3)" by fastforce
      show thesis
      proof (cases r3)
        case (Inl e)
        with assms b Inr body None c show thesis
          by (intro failed [of "wrap_err ''failed to commit transaction: '' e"]) (auto simp: WithTx_def dest: ask_facts)
      next
        case (Inr v)
        with assms b \<open>r1 = Inr u\<close> body None c show thesis
          using ask_facts [OF b] ask_facts [OF c] ask_generated [OF b] ask_generated [OF c]
          by (intro committed [of db1 db2]) (auto simp: WithTx_def)
      qed
    qed
  qed
qed

lemma WithTx_generated:
  assumes "WithTx env a body db = ((r, x), db')" "\<And>d y d'. body d = (y, d') \<Longrightarrow> pd_generated d \<le> pd_generated d'"
  shows "pd_generated db \<le> pd_generated db'"
proof -
  obtain r1 db1 where b: "ask env (\<lambda>_. ()) db = (r1, db1)" by fastforce
  obtain r2 y db2 where body: "body db1 = ((r2, y), db2)" by (metis surj_pair)
  obtain r3 db3 where c: "ask env (\<lambda>_. ()) db2 = (r3, db3)" by fastforce
  note g = ask_generated [OF b] ask_generated [OF c] assms(2) [OF body]
  have "pd_generated db' \<in> {pd_generated db1, pd_generated db2, pd_generated db3}"
    using assms(1) b body c by (auto simp: WithTx_def rolled_back_def split: sum.splits option.splits)
  with g show ?thesis by auto
qed

lemma with_id_named [simp]: "pe_id e \<noteq> [] \<Longrightarrow> with_id env e db = (e, db)"
  by (simp add: with_id_def)

lemma with_key_facts:
  assumes "with_key env e db = (e', db')"
  shows "e' = e\<lparr>pe_key := pe_key e'\<rparr>" "(pe_key e \<noteq> [] \<longrightarrow> e' = e)" "tables db' = tables db" "pd_generated db \<le> pd_generated db'"
    "pe_recs e' = pe_recs e" "pe_id e' = pe_id e" "pe_status e' = pe_status e"
  using assms by (auto simp: with_key_def split: if_splits)

lemma SaveTx_generated: "SavePurchaseExecutionTx env e db = (y, db') \<Longrightarrow> pd_generated db \<le> pd_generated db'"
  by (auto simp: SavePurchaseExecutionTx_def with_id_def with_key_def Let_def upsert_def run_stmt_def
      split: if_splits option.splits sum.splits)

text \<open>A save of a named execution either leaves the tables alone and reports an error, or
  stores the execution under its identifier.\<close>

lemma SaveTx_stores:
  assumes "SavePurchaseExecutionTx env e db = ((None, e'), db')" "pe_id e \<noteq> []"
  obtains s now where "e' = e\<lparr>pe_key := pe_key e'\<rparr>" "pe_key e \<noteq> [] \<Longrightarrow> e' = e" "stored_execution env e' = Inr s"
    "tables db' = tables (db\<lparr>pd_rows := saved_rows now s (pd_rows db)\<rparr>)" "pd_generated db \<le> pd_generated db'"
    "list_all json_ok (pe_recs e)"
proof -
  obtain e1 db1 where k: "with_key env e db = (e1, db1)" by fastforce
  note kf = with_key_facts [OF k]
  obtain r db2 where u: "run_stmt env (upsert env (clock env db1) e1) db1 = (r, db2)" by fastforce
  from assms k u have j: "list_all json_ok (pe_recs e1)" "r = Inr ()" "e' = e1" "db' = db2"
    by (auto simp: SavePurchaseExecutionTx_def split: if_splits sum.splits)
  from u j(2) show thesis
  proof (cases rule: run_stmt_cases)
    case (failed err)
    with j show thesis by simp
  next
    case (ran x)
    obtain s where s: "stored_execution env e1 = Inr s"
      "db2 = db1\<lparr>pd_statements := Suc (pd_statements db1), pd_rows := saved_rows (clock env db1) s (pd_rows db1)\<rparr>"
      using ran(3) by (auto simp: upsert_def saved_rows_def)
    have "tables db2 = tables (db\<lparr>pd_rows := saved_rows (clock env db1) s (pd_rows db)\<rparr>)"
      using kf(3) tables_rows [OF kf(3)] s(2) unfolding tables_def by (cases db; cases db1) simp
    show thesis
    proof (rule that)
      show "e' = e\<lparr>pe_key := pe_key e'\<rparr>" unfolding j(3) by (rule kf(1))
      show "pe_key e \<noteq> [] \<Longrightarrow> e' = e" using kf(2) unfolding j(3) by blast
      show "stored_execution env e' = Inr s" unfolding j(3) by (rule s(1))
      show "tables db' = tables (db\<lparr>pd_rows := saved_rows (clock env db1) s (pd_rows db)\<rparr>)" unfolding j(4) by fact
      show "pd_generated db \<le> pd_generated db'" using kf(4) unfolding j(4) s(2) by simp
      show "list_all json_ok (pe_recs e)" using j(1) unfolding kf(5) .
    qed
  qed
qed

lemma SaveTx_result: "SavePurchaseExecutionTx env e db = ((r, e'), db') \<Longrightarrow> pe_id e \<noteq> [] \<Longrightarrow>
    e' = e\<lparr>pe_key := pe_key e'\<rparr> \<and> (pe_key e \<noteq> [] \<longrightarrow> e' = e)"
  by (auto simp: SavePurchaseExecutionTx_def with_key_def Let_def split: if_splits sum.splits prod.splits)

lemma Save_result:
  assumes "SavePurchaseExecution env e db = ((r, e'), db')" "pe_id e \<noteq> []"
  shows "e' = e\<lparr>pe_key := pe_key e'\<rparr> \<and> (pe_key e \<noteq> [] \<longrightarrow> e' = e)" "pd_generated db \<le> pd_generated db'"
proof -
  have w: "WithTx env e (SavePurchaseExecutionTx env e) db = ((r, e'), db')"
    using assms by (simp add: SavePurchaseExecution_def)
  from WithTx_generated [OF this SaveTx_generated] show "pd_generated db \<le> pd_generated db'" .
  have "e' = e \<or> (\<exists>d d' r. SavePurchaseExecutionTx env e d = ((r, e'), d'))"
    using w by (fastforce simp: WithTx_def split: sum.splits option.splits prod.splits)
  then show "e' = e\<lparr>pe_key := pe_key e'\<rparr> \<and> (pe_key e \<noteq> [] \<longrightarrow> e' = e)"
    using SaveTx_result assms(2) by (metis execution.surjective execution.update_convs(26))
qed

lemma Save_cases:
  assumes "SavePurchaseExecution env e db = ((r, e'), db')" "pe_id e \<noteq> []"
  obtains (failed) err where "r = Some err" "tables db' = tables db"
  | (stored) s now where "r = None" "stored_execution env e' = Inr s"
      "tables db' = tables (db\<lparr>pd_rows := saved_rows now s (pd_rows db)\<rparr>)" "list_all json_ok (pe_recs e)"
proof -
  have "WithTx env e (SavePurchaseExecutionTx env e) db = ((r, e'), db')"
    using assms by (simp add: SavePurchaseExecution_def)
  then show thesis
  proof (cases rule: WithTx_cases)
    case (failed err)
    then show thesis by (rule that(1))
  next
    case (committed db1 db2)
    from SaveTx_stores [OF committed(4) assms(2)] obtain s now where s: "stored_execution env e' = Inr s"
      "tables db2 = tables (db1\<lparr>pd_rows := saved_rows now s (pd_rows db1)\<rparr>)" "list_all json_ok (pe_recs e)" by blast
    have "tables (db1\<lparr>pd_rows := saved_rows now s (pd_rows db1)\<rparr>) = tables (db\<lparr>pd_rows := saved_rows now s (pd_rows db)\<rparr>)"
      using committed(2) tables_rows [OF committed(2)] unfolding tables_def by (cases db; cases db1) simp
    with s committed show thesis by (intro that(2) [of s now]) simp_all
  qed
qed

lemma updated_row_id [simp]: "row_id (updated_row now e x) = pe_id e"
  by (simp add: updated_row_def)

lemma row_of_saved:
  assumes "pd_rows db' = saved_rows now s (pd_rows db)"
  shows "row_of db' i = (if i = pe_id s then Some (case row_of db i of
       None \<Rightarrow> \<lparr>xr_exec = s, xr_canceled_by = None, xr_updated = now\<rparr> | Some x \<Rightarrow> updated_row now s x)
     else row_of db i)"
proof (cases "has_row (pe_id s) (pd_rows db)")
  case True
  then have rows: "pd_rows db' = map (\<lambda>x. if row_id x = pe_id s then updated_row now s x else x) (pd_rows db)"
    using assms by (simp add: saved_rows_def update_rows_def)
  have "map_of (map (\<lambda>x. (row_id x, x)) (map (\<lambda>x. if row_id x = pe_id s then updated_row now s x else x) rs)) i =
      map_option (\<lambda>x. if row_id x = pe_id s then updated_row now s x else x) (map_of (map (\<lambda>x. (row_id x, x)) rs) i)" for rs
    by (induction rs) auto
  then have "row_of db' i = map_option (\<lambda>x. if row_id x = pe_id s then updated_row now s x else x) (row_of db i)"
    unfolding row_of_def rows .
  moreover have "row_of db (pe_id s) \<noteq> None" using True by (simp add: has_row_ids ids_dom)
  ultimately show ?thesis
    by (cases "row_of db i") (auto dest: row_of_id)
next
  case False
  then have rows: "pd_rows db' = pd_rows db @ [\<lparr>xr_exec = s, xr_canceled_by = None, xr_updated = now\<rparr>]"
    using assms by (simp add: saved_rows_def)
  have "row_of db (pe_id s) = None" using False by (simp add: has_row_ids ids_dom)
  then show ?thesis unfolding row_of_def rows by (auto simp: map_add_def split: option.split)
qed

lemma status_of_saved:
  "pd_rows db' = saved_rows now s (pd_rows db) \<Longrightarrow>
   status_of db' i = (if i = pe_id s then Some (pe_status s) else status_of db i)"
  using row_of_saved [of db' now s db i] by (auto simp: status_of_def updated_row_def split: option.splits)

lemma ids_saved:
  assumes "pd_rows db' = saved_rows now s (pd_rows db)"
  shows "ids db' = insert (pe_id s) (ids db)" "distinct (map row_id (pd_rows db)) \<Longrightarrow> distinct (map row_id (pd_rows db'))"
proof -
  show "ids db' = insert (pe_id s) (ids db)"
    using row_of_saved [OF assms] by (auto simp: ids_dom split: if_splits)
  assume d: "distinct (map row_id (pd_rows db))"
  show "distinct (map row_id (pd_rows db'))"
  proof (cases "has_row (pe_id s) (pd_rows db)")
    case True
    have "map row_id (pd_rows db') = map row_id (pd_rows db)"
      using True assms by (auto simp: saved_rows_def update_rows_def)
    with d show ?thesis by simp
  next
    case False
    with d assms show ?thesis by (auto simp: saved_rows_def has_row_def)
  qed
qed

section \<open>Moving\<close>

lemma set_status_facts [simp]: "row_status (set_status st now x) = st" "xr_exec (set_status st now x) = (xr_exec x)\<lparr>pe_status := st\<rparr>"
  by (simp_all add: set_status_def)

lemma set_status_id: "row_id (set_status st now x) = row_id x"
  by simp

lemma move_rows_moves:
  assumes "move_rows i froms to f db = Inr (db', moved)" "\<And>x. row_id (f x) = row_id x" "distinct (map row_id (pd_rows db))"
  shows "pd_rows db' = update_rows (movable i froms) f (pd_rows db)" "db' = db\<lparr>pd_rows := pd_rows db'\<rparr>"
    "moved = (case row_of db i of None \<Rightarrow> [] | Some x \<Rightarrow> if row_status x \<in> set froms then [f x] else [])"
proof -
  show "pd_rows db' = update_rows (movable i froms) f (pd_rows db)" "db' = db\<lparr>pd_rows := pd_rows db'\<rparr>"
    using assms(1) by (auto simp: move_rows_def split: if_splits)
  have "filter (movable i froms) (pd_rows db) = filter (\<lambda>x. row_status x \<in> set froms) (filter (\<lambda>x. row_id x = i) (pd_rows db))"
    unfolding movable_def filter_filter by (rule filter_cong) auto
  then show "moved = (case row_of db i of None \<Rightarrow> [] | Some x \<Rightarrow> if row_status x \<in> set froms then [f x] else [])"
    using assms(1) unfolding filter_id_row_of [OF assms(3)] row_of_def [symmetric]
    by (auto simp: move_rows_def split: if_splits option.splits)
qed

text \<open>The statement changes nothing, or the one row it matches, to a valid status.\<close>

lemma move_rows_cases:
  assumes "move_rows i froms to f db = Inr (db', ys)" "\<And>x. row_id (f x) = row_id x" "distinct (map row_id (pd_rows db))"
  obtains (none) "ys = []" "db' = db"
  | (one) x where "ys = [f x]" "row_of db i = Some x" "row_status x \<in> set froms" "to \<in> set execution_statuses"
      "pd_rows db' = update_rows (movable i froms) f (pd_rows db)" "db' = db\<lparr>pd_rows := pd_rows db'\<rparr>"
proof (cases ys)
  note mv = move_rows_moves [OF assms]
  case Nil
  then have "\<forall>x \<in> set (pd_rows db). \<not> movable i froms x"
    using assms(1) by (auto simp: move_rows_def filter_empty_conv split: if_splits)
  then have "pd_rows db' = pd_rows db" using mv(1) by (simp add: update_rows_def map_idI)
  then have "db' = db" using mv(2) by simp
  with Nil show thesis by (rule none)
next
  note mv = move_rows_moves [OF assms]
  case (Cons y zs)
  then obtain x where x: "row_of db i = Some x" "row_status x \<in> set froms" "ys = [f x]"
    using mv(3) by (auto split: option.splits if_splits)
  then have "movable i froms x" "x \<in> set (pd_rows db)" using row_of_id [OF x(1)] by (simp_all add: movable_def)
  then have "to \<in> set execution_statuses" using assms(1) by (auto simp: move_rows_def split: if_splits)
  with x mv(1,2) show thesis by (intro one [of x])
qed

lemma Transition_cases:
  assumes "TransitionExecutionStatus env i froms to db = (r, db')" "distinct (map row_id (pd_rows db))"
  obtains (lost) err where "r = Inl err" "tables db' = tables db" "pd_generated db' = pd_generated db"
  | (moved) x now where "r = Inr ((xr_exec x)\<lparr>pe_status := to\<rparr>)" "row_of db i = Some x" "row_status x \<in> set froms"
      "pd_rows db' = update_rows (movable i froms) (set_status to now) (pd_rows db)"
      "pd_generated db' = pd_generated db" "to \<in> set execution_statuses"
proof -
  define now where "now = clock env db"
  obtain q db1 where q: "run_stmt env (move_rows i froms to (set_status to now)) db = (q, db1)" by fastforce
  let ?db = "db\<lparr>pd_statements := Suc (pd_statements db)\<rparr>"
  have d: "distinct (map row_id (pd_rows ?db))" "row_of ?db = row_of db" using assms(2) rows_same [of ?db db] by simp_all
  from q show thesis
  proof (cases rule: run_stmt_cases)
    case (failed err)
    with q assms(1) show thesis
      by (intro lost [of "wrap_err ''failed to query executions: '' err"])
         (simp_all add: TransitionExecutionStatus_def now_def)
  next
    case (ran ys)
    from ran(3) set_status_id d(1) show thesis
    proof (cases rule: move_rows_cases)
      case none
      obtain g db2 where g: "GetExecutionByID env i db1 = (g, db2)" by fastforce
      note rd = readsD [OF reads_GetExecutionByID g]
      have "db' = db2" "isl r"
        using assms(1) q ran(1) none(1) g by (auto simp: TransitionExecutionStatus_def now_def split: sum.splits)
      then show thesis using rd none(2) by (cases r) (auto intro: lost)
    next
      case (one x)
      have "r = Inr (xr_exec (set_status to now x))" "db' = db1"
        using assms(1) q ran(1) one(1) by (simp_all add: TransitionExecutionStatus_def now_def)
      moreover have "pd_generated db1 = pd_generated db" using one(6) by (cases db; cases db1) simp
      ultimately show thesis using one(2-5) d(2) by (intro moved [of x now]) simp_all
    qed
  qed
qed

text \<open>A statement that moves one row, whatever else it writes besides the status.\<close>

lemma status_of_moved:
  assumes "\<And>x. xr_exec (f x) = (xr_exec x)\<lparr>pe_status := to\<rparr>"
    and "pd_rows db' = update_rows (movable i froms) f (pd_rows db)" "row_of db i = Some x" "row_status x \<in> set froms"
  shows "status_of db' j = (if j = i then Some to else status_of db j)" "map row_id (pd_rows db') = map row_id (pd_rows db)"
    "row_of db' i = Some (f x)"
proof -
  have id: "row_id (f y) = row_id y" for y using assms(1) by simp
  have r: "row_of db' j = map_option (\<lambda>x. if movable i froms x then f x else x) (row_of db j)" for j
    using row_of_update [OF id assms(2)] by simp
  show "row_of db' i = Some (f x)"
    using r [of i] assms(3,4) row_of_id [OF assms(3)] by (simp add: movable_def)
  show "status_of db' j = (if j = i then Some to else status_of db j)"
  proof (cases "j = i")
    case True
    with r [of i] assms(1,3,4) row_of_id [OF assms(3)] show ?thesis by (simp add: status_of_def movable_def)
  next
    case False
    have "\<not> movable i froms y" if "row_of db j = Some y" for y
      using row_of_id [OF that] False by (auto simp: movable_def)
    with r [of j] False show ?thesis by (cases "row_of db j") (simp_all add: status_of_def)
  qed
  show "map row_id (pd_rows db') = map row_id (pd_rows db)" by (rule ids_update [OF id assms(2)])
qed

section \<open>Well-formed tables and their evolution\<close>

text \<open>Identifiers are unique and non-empty, the generator never repeats one, every row
  satisfies the checks of the table, and an amount read from a column can be written back.\<close>

definition fits :: "pdb_env \<Rightarrow> execution \<Rightarrow> bool" where
  "fits env e = (list_all json_ok (pe_recs e) \<and> pe_capacity e \<le> 100 \<and> pe_status e \<in> set execution_statuses \<and>
     \<not> isl (pv_money env (pe_upfront e)) \<and> \<not> isl (pv_money env (pe_savings e)))"

definition env_ok :: "pdb_env \<Rightarrow> bool" where
  "env_ok env = (inj (pv_uuid env) \<and> [] \<notin> range (pv_uuid env) \<and>
     (\<forall>x y. pv_money env x = Inr y \<longrightarrow> pv_money env y = Inr y))"

definition db_ok :: "pdb_env \<Rightarrow> pdb \<Rightarrow> bool" where
  "db_ok env db = (distinct (map row_id (pd_rows db)) \<and> [] \<notin> ids db \<and>
     (\<forall>n \<ge> pd_generated db. pv_uuid env n \<notin> ids db) \<and> (\<forall>x \<in> set (pd_rows db). fits env (xr_exec x)))"

definition evolves_by :: "(string \<Rightarrow> string \<Rightarrow> bool) \<Rightarrow> pdb_env \<Rightarrow> pdb \<Rightarrow> pdb \<Rightarrow> bool" where
  "evolves_by R env db db' = (env_ok env \<and> db_ok env db \<longrightarrow> db_ok env db' \<and> leads_by R db db' \<and> pd_generated db \<le> pd_generated db')"

abbreviation evolves :: "pdb_env \<Rightarrow> pdb \<Rightarrow> pdb \<Rightarrow> bool" where
  "evolves \<equiv> evolves_by lifecycle"

lemma db_okD: "db_ok env db \<Longrightarrow> distinct (map row_id (pd_rows db))" "db_ok env db \<Longrightarrow> i \<in> ids db \<Longrightarrow> i \<noteq> []"
  "db_ok env db \<Longrightarrow> row_of db i = Some x \<Longrightarrow> fits env (xr_exec x)"
  by (auto simp: db_ok_def dest: row_of_id)

lemma fits_updated:
  "(\<forall>x \<in> set rows. fits env (xr_exec x)) \<Longrightarrow> to \<in> set execution_statuses \<Longrightarrow> (\<And>x. xr_exec (f x) = (xr_exec x)\<lparr>pe_status := to\<rparr>) \<Longrightarrow>
   \<forall>x \<in> set (update_rows p f rows). fits env (xr_exec x)"
  by (auto simp: update_rows_def fits_def)

lemma fits_saved: "(\<forall>x \<in> set rows. fits env (xr_exec x)) \<Longrightarrow> fits env s \<Longrightarrow> \<forall>x \<in> set (saved_rows now s rows). fits env (xr_exec x)"
  by (auto simp: saved_rows_def update_rows_def fits_def updated_row_def)

lemma fits_stored: "env_ok env \<Longrightarrow> stored_execution env e = Inr s \<Longrightarrow> list_all json_ok (pe_recs e) \<Longrightarrow> fits env s"
  by (auto simp: stored_execution_def fits_def env_ok_def Let_def split: if_splits)

lemma evolves_refl: "evolves_by R env db db"
  by (simp add: evolves_by_def leads_refl)

lemma evolves_trans: "evolves_by R env db1 db2 \<Longrightarrow> evolves_by R env db2 db3 \<Longrightarrow> evolves_by R env db1 db3"
  unfolding evolves_by_def by (meson leads_trans le_trans)

lemma evolves_rows: "pd_rows db' = pd_rows db \<Longrightarrow> pd_generated db \<le> pd_generated db' \<Longrightarrow> evolves_by R env db db'"
  using rows_same [of db' db] by (auto simp: evolves_by_def db_ok_def leads_same)

lemma evolves_tables: "tables db' = tables db \<Longrightarrow> pd_generated db \<le> pd_generated db' \<Longrightarrow> evolves_by R env db db'"
  by (rule evolves_rows) (rule tables_rows)

lemma evolves_reads: "reads f \<Longrightarrow> f db = (r, db') \<Longrightarrow> evolves_by R env db db'"
  by (rule evolves_tables) (auto dest: readsD)

lemma evolves_moved:
  assumes f: "\<And>x. xr_exec (f x) = (xr_exec x)\<lparr>pe_status := to\<rparr>"
    and rows: "pd_rows db' = update_rows (movable i froms) f (pd_rows db)" "row_of db i = Some x" "row_status x \<in> set froms"
    and "to \<in> set execution_statuses" "pd_generated db \<le> pd_generated db'" "\<And>s. s \<in> set froms \<Longrightarrow> R s to"
  shows "evolves_by R env db db'"
  unfolding evolves_by_def
proof
  assume ok: "env_ok env \<and> db_ok env db"
  note st = status_of_moved [OF f rows]
  have "ids db' = ids db" using arg_cong [OF st(2), of set] by (simp add: ids_def)
  moreover have "leads_by R db db'"
  proof (rule leadsI)
    fix j s
    assume s: "status_of db j = Some s"
    show "\<exists>t. status_of db' j = Some t \<and> R\<^sup>*\<^sup>* s t"
    proof (cases "j = i")
      case True
      with s rows(2) have "s = row_status x" by (simp add: status_of_def)
      with assms(7) [OF rows(3)] st(1) [of j] True show ?thesis by auto
    next
      case False
      with s st(1) [of j] show ?thesis by simp
    qed
  next
    fix j t
    assume "status_of db j = None" "status_of db' j = Some t"
    moreover have "status_of db i \<noteq> None" using rows(2) by (simp add: status_of_def)
    ultimately show "\<exists>s. first_status s \<and> R\<^sup>*\<^sup>* s t" using st(1) [of j] by (auto split: if_splits)
  qed
  moreover have "\<forall>x \<in> set (pd_rows db'). fits env (xr_exec x)"
    unfolding rows(1) using ok assms(5) f by (intro fits_updated) (simp_all add: db_ok_def)
  ultimately show "db_ok env db' \<and> leads_by R db db' \<and> pd_generated db \<le> pd_generated db'"
    using ok st(2) assms(6) by (simp add: db_ok_def)
qed

lemma evolves_otherwise: "\<not> (env_ok env \<and> db_ok env db) \<Longrightarrow> evolves_by R env db db'"
  unfolding evolves_by_def by blast

lemma evolves_transition:
  assumes "TransitionExecutionStatus env i froms to db = (r, db')" "\<And>s. s \<in> set froms \<Longrightarrow> R s to"
  shows "evolves_by R env db db'"
proof (cases "env_ok env \<and> db_ok env db")
  case False
  then show ?thesis by (rule evolves_otherwise)
next
  case True
  with assms(1) db_okD(1) [OF conjunct2 [OF True]] show ?thesis
  proof (cases rule: Transition_cases)
    case (lost err)
    with evolves_tables [of db' db R env] show ?thesis by simp
  next
    case (moved x now)
    from evolves_moved [OF set_status_facts(2) moved(4,2,3,6)] moved(5) assms(2) show ?thesis by simp
  qed
qed

text \<open>A save that continues the lifecycle of its row, or adds a new one.\<close>

definition may_save_by :: "(string \<Rightarrow> string \<Rightarrow> bool) \<Rightarrow> pdb_env \<Rightarrow> execution \<Rightarrow> pdb \<Rightarrow> bool" where
  "may_save_by R env e db = (pe_id e \<noteq> [] \<and> (case status_of db (pe_id e) of
     Some s \<Rightarrow> R\<^sup>*\<^sup>* s (pe_status e)
   | None \<Rightarrow> first_status (pe_status e) \<and> (\<forall>n \<ge> pd_generated db. pv_uuid env n \<noteq> pe_id e)))"

abbreviation may_save :: "pdb_env \<Rightarrow> execution \<Rightarrow> pdb \<Rightarrow> bool" where
  "may_save \<equiv> may_save_by lifecycle"

lemma evolves_stored:
  assumes "stored_execution env e' = Inr s" "tables db' = tables (db\<lparr>pd_rows := saved_rows now s (pd_rows db)\<rparr>)"
    and "pd_generated db \<le> pd_generated db'" "list_all json_ok (pe_recs e)" "e' = e\<lparr>pe_key := pe_key e'\<rparr>" "may_save_by R env e db"
  shows "evolves_by R env db db'"
proof -
  have e': "pe_id e' = pe_id e" "pe_status e' = pe_status e" "pe_recs e' = pe_recs e"
    using assms(5) by (metis execution.ext_inject execution.surjective execution.update_convs(26))+
  have sid: "pe_id s = pe_id e" "pe_status s = pe_status e" using stored_id [OF assms(1)] e' by simp_all
  have id: "pe_id e \<noteq> []" using assms(6) by (simp add: may_save_by_def)
  have rows: "pd_rows db' = saved_rows now s (pd_rows db)" using tables_rows [OF assms(2)] by simp
  have "leads_by R db db'"
  proof (rule leadsI)
    fix i t assume "status_of db i = Some t"
    then show "\<exists>u. status_of db' i = Some u \<and> R\<^sup>*\<^sup>* t u"
      using status_of_saved [OF rows, of i] assms(6) sid by (auto simp: may_save_by_def)
  next
    fix i t assume "status_of db i = None" "status_of db' i = Some t"
    then show "\<exists>u. first_status u \<and> R\<^sup>*\<^sup>* u t"
      using status_of_saved [OF rows, of i] assms(6) sid by (auto simp: may_save_by_def split: if_splits)
  qed
  moreover have "db_ok env db'" if env: "env_ok env" and ok: "db_ok env db"
  proof -
    have "pv_uuid env n \<noteq> pe_id e" if "pd_generated db' \<le> n" for n
    proof (cases "status_of db (pe_id e)")
      case None
      with assms(6,3) that show ?thesis by (simp add: may_save_by_def)
    next
      case (Some t)
      then have "pe_id e \<in> ids db" by (auto simp: ids_dom status_of_def)
      with ok assms(3) that show ?thesis unfolding db_ok_def by (metis le_trans)
    qed
    moreover have "fits env s" using fits_stored [OF env assms(1)] assms(4) e'(3) by simp
    with ok have "\<forall>x \<in> set (pd_rows db'). fits env (xr_exec x)" unfolding rows by (intro fits_saved) (simp_all add: db_ok_def)
    ultimately show ?thesis using ok assms(3) id sid ids_saved [OF rows] by (auto simp: db_ok_def)
  qed
  ultimately show ?thesis using assms(3) by (simp add: evolves_by_def)
qed

lemma evolves_save:
  assumes "SavePurchaseExecution env e db = ((r, e'), db')" "may_save_by R env e db"
  shows "evolves_by R env db db'"
proof -
  have id: "pe_id e \<noteq> []" using assms(2) by (simp add: may_save_by_def)
  note res = Save_result [OF assms(1) id]
  from assms(1) id show ?thesis
  proof (cases rule: Save_cases)
    case (failed err)
    from evolves_tables [OF failed(2) res(2)] show ?thesis .
  next
    case (stored s now)
    from evolves_stored [OF stored(2,3) res(2) stored(4) conjunct1 [OF res(1)] assms(2)] show ?thesis .
  qed
qed

lemma evolves_saveTx:
  assumes "SavePurchaseExecutionTx env e db = ((None, e'), db')" "may_save_by R env e db"
  shows "evolves_by R env db db'"
proof -
  have "pe_id e \<noteq> []" using assms(2) by (simp add: may_save_by_def)
  with assms(1) obtain s now where "e' = e\<lparr>pe_key := pe_key e'\<rparr>" "stored_execution env e' = Inr s"
    "tables db' = tables (db\<lparr>pd_rows := saved_rows now s (pd_rows db)\<rparr>)" "pd_generated db \<le> pd_generated db'"
    "list_all json_ok (pe_recs e)" by (rule SaveTx_stores)
  with assms(2) show ?thesis by (intro evolves_stored)
qed

end
