(* ===== verification/Purchase_Drive_Facts.thy ===== *)
theory Purchase_Drive_Facts
  imports Purchase_Store_Facts Purchase_Execution
begin

text \<open>
  What driving an execution does to the tables: it reads configuration, writes history, and
  adds finished rows for the accounts of a fan-out, under fresh identifiers. The rows that
  were there, the driven one included, are as before.
\<close>

section \<open>Growing tables\<close>

definition settings :: "pdb \<Rightarrow> _" where
  "settings db = (pd_plans db, pd_plan_accounts db, pd_accounts db, pd_users db, pd_config db)"

definition finished :: "string \<Rightarrow> bool" where
  "finished s = (s \<in> {''completed'', ''partially_completed'', ''failed''})"

lemma finished_facts: "finished s \<Longrightarrow> first_status s" "finished s \<Longrightarrow> final_status s"
  by (auto simp: finished_def first_status_def final_status_def)

definition grows :: "pdb_env \<Rightarrow> pdb \<Rightarrow> pdb \<Rightarrow> bool" where
  "grows env db db' = (env_ok env \<and> db_ok env db \<longrightarrow>
     settings db' = settings db \<and> pd_generated db \<le> pd_generated db' \<and> db_ok env db' \<and>
     (\<forall>i. case row_of db i of Some x \<Rightarrow> row_of db' i = Some x
        | None \<Rightarrow> (case row_of db' i of None \<Rightarrow> True | Some x \<Rightarrow> finished (row_status x))))"

lemma grows_refl: "grows env db db"
  by (auto simp: grows_def split: option.split)

lemma growsD:
  assumes "grows env db db'" "env_ok env" "db_ok env db"
  shows "db_ok env db'" "row_of db i = Some x \<Longrightarrow> row_of db' i = Some x"
    "row_of db i = None \<Longrightarrow> row_of db' i = Some x \<Longrightarrow> finished (row_status x)"
    "pd_generated db \<le> pd_generated db'" "settings db' = settings db"
  using assms unfolding grows_def by (auto split: option.splits dest!: spec [of _ i])

lemma growsI:
  assumes "env_ok env \<Longrightarrow> db_ok env db \<Longrightarrow> settings db' = settings db \<and> pd_generated db \<le> pd_generated db' \<and> db_ok env db'"
    and "\<And>i x. env_ok env \<Longrightarrow> db_ok env db \<Longrightarrow> row_of db i = Some x \<Longrightarrow> row_of db' i = Some x"
    and "\<And>i x. env_ok env \<Longrightarrow> db_ok env db \<Longrightarrow> row_of db i = None \<Longrightarrow> row_of db' i = Some x \<Longrightarrow> finished (row_status x)"
  shows "grows env db db'"
  using assms unfolding grows_def by (simp split: option.split)

lemma grows_trans:
  assumes "grows env db1 db2" "grows env db2 db3"
  shows "grows env db1 db3"
proof (rule growsI)
  assume ok: "env_ok env" "db_ok env db1"
  note ok2 = growsD(1) [OF assms(1) ok]
  show "settings db3 = settings db1 \<and> pd_generated db1 \<le> pd_generated db3 \<and> db_ok env db3"
    using growsD(1,4,5) [OF assms(2) ok(1) ok2] growsD(4,5) [OF assms(1) ok] by simp
  fix i x
  show "row_of db1 i = Some x \<Longrightarrow> row_of db3 i = Some x"
    using growsD(2) [OF assms(1) ok] growsD(2) [OF assms(2) ok(1) ok2] by blast
  assume n: "row_of db1 i = None" and x: "row_of db3 i = Some x"
  show "finished (row_status x)"
  proof (cases "row_of db2 i")
    case None
    with growsD(3) [OF assms(2) ok(1) ok2 _ x] show ?thesis by simp
  next
    case (Some y)
    with growsD(2) [OF assms(2) ok(1) ok2 Some] x growsD(3) [OF assms(1) ok n Some] show ?thesis by simp
  qed
qed

lemma grows_evolves:
  assumes "grows env db db'"
  shows "evolves env db db'"
  unfolding evolves_by_def
proof
  assume ok: "env_ok env \<and> db_ok env db"
  note g = growsD [OF assms conjunct1 [OF ok] conjunct2 [OF ok]]
  have "leads db db'"
  proof (rule leadsI)
    fix i s assume "status_of db i = Some s"
    then obtain x where "row_of db i = Some x" "s = row_status x" by (auto simp: status_of_def)
    with g(2) [of i x] show "\<exists>t. status_of db' i = Some t \<and> lifecycle\<^sup>*\<^sup>* s t" by (simp add: status_of_def)
  next
    fix i t assume n: "status_of db i = None" "status_of db' i = Some t"
    then obtain x where "row_of db' i = Some x" "t = row_status x" by (auto simp: status_of_def)
    with n(1) g(3) [of i x] finished_facts(1) show "\<exists>s. first_status s \<and> lifecycle\<^sup>*\<^sup>* s t"
      by (auto simp: status_of_def)
  qed
  with g show "db_ok env db' \<and> leads db db' \<and> pd_generated db \<le> pd_generated db'" by simp
qed

lemma grows_rows:
  "settings db' = settings db \<Longrightarrow> pd_rows db' = pd_rows db \<Longrightarrow> pd_generated db \<le> pd_generated db' \<Longrightarrow> grows env db db'"
  using rows_same [of db' db] by (intro growsI) (simp_all add: db_ok_def)

lemma settings_tables: "tables db' = tables db \<Longrightarrow> settings db' = settings db"
  using tables_plans [of db' db] by (simp add: settings_def)

lemma grows_tables: "tables db' = tables db \<Longrightarrow> pd_generated db \<le> pd_generated db' \<Longrightarrow> grows env db db'"
  using settings_tables tables_rows by (blast intro: grows_rows)

section \<open>Steps in the world\<close>

abbreviation wgrows :: "('p, 'c) manager \<Rightarrow> 'c pworld \<Rightarrow> 'c pworld \<Rightarrow> bool" where
  "wgrows m w w' \<equiv> grows (mg_env m) (pw_db w) (pw_db w')"

lemma on_db_facts: "on_db f w = (r, w') \<Longrightarrow> \<exists>db. f (pw_db w) = (r, db) \<and> w' = w\<lparr>pw_db := db\<rparr>"
  by (auto simp: on_db_def split: prod.splits)

lemma on_db_reads: "reads f \<Longrightarrow> on_db f w = (r, w') \<Longrightarrow>
    wgrows m w w' \<and> pw_cloud w' = pw_cloud w \<and> pw_driven w' = pw_driven w"
  by (auto dest!: on_db_facts intro!: grows_tables dest: readsD)

lemma on_cloud_facts: "on_cloud f w = (r, w') \<Longrightarrow> \<exists>c. f (pw_cloud w) = (r, c) \<and> w' = w\<lparr>pw_cloud := c\<rparr>"
  by (auto simp: on_cloud_def split: prod.splits)

text \<open>What every task of a fan-out keeps, the fan-out keeps.\<close>

locale world_order =
  fixes R :: "'w \<Rightarrow> 'w \<Rightarrow> bool"
  assumes stay: "R w w"
    and chain: "R a b \<Longrightarrow> R b c \<Longrightarrow> R a c"
begin

lemma tasks:
  assumes "run_tasks f ks js slots w = (slots', w')" "\<And>k w r w'. k \<in> set ks \<Longrightarrow> f k w = (r, w') \<Longrightarrow> R w w'"
  shows "R w w'"
  using assms(1)
proof (induction js arbitrary: slots w)
  case Nil
  then show ?case using stay by simp
next
  case (Cons j js)
  show ?case
  proof (cases "j < length ks \<and> slots j = None")
    case True
    obtain r w1 where f: "f (ks ! j) w = (r, w1)" by fastforce
    have "R w w1" using assms(2) [OF _ f] True by simp
    moreover have "R w1 w'" using Cons True f by simp
    ultimately show ?thesis by (rule chain)
  next
    case False
    with Cons show ?thesis by (simp only: run_tasks.simps if_False if_not_P [OF False])
  qed
qed

lemma fan_out:
  assumes "FanOutWithConcurrency order zero f ks w = (rs, w')" "\<And>k w r w'. k \<in> set ks \<Longrightarrow> f k w = (r, w') \<Longrightarrow> R w w'"
  shows "R w w'"
proof -
  obtain slots w1 where t: "run_tasks f ks order Map.empty w = (slots, w1)" by fastforce
  with assms(1) have w1: "w1 = w'" by (simp add: FanOutWithConcurrency_def)
  show ?thesis using tasks [OF t] assms(2) unfolding w1 by blast
qed

end

section \<open>What a drive keeps of the execution\<close>

definition unmarked :: "recommendation \<Rightarrow> recommendation" where
  "unmarked r = r\<lparr>rr_purchased := False, rr_purchase_id := [], rr_error := []\<rparr>"

definition core :: "execution \<Rightarrow> execution" where
  "core e = e\<lparr>pe_recs := map unmarked (pe_recs e), pe_error := [], pe_account := None\<rparr>"

lemma core_facts:
  assumes "core e' = core e"
  shows "pe_id e' = pe_id e" "pe_status e' = pe_status e" "pe_plan e' = pe_plan e" "pe_key e' = pe_key e"
    "pe_attempt e' = pe_attempt e" "map unmarked (pe_recs e') = map unmarked (pe_recs e)" "length (pe_recs e') = length (pe_recs e)"
  using assms unfolding core_def by (cases e; cases e'; auto dest: map_eq_imp_length_eq)+

lemma selected_core: "map unmarked rs' = map unmarked rs \<Longrightarrow> selectedIndices rs' = selectedIndices rs"
proof -
  assume a: "map unmarked rs' = map unmarked rs"
  then have l: "length rs' = length rs" by (rule map_eq_imp_length_eq)
  have "rr_selected (rs' ! i) = rr_selected (rs ! i)" if "i < length rs" for i
  proof -
    have "unmarked (rs' ! i) = unmarked (rs ! i)" using a that l by (metis nth_map)
    then show ?thesis unfolding unmarked_def by (cases "rs ! i"; cases "rs' ! i") simp
  qed
  with l show ?thesis unfolding selectedIndices_def by (intro filter_cong) auto
qed

lemma update_rec_core:
  "\<lbrakk>i < length (pe_recs e); unmarked (f (pe_recs e ! i)) = unmarked (pe_recs e ! i)\<rbrakk> \<Longrightarrow> core (update_rec i f e) = core e"
  by (simp add: core_def update_rec_def map_update list_update_same_conv)

lemma mark_unmarked [simp]: "unmarked (mark_failed err r) = unmarked r" "unmarked (mark_purchased res r) = unmarked r"
  by (simp_all add: unmarked_def mark_failed_def mark_purchased_def)

lemma gap_core [simp]: "core (recordHistoryAuditGap e c) = core e" "pe_account (recordHistoryAuditGap e c) = pe_account e"
  "pe_recs (recordHistoryAuditGap e c) = pe_recs e"
  by (simp_all add: core_def recordHistoryAuditGap_def)

lemma update_rec_account [simp]: "pe_account (update_rec i f e) = pe_account e"
  by (simp add: update_rec_def)

lemma savePurchaseHistory_keeps:
  "savePurchaseHistory m e plan rec res a db = (r, db') \<Longrightarrow>
   settings db' = settings db \<and> pd_rows db' = pd_rows db \<and> pd_generated db' = pd_generated db"
  by (auto simp: savePurchaseHistory_def SavePurchaseHistory_def run_stmt_def Let_def settings_def
      split: option.splits sum.splits)

lemma aggregate_one_keeps:
  assumes "aggregate_one m plan a r t e db = (t', e', db')"
  shows "core e' = core e \<and> pe_account e' = pe_account e \<and> settings db' = settings db \<and> pd_rows db' = pd_rows db \<and>
    pd_generated db' = pd_generated db"
proof -
  obtain i res fail where r: "r = ((i, res), fail)" by (metis surj_pair)
  show ?thesis
  proof (cases "fail = None \<and> i < length (pe_recs e)")
    case False
    with assms show ?thesis unfolding r by (cases fail) (auto simp: aggregate_one_def)
  next
    case True
    show ?thesis
    proof (cases res)
      case (Inl err)
      with assms True show ?thesis unfolding r by (auto simp: aggregate_one_def Let_def update_rec_core)
    next
      case (Inr ok)
      let ?e = "update_rec i (mark_purchased ok) e"
      obtain h db1 where h: "savePurchaseHistory m ?e plan (pe_recs e ! i) ok a db = (h, db1)" by fastforce
      have "core ?e = core e" using True by (simp add: update_rec_core)
      with assms True Inr h savePurchaseHistory_keeps [OF h] show ?thesis
        unfolding r by (cases h) (auto simp: aggregate_one_def Let_def)
    qed
  qed
qed

lemma aggregate_keeps:
  "aggregatePurchaseOutcomes m plan a rs t e db = (t', e', db') \<Longrightarrow>
   core e' = core e \<and> pe_account e' = pe_account e \<and> settings db' = settings db \<and> pd_rows db' = pd_rows db \<and>
   pd_generated db' = pd_generated db"
proof (induction rs arbitrary: t e db)
  case (Cons r rs)
  obtain t1 e1 db1 where a: "aggregate_one m plan a r t e db = (t1, e1, db1)" by (metis surj_pair)
  from Cons.prems a have "aggregatePurchaseOutcomes m plan a rs t1 e1 db1 = (t', e', db')" by simp
  from Cons.IH [OF this] aggregate_one_keeps [OF a] show ?case by simp
qed simp

section \<open>One account\<close>

text \<open>The executions table, the settings and the log are as before.\<close>

definition quiet :: "'c pworld \<Rightarrow> 'c pworld \<Rightarrow> bool" where
  "quiet w w' = (settings (pw_db w') = settings (pw_db w) \<and> pd_rows (pw_db w') = pd_rows (pw_db w) \<and>
     pd_generated (pw_db w') = pd_generated (pw_db w) \<and> pw_driven w' = pw_driven w)"

lemma quiet_refl [simp]: "quiet w w"
  by (simp add: quiet_def)

lemma quiet_trans [trans]: "quiet a b \<Longrightarrow> quiet b c \<Longrightarrow> quiet a c"
  by (simp add: quiet_def)

lemma quiet_grows: "quiet w w' \<Longrightarrow> wgrows m w w'"
  by (auto simp: quiet_def intro: grows_rows)

lemma quiet_reads: "reads f \<Longrightarrow> on_db f w = (r, w') \<Longrightarrow> quiet w w'"
proof -
  assume a: "reads f" "on_db f w = (r, w')"
  then obtain db where db: "f (pw_db w) = (r, db)" "w' = w\<lparr>pw_db := db\<rparr>" by (auto dest: on_db_facts)
  from readsD [OF a(1) db(1)] have t: "tables db = tables (pw_db w)" "pd_generated db = pd_generated (pw_db w)" by simp_all
  with tables_rows [OF t(1)] settings_tables [OF t(1)] db(2) show ?thesis by (simp add: quiet_def)
qed

lemma quiet_cloud: "on_cloud f w = (r, w') \<Longrightarrow> quiet w w' \<and> pw_db w' = pw_db w"
  by (auto dest!: on_cloud_facts simp: quiet_def)

lemma process_keeps:
  assumes "processPurchaseRecommendations m e plan a cred w = ((r, e'), w')"
  shows "core e' = core e \<and> pe_account e' = pe_account e \<and> quiet w w'"
proof -
  obtain g w1 where g: "on_db (GetGlobalConfig (mg_env m)) w = (g, w1)" by fastforce
  note q1 = quiet_reads [OF reads_tables(1) g]
  show ?thesis
  proof (cases g)
    case (Inl err)
    with assms g q1 show ?thesis by (auto simp: processPurchaseRecommendations_def)
  next
    case (Inr cfg)
    show ?thesis
    proof (cases "selectedIndices (pe_recs e) = []")
      case True
      with assms g q1 Inr show ?thesis by (auto simp: processPurchaseRecommendations_def Let_def)
    next
      case False
      let ?opts = "\<lparr>bo_source = normalizePurchaseSource e, bo_execution = pe_id e, bo_class = pc_offering_class cfg, bo_token = []\<rparr>"
      obtain rs w2 where f: "on_cloud (FanOutWithConcurrency (mg_order m (length (selectedIndices (pe_recs e)))) zero_outcome
          (purchase_task m e cred ?opts) (selectedIndices (pe_recs e))) w1 = (rs, w2)" by fastforce
      obtain t e2 db2 where ag: "aggregatePurchaseOutcomes m plan a rs no_tally e (pw_db w2) = (t, e2, db2)" by (metis surj_pair)
      have "e' = e2" "w' = w2\<lparr>pw_db := db2\<rparr>"
        using assms g Inr False f ag by (simp_all add: processPurchaseRecommendations_def Let_def)
      moreover have "quiet w2 (w2\<lparr>pw_db := db2\<rparr>)" using aggregate_keeps [OF ag] by (simp add: quiet_def)
      ultimately show ?thesis using aggregate_keeps [OF ag] q1 quiet_cloud [OF f] quiet_trans by blast
    qed
  qed
qed

lemma resolve_quiet: "resolveSingleAccountProvider m e w = (r, w') \<Longrightarrow> quiet w w'"
  by (auto simp: resolveSingleAccountProvider_def split: if_splits option.splits prod.splits sum.splits
      dest!: quiet_reads [OF reads_tables(3)])

lemma notification_quiet: "sendPurchaseNotification m e plan t w = (r, w') \<Longrightarrow> quiet w w'"
  unfolding sendPurchaseNotification_def by (auto dest: quiet_cloud)

lemma single_keeps:
  assumes "executeSingleAccount m e plan w = ((r, e'), w')"
  shows "core e' = core e \<and> pe_account e' = pe_account e \<and> quiet w w'"
proof -
  obtain p w1 where p: "resolveSingleAccountProvider m e w = (p, w1)" by fastforce
  note q1 = resolve_quiet [OF p]
  show ?thesis
  proof (cases p)
    case (Inl err)
    with assms p q1 show ?thesis by (auto simp: executeSingleAccount_def)
  next
    case (Inr c)
    obtain cred target where c: "c = (cred, target)" by fastforce
    let ?account = "if target \<noteq> [] then target else (case getAWSAccountID m of Inl _ \<Rightarrow> [] | Inr a \<Rightarrow> a)"
    obtain t e2 w2 where pr: "processPurchaseRecommendations m e plan ?account cred w1 = ((t, e2), w2)" by (metis surj_pair)
    note k = process_keeps [OF pr]
    show ?thesis
    proof (cases t)
      case (Inl err)
      with assms p Inr c pr k q1 show ?thesis by (auto simp: executeSingleAccount_def Let_def intro: quiet_trans)
    next
      case (Inr tl)
      obtain n w3 where n: "sendPurchaseNotification m e2 plan tl w2 = (n, w3)" by fastforce
      have "e' = e2" "w' = w2 \<or> w' = w3"
        using assms p \<open>p = Inr c\<close> c pr Inr n by (auto simp: executeSingleAccount_def Let_def split: if_splits)
      with k q1 notification_quiet [OF n] show ?thesis by (auto intro: quiet_trans)
    qed
  qed
qed

section \<open>Several accounts\<close>

lemma grows_insert:
  assumes "SavePurchaseExecution env e db = ((r, e'), db')" "pe_id e = pv_uuid env n" "n < pd_generated db"
    and "finished (pe_status e)" "env_ok env \<Longrightarrow> db_ok env db \<Longrightarrow> pe_id e \<notin> ids db"
  shows "grows env db db'"
proof (cases "pe_id e = []")
  case True
  then have "[] \<in> range (pv_uuid env)" using assms(2) by (metis rangeI)
  then have "\<not> env_ok env" by (simp add: env_ok_def)
  then show ?thesis by (simp add: grows_def)
next
  case False
  note res = Save_result [OF assms(1) False]
  have set: "settings db' = settings db"
    using assms(1) False
  proof (cases rule: Save_cases)
    case (failed err)
    then show ?thesis by (intro settings_tables)
  next
    case (stored s now)
    from settings_tables [OF stored(3)] show ?thesis by (simp add: settings_def)
  qed
  show ?thesis
  proof (rule growsI)
    assume ok: "env_ok env" "db_ok env db"
    have new: "row_of db (pe_id e) = None" using assms(5) [OF ok] by (simp add: ids_dom)
    have "may_save env e db"
      using False new assms(2-4) finished_facts(1) ok(1) unfolding may_save_by_def env_ok_def
      by (auto simp: status_of_def dest: injD)
    from evolves_save [OF assms(1) this] ok set res(2)
    show "settings db' = settings db \<and> pd_generated db \<le> pd_generated db' \<and> db_ok env db'" by (simp add: evolves_by_def)
    fix i x
    have rows: "row_of db' i = row_of db i \<or> (i = pe_id e \<and> (\<forall>y. row_of db' i = Some y \<longrightarrow> row_status y = pe_status e))"
      using assms(1) False
    proof (cases rule: Save_cases)
      case (failed err)
      from rows_same [OF tables_rows [OF failed(2)]] show ?thesis by simp
    next
      case (stored s now)
      have e': "pe_id e' = pe_id e" "pe_status e' = pe_status e"
        using res(1) by (metis execution.ext_inject execution.surjective execution.update_convs(26))+
      have "pd_rows db' = saved_rows now s (pd_rows db)" using tables_rows [OF stored(3)] by simp
      from row_of_saved [OF this, of i] stored_id [OF stored(2)] e' new show ?thesis by auto
    qed
    with new show "row_of db i = Some x \<Longrightarrow> row_of db' i = Some x" by auto
    from rows assms(4) show "row_of db i = None \<Longrightarrow> row_of db' i = Some x \<Longrightarrow> finished (row_status x)" by auto
  qed
qed

text \<open>A new identifier, then work that leaves the executions alone, then the row.\<close>

lemma insert_fresh:
  assumes "fresh (pv_uuid (mg_env m)) w = (i, w1)" "quiet w1 w2"
    and "on_db (SavePurchaseExecution (mg_env m) e) w2 = ((r, e'), w3)" "pe_id e = i" "finished (pe_status e)"
  shows "wgrows m w w3 \<and> pw_driven w3 = pw_driven w"
proof -
  from assms(1) have i: "i = pv_uuid (mg_env m) (pd_generated (pw_db w))"
    and w1: "w1 = w\<lparr>pw_db := (pw_db w)\<lparr>pd_generated := Suc (pd_generated (pw_db w))\<rparr>\<rparr>"
    by (simp_all add: fresh_def on_db_def)
  obtain db3 where s: "SavePurchaseExecution (mg_env m) e (pw_db w2) = ((r, e'), db3)" "w3 = w2\<lparr>pw_db := db3\<rparr>"
    using on_db_facts [OF assms(3)] by blast
  have g: "pd_generated (pw_db w2) = Suc (pd_generated (pw_db w))" and rows: "pd_rows (pw_db w2) = pd_rows (pw_db w)"
    and set: "settings (pw_db w2) = settings (pw_db w)" and dr: "pw_driven w2 = pw_driven w"
    using assms(2) w1 by (simp_all add: quiet_def settings_def)
  have "wgrows m w w3"
  proof (cases "env_ok (mg_env m) \<and> db_ok (mg_env m) (pw_db w)")
    case False
    then show ?thesis unfolding grows_def by (rule impI [OF notE])
  next
    case True
    then have "i \<notin> ids (pw_db w)" using i by (simp add: db_ok_def)
    then have new: "pe_id e \<notin> ids (pw_db w2)" using rows_same [OF rows] assms(4) by simp
    have "wgrows m w w2" using g rows set by (intro grows_rows) simp_all
    moreover have "grows (mg_env m) (pw_db w2) db3"
    proof (rule grows_insert [OF s(1), where n = "pd_generated (pw_db w)"])
      show "pe_id e = pv_uuid (mg_env m) (pd_generated (pw_db w))" using assms(4) i by simp
      show "pd_generated (pw_db w) < pd_generated (pw_db w2)" using g by simp
    qed (use assms(5) new in simp_all)
    ultimately show ?thesis using s(2) by (simp add: grows_trans)
  qed
  with s(2) dr show ?thesis by simp
qed

lemma applyAccountOutcome_facts:
  "applyAccountOutcome now e errs = (partial, committed, e') \<Longrightarrow>
   pe_id e' = pe_id e \<and> finished (pe_status e') \<and> committed = anyRecPurchased (pe_recs e) \<and> pe_recs e' = pe_recs e"
  by (auto simp: applyAccountOutcome_def Let_def finished_def split: if_splits)

lemma account_grows:
  assumes "executeForAccount m base plan a w = (r, w')"
  shows "wgrows m w w' \<and> pw_driven w' = pw_driven w"
proof -
  obtain i w1 where f: "fresh (pv_uuid (mg_env m)) w = (i, w1)" by fastforce
  let ?e = "account_execution base a i"
  have id: "pe_id ?e = i" by (simp add: account_execution_def)
  show ?thesis
  proof (cases "resolveAccountProvider m a")
    case (Inl err)
    let ?e' = "?e\<lparr>pe_status := ''failed'', pe_error := err_string err\<rparr>"
    obtain q e2 w2 where s: "on_db (SavePurchaseExecution (mg_env m) ?e') w1 = ((q, e2), w2)" by (metis surj_pair)
    have "w' = w2" using assms f Inl s
      by (auto simp: executeForAccount_def persistFailedAccountExecution_def Let_def split: option.splits)
    with insert_fresh [OF f quiet_refl s] id show ?thesis by (simp add: finished_def)
  next
    case (Inr cred)
    obtain t e2 w2 where p: "processPurchaseRecommendations m ?e plan (ca_external a) cred w1 = ((t, e2), w2)" by (metis surj_pair)
    note k = process_keeps [OF p]
    have id2: "pe_id e2 = i" using core_facts(1) [of e2 ?e] k id by simp
    show ?thesis
    proof (cases t)
      case (Inl err)
      let ?e' = "e2\<lparr>pe_status := ''failed'', pe_error := err_string err\<rparr>"
      obtain q e3 w3 where s: "on_db (SavePurchaseExecution (mg_env m) ?e') w2 = ((q, e3), w3)" by (metis surj_pair)
      have "w' = w3" using assms f \<open>resolveAccountProvider m a = Inr cred\<close> p Inl s
        by (simp add: executeForAccount_def Let_def)
      with insert_fresh [OF f _ s] k id2 show ?thesis by (simp add: finished_def)
    next
      case (Inr tl)
      obtain partial committed e3 where ao: "applyAccountOutcome (now_in m w2) e2 (ty_errors tl) = (partial, committed, e3)"
        by (metis surj_pair)
      obtain q e4 w3 where s: "on_db (SavePurchaseExecution (mg_env m) e3) w2 = ((q, e4), w3)" by (metis surj_pair)
      have g: "wgrows m w w3 \<and> pw_driven w3 = pw_driven w"
        using insert_fresh [OF f _ s] k id2 applyAccountOutcome_facts [OF ao] by simp
      have "w' = w3 \<or> w' = snd (sendPurchaseNotification m e4 plan tl w3)"
        using assms f \<open>resolveAccountProvider m a = Inr cred\<close> p Inr ao s
        by (auto simp: executeForAccount_def Let_def split: option.splits if_splits)
      moreover have "quiet w3 (snd (sendPurchaseNotification m e4 plan tl w3))"
        using notification_quiet by (metis prod.collapse)
      ultimately show ?thesis using g quiet_grows [of w3 w' m] by (auto simp: quiet_def intro: grows_trans)
    qed
  qed
qed

interpretation accounts: world_order "\<lambda>w w'. wgrows m w w' \<and> pw_driven w' = pw_driven w" for m
  by unfold_locales (auto intro: grows_refl grows_trans)

lemma multi_grows:
  assumes "executeMultiAccount m base plan accounts w = (r, w')"
  shows "wgrows m w w' \<and> pw_driven w' = pw_driven w"
proof -
  obtain rs w1 where f: "FanOutWithConcurrency (mg_order m (length accounts)) False
      (\<lambda>i. executeForAccount m base plan (account_by_id accounts i)) (map ca_id accounts) w = (rs, w1)" by fastforce
  have "w' = w1" using assms f by (simp add: executeMultiAccount_def Let_def)
  moreover have "wgrows m w w1 \<and> pw_driven w1 = pw_driven w"
    by (rule accounts.fan_out [OF f]) (rule account_grows)
  ultimately show ?thesis by simp
qed

section \<open>The whole execution\<close>

lemma reattach_core: "reattachAccountScope e accounts = Inr e' \<Longrightarrow> core e' = core e"
  by (auto simp: reattachAccountScope_def Let_def core_def split: if_splits option.splits)

lemma scope_keeps:
  assumes "executeScopeAware m e plan accounts w = ((r, e'), w')"
  shows "core e' = core e \<and> wgrows m w w' \<and> pw_driven w' = pw_driven w"
proof (cases "reattachAccountScope e accounts")
  case (Inl err)
  with assms show ?thesis by (auto simp: executeScopeAware_def grows_refl)
next
  case (Inr e1)
  show ?thesis
  proof (cases "pe_account e1 = None")
    case True
    obtain q w1 where "executeMultiAccount m e1 plan accounts w = (q, w1)" by fastforce
    with multi_grows [OF this] assms Inr True reattach_core [OF Inr] show ?thesis
      by (simp add: executeScopeAware_def)
  next
    case False
    with assms Inr have s: "executeSingleAccount m e1 plan w = ((r, e'), w')" by (simp add: executeScopeAware_def)
    from single_keeps [OF s] reattach_core [OF Inr] show ?thesis
      using quiet_grows by (auto simp: quiet_def)
  qed
qed

lemma single_grows: "executeSingleAccount m e plan w = ((r, e'), w') \<Longrightarrow>
    core e' = core e \<and> wgrows m w w' \<and> pw_driven w' = pw_driven w"
  using single_keeps quiet_grows by (fastforce simp: quiet_def)

lemma purchase_keeps:
  assumes "executePurchase m e w = ((r, e'), w')"
  shows "core e' = core e \<and> wgrows m w w' \<and> pw_driven w' = pw_driven w @ [pe_id e]"
proof -
  let ?w = "w\<lparr>pw_driven := pw_driven w @ [pe_id e]\<rparr>"
  show ?thesis
  proof (cases "pe_plan e = []")
    case True
    with assms have "executeSingleAccount m e direct_plan ?w = ((r, e'), w')" by (simp add: executePurchase_def)
    from single_grows [OF this] show ?thesis by simp
  next
    case False
    obtain p w1 where p: "on_db (GetPurchasePlan (mg_env m) (pe_plan e)) ?w = (p, w1)" by fastforce
    have g1: "wgrows m w w1 \<and> pw_driven w1 = pw_driven w @ [pe_id e]"
      using on_db_reads [OF reads_tables(5) p, of m] by simp
    show ?thesis
    proof (cases p)
      case (Inl err)
      with assms False p g1 show ?thesis by (simp add: executePurchase_def)
    next
      case (Inr plan)
      show ?thesis
      proof (cases "pe_account e = None")
        case False
        with assms \<open>pe_plan e \<noteq> []\<close> p Inr have "executeSingleAccount m e plan w1 = ((r, e'), w')"
          by (simp add: executePurchase_def)
        from single_grows [OF this] g1 show ?thesis by (auto intro: grows_trans)
      next
        case True
        obtain as w2 where q: "on_db (GetPlanAccounts (mg_env m) (pe_plan e)) w1 = (as, w2)" by fastforce
        have g2: "wgrows m w w2 \<and> pw_driven w2 = pw_driven w @ [pe_id e]"
          using on_db_reads [OF reads_tables(4) q, of m] g1 by (auto intro: grows_trans)
        show ?thesis
        proof (cases as)
          case (Inl err)
          with assms False p Inr True q g2 show ?thesis by (simp add: executePurchase_def)
        next
          case (Inr accounts)
          with assms False p \<open>p = Inr plan\<close> True q
          have "executeScopeAware m e plan accounts w2 = ((r, e'), w') \<or> executeSingleAccount m e plan w2 = ((r, e'), w')"
            by (auto simp: executePurchase_def split: if_splits)
          then have "core e' = core e \<and> wgrows m w2 w' \<and> pw_driven w' = pw_driven w2"
            using scope_keeps single_grows by blast
          with g2 show ?thesis by (auto intro: grows_trans)
        qed
      qed
    qed
  qed
qed

end
