(* ===== verification/Purchase_Manager_Facts.thy ===== *)
theory Purchase_Manager_Facts
  imports Purchase_Messages Purchase_Drive_Facts
begin

text \<open>
  Every operation of the purchase manager is a \<open>step\<close>: whatever statements fail, the tables
  stay well-formed and each execution moves along its lifecycle; when none fails, an execution
  that was driven is finished afterwards, so it is not driven twice.
\<close>

section \<open>Steps\<close>

definition calm :: "pdb_env \<Rightarrow> bool" where
  "calm env = (\<forall>n. pv_fault env n = None)"

definition settled :: "pdb \<Rightarrow> string \<Rightarrow> bool" where
  "settled db i = (\<exists>s. status_of db i = Some s \<and> final_status s)"

definition step :: "('p, 'c) manager \<Rightarrow> 'c pworld \<Rightarrow> 'c pworld \<Rightarrow> bool" where
  "step m w w' = (env_ok (mg_env m) \<and> db_ok (mg_env m) (pw_db w) \<longrightarrow>
     db_ok (mg_env m) (pw_db w') \<and> leads (pw_db w) (pw_db w') \<and> pd_generated (pw_db w) \<le> pd_generated (pw_db w') \<and>
     (calm (mg_env m) \<longrightarrow> (\<exists>new. pw_driven w' = pw_driven w @ new \<and> distinct new \<and>
        (\<forall>i \<in> set new. \<not> settled (pw_db w) i \<and> settled (pw_db w') i))))"

lemma stepI:
  assumes "evolves (mg_env m) (pw_db w) (pw_db w')"
    and "env_ok (mg_env m) \<Longrightarrow> db_ok (mg_env m) (pw_db w) \<Longrightarrow> calm (mg_env m) \<Longrightarrow>
      \<exists>new. pw_driven w' = pw_driven w @ new \<and> distinct new \<and> (\<forall>i \<in> set new. \<not> settled (pw_db w) i \<and> settled (pw_db w') i)"
  shows "step m w w'"
  using assms unfolding step_def evolves_by_def by blast

lemma step_otherwise: "\<not> (env_ok (mg_env m) \<and> db_ok (mg_env m) (pw_db w)) \<Longrightarrow> step m w w'"
  unfolding step_def by blast

lemma step_evolves: "step m w w' \<Longrightarrow> evolves (mg_env m) (pw_db w) (pw_db w')"
  unfolding step_def evolves_by_def by blast

lemma step_same_log: "evolves (mg_env m) (pw_db w) (pw_db w') \<Longrightarrow> pw_driven w' = pw_driven w \<Longrightarrow> step m w w'"
  by (rule stepI) auto

lemma step_refl: "step m w w"
  by (rule step_same_log) (auto intro: evolves_refl)

lemma settled_leads: "leads db db' \<Longrightarrow> settled db i \<Longrightarrow> settled db' i"
  unfolding settled_def using leads_Some final_stays by metis

lemma step_trans:
  assumes "step m w1 w2" "step m w2 w3"
  shows "step m w1 w3"
proof (rule stepI)
  show "evolves (mg_env m) (pw_db w1) (pw_db w3)"
    using assms by (blast intro: evolves_trans dest: step_evolves)
  assume ok: "env_ok (mg_env m)" "db_ok (mg_env m) (pw_db w1)" "calm (mg_env m)"
  obtain n1 where n1: "pw_driven w2 = pw_driven w1 @ n1" "distinct n1"
    "\<forall>i \<in> set n1. \<not> settled (pw_db w1) i \<and> settled (pw_db w2) i"
    using assms(1) ok unfolding step_def by blast
  have ok2: "db_ok (mg_env m) (pw_db w2)" "leads (pw_db w1) (pw_db w2)" using assms(1) ok unfolding step_def by blast+
  obtain n2 where n2: "pw_driven w3 = pw_driven w2 @ n2" "distinct n2"
    "\<forall>i \<in> set n2. \<not> settled (pw_db w2) i \<and> settled (pw_db w3) i"
    using assms(2) ok ok2 unfolding step_def by blast
  have l23: "leads (pw_db w2) (pw_db w3)" using assms(2) ok ok2 unfolding step_def by blast
  have "\<forall>i \<in> set (n1 @ n2). \<not> settled (pw_db w1) i \<and> settled (pw_db w3) i"
    using n1(3) n2(3) settled_leads [OF ok2(2)] settled_leads [OF l23] by auto
  moreover have "distinct (n1 @ n2)" using n1(2,3) n2(2,3) by auto
  moreover have "pw_driven w3 = pw_driven w1 @ (n1 @ n2)" using n1(1) n2(1) by simp
  ultimately show "\<exists>new. pw_driven w3 = pw_driven w1 @ new \<and> distinct new \<and>
      (\<forall>i \<in> set new. \<not> settled (pw_db w1) i \<and> settled (pw_db w3) i)" by blast
qed

interpretation steps: world_order "step m" for m
  by unfold_locales (blast intro: step_refl step_trans)+

lemma step_rows: "pd_rows (pw_db w') = pd_rows (pw_db w) \<Longrightarrow> pd_generated (pw_db w) \<le> pd_generated (pw_db w') \<Longrightarrow>
    pw_driven w' = pw_driven w \<Longrightarrow> step m w w'"
  by (blast intro: step_same_log evolves_rows)

lemma step_reads: "reads f \<Longrightarrow> on_db f w = (r, w') \<Longrightarrow> step m w w'"
  by (rule step_rows) (auto dest: quiet_reads simp: quiet_def)

lemma step_cloud: "on_cloud f w = (r, w') \<Longrightarrow> step m w w'"
  by (rule step_rows) (auto dest: quiet_cloud simp: quiet_def)

lemma step_fresh: "fresh f w = (r, w') \<Longrightarrow> step m w w'"
  by (rule step_rows) (auto simp: fresh_def on_db_def)

lemma step_db: "on_db f w = (r, w') \<Longrightarrow> (\<And>db'. f (pw_db w) = (r, db') \<Longrightarrow> evolves (mg_env m) (pw_db w) db') \<Longrightarrow> step m w w'"
  by (rule step_same_log) (auto dest!: on_db_facts)

text \<open>Statements on other tables.\<close>

definition keeps_rows :: "(pdb \<Rightarrow> 'r \<times> pdb) \<Rightarrow> bool" where
  "keeps_rows f = (\<forall>db. pd_rows (snd (f db)) = pd_rows db \<and> pd_generated (snd (f db)) = pd_generated db)"

lemma keeps_rowsD: "keeps_rows f \<Longrightarrow> f db = (r, db') \<Longrightarrow> pd_rows db' = pd_rows db \<and> pd_generated db' = pd_generated db"
  by (metis keeps_rows_def snd_conv)

lemma keeps_rows_via: "keeps_rows f \<Longrightarrow> (\<And>db. snd (g db) = snd (f db)) \<Longrightarrow> keeps_rows g"
  by (simp add: keeps_rows_def)

lemma keeps_rows_ask: "keeps_rows (ask env q)"
  by (simp add: keeps_rows_def ask_def run_stmt_def Let_def split: option.split)

lemma keeps_rows_WithTx:
  assumes "keeps_rows body"
  shows "keeps_rows (WithTx env a body)"
  unfolding keeps_rows_def
proof
  fix db
  obtain r1 db1 where b: "ask env (\<lambda>_. ()) db = (r1, db1)" by fastforce
  obtain r2 y db2 where body: "body db1 = ((r2, y), db2)" by (metis surj_pair)
  obtain r3 db3 where c: "ask env (\<lambda>_. ()) db2 = (r3, db3)" by fastforce
  have k: "pd_rows db1 = pd_rows db \<and> pd_generated db1 = pd_generated db"
    "pd_rows db2 = pd_rows db1 \<and> pd_generated db2 = pd_generated db1" "pd_rows db3 = pd_rows db2 \<and> pd_generated db3 = pd_generated db2"
    using keeps_rows_ask [of env "\<lambda>_. ()"] assms b body c unfolding keeps_rows_def by (metis snd_conv)+
  then show "pd_rows (snd (WithTx env a body db)) = pd_rows db \<and> pd_generated (snd (WithTx env a body db)) = pd_generated db"
    using b body c by (auto simp: WithTx_def rolled_back_def split: sum.split option.split)
qed

lemma keeps_rows_plan: "keeps_rows (UpdatePurchasePlanTx env p)"
  by (simp add: keeps_rows_def UpdatePurchasePlanTx_def run_stmt_def Let_def split: option.split prod.split sum.split bool.split)

lemma keeps_rows_UpdatePurchasePlan: "keeps_rows (UpdatePurchasePlan env p)"
proof -
  have tx: "keeps_rows (\<lambda>db. case UpdatePurchasePlanTx env q db of (e, db') \<Rightarrow> ((e, ()), db'))" for q
    by (rule keeps_rows_via [OF keeps_rows_plan [of env q]]) (simp split: prod.split)
  show ?thesis unfolding keeps_rows_def
  proof
    fix db
    let ?f = "WithTx env () (\<lambda>d. case UpdatePurchasePlanTx env (p\<lparr>pp_updated := clock env db\<rparr>) d of (e, db') \<Rightarrow> ((e, ()), db'))"
    have "snd (UpdatePurchasePlan env p db) = snd (?f db)" by (simp add: UpdatePurchasePlan_def Let_def split: prod.split)
    then show "pd_rows (snd (UpdatePurchasePlan env p db)) = pd_rows db \<and> pd_generated (snd (UpdatePurchasePlan env p db)) = pd_generated db"
      using keeps_rows_WithTx [OF tx, of env "()"] unfolding keeps_rows_def by simp
  qed
qed

lemma keeps_rows_CompletePlanStep: "keeps_rows (CompletePlanStep env p n)"
proof -
  have "keeps_rows (complete_step_tx env p n)"
    unfolding keeps_rows_def
  proof
    fix db
    obtain r db1 where a: "ask env (\<lambda>db. pd_plans db p) db = (r, db1)" by fastforce
    have "pd_rows db1 = pd_rows db \<and> pd_generated db1 = pd_generated db"
      using keeps_rows_ask [of env "\<lambda>db. pd_plans db p"] a unfolding keeps_rows_def by (metis snd_conv)
    moreover have "pd_rows (snd (UpdatePurchasePlanTx env q db1)) = pd_rows db1 \<and>
        pd_generated (snd (UpdatePurchasePlanTx env q db1)) = pd_generated db1" for q
      using keeps_rows_plan [of env q] by (simp add: keeps_rows_def)
    ultimately show "pd_rows (snd (complete_step_tx env p n db)) = pd_rows db \<and> pd_generated (snd (complete_step_tx env p n db)) = pd_generated db"
      using a by (simp add: complete_step_tx_def Let_def split: sum.split option.split)
  qed
  then have "keeps_rows (\<lambda>db. case complete_step_tx env p n db of (e, db') \<Rightarrow> ((e, ()), db'))"
    by (rule keeps_rows_via) (simp split: prod.split)
  note tx = keeps_rowsD [OF keeps_rows_WithTx [OF this, of env "()"]]
  show ?thesis unfolding keeps_rows_def CompletePlanStep_def by (auto split: prod.split dest: tx)
qed

lemma step_keeps: "keeps_rows f \<Longrightarrow> on_db f w = (r, w') \<Longrightarrow> step m w w'"
  by (rule step_rows) (auto dest!: on_db_facts dest: keeps_rowsD)

section \<open>Reading one row, saving it again\<close>

lemma row_execution_facts [simp]: "pe_id (row_execution x) = row_id x" "pe_status (row_execution x) = row_status x"
  "fits env (row_execution x) = fits env (xr_exec x)"
  by (simp_all add: row_execution_def fits_def)

lemma Get_row:
  assumes "GetExecutionByID env i db = (Inr e, db')" "distinct (map row_id (pd_rows db))"
  shows "tables db' = tables db \<and> (\<exists>x. row_of db i = Some x \<and> e = row_execution x)"
proof -
  obtain es d where q: "queryExecutions env (filter (\<lambda>x. row_id x = i)) db = (Inr es, d)" "es \<noteq> []" "e = hd es"
    using assms(1) by (auto simp: GetExecutionByID_def split: prod.splits sum.splits list.splits)
  have "es = map row_execution (filter (\<lambda>x. row_id x = i) (pd_rows db))"
    using q(1) by (auto simp: queryExecutions_def dest: ask_answer split: prod.splits sum.splits)
  with filter_id_row_of [OF assms(2), of i] q(2,3) have "\<exists>x. row_of db i = Some x \<and> e = row_execution x"
    by (auto simp: row_of_def split: option.splits)
  with readsD [OF reads_GetExecutionByID assms(1)] show ?thesis by simp
qed

lemma status_of_row: "row_of db i = Some x \<Longrightarrow> status_of db i = Some (row_status x)"
  by (simp add: status_of_def)

lemma Save_key:
  "SavePurchaseExecution env e db = ((r, e'), db') \<Longrightarrow> pe_id e \<noteq> [] \<Longrightarrow>
   pe_id e' = pe_id e \<and> pe_status e' = pe_status e \<and> fits env e' = fits env e"
  by (drule (1) Save_result(1)) (metis fits_def execution.ext_inject execution.surjective execution.update_convs(26))

text \<open>A save that continues the lifecycle is a step.\<close>

lemma step_save:
  assumes "on_db (SavePurchaseExecution (mg_env m) e) w = ((r, e'), w')"
    and "env_ok (mg_env m) \<Longrightarrow> db_ok (mg_env m) (pw_db w) \<Longrightarrow> may_save (mg_env m) e (pw_db w)"
  shows "step m w w'"
proof (cases "env_ok (mg_env m) \<and> db_ok (mg_env m) (pw_db w)")
  case True
  with assms show ?thesis by (blast intro: step_db evolves_save)
next
  case False
  then show ?thesis by (rule step_otherwise)
qed

lemma may_save_row: "db_ok env db \<Longrightarrow> row_of db (pe_id e) = Some x \<Longrightarrow> lifecycle\<^sup>*\<^sup>* (row_status x) (pe_status e) \<Longrightarrow> may_save env e db"
  using db_okD(2) [of env db "pe_id e"] by (simp add: may_save_by_def status_of_row ids_dom)

lemma save_ok_row:
  assumes "SavePurchaseExecution env e db = ((None, e'), db')" "pe_id e \<noteq> []"
  shows "status_of db' (pe_id e) = Some (pe_status e) \<and> (\<exists>y. row_of db' (pe_id e) = Some y)"
  using assms
proof (cases rule: Save_cases)
  case (stored s now)
  have "pd_rows db' = saved_rows now s (pd_rows db)" using tables_rows [OF stored(3)] by simp
  with stored_id [OF stored(2)] Save_key [OF assms] status_of_saved [OF this, of "pe_id e"] show ?thesis
    by (auto simp: status_of_def)
qed simp

lemma calm_runs: "calm env \<Longrightarrow> f (db\<lparr>pd_statements := Suc (pd_statements db)\<rparr>) = Inr (d, x) \<Longrightarrow> run_stmt env f db = (Inr x, d)"
  by (simp add: calm_def run_stmt_def)

lemma calm_ask: "calm env \<Longrightarrow> \<exists>x d. ask env q db = (Inr x, d)"
  unfolding ask_def by (subst calm_runs) simp_all

lemma calm_save:
  assumes "calm env" "fits env e" "pe_id e \<noteq> []" "SavePurchaseExecution env e db = ((r, e'), db')"
  shows "r = None"
proof -
  have "\<exists>s. stored_execution env e1 = Inr s" if "fits env e1" for e1
    using that by (cases "pv_money env (pe_upfront e1)"; cases "pv_money env (pe_savings e1)")
      (auto simp: stored_execution_def fits_def Let_def)
  then have u: "\<exists>x d'. run_stmt env (upsert env now e1) d = (Inr x, d')" if "fits env e1" for now e1 d
    using that calm_runs [OF assms(1), of "upsert env now e1" d] by (fastforce simp: upsert_def)
  have tx: "fst (fst (SavePurchaseExecutionTx env e d)) = None" for d
  proof -
    obtain e1 d1 where k: "with_key env e d = (e1, d1)" by fastforce
    have "fits env (e\<lparr>pe_key := pe_key e1\<rparr>)" using assms(2) by (simp add: fits_def)
    then have "fits env e1" by (subst with_key_facts(1) [OF k])
    from u [OF this, of "clock env d1" d1] k this assms(3) show ?thesis
      by (auto simp: SavePurchaseExecutionTx_def Let_def fits_def split: sum.splits prod.splits)
  qed
  obtain x1 d1 where b: "ask env (\<lambda>_. ()) db = (Inr x1, d1)" using calm_ask [OF assms(1), of "\<lambda>_. ()" db] by auto
  obtain e2 d2 where t: "SavePurchaseExecutionTx env e d1 = ((None, e2), d2)" using tx by (metis prod.collapse)
  obtain x3 d3 where c: "ask env (\<lambda>_. ()) d2 = (Inr x3, d3)" using calm_ask [OF assms(1), of "\<lambda>_. ()" d2] by auto
  from assms(3,4) b t c show ?thesis by (simp add: SavePurchaseExecution_def WithTx_def)
qed

section \<open>Driving an execution\<close>

lemma finalized: "finished (pe_status (finalizeExecution now e err))" "pe_id (finalizeExecution now e err) = pe_id e"
  "pe_recs (finalizeExecution now e err) = pe_recs e"
  by (auto simp: finalizeExecution_def finished_def split: option.split)

lemma finished_valid: "finished s \<Longrightarrow> s \<in> set execution_statuses"
  by (auto simp: finished_def execution_statuses_def)

lemma json_ok_unmarked [simp]: "json_ok (unmarked r) = json_ok r"
  by (simp add: json_ok_def unmarked_def)

lemma json_ok_core: "map unmarked rs' = map unmarked rs \<Longrightarrow> list_all json_ok rs' = list_all json_ok rs"
proof -
  have "list_all json_ok xs = list_all json_ok (map unmarked xs)" for xs by (simp add: list.pred_map comp_def)
  then show "map unmarked rs' = map unmarked rs \<Longrightarrow> ?thesis" by metis
qed

lemma fits_core: "core e' = core e \<Longrightarrow> fits env e' = fits env e"
  using json_ok_core [of "pe_recs e'" "pe_recs e"] core_facts(6) [of e' e] unfolding core_def fits_def
  by (cases e; cases e') simp

lemma fits_finalized: "fits env e \<Longrightarrow> fits env (finalizeExecution now e err)"
  using finished_valid [OF finalized(1)] by (auto simp: fits_def finalizeExecution_def execution_statuses_def split: option.split)

lemma drive_keeps:
  assumes "drive m e w = ((r, e'), w')"
  shows "core e' = core e \<and> wgrows m w w' \<and> pw_driven w' = pw_driven w @ (if armedRedriveRefusal e = None then [pe_id e] else [])"
proof (cases "armedRedriveRefusal e")
  case None
  with assms purchase_keeps [of m e w r e' w'] show ?thesis by (simp add: drive_def)
next
  case (Some err)
  with assms have "e' = e" "w' = w" by (auto simp: drive_def)
  with Some show ?thesis by (simp add: grows_refl)
qed

lemma lifecycle_finish: "s \<in> {''approved'', ''running''} \<Longrightarrow> finished t \<Longrightarrow> lifecycle\<^sup>*\<^sup>* s t"
  by (rule r_into_rtranclp, rule lifecycle.finish) (simp_all add: finished_def)

lemma in_flight_not_final: "s \<in> {''approved'', ''running''} \<Longrightarrow> \<not> final_status s"
  by (auto simp: final_status_def)

lemma progress_rows: "updatePlanProgress m e w = (r, w') \<Longrightarrow> step m w w' \<and> pd_rows (pw_db w') = pd_rows (pw_db w)"
proof (cases "pe_plan e = [] \<or> pe_step e \<le> 0")
  case False
  assume "updatePlanProgress m e w = (r, w')"
  with False have c: "on_db (CompletePlanStep (mg_env m) (pe_plan e) (pe_step e)) w = (r, w')" by (simp add: updatePlanProgress_def)
  from step_keeps [OF keeps_rows_CompletePlanStep c] on_db_facts [OF c] keeps_rowsD [OF keeps_rows_CompletePlanStep]
  show ?thesis by auto
qed (auto simp: updatePlanProgress_def step_refl split: if_splits)

text \<open>The row is in flight, and what is about to be saved can be.\<close>

definition in_flight :: "('p, 'c) manager \<Rightarrow> execution \<Rightarrow> 'c pworld \<Rightarrow> bool" where
  "in_flight m e w = (env_ok (mg_env m) \<and> db_ok (mg_env m) (pw_db w) \<longrightarrow>
     fits (mg_env m) e \<and> (\<exists>x. row_of (pw_db w) (pe_id e) = Some x \<and> row_status x \<in> {''approved'', ''running''}))"

lemma finalize_step:
  assumes "drive m e w = ((execErr, e1), w1)"
    and "on_db (SavePurchaseExecution (mg_env m) (finalizeExecution now e1 execErr)) w1 = ((saved, e2), w2)"
    and "in_flight m e w"
  shows "step m w w2"
proof (cases "env_ok (mg_env m) \<and> db_ok (mg_env m) (pw_db w)")
  case False
  then show ?thesis by (rule step_otherwise)
next
  case True
  then have ok: "env_ok (mg_env m)" "db_ok (mg_env m) (pw_db w)" by simp_all
  note k = drive_keeps [OF assms(1)]
  let ?e = "finalizeExecution now e1 execErr"
  obtain x where x: "row_of (pw_db w) (pe_id e) = Some x" "row_status x \<in> {''approved'', ''running''}" and fit: "fits (mg_env m) e"
    using assms(3) ok unfolding in_flight_def by blast
  have id: "pe_id ?e = pe_id e" "pe_id e \<noteq> []"
    using core_facts(1) [of e1 e] k finalized(2) x(1) db_okD(2) [OF ok(2), of "pe_id e"] by (simp_all add: ids_dom)
  have ok1: "db_ok (mg_env m) (pw_db w1)" and row1: "row_of (pw_db w1) (pe_id e) = Some x"
    using growsD(1,2) [OF conjunct1 [OF conjunct2 [OF k]] ok] x(1) by simp_all
  have ms: "may_save (mg_env m) ?e (pw_db w1)"
    by (rule may_save_row [OF ok1, of _ x]) (use row1 id lifecycle_finish [OF x(2) finalized(1)] in simp_all)
  obtain db2 where s: "SavePurchaseExecution (mg_env m) ?e (pw_db w1) = ((saved, e2), db2)" "w2 = w1\<lparr>pw_db := db2\<rparr>"
    using on_db_facts [OF assms(2)] by blast
  have ev: "evolves (mg_env m) (pw_db w) (pw_db w2)"
    using grows_evolves k evolves_save [OF s(1) ms] s(2) by (auto intro: evolves_trans)
  show ?thesis
  proof (rule stepI [OF ev])
    assume calm: "calm (mg_env m)"
    have "fits (mg_env m) ?e" using fits_core k fit by (blast intro: fits_finalized)
    with calm_save [OF calm this _ s(1)] id have "saved = None" by simp
    with save_ok_row [of "mg_env m" ?e "pw_db w1" e2 db2] s(1) id have "status_of db2 (pe_id e) = Some (pe_status ?e)" by simp
    then have "settled (pw_db w2) (pe_id e)" using s(2) finished_facts(2) [OF finalized(1)] by (auto simp: settled_def)
    moreover have "\<not> settled (pw_db w) (pe_id e)"
      using x in_flight_not_final by (auto simp: settled_def status_of_row)
    ultimately show "\<exists>new. pw_driven w2 = pw_driven w @ new \<and> distinct new \<and>
        (\<forall>i \<in> set new. \<not> settled (pw_db w) i \<and> settled (pw_db w2) i)"
      using k s(2) by (intro exI [of _ "if armedRedriveRefusal e = None then [pe_id e] else []"]) simp
  qed
qed

lemma execute_step:
  assumes "executeAndFinalize m e w = (r, w')" "in_flight m e w"
  shows "step m w w'"
proof -
  obtain execErr e1 w1 where d: "drive m e w = ((execErr, e1), w1)" by (metis surj_pair)
  let ?e = "finalizeExecution (now_in m w1) e1 execErr"
  obtain saved e2 w2 where s: "on_db (SavePurchaseExecution (mg_env m) ?e) w1 = ((saved, e2), w2)" by (metis surj_pair)
  note st = finalize_step [OF d s assms(2)]
  show ?thesis
  proof (cases "saved = None \<and> execErr = None")
    case False
    then have "w' = w2" using assms(1) d s by (auto simp: executeAndFinalize_def split: option.splits)
    with st show ?thesis by simp
  next
    case True
    obtain p w3 where p: "updatePlanProgress m e2 w2 = (p, w3)" by fastforce
    have "w' = w3 \<or> (\<exists>cause. w' = snd (recordRampAdvanceRefusal m e2 cause w3))"
      using assms(1) d s True p by (auto simp: executeAndFinalize_def split: option.splits)
    moreover have "step m w3 (snd (recordRampAdvanceRefusal m e2 cause w3))" if ok: "env_ok (mg_env m) \<and> db_ok (mg_env m) (pw_db w)" for cause
    proof -
      let ?e2 = "e2\<lparr>pe_error := appendErrNote (pe_error e2) (sprintf ''ramp not advanced: %v'' [FStr (err_string cause)])\<rparr>"
      obtain q e4 w4 where q: "on_db (SavePurchaseExecution (mg_env m) ?e2) w3 = ((q, e4), w4)" by (metis surj_pair)
      obtain db2 where s2: "SavePurchaseExecution (mg_env m) ?e (pw_db w1) = ((saved, e2), db2)" "w2 = w1\<lparr>pw_db := db2\<rparr>"
        using on_db_facts [OF s] by blast
      have id: "pe_id ?e \<noteq> []"
        using assms(2) ok db_okD(2) [of "mg_env m" "pw_db w" "pe_id e"] core_facts(1) [of e1 e] drive_keeps [OF d]
        by (auto simp: in_flight_def finalized(2) ids_dom)
      have "\<exists>y. row_of (pw_db w3) (pe_id e2) = Some y \<and> row_status y = pe_status e2"
        using save_ok_row [of _ _ _ e2 db2] s2 id True Save_key [OF s2(1) id] rows_same [OF conjunct2 [OF progress_rows [OF p]]]
        by (auto simp: status_of_def)
      then have "may_save (mg_env m) ?e2 (pw_db w3)" if "db_ok (mg_env m) (pw_db w3)"
        using may_save_row [OF that, of ?e2] by auto
      with step_save [OF q] q show ?thesis by (simp add: recordRampAdvanceRefusal_def)
    qed
    ultimately show ?thesis
      using st conjunct1 [OF progress_rows [OF p]] step_trans step_otherwise [of m w w'] by blast
  qed
qed

section \<open>Claiming\<close>

lemma move_step: "move m i froms to w = (r, w') \<Longrightarrow> (\<And>s. s \<in> set froms \<Longrightarrow> lifecycle s to) \<Longrightarrow> step m w w'"
  by (erule step_db) (rule evolves_transition)

lemma move_row:
  assumes "move m i froms to w = (Inr e, w')" "db_ok (mg_env m) (pw_db w)"
  shows "pe_id e = i \<and> pe_status e = to \<and> fits (mg_env m) e \<and> (\<exists>y. row_of (pw_db w') i = Some y \<and> row_status y = to)"
proof -
  obtain db' where t: "TransitionExecutionStatus (mg_env m) i froms to (pw_db w) = (Inr e, db')" "w' = w\<lparr>pw_db := db'\<rparr>"
    using on_db_facts [OF assms(1)] by blast
  from t(1) db_okD(1) [OF assms(2)] show ?thesis
  proof (cases rule: Transition_cases)
    case (moved x now)
    have "fits (mg_env m) (xr_exec x)" "row_id x = i" using db_okD(3) [OF assms(2) moved(2)] row_of_id [OF moved(2)] by simp_all
    moreover have "row_of db' i = Some (set_status to now x)"
      using status_of_moved(3) [OF set_status_facts(2) moved(4,2,3)] .
    ultimately show ?thesis using moved(1,6) t(2) by (simp add: fits_def)
  qed simp
qed

text \<open>The attribution written between the claim and the drive.\<close>

lemma stamp_step:
  assumes "on_db (SavePurchaseExecution (mg_env m) e) w = ((r, e'), w')" "in_flight m e w"
    and "env_ok (mg_env m)" "db_ok (mg_env m) (pw_db w)" "row_of (pw_db w) (pe_id e) = Some x" "row_status x = pe_status e"
  shows "step m w w' \<and> in_flight m e' w'"
proof -
  have id: "pe_id e \<noteq> []" using assms(5) db_okD(2) [OF assms(4)] by (simp add: ids_dom)
  obtain db' where s: "SavePurchaseExecution (mg_env m) e (pw_db w) = ((r, e'), db')" "w' = w\<lparr>pw_db := db'\<rparr>"
    using on_db_facts [OF assms(1)] by blast
  have "may_save (mg_env m) e (pw_db w)" using may_save_row [OF assms(4,5)] assms(6) by simp
  with step_save [OF assms(1)] have st: "step m w w'" by simp
  have "\<exists>y. row_of db' (pe_id e) = Some y \<and> row_status y = pe_status e"
    using s(1) id
  proof (cases rule: Save_cases)
    case (failed err)
    with rows_same [OF tables_rows [OF failed(2)]] assms(5,6) show ?thesis by simp
  next
    case (stored s now)
    with save_ok_row [of "mg_env m" e "pw_db w" e' db'] s(1) id show ?thesis by (auto simp: status_of_def)
  qed
  moreover have "fits (mg_env m) e" "pe_status e \<in> {''approved'', ''running''}" using assms(2-6) unfolding in_flight_def by auto
  ultimately have "in_flight m e' w'" using Save_key [OF s(1) id] s(2) unfolding in_flight_def by auto
  with st show ?thesis by simp
qed

lemma claim_in_flight:
  "move m i froms to w = (Inr e, w') \<Longrightarrow> db_ok (mg_env m) (pw_db w) \<Longrightarrow> to \<in> {''approved'', ''running''} \<Longrightarrow> in_flight m e w'"
  using move_row unfolding in_flight_def by fastforce

lemma lifecycle_claim: "s \<in> set [''approved'', ''pending'', ''notified''] \<Longrightarrow> lifecycle s ''running''"
  by (rule lifecycle.claim) auto

lemma lifecycle_fail: "s \<in> set stuckStatuses \<Longrightarrow> lifecycle s ''failed''"
  by (rule lifecycle.finish) (auto simp: stuckStatuses_def)

lemma lifecycle_approve: "s \<in> set [''pending'', ''notified''] \<Longrightarrow> lifecycle s ''approved''"
  by (rule lifecycle.approve) auto

lemma lifecycle_fire: "s \<in> set [''scheduled''] \<Longrightarrow> lifecycle s ''approved''"
  using lifecycle.fire by simp

lemma lifecycle_cancel: "s \<in> set [''pending'', ''notified''] \<Longrightarrow> lifecycle s ''canceled''"
  by (rule lifecycle.cancel) auto

lemma claimAndExecute_step:
  assumes "claimAndExecute m e w = (r, w')"
  shows "step m w w'"
proof (cases "env_ok (mg_env m) \<and> db_ok (mg_env m) (pw_db w)")
  case False
  then show ?thesis by (rule step_otherwise)
next
  case True
  obtain q w1 where q: "move m (pe_id e) [''approved'', ''pending'', ''notified''] ''running'' w = (q, w1)" by fastforce
  note st = move_step [OF q lifecycle_claim]
  show ?thesis
  proof (cases q)
    case (Inl err)
    with assms q st show ?thesis by (simp add: claimAndExecute_def)
  next
    case (Inr e1)
    obtain p w2 where p: "executeAndFinalize m e1 w1 = (p, w2)" by fastforce
    have "in_flight m e1 w1" using claim_in_flight q Inr True by blast
    from execute_step [OF p this] st assms q Inr p show ?thesis
      by (auto simp: claimAndExecute_def intro: step_trans)
  qed
qed

lemma claimAndRedrive_step:
  assumes "claimAndRedrive m e w = (r, w')" "fits (mg_env m) e"
  shows "step m w w'"
proof (cases "env_ok (mg_env m) \<and> db_ok (mg_env m) (pw_db w)")
  case False
  then show ?thesis by (rule step_otherwise)
next
  case True
  obtain q w1 where q: "move m (pe_id e) [''approved''] ''running'' w = (q, w1)" by fastforce
  have st: "step m w w1" by (rule move_step [OF q]) (auto intro: lifecycle_claim)
  show ?thesis
  proof (cases q)
    case (Inl err)
    with assms q st show ?thesis by (simp add: claimAndRedrive_def split: if_splits)
  next
    case (Inr c)
    let ?e = "e\<lparr>pe_status := pe_status c\<rparr>"
    obtain p w2 where p: "executeAndFinalize m ?e w1 = (p, w2)" by fastforce
    have "in_flight m ?e w1"
      using move_row [of m "pe_id e" "[''approved'']" "''running''" w c w1] q Inr True assms(2)
      by (auto simp: in_flight_def fits_def execution_statuses_def)
    from execute_step [OF p this] st have "step m w w2" by (rule step_trans [rotated])
    with assms q Inr p show ?thesis by (auto simp: claimAndRedrive_def split: option.splits)
  qed
qed

text \<open>Failing a row and writing why.\<close>

lemma annotate_step:
  assumes "move m i froms to w = (Inr e, w1)" "\<And>s. s \<in> set froms \<Longrightarrow> lifecycle s to"
    and "on_db (SavePurchaseExecution (mg_env m) (e\<lparr>pe_error := msg\<rparr>)) w1 = (r, w2)"
  shows "step m w w2"
proof (cases "env_ok (mg_env m) \<and> db_ok (mg_env m) (pw_db w)")
  case False
  then show ?thesis by (rule step_otherwise)
next
  case True
  obtain q e' where r: "r = (q, e')" by fastforce
  have "may_save (mg_env m) (e\<lparr>pe_error := msg\<rparr>) (pw_db w1)" if "db_ok (mg_env m) (pw_db w1)"
    using may_save_row [OF that, of "e\<lparr>pe_error := msg\<rparr>"] move_row [OF assms(1)] True by auto
  with step_save [OF assms(3) [unfolded r]] have "step m w1 w2" by simp
  with move_step [OF assms(1,2)] show ?thesis by (blast intro: step_trans)
qed

lemma safeFail_step:
  assumes "safeFail m e w = (r, w')"
  shows "step m w w'"
proof -
  obtain q w1 where q: "move m (pe_id e) [''approved''] ''failed'' w = (q, w1)" by fastforce
  have life: "lifecycle s ''failed''" if "s \<in> set [''approved'']" for s using that lifecycle_fail by (simp add: stuckStatuses_def)
  show ?thesis
  proof (cases q)
    case (Inl err)
    obtain g w2 where g: "on_db (GetExecutionByID (mg_env m) (pe_id e)) w1 = (g, w2)" by fastforce
    have "w' = w1 \<or> w' = w2" using assms q Inl g by (auto simp: safeFail_def split: if_splits sum.splits)
    then show ?thesis using move_step [OF q life] step_reads [OF reads_GetExecutionByID g] step_trans by blast
  next
    case (Inr e1)
    obtain p w2 where p: "on_db (SavePurchaseExecution (mg_env m) (e1\<lparr>pe_error := stranded_note\<rparr>)) w1 = (p, w2)" by fastforce
    have "w' = w2" using assms q Inr p by (auto simp: safeFail_def)
    with annotate_step [OF q [unfolded Inr] life p] show ?thesis by simp
  qed
qed

lemma reapOne_step:
  assumes "reapOne m e age res w = (r, w')"
  shows "step m w w'"
proof -
  obtain q w1 where q: "move m (pe_id e) stuckStatuses ''failed'' w = (q, w1)" by fastforce
  show ?thesis
  proof (cases q)
    case (Inl err)
    with assms q move_step [OF q lifecycle_fail] show ?thesis by (simp add: reapOne_def)
  next
    case (Inr e1)
    obtain p w2 where p: "on_db (SavePurchaseExecution (mg_env m) (e1\<lparr>pe_error := reap_note e age\<rparr>)) w1 = (p, w2)" by fastforce
    have "w' = w2" using assms q Inr p by (auto simp: reapOne_def split: prod.splits option.splits)
    with annotate_step [OF q [unfolded Inr] lifecycle_fail p] show ?thesis by simp
  qed
qed

text \<open>Claim, stamp, drive.\<close>

lemma stamped_drive_step:
  assumes "move m i froms ''approved'' w = (Inr e, w1)" "\<And>s. s \<in> set froms \<Longrightarrow> lifecycle s ''approved''"
    and "on_db (SavePurchaseExecution (mg_env m) (e\<lparr>pe_approved_by := Some who\<rparr>)) w1 = ((q, e2), w2)"
    and "executeAndFinalize m e2 w2 = (r, w3)"
  shows "step m w w3"
proof (cases "env_ok (mg_env m) \<and> db_ok (mg_env m) (pw_db w)")
  case False
  then show ?thesis by (rule step_otherwise)
next
  case True
  note st = move_step [OF assms(1,2)]
  have ok1: "db_ok (mg_env m) (pw_db w1)" using st True unfolding step_def by blast
  let ?e = "e\<lparr>pe_approved_by := Some who\<rparr>"
  obtain x where row: "row_of (pw_db w1) (pe_id ?e) = Some x" "row_status x = pe_status ?e" and e: "pe_id e = i"
    using move_row [OF assms(1)] True by auto
  have "in_flight m ?e w1"
    using move_row [OF assms(1)] True by (auto simp: in_flight_def fits_def)
  from stamp_step [OF assms(3) this _ ok1 row] True have "step m w1 w2" "in_flight m e2 w2" by simp_all
  with execute_step [OF assms(4)] st show ?thesis by (blast intro: step_trans)
qed

lemma fireOneDue_step:
  assumes "fireOneDue m e w = (r, w')"
  shows "step m w w'"
proof -
  obtain q w1 where q: "move m (pe_id e) [''scheduled''] ''approved'' w = (q, w1)" by fastforce
  show ?thesis
  proof (cases q)
    case (Inl err)
    with assms q move_step [OF q lifecycle_fire] show ?thesis by (simp add: fireOneDue_def)
  next
    case (Inr e1)
    obtain s e2 w2 where s: "on_db (SavePurchaseExecution (mg_env m) (e1\<lparr>pe_approved_by := Some ''scheduler''\<rparr>)) w1 = ((s, e2), w2)"
      by (metis surj_pair)
    obtain p w3 where p: "executeAndFinalize m e2 w2 = (p, w3)" by fastforce
    have "w' = w3" using assms q Inr s p by (auto simp: fireOneDue_def split: option.splits)
    with stamped_drive_step [OF q [unfolded Inr] lifecycle_fire s p] show ?thesis by simp
  qed
qed

end
