(* ===== verification/Purchase_Workflow_Facts.thy ===== *)
theory Purchase_Workflow_Facts
  imports Purchase_Manager_Facts
begin

text \<open>
  The sweeps, the approvals, the queue handlers and the announcements are steps too, and so is
  any sequence of them.
\<close>

section \<open>The sweeps\<close>

lemma list_fits:
  assumes "db_ok env db" "es = map row_execution rows" "set rows \<subseteq> set (pd_rows db)"
  shows "\<forall>e \<in> set es. fits env e"
  using assms by (auto simp: db_ok_def)

lemma stale_fits:
  assumes "on_db (GetStaleApprovedExecutions (mg_env m) age) w = (Inr es, w')" "db_ok (mg_env m) (pw_db w)"
  shows "\<forall>e \<in> set es. fits (mg_env m) e"
proof -
  obtain d where q: "GetStaleApprovedExecutions (mg_env m) age (pw_db w) = (Inr es, d)" using on_db_facts [OF assms(1)] by blast
  then have "es = map row_execution (filter (\<lambda>x. row_status x = ''approved'' \<and> older_than (clock (mg_env m) (pw_db w)) age x) (pd_rows (pw_db w)))"
    by (auto simp: GetStaleApprovedExecutions_def queryExecutions_def dest!: ask_answer split: prod.splits sum.splits)
  from list_fits [OF assms(2) this] show ?thesis by auto
qed

lemma recover_one_step: "recover_one m e w = (r, w') \<Longrightarrow> fits (mg_env m) e \<Longrightarrow> step m w w'"
  by (auto simp: recover_one_def split: if_splits intro: claimAndRedrive_step safeFail_step)

lemma recover_all_step: "recover_all m es n w = (r, w') \<Longrightarrow> \<forall>e \<in> set es. fits (mg_env m) e \<Longrightarrow> step m w w'"
proof (induction es arbitrary: n w)
  case Nil
  then show ?case by (auto intro: step_refl)
next
  case (Cons e es)
  obtain q w1 where q: "recover_one m e w = (q, w1)" by fastforce
  have st: "step m w w1" using recover_one_step [OF q] Cons.prems(2) by simp
  show ?case
  proof (cases q)
    case (Inl err)
    with Cons.prems(1) q st show ?thesis by simp
  next
    case (Inr b)
    with Cons.prems q have "recover_all m es (if b then n + 1 else n) w1 = (r, w')" by simp
    from Cons.IH [OF this] Cons.prems(2) st show ?thesis by (auto intro: step_trans)
  qed
qed

lemma recover_step:
  assumes "RecoverStrandedApprovals m w = (r, w')"
  shows "step m w w'"
proof (cases "env_ok (mg_env m) \<and> db_ok (mg_env m) (pw_db w)")
  case False
  then show ?thesis by (rule step_otherwise)
next
  case True
  obtain q w1 where q: "on_db (GetStaleApprovedExecutions (mg_env m) staleApprovedThreshold) w = (q, w1)" by fastforce
  note st = step_reads [OF reads_lists(1) q]
  show ?thesis
  proof (cases q)
    case (Inl err)
    with assms q st show ?thesis by (simp add: RecoverStrandedApprovals_def)
  next
    case (Inr es)
    with assms q have "recover_all m es 0 w1 = (r, w')" by (simp add: RecoverStrandedApprovals_def)
    with recover_all_step stale_fits q Inr True have "step m w1 w'" by blast
    with st show ?thesis by (rule step_trans)
  qed
qed

lemma executable_step: "executableByScheduler m e w = (r, w') \<Longrightarrow> step m w w'"
  by (auto simp: executableByScheduler_def split: if_splits prod.splits sum.splits intro: step_refl step_reads [OF reads_tables(5)])

lemma processOne_step:
  assumes "processOneExecution m e res w = (r, w')"
  shows "step m w w'"
proof -
  obtain g w1 where g: "executableByScheduler m e w = (g, w1)" by fastforce
  obtain c w2 where c: "claimAndExecute m e w1 = (c, w2)" by fastforce
  have "w' = w1 \<or> w' = w2"
    using assms g c by (auto simp: processOneExecution_def Let_def split: sum.splits bool.splits prod.splits option.splits)
  with executable_step [OF g] claimAndExecute_step [OF c] show ?thesis by (blast intro: step_trans)
qed

lemma process_due_step: "process_due m now es res w = (r, w') \<Longrightarrow> step m w w'"
proof (induction es arbitrary: res w)
  case (Cons e es)
  show ?case
  proof (cases "now < pe_scheduled e \<or> pe_status e \<notin> {''pending'', ''notified''}")
    case True
    with Cons show ?thesis by simp
  next
    case False
    obtain res1 w1 where p: "processOneExecution m e res w = (res1, w1)" by fastforce
    with Cons.prems have "process_due m now es res1 w1 = (r, w')" by (simp only: process_due.simps if_not_P [OF False] prod.case)
    from Cons.IH [OF this] processOne_step [OF p] show ?thesis by (blast intro: step_trans)
  qed
qed (auto intro: step_refl)

lemma scheduled_pass_step:
  assumes "ProcessScheduledPurchases m w = (r, w')"
  shows "step m w w'"
proof -
  obtain n err w1 where a: "RecoverStrandedApprovals m w = ((n, err), w1)" by (metis surj_pair)
  obtain q w2 where q: "on_db (GetPendingExecutions (mg_env m)) w1 = (q, w2)" by fastforce
  note st = step_trans [OF recover_step [OF a] step_reads [OF reads_lists(3) q]]
  show ?thesis
  proof (cases q)
    case (Inl e)
    with assms a q st show ?thesis by (simp add: ProcessScheduledPurchases_def)
  next
    case (Inr es)
    obtain res w3 where p: "process_due m (now_in m w2) es
        \<lparr>ps_errors = [], ps_processed = 0, ps_executed = 0, ps_failed = 0, ps_recovered = n\<rparr> w2 = (res, w3)" by fastforce
    with assms a q Inr have "w' = w3" by (simp add: ProcessScheduledPurchases_def)
    with st process_due_step [OF p] show ?thesis by (blast intro: step_trans)
  qed
qed

lemma reap_all_step: "reap_all m age es res w = (r, w') \<Longrightarrow> step m w w'"
proof (induction es arbitrary: res w)
  case (Cons e es)
  obtain res1 w1 where p: "reapOne m e age res w = (res1, w1)" by fastforce
  with Cons.prems have "reap_all m age es res1 w1 = (r, w')" by simp
  from Cons.IH [OF this] reapOne_step [OF p] show ?case by (blast intro: step_trans)
qed (auto intro: step_refl)

lemma reap_step:
  assumes "ReapStuckExecutions m age w = (r, w')"
  shows "step m w w'"
proof -
  obtain q w1 where q: "on_db (ListStuckExecutions (mg_env m) stuckStatuses age) w = (q, w1)" by fastforce
  note st = step_reads [OF reads_lists(2) q]
  show ?thesis
  proof (cases q)
    case (Inl e)
    with assms q st show ?thesis by (simp add: ReapStuckExecutions_def)
  next
    case (Inr es)
    obtain res w2 where p: "reap_all m age es \<lparr>re_found = int (length es), re_reaped = 0, re_race_lost = 0, re_errored = 0\<rparr> w1 = (res, w2)"
      by fastforce
    with assms q Inr have "w' = w2" by (simp add: ReapStuckExecutions_def)
    with st reap_all_step [OF p] show ?thesis by (blast intro: step_trans)
  qed
qed

lemma fire_all_step: "fire_all m es res w = (r, w') \<Longrightarrow> step m w w'"
proof (induction es arbitrary: res w)
  case (Cons e es)
  obtain o1 w1 where p: "fireOneDue m e w = (o1, w1)" by fastforce
  with Cons.prems have "fire_all m es (count_fire o1 res) w1 = (r, w')" by simp
  from Cons.IH [OF this] fireOneDue_step [OF p] show ?case by (blast intro: step_trans)
qed (auto intro: step_refl)

lemma fire_step:
  assumes "FireScheduledDelayedPurchases m w = (r, w')"
  shows "step m w w'"
proof -
  obtain q w1 where q: "on_db (GetScheduledExecutionsDue (mg_env m)) w = (q, w1)" by fastforce
  note st = step_reads [OF reads_lists(4) q]
  show ?thesis
  proof (cases q)
    case (Inl e)
    with assms q st show ?thesis by (simp add: FireScheduledDelayedPurchases_def)
  next
    case (Inr es)
    obtain res w2 where p: "fire_all m es \<lparr>fi_found = int (length es), fi_fired = 0, fi_race_lost = 0, fi_errored = 0\<rparr> w1 = (res, w2)"
      by fastforce
    with assms q Inr have "w' = w2" by (simp add: FireScheduledDelayedPurchases_def)
    with st fire_all_step [OF p] show ?thesis by (blast intro: step_trans)
  qed
qed

section \<open>Approving\<close>

lemma quiet_step: "quiet w w' \<Longrightarrow> step m w w'"
  by (rule step_rows) (simp_all add: quiet_def)

lemma load_quiet: "load_execution m i w = (r, w') \<Longrightarrow> quiet w w'"
  by (auto simp: load_execution_def split: prod.splits sum.splits dest!: quiet_reads [OF reads_GetExecutionByID])

lemma approver_quiet: "checkDifferentApprover m e actor u w = (r, w') \<Longrightarrow> quiet w w'"
  by (auto simp: checkDifferentApprover_def Let_def split: option.splits if_splits prod.splits sum.splits
      dest!: quiet_reads [OF reads_tables(2)])

lemma four_eyes_load_quiet: "loadExecutionForFourEyes m i w = (r, w') \<Longrightarrow> quiet w w'"
  by (auto simp: loadExecutionForFourEyes_def split: prod.splits sum.splits dest!: quiet_reads [OF reads_GetExecutionByID])

lemma four_eyes_quiet:
  assumes "enforceFourEyesPolicy m i actor u w = (r, w')"
  shows "quiet w w'"
proof -
  obtain g w1 where g: "on_db (GetGlobalConfig (mg_env m)) w = (g, w1)" by fastforce
  obtain l w2 where l: "loadExecutionForFourEyes m i w1 = (l, w2)" by fastforce
  have "w' = w1 \<or> w' = w2 \<or> (\<exists>e. checkDifferentApprover m e actor u w2 = (r, w'))"
    using assms g l by (auto simp: enforceFourEyesPolicy_def split: sum.splits if_splits option.splits)
  then show ?thesis
    using quiet_reads [OF reads_tables(1) g] four_eyes_load_quiet [OF l] approver_quiet by (blast intro: quiet_trans)
qed

lemma approve_step:
  assumes "ApproveAndExecute m i actor u w = (r, w')"
  shows "step m w w'"
proof -
  obtain p w1 where p: "enforceFourEyesPolicy m i actor u w = (p, w1)" by fastforce
  note st = quiet_step [OF four_eyes_quiet [OF p], of m]
  obtain q w2 where q: "move m i [''pending'', ''notified''] ''approved'' w1 = (q, w2)" by fastforce
  note mv = step_trans [OF st move_step [OF q lifecycle_approve]]
  show ?thesis
  proof (cases "p \<noteq> None \<or> isl q")
    case True
    with assms p q have "w' = w1 \<or> w' = w2" by (auto simp: ApproveAndExecute_def isl_def split: option.splits)
    with st mv show ?thesis by blast
  next
    case False
    then obtain e where e: "p = None" "q = Inr e" by (cases q) auto
    show ?thesis
    proof (cases "actor = []")
      case True
      with assms p q e have x: "executeAndFinalize m e w2 = (r, w')" by (simp add: ApproveAndExecute_def)
      have "step m w1 w'"
      proof (cases "env_ok (mg_env m) \<and> db_ok (mg_env m) (pw_db w1)")
        case True
        with claim_in_flight q e(2) have "in_flight m e w2" by blast
        from execute_step [OF x this] move_step [OF q lifecycle_approve] show ?thesis by (blast intro: step_trans)
      qed (rule step_otherwise)
      with st show ?thesis by (rule step_trans)
    next
      case False
      obtain s e2 w3 where s: "on_db (SavePurchaseExecution (mg_env m) (e\<lparr>pe_approved_by := Some actor\<rparr>)) w2 = ((s, e2), w3)"
        by (metis surj_pair)
      from False assms p q e s have "executeAndFinalize m e2 w3 = (r, w')" by (simp add: ApproveAndExecute_def)
      from stamped_drive_step [OF q [unfolded e(2)] lifecycle_approve s this] st show ?thesis by (blast intro: step_trans)
    qed
  qed
qed

text \<open>Rewriting the row just read.\<close>

lemma resave_step:
  assumes "on_db (GetExecutionByID (mg_env m) i) w = (Inr e, w1)" "quiet w1 w2 \<or> fresh f w1 = (v, w2)"
    and "on_db (SavePurchaseExecution (mg_env m) e') w2 = (r, w3)" "pe_id e' = pe_id e" "pe_status e' = pe_status e"
  shows "step m w w3"
proof (cases "env_ok (mg_env m) \<and> db_ok (mg_env m) (pw_db w)")
  case False
  then show ?thesis by (rule step_otherwise)
next
  case True
  obtain d where d: "GetExecutionByID (mg_env m) i (pw_db w) = (Inr e, d)" "w1 = w\<lparr>pw_db := d\<rparr>"
    using on_db_facts [OF assms(1)] by blast
  from Get_row [OF d(1)] db_okD(1) [of "mg_env m" "pw_db w"] True
  obtain x where x: "row_of (pw_db w) i = Some x" "e = row_execution x" "tables d = tables (pw_db w)" by blast
  have rows: "pd_rows (pw_db w2) = pd_rows (pw_db w)"
    using assms(2) d(2) tables_rows [OF x(3)] by (auto simp: quiet_def fresh_def on_db_def)
  have st: "step m w w2"
    using assms(2)
  proof
    assume "quiet w1 w2"
    from step_trans [OF step_reads [OF reads_GetExecutionByID assms(1)] quiet_step [OF this]] show ?thesis .
  next
    assume "fresh f w1 = (v, w2)"
    from step_trans [OF step_reads [OF reads_GetExecutionByID assms(1)] step_fresh [OF this]] show ?thesis .
  qed
  obtain q e2 where r: "r = (q, e2)" by fastforce
  have "row_of (pw_db w2) (pe_id e') = Some x" "row_status x = pe_status e'"
    using x(1,2) rows_same [OF rows] row_of_id [OF x(1)] assms(4,5) by simp_all
  then have "step m w2 w3" using step_save [OF assms(3) [unfolded r]] may_save_row by fastforce
  with st show ?thesis by (rule step_trans)
qed

lemma mint_step:
  assumes "mintRevocationToken m i w = (r, w')"
  shows "step m w w'"
proof -
  obtain q w1 where q: "on_db (GetExecutionByID (mg_env m) i) w = (q, w1)" by fastforce
  obtain t w2 where t: "fresh (mg_token m) w1 = (t, w2)" by fastforce
  note st = step_reads [OF reads_GetExecutionByID q, of m] step_fresh [OF t, of m]
  show ?thesis
  proof (cases "isl q \<or> isl t")
    case True
    with assms q t have "w' = w1 \<or> w' = w2" by (auto simp: mintRevocationToken_def isl_def split: sum.splits)
    with st show ?thesis by (blast intro: step_trans)
  next
    case False
    then obtain e tok where e: "q = Inr e" "t = Inr tok" by (cases q; cases t) auto
    let ?e = "e\<lparr>pe_token := tok, pe_token_expires := Some (now_in m w2 + RevocationWindow)\<rparr>"
    obtain s w3 where s: "on_db (SavePurchaseExecution (mg_env m) ?e) w2 = (s, w3)" by fastforce
    have "w' = w3" using assms q t e s by (auto simp: mintRevocationToken_def split: prod.splits)
    with resave_step [OF q [unfolded e(1)] disjI2 [OF t] s] show ?thesis by simp
  qed
qed

lemma clear_step:
  assumes "clearApprovalToken m i w = (r, w')"
  shows "step m w w'"
proof -
  obtain q w1 where q: "on_db (GetExecutionByID (mg_env m) i) w = (q, w1)" by fastforce
  show ?thesis
  proof (cases q)
    case (Inl err)
    with assms q step_reads [OF reads_GetExecutionByID q] show ?thesis by (simp add: clearApprovalToken_def)
  next
    case (Inr e)
    obtain s w3 where s: "on_db (SavePurchaseExecution (mg_env m) (e\<lparr>pe_token := [], pe_token_expires := None\<rparr>)) w1 = (s, w3)"
      by fastforce
    have "w' = w3" using assms q Inr s by (auto simp: clearApprovalToken_def split: prod.splits)
    with resave_step [OF q [unfolded Inr] disjI1 [OF quiet_refl] s] show ?thesis by simp
  qed
qed

lemma ApproveExecution_step:
  assumes "ApproveExecution m i token actor w = (r, w')"
  shows "step m w w'"
proof -
  obtain l w1 where l: "load_execution m i w = (l, w1)" by fastforce
  obtain a w2 where a: "ApproveAndExecute m i actor None w1 = (a, w2)" by fastforce
  obtain t w3 where t: "mintRevocationToken m i w2 = (t, w3)" by fastforce
  have "w' = w1 \<or> w' = w2 \<or> w' = w3"
    using assms l a t by (auto simp: ApproveExecution_def split: sum.splits option.splits)
  then show ?thesis
    using quiet_step [OF load_quiet [OF l]] approve_step [OF a] mint_step [OF t] by (blast intro: step_trans)
qed

section \<open>Canceling\<close>

text \<open>The rows after a cancellation attempt; it reads and deletes nothing else.\<close>

lemma cancel_from_cases:
  assumes "cancel_from froms what env i who db = (r, db')" "distinct (map row_id (pd_rows db))"
  obtains (kept) "pd_rows db' = pd_rows db" "pd_generated db' = pd_generated db" "\<forall>st. r \<noteq> Inr (True, st)"
  | (canceled) x now where "r = Inr (True, ''canceled'')" "row_of db i = Some x" "row_status x \<in> set froms"
      "pd_rows db' = update_rows (movable i froms) (\<lambda>x. (set_status ''canceled'' now x)\<lparr>xr_canceled_by := who\<rparr>) (pd_rows db)"
      "pd_generated db' = pd_generated db"
proof -
  define now where "now = clock env db"
  define f where "f = (\<lambda>x. (set_status ''canceled'' now x)\<lparr>xr_canceled_by := who\<rparr>)"
  obtain q db1 where q: "run_stmt env (move_rows i froms ''canceled'' f) db = (q, db1)" by fastforce
  let ?db = "db\<lparr>pd_statements := Suc (pd_statements db)\<rparr>"
  have d: "distinct (map row_id (pd_rows ?db))" "row_of ?db = row_of db" using assms(2) rows_same [of ?db db] by simp_all
  have r: "(r, db') = (case (q, db1) of
       (Inl e, db') \<Rightarrow> (Inl (wrap_err what e), db')
     | (Inr (x # _), db') \<Rightarrow> (Inr (True, row_status x), db')
     | (Inr [], db') \<Rightarrow>
       (case GetExecutionByID env i db' of
          (Inl e, db'') \<Rightarrow> (Inl (wrap_err ''execution not found or db error: '' e), db'')
        | (Inr existing, db'') \<Rightarrow> (Inr (False, pe_status existing), db'')))"
    using assms(1) unfolding cancel_from_def now_def [symmetric] f_def [symmetric] q by simp
  from q show thesis
  proof (cases rule: run_stmt_cases)
    case (failed err)
    with r tables_rows [OF failed(2)] show thesis by (intro kept) auto
  next
    case (ran ys)
    have fid: "row_id (f x) = row_id x" for x by (simp add: f_def)
    from ran(3) fid d(1) show thesis
    proof (cases rule: move_rows_cases)
      case none
      obtain g db2 where g: "GetExecutionByID env i db1 = (g, db2)" by fastforce
      note rd = readsD [OF reads_GetExecutionByID g]
      have "db' = db2" "\<forall>st. r \<noteq> Inr (True, st)"
        using r ran(1) none(1) g by (auto split: sum.splits)
      then show thesis using rd tables_rows [of db2 db1] none(2) by (intro kept) auto
    next
      case (one x)
      have "r = Inr (True, ''canceled'')" "db' = db1" using r ran(1) one(1) by (simp_all add: f_def)
      moreover have "pd_generated db1 = pd_generated db" using one(6) by (cases db; cases db1) simp
      ultimately show thesis using one(2-5) d(2) unfolding f_def by (intro canceled [of x now]) simp_all
    qed
  qed
qed

lemma cancel_evolves:
  assumes "cancel_from froms what env i who db = (r, db')" "\<And>s. s \<in> set froms \<Longrightarrow> R s ''canceled''"
  shows "evolves_by R env db db'"
proof (cases "env_ok env \<and> db_ok env db")
  case False
  then show ?thesis by (rule evolves_otherwise)
next
  case True
  with assms(1) db_okD(1) [OF conjunct2 [OF True]] show ?thesis
  proof (cases rule: cancel_from_cases)
    case kept
    then show ?thesis by (intro evolves_rows) simp_all
  next
    case (canceled x now)
    show ?thesis
      by (rule evolves_moved [OF _ canceled(4,2,3), of "''canceled''"])
         (use canceled(5) assms(2) in \<open>simp_all add: execution_statuses_def\<close>)
  qed
qed

lemma cancel_generated:
  assumes "cancel_from froms what env i who db = (r, db')"
  shows "pd_generated db' = pd_generated db"
proof -
  have g: "pd_generated d2 = pd_generated d1" if "GetExecutionByID env i d1 = (u, d2)" for d1 d2 u
    using readsD [OF reads_GetExecutionByID that] by simp
  have m: "pd_generated d2 = pd_generated d1" if "run_stmt env (move_rows i froms to f) d1 = (u, d2)" for d1 d2 to f u
    using that by (auto simp: run_stmt_def move_rows_def Let_def split: option.splits if_splits)
  show ?thesis using assms unfolding cancel_from_def
    by (auto split: prod.splits sum.splits list.splits dest!: g m)
qed

lemma keeps_rows_suppressions: "keeps_rows (DeleteSuppressionsByExecutionTx env i)"
  by (simp add: keeps_rows_def DeleteSuppressionsByExecutionTx_def run_stmt_def Let_def split: option.split)

text \<open>A transaction that cancels and then drops the suppressions.\<close>

lemma cancel_body_evolves:
  assumes "cancel_from froms what env i who db = (q, db1)" "db' = db1 \<or> db' = snd (DeleteSuppressionsByExecutionTx env i db1)"
    "\<And>s. s \<in> set froms \<Longrightarrow> R s ''canceled''"
  shows "evolves_by R env db db'" "pd_generated db \<le> pd_generated db'"
proof -
  obtain s db2 where s: "DeleteSuppressionsByExecutionTx env i db1 = (s, db2)" by fastforce
  note k = keeps_rowsD [OF keeps_rows_suppressions s] and c = cancel_generated [OF assms(1)]
  have "evolves_by R env db1 db2" using k by (intro evolves_rows) simp_all
  with cancel_evolves [where R = R, OF assms(1)] assms(2,3) s show "evolves_by R env db db'" by (auto intro: evolves_trans)
  show "pd_generated db \<le> pd_generated db'" using k c assms(2) s by auto
qed

lemma cancel_tx_evolves:
  assumes "cancel_tx env i who db = (r, db')"
  shows "evolves env db db'" "pd_generated db \<le> pd_generated db'"
proof -
  obtain q db1 where q: "CancelExecutionAtomic env i who db = (q, db1)" by fastforce
  have "db' = db1 \<or> db' = snd (DeleteSuppressionsByExecutionTx env i db1)"
    using assms q by (auto simp: cancel_tx_def split: sum.splits prod.splits bool.splits)
  from cancel_body_evolves [OF q [unfolded CancelExecutionAtomic_def] this, of lifecycle]
  show "evolves env db db'" "pd_generated db \<le> pd_generated db'" using lifecycle_cancel by auto
qed

text \<open>A transaction changes the tables only where its body succeeds.\<close>

lemma evolves_WithTx:
  assumes "WithTx env a body db = ((r, x), db')"
    and "\<And>d d'. tables d = tables db \<Longrightarrow> pd_generated d = pd_generated db \<Longrightarrow> body d = ((None, x), d') \<Longrightarrow> evolves_by R env d d'"
    and "\<And>d y d'. body d = (y, d') \<Longrightarrow> pd_generated d \<le> pd_generated d'"
  shows "evolves_by R env db db'"
  using assms(1)
proof (cases rule: WithTx_cases)
  case (failed err)
  with WithTx_generated [OF assms(1,3)] show ?thesis by (intro evolves_tables)
next
  case (committed db1 db2)
  have "evolves_by R env db db1" "evolves_by R env db2 db'" using committed by (auto intro: evolves_tables)
  with assms(2) [OF committed(2-4)] show ?thesis by (blast intro: evolves_trans)
qed

lemma cancelable_quiet:
  assumes "loadCancelableExecution m i token w = (r, w')"
  shows "quiet w w'"
proof -
  obtain l w1 where l: "load_execution m i w = (l, w1)" by fastforce
  have "w' = w1" using assms l by (auto simp: loadCancelableExecution_def split: sum.splits option.splits)
  with load_quiet [OF l] show ?thesis by simp
qed

lemma CancelExecution_step:
  assumes "CancelExecution m i token actor w = (r, w')"
  shows "step m w w'"
proof -
  let ?who = "if actor = [] then None else Some actor"
  obtain l w1 where l: "loadCancelableExecution m i token w = (l, w1)" by fastforce
  obtain e b st w2 where t: "on_db (WithTx (mg_env m) (False, []) (cancel_tx (mg_env m) i ?who)) w1 = ((e, b, st), w2)"
    by (metis surj_pair)
  obtain c w3 where c: "clearApprovalToken m i w2 = (c, w3)" by fastforce
  have "w' = w1 \<or> w' = w2 \<or> w' = w3"
    using assms l t c unfolding CancelExecution_def by (auto split: sum.splits option.splits bool.splits)
  moreover have "step m w1 w2"
    by (rule step_db [OF t]) (erule evolves_WithTx, auto intro: cancel_tx_evolves)
  ultimately show ?thesis
    using quiet_step [OF cancelable_quiet [OF l]] clear_step [OF c] by (blast intro: step_trans)
qed

section \<open>The queue\<close>

lemma handleExecute_step:
  assumes "handleExecutePurchase m i w = (r, w')"
  shows "step m w w'"
proof -
  obtain g w1 where g: "on_db (GetExecutionByID (mg_env m) i) w = (g, w1)" by fastforce
  note st = step_reads [OF reads_GetExecutionByID g, of m]
  show ?thesis
  proof (cases "i = [] \<or> isl g")
    case True
    with assms g have "w' = w \<or> w' = w1" by (auto simp: handleExecutePurchase_def isl_def split: if_splits)
    with st step_refl show ?thesis by blast
  next
    case False
    then obtain e where e: "i \<noteq> []" "g = Inr e" by (cases g) auto
    obtain q w2 where q: "checkAutoExecuteGate m e w1 = (q, w2)" by fastforce
    obtain b err w3 where c: "claimAndExecute m e w2 = ((b, err), w3)" by (metis surj_pair)
    have "w' = w2 \<or> w' = w3"
      using assms e g q c by (auto simp: handleExecutePurchase_def split: option.splits bool.splits)
    moreover have "step m w1 w2"
      using q executable_step
      by (auto simp: checkAutoExecuteGate_def split: if_splits prod.splits sum.splits bool.splits intro: step_refl)
    ultimately show ?thesis using st claimAndExecute_step [OF c] by (blast intro: step_trans)
  qed
qed

lemma contacts_quiet: "gather_contacts m as es recs w = (r, w') \<Longrightarrow> quiet w w'"
proof (induction recs arbitrary: as es w r)
  case (Cons x recs)
  show ?case
  proof (cases "rr_account x = None \<or> rr_account x = Some [] \<or> the (rr_account x) \<in> as")
    case True
    with Cons show ?thesis by (auto split: option.splits if_splits)
  next
    case False
    then obtain i where i: "rr_account x = Some i" "i \<noteq> []" "i \<notin> as" by auto
    obtain a w1 where a: "on_db (GetCloudAccount (mg_env m) i) w = (a, w1)" by fastforce
    have "w' = w1 \<or> (\<exists>as es r. gather_contacts m as es recs w1 = (r, w'))"
      using Cons.prems i a by (auto simp: Let_def split: sum.splits option.splits if_splits prod.splits)
    then show ?thesis using quiet_reads [OF reads_tables(3) a] Cons.IH quiet_trans by blast
  qed
qed simp

lemma verify_quiet:
  assumes "verifyAsyncApprovalActor m i token actor w = (r, w')"
  shows "quiet w w'"
proof (cases "trim_space actor = []")
  case True
  with assms show ?thesis by (simp add: verifyAsyncApprovalActor_def)
next
  case False
  obtain l w1 where l: "loadAsyncExecutionForApproval m i token w = (l, w1)" by fastforce
  have q: "quiet w w1"
    using l load_quiet by (auto simp: loadAsyncExecutionForApproval_def split: prod.splits sum.splits)
  have "w' = w1 \<or> (\<exists>e. l = Inr e \<and> matchActorAgainstApprovers m actor (pe_recs e) w1 = (r, w'))"
    using False assms l by (auto simp: verifyAsyncApprovalActor_def split: sum.splits)
  moreover have "quiet w1 w'" if "matchActorAgainstApprovers m actor recs w1 = (r, w')" for recs
    using that contacts_quiet
    by (auto simp: matchActorAgainstApprovers_def gatherApproverContactEmails_def split: prod.splits sum.splits)
  ultimately show ?thesis using q quiet_trans by blast
qed

lemma handleApprove_step:
  assumes "handleApproveMessage m i token actor w = (r, w')"
  shows "step m w w'"
proof -
  obtain v w1 where v: "verifyAsyncApprovalActor m i token actor w = (v, w1)" by fastforce
  obtain a w2 where a: "ApproveExecution m i token actor w1 = (a, w2)" by fastforce
  have "w' = w \<or> w' = w1 \<or> w' = w2" using assms v a by (auto simp: handleApproveMessage_def split: if_splits option.splits)
  then show ?thesis using quiet_step [OF verify_quiet [OF v]] ApproveExecution_step [OF a] by (blast intro: step_refl step_trans)
qed

lemma handleCancel_step:
  assumes "handleCancelMessage m i token actor w = (r, w')"
  shows "step m w w'"
proof -
  obtain v w1 where v: "verifyAsyncApprovalActor m i token actor w = (v, w1)" by fastforce
  obtain a w2 where a: "CancelExecution m i token actor w1 = (a, w2)" by fastforce
  have "w' = w \<or> w' = w1 \<or> w' = w2" using assms v a by (auto simp: handleCancelMessage_def split: if_splits option.splits)
  then show ?thesis using quiet_step [OF verify_quiet [OF v]] CancelExecution_step [OF a] by (blast intro: step_refl step_trans)
qed

section \<open>Announcing\<close>

lemma announce_new_step:
  assumes "fresh (pv_uuid (mg_env m)) w = (i, w1)"
    and "on_db (SavePurchaseExecution (mg_env m) (plan_execution p date tok ex i)) w1 = ((r, e), w2)"
  shows "step m w w2"
proof (cases "env_ok (mg_env m) \<and> db_ok (mg_env m) (pw_db w)")
  case False
  then show ?thesis by (rule step_otherwise)
next
  case True
  let ?e = "plan_execution p date tok ex i"
  have i: "i = pv_uuid (mg_env m) (pd_generated (pw_db w))" and g: "pd_generated (pw_db w1) = Suc (pd_generated (pw_db w))"
    and rows: "pd_rows (pw_db w1) = pd_rows (pw_db w)"
    using assms(1) by (auto simp: fresh_def on_db_def)
  have "i \<notin> ids (pw_db w)" using True i by (simp add: db_ok_def)
  then have "status_of (pw_db w1) i = None" using rows_same [OF rows] by (simp add: ids_dom status_of_def)
  moreover have "i \<noteq> []" using True i unfolding env_ok_def by (metis rangeI)
  moreover have "\<forall>n \<ge> pd_generated (pw_db w1). pv_uuid (mg_env m) n \<noteq> i"
    using True i g unfolding env_ok_def by (metis injD Suc_n_not_le_n)
  ultimately have "may_save (mg_env m) ?e (pw_db w1)" by (simp add: may_save_by_def plan_execution_def first_status_def)
  with step_save [OF assms(2)] have "step m w1 w2" by simp
  with step_fresh [OF assms(1)] show ?thesis by (rule step_trans)
qed

lemma getOrCreate_step:
  assumes "getOrCreateExecution m p date w = (r, w')"
  shows "step m w w'"
proof -
  obtain g w1 where g: "on_db (GetExecutionByPlanAndDate (mg_env m) (pp_id p) date) w = (g, w1)" by fastforce
  obtain t w2 where t: "fresh (mg_token m) w1 = (t, w2)" by fastforce
  obtain i w3 where i: "fresh (pv_uuid (mg_env m)) w2 = (i, w3)" by fastforce
  note st = step_reads [OF reads_GetExecutionByPlanAndDate g, of m] step_fresh [OF t, of m]
  show ?thesis
  proof (cases t)
    case (Inl err)
    with assms g t have "w' = w1 \<or> w' = w2" by (auto simp: getOrCreateExecution_def split: sum.splits if_splits)
    with st show ?thesis by (blast intro: step_trans)
  next
    case (Inr tok)
    obtain q e w4 where s: "on_db (SavePurchaseExecution (mg_env m)
        (plan_execution p date tok (now_in m w3 + ApprovalTokenTTL) i)) w3 = ((q, e), w4)" by (metis surj_pair)
    have "w' = w1 \<or> w' = w4"
      using assms g t i Inr s by (auto simp: getOrCreateExecution_def split: sum.splits if_splits option.splits)
    with st announce_new_step [OF i s] show ?thesis by (blast intro: step_trans)
  qed
qed

lemma sendPlan_step:
  assumes "sendPlanNotification m p date w = (r, w')"
  shows "step m w w'"
proof -
  let ?days = "days_until (now_in m w) date"
  obtain g w1 where g: "getOrCreateExecution m p date w = (g, w1)" by fastforce
  note st = getOrCreate_step [OF g]
  show ?thesis
  proof (cases g)
    case (Inl err)
    with assms g st show ?thesis by (simp add: sendPlanNotification_def)
  next
    case (Inr e)
    obtain a w2 where a: "notify_email m w1 = (a, w2)" by fastforce
    have q: "quiet w1 w2"
      using a by (auto simp: notify_email_def split: prod.splits sum.splits dest!: quiet_reads [OF reads_tables(1)])
    obtain s w3 where s: "on_cloud (mg_announce m (buildNotificationData m p e ?days a)) w2 = (s, w3)" by fastforce
    obtain u w4 where u: "on_db (UpdatePurchasePlan (mg_env m) (p\<lparr>pp_last_notified := Some (now_in m w3)\<rparr>)) w3 = (u, w4)" by fastforce
    have "w' = w2 \<or> w' = w3 \<or> w' = w4"
      using assms g Inr a s u by (auto simp: sendPlanNotification_def Let_def split: if_splits option.splits)
    with st quiet_step [OF q] step_cloud [OF s] step_keeps [OF keeps_rows_UpdatePurchasePlan u] show ?thesis
      by (blast intro: step_trans)
  qed
qed

lemma notify_plans_step: "notify_plans m ps n w = (r, w') \<Longrightarrow> step m w w'"
proof (induction ps arbitrary: n w)
  case (Cons p ps)
  show ?case
  proof (cases "shouldNotifyPlan (now_in m w) p")
    case False
    with Cons show ?thesis by simp
  next
    case True
    obtain b w1 where b: "sendPlanNotification m p (the (pp_next p)) w = (b, w1)" by fastforce
    with Cons.prems True have "notify_plans m ps (if b then n + 1 else n) w1 = (r, w')" by simp
    from Cons.IH [OF this] sendPlan_step [OF b] show ?thesis by (blast intro: step_trans)
  qed
qed (auto intro: step_refl)

lemma announcements_step:
  assumes "SendUpcomingPurchaseNotifications m w = (r, w')"
  shows "step m w w'"
proof -
  obtain q w1 where q: "on_db (ListPurchasePlans (mg_env m)) w = (q, w1)" by fastforce
  have "w' = w1 \<or> (\<exists>ps n. notify_plans m ps 0 w1 = (n, w'))"
    using assms q by (auto simp: SendUpcomingPurchaseNotifications_def split: sum.splits prod.splits)
  then show ?thesis using step_reads [OF reads_tables(6) q] notify_plans_step by (blast intro: step_trans)
qed

lemma message_step: "ProcessMessage m body w = (r, w') \<Longrightarrow> step m w w'"
  by (auto simp: ProcessMessage_def split: option.splits if_splits prod.splits sum.splits
      intro: step_refl handleExecute_step handleApprove_step handleCancel_step announcements_step)

section \<open>Any sequence of operations\<close>

text \<open>What reaches the manager: the dashboard's approval, the approval and cancel links, a queue
  message, and the scheduled tasks.\<close>

datatype purchase_op =
  SessionApprove string string "string option"
| LinkApprove string string string
| LinkCancel string string string
| Message "async_message option"
| ScheduledPass
| Reap int
| FireDue

fun run_op :: "('p, 'c) manager \<Rightarrow> purchase_op \<Rightarrow> 'c pworld \<Rightarrow> 'c pworld" where
  "run_op m (SessionApprove i actor u) w = snd (ApproveAndExecute m i actor u w)"
| "run_op m (LinkApprove i token actor) w = snd (ApproveExecution m i token actor w)"
| "run_op m (LinkCancel i token actor) w = snd (CancelExecution m i token actor w)"
| "run_op m (Message body) w = snd (ProcessMessage m body w)"
| "run_op m ScheduledPass w = snd (ProcessScheduledPurchases m w)"
| "run_op m (Reap age) w = snd (ReapStuckExecutions m age w)"
| "run_op m FireDue w = snd (FireScheduledDelayedPurchases m w)"

fun run_ops :: "('p, 'c) manager \<Rightarrow> purchase_op list \<Rightarrow> 'c pworld \<Rightarrow> 'c pworld" where
  "run_ops m [] w = w"
| "run_ops m (op # ops) w = run_ops m ops (run_op m op w)"

lemma run_op_step: "step m w (run_op m op w)"
proof (cases op)
  case (SessionApprove i actor u)
  then show ?thesis using approve_step by (metis prod.collapse run_op.simps(1))
next
  case (LinkApprove i token actor)
  then show ?thesis using ApproveExecution_step by (metis prod.collapse run_op.simps(2))
next
  case (LinkCancel i token actor)
  then show ?thesis using CancelExecution_step by (metis prod.collapse run_op.simps(3))
next
  case (Message body)
  then show ?thesis using message_step by (metis prod.collapse run_op.simps(4))
next
  case ScheduledPass
  then show ?thesis using scheduled_pass_step by (metis prod.collapse run_op.simps(5))
next
  case (Reap age)
  then show ?thesis using reap_step by (metis prod.collapse run_op.simps(6))
next
  case FireDue
  then show ?thesis using fire_step by (metis prod.collapse run_op.simps(7))
qed

lemma run_ops_step: "step m w (run_ops m ops w)"
  by (induction ops arbitrary: w) (auto intro: step_refl step_trans run_op_step)

end
