(* ===== verification/Purchase_Sample.thy ===== *)
theory Purchase_Sample
  imports Purchase_Workflow_Facts
begin

text \<open>
  A concrete manager over a provider that always sells, and a world with one execution waiting
  for its approval: the inputs the properties of the purchase workflow are applied to.
\<close>

section \<open>A manager and a world to instantiate with\<close>

text \<open>A provider that always sells and remembers the token of every purchase.\<close>

definition demo_env :: pdb_env where
  "demo_env = \<lparr>pv_fault = (\<lambda>_. None), pv_uuid = (\<lambda>n. replicate (Suc n) CHR ''u''), pv_now = int, pv_money = Inr\<rparr>"

definition demo_manager :: "(unit, string list) manager" where
  "demo_manager = \<lparr>mg_env = demo_env, mg_sts = Some (Inr (Some ''123456789012'')), mg_assume_role = True, mg_cred_store = True,
     mg_dashboard = ''https://cudly'', mg_aws_creds = (\<lambda>_. Inr ()), mg_azure_token = (\<lambda>_. None), mg_azure_provider = (\<lambda>_. Inr ()),
     mg_gcp_creds = (\<lambda>_. Inr None), mg_provider = (\<lambda>_ _. None), mg_client = (\<lambda>_ _ _ _. None), mg_decode = (\<lambda>_ _. Inr None),
     mg_buy = (\<lambda>_ _ opts c. (Inr \<lparr>pr_success = True, pr_error = None, pr_commitment = ''c'', pr_cost = Fin 1\<rparr>, bo_token opts # c)),
     mg_confirm = (\<lambda>_ c. (None, c)), mg_announce = (\<lambda>_ c. (None, c)), mg_token = (\<lambda>n. Inr (itoa (int n))),
     mg_hash = (\<lambda>s. s), mg_order = (\<lambda>n. [0..<n])\<rparr>"

definition demo_rec :: recommendation where
  "demo_rec = \<lparr>rr_provider = ''azure'', rr_service = ''savingsplans'', rr_region = ''westeurope'', rr_type = ''sp'', rr_engine = [],
     rr_details = [], rr_count = 1, rr_recommended = 0, rr_term = 1, rr_payment = ''upfront'', rr_upfront = Fin 0, rr_monthly = None, rr_savings = Fin 0,
     rr_selected = True, rr_purchased = False, rr_purchase_id = [], rr_error = [], rr_account = Some ''acct''\<rparr>"

definition demo_execution :: execution where
  "demo_execution = \<lparr>pe_plan = [], pe_id = ''x'', pe_status = ''pending'', pe_step = 0, pe_scheduled = 0, pe_notified = None,
     pe_token = ''t'', pe_recs = [demo_rec], pe_upfront = Fin 1, pe_savings = Fin 1, pe_completed = None, pe_error = [], pe_ttl = 0,
     pe_account = None, pe_source = ''cudly-web'', pe_approved_by = None, pe_cancelled_by = None, pe_creator = Some ''alice'',
     pe_retry = None, pe_attempt = 0, pe_capacity = 100, pe_token_expires = None, pe_executed_by = None, pe_executed_at = None,
     pe_skip_reason = None, pe_key = ''k'', pe_fire_at = None\<rparr>"

definition demo_account :: cloud_account where
  "demo_account = \<lparr>ca_id = ''acct'', ca_name = ''a'', ca_contact = ''bob@x'', ca_provider = ''azure'', ca_external = ''sub'',
     ca_aws_mode = [], ca_azure_mode = ''client_secret'', ca_gcp_mode = []\<rparr>"

definition demo_db :: pdb where
  "demo_db = \<lparr>pd_rows = [\<lparr>xr_exec = demo_execution, xr_canceled_by = None, xr_updated = 0\<rparr>], pd_plans = Map.empty, pd_plan_ids = [],
     pd_accounts = [''acct'' \<mapsto> demo_account], pd_account_ids = [''acct''], pd_plan_accounts = (\<lambda>_. []), pd_users = [''alice'' \<mapsto> ''alice@x''],
     pd_config = Some \<lparr>pc_notify = None, pc_offering_class = ''convertible'', pc_different_approver = True,
       pc_delay_hours = 0, pc_grace = []\<rparr>,
     pd_history = [], pd_suppressions = [], pd_statements = 0, pd_generated = 0\<rparr>"

definition demo_world :: "string list pworld" where
  "demo_world = \<lparr>pw_db = demo_db, pw_cloud = [], pw_driven = []\<rparr>"

lemma demo_ok: "env_ok (mg_env demo_manager)" "db_ok (mg_env demo_manager) (pw_db demo_world)"
proof -
  have "inj (\<lambda>n. replicate (Suc n) CHR ''u'')" by (rule injI) (metis length_replicate Suc_inject)
  then show "env_ok (mg_env demo_manager)" by (auto simp: env_ok_def demo_manager_def demo_env_def)
  have "''x'' \<noteq> replicate (Suc n) CHR ''u''" for n by simp
  moreover have "list_all json_ok (pe_recs demo_execution)" by code_simp
  ultimately show "db_ok (mg_env demo_manager) (pw_db demo_world)"
    by (simp add: db_ok_def ids_def fits_def demo_world_def demo_db_def demo_manager_def demo_env_def demo_execution_def
        execution_statuses_def)
qed

lemma demo_calm: "calm (mg_env demo_manager)"
  by (simp add: calm_def demo_manager_def demo_env_def)

definition execute_message :: "string \<Rightarrow> purchase_op" where
  "execute_message i = Message (Some \<lparr>am_type = ''execute_purchase'', am_execution = i, am_plan = [], am_token = [], am_actor = []\<rparr>)"

end
