(* ===== verification/Purchase_Workflow_Props.thy ===== *)
theory Purchase_Workflow_Props
  imports Purchase_Sample
begin

text \<open>
  Properties of the purchase workflow as a whole: the lifecycle of an execution under any
  sequence of operations and database faults, one drive per execution when the database does
  not fault.
\<close>

section \<open>The lifecycle\<close>

text \<open>Whatever sequence of approvals, cancellations, queue messages and scheduled tasks runs,
  and whichever database statements fail on the way, no execution disappears, each one's status
  moves along the lifecycle (pending, notified or scheduled, then approved or running, then a
  final status), a final status never changes again, and an execution that was not there before
  started as an announced one or as the finished record of an account.\<close>

theorem executions_follow_lifecycle:
  assumes "env_ok (mg_env m)" and "db_ok (mg_env m) (pw_db w)" and "w' = run_ops m ops w"
  shows "case status_of (pw_db w) i of
     Some s \<Rightarrow> \<exists>t. status_of (pw_db w') i = Some t \<and> lifecycle\<^sup>*\<^sup>* s t \<and> stage s \<le> stage t \<and> (final_status s \<longrightarrow> t = s)
   | None \<Rightarrow> (case status_of (pw_db w') i of None \<Rightarrow> True | Some t \<Rightarrow> \<exists>s. first_status s \<and> lifecycle\<^sup>*\<^sup>* s t)"
proof -
  have l: "leads (pw_db w) (pw_db w')" using run_ops_step [of m w ops] assms unfolding step_def by blast
  show ?thesis
  proof (cases "status_of (pw_db w) i")
    case None
    with leads_None [OF l] show ?thesis by (auto split: option.split)
  next
    case (Some s)
    with leads_Some [OF l Some] final_stays lifecycle_stages show ?thesis by auto
  qed
qed

theorem executions_follow_lifecycle_witness:
  "\<exists>t. status_of (pw_db (run_ops demo_manager [ScheduledPass, LinkCancel ''x'' ''t'' [], Reap 5] demo_world)) ''x'' = Some t \<and>
     lifecycle\<^sup>*\<^sup>* ''pending'' t"
proof -
  have "status_of (pw_db demo_world) ''x'' = Some ''pending''" by code_simp
  with executions_follow_lifecycle [OF demo_ok refl, of "[ScheduledPass, LinkCancel ''x'' ''t'' [], Reap 5]" "''x''"]
  show ?thesis by auto
qed

text \<open>The tables stay well-formed: after any sequence of operations with any faults,
  identifiers are distinct and non-empty, the generator will not repeat one, and every row
  still satisfies the checks of its table.\<close>

theorem tables_stay_well_formed:
  assumes "env_ok (mg_env m)" and "db_ok (mg_env m) (pw_db w)"
  shows "db_ok (mg_env m) (pw_db (run_ops m ops w))"
  using run_ops_step [of m w ops] assms unfolding step_def by blast

theorem tables_stay_well_formed_witness:
  "db_ok demo_env (pw_db (run_ops demo_manager [FireDue, execute_message ''x''] demo_world))"
  using tables_stay_well_formed [OF demo_ok, of "[FireDue, execute_message ''x'']"] by (simp add: demo_manager_def)

section \<open>One drive per execution\<close>

text \<open>C11: when no database statement fails, no sequence of operations drives an execution twice,
  however often it is approved, delivered, swept or recovered, and every execution that was
  driven ends in a final status.\<close>

theorem driven_at_most_once:
  assumes "env_ok (mg_env m)" and "db_ok (mg_env m) (pw_db w)" and "calm (mg_env m)" and "pw_driven w = []"
  shows "distinct (pw_driven (run_ops m ops w)) \<and>
    (\<forall>i \<in> set (pw_driven (run_ops m ops w)). \<exists>s. status_of (pw_db (run_ops m ops w)) i = Some s \<and> final_status s)"
proof -
  obtain new where "pw_driven (run_ops m ops w) = pw_driven w @ new" "distinct new"
    "\<forall>i \<in> set new. \<not> settled (pw_db w) i \<and> settled (pw_db (run_ops m ops w)) i"
    using run_ops_step [of m w ops] assms(1-3) unfolding step_def by blast
  with assms(4) show ?thesis by (auto simp: settled_def)
qed

theorem driven_at_most_once_witness:
  "distinct (pw_driven (run_ops demo_manager [SessionApprove ''x'' ''bob@x'' (Some ''bob''), execute_message ''x'', ScheduledPass] demo_world)) \<and>
   pw_driven (run_op demo_manager (SessionApprove ''x'' ''bob@x'' (Some ''bob'')) demo_world) = [''x'']"
proof
  have "pw_driven demo_world = []" by (simp add: demo_world_def)
  from driven_at_most_once [OF demo_ok demo_calm this]
  show "distinct (pw_driven (run_ops demo_manager [SessionApprove ''x'' ''bob@x'' (Some ''bob''), execute_message ''x'', ScheduledPass] demo_world))"
    by blast
  show "pw_driven (run_op demo_manager (SessionApprove ''x'' ''bob@x'' (Some ''bob'')) demo_world) = [''x'']" by code_simp
qed

end
