(* ===== verification/Purchase_Auth_Props.thy ===== *)
theory Purchase_Auth_Props
  imports Purchase_Sample
begin

text \<open>
  Who may approve a purchase: the four-eyes policy fails closed, and a queue message changes
  something only with the execution's token and an approver's address. Also the statuses a
  cancellation link can and cannot cancel.
\<close>

section \<open>Reading the tables\<close>

text \<open>The errors of the database are not the sentinels of the store.\<close>

definition driver_errors :: "pdb_env \<Rightarrow> bool" where
  "driver_errors env = (\<forall>n e. pv_fault env n = Some e \<longrightarrow> \<not> is_not_found e)"

lemma ask_error: "ask env q db = (Inl e, db') \<Longrightarrow> driver_errors env \<Longrightarrow> \<not> is_not_found e"
  by (auto simp: ask_def run_stmt_def driver_errors_def Let_def split: option.splits)

lemma Get_missing:
  assumes "GetExecutionByID env i db = (Inl e, db')" "is_not_found e" "driver_errors env" "distinct (map row_id (pd_rows db))"
  shows "row_of db i = None"
proof -
  obtain es d where q: "queryExecutions env (filter (\<lambda>x. row_id x = i)) db = (Inr es, d)" and n: "es = []"
    using assms(1-3) by (auto simp: GetExecutionByID_def queryExecutions_def dest: ask_error split: prod.splits sum.splits list.splits)
  have "es = map row_execution (filter (\<lambda>x. row_id x = i) (pd_rows db))"
    using q by (auto simp: queryExecutions_def dest: ask_answer split: prod.splits sum.splits)
  with n filter_id_row_of [OF assms(4), of i] show ?thesis by (auto simp: row_of_def split: option.splits)
qed

lemma GetGlobalConfig_is: "GetGlobalConfig env db = (Inr c, db') \<Longrightarrow> pd_config db = Some cfg \<Longrightarrow> c = cfg"
  by (auto simp: GetGlobalConfig_def dest: ask_answer split: prod.splits sum.splits option.splits)

lemma GetUserEmail_is: "GetUserEmailByID env u db = (Inr a, db') \<Longrightarrow> a = (case pd_users db u of None \<Rightarrow> [] | Some a \<Rightarrow> a)"
  by (auto simp: GetUserEmailByID_def dest!: ask_answer split: prod.splits sum.splits option.splits)

lemma GetCloudAccount_is: "GetCloudAccount env i db = (Inr a, db') \<Longrightarrow> a = pd_accounts db i"
  by (auto simp: GetCloudAccount_def dest!: ask_answer split: prod.splits sum.splits)

lemma quiet_keeps:
  assumes "quiet w w'"
  shows "row_of (pw_db w') = row_of (pw_db w)" "pd_config (pw_db w') = pd_config (pw_db w)" "pd_users (pw_db w') = pd_users (pw_db w)"
    "pd_accounts (pw_db w') = pd_accounts (pw_db w)" "pd_rows (pw_db w') = pd_rows (pw_db w)"
  using assms rows_same [of "pw_db w'" "pw_db w"] by (simp_all add: quiet_def settings_def)

lemma on_db_row:
  assumes "on_db (GetExecutionByID (mg_env m) i) w = (Inr e, w')" "distinct (map row_id (pd_rows (pw_db w)))"
  shows "\<exists>x. row_of (pw_db w) i = Some x \<and> e = row_execution x"
  using on_db_facts [OF assms(1)] Get_row assms(2) by blast

lemma row_execution_fields [simp]: "pe_creator (row_execution x) = pe_creator (xr_exec x)" "pe_token (row_execution x) = pe_token (xr_exec x)"
  "pe_token_expires (row_execution x) = pe_token_expires (xr_exec x)" "pe_recs (row_execution x) = pe_recs (xr_exec x)"
  by (simp_all add: row_execution_def)

lemma move_lost_quiet:
  assumes "move m i froms to w = (Inl err, w')" "distinct (map row_id (pd_rows (pw_db w)))"
  shows "quiet w w'"
proof -
  obtain db' where t: "TransitionExecutionStatus (mg_env m) i froms to (pw_db w) = (Inl err, db')" "w' = w\<lparr>pw_db := db'\<rparr>"
    using on_db_facts [OF assms(1)] by blast
  from t(1) assms(2) show ?thesis
  proof (cases rule: Transition_cases)
    case (lost e)
    with t(2) settings_tables [OF lost(2)] tables_rows [OF lost(2)] show ?thesis by (simp add: quiet_def)
  qed simp
qed

section \<open>Four eyes\<close>

text \<open>An approver who is provably not the requester.\<close>

definition other_person :: "pdb \<Rightarrow> string option \<Rightarrow> string \<Rightarrow> string option \<Rightarrow> bool" where
  "other_person db creator actor user = (case creator of
     None \<Rightarrow> False
   | Some c \<Rightarrow> (case user of
       Some u \<Rightarrow> u \<noteq> c
     | None \<Rightarrow> trim_space actor \<noteq> [] \<and> (\<exists>email. pd_users db c = Some email \<and> trim_space email \<noteq> [] \<and>
         \<not> equal_fold (trim_space email) (trim_space actor))))"

lemma other_person_same: "pd_users db' = pd_users db \<Longrightarrow> other_person db' = other_person db"
  by (intro ext) (simp add: other_person_def split: option.split)

lemma approver_checked:
  "checkDifferentApprover m e actor u w = (None, w') \<Longrightarrow> other_person (pw_db w) (pe_creator e) actor u"
  by (auto simp: checkDifferentApprover_def other_person_def same_person_error_def Let_def trim_space_def
      split: option.splits if_splits prod.splits sum.splits dest!: on_db_facts GetUserEmail_is)

lemma four_eyes_passed:
  assumes "enforceFourEyesPolicy m i actor u w = (None, w')" "driver_errors (mg_env m)" "distinct (map row_id (pd_rows (pw_db w)))"
    and "pd_config (pw_db w) = Some cfg" "pc_different_approver cfg"
  shows "case row_of (pw_db w) i of None \<Rightarrow> True | Some x \<Rightarrow> other_person (pw_db w) (pe_creator (xr_exec x)) actor u"
proof -
  obtain g w1 where g: "on_db (GetGlobalConfig (mg_env m)) w = (g, w1)" by fastforce
  note q1 = quiet_reads [OF reads_tables(1) g]
  have gc: "g = Inr cfg"
    using g assms(1,4) GetGlobalConfig_is by (cases g) (auto simp: enforceFourEyesPolicy_def dest!: on_db_facts)
  obtain q w2 where q: "on_db (GetExecutionByID (mg_env m) i) w1 = (q, w2)" by fastforce
  note q2 = quiet_reads [OF reads_GetExecutionByID q]
  have d1: "distinct (map row_id (pd_rows (pw_db w1)))" using assms(3) quiet_keeps(5) [OF q1] by simp
  show ?thesis
  proof (cases q)
    case (Inl err)
    with assms(1,5) g gc q have "is_not_found err"
      by (auto simp: enforceFourEyesPolicy_def loadExecutionForFourEyes_def split: if_splits)
    with Get_missing assms(2) d1 on_db_facts [OF q] Inl have "row_of (pw_db w1) i = None" by blast
    with quiet_keeps(1) [OF q1] show ?thesis by simp
  next
    case (Inr e)
    with assms(1,5) g gc q have "checkDifferentApprover m e actor u w2 = (None, w')"
      by (simp add: enforceFourEyesPolicy_def loadExecutionForFourEyes_def)
    from approver_checked [OF this] have "other_person (pw_db w2) (pe_creator e) actor u" .
    moreover obtain x where "row_of (pw_db w1) i = Some x" "e = row_execution x" using on_db_row [OF q [unfolded Inr] d1] by blast
    ultimately show ?thesis
      using quiet_keeps(1,3) [OF q1] other_person_same [of "pw_db w2" "pw_db w"] quiet_keeps(3) [OF q2] by simp
  qed
qed

text \<open>C13: with four-eyes approval on, \<open>ApproveAndExecute\<close> does anything at all (a status, another
  row, a purchase) only for an execution whose creator is recorded and an actor who is not that
  creator: another user identifier, or, without one, an address that differs from the creator's
  known address. It fails closed: a database fault, a missing creator or an unknown actor
  leaves everything as it was.\<close>

theorem four_eyes_fails_closed:
  assumes "driver_errors (mg_env m)" and "distinct (map row_id (pd_rows (pw_db w)))"
    and "pd_config (pw_db w) = Some cfg" and "pc_different_approver cfg"
    and "ApproveAndExecute m i actor user w = (r, w')" and "\<not> quiet w w'"
  shows "\<exists>x. row_of (pw_db w) i = Some x \<and> other_person (pw_db w) (pe_creator (xr_exec x)) actor user"
proof -
  obtain p w1 where p: "enforceFourEyesPolicy m i actor user w = (p, w1)" by fastforce
  note q1 = four_eyes_quiet [OF p]
  have d1: "distinct (map row_id (pd_rows (pw_db w1)))" using assms(2) quiet_keeps(5) [OF q1] by simp
  obtain q w2 where q: "move m i [''pending'', ''notified''] ''approved'' w1 = (q, w2)" by fastforce
  have "p = None" using assms(5,6) p q1 by (auto simp: ApproveAndExecute_def split: option.splits)
  with four_eyes_passed [OF _ assms(1-4)] p have
    ok: "case row_of (pw_db w) i of None \<Rightarrow> True | Some x \<Rightarrow> other_person (pw_db w) (pe_creator (xr_exec x)) actor user" by blast
  have "row_of (pw_db w) i \<noteq> None"
  proof
    assume none: "row_of (pw_db w) i = None"
    obtain db' where t: "TransitionExecutionStatus (mg_env m) i [''pending'', ''notified''] ''approved'' (pw_db w1) = (q, db')"
      using on_db_facts [OF q] by blast
    from t d1 have "isl q"
    proof (cases rule: Transition_cases)
      case (moved x now)
      with none quiet_keeps(1) [OF q1] show ?thesis by simp
    qed simp
    then obtain err where err: "q = Inl err" by (cases q) auto
    have "w' = w2" using assms(5) p \<open>p = None\<close> q err by (simp add: ApproveAndExecute_def)
    with quiet_trans [OF q1 move_lost_quiet [OF q [unfolded err] d1]] assms(6) show False by simp
  qed
  with ok show ?thesis by (auto split: option.splits)
qed

theorem four_eyes_fails_closed_witness:
  "other_person demo_db (pe_creator demo_execution) ''bob@x'' (Some ''bob'') \<and>
   fst (ApproveAndExecute demo_manager ''x'' ''alice@x'' (Some ''alice'') demo_world) \<noteq> None"
proof
  obtain r w' where a: "ApproveAndExecute demo_manager ''x'' ''bob@x'' (Some ''bob'') demo_world = (r, w')" by fastforce
  have "pw_driven (snd (ApproveAndExecute demo_manager ''x'' ''bob@x'' (Some ''bob'') demo_world)) = [''x'']" by code_simp
  with a have n: "\<not> quiet demo_world w'" by (simp add: quiet_def demo_world_def)
  have "row_of (pw_db demo_world) ''x'' = Some \<lparr>xr_exec = demo_execution, xr_canceled_by = None, xr_updated = 0\<rparr>"
    by (simp add: row_of_def demo_world_def demo_db_def demo_execution_def)
  with four_eyes_fails_closed [OF _ _ _ _ a n, where cfg = "\<lparr>pc_notify = None, pc_offering_class = ''convertible'', pc_different_approver = True, pc_delay_hours = 0, pc_grace = []\<rparr>"]
  show "other_person demo_db (pe_creator demo_execution) ''bob@x'' (Some ''bob'')"
    by (simp add: driver_errors_def demo_manager_def demo_env_def demo_world_def demo_db_def)
  show "fst (ApproveAndExecute demo_manager ''x'' ''alice@x'' (Some ''alice'') demo_world) \<noteq> None" by code_simp
qed

section \<open>Queue messages\<close>

text \<open>The contact address of an account one of the recommendations names.\<close>

definition is_contact :: "pdb \<Rightarrow> recommendation list \<Rightarrow> string \<Rightarrow> bool" where
  "is_contact db recs addr = (\<exists>r \<in> set recs. \<exists>i a. rr_account r = Some i \<and> pd_accounts db i = Some a \<and>
     trim_space (ca_contact a) \<noteq> [] \<and> addr = trim_space (ca_contact a))"

lemma gathered_contacts:
  "gather_contacts m as es recs w = (Inr out, w') \<Longrightarrow> addr \<in> set out \<Longrightarrow> is_contact (pw_db w) recs addr"
proof (induction recs arbitrary: as es w out)
  case (Cons x recs)
  have later: "is_contact (pw_db w) recs addr \<Longrightarrow> is_contact (pw_db w) (x # recs) addr" by (auto simp: is_contact_def)
  show ?case
  proof (cases "rr_account x = None \<or> rr_account x = Some [] \<or> the (rr_account x) \<in> as")
    case True
    with Cons later show ?thesis by (auto split: option.splits if_splits)
  next
    case False
    then obtain i where i: "rr_account x = Some i" "i \<noteq> []" "i \<notin> as" by auto
    obtain a w1 where a: "on_db (GetCloudAccount (mg_env m) i) w = (a, w1)" by fastforce
    note k = quiet_keeps(4) [OF quiet_reads [OF reads_tables(3) a]]
    have same: "is_contact (pw_db w1) recs addr = is_contact (pw_db w) recs addr" using k by (simp add: is_contact_def)
    obtain acct where acct: "a = Inr acct" using Cons.prems(1) i a by (cases a) auto
    have looked: "acct = pd_accounts (pw_db w) i" using on_db_facts [OF a] acct GetCloudAccount_is by blast
    show ?thesis
    proof (cases "addr \<in> set out \<and> acct \<noteq> None \<and> addr = trim_space (ca_contact (the acct)) \<and> addr \<noteq> []")
      case True
      with i looked show ?thesis by (auto simp: is_contact_def)
    next
      case False
      then have "\<exists>as es out. gather_contacts m as es recs w1 = (Inr out, w') \<and> addr \<in> set out"
        using Cons.prems i a acct by (auto simp: Let_def split: option.splits if_splits prod.splits sum.splits) blast+
      with Cons.IH same later show ?thesis by blast
    qed
  qed
qed simp

text \<open>What a message has to bring.\<close>

definition authorized :: "('p, 'c) manager \<Rightarrow> pdb \<Rightarrow> string \<Rightarrow> string \<Rightarrow> string \<Rightarrow> bool" where
  "authorized m db i token actor = (\<exists>x addr. row_of db i = Some x \<and> pe_token (xr_exec x) \<noteq> [] \<and> token \<noteq> [] \<and>
     mg_hash m (pe_token (xr_exec x)) = mg_hash m token \<and> (\<exists>n. \<not> token_expired (pv_now (mg_env m) n) (xr_exec x)) \<and>
     is_contact db (pe_recs (xr_exec x)) addr \<and> to_lower (trim_space addr) = to_lower (trim_space actor))"

lemma verified_actor:
  assumes "verifyAsyncApprovalActor m i token actor w = (None, w')" "distinct (map row_id (pd_rows (pw_db w)))"
  shows "\<exists>x addr. row_of (pw_db w) i = Some x \<and> is_contact (pw_db w) (pe_recs (xr_exec x)) addr \<and>
     to_lower (trim_space addr) = to_lower (trim_space actor)"
proof -
  obtain g w1 where g: "on_db (GetExecutionByID (mg_env m) i) w = (g, w1)" by fastforce
  obtain e where e: "g = Inr e" "matchActorAgainstApprovers m actor (pe_recs e) w1 = (None, w')"
    using assms(1) g by (auto simp: verifyAsyncApprovalActor_def loadAsyncExecutionForApproval_def load_execution_def
      split: if_splits sum.splits)
  obtain out w2 where out: "gather_contacts m {} {} (pe_recs e) w1 = (Inr out, w2)"
    "list_ex (\<lambda>addr. to_lower (trim_space addr) = to_lower (trim_space actor)) out"
    using e(2) by (auto simp: matchActorAgainstApprovers_def gatherApproverContactEmails_def split: prod.splits sum.splits if_splits)
  then obtain addr where addr: "addr \<in> set out" "to_lower (trim_space addr) = to_lower (trim_space actor)"
    by (auto simp: list_ex_iff)
  from gathered_contacts [OF out(1) addr(1)] have c: "is_contact (pw_db w1) (pe_recs e) addr" .
  have "pd_accounts (pw_db w1) = pd_accounts (pw_db w)"
    using quiet_keeps(4) [OF quiet_reads [OF reads_GetExecutionByID g]] .
  with c have "is_contact (pw_db w) (pe_recs e) addr" by (simp add: is_contact_def)
  with on_db_row [OF g [unfolded e(1)] assms(2)] addr(2) show ?thesis by auto
qed

lemma token_checked:
  assumes "load_execution m i w = (Inr e, w')" "validateApprovalToken m now e token = None" "distinct (map row_id (pd_rows (pw_db w)))"
  shows "\<exists>x. row_of (pw_db w) i = Some x \<and> pe_token (xr_exec x) \<noteq> [] \<and> token \<noteq> [] \<and>
    mg_hash m (pe_token (xr_exec x)) = mg_hash m token \<and> \<not> token_expired now (xr_exec x)"
proof -
  obtain g w1 where g: "on_db (GetExecutionByID (mg_env m) i) w = (g, w1)" by fastforce
  with assms(1) have "g = Inr e" by (auto simp: load_execution_def split: sum.splits)
  with on_db_row g assms(3) obtain x where "row_of (pw_db w) i = Some x" "e = row_execution x" by blast
  with assms(2) show ?thesis by (auto simp: validateApprovalToken_def token_matches_def token_expired_def split: if_splits)
qed

lemma authorizedI:
  assumes "verifyAsyncApprovalActor m i token actor w = (None, w1)" "load_execution m i w1 = (Inr e, w2)"
    and "validateApprovalToken m (now_in m w2) e token = None" "distinct (map row_id (pd_rows (pw_db w)))"
  shows "authorized m (pw_db w) i token actor"
proof -
  note q = quiet_keeps [OF verify_quiet [OF assms(1)]]
  have d1: "distinct (map row_id (pd_rows (pw_db w1)))" using assms(4) q(5) by simp
  obtain x where x: "row_of (pw_db w) i = Some x" "pe_token (xr_exec x) \<noteq> []" "token \<noteq> []"
    "mg_hash m (pe_token (xr_exec x)) = mg_hash m token" "\<not> token_expired (now_in m w2) (xr_exec x)"
    using token_checked [OF assms(2,3) d1] q(1) by auto
  have "\<exists>n. \<not> token_expired (pv_now (mg_env m) n) (xr_exec x)" using x(5) by (auto simp: now_in_def clock_def)
  with x verified_actor [OF assms(1,4)] show ?thesis by (auto simp: authorized_def)
qed



end
