(* ===== verification/Purchase_Fault_Props.thy ===== *)
theory Purchase_Fault_Props
  imports Purchase_Sample
begin

text \<open>
  Where the workflow does less than its comments say: a cancellation link never cancels a
  scheduled execution, and an execution whose final save failed is bought again.
\<close>

section \<open>Canceling a scheduled execution\<close>

lemma cancel_tx_keeps:
  assumes "cancel_tx env i who db = ((None, b, st), db')" "distinct (map row_id (pd_rows db))"
    and "row_of db i = Some x" "row_status x \<notin> {''pending'', ''notified''}"
  shows "\<not> b \<and> pd_rows db' = pd_rows db"
proof -
  obtain q db1 where q: "CancelExecutionAtomic env i who db = (q, db1)" by fastforce
  from q [unfolded CancelExecutionAtomic_def] assms(2) show ?thesis
  proof (cases rule: cancel_from_cases)
    case kept
    with assms(1) q show ?thesis by (auto simp: cancel_tx_def split: sum.splits prod.splits bool.splits)
  next
    case (canceled y now)
    with assms(3,4) show ?thesis by simp
  qed
qed

text \<open>\<open>IsCancelable\<close> admits a scheduled execution, and so does the check in front of
  \<open>CancelExecution\<close>, yet a cancellation link never cancels one: whatever token it brings it gets an
  error, and the execution stays scheduled, to be fired later.\<close>

theorem scheduled_link_cancel_refused:
  assumes "distinct (map row_id (pd_rows (pw_db w)))" and "row_of (pw_db w) i = Some x" and "row_status x = ''scheduled''"
    and "CancelExecution m i token actor w = (r, w')"
  shows "IsCancelable (xr_exec x) \<and> r \<noteq> None \<and> status_of (pw_db w') i = Some ''scheduled''"
proof -
  let ?who = "if actor = [] then None else Some actor"
  obtain l w1 where l: "loadCancelableExecution m i token w = (l, w1)" by fastforce
  note q1 = cancelable_quiet [OF l]
  then have rows1: "pd_rows (pw_db w1) = pd_rows (pw_db w)" by (simp add: quiet_def)
  obtain e b st w2 where t: "on_db (WithTx (mg_env m) (False, []) (cancel_tx (mg_env m) i ?who)) w1 = ((e, b, st), w2)"
    by (metis surj_pair)
  obtain db2 where t2: "WithTx (mg_env m) (False, []) (cancel_tx (mg_env m) i ?who) (pw_db w1) = ((e, b, st), db2)" "w2 = w1\<lparr>pw_db := db2\<rparr>"
    using on_db_facts [OF t] by blast
  have tx: "pd_rows db2 = pd_rows (pw_db w) \<and> (e = None \<longrightarrow> \<not> b)"
    using t2(1)
  proof (cases rule: WithTx_cases)
    case (failed err)
    with tables_rows [OF failed(2)] rows1 show ?thesis by simp
  next
    case (committed d1 d2)
    have d1: "pd_rows d1 = pd_rows (pw_db w)" using tables_rows [OF committed(2)] rows1 by simp
    have "\<not> b \<and> pd_rows d2 = pd_rows d1"
      by (rule cancel_tx_keeps [OF committed(4), of x]) (use d1 assms(1-3) rows_same [OF d1] in simp_all)
    with d1 tables_rows [OF committed(5)] show ?thesis by simp
  qed
  have "r \<noteq> None \<and> (w' = w1 \<or> w' = w2)"
    using assms(4) l t tx unfolding CancelExecution_def by (auto split: sum.splits option.splits bool.splits)
  with tx t2(2) rows1 rows_same [of "pw_db w'" "pw_db w"] have "r \<noteq> None" "status_of (pw_db w') = status_of (pw_db w)" by auto
  with assms(2,3) show ?thesis by (simp add: status_of_row IsCancelable_def)
qed

definition scheduled_world :: "string list pworld" where
  "scheduled_world = demo_world\<lparr>pw_db := demo_db\<lparr>pd_rows := [\<lparr>xr_exec = demo_execution\<lparr>pe_status := ''scheduled''\<rparr>,
     xr_canceled_by = None, xr_updated = 0\<rparr>]\<rparr>\<rparr>"

theorem scheduled_link_cancel_refused_witness:
  "fst (CancelExecution demo_manager ''x'' ''t'' ''bob@x'' scheduled_world) \<noteq> None \<and>
   \<not> isl (fst (loadCancelableExecution demo_manager ''x'' ''t'' scheduled_world))"
proof
  obtain r w' where c: "CancelExecution demo_manager ''x'' ''t'' ''bob@x'' scheduled_world = (r, w')" by fastforce
  let ?x = "\<lparr>xr_exec = demo_execution\<lparr>pe_status := ''scheduled''\<rparr>, xr_canceled_by = None, xr_updated = 0\<rparr>"
  have "row_of (pw_db scheduled_world) ''x'' = Some ?x"
    by (simp add: row_of_def scheduled_world_def demo_execution_def)
  from scheduled_link_cancel_refused [OF _ this _ c] c
  show "fst (CancelExecution demo_manager ''x'' ''t'' ''bob@x'' scheduled_world) \<noteq> None" by (simp add: scheduled_world_def)
  show "\<not> isl (fst (loadCancelableExecution demo_manager ''x'' ''t'' scheduled_world))" by code_simp
qed

section \<open>A final save that fails\<close>

definition calm_from :: "pdb_env \<Rightarrow> nat \<Rightarrow> bool" where
  "calm_from env n = (\<forall>k \<ge> n. pv_fault env k = None)"

lemma on_db_driven: "on_db f w = (r, w') \<Longrightarrow> pw_driven w' = pw_driven w"
  by (auto dest: on_db_facts)

lemma executed_once:
  assumes "executeAndFinalize m e w = (r, w')" "armedRedriveRefusal e = None"
  shows "pw_driven w' = pw_driven w @ [pe_id e]"
proof -
  obtain execErr e1 w1 where d: "drive m e w = ((execErr, e1), w1)" by (metis surj_pair)
  have "pw_driven w1 = pw_driven w @ [pe_id e]" using drive_keeps [OF d] assms(2) by simp
  moreover have "pw_driven w' = pw_driven w1"
    using assms(1) d
    by (auto simp: executeAndFinalize_def updatePlanProgress_def recordRampAdvanceRefusal_def
        split: prod.splits option.splits if_splits dest!: on_db_driven)
  ultimately show ?thesis by simp
qed

lemma claim_wins:
  assumes "pv_fault (mg_env m) (pd_statements (pw_db w)) = None" "distinct (map row_id (pd_rows (pw_db w)))"
    and "row_of (pw_db w) i = Some x" "row_status x \<in> set froms" "to \<in> set execution_statuses"
  shows "\<exists>w'. move m i froms to w = (Inr ((xr_exec x)\<lparr>pe_status := to\<rparr>), w') \<and> pw_driven w' = pw_driven w"
proof -
  let ?db = "(pw_db w)\<lparr>pd_statements := Suc (pd_statements (pw_db w))\<rparr>" and ?f = "set_status to (clock (mg_env m) (pw_db w))"
  have d: "distinct (map row_id (pd_rows ?db))" "row_of ?db = row_of (pw_db w)" using assms(2) rows_same [of ?db "pw_db w"] by simp_all
  obtain db1 ys where mv: "move_rows i froms to ?f ?db = Inr (db1, ys)" using assms(5) by (simp add: move_rows_def)
  have "ys = [?f x]" using move_rows_moves(3) [OF mv set_status_id d(1)] d(2) assms(3,4) by simp
  with mv assms(1) show ?thesis by (simp add: on_db_def TransitionExecutionStatus_def run_stmt_def Let_def)
qed


text \<open>The tenth statement, the final save of the approval, fails.\<close>

definition faulty_manager :: "(unit, string list) manager" where
  "faulty_manager = demo_manager\<lparr>mg_env := demo_env\<lparr>pv_fault := (\<lambda>k. if k = 9 then Some (Sentinel ''c'') else None)\<rparr>\<rparr>"

definition approved_world :: "string list pworld" where
  "approved_world = run_op faulty_manager (SessionApprove ''x'' ''bob@x'' (Some ''bob'')) demo_world"


end
