(* ===== verification/Purchase_Token_Props.thy ===== *)
theory Purchase_Token_Props
  imports Purchase_Sample
begin

text \<open>
  Idempotency tokens: every purchase of an execution carries a token derived from its lineage,
  the account and the recommendation, so that driving it again, or driving a retry of it, asks
  the provider for the same purchases.
\<close>

section \<open>The provider\<close>

text \<open>\<open>bought\<close> is the set of tokens a commitment exists for; a purchase under a token that is
  there already creates none. Mails buy nothing.\<close>

definition token_provider :: "('p, 'c) manager \<Rightarrow> ('c \<Rightarrow> string set) \<Rightarrow> bool" where
  "token_provider m bought =
    ((\<forall>cred cm opts c. bought (snd (mg_buy m cred cm opts c)) \<subseteq> insert (bo_token opts) (bought c)) \<and>
     (\<forall>mail c. bought (snd (mg_confirm m mail c)) = bought c))"

text \<open>The tokens a drive of an execution may use, given the accounts of its plan.\<close>

definition lineage_keys :: "execution \<Rightarrow> cloud_account list \<Rightarrow> string set" where
  "lineage_keys e accounts =
    (if pe_plan e \<noteq> [] \<and> pe_account e = None \<and> accounts \<noteq> [] \<and> CHR '':'' \<notin> set (idempotencyLineageKey e)
     then (\<lambda>a. idempotencyLineageKey e @ '':'' @ ca_id a) ` set accounts else {idempotencyLineageKey e})"

definition key_tokens :: "(string \<Rightarrow> string) \<Rightarrow> execution \<Rightarrow> string \<Rightarrow> string set" where
  "key_tokens h e key = DeriveIdempotencyToken h key ` set (selectedIndices (pe_recs e))"

definition purchase_tokens :: "(string \<Rightarrow> string) \<Rightarrow> execution \<Rightarrow> cloud_account list \<Rightarrow> string set" where
  "purchase_tokens h e accounts = (\<Union>key \<in> lineage_keys e accounts. key_tokens h e key)"

section \<open>What is bought along a run\<close>

definition keeps_accounts :: "(pdb \<Rightarrow> 'r \<times> pdb) \<Rightarrow> bool" where
  "keeps_accounts f = (\<forall>db. pd_plan_accounts (snd (f db)) = pd_plan_accounts db)"

lemma keeps_accountsD: "keeps_accounts f \<Longrightarrow> f db = (r, db') \<Longrightarrow> pd_plan_accounts db' = pd_plan_accounts db"
  by (metis keeps_accounts_def snd_conv)

lemma keeps_accounts_reads: "reads f \<Longrightarrow> keeps_accounts f"
  using tables_plans unfolding reads_def keeps_accounts_def by blast

lemma keeps_accounts_WithTx:
  assumes "keeps_accounts body"
  shows "keeps_accounts (WithTx env a body)"
  unfolding keeps_accounts_def
proof
  fix db
  obtain r1 db1 where b: "ask env (\<lambda>_. ()) db = (r1, db1)" by fastforce
  obtain r2 y db2 where body: "body db1 = ((r2, y), db2)" by (metis surj_pair)
  obtain r3 db3 where c: "ask env (\<lambda>_. ()) db2 = (r3, db3)" by fastforce
  note k = keeps_accountsD [OF keeps_accounts_reads [OF reads_ask] b] keeps_accountsD [OF assms body]
    keeps_accountsD [OF keeps_accounts_reads [OF reads_ask] c]
  then show "pd_plan_accounts (snd (WithTx env a body db)) = pd_plan_accounts db"
    using b body c by (auto simp: WithTx_def rolled_back_def split: sum.split option.split)
qed

lemma keeps_accounts_Save: "keeps_accounts (SavePurchaseExecution env e)"
proof -
  have up: "pd_plan_accounts d' = pd_plan_accounts d" if "run_stmt env (upsert env now e1) d = (r, d')" for now e1 d r d'
    using that by (auto simp: run_stmt_def upsert_def Let_def split: option.splits sum.splits)
  have tx: "keeps_accounts (SavePurchaseExecutionTx env e1)" for e1
    unfolding keeps_accounts_def
    by (auto simp: SavePurchaseExecutionTx_def with_id_def with_key_def Let_def split: prod.splits sum.splits dest!: up)
  show ?thesis
    unfolding keeps_accounts_def
  proof
    fix db
    obtain e1 d1 where i: "with_id env e db = (e1, d1)" by fastforce
    then have "pd_plan_accounts d1 = pd_plan_accounts db" by (auto simp: with_id_def split: if_splits)
    moreover have "pd_plan_accounts (snd (WithTx env e1 (SavePurchaseExecutionTx env e1) d1)) = pd_plan_accounts d1"
      using keeps_accounts_WithTx [OF tx] unfolding keeps_accounts_def by blast
    ultimately show "pd_plan_accounts (snd (SavePurchaseExecution env e db)) = pd_plan_accounts db"
      by (simp add: SavePurchaseExecution_def i)
  qed
qed

lemma keeps_accounts_step: "keeps_accounts (CompletePlanStep env p n)"
proof -
  have plan: "keeps_accounts (UpdatePurchasePlanTx env q)" for q
    by (simp add: keeps_accounts_def UpdatePurchasePlanTx_def run_stmt_def Let_def split: option.split prod.split sum.split bool.split)
  have "keeps_accounts (complete_step_tx env p n)"
    unfolding keeps_accounts_def
  proof
    fix db
    obtain r db1 where a: "ask env (\<lambda>db. pd_plans db p) db = (r, db1)" by fastforce
    from plan have "pd_plan_accounts (snd (UpdatePurchasePlanTx env q db1)) = pd_plan_accounts db1" for q
      by (simp add: keeps_accounts_def)
    with keeps_accountsD [OF keeps_accounts_reads [OF reads_ask] a] a
    show "pd_plan_accounts (snd (complete_step_tx env p n db)) = pd_plan_accounts db"
      by (simp add: complete_step_tx_def Let_def split: sum.split option.split)
  qed
  then have "keeps_accounts (\<lambda>db. case complete_step_tx env p n db of (e, db') \<Rightarrow> ((e, ()), db'))"
    unfolding keeps_accounts_def by (simp split: prod.split) (metis snd_conv)
  note tx = keeps_accountsD [OF keeps_accounts_WithTx [OF this, of env "()"]]
  show ?thesis unfolding keeps_accounts_def CompletePlanStep_def by (auto split: prod.split dest: tx)
qed

text \<open>Along a run the purchases grow by tokens of \<open>F\<close> at most.\<close>

definition buys :: "('c \<Rightarrow> string set) \<Rightarrow> string set \<Rightarrow> 'c pworld \<Rightarrow> 'c pworld \<Rightarrow> bool" where
  "buys bought F w w' = (bought (pw_cloud w') \<subseteq> bought (pw_cloud w) \<union> F \<and>
     pd_plan_accounts (pw_db w') = pd_plan_accounts (pw_db w))"

interpretation buying: world_order "buys bought F" for bought F
  by unfold_locales (auto simp: buys_def)

interpretation cloud_buying: world_order "\<lambda>c c'. bought c' \<subseteq> bought c \<union> F" for bought :: "'c \<Rightarrow> string set" and F
  by unfold_locales auto

lemma buys_mono: "buys bought F w w' \<Longrightarrow> F \<subseteq> G \<Longrightarrow> buys bought G w w'"
  by (auto simp: buys_def)

lemma buys_db: "keeps_accounts f \<Longrightarrow> on_db f w = (r, w') \<Longrightarrow> buys bought F w w'"
  by (auto simp: buys_def dest!: on_db_facts dest: keeps_accountsD)

lemmas buys_reads = buys_db [OF keeps_accounts_reads]

lemma buys_fresh: "fresh f w = (r, w') \<Longrightarrow> buys bought F w w'"
  by (auto simp: buys_def fresh_def on_db_def)

lemma buys_mail: "token_provider m bought \<Longrightarrow> sendPurchaseNotification m e plan t w = (r, w') \<Longrightarrow> buys bought F w w'"
  by (auto simp: sendPurchaseNotification_def buys_def token_provider_def dest!: on_cloud_facts) (metis snd_conv)

lemma single_purchase_buys:
  assumes "executeSinglePurchase m rec cred opts c = (r, c')" "token_provider m bought"
  shows "bought c' \<subseteq> insert (bo_token opts) (bought c)"
proof -
  have "c' = c \<or> (\<exists>cm. c' = snd (mg_buy m cred cm opts c))"
    using assms(1) by (auto simp: executeSinglePurchase_def split: option.splits sum.splits prod.splits if_splits) (metis snd_conv)+
  with assms(2) show ?thesis unfolding token_provider_def by blast
qed

lemma process_buys:
  assumes "processPurchaseRecommendations m e plan a cred w = (r, w')" "token_provider m bought"
  shows "buys bought (key_tokens (mg_hash m) e (idempotencyLineageKey e)) w w'"
proof -
  let ?F = "key_tokens (mg_hash m) e (idempotencyLineageKey e)"
  obtain g w1 where g: "on_db (GetGlobalConfig (mg_env m)) w = (g, w1)" by fastforce
  have b1: "buys bought ?F w w1" using buys_reads [OF reads_tables(1) g] .
  show ?thesis
  proof (cases "isl g \<or> selectedIndices (pe_recs e) = []")
    case True
    with assms(1) g b1 show ?thesis by (auto simp: processPurchaseRecommendations_def isl_def Let_def split: sum.splits)
  next
    case False
    then obtain cfg where cfg: "g = Inr cfg" by (cases g) auto
    let ?opts = "\<lparr>bo_source = normalizePurchaseSource e, bo_execution = pe_id e, bo_class = pc_offering_class cfg, bo_token = []\<rparr>"
    obtain rs w2 where f: "on_cloud (FanOutWithConcurrency (mg_order m (length (selectedIndices (pe_recs e)))) zero_outcome
        (purchase_task m e cred ?opts) (selectedIndices (pe_recs e))) w1 = (rs, w2)" by fastforce
    obtain t e2 db2 where ag: "aggregatePurchaseOutcomes m plan a rs no_tally e (pw_db w2) = (t, e2, db2)" by (metis surj_pair)
    obtain c where c: "FanOutWithConcurrency (mg_order m (length (selectedIndices (pe_recs e)))) zero_outcome
        (purchase_task m e cred ?opts) (selectedIndices (pe_recs e)) (pw_cloud w1) = (rs, c)" "w2 = w1\<lparr>pw_cloud := c\<rparr>"
      using on_cloud_facts [OF f] by blast
    have "bought c \<subseteq> bought (pw_cloud w1) \<union> ?F"
    proof (rule cloud_buying.fan_out [OF c(1)])
      fix k u q v
      assume k: "k \<in> set (selectedIndices (pe_recs e))" and t: "purchase_task m e cred ?opts k u = (q, v)"
      show "bought v \<subseteq> bought u \<union> ?F"
      proof (cases "length (pe_recs e) \<le> k")
        case True
        with t show ?thesis by (simp add: purchase_task_def)
      next
        case False
        with t obtain s where "executeSinglePurchase m (pe_recs e ! k) cred
            (?opts\<lparr>bo_token := DeriveIdempotencyToken (mg_hash m) (idempotencyLineageKey e) k\<rparr>) u = (s, v)"
          by (auto simp: purchase_task_def split: prod.splits)
        from single_purchase_buys [OF this assms(2)] k show ?thesis by (auto simp: key_tokens_def)
      qed
    qed
    moreover have "pd_plan_accounts db2 = pd_plan_accounts (pw_db w2)" using aggregate_keeps [OF ag] by (simp add: settings_def)
    moreover have "w' = w2\<lparr>pw_db := db2\<rparr>"
      using assms(1) g cfg False f ag by (auto simp: processPurchaseRecommendations_def Let_def)
    ultimately have "buys bought ?F w1 w'" using c(2) by (simp add: buys_def)
    with b1 show ?thesis by (rule buying.chain)
  qed
qed

lemma single_buys:
  assumes "executeSingleAccount m e plan w = (r, w')" "token_provider m bought"
  shows "buys bought (key_tokens (mg_hash m) e (idempotencyLineageKey e)) w w'"
proof -
  let ?F = "key_tokens (mg_hash m) e (idempotencyLineageKey e)"
  obtain p w1 where p: "resolveSingleAccountProvider m e w = (p, w1)" by fastforce
  have b1: "buys bought ?F w w1"
    using p by (auto simp: resolveSingleAccountProvider_def split: if_splits option.splits prod.splits sum.splits
        intro: buying.stay dest!: buys_reads [OF reads_tables(3)])
  show ?thesis
  proof (cases p)
    case (Inl err)
    with assms p b1 show ?thesis by (auto simp: executeSingleAccount_def)
  next
    case (Inr c)
    obtain cred target where c: "c = (cred, target)" by fastforce
    let ?account = "if target \<noteq> [] then target else (case getAWSAccountID m of Inl _ \<Rightarrow> [] | Inr a \<Rightarrow> a)"
    obtain t e2 w2 where pr: "processPurchaseRecommendations m e plan ?account cred w1 = ((t, e2), w2)" by (metis surj_pair)
    note b2 = buying.chain [OF b1 process_buys [OF pr assms(2)]]
    have "w' = w2 \<or> (\<exists>tl q. sendPurchaseNotification m e2 plan tl w2 = (q, w'))"
      using assms(1) p Inr c pr by (auto simp: executeSingleAccount_def Let_def split: sum.splits if_splits prod.splits)
    with b2 buys_mail [OF assms(2)] show ?thesis by (blast intro: buying.chain)
  qed
qed

lemma account_key: "idempotencyLineageKey (account_execution base a i) = idempotencyLineageKey base @ '':'' @ ca_id a"
  "pe_recs (account_execution base a i) = pe_recs base"
  by (simp_all add: idempotencyLineageKey_def account_execution_def)

lemma account_buys:
  assumes "executeForAccount m base plan a w = (r, w')" "token_provider m bought"
  shows "buys bought (key_tokens (mg_hash m) base (idempotencyLineageKey base @ '':'' @ ca_id a)) w w'"
proof -
  let ?F = "key_tokens (mg_hash m) base (idempotencyLineageKey base @ '':'' @ ca_id a)"
  obtain i w1 where f: "fresh (pv_uuid (mg_env m)) w = (i, w1)" by fastforce
  note b1 = buys_fresh [OF f, of bought ?F]
  note save = buys_db [OF keeps_accounts_Save, of "mg_env m" _ _ _ _ bought ?F]
  let ?e = "account_execution base a i"
  show ?thesis
  proof (cases "resolveAccountProvider m a")
    case (Inl err)
    obtain q w2 where s: "on_db (SavePurchaseExecution (mg_env m) (?e\<lparr>pe_status := ''failed'', pe_error := err_string err\<rparr>)) w1 = (q, w2)" by fastforce
    have "w' = w2" using assms f Inl s
      by (auto simp: executeForAccount_def persistFailedAccountExecution_def Let_def split: option.splits prod.splits)
    with b1 save [OF s] show ?thesis by (auto intro: buying.chain)
  next
    case (Inr cred)
    obtain t e2 w2 where p: "processPurchaseRecommendations m ?e plan (ca_external a) cred w1 = ((t, e2), w2)" by (metis surj_pair)
    have b2: "buys bought ?F w w2"
      using buying.chain [OF b1] process_buys [OF p assms(2)] account_key [of base a i] by (simp add: key_tokens_def)
    show ?thesis
    proof (cases t)
      case (Inl err)
      obtain q w3 where s: "on_db (SavePurchaseExecution (mg_env m) (e2\<lparr>pe_status := ''failed'', pe_error := err_string err\<rparr>)) w2 = (q, w3)" by fastforce
      have "w' = w3" using assms f \<open>resolveAccountProvider m a = Inr cred\<close> p Inl s
        by (auto simp: executeForAccount_def Let_def split: prod.splits)
      with b2 save [OF s] show ?thesis by (auto intro: buying.chain)
    next
      case (Inr tl)
      obtain partial committed e3 where ao: "applyAccountOutcome (now_in m w2) e2 (ty_errors tl) = (partial, committed, e3)"
        by (metis surj_pair)
      obtain q e4 w3 where s: "on_db (SavePurchaseExecution (mg_env m) e3) w2 = ((q, e4), w3)" by (metis surj_pair)
      have "w' = w3 \<or> (\<exists>v. sendPurchaseNotification m e4 plan tl w3 = (v, w'))"
        using assms f \<open>resolveAccountProvider m a = Inr cred\<close> p Inr ao s
        by (auto simp: executeForAccount_def Let_def split: option.splits if_splits) (metis prod.collapse)+
      with b2 save [OF s] buys_mail [OF assms(2)] show ?thesis by (blast intro: buying.chain)
    qed
  qed
qed

lemma account_by_id_in: "k \<in> set (map ca_id accounts) \<Longrightarrow> account_by_id accounts k \<in> set accounts \<and> ca_id (account_by_id accounts k) = k"
proof -
  assume "k \<in> set (map ca_id accounts)"
  then have "filter (\<lambda>a. ca_id a = k) accounts \<noteq> []" by (auto simp: filter_empty_conv)
  from last_in_set [OF this] show ?thesis by (simp add: account_by_id_def)
qed

lemma multi_buys:
  assumes "executeMultiAccount m base plan accounts w = (r, w')" "token_provider m bought"
  shows "buys bought (\<Union>a \<in> set accounts. key_tokens (mg_hash m) base (idempotencyLineageKey base @ '':'' @ ca_id a)) w w'"
proof -
  obtain rs w1 where f: "FanOutWithConcurrency (mg_order m (length accounts)) False
      (\<lambda>i. executeForAccount m base plan (account_by_id accounts i)) (map ca_id accounts) w = (rs, w1)" by fastforce
  have "w' = w1" using assms(1) f by (simp add: executeMultiAccount_def Let_def)
  moreover have "buys bought (\<Union>a \<in> set accounts. key_tokens (mg_hash m) base (idempotencyLineageKey base @ '':'' @ ca_id a)) w w1"
  proof (rule buying.fan_out [OF f])
    fix k u v q
    assume "k \<in> set (map ca_id accounts)" and e: "executeForAccount m base plan (account_by_id accounts k) u = (q, v)"
    from account_by_id_in [OF this(1)] show "buys bought (\<Union>a \<in> set accounts. key_tokens (mg_hash m) base (idempotencyLineageKey base @ '':'' @ ca_id a)) u v"
      by (intro buys_mono [OF account_buys [OF e assms(2)]]) auto
  qed
  ultimately show ?thesis by simp
qed

lemma reattach_cases:
  assumes "reattachAccountScope e accounts = Inr e1"
  shows "(e1 = e \<and> CHR '':'' \<notin> set (idempotencyLineageKey e)) \<or> (CHR '':'' \<in> set (idempotencyLineageKey e) \<and> pe_account e1 \<noteq> None) \<and>
    pe_recs e1 = pe_recs e \<and> idempotencyLineageKey e1 = idempotencyLineageKey e"
  using assms by (auto simp: reattachAccountScope_def Let_def idempotencyLineageKey_def split: if_splits option.splits)

lemma purchase_buys:
  assumes "executePurchase m e w = (r, w')" "token_provider m bought"
  shows "buys bought (purchase_tokens (mg_hash m) e (pd_plan_accounts (pw_db w) (pe_plan e))) w w'"
proof -
  let ?as = "pd_plan_accounts (pw_db w) (pe_plan e)"
  let ?F = "purchase_tokens (mg_hash m) e ?as" and ?single = "key_tokens (mg_hash m) e (idempotencyLineageKey e)"
  let ?w = "w\<lparr>pw_driven := pw_driven w @ [pe_id e]\<rparr>"
  have b0: "buys bought ?F w ?w" by (simp add: buys_def)
  show ?thesis
  proof (cases "pe_plan e = []")
    case True
    with assms(1) have "executeSingleAccount m e direct_plan ?w = (r, w')" by (simp add: executePurchase_def)
    from single_buys [OF this assms(2)] True have "buys bought ?F ?w w'"
      by (simp add: purchase_tokens_def lineage_keys_def)
    with b0 show ?thesis by (rule buying.chain)
  next
    case plan: False
    obtain p w1 where p: "on_db (GetPurchasePlan (mg_env m) (pe_plan e)) ?w = (p, w1)" by fastforce
    note b1 = buying.chain [OF b0 buys_reads [OF reads_tables(5) p]]
    obtain acc w2 where q: "on_db (GetPlanAccounts (mg_env m) (pe_plan e)) w1 = (acc, w2)" by fastforce
    note b2 = buying.chain [OF b1 buys_reads [OF reads_tables(4) q]]
    show ?thesis
    proof (cases p)
      case (Inl err)
      with assms(1) plan p b1 show ?thesis by (auto simp: executePurchase_def)
    next
      case (Inr pl)
      show ?thesis
      proof (cases "pe_account e = None")
        case False
        with assms(1) plan p Inr have "executeSingleAccount m e pl w1 = (r, w')" by (simp add: executePurchase_def)
        moreover have "lineage_keys e ?as = {idempotencyLineageKey e}" using False by (auto simp: lineage_keys_def)
        ultimately have "buys bought ?F w1 w'" using single_buys [of m e pl w1 r w' bought] assms(2)
          by (simp add: purchase_tokens_def)
        with b1 show ?thesis by (rule buying.chain)
      next
        case None: True
        show ?thesis
        proof (cases acc)
          case (Inl err)
          with assms(1) plan p Inr None q b2 show ?thesis by (auto simp: executePurchase_def)
        next
          case acc: (Inr accounts)
          have "accounts = pd_plan_accounts (pw_db w1) (pe_plan e)"
            using q acc by (auto simp: GetPlanAccounts_def dest!: on_db_facts ask_answer split: prod.splits sum.splits)
          also have "\<dots> = ?as" using b1 by (simp add: buys_def)
          finally have as: "accounts = ?as" .
          show ?thesis
          proof (cases "accounts = []")
            case True
            with assms(1) plan p Inr None q acc have "executeSingleAccount m e pl w2 = (r, w')" by (simp add: executePurchase_def)
            from single_buys [OF this assms(2)] True as have "buys bought ?F w2 w'" by (simp add: purchase_tokens_def lineage_keys_def)
            with b2 show ?thesis by (rule buying.chain)
          next
            case some: False
            with assms(1) plan p Inr None q acc have s: "executeScopeAware m e pl accounts w2 = (r, w')" by (simp add: executePurchase_def)
            show ?thesis
            proof (cases "reattachAccountScope e accounts")
              case (Inl err)
              with s b2 show ?thesis by (auto simp: executeScopeAware_def)
            next
              case e1: (Inr e1)
              from reattach_cases [OF e1] show ?thesis
              proof
                assume same: "e1 = e \<and> CHR '':'' \<notin> set (idempotencyLineageKey e)"
                with s e1 None obtain v where "executeMultiAccount m e pl accounts w2 = (v, w')"
                  by (auto simp: executeScopeAware_def split: prod.splits)
                from multi_buys [OF this assms(2)] same None plan some as have "buys bought ?F w2 w'"
                  by (simp add: purchase_tokens_def lineage_keys_def)
                with b2 show ?thesis by (rule buying.chain)
              next
                assume scoped: "(CHR '':'' \<in> set (idempotencyLineageKey e) \<and> pe_account e1 \<noteq> None) \<and>
                    pe_recs e1 = pe_recs e \<and> idempotencyLineageKey e1 = idempotencyLineageKey e"
                with s e1 have "executeSingleAccount m e1 pl w2 = (r, w')" by (simp add: executeScopeAware_def)
                from single_buys [OF this assms(2)] scoped have "buys bought ?F w2 w'"
                  by (simp add: purchase_tokens_def lineage_keys_def key_tokens_def)
                with b2 show ?thesis by (rule buying.chain)
              qed
            qed
          qed
        qed
      qed
    qed
  qed
qed

lemma execute_buys:
  assumes "executeAndFinalize m e w = (r, w')" "token_provider m bought"
  shows "buys bought (purchase_tokens (mg_hash m) e (pd_plan_accounts (pw_db w) (pe_plan e))) w w'"
proof -
  let ?F = "purchase_tokens (mg_hash m) e (pd_plan_accounts (pw_db w) (pe_plan e))"
  obtain execErr e1 w1 where d: "drive m e w = ((execErr, e1), w1)" by (metis surj_pair)
  have b1: "buys bought ?F w w1"
    using d purchase_buys [OF _ assms(2), of e w] by (auto simp: drive_def split: option.splits intro: buying.stay)
  note save = buys_db [OF keeps_accounts_Save, of "mg_env m" _ _ _ _ bought ?F]
  note ramp = buys_db [OF keeps_accounts_step, of "mg_env m" _ _ _ _ _ bought ?F]
  obtain q e2 w2 where s: "on_db (SavePurchaseExecution (mg_env m) (finalizeExecution (now_in m w1) e1 execErr)) w1 = ((q, e2), w2)"
    by (metis surj_pair)
  obtain p w3 where p: "updatePlanProgress m e2 w2 = (p, w3)" by fastforce
  have b3: "buys bought ?F w2 w3" using p ramp by (auto simp: updatePlanProgress_def split: if_splits intro: buying.stay)
  have "w' = w2 \<or> w' = w3 \<or> (\<exists>cause. w' = snd (recordRampAdvanceRefusal m e2 cause w3))"
    using assms(1) d s p by (auto simp: executeAndFinalize_def split: option.splits)
  moreover have "buys bought ?F w3 (snd (recordRampAdvanceRefusal m e2 cause w3))" for cause
    by (auto simp: recordRampAdvanceRefusal_def split: prod.split dest!: save)
  ultimately show ?thesis using b1 save [OF s] b3 buying.chain by blast
qed

section \<open>Driving a lineage again and again\<close>

fun redrive :: "('p, 'c) manager \<Rightarrow> execution list \<Rightarrow> 'c pworld \<Rightarrow> 'c pworld" where
  "redrive m [] w = w"
| "redrive m (e # es) w = redrive m es (snd (executeAndFinalize m e w))"

text \<open>The same purchase: the row itself, or a retry that copied its lineage key.\<close>

definition same_purchase :: "execution \<Rightarrow> execution \<Rightarrow> bool" where
  "same_purchase e e' = (idempotencyLineageKey e' = idempotencyLineageKey e \<and> pe_plan e' = pe_plan e \<and>
     pe_account e' = pe_account e \<and> selectedIndices (pe_recs e') = selectedIndices (pe_recs e))"

lemma same_tokens: "same_purchase e e' \<Longrightarrow> purchase_tokens h e' accounts = purchase_tokens h e accounts"
  by (simp add: same_purchase_def purchase_tokens_def lineage_keys_def key_tokens_def)

lemma redrive_buys:
  assumes "token_provider m bought" "\<forall>e' \<in> set es. same_purchase e e'"
  shows "buys bought (purchase_tokens (mg_hash m) e (pd_plan_accounts (pw_db w) (pe_plan e))) w (redrive m es w)"
  using assms(2)
proof (induction es arbitrary: w)
  case (Cons e' es)
  obtain r w1 where x: "executeAndFinalize m e' w = (r, w1)" by fastforce
  let ?F = "purchase_tokens (mg_hash m) e (pd_plan_accounts (pw_db w) (pe_plan e))"
  have plan: "pe_plan e' = pe_plan e" using Cons.prems by (simp add: same_purchase_def)
  have "buys bought ?F w w1"
    using execute_buys [OF x assms(1)] same_tokens [of e e'] Cons.prems plan by simp
  moreover from this have "pd_plan_accounts (pw_db w1) = pd_plan_accounts (pw_db w)" by (simp add: buys_def)
  with Cons.IH [of w1] Cons.prems have "buys bought ?F w1 (redrive m es w1)" by simp
  ultimately show ?case using x by (auto intro: buying.chain)
qed (simp add: buying.stay)

lemma card_tokens:
  "card (purchase_tokens h e accounts) \<le> length (selectedIndices (pe_recs e)) * max 1 (length accounts)"
proof -
  let ?n = "length (selectedIndices (pe_recs e))"
  have key: "card (key_tokens h e k) \<le> ?n" for k
    unfolding key_tokens_def using card_image_le [of "set (selectedIndices (pe_recs e))"] card_length le_trans by fastforce
  have fin: "finite (lineage_keys e accounts)" by (simp add: lineage_keys_def)
  have "card (purchase_tokens h e accounts) \<le> (\<Sum>k \<in> lineage_keys e accounts. card (key_tokens h e k))"
    unfolding purchase_tokens_def by (rule card_UN_le [OF fin])
  also have "\<dots> \<le> card (lineage_keys e accounts) * ?n" using sum_bounded_above [of "lineage_keys e accounts" _ ?n] key by simp
  also have "card (lineage_keys e accounts) \<le> max 1 (length accounts)"
  proof -
    have "card (f ` set accounts) \<le> length accounts" for f :: "cloud_account \<Rightarrow> string"
      using card_image_le [of "set accounts" f] card_length [of accounts] by simp
    then show ?thesis by (simp add: lineage_keys_def le_max_iff_disj)
  qed
  then have "card (lineage_keys e accounts) * ?n \<le> max 1 (length accounts) * ?n" by (rule mult_le_mono1)
  finally show ?thesis by (simp add: mult.commute)
qed

text \<open>C12: on a provider that honors idempotency tokens, driving an execution and its retries any
  number of times, with any database faults in between, commits at most one purchase per
  selected recommendation and account of the plan, under tokens derived from the lineage key.\<close>

theorem redrives_commit_once:
  assumes "token_provider m bought" and "\<forall>e' \<in> set es. same_purchase e e'"
  shows "bought (pw_cloud (redrive m es w)) \<subseteq> bought (pw_cloud w) \<union>
      purchase_tokens (mg_hash m) e (pd_plan_accounts (pw_db w) (pe_plan e)) \<and>
    card (bought (pw_cloud (redrive m es w)) - bought (pw_cloud w)) \<le>
      length (selectedIndices (pe_recs e)) * max 1 (length (pd_plan_accounts (pw_db w) (pe_plan e)))"
proof
  let ?F = "purchase_tokens (mg_hash m) e (pd_plan_accounts (pw_db w) (pe_plan e))"
  show sub: "bought (pw_cloud (redrive m es w)) \<subseteq> bought (pw_cloud w) \<union> ?F"
    using redrive_buys [OF assms] by (simp add: buys_def)
  have "finite ?F" by (simp add: purchase_tokens_def lineage_keys_def key_tokens_def)
  then have "card (bought (pw_cloud (redrive m es w)) - bought (pw_cloud w)) \<le> card ?F"
    using sub by (intro card_mono) auto
  with card_tokens show "card (bought (pw_cloud (redrive m es w)) - bought (pw_cloud w)) \<le>
      length (selectedIndices (pe_recs e)) * max 1 (length (pd_plan_accounts (pw_db w) (pe_plan e)))"
    by (rule le_trans [rotated])
qed

theorem redrives_commit_once_witness:
  "card (set (pw_cloud (redrive demo_manager [demo_execution, demo_execution\<lparr>pe_id := ''y'', pe_attempt := 0\<rparr>] demo_world))) \<le> 1 \<and>
   set (pw_cloud (redrive demo_manager [demo_execution] demo_world)) = {''k:0''}"
proof
  have p: "token_provider demo_manager set" by (simp add: token_provider_def demo_manager_def)
  let ?es = "[demo_execution, demo_execution\<lparr>pe_id := ''y'', pe_attempt := 0\<rparr>]"
  have "\<forall>e' \<in> set ?es. same_purchase demo_execution e'" by (simp add: same_purchase_def idempotencyLineageKey_def demo_execution_def)
  moreover have "length (selectedIndices (pe_recs demo_execution)) * max 1 (length (pd_plan_accounts (pw_db demo_world) (pe_plan demo_execution))) = 1"
    by code_simp
  ultimately show "card (set (pw_cloud (redrive demo_manager ?es demo_world))) \<le> 1"
    using redrives_commit_once [OF p, of ?es demo_execution demo_world] by (simp add: demo_world_def)
  show "set (pw_cloud (redrive demo_manager [demo_execution] demo_world)) = {''k:0''}" by code_simp
qed

end
