(* ===== verification/Purchase_Liveness_Props.thy ===== *)
theory Purchase_Liveness_Props
  imports Purchase_Sample
begin

text \<open>
  Progress: on a database without faults the sweeps leave nothing behind that they are there for.
  Both sweeps go through a list of executions; what that gives is proved once, in the locale
  \<open>sweep\<close>.
\<close>

section \<open>Other rows stay\<close>

definition spares :: "string \<Rightarrow> 'c pworld \<Rightarrow> 'c pworld \<Rightarrow> bool" where
  "spares i w w' = (\<forall>j s. j \<noteq> i \<longrightarrow> status_of (pw_db w) j = Some s \<longrightarrow> status_of (pw_db w') j = Some s)"

lemma spares_refl: "spares i w w"
  by (simp add: spares_def)

lemma spares_trans: "spares i a b \<Longrightarrow> spares i b c \<Longrightarrow> spares i a c"
  by (simp add: spares_def)

lemma spares_rows: "pd_rows (pw_db w') = pd_rows (pw_db w) \<Longrightarrow> spares i w w'"
  using rows_same [of "pw_db w'" "pw_db w"] by (simp add: spares_def)

lemma spares_grows: "wgrows m w w' \<Longrightarrow> env_ok (mg_env m) \<Longrightarrow> db_ok (mg_env m) (pw_db w) \<Longrightarrow> spares i w w'"
  using growsD(2) [of "mg_env m" "pw_db w" "pw_db w'"] by (auto simp: spares_def status_of_def)

lemma spares_move:
  assumes "move m i froms to w = (r, w')" "db_ok (mg_env m) (pw_db w)"
  shows "spares i w w'"
proof -
  obtain d where t: "TransitionExecutionStatus (mg_env m) i froms to (pw_db w) = (r, d)" "w' = w\<lparr>pw_db := d\<rparr>"
    using on_db_facts [OF assms(1)] by blast
  from t(1) db_okD(1) [OF assms(2)] show ?thesis
  proof (cases rule: Transition_cases)
    case (lost err)
    with t(2) spares_rows [of w' w] tables_rows [OF lost(2)] show ?thesis by simp
  next
    case (moved x now)
    from status_of_moved(1) [OF set_status_facts(2) moved(4,2,3)] t(2) show ?thesis by (simp add: spares_def)
  qed
qed

lemma save_statuses:
  assumes "on_db (SavePurchaseExecution env e) w = ((r, e'), w')" "pe_id e \<noteq> []"
  shows "spares (pe_id e) w w'" "r = None \<Longrightarrow> status_of (pw_db w') (pe_id e) = Some (pe_status e)"
    "status_of (pw_db w) (pe_id e) = Some (pe_status e) \<Longrightarrow> status_of (pw_db w') (pe_id e) = Some (pe_status e)"
    "pe_id e' = pe_id e" "pe_status e' = pe_status e"
proof -
  obtain d where s: "SavePurchaseExecution env e (pw_db w) = ((r, e'), d)" "w' = w\<lparr>pw_db := d\<rparr>"
    using on_db_facts [OF assms(1)] by blast
  show e': "pe_id e' = pe_id e" "pe_status e' = pe_status e"
    using conjunct1 [OF Save_result(1) [OF s(1) assms(2)]] by (metis execution.ext_inject execution.surjective execution.update_convs(26))+
  from s(1) assms(2) have "(r \<noteq> None \<and> pd_rows d = pd_rows (pw_db w)) \<or>
      status_of d = (status_of (pw_db w))(pe_id e \<mapsto> pe_status e)"
  proof (cases rule: Save_cases)
    case (failed err)
    with tables_rows [OF failed(2)] show ?thesis by simp
  next
    case (stored s now)
    have "pd_rows d = saved_rows now s (pd_rows (pw_db w))" using tables_rows [OF stored(3)] by simp
    from status_of_saved [OF this] stored_id [OF stored(2)] e' show ?thesis by (simp add: fun_eq_iff)
  qed
  with rows_same [of d "pw_db w"] s(2)
  show "spares (pe_id e) w w'" "r = None \<Longrightarrow> status_of (pw_db w') (pe_id e) = Some (pe_status e)"
    "status_of (pw_db w) (pe_id e) = Some (pe_status e) \<Longrightarrow> status_of (pw_db w') (pe_id e) = Some (pe_status e)"
    by (auto simp: spares_def)
qed

section \<open>A drive settles its execution\<close>

definition good :: "('p, 'c) manager \<Rightarrow> 'c pworld \<Rightarrow> bool" where
  "good m w = (env_ok (mg_env m) \<and> calm (mg_env m) \<and> db_ok (mg_env m) (pw_db w))"

lemma good_step: "step m w w' \<Longrightarrow> good m w \<Longrightarrow> good m w'"
  by (simp add: good_def step_def)

lemma drive_settles:
  assumes "executeAndFinalize m e w = (r, w')" "in_flight m e w" "good m w"
  shows "settled (pw_db w') (pe_id e)" "spares (pe_id e) w w'"
proof -
  have ok: "env_ok (mg_env m)" "calm (mg_env m)" "db_ok (mg_env m) (pw_db w)" using assms(3) by (simp_all add: good_def)
  obtain execErr e1 w1 where d: "drive m e w = ((execErr, e1), w1)" by (metis surj_pair)
  note k = drive_keeps [OF d]
  let ?e = "finalizeExecution (now_in m w1) e1 execErr"
  obtain saved e2 w2 where s: "on_db (SavePurchaseExecution (mg_env m) ?e) w1 = ((saved, e2), w2)" by (metis surj_pair)
  have fit: "fits (mg_env m) ?e" and id: "pe_id ?e = pe_id e" "pe_id e \<noteq> []"
    using assms(2) ok fits_core [of e1 e] k core_facts(1) [of e1 e] db_okD(2) [OF ok(3), of "pe_id e"]
    by (auto simp: in_flight_def finalized(2) ids_dom intro!: fits_finalized)
  obtain db2 where s2: "SavePurchaseExecution (mg_env m) ?e (pw_db w1) = ((saved, e2), db2)"
    using on_db_facts [OF s] by blast
  have none: "saved = None" using calm_save [OF ok(2) fit _ s2] id by simp
  note sv = save_statuses [OF s, unfolded id(1), OF id(2)]
  have st2: "status_of (pw_db w2) (pe_id e) = Some (pe_status ?e)" "pe_id e2 = pe_id e" "pe_status e2 = pe_status ?e"
    using sv none by simp_all
  have sp2: "spares (pe_id e) w w2"
    using spares_trans [OF spares_grows [OF conjunct1 [OF conjunct2 [OF k]] ok(1,3)] sv(1)] .
  obtain p w3 where p: "updatePlanProgress m e2 w2 = (p, w3)" by fastforce
  note rows3 = conjunct2 [OF progress_rows [OF p]]
  define e3 where "e3 = (\<lambda>cause. e2\<lparr>pe_error := appendErrNote (pe_error e2) (sprintf ''ramp not advanced: %v'' [FStr (err_string cause)])\<rparr>)"
  have "w' = w2 \<or> w' = w3 \<or> (\<exists>cause q. on_db (SavePurchaseExecution (mg_env m) (e3 cause)) w3 = (q, w'))"
    using assms(1) d s none p
    by (auto simp: executeAndFinalize_def recordRampAdvanceRefusal_def e3_def split: option.splits prod.splits)
  then have "spares (pe_id e) w2 w' \<and> status_of (pw_db w') (pe_id e) = Some (pe_status ?e)"
  proof (elim disjE exE)
    fix cause q
    assume q: "on_db (SavePurchaseExecution (mg_env m) (e3 cause)) w3 = (q, w')"
    have e3: "pe_id (e3 cause) = pe_id e" "pe_status (e3 cause) = pe_status ?e" using st2 by (simp_all add: e3_def)
    obtain q1 q2 where q12: "q = (q1, q2)" by fastforce
    note sv3 = save_statuses [OF q [unfolded q12], unfolded e3, OF id(2)]
    from sv3(1,3) spares_rows [OF rows3] rows_same [OF rows3] st2(1) show ?thesis by (auto intro: spares_trans)
  qed (use st2(1) rows3 rows_same [OF rows3] spares_rows [OF rows3] spares_refl in auto)
  then show "settled (pw_db w') (pe_id e)" "spares (pe_id e) w w'"
    using sp2 finished_facts(2) [OF finalized(1)] by (auto simp: settled_def intro: spares_trans)
qed

lemma calm_move:
  assumes "good m w" "status_of (pw_db w) i = Some s" "s \<in> set froms" "to \<in> set execution_statuses"
  shows "\<exists>e w'. move m i froms to w = (Inr e, w')"
proof -
  obtain x where x: "row_of (pw_db w) i = Some x" "row_status x = s" using assms(2) by (auto simp: status_of_def)
  let ?db = "(pw_db w)\<lparr>pd_statements := Suc (pd_statements (pw_db w))\<rparr>" and ?f = "set_status to (clock (mg_env m) (pw_db w))"
  have "x \<in> set (pd_rows ?db)" "movable i froms x" using x row_of_id [OF x(1)] assms(3) by (simp_all add: movable_def)
  then obtain y ys where ys: "map ?f (filter (movable i froms) (pd_rows ?db)) = y # ys" by (cases "filter (movable i froms) (pd_rows ?db)") (auto simp: filter_empty_conv)
  have "move_rows i froms to ?f ?db = Inr (?db\<lparr>pd_rows := update_rows (movable i froms) ?f (pd_rows ?db)\<rparr>, y # ys)"
    using assms(4) ys by (simp add: move_rows_def)
  moreover have "calm (mg_env m)" using assms(1) by (simp add: good_def)
  ultimately show ?thesis
    using calm_runs [of "mg_env m" "move_rows i froms to ?f" "pw_db w"] by (simp add: on_db_def TransitionExecutionStatus_def)
qed

section \<open>Sweeping a list\<close>

text \<open>What a sweep does to one execution: the statuses it takes, and that it settles what it takes.\<close>

locale sweep =
  fixes m :: "('p, 'c) manager" and one :: "execution \<Rightarrow> 'a \<Rightarrow> 'c pworld \<Rightarrow> 'a \<times> 'c pworld"
    and all :: "execution list \<Rightarrow> 'a \<Rightarrow> 'c pworld \<Rightarrow> 'a \<times> 'c pworld" and froms :: "string list"
  assumes none: "all [] acc w = (acc, w)"
    and more: "all (e # es) acc w = (case one e acc w of (acc, w) \<Rightarrow> all es acc w)"
    and steps: "one e acc w = (acc', w') \<Longrightarrow> step m w w'"
    and apart: "one e acc w = (acc', w') \<Longrightarrow> good m w \<Longrightarrow> spares (pe_id e) w w'"
    and settles: "one e acc w = (acc', w') \<Longrightarrow> good m w \<Longrightarrow> status_of (pw_db w) (pe_id e) = Some s \<Longrightarrow> s \<in> set froms \<Longrightarrow>
      settled (pw_db w') (pe_id e)"
begin

lemma sweep_step: "all es acc w = (acc', w') \<Longrightarrow> step m w w'"
proof (induction es arbitrary: acc w)
  case Nil
  then show ?case by (simp add: none step_refl)
next
  case (Cons e es)
  obtain a w1 where o: "one e acc w = (a, w1)" by fastforce
  with Cons.prems have "all es a w1 = (acc', w')" by (simp add: more)
  from Cons.IH [OF this] steps [OF o] show ?case by (blast intro: step_trans)
qed

lemma settled_stays: "step m w w' \<Longrightarrow> good m w \<Longrightarrow> settled (pw_db w) i \<Longrightarrow> settled (pw_db w') i"
  using settled_leads unfolding step_def good_def by blast

lemma swept:
  "all es acc w = (acc', w') \<Longrightarrow> good m w \<Longrightarrow> e \<in> set es \<Longrightarrow> status_of (pw_db w) (pe_id e) = Some s \<Longrightarrow> s \<in> set froms \<Longrightarrow>
   settled (pw_db w') (pe_id e)"
proof (induction es arbitrary: acc w)
  case (Cons f es)
  obtain a w1 where o: "one f acc w = (a, w1)" by fastforce
  with Cons.prems(1) have rest: "all es a w1 = (acc', w')" by (simp add: more)
  note g1 = good_step [OF steps [OF o] Cons.prems(2)]
  show ?case
  proof (cases "pe_id e = pe_id f")
    case True
    with settles [OF o Cons.prems(2)] Cons.prems(4,5) have "settled (pw_db w1) (pe_id e)" by simp
    with settled_stays [OF sweep_step [OF rest] g1] show ?thesis .
  next
    case False
    with apart [OF o Cons.prems(2)] Cons.prems(4) have "status_of (pw_db w1) (pe_id e) = Some s" by (simp add: spares_def)
    with Cons.IH [OF rest g1] Cons.prems(3,5) False show ?thesis by auto
  qed
qed simp

end

lemma fire_settles:
  assumes "fireOneDue m e w = (r, w')" "good m w"
  shows "spares (pe_id e) w w'" "status_of (pw_db w) (pe_id e) = Some ''scheduled'' \<Longrightarrow> settled (pw_db w') (pe_id e)"
proof -
  have ok: "db_ok (mg_env m) (pw_db w)" using assms(2) by (simp add: good_def)
  obtain q w1 where q: "move m (pe_id e) [''scheduled''] ''approved'' w = (q, w1)" by fastforce
  note sp = spares_move [OF q ok] and g1 = good_step [OF move_step [OF q lifecycle_fire] assms(2)]
  have "spares (pe_id e) w w' \<and> (isl q \<or> settled (pw_db w') (pe_id e))"
  proof (cases q)
    case (Inl err)
    with assms(1) q sp show ?thesis by (simp add: fireOneDue_def)
  next
    case (Inr u)
    note mr = move_row [OF q [unfolded Inr] ok]
    let ?u = "u\<lparr>pe_approved_by := Some ''scheduler''\<rparr>"
    obtain s u2 w2 where s: "on_db (SavePurchaseExecution (mg_env m) ?u) w1 = ((s, u2), w2)" by (metis surj_pair)
    obtain p w3 where p: "executeAndFinalize m u2 w2 = (p, w3)" by fastforce
    have w3: "w' = w3" using assms(1) q Inr s p by (auto simp: fireOneDue_def split: option.splits)
    have "in_flight m ?u w1" using mr by (auto simp: in_flight_def fits_def)
    from stamp_step [OF s this] mr g1 have st: "step m w1 w2" "in_flight m u2 w2" by (auto simp: good_def)
    have id: "pe_id ?u = pe_id e" "pe_id e \<noteq> []"
      using mr g1 db_okD(2) [of "mg_env m" "pw_db w1" "pe_id e"] by (auto simp: good_def ids_dom)
    note sv = save_statuses [OF s, unfolded id(1), OF id(2)]
    from drive_settles [OF p st(2) good_step [OF st(1) g1]] sv(1,4) spares_trans sp w3 show ?thesis by metis
  qed
  moreover have "\<not> isl q" if "status_of (pw_db w) (pe_id e) = Some ''scheduled''"
    using calm_move [OF assms(2) that, of "[''scheduled'']" "''approved''"] q by (auto simp: execution_statuses_def)
  ultimately show "spares (pe_id e) w w'" "status_of (pw_db w) (pe_id e) = Some ''scheduled'' \<Longrightarrow> settled (pw_db w') (pe_id e)"
    by blast+
qed

lemma reap_settles:
  assumes "reapOne m e age res w = (r, w')" "good m w"
  shows "spares (pe_id e) w w'" "status_of (pw_db w) (pe_id e) = Some s \<Longrightarrow> s \<in> set stuckStatuses \<Longrightarrow> settled (pw_db w') (pe_id e)"
proof -
  have ok: "db_ok (mg_env m) (pw_db w)" using assms(2) by (simp add: good_def)
  obtain q w1 where q: "move m (pe_id e) stuckStatuses ''failed'' w = (q, w1)" by fastforce
  note sp = spares_move [OF q ok] and g1 = good_step [OF move_step [OF q lifecycle_fail] assms(2)]
  have "spares (pe_id e) w w' \<and> (isl q \<or> settled (pw_db w') (pe_id e))"
  proof (cases q)
    case (Inl err)
    with assms(1) q sp show ?thesis by (simp add: reapOne_def)
  next
    case (Inr u)
    note mr = move_row [OF q [unfolded Inr] ok]
    let ?u = "u\<lparr>pe_error := reap_note e age\<rparr>"
    obtain s u2 w2 where s: "on_db (SavePurchaseExecution (mg_env m) ?u) w1 = ((s, u2), w2)" by (metis surj_pair)
    have w2: "w' = w2" using assms(1) q Inr s by (auto simp: reapOne_def split: option.splits)
    have id: "pe_id ?u = pe_id e" "pe_id e \<noteq> []"
      using mr g1 db_okD(2) [of "mg_env m" "pw_db w1" "pe_id e"] by (auto simp: good_def ids_dom)
    note sv = save_statuses [OF s, unfolded id(1), OF id(2)]
    have "status_of (pw_db w2) (pe_id e) = Some ''failed''" using sv(3) mr by (auto simp: status_of_def)
    with sv(1) sp w2 show ?thesis by (auto simp: settled_def final_status_def intro: spares_trans)
  qed
  moreover have "\<not> isl q" if "status_of (pw_db w) (pe_id e) = Some s" "s \<in> set stuckStatuses" for s
    using calm_move [OF assms(2) that, of "''failed''"] q by (auto simp: execution_statuses_def)
  ultimately show "spares (pe_id e) w w'"
    "status_of (pw_db w) (pe_id e) = Some s \<Longrightarrow> s \<in> set stuckStatuses \<Longrightarrow> settled (pw_db w') (pe_id e)"
    by blast+
qed

interpretation firing: sweep m "\<lambda>e acc w. case fireOneDue m e w of (o', w) \<Rightarrow> (count_fire o' acc, w)" "fire_all m" "[''scheduled'']" for m
  by unfold_locales (auto intro: fireOneDue_step fire_settles split: prod.splits)

interpretation reaping: sweep m "\<lambda>e. reapOne m e age" "reap_all m age" stuckStatuses for m age
  by unfold_locales (auto intro: reapOne_step reap_settles)

section \<open>The sweeps leave nothing behind\<close>

lemma row_of_member: "db_ok env db \<Longrightarrow> x \<in> set (pd_rows db) \<Longrightarrow> row_of db (row_id x) = Some x"
  unfolding row_of_def by (rule map_of_is_SomeI) (auto simp: db_ok_def comp_def)

lemma listed:
  assumes "row_of db i = Some x" "p x" "length (filter p (pd_rows db)) \<le> n"
  shows "\<exists>e \<in> set (map row_execution (take n (sort_key f (filter p (pd_rows db))))). pe_id e = i"
proof -
  have "x \<in> set (filter p (pd_rows db))" "row_id x = i" using row_of_id [OF assms(1)] assms(2) by simp_all
  moreover have "take n (sort_key f (filter p (pd_rows db))) = sort_key f (filter p (pd_rows db))" using assms(3) by simp
  ultimately show ?thesis by (auto simp: row_execution_def intro!: bexI [of _ x])
qed

text \<open>The rows each sweep is for; it lists at most a thousand.\<close>

definition due_rows :: "('p, 'c) manager \<Rightarrow> 'c pworld \<Rightarrow> purchase_row list" where
  "due_rows m w = filter (\<lambda>x. row_status x = ''scheduled'' \<and> fire_due (now_in m w) x) (pd_rows (pw_db w))"

definition stuck_rows :: "('p, 'c) manager \<Rightarrow> int \<Rightarrow> 'c pworld \<Rightarrow> purchase_row list" where
  "stuck_rows m age w = filter (\<lambda>x. row_status x \<in> set stuckStatuses \<and> older_than (now_in m w) age x) (pd_rows (pw_db w))"

text \<open>C23: when no database statement fails, one pass over the delayed purchases that finds at
  most a thousand due ones leaves none of them open: each is in a final status afterwards.\<close>

theorem due_purchases_settle:
  assumes "env_ok (mg_env m)" and "calm (mg_env m)" and "db_ok (mg_env m) (pw_db w)"
    and "length (due_rows m w) \<le> 1000" and "x \<in> set (due_rows m w)"
    and "FireScheduledDelayedPurchases m w = (r, w')"
  shows "\<not> isl r \<and> (\<exists>s. status_of (pw_db w') (row_id x) = Some s \<and> final_status s)"
proof -
  have good: "good m w" using assms(1-3) by (simp add: good_def)
  obtain q w1 where q: "on_db (GetScheduledExecutionsDue (mg_env m)) w = (q, w1)" by fastforce
  have q1: "quiet w w1" by (rule quiet_reads [OF reads_lists(4) q])
  let ?due = "\<lambda>x. row_status x = ''scheduled'' \<and> fire_due (now_in m w) x"
  have row: "row_of (pw_db w) (row_id x) = Some x" "?due x"
    using assms(3,5) by (auto simp: due_rows_def row_of_member)
  have es: "q = Inr (map row_execution (take 1000 (sort_key (\<lambda>x. the (pe_fire_at (xr_exec x))) (filter ?due (pd_rows (pw_db w))))))"
    using q assms(2) by (auto simp: on_db_def GetScheduledExecutionsDue_def ask_def run_stmt_def calm_def now_in_def)
  from listed [where n = 1000 and p = ?due, OF row] assms(4) obtain e where e: "e \<in> set (projr q)" "pe_id e = row_id x"
    unfolding es sum.sel due_rows_def by blast
  obtain acc w2 where f: "fire_all m (projr q) \<lparr>fi_found = int (length (projr q)), fi_fired = 0, fi_race_lost = 0, fi_errored = 0\<rparr> w1 = (acc, w2)"
    by fastforce
  have "r = Inr acc" "w' = w2" using assms(6) q es f by (auto simp: FireScheduledDelayedPurchases_def)
  moreover have "settled (pw_db w2) (pe_id e)"
    by (rule firing.swept [OF f good_step [OF quiet_step [OF q1] good] e(1), of "''scheduled''"])
       (use row e(2) q1 rows_same [of "pw_db w1" "pw_db w"] in \<open>simp_all add: status_of_row quiet_def\<close>)
  ultimately show ?thesis using e(2) by (simp add: settled_def)
qed

text \<open>C24: when no database statement fails, one pass of the reaper that finds at most a thousand
  stuck executions leaves none of them open: what was approved or running for longer than the age
  is in a final status afterwards.\<close>

theorem stuck_executions_settle:
  assumes "env_ok (mg_env m)" and "calm (mg_env m)" and "db_ok (mg_env m) (pw_db w)" and "0 < age"
    and "length (stuck_rows m age w) \<le> 1000" and "x \<in> set (stuck_rows m age w)"
    and "ReapStuckExecutions m age w = (r, w')"
  shows "\<not> isl r \<and> (\<exists>s. status_of (pw_db w') (row_id x) = Some s \<and> final_status s)"
proof -
  have good: "good m w" using assms(1-3) by (simp add: good_def)
  obtain q w1 where q: "on_db (ListStuckExecutions (mg_env m) stuckStatuses age) w = (q, w1)" by fastforce
  have q1: "quiet w w1" by (rule quiet_reads [OF reads_lists(2) q])
  let ?stuck = "\<lambda>x. row_status x \<in> set stuckStatuses \<and> older_than (now_in m w) age x"
  have row: "row_of (pw_db w) (row_id x) = Some x" "?stuck x"
    using assms(3,6) by (auto simp: stuck_rows_def row_of_member)
  have es: "q = Inr (map row_execution (take 1000 (sort_key xr_updated (filter ?stuck (pd_rows (pw_db w))))))"
    using q assms(2,4) by (auto simp: on_db_def ListStuckExecutions_def queryExecutions_def ask_def run_stmt_def calm_def now_in_def
        stuckStatuses_def)
  from listed [where n = 1000 and p = ?stuck, OF row] assms(5) obtain e where e: "e \<in> set (projr q)" "pe_id e = row_id x"
    unfolding es sum.sel stuck_rows_def by blast
  obtain acc w2 where f: "reap_all m age (projr q) \<lparr>re_found = int (length (projr q)), re_reaped = 0, re_race_lost = 0, re_errored = 0\<rparr> w1 = (acc, w2)"
    by fastforce
  have "r = Inr acc" "w' = w2" using assms(7) q es f by (auto simp: ReapStuckExecutions_def)
  moreover have "settled (pw_db w2) (pe_id e)"
    by (rule reaping.swept [OF f good_step [OF quiet_step [OF q1] good] e(1), of "row_status x"])
       (use row e(2) q1 rows_same [of "pw_db w1" "pw_db w"] in \<open>simp_all add: status_of_row quiet_def\<close>)
  ultimately show ?thesis using e(2) by (simp add: settled_def)
qed

text \<open>A delayed purchase that is due, and a run that hangs for six minutes.\<close>

definition waiting_world :: "string \<Rightarrow> gotime option \<Rightarrow> string list pworld" where
  "waiting_world st t = demo_world\<lparr>pw_db := demo_db\<lparr>pd_rows := [\<lparr>xr_exec = demo_execution\<lparr>pe_status := st, pe_fire_at := t\<rparr>,
     xr_canceled_by = None, xr_updated = - 360 * second_ns\<rparr>]\<rparr>\<rparr>"

lemma waiting_ok: "st \<in> set execution_statuses \<Longrightarrow> db_ok (mg_env demo_manager) (pw_db (waiting_world st t))"
  using demo_ok(2) by (simp add: waiting_world_def demo_world_def demo_db_def db_ok_def ids_def fits_def demo_execution_def)

theorem due_purchases_settle_witness:
  "\<exists>s. status_of (pw_db (snd (FireScheduledDelayedPurchases demo_manager (waiting_world ''scheduled'' (Some 0))))) ''x'' = Some s \<and> final_status s"
proof -
  let ?w = "waiting_world ''scheduled'' (Some 0)"
  have due: "due_rows demo_manager ?w = pd_rows (pw_db ?w)" by code_simp
  obtain r w' where f: "FireScheduledDelayedPurchases demo_manager ?w = (r, w')" by fastforce
  have "db_ok (mg_env demo_manager) (pw_db ?w)" by (rule waiting_ok) (simp add: execution_statuses_def)
  from due_purchases_settle [OF demo_ok(1) demo_calm this _ _ f, of "hd (pd_rows (pw_db ?w))"] due f show ?thesis
    by (simp add: waiting_world_def demo_execution_def)
qed

theorem stuck_executions_settle_witness:
  "\<exists>s. status_of (pw_db (snd (ReapStuckExecutions demo_manager (300 * second_ns) (waiting_world ''running'' None)))) ''x'' = Some s \<and> final_status s"
proof -
  let ?w = "waiting_world ''running'' None" and ?age = "300 * second_ns"
  have stuck: "stuck_rows demo_manager ?age ?w = pd_rows (pw_db ?w)" by code_simp
  obtain r w' where f: "ReapStuckExecutions demo_manager ?age ?w = (r, w')" by fastforce
  have "db_ok (mg_env demo_manager) (pw_db ?w)" by (rule waiting_ok) (simp add: execution_statuses_def)
  from stuck_executions_settle [OF demo_ok(1) demo_calm this _ _ _ f, of "hd (pd_rows (pw_db ?w))"] stuck f show ?thesis
    by (simp add: waiting_world_def demo_execution_def second_ns_def)
qed

end
