(* ===== verification/Auth_Types.thy ===== *)
theory Auth_Types
  imports Go_Time
begin

text \<open>
  The vocabulary of authorization (\<open>internal/auth/types.go\<close>, \<open>account_scope.go\<close>, the pure
  functions of \<open>group_ceiling.go\<close>, \<open>service_group.go\<close> and \<open>service_helpers.go\<close>): permissions
  with their constraints, the decision whether a permission set allows a request, account
  scopes, and the order on permissions the grant ceiling compares with. The salt of a user and
  the client of a session, which nothing reads, are left out.
\<close>

section \<open>Permissions\<close>

record permission_constraints =
  cn_accounts :: "string list"
  cn_providers :: "string list"
  cn_services :: "string list"
  cn_regions :: "string list"
  cn_max :: f64

record permission =
  pm_action :: string
  pm_resource :: string
  pm_constraints :: "permission_constraints option"

definition ActionView :: string where [go_consts]: "ActionView = ''view''"
definition ActionCreate :: string where [go_consts]: "ActionCreate = ''create''"
definition ActionUpdate :: string where [go_consts]: "ActionUpdate = ''update''"
definition ActionDelete :: string where [go_consts]: "ActionDelete = ''delete''"
definition ActionExecute :: string where [go_consts]: "ActionExecute = ''execute''"
definition ActionAdmin :: string where [go_consts]: "ActionAdmin = ''admin''"
definition ActionCancelOwn :: string where [go_consts]: "ActionCancelOwn = ''cancel-own''"
definition ActionRetryOwn :: string where [go_consts]: "ActionRetryOwn = ''retry-own''"
definition ActionRetryAny :: string where [go_consts]: "ActionRetryAny = ''retry-any''"
definition ActionApproveAny :: string where [go_consts]: "ActionApproveAny = ''approve-any''"
definition ActionRevokeOwn :: string where [go_consts]: "ActionRevokeOwn = ''revoke-own''"
definition ActionSellOwn :: string where [go_consts]: "ActionSellOwn = ''sell-own''"

definition ResourceRecommendations :: string where [go_consts]: "ResourceRecommendations = ''recommendations''"
definition ResourcePlans :: string where [go_consts]: "ResourcePlans = ''plans''"
definition ResourcePurchases :: string where [go_consts]: "ResourcePurchases = ''purchases''"
definition ResourceHistory :: string where [go_consts]: "ResourceHistory = ''history''"
definition ResourceConfig :: string where [go_consts]: "ResourceConfig = ''config''"
definition ResourceUsers :: string where [go_consts]: "ResourceUsers = ''users''"
definition ResourceRIExchange :: string where [go_consts]: "ResourceRIExchange = ''ri-exchange''"
definition ResourceAll :: string where [go_consts]: "ResourceAll = ''*''"

definition perm :: "string \<Rightarrow> string \<Rightarrow> permission" where
  "perm a r = \<lparr>pm_action = a, pm_resource = r, pm_constraints = None\<rparr>"

text \<open>The money-spending pairs the \<open>admin:*\<close> wildcard does not cover.\<close>

definition adminCarvedOuts :: "(string \<times> string) list" where
  "adminCarvedOuts = [(ActionExecute, ResourcePurchases), (ActionApproveAny, ResourcePurchases),
     (ActionRetryAny, ResourcePurchases), (ActionExecute, ResourceRIExchange)]"

definition carved_out :: "string \<Rightarrow> string \<Rightarrow> bool" where
  "carved_out a r = ((a, r) \<in> set adminCarvedOuts)"

definition DefaultAdminPermissions :: "permission list" where
  "DefaultAdminPermissions = [perm ActionAdmin ResourceAll]"

definition DefaultUserPermissions :: "permission list" where
  "DefaultUserPermissions =
    [perm ActionView ResourceRecommendations, perm ActionView ResourcePlans, perm ActionView ResourcePurchases,
     perm ActionView ResourceHistory, perm ActionCreate ResourcePlans, perm ActionUpdate ResourcePlans,
     perm ActionDelete ResourcePlans, perm ActionUpdate ResourcePurchases, perm ActionCancelOwn ResourcePurchases,
     perm ActionRetryOwn ResourcePurchases, perm ActionRevokeOwn ResourcePurchases, perm ActionSellOwn ResourcePurchases,
     perm ActionView ResourceConfig]"

definition DefaultReadOnlyPermissions :: "permission list" where
  "DefaultReadOnlyPermissions =
    [perm ActionView ResourceRecommendations, perm ActionView ResourcePlans, perm ActionView ResourceHistory,
     perm ActionView ResourceConfig]"

definition DefaultPurchaserPermissions :: "permission list" where
  "DefaultPurchaserPermissions =
    [perm ActionExecute ResourcePurchases, perm ActionApproveAny ResourcePurchases, perm ActionRetryAny ResourcePurchases,
     perm ActionView ResourceRecommendations, perm ActionView ResourcePlans, perm ActionView ResourcePurchases,
     perm ActionView ResourceHistory]"

section \<open>Deciding a request\<close>

definition containsAny :: "string list \<Rightarrow> string list \<Rightarrow> bool" where
  "containsAny allowed requested = list_ex (\<lambda>r. r \<in> set allowed) requested"

definition matchStringListConstraints :: "string list \<Rightarrow> string list \<Rightarrow> bool" where
  "matchStringListConstraints permList reqList =
    (if permList \<noteq> [] \<and> reqList \<noteq> [] then containsAny permList reqList else True)"

definition matchAllRegionsConstraint :: "string list \<Rightarrow> string list \<Rightarrow> bool" where
  "matchAllRegionsConstraint permRegions reqRegions =
    (if permRegions = [] \<or> reqRegions = [] then True
     else let permitted = map (\<lambda>r. to_lower (trim_space r)) permRegions in
       list_all (\<lambda>r. to_lower (trim_space r) \<in> set permitted) reqRegions)"

definition matchPurchaseAmountConstraint :: "f64 \<Rightarrow> f64 \<Rightarrow> bool" where
  "matchPurchaseAmountConstraint permMax reqMax = (\<not> (flt (Fin 0) permMax \<and> flt permMax reqMax))"

definition matchConstraints :: "permission_constraints \<Rightarrow> permission_constraints \<Rightarrow> bool" where
  "matchConstraints p r =
    (matchStringListConstraints (cn_accounts p) (cn_accounts r) \<and>
     matchStringListConstraints (cn_providers p) (cn_providers r) \<and>
     matchStringListConstraints (cn_services p) (cn_services r) \<and>
     matchAllRegionsConstraint (cn_regions p) (cn_regions r) \<and>
     matchPurchaseAmountConstraint (cn_max p) (cn_max r))"

definition checkAdminPermission :: "permission \<Rightarrow> bool" where
  "checkAdminPermission p = (pm_action p = ActionAdmin \<and> pm_resource p = ResourceAll)"

definition checkPermissionMatch :: "permission \<Rightarrow> string \<Rightarrow> string \<Rightarrow> bool" where
  "checkPermissionMatch p action resource =
    (if pm_action p \<noteq> action then False
     else if pm_resource p \<noteq> resource \<and> pm_resource p \<noteq> ResourceAll then False
     else True)"

definition checkPermissionConstraints :: "permission \<Rightarrow> permission_constraints option \<Rightarrow> bool" where
  "checkPermissionConstraints p constraints =
    (case (constraints, pm_constraints p) of (Some r, Some c) \<Rightarrow> matchConstraints c r | _ \<Rightarrow> True)"

fun permissionsAllow :: "permission list \<Rightarrow> string \<Rightarrow> string \<Rightarrow> permission_constraints option \<Rightarrow> bool" where
  "permissionsAllow [] action resource constraints = False"
| "permissionsAllow (p # ps) action resource constraints =
    (if checkAdminPermission p then
       (if carved_out action resource then permissionsAllow ps action resource constraints else True)
     else if \<not> checkPermissionMatch p action resource then permissionsAllow ps action resource constraints
     else if \<not> checkPermissionConstraints p constraints then permissionsAllow ps action resource constraints
     else True)"

definition errNoConstraintSets :: "string \<Rightarrow> string \<Rightarrow> goerr" where
  "errNoConstraintSets action resource =
    Errorf ''no permission constraint sets provided for %s on %s'' [EStr action, EStr resource]"

definition PermissionsAllowForConstraintSets :: "permission list \<Rightarrow> string \<Rightarrow> string \<Rightarrow>
    permission_constraints list \<Rightarrow> goerr + bool" where
  "PermissionsAllowForConstraintSets ps action resource sets =
    (if sets = [] then Inl (errNoConstraintSets action resource)
     else Inr (list_all (\<lambda>c. permissionsAllow ps action resource (Some c)) sets))"

section \<open>Users, groups, sessions, keys\<close>

record user =
  us_id :: string
  us_email :: string
  us_hash :: string
  us_groups :: "string list"
  us_active :: bool
  us_mfa :: bool
  us_secret :: string
  us_pending :: string
  us_pending_expires :: "gotime option"
  us_codes :: "string list"
  us_reset :: string
  us_reset_expires :: "gotime option"
  us_failed :: int
  us_locked :: "gotime option"
  us_history :: "string list"
  us_created :: gotime
  us_updated :: gotime
  us_login :: "gotime option"

record group =
  gr_id :: string
  gr_name :: string
  gr_description :: string
  gr_permissions :: "permission list"
  gr_accounts :: "string list"
  gr_system :: bool
  gr_creator :: string
  gr_created :: gotime
  gr_updated :: gotime

record session =
  se_token :: string
  se_user :: string
  se_email :: string
  se_expires :: gotime
  se_created :: gotime
  se_csrf :: string

record api_key =
  ak_id :: string
  ak_user :: string
  ak_name :: string
  ak_prefix :: string
  ak_hash :: string
  ak_permissions :: "permission list"
  ak_active :: bool
  ak_expires :: "gotime option"
  ak_created :: gotime
  ak_used :: "gotime option"
  ak_total :: int
  ak_window :: int
  ak_window_start :: "gotime option"

definition DefaultAdminGroupID :: string where
  "DefaultAdminGroupID = ''00000000-0000-5000-8000-000000000001''"

definition AdminAPIKeyActorID :: string where
  "AdminAPIKeyActorID = ''admin-api-key''"

text \<open>What a request is authorized with: the union over the user's groups.\<close>

record auth_context =
  ac_user :: "user option"
  ac_groups :: "group list"
  ac_accounts :: "string list"
  ac_permissions :: "permission list"
  ac_skipped :: int

fun ctx_loop :: "permission list \<Rightarrow> string \<Rightarrow> string \<Rightarrow> bool" where
  "ctx_loop [] action resource = False"
| "ctx_loop (p # ps) action resource =
    (if pm_action p = ActionAdmin \<and> pm_resource p = ResourceAll then
       (if carved_out action resource then ctx_loop ps action resource else True)
     else if pm_action p \<noteq> action then ctx_loop ps action resource
     else if pm_resource p \<noteq> resource \<and> pm_resource p \<noteq> ResourceAll then ctx_loop ps action resource
     else True)"

definition ctx_HasPermission :: "auth_context \<Rightarrow> string \<Rightarrow> string \<Rightarrow> bool" where
  "ctx_HasPermission ctx action resource = ctx_loop (ac_permissions ctx) action resource"

section \<open>Account scopes\<close>

text \<open>The list convention: empty, or a \<open>*\<close> entry, is every account.\<close>

definition IsUnrestrictedAccess :: "string list \<Rightarrow> bool" where
  "IsUnrestrictedAccess allowed = (allowed = [] \<or> list_ex (\<lambda>a. a = ''*'') allowed)"

definition MatchesAccount :: "string list \<Rightarrow> string \<Rightarrow> string \<Rightarrow> bool" where
  "MatchesAccount allowed accountID accountName =
    (IsUnrestrictedAccess allowed \<or>
     list_ex (\<lambda>a. a = accountID \<or> accountName \<noteq> [] \<and> a = accountName) allowed)"

definition CanAccessAccount :: "auth_context \<Rightarrow> string \<Rightarrow> string \<Rightarrow> bool" where
  "CanAccessAccount ctx = MatchesAccount (ac_accounts ctx)"

record account_scope =
  as_accounts :: "string list"
  as_unrestricted :: bool

definition UnrestrictedScope :: account_scope where
  "UnrestrictedScope = \<lparr>as_accounts = [], as_unrestricted = True\<rparr>"

definition ScopeForAccounts :: "string list \<Rightarrow> account_scope" where
  "ScopeForAccounts accounts = \<lparr>as_accounts = accounts, as_unrestricted = False\<rparr>"

definition ScopeFromLegacyList :: "string list \<Rightarrow> account_scope" where
  "ScopeFromLegacyList accounts = (if IsUnrestrictedAccess accounts then UnrestrictedScope else ScopeForAccounts accounts)"

definition Allows :: "account_scope \<Rightarrow> string \<Rightarrow> string \<Rightarrow> bool" where
  "Allows s accountID accountName =
    (as_unrestricted s \<or> list_ex (\<lambda>a. a = accountID \<or> accountName \<noteq> [] \<and> a = accountName) (as_accounts s))"

definition FilterIDs :: "account_scope \<Rightarrow> string list \<Rightarrow> string list" where
  "FilterIDs s ids = (if as_unrestricted s then ids else filter (\<lambda>i. Allows s i []) ids)"

section \<open>The order of the grant ceiling\<close>

definition listCovers :: "string list \<Rightarrow> string list \<Rightarrow> bool" where
  "listCovers held req =
    (if held = [] then True else if req = [] then False else list_all (\<lambda>v. v \<in> set held) req)"

definition amountCovers :: "f64 \<Rightarrow> f64 \<Rightarrow> bool" where
  "amountCovers heldMax reqMax =
    (if fle heldMax (Fin 0) then True else flt (Fin 0) reqMax \<and> fle reqMax heldMax)"

definition no_constraints :: permission_constraints where
  "no_constraints = \<lparr>cn_accounts = [], cn_providers = [], cn_services = [], cn_regions = [], cn_max = Fin 0\<rparr>"

definition constraintsCover :: "permission_constraints option \<Rightarrow> permission_constraints option \<Rightarrow> bool" where
  "constraintsCover held req =
    (case held of None \<Rightarrow> True
     | Some h \<Rightarrow>
       let r = (case req of None \<Rightarrow> no_constraints | Some r \<Rightarrow> r) in
       listCovers (cn_accounts h) (cn_accounts r) \<and> listCovers (cn_providers h) (cn_providers r) \<and>
       listCovers (cn_services h) (cn_services r) \<and> listCovers (cn_regions h) (cn_regions r) \<and>
       amountCovers (cn_max h) (cn_max r))"

fun permissionCoveredBy :: "permission list \<Rightarrow> permission \<Rightarrow> bool" where
  "permissionCoveredBy [] req = False"
| "permissionCoveredBy (p # ps) req =
    (if pm_action p \<noteq> pm_action req \<or> pm_resource p \<noteq> pm_resource req then permissionCoveredBy ps req
     else if constraintsCover (pm_constraints p) (pm_constraints req) then True
     else permissionCoveredBy ps req)"

fun grantCeilingAllows :: "permission list \<Rightarrow> permission \<Rightarrow> bool" where
  "grantCeilingAllows [] req = False"
| "grantCeilingAllows (held # ps) req =
    (if checkAdminPermission held then
       (if carved_out (pm_action req) (pm_resource req) then grantCeilingAllows ps req else True)
     else if \<not> checkPermissionMatch held (pm_action req) (pm_resource req) then grantCeilingAllows ps req
     else if \<not> constraintsCover (pm_constraints held) (pm_constraints req) then grantCeilingAllows ps req
     else True)"

text \<open>\<open>None\<close> is the empty description: nothing reaches beyond.\<close>

fun scope_gap_loop :: "string list \<Rightarrow> string list \<Rightarrow> string option" where
  "scope_gap_loop outer [] = None"
| "scope_gap_loop outer (a # as) =
    (if a \<notin> set outer then Some (sprintf ''access to cloud account %q'' [FStr a]) else scope_gap_loop outer as)"

definition accountScopeGap :: "string list \<Rightarrow> string list \<Rightarrow> string option" where
  "accountScopeGap outer requested =
    (if IsUnrestrictedAccess outer then None
     else if IsUnrestrictedAccess requested then Some ''unrestricted access to all cloud accounts''
     else scope_gap_loop outer requested)"

section \<open>Malformed permissions\<close>

definition ErrInvalidPermission :: goerr where "ErrInvalidPermission = Sentinel ''invalid permission''"

definition blank :: "string \<Rightarrow> bool" where
  "blank s = (trim_space s = [])"

definition validateConstraintEntries :: "nat \<Rightarrow> permission \<Rightarrow> goerr option" where
  "validateConstraintEntries i p =
    (case pm_constraints p of None \<Rightarrow> None
     | Some c \<Rightarrow>
       check_each 0 (\<lambda>_ (name, values). check_each 0 (\<lambda>j value.
         if blank value then Some (Errorf ''%w: entry %d (%s:%s) has a blank %s constraint at position %d; a blank constraint value is malformed input, not an absent restriction''
           [EWrap ErrInvalidPermission, EInt (int i), EStr (pm_action p), EStr (pm_resource p), EStr name, EInt (int j)])
         else None) values)
         [(''accounts'', cn_accounts c), (''providers'', cn_providers c), (''services'', cn_services c),
          (''regions'', cn_regions c)])"

definition validateRequestedPermissions :: "permission list \<Rightarrow> goerr option" where
  "validateRequestedPermissions requested =
    check_each 0 (\<lambda>i p.
      if blank (pm_action p) then Some (Errorf ''%w: entry %d has a blank action (resource %q); a blank action is malformed input, not a permission to drop''
        [EWrap ErrInvalidPermission, EInt (int i), EStr (pm_resource p)])
      else if blank (pm_resource p) then Some (Errorf ''%w: entry %d has a blank resource (action %q); a blank resource is malformed input, not a request for the %q wildcard''
        [EWrap ErrInvalidPermission, EInt (int i), EStr (pm_action p), EStr ResourceAll])
      else validateConstraintEntries i p) requested"

end
