(* ===== verification/Auth_Store.thy ===== *)
theory Auth_Store
  imports Auth_Types
begin

text \<open>
  The authentication store in PostgreSQL (\<open>internal/auth/store_postgres.go\<close>,
  \<open>store_postgres_apikeys.go\<close>) on the schema of \<open>internal/database/postgres/migrations\<close>.

  The state holds the four tables in insertion order. The server and its driver are the
  parameter \<open>adb_env\<close>: \<open>av_fault n\<close> is the error, if any, of the \<open>n\<close>-th statement, \<open>av_uuid\<close>
  the generated identifiers and \<open>av_now n\<close> the time after \<open>n\<close> statements, read by \<open>NOW()\<close> and
  \<open>time.Now()\<close> alike. Spelled out are the primary keys, the unique columns, the foreign keys,
  the check that a user has a group (migration 000057) and the triggers that keep one active
  administrator (migration 000065); an operation runs to its end before the next one starts,
  which is what the advisory lock of those triggers and of \<open>CreateAdminIfNone\<close> is for.
  Identifiers are UUIDs, so a lookup never fails on the syntax of one.
\<close>

section \<open>Tables and statements\<close>

record adb =
  ad_users :: "user list"
  ad_groups :: "group list"
  ad_sessions :: "session list"
  ad_keys :: "api_key list"
  ad_statements :: nat
  ad_generated :: nat

record adb_env =
  av_fault :: "nat \<Rightarrow> goerr option"
  av_uuid :: "nat \<Rightarrow> string"
  av_now :: "nat \<Rightarrow> gotime"

definition aclock :: "adb_env \<Rightarrow> adb \<Rightarrow> gotime" where
  "aclock env db = av_now env (ad_statements db)"

definition next_uuid :: "adb_env \<Rightarrow> adb \<Rightarrow> string \<times> adb" where
  "next_uuid env db = (av_uuid env (ad_generated db), db\<lparr>ad_generated := Suc (ad_generated db)\<rparr>)"

definition astmt :: "adb_env \<Rightarrow> (adb \<Rightarrow> goerr + adb \<times> 'r) \<Rightarrow> adb \<Rightarrow> (goerr + 'r) \<times> adb" where
  "astmt env f db =
    (let db' = db\<lparr>ad_statements := Suc (ad_statements db)\<rparr> in
     case av_fault env (ad_statements db) of
       Some e \<Rightarrow> (Inl e, db')
     | None \<Rightarrow> (case f db' of Inl e \<Rightarrow> (Inl e, db') | Inr (db'', r) \<Rightarrow> (Inr r, db'')))"

definition aquery :: "adb_env \<Rightarrow> (adb \<Rightarrow> 'r) \<Rightarrow> adb \<Rightarrow> (goerr + 'r) \<times> adb" where
  "aquery env q = astmt env (\<lambda>db. Inr (db, q db))"

section \<open>Errors of the server\<close>

definition ErrNoRows :: goerr where "ErrNoRows = Sentinel ''no rows in result set''"
definition ErrEmailInUse :: goerr where "ErrEmailInUse = Sentinel ''email already in use''"

definition is_no_rows :: "goerr \<Rightarrow> bool" where
  "is_no_rows e = errors_is ''no rows in result set'' e"

text \<open>A \<open>pgconn.PgError\<close> with its code and the constraint or message it names.\<close>

definition pg_error :: "string \<Rightarrow> string \<Rightarrow> goerr" where
  "pg_error code detail = Typed ''pgconn.PgError'' (code @ '' '' @ detail)"

text \<open>\<open>errors.As(err, &pgErr)\<close>: the first \<open>PgError\<close> of the chain.\<close>

fun as_pg_error :: "goerr \<Rightarrow> string option" and as_pg_arg :: "earg \<Rightarrow> string option"
  and as_pg_args :: "earg list \<Rightarrow> string option" where
  "as_pg_error (Sentinel s) = None"
| "as_pg_error (Typed n s) = (if n = ''pgconn.PgError'' then Some s else None)"
| "as_pg_error (Errorf f as) = as_pg_args as"
| "as_pg_arg (EArg a) = None"
| "as_pg_arg (EErr e) = None"
| "as_pg_arg (EWrap e) = as_pg_error e"
| "as_pg_args [] = None"
| "as_pg_args (a # as) = (case as_pg_arg a of Some s \<Rightarrow> Some s | None \<Rightarrow> as_pg_args as)"

definition isDuplicateKeyError :: "goerr \<Rightarrow> bool" where
  "isDuplicateKeyError e = (case as_pg_error e of None \<Rightarrow> False | Some s \<Rightarrow> take 5 s = ''23505'')"

definition isEmailDuplicateError :: "goerr \<Rightarrow> bool" where
  "isEmailDuplicateError e =
    (case as_pg_error e of None \<Rightarrow> False
     | Some s \<Rightarrow> take 5 s = ''23505'' \<and> (drop 6 s = ''users_email_key'' \<or> drop 6 s = ''users_email_unique''))"

definition last_admin_sentinel :: string where
  "last_admin_sentinel = ''last_admin_constraint_violation''"

definition has_prefix :: "string \<Rightarrow> string \<Rightarrow> bool" where
  "has_prefix p s = (take (length p) s = p)"

definition isLastAdminConstraintViolation :: "goerr \<Rightarrow> bool" where
  "isLastAdminConstraintViolation e =
    (case as_pg_error e of
       Some s \<Rightarrow> take 5 s = ''P0001'' \<and> has_prefix last_admin_sentinel (drop 6 s)
     | None \<Rightarrow> has_prefix last_admin_sentinel (err_string e))"

section \<open>Users\<close>

definition containsGroup :: "string list \<Rightarrow> string \<Rightarrow> bool" where
  "containsGroup groups target = list_ex (\<lambda>g. g = target) groups"

definition active_admin :: "user \<Rightarrow> bool" where
  "active_admin u = (containsGroup (us_groups u) DefaultAdminGroupID \<and> us_active u)"

definition user_row :: "string \<Rightarrow> adb \<Rightarrow> user option" where
  "user_row i db = find (\<lambda>u. us_id u = i) (ad_users db)"

text \<open>\<open>scanUser\<close>: the errors of a lookup of one user.\<close>

definition scan_user :: "goerr + user option \<Rightarrow> goerr + user" where
  "scan_user r = (case r of
     Inl e \<Rightarrow> Inl (if is_no_rows e then ErrNoRows else wrap_err ''failed to scan user: '' e)
   | Inr None \<Rightarrow> Inl ErrNoRows
   | Inr (Some u) \<Rightarrow> Inr u)"

definition GetUserByID :: "adb_env \<Rightarrow> string \<Rightarrow> adb \<Rightarrow> (goerr + user) \<times> adb" where
  "GetUserByID env i db = map_prod scan_user id (aquery env (user_row i) db)"

definition GetUserByEmail :: "adb_env \<Rightarrow> string \<Rightarrow> adb \<Rightarrow> (goerr + user) \<times> adb" where
  "GetUserByEmail env email db = map_prod scan_user id (aquery env (\<lambda>db. find (\<lambda>u. us_email u = email) (ad_users db)) db)"

definition GetUserByResetToken :: "adb_env \<Rightarrow> string \<Rightarrow> adb \<Rightarrow> (goerr + user) \<times> adb" where
  "GetUserByResetToken env token db =
    map_prod scan_user id (aquery env (\<lambda>db. find (\<lambda>u. us_reset u = token) (ad_users db)) db)"

text \<open>The constraints a stored row has to satisfy beside the other rows.\<close>

definition row_error :: "user \<Rightarrow> user list \<Rightarrow> goerr option" where
  "row_error u others =
    (if us_groups u = [] then Some (pg_error ''23514'' ''users_min_one_group'')
     else if us_id u \<in> us_id ` set others then Some (pg_error ''23505'' ''users_pkey'')
     else if us_email u \<in> us_email ` set others then Some (pg_error ''23505'' ''users_email_key'')
     else None)"

definition insert_user :: "user \<Rightarrow> adb \<Rightarrow> goerr + adb \<times> unit" where
  "insert_user u db =
    (case row_error u (ad_users db) of Some e \<Rightarrow> Inl e
     | None \<Rightarrow> Inr (db\<lparr>ad_users := ad_users db @ [u]\<rparr>, ()))"

definition with_user_id :: "adb_env \<Rightarrow> user \<Rightarrow> adb \<Rightarrow> user \<times> adb" where
  "with_user_id env u db =
    (if us_id u = [] then (case next_uuid env db of (i, db) \<Rightarrow> (u\<lparr>us_id := i\<rparr>, db)) else (u, db))"

text \<open>\<open>CreateUser\<close> of the store; the user as it leaves it through its pointer.\<close>

definition store_CreateUser :: "adb_env \<Rightarrow> user \<Rightarrow> adb \<Rightarrow> (goerr option \<times> user) \<times> adb" where
  "store_CreateUser env u db =
    (case with_user_id env u db of (u, db) \<Rightarrow>
     let u = u\<lparr>us_created := aclock env db, us_updated := aclock env db\<rparr> in
     (case astmt env (insert_user u) db of
        (Inl e, db) \<Rightarrow>
          ((Some (if isEmailDuplicateError e then Errorf ''email already in use'' []
             else if isDuplicateKeyError e then wrap_err ''failed to create user: unique constraint violation: '' e
             else wrap_err ''failed to create user: '' e), u), db)
      | (Inr _, db) \<Rightarrow> ((None, u), db)))"

text \<open>The trigger of migration 000065.\<close>

definition last_admin_error :: goerr where
  "last_admin_error = pg_error ''P0001'' (last_admin_sentinel @ '': at least one active member of the Administrators group must remain'')"

definition no_admin_left :: "user list \<Rightarrow> bool" where
  "no_admin_left users = list_all (\<lambda>u. \<not> active_admin u) users"

definition update_user :: "user \<Rightarrow> adb \<Rightarrow> goerr + adb \<times> nat" where
  "update_user u db =
    (case user_row (us_id u) db of
       None \<Rightarrow> Inr (db, 0)
     | Some old \<Rightarrow>
       (case row_error u (filter (\<lambda>v. us_id v \<noteq> us_id u) (ad_users db)) of
          Some e \<Rightarrow> Inl e
        | None \<Rightarrow>
          let users = map (\<lambda>v. if us_id v = us_id u then u\<lparr>us_created := us_created v\<rparr> else v) (ad_users db) in
          if active_admin old \<and> \<not> active_admin u \<and> no_admin_left users then Inl last_admin_error
          else Inr (db\<lparr>ad_users := users\<rparr>, 1)))"

definition store_UpdateUser :: "adb_env \<Rightarrow> user \<Rightarrow> adb \<Rightarrow> goerr option \<times> adb" where
  "store_UpdateUser env u db =
    (case astmt env (update_user (u\<lparr>us_updated := aclock env db\<rparr>)) db of
       (Inl e, db) \<Rightarrow> (Some (wrap_err ''failed to update user: '' e), db)
     | (Inr n, db) \<Rightarrow> (if n = 0 then Some (Errorf ''user not found: %s'' [EStr (us_id u)]) else None, db))"

text \<open>Deleting a user takes its sessions and keys along and clears it as creator of groups.\<close>

definition delete_user :: "string \<Rightarrow> adb \<Rightarrow> goerr + adb \<times> nat" where
  "delete_user i db =
    (case user_row i db of
       None \<Rightarrow> Inr (db, 0)
     | Some old \<Rightarrow>
       let users = filter (\<lambda>v. us_id v \<noteq> i) (ad_users db) in
       if containsGroup (us_groups old) DefaultAdminGroupID \<and> no_admin_left users then Inl last_admin_error
       else Inr (db\<lparr>ad_users := users,
          ad_sessions := filter (\<lambda>s. se_user s \<noteq> i) (ad_sessions db),
          ad_keys := filter (\<lambda>k. ak_user k \<noteq> i) (ad_keys db),
          ad_groups := map (\<lambda>g. if gr_creator g = i then g\<lparr>gr_creator := []\<rparr> else g) (ad_groups db)\<rparr>, 1))"

definition store_DeleteUser :: "adb_env \<Rightarrow> string \<Rightarrow> adb \<Rightarrow> goerr option \<times> adb" where
  "store_DeleteUser env i db =
    (case astmt env (delete_user i) db of
       (Inl e, db) \<Rightarrow> (Some (wrap_err ''failed to delete user: '' e), db)
     | (Inr n, db) \<Rightarrow> (if n = 0 then Some (Errorf ''user not found: %s'' [EStr i]) else None, db))"

text \<open>Newest first, at most ten thousand.\<close>

definition store_ListUsers :: "adb_env \<Rightarrow> adb \<Rightarrow> (goerr + user list) \<times> adb" where
  "store_ListUsers env db =
    (case aquery env (\<lambda>db. take 10000 (sort_key (\<lambda>u. - us_created u) (ad_users db))) db of
       (Inl e, db) \<Rightarrow> (Inl (wrap_err ''failed to list users: '' e), db) | (Inr us, db) \<Rightarrow> (Inr us, db))"

definition AdminExists :: "adb_env \<Rightarrow> adb \<Rightarrow> (goerr + bool) \<times> adb" where
  "AdminExists env db =
    (case aquery env (\<lambda>db. \<not> no_admin_left (ad_users db)) db of
       (Inl e, db) \<Rightarrow> (Inl (wrap_err ''failed to check admin existence: '' e), db) | (Inr b, db) \<Rightarrow> (Inr b, db))"

definition CountGroupMembers :: "adb_env \<Rightarrow> string \<Rightarrow> adb \<Rightarrow> (goerr + int) \<times> adb" where
  "CountGroupMembers env g db =
    (case aquery env (\<lambda>db. int (length (filter (\<lambda>u. containsGroup (us_groups u) g) (ad_users db)))) db of
       (Inl e, db) \<Rightarrow> (Inl (wrap_err ''failed to count group members: '' e), db) | (Inr n, db) \<Rightarrow> (Inr n, db))"

text \<open>The insert of the bootstrap transaction, and the transaction around it: an error at any
  statement, the commit included, leaves the table as it was.\<close>

definition insert_admin :: "user \<Rightarrow> adb \<Rightarrow> goerr + adb \<times> bool" where
  "insert_admin u db =
    (if \<not> no_admin_left (ad_users db) then Inr (db, False)
     else (case insert_user u db of Inl e \<Rightarrow> Inl e | Inr (db, _) \<Rightarrow> Inr (db, True)))"

definition CreateAdminIfNone :: "adb_env \<Rightarrow> user \<Rightarrow> adb \<Rightarrow> (goerr + bool) \<times> adb" where
  "CreateAdminIfNone env u db =
    (case with_user_id env u db of (u, db) \<Rightarrow>
     let u = u\<lparr>us_created := aclock env db, us_updated := aclock env db,
       us_groups := (if containsGroup (us_groups u) DefaultAdminGroupID then us_groups u
         else us_groups u @ [DefaultAdminGroupID])\<rparr> in
     (case aquery env (\<lambda>_. ()) db of
        (Inl e, db) \<Rightarrow> (Inl (wrap_err ''failed to begin admin bootstrap transaction: '' e), db)
      | (Inr _, db) \<Rightarrow>
        (case aquery env (\<lambda>_. ()) db of
           (Inl e, db) \<Rightarrow> (Inl (wrap_err ''failed to acquire admin bootstrap lock: '' e), db)
         | (Inr _, db) \<Rightarrow>
           (case astmt env (insert_admin u) db of
              (Inl e, db) \<Rightarrow>
                (Inl (if isEmailDuplicateError e then ErrEmailInUse else wrap_err ''failed to create admin: '' e), db)
            | (Inr inserted, db') \<Rightarrow>
              (case aquery env (\<lambda>_. ()) db' of
                 (Inl e, db'') \<Rightarrow>
                   (Inl (wrap_err ''failed to commit admin bootstrap transaction: '' e),
                    db\<lparr>ad_statements := ad_statements db''\<rparr>)
               | (Inr _, db'') \<Rightarrow> (Inr inserted, db''))))))"

section \<open>Groups\<close>

definition group_row :: "string \<Rightarrow> adb \<Rightarrow> group option" where
  "group_row i db = find (\<lambda>g. gr_id g = i) (ad_groups db)"

definition scan_group :: "goerr + group option \<Rightarrow> goerr + group" where
  "scan_group r = (case r of
     Inl e \<Rightarrow> Inl (if is_no_rows e then ErrNoRows else wrap_err ''failed to scan group: '' e)
   | Inr None \<Rightarrow> Inl ErrNoRows
   | Inr (Some g) \<Rightarrow> Inr g)"

definition store_GetGroup :: "adb_env \<Rightarrow> string \<Rightarrow> adb \<Rightarrow> (goerr + group) \<times> adb" where
  "store_GetGroup env i db = map_prod scan_group id (aquery env (group_row i) db)"

text \<open>\<open>json.Marshal\<close> of a permission list fails on a cap that is no JSON number.\<close>

definition amount_error :: goerr where
  "amount_error = Typed ''json.UnsupportedValueError'' ''json: unsupported value''"

definition marshal_permissions :: "permission list \<Rightarrow> goerr option" where
  "marshal_permissions ps =
    (if list_all (\<lambda>p. case pm_constraints p of None \<Rightarrow> True | Some c \<Rightarrow> \<not> is_nan (cn_max c) \<and> \<not> is_inf (cn_max c)) ps
     then None else Some amount_error)"

definition group_error :: "group \<Rightarrow> adb \<Rightarrow> group list \<Rightarrow> goerr option" where
  "group_error g db others =
    (if gr_id g \<in> gr_id ` set others then Some (pg_error ''23505'' ''groups_pkey'')
     else if gr_name g \<in> gr_name ` set others then Some (pg_error ''23505'' ''groups_name_key'')
     else if gr_creator g \<noteq> [] \<and> user_row (gr_creator g) db = None then Some (pg_error ''23503'' ''groups_created_by_fkey'')
     else None)"

definition insert_group :: "group \<Rightarrow> adb \<Rightarrow> goerr + adb \<times> unit" where
  "insert_group g db =
    (case group_error g db (ad_groups db) of Some e \<Rightarrow> Inl e
     | None \<Rightarrow> Inr (db\<lparr>ad_groups := ad_groups db @ [g\<lparr>gr_system := False\<rparr>]\<rparr>, ()))"

definition store_CreateGroup :: "adb_env \<Rightarrow> group \<Rightarrow> adb \<Rightarrow> (goerr option \<times> group) \<times> adb" where
  "store_CreateGroup env g db =
    (case (if gr_id g = [] then (case next_uuid env db of (i, db) \<Rightarrow> (g\<lparr>gr_id := i\<rparr>, db)) else (g, db)) of (g, db) \<Rightarrow>
     let g = g\<lparr>gr_created := aclock env db, gr_updated := aclock env db\<rparr> in
     (case marshal_permissions (gr_permissions g) of
        Some e \<Rightarrow> ((Some (wrap_err ''failed to marshal permissions: '' e), g), db)
      | None \<Rightarrow>
        (case astmt env (insert_group g) db of
           (Inl e, db) \<Rightarrow> ((Some (wrap_err ''failed to create group: '' e), g), db)
         | (Inr _, db) \<Rightarrow> ((None, g), db))))"

text \<open>The columns the update leaves alone are the identifier, the marker of a system group, the
  creator and the time of creation.\<close>

definition update_group :: "group \<Rightarrow> adb \<Rightarrow> goerr + adb \<times> nat" where
  "update_group g db =
    (case group_row (gr_id g) db of
       None \<Rightarrow> Inr (db, 0)
     | Some old \<Rightarrow>
       if gr_name g \<in> gr_name ` set (filter (\<lambda>h. gr_id h \<noteq> gr_id g) (ad_groups db)) then Inl (pg_error ''23505'' ''groups_name_key'')
       else Inr (db\<lparr>ad_groups := map (\<lambda>h. if gr_id h = gr_id g
          then h\<lparr>gr_name := gr_name g, gr_description := gr_description g, gr_permissions := gr_permissions g,
            gr_accounts := gr_accounts g, gr_updated := gr_updated g\<rparr> else h) (ad_groups db)\<rparr>, 1))"

definition store_UpdateGroup :: "adb_env \<Rightarrow> group \<Rightarrow> adb \<Rightarrow> goerr option \<times> adb" where
  "store_UpdateGroup env g db =
    (case marshal_permissions (gr_permissions g) of
       Some e \<Rightarrow> (Some (wrap_err ''failed to marshal permissions: '' e), db)
     | None \<Rightarrow>
       (case astmt env (update_group (g\<lparr>gr_updated := aclock env db\<rparr>)) db of
          (Inl e, db) \<Rightarrow> (Some (wrap_err ''failed to update group: '' e), db)
        | (Inr n, db) \<Rightarrow> (if n = 0 then Some (Errorf ''group not found: %s'' [EStr (gr_id g)]) else None, db)))"

definition delete_group :: "string \<Rightarrow> adb \<Rightarrow> goerr + adb \<times> nat" where
  "delete_group i db =
    (case group_row i db of None \<Rightarrow> Inr (db, 0)
     | Some _ \<Rightarrow> Inr (db\<lparr>ad_groups := filter (\<lambda>g. gr_id g \<noteq> i) (ad_groups db)\<rparr>, 1))"

definition store_DeleteGroup :: "adb_env \<Rightarrow> string \<Rightarrow> adb \<Rightarrow> goerr option \<times> adb" where
  "store_DeleteGroup env i db =
    (case astmt env (delete_group i) db of
       (Inl e, db) \<Rightarrow> (Some (wrap_err ''failed to delete group: '' e), db)
     | (Inr n, db) \<Rightarrow> (if n = 0 then Some (Errorf ''group not found: %s'' [EStr i]) else None, db))"

definition store_ListGroups :: "adb_env \<Rightarrow> adb \<Rightarrow> (goerr + group list) \<times> adb" where
  "store_ListGroups env db =
    (case aquery env (\<lambda>db. take 10000 (sort_key (\<lambda>g. - gr_created g) (ad_groups db))) db of
       (Inl e, db) \<Rightarrow> (Inl (wrap_err ''failed to list groups: '' e), db) | (Inr gs, db) \<Rightarrow> (Inr gs, db))"

section \<open>Sessions\<close>

definition insert_session :: "session \<Rightarrow> adb \<Rightarrow> goerr + adb \<times> unit" where
  "insert_session s db =
    (if se_token s \<in> se_token ` set (ad_sessions db) then Inl (pg_error ''23505'' ''sessions_pkey'')
     else if user_row (se_user s) db = None then Inl (pg_error ''23503'' ''sessions_user_id_fkey'')
     else Inr (db\<lparr>ad_sessions := ad_sessions db @ [s]\<rparr>, ()))"

definition CreateSession :: "adb_env \<Rightarrow> session \<Rightarrow> adb \<Rightarrow> goerr option \<times> adb" where
  "CreateSession env s db =
    (case astmt env (insert_session s) db of
       (Inl e, db) \<Rightarrow> (Some (wrap_err ''failed to create session: '' e), db) | (Inr _, db) \<Rightarrow> (None, db))"

definition session_row :: "gotime \<Rightarrow> string \<Rightarrow> adb \<Rightarrow> session option" where
  "session_row now token db = find (\<lambda>s. se_token s = token \<and> now < se_expires s) (ad_sessions db)"

definition GetSession :: "adb_env \<Rightarrow> string \<Rightarrow> adb \<Rightarrow> (goerr + session) \<times> adb" where
  "GetSession env token db =
    (case aquery env (\<lambda>db. session_row (aclock env db) token db) db of
       (Inl e, db) \<Rightarrow> (Inl (if is_no_rows e then Errorf ''session not found or expired'' []
          else wrap_err ''failed to get session: '' e), db)
     | (Inr None, db) \<Rightarrow> (Inl (Errorf ''session not found or expired'' []), db)
     | (Inr (Some s), db) \<Rightarrow> (Inr s, db))"

definition drop_sessions :: "(gotime \<Rightarrow> session \<Rightarrow> bool) \<Rightarrow> adb_env \<Rightarrow> string \<Rightarrow> adb \<Rightarrow> goerr option \<times> adb" where
  "drop_sessions p env prefix db =
    (case astmt env (\<lambda>db. Inr (db\<lparr>ad_sessions := filter (\<lambda>s. \<not> p (aclock env db) s) (ad_sessions db)\<rparr>, ())) db of
       (Inl e, db) \<Rightarrow> (Some (wrap_err prefix e), db) | (Inr _, db) \<Rightarrow> (None, db))"

definition DeleteSession :: "adb_env \<Rightarrow> string \<Rightarrow> adb \<Rightarrow> goerr option \<times> adb" where
  "DeleteSession env token = drop_sessions (\<lambda>_ s. se_token s = token) env ''failed to delete session: ''"

definition DeleteUserSessions :: "adb_env \<Rightarrow> string \<Rightarrow> adb \<Rightarrow> goerr option \<times> adb" where
  "DeleteUserSessions env i = drop_sessions (\<lambda>_ s. se_user s = i) env ''failed to delete user sessions: ''"

definition CleanupExpiredSessions :: "adb_env \<Rightarrow> adb \<Rightarrow> goerr option \<times> adb" where
  "CleanupExpiredSessions env = drop_sessions (\<lambda>now s. se_expires s \<le> now) env ''failed to cleanup expired sessions: ''"

section \<open>API keys\<close>

definition key_row :: "string \<Rightarrow> adb \<Rightarrow> api_key option" where
  "key_row i db = find (\<lambda>k. ak_id k = i) (ad_keys db)"

definition scan_key :: "goerr + api_key option \<Rightarrow> goerr + api_key" where
  "scan_key r = (case r of
     Inl e \<Rightarrow> Inl (if is_no_rows e then ErrNoRows else wrap_err ''failed to scan API key: '' e)
   | Inr None \<Rightarrow> Inl ErrNoRows
   | Inr (Some k) \<Rightarrow> Inr k)"

definition insert_key :: "api_key \<Rightarrow> adb \<Rightarrow> goerr + adb \<times> unit" where
  "insert_key k db =
    (if ak_id k \<in> ak_id ` set (ad_keys db) then Inl (pg_error ''23505'' ''api_keys_pkey'')
     else if ak_hash k \<in> ak_hash ` set (ad_keys db) then Inl (pg_error ''23505'' ''api_keys_key_hash_key'')
     else if user_row (ak_user k) db = None then Inl (pg_error ''23503'' ''api_keys_user_id_fkey'')
     else Inr (db\<lparr>ad_keys := ad_keys db @ [k\<lparr>ak_total := 0, ak_window := 0, ak_window_start := None\<rparr>]\<rparr>, ()))"

definition store_CreateAPIKey :: "adb_env \<Rightarrow> api_key \<Rightarrow> adb \<Rightarrow> (goerr option \<times> api_key) \<times> adb" where
  "store_CreateAPIKey env k db =
    (case (if ak_id k = [] then (case next_uuid env db of (i, db) \<Rightarrow> (k\<lparr>ak_id := i\<rparr>, db)) else (k, db)) of (k, db) \<Rightarrow>
     let k = k\<lparr>ak_created := aclock env db\<rparr> in
     (case marshal_permissions (ak_permissions k) of
        Some e \<Rightarrow> ((Some (wrap_err ''failed to marshal permissions: '' e), k), db)
      | None \<Rightarrow>
        (case astmt env (insert_key k) db of
           (Inl e, db) \<Rightarrow> ((Some (wrap_err ''failed to create API key: '' e), k), db)
         | (Inr _, db) \<Rightarrow> ((None, k), db))))"

definition GetAPIKeyByID :: "adb_env \<Rightarrow> string \<Rightarrow> adb \<Rightarrow> (goerr + api_key) \<times> adb" where
  "GetAPIKeyByID env i db = map_prod scan_key id (aquery env (key_row i) db)"

definition store_GetAPIKeyByHash :: "adb_env \<Rightarrow> string \<Rightarrow> adb \<Rightarrow> (goerr + api_key) \<times> adb" where
  "store_GetAPIKeyByHash env h db =
    map_prod scan_key id (aquery env (\<lambda>db. find (\<lambda>k. ak_hash k = h \<and> ak_active k \<and>
      (case ak_expires k of None \<Rightarrow> True | Some t \<Rightarrow> aclock env db < t)) (ad_keys db)) db)"

definition ListAPIKeysByUser :: "adb_env \<Rightarrow> string \<Rightarrow> adb \<Rightarrow> (goerr + api_key list) \<times> adb" where
  "ListAPIKeysByUser env i db =
    (case aquery env (\<lambda>db. sort_key (\<lambda>k. - ak_created k) (filter (\<lambda>k. ak_user k = i) (ad_keys db))) db of
       (Inl e, db) \<Rightarrow> (Inl (wrap_err ''failed to list API keys: '' e), db) | (Inr ks, db) \<Rightarrow> (Inr ks, db))"

text \<open>An update of the keys with one identifier that reports whether there was one.\<close>

definition change_key :: "adb_env \<Rightarrow> string \<Rightarrow> string \<Rightarrow> (gotime \<Rightarrow> api_key \<Rightarrow> api_key) \<Rightarrow> adb \<Rightarrow> goerr option \<times> adb" where
  "change_key env prefix i f db =
    (case astmt env (\<lambda>db. Inr (db\<lparr>ad_keys := map (\<lambda>k. if ak_id k = i then f (aclock env db) k else k) (ad_keys db)\<rparr>,
        length (filter (\<lambda>k. ak_id k = i) (ad_keys db)))) db of
       (Inl e, db) \<Rightarrow> (Some (wrap_err prefix e), db)
     | (Inr n, db) \<Rightarrow> (if n = 0 then Some (Errorf ''API key not found: %s'' [EStr i]) else None, db))"

definition store_UpdateAPIKey :: "adb_env \<Rightarrow> api_key \<Rightarrow> adb \<Rightarrow> goerr option \<times> adb" where
  "store_UpdateAPIKey env k db =
    (case marshal_permissions (ak_permissions k) of
       Some e \<Rightarrow> (Some (wrap_err ''failed to marshal permissions: '' e), db)
     | None \<Rightarrow> change_key env ''failed to update API key: '' (ak_id k)
         (\<lambda>_ x. x\<lparr>ak_name := ak_name k, ak_permissions := ak_permissions k, ak_active := ak_active k,
            ak_expires := ak_expires k, ak_used := ak_used k\<rparr>) db)"

definition UpdateAPIKeyLastUsed :: "adb_env \<Rightarrow> string \<Rightarrow> adb \<Rightarrow> goerr option \<times> adb" where
  "UpdateAPIKeyLastUsed env i = change_key env ''failed to update API key last used: '' i (\<lambda>now k. k\<lparr>ak_used := Some now\<rparr>)"

definition apiKeyUsageWindow :: int where "apiKeyUsageWindow = 24 * hour_ns"

text \<open>The window restarts once it is a window length old.\<close>

definition usage_counted :: "int \<Rightarrow> gotime \<Rightarrow> api_key \<Rightarrow> api_key" where
  "usage_counted delta now k =
    (let fresh = (case ak_window_start k of None \<Rightarrow> True | Some t \<Rightarrow> apiKeyUsageWindow \<le> now - t) in
     k\<lparr>ak_used := Some now, ak_total := ak_total k + delta,
       ak_window := (if fresh then delta else ak_window k + delta),
       ak_window_start := (if fresh then Some now else ak_window_start k)\<rparr>)"

definition RecordAPIKeyUsage :: "adb_env \<Rightarrow> string \<Rightarrow> int \<Rightarrow> adb \<Rightarrow> goerr option \<times> adb" where
  "RecordAPIKeyUsage env i delta db =
    (if delta \<le> 0 then (Some (Errorf ''invalid API key usage delta %d: must be positive'' [EInt delta]), db)
     else change_key env ''failed to record API key usage: '' i (usage_counted delta) db)"

definition store_DeleteAPIKey :: "adb_env \<Rightarrow> string \<Rightarrow> adb \<Rightarrow> goerr option \<times> adb" where
  "store_DeleteAPIKey env i db =
    (case astmt env (\<lambda>db. Inr (db\<lparr>ad_keys := filter (\<lambda>k. ak_id k \<noteq> i) (ad_keys db)\<rparr>,
        length (filter (\<lambda>k. ak_id k = i) (ad_keys db)))) db of
       (Inl e, db) \<Rightarrow> (Some (wrap_err ''failed to delete API key: '' e), db)
     | (Inr n, db) \<Rightarrow> (if n = 0 then Some (Errorf ''API key not found: %s'' [EStr i]) else None, db))"

end
