(* ===== verification/Auth_Groups.thy ===== *)
theory Auth_Groups
  imports Auth_Store
begin

text \<open>
  The service around users and groups: what a user is allowed
  (\<open>internal/auth/service_group.go\<close>), the ceiling on what a group write may grant
  (\<open>group_ceiling.go\<close>) and the group operations of the API (\<open>service_api.go\<close>).

  The parameter \<open>auth_service\<close> holds what the service is built on and what is not its own code:
  the store's environment, bcrypt (\<open>sv_hash\<close> under the \<open>n\<close>-th salt, \<open>sv_verify\<close>), random tokens,
  secrets and bytes (the \<open>n\<close>-th draw), SHA-256 in hexadecimal and in base64, the HMAC under the
  CSRF key, HMAC-SHA1, base32, \<open>mail.ParseAddress\<close>, and the mail sender and the callback on a
  changed password, which act on the outside world. The service has a store, so \<open>ensureStore\<close>
  never fails.
\<close>

section \<open>The service and its world\<close>

record 'c auth_service =
  sv_env :: adb_env
  sv_hash :: "nat \<Rightarrow> string \<Rightarrow> goerr + string"
  sv_verify :: "string \<Rightarrow> string \<Rightarrow> bool"
  sv_token :: "nat \<Rightarrow> goerr + string"
  sv_secret :: "nat \<Rightarrow> goerr + string"
  sv_bytes :: "nat \<Rightarrow> goerr + nat list"
  sv_sha :: "string \<Rightarrow> string"
  sv_sha64 :: "string \<Rightarrow> string"
  sv_mac :: "string \<Rightarrow> string"
  sv_hmac :: "nat list \<Rightarrow> nat list \<Rightarrow> nat list"
  sv_base32 :: "string \<Rightarrow> goerr + nat list"
  sv_address :: "string \<Rightarrow> string option"
  sv_dashboard :: string
  sv_duration :: int
  sv_reset_mail :: "string \<Rightarrow> string \<Rightarrow> 'c \<Rightarrow> goerr option \<times> 'c"
  sv_invite_mail :: "string \<Rightarrow> string \<Rightarrow> 'c \<Rightarrow> goerr option \<times> 'c"
  sv_changed :: "string \<Rightarrow> string \<Rightarrow> 'c \<Rightarrow> 'c"

record 'c aworld =
  aw_db :: adb
  aw_ext :: 'c

definition in_db :: "(adb \<Rightarrow> 'r \<times> adb) \<Rightarrow> 'c aworld \<Rightarrow> 'r \<times> 'c aworld" where
  "in_db f w = (case f (aw_db w) of (r, db) \<Rightarrow> (r, w\<lparr>aw_db := db\<rparr>))"

text \<open>The \<open>n\<close>-th random draw, and a fresh UUID.\<close>

definition draw :: "(nat \<Rightarrow> 'r) \<Rightarrow> 'c aworld \<Rightarrow> 'r \<times> 'c aworld" where
  "draw f = in_db (\<lambda>db. (f (ad_generated db), db\<lparr>ad_generated := Suc (ad_generated db)\<rparr>))"

definition now_at :: "'c auth_service \<Rightarrow> 'c aworld \<Rightarrow> gotime" where
  "now_at s w = aclock (sv_env s) (aw_db w)"

section \<open>Sentinel errors\<close>

definition ErrPermissionCeiling :: goerr where "ErrPermissionCeiling = Sentinel ''permission ceiling exceeded''"
definition ErrPermissionNotGrantable :: goerr where "ErrPermissionNotGrantable = Sentinel ''permission not grantable''"
definition ErrSystemManagedGroup :: goerr where "ErrSystemManagedGroup = Sentinel ''system-managed group cannot be modified''"

definition not_found_user :: goerr where "not_found_user = Errorf ''user not found'' []"

section \<open>What a user is allowed\<close>

text \<open>\<open>loadUser\<close>, and the same lookup spelled out in \<open>GetUserPermissions\<close> and \<open>BuildAuthContext\<close>.\<close>

definition loadUser :: "adb_env \<Rightarrow> string \<Rightarrow> adb \<Rightarrow> (goerr + user) \<times> adb" where
  "loadUser env i db =
    (case GetUserByID env i db of
       (Inl e, db) \<Rightarrow> (Inl (if is_no_rows e then not_found_user else e), db)
     | (Inr u, db) \<Rightarrow> (Inr u, db))"

definition fetch_error :: "string \<Rightarrow> goerr \<Rightarrow> goerr" where
  "fetch_error i e = Errorf ''fetching group %s: %w'' [EStr i, EWrap e]"

fun permissionsForGroups :: "adb_env \<Rightarrow> string list \<Rightarrow> adb \<Rightarrow> (goerr + permission list) \<times> adb" where
  "permissionsForGroups env [] db = (Inr [], db)"
| "permissionsForGroups env (i # is) db =
    (case store_GetGroup env i db of
       (Inl e, db) \<Rightarrow> (if is_no_rows e then permissionsForGroups env is db else (Inl (fetch_error i e), db))
     | (Inr g, db) \<Rightarrow>
       (case permissionsForGroups env is db of
          (Inl e, db) \<Rightarrow> (Inl e, db)
        | (Inr ps, db) \<Rightarrow> (Inr (gr_permissions g @ ps), db)))"

definition GetUserPermissions :: "adb_env \<Rightarrow> string \<Rightarrow> adb \<Rightarrow> (goerr + permission list) \<times> adb" where
  "GetUserPermissions env i db =
    (case loadUser env i db of
       (Inl e, db) \<Rightarrow> (Inl e, db)
     | (Inr u, db) \<Rightarrow> permissionsForGroups env (us_groups u) db)"

text \<open>The accounts are a set; Go appends them in the order of a map, here in some order.\<close>

definition with_group :: "auth_context \<Rightarrow> group \<Rightarrow> auth_context" where
  "with_group ctx g = ctx\<lparr>ac_groups := ac_groups ctx @ [g], ac_permissions := ac_permissions ctx @ gr_permissions g,
     ac_accounts := remdups (ac_accounts ctx @ gr_accounts g)\<rparr>"

fun collectGroupsAndAccounts :: "adb_env \<Rightarrow> auth_context \<Rightarrow> string list \<Rightarrow> adb \<Rightarrow> (goerr + auth_context) \<times> adb" where
  "collectGroupsAndAccounts env ctx [] db = (Inr ctx, db)"
| "collectGroupsAndAccounts env ctx (i # is) db =
    (case store_GetGroup env i db of
       (Inl e, db) \<Rightarrow>
         (if is_no_rows e then collectGroupsAndAccounts env (ctx\<lparr>ac_skipped := ac_skipped ctx + 1\<rparr>) is db
          else (Inl (fetch_error i e), db))
     | (Inr g, db) \<Rightarrow> collectGroupsAndAccounts env (with_group ctx g) is db)"

definition no_context :: auth_context where
  "no_context = \<lparr>ac_user = None, ac_groups = [], ac_accounts = [], ac_permissions = [], ac_skipped = 0\<rparr>"

definition BuildAuthContext :: "adb_env \<Rightarrow> string \<Rightarrow> adb \<Rightarrow> (goerr + auth_context) \<times> adb" where
  "BuildAuthContext env i db =
    (case loadUser env i db of
       (Inl e, db) \<Rightarrow> (Inl e, db)
     | (Inr u, db) \<Rightarrow> collectGroupsAndAccounts env (no_context\<lparr>ac_user := Some u\<rparr>) (us_groups u) db)"

definition accountsForGroups :: "adb_env \<Rightarrow> string list \<Rightarrow> adb \<Rightarrow> (goerr + string list) \<times> adb" where
  "accountsForGroups env is db =
    (case collectGroupsAndAccounts env no_context is db of
       (Inl e, db) \<Rightarrow> (Inl (wrap_err ''failed to resolve account scope: '' e), db)
     | (Inr ctx, db) \<Rightarrow>
       (if ac_accounts ctx = [] \<and> 0 < ac_skipped ctx then
          Inl (Errorf ''failed to resolve account scope: %d group(s) could not be loaded and the remaining scope is unrestricted'' [EInt (ac_skipped ctx)])
        else if ac_groups ctx = [] then Inl (Errorf ''failed to resolve account scope: no group could be loaded'' [])
        else Inr (ac_accounts ctx), db))"

definition ResolveAllowedAccounts :: "adb_env \<Rightarrow> string \<Rightarrow> adb \<Rightarrow> (goerr + string list) \<times> adb" where
  "ResolveAllowedAccounts env i db =
    (case BuildAuthContext env i db of
       (Inl e, db) \<Rightarrow> (Inl e, db)
     | (Inr ctx, db) \<Rightarrow>
       (if ac_accounts ctx = [] \<and> 0 < ac_skipped ctx then
          Inl (Errorf ''account scope could not be established for user %s: %d group(s) could not be resolved and the remaining scope is unrestricted''
            [EStr i, EInt (ac_skipped ctx)])
        else if ac_groups ctx = [] then
          Inl (Errorf ''account scope could not be established for user %s: no group resolved'' [EStr i])
        else Inr (ac_accounts ctx), db))"

definition HasPermission :: "adb_env \<Rightarrow> string \<Rightarrow> string \<Rightarrow> string \<Rightarrow> permission_constraints option \<Rightarrow> adb \<Rightarrow> (goerr + bool) \<times> adb" where
  "HasPermission env i action resource constraints db =
    (case GetUserPermissions env i db of
       (Inl e, db) \<Rightarrow> (Inl e, db)
     | (Inr ps, db) \<Rightarrow> (Inr (permissionsAllow ps action resource constraints), db))"

definition HasPermissionForConstraintsAPI :: "adb_env \<Rightarrow> string \<Rightarrow> string \<Rightarrow> string \<Rightarrow> permission_constraints list \<Rightarrow> adb \<Rightarrow>
    (goerr + bool) \<times> adb" where
  "HasPermissionForConstraintsAPI env i action resource sets db =
    (if sets = [] then (Inl (errNoConstraintSets action resource), db)
     else case GetUserPermissions env i db of
       (Inl e, db) \<Rightarrow> (Inl e, db)
     | (Inr ps, db) \<Rightarrow> (PermissionsAllowForConstraintSets ps action resource sets, db))"

definition UserHasAdminCapability :: "adb_env \<Rightarrow> string \<Rightarrow> adb \<Rightarrow> (goerr + bool) \<times> adb" where
  "UserHasAdminCapability env i db =
    (case GetUserPermissions env i db of
       (Inl e, db) \<Rightarrow> (Inl e, db)
     | (Inr ps, db) \<Rightarrow> (Inr (list_ex checkAdminPermission ps), db))"

section \<open>The ceiling of a group write\<close>

definition unidentified :: goerr where
  "unidentified = Errorf ''%w: the acting user could not be identified'' [EWrap ErrPermissionCeiling]"

definition grantCeilingPermissions :: "adb_env \<Rightarrow> string \<Rightarrow> adb \<Rightarrow> (goerr + permission list) \<times> adb" where
  "grantCeilingPermissions env actor db =
    (if actor = [] then (Inl unidentified, db)
     else if actor = AdminAPIKeyActorID then (Inr [perm ActionAdmin ResourceAll], db)
     else case GetUserPermissions env actor db of
       (Inl e, db) \<Rightarrow> (Inl (Errorf ''%w: could not resolve the acting user's permissions: %w'' [EWrap ErrPermissionCeiling, EWrap e]), db)
     | (Inr ps, db) \<Rightarrow> (Inr ps, db))"

text \<open>The loop over the requested permissions.\<close>

definition grant_refusal :: "permission list \<Rightarrow> permission list \<Rightarrow> permission \<Rightarrow> goerr option" where
  "grant_refusal actorPerms existing req =
    (if carved_out (pm_action req) (pm_resource req) then
       (if permissionCoveredBy existing req then None
        else Some (Errorf ''%w: %s:%s is reserved for separation of duties (issue #923) and cannot be granted through the API''
          [EWrap ErrPermissionNotGrantable, EStr (pm_action req), EStr (pm_resource req)]))
     else if \<not> grantCeilingAllows actorPerms req then
       Some (Errorf ''%w: cannot grant %s:%s because your own permissions do not include it (or not at the requested scope)''
         [EWrap ErrPermissionCeiling, EStr (pm_action req), EStr (pm_resource req)])
     else None)"

definition checkGrantCeiling :: "adb_env \<Rightarrow> string \<Rightarrow> permission list \<Rightarrow> permission list \<Rightarrow> adb \<Rightarrow> goerr option \<times> adb" where
  "checkGrantCeiling env actor requested existing db =
    (if requested = [] then (None, db)
     else case validateRequestedPermissions requested of
       Some e \<Rightarrow> (Some e, db)
     | None \<Rightarrow>
       (case grantCeilingPermissions env actor db of
          (Inl e, db) \<Rightarrow> (Some e, db)
        | (Inr ps, db) \<Rightarrow> (check_each 0 (\<lambda>_. grant_refusal ps existing) requested, db)))"

definition grantCeilingAccounts :: "adb_env \<Rightarrow> string \<Rightarrow> adb \<Rightarrow> (goerr + string list) \<times> adb" where
  "grantCeilingAccounts env actor db =
    (if actor = [] then (Inl unidentified, db)
     else if actor = AdminAPIKeyActorID then (Inr [], db)
     else case BuildAuthContext env actor db of
       (Inl e, db) \<Rightarrow> (Inl (Errorf ''%w: could not resolve the acting user's account scope: %w'' [EWrap ErrPermissionCeiling, EWrap e]), db)
     | (Inr ctx, db) \<Rightarrow>
       (if ac_accounts ctx = [] \<and> 0 < ac_skipped ctx then
          Inl (Errorf ''%w: %d group(s) could not be resolved and the acting user's remaining scope is unrestricted''
            [EWrap ErrPermissionCeiling, EInt (ac_skipped ctx)])
        else if ac_groups ctx = [] then
          Inl (Errorf ''%w: the acting user's account scope could not be established (no group resolved)'' [EWrap ErrPermissionCeiling])
        else Inr (ac_accounts ctx), db))"

definition checkAccountGrant :: "adb_env \<Rightarrow> string \<Rightarrow> string list \<Rightarrow> adb \<Rightarrow> goerr option \<times> adb" where
  "checkAccountGrant env actor requested db =
    (case grantCeilingAccounts env actor db of
       (Inl e, db) \<Rightarrow> (Some e, db)
     | (Inr accounts, db) \<Rightarrow>
       (case accountScopeGap accounts requested of None \<Rightarrow> None
        | Some gap \<Rightarrow> Some (Errorf ''%w: cannot grant %s because your own account scope does not include it''
            [EWrap ErrPermissionCeiling, EStr gap]), db))"

text \<open>\<open>None\<close> is a nil slice: not sent.\<close>

definition checkAccountCeiling :: "adb_env \<Rightarrow> string \<Rightarrow> string list option \<Rightarrow> string list \<Rightarrow> adb \<Rightarrow> goerr option \<times> adb" where
  "checkAccountCeiling env actor requested existing db =
    (case requested of None \<Rightarrow> (None, db)
     | Some r \<Rightarrow> if accountScopeGap existing r = None then (None, db) else checkAccountGrant env actor r db)"

section \<open>Permissions and groups of the API\<close>

record api_constraint =
  aq_accounts :: "string list"
  aq_providers :: "string list"
  aq_services :: "string list"
  aq_regions :: "string list"
  aq_max :: f64

record api_permission =
  ap_action :: string
  ap_resource :: string
  ap_constraints :: "api_constraint option"

definition permissionToAPIPermission :: "permission \<Rightarrow> api_permission" where
  "permissionToAPIPermission p = \<lparr>ap_action = pm_action p, ap_resource = pm_resource p,
     ap_constraints = (case pm_constraints p of None \<Rightarrow> None
       | Some c \<Rightarrow> Some \<lparr>aq_accounts = cn_accounts c, aq_providers = cn_providers c, aq_services = cn_services c,
           aq_regions = cn_regions c, aq_max = cn_max c\<rparr>)\<rparr>"

definition apiPermissionToPermission :: "api_permission \<Rightarrow> permission" where
  "apiPermissionToPermission p = \<lparr>pm_action = ap_action p, pm_resource = ap_resource p,
     pm_constraints = (case ap_constraints p of None \<Rightarrow> None
       | Some c \<Rightarrow> Some \<lparr>cn_accounts = aq_accounts c, cn_providers = aq_providers c, cn_services = aq_services c,
           cn_regions = aq_regions c, cn_max = aq_max c\<rparr>)\<rparr>"

definition apiPermissionsToPermissions :: "api_permission list \<Rightarrow> permission list" where
  "apiPermissionsToPermissions ps = (if ps = [] then [] else map apiPermissionToPermission ps)"

record api_group =
  ag_id :: string
  ag_name :: string
  ag_description :: string
  ag_created :: string
  ag_updated :: string
  ag_permissions :: "api_permission list"
  ag_accounts :: "string list"

definition groupToAPIGroup :: "group \<Rightarrow> api_group" where
  "groupToAPIGroup g = \<lparr>ag_id = gr_id g, ag_name = gr_name g, ag_description = gr_description g,
     ag_created = rfc3339 (gr_created g), ag_updated = rfc3339 (gr_updated g),
     ag_permissions = map permissionToAPIPermission (gr_permissions g), ag_accounts = gr_accounts g\<rparr>"

text \<open>A request to create or update a group; its accounts are a nil slice or a list.\<close>

record group_request =
  gq_name :: string
  gq_description :: string
  gq_permissions :: "api_permission list"
  gq_accounts :: "string list option"

definition list_of :: "'a list option \<Rightarrow> 'a list" where
  "list_of r = (case r of None \<Rightarrow> [] | Some xs \<Rightarrow> xs)"

definition CreateGroup :: "'c auth_service \<Rightarrow> group \<Rightarrow> string \<Rightarrow> 'c aworld \<Rightarrow> (goerr option \<times> group) \<times> 'c aworld" where
  "CreateGroup s g createdBy w =
    (case draw (av_uuid (sv_env s)) w of (i, w) \<Rightarrow>
     in_db (store_CreateGroup (sv_env s) (g\<lparr>gr_id := i, gr_created := now_at s w, gr_updated := now_at s w, gr_creator := createdBy\<rparr>)) w)"

definition new_group :: "group_request \<Rightarrow> group" where
  "new_group req = \<lparr>gr_id = [], gr_name = gq_name req, gr_description = gq_description req,
     gr_permissions = apiPermissionsToPermissions (gq_permissions req), gr_accounts = list_of (gq_accounts req),
     gr_system = False, gr_creator = [], gr_created = 0, gr_updated = 0\<rparr>"

definition CreateGroupAPI :: "'c auth_service \<Rightarrow> string \<Rightarrow> group_request \<Rightarrow> 'c aworld \<Rightarrow> (goerr + api_group) \<times> 'c aworld" where
  "CreateGroupAPI s actor req w =
    (case in_db (checkGrantCeiling (sv_env s) actor (apiPermissionsToPermissions (gq_permissions req)) []) w of
       (Some e, w) \<Rightarrow> (Inl e, w)
     | (None, w) \<Rightarrow>
       (case in_db (checkAccountGrant (sv_env s) actor (list_of (gq_accounts req))) w of
          (Some e, w) \<Rightarrow> (Inl e, w)
        | (None, w) \<Rightarrow>
          (case CreateGroup s (new_group req) [] w of
             ((Some e, _), w) \<Rightarrow> (Inl e, w)
           | ((None, g), w) \<Rightarrow> (Inr (groupToAPIGroup g), w))))"

definition applyUpdateGroupRequest :: "group \<Rightarrow> group_request \<Rightarrow> permission list \<Rightarrow> group" where
  "applyUpdateGroupRequest g req ps =
    (let g = (if gq_name req \<noteq> [] then g\<lparr>gr_name := gq_name req\<rparr> else g);
         g = (if gq_description req \<noteq> [] then g\<lparr>gr_description := gq_description req\<rparr> else g);
         g = (if ps \<noteq> [] then g\<lparr>gr_permissions := ps\<rparr> else g)
     in (case gq_accounts req of None \<Rightarrow> g | Some as \<Rightarrow> g\<lparr>gr_accounts := as\<rparr>))"

definition seeded_error :: "group \<Rightarrow> goerr" where
  "seeded_error g = Errorf ''%w: %q is seeded and maintained by migrations'' [EWrap ErrSystemManagedGroup, EStr (gr_name g)]"

definition UpdateGroupAPI :: "'c auth_service \<Rightarrow> string \<Rightarrow> string \<Rightarrow> group_request \<Rightarrow> 'c aworld \<Rightarrow> (goerr + api_group) \<times> 'c aworld" where
  "UpdateGroupAPI s actor i req w =
    (case in_db (store_GetGroup (sv_env s) i) w of
       (Inl e, w) \<Rightarrow> (Inl e, w)
     | (Inr g, w) \<Rightarrow>
       if gr_system g then (Inl (seeded_error g), w)
       else
         let ps = apiPermissionsToPermissions (gq_permissions req) in
         (case in_db (checkGrantCeiling (sv_env s) actor ps (gr_permissions g)) w of
            (Some e, w) \<Rightarrow> (Inl e, w)
          | (None, w) \<Rightarrow>
            (case in_db (checkAccountCeiling (sv_env s) actor (gq_accounts req) (gr_accounts g)) w of
               (Some e, w) \<Rightarrow> (Inl e, w)
             | (None, w) \<Rightarrow>
               let g' = (applyUpdateGroupRequest g req ps)\<lparr>gr_updated := now_at s w\<rparr> in
               (case in_db (store_UpdateGroup (sv_env s) g') w of
                  (Some e, w) \<Rightarrow> (Inl e, w)
                | (None, w') \<Rightarrow> (Inr (groupToAPIGroup g'), w')))))"

definition DeleteGroup :: "'c auth_service \<Rightarrow> string \<Rightarrow> 'c aworld \<Rightarrow> goerr option \<times> 'c aworld" where
  "DeleteGroup s i w =
    (case in_db (store_GetGroup (sv_env s) i) w of
       (Inl e, w) \<Rightarrow>
         (Some (if is_no_rows e then Errorf ''group not found: %s'' [EStr i]
            else Errorf ''failed to load group %s: %w'' [EStr i, EWrap e]), w)
     | (Inr g, w) \<Rightarrow>
       if gr_system g then (Some (seeded_error g), w) else in_db (store_DeleteGroup (sv_env s) i) w)"

definition GetGroupAPI :: "'c auth_service \<Rightarrow> string \<Rightarrow> 'c aworld \<Rightarrow> (goerr + api_group) \<times> 'c aworld" where
  "GetGroupAPI s i w = map_prod (map_sum id groupToAPIGroup) id (in_db (store_GetGroup (sv_env s) i) w)"

definition ListGroupsAPI :: "'c auth_service \<Rightarrow> 'c aworld \<Rightarrow> (goerr + api_group list) \<times> 'c aworld" where
  "ListGroupsAPI s w = map_prod (map_sum id (map groupToAPIGroup)) id (in_db (store_ListGroups (sv_env s)) w)"

end
