(* ===== verification/Auth_Login.thy ===== *)
theory Auth_Login
  imports Auth_Groups "HOL-Library.Word" "HOL-Library.Signed_Division"
begin

text \<open>
  Sessions and login (\<open>internal/auth/service.go\<close>, \<open>service_helpers.go\<close>), one-time codes and
  recovery codes (\<open>service_mfa.go\<close>). The provisioning URI of an enrollment, which only the
  client shows, and the equalizing compare for an unknown address, which has no effect, are
  left out. Characters are bytes, and letters those of ASCII.
\<close>

unbundle bit_operations_syntax

section \<open>Sessions\<close>

definition createSession :: "'c auth_service \<Rightarrow> user \<Rightarrow> 'c aworld \<Rightarrow> (goerr + session) \<times> 'c aworld" where
  "createSession s u w =
    (case draw (sv_token s) w of
       (Inl e, w) \<Rightarrow> (Inl e, w)
     | (Inr raw, w) \<Rightarrow>
       let stored = \<lparr>se_token = sv_sha s raw, se_user = us_id u, se_email = us_email u,
             se_expires = now_at s w + sv_duration s, se_created = now_at s w, se_csrf = sv_mac s raw\<rparr> in
       (case in_db (CreateSession (sv_env s) stored) w of
          (Some e, w) \<Rightarrow> (Inl e, w)
        | (None, w) \<Rightarrow> (Inr (stored\<lparr>se_token := raw\<rparr>), w)))"

definition ValidateSession :: "'c auth_service \<Rightarrow> string \<Rightarrow> 'c aworld \<Rightarrow> (goerr + session) \<times> 'c aworld" where
  "ValidateSession s token w =
    (case in_db (GetSession (sv_env s) (sv_sha s token)) w of
       (Inl e, w) \<Rightarrow> (Inl e, w)
     | (Inr se, w) \<Rightarrow>
       if se_token se \<noteq> sv_sha s token then (Inl (Errorf ''session not found'' []), w)
       else if is_zero_time (se_expires se) then (Inl (Errorf ''session has no expiry: data integrity error'' []), w)
       else if se_expires se < now_at s w then
         (case in_db (DeleteSession (sv_env s) (sv_sha s token)) w of (_, w) \<Rightarrow> (Inl (Errorf ''session expired'' []), w))
       else (Inr (se\<lparr>se_token := token\<rparr>), w))"

definition ValidateCSRFToken :: "'c auth_service \<Rightarrow> string \<Rightarrow> string \<Rightarrow> 'c aworld \<Rightarrow> goerr option \<times> 'c aworld" where
  "ValidateCSRFToken s token csrf w =
    (if csrf = [] then (Some (Errorf ''CSRF token is required'' []), w)
     else case ValidateSession s token w of
       (Inl e, w) \<Rightarrow> (Some (wrap_err ''invalid session: '' e), w)
     | (Inr _, w) \<Rightarrow> (if sv_mac s token \<noteq> csrf then Some (Errorf ''invalid CSRF token'' []) else None, w))"

definition Logout :: "'c auth_service \<Rightarrow> string \<Rightarrow> 'c aworld \<Rightarrow> goerr option \<times> 'c aworld" where
  "Logout s token w =
    (if token = [] then (Some (Errorf ''token is required'' []), w)
     else in_db (DeleteSession (sv_env s) (sv_sha s token)) w)"

section \<open>One-time codes\<close>

definition unix_time :: "gotime \<Rightarrow> int" where
  "unix_time t = t div second_ns - 62135596800"

definition MFATimeStep :: int where "MFATimeStep = 30"

definition upper_char :: "char \<Rightarrow> char" where
  "upper_char c = (let n = of_char c :: nat in if 97 \<le> n \<and> n \<le> 122 then char_of (n - 32) else c)"

definition to_upper :: "string \<Rightarrow> string" where
  "to_upper s = map upper_char s"

definition base32Decode :: "'c auth_service \<Rightarrow> string \<Rightarrow> goerr + nat list" where
  "base32Decode s t =
    (let t = to_upper t; m = length t mod 8 in
     sv_base32 s (if m \<noteq> 0 then t @ replicate (8 - m) CHR ''='' else t))"

text \<open>The eight bytes of a counter, most significant first, and RFC 4226's truncation.\<close>

definition counter_bytes :: "64 word \<Rightarrow> nat list" where
  "counter_bytes c = map (\<lambda>i. unat (drop_bit (8 * (7 - i)) c AND 0xFF)) [0..<8]"

definition truncated :: "nat list \<Rightarrow> 32 word" where
  "truncated hash =
    (let k = unat ((word_of_nat (last hash) :: 32 word) AND 0x0F);
         byte = (\<lambda>i. (word_of_nat (hash ! (k + i)) :: 32 word)) in
     push_bit 24 (byte 0 AND 0x7F) OR push_bit 16 (byte 1 AND 0xFF) OR push_bit 8 (byte 2 AND 0xFF) OR (byte 3 AND 0xFF))"

definition otp_text :: "32 word \<Rightarrow> string" where
  "otp_text b = pad_left 6 (nat_dec (sint b smod 1000000))"

definition generateTOTP :: "'c auth_service \<Rightarrow> string \<Rightarrow> 64 word \<Rightarrow> string" where
  "generateTOTP s secret counter =
    (case base32Decode s secret of
       Inl _ \<Rightarrow> []
     | Inr key \<Rightarrow> otp_text (truncated (sv_hmac s key (counter_bytes counter))))"

definition verifyTOTP :: "'c auth_service \<Rightarrow> gotime \<Rightarrow> string \<Rightarrow> string \<Rightarrow> bool" where
  "verifyTOTP s now secret code =
    (if code = [] then False else if secret = [] then False
     else list_ex (\<lambda>k. generateTOTP s secret (word_of_int (unix_time now sdiv MFATimeStep + k)) = code) [-1, 0, 1])"

section \<open>Recovery codes\<close>

definition recoveryCodeAlphabet :: string where
  "recoveryCodeAlphabet = ''ABCDEFGHJKMNPQRSTUVWXYZ23456789''"

definition recoveryCodeCount :: nat where "recoveryCodeCount = 10"

definition code_char :: "nat \<Rightarrow> char" where
  "code_char b = recoveryCodeAlphabet ! (b mod length recoveryCodeAlphabet)"

definition code_text :: "nat list \<Rightarrow> string" where
  "code_text raw = map code_char (take 4 raw) @ ''-'' @ map code_char (drop 4 raw)"

fun generateRecoveryCodes :: "'c auth_service \<Rightarrow> nat \<Rightarrow> 'c aworld \<Rightarrow> (goerr + string list) \<times> 'c aworld" where
  "generateRecoveryCodes s 0 w = (Inr [], w)"
| "generateRecoveryCodes s (Suc n) w =
    (case draw (sv_bytes s) w of
       (Inl e, w) \<Rightarrow> (Inl (wrap_err ''failed to read random bytes for recovery code: '' e), w)
     | (Inr raw, w) \<Rightarrow>
       (case generateRecoveryCodes s n w of
          (Inl e, w) \<Rightarrow> (Inl e, w)
        | (Inr codes, w) \<Rightarrow> (Inr (code_text raw # codes), w)))"

definition normalizeRecoveryCode :: "string \<Rightarrow> string" where
  "normalizeRecoveryCode code = to_upper (filter (\<lambda>c. c \<noteq> CHR ''-'' \<and> c \<noteq> CHR '' '') code)"

definition hashRecoveryCode :: "'c auth_service \<Rightarrow> string \<Rightarrow> 'c aworld \<Rightarrow> (goerr + string) \<times> 'c aworld" where
  "hashRecoveryCode s code w = draw (\<lambda>n. sv_hash s n (normalizeRecoveryCode code)) w"

fun hash_all :: "'c auth_service \<Rightarrow> string list \<Rightarrow> 'c aworld \<Rightarrow> (goerr + string list) \<times> 'c aworld" where
  "hash_all s [] w = (Inr [], w)"
| "hash_all s (c # cs) w =
    (case hashRecoveryCode s c w of
       (Inl e, w) \<Rightarrow> (Inl e, w)
     | (Inr h, w) \<Rightarrow> (case hash_all s cs w of (Inl e, w) \<Rightarrow> (Inl e, w) | (Inr hs, w) \<Rightarrow> (Inr (h # hs), w)))"

definition generateAndHashRecoveryCodes :: "'c auth_service \<Rightarrow> 'c aworld \<Rightarrow> (goerr + string list \<times> string list) \<times> 'c aworld" where
  "generateAndHashRecoveryCodes s w =
    (case generateRecoveryCodes s recoveryCodeCount w of
       (Inl e, w) \<Rightarrow> (Inl e, w)
     | (Inr codes, w) \<Rightarrow>
       (case hash_all s codes w of (Inl e, w) \<Rightarrow> (Inl e, w) | (Inr hs, w) \<Rightarrow> (Inr (codes, hs), w)))"

text \<open>The loop compares every stored hash and keeps the last match, which it then removes.\<close>

fun match_index :: "(string \<Rightarrow> bool) \<Rightarrow> nat \<Rightarrow> string list \<Rightarrow> nat option \<Rightarrow> nat option" where
  "match_index p i [] acc = acc"
| "match_index p i (h # hs) acc = match_index p (Suc i) hs (if p h then Some i else acc)"

definition consumeRecoveryCode :: "'c auth_service \<Rightarrow> user \<Rightarrow> string \<Rightarrow> bool \<times> user" where
  "consumeRecoveryCode s u entered =
    (let normalized = normalizeRecoveryCode entered in
     if normalized = [] then (False, u)
     else case match_index (sv_verify s normalized) 0 (us_codes u) None of
       None \<Rightarrow> (False, u)
     | Some i \<Rightarrow> (True, u\<lparr>us_codes := take i (us_codes u) @ drop (Suc i) (us_codes u)\<rparr>))"

section \<open>Login\<close>

definition MaxFailedLoginAttempts :: int where "MaxFailedLoginAttempts = 5"
definition AccountLockoutDuration :: int where "AccountLockoutDuration = 15 * minute_ns"

definition genericLoginError :: goerr where
  "genericLoginError = Errorf ''Check your email address and password and try again'' []"

definition ErrMFARequired :: goerr where "ErrMFARequired = Sentinel ''mfa_required''"
definition ErrInvalidMFACode :: goerr where "ErrInvalidMFACode = Sentinel ''invalid_mfa_code''"

definition getUserAndValidateStatus :: "'c auth_service \<Rightarrow> string \<Rightarrow> 'c aworld \<Rightarrow> (goerr + user) \<times> 'c aworld" where
  "getUserAndValidateStatus s email w =
    (case in_db (GetUserByEmail (sv_env s) email) w of
       (Inl _, w) \<Rightarrow> (Inl genericLoginError, w)
     | (Inr u, w) \<Rightarrow>
       if \<not> us_active u then (Inl genericLoginError, w)
       else if (case us_locked u of None \<Rightarrow> False | Some t \<Rightarrow> now_at s w < t) then (Inl genericLoginError, w)
       else (Inr u, w))"

definition failed_login :: "gotime \<Rightarrow> user \<Rightarrow> user" where
  "failed_login now u =
    (let u = u\<lparr>us_failed := us_failed u + 1, us_updated := now\<rparr> in
     if MaxFailedLoginAttempts \<le> us_failed u then u\<lparr>us_locked := Some (now + AccountLockoutDuration)\<rparr> else u)"

definition recordFailedLogin :: "'c auth_service \<Rightarrow> user \<Rightarrow> 'c aworld \<Rightarrow> 'c aworld" where
  "recordFailedLogin s u w = snd (in_db (store_UpdateUser (sv_env s) (failed_login (now_at s w) u)) w)"

text \<open>The error, if any, and the user as the function leaves it through its pointer.\<close>

definition verifyPasswordAndMFA :: "'c auth_service \<Rightarrow> user \<Rightarrow> string \<Rightarrow> string \<Rightarrow> 'c aworld \<Rightarrow>
    (goerr option \<times> user) \<times> 'c aworld" where
  "verifyPasswordAndMFA s u password code w =
    (if us_hash u = [] then ((Some genericLoginError, u), w)
     else if \<not> sv_verify s password (us_hash u) then ((Some genericLoginError, u), recordFailedLogin s u w)
     else if \<not> us_mfa u then ((None, u), w)
     else if code = [] then ((Some ErrMFARequired, u), w)
     else if us_secret u = [] then ((Some genericLoginError, u), w)
     else if verifyTOTP s (now_at s w) (us_secret u) code then ((None, u), w)
     else case consumeRecoveryCode s u code of
       (True, u) \<Rightarrow> ((None, u), snd (in_db (store_UpdateUser (sv_env s) u) w))
     | (False, u) \<Rightarrow> ((Some ErrInvalidMFACode, u), recordFailedLogin s u w))"

record login_response =
  lr_token :: string
  lr_expires :: gotime
  lr_id :: string
  lr_email :: string
  lr_groups :: "string list"
  lr_mfa :: bool
  lr_csrf :: string

definition login_result :: "session \<Rightarrow> user \<Rightarrow> login_response" where
  "login_result se u = \<lparr>lr_token = se_token se, lr_expires = se_expires se, lr_id = us_id u, lr_email = us_email u,
     lr_groups = us_groups u, lr_mfa = us_mfa u, lr_csrf = se_csrf se\<rparr>"

definition completeSuccessfulLogin :: "'c auth_service \<Rightarrow> user \<Rightarrow> 'c aworld \<Rightarrow> (goerr + login_response) \<times> 'c aworld" where
  "completeSuccessfulLogin s u w =
    (case createSession s u w of
       (Inl e, w) \<Rightarrow> (Inl (wrap_err ''failed to create session: '' e), w)
     | (Inr se, w) \<Rightarrow>
       let u = u\<lparr>us_login := Some (now_at s w), us_failed := 0, us_locked := None\<rparr> in
       (Inr (login_result se u), snd (in_db (store_UpdateUser (sv_env s) u) w)))"

definition Login :: "'c auth_service \<Rightarrow> string \<Rightarrow> string \<Rightarrow> string \<Rightarrow> 'c aworld \<Rightarrow> (goerr + login_response) \<times> 'c aworld" where
  "Login s email password code w =
    (case sv_address s email of
       None \<Rightarrow> (Inl (Errorf ''invalid email format'' []), w)
     | Some address \<Rightarrow>
       (case getUserAndValidateStatus s address w of
          (Inl e, w) \<Rightarrow> (Inl e, w)
        | (Inr u, w) \<Rightarrow>
          (case verifyPasswordAndMFA s u password code w of
             ((Some e, _), w) \<Rightarrow> (Inl e, w)
           | ((None, u), w) \<Rightarrow> completeSuccessfulLogin s u w)))"

section \<open>The life of an enrollment\<close>

definition mfaPendingExpiry :: int where "mfaPendingExpiry = 5 * minute_ns"

definition ErrMFAInvalidPassword :: goerr where "ErrMFAInvalidPassword = Sentinel ''invalid password''"
definition ErrMFAInvalidCode :: goerr where "ErrMFAInvalidCode = Sentinel ''invalid MFA code''"
definition ErrMFACodeRequired :: goerr where "ErrMFACodeRequired = Sentinel ''MFA code or recovery code required''"
definition ErrMFANoEnrollmentInProgress :: goerr where "ErrMFANoEnrollmentInProgress = Sentinel ''no MFA enrollment in progress''"
definition ErrMFAEnrollmentExpired :: goerr where "ErrMFAEnrollmentExpired = Sentinel ''MFA enrollment expired''"
definition ErrMFANotEnabled :: goerr where "ErrMFANotEnabled = Sentinel ''MFA is not enabled''"
definition ErrMFAAuthFailed :: goerr where "ErrMFAAuthFailed = Sentinel ''authentication failed''"

definition the_error :: "goerr \<Rightarrow> goerr" where
  "the_error e = Errorf ''%w'' [EWrap e]"

definition MFASetup :: "'c auth_service \<Rightarrow> string \<Rightarrow> string \<Rightarrow> 'c aworld \<Rightarrow> (goerr + string) \<times> 'c aworld" where
  "MFASetup s i password w =
    (case in_db (GetUserByID (sv_env s) i) w of
       (Inl _, w) \<Rightarrow> (Inl (the_error ErrMFAAuthFailed), w)
     | (Inr u, w) \<Rightarrow>
       if \<not> sv_verify s password (us_hash u) then (Inl (the_error ErrMFAInvalidPassword), w)
       else (case draw (sv_secret s) w of
          (Inl e, w) \<Rightarrow> (Inl (wrap_err ''failed to read random bytes for MFA secret: '' e), w)
        | (Inr secret, w) \<Rightarrow>
          (case in_db (store_UpdateUser (sv_env s) (u\<lparr>us_pending := secret,
              us_pending_expires := Some (now_at s w + mfaPendingExpiry)\<rparr>)) w of
             (Some e, w) \<Rightarrow> (Inl (wrap_err ''failed to persist pending MFA secret: '' e), w)
           | (None, w) \<Rightarrow> (Inr secret, w))))"

definition validatePendingMFAEnrollment :: "'c auth_service \<Rightarrow> user \<Rightarrow> string \<Rightarrow> 'c aworld \<Rightarrow> goerr option \<times> 'c aworld" where
  "validatePendingMFAEnrollment s u code w =
    (case us_pending_expires u of
       None \<Rightarrow> (Some (the_error ErrMFANoEnrollmentInProgress), w)
     | Some t \<Rightarrow>
       if us_pending u = [] then (Some (the_error ErrMFANoEnrollmentInProgress), w)
       else if t < now_at s w then
         (Some (the_error ErrMFAEnrollmentExpired),
          snd (in_db (store_UpdateUser (sv_env s) (u\<lparr>us_pending := [], us_pending_expires := None\<rparr>)) w))
       else if \<not> verifyTOTP s (now_at s w) (us_pending u) code then (Some (the_error ErrMFAInvalidCode), w)
       else (None, w))"

definition MFAEnable :: "'c auth_service \<Rightarrow> string \<Rightarrow> string \<Rightarrow> 'c aworld \<Rightarrow> (goerr + string list) \<times> 'c aworld" where
  "MFAEnable s i code w =
    (case in_db (GetUserByID (sv_env s) i) w of
       (Inl _, w) \<Rightarrow> (Inl (the_error ErrMFAAuthFailed), w)
     | (Inr u, w) \<Rightarrow>
       (case validatePendingMFAEnrollment s u code w of
          (Some e, w) \<Rightarrow> (Inl e, w)
        | (None, w) \<Rightarrow>
          (case generateAndHashRecoveryCodes s w of
             (Inl e, w) \<Rightarrow> (Inl e, w)
           | (Inr (codes, hs), w) \<Rightarrow>
             (case in_db (store_UpdateUser (sv_env s) (u\<lparr>us_secret := us_pending u, us_mfa := True, us_pending := [],
                 us_pending_expires := None, us_codes := hs\<rparr>)) w of
                (Some e, w) \<Rightarrow> (Inl (wrap_err ''failed to enable MFA: '' e), w)
              | (None, w) \<Rightarrow> (Inr codes, w)))))"

definition clearMFAFromUser :: "user \<Rightarrow> user" where
  "clearMFAFromUser u = u\<lparr>us_mfa := False, us_secret := [], us_pending := [], us_pending_expires := None, us_codes := []\<rparr>"

definition disableMFAAlreadyOff :: "'c auth_service \<Rightarrow> user \<Rightarrow> 'c aworld \<Rightarrow> goerr option \<times> 'c aworld" where
  "disableMFAAlreadyOff s u w =
    (case in_db (store_UpdateUser (sv_env s) (u\<lparr>us_pending := [], us_pending_expires := None\<rparr>)) w of
       (r, w) \<Rightarrow> (wrap_opt ''failed to disable MFA: '' r, w))"

definition MFADisable :: "'c auth_service \<Rightarrow> string \<Rightarrow> string \<Rightarrow> string \<Rightarrow> 'c aworld \<Rightarrow> goerr option \<times> 'c aworld" where
  "MFADisable s i password code w =
    (case in_db (GetUserByID (sv_env s) i) w of
       (Inl _, w) \<Rightarrow> (Some (the_error ErrMFAAuthFailed), w)
     | (Inr u, w) \<Rightarrow>
       if \<not> sv_verify s password (us_hash u) then (Some (the_error ErrMFAInvalidPassword), w)
       else if \<not> us_mfa u then disableMFAAlreadyOff s u w
       else if code = [] then (Some (the_error ErrMFACodeRequired), w)
       else (case (if verifyTOTP s (now_at s w) (us_secret u) code then (True, u) else consumeRecoveryCode s u code) of
          (False, _) \<Rightarrow> (Some (the_error ErrMFAInvalidCode), w)
        | (True, u) \<Rightarrow>
          (case in_db (store_UpdateUser (sv_env s) (clearMFAFromUser u)) w of
             (r, w) \<Rightarrow> (wrap_opt ''failed to disable MFA: '' r, w))))"

definition MFARegenerateRecoveryCodes :: "'c auth_service \<Rightarrow> string \<Rightarrow> string \<Rightarrow> 'c aworld \<Rightarrow> (goerr + string list) \<times> 'c aworld" where
  "MFARegenerateRecoveryCodes s i code w =
    (case in_db (GetUserByID (sv_env s) i) w of
       (Inl _, w) \<Rightarrow> (Inl (the_error ErrMFAAuthFailed), w)
     | (Inr u, w) \<Rightarrow>
       if \<not> us_mfa u \<or> us_secret u = [] then (Inl (the_error ErrMFANotEnabled), w)
       else if \<not> verifyTOTP s (now_at s w) (us_secret u) code then (Inl (the_error ErrMFAInvalidCode), w)
       else (case generateAndHashRecoveryCodes s w of
          (Inl e, w) \<Rightarrow> (Inl e, w)
        | (Inr (codes, hs), w) \<Rightarrow>
          (case in_db (store_UpdateUser (sv_env s) (u\<lparr>us_codes := hs\<rparr>)) w of
             (Some e, w) \<Rightarrow> (Inl (wrap_err ''failed to regenerate recovery codes: '' e), w)
           | (None, w) \<Rightarrow> (Inr codes, w))))"

end
