(* ===== verification/Auth_Accounts.thy ===== *)
theory Auth_Accounts
  imports Auth_Login
begin

text \<open>
  Passwords and their reset (\<open>internal/auth/service_password.go\<close>), creating, changing and
  deleting users (\<open>service_user.go\<close>) and their entry points in the API (\<open>service_api.go\<close>).
  Passwords are read byte by byte, with the character classes of ASCII.
\<close>

section \<open>What a password has to satisfy\<close>

definition minPasswordLength :: nat where "minPasswordLength = 12"
definition maxPasswordLength :: nat where "maxPasswordLength = 128"
definition passwordHistorySize :: nat where "passwordHistorySize = 5"
definition repeatedCharThreshold :: nat where "repeatedCharThreshold = 3"
definition PasswordResetRateLimit :: int where "PasswordResetRateLimit = minute_ns"
definition PasswordResetExpiry :: int where "PasswordResetExpiry = hour_ns"
definition PasswordSetupExpiry :: int where "PasswordSetupExpiry = 7 * 24 * hour_ns"

definition commonPasswords :: "string list" where
  "commonPasswords = [''password'', ''123456'', ''qwerty'', ''admin'', ''welcome'', ''letmein'',
     ''monkey'', ''dragon'', ''master'', ''login'', ''abc123'', ''starwars'',
     ''trustno1'', ''password1'', ''password123'', ''admin123'', ''root'',
     ''qwerty123'', ''welcome1'', ''password!'', ''admin@123'', ''test1234'',
     ''user123'', ''letmein1'', ''changeme'', ''default'', ''superman'',
     ''iloveyou'', ''princess'', ''football'', ''baseball'', ''sunshine'']"

text \<open>\<open>k\<close> characters equal to \<open>lastChar\<close> have just been read.\<close>

fun repeat_loop :: "nat \<Rightarrow> nat \<Rightarrow> char \<Rightarrow> string \<Rightarrow> bool" where
  "repeat_loop n k lastChar [] = False"
| "repeat_loop n k lastChar (c # cs) =
    (if c = lastChar then (if n \<le> Suc k then True else repeat_loop n (Suc k) lastChar cs)
     else repeat_loop n 1 c cs)"

definition containsRepeatedChars :: "string \<Rightarrow> nat \<Rightarrow> bool" where
  "containsRepeatedChars password n =
    (if length password < n \<or> n < 2 then False else repeat_loop n 1 (CHR 0x00) password)"

definition is_upper :: "char \<Rightarrow> bool" where "is_upper c = byte_in 65 90 c"
definition is_lower :: "char \<Rightarrow> bool" where "is_lower c = byte_in 97 122 c"
definition is_number :: "char \<Rightarrow> bool" where "is_number c = byte_in 48 57 c"
definition is_punct_or_symbol :: "char \<Rightarrow> bool" where
  "is_punct_or_symbol c = (byte_in 33 47 c \<or> byte_in 58 64 c \<or> byte_in 91 96 c \<or> byte_in 123 126 c)"

text \<open>Upper case, lower case, number, special; the classes are disjoint.\<close>

definition checkCharacterTypes :: "string \<Rightarrow> bool \<times> bool \<times> bool \<times> bool" where
  "checkCharacterTypes password = (list_ex is_upper password, list_ex is_lower password, list_ex is_number password,
     list_ex is_punct_or_symbol password)"

definition validateCharacterRequirements :: "bool \<times> bool \<times> bool \<times> bool \<Rightarrow> goerr option" where
  "validateCharacterRequirements t =
    (case t of (upper, lower, number, special) \<Rightarrow>
     if \<not> upper \<or> \<not> lower \<or> \<not> number \<or> \<not> special then
       Some (Errorf ''password must contain at least one uppercase letter, one lowercase letter, one number, and one special character'' [])
     else None)"

definition validatePasswordComplexity :: "string \<Rightarrow> goerr option" where
  "validatePasswordComplexity password = validateCharacterRequirements (checkCharacterTypes password)"

definition checkCommonPasswords :: "string \<Rightarrow> goerr option" where
  "checkCommonPasswords password =
    (if to_lower password \<in> set commonPasswords
     then Some (Errorf ''password is too common, please choose a stronger password'' []) else None)"

definition validatePassword :: "string \<Rightarrow> goerr option" where
  "validatePassword password =
    (if length password < minPasswordLength then Some (Errorf ''password must be at least %d characters'' [EInt (int minPasswordLength)])
     else if maxPasswordLength < length password then Some (Errorf ''password must not exceed %d characters'' [EInt (int maxPasswordLength)])
     else orelse (validatePasswordComplexity password)
       (if containsRepeatedChars password repeatedCharThreshold then
          Some (Errorf ''password must not contain %d or more identical consecutive characters'' [EInt (int repeatedCharThreshold)])
        else checkCommonPasswords password))"

definition checkPasswordHistory :: "'c auth_service \<Rightarrow> string \<Rightarrow> string \<Rightarrow> string list \<Rightarrow> goerr option" where
  "checkPasswordHistory s password current history =
    (if current \<noteq> [] \<and> sv_verify s password current then Some (Errorf ''this is your current password, choose a different one'' [])
     else if list_ex (sv_verify s password) history then
       Some (Errorf ''password has been used recently, please choose a different password'' [])
     else None)"

definition addToPasswordHistory :: "string \<Rightarrow> string list \<Rightarrow> string list" where
  "addToPasswordHistory current history = current # take (passwordHistorySize - 1) history"

definition hash_password :: "'c auth_service \<Rightarrow> string \<Rightarrow> 'c aworld \<Rightarrow> (goerr + string) \<times> 'c aworld" where
  "hash_password s password w =
    (case draw (\<lambda>n. sv_hash s n password) w of
       (Inl e, w) \<Rightarrow> (Inl (wrap_err ''failed to hash password: '' e), w) | (Inr h, w) \<Rightarrow> (Inr h, w))"

definition notifyPasswordChange :: "'c auth_service \<Rightarrow> string \<Rightarrow> string \<Rightarrow> 'c aworld \<Rightarrow> 'c aworld" where
  "notifyPasswordChange s i password w = w\<lparr>aw_ext := sv_changed s i password (aw_ext w)\<rparr>"

section \<open>Changing and resetting a password\<close>

definition ChangePassword :: "'c auth_service \<Rightarrow> string \<Rightarrow> string \<Rightarrow> string \<Rightarrow> 'c aworld \<Rightarrow> goerr option \<times> 'c aworld" where
  "ChangePassword s i current password w =
    (case in_db (loadUser (sv_env s) i) w of
       (Inl e, w) \<Rightarrow> (Some e, w)
     | (Inr u, w) \<Rightarrow>
       if \<not> sv_verify s current (us_hash u) then (Some (Errorf ''current password is incorrect'' []), w)
       else case orelse (validatePassword password) (checkPasswordHistory s password (us_hash u) (us_history u)) of
         Some e \<Rightarrow> (Some e, w)
       | None \<Rightarrow>
         (case hash_password s password w of
            (Inl e, w) \<Rightarrow> (Some e, w)
          | (Inr h, w) \<Rightarrow>
            let u = u\<lparr>us_history := addToPasswordHistory (us_hash u) (us_history u), us_hash := h\<rparr> in
            (case in_db (DeleteUserSessions (sv_env s) i) w of (_, w) \<Rightarrow>
             (case in_db (store_UpdateUser (sv_env s) u) w of
                (Some e, w) \<Rightarrow> (Some e, w)
              | (None, w) \<Rightarrow> (None, notifyPasswordChange s i password w)))))"

definition reset_url :: "'c auth_service \<Rightarrow> string \<Rightarrow> string" where
  "reset_url s token = sprintf ''%s/reset-password?token=%s'' [FStr (sv_dashboard s), FStr token]"

definition reset_limited :: "gotime \<Rightarrow> user \<Rightarrow> bool" where
  "reset_limited now u = (case us_reset_expires u of None \<Rightarrow> False
     | Some t \<Rightarrow> PasswordResetExpiry - (t - now) < PasswordResetRateLimit)"

definition RequestPasswordReset :: "'c auth_service \<Rightarrow> string \<Rightarrow> 'c aworld \<Rightarrow> goerr option \<times> 'c aworld" where
  "RequestPasswordReset s email w =
    (case in_db (GetUserByEmail (sv_env s) email) w of
       (Inl e, w) \<Rightarrow> (if is_no_rows e then None else Some e, w)
     | (Inr u, w) \<Rightarrow>
       if reset_limited (now_at s w) u then (None, w)
       else (case draw (sv_token s) w of
          (Inl e, w) \<Rightarrow> (Some (wrap_err ''failed to generate reset token: '' e), w)
        | (Inr token, w) \<Rightarrow>
          (case in_db (store_UpdateUser (sv_env s) (u\<lparr>us_reset := sv_sha s token,
              us_reset_expires := Some (now_at s w + PasswordResetExpiry)\<rparr>)) w of
             (Some e, w) \<Rightarrow> (Some (wrap_err ''failed to save reset token: '' e), w)
           | (None, w) \<Rightarrow>
             (None, if sv_dashboard s = [] then w
                else w\<lparr>aw_ext := snd (sv_reset_mail s (us_email u) (reset_url s token) (aw_ext w))\<rparr>))))"

definition invalid_reset :: goerr where
  "invalid_reset = Errorf ''invalid or expired reset token'' []"

definition reset_expired :: "gotime \<Rightarrow> user \<Rightarrow> bool" where
  "reset_expired now u = (case us_reset_expires u of None \<Rightarrow> True | Some t \<Rightarrow> t < now)"

definition validateResetToken :: "'c auth_service \<Rightarrow> string \<Rightarrow> 'c aworld \<Rightarrow> (goerr + user) \<times> 'c aworld" where
  "validateResetToken s token w =
    (case in_db (GetUserByResetToken (sv_env s) (sv_sha s token)) w of
       (Inl e, w) \<Rightarrow> (Inl (if is_no_rows e then invalid_reset else e), w)
     | (Inr u, w) \<Rightarrow>
       if us_reset u \<noteq> sv_sha s token then (Inl invalid_reset, w)
       else if reset_expired (now_at s w) u then (Inl (Errorf ''reset token has expired'' []), w)
       else (Inr u, w))"

definition processPasswordReset :: "'c auth_service \<Rightarrow> user \<Rightarrow> string \<Rightarrow> 'c aworld \<Rightarrow> (goerr + user) \<times> 'c aworld" where
  "processPasswordReset s u password w =
    (case orelse (validatePassword password) (checkPasswordHistory s password (us_hash u) (us_history u)) of
       Some e \<Rightarrow> (Inl e, w)
     | None \<Rightarrow>
       (case hash_password s password w of
          (Inl e, w) \<Rightarrow> (Inl e, w)
        | (Inr h, w) \<Rightarrow> (Inr (u\<lparr>us_history := (if us_hash u \<noteq> [] then addToPasswordHistory (us_hash u) (us_history u)
             else us_history u), us_hash := h\<rparr>), w)))"

definition ConfirmPasswordReset :: "'c auth_service \<Rightarrow> string \<Rightarrow> string \<Rightarrow> 'c aworld \<Rightarrow> goerr option \<times> 'c aworld" where
  "ConfirmPasswordReset s token password w =
    (case validateResetToken s token w of
       (Inl e, w) \<Rightarrow> (Some e, w)
     | (Inr u, w) \<Rightarrow>
       let u = u\<lparr>us_reset := [], us_reset_expires := None\<rparr> in
       (case processPasswordReset s u password w of
          (Inl e, w) \<Rightarrow> (Some e, snd (in_db (store_UpdateUser (sv_env s) u) w))
        | (Inr u, w) \<Rightarrow>
          let u = u\<lparr>us_active := True\<rparr> in
          (case in_db (DeleteUserSessions (sv_env s) (us_id u)) w of (_, w) \<Rightarrow>
           (case in_db (store_UpdateUser (sv_env s) u) w of
              (Some e, w) \<Rightarrow> (Some e, w)
            | (None, w) \<Rightarrow> (None, notifyPasswordChange s (us_id u) password w)))))"

text \<open>The state of a token and the flow of its user, without consuming it.\<close>

datatype reset_state = Valid | Expired | Used
datatype reset_flow = Reset | Invite

definition flow_of :: "user \<Rightarrow> reset_flow" where
  "flow_of u = (if us_active u then Reset else Invite)"

definition ResetTokenStatus :: "'c auth_service \<Rightarrow> string \<Rightarrow> 'c aworld \<Rightarrow> (goerr + reset_state \<times> reset_flow) \<times> 'c aworld" where
  "ResetTokenStatus s token w =
    (if token = [] then (Inr (Used, Reset), w)
     else case in_db (GetUserByResetToken (sv_env s) (sv_sha s token)) w of
       (Inl e, w) \<Rightarrow> (if is_no_rows e then Inr (Used, Reset) else Inl e, w)
     | (Inr u, w) \<Rightarrow>
       if us_reset u \<noteq> sv_sha s token then (Inr (Used, Reset), w)
       else if reset_expired (now_at s w) u then (Inr (Expired, flow_of u), w)
       else (Inr (Valid, flow_of u), w))"

section \<open>The first administrator\<close>

definition ErrInvalidEmail :: goerr where "ErrInvalidEmail = Sentinel ''invalid email format''"
definition ErrAdminExists :: goerr where "ErrAdminExists = Sentinel ''admin user already exists''"
definition ErrPasswordPolicy :: goerr where "ErrPasswordPolicy = Sentinel ''password does not meet policy''"
definition ErrNoGroups :: goerr where "ErrNoGroups = Sentinel ''user must belong to at least one group''"
definition ErrLastAdmin :: goerr where "ErrLastAdmin = Sentinel ''cannot remove the last administrator''"
definition ErrSelfEscalation :: goerr where "ErrSelfEscalation = Sentinel ''cannot escalate your own group membership''"
definition ErrCurrentPasswordIncorrect :: goerr where "ErrCurrentPasswordIncorrect = Sentinel ''current password is incorrect''"

definition policy_error :: "goerr \<Rightarrow> goerr" where
  "policy_error e = Errorf ''%w: %w'' [EWrap ErrPasswordPolicy, EWrap e]"

definition fresh_user :: "string \<Rightarrow> string \<Rightarrow> string \<Rightarrow> string list \<Rightarrow> bool \<Rightarrow> gotime \<Rightarrow> user" where
  "fresh_user i email h groups active now = \<lparr>us_id = i, us_email = email, us_hash = h, us_groups = groups, us_active = active,
     us_mfa = False, us_secret = [], us_pending = [], us_pending_expires = None, us_codes = [], us_reset = [],
     us_reset_expires = None, us_failed = 0, us_locked = None, us_history = [], us_created = now, us_updated = now,
     us_login = None\<rparr>"

definition SetupAdmin :: "'c auth_service \<Rightarrow> string \<Rightarrow> string \<Rightarrow> 'c aworld \<Rightarrow> (goerr + login_response) \<times> 'c aworld" where
  "SetupAdmin s email password w =
    (case in_db (AdminExists (sv_env s)) w of
       (Inl e, w) \<Rightarrow> (Inl (wrap_err ''failed to check admin: '' e), w)
     | (Inr True, w) \<Rightarrow> (Inl ErrAdminExists, w)
     | (Inr False, w) \<Rightarrow>
       if sv_address s email = None then (Inl ErrInvalidEmail, w)
       else case validatePassword password of
         Some e \<Rightarrow> (Inl (policy_error e), w)
       | None \<Rightarrow>
         (case hash_password s password w of
            (Inl e, w) \<Rightarrow> (Inl e, w)
          | (Inr h, w) \<Rightarrow>
            (case draw (av_uuid (sv_env s)) w of (i, w) \<Rightarrow>
             let u = fresh_user i email h [DefaultAdminGroupID] True (now_at s w) in
             (case in_db (CreateAdminIfNone (sv_env s) u) w of
                (Inl e, w) \<Rightarrow> (Inl (if errors_is ''email already in use'' e then e else wrap_err ''failed to create admin: '' e), w)
              | (Inr False, w) \<Rightarrow> (Inl ErrAdminExists, w)
              | (Inr True, w) \<Rightarrow>
                (case createSession s u w of
                   (Inl e, w) \<Rightarrow> (Inl (wrap_err ''failed to create session: '' e), w)
                 | (Inr se, w) \<Rightarrow> (Inr (login_result se u), w))))))"

section \<open>Creating a user\<close>

definition mapStoreCreateUserError :: "goerr option \<Rightarrow> goerr option" where
  "mapStoreCreateUserError r = (case r of None \<Rightarrow> None
     | Some e \<Rightarrow> Some (if isEmailDuplicateError e then ErrEmailInUse else wrap_err ''failed to create user: '' e))"

definition validateCreateUserRequest :: "'c auth_service \<Rightarrow> string \<Rightarrow> string \<Rightarrow> string list \<Rightarrow> 'c aworld \<Rightarrow> goerr option \<times> 'c aworld" where
  "validateCreateUserRequest s email password groups w =
    (if sv_address s email = None then (Some ErrInvalidEmail, w)
     else case in_db (GetUserByEmail (sv_env s) email) w of
       (Inr _, w) \<Rightarrow> (Some ErrEmailInUse, w)
     | (Inl e, w) \<Rightarrow>
       (if \<not> is_no_rows e then Some e
        else if groups = [] then Some ErrNoGroups
        else if password = [] then None
        else map_option policy_error (validatePassword password), w))"

text \<open>What became of the invitation: none was due, or it was sent or not, with the error.\<close>

record create_user_result =
  cr_user :: user
  cr_sent :: "bool option"
  cr_error :: string

definition no_dashboard :: string where
  "no_dashboard = ''DashboardURL is not configured on the server; the invite link cannot be generated. Ask the operator to set DASHBOARD_URL before re-inviting.''"

definition sendInviteEmail :: "'c auth_service \<Rightarrow> user \<Rightarrow> string \<Rightarrow> 'c aworld \<Rightarrow> create_user_result \<times> 'c aworld" where
  "sendInviteEmail s u token w =
    (if sv_dashboard s = [] then (\<lparr>cr_user = u, cr_sent = Some False, cr_error = no_dashboard\<rparr>, w)
     else case sv_invite_mail s (us_email u) (reset_url s token) (aw_ext w) of
       (r, c) \<Rightarrow> (\<lparr>cr_user = u, cr_sent = Some (r = None), cr_error = (case r of None \<Rightarrow> [] | Some e \<Rightarrow> err_string e)\<rparr>,
          w\<lparr>aw_ext := c\<rparr>))"

text \<open>The password an account starts with: the one requested, or a random one for an invitation.\<close>

definition password_source :: "'c auth_service \<Rightarrow> string \<Rightarrow> 'c aworld \<Rightarrow> (goerr + string) \<times> 'c aworld" where
  "password_source s password w =
    (if password \<noteq> [] then (Inr password, w)
     else case draw (sv_token s) w of
       (Inl e, w) \<Rightarrow> (Inl (wrap_err ''failed to generate placeholder password: '' e), w) | (Inr t, w) \<Rightarrow> (Inr t, w))"

definition CreateUser :: "'c auth_service \<Rightarrow> string \<Rightarrow> string \<Rightarrow> string list \<Rightarrow> 'c aworld \<Rightarrow> (goerr + create_user_result) \<times> 'c aworld" where
  "CreateUser s email password groups w =
    (case validateCreateUserRequest s email password groups w of
       (Some e, w) \<Rightarrow> (Inl e, w)
     | (None, w) \<Rightarrow>
       (case password_source s password w of
          (Inl e, w) \<Rightarrow> (Inl e, w)
        | (Inr source, w) \<Rightarrow>
          (case hash_password s source w of
             (Inl e, w) \<Rightarrow> (Inl e, w)
           | (Inr h, w) \<Rightarrow>
             (case draw (av_uuid (sv_env s)) w of (i, w) \<Rightarrow>
              let u = fresh_user i email h groups (password \<noteq> []) (now_at s w) in
              if password \<noteq> [] then
                (case in_db (store_CreateUser (sv_env s) u) w of
                   ((r, u), w) \<Rightarrow> (case mapStoreCreateUserError r of Some e \<Rightarrow> (Inl e, w)
                     | None \<Rightarrow> (Inr \<lparr>cr_user = u, cr_sent = None, cr_error = []\<rparr>, w)))
              else
                (case draw (sv_token s) w of
                   (Inl e, w) \<Rightarrow> (Inl (wrap_err ''failed to generate invite token: '' e), w)
                 | (Inr token, w) \<Rightarrow>
                   (case in_db (store_CreateUser (sv_env s) (u\<lparr>us_reset := sv_sha s token,
                       us_reset_expires := Some (now_at s w + PasswordSetupExpiry)\<rparr>)) w of
                      ((r, u), w) \<Rightarrow> (case mapStoreCreateUserError r of Some e \<Rightarrow> (Inl e, w)
                        | None \<Rightarrow> (case sendInviteEmail s u token w of (r, w) \<Rightarrow> (Inr r, w)))))))))"

end
