(* ===== verification/Auth_Members.thy ===== *)
theory Auth_Members
  imports Auth_Accounts
begin

text \<open>
  Changing and deleting users (\<open>internal/auth/service_user.go\<close>): the guards on a change of
  membership, the protection of the last administrator, the profile, and the entry points of
  the API (\<open>service_api.go\<close>).
\<close>

section \<open>Guards on a change of membership\<close>

definition addedGroups :: "string list \<Rightarrow> string list \<Rightarrow> string list" where
  "addedGroups prior next = filter (\<lambda>g. \<not> containsGroup prior g) next"

definition addsNewGroup :: "string list \<Rightarrow> string list \<Rightarrow> bool" where
  "addsNewGroup prior next = (0 < length (addedGroups prior next))"

definition checkLastAdminConstraint :: "adb_env \<Rightarrow> adb \<Rightarrow> goerr option \<times> adb" where
  "checkLastAdminConstraint env db =
    (case CountGroupMembers env DefaultAdminGroupID db of
       (Inl e, db) \<Rightarrow> (Some (wrap_err ''failed to count administrators: '' e), db)
     | (Inr n, db) \<Rightarrow> (if n \<le> 1 then Some ErrLastAdmin else None, db))"

definition firstUnheldCarvedOut :: "group \<Rightarrow> permission list \<Rightarrow> permission option" where
  "firstUnheldCarvedOut g held =
    find (\<lambda>p. carved_out (pm_action p) (pm_resource p) \<and> \<not> permissionsAllow held (pm_action p) (pm_resource p) None)
      (gr_permissions g)"

fun carved_loop :: "adb_env \<Rightarrow> permission list \<Rightarrow> string list \<Rightarrow> adb \<Rightarrow> goerr option \<times> adb" where
  "carved_loop env held [] db = (None, db)"
| "carved_loop env held (i # is) db =
    (case store_GetGroup env i db of
       (Inl e, db) \<Rightarrow> (Some (Errorf ''failed to load group %s: %w'' [EStr i, EWrap e]), db)
     | (Inr g, db) \<Rightarrow>
       (case firstUnheldCarvedOut g held of
          Some p \<Rightarrow> (Some (Errorf ''%w: joining %q would grant you %s:%s, which is reserved for separation of duties (issue #923); ask another administrator to add you''
             [EWrap ErrSelfEscalation, EStr (gr_name g), EStr (pm_action p), EStr (pm_resource p)]), db)
        | None \<Rightarrow> carved_loop env held is db))"

definition guardSelfCarvedOutGrant :: "adb_env \<Rightarrow> permission list \<Rightarrow> string list \<Rightarrow> string list \<Rightarrow> adb \<Rightarrow> goerr option \<times> adb" where
  "guardSelfCarvedOutGrant env held next prior db = carved_loop env held (addedGroups prior next) db"

definition guardSelfAccountScope :: "adb_env \<Rightarrow> string list \<Rightarrow> string list \<Rightarrow> adb \<Rightarrow> goerr option \<times> adb" where
  "guardSelfAccountScope env prior next db =
    (case accountsForGroups env prior db of
       (Inl e, db) \<Rightarrow> (Some e, db)
     | (Inr priorAccounts, db) \<Rightarrow>
       (case accountsForGroups env next db of
          (Inl e, db) \<Rightarrow> (Some e, db)
        | (Inr nextAccounts, db) \<Rightarrow>
          (case accountScopeGap priorAccounts nextAccounts of None \<Rightarrow> None
           | Some gap \<Rightarrow> Some (Errorf ''%w: this change would give you %s, beyond your current account scope; ask another administrator to make it''
               [EWrap ErrSelfEscalation, EStr gap]), db)))"

definition guardSelfEscalation :: "adb_env \<Rightarrow> string list \<Rightarrow> string list \<Rightarrow> adb \<Rightarrow> goerr option \<times> adb" where
  "guardSelfEscalation env prior next db =
    (if \<not> addsNewGroup prior next then guardSelfAccountScope env prior next db
     else case permissionsForGroups env prior db of
       (Inl e, db) \<Rightarrow> (Some (wrap_err ''failed to verify manage-users permission: '' e), db)
     | (Inr held, db) \<Rightarrow>
       if \<not> permissionsAllow held ActionUpdate ResourceUsers None then (Some ErrSelfEscalation, db)
       else (case guardSelfCarvedOutGrant env held next prior db of
          (Some e, db) \<Rightarrow> (Some e, db)
        | (None, db) \<Rightarrow> guardSelfAccountScope env prior next db))"

definition guardGroupChange :: "adb_env \<Rightarrow> string \<Rightarrow> string \<Rightarrow> string list \<Rightarrow> string list \<Rightarrow> adb \<Rightarrow> goerr option \<times> adb" where
  "guardGroupChange env actor target prior next db =
    (if next = [] then (Some ErrNoGroups, db)
     else case (if containsGroup prior DefaultAdminGroupID \<and> \<not> containsGroup next DefaultAdminGroupID
         then checkLastAdminConstraint env db else (None, db)) of
       (Some e, db) \<Rightarrow> (Some e, db)
     | (None, db) \<Rightarrow>
       if actor = [] \<or> actor \<noteq> target then (None, db) else guardSelfEscalation env prior next db)"

definition guardDeactivation :: "adb_env \<Rightarrow> user \<Rightarrow> bool \<Rightarrow> bool option \<Rightarrow> adb \<Rightarrow> goerr option \<times> adb" where
  "guardDeactivation env u priorActive reqActive db =
    (if priorActive \<and> reqActive = Some False \<and> containsGroup (us_groups u) DefaultAdminGroupID
     then checkLastAdminConstraint env db else (None, db))"

section \<open>Updating a user\<close>

text \<open>A nil field is not sent.\<close>

record user_request =
  uq_email :: "string option"
  uq_active :: "bool option"
  uq_groups :: "string list option"

definition applyUpdateUserRequest :: "user \<Rightarrow> user_request \<Rightarrow> user" where
  "applyUpdateUserRequest u req =
    (let u = (case uq_groups req of None \<Rightarrow> u | Some gs \<Rightarrow> u\<lparr>us_groups := gs\<rparr>)
     in (case uq_active req of None \<Rightarrow> u | Some b \<Rightarrow> u\<lparr>us_active := b\<rparr>))"

definition updateUserEmail :: "'c auth_service \<Rightarrow> user \<Rightarrow> string \<Rightarrow> adb \<Rightarrow> (goerr + user) \<times> adb" where
  "updateUserEmail s u email db =
    (if email = [] \<or> email = us_email u then (Inr u, db)
     else if sv_address s email = None then (Inl (Errorf ''invalid email format'' []), db)
     else case GetUserByEmail (sv_env s) email db of
       (Inr _, db) \<Rightarrow> (Inl ErrEmailInUse, db)
     | (Inl e, db) \<Rightarrow> (if \<not> is_no_rows e then Inl e else Inr (u\<lparr>us_email := email\<rparr>), db))"

definition UpdateUser :: "'c auth_service \<Rightarrow> string \<Rightarrow> string \<Rightarrow> user_request \<Rightarrow> 'c aworld \<Rightarrow> (goerr + user) \<times> 'c aworld" where
  "UpdateUser s actor i req w =
    (case in_db (loadUser (sv_env s) i) w of
       (Inl e, w) \<Rightarrow> (Inl e, w)
     | (Inr old, w) \<Rightarrow>
       let u = applyUpdateUserRequest old req in
       (case (case uq_groups req of None \<Rightarrow> (None, w)
           | Some gs \<Rightarrow> in_db (guardGroupChange (sv_env s) actor i (us_groups old) gs) w) of
          (Some e, w) \<Rightarrow> (Inl e, w)
        | (None, w) \<Rightarrow>
          (case in_db (guardDeactivation (sv_env s) u (us_active old) (uq_active req)) w of
             (Some e, w) \<Rightarrow> (Inl e, w)
           | (None, w) \<Rightarrow>
             (case (case uq_email req of None \<Rightarrow> (Inr u, w) | Some email \<Rightarrow> in_db (updateUserEmail s u email) w) of
                (Inl e, w) \<Rightarrow> (Inl e, w)
              | (Inr u, w) \<Rightarrow>
                let u = u\<lparr>us_updated := now_at s w\<rparr> in
                (case in_db (store_UpdateUser (sv_env s) u) w of
                   (Some e, w) \<Rightarrow>
                     (Inl (if isLastAdminConstraintViolation e then ErrLastAdmin else wrap_err ''failed to update user: '' e), w)
                 | (None, w) \<Rightarrow> (Inr u, w))))))"

definition DeleteUser :: "'c auth_service \<Rightarrow> string \<Rightarrow> 'c aworld \<Rightarrow> goerr option \<times> 'c aworld" where
  "DeleteUser s i w =
    (case in_db (loadUser (sv_env s) i) w of
       (Inl e, w) \<Rightarrow> (Some e, w)
     | (Inr u, w) \<Rightarrow>
       (case (if containsGroup (us_groups u) DefaultAdminGroupID then in_db (checkLastAdminConstraint (sv_env s)) w
           else (None, w)) of
          (Some e, w) \<Rightarrow> (Some e, w)
        | (None, w) \<Rightarrow>
          (case in_db (DeleteUserSessions (sv_env s) i) w of (_, w) \<Rightarrow>
           (case in_db (store_DeleteUser (sv_env s) i) w of
              (Some e, w) \<Rightarrow> (Some (if isLastAdminConstraintViolation e then ErrLastAdmin else e), w)
            | (None, w) \<Rightarrow> (None, w)))))"

text \<open>Whether the password changed, and the user with it.\<close>

definition updateUserPassword :: "'c auth_service \<Rightarrow> user \<Rightarrow> string \<Rightarrow> 'c aworld \<Rightarrow> (goerr + bool \<times> user) \<times> 'c aworld" where
  "updateUserPassword s u password w =
    (if password = [] then (Inr (False, u), w)
     else case processPasswordReset s u password w of
       (Inl e, w) \<Rightarrow> (Inl e, w) | (Inr u, w) \<Rightarrow> (Inr (True, u), w))"

definition UpdateUserProfile :: "'c auth_service \<Rightarrow> string \<Rightarrow> string \<Rightarrow> string \<Rightarrow> string \<Rightarrow> 'c aworld \<Rightarrow> goerr option \<times> 'c aworld" where
  "UpdateUserProfile s i email current password w =
    (case in_db (GetUserByID (sv_env s) i) w of
       (Inl e, w) \<Rightarrow> (Some (if is_no_rows e then not_found_user else wrap_err ''failed to get user: '' e), w)
     | (Inr u, w) \<Rightarrow>
       if \<not> sv_verify s current (us_hash u) then (Some ErrCurrentPasswordIncorrect, w)
       else (case in_db (updateUserEmail s u email) w of
          (Inl e, w) \<Rightarrow> (Some e, w)
        | (Inr u, w) \<Rightarrow>
          (case updateUserPassword s u password w of
             (Inl e, w) \<Rightarrow> (Some e, w)
           | (Inr (changed, u), w) \<Rightarrow>
             (case in_db (store_UpdateUser (sv_env s) u) w of
                (Some e, w) \<Rightarrow> (Some (wrap_err ''failed to update user: '' e), w)
              | (None, w) \<Rightarrow>
                (None, if changed then notifyPasswordChange s i password (snd (in_db (DeleteUserSessions (sv_env s) i) w))
                   else w)))))"

section \<open>Users of the API\<close>

record api_user =
  au_id :: string
  au_email :: string
  au_created :: string
  au_updated :: string
  au_login :: string
  au_groups :: "string list"
  au_mfa :: bool

definition userToAPIUser :: "user \<Rightarrow> api_user" where
  "userToAPIUser u = \<lparr>au_id = us_id u, au_email = us_email u, au_created = rfc3339 (us_created u),
     au_updated = rfc3339 (us_updated u), au_login = (case us_login u of None \<Rightarrow> [] | Some t \<Rightarrow> rfc3339 t),
     au_groups = us_groups u, au_mfa = us_mfa u\<rparr>"

definition UpdateUserAPI :: "'c auth_service \<Rightarrow> string \<Rightarrow> string \<Rightarrow> string \<Rightarrow> string list option \<Rightarrow> 'c aworld \<Rightarrow> (goerr + api_user) \<times> 'c aworld" where
  "UpdateUserAPI s actor i email groups w =
    map_prod (map_sum id userToAPIUser) id
      (UpdateUser s actor i \<lparr>uq_email = (if email \<noteq> [] then Some email else None), uq_active = None, uq_groups = groups\<rparr> w)"

definition CreateUserAPI :: "'c auth_service \<Rightarrow> string \<Rightarrow> string \<Rightarrow> string list \<Rightarrow> 'c aworld \<Rightarrow>
    (goerr + api_user \<times> bool option \<times> string) \<times> 'c aworld" where
  "CreateUserAPI s email password groups w =
    map_prod (map_sum id (\<lambda>r. (userToAPIUser (cr_user r), cr_sent r, cr_error r))) id (CreateUser s email password groups w)"

definition ListUsersAPI :: "'c auth_service \<Rightarrow> 'c aworld \<Rightarrow> (goerr + api_user list) \<times> 'c aworld" where
  "ListUsersAPI s w = map_prod (map_sum id (map userToAPIUser)) id (in_db (store_ListUsers (sv_env s)) w)"

end
