(* ===== verification/Auth_Keys.thy ===== *)
theory Auth_Keys
  imports Auth_Members
begin

text \<open>
  Personal API keys (\<open>internal/auth/service_apikeys.go\<close>, \<open>service_apikeys_api.go\<close>): creating,
  revoking and checking them, what a key is allowed, and its usage counters. Requests are
  booked by the buffer of pending counts; the goroutines that flush it are the steps
  \<open>addPendingUsage\<close> and \<open>flushPendingUsage\<close>, taken one at a time.
\<close>

section \<open>Creating a key\<close>

definition validateAPIKeyPermissions :: "adb_env \<Rightarrow> user \<Rightarrow> permission list \<Rightarrow> adb \<Rightarrow> goerr option \<times> adb" where
  "validateAPIKeyPermissions env u ps db =
    (case BuildAuthContext env (us_id u) db of
       (Inl e, db) \<Rightarrow> (Some (wrap_err ''failed to get user permissions: '' e), db)
     | (Inr ctx, db) \<Rightarrow>
       (check_each 0 (\<lambda>_ p. if \<not> ctx_HasPermission ctx (pm_action p) (pm_resource p) then
          Some (Errorf ''user does not have permission for action=%s resource=%s'' [EStr (pm_action p), EStr (pm_resource p)])
        else None) ps, db))"

definition key_user_error :: "goerr \<Rightarrow> goerr" where
  "key_user_error e = (if is_no_rows e then not_found_user else wrap_err ''failed to get user: '' e)"

definition CreateAPIKey :: "'c auth_service \<Rightarrow> string \<Rightarrow> string \<Rightarrow> permission list \<Rightarrow> gotime option \<Rightarrow> 'c aworld \<Rightarrow>
    (goerr + string \<times> api_key) \<times> 'c aworld" where
  "CreateAPIKey s i name ps expires w =
    (case in_db (GetUserByID (sv_env s) i) w of
       (Inl e, w) \<Rightarrow> (Inl (key_user_error e), w)
     | (Inr u, w) \<Rightarrow>
       if \<not> us_active u then (Inl (Errorf ''user account is not active'' []), w)
       else if name = [] then (Inl (Errorf ''API key name is required'' []), w)
       else (case draw (sv_token s) w of
          (Inl e, w) \<Rightarrow> (Inl (wrap_err ''failed to generate random key: '' e), w)
        | (Inr key, w) \<Rightarrow>
          (case in_db (validateAPIKeyPermissions (sv_env s) u ps) w of
             (Some e, w) \<Rightarrow> (Inl (wrap_err ''invalid permissions: '' e), w)
           | (None, w) \<Rightarrow>
             (case draw (av_uuid (sv_env s)) w of (k, w) \<Rightarrow>
              let row = \<lparr>ak_id = k, ak_user = i, ak_name = name, ak_prefix = (if 8 < length key then take 8 key else key),
                    ak_hash = sv_sha64 s key, ak_permissions = ps, ak_active = True, ak_expires = expires,
                    ak_created = now_at s w, ak_used = None, ak_total = 0, ak_window = 0, ak_window_start = None\<rparr> in
              (case in_db (store_CreateAPIKey (sv_env s) row) w of
                 ((Some e, _), w) \<Rightarrow> (Inl (wrap_err ''failed to create API key: '' e), w)
               | ((None, row), w) \<Rightarrow> (Inr (key, row), w))))))"

definition ListUserAPIKeys :: "'c auth_service \<Rightarrow> string \<Rightarrow> 'c aworld \<Rightarrow> (goerr + api_key list) \<times> 'c aworld" where
  "ListUserAPIKeys s i w =
    (case in_db (GetUserByID (sv_env s) i) w of
       (Inl e, w) \<Rightarrow> (Inl (key_user_error e), w)
     | (Inr _, w) \<Rightarrow>
       map_prod (map_sum (wrap_err ''failed to list API keys: '') id) id (in_db (ListAPIKeysByUser (sv_env s) i) w))"

section \<open>Revoking and deleting a key\<close>

definition authorizeAPIKeyAccess :: "adb_env \<Rightarrow> string \<Rightarrow> string \<Rightarrow> string \<Rightarrow> adb \<Rightarrow> (goerr + api_key) \<times> adb" where
  "authorizeAPIKeyAccess env i k action db =
    (case GetAPIKeyByID env k db of
       (Inl e, db) \<Rightarrow> (Inl (if is_no_rows e then Errorf ''API key not found'' [] else wrap_err ''failed to get API key: '' e), db)
     | (Inr key, db) \<Rightarrow>
       (case GetUserByID env i db of
          (Inl e, db) \<Rightarrow> (Inl (key_user_error e), db)
        | (Inr _, db) \<Rightarrow>
          if ak_user key = i then (Inr key, db)
          else (case UserHasAdminCapability env i db of
             (Inl e, db) \<Rightarrow> (Inl (wrap_err ''failed to check admin capability: '' e), db)
           | (Inr admin, db) \<Rightarrow>
             (if \<not> admin then Inl (Errorf ''unauthorized: cannot %s another user's API key'' [EStr action]) else Inr key, db))))"

definition RevokeAPIKey :: "'c auth_service \<Rightarrow> string \<Rightarrow> string \<Rightarrow> 'c aworld \<Rightarrow> goerr option \<times> 'c aworld" where
  "RevokeAPIKey s i k w =
    (case in_db (authorizeAPIKeyAccess (sv_env s) i k ''revoke'') w of
       (Inl e, w) \<Rightarrow> (Some e, w)
     | (Inr key, w) \<Rightarrow>
       (case in_db (store_UpdateAPIKey (sv_env s) (key\<lparr>ak_active := False\<rparr>)) w of
          (r, w) \<Rightarrow> (wrap_opt ''failed to revoke API key: '' r, w)))"

definition DeleteAPIKey :: "'c auth_service \<Rightarrow> string \<Rightarrow> string \<Rightarrow> 'c aworld \<Rightarrow> goerr option \<times> 'c aworld" where
  "DeleteAPIKey s i k w =
    (case in_db (authorizeAPIKeyAccess (sv_env s) i k ''delete'') w of
       (Inl e, w) \<Rightarrow> (Some e, w)
     | (Inr key, w) \<Rightarrow>
       (case in_db (store_DeleteAPIKey (sv_env s) k) w of (r, w) \<Rightarrow> (wrap_opt ''failed to delete API key: '' r, w)))"

section \<open>Authenticating with a key\<close>

definition validateAPIKeyStatus :: "gotime \<Rightarrow> api_key \<Rightarrow> goerr option" where
  "validateAPIKeyStatus now k =
    (if \<not> ak_active k then Some (Errorf ''API key is revoked'' [])
     else case ak_expires k of
       Some t \<Rightarrow> if t < now then Some (Errorf ''API key has expired'' []) else None
     | None \<Rightarrow> None)"

definition lookupAPIKeyUser :: "adb_env \<Rightarrow> string \<Rightarrow> adb \<Rightarrow> (goerr + user) \<times> adb" where
  "lookupAPIKeyUser env i db =
    (case GetUserByID env i db of
       (Inl e, db) \<Rightarrow> (Inl (if is_no_rows e then Errorf ''user account not found'' [] else wrap_err ''failed to get user: '' e), db)
     | (Inr u, db) \<Rightarrow> (if \<not> us_active u then Inl (Errorf ''user account is not active'' []) else Inr u, db))"

definition ValidateUserAPIKey :: "'c auth_service \<Rightarrow> string \<Rightarrow> 'c aworld \<Rightarrow> (goerr + api_key \<times> user) \<times> 'c aworld" where
  "ValidateUserAPIKey s key w =
    (case in_db (store_GetAPIKeyByHash (sv_env s) (sv_sha64 s key)) w of
       (Inl e, w) \<Rightarrow>
         (Inl (if is_no_rows e then Errorf ''invalid API key'' []
            else wrap_err ''failed to validate API key: '' (wrap_err ''failed to get API key: '' e)), w)
     | (Inr k, w) \<Rightarrow>
       if ak_hash k \<noteq> sv_sha64 s key then (Inl (Errorf ''invalid API key'' []), w)
       else case validateAPIKeyStatus (now_at s w) k of
         Some e \<Rightarrow> (Inl e, w)
       | None \<Rightarrow>
         (case in_db (lookupAPIKeyUser (sv_env s) (ak_user k)) w of
            (Inl e, w) \<Rightarrow> (Inl e, w) | (Inr u, w) \<Rightarrow> (Inr (k, u), w)))"

section \<open>What a key is allowed\<close>

definition effective_permissions :: "api_key \<Rightarrow> auth_context \<Rightarrow> permission list" where
  "effective_permissions k ctx =
    (if ak_permissions k = [] then ac_permissions ctx
     else filter (\<lambda>p. ctx_HasPermission ctx (pm_action p) (pm_resource p)) (ak_permissions k))"

definition ComputeEffectivePermissions :: "adb_env \<Rightarrow> api_key \<Rightarrow> user \<Rightarrow> adb \<Rightarrow> (goerr + permission list) \<times> adb" where
  "ComputeEffectivePermissions env k u db =
    (case BuildAuthContext env (us_id u) db of
       (Inl e, db) \<Rightarrow> (Inl (wrap_err ''failed to get user auth context: '' e), db)
     | (Inr ctx, db) \<Rightarrow> (Inr (effective_permissions k ctx), db))"

definition HasAPIKeyPermissionAPI :: "'c auth_service \<Rightarrow> string \<Rightarrow> string \<Rightarrow> string \<Rightarrow> 'c aworld \<Rightarrow>
    (goerr + string \<times> string \<times> bool) \<times> 'c aworld" where
  "HasAPIKeyPermissionAPI s key action resource w =
    (case ValidateUserAPIKey s key w of
       (Inl e, w) \<Rightarrow> (Inl e, w)
     | (Inr (k, u), w) \<Rightarrow>
       (case in_db (ComputeEffectivePermissions (sv_env s) k u) w of
          (Inl e, w) \<Rightarrow> (Inl (wrap_err ''computing effective API key permissions: '' e), w)
        | (Inr ps, w) \<Rightarrow>
          (Inr (us_id u, ak_id k,
             ctx_HasPermission (no_context\<lparr>ac_user := Some u, ac_permissions := ps\<rparr>) action resource), w)))"

definition HasAPIKeyPermissionForConstraintsAPI :: "'c auth_service \<Rightarrow> string \<Rightarrow> string \<Rightarrow> string \<Rightarrow> string \<Rightarrow>
    permission_constraints list \<Rightarrow> 'c aworld \<Rightarrow> (goerr + bool) \<times> 'c aworld" where
  "HasAPIKeyPermissionForConstraintsAPI s k i action resource sets w =
    (if sets = [] then (Inl (errNoConstraintSets action resource), w)
     else case in_db (GetAPIKeyByID (sv_env s) k) w of
       (Inl e, w) \<Rightarrow> (Inl (wrap_err ''failed to load API key for constraint check: '' e), w)
     | (Inr key, w) \<Rightarrow>
       (case in_db (lookupAPIKeyUser (sv_env s) i) w of
          (Inl e, w) \<Rightarrow> (Inl e, w)
        | (Inr u, w) \<Rightarrow>
          (case in_db (BuildAuthContext (sv_env s) (us_id u)) w of
             (Inl e, w) \<Rightarrow> (Inl (wrap_err ''failed to get owner auth context for constraint check: '' e), w)
           | (Inr ctx, w) \<Rightarrow>
             (Inr (list_all (\<lambda>c. permissionsAllow (effective_permissions key ctx) action resource (Some c) \<and>
                permissionsAllow (ac_permissions ctx) action resource (Some c)) sets), w))))"

section \<open>Usage\<close>

text \<open>The counts of requests not yet written, by key.\<close>

type_synonym pending_usage = "string \<Rightarrow> int"

definition addPendingUsage :: "string \<Rightarrow> pending_usage \<Rightarrow> pending_usage" where
  "addPendingUsage k pending = pending(k := pending k + 1)"

definition drainPendingUsage :: "string \<Rightarrow> pending_usage \<Rightarrow> int \<times> pending_usage" where
  "drainPendingUsage k pending = (pending k, pending(k := 0))"

definition flushPendingUsage :: "'c auth_service \<Rightarrow> string \<Rightarrow> pending_usage \<Rightarrow> 'c aworld \<Rightarrow> pending_usage \<times> 'c aworld" where
  "flushPendingUsage s k pending w =
    (case drainPendingUsage k pending of (delta, pending) \<Rightarrow>
     (pending, if delta = 0 then w else snd (in_db (RecordAPIKeyUsage (sv_env s) k delta) w)))"

text \<open>The window as it is reported: none once it is a window length old.\<close>

definition effectiveWindowUsage :: "api_key \<Rightarrow> gotime \<Rightarrow> int \<times> gotime option" where
  "effectiveWindowUsage k now =
    (case ak_window_start k of
       None \<Rightarrow> (0, None)
     | Some t \<Rightarrow> if t + apiKeyUsageWindow \<le> now then (0, None) else (ak_window k, Some t))"

definition effectiveLifetimeUsage :: "api_key \<Rightarrow> int option" where
  "effectiveLifetimeUsage k = (if ak_total k = 0 \<and> ak_used k \<noteq> None then None else Some (ak_total k))"

definition apiKeyUsageTopKeysLimit :: nat where "apiKeyUsageTopKeysLimit = 3"

definition more_active :: "api_key \<times> int \<Rightarrow> api_key \<times> int \<Rightarrow> bool" where
  "more_active a b = (if snd a \<noteq> snd b then snd b < snd a else ak_total (fst b) < ak_total (fst a))"

definition sortAPIKeysByActivity :: "(api_key \<times> int) list \<Rightarrow> (api_key \<times> int) list" where
  "sortAPIKeysByActivity = go_sort more_active"

record usage_stats =
  ut_active :: int
  ut_window :: int
  ut_lifetime :: int
  ut_partial :: bool
  ut_top :: "(api_key \<times> int) list"

definition usage_summary :: "gotime \<Rightarrow> api_key list \<Rightarrow> usage_stats" where
  "usage_summary now keys =
    \<lparr>ut_active = int (length (filter (\<lambda>k. validateAPIKeyStatus now k = None) keys)),
     ut_window = (\<Sum>k\<leftarrow>keys. fst (effectiveWindowUsage k now)),
     ut_lifetime = (\<Sum>k\<leftarrow>keys. (case effectiveLifetimeUsage k of None \<Rightarrow> 0 | Some n \<Rightarrow> n)),
     ut_partial = list_ex (\<lambda>k. effectiveLifetimeUsage k = None) keys,
     ut_top = takeWhile (\<lambda>a. snd a \<noteq> 0)
       (take apiKeyUsageTopKeysLimit (sortAPIKeysByActivity (map (\<lambda>k. (k, fst (effectiveWindowUsage k now))) keys)))\<rparr>"

definition GetAPIKeysUsageStatsAPI :: "'c auth_service \<Rightarrow> string \<Rightarrow> 'c aworld \<Rightarrow> (goerr + usage_stats) \<times> 'c aworld" where
  "GetAPIKeysUsageStatsAPI s i w =
    (case ListUserAPIKeys s i w of
       (Inl e, w) \<Rightarrow> (Inl e, w) | (Inr keys, w) \<Rightarrow> (Inr (usage_summary (now_at s w) keys), w))"

end
