(* ===== verification/Auth_Permission_Facts.thy ===== *)
theory Auth_Permission_Facts
  imports Auth_Keys
begin

text \<open>
  The decisions of authorization as sets: a permission list allows what one of its entries
  grants, the ceiling's order is sound for the enforcement that follows it, and the only gap
  between the two are the money-spending verbs on the wildcard resource.
\<close>

section \<open>Permissions as sets\<close>

definition grants :: "permission \<Rightarrow> string \<Rightarrow> string \<Rightarrow> permission_constraints option \<Rightarrow> bool" where
  "grants p a r c = (if checkAdminPermission p then \<not> carved_out a r
     else checkPermissionMatch p a r \<and> checkPermissionConstraints p c)"

lemma permissionsAllow_iff: "permissionsAllow ps a r c \<longleftrightarrow> (\<exists>p \<in> set ps. grants p a r c)"
  by (induction ps) (auto simp: grants_def)

lemma ctx_loop_allow: "ctx_loop ps a r = permissionsAllow ps a r None"
  by (induction ps) (auto simp: checkAdminPermission_def checkPermissionMatch_def checkPermissionConstraints_def)

lemma ctx_HasPermission_allow: "ctx_HasPermission ctx a r = permissionsAllow (ac_permissions ctx) a r None"
  by (simp add: ctx_HasPermission_def ctx_loop_allow)

lemma allow_mono: "set ps \<subseteq> set qs \<Longrightarrow> permissionsAllow ps a r c \<Longrightarrow> permissionsAllow qs a r c"
  by (auto simp: permissionsAllow_iff)

lemma grants_unconstrained: "grants p a r c \<Longrightarrow> grants p a r None"
  by (auto simp: grants_def checkPermissionConstraints_def split: if_splits)

definition held_permission :: "permission \<Rightarrow> permission \<Rightarrow> bool" where
  "held_permission h req = (if checkAdminPermission h then \<not> carved_out (pm_action req) (pm_resource req)
     else checkPermissionMatch h (pm_action req) (pm_resource req) \<and> constraintsCover (pm_constraints h) (pm_constraints req))"

lemma grantCeilingAllows_iff: "grantCeilingAllows ps req \<longleftrightarrow> (\<exists>h \<in> set ps. held_permission h req)"
  by (induction ps) (auto simp: held_permission_def)

lemma permissionCoveredBy_iff: "permissionCoveredBy ps req \<longleftrightarrow>
    (\<exists>p \<in> set ps. pm_action p = pm_action req \<and> pm_resource p = pm_resource req \<and>
      constraintsCover (pm_constraints p) (pm_constraints req))"
  by (induction ps) auto

section \<open>Covering is sound for matching\<close>

lemma listCovers_match:
  assumes "listCovers held req" "matchStringListConstraints req x"
  shows "matchStringListConstraints held x"
  using assms by (auto simp: listCovers_def matchStringListConstraints_def containsAny_def list_ex_iff list_all_iff split: if_splits)

lemma listCovers_regions:
  assumes "listCovers held req" "matchAllRegionsConstraint req x"
  shows "matchAllRegionsConstraint held x"
  using assms by (fastforce simp: listCovers_def matchAllRegionsConstraint_def list_all_iff split: if_splits)

lemma flt_fle_trans: "fle a b \<Longrightarrow> flt b c \<Longrightarrow> flt a c"
  by (cases a; cases b; cases c) (auto simp: fle_def)

lemma amountCovers_match:
  assumes "amountCovers held req" "matchPurchaseAmountConstraint req x"
  shows "matchPurchaseAmountConstraint held x"
proof (cases "fle held (Fin 0)")
  case True
  then have "\<not> flt (Fin 0) held" by (cases held) (auto simp: fle_def)
  then show ?thesis by (simp add: matchPurchaseAmountConstraint_def)
next
  case False
  with assms flt_fle_trans show ?thesis by (auto simp: amountCovers_def matchPurchaseAmountConstraint_def)
qed

lemma constraintsCover_matches:
  assumes "constraintsCover (pm_constraints h) (pm_constraints p)" "checkPermissionConstraints p c"
  shows "checkPermissionConstraints h c"
proof (cases "pm_constraints h")
  case None
  then show ?thesis by (auto simp: checkPermissionConstraints_def split: option.split)
next
  case (Some hc)
  show ?thesis
  proof (cases c)
    case None
    then show ?thesis by (simp add: checkPermissionConstraints_def)
  next
    case c: (Some x)
    define pc where "pc = (case pm_constraints p of None \<Rightarrow> no_constraints | Some r \<Rightarrow> r)"
    have "matchConstraints pc x" using assms(2) c
      by (cases "pm_constraints p") (auto simp: pc_def checkPermissionConstraints_def no_constraints_def matchConstraints_def
          matchStringListConstraints_def matchAllRegionsConstraint_def matchPurchaseAmountConstraint_def)
    moreover have "listCovers (cn_accounts hc) (cn_accounts pc)" "listCovers (cn_providers hc) (cn_providers pc)"
      "listCovers (cn_services hc) (cn_services pc)" "listCovers (cn_regions hc) (cn_regions pc)"
      "amountCovers (cn_max hc) (cn_max pc)"
      using assms(1) Some by (auto simp: constraintsCover_def pc_def Let_def)
    ultimately have "matchConstraints hc x"
      using listCovers_match listCovers_regions amountCovers_match by (auto simp: matchConstraints_def)
    with Some c show ?thesis by (simp add: checkPermissionConstraints_def)
  qed
qed

section \<open>The wildcard\<close>

text \<open>A permission on every resource for an action that spends money on some resource: the
  carve-out, which compares pairs exactly, does not see it.\<close>

definition money_actions :: "string set" where
  "money_actions = fst ` set adminCarvedOuts"

definition wildcard_money :: "permission \<Rightarrow> bool" where
  "wildcard_money p = (pm_resource p = ResourceAll \<and> pm_action p \<in> money_actions)"

lemma admin_not_money: "ActionAdmin \<notin> money_actions"
  by (simp add: money_actions_def adminCarvedOuts_def go_consts)

lemma carved_action: "carved_out a r \<Longrightarrow> a \<in> money_actions"
  by (force simp: carved_out_def money_actions_def)

lemma not_carved_all: "\<not> carved_out a ResourceAll"
  by (simp add: carved_out_def adminCarvedOuts_def go_consts)

text \<open>What a permission held in full lets its holder do with a copy of it.\<close>

lemma held_grants:
  assumes "held_permission h p" "grants p a r c" "\<not> carved_out (pm_action p) (pm_resource p)"
  shows "grants h a r c \<or> carved_out a r \<and> wildcard_money p"
proof (cases "checkAdminPermission h")
  case True
  then show ?thesis
  proof (cases "carved_out a r")
    case carved: True
    with assms(2,3) have "\<not> checkAdminPermission p" "checkPermissionMatch p a r" by (auto simp: grants_def split: if_splits)
    with assms(3) carved have "wildcard_money p"
      using carved_action by (auto simp: checkPermissionMatch_def wildcard_money_def split: if_splits)
    with carved show ?thesis by simp
  qed (simp add: grants_def)
next
  case False
  then have m: "checkPermissionMatch h (pm_action p) (pm_resource p)" "constraintsCover (pm_constraints h) (pm_constraints p)"
    using assms(1) by (auto simp: held_permission_def)
  have "\<not> checkAdminPermission p"
    using m(1) False by (auto simp: checkAdminPermission_def checkPermissionMatch_def split: if_splits)
  with assms(2) have p: "checkPermissionMatch p a r" "checkPermissionConstraints p c" by (auto simp: grants_def)
  have "checkPermissionMatch h a r" using m(1) p(1) by (auto simp: checkPermissionMatch_def split: if_splits)
  with False p(2) m(2) constraintsCover_matches show ?thesis by (auto simp: grants_def)
qed

text \<open>One pass of the ceiling's loop, read as what enforcement will make of the permission.\<close>

lemma refusal_sound:
  assumes "grant_refusal actor existing p = None" "grants p a r c"
  shows "permissionsAllow actor a r c \<or> permissionsAllow existing a r c \<or> carved_out a r \<and> wildcard_money p"
proof (cases "carved_out (pm_action p) (pm_resource p)")
  case True
  with assms(1) obtain q where q: "q \<in> set existing" "pm_action q = pm_action p" "pm_resource q = pm_resource p"
    "constraintsCover (pm_constraints q) (pm_constraints p)"
    by (auto simp: grant_refusal_def permissionCoveredBy_iff split: if_splits)
  have "\<not> checkAdminPermission p" using True not_carved_all by (auto simp: checkAdminPermission_def)
  with assms(2) q have "grants q a r c"
    using constraintsCover_matches by (auto simp: grants_def checkAdminPermission_def checkPermissionMatch_def split: if_splits)
  with q(1) show ?thesis by (auto simp: permissionsAllow_iff)
next
  case False
  with assms(1) obtain h where "h \<in> set actor" "held_permission h p"
    by (auto simp: grant_refusal_def grantCeilingAllows_iff split: if_splits)
  with held_grants [OF _ assms(2) False] show ?thesis by (auto simp: permissionsAllow_iff)
qed

section \<open>Account scopes\<close>

lemma scope_gap_loop_None: "scope_gap_loop outer xs = None \<longleftrightarrow> set xs \<subseteq> set outer"
  by (induction xs) auto

lemma accountScopeGap_None: "accountScopeGap outer xs = None \<longleftrightarrow>
    IsUnrestrictedAccess outer \<or> \<not> IsUnrestrictedAccess xs \<and> set xs \<subseteq> set outer"
  by (simp add: accountScopeGap_def scope_gap_loop_None)

lemma unrestricted_matches: "IsUnrestrictedAccess xs \<Longrightarrow> MatchesAccount xs i n"
  by (simp add: MatchesAccount_def)

lemma scope_gap_sound:
  assumes "accountScopeGap outer xs = None" "MatchesAccount xs i n"
  shows "MatchesAccount outer i n"
  using assms unfolding accountScopeGap_None by (auto simp: MatchesAccount_def list_ex_iff)

lemma unrestricted_cong: "set xs = set ys \<Longrightarrow> IsUnrestrictedAccess xs = IsUnrestrictedAccess ys"
  by (auto simp: IsUnrestrictedAccess_def list_ex_iff)

lemma matches_cong: "set xs = set ys \<Longrightarrow> MatchesAccount xs i n = MatchesAccount ys i n"
  using unrestricted_cong [of xs ys] by (auto simp: MatchesAccount_def list_ex_iff)

text \<open>The typed scope decides as the list convention does.\<close>

lemma scope_from_list: "Allows (ScopeFromLegacyList xs) i n = MatchesAccount xs i n"
  by (simp add: Allows_def ScopeFromLegacyList_def UnrestrictedScope_def ScopeForAccounts_def MatchesAccount_def)

section \<open>Permissions on the wire\<close>

lemma api_permission_roundtrip [simp]: "apiPermissionToPermission (permissionToAPIPermission p) = p"
  by (cases p) (auto simp: apiPermissionToPermission_def permissionToAPIPermission_def split: option.split)

lemma permission_api_roundtrip [simp]: "permissionToAPIPermission (apiPermissionToPermission p) = p"
  by (cases p) (auto simp: apiPermissionToPermission_def permissionToAPIPermission_def split: option.split)

end
