(* ===== verification/Auth_Store_Facts.thy ===== *)
theory Auth_Store_Facts
  imports Auth_Permission_Facts
begin

text \<open>
  What the statements do to the tables: the lookups change nothing but the counters, and every
  other statement is one step of the relation \<open>table_step\<close>. An invariant of the tables is then
  a locale: proved for one step, it holds along every operation of the service.
\<close>

section \<open>Lookups\<close>

definition same_rows :: "adb \<Rightarrow> adb \<Rightarrow> bool" where
  "same_rows db db' = (ad_users db' = ad_users db \<and> ad_groups db' = ad_groups db \<and>
     ad_sessions db' = ad_sessions db \<and> ad_keys db' = ad_keys db)"

lemma same_rows_refl [simp]: "same_rows db db"
  by (simp add: same_rows_def)

lemma same_rows_trans [trans]: "same_rows a b \<Longrightarrow> same_rows b c \<Longrightarrow> same_rows a c"
  by (simp add: same_rows_def)

lemma same_rows_row:
  assumes "same_rows db db'"
  shows "user_row i db' = user_row i db" "group_row i db' = group_row i db" "key_row i db' = key_row i db"
  using assms by (simp_all add: same_rows_def user_row_def group_row_def key_row_def)

lemma aquery_same: "aquery env q db = (r, db') \<Longrightarrow> same_rows db db'"
  by (auto simp: aquery_def astmt_def same_rows_def Let_def split: option.splits sum.splits prod.splits)

lemma aquery_result:
  assumes "aquery env q db = (r, db')"
  shows "r = Inr (q (db\<lparr>ad_statements := Suc (ad_statements db)\<rparr>)) \<or> (\<exists>e. r = Inl e \<and> av_fault env (ad_statements db) = Some e)"
  using assms by (auto simp: aquery_def astmt_def Let_def split: option.splits)

lemma map_fst_eq: "map_prod f id p = (r, y) \<longleftrightarrow> (\<exists>x. p = (x, y) \<and> r = f x)"
  by (cases p) auto

lemma lookup_same:
  "GetUserByID env i db = (r1, db') \<Longrightarrow> same_rows db db'"
  "GetUserByEmail env i db = (r1, db') \<Longrightarrow> same_rows db db'"
  "GetUserByResetToken env i db = (r1, db') \<Longrightarrow> same_rows db db'"
  "store_GetGroup env i db = (r2, db') \<Longrightarrow> same_rows db db'"
  "GetAPIKeyByID env i db = (r3, db') \<Longrightarrow> same_rows db db'"
  "store_GetAPIKeyByHash env i db = (r3, db') \<Longrightarrow> same_rows db db'"
  by (auto simp: GetUserByID_def GetUserByEmail_def GetUserByResetToken_def store_GetGroup_def GetAPIKeyByID_def
      store_GetAPIKeyByHash_def map_fst_eq dest: aquery_same)

lemma list_same:
  "store_ListUsers env db = (r1, db') \<Longrightarrow> same_rows db db'"
  "store_ListGroups env db = (r2, db') \<Longrightarrow> same_rows db db'"
  "ListAPIKeysByUser env i db = (r3, db') \<Longrightarrow> same_rows db db'"
  "AdminExists env db = (r4, db') \<Longrightarrow> same_rows db db'"
  "CountGroupMembers env i db = (r5, db') \<Longrightarrow> same_rows db db'"
  "GetSession env i db = (r6, db') \<Longrightarrow> same_rows db db'"
  by (auto simp: store_ListUsers_def store_ListGroups_def ListAPIKeysByUser_def AdminExists_def CountGroupMembers_def
      GetSession_def dest: aquery_same split: prod.splits sum.splits option.splits)

lemma found_row:
  assumes "aquery env q db = (r, db')" "\<And>n. q (db\<lparr>ad_statements := n\<rparr>) = q db"
  shows "r = Inr (q db) \<or> isl r"
  using aquery_result [OF assms(1)] assms(2) by auto

lemma scan_Inr [simp]:
  "scan_user r = Inr u \<longleftrightarrow> r = Inr (Some u)"
  "scan_group q = Inr g \<longleftrightarrow> q = Inr (Some g)"
  "scan_key p = Inr k \<longleftrightarrow> p = Inr (Some k)"
  "Inr u = scan_user r \<longleftrightarrow> r = Inr (Some u)"
  "Inr g = scan_group q \<longleftrightarrow> q = Inr (Some g)"
  "Inr k = scan_key p \<longleftrightarrow> p = Inr (Some k)"
  by (auto simp: scan_user_def scan_group_def scan_key_def split: sum.splits option.splits)

lemma found_user: "GetUserByID env i db = (Inr u, db') \<Longrightarrow> user_row i db = Some u"
  by (auto simp: GetUserByID_def map_fst_eq user_row_def dest!: found_row)

lemma found_group: "store_GetGroup env i db = (Inr g, db') \<Longrightarrow> group_row i db = Some g"
  by (auto simp: store_GetGroup_def map_fst_eq group_row_def dest!: found_row)

lemma found_key: "GetAPIKeyByID env i db = (Inr k, db') \<Longrightarrow> key_row i db = Some k"
  by (auto simp: GetAPIKeyByID_def map_fst_eq key_row_def dest!: found_row)

lemma loaded_user: "loadUser env i db = (Inr u, db') \<Longrightarrow> user_row i db = Some u"
  by (auto simp: loadUser_def dest: found_user split: prod.splits sum.splits)

lemma loadUser_same: "loadUser env i db = (r, db') \<Longrightarrow> same_rows db db'"
  by (auto simp: loadUser_def dest: lookup_same split: prod.splits sum.splits)

lemma permissionsForGroups_same: "permissionsForGroups env is db = (r, db') \<Longrightarrow> same_rows db db'"
proof (induction env "is" db arbitrary: r db' rule: permissionsForGroups.induct)
  case (2 env i "is" db)
  obtain x db1 where x: "store_GetGroup env i db = (x, db1)" by fastforce
  note s1 = lookup_same(4) [OF x]
  obtain y db2 where y: "permissionsForGroups env is db1 = (y, db2)" by fastforce
  show ?case
  proof (cases x)
    case (Inl e)
    show ?thesis
    proof (cases "is_no_rows e")
      case True
      with "2.prems" x Inl have "permissionsForGroups env is db1 = (r, db')" by simp
      from "2.IH"(1) [OF x [symmetric] Inl True this] s1 show ?thesis using same_rows_trans by blast
    next
      case False
      with "2.prems" x Inl s1 show ?thesis by simp
    qed
  next
    case (Inr g)
    from "2.IH"(2) [OF x [symmetric] Inr y] s1 have "same_rows db db2" using same_rows_trans by blast
    with "2.prems" x Inr y show ?thesis by (auto split: sum.splits)
  qed
qed simp

lemma GetUserPermissions_same: "GetUserPermissions env i db = (r, db') \<Longrightarrow> same_rows db db'"
  by (auto simp: GetUserPermissions_def dest!: loadUser_same permissionsForGroups_same split: prod.splits sum.splits
      intro: same_rows_trans)

lemma collect_same: "collectGroupsAndAccounts env ctx is db = (r, db') \<Longrightarrow> same_rows db db'"
proof (induction env ctx "is" db rule: collectGroupsAndAccounts.induct)
  case (2 env ctx i "is" db)
  obtain x db1 where x: "store_GetGroup env i db = (x, db1)" by fastforce
  note s1 = lookup_same(4) [OF x]
  show ?case
  proof (cases x)
    case (Inl e)
    show ?thesis
    proof (cases "is_no_rows e")
      case True
      with "2.IH"(1) [OF x [symmetric] Inl True] "2.prems" x Inl s1 show ?thesis using same_rows_trans by fastforce
    next
      case False
      with "2.prems" x Inl s1 show ?thesis by simp
    qed
  next
    case (Inr g)
    with "2.IH"(2) [OF x [symmetric] Inr] "2.prems" x s1 show ?thesis using same_rows_trans by fastforce
  qed
qed simp

lemma context_same:
  "BuildAuthContext env i db = (r1, db') \<Longrightarrow> same_rows db db'"
  "accountsForGroups env is db = (r2, db') \<Longrightarrow> same_rows db db'"
  by (auto simp: BuildAuthContext_def accountsForGroups_def dest!: loadUser_same collect_same split: prod.splits sum.splits
      intro: same_rows_trans)

lemma ceiling_same:
  "grantCeilingPermissions env actor db = (r1, db') \<Longrightarrow> same_rows db db'"
  "grantCeilingAccounts env actor db = (r2, db') \<Longrightarrow> same_rows db db'"
  by (auto simp: grantCeilingPermissions_def grantCeilingAccounts_def dest!: GetUserPermissions_same context_same(1)
      split: prod.splits sum.splits if_splits)

lemma check_same:
  "checkGrantCeiling env actor req old db = (r, db') \<Longrightarrow> same_rows db db'"
  "checkAccountGrant env actor as db = (r, db') \<Longrightarrow> same_rows db db'"
  by (auto simp: checkGrantCeiling_def checkAccountGrant_def dest!: ceiling_same split: prod.splits sum.splits if_splits option.splits)

lemma ceiling_check_same: "checkAccountCeiling env actor asked old db = (r, db') \<Longrightarrow> same_rows db db'"
  by (auto simp: checkAccountCeiling_def dest!: check_same(2) split: option.splits if_splits)

lemma key_check_same:
  "UserHasAdminCapability env i db = (r1, db') \<Longrightarrow> same_rows db db'"
  "validateAPIKeyPermissions env u ps db = (r2, db') \<Longrightarrow> same_rows db db'"
  "ComputeEffectivePermissions env k u db = (r3, db') \<Longrightarrow> same_rows db db'"
  "lookupAPIKeyUser env i db = (r4, db') \<Longrightarrow> same_rows db db'"
  by (auto simp: UserHasAdminCapability_def validateAPIKeyPermissions_def ComputeEffectivePermissions_def lookupAPIKeyUser_def
      dest!: GetUserPermissions_same context_same(1) lookup_same(1) split: prod.splits sum.splits)

lemma authorize_same: "authorizeAPIKeyAccess env i k a db = (r, db') \<Longrightarrow> same_rows db db'"
  by (auto simp: authorizeAPIKeyAccess_def dest!: lookup_same(5) lookup_same(1) key_check_same(1) intro: same_rows_trans
      split: prod.splits sum.splits if_splits)

lemma last_admin_check_same: "checkLastAdminConstraint env db = (r, db') \<Longrightarrow> same_rows db db'"
  by (auto simp: checkLastAdminConstraint_def dest!: list_same(5) split: prod.splits sum.splits)

lemma carved_loop_same: "carved_loop env held is db = (r, db') \<Longrightarrow> same_rows db db'"
proof (induction env held "is" db rule: carved_loop.induct)
  case (2 env held i "is" db)
  obtain x db1 where x: "store_GetGroup env i db = (x, db1)" by fastforce
  note s1 = lookup_same(4) [OF x]
  show ?case
  proof (cases "\<exists>g. x = Inr g \<and> firstUnheldCarvedOut g held = None")
    case True
    with "2.prems" "2.IH" [OF x [symmetric]] x s1 show ?thesis using same_rows_trans by fastforce
  next
    case False
    with "2.prems" x s1 show ?thesis by (cases x) (auto split: option.splits)
  qed
qed simp

lemma guard_scope_same: "guardSelfAccountScope env prior new db = (r, db') \<Longrightarrow> same_rows db db'"
  by (auto simp: guardSelfAccountScope_def dest!: context_same(2) intro: same_rows_trans split: prod.splits sum.splits)

lemma guard_self_same: "guardSelfEscalation env prior new db = (r, db') \<Longrightarrow> same_rows db db'"
  by (auto simp: guardSelfEscalation_def guardSelfCarvedOutGrant_def dest!: guard_scope_same permissionsForGroups_same carved_loop_same
      intro: same_rows_trans split: prod.splits sum.splits if_splits option.splits)

lemma guard_same:
  "guardGroupChange env actor i prior new db = (r, db') \<Longrightarrow> same_rows db db'"
  "guardDeactivation env u b req db = (r, db') \<Longrightarrow> same_rows db db'"
  by (auto simp: guardGroupChange_def guardDeactivation_def dest!: guard_self_same last_admin_check_same
      intro: same_rows_trans split: prod.splits if_splits option.splits)

lemma email_same: "updateUserEmail s u email db = (r, db') \<Longrightarrow> same_rows db db'"
  by (auto simp: updateUserEmail_def dest!: lookup_same(2) split: prod.splits sum.splits if_splits)

end
