(* ===== verification/Auth_Table_Facts.thy ===== *)
theory Auth_Table_Facts
  imports Auth_Store_Facts
begin

text \<open>
  The tables as a transition system: one step is one statement that succeeded. Every operation
  of the service is a sequence of steps, so an invariant of the tables is proved step by step,
  once, in the locale \<open>table_invariant\<close>.
\<close>

section \<open>Steps\<close>

inductive table_step :: "adb \<Rightarrow> adb \<Rightarrow> bool" where
  counters: "same_rows db db' \<Longrightarrow> table_step db db'"
| user_added: "row_error u (ad_users db) = None \<Longrightarrow> table_step db (db\<lparr>ad_users := ad_users db @ [u]\<rparr>)"
| user_updated: "update_user u db = Inr (db', n) \<Longrightarrow> table_step db db'"
| user_deleted: "delete_user i db = Inr (db', n) \<Longrightarrow> table_step db db'"
| group_added: "insert_group g db = Inr (db', ()) \<Longrightarrow> table_step db db'"
| group_updated: "update_group g db = Inr (db', n) \<Longrightarrow> table_step db db'"
| group_deleted: "delete_group i db = Inr (db', n) \<Longrightarrow> table_step db db'"
| session_added: "insert_session s db = Inr (db', ()) \<Longrightarrow> table_step db db'"
| sessions_dropped: "table_step db (db\<lparr>ad_sessions := filter p (ad_sessions db)\<rparr>)"
| key_added: "insert_key k db = Inr (db', ()) \<Longrightarrow> table_step db db'"
| keys_changed: "(\<And>k. ak_id (f k) = ak_id k \<and> ak_user (f k) = ak_user k \<and> ak_hash (f k) = ak_hash k) \<Longrightarrow>
    table_step db (db\<lparr>ad_keys := map f (ad_keys db)\<rparr>)"
| keys_dropped: "table_step db (db\<lparr>ad_keys := filter q (ad_keys db)\<rparr>)"

definition table_run :: "adb \<Rightarrow> adb \<Rightarrow> bool" where
  "table_run = table_step\<^sup>*\<^sup>*"

lemma table_run_refl [simp]: "table_run db db"
  by (simp add: table_run_def)

lemma table_run_trans: "table_run a b \<Longrightarrow> table_run b c \<Longrightarrow> table_run a c"
  unfolding table_run_def by (rule rtranclp_trans)

lemma table_run_step: "table_step a b \<Longrightarrow> table_run a b"
  by (simp add: table_run_def)

lemma table_run_same: "same_rows a b \<Longrightarrow> table_run a b"
  by (intro table_run_step table_step.counters)

text \<open>A statement first counts itself, then does its work or reports an error.\<close>

lemma astmt_run:
  assumes "astmt env f db = (r, db')" "\<And>db1 db2 x. f db1 = Inr (db2, x) \<Longrightarrow> table_step db1 db2"
  shows "table_run db db'"
proof -
  let ?db = "db\<lparr>ad_statements := Suc (ad_statements db)\<rparr>"
  have s: "table_run db ?db" by (rule table_run_same) (simp add: same_rows_def)
  consider "db' = ?db" | x where "f ?db = Inr (db', x)"
    using assms(1) by (auto simp: astmt_def Let_def split: option.splits sum.splits)
  then show ?thesis using s table_run_trans [OF s table_run_step [OF assms(2)]] by cases auto
qed

lemma draw_id_run: "next_uuid env db = (i, db') \<Longrightarrow> same_rows db db'"
  by (auto simp: next_uuid_def same_rows_def)

lemma with_user_id_same: "with_user_id env u db = (u', db') \<Longrightarrow> same_rows db db'"
  by (auto simp: with_user_id_def dest: draw_id_run split: prod.splits if_splits)

lemma insert_user_step: "insert_user u db = Inr (db', x) \<Longrightarrow> table_step db db'"
  by (auto simp: insert_user_def intro: table_step.user_added split: option.splits)

lemma insert_admin_step: "insert_admin u db = Inr (db', b) \<Longrightarrow> table_step db db'"
  by (auto simp: insert_admin_def intro: table_step.counters insert_user_step split: if_splits sum.splits)

lemma statements_run:
  "astmt env (insert_user u) db = (r1, db') \<Longrightarrow> table_run db db'"
  "astmt env (insert_admin u) db = (r2, db') \<Longrightarrow> table_run db db'"
  "astmt env (update_user u) db = (r3, db') \<Longrightarrow> table_run db db'"
  "astmt env (delete_user i) db = (r3, db') \<Longrightarrow> table_run db db'"
  "astmt env (insert_group g) db = (r1, db') \<Longrightarrow> table_run db db'"
  "astmt env (update_group g) db = (r3, db') \<Longrightarrow> table_run db db'"
  "astmt env (delete_group i) db = (r3, db') \<Longrightarrow> table_run db db'"
  "astmt env (insert_session se) db = (r1, db') \<Longrightarrow> table_run db db'"
  "astmt env (insert_key k) db = (r1, db') \<Longrightarrow> table_run db db'"
  by (erule astmt_run; auto intro: insert_user_step insert_admin_step table_step.intros)+

lemma store_CreateUser_run:
  assumes "store_CreateUser env u db = (r, db')"
  shows "table_run db db'"
proof -
  obtain u1 db1 where w: "with_user_id env u db = (u1, db1)" by fastforce
  obtain x db2 where x: "astmt env (insert_user (u1\<lparr>us_created := aclock env db1, us_updated := aclock env db1\<rparr>)) db1 = (x, db2)" by fastforce
  have "db' = db2" using assms w x by (auto simp: store_CreateUser_def Let_def split: sum.splits)
  with statements_run(1) [OF x] table_run_same [OF with_user_id_same [OF w]] table_run_trans show ?thesis by blast
qed

lemma CreateAdminIfNone_run:
  assumes "CreateAdminIfNone env u db = (r, db')"
  shows "table_run db db'"
proof -
  obtain u1 db1 where w: "with_user_id env u db = (u1, db1)" by fastforce
  let ?u = "u1\<lparr>us_created := aclock env db1, us_updated := aclock env db1,
       us_groups := (if containsGroup (us_groups u1) DefaultAdminGroupID then us_groups u1
         else us_groups u1 @ [DefaultAdminGroupID])\<rparr>"
  obtain a db2 where a: "aquery env (\<lambda>_. ()) db1 = (a, db2)" by fastforce
  obtain b db3 where b: "aquery env (\<lambda>_. ()) db2 = (b, db3)" by fastforce
  obtain c db4 where c: "astmt env (insert_admin ?u) db3 = (c, db4)" by fastforce
  obtain d db5 where d: "aquery env (\<lambda>_. ()) db4 = (d, db5)" by fastforce
  have "same_rows db db2" using with_user_id_same [OF w] aquery_same [OF a] same_rows_trans by blast
  moreover from this have s3: "same_rows db db3" using aquery_same [OF b] same_rows_trans by blast
  moreover have r4: "table_run db db4" using table_run_trans [OF table_run_same [OF s3] statements_run(2) [OF c]] .
  moreover have "table_run db db5" using table_run_trans [OF r4 table_run_same [OF aquery_same [OF d]]] .
  moreover have "same_rows db (db3\<lparr>ad_statements := n\<rparr>)" for n using s3 by (simp add: same_rows_def)
  ultimately show ?thesis using assms w a b c d table_run_same
    by (auto simp: CreateAdminIfNone_def Let_def split: sum.splits)
qed

lemma user_writes_run:
  "store_UpdateUser env u db = (r, db') \<Longrightarrow> table_run db db'"
  "store_DeleteUser env i db = (r, db') \<Longrightarrow> table_run db db'"
  by (auto simp: store_UpdateUser_def store_DeleteUser_def dest!: statements_run split: prod.splits sum.splits)

lemma group_writes_run:
  "store_CreateGroup env g db = (r1, db') \<Longrightarrow> table_run db db'"
  "store_UpdateGroup env g db = (r, db') \<Longrightarrow> table_run db db'"
  "store_DeleteGroup env i db = (r, db') \<Longrightarrow> table_run db db'"
  by (auto simp: store_CreateGroup_def store_UpdateGroup_def store_DeleteGroup_def Let_def
      dest!: statements_run draw_id_run [THEN table_run_same] intro: table_run_trans split: prod.splits sum.splits option.splits if_splits)

lemma session_writes_run:
  "CreateSession env se db = (r, db') \<Longrightarrow> table_run db db'"
  "drop_sessions p env prefix db = (r, db') \<Longrightarrow> table_run db db'"
proof -
  show "CreateSession env se db = (r, db') \<Longrightarrow> table_run db db'"
    by (auto simp: CreateSession_def dest!: statements_run split: prod.splits sum.splits)
  assume "drop_sessions p env prefix db = (r, db')"
  then obtain x where "astmt env (\<lambda>db. Inr (db\<lparr>ad_sessions := filter (\<lambda>s. \<not> p (aclock env db) s) (ad_sessions db)\<rparr>, ())) db = (x, db')"
    by (auto simp: drop_sessions_def split: prod.splits sum.splits)
  then show "table_run db db'" by (rule astmt_run) (auto intro: table_step.sessions_dropped)
qed

lemma session_drops_run:
  "DeleteSession env t db = (r, db') \<Longrightarrow> table_run db db'"
  "DeleteUserSessions env t db = (r, db') \<Longrightarrow> table_run db db'"
  "CleanupExpiredSessions env db = (r, db') \<Longrightarrow> table_run db db'"
  by (auto simp: DeleteSession_def DeleteUserSessions_def CleanupExpiredSessions_def dest: session_writes_run(2))

lemma change_key_run:
  assumes "change_key env prefix i f db = (r, db')"
    and "\<And>t k. ak_id (f t k) = ak_id k \<and> ak_user (f t k) = ak_user k \<and> ak_hash (f t k) = ak_hash k"
  shows "table_run db db'"
proof -
  let ?f = "\<lambda>db. (Inr (db\<lparr>ad_keys := map (\<lambda>k. if ak_id k = i then f (aclock env db) k else k) (ad_keys db)\<rparr>,
        length (filter (\<lambda>k. ak_id k = i) (ad_keys db))) :: goerr + adb \<times> nat)"
  obtain x where x: "astmt env ?f db = (x, db')"
    using assms(1) by (auto simp: change_key_def split: prod.splits sum.splits)
  show ?thesis by (rule astmt_run [OF x]) (use assms(2) in \<open>auto intro!: table_step.keys_changed\<close>)
qed

lemma key_writes_run:
  "store_CreateAPIKey env k db = (r1, db') \<Longrightarrow> table_run db db'"
  "store_UpdateAPIKey env k db = (r, db') \<Longrightarrow> table_run db db'"
  "RecordAPIKeyUsage env i delta db = (r, db') \<Longrightarrow> table_run db db'"
  "UpdateAPIKeyLastUsed env i db = (r, db') \<Longrightarrow> table_run db db'"
  by (auto simp: store_CreateAPIKey_def store_UpdateAPIKey_def RecordAPIKeyUsage_def UpdateAPIKeyLastUsed_def usage_counted_def Let_def
      dest!: statements_run change_key_run draw_id_run [THEN table_run_same] intro: table_run_trans
      split: prod.splits sum.splits option.splits if_splits)

lemma store_DeleteAPIKey_run:
  assumes "store_DeleteAPIKey env i db = (r, db')"
  shows "table_run db db'"
proof -
  let ?f = "\<lambda>db. (Inr (db\<lparr>ad_keys := filter (\<lambda>k. ak_id k \<noteq> i) (ad_keys db)\<rparr>,
        length (filter (\<lambda>k. ak_id k = i) (ad_keys db))) :: goerr + adb \<times> nat)"
  obtain x where x: "astmt env ?f db = (x, db')"
    using assms by (auto simp: store_DeleteAPIKey_def split: prod.splits sum.splits)
  show ?thesis by (rule astmt_run [OF x]) (auto intro: table_step.keys_dropped)
qed

section \<open>Invariants of the tables\<close>

locale table_invariant =
  fixes P :: "adb \<Rightarrow> bool"
  assumes step: "table_step db db' \<Longrightarrow> P db \<Longrightarrow> P db'"
begin

lemma run: "table_run db db' \<Longrightarrow> P db \<Longrightarrow> P db'"
  unfolding table_run_def by (induction rule: rtranclp_induct) (auto intro: step)

end

text \<open>An active member of the Administrators group remains.\<close>

definition has_admin :: "adb \<Rightarrow> bool" where
  "has_admin db = (\<exists>u \<in> set (ad_users db). active_admin u)"

lemma no_admin_left_iff: "no_admin_left us \<longleftrightarrow> \<not> (\<exists>u \<in> set us. active_admin u)"
  by (auto simp: no_admin_left_def list_all_iff)

lemma active_admin_created [simp]: "active_admin (u\<lparr>us_created := t\<rparr>) = active_admin u"
  by (simp add: active_admin_def)

lemma update_keeps_admin:
  assumes "update_user u db = Inr (db', n)" "has_admin db" "distinct (map us_id (ad_users db))"
  shows "has_admin db'"
proof (cases "user_row (us_id u) db")
  case None
  with assms show ?thesis by (simp add: update_user_def)
next
  case (Some old)
  let ?f = "\<lambda>v. if us_id v = us_id u then u\<lparr>us_created := us_created v\<rparr> else v"
  from Some have old: "old \<in> set (ad_users db)" "us_id old = us_id u"
    by (auto simp: user_row_def find_Some_iff in_set_conv_nth)
  have users: "ad_users db' = map ?f (ad_users db)"
    and left: "active_admin old \<and> \<not> active_admin u \<longrightarrow> \<not> no_admin_left (map ?f (ad_users db))"
    using assms(1) Some by (auto simp: update_user_def Let_def split: option.splits if_splits)
  obtain v where v: "v \<in> set (ad_users db)" "active_admin v" using assms(2) by (auto simp: has_admin_def)
  show ?thesis
  proof (cases "us_id v = us_id u")
    case True
    with v(1) old assms(3) have "v = old" by (metis distinct_map inj_onD)
    show ?thesis
    proof (cases "active_admin u")
      case True
      with old have "?f old \<in> set (ad_users db') \<and> active_admin (?f old)" unfolding users by auto
      then show ?thesis unfolding has_admin_def by blast
    next
      case False
      with left v(2) \<open>v = old\<close> show ?thesis by (simp add: has_admin_def users no_admin_left_iff del: set_map)
    qed
  next
    case False
    with v(1) have "v \<in> set (ad_users db')" unfolding users by force
    with v(2) show ?thesis by (auto simp: has_admin_def)
  qed
qed

lemma delete_keeps_admin:
  assumes "delete_user i db = Inr (db', n)" "has_admin db" "distinct (map us_id (ad_users db))"
  shows "has_admin db'"
proof (cases "user_row i db")
  case None
  with assms show ?thesis by (simp add: delete_user_def)
next
  case (Some old)
  let ?users = "filter (\<lambda>v. us_id v \<noteq> i) (ad_users db)"
  from Some have old: "old \<in> set (ad_users db)" "us_id old = i"
    by (auto simp: user_row_def find_Some_iff in_set_conv_nth)
  have users: "ad_users db' = ?users"
    and left: "containsGroup (us_groups old) DefaultAdminGroupID \<longrightarrow> \<not> no_admin_left ?users"
    using assms(1) Some by (auto simp: delete_user_def Let_def split: if_splits)
  obtain v where v: "v \<in> set (ad_users db)" "active_admin v" using assms(2) by (auto simp: has_admin_def)
  show ?thesis
  proof (cases "us_id v = i")
    case True
    with v(1) old assms(3) have "v = old" by (metis distinct_map inj_onD)
    with v(2) left show ?thesis by (auto simp: has_admin_def users no_admin_left_iff active_admin_def)
  next
    case False
    with v show ?thesis by (auto simp: has_admin_def users)
  qed
qed

section \<open>Well-formed tables\<close>

definition wf_tables :: "adb \<Rightarrow> bool" where
  "wf_tables db =
    (distinct (map us_id (ad_users db)) \<and> distinct (map us_email (ad_users db)) \<and> (\<forall>u \<in> set (ad_users db). us_groups u \<noteq> []) \<and>
     distinct (map gr_id (ad_groups db)) \<and> distinct (map gr_name (ad_groups db)) \<and>
     (\<forall>g \<in> set (ad_groups db). gr_creator g \<noteq> [] \<longrightarrow> gr_creator g \<in> us_id ` set (ad_users db)) \<and>
     distinct (map se_token (ad_sessions db)) \<and> (\<forall>s \<in> set (ad_sessions db). se_user s \<in> us_id ` set (ad_users db)) \<and>
     distinct (map ak_id (ad_keys db)) \<and> distinct (map ak_hash (ad_keys db)) \<and>
     (\<forall>k \<in> set (ad_keys db). ak_user k \<in> us_id ` set (ad_users db)))"

lemma row_None_iff:
  "user_row i db = None \<longleftrightarrow> i \<notin> us_id ` set (ad_users db)"
  "group_row i db = None \<longleftrightarrow> i \<notin> gr_id ` set (ad_groups db)"
  by (auto simp: user_row_def group_row_def find_None_iff)

lemma row_Some:
  "user_row i db = Some u \<Longrightarrow> u \<in> set (ad_users db) \<and> us_id u = i"
  "group_row i db = Some g \<Longrightarrow> g \<in> set (ad_groups db) \<and> gr_id g = i"
  "key_row i db = Some k \<Longrightarrow> k \<in> set (ad_keys db) \<and> ak_id k = i"
  by (auto simp: user_row_def group_row_def key_row_def find_Some_iff in_set_conv_nth)

lemma row_error_None: "row_error u others = None \<longleftrightarrow>
    us_groups u \<noteq> [] \<and> us_id u \<notin> us_id ` set others \<and> us_email u \<notin> us_email ` set others"
  by (auto simp: row_error_def)

text \<open>Replacing the row of an identifier keeps a column distinct when the new value is not
  another row's.\<close>

lemma distinct_replaced:
  assumes "distinct (map f xs)" "distinct (map key xs)"
    and "\<And>x. key x = k \<Longrightarrow> f (g x) = y" "y \<notin> f ` set (filter (\<lambda>x. key x \<noteq> k) xs)"
  shows "distinct (map f (map (\<lambda>x. if key x = k then g x else x) xs))"
  using assms(1,2,4)
proof (induction xs)
  case (Cons x xs)
  have img: "f (if key z = k then g z else z) = f z \<or> key z = k" for z by simp
  show ?case
  proof (cases "key x = k")
    case True
    then have other: "key z \<noteq> k" if "z \<in> set xs" for z using Cons.prems(2) imageI [OF that, of key] by auto
    then have "map (\<lambda>x. if key x = k then g x else x) xs = xs" by (intro map_idI) simp
    moreover have "y \<notin> f ` set xs" using Cons.prems(3) other by auto
    ultimately show ?thesis using Cons.prems True assms(3) by simp
  next
    case False
    have "f x \<noteq> f (if key z = k then g z else z)" if "z \<in> set xs" for z
      using Cons.prems(1,3) False that assms(3) by (cases "key z = k") (auto simp: image_iff)
    with Cons False show ?thesis by (auto simp: image_iff)
  qed
qed simp

lemma distinct_kept: "distinct (map f xs) \<Longrightarrow> distinct (map f (filter p xs))"
  by (induction xs) auto

lemma distinct_mapped: "(\<And>x. f (g x) = f x) \<Longrightarrow> map f (map (\<lambda>x. if p x then g x else x) xs) = map f xs"
  by simp

text \<open>What the updates do to the columns.\<close>

lemma update_user_cases:
  assumes "update_user u db = Inr (db', n)"
  obtains "db' = db"
  | old where "user_row (us_id u) db = Some old" "row_error u (filter (\<lambda>v. us_id v \<noteq> us_id u) (ad_users db)) = None"
      "db' = db\<lparr>ad_users := map (\<lambda>v. if us_id v = us_id u then u\<lparr>us_created := us_created v\<rparr> else v) (ad_users db)\<rparr>"
  using assms by (auto simp: update_user_def Let_def split: option.splits if_splits)

lemma delete_user_cases:
  assumes "delete_user i db = Inr (db', n)"
  obtains "db' = db"
  | old where "user_row i db = Some old"
      "db' = db\<lparr>ad_users := filter (\<lambda>v. us_id v \<noteq> i) (ad_users db), ad_sessions := filter (\<lambda>s. se_user s \<noteq> i) (ad_sessions db),
          ad_keys := filter (\<lambda>k. ak_user k \<noteq> i) (ad_keys db),
          ad_groups := map (\<lambda>g. if gr_creator g = i then g\<lparr>gr_creator := []\<rparr> else g) (ad_groups db)\<rparr>"
  using assms by (auto simp: delete_user_def Let_def split: option.splits if_splits)

lemma update_group_cases:
  assumes "update_group g db = Inr (db', n)"
  obtains "db' = db" "n = 0"
  | old where "group_row (gr_id g) db = Some old" "gr_name g \<notin> gr_name ` set (filter (\<lambda>h. gr_id h \<noteq> gr_id g) (ad_groups db))"
      "db' = db\<lparr>ad_groups := map (\<lambda>h. if gr_id h = gr_id g
          then h\<lparr>gr_name := gr_name g, gr_description := gr_description g, gr_permissions := gr_permissions g,
            gr_accounts := gr_accounts g, gr_updated := gr_updated g\<rparr> else h) (ad_groups db)\<rparr>"
  using assms by (auto simp: update_group_def split: option.splits if_splits)

lemma wf_update_user:
  assumes "update_user u db = Inr (db', n)" "wf_tables db"
  shows "wf_tables db'"
  using assms(1)
proof (cases rule: update_user_cases)
  case 1
  with assms(2) show ?thesis by simp
next
  case (2 old)
  let ?f = "\<lambda>v. if us_id v = us_id u then u\<lparr>us_created := us_created v\<rparr> else v"
  have ok: "us_groups u \<noteq> []" "us_email u \<notin> us_email ` set (filter (\<lambda>v. us_id v \<noteq> us_id u) (ad_users db))"
    using 2(2) by (auto simp: row_error_None)
  have wf: "distinct (map us_id (ad_users db))" "distinct (map us_email (ad_users db))" using assms(2) by (simp_all add: wf_tables_def)
  define us where "us = map ?f (ad_users db)"
  have ids: "map us_id us = map us_id (ad_users db)" by (simp add: us_def)
  then have set: "us_id ` set us = us_id ` set (ad_users db)" by (metis set_map)
  have "distinct (map us_email us)" unfolding us_def
    by (rule distinct_replaced [OF wf(2,1), where y = "us_email u"]) (use ok(2) in auto)
  moreover have "\<forall>v \<in> set us. us_groups v \<noteq> []" using assms(2) ok(1) by (auto simp: wf_tables_def us_def)
  moreover have "db' = db\<lparr>ad_users := us\<rparr>" using 2(3) by (simp add: us_def)
  ultimately show ?thesis using assms(2) ids set by (simp add: wf_tables_def)
qed

lemma wf_delete_user:
  assumes "delete_user i db = Inr (db', n)" "wf_tables db"
  shows "wf_tables db'"
  using assms(1)
proof (cases rule: delete_user_cases)
  case 1
  with assms(2) show ?thesis by simp
next
  case (2 old)
  define us where "us = filter (\<lambda>v. us_id v \<noteq> i) (ad_users db)"
  define ss where "ss = filter (\<lambda>s. se_user s \<noteq> i) (ad_sessions db)"
  define ks where "ks = filter (\<lambda>k. ak_user k \<noteq> i) (ad_keys db)"
  define gs where "gs = map (\<lambda>g. if gr_creator g = i then g\<lparr>gr_creator := []\<rparr> else g) (ad_groups db)"
  have kept: "j \<in> us_id ` set us \<longleftrightarrow> j \<in> us_id ` set (ad_users db) \<and> j \<noteq> i" for j by (auto simp: us_def)
  have "map gr_id gs = map gr_id (ad_groups db)" "map gr_name gs = map gr_name (ad_groups db)" by (simp_all add: gs_def)
  moreover have "\<forall>g \<in> set gs. gr_creator g \<noteq> [] \<longrightarrow> gr_creator g \<in> us_id ` set us"
    using assms(2) unfolding kept by (auto simp: wf_tables_def gs_def)
  moreover have "\<forall>s \<in> set ss. se_user s \<in> us_id ` set us" "\<forall>k \<in> set ks. ak_user k \<in> us_id ` set us"
    using assms(2) unfolding kept by (auto simp: wf_tables_def ss_def ks_def)
  moreover have "distinct (map us_id us)" "distinct (map us_email us)" "\<forall>u \<in> set us. us_groups u \<noteq> []"
    "distinct (map se_token ss)" "distinct (map ak_id ks)" "distinct (map ak_hash ks)"
    using assms(2) by (auto simp: wf_tables_def us_def ss_def ks_def distinct_kept)
  moreover have "db' = db\<lparr>ad_users := us, ad_sessions := ss, ad_keys := ks, ad_groups := gs\<rparr>"
    using 2(2) by (simp add: us_def ss_def ks_def gs_def)
  ultimately show ?thesis using assms(2) by (simp add: wf_tables_def)
qed

lemma wf_update_group:
  assumes "update_group g db = Inr (db', n)" "wf_tables db"
  shows "wf_tables db'"
  using assms(1)
proof (cases rule: update_group_cases)
  case 1
  with assms(2) show ?thesis by simp
next
  case (2 old)
  let ?h = "\<lambda>h. h\<lparr>gr_name := gr_name g, gr_description := gr_description g, gr_permissions := gr_permissions g,
            gr_accounts := gr_accounts g, gr_updated := gr_updated g\<rparr>"
  let ?gs = "map (\<lambda>h. if gr_id h = gr_id g then ?h h else h) (ad_groups db)"
  have wf: "distinct (map gr_id (ad_groups db))" "distinct (map gr_name (ad_groups db))" using assms(2) by (simp_all add: wf_tables_def)
  define gs where "gs = ?gs"
  have "map gr_id gs = map gr_id (ad_groups db)" by (simp add: gs_def)
  moreover have "distinct (map gr_name gs)" unfolding gs_def
    by (rule distinct_replaced [OF wf(2,1), where y = "gr_name g"]) (use 2(2) in auto)
  moreover have "\<forall>g \<in> set gs. gr_creator g \<noteq> [] \<longrightarrow> gr_creator g \<in> us_id ` set (ad_users db)"
    using assms(2) by (auto simp: wf_tables_def gs_def)
  moreover have "db' = db\<lparr>ad_groups := gs\<rparr>" using 2(3) by (simp add: gs_def)
  ultimately show ?thesis using assms(2) by (simp add: wf_tables_def)
qed

lemma wf_step: "table_step db db' \<Longrightarrow> wf_tables db \<Longrightarrow> wf_tables db'"
proof (induction rule: table_step.induct)
  case (counters db db')
  then show ?case by (simp add: same_rows_def wf_tables_def)
next
  case (user_added u db)
  then show ?case by (auto simp: row_error_None wf_tables_def)
next
  case (group_added g db db')
  then show ?case by (auto simp: insert_group_def group_error_def row_None_iff wf_tables_def split: option.splits if_splits)
next
  case (group_deleted i db db' n)
  then show ?case by (auto simp: delete_group_def wf_tables_def distinct_kept split: option.splits)
next
  case (session_added s db db')
  then show ?case by (auto simp: insert_session_def row_None_iff wf_tables_def split: if_splits)
next
  case (key_added k db db')
  then show ?case by (auto simp: insert_key_def row_None_iff wf_tables_def split: if_splits)
next
  case (keys_changed f db)
  then have "map ak_id (map f ks) = map ak_id ks" "map ak_hash (map f ks) = map ak_hash ks" for ks by simp_all
  with keys_changed show ?case by (simp add: wf_tables_def del: map_map)
next
  case (sessions_dropped db p)
  then show ?case by (auto simp: wf_tables_def distinct_kept)
next
  case (keys_dropped db q)
  then show ?case by (auto simp: wf_tables_def distinct_kept)
qed (blast intro: wf_update_user wf_delete_user wf_update_group)+

lemma admin_step: "table_step db db' \<Longrightarrow> wf_tables db \<and> has_admin db \<Longrightarrow> wf_tables db' \<and> has_admin db'"
proof
  assume s: "table_step db db'" and P: "wf_tables db \<and> has_admin db"
  then show "wf_tables db'" using wf_step by blast
  have d: "distinct (map us_id (ad_users db))" using P by (simp add: wf_tables_def)
  from s P d show "has_admin db'"
  proof (induction rule: table_step.induct)
    case (group_added g db db')
    then show ?case by (auto simp: insert_group_def has_admin_def split: option.splits)
  next
    case (group_updated g db db' n)
    then show ?case by (auto simp: update_group_def has_admin_def split: option.splits if_splits)
  next
    case (group_deleted i db db' n)
    then show ?case by (auto simp: delete_group_def has_admin_def split: option.splits)
  next
    case (session_added s db db')
    then show ?case by (auto simp: insert_session_def has_admin_def split: if_splits)
  next
    case (key_added k db db')
    then show ?case by (auto simp: insert_key_def has_admin_def split: if_splits)
  qed (auto simp: same_rows_def has_admin_def intro: update_keeps_admin [unfolded has_admin_def] delete_keeps_admin [unfolded has_admin_def])
qed

interpretation wf: table_invariant wf_tables
  by unfold_locales (rule wf_step)

interpretation admin: table_invariant "\<lambda>db. wf_tables db \<and> has_admin db"
  by unfold_locales (rule admin_step)

end
