(* ===== verification/Auth_Service_Facts.thy ===== *)
theory Auth_Service_Facts
  imports Auth_Table_Facts
begin

text \<open>
  Every operation of the service, whatever it returns and whichever statement fails on the way,
  is a run of table steps. The operations together are the datatype \<open>auth_op\<close>.
\<close>

section \<open>Runs of the world\<close>

definition goes :: "'c aworld \<Rightarrow> 'c aworld \<Rightarrow> bool" where
  "goes w w' = table_run (aw_db w) (aw_db w')"

lemma goes_refl [simp]: "goes w w"
  by (simp add: goes_def)

lemma goes_trans: "goes a b \<Longrightarrow> goes b c \<Longrightarrow> goes a c"
  unfolding goes_def by (rule table_run_trans)

lemma goes_ext [simp]: "goes w (w'\<lparr>aw_ext := c\<rparr>) = goes w w'"
  by (simp add: goes_def)

lemma goes_notify [simp]: "goes w (notifyPasswordChange s i p w') = goes w w'"
  by (simp add: notifyPasswordChange_def)

lemma in_db_facts: "in_db f w = (r, w') \<Longrightarrow> f (aw_db w) = (r, aw_db w') \<and> aw_ext w' = aw_ext w"
  by (auto simp: in_db_def split: prod.splits)

definition moves :: "(adb \<Rightarrow> 'r \<times> adb) \<Rightarrow> bool" where
  "moves f = (\<forall>db r db'. f db = (r, db') \<longrightarrow> table_run db db')"

lemma in_db_goes: "in_db f w = (r, w') \<Longrightarrow> moves f \<Longrightarrow> goes w w'"
  using in_db_facts [of f w r w'] by (auto simp: goes_def moves_def)

lemma draw_goes: "draw f w = (r, w') \<Longrightarrow> goes w w'"
  unfolding draw_def by (erule in_db_goes) (auto intro!: table_run_same simp: same_rows_def moves_def)

lemma lookups_move [simp]:
  "moves (GetUserByID env i)" "moves (GetUserByEmail env i)" "moves (GetUserByResetToken env i)"
  "moves (store_GetGroup env i)" "moves (GetAPIKeyByID env i)" "moves (store_GetAPIKeyByHash env i)"
  "moves (AdminExists env)" "moves (GetSession env i)" "moves (loadUser env i)"
  by (auto simp: moves_def intro!: table_run_same dest: lookup_same list_same loadUser_same)

lemma checks_move [simp]:
  "moves (checkGrantCeiling env actor req old)" "moves (checkAccountGrant env actor as)"
  "moves (checkAccountCeiling env actor asked as)" "moves (validateAPIKeyPermissions env u ps)"
  "moves (authorizeAPIKeyAccess env i k a)" "moves (guardGroupChange env actor i prior new)"
  "moves (guardDeactivation env u b r)" "moves (updateUserEmail s u email)" "moves (checkLastAdminConstraint env)"
  by (auto simp: moves_def intro!: table_run_same dest: check_same ceiling_check_same key_check_same authorize_same guard_same
      email_same last_admin_check_same)

lemma writes_move [simp]:
  "moves (store_CreateUser env u)" "moves (CreateAdminIfNone env u)" "moves (store_UpdateUser env u)" "moves (store_DeleteUser env i)"
  "moves (store_CreateGroup env g)" "moves (store_UpdateGroup env g)" "moves (store_DeleteGroup env i)"
  "moves (CreateSession env se)" "moves (DeleteSession env i)" "moves (DeleteUserSessions env i)" "moves (CleanupExpiredSessions env)"
  "moves (store_CreateAPIKey env k)" "moves (store_UpdateAPIKey env k)" "moves (RecordAPIKeyUsage env i n)" "moves (store_DeleteAPIKey env i)"
  by (auto simp: moves_def dest: store_CreateUser_run CreateAdminIfNone_run user_writes_run group_writes_run session_writes_run
      session_drops_run key_writes_run store_DeleteAPIKey_run)

section \<open>A calculus of runs\<close>

text \<open>
  The result \<open>p\<close> of an operation that began in \<open>w0\<close>. The rules follow the shape of the definitions:
  a case on the result of a step, on the step's value, a conditional, a final pair.
\<close>

definition lands :: "'c aworld \<Rightarrow> 'r \<times> 'c aworld \<Rightarrow> bool" where
  "lands w0 p = goes w0 (snd p)"

named_theorems lands \<open>operations that only run table steps\<close>

lemma lands_result: "lands w (f w) \<Longrightarrow> f w = (r, w') \<Longrightarrow> goes w w'"
  by (simp add: lands_def)

lemma lands_pair [lands]: "goes w0 w \<Longrightarrow> lands w0 (r, w)"
  by (simp add: lands_def)

lemma lands_step:
  assumes "lands w0 p" "\<And>r w. p = (r, w) \<Longrightarrow> goes w0 w \<Longrightarrow> lands w0 (g r w)"
  shows "lands w0 (case p of (r, w) \<Rightarrow> g r w)"
  using assms by (cases p) (simp add: lands_def)

lemma lands_split [lands]: "(\<And>a b. lands w0 (g a b)) \<Longrightarrow> lands w0 (case p of (a, b) \<Rightarrow> g a b)"
  by (cases p) simp

lemma lands_sum [lands]:
  "(\<And>a. lands w0 (f a)) \<Longrightarrow> (\<And>b. lands w0 (g b)) \<Longrightarrow> lands w0 (case x of Inl a \<Rightarrow> f a | Inr b \<Rightarrow> g b)"
  by (cases x) simp_all

lemma lands_option [lands]:
  "lands w0 a \<Longrightarrow> (\<And>b. lands w0 (g b)) \<Longrightarrow> lands w0 (case x of None \<Rightarrow> a | Some b \<Rightarrow> g b)"
  by (cases x) simp_all

lemma lands_bool [lands]: "lands w0 a \<Longrightarrow> lands w0 b \<Longrightarrow> lands w0 (case x of True \<Rightarrow> a | False \<Rightarrow> b)"
  by (cases x) simp_all

lemma lands_if [lands]: "lands w0 a \<Longrightarrow> lands w0 b \<Longrightarrow> lands w0 (if x then a else b)"
  by simp

lemma goes_if [lands]: "goes w0 a \<Longrightarrow> goes w0 b \<Longrightarrow> goes w0 (if x then a else b)"
  by simp

lemma lands_db [lands]: "goes w0 w \<Longrightarrow> moves f \<Longrightarrow> lands w0 (in_db f w)"
  by (cases "in_db f w") (auto simp: lands_def dest: in_db_goes goes_trans)

lemma lands_draw [lands]: "goes w0 w \<Longrightarrow> lands w0 (draw f w)"
  by (cases "draw f w") (auto simp: lands_def dest: draw_goes goes_trans)

lemma lands_snd [lands]: "lands w0 p \<Longrightarrow> goes w0 (snd p)"
  by (simp add: lands_def)

lemmas [lands] = lands_step

text \<open>The last rule tried is the step, so that a case on values is not mistaken for one.\<close>

section \<open>The operations\<close>

lemma createSession_lands [lands]: "goes w0 w \<Longrightarrow> lands w0 (createSession s u w)"
  by (simp only: createSession_def Let_def) ((intro lands | assumption | simp)+)

lemma ValidateSession_lands [lands]: "goes w0 w \<Longrightarrow> lands w0 (ValidateSession s t w)"
  by (simp only: ValidateSession_def Let_def) ((intro lands | assumption | simp)+)

lemma ValidateCSRFToken_lands [lands]: "goes w0 w \<Longrightarrow> lands w0 (ValidateCSRFToken s t c w)"
  by (simp only: ValidateCSRFToken_def Let_def) ((intro lands | assumption | simp)+)

lemma Logout_lands [lands]: "goes w0 w \<Longrightarrow> lands w0 (Logout s t w)"
  by (simp only: Logout_def Let_def) ((intro lands | assumption | simp)+)

lemma getUserAndValidateStatus_lands [lands]: "goes w0 w \<Longrightarrow> lands w0 (getUserAndValidateStatus s e w)"
  by (simp only: getUserAndValidateStatus_def Let_def) ((intro lands | assumption | simp)+)

lemma verifyPasswordAndMFA_lands [lands]: "goes w0 w \<Longrightarrow> lands w0 (verifyPasswordAndMFA s u p c w)"
  by (simp only: verifyPasswordAndMFA_def Let_def recordFailedLogin_def) ((intro lands | assumption | simp)+)

lemma completeSuccessfulLogin_lands [lands]: "goes w0 w \<Longrightarrow> lands w0 (completeSuccessfulLogin s u w)"
  by (simp only: completeSuccessfulLogin_def Let_def) ((intro lands | assumption | simp)+)

lemma Login_lands [lands]: "goes w0 w \<Longrightarrow> lands w0 (Login s e p c w)"
  by (simp only: Login_def Let_def) ((intro lands | assumption | simp)+)

lemma generateRecoveryCodes_lands [lands]: "goes w0 w \<Longrightarrow> lands w0 (generateRecoveryCodes s n w)"
proof (induction n arbitrary: w)
  case (Suc n)
  show ?case by (simp only: generateRecoveryCodes.simps) ((intro lands Suc | assumption | simp)+)
qed (simp add: lands_def)

lemma hash_all_lands [lands]: "goes w0 w \<Longrightarrow> lands w0 (hash_all s cs w)"
proof (induction cs arbitrary: w)
  case (Cons c cs)
  show ?case by (simp only: hash_all.simps hashRecoveryCode_def) ((intro lands Cons | assumption | simp)+)
qed (simp add: lands_def)

lemma generateAndHashRecoveryCodes_lands [lands]: "goes w0 w \<Longrightarrow> lands w0 (generateAndHashRecoveryCodes s w)"
  by (simp only: generateAndHashRecoveryCodes_def Let_def) ((intro lands | assumption | simp)+)

lemma MFASetup_lands [lands]: "goes w0 w \<Longrightarrow> lands w0 (MFASetup s i p w)"
  by (simp only: MFASetup_def Let_def) ((intro lands | assumption | simp)+)

lemma validatePendingMFAEnrollment_lands [lands]: "goes w0 w \<Longrightarrow> lands w0 (validatePendingMFAEnrollment s u c w)"
  by (simp only: validatePendingMFAEnrollment_def Let_def) ((intro lands | assumption | simp)+)

lemma MFAEnable_lands [lands]: "goes w0 w \<Longrightarrow> lands w0 (MFAEnable s i c w)"
  by (simp only: MFAEnable_def Let_def) ((intro lands | assumption | simp)+)

lemma disableMFAAlreadyOff_lands [lands]: "goes w0 w \<Longrightarrow> lands w0 (disableMFAAlreadyOff s u w)"
  by (simp only: disableMFAAlreadyOff_def Let_def) ((intro lands | assumption | simp)+)

lemma MFADisable_lands [lands]: "goes w0 w \<Longrightarrow> lands w0 (MFADisable s i p c w)"
  by (simp only: MFADisable_def Let_def) ((intro lands | assumption | simp)+)

lemma MFARegenerateRecoveryCodes_lands [lands]: "goes w0 w \<Longrightarrow> lands w0 (MFARegenerateRecoveryCodes s i c w)"
  by (simp only: MFARegenerateRecoveryCodes_def Let_def) ((intro lands | assumption | simp)+)

lemma hash_password_lands [lands]: "goes w0 w \<Longrightarrow> lands w0 (hash_password s p w)"
  by (simp only: hash_password_def Let_def) ((intro lands | assumption | simp)+)

lemma processPasswordReset_lands [lands]: "goes w0 w \<Longrightarrow> lands w0 (processPasswordReset s u p w)"
  by (simp only: processPasswordReset_def Let_def) ((intro lands | assumption | simp)+)

lemma ChangePassword_lands [lands]: "goes w0 w \<Longrightarrow> lands w0 (ChangePassword s i c p w)"
  by (simp only: ChangePassword_def Let_def) ((intro lands | assumption | simp)+)

lemma RequestPasswordReset_lands [lands]: "goes w0 w \<Longrightarrow> lands w0 (RequestPasswordReset s e w)"
  by (simp only: RequestPasswordReset_def Let_def) ((intro lands | assumption | simp)+)

lemma validateResetToken_lands [lands]: "goes w0 w \<Longrightarrow> lands w0 (validateResetToken s t w)"
  by (simp only: validateResetToken_def Let_def) ((intro lands | assumption | simp)+)

lemma ConfirmPasswordReset_lands [lands]: "goes w0 w \<Longrightarrow> lands w0 (ConfirmPasswordReset s t p w)"
  by (simp only: ConfirmPasswordReset_def Let_def) ((intro lands | assumption | simp)+)

lemma SetupAdmin_lands [lands]: "goes w0 w \<Longrightarrow> lands w0 (SetupAdmin s e p w)"
  by (simp only: SetupAdmin_def Let_def) ((intro lands | assumption | simp)+)

lemma validateCreateUserRequest_lands [lands]: "goes w0 w \<Longrightarrow> lands w0 (validateCreateUserRequest s e p gs w)"
  by (simp only: validateCreateUserRequest_def Let_def) ((intro lands | assumption | simp)+)

lemma sendInviteEmail_lands [lands]: "goes w0 w \<Longrightarrow> lands w0 (sendInviteEmail s u t w)"
  by (simp only: sendInviteEmail_def Let_def) ((intro lands | assumption | simp)+)

lemma password_source_lands [lands]: "goes w0 w \<Longrightarrow> lands w0 (password_source s p w)"
  by (simp only: password_source_def Let_def) ((intro lands | assumption | simp)+)

lemma CreateUser_lands [lands]: "goes w0 w \<Longrightarrow> lands w0 (CreateUser s e p gs w)"
  by (simp only: CreateUser_def Let_def) ((intro lands | assumption | simp)+)

lemma UpdateUser_lands [lands]: "goes w0 w \<Longrightarrow> lands w0 (UpdateUser s a i req w)"
  by (simp only: UpdateUser_def Let_def) ((intro lands | assumption | simp)+)

lemma DeleteUser_lands [lands]: "goes w0 w \<Longrightarrow> lands w0 (DeleteUser s i w)"
  by (simp only: DeleteUser_def Let_def) ((intro lands | assumption | simp)+)

lemma updateUserPassword_lands [lands]: "goes w0 w \<Longrightarrow> lands w0 (updateUserPassword s u p w)"
  by (simp only: updateUserPassword_def Let_def) ((intro lands | assumption | simp)+)

lemma UpdateUserProfile_lands [lands]: "goes w0 w \<Longrightarrow> lands w0 (UpdateUserProfile s i e c p w)"
  by (simp only: UpdateUserProfile_def Let_def) ((intro lands | assumption | simp)+)

lemma CreateGroup_lands [lands]: "goes w0 w \<Longrightarrow> lands w0 (CreateGroup s g c w)"
  by (simp only: CreateGroup_def Let_def) ((intro lands | assumption | simp)+)

lemma CreateGroupAPI_lands [lands]: "goes w0 w \<Longrightarrow> lands w0 (CreateGroupAPI s a req w)"
  by (simp only: CreateGroupAPI_def Let_def) ((intro lands | assumption | simp)+)

lemma UpdateGroupAPI_lands [lands]: "goes w0 w \<Longrightarrow> lands w0 (UpdateGroupAPI s a i req w)"
  by (simp only: UpdateGroupAPI_def Let_def) ((intro lands | assumption | simp)+)

lemma DeleteGroup_lands [lands]: "goes w0 w \<Longrightarrow> lands w0 (DeleteGroup s i w)"
  by (simp only: DeleteGroup_def Let_def) ((intro lands | assumption | simp)+)

lemma CreateAPIKey_lands [lands]: "goes w0 w \<Longrightarrow> lands w0 (CreateAPIKey s i n ps x w)"
  by (simp only: CreateAPIKey_def Let_def) ((intro lands | assumption | simp)+)

lemma RevokeAPIKey_lands [lands]: "goes w0 w \<Longrightarrow> lands w0 (RevokeAPIKey s i k w)"
  by (simp only: RevokeAPIKey_def Let_def) ((intro lands | assumption | simp)+)

lemma DeleteAPIKey_lands [lands]: "goes w0 w \<Longrightarrow> lands w0 (DeleteAPIKey s i k w)"
  by (simp only: DeleteAPIKey_def Let_def) ((intro lands | assumption | simp)+)

section \<open>Sequences of operations\<close>

text \<open>Every operation of the service that may write, as a request.\<close>

datatype auth_op =
    OLogin string string string
  | OLogout string
  | OValidate string
  | OCsrf string string
  | OCleanup
  | OMFASetup string string
  | OMFAEnable string string
  | OMFADisable string string string
  | OMFARegenerate string string
  | OChangePassword string string string
  | ORequestReset string
  | OConfirmReset string string
  | OSetupAdmin string string
  | OCreateUser string string "string list"
  | OUpdateUser string string user_request
  | ODeleteUser string
  | OProfile string string string string
  | OCreateGroup string group_request
  | OUpdateGroup string string group_request
  | ODeleteGroup string
  | OCreateKey string string "permission list" "gotime option"
  | ORevokeKey string string
  | ODeleteKey string string
  | OBookUsage string int

fun run_auth_op :: "'c auth_service \<Rightarrow> auth_op \<Rightarrow> 'c aworld \<Rightarrow> 'c aworld" where
  "run_auth_op s (OLogin e p c) w = snd (Login s e p c w)"
| "run_auth_op s (OLogout t) w = snd (Logout s t w)"
| "run_auth_op s (OValidate t) w = snd (ValidateSession s t w)"
| "run_auth_op s (OCsrf t c) w = snd (ValidateCSRFToken s t c w)"
| "run_auth_op s OCleanup w = snd (in_db (CleanupExpiredSessions (sv_env s)) w)"
| "run_auth_op s (OMFASetup i p) w = snd (MFASetup s i p w)"
| "run_auth_op s (OMFAEnable i c) w = snd (MFAEnable s i c w)"
| "run_auth_op s (OMFADisable i p c) w = snd (MFADisable s i p c w)"
| "run_auth_op s (OMFARegenerate i c) w = snd (MFARegenerateRecoveryCodes s i c w)"
| "run_auth_op s (OChangePassword i c p) w = snd (ChangePassword s i c p w)"
| "run_auth_op s (ORequestReset e) w = snd (RequestPasswordReset s e w)"
| "run_auth_op s (OConfirmReset t p) w = snd (ConfirmPasswordReset s t p w)"
| "run_auth_op s (OSetupAdmin e p) w = snd (SetupAdmin s e p w)"
| "run_auth_op s (OCreateUser e p gs) w = snd (CreateUser s e p gs w)"
| "run_auth_op s (OUpdateUser a i req) w = snd (UpdateUser s a i req w)"
| "run_auth_op s (ODeleteUser i) w = snd (DeleteUser s i w)"
| "run_auth_op s (OProfile i e c p) w = snd (UpdateUserProfile s i e c p w)"
| "run_auth_op s (OCreateGroup a req) w = snd (CreateGroupAPI s a req w)"
| "run_auth_op s (OUpdateGroup a i req) w = snd (UpdateGroupAPI s a i req w)"
| "run_auth_op s (ODeleteGroup i) w = snd (DeleteGroup s i w)"
| "run_auth_op s (OCreateKey i n ps x) w = snd (CreateAPIKey s i n ps x w)"
| "run_auth_op s (ORevokeKey i k) w = snd (RevokeAPIKey s i k w)"
| "run_auth_op s (ODeleteKey i k) w = snd (DeleteAPIKey s i k w)"
| "run_auth_op s (OBookUsage k n) w = snd (in_db (RecordAPIKeyUsage (sv_env s) k n) w)"

definition run_auth_ops :: "'c auth_service \<Rightarrow> auth_op list \<Rightarrow> 'c aworld \<Rightarrow> 'c aworld" where
  "run_auth_ops s ops w = fold (run_auth_op s) ops w"

lemma run_auth_ops_simps [simp]:
  "run_auth_ops s [] w = w" "run_auth_ops s (q # ops) w = run_auth_ops s ops (run_auth_op s q w)"
  by (simp_all add: run_auth_ops_def)

lemma run_auth_op_goes: "goes w0 w \<Longrightarrow> goes w0 (run_auth_op s q w)"
  by (cases q) (simp_all only: run_auth_op.simps, (intro lands | assumption | simp)+)

lemma run_auth_ops_goes: "goes w0 w \<Longrightarrow> goes w0 (run_auth_ops s ops w)"
  by (induction ops arbitrary: w) (simp_all add: run_auth_op_goes)

text \<open>An invariant of the tables holds after any sequence of operations.\<close>

context table_invariant
begin

lemma ops: "P (aw_db w) \<Longrightarrow> P (aw_db (run_auth_ops s qs w))"
  using run [OF run_auth_ops_goes [OF goes_refl, unfolded goes_def]] .

end

end
