(* ===== verification/Auth_Grant_Facts.thy ===== *)
theory Auth_Grant_Facts
  imports Auth_Service_Facts
begin

text \<open>
  What the tables say a user may do, and the lookups of the service read against it: a fault may
  hide a permission of a user, none of them adds one. The group writes and the personal keys
  are then bounded by what their author holds.
\<close>

section \<open>Permissions of the tables\<close>

definition group_permissions :: "adb \<Rightarrow> string \<Rightarrow> permission list" where
  "group_permissions db i = (case group_row i db of None \<Rightarrow> [] | Some g \<Rightarrow> gr_permissions g)"

definition user_permissions :: "adb \<Rightarrow> string \<Rightarrow> permission list" where
  "user_permissions db i = (case user_row i db of None \<Rightarrow> [] | Some u \<Rightarrow> concat (map (group_permissions db) (us_groups u)))"

definition acting_permissions :: "adb \<Rightarrow> string \<Rightarrow> permission list" where
  "acting_permissions db actor =
    (if actor = [] then [] else if actor = AdminAPIKeyActorID then [perm ActionAdmin ResourceAll] else user_permissions db actor)"

lemma same_permissions:
  assumes "same_rows db db'"
  shows "group_permissions db' i = group_permissions db i" "user_permissions db' i = user_permissions db i"
    "acting_permissions db' i = acting_permissions db i"
proof -
  have g: "group_permissions db' = group_permissions db"
    using same_rows_row(2) [OF assms] by (auto simp: group_permissions_def fun_eq_iff)
  then show "group_permissions db' i = group_permissions db i" by simp
  show "user_permissions db' i = user_permissions db i"
    using same_rows_row(1) [OF assms] by (simp add: user_permissions_def g cong: option.case_cong)
  then show "acting_permissions db' i = acting_permissions db i" by (simp add: acting_permissions_def)
qed

lemma permissionsForGroups_sound:
  "permissionsForGroups env is db = (Inr ps, db') \<Longrightarrow> set ps \<subseteq> set (concat (map (group_permissions db) is))"
proof (induction env "is" db arbitrary: ps db' rule: permissionsForGroups.induct)
  case (2 env i "is" db)
  obtain x db1 where x: "store_GetGroup env i db = (x, db1)" by fastforce
  have same: "group_permissions db1 = group_permissions db"
    using same_permissions(1) [OF lookup_same(4) [OF x]] by (simp add: fun_eq_iff)
  show ?case
  proof (cases x)
    case (Inl e)
    then have "is_no_rows e" using "2.prems" x by (auto split: if_splits)
    with "2.IH"(1) [OF x [symmetric] Inl] "2.prems" x Inl same show ?thesis by fastforce
  next
    case (Inr g)
    obtain y db2 where y: "permissionsForGroups env is db1 = (y, db2)" by fastforce
    with "2.prems" x Inr obtain qs where q: "y = Inr qs" "ps = gr_permissions g @ qs" by (auto split: sum.splits)
    from "2.IH"(2) [OF x [symmetric] Inr y [unfolded q]] same
    have "set qs \<subseteq> set (concat (map (group_permissions db) is))" by simp
    moreover have "group_permissions db i = gr_permissions g" using found_group x Inr by (simp add: group_permissions_def)
    ultimately show ?thesis by (auto simp: q)
  qed
qed simp

lemma GetUserPermissions_sound:
  assumes "GetUserPermissions env i db = (Inr ps, db')"
  shows "set ps \<subseteq> set (user_permissions db i)"
proof -
  obtain r db1 where r: "loadUser env i db = (r, db1)" by fastforce
  with assms obtain u where u: "r = Inr u" "permissionsForGroups env (us_groups u) db1 = (Inr ps, db')"
    by (auto simp: GetUserPermissions_def split: sum.splits)
  have "group_permissions db1 = group_permissions db"
    using same_permissions(1) [OF loadUser_same [OF r]] by (simp add: fun_eq_iff)
  with permissionsForGroups_sound [OF u(2)] loaded_user [OF r [unfolded u]] show ?thesis by (simp add: user_permissions_def)
qed

lemma with_group_permissions [simp]: "ac_permissions (with_group ctx g) = ac_permissions ctx @ gr_permissions g"
  by (simp add: with_group_def)

lemma collect_sound:
  "collectGroupsAndAccounts env ctx is db = (Inr ctx', db') \<Longrightarrow>
    set (ac_permissions ctx') \<subseteq> set (ac_permissions ctx) \<union> set (concat (map (group_permissions db) is))"
proof (induction env ctx "is" db rule: collectGroupsAndAccounts.induct)
  case (2 env ctx i "is" db)
  obtain x db1 where x: "store_GetGroup env i db = (x, db1)" by fastforce
  have same: "group_permissions db1 = group_permissions db"
    using same_permissions(1) [OF lookup_same(4) [OF x]] by (simp add: fun_eq_iff)
  show ?case
  proof (cases x)
    case (Inl e)
    then have "is_no_rows e" using "2.prems" x by (auto split: if_splits)
    with "2.IH"(1) [OF x [symmetric] Inl] "2.prems" x Inl same show ?thesis by fastforce
  next
    case (Inr g)
    have "group_permissions db i = gr_permissions g" using found_group x Inr by (simp add: group_permissions_def)
    with "2.IH"(2) [OF x [symmetric] Inr] "2.prems" x Inr same show ?thesis by fastforce
  qed
qed simp

lemma BuildAuthContext_sound:
  assumes "BuildAuthContext env i db = (Inr ctx, db')"
  shows "set (ac_permissions ctx) \<subseteq> set (user_permissions db i)"
proof -
  obtain r db1 where r: "loadUser env i db = (r, db1)" by fastforce
  with assms obtain u where u: "r = Inr u"
    "collectGroupsAndAccounts env (no_context\<lparr>ac_user := Some u\<rparr>) (us_groups u) db1 = (Inr ctx, db')"
    by (auto simp: BuildAuthContext_def split: sum.splits)
  have "group_permissions db1 = group_permissions db"
    using same_permissions(1) [OF loadUser_same [OF r]] by (simp add: fun_eq_iff)
  with collect_sound [OF u(2)] loaded_user [OF r [unfolded u]] show ?thesis by (simp add: user_permissions_def no_context_def)
qed

section \<open>The ceiling\<close>

lemma ceiling_sound:
  assumes "grantCeilingPermissions env actor db = (Inr ps, db')"
  shows "set ps \<subseteq> set (acting_permissions db actor)"
  using assms GetUserPermissions_sound
  by (fastforce simp: grantCeilingPermissions_def acting_permissions_def split: if_splits prod.splits sum.splits)

text \<open>What a group write may put into a group.\<close>

definition grantable :: "adb \<Rightarrow> string \<Rightarrow> permission list \<Rightarrow> permission list \<Rightarrow> bool" where
  "grantable db actor existing requested =
    (\<forall>a r c. permissionsAllow requested a r c \<longrightarrow>
       permissionsAllow (acting_permissions db actor) a r c \<or> permissionsAllow existing a r c \<or>
       carved_out a r \<and> (\<exists>p \<in> set requested. wildcard_money p))"

lemma checkGrantCeiling_sound:
  assumes "checkGrantCeiling env actor requested existing db = (None, db')"
  shows "grantable db actor existing requested"
  unfolding grantable_def
proof (intro allI impI)
  fix a r c
  assume "permissionsAllow requested a r c"
  then obtain p where p: "p \<in> set requested" "grants p a r c" by (auto simp: permissionsAllow_iff)
  then have "requested \<noteq> []" by auto
  with assms obtain held db1 where h: "grantCeilingPermissions env actor db = (Inr held, db1)"
    and each: "check_each 0 (\<lambda>_. grant_refusal held existing) requested = None"
    by (auto simp: checkGrantCeiling_def split: option.splits sum.splits prod.splits)
  from check_each_all [OF each p(1)] have "grant_refusal held existing p = None" by simp
  from refusal_sound [OF this p(2)] allow_mono [OF ceiling_sound [OF h], of a r c] p(1)
  show "permissionsAllow (acting_permissions db actor) a r c \<or> permissionsAllow existing a r c \<or>
      carved_out a r \<and> (\<exists>p \<in> set requested. wildcard_money p)"
    by blast
qed

section \<open>The group writes\<close>

lemma in_db_same: "in_db f w = (r, w') \<Longrightarrow> (\<And>r db. f (aw_db w) = (r, db) \<Longrightarrow> same_rows (aw_db w) db) \<Longrightarrow> same_rows (aw_db w) (aw_db w')"
  by (drule in_db_facts) simp

lemma draw_same: "draw f w = (r, w') \<Longrightarrow> same_rows (aw_db w) (aw_db w')"
  unfolding draw_def by (erule in_db_same) (auto simp: same_rows_def)

lemma astmt_cases:
  assumes "astmt env f db = (r, db')"
  obtains e where "r = Inl e" "same_rows db db'"
  | x where "r = Inr x" "f (db\<lparr>ad_statements := Suc (ad_statements db)\<rparr>) = Inr (db', x)" "av_fault env (ad_statements db) = None"
  using assms by (auto simp: astmt_def Let_def same_rows_def split: option.splits sum.splits prod.splits)

lemma store_CreateGroup_groups:
  assumes "store_CreateGroup env g db = (r, db')" "h \<in> set (ad_groups db')"
  shows "h \<in> set (ad_groups db) \<or> gr_permissions h = gr_permissions g"
proof -
  obtain g1 db1 where g1: "(if gr_id g = [] then (case next_uuid env db of (i, db) \<Rightarrow> (g\<lparr>gr_id := i\<rparr>, db)) else (g, db)) = (g1, db1)"
    by fastforce
  then have p: "gr_permissions g1 = gr_permissions g" "ad_groups db1 = ad_groups db"
    by (auto simp: next_uuid_def split: if_splits)
  show ?thesis
  proof (cases "marshal_permissions (gr_permissions g)")
    case None
    let ?g = "g1\<lparr>gr_created := aclock env db1, gr_updated := aclock env db1\<rparr>"
    obtain x db2 where x: "astmt env (insert_group ?g) db1 = (x, db2)" by fastforce
    with assms(1) g1 p None have "db' = db2" by (auto simp: store_CreateGroup_def Let_def split: sum.splits)
    with x assms(2) p show ?thesis
      by (auto elim!: astmt_cases simp: insert_group_def same_rows_def split: option.splits)
  next
    case (Some e)
    with assms g1 p show ?thesis by (auto simp: store_CreateGroup_def Let_def)
  qed
qed

lemma store_UpdateGroup_groups:
  assumes "store_UpdateGroup env g db = (r, db')" "h \<in> set (ad_groups db')"
  shows "h \<in> set (ad_groups db) \<or>
    (\<exists>h0 \<in> set (ad_groups db). gr_id h0 = gr_id g \<and> gr_id h = gr_id h0 \<and> gr_permissions h = gr_permissions g)"
proof -
  let ?g = "g\<lparr>gr_updated := aclock env db\<rparr>"
  consider "db' = db" | x where "astmt env (update_group ?g) db = (x, db')"
    using assms(1) by (auto simp: store_UpdateGroup_def split: option.splits prod.splits sum.splits if_splits)
  then show ?thesis
  proof cases
    case 2
    from 2(1) show ?thesis
    proof (cases rule: astmt_cases)
      case 1
      with assms(2) show ?thesis by (simp add: same_rows_def)
    next
      case (2 n)
      from 2(2) show ?thesis
      proof (cases rule: update_group_cases)
        case 1
        with assms(2) show ?thesis by simp
      next
        case (2 old)
        with assms(2) show ?thesis by auto
      qed
    qed
  qed (use assms(2) in simp)
qed

lemma CreateGroupAPI_groups:
  assumes "CreateGroupAPI s actor req w = (r, w')" "h \<in> set (ad_groups (aw_db w'))"
  shows "h \<in> set (ad_groups (aw_db w)) \<or> grantable (aw_db w) actor [] (gr_permissions h)"
proof -
  let ?ps = "apiPermissionsToPermissions (gq_permissions req)"
  obtain a w1 where a: "in_db (checkGrantCeiling (sv_env s) actor ?ps []) w = (a, w1)" by fastforce
  obtain b w2 where b: "in_db (checkAccountGrant (sv_env s) actor (list_of (gq_accounts req))) w1 = (b, w2)" by fastforce
  obtain i w3 where i: "draw (av_uuid (sv_env s)) w2 = (i, w3)" by fastforce
  have s1: "same_rows (aw_db w) (aw_db w1)" using in_db_same [OF a] check_same(1) by blast
  have s2: "same_rows (aw_db w1) (aw_db w2)" using in_db_same [OF b] check_same(2) by blast
  note s3 = same_rows_trans [OF same_rows_trans [OF s1 s2] draw_same [OF i]]
  let ?g = "(new_group req)\<lparr>gr_id := i, gr_created := now_at s w3, gr_updated := now_at s w3, gr_creator := []\<rparr>"
  obtain c w4 where c: "in_db (store_CreateGroup (sv_env s) ?g) w3 = (c, w4)" by fastforce
  show ?thesis
  proof (cases "a = None \<and> b = None")
    case True
    with assms(1) a b i c have "w' = w4"
      by (auto simp: CreateGroupAPI_def CreateGroup_def split: option.splits prod.splits)
    with store_CreateGroup_groups [OF conjunct1 [OF in_db_facts [OF c]], of h] assms(2) s3
    have "h \<in> set (ad_groups (aw_db w)) \<or> gr_permissions h = ?ps" by (auto simp: same_rows_def new_group_def)
    moreover have "grantable (aw_db w) actor [] ?ps"
      using checkGrantCeiling_sound in_db_facts [OF a] True by fastforce
    ultimately show ?thesis by auto
  next
    case False
    with assms(1) a b have "w' = w1 \<or> w' = w2" by (auto simp: CreateGroupAPI_def split: option.splits)
    with assms(2) s1 s2 show ?thesis by (auto simp: same_rows_def)
  qed
qed

lemma apply_permissions:
  "gr_permissions (applyUpdateGroupRequest g req ps) = (if ps \<noteq> [] then ps else gr_permissions g)"
  "gr_id (applyUpdateGroupRequest g req ps) = gr_id g"
  by (auto simp: applyUpdateGroupRequest_def Let_def split: option.split)

lemma grantable_same: "same_rows db db' \<Longrightarrow> grantable db' actor old new = grantable db actor old new"
  by (simp add: grantable_def same_permissions)

lemma UpdateGroupAPI_groups:
  assumes "UpdateGroupAPI s actor i req w = (r, w')" "h \<in> set (ad_groups (aw_db w'))"
  shows "h \<in> set (ad_groups (aw_db w)) \<or>
    (\<exists>g. group_row i (aw_db w) = Some g \<and> gr_id h = gr_id g \<and>
       (gr_permissions h = gr_permissions g \<or> grantable (aw_db w) actor (gr_permissions g) (gr_permissions h)))"
proof -
  obtain x w1 where x: "in_db (store_GetGroup (sv_env s) i) w = (x, w1)" by fastforce
  have s1: "same_rows (aw_db w) (aw_db w1)" using in_db_same [OF x] lookup_same(4) by blast
  show ?thesis
  proof (cases "\<exists>g. x = Inr g \<and> \<not> gr_system g")
    case False
    with assms(1) x have "w' = w1" by (auto simp: UpdateGroupAPI_def split: sum.splits)
    with assms(2) s1 show ?thesis by (simp add: same_rows_def)
  next
    case True
    then obtain g where g: "x = Inr g" "\<not> gr_system g" by blast
    have row: "group_row i (aw_db w) = Some g" using found_group in_db_facts [OF x] g(1) by fastforce
    let ?ps = "apiPermissionsToPermissions (gq_permissions req)"
    obtain a w2 where a: "in_db (checkGrantCeiling (sv_env s) actor ?ps (gr_permissions g)) w1 = (a, w2)" by fastforce
    obtain b w3 where b: "in_db (checkAccountCeiling (sv_env s) actor (gq_accounts req) (gr_accounts g)) w2 = (b, w3)" by fastforce
    let ?g = "(applyUpdateGroupRequest g req ?ps)\<lparr>gr_updated := now_at s w3\<rparr>"
    obtain c w4 where c: "in_db (store_UpdateGroup (sv_env s) ?g) w3 = (c, w4)" by fastforce
    have s2: "same_rows (aw_db w1) (aw_db w2)" using in_db_same [OF a] check_same(1) by blast
    have "same_rows (aw_db w2) (aw_db w3)" using in_db_same [OF b] ceiling_check_same by blast
    with s1 s2 have s3: "same_rows (aw_db w) (aw_db w3)" using same_rows_trans by blast
    show ?thesis
    proof (cases "a = None \<and> b = None")
      case False
      with assms(1) x g a b have "w' = w2 \<or> w' = w3" by (auto simp: UpdateGroupAPI_def Let_def split: option.splits)
      with assms(2) s1 s2 s3 show ?thesis by (auto simp: same_rows_def)
    next
      case True
      with assms(1) x g a b c have "w' = w4" by (auto simp: UpdateGroupAPI_def Let_def split: option.splits)
      with store_UpdateGroup_groups [OF conjunct1 [OF in_db_facts [OF c]], of h] assms(2) s3
      have "h \<in> set (ad_groups (aw_db w)) \<or> gr_id h = gr_id g \<and> gr_permissions h = gr_permissions ?g"
        by (auto simp: same_rows_def apply_permissions)
      moreover have "grantable (aw_db w) actor (gr_permissions g) ?ps"
        using checkGrantCeiling_sound in_db_facts [OF a] True grantable_same [OF s1] by metis
      ultimately show ?thesis using row by (auto simp: apply_permissions)
    qed
  qed
qed

lemma store_DeleteGroup_groups:
  "store_DeleteGroup env i db = (r, db') \<Longrightarrow> h \<in> set (ad_groups db') \<Longrightarrow> h \<in> set (ad_groups db)"
  by (auto simp: store_DeleteGroup_def delete_group_def same_rows_def elim!: astmt_cases
      split: prod.splits sum.splits if_splits option.splits)

lemma DeleteGroup_groups:
  assumes "DeleteGroup s i w = (r, w')" "h \<in> set (ad_groups (aw_db w'))"
  shows "h \<in> set (ad_groups (aw_db w))"
proof -
  obtain x w1 where x: "in_db (store_GetGroup (sv_env s) i) w = (x, w1)" by fastforce
  have "same_rows (aw_db w) (aw_db w1)" using in_db_same [OF x] lookup_same(4) by blast
  moreover have "h \<in> set (ad_groups (aw_db w1))"
    using assms x store_DeleteGroup_groups by (fastforce simp: DeleteGroup_def dest: in_db_facts split: sum.splits if_splits)
  ultimately show ?thesis by (simp add: same_rows_def)
qed

section \<open>Personal keys\<close>

text \<open>A permission whose own pair is allowed gives no more than the list that allows it, the
  wildcard on a money-spending action aside.\<close>

lemma allowed_pair_grants:
  assumes "permissionsAllow held (pm_action p) (pm_resource p) None" "grants p a r None"
  shows "permissionsAllow held a r None \<or> carved_out a r \<and> wildcard_money p"
proof -
  from assms(1) obtain h where h: "h \<in> set held" "grants h (pm_action p) (pm_resource p) None"
    by (auto simp: permissionsAllow_iff)
  show ?thesis
  proof (cases "checkAdminPermission h")
    case True
    show ?thesis
    proof (cases "carved_out a r")
      case False
      with True h(1) show ?thesis by (auto simp: permissionsAllow_iff grants_def)
    next
      case carved: True
      with assms(2) have p: "\<not> checkAdminPermission p" "checkPermissionMatch p a r" by (auto simp: grants_def split: if_splits)
      with True h(2) carved have "pm_resource p = ResourceAll"
        by (auto simp: grants_def checkPermissionMatch_def split: if_splits)
      with p carved carved_action show ?thesis by (auto simp: wildcard_money_def checkPermissionMatch_def split: if_splits)
    qed
  next
    case False
    with h(2) have m: "pm_action h = pm_action p" "pm_resource h = pm_resource p \<or> pm_resource h = ResourceAll"
      by (auto simp: grants_def checkPermissionMatch_def split: if_splits)
    with False have "\<not> checkAdminPermission p \<or> pm_resource h = ResourceAll \<and> pm_action h \<noteq> ActionAdmin"
      by (auto simp: checkAdminPermission_def)
    with False m assms(2) have "grants h a r None"
      by (auto simp: grants_def checkAdminPermission_def checkPermissionMatch_def checkPermissionConstraints_def split: if_splits)
    with h(1) show ?thesis by (auto simp: permissionsAllow_iff)
  qed
qed

lemma effective_sound:
  assumes "permissionsAllow (effective_permissions k ctx) a r None"
  shows "permissionsAllow (ac_permissions ctx) a r None \<or> carved_out a r \<and> (\<exists>p \<in> set (ak_permissions k). wildcard_money p)"
proof (cases "ak_permissions k = []")
  case True
  with assms show ?thesis by (simp add: effective_permissions_def)
next
  case False
  with assms obtain p where p: "p \<in> set (ak_permissions k)" "grants p a r None"
    "permissionsAllow (ac_permissions ctx) (pm_action p) (pm_resource p) None"
    by (auto simp: effective_permissions_def permissionsAllow_iff ctx_HasPermission_allow)
  with allowed_pair_grants show ?thesis by blast
qed

lemma ValidateUserAPIKey_same: "ValidateUserAPIKey s key w = (r, w') \<Longrightarrow> same_rows (aw_db w) (aw_db w')"
  by (auto simp: ValidateUserAPIKey_def in_db_def dest!: lookup_same(6) key_check_same(4)
      split: prod.splits sum.splits option.splits if_splits intro: same_rows_trans)

lemma lookupAPIKeyUser_row: "lookupAPIKeyUser env i db = (Inr u, db') \<Longrightarrow> user_row i db = Some u \<and> us_active u"
  by (auto simp: lookupAPIKeyUser_def dest: found_user split: prod.splits sum.splits if_splits)

lemma store_GetAPIKeyByHash_row:
  "store_GetAPIKeyByHash env h db = (Inr k, db') \<Longrightarrow> k \<in> set (ad_keys db) \<and> ak_hash k = h \<and> ak_active k"
  by (auto simp: store_GetAPIKeyByHash_def map_fst_eq aquery_def astmt_def Let_def find_Some_iff
      split: option.splits)

lemma ValidateUserAPIKey_row:
  assumes "ValidateUserAPIKey s key w = (Inr (k, u), w')"
  shows "k \<in> set (ad_keys (aw_db w)) \<and> ak_hash k = sv_sha64 s key \<and> ak_active k \<and>
    user_row (ak_user k) (aw_db w) = Some u \<and> us_active u"
proof -
  obtain x w1 where x: "in_db (store_GetAPIKeyByHash (sv_env s) (sv_sha64 s key)) w = (x, w1)" by fastforce
  obtain y w2 where y: "in_db (lookupAPIKeyUser (sv_env s) (ak_user k)) w1 = (y, w2)" by fastforce
  have xy: "x = Inr k" "y = Inr u"
    using assms x y by (auto simp: ValidateUserAPIKey_def split: sum.splits if_splits option.splits prod.splits)
  have "same_rows (aw_db w) (aw_db w1)" using in_db_facts [OF x] lookup_same(6) by blast
  with store_GetAPIKeyByHash_row lookupAPIKeyUser_row in_db_facts [OF x [unfolded xy]] in_db_facts [OF y [unfolded xy]]
  show ?thesis using same_rows_row(1) by metis
qed

end
