(* ===== verification/Auth_Sample.thy ===== *)
theory Auth_Sample
  imports Auth_Grant_Facts
begin

text \<open>
  A concrete service and tables with an administrator and a member: the inputs the properties of
  the authentication service are applied to.
\<close>

definition demo_aenv :: adb_env where
  "demo_aenv = \<lparr>av_fault = (\<lambda>_. None), av_uuid = (\<lambda>n. replicate (Suc n) CHR ''u''), av_now = (\<lambda>n. 1000 + int (min n 100))\<rparr>"

definition demo_service :: "(string \<times> string) list auth_service" where
  "demo_service = \<lparr>sv_env = demo_aenv, sv_hash = (\<lambda>n p. Inr (CHR ''#'' # p)), sv_verify = (\<lambda>p h. h = CHR ''#'' # p),
     sv_token = (\<lambda>n. Inr (replicate (Suc n) CHR ''t'')), sv_secret = (\<lambda>n. Inr (replicate (Suc n) CHR ''s'')),
     sv_bytes = (\<lambda>n. Inr (replicate 10 n)), sv_sha = (\<lambda>t. CHR ''$'' # t), sv_sha64 = (\<lambda>t. CHR ''6'' # t),
     sv_mac = (\<lambda>t. CHR ''c'' # t), sv_hmac = (\<lambda>_ _. replicate 20 0), sv_base32 = (\<lambda>_. Inr []), sv_address = Some,
     sv_dashboard = ''https://cudly'', sv_duration = hour_ns, sv_reset_mail = (\<lambda>a u c. (None, (a, u) # c)),
     sv_invite_mail = (\<lambda>a u c. (None, (a, u) # c)), sv_changed = (\<lambda>_ _ c. c)\<rparr>"

definition demo_user :: "string \<Rightarrow> string \<Rightarrow> string list \<Rightarrow> bool \<Rightarrow> user" where
  "demo_user i email gs active = fresh_user i email (''#secret'') gs active 0"

definition demo_group :: "string \<Rightarrow> permission list \<Rightarrow> bool \<Rightarrow> group" where
  "demo_group i ps sys = \<lparr>gr_id = i, gr_name = i, gr_description = [], gr_permissions = ps, gr_accounts = [], gr_system = sys,
     gr_creator = [], gr_created = 0, gr_updated = 0\<rparr>"

definition demo_tables :: adb where
  "demo_tables = \<lparr>ad_users = [demo_user ''alice'' ''alice@x'' [DefaultAdminGroupID] True, demo_user ''bob'' ''bob@x'' [''users''] True],
     ad_groups = [demo_group DefaultAdminGroupID DefaultAdminPermissions True, demo_group ''users'' DefaultUserPermissions False],
     ad_sessions = [], ad_keys = [], ad_statements = 0, ad_generated = 0\<rparr>"

definition demo_aworld :: "(string \<times> string) list aworld" where
  "demo_aworld = \<lparr>aw_db = demo_tables, aw_ext = []\<rparr>"

lemma demo_tables_wf: "wf_tables demo_tables \<and> has_admin demo_tables"
  by (simp add: wf_tables_def has_admin_def demo_tables_def demo_user_def demo_group_def fresh_user_def active_admin_def
      containsGroup_def DefaultAdminGroupID_def)

text \<open>A request for a group with the given permissions.\<close>

definition wants :: "string \<Rightarrow> permission list \<Rightarrow> group_request" where
  "wants name ps = \<lparr>gq_name = name, gq_description = [], gq_permissions = map permissionToAPIPermission ps, gq_accounts = None\<rparr>"

definition joins :: "string list \<Rightarrow> user_request" where
  "joins gs = \<lparr>uq_email = None, uq_active = None, uq_groups = Some gs\<rparr>"

text \<open>The member, active or deactivated, with the link of a reset or none.\<close>

definition demo_bob :: "bool \<Rightarrow> gotime option \<Rightarrow> user" where
  "demo_bob active t = (demo_user ''bob'' ''bob@x'' [''users''] active)\<lparr>us_reset_expires := t\<rparr>"

definition demo_with :: "user \<Rightarrow> (string \<times> string) list aworld" where
  "demo_with u = demo_aworld\<lparr>aw_db := demo_tables\<lparr>ad_users := [demo_user ''alice'' ''alice@x'' [DefaultAdminGroupID] True, u]\<rparr>\<rparr>"

end
