(* ===== verification/Auth_Grant_Props.thy ===== *)
theory Auth_Grant_Props
  imports Auth_Sample
begin

text \<open>
  The properties of granting: a group write hands out at most what its author holds, a personal
  key acts within its owner, and where the separation of duties has a hole.
\<close>

text \<open>C30: After any request of an actor to create, update or delete a group, whatever a group's
  permissions allow was allowed by the same group before or is held by the actor (an API-key
  administrator holds \<open>admin:*\<close>, an unidentified one nothing). The only exception is a
  money-spending pair let in by a permission on every resource.\<close>

theorem group_write_within_ceiling:
  assumes "q \<in> {OCreateGroup actor req, OUpdateGroup actor i req, ODeleteGroup d}"
    and "h \<in> set (ad_groups (aw_db (run_auth_op s q w)))" "permissionsAllow (gr_permissions h) a r c"
  shows "(\<exists>g \<in> set (ad_groups (aw_db w)). gr_id g = gr_id h \<and> permissionsAllow (gr_permissions g) a r c) \<or>
    permissionsAllow (acting_permissions (aw_db w) actor) a r c \<or>
    carved_out a r \<and> (\<exists>p \<in> set (gr_permissions h). wildcard_money p)"
proof -
  from assms(1) consider "q = OCreateGroup actor req" | "q = OUpdateGroup actor i req" | "q = ODeleteGroup d" by blast
  then show ?thesis
  proof cases
    case 1
    obtain x w' where x: "CreateGroupAPI s actor req w = (x, w')" by fastforce
    with assms(2) 1 CreateGroupAPI_groups [OF x, of h] assms(3) show ?thesis by (fastforce simp: grantable_def)
  next
    case 2
    obtain x w' where x: "UpdateGroupAPI s actor i req w = (x, w')" by fastforce
    with assms(2) 2 UpdateGroupAPI_groups [OF x, of h] assms(3) row_Some(2) show ?thesis
      by (fastforce simp: grantable_def)
  next
    case 3
    obtain x w' where x: "DeleteGroup s d w = (x, w')" by fastforce
    with assms(2) 3 DeleteGroup_groups [OF x, of h] assms(3) show ?thesis by fastforce
  qed
qed

lemma group_write_within_ceiling_witness:
  "permissionsAllow [perm ActionView ResourcePlans] ActionView ResourcePlans None \<and>
   ((\<exists>g \<in> set (ad_groups demo_tables). gr_id g = ''u'' \<and> permissionsAllow (gr_permissions g) ActionView ResourcePlans None) \<or>
    permissionsAllow (acting_permissions demo_tables ''alice'') ActionView ResourcePlans None \<or>
    carved_out ActionView ResourcePlans \<and> (\<exists>p \<in> {perm ActionView ResourcePlans}. wildcard_money p))"
proof -
  define q where "q = OCreateGroup ''alice'' (wants ''viewers'' [perm ActionView ResourcePlans])"
  define h where "h = last (ad_groups (aw_db (run_auth_op demo_service q demo_aworld)))"
  have run: "ad_groups (aw_db (run_auth_op demo_service q demo_aworld)) \<noteq> []"
    "gr_permissions h = [perm ActionView ResourcePlans]" "gr_id h = ''u''"
    unfolding q_def h_def by code_simp+
  have allow: "permissionsAllow [perm ActionView ResourcePlans] ActionView ResourcePlans None" by code_simp
  have "h \<in> set (ad_groups (aw_db (run_auth_op demo_service q demo_aworld)))" using run(1) by (simp add: h_def)
  from group_write_within_ceiling [OF _ this, of "''alice''" "wants ''viewers'' [perm ActionView ResourcePlans]" "[]" "[]"]
  show ?thesis using allow run by (simp add: q_def demo_aworld_def)
qed

text \<open>C32: The separation of duties that keeps the money-spending pairs out of the reach of an
  administrator compares pairs exactly. An administrator who may not grant the pair itself may
  grant its action on every resource, may join a group that has it, and then is allowed the
  money-spending pair.\<close>

theorem wildcard_defeats_separation:
  assumes "carved_out a r" "list_ex checkAdminPermission held" "\<not> permissionsAllow held a r None"
    and "gr_permissions g = [perm a ResourceAll]"
  shows "grant_refusal held [] (perm a r) \<noteq> None \<and> grant_refusal held [] (perm a ResourceAll) = None \<and>
    firstUnheldCarvedOut g held = None \<and> permissionsAllow (held @ gr_permissions g) a r c"
proof -
  have "grant_refusal held [] (perm a r) \<noteq> None" using assms(1) by (simp add: grant_refusal_def perm_def)
  moreover have "grantCeilingAllows held (perm a ResourceAll)"
    using assms(2) not_carved_all by (auto simp: grantCeilingAllows_iff held_permission_def list_ex_iff perm_def)
  then have "grant_refusal held [] (perm a ResourceAll) = None" using not_carved_all by (simp add: grant_refusal_def perm_def)
  moreover have "firstUnheldCarvedOut g held = None"
    using not_carved_all by (simp add: firstUnheldCarvedOut_def assms(4) perm_def)
  moreover have "a \<noteq> ActionAdmin" using carved_action [OF assms(1)] admin_not_money by auto
  then have "permissionsAllow (held @ gr_permissions g) a r c"
    by (auto simp: permissionsAllow_iff assms(4) grants_def perm_def checkAdminPermission_def checkPermissionMatch_def
        checkPermissionConstraints_def split: option.split)
  ultimately show ?thesis by blast
qed

text \<open>The same as a run: the administrator alice, refused at first, ends with the right to buy.\<close>

lemma wildcard_defeats_separation_witness:
  "isl (fst (CreateGroupAPI demo_service ''alice'' (wants ''g'' [perm ActionExecute ResourcePurchases]) demo_aworld)) \<and>
   fst (HasPermission demo_aenv ''alice'' ActionExecute ResourcePurchases None demo_tables) = Inr False \<and>
   fst (HasPermission demo_aenv ''alice'' ActionExecute ResourcePurchases None (aw_db (run_auth_ops demo_service
     [OCreateGroup ''alice'' (wants ''g'' [perm ActionExecute ResourceAll]),
      OUpdateUser ''alice'' ''alice'' (joins [DefaultAdminGroupID, ''u''])] demo_aworld))) = Inr True \<and>
   permissionsAllow (DefaultAdminPermissions @ [perm ActionExecute ResourceAll]) ActionExecute ResourcePurchases None"
proof -
  have run: "isl (fst (CreateGroupAPI demo_service ''alice'' (wants ''g'' [perm ActionExecute ResourcePurchases]) demo_aworld))"
    "fst (HasPermission demo_aenv ''alice'' ActionExecute ResourcePurchases None demo_tables) = Inr False"
    "fst (HasPermission demo_aenv ''alice'' ActionExecute ResourcePurchases None (aw_db (run_auth_ops demo_service
     [OCreateGroup ''alice'' (wants ''g'' [perm ActionExecute ResourceAll]),
      OUpdateUser ''alice'' ''alice'' (joins [DefaultAdminGroupID, ''u''])] demo_aworld))) = Inr True"
    by code_simp+
  have pre: "carved_out ActionExecute ResourcePurchases" "list_ex checkAdminPermission DefaultAdminPermissions"
    "\<not> permissionsAllow DefaultAdminPermissions ActionExecute ResourcePurchases None" by code_simp+
  from wildcard_defeats_separation [OF pre, of "demo_group ''g'' [perm ActionExecute ResourceAll] False" None] run
  show ?thesis by (simp add: demo_group_def)
qed

text \<open>C33: A request made with a personal key is allowed only if the key is stored, active and of
  an active owner whose groups allow it themselves, a permission of the key on every resource
  for a money-spending action aside. The check against constraints is within the owner always.\<close>

theorem key_within_owner:
  "(HasAPIKeyPermissionAPI s key a r w = (Inr (i, k, True), w1) \<longrightarrow>
     (\<exists>row \<in> set (ad_keys (aw_db w)). ak_id row = k \<and> ak_hash row = sv_sha64 s key \<and> ak_active row \<and>
       (\<exists>u \<in> set (ad_users (aw_db w)). us_id u = i \<and> us_id u = ak_user row \<and> us_active u) \<and>
       (permissionsAllow (user_permissions (aw_db w) i) a r None \<or>
        carved_out a r \<and> (\<exists>p \<in> set (ak_permissions row). wildcard_money p)))) \<and>
   (HasAPIKeyPermissionForConstraintsAPI s k i a r sets w = (Inr True, w2) \<longrightarrow>
     sets \<noteq> [] \<and> (\<forall>c \<in> set sets. permissionsAllow (user_permissions (aw_db w) i) a r (Some c)))"
    (is "(?A \<longrightarrow> ?B) \<and> (?C \<longrightarrow> ?D)")
proof (rule conjI; rule impI)
  assume A: ?A
  obtain x v where x: "ValidateUserAPIKey s key w = (x, v)" by fastforce
  with A obtain row u where row: "x = Inr (row, u)" by (cases x) (auto simp: HasAPIKeyPermissionAPI_def)
  obtain y v' where y: "in_db (ComputeEffectivePermissions (sv_env s) row u) v = (y, v')" by fastforce
  with A x row obtain ps where ps: "y = Inr ps" "i = us_id u" "k = ak_id row" "permissionsAllow ps a r None"
    by (auto simp: HasAPIKeyPermissionAPI_def ctx_HasPermission_allow split: sum.splits)
  note fact = ValidateUserAPIKey_row [OF x [unfolded row]]
  from in_db_facts [OF y] ps(1) obtain ctx db where ctx: "BuildAuthContext (sv_env s) (us_id u) (aw_db v) = (Inr ctx, db)"
    "ps = effective_permissions row ctx"
    by (auto simp: ComputeEffectivePermissions_def split: prod.splits sum.splits)
  have "set (ac_permissions ctx) \<subseteq> set (user_permissions (aw_db w) i)"
    using BuildAuthContext_sound [OF ctx(1)] same_permissions(2) [OF ValidateUserAPIKey_same [OF x]] ps(2) by simp
  with effective_sound [of row ctx a r] ps(4) ctx(2) allow_mono
  have "permissionsAllow (user_permissions (aw_db w) i) a r None \<or> carved_out a r \<and> (\<exists>p \<in> set (ak_permissions row). wildcard_money p)"
    by blast
  moreover have "u \<in> set (ad_users (aw_db w)) \<and> us_id u = ak_user row" using fact row_Some(1) by blast
  ultimately show ?B using fact ps(2,3) by blast
next
  assume C: ?C
  obtain x w1 where x: "in_db (GetAPIKeyByID (sv_env s) k) w = (x, w1)" by fastforce
  obtain y w2 where y: "in_db (lookupAPIKeyUser (sv_env s) i) w1 = (y, w2)" by fastforce
  from C x y obtain key u where u: "x = Inr key" "y = Inr u" "sets \<noteq> []"
    by (auto simp: HasAPIKeyPermissionForConstraintsAPI_def split: if_splits sum.splits)
  obtain z w3 where z: "in_db (BuildAuthContext (sv_env s) (us_id u)) w2 = (z, w3)" by fastforce
  with C x y u obtain ctx where ctx: "z = Inr ctx" "\<forall>c \<in> set sets. permissionsAllow (ac_permissions ctx) a r (Some c)"
    by (auto simp: HasAPIKeyPermissionForConstraintsAPI_def list_all_iff split: sum.splits)
  have s1: "same_rows (aw_db w) (aw_db w1)" using in_db_facts [OF x] lookup_same(5) by blast
  have "same_rows (aw_db w1) (aw_db w2)" using in_db_facts [OF y] key_check_same(4) by blast
  with s1 have s2: "same_rows (aw_db w) (aw_db w2)" by (rule same_rows_trans)
  have "user_row i (aw_db w1) = Some u" using in_db_facts [OF y [unfolded u]] lookupAPIKeyUser_row by blast
  then have "us_id u = i" using row_Some(1) by blast
  with in_db_facts [OF z [unfolded ctx]] BuildAuthContext_sound same_permissions(2) [OF s2]
  have "set (ac_permissions ctx) \<subseteq> set (user_permissions (aw_db w) i)" by metis
  with ctx(2) u(3) allow_mono show ?D by blast
qed

text \<open>A key of the member within his rights, and one of the administrator beyond hers.\<close>

lemma key_within_owner_witness:
  "(let w = run_auth_ops demo_service [OCreateKey ''bob'' ''k'' [perm ActionView ResourcePlans] None] demo_aworld in
     fst (HasAPIKeyPermissionAPI demo_service ''t'' ActionView ResourcePlans w) = Inr (''bob'', ''uu'', True) \<and>
     (\<exists>row \<in> set (ad_keys (aw_db w)). ak_id row = ''uu'' \<and>
       (permissionsAllow (user_permissions (aw_db w) ''bob'') ActionView ResourcePlans None \<or>
        carved_out ActionView ResourcePlans \<and> (\<exists>p \<in> set (ak_permissions row). wildcard_money p)))) \<and>
   (let w = run_auth_ops demo_service [OCreateKey ''alice'' ''k'' [perm ActionExecute ResourceAll] None] demo_aworld in
     fst (HasAPIKeyPermissionAPI demo_service ''t'' ActionExecute ResourcePurchases w) = Inr (''alice'', ''uu'', True) \<and>
     fst (HasPermission demo_aenv ''alice'' ActionExecute ResourcePurchases None (aw_db w)) = Inr False)"
proof -
  define w where "w = run_auth_ops demo_service [OCreateKey ''bob'' ''k'' [perm ActionView ResourcePlans] None] demo_aworld"
  define v where "v = run_auth_ops demo_service [OCreateKey ''alice'' ''k'' [perm ActionExecute ResourceAll] None] demo_aworld"
  have run: "fst (HasAPIKeyPermissionAPI demo_service ''t'' ActionView ResourcePlans w) = Inr (''bob'', ''uu'', True)"
    "fst (HasAPIKeyPermissionAPI demo_service ''t'' ActionExecute ResourcePurchases v) = Inr (''alice'', ''uu'', True)"
    "fst (HasPermission demo_aenv ''alice'' ActionExecute ResourcePurchases None (aw_db v)) = Inr False"
    unfolding w_def v_def by code_simp+
  obtain w1 where w1: "HasAPIKeyPermissionAPI demo_service ''t'' ActionView ResourcePlans w = (Inr (''bob'', ''uu'', True), w1)"
    using run(1) by (cases "HasAPIKeyPermissionAPI demo_service ''t'' ActionView ResourcePlans w") simp
  from key_within_owner [THEN conjunct1, rule_format, OF w1] run show ?thesis
    unfolding Let_def w_def [symmetric] v_def [symmetric] by blast
qed

end
