(* ===== verification/Auth_Calm_Facts.thy ===== *)
theory Auth_Calm_Facts
  imports Auth_Sample
begin

text \<open>
  The statements on a database without faults: which rows they find, what a stored user looks
  like afterwards, and what stays as it was.
\<close>

definition steady :: "adb_env \<Rightarrow> bool" where
  "steady env = (\<forall>n. av_fault env n = None)"

definition counted :: "adb \<Rightarrow> adb" where
  "counted db = db\<lparr>ad_statements := Suc (ad_statements db)\<rparr>"

lemma counted_rows [simp]:
  "ad_users (counted db) = ad_users db" "ad_groups (counted db) = ad_groups db" "ad_sessions (counted db) = ad_sessions db"
  "ad_keys (counted db) = ad_keys db" "ad_generated (counted db) = ad_generated db"
  "ad_statements (counted db) = Suc (ad_statements db)"
  by (simp_all add: counted_def)

lemma counted_wf [simp]: "wf_tables (counted db) = wf_tables db"
  by (simp add: wf_tables_def)

lemma counted_lookups [simp]:
  "user_row i (counted db) = user_row i db" "group_row i (counted db) = group_row i db" "key_row i (counted db) = key_row i db"
  by (simp_all add: user_row_def group_row_def key_row_def)

lemma steady_query: "steady env \<Longrightarrow> aquery env q db = (Inr (q (counted db)), counted db)"
  by (simp add: aquery_def astmt_def steady_def counted_def Let_def)

lemma steady_stmt: "steady env \<Longrightarrow> astmt env f db = (case f (counted db) of Inl e \<Rightarrow> (Inl e, counted db) | Inr (db', r) \<Rightarrow> (Inr r, db'))"
  by (simp add: astmt_def steady_def counted_def Let_def split: sum.splits)

section \<open>One user\<close>

text \<open>The tables are well-formed and \<open>u\<close> is a row of theirs.\<close>

definition has_user :: "adb \<Rightarrow> user \<Rightarrow> bool" where
  "has_user db u = (wf_tables db \<and> u \<in> set (ad_users db))"

lemma has_user_counted [simp]: "has_user (counted db) u = has_user db u"
  by (simp add: has_user_def)

lemma find_distinct: "x \<in> set xs \<Longrightarrow> distinct (map f xs) \<Longrightarrow> find (\<lambda>y. f y = f x) xs = Some x"
  by (induction xs) auto

lemma has_user_row:
  assumes "has_user db u"
  shows "user_row (us_id u) db = Some u" "find (\<lambda>v. us_email v = us_email u) (ad_users db) = Some u"
  using assms find_distinct [of u "ad_users db"] by (auto simp: has_user_def wf_tables_def user_row_def)

lemma steady_lookups:
  assumes "steady env" "has_user db u"
  shows "GetUserByID env (us_id u) db = (Inr u, counted db)" "loadUser env (us_id u) db = (Inr u, counted db)"
    "GetUserByEmail env (us_email u) db = (Inr u, counted db)"
proof -
  show id: "GetUserByID env (us_id u) db = (Inr u, counted db)"
    using assms has_user_row by (simp add: GetUserByID_def steady_query scan_user_def)
  then show "loadUser env (us_id u) db = (Inr u, counted db)" by (simp add: loadUser_def)
  show "GetUserByEmail env (us_email u) db = (Inr u, counted db)"
    using assms has_user_row by (simp add: GetUserByEmail_def steady_query scan_user_def)
qed

text \<open>The tables with the row of \<open>u\<close> replaced.\<close>

definition stored :: "adb_env \<Rightarrow> user \<Rightarrow> user \<Rightarrow> adb \<Rightarrow> user" where
  "stored env u v db = v\<lparr>us_updated := aclock env db, us_created := us_created u\<rparr>"

definition replaced :: "user \<Rightarrow> adb \<Rightarrow> adb" where
  "replaced v db = db\<lparr>ad_users := map (\<lambda>x. if us_id x = us_id v then v\<lparr>us_created := us_created x\<rparr> else x) (ad_users db)\<rparr>"

lemma replaced_rest [simp]:
  "ad_groups (replaced v db) = ad_groups db" "ad_sessions (replaced v db) = ad_sessions db" "ad_keys (replaced v db) = ad_keys db"
  "ad_statements (replaced v db) = ad_statements db" "ad_generated (replaced v db) = ad_generated db"
  by (simp_all add: replaced_def)

lemma row_error_replaced:
  assumes "has_user db u" "us_id v = us_id u" "us_email v = us_email u" "us_groups v \<noteq> []"
  shows "row_error v (filter (\<lambda>x. us_id x \<noteq> us_id v) (ad_users db)) = None"
proof -
  have d: "distinct (map us_email (ad_users db))" "u \<in> set (ad_users db)" using assms(1) by (simp_all add: has_user_def wf_tables_def)
  have "us_email x \<noteq> us_email u" if "x \<in> set (ad_users db)" "us_id x \<noteq> us_id u" for x
    using d that by (metis distinct_map inj_onD)
  then have "us_email v \<notin> us_email ` set (filter (\<lambda>x. us_id x \<noteq> us_id v) (ad_users db))" using assms(2,3) by fastforce
  then show ?thesis using assms(2,4) by (auto simp: row_error_None)
qed

lemma steady_update:
  assumes "steady env" "has_user db u" "us_id v = us_id u" "us_email v = us_email u" "us_groups v \<noteq> []"
    and "active_admin u \<longrightarrow> active_admin v"
  shows "store_UpdateUser env v db = (None, replaced (v\<lparr>us_updated := aclock env db\<rparr>) (counted db))"
    and "has_user (replaced (v\<lparr>us_updated := aclock env db\<rparr>) (counted db)) (stored env u v db)"
proof -
  let ?v = "v\<lparr>us_updated := aclock env db\<rparr>" and ?db = "replaced (v\<lparr>us_updated := aclock env db\<rparr>) (counted db)"
  have e: "row_error ?v (filter (\<lambda>x. us_id x \<noteq> us_id ?v) (ad_users (counted db))) = None"
    using row_error_replaced [of db u ?v] assms by simp
  have r: "user_row (us_id ?v) (counted db) = Some u" using has_user_row(1) [OF assms(2)] assms(3) by simp
  have t: "active_admin u \<longrightarrow> active_admin ?v" using assms(6) by (simp add: active_admin_def)
  have s: "update_user ?v (counted db) = Inr (?db, 1)"
    using e r t by (auto simp: update_user_def replaced_def Let_def)
  then show "store_UpdateUser env v db = (None, ?db)" using assms(1) by (simp add: store_UpdateUser_def steady_stmt)
  have "wf_tables ?db" using wf_update_user [OF s] assms(2) by (simp add: has_user_def)
  moreover have "stored env u v db \<in> set (ad_users ?db)"
    using assms(2,3) by (force simp: has_user_def stored_def replaced_def)
  ultimately show "has_user ?db (stored env u v db)" by (simp add: has_user_def)
qed

lemma steady_in_db: "f (aw_db w) = (r, db) \<Longrightarrow> in_db f w = (r, w\<lparr>aw_db := db\<rparr>)"
  by (simp add: in_db_def)

lemma draw_eq: "draw f w = (f (ad_generated (aw_db w)), w\<lparr>aw_db := (aw_db w)\<lparr>ad_generated := Suc (ad_generated (aw_db w))\<rparr>\<rparr>)"
  by (simp add: draw_def in_db_def)

lemma has_user_generated [simp]: "has_user (db\<lparr>ad_generated := n\<rparr>) u = has_user db u"
  by (simp add: has_user_def wf_tables_def)

end
