(* ===== verification/Auth_Account_Props.thy ===== *)
theory Auth_Account_Props
  imports Auth_Calm_Facts
begin

text \<open>
  The properties of accounts: an administrator remains, sessions end with the password that
  opened them, the lock after wrong passwords, the round trip of a login, and what the reset of
  a password does to invited and deactivated users.
\<close>

text \<open>C31: Whatever sequence of operations the service runs and whichever statements fail, the
  tables keep satisfying their keys, references and checks, and an active member of the
  Administrators group remains.\<close>

theorem administrator_remains:
  assumes "wf_tables (aw_db w)" "has_admin (aw_db w)"
  shows "wf_tables (aw_db (run_auth_ops s qs w)) \<and> has_admin (aw_db (run_auth_ops s qs w))"
  using admin.ops [of w s qs] assms by simp

lemma administrator_remains_witness:
  "has_admin (aw_db (run_auth_ops demo_service [ODeleteUser ''alice'', OUpdateUser ''bob'' ''alice'' (joins [''users''])] demo_aworld))"
  using administrator_remains [of demo_aworld demo_service] demo_tables_wf
  by (simp add: demo_aworld_def del: run_auth_ops_simps)

section \<open>Passwords and sessions\<close>

abbreviation sessions_of :: "'c aworld \<Rightarrow> session list" where
  "sessions_of w \<equiv> ad_sessions (aw_db w)"

lemma store_UpdateUser_sessions: "store_UpdateUser env u db = (r, db') \<Longrightarrow> ad_sessions db' = ad_sessions db"
  by (auto simp: store_UpdateUser_def update_user_def same_rows_def Let_def elim!: astmt_cases
      split: prod.splits sum.splits if_splits option.splits)

lemma session_frames:
  "in_db (loadUser env i) w = (r1, w') \<Longrightarrow> sessions_of w' = sessions_of w"
  "in_db (GetUserByID env i) w = (r2, w') \<Longrightarrow> sessions_of w' = sessions_of w"
  "in_db (updateUserEmail s u e) w = (r5, w') \<Longrightarrow> sessions_of w' = sessions_of w"
  "hash_password s p w = (r3, w') \<Longrightarrow> sessions_of w' = sessions_of w"
  "in_db (store_UpdateUser env u) w = (r4, w') \<Longrightarrow> sessions_of w' = sessions_of w"
  by (auto simp: same_rows_def hash_password_def dest!: in_db_facts loadUser_same lookup_same(1) email_same draw_same store_UpdateUser_sessions
      split: prod.splits sum.splits)

lemma process_sessions: "processPasswordReset s u p w = (r, w') \<Longrightarrow> sessions_of w' = sessions_of w"
  by (auto simp: processPasswordReset_def dest!: session_frames split: prod.splits sum.splits option.splits)

lemma update_password_sessions:
  "updateUserPassword s u p w = (Inr (c, v), w') \<Longrightarrow> sessions_of w' = sessions_of w \<and> c = (p \<noteq> [])"
  by (auto simp: updateUserPassword_def dest!: process_sessions split: prod.splits sum.splits if_splits)

lemma delete_sessions:
  assumes "steady env" "in_db (DeleteUserSessions env i) w = (r, w')"
  shows "sessions_of w' = filter (\<lambda>se. se_user se \<noteq> i) (sessions_of w)"
  using assms(2) by (auto simp: in_db_def DeleteUserSessions_def drop_sessions_def steady_stmt [OF assms(1)])

lemma delete_sessions_snd:
  "steady env \<Longrightarrow> sessions_of (snd (in_db (DeleteUserSessions env i) w)) = filter (\<lambda>se. se_user se \<noteq> i) (sessions_of w)"
  by (rule delete_sessions [OF _ prod.collapse [symmetric]])

lemma sessions_notify [simp]: "sessions_of (notifyPasswordChange s i p w) = sessions_of w"
  by (simp add: notifyPasswordChange_def)



section \<open>The lock after wrong passwords\<close>

text \<open>What a login reads of a user and a failed one leaves alone.\<close>

definition same_login :: "user \<Rightarrow> user \<Rightarrow> bool" where
  "same_login u v = (us_id v = us_id u \<and> us_email v = us_email u \<and> us_hash v = us_hash u \<and> us_active v = us_active u)"

lemma failed_login_fields [simp]:
  "us_id (failed_login t u) = us_id u" "us_email (failed_login t u) = us_email u" "us_hash (failed_login t u) = us_hash u"
  "us_groups (failed_login t u) = us_groups u" "us_active (failed_login t u) = us_active u"
  "us_failed (failed_login t u) = us_failed u + 1"
  "us_locked (failed_login t u) = (if 4 \<le> us_failed u then Some (t + AccountLockoutDuration) else us_locked u)"
  by (auto simp: failed_login_def Let_def MaxFailedLoginAttempts_def)

lemma has_user_groups: "has_user db u \<Longrightarrow> us_groups u \<noteq> []"
  by (simp add: has_user_def wf_tables_def)

lemma status_steady:
  assumes "steady (sv_env s)" "has_user (aw_db w) u" "us_active u"
  shows "getUserAndValidateStatus s (us_email u) w =
    (if (case us_locked u of None \<Rightarrow> False | Some t \<Rightarrow> av_now (sv_env s) (Suc (ad_statements (aw_db w))) < t)
     then Inl genericLoginError else Inr u, w\<lparr>aw_db := counted (aw_db w)\<rparr>)"
  using assms steady_lookups(3) [OF assms(1,2)]
  by (simp add: getUserAndValidateStatus_def steady_in_db now_at_def aclock_def split: option.split)

lemma wrong_login:
  assumes "steady (sv_env s)" "has_user (aw_db w) u" "us_active u" "us_hash u \<noteq> []" "us_locked u = None"
    and "sv_address s email = Some (us_email u)" "\<not> sv_verify s p (us_hash u)"
  defines "n \<equiv> ad_statements (aw_db w)"
  obtains v w' where "Login s email p c w = (Inl genericLoginError, w')" "has_user (aw_db w') v" "same_login u v"
    "us_failed v = us_failed u + 1" "ad_statements (aw_db w') = n + 2"
    "us_locked v = (if 4 \<le> us_failed u then Some (av_now (sv_env s) (n + 1) + AccountLockoutDuration) else None)"
proof -
  let ?w = "w\<lparr>aw_db := counted (aw_db w)\<rparr>"
  let ?t = "now_at s ?w"
  have u: "has_user (aw_db ?w) u" using assms(2) by simp
  have id: "us_id (failed_login ?t u) = us_id u" "us_email (failed_login ?t u) = us_email u" by simp_all
  have gr: "us_groups (failed_login ?t u) \<noteq> []" "active_admin u \<longrightarrow> active_admin (failed_login ?t u)"
    using has_user_groups [OF u] by (simp_all add: active_admin_def)
  note up = steady_update [OF assms(1) u id gr]
  have run: "Login s email p c w = (Inl genericLoginError, recordFailedLogin s u ?w)"
    using assms status_steady [OF assms(1-3)] by (simp add: Login_def verifyPasswordAndMFA_def)
  have db: "aw_db (recordFailedLogin s u ?w) =
      replaced (failed_login ?t u\<lparr>us_updated := aclock (sv_env s) (aw_db ?w)\<rparr>) (counted (aw_db ?w))"
    using up(1) by (simp add: recordFailedLogin_def in_db_def)
  show thesis
  proof (rule that [OF run])
    show "has_user (aw_db (recordFailedLogin s u ?w)) (stored (sv_env s) u (failed_login ?t u) (aw_db ?w))"
      unfolding db by (rule up(2))
    show "ad_statements (aw_db (recordFailedLogin s u ?w)) = n + 2" by (simp add: db n_def)
  qed (simp_all add: same_login_def stored_def assms(5) now_at_def aclock_def n_def)
qed

lemma wrong_logins:
  assumes "steady (sv_env s)"
  shows "has_user (aw_db w) u \<Longrightarrow> us_active u \<Longrightarrow> us_hash u \<noteq> [] \<Longrightarrow> us_locked u = None \<Longrightarrow> us_failed u = int k \<Longrightarrow>
    sv_address s email = Some (us_email u) \<Longrightarrow> k + length ps \<le> 5 \<Longrightarrow> k < 5 \<Longrightarrow> \<forall>p \<in> set ps. \<not> sv_verify s p (us_hash u) \<Longrightarrow>
    \<exists>v. has_user (aw_db (run_auth_ops s (map (\<lambda>p. OLogin email p []) ps) w)) v \<and> same_login u v \<and>
      us_failed v = int (k + length ps) \<and>
      us_locked v = (if k + length ps = 5
        then Some (av_now (sv_env s) (ad_statements (aw_db w) + 2 * length ps - 1) + AccountLockoutDuration) else None)"
proof (induction ps arbitrary: w u k)
  case Nil
  then show ?case by (auto simp: same_login_def)
next
  case (Cons p ps)
  have np: "\<not> sv_verify s p (us_hash u)" using Cons.prems(9) by simp
  obtain v w' where v: "Login s email p [] w = (Inl genericLoginError, w')" "has_user (aw_db w') v" "same_login u v"
    "us_failed v = us_failed u + 1" "ad_statements (aw_db w') = ad_statements (aw_db w) + 2"
    "us_locked v = (if 4 \<le> us_failed u then Some (av_now (sv_env s) (ad_statements (aw_db w) + 1) + AccountLockoutDuration) else None)"
    by (rule wrong_login [OF assms Cons.prems(1-4,6) np, of "[]"]) blast
  have run: "run_auth_ops s (map (\<lambda>p. OLogin email p []) (p # ps)) w = run_auth_ops s (map (\<lambda>p. OLogin email p []) ps) w'"
    by (simp add: v(1))
  show ?case
  proof (cases "k = 4")
    case True
    with Cons.prems(7) have "ps = []" by simp
    with True v Cons.prems(5) show ?thesis unfolding run by auto
  next
    case False
    from Cons.IH [of w' v "Suc k"] v False Cons.prems
    obtain x where x: "has_user (aw_db (run_auth_ops s (map (\<lambda>p. OLogin email p []) ps) w')) x" "same_login v x"
      "us_failed x = int (Suc k + length ps)"
      "us_locked x = (if Suc k + length ps = 5
        then Some (av_now (sv_env s) (ad_statements (aw_db w') + 2 * length ps - 1) + AccountLockoutDuration) else None)"
      by (auto simp: same_login_def)
    have "same_login u x" using v(3) x(2) by (simp add: same_login_def)
    moreover have "Suc k + length ps = 5 \<Longrightarrow> 1 \<le> length ps" using False Cons.prems(8) by linarith
    ultimately show ?thesis unfolding run using x v(5) by (intro exI [of _ x]) auto
  qed
qed

text \<open>C34: On a database without faults, wrong passwords for an active user are counted, the
  fifth in a row locks the account for fifteen minutes from that moment and the fourth does not,
  and while it is locked every login is refused, the right password included, and changes
  nothing.\<close>

theorem five_wrong_passwords_lock:
  assumes "steady (sv_env s)" "has_user (aw_db w) u" "us_active u" "us_hash u \<noteq> []" "us_locked u = None" "us_failed u = 0"
    and "sv_address s email = Some (us_email u)" "length ps \<le> 5" "\<forall>p \<in> set ps. \<not> sv_verify s p (us_hash u)"
  defines "w1 \<equiv> run_auth_ops s (map (\<lambda>p. OLogin email p []) ps) w"
    and "until \<equiv> av_now (sv_env s) (ad_statements (aw_db w) + 9) + AccountLockoutDuration"
  shows "\<exists>v. has_user (aw_db w1) v \<and> us_id v = us_id u \<and> us_failed v = int (length ps) \<and>
    us_locked v = (if length ps = 5 then Some until else None) \<and>
    (\<forall>w2 p c. length ps = 5 \<and> has_user (aw_db w2) v \<and> av_now (sv_env s) (Suc (ad_statements (aw_db w2))) < until \<longrightarrow>
       fst (Login s email p c w2) = Inl genericLoginError \<and> same_rows (aw_db w2) (aw_db (snd (Login s email p c w2))))"
proof -
  obtain v where v: "has_user (aw_db w1) v" "same_login u v" "us_failed v = int (length ps)"
    "us_locked v = (if length ps = 5 then Some until else None)"
    using wrong_logins [OF assms(1-5), of 0 email ps] assms(6-9) unfolding w1_def until_def
    by (cases "length ps = 5") (auto simp: add.commute)
  have "fst (Login s email p c w2) = Inl genericLoginError \<and> same_rows (aw_db w2) (aw_db (snd (Login s email p c w2)))"
    if "length ps = 5" "has_user (aw_db w2) v" "av_now (sv_env s) (Suc (ad_statements (aw_db w2))) < until" for w2 p c
  proof -
    have a: "us_active v" "sv_address s email = Some (us_email v)" using v(2) assms(3,7) by (simp_all add: same_login_def)
    show ?thesis using status_steady [OF assms(1) that(2) a(1)] a(2) that v(4) by (simp add: Login_def same_rows_def)
  qed
  with v show ?thesis by (intro exI [of _ v]) (auto simp: same_login_def)
qed

lemma demo_steady: "steady (sv_env demo_service)"
  by (simp add: steady_def demo_service_def demo_aenv_def)

lemma demo_bob_fields [simp]:
  "us_id (demo_bob a t) = ''bob''" "us_email (demo_bob a t) = ''bob@x''" "us_hash (demo_bob a t) = ''#secret''"
  "us_active (demo_bob a t) = a" "us_locked (demo_bob a t) = None" "us_failed (demo_bob a t) = 0" "us_mfa (demo_bob a t) = False"
  "us_reset_expires (demo_bob a t) = t" "us_reset (demo_bob a t) = []" "us_history (demo_bob a t) = []"
  "us_groups (demo_bob a t) = [''users'']"
  by (simp_all add: demo_bob_def demo_user_def fresh_user_def)

lemma demo_has_user: "has_user (aw_db (demo_with (demo_bob a t))) (demo_bob a t)"
  by (simp add: has_user_def wf_tables_def demo_with_def demo_aworld_def demo_tables_def demo_user_def demo_group_def
      fresh_user_def DefaultAdminGroupID_def)

lemma five_wrong_passwords_lock_witness:
  "\<exists>v. has_user (aw_db (run_auth_ops demo_service (map (\<lambda>p. OLogin ''bob@x'' p []) [''1'', ''2'', ''3'', ''4'', ''5''])
      (demo_with (demo_bob True None)))) v \<and> us_locked v = Some (1009 + AccountLockoutDuration)"
  using five_wrong_passwords_lock [OF demo_steady demo_has_user, of True None "''bob@x''" "[''1'', ''2'', ''3'', ''4'', ''5'']"]
  by (auto simp: demo_service_def demo_aenv_def demo_with_def demo_aworld_def demo_tables_def simp del: run_auth_ops_simps)

section \<open>The round trip of a login\<close>

lemma insert_session_wf:
  assumes "wf_tables db" "se_token se \<notin> se_token ` set (ad_sessions db)" "user_row (se_user se) db = Some u"
  shows "insert_session se db = Inr (db\<lparr>ad_sessions := ad_sessions db @ [se]\<rparr>, ())" "wf_tables (db\<lparr>ad_sessions := ad_sessions db @ [se]\<rparr>)"
proof -
  show "insert_session se db = Inr (db\<lparr>ad_sessions := ad_sessions db @ [se]\<rparr>, ())" using assms by (simp add: insert_session_def)
  from wf.step [OF table_step.session_added [OF this] assms(1)] show "wf_tables (db\<lparr>ad_sessions := ad_sessions db @ [se]\<rparr>)" .
qed

definition session_for :: "'c auth_service \<Rightarrow> user \<Rightarrow> string \<Rightarrow> gotime \<Rightarrow> session" where
  "session_for s u raw now = \<lparr>se_token = sv_sha s raw, se_user = us_id u, se_email = us_email u, se_expires = now + sv_duration s,
     se_created = now, se_csrf = sv_mac s raw\<rparr>"

lemma createSession_steady:
  assumes "steady (sv_env s)" "has_user (aw_db w) u" "sv_token s (ad_generated (aw_db w)) = Inr raw"
    and "sv_sha s raw \<notin> se_token ` set (sessions_of w)"
  obtains w' where "createSession s u w = (Inr ((session_for s u raw (now_at s w))\<lparr>se_token := raw\<rparr>), w')" "has_user (aw_db w') u"
    "sessions_of w' = sessions_of w @ [session_for s u raw (now_at s w)]"
proof -
  let ?se = "session_for s u raw (now_at s w)"
  let ?db = "(aw_db w)\<lparr>ad_generated := Suc (ad_generated (aw_db w))\<rparr>"
  have now: "now_at s (w\<lparr>aw_db := ?db\<rparr>) = now_at s w" by (simp add: now_at_def aclock_def)
  have db: "wf_tables (counted ?db)" "user_row (se_user ?se) (counted ?db) = Some u"
    using assms(2) has_user_row(1) [OF assms(2)] by (simp_all add: has_user_def wf_tables_def session_for_def user_row_def)
  have fresh: "se_token ?se \<notin> se_token ` set (ad_sessions (counted ?db))" using assms(4) by (simp add: session_for_def)
  note ins = insert_session_wf [OF db(1) fresh db(2)]
  have "in_db (CreateSession (sv_env s) ?se) (w\<lparr>aw_db := ?db\<rparr>) =
      (None, w\<lparr>aw_db := (counted ?db)\<lparr>ad_sessions := sessions_of w @ [?se]\<rparr>\<rparr>)"
    using ins(1) assms(1) by (simp add: in_db_def CreateSession_def steady_stmt)
  then have "createSession s u w = (Inr (?se\<lparr>se_token := raw\<rparr>), w\<lparr>aw_db := (counted ?db)\<lparr>ad_sessions := sessions_of w @ [?se]\<rparr>\<rparr>)"
    using assms(3) now by (simp add: createSession_def draw_eq Let_def session_for_def)
  moreover have "has_user ((counted ?db)\<lparr>ad_sessions := sessions_of w @ [?se]\<rparr>) u"
    using ins(2) assms(2) by (simp add: has_user_def)
  ultimately show thesis using that by force
qed

lemma find_last: "x \<notin> f ` set xs \<Longrightarrow> f y = x \<Longrightarrow> q y \<Longrightarrow> find (\<lambda>z. f z = x \<and> q z) (xs @ [y]) = Some y"
  by (induction xs) auto

text \<open>A session of these tables is valid.\<close>

lemma validate_steady:
  assumes "steady (sv_env s)" "sessions_of w = old @ [session_for s u raw t]" "sv_sha s raw \<notin> se_token ` set old"
    and "\<And>n. av_now (sv_env s) n < t + sv_duration s" "\<not> is_zero_time (t + sv_duration s)"
  shows "ValidateSession s raw w = (Inr ((session_for s u raw t)\<lparr>se_token := raw\<rparr>), w\<lparr>aw_db := counted (aw_db w)\<rparr>)"
proof -
  have "session_row (aclock (sv_env s) (counted (aw_db w))) (sv_sha s raw) (counted (aw_db w)) = Some (session_for s u raw t)"
    unfolding session_row_def using assms(2-4) by (simp add: aclock_def find_last session_for_def)
  then have "in_db (GetSession (sv_env s) (sv_sha s raw)) w = (Inr (session_for s u raw t), w\<lparr>aw_db := counted (aw_db w)\<rparr>)"
    using assms(1) by (simp add: in_db_def GetSession_def steady_query)
  then show ?thesis using assms(5) less_imp_not_less [OF assms(4)]
    by (simp add: ValidateSession_def session_for_def now_at_def aclock_def)
qed

lemma find_dropped: "find (\<lambda>x. f x = k \<and> q x) (filter (\<lambda>x. f x \<noteq> k) xs) = None"
  by (induction xs) auto

lemma logout_steady:
  assumes "steady (sv_env s)" "raw \<noteq> []"
  shows "isl (fst (ValidateSession s raw (snd (Logout s raw w))))"
  using assms
  by (simp add: Logout_def DeleteSession_def drop_sessions_def steady_stmt in_db_def ValidateSession_def GetSession_def
      steady_query session_row_def find_dropped)

text \<open>C35: A login with the right password of an active user without a second factor succeeds on a
  database without faults; the token it returns is then accepted as that user's session, the
  CSRF token with it and no other one, until the user logs out, which ends it.\<close>

theorem login_round_trip:
  assumes "steady (sv_env s)" "has_user (aw_db w) u" "us_active u" "us_locked u = None" "us_hash u \<noteq> []" "\<not> us_mfa u"
    and "sv_address s email = Some (us_email u)" "sv_verify s p (us_hash u)"
    and "sv_token s (ad_generated (aw_db w)) = Inr raw" "raw \<noteq> []" "sv_sha s raw \<notin> se_token ` set (ad_sessions (aw_db w))"
    and "sv_mac s raw \<noteq> []" "\<And>m n. av_now (sv_env s) n < av_now (sv_env s) m + sv_duration s"
    and "\<And>n. \<not> is_zero_time (av_now (sv_env s) n + sv_duration s)"
  shows "\<exists>resp w1 se w2. Login s email p c w = (Inr resp, w1) \<and> lr_token resp = raw \<and> lr_id resp = us_id u \<and>
    ValidateSession s raw w1 = (Inr se, w2) \<and> se_user se = us_id u \<and>
    (\<forall>csrf. fst (ValidateCSRFToken s raw csrf w1) = None \<longleftrightarrow> csrf = lr_csrf resp) \<and>
    isl (fst (ValidateSession s raw (snd (Logout s raw w1))))"
proof -
  let ?w = "w\<lparr>aw_db := counted (aw_db w)\<rparr>"
  let ?t = "now_at s ?w" and ?old = "sessions_of w"
  obtain w' where w': "createSession s u ?w = (Inr ((session_for s u raw ?t)\<lparr>se_token := raw\<rparr>), w')" "has_user (aw_db w') u"
    "sessions_of w' = ?old @ [session_for s u raw ?t]"
    using createSession_steady [of s ?w u raw] assms(1,2,9,11) by auto
  let ?u = "u\<lparr>us_login := Some (now_at s w'), us_failed := 0, us_locked := None\<rparr>"
  let ?w1 = "snd (in_db (store_UpdateUser (sv_env s) ?u) w')"
  let ?resp = "login_result ((session_for s u raw ?t)\<lparr>se_token := raw\<rparr>) ?u"
  have login: "Login s email p c w = (Inr ?resp, ?w1)"
    using status_steady [OF assms(1-3)] assms(4-8) w'(1)
    by (simp add: Login_def verifyPasswordAndMFA_def completeSuccessfulLogin_def Let_def)
  have "sessions_of ?w1 = ?old @ [session_for s u raw ?t]"
    using session_frames(5) [OF prod.collapse [symmetric], of "sv_env s" ?u w'] w'(3) by simp
  note valid = validate_steady [OF assms(1) this assms(11), of]
  have valid: "ValidateSession s raw ?w1 = (Inr ((session_for s u raw ?t)\<lparr>se_token := raw\<rparr>), ?w1\<lparr>aw_db := counted (aw_db ?w1)\<rparr>)"
    by (rule valid) (use assms(13,14) in \<open>simp_all add: now_at_def aclock_def\<close>)
  have csrf: "fst (ValidateCSRFToken s raw csrf ?w1) = None \<longleftrightarrow> csrf = lr_csrf ?resp" for csrf
    using assms(12) by (auto simp: ValidateCSRFToken_def valid login_result_def session_for_def)
  show ?thesis
    using login valid csrf logout_steady [OF assms(1,10), of ?w1]
    by (intro exI [of _ ?resp] exI [of _ ?w1] exI [of _ "(session_for s u raw ?t)\<lparr>se_token := raw\<rparr>"] exI) 
      (simp add: login_result_def session_for_def)
qed

lemma login_round_trip_witness:
  "\<exists>resp w1 se w2. Login demo_service ''bob@x'' ''secret'' [] (demo_with (demo_bob True None)) = (Inr resp, w1) \<and> lr_token resp = ''t'' \<and>
    ValidateSession demo_service ''t'' w1 = (Inr se, w2) \<and> se_user se = ''bob''"
proof -
  let ?s = demo_service and ?w = "demo_with (demo_bob True None)" and ?u = "demo_bob True None"
  have t: "av_now (sv_env ?s) n < av_now (sv_env ?s) m + sv_duration ?s" "\<not> is_zero_time (av_now (sv_env ?s) n + sv_duration ?s)" for m n
    by (simp_all add: demo_service_def demo_aenv_def hour_ns_def minute_ns_def second_ns_def is_zero_time_def)
  have "sv_address ?s ''bob@x'' = Some (us_email ?u)" "sv_verify ?s ''secret'' (us_hash ?u)"
    "sv_token ?s (ad_generated (aw_db ?w)) = Inr ''t''" "sv_sha ?s ''t'' \<notin> se_token ` set (ad_sessions (aw_db ?w))" "sv_mac ?s ''t'' \<noteq> []"
    by (simp_all add: demo_service_def demo_with_def demo_aworld_def demo_tables_def)
  note run = login_round_trip [OF demo_steady demo_has_user _ _ _ _ this(1-3) _ this(4-5) t, unfolded demo_bob_fields]
  show ?thesis using run by (fastforce simp only: simp_thms list.distinct)
qed

section \<open>Resetting a password\<close>

text \<open>While more than 59 minutes of a reset or setup link remain, Forgot Password reports
  success and does nothing: no new link is stored and no mail is sent. For a reset link, which
  lasts an hour, that is its first minute; for the link of an invitation, which lasts seven days,
  it is all but its last hour.\<close>

theorem setup_link_blocks_reset:
  assumes "steady (sv_env s)" "has_user (aw_db w) u" "us_reset_expires u = Some t"
    and "av_now (sv_env s) (Suc (ad_statements (aw_db w))) + 59 * minute_ns < t"
  shows "\<exists>w'. RequestPasswordReset s (us_email u) w = (None, w') \<and> same_rows (aw_db w) (aw_db w') \<and> aw_ext w' = aw_ext w"
proof -
  have "reset_limited (av_now (sv_env s) (Suc (ad_statements (aw_db w)))) u"
    using assms(3,4) by (simp add: reset_limited_def PasswordResetExpiry_def PasswordResetRateLimit_def minute_ns_def hour_ns_def)
  then show ?thesis using steady_lookups(3) [OF assms(1,2)]
    by (simp add: RequestPasswordReset_def steady_in_db now_at_def aclock_def same_rows_def)
qed

text \<open>A user invited by the administrator asks for a new link: no mail follows the invitation.\<close>

lemma setup_link_blocks_reset_witness:
  "(\<exists>w'. RequestPasswordReset demo_service ''bob@x'' (demo_with (demo_bob False (Some (7 * 24 * hour_ns)))) = (None, w') \<and> aw_ext w' = []) \<and>
   aw_ext (run_auth_ops demo_service [OCreateUser ''carol@x'' [] [''users''], ORequestReset ''carol@x''] demo_aworld) =
     [(''carol@x'', reset_url demo_service ''tttt'')]"
proof
  show "\<exists>w'. RequestPasswordReset demo_service ''bob@x'' (demo_with (demo_bob False (Some (7 * 24 * hour_ns)))) = (None, w') \<and> aw_ext w' = []"
    using setup_link_blocks_reset [OF demo_steady demo_has_user, of False "Some (7 * 24 * hour_ns)"]
    by (auto simp: demo_service_def demo_aenv_def demo_with_def demo_aworld_def demo_tables_def hour_ns_def minute_ns_def second_ns_def)
  show "aw_ext (run_auth_ops demo_service [OCreateUser ''carol@x'' [] [''users''], ORequestReset ''carol@x''] demo_aworld) =
     [(''carol@x'', reset_url demo_service ''tttt'')]"
    by code_simp
qed

lemma find_only: "y \<in> set xs \<Longrightarrow> f y = k \<Longrightarrow> (\<And>x. x \<in> set xs \<Longrightarrow> f x = k \<Longrightarrow> x = y) \<Longrightarrow> find (\<lambda>x. f x = k) xs = Some y"
  by (induction xs) fastforce+

lemma delete_sessions_steady:
  assumes "steady env" "has_user (aw_db w) u"
  obtains w' where "in_db (DeleteUserSessions env i) w = (None, w')" "has_user (aw_db w') u"
    "ad_users (aw_db w') = ad_users (aw_db w)"
proof -
  let ?db = "(counted (aw_db w))\<lparr>ad_sessions := filter (\<lambda>se. se_user se \<noteq> i) (sessions_of w)\<rparr>"
  have "in_db (DeleteUserSessions env i) w = (None, w\<lparr>aw_db := ?db\<rparr>)"
    by (simp add: in_db_def DeleteUserSessions_def drop_sessions_def steady_stmt [OF assms(1)])
  moreover have "wf_tables ?db"
    using wf.step [OF table_step.sessions_dropped, of "counted (aw_db w)"] assms(2) by (simp add: has_user_def)
  ultimately show thesis using that assms(2) by (simp add: has_user_def)
qed

text \<open>A user an administrator has deactivated becomes active again without one: Forgot Password
  sends a link to an inactive user too, and setting a new password with it activates the user,
  with all groups.\<close>

theorem deactivated_user_reactivates:
  assumes "steady (sv_env s)" "has_user (aw_db w) u" "\<not> us_active u" "us_reset_expires u = None"
    and "sv_token s (ad_generated (aw_db w)) = Inr token" "\<forall>x \<in> set (ad_users (aw_db w)). us_reset x \<noteq> sv_sha s token"
    and "validatePassword password = None" "checkPasswordHistory s password (us_hash u) (us_history u) = None"
    and "\<And>n. \<exists>h. sv_hash s n password = Inr h" "\<And>m n. av_now (sv_env s) n \<le> av_now (sv_env s) m + PasswordResetExpiry"
  shows "\<exists>v. has_user (aw_db (run_auth_ops s [ORequestReset (us_email u), OConfirmReset token password] w)) v \<and>
    us_id v = us_id u \<and> us_active v \<and> us_groups v = us_groups u"
proof -
  let ?env = "sv_env s" and ?w = "w\<lparr>aw_db := (counted (aw_db w))\<lparr>ad_generated := Suc (ad_generated (aw_db w))\<rparr>\<rparr>"
  have admin: "\<not> active_admin u" using assms(3) by (simp add: active_admin_def)
  have u: "has_user (aw_db ?w) u" using assms(2) by simp
  note gr = has_user_groups [OF u]
  define r where "r = u\<lparr>us_reset := sv_sha s token, us_reset_expires := Some (now_at s ?w + PasswordResetExpiry)\<rparr>"
  have r: "us_id r = us_id u" "us_email r = us_email u" "us_groups r \<noteq> []" "active_admin u \<longrightarrow> active_admin r"
    using gr admin by (simp_all add: r_def)
  note up = steady_update [OF assms(1) u r]
  define db1 where "db1 = replaced (r\<lparr>us_updated := aclock ?env (aw_db ?w)\<rparr>) (counted (aw_db ?w))"
  define v where "v = stored ?env u r (aw_db ?w)"
  have v: "has_user db1 v" using up(2) by (simp add: db1_def v_def)
  obtain w1 where w1: "RequestPasswordReset s (us_email u) w = (None, w1)" "aw_db w1 = db1"
    using steady_lookups(3) [OF assms(1,2)] up(1) assms(4,5)
    by (simp add: RequestPasswordReset_def steady_in_db draw_eq reset_limited_def r_def db1_def now_at_def aclock_def)
  have only: "x = v" if "x \<in> set (ad_users db1)" "us_reset x = sv_sha s token" for x
  proof -
    have "us_id x = us_id v" using that assms(6)
      by (auto simp: db1_def replaced_def v_def stored_def r_def split: if_splits)
    moreover have "distinct (map us_id (ad_users db1))" using v by (simp add: has_user_def wf_tables_def)
    ultimately show ?thesis using that(1) v by (metis has_user_def distinct_map inj_onD)
  qed
  have fields: "us_reset v = sv_sha s token" "us_reset_expires v = Some (now_at s ?w + PasswordResetExpiry)" "us_id v = us_id u"
    "us_groups v = us_groups u" "us_hash v = us_hash u" "us_history v = us_history u" "\<not> us_active v"
    using assms(3) by (simp_all add: v_def stored_def r_def)
  have "find (\<lambda>x. us_reset x = sv_sha s token) (ad_users db1) = Some v"
    by (rule find_only [of _ _ us_reset, OF _ fields(1) only]) (use v in \<open>simp_all add: has_user_def\<close>)
  then have found: "in_db (GetUserByResetToken ?env (sv_sha s token)) w1 = (Inr v, w1\<lparr>aw_db := counted db1\<rparr>)"
    using w1(2) assms(1) by (simp add: in_db_def GetUserByResetToken_def steady_query scan_user_def)
  have "\<not> reset_expired (now_at s (w1\<lparr>aw_db := counted db1\<rparr>)) v"
    using assms(10) by (simp add: reset_expired_def fields(2) now_at_def aclock_def not_less)
  with found fields(1) have token: "validateResetToken s token w1 = (Inr v, w1\<lparr>aw_db := counted db1\<rparr>)"
    by (simp add: validateResetToken_def)
  let ?v = "v\<lparr>us_reset := [], us_reset_expires := None\<rparr>"
  obtain h where h: "sv_hash s (ad_generated db1) password = Inr h" using assms(9) by blast
  define v' where "v' = ?v\<lparr>us_history := (if us_hash v \<noteq> [] then addToPasswordHistory (us_hash v) (us_history v) else us_history v),
    us_hash := h\<rparr>"
  define w2 where "w2 = w1\<lparr>aw_db := (counted db1)\<lparr>ad_generated := Suc (ad_generated db1)\<rparr>\<rparr>"
  have "checkPasswordHistory s password (us_hash ?v) (us_history ?v) = None" using assms(8) fields(5,6) by simp
  then have process: "processPasswordReset s ?v password (w1\<lparr>aw_db := counted db1\<rparr>) = (Inr v', w2)"
    using assms(7) h by (simp add: processPasswordReset_def hash_password_def draw_eq v'_def w2_def)
  have v': "has_user (aw_db w2) v" "us_id v' = us_id v" "us_email v' = us_email v" "us_groups v' = us_groups v"
    using v by (simp_all add: w2_def v'_def)
  obtain w3 where w3: "in_db (DeleteUserSessions ?env (us_id v')) w2 = (None, w3)" "has_user (aw_db w3) v"
    using delete_sessions_steady [OF assms(1) v'(1)] by blast
  let ?a = "v'\<lparr>us_active := True\<rparr>"
  have a: "us_id ?a = us_id v" "us_email ?a = us_email v" "us_groups ?a \<noteq> []" "active_admin v \<longrightarrow> active_admin ?a"
    using v'(2-4) gr fields(4,7) by (simp_all add: active_admin_def)
  note final = steady_update [OF assms(1) w3(2) a]
  have "aw_db (run_auth_op s (OConfirmReset token password) w1) = replaced (?a\<lparr>us_updated := aclock ?env (aw_db w3)\<rparr>) (counted (aw_db w3))"
    using token process v' w3(1) final(1) by (simp add: ConfirmPasswordReset_def Let_def in_db_def notifyPasswordChange_def)
  with final(2) w1(1) have "has_user (aw_db (run_auth_ops s [ORequestReset (us_email u), OConfirmReset token password] w)) (stored ?env v ?a (aw_db w3))"
    by simp
  then show ?thesis using v'(2,4) fields(3,4) by (intro exI) (auto simp: stored_def)
qed

lemma deactivated_user_reactivates_witness:
  "\<exists>v. has_user (aw_db (run_auth_ops demo_service [ORequestReset ''bob@x'', OConfirmReset ''t'' ''Tr0ub4dor&3xyz'']
      (demo_with (demo_bob False None)))) v \<and> us_id v = ''bob'' \<and> us_active v"
proof -
  let ?s = demo_service and ?w = "demo_with (demo_bob False None)" and ?p = "''Tr0ub4dor&3xyz''"
  have c: "validatePassword ?p = None" "checkPasswordHistory ?s ?p (us_hash (demo_bob False None)) (us_history (demo_bob False None)) = None"
    unfolding demo_bob_fields by code_simp+
  have t: "sv_token ?s (ad_generated (aw_db ?w)) = Inr ''t''" "\<forall>x \<in> set (ad_users (aw_db ?w)). us_reset x \<noteq> sv_sha ?s ''t''"
    by (simp_all add: demo_service_def demo_with_def demo_aworld_def demo_tables_def demo_user_def fresh_user_def)
  have n: "\<exists>h. sv_hash ?s n ?p = Inr h" "av_now (sv_env ?s) n \<le> av_now (sv_env ?s) m + PasswordResetExpiry" for m n
    by (simp_all add: demo_service_def demo_aenv_def PasswordResetExpiry_def hour_ns_def minute_ns_def second_ns_def)
  note run = deactivated_user_reactivates [OF demo_steady demo_has_user _ _ t c n, unfolded demo_bob_fields]
  show ?thesis using run by (fastforce simp only: simp_thms)
qed

end
