(* ===== verification/Api_Types.thy ===== *)
theory Api_Types
  imports Purchase_Messages Auth_Keys
begin

text \<open>
  The HTTP API around purchases and accounts (\<open>internal/api\<close>): its errors
  (\<open>handler_router.go\<close>), a request and the principal it was authenticated as, the handler with its
  collaborators, and the world it acts on: the purchase manager's and the authentication
  service's, side by side, since every handler calls both. Both services see the same PostgreSQL
  server, each through its own tables.

  A request holds what the handlers read of it. The JSON decoders of a body are fields of the
  handler; the principal the middleware puts into the context is a field of the request.
\<close>

section \<open>Errors and responses\<close>

record payment_adjustment =
  pj_index :: nat
  pj_provider :: string
  pj_service :: string
  pj_requested :: string
  pj_applied :: string
  pj_reason :: string

datatype jval = JStr string | JInt int | JFloat f64 | JBool bool | JRecs "recommendation list"
  | JAdjustments "payment_adjustment list"

type_synonym response = "(string \<times> jval) list"

text \<open>\<open>Within p e\<close> is \<open>fmt.Errorf(p + "%w", e)\<close>.\<close>

datatype api_error = ClientError int string response | NotFoundError | Internal goerr | Within string api_error

definition NewClientError :: "int \<Rightarrow> string \<Rightarrow> api_error" where
  "NewClientError code message = ClientError code message []"

definition errNotFound :: api_error where "errNotFound = NotFoundError"

fun api_text :: "api_error \<Rightarrow> string" where
  "api_text (ClientError code message details) = message"
| "api_text NotFoundError = ''not found''"
| "api_text (Internal e) = err_string e"
| "api_text (Within p e) = p @ api_text e"

fun IsNotFoundError :: "api_error \<Rightarrow> bool" where
  "IsNotFoundError NotFoundError = True"
| "IsNotFoundError (Within p e) = IsNotFoundError e"
| "IsNotFoundError (ClientError code message details) = False"
| "IsNotFoundError (Internal e) = False"

fun IsClientError :: "api_error \<Rightarrow> (int \<times> string \<times> response) option" where
  "IsClientError (ClientError code message details) = Some (code, message, details)"
| "IsClientError (Within p e) = IsClientError e"
| "IsClientError NotFoundError = None"
| "IsClientError (Internal e) = None"

text \<open>The direct assertion: a wrapped 403 is none.\<close>

definition isPermissionDenied :: "api_error \<Rightarrow> bool" where
  "isPermissionDenied e = (case e of ClientError code message details \<Rightarrow> code = 403 | _ \<Rightarrow> False)"

definition handleRequestError :: "api_error \<Rightarrow> int \<times> response" where
  "handleRequestError e =
    (if IsNotFoundError e then (404, [(''error'', JStr ''Not found'')])
     else case IsClientError e of
       Some (code, message, details) \<Rightarrow>
         (code, (''error'', JStr message) # filter (\<lambda>(k, _). k \<noteq> ''error'') details)
     | None \<Rightarrow> (500, [(''error'', JStr ''Internal server error'')]))"

definition internal :: "string \<Rightarrow> goerr \<Rightarrow> api_error" where
  "internal p e = Internal (wrap_err p e)"

section \<open>Verbs of the purchase endpoints\<close>

text \<open>The further verbs of \<open>internal/auth/types.go\<close>.\<close>

definition ActionApproveOwn :: string where [go_consts]: "ActionApproveOwn = ''approve-own''"
definition ActionCancelAny :: string where [go_consts]: "ActionCancelAny = ''cancel-any''"
definition ActionExecuteOwn :: string where [go_consts]: "ActionExecuteOwn = ''execute-own''"
definition ActionExecuteAny :: string where [go_consts]: "ActionExecuteAny = ''execute-any''"
definition ActionUpdateAny :: string where [go_consts]: "ActionUpdateAny = ''update-any''"
definition ActionRevokeAny :: string where [go_consts]: "ActionRevokeAny = ''revoke-any''"

section \<open>Requests, sessions, principals\<close>

record api_session =
  sn_user :: string
  sn_email :: string
  sn_key :: string

datatype principal_kind = PrincipalAdminAPIKey | PrincipalUserAPIKey | PrincipalSession

record principal =
  pl_kind :: principal_kind
  pl_session :: "api_session option"
  pl_user :: string
  pl_email :: string
  pl_key :: string

record http_request =
  rq_method :: string
  rq_path :: string
  rq_headers :: "(string \<times> string) list"
  rq_query :: "(string \<times> string) list"
  rq_domain :: string
  rq_ip :: string
  rq_body :: string
  rq_principal :: "principal option"

definition header :: "http_request \<Rightarrow> string \<Rightarrow> string" where
  "header req name = (case map_of (rq_headers req) name of None \<Rightarrow> [] | Some v \<Rightarrow> v)"

definition query_param :: "http_request \<Rightarrow> string \<Rightarrow> string" where
  "query_param req name = (case map_of (rq_query req) name of None \<Rightarrow> [] | Some v \<Rightarrow> v)"

text \<open>The first of several headers that is present.\<close>

fun first_header :: "http_request \<Rightarrow> string list \<Rightarrow> string" where
  "first_header req [] = []"
| "first_header req (n # ns) = (if header req n = [] then first_header req ns else header req n)"

definition extractAPIKey :: "http_request \<Rightarrow> string" where
  "extractAPIKey req = first_header req [''x-api-key'', ''X-API-Key'']"

definition extractBearerToken :: "http_request \<Rightarrow> string" where
  "extractBearerToken req =
    (let h = first_header req [''x-authorization'', ''X-Authorization'', ''authorization'', ''Authorization''] in
     if has_prefix ''bearer '' (to_lower h) then drop 7 h else [])"

definition extractCSRFToken :: "http_request \<Rightarrow> string" where
  "extractCSRFToken req = first_header req [''x-csrf-token'', ''X-CSRF-Token'']"

section \<open>The handler and its world\<close>

record execute_request =
  xq_recs :: "recommendation list"
  xq_capacity :: int
  xq_mode :: string

text \<open>The fields of \<open>email.NotificationData\<close> the purchase handlers set.\<close>

record notice_rec =
  nr_service :: string
  nr_type :: string
  nr_engine :: string
  nr_region :: string
  nr_count :: int
  nr_savings :: f64
  nr_term :: int
  nr_payment :: string
  nr_upfront :: f64

record notice =
  nt_dashboard :: string
  nt_execution :: string
  nt_token :: string
  nt_revoke_token :: string
  nt_savings :: f64
  nt_upfront :: f64
  nt_recs :: "notice_rec list"
  nt_to :: string
  nt_cc :: "string list"
  nt_approvers :: "string list"
  nt_window :: string
  nt_revoke_url :: string
  nt_requested_by :: string
  nt_requested_at :: string
  nt_executed_by :: string
  nt_executed_at :: string
  nt_education :: string

definition empty_notice :: notice where
  "empty_notice = \<lparr>nt_dashboard = [], nt_execution = [], nt_token = [], nt_revoke_token = [], nt_savings = Fin 0,
     nt_upfront = Fin 0, nt_recs = [], nt_to = [], nt_cc = [], nt_approvers = [], nt_window = [], nt_revoke_url = [],
     nt_requested_by = [], nt_requested_at = [], nt_executed_by = [], nt_executed_at = [], nt_education = []\<rparr>"

record 'c notifier =
  nf_approval :: "notice \<Rightarrow> 'c \<Rightarrow> goerr option \<times> 'c"
  nf_executed :: "notice \<Rightarrow> 'c \<Rightarrow> goerr option \<times> 'c"
  nf_scheduled :: "notice \<Rightarrow> 'c \<Rightarrow> goerr option \<times> 'c"

text \<open>The reservations API of Azure: its clients, a refund quote, the return itself, and the status
  and code of an error that came from its service (\<open>errors.As\<close> to \<open>azcore.ResponseError\<close>).\<close>

record refund_quote =
  qt_session :: string
  qt_amount :: "f64 option"
  qt_currency :: string

record 'c azure_returns =
  az_credential :: "goerr option"
  az_calc_client :: "goerr option"
  az_return_client :: "goerr option"
  az_calculate :: "string \<Rightarrow> string \<Rightarrow> int \<Rightarrow> 'c \<Rightarrow> (goerr + refund_quote) \<times> 'c"
  az_return :: "string \<Rightarrow> string \<Rightarrow> int \<Rightarrow> string \<Rightarrow> 'c \<Rightarrow> goerr option \<times> 'c"
  az_response :: "goerr \<Rightarrow> (int \<times> string) option"

record ('p, 'c, 'd) handler =
  hd_purchases :: "('p, 'c) manager"
  hd_auth :: "'d auth_service option"
  hd_key :: string
  hd_mail :: "'c notifier option"
  hd_dashboard :: string
  hd_decode :: "string \<Rightarrow> execute_request option"
  hd_decode_refund :: "string \<Rightarrow> goerr + f64 option"
  hd_azure :: "'c azure_returns"

record ('c, 'd) api_world =
  hw_purchases :: "'c pworld"
  hw_auth :: "'d aworld"

definition in_purchases :: "('c pworld \<Rightarrow> 'r \<times> 'c pworld) \<Rightarrow> ('c, 'd) api_world \<Rightarrow> 'r \<times> ('c, 'd) api_world" where
  "in_purchases f w = (case f (hw_purchases w) of (r, p) \<Rightarrow> (r, w\<lparr>hw_purchases := p\<rparr>))"

definition in_auth :: "('d aworld \<Rightarrow> 'r \<times> 'd aworld) \<Rightarrow> ('c, 'd) api_world \<Rightarrow> 'r \<times> ('c, 'd) api_world" where
  "in_auth f w = (case f (hw_auth w) of (r, a) \<Rightarrow> (r, w\<lparr>hw_auth := a\<rparr>))"

abbreviation hd_env :: "('p, 'c, 'd) handler \<Rightarrow> pdb_env" where
  "hd_env h \<equiv> mg_env (hd_purchases h)"

definition in_store :: "(pdb \<Rightarrow> 'r \<times> pdb) \<Rightarrow> ('c, 'd) api_world \<Rightarrow> 'r \<times> ('c, 'd) api_world" where
  "in_store f = in_purchases (on_db f)"

definition api_now :: "('p, 'c, 'd) handler \<Rightarrow> ('c, 'd) api_world \<Rightarrow> gotime" where
  "api_now h w = now_in (hd_purchases h) (hw_purchases w)"

section \<open>Identifiers\<close>

definition hex_char :: "char \<Rightarrow> bool" where
  "hex_char c = (let n = of_char c :: nat in 48 \<le> n \<and> n \<le> 57 \<or> 97 \<le> n \<and> n \<le> 102 \<or> 65 \<le> n \<and> n \<le> 70)"

definition is_uuid :: "string \<Rightarrow> bool" where
  "is_uuid s = (length s = 36 \<and> list_all (\<lambda>i. if i \<in> {8, 13, 18, 23} then s ! i = CHR ''-'' else hex_char (s ! i)) [0..<36])"

definition validateUUID :: "string \<Rightarrow> api_error option" where
  "validateUUID i = (if is_uuid i then None else Some (NewClientError 400 ''invalid ID format: must be a valid UUID''))"

definition validUUIDPtrOrNil :: "string option \<Rightarrow> string option" where
  "validUUIDPtrOrNil p = (case p of None \<Rightarrow> None | Some i \<Rightarrow> if is_uuid i then Some i else None)"

definition resolveCreatorUserID :: "api_session \<Rightarrow> string option" where
  "resolveCreatorUserID s = (if is_uuid (sn_user s) then Some (sn_user s) else None)"

definition fourEyesActorIdentity :: "api_session \<Rightarrow> string" where
  "fourEyesActorIdentity s = (if sn_email s \<noteq> [] then sn_email s else sn_user s)"

end
