(* ===== verification/Api_Access.thy ===== *)
theory Api_Access
  imports Api_Types
begin

text \<open>
  Who a request is and what it may do: the authentication of \<open>middleware.go\<close>, the permission
  gates of \<open>handler.go\<close> and the account scopes of \<open>scoping.go\<close>. Counting the requests of an
  API key, which runs in the background, and log lines are left out. \<open>h.auth\<close> may be nil.
\<close>

section \<open>Principals\<close>

definition api_session_of :: "session \<Rightarrow> api_session" where
  "api_session_of s = \<lparr>sn_user = se_user s, sn_email = se_email s, sn_key = []\<rparr>"

definition admin_session :: api_session where
  "admin_session = \<lparr>sn_user = AdminAPIKeyActorID, sn_email = [], sn_key = []\<rparr>"

text \<open>The adapter of \<open>internal/server/app.go\<close>.\<close>

definition validate_session :: "'d auth_service \<Rightarrow> string \<Rightarrow> ('c, 'd) api_world \<Rightarrow> (goerr + api_session) \<times> ('c, 'd) api_world" where
  "validate_session s token w =
    (case in_auth (ValidateSession s token) w of
       (Inl e, w) \<Rightarrow> (Inl e, w) | (Inr se, w) \<Rightarrow> (Inr (api_session_of se), w))"

definition checkAdminAPIKey :: "('p, 'c, 'd) handler \<Rightarrow> string \<Rightarrow> bool" where
  "checkAdminAPIKey h key = (key \<noteq> [] \<and> hd_key h \<noteq> [] \<and> key = hd_key h)"

definition principalFromUserAPIKey :: "'d auth_service \<Rightarrow> string \<Rightarrow> ('c, 'd) api_world \<Rightarrow> principal option \<times> ('c, 'd) api_world" where
  "principalFromUserAPIKey s key w =
    (if key = [] then (None, w)
     else case in_auth (ValidateUserAPIKey s key) w of
       (Inl _, w) \<Rightarrow> (None, w)
     | (Inr (k, u), w) \<Rightarrow>
       (if ak_id k = [] then None
        else Some \<lparr>pl_kind = PrincipalUserAPIKey, pl_session = None, pl_user = us_id u, pl_email = us_email u, pl_key = ak_id k\<rparr>, w))"

definition principalFromBearerToken :: "'d auth_service \<Rightarrow> http_request \<Rightarrow> ('c, 'd) api_world \<Rightarrow> principal option \<times> ('c, 'd) api_world" where
  "principalFromBearerToken s req w =
    (let token = extractBearerToken req in
     if token = [] then (None, w)
     else case validate_session s token w of
       (Inl _, w) \<Rightarrow> (None, w)
     | (Inr sn, w) \<Rightarrow>
       (Some \<lparr>pl_kind = PrincipalSession, pl_session = Some sn, pl_user = sn_user sn, pl_email = sn_email sn, pl_key = []\<rparr>, w))"

definition authenticatePrincipal :: "('p, 'c, 'd) handler \<Rightarrow> http_request \<Rightarrow> ('c, 'd) api_world \<Rightarrow> (api_error + principal) \<times> ('c, 'd) api_world" where
  "authenticatePrincipal h req w =
    (let key = extractAPIKey req; refused = NewClientError 401 ''authentication required'' in
     if checkAdminAPIKey h key then
       (Inr \<lparr>pl_kind = PrincipalAdminAPIKey, pl_session = None, pl_user = [], pl_email = [], pl_key = []\<rparr>, w)
     else case hd_auth h of
       None \<Rightarrow> (Inl refused, w)
     | Some s \<Rightarrow>
       (case principalFromUserAPIKey s key w of (up, w) \<Rightarrow>
        case principalFromBearerToken s req w of (sp, w) \<Rightarrow>
        (case (up, sp) of
           (Some u, Some p) \<Rightarrow> Inr (u\<lparr>pl_session := pl_session p\<rparr>)
         | (Some u, None) \<Rightarrow> Inr u
         | (None, Some p) \<Rightarrow> Inr p
         | (None, None) \<Rightarrow> Inl refused, w)))"

text \<open>The best effort of the public endpoints.\<close>

definition tryGetSession :: "('p, 'c, 'd) handler \<Rightarrow> http_request \<Rightarrow> ('c, 'd) api_world \<Rightarrow> api_session option \<times> ('c, 'd) api_world" where
  "tryGetSession h req w =
    (case hd_auth h of
       None \<Rightarrow> (None, w)
     | Some s \<Rightarrow>
       let bearer = extractBearerToken req in
       if bearer = [] then (None, w)
       else case validate_session s bearer w of
         (Inl _, w) \<Rightarrow> (None, w) | (Inr sn, w) \<Rightarrow> (Some sn, w))"

definition tryResolveActorEmail :: "('p, 'c, 'd) handler \<Rightarrow> http_request \<Rightarrow> ('c, 'd) api_world \<Rightarrow> string \<times> ('c, 'd) api_world" where
  "tryResolveActorEmail h req w =
    (case tryGetSession h req w of (None, w) \<Rightarrow> ([], w) | (Some sn, w) \<Rightarrow> (sn_email sn, w))"

definition no_auth :: goerr where "no_auth = Errorf ''authentication service not configured'' []"

text \<open>\<open>requireSession\<close> is \<open>requireSessionPrincipal\<close>.\<close>

definition requireSession :: "('p, 'c, 'd) handler \<Rightarrow> http_request \<Rightarrow> ('c, 'd) api_world \<Rightarrow> (api_error + api_session) \<times> ('c, 'd) api_world" where
  "requireSession h req w =
    (case rq_principal req of
       Some p \<Rightarrow>
         (case pl_session p of
            None \<Rightarrow> Inl (NewClientError 401 ''session authentication required'') | Some sn \<Rightarrow> Inr sn, w)
     | None \<Rightarrow>
       (case hd_auth h of
          None \<Rightarrow> (Inl (Internal no_auth), w)
        | Some s \<Rightarrow>
          let token = extractBearerToken req in
          if token = [] then (Inl (NewClientError 401 ''no authorization token provided''), w)
          else case validate_session s token w of
            (Inl _, w) \<Rightarrow> (Inl (NewClientError 401 ''invalid session''), w) | (Inr sn, w) \<Rightarrow> (Inr sn, w)))"

section \<open>Cross-site requests\<close>

definition apiKeyBypassCSRF :: "('p, 'c, 'd) handler \<Rightarrow> 'd auth_service \<Rightarrow> http_request \<Rightarrow> ('c, 'd) api_world \<Rightarrow> bool \<times> ('c, 'd) api_world" where
  "apiKeyBypassCSRF h s req w =
    (case rq_principal req of
       Some p \<Rightarrow> (pl_kind p = PrincipalAdminAPIKey \<or> pl_kind p = PrincipalUserAPIKey, w)
     | None \<Rightarrow>
       let key = extractAPIKey req in
       if key = [] then (False, w)
       else if checkAdminAPIKey h key then (True, w)
       else case in_auth (ValidateUserAPIKey s key) w of (r, w) \<Rightarrow> (\<not> isl r, w))"

definition validateCSRF :: "('p, 'c, 'd) handler \<Rightarrow> http_request \<Rightarrow> ('c, 'd) api_world \<Rightarrow> goerr option \<times> ('c, 'd) api_world" where
  "validateCSRF h req w =
    (case hd_auth h of
       None \<Rightarrow> (Some no_auth, w)
     | Some s \<Rightarrow>
       (case apiKeyBypassCSRF h s req w of
          (True, w) \<Rightarrow> (None, w)
        | (False, w) \<Rightarrow>
          let token = extractBearerToken req in
          if token = [] then (Some (Errorf ''no session token for CSRF validation'' []), w)
          else in_auth (ValidateCSRFToken s token (extractCSRFToken req)) w))"

definition public_prefixes :: "string list" where
  "public_prefixes = [''/health'', ''/api/health'', ''/api/info'', ''/api/purchases/approve/'', ''/api/purchases/cancel/'',
     ''/api/purchases/revoke/'', ''/api/ri-exchange/approve/'', ''/api/ri-exchange/reject/'', ''/api/auth/login'',
     ''/api/auth/check-admin'', ''/api/auth/setup-admin'', ''/api/auth/forgot-password'', ''/api/auth/reset-password'',
     ''/api/register/'', ''/api/notifications/unsubscribe'', ''/docs'', ''/api/docs'']"

definition isPublicEndpoint :: "string \<Rightarrow> bool" where
  "isPublicEndpoint path =
    (list_ex (\<lambda>p. has_prefix p path) public_prefixes \<or> path = ''/version'' \<or> path = ''/api/register'')"

definition requiresCSRFValidation :: "http_request \<Rightarrow> bool" where
  "requiresCSRFValidation req =
    (if rq_method req \<notin> {''POST'', ''PUT'', ''DELETE''} then False
     else if rq_path req \<in> {''/api/auth/login'', ''/api/auth/setup-admin'', ''/api/auth/forgot-password'',
       ''/api/auth/reset-password'', ''/api/register''} then False
     else if list_ex (\<lambda>p. has_prefix p (rq_path req)) [''/api/purchases/approve/'', ''/api/purchases/cancel/'',
       ''/api/ri-exchange/approve/'', ''/api/ri-exchange/reject/''] then extractBearerToken req \<noteq> []
     else True)"

text \<open>The request with its principal, or the status and body of the refusal.\<close>

definition validateSecurityContext :: "('p, 'c, 'd) handler \<Rightarrow> http_request \<Rightarrow> ('c, 'd) api_world \<Rightarrow>
    (int \<times> response + http_request) \<times> ('c, 'd) api_world" where
  "validateSecurityContext h req w =
    (if isPublicEndpoint (rq_path req) then (Inr req, w)
     else case authenticatePrincipal h req w of
       (Inl _, w) \<Rightarrow> (Inl (401, [(''error'', JStr ''Unauthorized'')]), w)
     | (Inr p, w) \<Rightarrow>
       let req = req\<lparr>rq_principal := Some p\<rparr> in
       if requiresCSRFValidation req then
         (case validateCSRF h req w of
            (Some _, w) \<Rightarrow> (Inl (403, [(''error'', JStr ''CSRF validation failed'')]), w)
          | (None, w) \<Rightarrow> (Inr req, w))
       else (Inr req, w))"

section \<open>Permission gates\<close>

definition HasPermissionAPI :: "'d auth_service \<Rightarrow> string \<Rightarrow> string \<Rightarrow> string \<Rightarrow> ('c, 'd) api_world \<Rightarrow> (goerr + bool) \<times> ('c, 'd) api_world" where
  "HasPermissionAPI s u action resource = in_auth (in_db (HasPermission (sv_env s) u action resource None))"

definition check_failed :: "goerr \<Rightarrow> api_error" where
  "check_failed e = internal ''permission check failed: '' e"

definition denied_verb :: "string \<Rightarrow> string \<Rightarrow> api_error" where
  "denied_verb action resource = NewClientError 403 (sprintf ''permission denied: requires %s on %s'' [FStr action, FStr resource])"

definition requireSessionPermission :: "'d auth_service \<Rightarrow> api_session option \<Rightarrow> string \<Rightarrow> string \<Rightarrow> ('c, 'd) api_world \<Rightarrow>
    (api_error + api_session) \<times> ('c, 'd) api_world" where
  "requireSessionPermission s sn action resource w =
    (case sn of
       None \<Rightarrow> (Inl (NewClientError 401 ''invalid session''), w)
     | Some sn \<Rightarrow>
       if sn_user sn = [] then (Inl (NewClientError 401 ''invalid session''), w)
       else case HasPermissionAPI s (sn_user sn) action resource w of
         (Inl e, w) \<Rightarrow> (Inl (check_failed e), w)
       | (Inr has, w) \<Rightarrow> (if has then Inr sn else Inl (denied_verb action resource), w))"

text \<open>\<open>None\<close> falls through to the session.\<close>

definition authorizeAPIKey :: "'d auth_service \<Rightarrow> string \<Rightarrow> string \<Rightarrow> string \<Rightarrow> ('c, 'd) api_world \<Rightarrow>
    (api_error + api_session option) \<times> ('c, 'd) api_world" where
  "authorizeAPIKey s key action resource w =
    (if key = [] then (Inr None, w)
     else case in_auth (HasAPIKeyPermissionAPI s key action resource) w of
       (Inl _, w) \<Rightarrow> (Inr None, w)
     | (Inr (u, k, has), w) \<Rightarrow>
       (if \<not> has then Inl (denied_verb action resource)
        else if u = [] \<or> k = [] then Inl (Internal (Errorf ''API key permission check returned incomplete identity'' []))
        else Inr (Some \<lparr>sn_user = u, sn_email = [], sn_key = k\<rparr>), w))"

definition key_invalid :: api_error where
  "key_invalid = NewClientError 401 ''API key permission validation failed''"

definition requirePrincipalPermission :: "'d auth_service \<Rightarrow> http_request \<Rightarrow> principal \<Rightarrow> string \<Rightarrow> string \<Rightarrow> ('c, 'd) api_world \<Rightarrow>
    (api_error + api_session) \<times> ('c, 'd) api_world" where
  "requirePrincipalPermission s req p action resource w =
    (case pl_kind p of
       PrincipalAdminAPIKey \<Rightarrow> (Inr admin_session, w)
     | PrincipalUserAPIKey \<Rightarrow>
       (case authorizeAPIKey s (extractAPIKey req) action resource w of
          (Inl e, w) \<Rightarrow> (Inl e, w)
        | (Inr None, w) \<Rightarrow> (Inl key_invalid, w)
        | (Inr (Some sn), w) \<Rightarrow> (Inr sn, w))
     | PrincipalSession \<Rightarrow> requireSessionPermission s (pl_session p) action resource w)"

text \<open>An administrator's key needs no service; a principal of the other kinds exists only with one.\<close>

definition requirePermission :: "('p, 'c, 'd) handler \<Rightarrow> http_request \<Rightarrow> string \<Rightarrow> string \<Rightarrow> ('c, 'd) api_world \<Rightarrow>
    (api_error + api_session) \<times> ('c, 'd) api_world" where
  "requirePermission h req action resource w =
    (case (rq_principal req, hd_auth h) of
       (Some p, Some s) \<Rightarrow> requirePrincipalPermission s req p action resource w
     | (Some p, None) \<Rightarrow>
       (if pl_kind p = PrincipalAdminAPIKey then Inr admin_session else Inl (Internal no_auth), w)
     | (None, auth) \<Rightarrow>
       if checkAdminAPIKey h (extractAPIKey req) then (Inr admin_session, w)
       else (case auth of
         None \<Rightarrow> (Inl (Internal no_auth), w)
       | Some s \<Rightarrow>
         (case authorizeAPIKey s (extractAPIKey req) action resource w of
            (Inl e, w) \<Rightarrow> (Inl e, w)
          | (Inr (Some sn), w) \<Rightarrow> (Inr sn, w)
          | (Inr None, w) \<Rightarrow>
            let token = extractBearerToken req in
            if token = [] then (Inl (NewClientError 401 ''no authorization token provided''), w)
            else (case validate_session s token w of
                (Inl _, w) \<Rightarrow> (Inl (NewClientError 401 ''invalid session''), w)
              | (Inr sn, w) \<Rightarrow> requireSessionPermission s (Some sn) action resource w))))"

text \<open>The gates that accept one of several verbs.\<close>

definition denied_verbs :: "string list \<Rightarrow> string \<Rightarrow> api_error" where
  "denied_verbs verbs resource =
    NewClientError 403 (sprintf ''permission denied: requires one of %v on %s'' [FStrs verbs, FStr resource])"

fun any_verb :: "'d auth_service \<Rightarrow> string \<Rightarrow> string list \<Rightarrow> string \<Rightarrow> ('c, 'd) api_world \<Rightarrow> (api_error + bool) \<times> ('c, 'd) api_world" where
  "any_verb s u [] resource w = (Inr False, w)"
| "any_verb s u (v # vs) resource w =
    (case HasPermissionAPI s u v resource w of
       (Inl e, w) \<Rightarrow> (Inl (check_failed e), w)
     | (Inr True, w) \<Rightarrow> (Inr True, w)
     | (Inr False, w) \<Rightarrow> any_verb s u vs resource w)"

definition requireAnySessionPermission :: "'d auth_service \<Rightarrow> api_session option \<Rightarrow> string list \<Rightarrow> string \<Rightarrow> ('c, 'd) api_world \<Rightarrow>
    (api_error + api_session) \<times> ('c, 'd) api_world" where
  "requireAnySessionPermission s sn verbs resource w =
    (case sn of
       None \<Rightarrow> (Inl (NewClientError 401 ''invalid session''), w)
     | Some sn \<Rightarrow>
       if sn_user sn = [] then (Inl (NewClientError 401 ''invalid session''), w)
       else case any_verb s (sn_user sn) verbs resource w of
         (Inl e, w) \<Rightarrow> (Inl e, w)
       | (Inr has, w) \<Rightarrow> (if has then Inr sn else Inl (denied_verbs verbs resource), w))"

fun key_verbs :: "'d auth_service \<Rightarrow> string \<Rightarrow> string list \<Rightarrow> string list \<Rightarrow> string \<Rightarrow> ('c, 'd) api_world \<Rightarrow>
    (api_error + api_session option) \<times> ('c, 'd) api_world" where
  "key_verbs s key all [] resource w = (Inl (denied_verbs all resource), w)"
| "key_verbs s key all (v # vs) resource w =
    (case in_auth (HasAPIKeyPermissionAPI s key v resource) w of
       (Inl _, w) \<Rightarrow> (Inr None, w)
     | (Inr (u, k, False), w) \<Rightarrow> key_verbs s key all vs resource w
     | (Inr (u, k, True), w) \<Rightarrow>
       (if u = [] \<or> k = [] then Inl (Internal (Errorf ''API key permission check returned incomplete identity'' []))
        else Inr (Some \<lparr>sn_user = u, sn_email = [], sn_key = k\<rparr>), w))"

definition authorizeAPIKeyAny :: "'d auth_service \<Rightarrow> string \<Rightarrow> string list \<Rightarrow> string \<Rightarrow> ('c, 'd) api_world \<Rightarrow>
    (api_error + api_session option) \<times> ('c, 'd) api_world" where
  "authorizeAPIKeyAny s key verbs resource w =
    (if key = [] then (Inr None, w) else key_verbs s key verbs verbs resource w)"

definition requireAnyPrincipalPermission :: "'d auth_service \<Rightarrow> http_request \<Rightarrow> principal \<Rightarrow> string list \<Rightarrow> string \<Rightarrow> ('c, 'd) api_world \<Rightarrow>
    (api_error + api_session) \<times> ('c, 'd) api_world" where
  "requireAnyPrincipalPermission s req p verbs resource w =
    (case pl_kind p of
       PrincipalAdminAPIKey \<Rightarrow> (Inr admin_session, w)
     | PrincipalUserAPIKey \<Rightarrow>
       (case authorizeAPIKeyAny s (extractAPIKey req) verbs resource w of
          (Inl e, w) \<Rightarrow> (Inl e, w)
        | (Inr None, w) \<Rightarrow> (Inl key_invalid, w)
        | (Inr (Some sn), w) \<Rightarrow> (Inr sn, w))
     | PrincipalSession \<Rightarrow> requireAnySessionPermission s (pl_session p) verbs resource w)"

definition requireAnyPermission :: "('p, 'c, 'd) handler \<Rightarrow> http_request \<Rightarrow> string list \<Rightarrow> string \<Rightarrow> ('c, 'd) api_world \<Rightarrow>
    (api_error + api_session) \<times> ('c, 'd) api_world" where
  "requireAnyPermission h req verbs resource w =
    (case (rq_principal req, hd_auth h) of
       (Some p, Some s) \<Rightarrow> requireAnyPrincipalPermission s req p verbs resource w
     | (Some p, None) \<Rightarrow>
       (if pl_kind p = PrincipalAdminAPIKey then Inr admin_session else Inl (Internal no_auth), w)
     | (None, auth) \<Rightarrow>
       if checkAdminAPIKey h (extractAPIKey req) then (Inr admin_session, w)
       else (case auth of
         None \<Rightarrow> (Inl (Internal no_auth), w)
       | Some s \<Rightarrow>
         (case authorizeAPIKeyAny s (extractAPIKey req) verbs resource w of
            (Inl e, w) \<Rightarrow> (Inl e, w)
          | (Inr (Some sn), w) \<Rightarrow> (Inr sn, w)
          | (Inr None, w) \<Rightarrow>
            let token = extractBearerToken req in
            if token = [] then (Inl (NewClientError 401 ''no authorization token provided''), w)
            else (case validate_session s token w of
                (Inl _, w) \<Rightarrow> (Inl (NewClientError 401 ''invalid session''), w)
              | (Inr sn, w) \<Rightarrow> requireAnySessionPermission s (Some sn) verbs resource w))))"

definition unattributedAccountConstraint :: string where "unattributedAccountConstraint = ''unattributed''"

definition exceeds_constraints :: "string \<Rightarrow> api_error" where
  "exceeds_constraints resource = NewClientError 403
     (sprintf ''permission denied: this request exceeds the constraints configured on your %s permission for %s''
        [FStr ActionExecute, FStr resource])"

definition requirePermissionConstraints :: "('p, 'c, 'd) handler \<Rightarrow> api_session \<Rightarrow> string \<Rightarrow> permission_constraints list \<Rightarrow>
    ('c, 'd) api_world \<Rightarrow> api_error option \<times> ('c, 'd) api_world" where
  "requirePermissionConstraints h sn resource sets w =
    (if sn_user sn = AdminAPIKeyActorID then (None, w)
     else case hd_auth h of
       None \<Rightarrow> (Some (Internal no_auth), w)
     | Some s \<Rightarrow>
       (case (if sn_key sn \<noteq> [] then in_auth (HasAPIKeyPermissionForConstraintsAPI s (sn_key sn) (sn_user sn) ActionExecute resource sets) w
              else in_auth (in_db (HasPermissionForConstraintsAPI (sv_env s) (sn_user sn) ActionExecute resource sets)) w) of
          (Inl e, w) \<Rightarrow> (Some (internal ''permission constraint check failed: '' e), w)
        | (Inr has, w) \<Rightarrow> (if has then None else Some (exceeds_constraints resource), w)))"

section \<open>Account scopes\<close>

definition getAccountScope :: "('p, 'c, 'd) handler \<Rightarrow> api_session \<Rightarrow> ('c, 'd) api_world \<Rightarrow> (goerr + account_scope) \<times> ('c, 'd) api_world" where
  "getAccountScope h sn w =
    (if sn_user sn = AdminAPIKeyActorID then (Inr UnrestrictedScope, w)
     else case hd_auth h of
       None \<Rightarrow> (Inl (Errorf ''authentication service not configured: cannot establish account scope'' []), w)
     | Some s \<Rightarrow>
       (case in_auth (in_db (ResolveAllowedAccounts (sv_env s) (sn_user sn))) w of
          (Inl e, w) \<Rightarrow> (Inl e, w)
        | (Inr accounts, w) \<Rightarrow> (Inr (ScopeFromLegacyList accounts), w)))"

definition scope_failed :: "goerr \<Rightarrow> api_error" where
  "scope_failed e = internal ''failed to get allowed accounts: '' e"

definition requireAccountAccess :: "('p, 'c, 'd) handler \<Rightarrow> api_session \<Rightarrow> string \<Rightarrow> ('c, 'd) api_world \<Rightarrow>
    (api_error + cloud_account) \<times> ('c, 'd) api_world" where
  "requireAccountAccess h sn i w =
    (case in_store (GetCloudAccount (hd_env h) i) w of
       (Inl e, w) \<Rightarrow> (Inl (internal ''accounts: '' e), w)
     | (Inr None, w) \<Rightarrow> (Inl errNotFound, w)
     | (Inr (Some a), w) \<Rightarrow>
       (case getAccountScope h sn w of
          (Inl e, w) \<Rightarrow> (Inl (scope_failed e), w)
        | (Inr sc, w) \<Rightarrow>
          (if as_unrestricted sc then Inr a else if \<not> Allows sc (ca_id a) (ca_name a) then Inl errNotFound else Inr a, w)))"

definition requirePlanAccess :: "('p, 'c, 'd) handler \<Rightarrow> api_session \<Rightarrow> string \<Rightarrow> ('c, 'd) api_world \<Rightarrow> api_error option \<times> ('c, 'd) api_world" where
  "requirePlanAccess h sn planID w =
    (case getAccountScope h sn w of
       (Inl e, w) \<Rightarrow> (Some (scope_failed e), w)
     | (Inr sc, w) \<Rightarrow>
       if as_unrestricted sc then (None, w)
       else (case in_store (GetPlanAccounts (hd_env h) planID) w of
           (Inl e, w) \<Rightarrow> (Some (internal ''failed to get plan accounts: '' e), w)
         | (Inr as, w) \<Rightarrow> (if list_ex (\<lambda>a. Allows sc (ca_id a) (ca_name a)) as then None else Some errNotFound, w)))"

fun account_accesses :: "('p, 'c, 'd) handler \<Rightarrow> api_session \<Rightarrow> string list \<Rightarrow> ('c, 'd) api_world \<Rightarrow> api_error option \<times> ('c, 'd) api_world" where
  "account_accesses h sn [] w = (None, w)"
| "account_accesses h sn (i # is) w =
    (case requireAccountAccess h sn i w of
       (Inl e, w) \<Rightarrow> (Some e, w) | (Inr _, w) \<Rightarrow> account_accesses h sn is w)"

definition requirePlanAccountsAccess :: "('p, 'c, 'd) handler \<Rightarrow> api_session \<Rightarrow> string \<Rightarrow> string list \<Rightarrow> ('c, 'd) api_world \<Rightarrow>
    api_error option \<times> ('c, 'd) api_world" where
  "requirePlanAccountsAccess h sn planID accounts w =
    (case getAccountScope h sn w of
       (Inl e, w) \<Rightarrow> (Some (scope_failed e), w)
     | (Inr sc, w) \<Rightarrow>
       if as_unrestricted sc then (None, w)
       else (case requirePlanAccess h sn planID w of
           (Some e, w) \<Rightarrow> (Some e, w) | (None, w) \<Rightarrow> account_accesses h sn accounts w))"

text \<open>An account goes by its two identifiers; a later one replaces an earlier one.\<close>

fun names_by_id :: "(string \<rightharpoonup> string) \<Rightarrow> cloud_account list \<Rightarrow> string \<rightharpoonup> string" where
  "names_by_id m [] = m"
| "names_by_id m (a # as) =
    (let m = m(ca_id a \<mapsto> ca_name a) in
     names_by_id (if ca_external a \<noteq> [] then m(ca_external a \<mapsto> ca_name a) else m) as)"

definition resolveAccountNamesByID :: "('p, 'c, 'd) handler \<Rightarrow> ('c, 'd) api_world \<Rightarrow> (string \<rightharpoonup> string) \<times> ('c, 'd) api_world" where
  "resolveAccountNamesByID h w =
    (case in_store (ListCloudAccounts (hd_env h)) w of
       (Inl _, w) \<Rightarrow> (Map.empty, w) | (Inr as, w) \<Rightarrow> (names_by_id Map.empty as, w))"

definition rec_scope_error :: "account_scope \<Rightarrow> (string \<rightharpoonup> string) \<Rightarrow> nat \<Rightarrow> recommendation \<Rightarrow> api_error option" where
  "rec_scope_error sc names i r =
    (case rr_account r of
       None \<Rightarrow> Some (NewClientError 400
         (sprintf ''recommendation %d has no cloud_account_id; scoped users cannot execute unattributed recommendations'' [FInt (int i)]))
     | Some a \<Rightarrow>
       if \<not> Allows sc a (case names a of None \<Rightarrow> [] | Some n \<Rightarrow> n) then Some (NewClientError 403
         (sprintf ''recommendation %d targets account %s which is outside your allowed_accounts'' [FInt (int i), FStr a]))
       else None)"

definition validatePurchaseRecommendationScope :: "('p, 'c, 'd) handler \<Rightarrow> api_session \<Rightarrow> recommendation list \<Rightarrow> ('c, 'd) api_world \<Rightarrow>
    api_error option \<times> ('c, 'd) api_world" where
  "validatePurchaseRecommendationScope h sn recs w =
    (case getAccountScope h sn w of
       (Inl e, w) \<Rightarrow> (Some (scope_failed e), w)
     | (Inr sc, w) \<Rightarrow>
       if as_unrestricted sc then (None, w)
       else (case resolveAccountNamesByID h w of
           (names, w) \<Rightarrow> (check_each 0 (rec_scope_error sc names) recs, w)))"

text \<open>\<open>GetExecutionByID\<close> as the handlers use it.\<close>

definition fetch_execution :: "api_error \<Rightarrow> ('p, 'c, 'd) handler \<Rightarrow> string \<Rightarrow> ('c, 'd) api_world \<Rightarrow> (api_error + execution) \<times> ('c, 'd) api_world" where
  "fetch_execution missing h i w =
    (case in_store (GetExecutionByID (hd_env h) i) w of
       (Inl e, w) \<Rightarrow> (Inl (if is_not_found e then missing else internal ''failed to get execution: '' e), w)
     | (Inr e, w) \<Rightarrow> (Inr e, w))"

definition requireExecutionAccess :: "('p, 'c, 'd) handler \<Rightarrow> api_session \<Rightarrow> string \<Rightarrow> ('c, 'd) api_world \<Rightarrow> api_error option \<times> ('c, 'd) api_world" where
  "requireExecutionAccess h sn i w =
    (case getAccountScope h sn w of
       (Inl e, w) \<Rightarrow> (Some (scope_failed e), w)
     | (Inr sc, w) \<Rightarrow>
       if as_unrestricted sc then (None, w)
       else (case fetch_execution errNotFound h i w of
           (Inl e, w) \<Rightarrow> (Some e, w) | (Inr e, w) \<Rightarrow> requirePlanAccess h sn (pe_plan e) w))"

end
