(* ===== verification/Api_Recipients.thy ===== *)
theory Api_Recipients
  imports Api_Access
begin

text \<open>
  Whom a purchase is announced to and who may answer: recipients, approvers and the mails of
  \<open>internal/api/handler_purchases.go\<close>. Rendering and sending a mail is the handler's notifier.
\<close>

section \<open>Text\<close>

definition minute_utc :: "gotime \<Rightarrow> string" where
  "minute_utc t = (let s = t mod day_ns div second_ns in
     format_date t @ '' '' @ pad_int 2 (s div 3600) @ '':'' @ pad_int 2 (s div 60 mod 60) @ '' UTC'')"

definition trim_right_slashes :: "string \<Rightarrow> string" where
  "trim_right_slashes s = rev (dropWhile (\<lambda>c. c = CHR ''/'') (rev s))"

definition normal_address :: "string \<Rightarrow> string" where
  "normal_address s = to_lower (trim_space s)"

definition resolveDashboardURL :: "('p, 'c, 'd) handler \<Rightarrow> http_request \<Rightarrow> string" where
  "resolveDashboardURL h req =
    (if hd_dashboard h \<noteq> [] then trim_right_slashes (hd_dashboard h)
     else if rq_domain req \<noteq> [] then ''https://'' @ rq_domain req else [])"

definition archeraEducationURL :: "string \<Rightarrow> string" where
  "archeraEducationURL base = (if base = [] then [] else base @ ''/archera-insurance'')"

definition approvalResponseRecipient :: "string \<Rightarrow> string \<Rightarrow> string" where
  "approvalResponseRecipient globalNotify to =
    (let trimmed = trim_space globalNotify in if trimmed \<noteq> [] then trimmed else to)"

definition globalNotifyEmail :: "purchase_config \<Rightarrow> string" where
  "globalNotifyEmail cfg = (case pc_notify cfg of None \<Rightarrow> [] | Some s \<Rightarrow> trim_space s)"

definition executionTimestamp :: "execution \<Rightarrow> string" where
  "executionTimestamp e = (if is_zero_time (pe_scheduled e) then [] else rfc3339 (pe_scheduled e))"

text \<open>The instant the revocation window is counted from.\<close>

definition revocation_reference :: "execution \<Rightarrow> gotime option" where
  "revocation_reference e = (case pe_completed e of None \<Rightarrow> pe_executed_at e | Some t \<Rightarrow> Some t)"

definition revocationWindowClosesAt :: "execution \<Rightarrow> string" where
  "revocationWindowClosesAt e =
    (case revocation_reference e of None \<Rightarrow> [] | Some t \<Rightarrow> minute_utc (t + RevocationWindow))"

section \<open>Contact addresses and approvers\<close>

fun unique_accounts :: "string set \<Rightarrow> recommendation list \<Rightarrow> string list" where
  "unique_accounts seen [] = []"
| "unique_accounts seen (r # rs) =
    (case rr_account r of
       None \<Rightarrow> unique_accounts seen rs
     | Some i \<Rightarrow> if i = [] \<or> i \<in> seen then unique_accounts seen rs else i # unique_accounts (insert i seen) rs)"

definition uniqueAccountIDsFromRecs :: "recommendation list \<Rightarrow> string list" where
  "uniqueAccountIDsFromRecs recs = unique_accounts {} recs"

definition lookupContactEmail :: "('p, 'c, 'd) handler \<Rightarrow> string \<Rightarrow> ('c, 'd) api_world \<Rightarrow> (goerr + string) \<times> ('c, 'd) api_world" where
  "lookupContactEmail h i w =
    (case in_store (GetCloudAccount (hd_env h) i) w of
       (Inl e, w) \<Rightarrow> (Inl e, w)
     | (Inr None, w) \<Rightarrow> (Inr [], w)
     | (Inr (Some a), w) \<Rightarrow> (Inr (trim_space (ca_contact a)), w))"

fun contact_emails :: "('p, 'c, 'd) handler \<Rightarrow> string set \<Rightarrow> string list \<Rightarrow> ('c, 'd) api_world \<Rightarrow>
    (api_error + string list) \<times> ('c, 'd) api_world" where
  "contact_emails h seen [] w = (Inr [], w)"
| "contact_emails h seen (i # is) w =
    (case lookupContactEmail h i w of
       (Inl _, w) \<Rightarrow> (Inl (NewClientError 500 ''failed to resolve contact emails''), w)
     | (Inr addr, w) \<Rightarrow>
       if addr = [] \<or> to_lower addr \<in> seen then contact_emails h seen is w
       else (case contact_emails h (insert (to_lower addr) seen) is w of
           (Inl e, w) \<Rightarrow> (Inl e, w) | (Inr out, w) \<Rightarrow> (Inr (addr # out), w)))"

definition gatherAccountContactEmails :: "('p, 'c, 'd) handler \<Rightarrow> recommendation list \<Rightarrow> ('c, 'd) api_world \<Rightarrow>
    (api_error + string list) \<times> ('c, 'd) api_world" where
  "gatherAccountContactEmails h recs = contact_emails h {} (uniqueAccountIDsFromRecs recs)"

text \<open>The copies: those not seen yet up to case and surrounding space.\<close>

fun copies :: "string set \<Rightarrow> string list \<Rightarrow> string list" where
  "copies seen [] = []"
| "copies seen (a # as) =
    (let n = normal_address a in
     if n = [] \<or> n \<in> seen then copies seen as else a # copies (insert n seen) as)"

record recipients =
  rp_to :: string
  rp_cc :: "string list"
  rp_approvers :: "string list"

text \<open>The address of the settings is informed; only the accounts' contacts may approve.\<close>

definition approval_recipients :: "string list \<Rightarrow> string \<Rightarrow> recipients" where
  "approval_recipients contacts globalNotify =
    (case contacts of
       [] \<Rightarrow> \<lparr>rp_to = globalNotify, rp_cc = [], rp_approvers = []\<rparr>
     | to # rest \<Rightarrow> \<lparr>rp_to = to, rp_cc = copies {to_lower to} (rest @ [globalNotify]), rp_approvers = contacts\<rparr>)"

definition resolveApprovalRecipients :: "('p, 'c, 'd) handler \<Rightarrow> recommendation list \<Rightarrow> string \<Rightarrow> ('c, 'd) api_world \<Rightarrow>
    (api_error + recipients) \<times> ('c, 'd) api_world" where
  "resolveApprovalRecipients h recs globalNotify w =
    (case gatherAccountContactEmails h recs w of
       (Inl e, w) \<Rightarrow> (Inl e, w)
     | (Inr contacts, w) \<Rightarrow> (Inr (approval_recipients contacts (trim_space globalNotify)), w))"

definition configured_notify :: "goerr + purchase_config \<Rightarrow> string" where
  "configured_notify r = (case r of Inl _ \<Rightarrow> [] | Inr cfg \<Rightarrow> (case pc_notify cfg of None \<Rightarrow> [] | Some s \<Rightarrow> s))"

definition authorizeApprovalAction :: "('p, 'c, 'd) handler \<Rightarrow> http_request \<Rightarrow> execution \<Rightarrow> ('c, 'd) api_world \<Rightarrow>
    (api_error + string) \<times> ('c, 'd) api_world" where
  "authorizeApprovalAction h req e w =
    (case tryResolveActorEmail h req w of (actor, w) \<Rightarrow>
     if actor = [] then (Inl (NewClientError 401 ''sign in with the account's contact email to approve or cancel this purchase''), w)
     else case in_store (GetGlobalConfig (hd_env h)) w of (cfg, w) \<Rightarrow>
       (case resolveApprovalRecipients h (pe_recs e) (configured_notify cfg) w of
          (Inl err, w) \<Rightarrow> (Inl (Within ''failed to resolve approvers: '' err), w)
        | (Inr r, w) \<Rightarrow>
          (if rp_approvers r = [] then Inl (NewClientError 403
             ''no per-account contact email configured for this execution; set the cloud account's contact_email before approving'')
           else if list_ex (\<lambda>a. normal_address a = normal_address actor) (rp_approvers r) then Inr actor
           else Inl (NewClientError 403 ''your session email is not the authorized approver for this purchase''), w)))"

section \<open>Mails\<close>

definition ErrNoRecipient :: goerr where "ErrNoRecipient = Sentinel ''email: no recipient address''"
definition ErrNoFromEmail :: goerr where "ErrNoFromEmail = Sentinel ''email: no from address''"

definition send_mail :: "(notice \<Rightarrow> 'c \<Rightarrow> goerr option \<times> 'c) \<Rightarrow> notice \<Rightarrow> ('c, 'd) api_world \<Rightarrow> goerr option \<times> ('c, 'd) api_world" where
  "send_mail f n = in_purchases (on_cloud (f n))"

text \<open>The three mails fill different columns of a recommendation.\<close>

definition blank_rec :: "recommendation \<Rightarrow> notice_rec" where
  "blank_rec r = \<lparr>nr_service = rr_service r, nr_type = rr_type r, nr_engine = [], nr_region = rr_region r, nr_count = rr_count r,
     nr_savings = Fin 0, nr_term = 0, nr_payment = [], nr_upfront = Fin 0\<rparr>"

definition approval_rec :: "recommendation \<Rightarrow> notice_rec" where
  "approval_rec r = (blank_rec r)\<lparr>nr_engine := rr_engine r, nr_savings := rr_savings r\<rparr>"

definition executed_rec :: "recommendation \<Rightarrow> notice_rec" where
  "executed_rec r = (approval_rec r)\<lparr>nr_term := rr_term r, nr_payment := rr_payment r, nr_upfront := rr_upfront r\<rparr>"

definition scheduled_rec :: "recommendation \<Rightarrow> notice_rec" where
  "scheduled_rec r = (blank_rec r)\<lparr>nr_term := rr_term r, nr_payment := rr_payment r, nr_upfront := rr_upfront r\<rparr>"

definition approval_notice :: "string \<Rightarrow> execution \<Rightarrow> recommendation list \<Rightarrow> f64 \<Rightarrow> f64 \<Rightarrow> recipients \<Rightarrow> notice" where
  "approval_notice base e recs upfront savings r = empty_notice\<lparr>nt_dashboard := base, nt_token := pe_token e,
     nt_execution := pe_id e, nt_savings := savings, nt_upfront := upfront, nt_recs := map approval_rec recs,
     nt_to := rp_to r, nt_cc := rp_cc r, nt_approvers := rp_approvers r, nt_education := archeraEducationURL base\<rparr>"

text \<open>Whether the mail was sent, why not, and the address the client is told.\<close>

definition sendPurchaseApprovalEmail :: "('p, 'c, 'd) handler \<Rightarrow> http_request \<Rightarrow> execution \<Rightarrow> recommendation list \<Rightarrow> f64 \<Rightarrow> f64 \<Rightarrow>
    ('c, 'd) api_world \<Rightarrow> (bool \<times> string \<times> string) \<times> ('c, 'd) api_world" where
  "sendPurchaseApprovalEmail h req e recs upfront savings w =
    (case hd_mail h of
       None \<Rightarrow> ((False, ''email notifier not configured for this deployment'', []), w)
     | Some nf \<Rightarrow>
       (case in_store (GetGlobalConfig (hd_env h)) w of
          (Inl err, w) \<Rightarrow> ((False, ''failed to load settings: '' @ err_string err, []), w)
        | (Inr cfg, w) \<Rightarrow>
          let globalNotify = configured_notify (Inr cfg) in
          (case resolveApprovalRecipients h recs globalNotify w of
             (Inl err, w) \<Rightarrow> ((False, ''failed to resolve recipients: '' @ api_text err, []), w)
           | (Inr r, w) \<Rightarrow>
             if rp_to r = [] then
               ((False, ''no notification email set in Settings '' @ [CHR 0xE2, CHR 0x86, CHR 0x92] @
                  '' General and no account contact emails configured'', []), w)
             else let told = approvalResponseRecipient globalNotify (rp_to r) in
               (case send_mail (nf_approval nf) (approval_notice (resolveDashboardURL h req) e recs upfront savings r) w of
                  (None, w) \<Rightarrow> ((True, [], told), w)
                | (Some err, w) \<Rightarrow>
                  (if errors_is ''email: no recipient address'' err then
                     (False, ''no notification email set in Settings '' @ [CHR 0xE2, CHR 0x86, CHR 0x92] @ '' General'', [])
                   else if errors_is ''email: no from address'' err then
                     (False, ''FROM_EMAIL not configured for this deployment'', told)
                   else (False, ''send failed: '' @ err_string err, told), w)))))"

definition resolveExecutedNotificationRecipients :: "string list \<Rightarrow> string \<Rightarrow> string \<Rightarrow> string \<times> string list" where
  "resolveExecutedNotificationRecipients contacts globalNotify requester =
    (case contacts of
       to # rest \<Rightarrow> (to, copies {normal_address to} (rest @ [globalNotify, requester]))
     | [] \<Rightarrow>
       if globalNotify \<noteq> [] then (globalNotify, copies {normal_address globalNotify} [requester])
       else (trim_space requester, []))"

definition lookupRequesterInfo :: "('p, 'c, 'd) handler \<Rightarrow> execution \<Rightarrow> ('c, 'd) api_world \<Rightarrow> string \<times> ('c, 'd) api_world" where
  "lookupRequesterInfo h e w =
    (case (hd_auth h, pe_creator e) of
       (Some s, Some u) \<Rightarrow>
         if u = [] then ([], w)
         else (case in_auth (in_db (GetUserByID (sv_env s) u)) w of
             (Inl _, w) \<Rightarrow> ([], w) | (Inr x, w) \<Rightarrow> (us_email x, w))
     | _ \<Rightarrow> ([], w))"

definition executed_notice :: "string \<Rightarrow> execution \<Rightarrow> string \<Rightarrow> string list \<Rightarrow> string \<Rightarrow> string \<Rightarrow> gotime \<Rightarrow> notice" where
  "executed_notice base e to cc requester executedBy now = empty_notice\<lparr>nt_dashboard := base, nt_execution := pe_id e,
     nt_savings := pe_savings e, nt_upfront := pe_upfront e, nt_recs := map executed_rec (pe_recs e), nt_to := to, nt_cc := cc,
     nt_revoke_token := pe_token e, nt_window := revocationWindowClosesAt e, nt_requested_by := requester,
     nt_requested_at := executionTimestamp e, nt_executed_by := executedBy, nt_executed_at := rfc3339 now,
     nt_education := archeraEducationURL base\<rparr>"

text \<open>Best effort: what happened is lost.\<close>

definition sendPurchaseExecutedEmail :: "('p, 'c, 'd) handler \<Rightarrow> http_request \<Rightarrow> execution \<Rightarrow> string \<Rightarrow> ('c, 'd) api_world \<Rightarrow> ('c, 'd) api_world" where
  "sendPurchaseExecutedEmail h req e executedBy w =
    (case hd_mail h of
       None \<Rightarrow> w
     | Some nf \<Rightarrow>
       if pe_id e = [] then w
       else (case in_store (GetGlobalConfig (hd_env h)) w of
           (Inl _, w) \<Rightarrow> w
         | (Inr cfg, w) \<Rightarrow>
           (case gatherAccountContactEmails h (pe_recs e) w of (contacts, w) \<Rightarrow>
            case lookupRequesterInfo h e w of (requester, w) \<Rightarrow>
            (case resolveExecutedNotificationRecipients (case contacts of Inl _ \<Rightarrow> [] | Inr as \<Rightarrow> as) (globalNotifyEmail cfg) requester of
               (to, cc) \<Rightarrow>
                 if to = [] then w
                 else snd (send_mail (nf_executed nf)
                   (executed_notice (resolveDashboardURL h req) e to cc requester executedBy (api_now h w)) w)))))"

definition buildScheduledEmailData :: "string \<Rightarrow> execution \<Rightarrow> purchase_config \<Rightarrow> string \<Rightarrow> notice" where
  "buildScheduledEmailData dashboard e cfg actor =
    (let globalNotify = configured_notify (Inr cfg) in
     empty_notice\<lparr>nt_dashboard := dashboard, nt_execution := pe_id e, nt_upfront := pe_upfront e, nt_savings := pe_savings e,
       nt_recs := map scheduled_rec (pe_recs e),
       nt_window := (case pe_fire_at e of None \<Rightarrow> [] | Some t \<Rightarrow> minute_utc t),
       nt_revoke_url := (if dashboard \<noteq> [] then dashboard @ ''/purchases#history?execution='' @ pe_id e else []),
       nt_to := (if globalNotify \<noteq> [] then globalNotify else actor)\<rparr>)"

definition sendPurchaseScheduledEmail :: "('p, 'c, 'd) handler \<Rightarrow> execution \<Rightarrow> string \<Rightarrow> ('c, 'd) api_world \<Rightarrow> ('c, 'd) api_world" where
  "sendPurchaseScheduledEmail h e actor w =
    (case hd_mail h of
       None \<Rightarrow> w
     | Some nf \<Rightarrow>
       if pe_id e = [] then w
       else (case in_store (GetGlobalConfig (hd_env h)) w of
           (Inl _, w) \<Rightarrow> w
         | (Inr cfg, w) \<Rightarrow> snd (send_mail (nf_scheduled nf) (buildScheduledEmailData (hd_dashboard h) e cfg actor) w)))"

end
