(* ===== verification/Api_Approve.thy ===== *)
theory Api_Approve
  imports Api_Recipients
begin

text \<open>
  Approving, canceling and revoking a purchase through the API
  (\<open>internal/api/handler_purchases.go\<close>, the scheduled half of \<open>handler_purchases_revoke.go\<close>).
  Each of the three public endpoints has three branches: a session with the right verbs, the
  token of a mail together with the session of an account's contact, and the refusal. A
  response is the list of its fields; the confirmation page is its two escaped values. The
  actor a transition records (\<open>transitioned_by\<close>) is an audit column and left out.
\<close>

section \<open>Who may act on an execution\<close>

definition made_by :: "api_session \<Rightarrow> execution \<Rightarrow> bool" where
  "made_by sn e = (pe_creator e = Some (sn_user sn))"

text \<open>The matrix all five checks share: the \<open>any\<close> verb, or the \<open>own\<close> verb on a row of one's own.\<close>

definition any_or_own :: "'d auth_service \<Rightarrow> api_session \<Rightarrow> string \<Rightarrow> string \<Rightarrow> string \<Rightarrow> string \<Rightarrow> bool \<Rightarrow> ('c, 'd) api_world \<Rightarrow>
    api_error option \<times> ('c, 'd) api_world" where
  "any_or_own s sn anyVerb ownVerb denied foreign own w =
    (case HasPermissionAPI s (sn_user sn) anyVerb ResourcePurchases w of
       (Inl e, w) \<Rightarrow> (Some (check_failed e), w)
     | (Inr True, w) \<Rightarrow> (None, w)
     | (Inr False, w) \<Rightarrow>
       (case HasPermissionAPI s (sn_user sn) ownVerb ResourcePurchases w of
          (Inl e, w) \<Rightarrow> (Some (check_failed e), w)
        | (Inr False, w) \<Rightarrow> (Some (NewClientError 403 denied), w)
        | (Inr True, w) \<Rightarrow> (if own then None else Some (NewClientError 403 foreign), w)))"

definition authorize_session :: "('p, 'c, 'd) handler \<Rightarrow> api_session \<Rightarrow> string \<Rightarrow> string \<Rightarrow> string \<Rightarrow> string \<Rightarrow> bool \<Rightarrow> ('c, 'd) api_world \<Rightarrow>
    api_error option \<times> ('c, 'd) api_world" where
  "authorize_session h sn anyVerb ownVerb denied foreign own w =
    (if sn_user sn = AdminAPIKeyActorID then (None, w)
     else case hd_auth h of
       None \<Rightarrow> (Some (NewClientError 500 ''authentication service not configured''), w)
     | Some s \<Rightarrow> any_or_own s sn anyVerb ownVerb denied foreign own w)"

definition authorizeSessionApprove :: "('p, 'c, 'd) handler \<Rightarrow> api_session \<Rightarrow> execution \<Rightarrow> ('c, 'd) api_world \<Rightarrow> api_error option \<times> ('c, 'd) api_world" where
  "authorizeSessionApprove h sn e = authorize_session h sn ActionApproveAny ActionApproveOwn
     ''permission denied: requires approve-any or approve-own on purchases''
     ''permission denied: cannot approve another user's pending purchase'' (made_by sn e)"

definition authorizeSessionCancel :: "('p, 'c, 'd) handler \<Rightarrow> api_session \<Rightarrow> execution \<Rightarrow> ('c, 'd) api_world \<Rightarrow> api_error option \<times> ('c, 'd) api_world" where
  "authorizeSessionCancel h sn e = authorize_session h sn ActionCancelAny ActionCancelOwn
     ''permission denied: requires cancel-any or cancel-own on purchases''
     ''permission denied: cannot cancel another user's pending purchase'' (made_by sn e)"

definition authorizeSessionExecuteDirect :: "('p, 'c, 'd) handler \<Rightarrow> api_session \<Rightarrow> string \<Rightarrow> ('c, 'd) api_world \<Rightarrow> api_error option \<times> ('c, 'd) api_world" where
  "authorizeSessionExecuteDirect h sn creator = authorize_session h sn ActionExecuteAny ActionExecuteOwn
     ''permission denied: requires execute-any or execute-own on purchases''
     ''permission denied: execute-own requires you to be the creator of this purchase''
     (sn_user sn \<noteq> [] \<and> creator \<noteq> [] \<and> creator = sn_user sn)"

text \<open>Called only where the service is present.\<close>

definition authorizeSessionRevokeExecution :: "'d auth_service \<Rightarrow> api_session \<Rightarrow> execution \<Rightarrow> ('c, 'd) api_world \<Rightarrow> api_error option \<times> ('c, 'd) api_world" where
  "authorizeSessionRevokeExecution s sn e w =
    (if sn_user sn = AdminAPIKeyActorID then (None, w)
     else any_or_own s sn ActionRevokeAny ActionRevokeOwn
       ''permission denied: requires revoke-any or revoke-own on purchases''
       ''permission denied: cannot revoke another user's scheduled purchase'' (made_by sn e) w)"

definition requireDifferentApprover :: "('p, 'c, 'd) handler \<Rightarrow> api_session option \<Rightarrow> execution \<Rightarrow> ('c, 'd) api_world \<Rightarrow>
    api_error option \<times> ('c, 'd) api_world" where
  "requireDifferentApprover h sn e w =
    (case in_store (GetGlobalConfig (hd_env h)) w of
       (Inl err, w) \<Rightarrow> (Some (internal ''4-eyes policy check: failed to load global config: '' err), w)
     | (Inr cfg, w) \<Rightarrow>
       (if \<not> pc_different_approver cfg then None
        else case sn of
          None \<Rightarrow> Some (NewClientError 500 ''4-eyes approval mode is enabled but no session could be resolved; sign in before approving'')
        | Some sn \<Rightarrow>
          (case pe_creator e of
             None \<Rightarrow> Some (NewClientError 403 ''approval declined: this execution predates the dual-control feature and has no recorded creator; an admin must disable 4-eyes mode to approve'')
           | Some creator \<Rightarrow>
             if sn_user sn = creator then Some (NewClientError 403 ''approval declined: 4-eyes mode requires a different approver than the requester'')
             else None), w))"

section \<open>Approving\<close>

definition missing_execution :: api_error where "missing_execution = NewClientError 404 ''execution not found''"

definition loadApproveExecution :: "('p, 'c, 'd) handler \<Rightarrow> string \<Rightarrow> ('c, 'd) api_world \<Rightarrow> (api_error + execution) \<times> ('c, 'd) api_world" where
  "loadApproveExecution h i w =
    (case fetch_execution missing_execution h i w of
       (Inl e, w) \<Rightarrow> (Inl e, w)
     | (Inr e, w) \<Rightarrow>
       (case OrphanExecutionError e of Some err \<Rightarrow> Inl (NewClientError 409 (err_string err)) | None \<Rightarrow> Inr e, w))"

definition scheduleApprovedExecution :: "('p, 'c, 'd) handler \<Rightarrow> execution \<Rightarrow> int \<Rightarrow> string \<Rightarrow> ('c, 'd) api_world \<Rightarrow>
    (goerr + execution) \<times> ('c, 'd) api_world" where
  "scheduleApprovedExecution h e delay actor w =
    (case in_store (TransitionExecutionStatus (hd_env h) (pe_id e) [''pending'', ''notified''] ''scheduled'') w of
       (Inl err, w) \<Rightarrow> (Inl (Errorf ''failed to transition execution %s to scheduled: %w'' [EStr (pe_id e), EWrap err]), w)
     | (Inr updated, w) \<Rightarrow>
       let updated = updated\<lparr>pe_fire_at := Some (api_now h w + delay)\<rparr>;
           updated = (if actor \<noteq> [] then updated\<lparr>pe_approved_by := Some actor\<rparr> else updated) in
       (case in_store (SavePurchaseExecution (hd_env h) updated) w of
          ((Some err, _), w) \<Rightarrow>
            (Inl (Errorf ''failed to stamp scheduled_execution_at on execution %s: %w'' [EStr (pe_id e), EWrap err]), w)
        | ((None, updated), w) \<Rightarrow> (Inr updated, w)))"

definition approveWithDelay :: "('p, 'c, 'd) handler \<Rightarrow> execution \<Rightarrow> int \<Rightarrow> string \<Rightarrow> ('c, 'd) api_world \<Rightarrow>
    (api_error + response) \<times> ('c, 'd) api_world" where
  "approveWithDelay h e delay actor w =
    (case scheduleApprovedExecution h e delay actor w of
       (Inl err, w) \<Rightarrow>
         (Inl (if is_unexpected_status err
            then NewClientError 409 ''purchase no longer schedulable: state changed concurrently (concurrent cancel)''
            else NewClientError 500 (sprintf ''failed to schedule execution %s: %v'' [FStr (pe_id e), FStr (err_string err)])), w)
     | (Inr updated, w) \<Rightarrow>
       (Inr [(''status'', JStr ''scheduled''), (''execution_id'', JStr (pe_id updated)),
          (''executes_at'', JStr (case pe_fire_at updated of None \<Rightarrow> [] | Some t \<Rightarrow> minute_utc t)),
          (''message'', JStr ''Purchase scheduled. You can revoke it for free until the execution window closes.'')],
        sendPurchaseScheduledEmail h updated actor w))"

definition delay_config_failed :: "goerr \<Rightarrow> api_error" where
  "delay_config_failed = internal ''failed to read global config for purchase delay check: ''"

definition completed_response :: response where "completed_response = [(''status'', JStr ''completed'')]"

text \<open>The mail after a token's approval carries the fresh token, or none.\<close>

definition approveViaToken :: "('p, 'c, 'd) handler \<Rightarrow> http_request \<Rightarrow> execution \<Rightarrow> string \<Rightarrow> ('c, 'd) api_world \<Rightarrow>
    (api_error + response) \<times> ('c, 'd) api_world" where
  "approveViaToken h req e token w =
    (case authorizeApprovalAction h req e w of
       (Inl err, w) \<Rightarrow> (Inl err, w)
     | (Inr actor, w) \<Rightarrow>
       (case tryGetSession h req w of (sn, w) \<Rightarrow>
       (case requireDifferentApprover h sn e w of
          (Some err, w) \<Rightarrow> (Inl err, w)
        | (None, w) \<Rightarrow>
          (case in_store (GetGlobalConfig (hd_env h)) w of
             (Inl err, w) \<Rightarrow> (Inl (delay_config_failed err), w)
           | (Inr cfg, w) \<Rightarrow>
             if GetPurchaseDelay cfg > 0 then approveWithDelay h e (GetPurchaseDelay cfg) actor w
             else (case in_purchases (ApproveExecution (hd_purchases h) (pe_id e) token actor) w of
                 (Some err, w) \<Rightarrow> (Inl (Internal err), w)
               | (None, w) \<Rightarrow>
                 (case in_store (GetExecutionByID (hd_env h) (pe_id e)) w of (r, w) \<Rightarrow>
                   let mailed = (case r of Inl _ \<Rightarrow> e\<lparr>pe_token := []\<rparr> | Inr fetched \<Rightarrow> fetched) in
                   (Inr completed_response, sendPurchaseExecutedEmail h req mailed actor w)))))))"

definition csrf_failed :: api_error where "csrf_failed = NewClientError 403 ''CSRF validation failed''"

definition approvePurchaseViaSession :: "('p, 'c, 'd) handler \<Rightarrow> http_request \<Rightarrow> execution \<Rightarrow> ('c, 'd) api_world \<Rightarrow>
    (api_error + response) \<times> ('c, 'd) api_world" where
  "approvePurchaseViaSession h req e w =
    (case validateCSRF h req w of
       (Some _, w) \<Rightarrow> (Inl csrf_failed, w)
     | (None, w) \<Rightarrow>
       (case requireSession h req w of
          (Inl err, w) \<Rightarrow> (Inl err, w)
        | (Inr sn, w) \<Rightarrow>
          if pe_status e \<noteq> ''pending'' \<and> pe_status e \<noteq> ''notified'' then
            (Inl (NewClientError 409 (sprintf ''execution %s cannot be approved (status=%s)'' [FStr (pe_id e), FStr (pe_status e)])), w)
          else (case authorizeSessionApprove h sn e w of
              (Some err, w) \<Rightarrow> (Inl err, w)
            | (None, w) \<Rightarrow>
              (case requireDifferentApprover h (Some sn) e w of
                 (Some err, w) \<Rightarrow> (Inl err, w)
               | (None, w) \<Rightarrow>
                 (case in_store (GetGlobalConfig (hd_env h)) w of
                    (Inl err, w) \<Rightarrow> (Inl (delay_config_failed err), w)
                  | (Inr cfg, w) \<Rightarrow>
                    if GetPurchaseDelay cfg > 0 then approveWithDelay h e (GetPurchaseDelay cfg) (sn_email sn) w
                    else (case in_purchases (ApproveAndExecute (hd_purchases h) (pe_id e) (fourEyesActorIdentity sn)
                          (validUUIDPtrOrNil (Some (sn_user sn)))) w of
                        (Some err, w) \<Rightarrow> (Inl (NewClientError 409
                          (sprintf ''execution %s could not be approved: %v'' [FStr (pe_id e), FStr (err_string err)])), w)
                      | (None, w) \<Rightarrow> (Inr completed_response, sendPurchaseExecutedEmail h req e (sn_email sn) w)))))))"

text \<open>How the approve and cancel endpoints choose: a session that may act, then a token, then
  the session again, which is refused with the reason.\<close>

definition dispatch_action :: "(api_session \<Rightarrow> ('c, 'd) api_world \<Rightarrow> api_error option \<times> ('c, 'd) api_world) \<Rightarrow>
    (('c, 'd) api_world \<Rightarrow> (api_error + response) \<times> ('c, 'd) api_world) \<Rightarrow>
    (('c, 'd) api_world \<Rightarrow> (api_error + response) \<times> ('c, 'd) api_world) \<Rightarrow> string \<Rightarrow> api_session option \<Rightarrow>
    ('c, 'd) api_world \<Rightarrow> (api_error + response) \<times> ('c, 'd) api_world" where
  "dispatch_action authorize viaSession viaToken token sn w =
    (let rest = (if token \<noteq> [] then viaToken else viaSession) in
     case sn of
       None \<Rightarrow> rest w
     | Some sn \<Rightarrow>
       (case authorize sn w of
          (None, w) \<Rightarrow> viaSession w
        | (Some err, w) \<Rightarrow> if isPermissionDenied err then rest w else (Inl err, w)))"

definition approvePurchase :: "('p, 'c, 'd) handler \<Rightarrow> http_request \<Rightarrow> string \<Rightarrow> string \<Rightarrow> ('c, 'd) api_world \<Rightarrow>
    (api_error + response) \<times> ('c, 'd) api_world" where
  "approvePurchase h req i token w =
    (case validateUUID i of Some err \<Rightarrow> (Inl err, w)
     | None \<Rightarrow>
       (case loadApproveExecution h i w of
          (Inl err, w) \<Rightarrow> (Inl err, w)
        | (Inr e, w) \<Rightarrow>
          (case tryGetSession h req w of (sn, w) \<Rightarrow>
             dispatch_action (\<lambda>sn. authorizeSessionApprove h sn e) (approvePurchaseViaSession h req e)
               (approveViaToken h req e token) token sn w)))"

section \<open>Canceling\<close>

definition guardCancelableViaSession :: "execution \<Rightarrow> api_error option" where
  "guardCancelableViaSession e =
    (if pe_status e = ''scheduled'' then Some (NewClientError 409
       (sprintf ''execution %s is scheduled; use the revoke endpoint to cancel it before it fires'' [FStr (pe_id e)]))
     else if \<not> IsCancelable e then Some (NewClientError 409
       (sprintf ''execution %s cannot be canceled (status=%s)'' [FStr (pe_id e), FStr (pe_status e)]))
     else None)"

definition session_actor :: "api_session \<Rightarrow> string option" where
  "session_actor sn = (if sn_email sn \<noteq> [] then Some (sn_email sn) else None)"

definition canceled_response :: response where "canceled_response = [(''status'', JStr ''canceled'')]"

definition cancelPurchaseViaSession :: "('p, 'c, 'd) handler \<Rightarrow> http_request \<Rightarrow> execution \<Rightarrow> ('c, 'd) api_world \<Rightarrow>
    (api_error + response) \<times> ('c, 'd) api_world" where
  "cancelPurchaseViaSession h req e w =
    (case validateCSRF h req w of
       (Some _, w) \<Rightarrow> (Inl csrf_failed, w)
     | (None, w) \<Rightarrow>
       (case requireSession h req w of
          (Inl err, w) \<Rightarrow> (Inl err, w)
        | (Inr sn, w) \<Rightarrow>
          (case guardCancelableViaSession e of
             Some err \<Rightarrow> (Inl err, w)
           | None \<Rightarrow>
             (case authorizeSessionCancel h sn e w of
                (Some err, w) \<Rightarrow> (Inl err, w)
              | (None, w) \<Rightarrow>
                (case in_store (WithTx (hd_env h) (False, []) (cancel_tx (hd_env h) (pe_id e) (session_actor sn))) w of
                   ((Some err, _), w) \<Rightarrow> (Inl (Internal (Errorf ''cancel execution %s: %w'' [EStr (pe_id e), EWrap err])), w)
                 | ((None, False, st), w) \<Rightarrow> (Inl (NewClientError 409
                     (sprintf ''execution %s cannot be canceled: a concurrent operation already transitioned it to %q''
                        [FStr (pe_id e), FStr st])), w)
                 | ((None, True, _), w) \<Rightarrow> (Inr canceled_response, w))))))"

definition cancelViaToken :: "('p, 'c, 'd) handler \<Rightarrow> http_request \<Rightarrow> execution \<Rightarrow> string \<Rightarrow> string \<Rightarrow> ('c, 'd) api_world \<Rightarrow>
    (api_error + response) \<times> ('c, 'd) api_world" where
  "cancelViaToken h req e i token w =
    (case authorizeApprovalAction h req e w of
       (Inl err, w) \<Rightarrow> (Inl err, w)
     | (Inr actor, w) \<Rightarrow>
       (case in_purchases (CancelExecution (hd_purchases h) i token actor) w of
          (Some err, w) \<Rightarrow> (Inl (Internal err), w)
        | (None, w) \<Rightarrow> (Inr canceled_response, w)))"

definition cancelPurchase :: "('p, 'c, 'd) handler \<Rightarrow> http_request \<Rightarrow> string \<Rightarrow> string \<Rightarrow> ('c, 'd) api_world \<Rightarrow>
    (api_error + response) \<times> ('c, 'd) api_world" where
  "cancelPurchase h req i token w =
    (case validateUUID i of Some err \<Rightarrow> (Inl err, w)
     | None \<Rightarrow>
       (case fetch_execution missing_execution h i w of
          (Inl err, w) \<Rightarrow> (Inl err, w)
        | (Inr e, w) \<Rightarrow>
          (case tryGetSession h req w of (sn, w) \<Rightarrow>
             dispatch_action (\<lambda>sn. authorizeSessionCancel h sn e) (cancelPurchaseViaSession h req e)
               (cancelViaToken h req e i token) token sn w)))"

section \<open>Revoking a completed purchase by mail\<close>

definition checkRevokableStatus :: "execution \<Rightarrow> api_error option" where
  "checkRevokableStatus e =
    (if pe_status e = ''completed'' \<or> pe_status e = ''partially_completed'' then None
     else if pe_status e = ''pending'' \<or> pe_status e = ''notified'' then Some (NewClientError 409
       (sprintf (''execution %s is still pending '' @ em_dash @ '' use the Cancel link instead of Revoke'') [FStr (pe_id e)]))
     else Some (NewClientError 409
       (sprintf ''execution %s cannot be revoked (status=%s); the revocation window may have closed or the purchase was not completed''
          [FStr (pe_id e), FStr (pe_status e)])))"

definition checkRevocationWindow :: "gotime \<Rightarrow> execution \<Rightarrow> api_error option" where
  "checkRevocationWindow now e =
    (case revocation_reference e of
       None \<Rightarrow> None
     | Some t \<Rightarrow>
       if t + RevocationWindow < now then Some (NewClientError 403
         (sprintf ''revocation window has closed (window closed at %s)'' [FStr (rfc3339 (t + RevocationWindow))]))
       else None)"

definition validateRevokeToken :: "('p, 'c, 'd) handler \<Rightarrow> gotime \<Rightarrow> execution \<Rightarrow> string \<Rightarrow> api_error option" where
  "validateRevokeToken h now e token =
    (let invalid = Some (NewClientError 403 ''invalid revocation token'') in
     if pe_token e = [] then invalid
     else if token_expired now e then Some (NewClientError 409
       (sprintf ''execution %s cannot be revoked: the revocation link has expired'' [FStr (pe_id e)]))
     else case checkRevocationWindow now e of
       Some err \<Rightarrow> Some err
     | None \<Rightarrow> if mg_hash (hd_purchases h) (pe_token e) = mg_hash (hd_purchases h) token then None else invalid)"

definition revokeViaSession :: "('p, 'c, 'd) handler \<Rightarrow> execution \<Rightarrow> string \<Rightarrow> ('c, 'd) api_world \<Rightarrow>
    (api_error + response) \<times> ('c, 'd) api_world" where
  "revokeViaSession h e revokedBy w =
    (case in_store (TransitionExecutionStatus (hd_env h) (pe_id e) [''completed'', ''partially_completed''] ''revocation_requested'') w of
       (Inl err, w) \<Rightarrow>
         (Inl (if is_unexpected_status err then NewClientError 409
             (sprintf ''execution %s cannot be revoked: a concurrent operation changed its status'' [FStr (pe_id e)])
           else if is_not_found err then missing_execution
           else Internal (Errorf ''failed to record revocation request for execution %s: %w'' [EStr (pe_id e), EWrap err])), w)
     | (Inr _, w) \<Rightarrow>
       (case (if revokedBy = [] then (None, w) else in_store (SetCancelledBy (hd_env h) (pe_id e) revokedBy) w) of
          (Some err, w) \<Rightarrow>
            (Inl (Internal (Errorf ''failed to record revocation requester for execution %s: %w'' [EStr (pe_id e), EWrap err])), w)
        | (None, w) \<Rightarrow>
          (Inr [(''status'', JStr ''revocation_requested''),
             (''message'', JStr ''Revocation request recorded. Contact AWS Support to complete the cancellation within the allowed window.'')], w)))"

text \<open>\<open>None\<close> leaves the request to the token.\<close>

definition tryRevokeViaSession :: "('p, 'c, 'd) handler \<Rightarrow> http_request \<Rightarrow> execution \<Rightarrow> ('c, 'd) api_world \<Rightarrow>
    (api_error + response) option \<times> ('c, 'd) api_world" where
  "tryRevokeViaSession h req e w =
    (case tryGetSession h req w of
       (None, w) \<Rightarrow> (None, w)
     | (Some sn, w) \<Rightarrow>
       (case authorizeSessionCancel h sn e w of
          (Some err, w) \<Rightarrow> (if isPermissionDenied err then None else Some (Inl err), w)
        | (None, w) \<Rightarrow>
          (case validateCSRF h req w of
             (Some _, w) \<Rightarrow> (Some (Inl csrf_failed), w)
           | (None, w) \<Rightarrow> (case revokeViaSession h e (sn_email sn) w of (r, w) \<Rightarrow> (Some r, w)))))"

definition escape_char :: "char \<Rightarrow> string" where
  "escape_char c = (if c = CHR ''&'' then ''&amp;'' else if c = CHR ''<'' then ''&lt;'' else if c = CHR ''>'' then ''&gt;''
     else if c = CHR 0x22 then ''&#34;'' else [c])"

definition renderRevokeConfirmPage :: "string \<Rightarrow> string \<Rightarrow> response" where
  "renderRevokeConfirmPage i token =
    [(''ExecutionID'', JStr (concat (map escape_char i))), (''Token'', JStr (concat (map escape_char token)))]"

text \<open>The error of the read is tested before the result, so a missing execution is an internal error.\<close>

definition revokeViaEmailToken :: "('p, 'c, 'd) handler \<Rightarrow> http_request \<Rightarrow> string \<Rightarrow> string \<Rightarrow> ('c, 'd) api_world \<Rightarrow>
    (api_error + response) \<times> ('c, 'd) api_world" where
  "revokeViaEmailToken h req i token w =
    (case validateUUID i of Some err \<Rightarrow> (Inl err, w)
     | None \<Rightarrow>
       if rq_method req = ''GET'' then (Inr (renderRevokeConfirmPage i token), w)
       else (case in_store (GetExecutionByID (hd_env h) i) w of
           (Inl err, w) \<Rightarrow> (Inl (internal ''failed to get execution: '' err), w)
         | (Inr e, w) \<Rightarrow>
           (case checkRevokableStatus e of
              Some err \<Rightarrow> (Inl err, w)
            | None \<Rightarrow>
              (case tryRevokeViaSession h req e w of
                 (Some r, w) \<Rightarrow> (r, w)
               | (None, w) \<Rightarrow>
                 if token = [] then (Inl (NewClientError 401 ''sign in or use the revocation link from the notification email''), w)
                 else (case authorizeApprovalAction h req e w of
                     (Inl err, w) \<Rightarrow> (Inl err, w)
                   | (Inr actor, w) \<Rightarrow>
                     (case validateRevokeToken h (api_now h w) e token of
                        Some err \<Rightarrow> (Inl err, w)
                      | None \<Rightarrow> revokeViaSession h e actor w))))))"

section \<open>Revoking a scheduled purchase\<close>

definition revoke_scheduled_tx :: "pdb_env \<Rightarrow> string \<Rightarrow> string option \<Rightarrow> pdb \<Rightarrow> (goerr option \<times> bool \<times> string) \<times> pdb" where
  "revoke_scheduled_tx env i who db =
    (case CancelScheduledExecutionAtomic env i who db of
       (Inl err, db) \<Rightarrow> ((Some err, False, []), db)
     | (Inr (False, st), db) \<Rightarrow> ((None, False, st), db)
     | (Inr (True, st), db) \<Rightarrow>
       (case DeleteSuppressionsByExecutionTx env i db of (err, db) \<Rightarrow> ((err, True, st), db)))"

definition revokeScheduledExecution :: "('p, 'c, 'd) handler \<Rightarrow> 'd auth_service \<Rightarrow> api_session \<Rightarrow> execution \<Rightarrow> ('c, 'd) api_world \<Rightarrow>
    (api_error + response) \<times> ('c, 'd) api_world" where
  "revokeScheduledExecution h s sn e w =
    (case authorizeSessionRevokeExecution s sn e w of
       (Some err, w) \<Rightarrow> (Inl err, w)
     | (None, w) \<Rightarrow>
       (case in_store (WithTx (hd_env h) (False, []) (revoke_scheduled_tx (hd_env h) (pe_id e) (session_actor sn))) w of
          ((Some err, _), w) \<Rightarrow> (Inl (Internal (Errorf ''cancel scheduled execution %s: %w'' [EStr (pe_id e), EWrap err])), w)
        | ((None, False, st), w) \<Rightarrow> (Inl (NewClientError 410
            (sprintf ''revocation window has closed: execution %s was already transitioned to %q'' [FStr (pe_id e), FStr st])), w)
        | ((None, True, _), w) \<Rightarrow> (Inr [(''status'', JStr ''canceled''),
            (''message'', JStr ''Purchase canceled. No cloud API call was made; no cost incurred.'')], w)))"

end
