(* ===== verification/Api_Planned.thy ===== *)
theory Api_Planned
  imports Api_Approve
begin

text \<open>
  The planned purchases (\<open>internal/api/handler_purchases.go\<close>): listing them, pausing, resuming,
  running and deleting one, with the plan behind it, and the details of an execution. The
  provider, service, term and payment of a listed purchase come from the plan's services,
  which the plan of this development does not have.
\<close>

section \<open>The list\<close>

record planned_purchase =
  lp_id :: string
  lp_plan :: string
  lp_plan_name :: string
  lp_date :: string
  lp_count :: nat
  lp_savings :: f64
  lp_upfront :: f64
  lp_status :: string
  lp_step :: int
  lp_steps :: int
  lp_creator :: "string option"

definition plannedListStatuses :: "string list" where
  "plannedListStatuses = [''pending'', ''notified'', ''paused'']"

definition buildPlannedPurchase :: "purchase_plan \<Rightarrow> execution \<Rightarrow> planned_purchase" where
  "buildPlannedPurchase p e = \<lparr>lp_id = pe_id e, lp_plan = pe_plan e, lp_plan_name = pp_name p,
     lp_date = format_date (pe_scheduled e), lp_count = length (pe_recs e), lp_savings = pe_savings e,
     lp_upfront = pe_upfront e, lp_status = pe_status e, lp_step = pe_step e, lp_steps = rp_total (pp_ramp p),
     lp_creator = pe_creator e\<rparr>"

definition isPlanAllowedCached :: "('p, 'c, 'd) handler \<Rightarrow> api_session \<Rightarrow> string \<Rightarrow> (string \<rightharpoonup> bool) \<Rightarrow> ('c, 'd) api_world \<Rightarrow>
    (api_error + bool \<times> (string \<rightharpoonup> bool)) \<times> ('c, 'd) api_world" where
  "isPlanAllowedCached h sn planID cache w =
    (case cache planID of
       Some ok \<Rightarrow> (Inr (ok, cache), w)
     | None \<Rightarrow>
       (case requirePlanAccess h sn planID w of
          (None, w) \<Rightarrow> (Inr (True, cache(planID \<mapsto> True)), w)
        | (Some err, w) \<Rightarrow>
          (if IsNotFoundError err then Inr (False, cache(planID \<mapsto> False)) else Inl err, w)))"

fun planned_purchases :: "('p, 'c, 'd) handler \<Rightarrow> api_session \<Rightarrow> purchase_plan list \<Rightarrow> (string \<rightharpoonup> bool) \<Rightarrow> execution list \<Rightarrow>
    ('c, 'd) api_world \<Rightarrow> (api_error + planned_purchase list) \<times> ('c, 'd) api_world" where
  "planned_purchases h sn plans cache [] w = (Inr [], w)"
| "planned_purchases h sn plans cache (e # es) w =
    (case find (\<lambda>p. pp_id p = pe_plan e) (rev plans) of
       None \<Rightarrow> planned_purchases h sn plans cache es w
     | Some p \<Rightarrow>
       (case isPlanAllowedCached h sn (pe_plan e) cache w of
          (Inl err, w) \<Rightarrow> (Inl err, w)
        | (Inr (ok, cache), w) \<Rightarrow>
          (case planned_purchases h sn plans cache es w of
             (Inl err, w) \<Rightarrow> (Inl err, w)
           | (Inr ps, w) \<Rightarrow> (Inr (if ok then buildPlannedPurchase p e # ps else ps), w))))"

definition getPlannedPurchases :: "('p, 'c, 'd) handler \<Rightarrow> http_request \<Rightarrow> ('c, 'd) api_world \<Rightarrow>
    (api_error + planned_purchase list) \<times> ('c, 'd) api_world" where
  "getPlannedPurchases h req w =
    (case requirePermission h req ActionView ResourcePlans w of
       (Inl err, w) \<Rightarrow> (Inl err, w)
     | (Inr sn, w) \<Rightarrow>
       (case in_store (GetPlannedExecutions (hd_env h) plannedListStatuses MaxListLimit) w of
          (Inl err, w) \<Rightarrow> (Inl (internal ''failed to get planned executions: '' err), w)
        | (Inr es, w) \<Rightarrow>
          (case in_store (ListPurchasePlans (hd_env h)) w of
             (Inl err, w) \<Rightarrow> (Inl (internal ''failed to get purchase plans: '' err), w)
           | (Inr plans, w) \<Rightarrow> planned_purchases h sn plans Map.empty es w)))"

section \<open>Pausing, resuming, running\<close>

definition authorizeExecutionManagement :: "('p, 'c, 'd) handler \<Rightarrow> api_session \<Rightarrow> string \<Rightarrow> ('c, 'd) api_world \<Rightarrow>
    api_error option \<times> ('c, 'd) api_world" where
  "authorizeExecutionManagement h sn i w =
    (if sn_user sn = AdminAPIKeyActorID then (None, w)
     else case hd_auth h of
       None \<Rightarrow> (Some (NewClientError 500 ''authentication service not configured''), w)
     | Some s \<Rightarrow>
       (case HasPermissionAPI s (sn_user sn) ActionUpdateAny ResourcePurchases w of
          (Inl e, w) \<Rightarrow> (Some (check_failed e), w)
        | (Inr True, w) \<Rightarrow> (None, w)
        | (Inr False, w) \<Rightarrow>
          (case fetch_execution errNotFound h i w of
             (Inl err, w) \<Rightarrow> (Some err, w)
           | (Inr e, w) \<Rightarrow>
             (if sn_user sn = [] \<or> \<not> made_by sn e
              then Some (NewClientError 403 ''permission denied: cannot manage another user's scheduled purchase'') else None, w))))"

text \<open>The three management handlers differ in the verb, the statuses and the answer.\<close>

definition manage_execution :: "('p, 'c, 'd) handler \<Rightarrow> http_request \<Rightarrow> string \<Rightarrow> string \<Rightarrow> string list \<Rightarrow> string \<Rightarrow> string \<Rightarrow> response \<Rightarrow>
    ('c, 'd) api_world \<Rightarrow> (api_error + response) \<times> ('c, 'd) api_world" where
  "manage_execution h req i verb froms target refused answer w =
    (case validateUUID i of Some err \<Rightarrow> (Inl err, w)
     | None \<Rightarrow>
       (case requirePermission h req verb ResourcePurchases w of
          (Inl err, w) \<Rightarrow> (Inl err, w)
        | (Inr sn, w) \<Rightarrow>
          (case requireExecutionAccess h sn i w of
             (Some err, w) \<Rightarrow> (Inl err, w)
           | (None, w) \<Rightarrow>
             (case authorizeExecutionManagement h sn i w of
                (Some err, w) \<Rightarrow> (Inl err, w)
              | (None, w) \<Rightarrow>
                (case in_store (TransitionExecutionStatus (hd_env h) i froms target) w of
                   (Inl err, w) \<Rightarrow> (Inl (NewClientError 409 (sprintf refused [FStr i, FStr (err_string err)])), w)
                 | (Inr _, w) \<Rightarrow> (Inr answer, w))))))"

definition pausePlannedPurchase :: "('p, 'c, 'd) handler \<Rightarrow> http_request \<Rightarrow> string \<Rightarrow> ('c, 'd) api_world \<Rightarrow> (api_error + response) \<times> ('c, 'd) api_world" where
  "pausePlannedPurchase h req i = manage_execution h req i ActionUpdate [''pending'', ''running''] ''paused''
     ''execution %s cannot be paused: %v'' [(''status'', JStr ''paused'')]"

definition resumePlannedPurchase :: "('p, 'c, 'd) handler \<Rightarrow> http_request \<Rightarrow> string \<Rightarrow> ('c, 'd) api_world \<Rightarrow> (api_error + response) \<times> ('c, 'd) api_world" where
  "resumePlannedPurchase h req i = manage_execution h req i ActionUpdate [''paused''] ''pending''
     ''execution %s cannot be resumed: %v'' [(''status'', JStr ''resumed'')]"

definition runPlannedPurchase :: "('p, 'c, 'd) handler \<Rightarrow> http_request \<Rightarrow> string \<Rightarrow> ('c, 'd) api_world \<Rightarrow> (api_error + response) \<times> ('c, 'd) api_world" where
  "runPlannedPurchase h req i = manage_execution h req i ActionExecute [''pending'', ''paused''] ''running''
     ''execution %s cannot be started: %v''
     [(''execution_id'', JStr i), (''status'', JStr ''running''), (''message'', JStr ''Purchase execution initiated'')]"

section \<open>Deleting\<close>

definition requireDeleteOrCancelPurchasePermission :: "('p, 'c, 'd) handler \<Rightarrow> http_request \<Rightarrow> ('c, 'd) api_world \<Rightarrow>
    (api_error + api_session) \<times> ('c, 'd) api_world" where
  "requireDeleteOrCancelPurchasePermission h req =
    requireAnyPermission h req [ActionDelete, ActionUpdateAny, ActionCancelAny, ActionCancelOwn] ResourcePurchases"

definition authorizePlannedPurchaseCancel :: "('p, 'c, 'd) handler \<Rightarrow> api_session \<Rightarrow> string \<Rightarrow> ('c, 'd) api_world \<Rightarrow>
    api_error option \<times> ('c, 'd) api_world" where
  "authorizePlannedPurchaseCancel h sn i w =
    (if sn_user sn = AdminAPIKeyActorID then (None, w)
     else case hd_auth h of
       None \<Rightarrow> (Some (NewClientError 500 ''authentication service not configured''), w)
     | Some s \<Rightarrow>
       (case any_verb s (sn_user sn) [ActionUpdateAny, ActionCancelAny] ResourcePurchases w of
          (Inl err, w) \<Rightarrow> (Some err, w)
        | (Inr True, w) \<Rightarrow> (None, w)
        | (Inr False, w) \<Rightarrow>
          (case fetch_execution errNotFound h i w of
             (Inl err, w) \<Rightarrow> (Some err, w)
           | (Inr e, w) \<Rightarrow>
             (if made_by sn e then None
              else Some (NewClientError 403 ''permission denied: cannot cancel another user's scheduled purchase''), w))))"

definition cancelOrRecoverExecution :: "('p, 'c, 'd) handler \<Rightarrow> string \<Rightarrow> ('c, 'd) api_world \<Rightarrow> (api_error + execution) \<times> ('c, 'd) api_world" where
  "cancelOrRecoverExecution h i w =
    (case in_store (TransitionExecutionStatus (hd_env h) i [''pending'', ''paused''] ''canceled'') w of
       (Inr e, w) \<Rightarrow> (Inr e, w)
     | (Inl err, w) \<Rightarrow>
       if \<not> is_unexpected_status err then (Inl (Internal (Errorf ''cancel execution %s: %w'' [EStr i, EWrap err])), w)
       else (case in_store (GetExecutionByID (hd_env h) i) w of
           (Inl err, w) \<Rightarrow>
             (Inl (if is_not_found err then NewClientError 404 (sprintf ''execution %s not found'' [FStr i])
               else Internal (Errorf ''disable plan: failed to get execution %s after conflict: %w'' [EStr i, EWrap err])), w)
         | (Inr e, w) \<Rightarrow>
           (if pe_status e = ''canceled'' then Inr e
            else if pe_status e = ''cancelled'' then Inr (e\<lparr>pe_status := ''canceled''\<rparr>)
            else Inl (NewClientError 409 (sprintf ''execution %s cannot be canceled (status=%s)'' [FStr i, FStr (pe_status e)])), w)))"

definition mapCreatePlanStorageError :: "goerr \<Rightarrow> string \<Rightarrow> string \<Rightarrow> api_error" where
  "mapCreatePlanStorageError err notFoundMsg genericMsg =
    (if is_not_found err then NewClientError 404 notFoundMsg else NewClientError 500 genericMsg)"

definition disablePlan :: "('p, 'c, 'd) handler \<Rightarrow> string \<Rightarrow> ('c, 'd) api_world \<Rightarrow> api_error option \<times> ('c, 'd) api_world" where
  "disablePlan h planID w =
    (let failed = (\<lambda>err. mapCreatePlanStorageError err ''plan not found'' ''failed to disable plan'') in
     case in_store (GetPurchasePlan (hd_env h) planID) w of
       (Inl err, w) \<Rightarrow>
         (Some (if is_not_found err then NewClientError 404 (sprintf ''disable plan: plan %s not found'' [FStr planID])
           else failed err), w)
     | (Inr p, w) \<Rightarrow>
       if \<not> pp_enabled p then (None, w)
       else (case in_store (UpdatePurchasePlan (hd_env h) (p\<lparr>pp_enabled := False\<rparr>)) w of
           (Some err, w) \<Rightarrow> (Some (failed err), w) | (None, w) \<Rightarrow> (None, w)))"

definition deletePlannedPurchase :: "('p, 'c, 'd) handler \<Rightarrow> http_request \<Rightarrow> string \<Rightarrow> ('c, 'd) api_world \<Rightarrow>
    (api_error + response) \<times> ('c, 'd) api_world" where
  "deletePlannedPurchase h req i w =
    (case validateUUID i of Some err \<Rightarrow> (Inl err, w)
     | None \<Rightarrow>
       (case requireDeleteOrCancelPurchasePermission h req w of
          (Inl err, w) \<Rightarrow> (Inl err, w)
        | (Inr sn, w) \<Rightarrow>
          (case requireExecutionAccess h sn i w of
             (Some err, w) \<Rightarrow> (Inl err, w)
           | (None, w) \<Rightarrow>
             (case authorizePlannedPurchaseCancel h sn i w of
                (Some err, w) \<Rightarrow> (Inl err, w)
              | (None, w) \<Rightarrow>
                (case cancelOrRecoverExecution h i w of
                   (Inl err, w) \<Rightarrow> (Inl err, w)
                 | (Inr e, w) \<Rightarrow>
                   (case (if pe_plan e \<noteq> [] then disablePlan h (pe_plan e) w else (None, w)) of
                      (Some err, w) \<Rightarrow> (Inl err, w)
                    | (None, w) \<Rightarrow> (Inr canceled_response, w)))))))"

section \<open>Details\<close>

definition buildPurchaseDetailsResponse :: "execution \<Rightarrow> string \<Rightarrow> response" where
  "buildPurchaseDetailsResponse e planName =
    [(''execution_id'', JStr (pe_id e)), (''plan_id'', JStr (pe_plan e)), (''plan_name'', JStr planName),
     (''status'', JStr (pe_status e)), (''step_number'', JInt (pe_step e)), (''scheduled_date'', JStr (format_date (pe_scheduled e))),
     (''total_upfront_cost'', JFloat (pe_upfront e)), (''estimated_savings'', JFloat (pe_savings e)),
     (''recommendations'', JRecs (pe_recs e))]
    @ (case pe_notified e of None \<Rightarrow> [] | Some t \<Rightarrow> [(''notification_sent'', JStr (rfc3339 t))])
    @ (case pe_completed e of None \<Rightarrow> [] | Some t \<Rightarrow> [(''completed_at'', JStr (rfc3339 t))])
    @ (if pe_error e \<noteq> [] then [(''error'', JStr (pe_error e))] else [])"

definition getPurchaseDetails :: "('p, 'c, 'd) handler \<Rightarrow> http_request \<Rightarrow> string \<Rightarrow> ('c, 'd) api_world \<Rightarrow>
    (api_error + response) \<times> ('c, 'd) api_world" where
  "getPurchaseDetails h req i w =
    (case validateUUID i of Some err \<Rightarrow> (Inl err, w)
     | None \<Rightarrow>
       (case requirePermission h req ActionView ResourcePurchases w of
          (Inl err, w) \<Rightarrow> (Inl err, w)
        | (Inr sn, w) \<Rightarrow>
          (case fetch_execution missing_execution h i w of
             (Inl err, w) \<Rightarrow> (Inl err, w)
           | (Inr e, w) \<Rightarrow>
             (case requirePlanAccess h sn (pe_plan e) w of
                (Some err, w) \<Rightarrow> (Inl err, w)
              | (None, w) \<Rightarrow>
                if pe_plan e = [] then (Inr (buildPurchaseDetailsResponse e []), w)
                else (case in_store (GetPurchasePlan (hd_env h) (pe_plan e)) w of (p, w) \<Rightarrow>
                  (Inr (buildPurchaseDetailsResponse e (case p of Inl _ \<Rightarrow> [] | Inr p \<Rightarrow> pp_name p)), w))))))"

end
