(* ===== verification/Api_Payment.thy ===== *)
theory Api_Payment
  imports Api_Types "HOL-Library.Sublist"
begin

text \<open>
  Checking what a client wants to buy: payment options per provider
  (\<open>internal/config/validation.go\<close>), the recommendations of a request
  (\<open>internal/api/validation.go\<close>) and its totals (\<open>internal/api/handler_purchases.go\<close>).
  A count is a 64-bit integer; the one product of two of them wraps.
\<close>

section \<open>Payment options\<close>

definition ValidPaymentOptionsByProvider :: "string \<Rightarrow> string list option" where
  "ValidPaymentOptionsByProvider p =
    (if p = ''aws'' then Some [''no-upfront'', ''partial-upfront'', ''all-upfront'']
     else if p = ''azure'' then Some [''upfront'', ''monthly'']
     else if p = ''gcp'' then Some [''monthly''] else None)"

definition crossProviderPaymentAlias :: "string \<Rightarrow> string \<Rightarrow> string option" where
  "crossProviderPaymentAlias provider raw =
    (if provider = ''azure'' then
       (if raw = ''all-upfront'' then Some ''upfront''
        else if raw = ''no-upfront'' \<or> raw = ''partial-upfront'' then Some ''monthly'' else None)
     else if provider = ''gcp'' then
       (if raw \<in> {''all-upfront'', ''no-upfront'', ''partial-upfront'', ''upfront''} then Some ''monthly'' else None)
     else None)"

text \<open>The canonical token and whether there is one.\<close>

definition NormalizePaymentOption :: "string \<Rightarrow> string \<Rightarrow> string \<times> bool" where
  "NormalizePaymentOption provider raw =
    (case ValidPaymentOptionsByProvider provider of
       None \<Rightarrow> ([], False)
     | Some options \<Rightarrow>
       if raw = [] then ([], True)
       else if raw \<in> set options then (raw, True)
       else (case crossProviderPaymentAlias provider raw of
           Some canon \<Rightarrow> (canon, True) | None \<Rightarrow> (raw, False)))"

datatype payment_schedule = PaymentScheduleUpfront | PaymentSchedulePartialUpfront | PaymentScheduleRecurring
  | PaymentScheduleUnknown

definition PaymentScheduleFor :: "string \<Rightarrow> payment_schedule" where
  "PaymentScheduleFor token =
    (if token = ''all-upfront'' \<or> token = ''upfront'' then PaymentScheduleUpfront
     else if token = ''partial-upfront'' then PaymentSchedulePartialUpfront
     else if token = ''no-upfront'' \<or> token = ''monthly'' then PaymentScheduleRecurring
     else PaymentScheduleUnknown)"

definition PaymentCoercionChangesSchedule :: "string \<Rightarrow> string \<Rightarrow> bool" where
  "PaymentCoercionChangesSchedule raw canonical = (PaymentScheduleFor raw \<noteq> PaymentScheduleFor canonical)"

section \<open>One recommendation\<close>

definition payment_options :: "string \<Rightarrow> string list" where
  "payment_options p = (case ValidPaymentOptionsByProvider p of None \<Rightarrow> [] | Some os \<Rightarrow> os)"

definition paymentAdjustmentFor :: "nat \<Rightarrow> string \<Rightarrow> string \<Rightarrow> string \<Rightarrow> string \<Rightarrow> payment_adjustment option" where
  "paymentAdjustmentFor i provider service requested applied =
    (if \<not> PaymentCoercionChangesSchedule requested applied then None
     else Some \<lparr>pj_index = i, pj_provider = provider, pj_service = service, pj_requested = requested, pj_applied = applied,
       pj_reason = sprintf ''payment option %q is not in %s's supported set (%s); the closest supported option %q was applied''
         [FStr requested, FStr provider, FStr (join '', '' (payment_options provider)), FStr applied]\<rparr>)"

definition purchaseTermWhitelist :: "string \<Rightarrow> int set" where
  "purchaseTermWhitelist p = (if p = ''aws'' \<or> p = ''azure'' \<or> p = ''gcp'' then {1, 3} else {})"

text \<open>The recommendation as the function leaves it, and what it has to disclose.\<close>

definition validatePurchaseRecommendation :: "recommendation \<Rightarrow> nat \<Rightarrow> api_error + recommendation \<times> payment_adjustment option" where
  "validatePurchaseRecommendation r i =
    (let provider = to_lower (trim_space (rr_provider r)); at' = FInt (int i) in
     case ValidPaymentOptionsByProvider provider of
       None \<Rightarrow> Inl (NewClientError 400 (sprintf ''recommendation %d has invalid provider %q: must be one of aws, azure, gcp''
         [at', FStr (rr_provider r)]))
     | Some payments \<Rightarrow>
       let service = trim_space (rr_service r) in
       if service = [] then Inl (NewClientError 400 (sprintf ''recommendation %d is missing a service'' [at']))
       else if rr_count r \<le> 0 then
         Inl (NewClientError 400 (sprintf ''recommendation %d has non-positive count: %d'' [at', FInt (rr_count r)]))
       else if rr_term r \<notin> purchaseTermWhitelist provider then
         Inl (NewClientError 400 (sprintf ''recommendation %d has invalid term %d for provider %s: must be 1 or 3''
           [at', FInt (rr_term r), FStr provider]))
       else if (case rr_monthly r of None \<Rightarrow> False | Some x \<Rightarrow> flt x (Fin 0)) then
         Inl (NewClientError 400 (sprintf ''recommendation %d has negative monthly cost: %.2f''
           [at', FF64 (case rr_monthly r of None \<Rightarrow> Fin 0 | Some x \<Rightarrow> x)]))
       else
         let payment = to_lower (trim_space (rr_payment r));
             (adjustment, applied) = (case NormalizePaymentOption provider payment of
                 (normalized, True) \<Rightarrow> (paymentAdjustmentFor i provider service payment normalized, normalized)
               | (_, False) \<Rightarrow> (None, payment)) in
         if applied \<notin> set payments then
           Inl (NewClientError 400 (sprintf ''invalid payment option for %s service: %q (valid for %s: %s)''
             [FStr provider, FStr (rr_payment r), FStr provider, FStr (join '', '' payments)]))
         else Inr (r\<lparr>rr_provider := provider, rr_service := service, rr_payment := applied\<rparr>, adjustment))"

fun validate_recommendations :: "nat \<Rightarrow> recommendation list \<Rightarrow> api_error + recommendation list \<times> payment_adjustment list" where
  "validate_recommendations i [] = Inr ([], [])"
| "validate_recommendations i (r # rs) =
    rbind (validatePurchaseRecommendation r i) (\<lambda>(r', adjustment).
    rbind (validate_recommendations (Suc i) rs) (\<lambda>(rs', adjustments).
      Inr (r' # rs', (case adjustment of None \<Rightarrow> adjustments | Some a \<Rightarrow> a # adjustments))))"

definition validateExecutePurchaseRecommendations :: "recommendation list \<Rightarrow> api_error + recommendation list \<times> payment_adjustment list" where
  "validateExecutePurchaseRecommendations = validate_recommendations 0"

section \<open>Capacity\<close>

definition to_int64 :: "int \<Rightarrow> int" where
  "to_int64 n = (n + 2 ^ 63) mod 2 ^ 64 - 2 ^ 63"

text \<open>Division of Go truncates.\<close>

definition go_div :: "int \<Rightarrow> int \<Rightarrow> int" where
  "go_div a b = sgn a * sgn b * (\<bar>a\<bar> div \<bar>b\<bar>)"

definition capacity_error :: "int \<Rightarrow> nat \<Rightarrow> recommendation \<Rightarrow> api_error option" where
  "capacity_error pct i r =
    (let expected = go_div (to_int64 (rr_recommended r * pct)) 100 in
     if rr_recommended r \<le> 0 \<or> expected = rr_count r then None
     else Some (NewClientError 400 (sprintf
       ''recommendation %d: count %d is inconsistent with capacity_percent %d%% of recommended_count %d (expected %d)''
       [FInt (int i), FInt (rr_count r), FInt pct, FInt (rr_recommended r), FInt expected])))"

definition validateCapacityConsistency :: "recommendation list \<Rightarrow> int \<Rightarrow> api_error option" where
  "validateCapacityConsistency recs pct = check_each 0 (capacity_error pct) recs"

text \<open>The request as the function leaves it.\<close>

definition normalizeCapacityPercent :: "execute_request \<Rightarrow> api_error + execute_request" where
  "normalizeCapacityPercent x =
    (let x = (if xq_capacity x = 0 then x\<lparr>xq_capacity := 100\<rparr> else x) in
     if xq_capacity x < 1 \<or> 100 < xq_capacity x then
       Inl (NewClientError 400 (sprintf ''capacity_percent must be between 1 and 100, got %d'' [FInt (xq_capacity x)]))
     else Inr x)"

section \<open>Totals\<close>

definition recTotalCommitment :: "recommendation \<Rightarrow> f64" where
  "recTotalCommitment r =
    (case rr_monthly r of
       None \<Rightarrow> rr_upfront r
     | Some m \<Rightarrow> if 0 < rr_term r then fadd (rr_upfront r) (fmul m (f64_of_int (rr_term r * 12))) else rr_upfront r)"

definition totalCommitment :: "recommendation list \<Rightarrow> f64" where
  "totalCommitment recs = fold (\<lambda>r total. fadd total (recTotalCommitment r)) recs (Fin 0)"

definition constraint_account :: "string \<Rightarrow> recommendation \<Rightarrow> string" where
  "constraint_account unattributed r = (case rr_account r of None \<Rightarrow> unattributed | Some i \<Rightarrow> if i = [] then unattributed else i)"

definition requireNonZeroCommitment :: "permission_constraints list \<Rightarrow> api_error option" where
  "requireNonZeroCommitment sets =
    (case sets of
       [] \<Rightarrow> None
     | c # _ \<Rightarrow> if feq (cn_max c) (Fin 0) then Some (NewClientError 400
         ''recommendation batch has zero total commitment (no upfront or recurring cost); refusing to evaluate purchase constraints against it'')
       else None)"

definition max_amount :: f64 where "max_amount = Fin 10000000"

fun total_recommendations :: "nat \<Rightarrow> f64 \<Rightarrow> f64 \<Rightarrow> recommendation list \<Rightarrow> api_error + f64 \<times> f64" where
  "total_recommendations i upfront savings [] = Inr (upfront, savings)"
| "total_recommendations i upfront savings (r # rs) =
    (if flt (rr_upfront r) (Fin 0) then
       Inl (NewClientError 400 (sprintf ''recommendation %d has negative upfront cost: %.2f'' [FInt (int i), FF64 (rr_upfront r)]))
     else if flt (rr_savings r) (Fin 0) then
       Inl (NewClientError 400 (sprintf ''recommendation %d has negative savings: %.2f'' [FInt (int i), FF64 (rr_savings r)]))
     else total_recommendations (Suc i) (fadd upfront (rr_upfront r)) (fadd savings (rr_savings r)) rs)"

definition validateAndTotalRecommendations :: "recommendation list \<Rightarrow> api_error + f64 \<times> f64" where
  "validateAndTotalRecommendations recs =
    rbind (total_recommendations 0 (Fin 0) (Fin 0) recs) (\<lambda>(upfront, savings).
      if fgt upfront max_amount then
        Inl (NewClientError 400 (sprintf ''total upfront cost %.2f exceeds maximum allowed (%.2f)'' [FF64 upfront, FF64 max_amount]))
      else if fgt savings max_amount then
        Inl (NewClientError 400 (sprintf ''total estimated savings %.2f exceeds maximum allowed (%.2f)'' [FF64 savings, FF64 max_amount]))
      else Inr (upfront, savings))"

section \<open>Suppressions\<close>

definition suppression_key :: "recommendation \<Rightarrow> string list" where
  "suppression_key r = [case rr_account r of None \<Rightarrow> [] | Some i \<Rightarrow> i, rr_provider r, rr_service r, rr_region r, rr_type r, rr_engine r]"

text \<open>The counted recommendations by key, in the order of first occurrence.\<close>

fun add_count :: "string list \<Rightarrow> int \<Rightarrow> (string list \<times> int) list \<Rightarrow> (string list \<times> int) list" where
  "add_count k n [] = [(k, n)]"
| "add_count k n ((k', m) # rest) = (if k' = k then (k', m + n) # rest else (k', m) # add_count k n rest)"

definition suppression_counts :: "recommendation list \<Rightarrow> (string list \<times> int) list" where
  "suppression_counts recs = fold (\<lambda>r acc. if rr_count r \<le> 0 then acc else add_count (suppression_key r) (rr_count r) acc) recs []"

definition grace_days :: "purchase_config option \<Rightarrow> string \<Rightarrow> int" where
  "grace_days cfg provider = (case cfg of None \<Rightarrow> DefaultGracePeriodDays | Some c \<Rightarrow> GracePeriodFor c provider)"

definition suppression_of :: "string \<Rightarrow> gotime \<Rightarrow> int \<Rightarrow> string list \<times> int \<Rightarrow> suppression" where
  "suppression_of i now days kn = (case kn of (k, n) \<Rightarrow> \<lparr>su_id = [], su_execution = i, su_account = k ! 0, su_provider = k ! 1,
     su_service = k ! 2, su_region = k ! 3, su_type = k ! 4, su_engine = k ! 5, su_count = n,
     su_expires = now + days * 24 * hour_ns\<rparr>)"

definition buildSuppressions :: "recommendation list \<Rightarrow> string \<Rightarrow> purchase_config option \<Rightarrow> gotime \<Rightarrow> suppression list" where
  "buildSuppressions recs i cfg now =
    map (\<lambda>kn. suppression_of i now (grace_days cfg (fst kn ! 1)) kn)
      (filter (\<lambda>kn. 0 < grace_days cfg (fst kn ! 1)) (suppression_counts recs))"

section \<open>The fingerprint of a submission\<close>

definition purchaseIdempotencyWindow :: int where "purchaseIdempotencyWindow = 2 * minute_ns"

definition fingerprint_tuple :: "recommendation \<Rightarrow> string" where
  "fingerprint_tuple r = sprintf ''%s|%s|%s|%s|%s|%s|%d|%d|%s''
    [FStr (to_lower (trim_space (rr_provider r))), FStr (rr_service r), FStr (rr_region r), FStr (rr_type r), FStr (rr_engine r),
     FStr (case rr_account r of None \<Rightarrow> [] | Some i \<Rightarrow> i), FInt (rr_count r), FInt (rr_term r),
     FStr (to_lower (trim_space (rr_payment r)))]"

definition fingerprint_text :: "string \<Rightarrow> recommendation list \<Rightarrow> int \<Rightarrow> string" where
  "fingerprint_text creator recs capacity =
    creator @ CHR 0x1F # itoa capacity @ CHR 0x1F # join [CHR 0x1E] (sort (map fingerprint_tuple recs))"

text \<open>\<open>hash\<close> is SHA-256 in hexadecimal.\<close>

definition purchaseIdempotencyKey :: "(string \<Rightarrow> string) \<Rightarrow> string \<Rightarrow> recommendation list \<Rightarrow> int \<Rightarrow> string" where
  "purchaseIdempotencyKey hash creator recs capacity = hash (fingerprint_text creator recs capacity)"

definition derefStringOrEmpty :: "string option \<Rightarrow> string" where
  "derefStringOrEmpty s = (case s of None \<Rightarrow> [] | Some v \<Rightarrow> v)"

definition is_duplicate :: "(string \<Rightarrow> string) \<Rightarrow> string \<Rightarrow> string \<Rightarrow> gotime \<Rightarrow> execution \<Rightarrow> bool" where
  "is_duplicate hash creator key now e =
    (pe_source e = PurchaseSourceWeb \<and> \<not> pe_scheduled e < now - purchaseIdempotencyWindow \<and>
     derefStringOrEmpty (pe_creator e) = creator \<and>
     purchaseIdempotencyKey hash (derefStringOrEmpty (pe_creator e)) (pe_recs e) (pe_capacity e) = key)"

definition matchDuplicateInList :: "(string \<Rightarrow> string) \<Rightarrow> execution list \<Rightarrow> string \<Rightarrow> string \<Rightarrow> gotime \<Rightarrow> execution option" where
  "matchDuplicateInList hash pending creator key now = find (is_duplicate hash creator key now) pending"

section \<open>Retry gates\<close>

definition retryThreshold :: int where "retryThreshold = 5"

text \<open>The map is ranged over in no fixed order; a failure that matches two needles gets either hint.\<close>

definition persistentFailureHints :: "(string \<times> string) list" where
  "persistentFailureHints =
    [(''FROM_EMAIL not configured'', ''Set FROM_EMAIL tfvar then retry''),
     (''SES sandbox'', ''Move SES out of sandbox or verify recipient, then retry''),
     (''SES domain not verified'', ''Verify SES domain in AWS console, then retry''),
     (''IAM denied'', ''Grant the deploy role missing IAM permission, then retry'')]"

definition resolveOpsHint :: "string \<Rightarrow> string" where
  "resolveOpsHint reason =
    (if reason = [] then []
     else case find (\<lambda>(needle, hint). sublist (to_lower needle) (to_lower reason)) persistentFailureHints of
       None \<Rightarrow> [] | Some (needle, hint) \<Rightarrow> hint)"

definition checkRetryEligibilityGates :: "execution \<Rightarrow> http_request \<Rightarrow> api_error option" where
  "checkRetryEligibilityGates e req =
    (let reason = RedriveRefusalReason e; hint = resolveOpsHint (pe_error e) in
     if reason \<noteq> [] then Some (ClientError 409 (''this purchase cannot be retried safely: '' @ reason)
       [(''ops_hint'', JStr reason), (''redrive_unsafe'', JBool True)])
     else if hint \<noteq> [] then Some (ClientError 409
       ''this failure is operator-fixable; retrying without changing configuration will fail again''
       [(''ops_hint'', JStr hint), (''failure_reason'', JStr (pe_error e))])
     else if \<not> equal_fold (query_param req ''force'') ''true'' \<and> retryThreshold \<le> pe_attempt e then Some (ClientError 409
       (sprintf ''execution %s has been retried %d times already; pass ?force=true to override'' [FStr (pe_id e), FInt (pe_attempt e)])
       [(''retry_attempt_n'', JInt (pe_attempt e)), (''threshold'', JInt retryThreshold)])
     else None)"

end
