(* ===== verification/Api_Submit.thy ===== *)
theory Api_Submit
  imports Api_Planned Api_Payment
begin

text \<open>
  Submitting a purchase, executing it at once, and retrying a failed one
  (\<open>internal/api/handler_purchases.go\<close>). The execution a function changes through its pointer is
  part of its result.
\<close>

section \<open>Checking a request\<close>

definition purchaseConstraintSets :: "recommendation list \<Rightarrow> permission_constraints list" where
  "purchaseConstraintSets recs = map (\<lambda>r. \<lparr>cn_accounts = [constraint_account unattributedAccountConstraint r],
     cn_providers = [rr_provider r], cn_services = [rr_service r], cn_regions = [rr_region r], cn_max = totalCommitment recs\<rparr>) recs"

definition enforcePurchaseConstraints :: "('p, 'c, 'd) handler \<Rightarrow> api_session \<Rightarrow> recommendation list \<Rightarrow> ('c, 'd) api_world \<Rightarrow>
    api_error option \<times> ('c, 'd) api_world" where
  "enforcePurchaseConstraints h sn recs w =
    (let sets = purchaseConstraintSets recs in
     case requireNonZeroCommitment sets of
       Some err \<Rightarrow> (Some err, w)
     | None \<Rightarrow> requirePermissionConstraints h sn ResourcePurchases sets w)"

definition maxRecommendations :: nat where "maxRecommendations = 1000"

text \<open>The checks that need no service, in two steps around the scope.\<close>

definition decode_request :: "('p, 'c, 'd) handler \<Rightarrow> http_request \<Rightarrow> api_error + execute_request" where
  "decode_request h req =
    (case hd_decode h (rq_body req) of
       None \<Rightarrow> Inl (NewClientError 400 ''invalid request body'')
     | Some x \<Rightarrow>
       if xq_recs x = [] then Inl (NewClientError 400 ''no recommendations provided'')
       else if maxRecommendations < length (xq_recs x) then Inl (NewClientError 400
         (sprintf ''too many recommendations: %d (max %d)'' [FInt (int (length (xq_recs x))), FInt (int maxRecommendations)]))
       else normalizeCapacityPercent x)"

definition check_request :: "execute_request \<Rightarrow> api_error + execute_request \<times> payment_adjustment list" where
  "check_request x =
    rbind (validateExecutePurchaseRecommendations (xq_recs x)) (\<lambda>(recs, adjustments).
      case validateCapacityConsistency recs (xq_capacity x) of
        Some err \<Rightarrow> Inl err
      | None \<Rightarrow> Inr (x\<lparr>xq_recs := recs\<rparr>, adjustments))"

definition validateExecutePurchaseRequest :: "('p, 'c, 'd) handler \<Rightarrow> http_request \<Rightarrow> ('c, 'd) api_world \<Rightarrow>
    (api_error + execute_request \<times> api_session \<times> payment_adjustment list) \<times> ('c, 'd) api_world" where
  "validateExecutePurchaseRequest h req w =
    (case requirePermission h req ActionExecute ResourcePurchases w of
       (Inl err, w) \<Rightarrow> (Inl err, w)
     | (Inr sn, w) \<Rightarrow>
       (case decode_request h req of
          Inl err \<Rightarrow> (Inl err, w)
        | Inr x \<Rightarrow>
          (case validatePurchaseRecommendationScope h sn (xq_recs x) w of
             (Some err, w) \<Rightarrow> (Inl err, w)
           | (None, w) \<Rightarrow>
             (case check_request x of
                Inl err \<Rightarrow> (Inl err, w)
              | Inr (x, adjustments) \<Rightarrow>
                (case enforcePurchaseConstraints h sn (xq_recs x) w of
                   (Some err, w) \<Rightarrow> (Inl err, w)
                 | (None, w) \<Rightarrow> (Inr (x, sn, adjustments), w))))))"

section \<open>Storing a submission\<close>

fun create_suppressions :: "pdb_env \<Rightarrow> suppression list \<Rightarrow> pdb \<Rightarrow> goerr option \<times> pdb" where
  "create_suppressions env [] db = (None, db)"
| "create_suppressions env (x # xs) db =
    (case CreateSuppressionTx env x db of
       (Some e, db) \<Rightarrow> (Some e, db) | (None, db) \<Rightarrow> create_suppressions env xs db)"

text \<open>The body of the transaction; its variables are the duplicate and the execution.\<close>

definition submit_tx :: "pdb_env \<Rightarrow> (string \<Rightarrow> string) \<Rightarrow> execution \<Rightarrow> suppression list \<Rightarrow> string \<Rightarrow> string \<Rightarrow> pdb \<Rightarrow>
    (goerr option \<times> execution option \<times> execution) \<times> pdb" where
  "submit_tx env hash e xs creator key db =
    (case GetPendingExecutionsTx env db of
       (Inl err, db) \<Rightarrow> ((Some err, None, e), db)
     | (Inr pending, db) \<Rightarrow>
       (case matchDuplicateInList hash pending creator key (clock env db) of
          Some dup \<Rightarrow> ((None, Some dup, e), db)
        | None \<Rightarrow>
          (case SavePurchaseExecutionTx env e db of
             ((Some err, e), db) \<Rightarrow> ((Some err, None, e), db)
           | ((None, e), db) \<Rightarrow>
             (case create_suppressions env xs db of (err, db) \<Rightarrow> ((err, None, e), db)))))"

definition persistExecutionAndSuppressions :: "('p, 'c, 'd) handler \<Rightarrow> execution \<Rightarrow> suppression list \<Rightarrow> string \<Rightarrow> string \<Rightarrow>
    ('c, 'd) api_world \<Rightarrow> (api_error + execution option \<times> execution) \<times> ('c, 'd) api_world" where
  "persistExecutionAndSuppressions h e xs creator key w =
    (case in_store (WithTx (hd_env h) (None, e) (submit_tx (hd_env h) (mg_hash (hd_purchases h)) e xs creator key)) w of
       ((Some err, _), w) \<Rightarrow> (Inl (internal ''failed to save execution: '' err), w)
     | ((None, dup, e), w) \<Rightarrow> (Inr (dup, e), w))"

text \<open>Only the tests call this variant; it looks outside the transaction.\<close>

definition findDuplicatePendingExecution :: "('p, 'c, 'd) handler \<Rightarrow> string \<Rightarrow> string \<Rightarrow> gotime \<Rightarrow> ('c, 'd) api_world \<Rightarrow>
    (goerr + execution option) \<times> ('c, 'd) api_world" where
  "findDuplicatePendingExecution h creator key now w =
    (case in_store (GetPendingExecutions (hd_env h)) w of
       (Inl err, w) \<Rightarrow> (Inl err, w)
     | (Inr pending, w) \<Rightarrow> (Inr (find (is_duplicate (mg_hash (hd_purchases h)) creator key now) pending), w))"

definition api_fresh :: "(nat \<Rightarrow> 'r) \<Rightarrow> ('c, 'd) api_world \<Rightarrow> 'r \<times> ('c, 'd) api_world" where
  "api_fresh f = in_purchases (fresh f)"

text \<open>A web execution; what the two constructors leave out is the zero value.\<close>

definition web_execution :: "string \<Rightarrow> gotime \<Rightarrow> recommendation list \<Rightarrow> f64 \<Rightarrow> f64 \<Rightarrow> string \<Rightarrow> gotime \<Rightarrow> int \<Rightarrow> execution" where
  "web_execution i now recs upfront savings tok expires capacity = \<lparr>pe_plan = [], pe_id = i, pe_status = ''pending'',
     pe_step = 0, pe_scheduled = now, pe_notified = None, pe_token = tok, pe_recs = recs,
     pe_upfront = upfront, pe_savings = savings, pe_completed = None, pe_error = [], pe_ttl = 0, pe_account = None,
     pe_source = PurchaseSourceWeb, pe_approved_by = None, pe_cancelled_by = None, pe_creator = None, pe_retry = None,
     pe_attempt = 0, pe_capacity = capacity, pe_token_expires = Some expires, pe_executed_by = None, pe_executed_at = None,
     pe_skip_reason = None, pe_key = [], pe_fire_at = None\<rparr>"

definition newPendingExecution :: "('p, 'c, 'd) handler \<Rightarrow> execute_request \<Rightarrow> f64 \<Rightarrow> f64 \<Rightarrow> ('c, 'd) api_world \<Rightarrow>
    (api_error + execution) \<times> ('c, 'd) api_world" where
  "newPendingExecution h x upfront savings w =
    (case api_fresh (mg_token (hd_purchases h)) w of
       (Inl err, w) \<Rightarrow> (Inl (internal ''failed to generate approval token: '' err), w)
     | (Inr tok, w) \<Rightarrow>
       (case api_fresh (pv_uuid (hd_env h)) w of (i, w) \<Rightarrow>
         (Inr (web_execution i (api_now h w) (xq_recs x) upfront savings tok (api_now h w + ApprovalTokenTTL) (xq_capacity x)), w)))"

section \<open>Answers\<close>

definition buildDuplicatePurchaseResponse :: "execution \<Rightarrow> response" where
  "buildDuplicatePurchaseResponse e =
    [(''execution_id'', JStr (pe_id e)), (''status'', JStr (pe_status e)), (''recommendation_count'', JInt (int (length (pe_recs e)))),
     (''total_upfront_cost'', JFloat (pe_upfront e)), (''estimated_savings'', JFloat (pe_savings e)),
     (''email_sent'', JBool (pe_notified e \<noteq> None)), (''duplicate'', JBool True),
     (''message'', JStr ''Duplicate submission collapsed onto the existing pending execution; no new approval request was created.'')]"

definition withPaymentAdjustments :: "response \<Rightarrow> payment_adjustment list \<Rightarrow> response" where
  "withPaymentAdjustments resp adjustments =
    (if adjustments = [] then resp else resp @ [(''payment_adjustments'', JAdjustments adjustments)])"

definition mail_fields :: "string \<Rightarrow> string \<Rightarrow> response" where
  "mail_fields reason recipient =
    (if reason \<noteq> [] then [(''email_reason'', JStr reason)] else []) @
    (if recipient \<noteq> [] then [(''approval_recipient'', JStr recipient)] else [])"

definition buildApprovalPendingResponse :: "string \<Rightarrow> string \<Rightarrow> nat \<Rightarrow> f64 \<Rightarrow> f64 \<Rightarrow> bool \<Rightarrow> string \<Rightarrow> string \<Rightarrow> response" where
  "buildApprovalPendingResponse i status n upfront savings sent reason recipient =
    [(''execution_id'', JStr i), (''status'', JStr status), (''recommendation_count'', JInt (int n)),
     (''total_upfront_cost'', JFloat upfront), (''estimated_savings'', JFloat savings), (''email_sent'', JBool sent),
     (''message'', JStr (if sent then ''Purchase execution created and pending approval''
        else ''Purchase execution created but approval email could not be sent - see email_reason''))] @ mail_fields reason recipient"

text \<open>An approval mail that was not sent makes the execution a failed one.\<close>

definition finalizePurchaseStatus :: "('p, 'c, 'd) handler \<Rightarrow> execution \<Rightarrow> bool \<Rightarrow> string \<Rightarrow> ('c, 'd) api_world \<Rightarrow> string \<times> ('c, 'd) api_world" where
  "finalizePurchaseStatus h e sent reason w =
    (if sent then (''pending'', w)
     else case in_store (SavePurchaseExecution (hd_env h) (e\<lparr>pe_status := ''failed'', pe_error := reason\<rparr>)) w of
       ((Some _, _), w) \<Rightarrow> (''pending'', w)
     | ((None, _), w) \<Rightarrow> (''failed'', w))"

section \<open>Submitting\<close>

definition directExecutePurchase :: "('p, 'c, 'd) handler \<Rightarrow> http_request \<Rightarrow> execution \<Rightarrow> api_session \<Rightarrow> payment_adjustment list \<Rightarrow>
    ('c, 'd) api_world \<Rightarrow> (api_error + response) \<times> ('c, 'd) api_world" where
  "directExecutePurchase h req e sn adjustments w =
    (let e = (if sn_user sn \<noteq> [] then e\<lparr>pe_executed_by := Some (sn_user sn)\<rparr> else e);
         e = e\<lparr>pe_executed_at := Some (api_now h w), pe_skip_reason := Some ''direct-execute permission''\<rparr> in
     case in_store (SavePurchaseExecution (hd_env h) e) w of ((_, e), w) \<Rightarrow>
     (case in_purchases (ApproveAndExecute (hd_purchases h) (pe_id e) (fourEyesActorIdentity sn)
         (validUUIDPtrOrNil (Some (sn_user sn)))) w of
        (Some err, w) \<Rightarrow> (Inl (NewClientError 409
          (sprintf ''execution %s could not be direct-executed: %v'' [FStr (pe_id e), FStr (err_string err)])), w)
      | (None, w) \<Rightarrow>
        (Inr (withPaymentAdjustments
           [(''execution_id'', JStr (pe_id e)), (''status'', JStr ''completed''),
            (''recommendation_count'', JInt (int (length (pe_recs e)))), (''total_upfront_cost'', JFloat (pe_upfront e)),
            (''estimated_savings'', JFloat (pe_savings e)), (''direct_execute'', JBool True),
            (''message'', JStr ''Purchase executed immediately (direct-execute permission).'')] adjustments),
         sendPurchaseExecutedEmail h req e (sn_email sn) w)))"

definition configured :: "goerr + purchase_config \<Rightarrow> purchase_config option" where
  "configured r = (case r of Inl _ \<Rightarrow> None | Inr c \<Rightarrow> Some c)"

text \<open>What happens once the execution is stored and no duplicate.\<close>

definition submitted :: "('p, 'c, 'd) handler \<Rightarrow> http_request \<Rightarrow> execute_request \<Rightarrow> api_session \<Rightarrow> payment_adjustment list \<Rightarrow>
    f64 \<Rightarrow> f64 \<Rightarrow> execution \<Rightarrow> ('c, 'd) api_world \<Rightarrow> (api_error + response) \<times> ('c, 'd) api_world" where
  "submitted h req x sn adjustments upfront savings e w =
    (if xq_mode x = ''direct'' then
       (case authorizeSessionExecuteDirect h sn (derefStringOrEmpty (resolveCreatorUserID sn)) w of
          (Some err, w) \<Rightarrow> (Inl err, w)
        | (None, w) \<Rightarrow> directExecutePurchase h req e sn adjustments w)
     else (case sendPurchaseApprovalEmail h req e (xq_recs x) upfront savings w of
         ((sent, reason, recipient), w) \<Rightarrow>
           (case finalizePurchaseStatus h e sent reason w of (status, w) \<Rightarrow>
             (Inr (withPaymentAdjustments (buildApprovalPendingResponse (pe_id e) status (length (xq_recs x)) upfront savings
                sent reason recipient) adjustments), w))))"

definition api_executePurchase :: "('p, 'c, 'd) handler \<Rightarrow> http_request \<Rightarrow> ('c, 'd) api_world \<Rightarrow>
    (api_error + response) \<times> ('c, 'd) api_world" where
  "api_executePurchase h req w =
    (case validateExecutePurchaseRequest h req w of
       (Inl err, w) \<Rightarrow> (Inl err, w)
     | (Inr (x, sn, adjustments), w) \<Rightarrow>
       (case validateAndTotalRecommendations (xq_recs x) of
          Inl err \<Rightarrow> (Inl err, w)
        | Inr (upfront, savings) \<Rightarrow>
          let creator = resolveCreatorUserID sn; creatorID = derefStringOrEmpty creator;
              key = purchaseIdempotencyKey (mg_hash (hd_purchases h)) creatorID (xq_recs x) (xq_capacity x) in
          (case newPendingExecution h x upfront savings w of
             (Inl err, w) \<Rightarrow> (Inl err, w)
           | (Inr e, w) \<Rightarrow>
             (case in_store (GetGlobalConfig (hd_env h)) w of (cfg, w) \<Rightarrow>
             (case persistExecutionAndSuppressions h (e\<lparr>pe_creator := creator\<rparr>)
                 (buildSuppressions (xq_recs x) (pe_id e) (configured cfg) (api_now h w)) creatorID key w of
                (Inl err, w) \<Rightarrow> (Inl err, w)
              | (Inr (Some dup, _), w) \<Rightarrow> (Inr (withPaymentAdjustments (buildDuplicatePurchaseResponse dup) adjustments), w)
              | (Inr (None, e), w) \<Rightarrow> submitted h req x sn adjustments upfront savings e w)))))"

section \<open>Retrying\<close>

definition authorizeSessionRetry :: "('p, 'c, 'd) handler \<Rightarrow> api_session \<Rightarrow> execution \<Rightarrow> ('c, 'd) api_world \<Rightarrow> api_error option \<times> ('c, 'd) api_world" where
  "authorizeSessionRetry h sn e = authorize_session h sn ActionRetryAny ActionRetryOwn
     ''permission denied: requires retry-any or retry-own on purchases''
     ''permission denied: cannot retry another user's failed purchase'' (made_by sn e)"

definition already_retried :: "execution \<Rightarrow> api_error option" where
  "already_retried e =
    (case pe_retry e of
       None \<Rightarrow> None
     | Some i \<Rightarrow>
       if i = [] then None
       else Some (ClientError 409 (sprintf ''execution %s was already retried; act on its descendant instead'' [FStr (pe_id e)])
         [(''retry_execution_id'', JStr i)]))"

definition loadAndValidateRetryRequest :: "('p, 'c, 'd) handler \<Rightarrow> http_request \<Rightarrow> string \<Rightarrow> ('c, 'd) api_world \<Rightarrow>
    (api_error + execution \<times> api_session) \<times> ('c, 'd) api_world" where
  "loadAndValidateRetryRequest h req i w =
    (case validateUUID i of Some err \<Rightarrow> (Inl err, w)
     | None \<Rightarrow>
       (case fetch_execution missing_execution h i w of
          (Inl err, w) \<Rightarrow> (Inl err, w)
        | (Inr e, w) \<Rightarrow>
          (case requireSession h req w of
             (Inl err, w) \<Rightarrow> (Inl err, w)
           | (Inr sn, w) \<Rightarrow>
             if pe_status e \<noteq> ''failed'' then
               (Inl (NewClientError 409 (sprintf ''execution %s cannot be retried (status=%s)'' [FStr (pe_id e), FStr (pe_status e)])), w)
             else (case authorizeSessionRetry h sn e w of
                 (Some err, w) \<Rightarrow> (Inl err, w)
               | (None, w) \<Rightarrow>
                 (case orelse (already_retried e) (checkRetryEligibilityGates e req) of
                    Some err \<Rightarrow> (Inl err, w) | None \<Rightarrow> (Inr (e, sn), w))))))"

definition retry_execution :: "execution \<Rightarrow> api_session \<Rightarrow> string \<Rightarrow> gotime \<Rightarrow> string \<Rightarrow> gotime \<Rightarrow> f64 \<Rightarrow> f64 \<Rightarrow> execution" where
  "retry_execution e sn i now tok expires upfront savings =
    (web_execution i now (pe_recs e) upfront savings tok expires (pe_capacity e))
      \<lparr>pe_key := idempotencyLineageKey e, pe_plan := pe_plan e, pe_step := pe_step e, pe_account := pe_account e,
       pe_creator := resolveCreatorUserID sn, pe_attempt := pe_attempt e + 1\<rparr>"

text \<open>The successor, the link from its predecessor, the suppressions: all or nothing.\<close>

definition retry_tx :: "pdb_env \<Rightarrow> execution \<Rightarrow> execution \<Rightarrow> suppression list \<Rightarrow> pdb \<Rightarrow> (goerr option \<times> execution) \<times> pdb" where
  "retry_tx env e original xs db =
    (case SavePurchaseExecutionTx env e db of
       ((Some err, e), db) \<Rightarrow> ((Some err, e), db)
     | ((None, e), db) \<Rightarrow>
       (case SavePurchaseExecutionTx env original db of
          ((Some err, _), db) \<Rightarrow> ((Some err, e), db)
        | ((None, _), db) \<Rightarrow>
          (case create_suppressions env xs db of (err, db) \<Rightarrow> ((err, e), db))))"

definition persistRetryExecution :: "('p, 'c, 'd) handler \<Rightarrow> execution \<Rightarrow> api_session \<Rightarrow> f64 \<Rightarrow> f64 \<Rightarrow> ('c, 'd) api_world \<Rightarrow>
    (api_error + execution) \<times> ('c, 'd) api_world" where
  "persistRetryExecution h failed sn upfront savings w =
    (case api_fresh (mg_token (hd_purchases h)) w of
       (Inl err, w) \<Rightarrow> (Inl (internal ''generate approval token for retry: '' err), w)
     | (Inr tok, w) \<Rightarrow>
       (case api_fresh (pv_uuid (hd_env h)) w of (i, w) \<Rightarrow>
        let e = retry_execution failed sn i (api_now h w) tok (api_now h w + ApprovalTokenTTL) upfront savings in
        (case in_store (GetGlobalConfig (hd_env h)) w of (cfg, w) \<Rightarrow>
        (case in_store (WithTx (hd_env h) e (retry_tx (hd_env h) e (failed\<lparr>pe_retry := Some i\<rparr>)
            (buildSuppressions (pe_recs failed) i (configured cfg) (api_now h w)))) w of
           ((Some err, _), w) \<Rightarrow> (Inl (internal ''failed to save retry execution: '' err), w)
         | ((None, e), w) \<Rightarrow> (Inr e, w)))))"

definition retryPurchase :: "('p, 'c, 'd) handler \<Rightarrow> http_request \<Rightarrow> string \<Rightarrow> ('c, 'd) api_world \<Rightarrow>
    (api_error + response) \<times> ('c, 'd) api_world" where
  "retryPurchase h req i w =
    (case loadAndValidateRetryRequest h req i w of
       (Inl err, w) \<Rightarrow> (Inl err, w)
     | (Inr (failed, sn), w) \<Rightarrow>
       (case validateAndTotalRecommendations (pe_recs failed) of
          Inl err \<Rightarrow> (Inl err, w)
        | Inr (upfront, savings) \<Rightarrow>
          (case enforcePurchaseConstraints h sn (pe_recs failed) w of
             (Some err, w) \<Rightarrow> (Inl err, w)
           | (None, w) \<Rightarrow>
             (case persistRetryExecution h failed sn upfront savings w of
                (Inl err, w) \<Rightarrow> (Inl err, w)
              | (Inr e, w) \<Rightarrow>
                (case sendPurchaseApprovalEmail h req e (pe_recs failed) upfront savings w of ((sent, reason, recipient), w) \<Rightarrow>
                (case finalizePurchaseStatus h e sent reason w of (status, w) \<Rightarrow>
                  (Inr ([(''execution_id'', JStr (pe_id e)), (''original_execution'', JStr (pe_id failed)),
                     (''status'', JStr status), (''recommendation_count'', JInt (int (length (pe_recs failed)))),
                     (''total_upfront_cost'', JFloat upfront), (''estimated_savings'', JFloat savings),
                     (''email_sent'', JBool sent), (''retry_attempt_n'', JInt (pe_attempt e))] @ mail_fields reason recipient), w)))))))"

end
