(* ===== verification/Api_Revoke.thy ===== *)
theory Api_Revoke
  imports Api_Approve
begin

text \<open>
  \<open>POST /api/purchases/{id}/revoke\<close> (\<open>internal/api/handler_purchases_revoke.go\<close>): a scheduled
  execution is canceled for free; a completed purchase of Azure is returned in two steps, a
  quote and the return, with a flag on its history row in between; the other providers refuse.
  The amount and the currency of a refund are columns the history row of this development does
  not have.
\<close>

section \<open>The flag of a return under way\<close>

definition set_in_flight :: "string \<Rightarrow> bool \<Rightarrow> string \<Rightarrow> pdb_env \<Rightarrow> pdb \<Rightarrow> goerr option \<times> pdb" where
  "set_in_flight pid flag what env db =
    (case run_stmt env (\<lambda>db. Inr (db\<lparr>pd_history := map (\<lambda>x. if hr_purchase_id x = pid then x\<lparr>hr_in_flight := flag\<rparr> else x) (pd_history db)\<rparr>,
         list_ex (\<lambda>x. hr_purchase_id x = pid) (pd_history db))) db of
       (Inl e, db) \<Rightarrow> (Some (wrap_err (what @ '': '') e), db)
     | (Inr found, db) \<Rightarrow> (if found then None else Some (Errorf (what @ '': purchase_id %q not found'') [EStr pid]), db))"

definition FlipPurchaseRevocationInFlight :: "pdb_env \<Rightarrow> string \<Rightarrow> pdb \<Rightarrow> goerr option \<times> pdb" where
  "FlipPurchaseRevocationInFlight env pid = set_in_flight pid True ''FlipPurchaseRevocationInFlight'' env"

definition ClearRevocationInFlight :: "pdb_env \<Rightarrow> string \<Rightarrow> pdb \<Rightarrow> goerr option \<times> pdb" where
  "ClearRevocationInFlight env pid = set_in_flight pid False ''ClearRevocationInFlight'' env"

section \<open>Who may revoke a purchase\<close>

definition checkRevokeOwnAccountAccess :: "('p, 'c, 'd) handler \<Rightarrow> string \<Rightarrow> history_row \<Rightarrow> ('c, 'd) api_world \<Rightarrow>
    api_error option \<times> ('c, 'd) api_world" where
  "checkRevokeOwnAccountAccess h u x w =
    (let unverified = Some (NewClientError 403 ''permission denied: cannot verify ownership for this purchase'') in
     case hr_cloud_account x of
       None \<Rightarrow> (unverified, w)
     | Some a \<Rightarrow>
       if a = [] then (unverified, w)
       else (case getAccountScope h \<lparr>sn_user = u, sn_email = [], sn_key = []\<rparr> w of
           (Inl e, w) \<Rightarrow> (Some (internal ''account access check failed: '' e), w)
         | (Inr sc, w) \<Rightarrow>
           (if Allows sc a [] then None
            else Some (NewClientError 403 ''permission denied: purchase is in an account you do not have access to''), w)))"

definition authorizeSessionRevoke :: "('p, 'c, 'd) handler \<Rightarrow> 'd auth_service \<Rightarrow> api_session \<Rightarrow> history_row \<Rightarrow> ('c, 'd) api_world \<Rightarrow>
    api_error option \<times> ('c, 'd) api_world" where
  "authorizeSessionRevoke h s sn x w =
    (if sn_user sn = AdminAPIKeyActorID then (None, w)
     else case HasPermissionAPI s (sn_user sn) ActionRevokeAny ResourcePurchases w of
       (Inl e, w) \<Rightarrow> (Some (check_failed e), w)
     | (Inr True, w) \<Rightarrow> (None, w)
     | (Inr False, w) \<Rightarrow>
       (case HasPermissionAPI s (sn_user sn) ActionRevokeOwn ResourcePurchases w of
          (Inl e, w) \<Rightarrow> (Some (check_failed e), w)
        | (Inr False, w) \<Rightarrow> (Some (NewClientError 403 ''permission denied: requires revoke-any or revoke-own on purchases''), w)
        | (Inr True, w) \<Rightarrow> checkRevokeOwnAccountAccess h (sn_user sn) x w))"

section \<open>Returning an Azure reservation\<close>

definition revokeQuoteEpsilon :: f64 where "revokeQuoteEpsilon = fl (1 / 100)"
definition azureRefundSafetyMargin :: int where "azureRefundSafetyMargin = hour_ns"
definition AzureRevocationWindowDays :: int where "AzureRevocationWindowDays = 7"

text \<open>\<open>strings.Index\<close>, split at the needle: what comes before and after it.\<close>

fun split_at :: "string \<Rightarrow> string \<Rightarrow> string \<Rightarrow> (string \<times> string) option" where
  "split_at needle seen [] = None"
| "split_at needle seen (c # cs) =
    (if has_prefix needle (to_lower (c # cs)) then Some (rev seen, drop (length needle) (c # cs))
     else split_at needle (c # seen) cs)"

definition parseAzureReservationIDs :: "string \<Rightarrow> (string \<times> string) option" where
  "parseAzureReservationIDs pid =
    (case split_at ''reservationorders/'' [] pid of
       None \<Rightarrow> None
     | Some (_, after) \<Rightarrow>
       (case split_at ''/reservations/'' [] after of
          None \<Rightarrow> Some (trim_right_slashes after, [])
        | Some (order, rest) \<Rightarrow> Some (order, takeWhile (\<lambda>c. c \<noteq> CHR ''/'') rest)))"

definition isAzureClientError :: "'c azure_returns \<Rightarrow> goerr \<Rightarrow> bool" where
  "isAzureClientError az e = (case az_response az e of None \<Rightarrow> False | Some (st, _) \<Rightarrow> st \<in> {400, 403, 404, 405, 409, 422})"

definition isAzureWindowEdgeError :: "'c azure_returns \<Rightarrow> goerr \<Rightarrow> bool" where
  "isAzureWindowEdgeError az e = (case az_response az e of None \<Rightarrow> False | Some (_, code) \<Rightarrow> code = ''RefundPolicyViolated'')"

definition refund_window :: "history_row \<Rightarrow> gotime" where
  "refund_window x = (case hr_window_closes x of Some t \<Rightarrow> t | None \<Rightarrow> add_days (hr_time x) AzureRevocationWindowDays)"

definition window_error :: "gotime \<Rightarrow> history_row \<Rightarrow> api_error option" where
  "window_error now x =
    (if refund_window x - azureRefundSafetyMargin < now then Some (NewClientError 422
       (sprintf ''Azure reservation return window closed at %s (%d days after purchase)''
          [FStr (rfc3339 (refund_window x)), FInt AzureRevocationWindowDays]))
     else None)"

definition buildAzureRevokeClients :: "'c azure_returns \<Rightarrow> goerr option" where
  "buildAzureRevokeClients az =
    orelse (map_option (wrap_err ''obtain credential: '') (az_credential az))
      (orelse (map_option (wrap_err ''create calculate-refund client: '') (az_calc_client az))
        (map_option (wrap_err ''create return client: '') (az_return_client az)))"

definition to_int32 :: "int \<Rightarrow> int" where
  "to_int32 n = (n + 2 ^ 31) mod 2 ^ 32 - 2 ^ 31"

definition on_azure :: "('c \<Rightarrow> 'r \<times> 'c) \<Rightarrow> ('c, 'd) api_world \<Rightarrow> 'r \<times> ('c, 'd) api_world" where
  "on_azure f = in_purchases (on_cloud f)"

definition azureCalculateRefund :: "('p, 'c, 'd) handler \<Rightarrow> string \<Rightarrow> string \<Rightarrow> int \<Rightarrow> ('c, 'd) api_world \<Rightarrow>
    (api_error + refund_quote) \<times> ('c, 'd) api_world" where
  "azureCalculateRefund h order reservation quantity w =
    (case on_azure (az_calculate (hd_azure h) order reservation quantity) w of
       (Inl e, w) \<Rightarrow>
         (Inl (if isAzureClientError (hd_azure h) e
            then NewClientError 400 (sprintf ''Azure refund calculation rejected: %v'' [FStr (err_string e)])
            else internal ''revoke azure: CalculateRefund failed: '' e), w)
     | (Inr q, w) \<Rightarrow> (Inr q, w))"

definition diverged :: "f64 option \<Rightarrow> refund_quote \<Rightarrow> api_error option" where
  "diverged expected q =
    (case (expected, qt_amount q) of
       (Some x, Some y) \<Rightarrow>
         if fgt (fabs (fsub x y)) revokeQuoteEpsilon then Some (NewClientError 422
           (sprintf ''refund amount diverged: you confirmed %.2f but Azure now quotes %.2f %s; re-confirm to proceed''
              [FF64 x, FF64 y, FStr (qt_currency q)]))
         else None
     | _ \<Rightarrow> None)"

text \<open>A return that failed takes the flag back, when it can.\<close>

definition handleAzureReturnError :: "('p, 'c, 'd) handler \<Rightarrow> history_row \<Rightarrow> goerr \<Rightarrow> ('c, 'd) api_world \<Rightarrow> api_error \<times> ('c, 'd) api_world" where
  "handleAzureReturnError h x e w =
    (case in_store (ClearRevocationInFlight (hd_env h) (hr_purchase_id x)) w of (_, w) \<Rightarrow>
      (if isAzureWindowEdgeError (hd_azure h) e
         then NewClientError 422 ''Azure reservation return window has closed; the 7-day refund period has expired''
       else if isAzureClientError (hd_azure h) e
         then NewClientError 400 (sprintf ''Azure refund rejected: %v'' [FStr (err_string e)])
       else internal ''revoke azure: Return failed: '' e, w))"

definition revokeMarkRetryBackoffs :: "int list" where
  "revokeMarkRetryBackoffs = [second_ns, 3 * second_ns, 9 * second_ns]"

definition pending_reconciliation :: "string \<Rightarrow> response" where
  "pending_reconciliation message =
    [(''code'', JStr ''RECONCILE_PENDING''), (''message'', JStr message), (''azure_returned'', JBool True)]"

definition revoked_response :: "string \<Rightarrow> gotime \<Rightarrow> string \<Rightarrow> response" where
  "revoked_response status t via = [(''status'', JStr status), (''revoked_at'', JStr (rfc3339 t)), (''revoked_via'', JStr via)]"

definition persistAzureRevocation :: "('p, 'c, 'd) handler \<Rightarrow> history_row \<Rightarrow> ('c, 'd) api_world \<Rightarrow> response \<times> ('c, 'd) api_world" where
  "persistAzureRevocation h x w =
    (let now = api_now h w in
     case in_store (mark_with_retries (hd_env h) (hr_purchase_id x) now revokeMarkRetryBackoffs) w of
       (Some _, w) \<Rightarrow> (pending_reconciliation ''Refund issued. We will reconcile your audit record shortly. Do not retry.'', w)
     | (None, w) \<Rightarrow> (revoked_response ''revoked'' now ''direct-api'', w))"

definition unidentified_reservation :: api_error where
  "unidentified_reservation = NewClientError 422
     ''cannot determine Azure reservation ID from purchase record; contact Azure Support to request a refund''"

definition callAzureReturn :: "('p, 'c, 'd) handler \<Rightarrow> history_row \<Rightarrow> string \<Rightarrow> string \<Rightarrow> f64 option \<Rightarrow> ('c, 'd) api_world \<Rightarrow>
    (api_error + response) \<times> ('c, 'd) api_world" where
  "callAzureReturn h x order reservation expected w =
    (if order = [] \<or> reservation = [] then (Inl unidentified_reservation, w)
     else let quantity = to_int32 (hr_count x) in
     case azureCalculateRefund h order reservation quantity w of
       (Inl err, w) \<Rightarrow> (Inl err, w)
     | (Inr q, w) \<Rightarrow>
       (case diverged expected q of
          Some err \<Rightarrow> (Inl err, w)
        | None \<Rightarrow>
          (case in_store (FlipPurchaseRevocationInFlight (hd_env h) (hr_purchase_id x)) w of (_, w) \<Rightarrow>
          (case on_azure (az_return (hd_azure h) order reservation quantity (qt_session q)) w of
             (Some e, w) \<Rightarrow> (case handleAzureReturnError h x e w of (err, w) \<Rightarrow> (Inl err, w))
           | (None, w) \<Rightarrow> (case persistAzureRevocation h x w of (r, w) \<Rightarrow> (Inr r, w))))))"

definition unparsed_order :: api_error where
  "unparsed_order = NewClientError 422
     ''cannot determine Azure reservation order ID from purchase record; contact Azure Support to request a refund''"

definition revokeAzurePurchase :: "('p, 'c, 'd) handler \<Rightarrow> history_row \<Rightarrow> f64 option \<Rightarrow> ('c, 'd) api_world \<Rightarrow>
    (api_error + response) \<times> ('c, 'd) api_world" where
  "revokeAzurePurchase h x expected w =
    (case window_error (api_now h w) x of
       Some err \<Rightarrow> (Inl err, w)
     | None \<Rightarrow>
       (case parseAzureReservationIDs (hr_purchase_id x) of
          None \<Rightarrow> (Inl unparsed_order, w)
        | Some (order, reservation) \<Rightarrow>
          (case buildAzureRevokeClients (hd_azure h) of
             Some e \<Rightarrow> (Inl (internal ''revoke azure: '' e), w)
           | None \<Rightarrow> callAzureReturn h x order reservation expected w)))"

definition dispatchProviderRevoke :: "('p, 'c, 'd) handler \<Rightarrow> history_row \<Rightarrow> f64 option \<Rightarrow> ('c, 'd) api_world \<Rightarrow>
    (api_error + response) \<times> ('c, 'd) api_world" where
  "dispatchProviderRevoke h x expected w =
    (if hr_provider x = ''azure'' then revokeAzurePurchase h x expected w
     else if hr_provider x = ''aws'' then
       (Inl (NewClientError 422 ''AWS RIs cannot be revoked via direct API; contact AWS Support for a refund within 24h of purchase''), w)
     else if hr_provider x = ''gcp'' then (Inl (NewClientError 422 ''GCP commitments do not have a free-cancel window''), w)
     else (Inl (NewClientError 422 (sprintf ''provider %q does not support in-app revocation'' [FStr (hr_provider x)])), w))"

section \<open>The endpoints\<close>

definition load_history :: "string \<Rightarrow> ('p, 'c, 'd) handler \<Rightarrow> string \<Rightarrow> ('c, 'd) api_world \<Rightarrow> (api_error + history_row) \<times> ('c, 'd) api_world" where
  "load_history what h pid w =
    (case in_store (GetPurchaseHistoryByPurchaseID (hd_env h) pid) w of
       (Inl e, w) \<Rightarrow> (Inl (Internal (Errorf (what @ '': load purchase %s: %w'') [EStr pid, EWrap e])), w)
     | (Inr None, w) \<Rightarrow> (Inl (NewClientError 404 ''purchase not found''), w)
     | (Inr (Some x), w) \<Rightarrow> (Inr x, w))"

definition loadAndRevokePurchaseHistory :: "('p, 'c, 'd) handler \<Rightarrow> 'd auth_service \<Rightarrow> http_request \<Rightarrow> api_session \<Rightarrow> string \<Rightarrow>
    ('c, 'd) api_world \<Rightarrow> (api_error + response) \<times> ('c, 'd) api_world" where
  "loadAndRevokePurchaseHistory h s req sn pid w =
    (case load_history ''revoke'' h pid w of
       (Inl err, w) \<Rightarrow> (Inl err, w)
     | (Inr x, w) \<Rightarrow>
       (case authorizeSessionRevoke h s sn x w of
          (Some err, w) \<Rightarrow> (Inl err, w)
        | (None, w) \<Rightarrow>
          (case hr_revoked x of
             Some (t, via) \<Rightarrow> (Inr (revoked_response ''already_revoked'' t via), w)
           | None \<Rightarrow>
             if hr_in_flight x then
               (Inr (pending_reconciliation ''Refund already issued. We will reconcile your audit record shortly. Do not retry.''), w)
             else (case (if rq_body req = [] then Inr None else hd_decode_refund h (rq_body req)) of
                 Inl e \<Rightarrow> (Inl (NewClientError 400 (sprintf ''invalid request body: %v'' [FStr (err_string e)])), w)
               | Inr expected \<Rightarrow> dispatchProviderRevoke h x expected w))))"

definition no_auth_forbidden :: api_error where
  "no_auth_forbidden = NewClientError 403 ''authentication service not configured''"

definition revokePurchase :: "('p, 'c, 'd) handler \<Rightarrow> http_request \<Rightarrow> string \<Rightarrow> ('c, 'd) api_world \<Rightarrow>
    (api_error + response) \<times> ('c, 'd) api_world" where
  "revokePurchase h req pid w =
    (if pid = [] then (Inl (NewClientError 400 ''purchase_id is required''), w)
     else case hd_auth h of
       None \<Rightarrow> (Inl no_auth_forbidden, w)
     | Some s \<Rightarrow>
       (case requireSession h req w of
          (Inl err, w) \<Rightarrow> (Inl err, w)
        | (Inr sn, w) \<Rightarrow>
          (case in_store (GetExecutionByID (hd_env h) pid) w of
             (Inr e, w) \<Rightarrow> revokeScheduledExecution h s sn e w
           | (Inl err, w) \<Rightarrow>
             if \<not> is_not_found err then
               (Inl (Internal (Errorf ''revoke: GetExecutionByID %s: %w'' [EStr pid, EWrap err])), w)
             else loadAndRevokePurchaseHistory h s req sn pid w)))"

definition azureRevokeWindowAndIDs :: "gotime \<Rightarrow> history_row \<Rightarrow> api_error + string \<times> string" where
  "azureRevokeWindowAndIDs now x =
    (if hr_provider x \<noteq> ''azure'' then
       Inl (NewClientError 422 (sprintf ''provider %q does not support refund calculation'' [FStr (hr_provider x)]))
     else case window_error now x of
       Some err \<Rightarrow> Inl err
     | None \<Rightarrow>
       (case parseAzureReservationIDs (hr_purchase_id x) of
          None \<Rightarrow> Inl unparsed_order
        | Some (order, reservation) \<Rightarrow>
          if order = [] \<or> reservation = [] then Inl unidentified_reservation else Inr (order, reservation)))"

definition validateAzureRevokeRequest :: "('p, 'c, 'd) handler \<Rightarrow> http_request \<Rightarrow> string \<Rightarrow> ('c, 'd) api_world \<Rightarrow>
    (api_error + history_row \<times> string \<times> string) \<times> ('c, 'd) api_world" where
  "validateAzureRevokeRequest h req pid w =
    (if pid = [] then (Inl (NewClientError 400 ''purchase_id is required''), w)
     else case hd_auth h of
       None \<Rightarrow> (Inl no_auth_forbidden, w)
     | Some s \<Rightarrow>
       (case requireSession h req w of
          (Inl err, w) \<Rightarrow> (Inl err, w)
        | (Inr sn, w) \<Rightarrow>
          (case load_history ''revoke/calculate'' h pid w of
             (Inl err, w) \<Rightarrow> (Inl err, w)
           | (Inr x, w) \<Rightarrow>
             (case authorizeSessionRevoke h s sn x w of
                (Some err, w) \<Rightarrow> (Inl err, w)
              | (None, w) \<Rightarrow> (rbind (azureRevokeWindowAndIDs (api_now h w) x) (\<lambda>ids. Inr (x, ids)), w)))))"

definition buildAzureCalculateRefundClient :: "'c azure_returns \<Rightarrow> goerr option" where
  "buildAzureCalculateRefundClient az =
    orelse (map_option (wrap_err ''obtain credential: '') (az_credential az))
      (map_option (wrap_err ''create calculate-refund client: '') (az_calc_client az))"

definition calculateAzureRevoke :: "('p, 'c, 'd) handler \<Rightarrow> http_request \<Rightarrow> string \<Rightarrow> ('c, 'd) api_world \<Rightarrow>
    (api_error + response) \<times> ('c, 'd) api_world" where
  "calculateAzureRevoke h req pid w =
    (case validateAzureRevokeRequest h req pid w of
       (Inl err, w) \<Rightarrow> (Inl err, w)
     | (Inr (x, order, reservation), w) \<Rightarrow>
       (case buildAzureCalculateRefundClient (hd_azure h) of
          Some e \<Rightarrow> (Inl (internal ''revoke/calculate: '' e), w)
        | None \<Rightarrow>
          (case on_azure (az_calculate (hd_azure h) order reservation (to_int32 (hr_count x))) w of
             (Inl e, w) \<Rightarrow>
               (Inl (if isAzureClientError (hd_azure h) e
                  then NewClientError 400 (sprintf ''Azure refund calculation rejected: %v'' [FStr (err_string e)])
                  else internal ''revoke/calculate: CalculateRefund failed: '' e), w)
           | (Inr q, w) \<Rightarrow>
             (Inr [(''refund_currency'', JStr (qt_currency q)), (''quoted_at'', JStr (rfc3339 (api_now h w))),
                (''refund_amount'', JFloat (case qt_amount q of None \<Rightarrow> Fin 0 | Some a \<Rightarrow> a))], w))))"

end
