(* ===== verification/Api_Quiet_Facts.thy ===== *)
theory Api_Quiet_Facts
  imports Api_Submit Api_Revoke Purchase_Workflow_Facts Auth_Service_Facts Auth_Grant_Facts
begin

text \<open>
  A calculus of runs for the handlers, and what only looks: the authentication, the permission
  gates, the scopes and the mails change no table of purchases and none of users, groups and
  keys.
\<close>

section \<open>A calculus of runs\<close>

text \<open>The result \<open>p\<close> of an operation is reached from the world \<open>w0\<close>.\<close>

definition reaches :: "('w \<Rightarrow> 'w \<Rightarrow> bool) \<Rightarrow> 'w \<Rightarrow> 'r \<times> 'w \<Rightarrow> bool" where
  "reaches R w0 p = R w0 (snd p)"

text \<open>The rules follow the shape of the definitions, as those of the authentication service do.\<close>

locale run_order = world_order R for R :: "'w \<Rightarrow> 'w \<Rightarrow> bool"
begin

lemma pair: "R w0 w \<Longrightarrow> reaches R w0 (r, w)"
  by (simp add: reaches_def)

lemma call:
  assumes "reaches R w0 p" "\<And>r w. p = (r, w) \<Longrightarrow> R w0 w \<Longrightarrow> reaches R w0 (g r w)"
  shows "reaches R w0 (case p of (r, w) \<Rightarrow> g r w)"
  using assms by (cases p) (simp add: reaches_def)

lemma split: "(\<And>a b. reaches R w0 (g a b)) \<Longrightarrow> reaches R w0 (case p of (a, b) \<Rightarrow> g a b)"
  by (cases p) simp

lemma sum: "(\<And>a. reaches R w0 (f a)) \<Longrightarrow> (\<And>b. reaches R w0 (g b)) \<Longrightarrow> reaches R w0 (case x of Inl a \<Rightarrow> f a | Inr b \<Rightarrow> g b)"
  by (cases x) simp_all

lemma option: "reaches R w0 a \<Longrightarrow> (\<And>b. reaches R w0 (g b)) \<Longrightarrow> reaches R w0 (case x of None \<Rightarrow> a | Some b \<Rightarrow> g b)"
  by (cases x) simp_all

lemma list: "reaches R w0 a \<Longrightarrow> (\<And>b bs. reaches R w0 (g b bs)) \<Longrightarrow> reaches R w0 (case x of [] \<Rightarrow> a | b # bs \<Rightarrow> g b bs)"
  by (cases x) simp_all

lemma bool: "reaches R w0 a \<Longrightarrow> reaches R w0 b \<Longrightarrow> reaches R w0 (case x of True \<Rightarrow> a | False \<Rightarrow> b)"
  by (cases x) simp_all

lemma kind: "reaches R w0 a \<Longrightarrow> reaches R w0 b \<Longrightarrow> reaches R w0 c \<Longrightarrow>
    reaches R w0 (case k of PrincipalAdminAPIKey \<Rightarrow> a | PrincipalUserAPIKey \<Rightarrow> b | PrincipalSession \<Rightarrow> c)"
  by (cases k) simp_all

lemma condition: "reaches R w0 a \<Longrightarrow> reaches R w0 b \<Longrightarrow> reaches R w0 (if x then a else b)"
  by simp

lemma worlds: "reaches R w0 p \<Longrightarrow> R w0 (snd p)"
  by (simp add: reaches_def)

lemma result: "reaches R w p \<Longrightarrow> p = (r, w') \<Longrightarrow> R w w'"
  by (simp add: reaches_def)

lemma after: "R w0 w \<Longrightarrow> reaches R w p \<Longrightarrow> reaches R w0 p"
  unfolding reaches_def by (rule chain)

lemmas rules = pair split sum option list bool kind condition call

end

section \<open>Looking\<close>

definition same_members :: "adb \<Rightarrow> adb \<Rightarrow> bool" where
  "same_members a b = (ad_users b = ad_users a \<and> ad_groups b = ad_groups a \<and> ad_keys b = ad_keys a \<and>
     set (ad_sessions b) \<subseteq> set (ad_sessions a))"

definition hush :: "('c, 'd) api_world \<Rightarrow> ('c, 'd) api_world \<Rightarrow> bool" where
  "hush w w' = (tables (pw_db (hw_purchases w')) = tables (pw_db (hw_purchases w)) \<and>
     pd_generated (pw_db (hw_purchases w')) = pd_generated (pw_db (hw_purchases w)) \<and>
     pw_driven (hw_purchases w') = pw_driven (hw_purchases w) \<and>
     goes (hw_auth w) (hw_auth w') \<and> same_members (aw_db (hw_auth w)) (aw_db (hw_auth w')))"

lemma hush_refl [simp]: "hush w w"
  by (simp add: hush_def same_members_def)

lemma hush_trans: "hush a b \<Longrightarrow> hush b c \<Longrightarrow> hush a c"
  unfolding hush_def same_members_def by (auto intro: goes_trans)

interpretation hushed: run_order hush
  by unfold_locales (auto intro: hush_trans)

lemma hush_rows: "hush w w' \<Longrightarrow> pd_rows (pw_db (hw_purchases w')) = pd_rows (pw_db (hw_purchases w))"
  unfolding hush_def by (auto dest: tables_rows)

lemma hush_if: "hush w0 a \<Longrightarrow> hush w0 b \<Longrightarrow> hush w0 (if x then a else b)"
  by simp

text \<open>The same choices where only the world is returned.\<close>

lemma hush_choice:
  "hush w0 a \<Longrightarrow> (\<And>b. hush w0 (g b)) \<Longrightarrow> hush w0 (case x of None \<Rightarrow> a | Some b \<Rightarrow> g b)"
  "(\<And>a. hush w0 (f1 a)) \<Longrightarrow> (\<And>b. hush w0 (f2 b)) \<Longrightarrow> hush w0 (case y of Inl a \<Rightarrow> f1 a | Inr b \<Rightarrow> f2 b)"
  "reaches hush w0 p \<Longrightarrow> (\<And>r w. hush w0 w \<Longrightarrow> hush w0 (k r w)) \<Longrightarrow> hush w0 (case p of (r, w) \<Rightarrow> k r w)"
  "(\<And>a b. hush w0 (l a b)) \<Longrightarrow> hush w0 (case q of (a, b) \<Rightarrow> l a b)"
  "reaches hush w0 p \<Longrightarrow> hush w0 (snd p)"
  by (auto simp: reaches_def split: option.split sum.split prod.split)

named_theorems looks \<open>operations that only look\<close>
named_theorems look_worlds \<open>the same for those that return their world only\<close>

lemmas look_rules = hush_if hushed.rules

subsection \<open>Statements\<close>

lemma in_store_looks:
  assumes "hush w0 w" "reads f"
  shows "reaches hush w0 (in_store f w)"
proof -
  obtain r db where f: "f (pw_db (hw_purchases w)) = (r, db)" by fastforce
  have "hush w (snd (in_store f w))"
    using readsD [OF assms(2) f] f by (simp add: in_store_def in_purchases_def on_db_def hush_def same_members_def)
  with assms(1) show ?thesis unfolding reaches_def by (rule hush_trans)
qed

lemma reads_further: "reads (ListCloudAccounts env)" "reads (GetPlannedExecutions env sts n)" "reads (GetPurchaseHistoryByPurchaseID env p)"
  using reads_queryExecutions ask_facts ask_generated
  unfolding reads_def ListCloudAccounts_def GetPlannedExecutions_def GetPurchaseHistoryByPurchaseID_def
  by (auto split: prod.splits sum.splits)

lemmas store_looks [looks] = reads_store [THEN in_store_looks [rotated]] reads_further [THEN in_store_looks [rotated]]

lemma cloud_looks: "hush w0 w \<Longrightarrow> reaches hush w0 (in_purchases (on_cloud f) w)"
  by (cases "f (pw_cloud (hw_purchases w))") (simp add: in_purchases_def on_cloud_def reaches_def hush_def)

lemma mail_looks [looks]: "hush w0 w \<Longrightarrow> reaches hush w0 (send_mail f n w)"
  unfolding send_mail_def by (rule cloud_looks)

lemma in_auth_looks:
  assumes "hush w0 w" "goes (hw_auth w) (snd (f (hw_auth w)))" "same_members (aw_db (hw_auth w)) (aw_db (snd (f (hw_auth w))))"
  shows "reaches hush w0 (in_auth f w)"
proof -
  have "hush w (snd (in_auth f w))" using assms(2,3) by (cases "f (hw_auth w)") (simp add: in_auth_def hush_def)
  with assms(1) show ?thesis unfolding reaches_def by (rule hush_trans)
qed

text \<open>What leaves the rows of the authentication service as they are.\<close>

lemma same_members_rows: "same_rows a b \<Longrightarrow> same_members a b"
  by (simp add: same_rows_def same_members_def)

lemma in_auth_same:
  assumes "hush w0 w" "\<And>a r a'. f a = (r, a') \<Longrightarrow> same_rows (aw_db a) (aw_db a')"
  shows "reaches hush w0 (in_auth f w)"
  using assms(1)
proof (rule in_auth_looks)
  have s: "same_rows (aw_db (hw_auth w)) (aw_db (snd (f (hw_auth w))))" by (rule assms(2) [of _ "fst (f (hw_auth w))"]) simp
  show "goes (hw_auth w) (snd (f (hw_auth w)))" unfolding goes_def by (rule table_run_same [OF s])
  show "same_members (aw_db (hw_auth w)) (aw_db (snd (f (hw_auth w))))" by (rule same_members_rows [OF s])
qed

lemma permission_same: "HasPermission env i a r c db = (x, db') \<Longrightarrow> same_rows db db'"
  by (auto simp: HasPermission_def split: prod.splits sum.splits dest: GetUserPermissions_same)

lemma constraint_same: "HasPermissionForConstraintsAPI env i a r sets db = (x, db') \<Longrightarrow> same_rows db db'"
  by (auto simp: HasPermissionForConstraintsAPI_def split: prod.splits sum.splits if_splits dest: GetUserPermissions_same)

lemma allowed_accounts_same: "ResolveAllowedAccounts env i db = (x, db') \<Longrightarrow> same_rows db db'"
  by (auto simp: ResolveAllowedAccounts_def split: prod.splits sum.splits dest: context_same)

interpretation members: run_order "\<lambda>a b. same_rows (aw_db a) (aw_db b)"
  by unfold_locales (auto intro: same_rows_trans)

text \<open>The rows of the service's world stay the same.\<close>

abbreviation calls :: "'d aworld \<Rightarrow> 'r \<times> 'd aworld \<Rightarrow> bool" where
  "calls \<equiv> reaches (\<lambda>a b. same_rows (aw_db a) (aw_db b))"

lemma in_db_calls:
  assumes "same_rows (aw_db w0) (aw_db w)" "\<And>db r db'. f db = (r, db') \<Longrightarrow> same_rows db db'"
  shows "calls w0 (in_db f w)"
  by (rule members.after [OF assms(1)])
     (use assms(2) in \<open>auto simp: reaches_def in_db_def split: prod.splits intro: surjective_pairing\<close>)

lemma key_calls:
  assumes "same_rows (aw_db w0) (aw_db w)"
  shows "calls w0 (ValidateUserAPIKey s key w)"
  by (rule members.after [OF assms]) (simp add: reaches_def ValidateUserAPIKey_same [OF surjective_pairing])

lemma key_permission_calls: "calls w (HasAPIKeyPermissionAPI s key a r w)"
  unfolding HasAPIKeyPermissionAPI_def
  by ((intro members.rules key_calls in_db_calls | assumption | erule key_check_same | simp)+)

lemma key_constraint_calls: "calls w (HasAPIKeyPermissionForConstraintsAPI s k i a r sets w)"
  unfolding HasAPIKeyPermissionForConstraintsAPI_def
  by ((intro members.rules in_db_calls | assumption | erule lookup_same key_check_same context_same | simp)+)

lemma user_lookup_same: "GetUserByID env u db = (r, db') \<Longrightarrow> same_rows db db'"
  by (rule lookup_same)

lemma in_auth_calls: "hush w0 w \<Longrightarrow> (\<And>a. calls a (f a)) \<Longrightarrow> reaches hush w0 (in_auth f w)"
  by (rule in_auth_same) (auto dest: members.result)

lemma in_auth_db: "hush w0 w \<Longrightarrow> (\<And>db r db'. f db = (r, db') \<Longrightarrow> same_rows db db') \<Longrightarrow> reaches hush w0 (in_auth (in_db f) w)"
  by (rule in_auth_calls) (auto intro: in_db_calls)

lemma service_looks [looks]:
  assumes "hush w0 w"
  shows "reaches hush w0 (in_auth (in_db (HasPermission env i a r c)) w)"
    "reaches hush w0 (in_auth (in_db (HasPermissionForConstraintsAPI env i a r sets)) w)"
    "reaches hush w0 (in_auth (in_db (ResolveAllowedAccounts env i)) w)"
    "reaches hush w0 (in_auth (in_db (GetUserByID env i)) w)"
  by (rule in_auth_db [OF assms], erule permission_same constraint_same allowed_accounts_same user_lookup_same)+

lemma key_looks [looks]:
  assumes "hush w0 w"
  shows "reaches hush w0 (in_auth (ValidateUserAPIKey s key) w)"
    "reaches hush w0 (in_auth (HasAPIKeyPermissionAPI s key a r) w)"
    "reaches hush w0 (in_auth (HasAPIKeyPermissionForConstraintsAPI s key i a r sets) w)"
  by (rule in_auth_calls [OF assms], rule key_calls key_permission_calls key_constraint_calls, simp?)+

text \<open>A session that expired is deleted; users, groups and keys stay, and no session is added.\<close>

lemma DeleteSession_members: "DeleteSession env t db = (r, db') \<Longrightarrow> same_members db db'"
  by (auto simp: DeleteSession_def drop_sessions_def same_members_def astmt_def Let_def split: option.splits prod.splits sum.splits)

lemma ValidateSession_members:
  assumes "ValidateSession s t w = (r, w')"
  shows "same_members (aw_db w) (aw_db w')"
proof -
  obtain g w1 where g: "in_db (GetSession (sv_env s) (sv_sha s t)) w = (g, w1)" by fastforce
  obtain d w2 where d: "in_db (DeleteSession (sv_env s) (sv_sha s t)) w1 = (d, w2)" by fastforce
  have "same_members (aw_db w) (aw_db w1)" using in_db_facts [OF g] by (auto dest: list_same intro: same_members_rows)
  moreover have "same_members (aw_db w1) (aw_db w2)" using in_db_facts [OF d] by (auto dest: DeleteSession_members)
  moreover have "w' = w1 \<or> w' = w2" using assms g d by (auto simp: ValidateSession_def split: sum.splits if_splits)
  ultimately show ?thesis by (auto simp: same_members_def)
qed

lemma session_looks [looks]: "hush w0 w \<Longrightarrow> reaches hush w0 (in_auth (ValidateSession s t) w)"
  by (rule in_auth_looks)
     (auto intro: ValidateSession_members [OF surjective_pairing] lands_result [OF ValidateSession_lands [OF goes_refl] surjective_pairing])

lemma ValidateCSRFToken_members:
  assumes "ValidateCSRFToken s t c w = (r, w')"
  shows "same_members (aw_db w) (aw_db w')"
proof -
  obtain v w1 where v: "ValidateSession s t w = (v, w1)" by fastforce
  have "w' = w \<or> w' = w1" using assms v by (auto simp: ValidateCSRFToken_def split: sum.splits if_splits)
  with ValidateSession_members [OF v] show ?thesis by (auto simp: same_members_def)
qed

lemma csrf_looks [looks]: "hush w0 w \<Longrightarrow> reaches hush w0 (in_auth (ValidateCSRFToken s t c) w)"
  by (rule in_auth_looks)
     (auto intro: ValidateCSRFToken_members [OF surjective_pairing] lands_result [OF ValidateCSRFToken_lands [OF goes_refl] surjective_pairing])

section \<open>Principals and permissions\<close>

lemma validate_session_looks [looks]: "hush w0 w \<Longrightarrow> reaches hush w0 (validate_session s t w)"
  by (simp only: validate_session_def Let_def) ((intro looks look_worlds look_rules | assumption | simp)+)

lemma principalFromUserAPIKey_looks [looks]: "hush w0 w \<Longrightarrow> reaches hush w0 (principalFromUserAPIKey s k w)"
  by (simp only: principalFromUserAPIKey_def Let_def) ((intro looks look_worlds look_rules | assumption | simp)+)

lemma principalFromBearerToken_looks [looks]: "hush w0 w \<Longrightarrow> reaches hush w0 (principalFromBearerToken s req w)"
  by (simp only: principalFromBearerToken_def Let_def) ((intro looks look_worlds look_rules | assumption | simp)+)

lemma authenticatePrincipal_looks [looks]: "hush w0 w \<Longrightarrow> reaches hush w0 (authenticatePrincipal h req w)"
  by (simp only: authenticatePrincipal_def Let_def) ((intro looks look_worlds look_rules | assumption | simp)+)

lemma tryGetSession_looks [looks]: "hush w0 w \<Longrightarrow> reaches hush w0 (tryGetSession h req w)"
  by (simp only: tryGetSession_def Let_def) ((intro looks look_worlds look_rules | assumption | simp)+)

lemma tryResolveActorEmail_looks [looks]: "hush w0 w \<Longrightarrow> reaches hush w0 (tryResolveActorEmail h req w)"
  by (simp only: tryResolveActorEmail_def Let_def) ((intro looks look_worlds look_rules | assumption | simp)+)

lemma requireSession_looks [looks]: "hush w0 w \<Longrightarrow> reaches hush w0 (requireSession h req w)"
  by (simp only: requireSession_def Let_def) ((intro looks look_worlds look_rules | assumption | simp)+)

lemma apiKeyBypassCSRF_looks [looks]: "hush w0 w \<Longrightarrow> reaches hush w0 (apiKeyBypassCSRF h s req w)"
  by (simp only: apiKeyBypassCSRF_def Let_def) ((intro looks look_worlds look_rules | assumption | simp)+)

lemma validateCSRF_looks [looks]: "hush w0 w \<Longrightarrow> reaches hush w0 (validateCSRF h req w)"
  by (simp only: validateCSRF_def Let_def) ((intro looks look_worlds look_rules | assumption | simp)+)

lemma validateSecurityContext_looks [looks]: "hush w0 w \<Longrightarrow> reaches hush w0 (validateSecurityContext h req w)"
  by (simp only: validateSecurityContext_def Let_def) ((intro looks look_worlds look_rules | assumption | simp)+)

lemma HasPermissionAPI_looks [looks]: "hush w0 w \<Longrightarrow> reaches hush w0 (HasPermissionAPI s u a r w)"
  by (simp only: HasPermissionAPI_def Let_def) ((intro looks look_worlds look_rules | assumption | simp)+)

lemma requireSessionPermission_looks [looks]: "hush w0 w \<Longrightarrow> reaches hush w0 (requireSessionPermission s sn a r w)"
  by (simp only: requireSessionPermission_def Let_def) ((intro looks look_worlds look_rules | assumption | simp)+)

lemma authorizeAPIKey_looks [looks]: "hush w0 w \<Longrightarrow> reaches hush w0 (authorizeAPIKey s k a r w)"
  by (simp only: authorizeAPIKey_def Let_def) ((intro looks look_worlds look_rules | assumption | simp)+)

lemma requirePrincipalPermission_looks [looks]: "hush w0 w \<Longrightarrow> reaches hush w0 (requirePrincipalPermission s req p a r w)"
  by (simp only: requirePrincipalPermission_def Let_def) ((intro looks look_worlds look_rules | assumption | simp)+)

lemma requirePermission_looks [looks]: "hush w0 w \<Longrightarrow> reaches hush w0 (requirePermission h req a r w)"
  by (simp only: requirePermission_def Let_def) ((intro looks look_worlds look_rules | assumption | simp)+)

lemma any_verb_looks [looks]: "hush w0 w \<Longrightarrow> reaches hush w0 (any_verb s u vs r w)"
proof (induction vs arbitrary:  w)
  case (Cons x xs)
  show ?case by (simp only: any_verb.simps Let_def) ((intro looks look_worlds look_rules Cons | assumption | simp)+)
qed (simp add: reaches_def)

lemma requireAnySessionPermission_looks [looks]: "hush w0 w \<Longrightarrow> reaches hush w0 (requireAnySessionPermission s sn vs r w)"
  by (simp only: requireAnySessionPermission_def Let_def) ((intro looks look_worlds look_rules | assumption | simp)+)

lemma key_verbs_looks [looks]: "hush w0 w \<Longrightarrow> reaches hush w0 (key_verbs s k all vs r w)"
proof (induction vs arbitrary:  w)
  case (Cons x xs)
  show ?case by (simp only: key_verbs.simps Let_def) ((intro looks look_worlds look_rules Cons | assumption | simp)+)
qed (simp add: reaches_def)

lemma authorizeAPIKeyAny_looks [looks]: "hush w0 w \<Longrightarrow> reaches hush w0 (authorizeAPIKeyAny s k vs r w)"
  by (simp only: authorizeAPIKeyAny_def Let_def) ((intro looks look_worlds look_rules | assumption | simp)+)

lemma requireAnyPrincipalPermission_looks [looks]: "hush w0 w \<Longrightarrow> reaches hush w0 (requireAnyPrincipalPermission s req p vs r w)"
  by (simp only: requireAnyPrincipalPermission_def Let_def) ((intro looks look_worlds look_rules | assumption | simp)+)

lemma requireAnyPermission_looks [looks]: "hush w0 w \<Longrightarrow> reaches hush w0 (requireAnyPermission h req vs r w)"
  by (simp only: requireAnyPermission_def Let_def) ((intro looks look_worlds look_rules | assumption | simp)+)

lemma requirePermissionConstraints_looks [looks]: "hush w0 w \<Longrightarrow> reaches hush w0 (requirePermissionConstraints h sn r sets w)"
  by (simp only: requirePermissionConstraints_def Let_def) ((intro looks look_worlds look_rules | assumption | simp)+)

section \<open>Scopes\<close>

lemma getAccountScope_looks [looks]: "hush w0 w \<Longrightarrow> reaches hush w0 (getAccountScope h sn w)"
  by (simp only: getAccountScope_def Let_def) ((intro looks look_worlds look_rules | assumption | simp)+)

lemma requireAccountAccess_looks [looks]: "hush w0 w \<Longrightarrow> reaches hush w0 (requireAccountAccess h sn i w)"
  by (simp only: requireAccountAccess_def Let_def) ((intro looks look_worlds look_rules | assumption | simp)+)

lemma requirePlanAccess_looks [looks]: "hush w0 w \<Longrightarrow> reaches hush w0 (requirePlanAccess h sn p w)"
  by (simp only: requirePlanAccess_def Let_def) ((intro looks look_worlds look_rules | assumption | simp)+)

lemma account_accesses_looks [looks]: "hush w0 w \<Longrightarrow> reaches hush w0 (account_accesses h sn is w)"
proof (induction "is" arbitrary:  w)
  case (Cons x xs)
  show ?case by (simp only: account_accesses.simps Let_def) ((intro looks look_worlds look_rules Cons | assumption | simp)+)
qed (simp add: reaches_def)

lemma requirePlanAccountsAccess_looks [looks]: "hush w0 w \<Longrightarrow> reaches hush w0 (requirePlanAccountsAccess h sn p as w)"
  by (simp only: requirePlanAccountsAccess_def Let_def) ((intro looks look_worlds look_rules | assumption | simp)+)

lemma resolveAccountNamesByID_looks [looks]: "hush w0 w \<Longrightarrow> reaches hush w0 (resolveAccountNamesByID h w)"
  by (simp only: resolveAccountNamesByID_def Let_def) ((intro looks look_worlds look_rules | assumption | simp)+)

lemma validatePurchaseRecommendationScope_looks [looks]: "hush w0 w \<Longrightarrow> reaches hush w0 (validatePurchaseRecommendationScope h sn recs w)"
  by (simp only: validatePurchaseRecommendationScope_def Let_def) ((intro looks look_worlds look_rules | assumption | simp)+)

lemma fetch_execution_looks [looks]: "hush w0 w \<Longrightarrow> reaches hush w0 (fetch_execution missing h i w)"
  by (simp only: fetch_execution_def Let_def) ((intro looks look_worlds look_rules | assumption | simp)+)

lemma requireExecutionAccess_looks [looks]: "hush w0 w \<Longrightarrow> reaches hush w0 (requireExecutionAccess h sn i w)"
  by (simp only: requireExecutionAccess_def Let_def) ((intro looks look_worlds look_rules | assumption | simp)+)

section \<open>Recipients and mails\<close>

lemma lookupContactEmail_looks [looks]: "hush w0 w \<Longrightarrow> reaches hush w0 (lookupContactEmail h i w)"
  by (simp only: lookupContactEmail_def Let_def) ((intro looks look_worlds look_rules | assumption | simp)+)

lemma contact_emails_looks [looks]: "hush w0 w \<Longrightarrow> reaches hush w0 (contact_emails h seen is w)"
proof (induction "is" arbitrary: seen w)
  case (Cons x xs)
  show ?case by (simp only: contact_emails.simps Let_def) ((intro looks look_worlds look_rules Cons | assumption | simp)+)
qed (simp add: reaches_def)

lemma gatherAccountContactEmails_looks [looks]: "hush w0 w \<Longrightarrow> reaches hush w0 (gatherAccountContactEmails h recs w)"
  by (simp only: gatherAccountContactEmails_def Let_def) ((intro looks look_worlds look_rules | assumption | simp)+)

lemma resolveApprovalRecipients_looks [looks]: "hush w0 w \<Longrightarrow> reaches hush w0 (resolveApprovalRecipients h recs g w)"
  by (simp only: resolveApprovalRecipients_def Let_def) ((intro looks look_worlds look_rules | assumption | simp)+)

lemma authorizeApprovalAction_looks [looks]: "hush w0 w \<Longrightarrow> reaches hush w0 (authorizeApprovalAction h req e w)"
  by (simp only: authorizeApprovalAction_def Let_def) ((intro looks look_worlds look_rules | assumption | simp)+)

lemma sendPurchaseApprovalEmail_looks [looks]: "hush w0 w \<Longrightarrow> reaches hush w0 (sendPurchaseApprovalEmail h req e recs u v w)"
  by (simp only: sendPurchaseApprovalEmail_def Let_def) ((intro looks look_worlds look_rules | assumption | simp)+)

lemma lookupRequesterInfo_looks [looks]: "hush w0 w \<Longrightarrow> reaches hush w0 (lookupRequesterInfo h e w)"
  by (simp only: lookupRequesterInfo_def Let_def) ((intro looks look_worlds look_rules | assumption | simp)+)

lemma sendPurchaseExecutedEmail_hush [look_worlds]: "hush w0 w \<Longrightarrow> hush w0 (sendPurchaseExecutedEmail h req e b w)"
  by (simp only: sendPurchaseExecutedEmail_def Let_def) ((intro looks look_worlds look_rules hush_choice | assumption | simp)+)

lemma sendPurchaseScheduledEmail_hush [look_worlds]: "hush w0 w \<Longrightarrow> hush w0 (sendPurchaseScheduledEmail h e actor w)"
  by (simp only: sendPurchaseScheduledEmail_def Let_def) ((intro looks look_worlds look_rules hush_choice | assumption | simp)+)

section \<open>Who may act\<close>

lemma any_or_own_looks [looks]: "hush w0 w \<Longrightarrow> reaches hush w0 (any_or_own s sn a b c d own w)"
  by (simp only: any_or_own_def Let_def) ((intro looks look_worlds look_rules | assumption | simp)+)

lemma authorize_session_looks [looks]: "hush w0 w \<Longrightarrow> reaches hush w0 (authorize_session h sn a b c d own w)"
  by (simp only: authorize_session_def Let_def) ((intro looks look_worlds look_rules | assumption | simp)+)

lemma authorizeSessionApprove_looks [looks]: "hush w0 w \<Longrightarrow> reaches hush w0 (authorizeSessionApprove h sn e w)"
  by (simp only: authorizeSessionApprove_def Let_def) ((intro looks look_worlds look_rules | assumption | simp)+)

lemma authorizeSessionCancel_looks [looks]: "hush w0 w \<Longrightarrow> reaches hush w0 (authorizeSessionCancel h sn e w)"
  by (simp only: authorizeSessionCancel_def Let_def) ((intro looks look_worlds look_rules | assumption | simp)+)

lemma authorizeSessionRetry_looks [looks]: "hush w0 w \<Longrightarrow> reaches hush w0 (authorizeSessionRetry h sn e w)"
  by (simp only: authorizeSessionRetry_def Let_def) ((intro looks look_worlds look_rules | assumption | simp)+)

lemma authorizeSessionExecuteDirect_looks [looks]: "hush w0 w \<Longrightarrow> reaches hush w0 (authorizeSessionExecuteDirect h sn c w)"
  by (simp only: authorizeSessionExecuteDirect_def Let_def) ((intro looks look_worlds look_rules | assumption | simp)+)

lemma authorizeSessionRevokeExecution_looks [looks]: "hush w0 w \<Longrightarrow> reaches hush w0 (authorizeSessionRevokeExecution s sn e w)"
  by (simp only: authorizeSessionRevokeExecution_def Let_def) ((intro looks look_worlds look_rules | assumption | simp)+)

lemma requireDifferentApprover_looks [looks]: "hush w0 w \<Longrightarrow> reaches hush w0 (requireDifferentApprover h sn e w)"
  by (simp only: requireDifferentApprover_def Let_def) ((intro looks look_worlds look_rules | assumption | simp)+)

lemma loadApproveExecution_looks [looks]: "hush w0 w \<Longrightarrow> reaches hush w0 (loadApproveExecution h i w)"
  by (simp only: loadApproveExecution_def Let_def) ((intro looks look_worlds look_rules | assumption | simp)+)

lemma checkRevokeOwnAccountAccess_looks [looks]: "hush w0 w \<Longrightarrow> reaches hush w0 (checkRevokeOwnAccountAccess h u x w)"
  by (simp only: checkRevokeOwnAccountAccess_def Let_def) ((intro looks look_worlds look_rules | assumption | simp)+)

lemma authorizeSessionRevoke_looks [looks]: "hush w0 w \<Longrightarrow> reaches hush w0 (authorizeSessionRevoke h s sn x w)"
  by (simp only: authorizeSessionRevoke_def Let_def) ((intro looks look_worlds look_rules | assumption | simp)+)

lemma authorizeExecutionManagement_looks [looks]: "hush w0 w \<Longrightarrow> reaches hush w0 (authorizeExecutionManagement h sn i w)"
  by (simp only: authorizeExecutionManagement_def Let_def) ((intro looks look_worlds look_rules | assumption | simp)+)

lemma requireDeleteOrCancelPurchasePermission_looks [looks]: "hush w0 w \<Longrightarrow> reaches hush w0 (requireDeleteOrCancelPurchasePermission h req w)"
  by (simp only: requireDeleteOrCancelPurchasePermission_def Let_def) ((intro looks look_worlds look_rules | assumption | simp)+)

lemma authorizePlannedPurchaseCancel_looks [looks]: "hush w0 w \<Longrightarrow> reaches hush w0 (authorizePlannedPurchaseCancel h sn i w)"
  by (simp only: authorizePlannedPurchaseCancel_def Let_def) ((intro looks look_worlds look_rules | assumption | simp)+)

section \<open>Endpoints that only look\<close>

lemma isPlanAllowedCached_looks [looks]: "hush w0 w \<Longrightarrow> reaches hush w0 (isPlanAllowedCached h sn p c w)"
  by (simp only: isPlanAllowedCached_def Let_def) ((intro looks look_worlds look_rules | assumption | simp)+)

lemma planned_purchases_looks [looks]: "hush w0 w \<Longrightarrow> reaches hush w0 (planned_purchases h sn plans c es w)"
proof (induction es arbitrary: c w)
  case (Cons x xs)
  show ?case by (simp only: planned_purchases.simps Let_def) ((intro looks look_worlds look_rules Cons | assumption | simp)+)
qed (simp add: reaches_def)

lemma getPlannedPurchases_looks [looks]: "hush w0 w \<Longrightarrow> reaches hush w0 (getPlannedPurchases h req w)"
  by (simp only: getPlannedPurchases_def Let_def) ((intro looks look_worlds look_rules | assumption | simp)+)

lemma getPurchaseDetails_looks [looks]: "hush w0 w \<Longrightarrow> reaches hush w0 (getPurchaseDetails h req i w)"
  by (simp only: getPurchaseDetails_def Let_def) ((intro looks look_worlds look_rules | assumption | simp)+)

lemma enforcePurchaseConstraints_looks [looks]: "hush w0 w \<Longrightarrow> reaches hush w0 (enforcePurchaseConstraints h sn recs w)"
  by (simp only: enforcePurchaseConstraints_def Let_def) ((intro looks look_worlds look_rules | assumption | simp)+)

lemma validateExecutePurchaseRequest_looks [looks]: "hush w0 w \<Longrightarrow> reaches hush w0 (validateExecutePurchaseRequest h req w)"
  by (simp only: validateExecutePurchaseRequest_def Let_def) ((intro looks look_worlds look_rules | assumption | simp)+)

lemma loadAndValidateRetryRequest_looks [looks]: "hush w0 w \<Longrightarrow> reaches hush w0 (loadAndValidateRetryRequest h req i w)"
  by (simp only: loadAndValidateRetryRequest_def Let_def) ((intro looks look_worlds look_rules | assumption | simp)+)

lemma findDuplicatePendingExecution_looks [looks]: "hush w0 w \<Longrightarrow> reaches hush w0 (findDuplicatePendingExecution h c k n w)"
  by (simp only: findDuplicatePendingExecution_def Let_def) ((intro looks look_worlds look_rules | assumption | simp)+)

lemma load_history_looks [looks]: "hush w0 w \<Longrightarrow> reaches hush w0 (load_history what h p w)"
  by (simp only: load_history_def Let_def) ((intro looks look_worlds look_rules | assumption | simp)+)

lemma validateAzureRevokeRequest_looks [looks]: "hush w0 w \<Longrightarrow> reaches hush w0 (validateAzureRevokeRequest h req p w)"
  by (simp only: validateAzureRevokeRequest_def Let_def) ((intro looks look_worlds look_rules | assumption | simp)+)

lemma on_azure_looks [looks]: "hush w0 w \<Longrightarrow> reaches hush w0 (on_azure f w)"
  unfolding on_azure_def by (rule cloud_looks)

lemma azureCalculateRefund_looks [looks]: "hush w0 w \<Longrightarrow> reaches hush w0 (azureCalculateRefund h od r q w)"
  by (simp only: azureCalculateRefund_def Let_def) ((intro looks look_worlds look_rules | assumption | simp)+)

lemma calculateAzureRevoke_looks [looks]: "hush w0 w \<Longrightarrow> reaches hush w0 (calculateAzureRevoke h req p w)"
  by (simp only: calculateAzureRevoke_def Let_def) ((intro looks look_worlds look_rules | assumption | simp)+)

end
