(* ===== verification/Api_Step_Facts.thy ===== *)
theory Api_Step_Facts
  imports Api_Quiet_Facts
begin

text \<open>
  What the handlers that write do to the tables: each execution moves along the lifecycle of the
  API, which adds to the manager's the delay, the pause, the direct run and the revocation; the
  tables of the authentication service make table runs only.
\<close>

section \<open>The lifecycle of the API\<close>

inductive api_lifecycle :: "string \<Rightarrow> string \<Rightarrow> bool" where
  managed: "lifecycle s t \<Longrightarrow> api_lifecycle s t"
| delay: "s \<in> {''pending'', ''notified''} \<Longrightarrow> api_lifecycle s ''scheduled''"
| undo: "api_lifecycle ''scheduled'' ''canceled''"
| pause: "s \<in> {''pending'', ''running''} \<Longrightarrow> api_lifecycle s ''paused''"
| resume: "api_lifecycle ''paused'' ''pending''"
| start: "s \<in> {''pending'', ''paused''} \<Longrightarrow> api_lifecycle s ''running''"
| drop: "s \<in> {''pending'', ''paused''} \<Longrightarrow> api_lifecycle s ''canceled''"
| revoke: "s \<in> {''completed'', ''partially_completed''} \<Longrightarrow> api_lifecycle s ''revocation_requested''"
| unsent: "api_lifecycle ''pending'' ''failed''"

text \<open>A final status stays but for a completed purchase, which may be revoked once; a scheduled
  purchase is approved or canceled and never pending again.\<close>

definition closed_status :: "string \<Rightarrow> bool" where
  "closed_status s = (final_status s \<and> s \<notin> {''completed'', ''partially_completed''})"

lemma api_final: "api_lifecycle s t \<Longrightarrow> final_status s \<Longrightarrow> s \<in> {''completed'', ''partially_completed''} \<and> t = ''revocation_requested''"
  by (erule api_lifecycle.cases) (auto simp: final_status_def dest: final_lifecycle)

lemma api_closed: "api_lifecycle\<^sup>*\<^sup>* s t \<Longrightarrow> closed_status s \<Longrightarrow> t = s"
  by (erule converse_rtranclpE) (auto simp: closed_status_def dest: api_final)

lemma api_completed:
  "api_lifecycle\<^sup>*\<^sup>* s t \<Longrightarrow> s \<in> {''completed'', ''partially_completed''} \<Longrightarrow> t \<in> {s, ''revocation_requested''}"
proof (erule converse_rtranclpE)
  fix u
  assume s: "s \<in> {''completed'', ''partially_completed''}" and u: "api_lifecycle s u" "api_lifecycle\<^sup>*\<^sup>* u t"
  then have "u = ''revocation_requested''" using api_final [OF u(1)] by (auto simp: final_status_def)
  with api_closed [OF u(2)] show "t \<in> {s, ''revocation_requested''}" by (simp add: closed_status_def final_status_def)
qed simp

section \<open>Steps of the API\<close>

abbreviation stored :: "('c, 'd) api_world \<Rightarrow> pdb" where
  "stored w \<equiv> pw_db (hw_purchases w)"

definition api_step :: "('p, 'c, 'd) handler \<Rightarrow> ('c, 'd) api_world \<Rightarrow> ('c, 'd) api_world \<Rightarrow> bool" where
  "api_step h w w' = (evolves_by api_lifecycle (hd_env h) (stored w) (stored w') \<and> goes (hw_auth w) (hw_auth w'))"

lemma evolves_by_mono:
  assumes "evolves_by R env db db'" "\<And>s t. R s t \<Longrightarrow> S s t"
  shows "evolves_by S env db db'"
proof -
  have "S\<^sup>*\<^sup>* s t" if "R\<^sup>*\<^sup>* s t" for s t using rtranclp_mono [of R S] assms(2) that by blast
  then have "leads_by S db db'" if "leads_by R db db'"
    using leads_Some [OF that] leads_None [OF that] by (intro leadsI) blast+
  with assms(1) show ?thesis unfolding evolves_by_def by blast
qed

lemma api_step_refl [simp]: "api_step h w w"
  by (simp add: api_step_def evolves_refl)

interpretation api: run_order "api_step h" for h
  by unfold_locales (auto simp: api_step_def intro: evolves_trans goes_trans)

lemmas api_step_trans = api.chain

lemma hush_step: "hush w w' \<Longrightarrow> api_step h w w'"
  unfolding hush_def api_step_def by (auto intro: evolves_tables)

lemma looked: "reaches hush w p \<Longrightarrow> api_step h w0 w \<Longrightarrow> reaches (api_step h) w0 p"
  unfolding reaches_def by (blast intro: api_step_trans hush_step)

lemma looked_world: "hush w w' \<Longrightarrow> api_step h w0 w \<Longrightarrow> api_step h w0 w'"
  by (blast intro: api_step_trans hush_step)

lemma api_step_if: "api_step h w0 a \<Longrightarrow> api_step h w0 b \<Longrightarrow> api_step h w0 (if x then a else b)"
  by simp

named_theorems steps \<open>operations that move executions along the lifecycle of the API\<close>

lemmas [steps] = looks [OF hush_refl, THEN looked] look_worlds [OF hush_refl, THEN looked_world]

lemmas step_rules = api_step_if api.rules

subsection \<open>The manager and the store\<close>

lemma managed_step: "step (hd_purchases h) p p' \<Longrightarrow> evolves_by api_lifecycle (hd_env h) (pw_db p) (pw_db p')"
  by (erule evolves_by_mono [OF step_evolves]) (rule managed)

lemma in_purchases_step:
  assumes "api_step h w0 w" "\<And>r p'. f (hw_purchases w) = (r, p') \<Longrightarrow> step (hd_purchases h) (hw_purchases w) p'"
  shows "reaches (api_step h) w0 (in_purchases f w)"
  by (rule api.after [OF assms(1)], cases "f (hw_purchases w)")
     (simp add: reaches_def in_purchases_def api_step_def managed_step assms(2))

lemma in_store_step:
  assumes "api_step h w0 w" "\<And>r db'. f (stored w) = (r, db') \<Longrightarrow> evolves_by api_lifecycle (hd_env h) (stored w) db'"
  shows "reaches (api_step h) w0 (in_store f w)"
  by (rule api.after [OF assms(1)], cases "f (stored w)")
     (simp add: reaches_def in_store_def in_purchases_def on_db_def api_step_def assms(2))

lemma keeps_step:
  assumes "api_step h w0 w" "keeps_rows f"
  shows "reaches (api_step h) w0 (in_store f w)"
  using assms(1) by (rule in_store_step) (auto dest!: keeps_rowsD [OF assms(2)] intro: evolves_rows)

lemma fresh_step [steps]: "api_step h w0 w \<Longrightarrow> reaches (api_step h) w0 (api_fresh f w)"
  unfolding api_fresh_def by (rule in_purchases_step) (auto intro: step_fresh)

lemma manager_steps [steps]:
  assumes "api_step h w0 w"
  shows "reaches (api_step h) w0 (in_purchases (ApproveExecution (hd_purchases h) i t a) w)"
    "reaches (api_step h) w0 (in_purchases (ApproveAndExecute (hd_purchases h) i a u) w)"
    "reaches (api_step h) w0 (in_purchases (CancelExecution (hd_purchases h) i t a) w)"
  by (rule in_purchases_step [OF assms], erule ApproveExecution_step approve_step CancelExecution_step)+

lemma transition_step:
  assumes "api_step h w0 w" "\<And>s. s \<in> set froms \<Longrightarrow> api_lifecycle s to"
  shows "reaches (api_step h) w0 (in_store (TransitionExecutionStatus (hd_env h) i froms to) w)"
  using assms(1) by (rule in_store_step) (erule evolves_transition, rule assms(2))

lemma transition_steps [steps]:
  assumes "api_step h w0 w"
  shows "reaches (api_step h) w0 (in_store (TransitionExecutionStatus (hd_env h) i [''pending'', ''paused''] ''canceled'') w)"
    "reaches (api_step h) w0 (in_store (TransitionExecutionStatus (hd_env h) i [''completed'', ''partially_completed''] ''revocation_requested'') w)"
  by (rule transition_step [OF assms], auto intro: api_lifecycle.intros)+

text \<open>A statement on the rows that keeps their identifiers and statuses.\<close>

lemma evolves_touched:
  assumes "pd_rows db' = map f (pd_rows db)" "pd_generated db' = pd_generated db"
    and "\<And>x. pe_id (xr_exec (f x)) = pe_id (xr_exec x) \<and> pe_status (xr_exec (f x)) = pe_status (xr_exec x)"
    and "\<And>x. fits env (xr_exec x) \<Longrightarrow> fits env (xr_exec (f x))"
  shows "evolves_by R env db db'"
proof -
  have r: "row_of db' i = map_option f (row_of db i)" for i
  proof -
    have "map_of (map (\<lambda>x. (row_id x, x)) (map f xs)) i = map_option f (map_of (map (\<lambda>x. (row_id x, x)) xs) i)" for xs
      using assms(3) by (induction xs) auto
    then show ?thesis by (simp only: row_of_def assms(1))
  qed
  have st: "status_of db' = status_of db" using assms(3) by (auto simp: status_of_def r fun_eq_iff option.map_comp o_def)
  have m: "map row_id (pd_rows db') = map row_id (pd_rows db)" using assms(1,3) by simp
  then have "ids db' = ids db" unfolding ids_def by (metis list.set_map)
  moreover have "(\<forall>x \<in> set (pd_rows db). fits env (xr_exec x)) \<Longrightarrow> \<forall>x \<in> set (pd_rows db'). fits env (xr_exec x)"
    unfolding assms(1) using assms(4) by simp
  ultimately show ?thesis using st m assms(2) by (simp add: evolves_by_def db_ok_def leads_same)
qed

lemma SetCancelledBy_step [steps]:
  assumes "api_step h w0 w"
  shows "reaches (api_step h) w0 (in_store (SetCancelledBy (hd_env h) i u) w)"
  using assms
proof (rule in_store_step)
  fix r db'
  assume s: "SetCancelledBy (hd_env h) i u (stored w) = (r, db')"
  let ?f = "\<lambda>x. if row_id x = i then x\<lparr>xr_exec := (xr_exec x)\<lparr>pe_cancelled_by := Some u\<rparr>, xr_canceled_by := Some u,
     xr_updated := clock (hd_env h) (stored w)\<rparr> else x"
  from s have "pd_rows db' = pd_rows (stored w) \<or> pd_rows db' = map ?f (pd_rows (stored w))" and g: "pd_generated db' = pd_generated (stored w)"
    by (auto simp: SetCancelledBy_def run_stmt_def update_rows_def Let_def split: option.splits)
  then show "evolves_by api_lifecycle (hd_env h) (stored w) db'"
    using evolves_rows [of db' "stored w"] evolves_touched [of db' ?f "stored w"] by (fastforce simp: fits_def)
qed

lemma keeps_rows_in_flight: "keeps_rows (set_in_flight pid flag what env)"
  by (simp add: keeps_rows_def set_in_flight_def run_stmt_def Let_def split: option.split)

lemma keeps_rows_mark: "keeps_rows (MarkPurchaseRevoked env pid t via)"
  by (auto simp: keeps_rows_def MarkPurchaseRevoked_def run_stmt_def ask_def Let_def split: option.split bool.split prod.split sum.split)

lemma keeps_rows_mark_retries: "keeps_rows (mark_with_retries env pid t bs)"
proof (induction bs)
  case Nil
  then show ?case using keeps_rows_mark [of env pid t "''direct-api''"] by (simp add: keeps_rows_def)
next
  case (Cons b bs)
  then show ?case using keeps_rows_mark [of env pid t "''direct-api''"]
    by (auto simp: keeps_rows_def split: prod.split option.split) (metis snd_conv)+
qed

lemma history_steps [steps]:
  assumes "api_step h w0 w"
  shows "reaches (api_step h) w0 (in_store (FlipPurchaseRevocationInFlight (hd_env h) p) w)"
    "reaches (api_step h) w0 (in_store (ClearRevocationInFlight (hd_env h) p) w)"
    "reaches (api_step h) w0 (in_store (mark_with_retries (hd_env h) p t bs) w)"
    "reaches (api_step h) w0 (in_store (UpdatePurchasePlan (hd_env h) pl) w)"
  unfolding FlipPurchaseRevocationInFlight_def ClearRevocationInFlight_def
  by (rule keeps_step [OF assms], rule keeps_rows_in_flight keeps_rows_mark_retries keeps_rows_UpdatePurchasePlan)+

section \<open>Approving\<close>

lemma stamped_step:
  assumes "in_store (TransitionExecutionStatus (hd_env h) i froms to) w = (Inr e, w1)" "\<And>s. s \<in> set froms \<Longrightarrow> api_lifecycle s to"
    and "pe_id e' = pe_id e" "pe_status e' = pe_status e" "api_step h w0 w"
  shows "reaches (api_step h) w0 (in_store (SavePurchaseExecution (hd_env h) e') w1)"
proof (rule api.after [OF assms(5)])
  let ?env = "hd_env h"
  obtain db1 where t: "TransitionExecutionStatus ?env i froms to (stored w) = (Inr e, db1)"
    and w1: "stored w1 = db1" "hw_auth w1 = hw_auth w"
    using assms(1) by (auto simp: in_store_def in_purchases_def on_db_def split: prod.splits)
  obtain r e2 db2 where s: "SavePurchaseExecution ?env e' db1 = ((r, e2), db2)" by (metis surj_pair)
  have out: "stored (snd (in_store (SavePurchaseExecution ?env e') w1)) = db2" "hw_auth (snd (in_store (SavePurchaseExecution ?env e') w1)) = hw_auth w"
    using s w1 by (simp_all add: in_store_def in_purchases_def on_db_def)
  have "evolves_by api_lifecycle ?env (stored w) db2"
  proof (cases "env_ok ?env \<and> db_ok ?env (stored w)")
    case False
    then show ?thesis by (rule evolves_otherwise)
  next
    case True
    from t db_okD(1) [OF conjunct2 [OF True]] show ?thesis
    proof (cases rule: Transition_cases)
      case (moved x now)
      note st = status_of_moved [OF set_status_facts(2) moved(4,2,3)]
      have e: "pe_id e' = i" "pe_status e' = to" using assms(3,4) moved(1) row_of_id [OF moved(2)] by simp_all
      moreover have "i \<noteq> []" using db_okD(2) [OF conjunct2 [OF True], of i] moved(2) by (auto simp: ids_dom)
      moreover have "status_of db1 i = Some to" using st(1) [of i] by simp
      ultimately have "may_save_by api_lifecycle ?env e' db1" by (simp add: may_save_by_def)
      from evolves_trans [OF evolves_transition [where R = api_lifecycle, OF t assms(2)] evolves_save [OF s this]] show ?thesis by blast
    qed simp
  qed
  then show "reaches (api_step h) w (in_store (SavePurchaseExecution ?env e') w1)" by (simp add: reaches_def api_step_def out)
qed

lemma schedule_step [steps]:
  assumes "api_step h w0 w"
  shows "reaches (api_step h) w0 (scheduleApprovedExecution h e d a w)"
proof -
  let ?froms = "[''pending'', ''notified'']"
  obtain t w1 where t: "in_store (TransitionExecutionStatus (hd_env h) (pe_id e) ?froms ''scheduled'') w = (t, w1)" by fastforce
  have st: "api_step h w0 w1"
    by (rule api.result [OF _ t, THEN api_step_trans [OF assms]], rule transition_step) (auto intro: api_lifecycle.delay)
  show ?thesis
  proof (cases t)
    case (Inl err)
    with t st show ?thesis by (simp add: scheduleApprovedExecution_def reaches_def)
  next
    case (Inr u)
    define v where "v = (let v = u\<lparr>pe_fire_at := Some (api_now h w1 + d)\<rparr> in if a \<noteq> [] then v\<lparr>pe_approved_by := Some a\<rparr> else v)"
    have v: "pe_id v = pe_id u" "pe_status v = pe_status u" by (simp_all add: v_def Let_def)
    have "reaches (api_step h) w0 (in_store (SavePurchaseExecution (hd_env h) v) w1)"
      by (rule stamped_step [OF t [unfolded Inr] _ v assms]) (auto intro: api_lifecycle.delay)
    then show ?thesis
      using t Inr unfolding scheduleApprovedExecution_def v_def
      by (auto simp: Let_def reaches_def split: prod.splits option.splits)
  qed
qed

lemma approveWithDelay_step [steps]: "api_step h w0 w \<Longrightarrow> reaches (api_step h) w0 (approveWithDelay h e d a w)"
  by (simp only: approveWithDelay_def Let_def) ((intro steps step_rules | assumption | simp)+)

lemma approveViaToken_step [steps]: "api_step h w0 w \<Longrightarrow> reaches (api_step h) w0 (approveViaToken h req e t w)"
  by (simp only: approveViaToken_def Let_def) ((intro steps step_rules | assumption | simp)+)

lemma approvePurchaseViaSession_step [steps]: "api_step h w0 w \<Longrightarrow> reaches (api_step h) w0 (approvePurchaseViaSession h req e w)"
  by (simp only: approvePurchaseViaSession_def Let_def) ((intro steps step_rules | assumption | simp)+)

lemma dispatch_step:
  assumes "api_step h w0 w" "\<And>sn w. reaches hush w (auth sn w)"
    and "\<And>w. api_step h w0 w \<Longrightarrow> reaches (api_step h) w0 (f w)" "\<And>w. api_step h w0 w \<Longrightarrow> reaches (api_step h) w0 (g w)"
  shows "reaches (api_step h) w0 (dispatch_action auth f g t sn w)"
  by (simp only: dispatch_action_def Let_def)
     ((intro step_rules looked [OF assms(2)] assms(1,3,4) | assumption | simp add: assms(1,3,4))+)

lemma approvePurchase_step [steps]: "api_step h w0 w \<Longrightarrow> reaches (api_step h) w0 (approvePurchase h req i t w)"
  by (simp only: approvePurchase_def) ((intro dispatch_step steps step_rules looks | assumption | simp)+)

section \<open>Canceling and revoking\<close>

lemma cancel_transaction:
  assumes "cancel_from froms what env i who db = (q, db1)" "\<And>s. s \<in> set froms \<Longrightarrow> api_lifecycle s ''canceled''"
    and "db' = db1 \<or> db' = snd (DeleteSuppressionsByExecutionTx env i db1)"
  shows "evolves_by api_lifecycle env db db'" "pd_generated db \<le> pd_generated db'"
  using cancel_body_evolves [OF assms(1,3), of api_lifecycle] assms(2) by blast+

lemma cancel_tx_cases:
  assumes "cancel_tx env i who db = (r, db')"
  obtains q db1 where "cancel_from [''pending'', ''notified''] ''failed to cancel execution: '' env i who db = (q, db1)"
    "db' = db1 \<or> db' = snd (DeleteSuppressionsByExecutionTx env i db1)"
proof -
  obtain q db1 where q: "CancelExecutionAtomic env i who db = (q, db1)" by fastforce
  moreover have "db' = db1 \<or> db' = snd (DeleteSuppressionsByExecutionTx env i db1)"
    using assms q by (auto simp: cancel_tx_def split: sum.splits prod.splits bool.splits)
  ultimately show thesis using that unfolding CancelExecutionAtomic_def by blast
qed

lemma revoke_tx_cases:
  assumes "revoke_scheduled_tx env i who db = (r, db')"
  obtains q db1 where "cancel_from [''scheduled''] ''failed to cancel scheduled execution: '' env i who db = (q, db1)"
    "db' = db1 \<or> db' = snd (DeleteSuppressionsByExecutionTx env i db1)"
proof -
  obtain q db1 where q: "CancelScheduledExecutionAtomic env i who db = (q, db1)" by fastforce
  moreover have "db' = db1 \<or> db' = snd (DeleteSuppressionsByExecutionTx env i db1)"
    using assms q by (auto simp: revoke_scheduled_tx_def split: sum.splits prod.splits bool.splits)
  ultimately show thesis using that unfolding CancelScheduledExecutionAtomic_def by blast
qed

lemma transaction_step:
  assumes "api_step h w0 w" "\<And>d y d'. body d = (y, d') \<Longrightarrow> pd_generated d \<le> pd_generated d'"
    and "\<And>d x d'. tables d = tables (stored w) \<Longrightarrow> pd_generated d = pd_generated (stored w) \<Longrightarrow> body d = ((None, x), d') \<Longrightarrow>
      evolves_by api_lifecycle (hd_env h) d d'"
  shows "reaches (api_step h) w0 (in_store (WithTx (hd_env h) a body) w)"
  using assms(1)
proof (rule in_store_step)
  fix r db'
  assume "WithTx (hd_env h) a body (stored w) = (r, db')"
  then obtain e x where "WithTx (hd_env h) a body (stored w) = ((e, x), db')" by (metis surj_pair)
  then show "evolves_by api_lifecycle (hd_env h) (stored w) db'" by (rule evolves_WithTx) (fact assms(3), fact assms(2))
qed

lemma cancel_steps [steps]:
  assumes "api_step h w0 w"
  shows "reaches (api_step h) w0 (in_store (WithTx (hd_env h) a (cancel_tx (hd_env h) i who)) w)"
    "reaches (api_step h) w0 (in_store (WithTx (hd_env h) a (revoke_scheduled_tx (hd_env h) i who)) w)"
proof -
  have c: "api_lifecycle s ''canceled''" if "s \<in> set [''pending'', ''notified''] \<or> s \<in> set [''scheduled'']" for s
    using that managed [OF lifecycle.cancel] api_lifecycle.undo by auto
  show "reaches (api_step h) w0 (in_store (WithTx (hd_env h) a (cancel_tx (hd_env h) i who)) w)"
    by (rule transaction_step [OF assms]) (erule cancel_tx_cases, erule cancel_transaction, auto intro: c)+
  show "reaches (api_step h) w0 (in_store (WithTx (hd_env h) a (revoke_scheduled_tx (hd_env h) i who)) w)"
    by (rule transaction_step [OF assms]) (erule revoke_tx_cases, erule cancel_transaction, auto intro: c)+
qed

lemma cancelPurchaseViaSession_step [steps]: "api_step h w0 w \<Longrightarrow> reaches (api_step h) w0 (cancelPurchaseViaSession h req e w)"
  by (simp only: cancelPurchaseViaSession_def Let_def) ((intro steps step_rules | assumption | simp)+)

lemma cancelViaToken_step [steps]: "api_step h w0 w \<Longrightarrow> reaches (api_step h) w0 (cancelViaToken h req e i t w)"
  by (simp only: cancelViaToken_def Let_def) ((intro steps step_rules | assumption | simp)+)

lemma cancelPurchase_step [steps]: "api_step h w0 w \<Longrightarrow> reaches (api_step h) w0 (cancelPurchase h req i t w)"
  by (simp only: cancelPurchase_def) ((intro dispatch_step steps step_rules looks | assumption | simp)+)

lemma revokeViaSession_step [steps]: "api_step h w0 w \<Longrightarrow> reaches (api_step h) w0 (revokeViaSession h e b w)"
  by (simp only: revokeViaSession_def Let_def) ((intro steps step_rules | assumption | simp)+)

lemma tryRevokeViaSession_step [steps]: "api_step h w0 w \<Longrightarrow> reaches (api_step h) w0 (tryRevokeViaSession h req e w)"
  by (simp only: tryRevokeViaSession_def Let_def) ((intro steps step_rules | assumption | simp)+)

lemma revokeViaEmailToken_step [steps]: "api_step h w0 w \<Longrightarrow> reaches (api_step h) w0 (revokeViaEmailToken h req i t w)"
  by (simp only: revokeViaEmailToken_def Let_def) ((intro steps step_rules | assumption | simp)+)

lemma revokeScheduledExecution_step [steps]: "api_step h w0 w \<Longrightarrow> reaches (api_step h) w0 (revokeScheduledExecution h s sn e w)"
  by (simp only: revokeScheduledExecution_def Let_def) ((intro steps step_rules | assumption | simp)+)

lemma handleAzureReturnError_step [steps]: "api_step h w0 w \<Longrightarrow> reaches (api_step h) w0 (handleAzureReturnError h x e w)"
  by (simp only: handleAzureReturnError_def Let_def) ((intro steps step_rules | assumption | simp)+)

lemma persistAzureRevocation_step [steps]: "api_step h w0 w \<Longrightarrow> reaches (api_step h) w0 (persistAzureRevocation h x w)"
  by (simp only: persistAzureRevocation_def Let_def) ((intro steps step_rules | assumption | simp)+)

lemma callAzureReturn_step [steps]: "api_step h w0 w \<Longrightarrow> reaches (api_step h) w0 (callAzureReturn h x od r e w)"
  by (simp only: callAzureReturn_def Let_def) ((intro steps step_rules | assumption | simp)+)

lemma revokeAzurePurchase_step [steps]: "api_step h w0 w \<Longrightarrow> reaches (api_step h) w0 (revokeAzurePurchase h x e w)"
  by (simp only: revokeAzurePurchase_def Let_def) ((intro steps step_rules | assumption | simp)+)

lemma dispatchProviderRevoke_step [steps]: "api_step h w0 w \<Longrightarrow> reaches (api_step h) w0 (dispatchProviderRevoke h x e w)"
  by (simp only: dispatchProviderRevoke_def Let_def) ((intro steps step_rules | assumption | simp)+)

lemma loadAndRevokePurchaseHistory_step [steps]:
  "api_step h w0 w \<Longrightarrow> reaches (api_step h) w0 (loadAndRevokePurchaseHistory h s req sn p w)"
  by (simp only: loadAndRevokePurchaseHistory_def Let_def) ((intro steps step_rules | assumption | simp)+)

lemma revokePurchase_step [steps]: "api_step h w0 w \<Longrightarrow> reaches (api_step h) w0 (revokePurchase h req p w)"
  by (simp only: revokePurchase_def Let_def) ((intro steps step_rules | assumption | simp)+)

section \<open>Planned purchases\<close>

lemma manage_step:
  assumes "api_step h w0 w" "\<And>s. s \<in> set froms \<Longrightarrow> api_lifecycle s to"
  shows "reaches (api_step h) w0 (manage_execution h req i v froms to m a w)"
  by (simp only: manage_execution_def) ((intro steps step_rules transition_step [OF _ assms(2)] assms(1) | assumption | simp)+)

lemma planned_steps [steps]:
  assumes "api_step h w0 w"
  shows "reaches (api_step h) w0 (pausePlannedPurchase h req i w)" "reaches (api_step h) w0 (resumePlannedPurchase h req i w)"
    "reaches (api_step h) w0 (runPlannedPurchase h req i w)"
  unfolding pausePlannedPurchase_def resumePlannedPurchase_def runPlannedPurchase_def
  by (rule manage_step [OF assms], auto intro: api_lifecycle.intros)+

lemma cancelOrRecoverExecution_step [steps]: "api_step h w0 w \<Longrightarrow> reaches (api_step h) w0 (cancelOrRecoverExecution h i w)"
  by (simp only: cancelOrRecoverExecution_def Let_def) ((intro steps step_rules | assumption | simp)+)

lemma disablePlan_step [steps]: "api_step h w0 w \<Longrightarrow> reaches (api_step h) w0 (disablePlan h p w)"
  by (simp only: disablePlan_def Let_def) ((intro steps step_rules | assumption | simp)+)

lemma deletePlannedPurchase_step [steps]: "api_step h w0 w \<Longrightarrow> reaches (api_step h) w0 (deletePlannedPurchase h req i w)"
  by (simp only: deletePlannedPurchase_def Let_def) ((intro steps step_rules | assumption | simp)+)

section \<open>Submitting and retrying\<close>

text \<open>Statements that need to know what the well-formed tables of the start hold now.\<close>

definition sound_at :: "('p, 'c, 'd) handler \<Rightarrow> ('c, 'd) api_world \<Rightarrow> bool" where
  "sound_at h w = (env_ok (hd_env h) \<and> db_ok (hd_env h) (stored w))"

lemma sound_later: "api_step h w0 w \<Longrightarrow> sound_at h w0 \<Longrightarrow> sound_at h w"
  by (auto simp: sound_at_def api_step_def evolves_by_def)

lemma in_store_from:
  assumes "api_step h w0 w"
    and "\<And>r db'. sound_at h w0 \<Longrightarrow> sound_at h w \<Longrightarrow> f (stored w) = (r, db') \<Longrightarrow> evolves_by api_lifecycle (hd_env h) (stored w) db'"
  shows "reaches (api_step h) w0 (in_store f w)"
proof -
  obtain r db' where f: "f (stored w) = (r, db')" by fastforce
  have "evolves_by api_lifecycle (hd_env h) (stored w0) db'"
  proof (cases "sound_at h w0")
    case False
    then show ?thesis unfolding sound_at_def by (rule evolves_otherwise)
  next
    case True
    from assms(2) [OF this sound_later [OF assms(1) True] f] assms(1) show ?thesis
      by (auto simp: api_step_def intro: evolves_trans)
  qed
  with assms(1) f show ?thesis by (simp add: reaches_def in_store_def in_purchases_def on_db_def api_step_def)
qed

lemma save_from:
  assumes "api_step h w0 w" "sound_at h w0 \<Longrightarrow> sound_at h w \<Longrightarrow> may_save_by api_lifecycle (hd_env h) e (stored w)"
  shows "reaches (api_step h) w0 (in_store (SavePurchaseExecution (hd_env h) e) w)"
  using assms(1)
proof (rule in_store_from)
  fix r db'
  assume ok: "sound_at h w0" "sound_at h w" and s: "SavePurchaseExecution (hd_env h) e (stored w) = (r, db')"
  from ok have "may_save_by api_lifecycle (hd_env h) e (stored w)" by (rule assms(2))
  with s show "evolves_by api_lifecycle (hd_env h) (stored w) db'" by (cases r) (auto intro: evolves_save)
qed

text \<open>The execution is pending in the table, as it was just stored.\<close>

definition pends :: "('p, 'c, 'd) handler \<Rightarrow> ('c, 'd) api_world \<Rightarrow> execution \<Rightarrow> ('c, 'd) api_world \<Rightarrow> bool" where
  "pends h w0 e w = (sound_at h w0 \<longrightarrow> pe_id e \<noteq> [] \<and> status_of (stored w) (pe_id e) = Some ''pending'')"

lemma pends_hush: "hush w w' \<Longrightarrow> pends h w0 e w \<Longrightarrow> pends h w0 e w'"
  by (auto simp: pends_def rows_same [OF hush_rows])

lemma submission_tail_step:
  assumes "api_step h w0 w" "pends h w0 e w"
  shows "reaches (api_step h) w0 (finalizePurchaseStatus h e sent reason w)"
proof -
  let ?e = "e\<lparr>pe_status := ''failed'', pe_error := reason\<rparr>"
  have "may_save_by api_lifecycle (hd_env h) ?e (stored w)" if "sound_at h w0"
    using assms(2) that api_lifecycle.unsent by (auto simp: pends_def may_save_by_def)
  then have "reaches (api_step h) w0 (in_store (SavePurchaseExecution (hd_env h) ?e) w)" by (intro save_from [OF assms(1)])
  with assms(1) show ?thesis by (auto simp: finalizePurchaseStatus_def reaches_def split: prod.splits option.splits)
qed

lemma direct_step:
  assumes "api_step h w0 w" "pends h w0 e w" "pe_status e = ''pending''"
  shows "reaches (api_step h) w0 (directExecutePurchase h req e sn adj w)"
proof -
  define e1 where "e1 = (let e = (if sn_user sn \<noteq> [] then e\<lparr>pe_executed_by := Some (sn_user sn)\<rparr> else e) in
     e\<lparr>pe_executed_at := Some (api_now h w), pe_skip_reason := Some ''direct-execute permission''\<rparr>)"
  have e1: "pe_id e1 = pe_id e" "pe_status e1 = ''pending''" using assms(3) by (simp_all add: e1_def Let_def)
  obtain r e2 w1 where s: "in_store (SavePurchaseExecution (hd_env h) e1) w = ((r, e2), w1)" by (metis surj_pair)
  have "may_save_by api_lifecycle (hd_env h) e1 (stored w)" if "sound_at h w0"
    using assms(2) that e1 by (auto simp: pends_def may_save_by_def)
  from save_from [OF assms(1) this] s have st: "api_step h w0 w1" by (simp add: reaches_def)
  have "directExecutePurchase h req e sn adj w =
    (case in_purchases (ApproveAndExecute (hd_purchases h) (pe_id e2) (fourEyesActorIdentity sn)
         (validUUIDPtrOrNil (Some (sn_user sn)))) w1 of
        (Some err, w) \<Rightarrow> (Inl (NewClientError 409
          (sprintf ''execution %s could not be direct-executed: %v'' [FStr (pe_id e2), FStr (err_string err)])), w)
      | (None, w) \<Rightarrow>
        (Inr (withPaymentAdjustments
           [(''execution_id'', JStr (pe_id e2)), (''status'', JStr ''completed''),
            (''recommendation_count'', JInt (int (length (pe_recs e2)))), (''total_upfront_cost'', JFloat (pe_upfront e2)),
            (''estimated_savings'', JFloat (pe_savings e2)), (''direct_execute'', JBool True),
            (''message'', JStr ''Purchase executed immediately (direct-execute permission).'')] adj),
         sendPurchaseExecutedEmail h req e2 (sn_email sn) w))"
    using s by (simp add: directExecutePurchase_def e1_def Let_def)
  then show ?thesis by (simp only:) ((intro steps step_rules st | assumption | simp)+)
qed

lemma submitted_step:
  assumes "api_step h w0 w" "pends h w0 e w" "pe_status e = ''pending''"
  shows "reaches (api_step h) w0 (submitted h req x sn adj u v e w)"
proof (cases "xq_mode x = ''direct''")
  case True
  obtain a w1 where a: "authorizeSessionExecuteDirect h sn (derefStringOrEmpty (resolveCreatorUserID sn)) w = (a, w1)" by fastforce
  have q: "hush w w1" by (rule hushed.result [OF authorizeSessionExecuteDirect_looks [OF hush_refl] a])
  from direct_step [OF looked_world [OF q assms(1)] pends_hush [OF q assms(2)] assms(3)] looked_world [OF q assms(1)]
  show ?thesis using True a by (auto simp: submitted_def reaches_def split: option.split)
next
  case False
  obtain sent reason rcpt w1 where m: "sendPurchaseApprovalEmail h req e (xq_recs x) u v w = ((sent, reason, rcpt), w1)"
    by (metis surj_pair)
  have q: "hush w w1" by (rule hushed.result [OF sendPurchaseApprovalEmail_looks [OF hush_refl] m])
  note f = submission_tail_step [OF looked_world [OF q assms(1)] pends_hush [OF q assms(2)], of sent reason]
  obtain st w2 where "finalizePurchaseStatus h e sent reason w1 = (st, w2)" by fastforce
  with f False m show ?thesis by (simp add: submitted_def reaches_def)
qed

text \<open>An identifier no row has and the generator will not draw again.\<close>

definition unused :: "pdb_env \<Rightarrow> pdb \<Rightarrow> string \<Rightarrow> bool" where
  "unused env db i = (i \<noteq> [] \<and> i \<notin> ids db \<and> (\<forall>n \<ge> pd_generated db. pv_uuid env n \<noteq> i))"

lemma unused_drawn:
  assumes "env_ok env" "db_ok env db" "pd_rows db' = pd_rows db" "pd_generated db' = Suc (pd_generated db)"
  shows "unused env db' (pv_uuid env (pd_generated db))"
proof -
  have "pv_uuid env (pd_generated db) \<notin> ids db" "inj (pv_uuid env)" "[] \<notin> range (pv_uuid env)"
    using assms(1,2) by (auto simp: db_ok_def env_ok_def)
  then show ?thesis unfolding unused_def assms(4) using rows_same [OF assms(3)]
    by (metis injD not_less_eq_eq order_refl rangeI)
qed

lemma unused_later: "unused env db i \<Longrightarrow> pd_rows db' = pd_rows db \<Longrightarrow> pd_generated db \<le> pd_generated db' \<Longrightarrow> unused env db' i"
  using rows_same [of db' db] by (auto simp: unused_def)

lemma unused_save: "unused env db (pe_id e) \<Longrightarrow> pe_status e = ''pending'' \<Longrightarrow> may_save_by R env e db"
  by (auto simp: unused_def may_save_by_def ids_dom status_of_def first_status_def)

lemma suppression_keeps:
  assumes "CreateSuppressionTx env x db = (r, db')"
  shows "pd_rows db' = pd_rows db \<and> pd_generated db \<le> pd_generated db'"
  using assms by (auto simp: CreateSuppressionTx_def run_stmt_def insert_suppression_def Let_def split: option.splits if_splits)

lemma suppressions_keep:
  "create_suppressions env xs db = (r, db') \<Longrightarrow> pd_rows db' = pd_rows db \<and> pd_generated db \<le> pd_generated db'"
proof (induction xs arbitrary: db)
  case (Cons x xs)
  obtain q db1 where q: "CreateSuppressionTx env x db = (q, db1)" by fastforce
  note k = suppression_keeps [OF q]
  show ?case
  proof (cases q)
    case None
    with Cons.prems q have "create_suppressions env xs db1 = (r, db')" by simp
    from Cons.IH [OF this] k show ?thesis by simp
  next
    case (Some e)
    with Cons.prems q k show ?thesis by simp
  qed
qed simp

lemma saved_status:
  assumes "SavePurchaseExecutionTx env e db = ((None, e'), db')" "pe_id e \<noteq> []"
  shows "status_of db' (pe_id e) = Some (pe_status e)" "pe_id e' = pe_id e" "pe_status e' = pe_status e"
    "\<And>i. i \<noteq> pe_id e \<Longrightarrow> status_of db' i = status_of db i" "pd_generated db \<le> pd_generated db'"
proof -
  from assms obtain s now where s: "e' = e\<lparr>pe_key := pe_key e'\<rparr>" "stored_execution env e' = Inr s"
    "tables db' = tables (db\<lparr>pd_rows := saved_rows now s (pd_rows db)\<rparr>)" by (rule SaveTx_stores)
  show e': "pe_id e' = pe_id e" "pe_status e' = pe_status e"
    using s(1) by (metis execution.ext_inject execution.surjective execution.update_convs(26))+
  have "pd_rows db' = saved_rows now s (pd_rows db)" using tables_rows [OF s(3)] by simp
  from status_of_saved [OF this] stored_id [OF s(2)] e'
  show "status_of db' (pe_id e) = Some (pe_status e)" "\<And>i. i \<noteq> pe_id e \<Longrightarrow> status_of db' i = status_of db i" by simp_all
  show "pd_generated db \<le> pd_generated db'" by (rule SaveTx_generated [OF assms(1)])
qed

lemma pending_tx_same: "GetPendingExecutionsTx env db = (r, db') \<Longrightarrow> tables db' = tables db \<and> pd_generated db' = pd_generated db"
  by (auto simp: GetPendingExecutionsTx_def dest: ask_facts ask_generated split: prod.splits sum.splits)

lemma submit_tx_generated:
  assumes "submit_tx env hash e xs c k db = (y, db')"
  shows "pd_generated db \<le> pd_generated db'"
proof -
  obtain p db1 where p: "GetPendingExecutionsTx env db = (p, db1)" by fastforce
  obtain r e2 db2 where s: "SavePurchaseExecutionTx env e db1 = ((r, e2), db2)" by (metis surj_pair)
  obtain q db3 where q: "create_suppressions env xs db2 = (q, db3)" by fastforce
  have "db' = db1 \<or> db' = db2 \<or> db' = db3"
    using assms p s q by (auto simp: submit_tx_def split: sum.splits option.splits)
  with pending_tx_same [OF p] SaveTx_generated [OF s] suppressions_keep [OF q] show ?thesis by auto
qed

text \<open>A submission stores one new pending execution, or finds a duplicate and stores nothing.\<close>

lemma submit_tx_cases:
  assumes "submit_tx env hash e xs c k db = ((None, dup, e'), db')" "pe_id e \<noteq> []"
  obtains (duplicate) d where "dup = Some d" "e' = e" "tables db' = tables db" "pd_generated db' = pd_generated db"
  | (new) db1 db2 where "dup = None" "tables db1 = tables db" "pd_generated db1 = pd_generated db"
      "SavePurchaseExecutionTx env e db1 = ((None, e'), db2)" "pd_rows db' = pd_rows db2" "pd_generated db2 \<le> pd_generated db'"
proof -
  obtain p db1 where p: "GetPendingExecutionsTx env db = (p, db1)" by fastforce
  note same = pending_tx_same [OF p]
  obtain ps where ps: "p = Inr ps" using assms(1) p by (cases p) (auto simp: submit_tx_def)
  show thesis
  proof (cases "matchDuplicateInList hash ps c k (clock env db1)")
    case (Some d)
    with assms(1) p ps same show thesis by (intro duplicate [of d]) (auto simp: submit_tx_def)
  next
    case None
    obtain r e2 db2 where s: "SavePurchaseExecutionTx env e db1 = ((r, e2), db2)" by (metis surj_pair)
    obtain q db3 where q: "create_suppressions env xs db2 = (q, db3)" by fastforce
    from assms(1) p ps None s q have "r = None" "e2 = e'" "dup = None" "db3 = db'" by (auto simp: submit_tx_def split: option.splits)
    with s same suppressions_keep [OF q] show thesis by (intro new [of db1 db2]) auto
  qed
qed

lemma submit_tx_evolves:
  assumes "submit_tx env hash e xs c k db = ((None, dup, e'), db')" "unused env db (pe_id e)" "pe_status e = ''pending''"
  shows "evolves_by R env db db'"
proof -
  have id: "pe_id e \<noteq> []" using assms(2) by (simp add: unused_def)
  from assms(1) id show ?thesis
  proof (cases rule: submit_tx_cases)
    case (duplicate d)
    then show ?thesis by (intro evolves_tables) simp_all
  next
    case (new db1 db2)
    have u: "unused env db1 (pe_id e)" by (rule unused_later [OF assms(2) tables_rows [OF new(2)]]) (simp add: new(3))
    have "evolves_by R env db db1" by (rule evolves_tables [OF new(2)]) (simp add: new(3))
    moreover have "evolves_by R env db2 db'" by (rule evolves_rows [OF new(5,6)])
    ultimately show ?thesis using evolves_saveTx [OF new(4) unused_save [OF u assms(3)]] by (blast intro: evolves_trans)
  qed
qed

text \<open>The new execution: its identifier was drawn for it.\<close>

definition drawn :: "('p, 'c, 'd) handler \<Rightarrow> ('c, 'd) api_world \<Rightarrow> string \<Rightarrow> ('c, 'd) api_world \<Rightarrow> bool" where
  "drawn h w0 i w = (sound_at h w0 \<longrightarrow> unused (hd_env h) (stored w) i)"

lemma drawn_hush: "hush w w' \<Longrightarrow> drawn h w0 i w \<Longrightarrow> drawn h w0 i w'"
  unfolding drawn_def by (auto simp: hush_rows elim!: unused_later) (simp add: hush_def)

lemma draw_uuid:
  assumes "api_fresh (pv_uuid (hd_env h)) w = (i, w')" "api_step h w0 w"
  shows "drawn h w0 i w'" "api_step h w0 w'"
proof -
  have f: "i = pv_uuid (hd_env h) (pd_generated (stored w))" "pd_rows (stored w') = pd_rows (stored w)"
    "pd_generated (stored w') = Suc (pd_generated (stored w))"
    using assms(1) by (auto simp: api_fresh_def in_purchases_def fresh_def on_db_def)
  show "drawn h w0 i w'"
    using unused_drawn [OF _ _ f(2,3)] sound_later [OF assms(2)] by (auto simp: drawn_def sound_at_def f(1))
  show "api_step h w0 w'" using fresh_step [OF assms(2), of "pv_uuid (hd_env h)"] assms(1) by (simp add: reaches_def)
qed

lemma new_pending:
  assumes "newPendingExecution h x u v w = (Inr e, w')" "api_step h w0 w"
  shows "drawn h w0 (pe_id e) w'" "api_step h w0 w'" "pe_status e = ''pending''"
proof -
  obtain t w1 where t: "api_fresh (mg_token (hd_purchases h)) w = (t, w1)" by fastforce
  then obtain tok where tok: "t = Inr tok" using assms(1) by (cases t) (auto simp: newPendingExecution_def)
  obtain i w2 where i: "api_fresh (pv_uuid (hd_env h)) w1 = (i, w2)" by fastforce
  have e: "w' = w2" "pe_id e = i" "pe_status e = ''pending''"
    using assms(1) t tok i by (auto simp: newPendingExecution_def web_execution_def)
  have "api_step h w0 w1" using fresh_step [OF assms(2), of "mg_token (hd_purchases h)"] t by (simp add: reaches_def)
  from draw_uuid [OF i this] e show "drawn h w0 (pe_id e) w'" "api_step h w0 w'" "pe_status e = ''pending''" by simp_all
qed

lemma new_pending_failed: "newPendingExecution h x u v w = (Inl err, w') \<Longrightarrow> api_step h w0 w \<Longrightarrow> api_step h w0 w'"
  using fresh_step [of h w0 w "mg_token (hd_purchases h)"]
  by (auto simp: newPendingExecution_def reaches_def split: prod.splits sum.splits)

text \<open>What a stored submission looks like.\<close>

lemma submit_tx_pending:
  assumes "submit_tx env hash e xs c k db = ((None, None, e'), db')" "pe_status e = ''pending''"
  shows "pe_status e' = ''pending''" "pe_id e \<noteq> [] \<Longrightarrow> pe_id e' \<noteq> [] \<and> status_of db' (pe_id e') = Some ''pending''"
proof -
  show "pe_status e' = ''pending''"
    using assms with_key_facts(7)
    by (auto simp: submit_tx_def SavePurchaseExecutionTx_def with_id_def split: prod.splits sum.splits option.splits if_splits)
  assume id: "pe_id e \<noteq> []"
  from assms(1) id show "pe_id e' \<noteq> [] \<and> status_of db' (pe_id e') = Some ''pending''"
  proof (cases rule: submit_tx_cases)
    case (new d1 d2)
    note s = saved_status [OF new(4) id]
    with rows_same [OF new(5)] id assms(2) show ?thesis by simp
  qed simp
qed

lemma submit_step:
  assumes "api_step h w0 w" "drawn h w0 (pe_id e) w" "pe_status e = ''pending''"
    and "persistExecutionAndSuppressions h e xs c k w = (r, w')"
  shows "api_step h w0 w'" "r = Inr (None, e') \<Longrightarrow> pends h w0 e' w' \<and> pe_status e' = ''pending''"
proof -
  let ?body = "submit_tx (hd_env h) (mg_hash (hd_purchases h)) e xs c k"
  obtain err dup e2 where t: "in_store (WithTx (hd_env h) (None, e) ?body) w = ((err, dup, e2), w')"
    using assms(4) by (auto simp: persistExecutionAndSuppressions_def split: prod.splits option.splits)
  have tx: "WithTx (hd_env h) (None, e) ?body (stored w) = ((err, dup, e2), stored w')"
    using t by (auto simp: in_store_def in_purchases_def on_db_def split: prod.splits)
  have "reaches (api_step h) w0 (in_store (WithTx (hd_env h) (None, e) ?body) w)"
    using assms(1)
  proof (rule in_store_from)
    fix y db'
    assume ok: "sound_at h w0" and "WithTx (hd_env h) (None, e) ?body (stored w) = (y, db')"
    then have "WithTx (hd_env h) (None, e) ?body (stored w) = ((err, dup, e2), db')" using tx by simp
    then show "evolves_by api_lifecycle (hd_env h) (stored w) db'"
    proof (rule evolves_WithTx)
      fix d d'
      assume d: "tables d = tables (stored w)" "pd_generated d = pd_generated (stored w)" and b: "?body d = ((None, dup, e2), d')"
      have "unused (hd_env h) (stored w) (pe_id e)" using assms(2) ok by (simp add: drawn_def)
      from unused_later [OF this tables_rows [OF d(1)]] d(2) show "evolves_by api_lifecycle (hd_env h) d d'"
        by (intro submit_tx_evolves [OF b _ assms(3)]) simp
    qed (rule submit_tx_generated)
  qed
  with t show "api_step h w0 w'" by (simp add: reaches_def)
  assume "r = Inr (None, e')"
  then have e2: "err = None" "dup = None" "e2 = e'" using assms(4) t by (auto simp: persistExecutionAndSuppressions_def split: option.splits)
  from tx obtain db1 db2 where b: "?body db1 = ((None, None, e'), db2)" "tables (stored w') = tables db2"
    by (rule WithTx_cases) (use e2 in auto)
  from submit_tx_pending [OF b(1) assms(3)] rows_same [OF tables_rows [OF b(2)]] assms(2)
  show "pends h w0 e' w' \<and> pe_status e' = ''pending''" by (auto simp: pends_def drawn_def unused_def)
qed

text \<open>From the drawn execution to the answer.\<close>

lemma store_submission_step:
  assumes "api_step h w0 w" "drawn h w0 (pe_id e) w" "pe_status e = ''pending''"
  shows "reaches (api_step h) w0 (case in_store (GetGlobalConfig (hd_env h)) w of (cfg, w) \<Rightarrow>
     (case persistExecutionAndSuppressions h e (xs cfg w) c k w of
        (Inl err, w) \<Rightarrow> (Inl err, w)
      | (Inr (Some dup, _), w) \<Rightarrow> (Inr (answer dup), w)
      | (Inr (None, e), w) \<Rightarrow> submitted h req x sn adj u v e w))"
proof -
  obtain cfg w1 where cfg: "in_store (GetGlobalConfig (hd_env h)) w = (cfg, w1)" by fastforce
  have q: "hush w w1" by (rule hushed.result [OF _ cfg]) (rule store_looks, simp)
  obtain p w2 where p: "persistExecutionAndSuppressions h e (xs cfg w1) c k w1 = (p, w2)" by fastforce
  note sub = submit_step [OF looked_world [OF q assms(1)] drawn_hush [OF q assms(2)] assms(3) p]
  show ?thesis
  proof (cases "isl p \<or> fst (projr p) \<noteq> None")
    case True
    with cfg p sub(1) show ?thesis by (cases p) (auto simp: reaches_def split: option.splits)
  next
    case False
    then obtain e2 where e2: "p = Inr (None, e2)" by (metis prod.collapse sum.collapse)
    with submitted_step [OF sub(1)] sub(2) cfg p show ?thesis by simp
  qed
qed

lemma new_pending_step:
  assumes "api_step h w0 w"
    and "\<And>e w. api_step h w0 w \<Longrightarrow> drawn h w0 (pe_id e) w \<Longrightarrow> pe_status e = ''pending'' \<Longrightarrow> reaches (api_step h) w0 (f e w)"
  shows "reaches (api_step h) w0 (case newPendingExecution h x u v w of (Inl err, w) \<Rightarrow> (Inl err, w) | (Inr e, w) \<Rightarrow> f e w)"
proof -
  obtain n w1 where n: "newPendingExecution h x u v w = (n, w1)" by fastforce
  show ?thesis
  proof (cases n)
    case (Inl err)
    from new_pending_failed [OF n [unfolded Inl] assms(1)] n Inl show ?thesis by (simp add: reaches_def)
  next
    case (Inr e)
    note new = new_pending [OF n [unfolded Inr] assms(1)]
    from assms(2) [OF new(2,1,3)] n Inr show ?thesis by simp
  qed
qed

lemma executePurchase_step [steps]:
  assumes "api_step h w0 w"
  shows "reaches (api_step h) w0 (api_executePurchase h req w)"
  unfolding api_executePurchase_def Let_def
  by (rule api.call, rule looked [OF validateExecutePurchaseRequest_looks [OF hush_refl] assms], rule api.sum, erule api.pair,
      rule api.split, rule api.split, rule api.sum, erule api.pair, rule api.split, rule new_pending_step, assumption,
      rule store_submission_step, assumption, simp, simp)

lemma fetched_row:
  assumes "fetch_execution missing h i w = (Inr e, w')" "sound_at h w"
  obtains x where "row_of (stored w) i = Some x" "e = row_execution x" "pe_id e = i" "status_of (stored w) i = Some (pe_status e)"
proof -
  obtain d where "GetExecutionByID (hd_env h) i (stored w) = (Inr e, d)"
    using assms(1) by (auto simp: fetch_execution_def in_store_def in_purchases_def on_db_def split: prod.splits sum.splits)
  from Get_row [OF this] assms(2) obtain x where "row_of (stored w) i = Some x" "e = row_execution x"
    unfolding sound_at_def db_ok_def by blast
  with row_of_id [of "stored w" i x] that show thesis by (simp add: status_of_def row_execution_def)
qed

text \<open>The failed execution a retry starts from is the row of that identifier.\<close>

lemma retry_request:
  assumes "loadAndValidateRetryRequest h req i w = (Inr (e, sn), w')" "sound_at h w"
  shows "status_of (stored w') (pe_id e) = Some ''failed''" "pe_status e = ''failed''" "pe_id e = i" "pe_id e \<noteq> []"
proof -
  obtain f w1 where f: "fetch_execution missing_execution h i w = (f, w1)" by fastforce
  then have fe: "f = Inr e" "pe_status e = ''failed''"
    using assms(1) by (auto simp: loadAndValidateRetryRequest_def split: option.splits sum.splits prod.splits if_splits)
  from fetched_row [OF f [unfolded fe(1)] assms(2)] obtain x where x: "row_of (stored w) i = Some x" "pe_id e = i"
    "status_of (stored w) i = Some (pe_status e)" by blast
  have "hush w w'" by (rule hushed.result [OF loadAndValidateRetryRequest_looks [OF hush_refl] assms(1)])
  from rows_same [OF hush_rows [OF this]] x fe(2)
  show "status_of (stored w') (pe_id e) = Some ''failed''" "pe_status e = ''failed''" "pe_id e = i" by simp_all
  show "pe_id e \<noteq> []" using assms(2) x(1,2) by (auto simp: sound_at_def db_ok_def ids_dom)
qed

lemma retry_tx_generated:
  assumes "retry_tx env e original xs db = (y, db')"
  shows "pd_generated db \<le> pd_generated db'"
proof -
  obtain r e2 db2 where s: "SavePurchaseExecutionTx env e db = ((r, e2), db2)" by (metis surj_pair)
  obtain r3 e3 db3 where o: "SavePurchaseExecutionTx env original db2 = ((r3, e3), db3)" by (metis surj_pair)
  obtain q db4 where q: "create_suppressions env xs db3 = (q, db4)" by fastforce
  have "db' = db2 \<or> db' = db3 \<or> db' = db4"
    using assms s o q by (auto simp: retry_tx_def split: option.splits)
  with SaveTx_generated [OF s] SaveTx_generated [OF o] suppressions_keep [OF q] show ?thesis by auto
qed

lemma retry_tx_evolves:
  assumes "retry_tx env e original xs db = ((None, e'), db')" "unused env db (pe_id e)" "pe_status e = ''pending''"
    and "status_of db (pe_id original) = Some (pe_status original)" "pe_id original \<noteq> []"
  shows "evolves_by R env db db'" "status_of db' (pe_id e') = Some ''pending''" "pe_id e' = pe_id e" "pe_status e' = ''pending''"
proof -
  have id: "pe_id e \<noteq> []" "pe_id original \<noteq> pe_id e"
    using assms(2,4) by (auto simp: unused_def ids_dom status_of_def)
  obtain r e2 db2 where s: "SavePurchaseExecutionTx env e db = ((r, e2), db2)" by (metis surj_pair)
  obtain r3 e3 db3 where o: "SavePurchaseExecutionTx env original db2 = ((r3, e3), db3)" by (metis surj_pair)
  obtain q db4 where q: "create_suppressions env xs db3 = (q, db4)" by fastforce
  have ok: "r = None" "r3 = None" "e2 = e'" "db4 = db'" using assms(1) s o q by (auto simp: retry_tx_def split: option.splits)
  note k = suppressions_keep [OF q [unfolded ok(4)]]
  note s1 = saved_status [OF s [unfolded ok(1,3)] id(1)] and s2 = saved_status [OF o [unfolded ok(2)] assms(5)]
  have "may_save_by R env original db2" using s1(4) [OF id(2)] assms(4,5) by (simp add: may_save_by_def)
  from evolves_saveTx [OF o [unfolded ok(2)] this] evolves_saveTx [OF s [unfolded ok(1,3)] unused_save [OF assms(2,3)], of R]
    evolves_rows [of db' db3 R env] k
  show "evolves_by R env db db'" by (blast intro: evolves_trans)
  show "status_of db' (pe_id e') = Some ''pending''" "pe_id e' = pe_id e" "pe_status e' = ''pending''"
    using s1 s2(4) [OF id(2) [symmetric]] rows_same [OF conjunct1 [OF k]] assms(3) by simp_all
qed

text \<open>The identifier for the successor is drawn, the settings are read, both rows are written.\<close>

lemma retry_store_step:
  assumes "api_step h w0 w" "drawn h w0 (pe_id e) w" "pe_status e = ''pending''"
    and o: "sound_at h w0 \<Longrightarrow> status_of (stored w) (pe_id original) = Some (pe_status original) \<and> pe_id original \<noteq> []"
    and t: "in_store (WithTx (hd_env h) e (retry_tx (hd_env h) e original xs)) w = ((err, e'), w')"
  shows "api_step h w0 w'" "err = None \<Longrightarrow> pends h w0 e' w'"
proof -
  let ?body = "retry_tx (hd_env h) e original xs"
  have tx: "WithTx (hd_env h) e ?body (stored w) = ((err, e'), stored w')"
    using t by (auto simp: in_store_def in_purchases_def on_db_def split: prod.splits)
  have facts: "evolves_by api_lifecycle (hd_env h) d d' \<and> pe_id e' \<noteq> [] \<and> status_of d' (pe_id e') = Some ''pending''"
    if "sound_at h w0" "tables d = tables (stored w)" "pd_generated d = pd_generated (stored w)" "?body d = ((None, e'), d')" for d d'
  proof -
    have u: "unused (hd_env h) (stored w) (pe_id e)" using assms(2) that(1) by (simp add: drawn_def)
    have "unused (hd_env h) d (pe_id e)" by (rule unused_later [OF u tables_rows [OF that(2)]]) (simp add: that(3))
    moreover have "status_of d (pe_id original) = Some (pe_status original)" "pe_id original \<noteq> []"
      using o [OF that(1)] rows_same [OF tables_rows [OF that(2)]] by simp_all
    ultimately show ?thesis using retry_tx_evolves [OF that(4) _ assms(3)] u by (simp add: unused_def)
  qed
  have "reaches (api_step h) w0 (in_store (WithTx (hd_env h) e ?body) w)"
    using assms(1)
  proof (rule in_store_from)
    fix y db'
    assume ok: "sound_at h w0" and "WithTx (hd_env h) e ?body (stored w) = (y, db')"
    then have "WithTx (hd_env h) e ?body (stored w) = ((err, e'), db')" using tx by simp
    then show "evolves_by api_lifecycle (hd_env h) (stored w) db'"
      by (rule evolves_WithTx) (use facts [OF ok] retry_tx_generated in blast)+
  qed
  with t show "api_step h w0 w'" by (simp add: reaches_def)
  assume n: "err = None"
  from tx obtain db1 db2 where "tables db1 = tables (stored w)" "pd_generated db1 = pd_generated (stored w)"
    "?body db1 = ((None, e'), db2)" "tables (stored w') = tables db2" by (rule WithTx_cases) (use n in auto)
  with facts [of db1 db2] rows_same [OF tables_rows] show "pends h w0 e' w'" unfolding pends_def by metis
qed

lemma persist_retry:
  assumes "api_step h w0 w" "persistRetryExecution h failed sn u v w = (r, w')"
    and o: "sound_at h w0 \<Longrightarrow> status_of (stored w) (pe_id failed) = Some (pe_status failed) \<and> pe_id failed \<noteq> []"
  shows "api_step h w0 w'" "r = Inr e' \<Longrightarrow> pends h w0 e' w'"
proof -
  obtain t w1 where t: "api_fresh (mg_token (hd_purchases h)) w = (t, w1)" by fastforce
  have s1: "api_step h w0 w1" using fresh_step [OF assms(1), of "mg_token (hd_purchases h)"] t by (simp add: reaches_def)
  have "api_step h w0 w' \<and> (\<forall>e'. r = Inr e' \<longrightarrow> pends h w0 e' w')"
  proof (cases t)
    case (Inl err)
    with assms(2) t s1 show ?thesis by (auto simp: persistRetryExecution_def)
  next
    case (Inr tok)
    obtain i w2 where i: "api_fresh (pv_uuid (hd_env h)) w1 = (i, w2)" by fastforce
    note d = draw_uuid [OF i s1]
    define e where "e = retry_execution failed sn i (api_now h w2) tok (api_now h w2 + ApprovalTokenTTL) u v"
    obtain cfg w3 where cfg: "in_store (GetGlobalConfig (hd_env h)) w2 = (cfg, w3)" by fastforce
    have q: "hush w2 w3" by (rule hushed.result [OF _ cfg]) (rule store_looks, simp)
    obtain err e2 w4 where x: "in_store (WithTx (hd_env h) e (retry_tx (hd_env h) e (failed\<lparr>pe_retry := Some i\<rparr>)
        (buildSuppressions (pe_recs failed) i (configured cfg) (api_now h w3)))) w3 = ((err, e2), w4)" by (metis surj_pair)
    have r: "w' = w4 \<and> (\<forall>e'. r = Inr e' \<longrightarrow> err = None \<and> e' = e2)"
      using assms(2) t Inr i cfg x unfolding e_def by (auto simp: persistRetryExecution_def Let_def split: option.splits)
    have same: "pd_rows (stored w3) = pd_rows (stored w)"
      using hush_rows [OF q] t i by (auto simp: api_fresh_def in_purchases_def fresh_def on_db_def split: prod.splits)
    have e: "pe_id e = i" "pe_status e = ''pending''" by (simp_all add: e_def retry_execution_def web_execution_def)
    have "sound_at h w0 \<Longrightarrow> status_of (stored w3) (pe_id (failed\<lparr>pe_retry := Some i\<rparr>)) = Some (pe_status (failed\<lparr>pe_retry := Some i\<rparr>)) \<and>
        pe_id (failed\<lparr>pe_retry := Some i\<rparr>) \<noteq> []" using o rows_same [OF same] by simp
    from retry_store_step [OF looked_world [OF q d(2)] _ e(2) this x] drawn_hush [OF q d(1)] e r show ?thesis by auto
  qed
  then show "api_step h w0 w'" "r = Inr e' \<Longrightarrow> pends h w0 e' w'" by blast+
qed

text \<open>From the stored successor to the answer.\<close>

lemma retried_step:
  assumes "api_step h w0 w"
    and o: "sound_at h w0 \<Longrightarrow> status_of (stored w) (pe_id failed) = Some (pe_status failed) \<and> pe_id failed \<noteq> []"
  shows "reaches (api_step h) w0 (case persistRetryExecution h failed sn u v w of
      (Inl err, w) \<Rightarrow> (Inl err, w)
    | (Inr e, w) \<Rightarrow> (case sendPurchaseApprovalEmail h req e (pe_recs failed) u v w of ((sent, reason, recipient), w) \<Rightarrow>
        (case finalizePurchaseStatus h e sent reason w of (status, w) \<Rightarrow> (Inr (k e sent recipient reason status), w))))"
proof -
  obtain r w3 where r: "persistRetryExecution h failed sn u v w = (r, w3)" by fastforce
  note pr = persist_retry [OF assms(1) r o]
  show ?thesis
  proof (cases r)
    case (Inl err)
    with r pr(1) show ?thesis by (simp add: reaches_def)
  next
    case (Inr e)
    obtain sent reason rcpt w4 where m: "sendPurchaseApprovalEmail h req e (pe_recs failed) u v w3 = ((sent, reason, rcpt), w4)"
      by (metis surj_pair)
    have q: "hush w3 w4" by (rule hushed.result [OF sendPurchaseApprovalEmail_looks [OF hush_refl] m])
    obtain st w5 where f: "finalizePurchaseStatus h e sent reason w4 = (st, w5)" by fastforce
    from submission_tail_step [OF looked_world [OF q pr(1)] pends_hush [OF q pr(2) [OF _ Inr]], of sent reason] r Inr m f
    show ?thesis by (simp add: reaches_def)
  qed
qed

lemma retryPurchase_step [steps]:
  assumes "api_step h w0 w"
  shows "reaches (api_step h) w0 (retryPurchase h req i w)"
proof -
  obtain l w1 where l: "loadAndValidateRetryRequest h req i w = (l, w1)" by fastforce
  have q: "hush w w1" by (rule hushed.result [OF loadAndValidateRetryRequest_looks [OF hush_refl] l])
  note s1 = looked_world [OF q assms]
  show ?thesis
  proof (cases "isl l \<or> isl (validateAndTotalRecommendations (pe_recs (fst (projr l))))")
    case True
    with l s1 show ?thesis by (cases l) (auto simp: retryPurchase_def reaches_def split: sum.splits)
  next
    case False
    then obtain failed sn u v where es: "l = Inr (failed, sn)" "validateAndTotalRecommendations (pe_recs failed) = Inr (u, v)"
      by (metis fst_conv sum.collapse surj_pair sum.sel(2))
    obtain c w2 where c: "enforcePurchaseConstraints h sn (pe_recs failed) w1 = (c, w2)" by fastforce
    have q2: "hush w1 w2" by (rule hushed.result [OF enforcePurchaseConstraints_looks [OF hush_refl] c])
    have "status_of (stored w2) (pe_id failed) = Some (pe_status failed) \<and> pe_id failed \<noteq> []" if "sound_at h w0"
      using retry_request [OF l [unfolded es] sound_later [OF assms that]] rows_same [OF hush_rows [OF q2]] by simp
    from retried_step [OF looked_world [OF q2 s1] this] looked_world [OF q2 s1] l es c show ?thesis
      by (cases c) (simp_all add: retryPurchase_def reaches_def)
  qed
qed

end
