(* ===== verification/Api_Authority_Facts.thy ===== *)
theory Api_Authority_Facts
  imports Api_Step_Facts Purchase_Auth_Props
begin

text \<open>
  Any sequence of requests, and what an answer of the gates says about the tables: the session
  of a request, the permissions of its user, the contact behind an address.
\<close>

section \<open>Any sequence of requests\<close>

datatype endpoint =
  Approve string string
| Cancel string string
| RevokeByMail string string
| Submit
| Retry string
| Pause string
| Resume string
| RunNow string
| Delete string
| Revoke string
| CalculateRefund string
| Details string
| Planned

fun serve :: "('p, 'c, 'd) handler \<Rightarrow> endpoint \<Rightarrow> http_request \<Rightarrow> ('c, 'd) api_world \<Rightarrow> ('c, 'd) api_world" where
  "serve h (Approve i t) req w = snd (approvePurchase h req i t w)"
| "serve h (Cancel i t) req w = snd (cancelPurchase h req i t w)"
| "serve h (RevokeByMail i t) req w = snd (revokeViaEmailToken h req i t w)"
| "serve h Submit req w = snd (api_executePurchase h req w)"
| "serve h (Retry i) req w = snd (retryPurchase h req i w)"
| "serve h (Pause i) req w = snd (pausePlannedPurchase h req i w)"
| "serve h (Resume i) req w = snd (resumePlannedPurchase h req i w)"
| "serve h (RunNow i) req w = snd (runPlannedPurchase h req i w)"
| "serve h (Delete i) req w = snd (deletePlannedPurchase h req i w)"
| "serve h (Revoke p) req w = snd (revokePurchase h req p w)"
| "serve h (CalculateRefund p) req w = snd (calculateAzureRevoke h req p w)"
| "serve h (Details i) req w = snd (getPurchaseDetails h req i w)"
| "serve h Planned req w = snd (getPlannedPurchases h req w)"

text \<open>What reaches the system: a request behind the security checks, a task of the manager, an
  operation of the authentication service.\<close>

datatype api_op = Request endpoint http_request | Task purchase_op | Account auth_op

fun run_api_op :: "('p, 'c, 'd) handler \<Rightarrow> api_op \<Rightarrow> ('c, 'd) api_world \<Rightarrow> ('c, 'd) api_world" where
  "run_api_op h (Request ep req) w =
    (case validateSecurityContext h req w of (Inl _, w) \<Rightarrow> w | (Inr req, w) \<Rightarrow> serve h ep req w)"
| "run_api_op h (Task op) w = w\<lparr>hw_purchases := run_op (hd_purchases h) op (hw_purchases w)\<rparr>"
| "run_api_op h (Account op) w =
    (case hd_auth h of None \<Rightarrow> w | Some s \<Rightarrow> w\<lparr>hw_auth := run_auth_op s op (hw_auth w)\<rparr>)"

definition run_api_ops :: "('p, 'c, 'd) handler \<Rightarrow> api_op list \<Rightarrow> ('c, 'd) api_world \<Rightarrow> ('c, 'd) api_world" where
  "run_api_ops h ops w = fold (run_api_op h) ops w"

lemma serve_step: "api_step h w0 w \<Longrightarrow> api_step h w0 (serve h ep req w)"
  by (cases ep) (simp_all only: serve.simps, (rule api.worlds, rule steps, assumption)+)

lemma run_api_op_step: "api_step h w (run_api_op h op w)"
proof (cases op)
  case (Request ep req)
  obtain v w1 where v: "validateSecurityContext h req w = (v, w1)" by fastforce
  have "api_step h w w1"
    by (rule looked_world [OF hushed.result [OF validateSecurityContext_looks [OF hush_refl] v]]) simp
  with v Request serve_step show ?thesis by (cases v) simp_all
next
  case (Task p)
  with run_op_step [of "hd_purchases h" "hw_purchases w" p] show ?thesis by (simp add: api_step_def managed_step)
next
  case (Account a)
  then show ?thesis
    using run_auth_op_goes [OF goes_refl] by (cases "hd_auth h") (simp_all add: api_step_def evolves_refl)
qed

lemma run_api_ops_step: "api_step h w (run_api_ops h ops w)"
  by (induction ops arbitrary: w) (auto simp: run_api_ops_def intro: api_step_trans run_api_op_step)

section \<open>What the gates say about the tables\<close>

text \<open>The session of a bearer token, among the stored ones; a request behind the middleware carries its own.\<close>

definition bearer_session :: "('p, 'c, 'd) handler \<Rightarrow> http_request \<Rightarrow> ('c, 'd) api_world \<Rightarrow> api_session \<Rightarrow> bool" where
  "bearer_session h req w sn = (\<exists>s. hd_auth h = Some s \<and> (\<exists>se \<in> set (ad_sessions (aw_db (hw_auth w))).
     se_token se = sv_sha s (extractBearerToken req) \<and> sn = api_session_of se))"

definition request_session :: "('p, 'c, 'd) handler \<Rightarrow> http_request \<Rightarrow> ('c, 'd) api_world \<Rightarrow> api_session \<Rightarrow> bool" where
  "request_session h req w sn =
    (case rq_principal req of Some p \<Rightarrow> pl_session p = Some sn | None \<Rightarrow> bearer_session h req w sn)"

lemma bearer_earlier: "hush w w' \<Longrightarrow> bearer_session h req w' sn \<Longrightarrow> bearer_session h req w sn"
  by (auto simp: hush_def same_members_def bearer_session_def)

lemma bearer_unique:
  assumes "bearer_session h req w a" "bearer_session h req w b" "wf_tables (aw_db (hw_auth w))"
  shows "a = b"
proof -
  obtain s x y where "hd_auth h = Some s" "x \<in> set (ad_sessions (aw_db (hw_auth w)))" "y \<in> set (ad_sessions (aw_db (hw_auth w)))"
    "se_token x = se_token y" "a = api_session_of x" "b = api_session_of y"
    using assms(1,2) by (auto simp: bearer_session_def)
  moreover have "inj_on se_token (set (ad_sessions (aw_db (hw_auth w))))" using assms(3) by (simp add: wf_tables_def distinct_map)
  ultimately show ?thesis by (auto dest: inj_onD)
qed

lemma ValidateSession_row:
  assumes "ValidateSession s t w = (Inr se, w')"
  shows "\<exists>x \<in> set (ad_sessions (aw_db w)). se_token x = sv_sha s t \<and> se = x\<lparr>se_token := t\<rparr>"
proof -
  obtain g w1 where g: "in_db (GetSession (sv_env s) (sv_sha s t)) w = (g, w1)" by fastforce
  obtain x where x: "g = Inr x" "se_token x = sv_sha s t" "se = x\<lparr>se_token := t\<rparr>"
    using assms g by (auto simp: ValidateSession_def split: sum.splits if_splits prod.splits)
  have "x \<in> set (ad_sessions (aw_db w))"
    using in_db_facts [OF g] x(1)
    by (auto simp: GetSession_def aquery_def astmt_def session_row_def find_Some_iff Let_def
        split: option.splits sum.splits prod.splits if_splits)
  with x(2,3) show ?thesis by blast
qed

lemma tryGetSession_row: "tryGetSession h req w = (Some sn, w') \<Longrightarrow> bearer_session h req w sn"
  by (auto simp: tryGetSession_def validate_session_def in_auth_def bearer_session_def api_session_of_def Let_def
      split: option.splits if_splits prod.splits sum.splits dest!: ValidateSession_row)

lemma requireSession_row: "requireSession h req w = (Inr sn, w') \<Longrightarrow> request_session h req w sn"
  by (auto simp: requireSession_def validate_session_def in_auth_def request_session_def bearer_session_def api_session_of_def Let_def
      split: option.splits if_splits prod.splits sum.splits dest!: ValidateSession_row)

text \<open>What a user's groups allow on purchases.\<close>

definition holds :: "('c, 'd) api_world \<Rightarrow> string \<Rightarrow> string \<Rightarrow> bool" where
  "holds w u verb = (\<exists>p \<in> set (user_permissions (aw_db (hw_auth w)) u). grants p verb ResourcePurchases None)"

lemma permissions_later: "hush w w' \<Longrightarrow> user_permissions (aw_db (hw_auth w')) u = user_permissions (aw_db (hw_auth w)) u"
proof -
  assume "hush w w'"
  then have s: "ad_users (aw_db (hw_auth w')) = ad_users (aw_db (hw_auth w))" "ad_groups (aw_db (hw_auth w')) = ad_groups (aw_db (hw_auth w))"
    by (simp_all add: hush_def same_members_def)
  have "group_permissions (aw_db (hw_auth w')) = group_permissions (aw_db (hw_auth w))"
    by (simp add: group_permissions_def group_row_def s fun_eq_iff)
  then show ?thesis by (simp add: user_permissions_def user_row_def s split: option.split)
qed

lemma holds_earlier: "hush w w' \<Longrightarrow> holds w' u v \<Longrightarrow> holds w u v"
  by (simp add: holds_def permissions_later)

lemma permission_holds:
  assumes "HasPermissionAPI s u v ResourcePurchases w = (Inr True, w')"
  shows "holds w u v"
proof -
  obtain ps db' where "GetUserPermissions (sv_env s) u (aw_db (hw_auth w)) = (Inr ps, db')" "permissionsAllow ps v ResourcePurchases None"
    using assms by (auto simp: HasPermissionAPI_def in_auth_def in_db_def HasPermission_def split: prod.splits sum.splits)
  with GetUserPermissions_sound show ?thesis unfolding holds_def permissionsAllow_iff by blast
qed

text \<open>Who may do something to an execution: the administrator's key, the holder of the verb for any, or
  of the verb for one's own.\<close>

definition may_act :: "('c, 'd) api_world \<Rightarrow> api_session \<Rightarrow> string \<Rightarrow> string \<Rightarrow> execution \<Rightarrow> bool" where
  "may_act w sn any own e = (sn_user sn = AdminAPIKeyActorID \<or> holds w (sn_user sn) any \<or> holds w (sn_user sn) own \<and> made_by sn e)"

lemma may_act_earlier: "hush w w' \<Longrightarrow> may_act w' sn a b e \<Longrightarrow> may_act w sn a b e"
  by (auto simp: may_act_def dest: holds_earlier)

lemma any_or_own_acts:
  assumes "any_or_own s sn any own d f (made_by sn e) w = (None, w')"
  shows "may_act w sn any own e"
proof -
  obtain a w1 where a: "HasPermissionAPI s (sn_user sn) any ResourcePurchases w = (a, w1)" by fastforce
  obtain b w2 where b: "HasPermissionAPI s (sn_user sn) own ResourcePurchases w1 = (b, w2)" by fastforce
  have q: "hush w w1" by (rule hushed.result [OF HasPermissionAPI_looks [OF hush_refl] a])
  consider "a = Inr True" | "b = Inr True" "made_by sn e"
    using assms a b by (auto simp: any_or_own_def split: sum.splits bool.splits if_splits)
  then show ?thesis
    using permission_holds a permission_holds b holds_earlier [OF q] unfolding may_act_def by cases blast+
qed

lemma authorize_acts:
  "authorizeSessionApprove h sn e w = (None, w') \<Longrightarrow> may_act w sn ActionApproveAny ActionApproveOwn e"
  "authorizeSessionCancel h sn e w = (None, w') \<Longrightarrow> may_act w sn ActionCancelAny ActionCancelOwn e"
  "authorizeSessionRetry h sn e w = (None, w') \<Longrightarrow> may_act w sn ActionRetryAny ActionRetryOwn e"
  by (auto simp: authorizeSessionApprove_def authorizeSessionCancel_def authorizeSessionRetry_def authorize_session_def may_act_def
      split: if_splits option.splits dest: any_or_own_acts [unfolded may_act_def])

text \<open>The settings, and the rule of two persons they may ask for.\<close>

definition config_of :: "pdb \<Rightarrow> purchase_config" where
  "config_of db = (case pd_config db of None \<Rightarrow> default_config | Some c \<Rightarrow> c)"

lemma config_read: "GetGlobalConfig env db = (Inr cfg, db') \<Longrightarrow> cfg = config_of db"
  by (auto simp: GetGlobalConfig_def config_of_def dest!: ask_answer split: prod.splits sum.splits option.splits)

lemma config_in_store: "in_store (GetGlobalConfig env) w = (Inr cfg, w') \<Longrightarrow> cfg = config_of (stored w)"
  by (auto simp: in_store_def in_purchases_def on_db_def split: prod.splits dest: config_read)

lemma same_config: "tables a = tables b \<Longrightarrow> config_of a = config_of b"
  unfolding config_of_def by (metis tables_def pdb.ext_inject pdb.surjective pdb.update_convs(11,12))

definition dual_control :: "pdb \<Rightarrow> api_session \<Rightarrow> execution \<Rightarrow> bool" where
  "dual_control db sn e = (pc_different_approver (config_of db) \<longrightarrow> (\<exists>c. pe_creator e = Some c \<and> c \<noteq> sn_user sn))"

lemma different_approver:
  assumes "requireDifferentApprover h sn e w = (None, w')"
  shows "pc_different_approver (config_of (stored w)) \<Longrightarrow> sn \<noteq> None" "sn = Some x \<Longrightarrow> dual_control (stored w) x e"
proof -
  obtain c w1 where c: "in_store (GetGlobalConfig (hd_env h)) w = (c, w1)" by fastforce
  then obtain cfg where cfg: "c = Inr cfg" using assms by (cases c) (auto simp: requireDifferentApprover_def)
  note k = config_in_store [OF c [unfolded cfg]]
  show "pc_different_approver (config_of (stored w)) \<Longrightarrow> sn \<noteq> None" "sn = Some x \<Longrightarrow> dual_control (stored w) x e"
    using assms c cfg k by (auto simp: requireDifferentApprover_def dual_control_def split: if_splits option.splits)
qed

text \<open>The contact of an account of the purchase.\<close>

definition contact_of :: "pdb \<Rightarrow> execution \<Rightarrow> api_session \<Rightarrow> bool" where
  "contact_of db e sn = (sn_email sn \<noteq> [] \<and> (\<exists>addr. is_contact db (pe_recs e) addr \<and> normal_address addr = normal_address (sn_email sn)))"

section \<open>The contacts that may approve by mail\<close>

lemma unique_accounts_named: "i \<in> set (unique_accounts seen recs) \<Longrightarrow> \<exists>r \<in> set recs. rr_account r = Some i"
  by (induction seen recs rule: unique_accounts.induct) (auto split: option.splits if_splits)

lemma looked_up_contact:
  assumes "lookupContactEmail h i w = (Inr addr, w')" "addr \<noteq> []"
  shows "\<exists>a. pd_accounts (stored w) i = Some a \<and> addr = trim_space (ca_contact a)"
  using assms
  by (auto simp: lookupContactEmail_def in_store_def in_purchases_def on_db_def GetCloudAccount_def dest!: ask_answer
      split: prod.splits sum.splits option.splits) metis

lemma contact_emails_named:
  "contact_emails h seen is w = (Inr out, w') \<Longrightarrow> addr \<in> set out \<Longrightarrow>
   addr \<noteq> [] \<and> (\<exists>i \<in> set is. \<exists>a. pd_accounts (stored w) i = Some a \<and> addr = trim_space (ca_contact a))"
proof (induction "is" arbitrary: seen w out)
  case (Cons i xs)
  obtain l w1 where l: "lookupContactEmail h i w = (l, w1)" by fastforce
  have q: "hush w w1" by (rule hushed.result [OF lookupContactEmail_looks [OF hush_refl] l])
  then have acc: "pd_accounts (stored w1) = pd_accounts (stored w)" unfolding hush_def by (metis tables_plans)
  obtain a where a: "l = Inr a" using Cons.prems(1) l by (cases l) auto
  consider (skip) "\<exists>seen. contact_emails h seen xs w1 = (Inr out, w')"
    | (new) out1 where "a \<noteq> []" "out = a # out1" "\<exists>seen. contact_emails h seen xs w1 = (Inr out1, w')"
    using Cons.prems(1) l a by (auto split: if_splits prod.splits sum.splits)
  then show ?case
  proof cases
    case skip
    with Cons.IH Cons.prems(2) acc show ?thesis by fastforce
  next
    case new
    show ?thesis
    proof (cases "addr \<in> set out1")
      case True
      with Cons.IH new(3) acc show ?thesis by fastforce
    next
      case False
      then have "addr = a" using Cons.prems(2) new(2) by simp
      with looked_up_contact [OF l [unfolded a] new(1)] new(1) show ?thesis by auto
    qed
  qed
qed simp

lemma gathered_contact:
  assumes "gatherAccountContactEmails h recs w = (Inr out, w')" "addr \<in> set out"
  shows "is_contact (stored w) recs addr"
  using contact_emails_named [of h "{}" "uniqueAccountIDsFromRecs recs" w out w' addr] unique_accounts_named [of _ "{}" recs] assms
  unfolding gatherAccountContactEmails_def uniqueAccountIDsFromRecs_def is_contact_def by fastforce

lemma resolved_approver:
  assumes "resolveApprovalRecipients h recs g w = (Inr r, w')" "addr \<in> set (rp_approvers r)"
  shows "is_contact (stored w) recs addr"
proof -
  obtain c w1 where c: "gatherAccountContactEmails h recs w = (c, w1)" by fastforce
  then obtain out where out: "c = Inr out" "rp_approvers r = out"
    using assms(1) by (cases c) (auto simp: resolveApprovalRecipients_def approval_recipients_def split: list.splits)
  from gathered_contact [OF c [unfolded out(1)]] assms(2) out(2) show ?thesis by simp
qed

lemma is_contact_tables: "tables a = tables b \<Longrightarrow> is_contact a = is_contact b"
  unfolding is_contact_def fun_eq_iff by (metis tables_plans)

text \<open>The address that approved belongs to the bearer's session and to a contact.\<close>

lemma approver_contact:
  assumes "authorizeApprovalAction h req e w = (Inr actor, w')"
  shows "\<exists>sn. bearer_session h req w sn \<and> sn_email sn = actor \<and> contact_of (stored w) e sn"
proof -
  obtain t w1 where t: "tryGetSession h req w = (t, w1)" by fastforce
  have q: "hush w w1" by (rule hushed.result [OF tryGetSession_looks [OF hush_refl] t])
  obtain c w2 where c: "in_store (GetGlobalConfig (hd_env h)) w1 = (c, w2)" by fastforce
  have q2: "hush w1 w2" by (rule hushed.result [OF _ c]) (rule store_looks, simp)
  obtain r w3 where r: "resolveApprovalRecipients h (pe_recs e) (configured_notify c) w2 = (r, w3)" by fastforce
  obtain sn rp where sn: "t = Some sn" "sn_email sn = actor" "actor \<noteq> []" "r = Inr rp"
    "list_ex (\<lambda>a. normal_address a = normal_address actor) (rp_approvers rp)"
    using assms t c r
    by (cases t) (auto simp: authorizeApprovalAction_def tryResolveActorEmail_def split: if_splits sum.splits)
  then obtain addr where addr: "addr \<in> set (rp_approvers rp)" "normal_address addr = normal_address actor"
    by (auto simp: list_ex_iff)
  have "is_contact (stored w2) (pe_recs e) addr" by (rule resolved_approver [OF r [unfolded sn(4)] addr(1)])
  moreover have "is_contact (stored w2) = is_contact (stored w)"
    by (rule is_contact_tables) (use hush_trans [OF q q2] in \<open>simp add: hush_def\<close>)
  ultimately have "contact_of (stored w) e sn" unfolding contact_of_def using addr(2) sn(2,3) by auto
  with tryGetSession_row [OF t [unfolded sn(1)]] sn(2) show ?thesis by blast
qed

section \<open>Approving and canceling\<close>

lemma dual_control_tables: "tables a = tables b \<Longrightarrow> dual_control a = dual_control b"
  using same_config [of a b] by (auto simp: dual_control_def fun_eq_iff)

lemma contact_tables: "tables a = tables b \<Longrightarrow> contact_of a = contact_of b"
  using is_contact_tables [of a b] by (auto simp: contact_of_def fun_eq_iff)

lemma hush_tables: "hush w w' \<Longrightarrow> tables (stored w') = tables (stored w)"
  by (simp add: hush_def)

lemma session_earlier: "hush w w' \<Longrightarrow> request_session h req w' sn \<Longrightarrow> request_session h req w sn"
  by (auto simp: request_session_def split: option.splits intro: bearer_earlier)

text \<open>A session's approval that did more than look.\<close>

lemma session_approval:
  assumes "approvePurchaseViaSession h req e w = (r, w')" "\<not> hush w w'"
  obtains sn where "request_session h req w sn" "fst (validateCSRF h req w) = None" "pe_status e \<in> {''pending'', ''notified''}"
    "may_act w sn ActionApproveAny ActionApproveOwn e" "dual_control (stored w) sn e"
proof -
  obtain c w1 where c: "validateCSRF h req w = (c, w1)" by fastforce
  obtain s w2 where s: "requireSession h req w1 = (s, w2)" by fastforce
  have q1: "hush w w1" by (rule hushed.result [OF validateCSRF_looks [OF hush_refl] c])
  have q2: "hush w w2" by (rule hush_trans [OF q1 hushed.result [OF requireSession_looks [OF hush_refl] s]])
  obtain sn where sn: "c = None" "s = Inr sn" "pe_status e \<in> {''pending'', ''notified''}"
    using assms c s q1 q2 by (auto simp: approvePurchaseViaSession_def split: option.splits sum.splits if_splits)
  obtain a w3 where a: "authorizeSessionApprove h sn e w2 = (a, w3)" by fastforce
  have q3: "hush w w3" by (rule hush_trans [OF q2 hushed.result [OF authorizeSessionApprove_looks [OF hush_refl] a]])
  obtain d w4 where d: "requireDifferentApprover h (Some sn) e w3 = (d, w4)" by fastforce
  have q4: "hush w w4" by (rule hush_trans [OF q3 hushed.result [OF requireDifferentApprover_looks [OF hush_refl] d]])
  have n: "a = None \<and> d = None"
    using assms c s sn a d q3 q4 by (auto simp: approvePurchaseViaSession_def split: option.splits sum.splits if_splits)
  show thesis
  proof (rule that)
    show "request_session h req w sn" by (rule session_earlier [OF q1 requireSession_row [OF s [unfolded sn(2)]]])
    show "fst (validateCSRF h req w) = None" using c sn(1) by simp
    show "pe_status e \<in> {''pending'', ''notified''}" by (fact sn(3))
    show "may_act w sn ActionApproveAny ActionApproveOwn e"
      by (rule may_act_earlier [OF q2 authorize_acts(1)]) (use a n in simp)
    show "dual_control (stored w) sn e"
      using different_approver(2) [OF d [unfolded conjunct2 [OF n]] refl] dual_control_tables [OF hush_tables [OF q3]] by simp
  qed
qed

text \<open>The token of the execution, not expired.\<close>

definition presents :: "('p, 'c, 'd) handler \<Rightarrow> ('c, 'd) api_world \<Rightarrow> string \<Rightarrow> string \<Rightarrow> bool" where
  "presents h w i token = (\<exists>x. row_of (stored w) i = Some x \<and> pe_token (xr_exec x) \<noteq> [] \<and> token \<noteq> [] \<and>
     mg_hash (hd_purchases h) (pe_token (xr_exec x)) = mg_hash (hd_purchases h) token \<and>
     (\<exists>n. \<not> token_expired (pv_now (hd_env h) n) (xr_exec x)))"

lemma presents_tables: "tables (stored a) = tables (stored b) \<Longrightarrow> presents h a = presents h b"
  using rows_same [OF tables_rows, of "stored a" "stored b"] by (auto simp: presents_def fun_eq_iff)

lemma load_tables: "load_execution m i w = (r, w') \<Longrightarrow> tables (pw_db w') = tables (pw_db w) \<and>
    pd_generated (pw_db w') = pd_generated (pw_db w) \<and> pw_driven w' = pw_driven w"
  by (auto simp: load_execution_def split: prod.splits sum.splits dest!: on_db_facts dest: readsD [OF reads_GetExecutionByID])

lemma loaded_hush:
  assumes "in_purchases f w = (r, w')" "load_execution m i (hw_purchases w) = (l, p)" "snd (f (hw_purchases w)) = p"
  shows "hush w w'"
  using assms load_tables [OF assms(2)] by (auto simp: in_purchases_def hush_def same_members_def split: prod.splits)

lemma checked_token:
  assumes "load_execution (hd_purchases h) i (hw_purchases w) = (Inr e, p)"
    and "validateApprovalToken (hd_purchases h) (now_in (hd_purchases h) p) e token = None" "sound_at h w"
  shows "presents h w i token"
proof -
  have "distinct (map row_id (pd_rows (stored w)))" using assms(3) by (simp add: sound_at_def db_ok_def)
  from token_checked [OF assms(1,2) this] show ?thesis unfolding presents_def now_in_def clock_def by blast
qed

text \<open>The manager acts on a link only for that token.\<close>

lemma managed_link:
  assumes "in_purchases (ApproveExecution (hd_purchases h) i token actor) w = (r, w') \<or>
      in_purchases (CancelExecution (hd_purchases h) i token actor) w = (r, w')"
    and "\<not> hush w w'" "sound_at h w"
  shows "presents h w i token"
proof -
  let ?m = "hd_purchases h"
  obtain l p where l: "load_execution ?m i (hw_purchases w) = (l, p)" by fastforce
  have n: "\<exists>e. l = Inr e \<and> validateApprovalToken ?m (now_in ?m p) e token = None"
  proof (rule ccontr)
    assume "\<not> ?thesis"
    then have "snd (ApproveExecution ?m i token actor (hw_purchases w)) = p" "snd (CancelExecution ?m i token actor (hw_purchases w)) = p"
      using l by (auto simp: ApproveExecution_def CancelExecution_def loadCancelableExecution_def split: sum.splits option.splits)
    with assms(1) have "hush w w'" by (elim disjE) (erule loaded_hush [OF _ l], assumption)+
    with assms(2) show False by blast
  qed
  then show ?thesis using checked_token [OF _ _ assms(3)] l by blast
qed

text \<open>An approval by a token that did more than look; with a delay configured the token is not checked.\<close>

lemma sound_hush: "hush w w' \<Longrightarrow> sound_at h w \<Longrightarrow> sound_at h w'"
  using sound_later [OF hush_step] .

lemma token_approval:
  assumes "approveViaToken h req e token w = (r, w')" "\<not> hush w w'" "wf_tables (aw_db (hw_auth w))" "sound_at h w"
  obtains sn where "bearer_session h req w sn" "contact_of (stored w) e sn" "dual_control (stored w) sn e"
    "0 < GetPurchaseDelay (config_of (stored w)) \<or> presents h w (pe_id e) token"
proof -
  obtain a w1 where a: "authorizeApprovalAction h req e w = (a, w1)" by fastforce
  have q1: "hush w w1" by (rule hushed.result [OF authorizeApprovalAction_looks [OF hush_refl] a])
  obtain s w2 where s: "tryGetSession h req w1 = (s, w2)" by fastforce
  have q2: "hush w w2" by (rule hush_trans [OF q1 hushed.result [OF tryGetSession_looks [OF hush_refl] s]])
  obtain d w3 where d: "requireDifferentApprover h s e w2 = (d, w3)" by fastforce
  have q3: "hush w w3" by (rule hush_trans [OF q2 hushed.result [OF requireDifferentApprover_looks [OF hush_refl] d]])
  obtain g w4 where g: "in_store (GetGlobalConfig (hd_env h)) w3 = (g, w4)" by fastforce
  have q4: "hush w w4" by (rule hush_trans [OF q3 hushed.result [OF _ g]]) (rule store_looks, simp)
  obtain actor cfg where ok: "a = Inr actor" "d = None" "g = Inr cfg"
    using assms(1,2) a s d g q1 q3 q4 by (cases a; cases d; cases g) (auto simp: approveViaToken_def)
  from approver_contact [OF a [unfolded ok]] obtain sn where sn: "bearer_session h req w sn" "contact_of (stored w) e sn" by blast
  note same = dual_control_tables [OF hush_tables [OF q2]] same_config [OF hush_tables [OF q2]] same_config [OF hush_tables [OF q3]]
  have "dual_control (stored w) sn e"
  proof (cases s)
    case None
    with different_approver(1) [OF d [unfolded ok]] same(2) show ?thesis by (auto simp: dual_control_def)
  next
    case (Some sn2)
    have "sn2 = sn"
      by (rule bearer_unique [OF bearer_earlier [OF q1 tryGetSession_row [OF s [unfolded Some]]] sn(1) assms(3)])
    with different_approver(2) [OF d [unfolded ok] Some] same(1) show ?thesis by simp
  qed
  moreover have "presents h w (pe_id e) token" if "\<not> 0 < GetPurchaseDelay (config_of (stored w))"
  proof -
    obtain x w5 where x: "in_purchases (ApproveExecution (hd_purchases h) (pe_id e) token actor) w4 = (x, w5)" by fastforce
    have c: "cfg = config_of (stored w)" using config_in_store [OF g [unfolded ok(3)]] same(3) by simp
    have "\<not> hush w4 w5"
    proof
      assume "hush w4 w5"
      note q5 = hush_trans [OF q4 this]
      obtain y w6 where y: "in_store (GetExecutionByID (hd_env h) (pe_id e)) w5 = (y, w6)" by fastforce
      have q6: "hush w w6" by (rule hush_trans [OF q5 hushed.result [OF _ y]]) (rule store_looks, simp)
      have "hush w w'"
        using assms(1) a s d g ok x y c that q5 sendPurchaseExecutedEmail_hush [OF q6]
        by (auto simp: approveViaToken_def split: option.splits)
      with assms(2) show False by blast
    qed
    from managed_link [OF disjI1 [OF x] this sound_hush [OF q4 assms(4)]] presents_tables [OF hush_tables [OF q4], of h]
    show ?thesis by simp
  qed
  ultimately show thesis using sn that by blast
qed

lemma dispatch_cases:
  assumes "dispatch_action auth f g t sn w = (r, w')" "\<not> hush w w'" "\<And>sn w. reaches hush w (auth sn w)"
  obtains (session) v where "hush w v" "f v = (r, w')" "\<not> hush v w'"
  | (token) v where "hush w v" "g v = (r, w')" "\<not> hush v w'" "t \<noteq> []"
proof -
  have later: "hush v w' \<Longrightarrow> False" if "hush w v" for v using assms(2) hush_trans [OF that] by blast
  have "\<exists>v. hush w v \<and> (f v = (r, w') \<or> g v = (r, w') \<and> t \<noteq> [])"
  proof (cases sn)
    case None
    with assms(1) show ?thesis by (auto simp: dispatch_action_def Let_def split: if_splits intro!: exI [of _ w])
  next
    case (Some x)
    obtain a v where a: "auth x w = (a, v)" by fastforce
    have "hush w v" by (rule hushed.result [OF assms(3) a])
    with assms(1,2) Some a show ?thesis by (auto simp: dispatch_action_def Let_def split: option.splits if_splits intro!: exI [of _ v])
  qed
  then show thesis using session token later by blast
qed

text \<open>Every approval that changes something has somebody behind it.\<close>

lemma approval_authority:
  assumes "approvePurchase h req i token w = (r, w')" "\<not> hush w w'" "sound_at h w" "wf_tables (aw_db (hw_auth w))"
  shows "\<exists>x sn. row_of (stored w) i = Some x \<and> dual_control (stored w) sn (row_execution x) \<and>
    (request_session h req w sn \<and> (\<exists>v. hush w v \<and> fst (validateCSRF h req v) = None) \<and> row_status x \<in> {''pending'', ''notified''} \<and>
       may_act w sn ActionApproveAny ActionApproveOwn (row_execution x) \<or>
     bearer_session h req w sn \<and> token \<noteq> [] \<and> contact_of (stored w) (row_execution x) sn \<and>
       (0 < GetPurchaseDelay (config_of (stored w)) \<or> presents h w i token))"
proof -
  obtain l w1 where l: "loadApproveExecution h i w = (l, w1)" by fastforce
  have q1: "hush w w1" by (rule hushed.result [OF loadApproveExecution_looks [OF hush_refl] l])
  obtain e where e: "l = Inr e" using assms(1,2) l q1 by (cases l) (auto simp: approvePurchase_def split: option.splits)
  then have "fst (fetch_execution missing_execution h i w) = Inr e"
    using l by (auto simp: loadApproveExecution_def split: prod.splits sum.splits option.splits)
  then obtain d where "fetch_execution missing_execution h i w = (Inr e, d)" by (metis prod.collapse)
  from fetched_row [OF this assms(3)] obtain x where x: "row_of (stored w) i = Some x" "e = row_execution x"
    "pe_id e = i" "status_of (stored w) i = Some (pe_status e)" by blast
  obtain s w2 where s: "tryGetSession h req w1 = (s, w2)" by fastforce
  have q2: "hush w w2" by (rule hush_trans [OF q1 hushed.result [OF tryGetSession_looks [OF hush_refl] s]])
  have "dispatch_action (\<lambda>sn. authorizeSessionApprove h sn e) (approvePurchaseViaSession h req e) (approveViaToken h req e token) token s w2 = (r, w')"
    using assms(1,2) l e s by (auto simp: approvePurchase_def split: option.splits)
  moreover have "\<not> hush w2 w'" using assms(2) hush_trans [OF q2] by blast
  moreover have "reaches hush w (authorizeSessionApprove h sn e w)" for sn w by (rule authorizeSessionApprove_looks) simp
  ultimately show ?thesis
  proof (cases rule: dispatch_cases)
    case (session v)
    have qv: "hush w v" by (rule hush_trans [OF q2 session(1)])
    from session_approval [OF session(2,3)] obtain sn where "request_session h req v sn" "fst (validateCSRF h req v) = None"
      "pe_status e \<in> {''pending'', ''notified''}" "may_act v sn ActionApproveAny ActionApproveOwn e" "dual_control (stored v) sn e" by metis
    with session_earlier [OF qv] may_act_earlier [OF qv] dual_control_tables [OF hush_tables [OF qv]] qv x show ?thesis
      by (intro exI [of _ x] exI [of _ sn]) (auto simp: status_of_def)
  next
    case (token v)
    have qv: "hush w v" by (rule hush_trans [OF q2 token(1)])
    have wf: "wf_tables (aw_db (hw_auth v))" using qv wf.run assms(4) unfolding hush_def goes_def by blast
    from token_approval [OF token(2,3) wf sound_hush [OF qv assms(3)]] obtain sn where "bearer_session h req v sn"
      "contact_of (stored v) e sn" "dual_control (stored v) sn e"
      "0 < GetPurchaseDelay (config_of (stored v)) \<or> presents h v (pe_id e) token" by metis
    with bearer_earlier [OF qv, of h req sn] contact_tables [OF hush_tables [OF qv]] dual_control_tables [OF hush_tables [OF qv]]
      same_config [OF hush_tables [OF qv]] presents_tables [OF hush_tables [OF qv], of h] x token(4) show ?thesis
      by (intro exI [of _ x] exI [of _ sn]) simp
  qed
qed

text \<open>And so has every cancellation.\<close>

lemma session_cancellation:
  assumes "cancelPurchaseViaSession h req e w = (r, w')" "\<not> hush w w'"
  obtains sn where "request_session h req w sn" "fst (validateCSRF h req w) = None" "IsCancelable e" "pe_status e \<noteq> ''scheduled''"
    "may_act w sn ActionCancelAny ActionCancelOwn e"
proof -
  obtain c w1 where c: "validateCSRF h req w = (c, w1)" by fastforce
  obtain s w2 where s: "requireSession h req w1 = (s, w2)" by fastforce
  have q1: "hush w w1" by (rule hushed.result [OF validateCSRF_looks [OF hush_refl] c])
  have q2: "hush w w2" by (rule hush_trans [OF q1 hushed.result [OF requireSession_looks [OF hush_refl] s]])
  obtain sn where sn: "c = None" "s = Inr sn" "guardCancelableViaSession e = None"
    using assms c s q1 q2 by (auto simp: cancelPurchaseViaSession_def split: option.splits sum.splits if_splits)
  obtain a w3 where a: "authorizeSessionCancel h sn e w2 = (a, w3)" by fastforce
  have q3: "hush w w3" by (rule hush_trans [OF q2 hushed.result [OF authorizeSessionCancel_looks [OF hush_refl] a]])
  have n: "a = None" using assms c s sn a q3 by (auto simp: cancelPurchaseViaSession_def split: option.splits)
  show thesis
  proof (rule that)
    show "request_session h req w sn" by (rule session_earlier [OF q1 requireSession_row [OF s [unfolded sn(2)]]])
    show "fst (validateCSRF h req w) = None" using c sn(1) by simp
    show "IsCancelable e" "pe_status e \<noteq> ''scheduled''" using sn(3) by (auto simp: guardCancelableViaSession_def split: if_splits)
    show "may_act w sn ActionCancelAny ActionCancelOwn e"
      by (rule may_act_earlier [OF q2 authorize_acts(2)]) (use a n in simp)
  qed
qed

lemma token_cancellation:
  assumes "cancelViaToken h req e i t w = (r, w')" "\<not> hush w w'" "sound_at h w"
  obtains sn where "bearer_session h req w sn" "contact_of (stored w) e sn" "presents h w i t"
proof -
  obtain a w1 where a: "authorizeApprovalAction h req e w = (a, w1)" by fastforce
  have q1: "hush w w1" by (rule hushed.result [OF authorizeApprovalAction_looks [OF hush_refl] a])
  obtain actor where ok: "a = Inr actor" using assms(1,2) a q1 by (cases a) (auto simp: cancelViaToken_def)
  from approver_contact [OF a [unfolded ok]] obtain sn where sn: "bearer_session h req w sn" "contact_of (stored w) e sn" by blast
  obtain x where x: "in_purchases (CancelExecution (hd_purchases h) i t actor) w1 = (x, w')"
    using assms(1) a ok by (auto simp: cancelViaToken_def split: prod.splits option.splits)
  have "\<not> hush w1 w'" using assms(2) hush_trans [OF q1] by blast
  from managed_link [OF disjI2 [OF x] this sound_hush [OF q1 assms(3)]] presents_tables [OF hush_tables [OF q1], of h] sn
  show thesis by (intro that) simp_all
qed

lemma cancellation_authority:
  assumes "cancelPurchase h req i token w = (r, w')" "\<not> hush w w'" "sound_at h w"
  shows "\<exists>x sn. row_of (stored w) i = Some x \<and>
    (request_session h req w sn \<and> (\<exists>v. hush w v \<and> fst (validateCSRF h req v) = None) \<and>
       IsCancelable (row_execution x) \<and> row_status x \<noteq> ''scheduled'' \<and> may_act w sn ActionCancelAny ActionCancelOwn (row_execution x) \<or>
     bearer_session h req w sn \<and> contact_of (stored w) (row_execution x) sn \<and> presents h w i token)"
proof -
  obtain l w1 where l: "fetch_execution missing_execution h i w = (l, w1)" by fastforce
  have q1: "hush w w1" by (rule hushed.result [OF fetch_execution_looks [OF hush_refl] l])
  obtain e where e: "l = Inr e" using assms(1,2) l q1 by (cases l) (auto simp: cancelPurchase_def split: option.splits)
  from fetched_row [OF l [unfolded e] assms(3)] obtain x where x: "row_of (stored w) i = Some x" "e = row_execution x"
    "status_of (stored w) i = Some (pe_status e)" by blast
  obtain s w2 where s: "tryGetSession h req w1 = (s, w2)" by fastforce
  have q2: "hush w w2" by (rule hush_trans [OF q1 hushed.result [OF tryGetSession_looks [OF hush_refl] s]])
  have "dispatch_action (\<lambda>sn. authorizeSessionCancel h sn e) (cancelPurchaseViaSession h req e) (cancelViaToken h req e i token) token s w2 = (r, w')"
    using assms(1,2) l e s by (auto simp: cancelPurchase_def split: option.splits)
  moreover have "\<not> hush w2 w'" using assms(2) hush_trans [OF q2] by blast
  moreover have "reaches hush w (authorizeSessionCancel h sn e w)" for sn w by (rule authorizeSessionCancel_looks) simp
  ultimately show ?thesis
  proof (cases rule: dispatch_cases)
    case (session v)
    have qv: "hush w v" by (rule hush_trans [OF q2 session(1)])
    from session_cancellation [OF session(2,3)] obtain sn where "request_session h req v sn" "fst (validateCSRF h req v) = None"
      "IsCancelable e" "pe_status e \<noteq> ''scheduled''" "may_act v sn ActionCancelAny ActionCancelOwn e" by metis
    with session_earlier [OF qv] may_act_earlier [OF qv] qv x show ?thesis
      by (intro exI [of _ x] exI [of _ sn]) (auto simp: status_of_def)
  next
    case (token v)
    have qv: "hush w v" by (rule hush_trans [OF q2 token(1)])
    from token_cancellation [OF token(2,3) sound_hush [OF qv assms(3)]] obtain sn where "bearer_session h req v sn"
      "contact_of (stored v) e sn" "presents h v i token" by metis
    with bearer_earlier [OF qv, of h req sn] contact_tables [OF hush_tables [OF qv]]
      presents_tables [OF hush_tables [OF qv], of h] x show ?thesis
      by (intro exI [of _ x] exI [of _ sn]) simp
  qed
qed

end
