(* ===== verification/Api_Sample.thy ===== *)
theory Api_Sample
  imports Api_Authority_Facts Auth_Sample
begin

text \<open>
  A concrete handler over the sample manager and the sample authentication service, two requests
  and a world with one execution: the inputs the properties of the API are applied to.
\<close>

definition demo_id :: string where
  "demo_id = ''00000000-0000-0000-0000-00000000000a''"

text \<open>A request with a session's token, and its anti-forgery token where one is given.\<close>

definition demo_request :: "string \<Rightarrow> string \<Rightarrow> http_request" where
  "demo_request token csrf = \<lparr>rq_method = ''POST'', rq_path = ''/api/purchases/approve/'',
     rq_headers = [(''Authorization'', ''Bearer '' @ token), (''X-CSRF-Token'', csrf)], rq_query = [], rq_domain = [], rq_ip = ''ip'', rq_body = ''b'',
     rq_principal = None\<rparr>"

definition demo_azure :: "string list azure_returns" where
  "demo_azure = \<lparr>az_credential = None, az_calc_client = None, az_return_client = None,
     az_calculate = (\<lambda>_ _ _ c. (Inr \<lparr>qt_session = ''q'', qt_amount = None, qt_currency = ''EUR''\<rparr>, c)),
     az_return = (\<lambda>od r _ _ c. (None, (''return '' @ r) # c)), az_response = (\<lambda>_. None)\<rparr>"

definition demo_handler :: "(unit, string list, (string \<times> string) list) handler" where
  "demo_handler = \<lparr>hd_purchases = demo_manager, hd_auth = Some demo_service, hd_key = ''adm'', hd_mail = None,
     hd_dashboard = [], hd_decode = (\<lambda>_. Some \<lparr>xq_recs = [demo_rec\<lparr>rr_upfront := Fin 100\<rparr>], xq_capacity = 100, xq_mode = []\<rparr>),
     hd_decode_refund = (\<lambda>_. Inr None), hd_azure = demo_azure\<rparr>"

definition demo_session :: "string \<Rightarrow> session" where
  "demo_session u = \<lparr>se_token = ''$'' @ u, se_user = u, se_email = u @ ''@x'', se_expires = 10 ^ 6, se_created = 0, se_csrf = []\<rparr>"

text \<open>An administrator, a member, who is a contact, and a buyer; sessions of the last two.\<close>

definition web_tables :: adb where
  "web_tables = demo_tables\<lparr>ad_users := ad_users demo_tables @ [demo_user ''carol'' ''carol@x'' [''buyers''] True],
     ad_groups := ad_groups demo_tables @ [demo_group ''buyers'' (perm ActionUpdateAny ResourcePurchases # DefaultPurchaserPermissions) False],
     ad_sessions := [demo_session ''bob'', demo_session ''carol'']\<rparr>"

definition web_settings :: "bool \<Rightarrow> int \<Rightarrow> purchase_config" where
  "web_settings different hours = \<lparr>pc_notify = None, pc_offering_class = ''convertible'', pc_different_approver = different,
     pc_delay_hours = hours, pc_grace = []\<rparr>"

definition web_execution_row :: "string \<Rightarrow> purchase_row" where
  "web_execution_row st = \<lparr>xr_exec = demo_execution\<lparr>pe_id := demo_id, pe_status := st\<rparr>, xr_canceled_by = None, xr_updated = 0\<rparr>"

definition web_world :: "string \<Rightarrow> int \<Rightarrow> (string list, (string \<times> string) list) api_world" where
  "web_world st hours = \<lparr>hw_purchases = demo_world\<lparr>pw_db := demo_db\<lparr>pd_rows := [web_execution_row st],
       pd_config := Some (web_settings True hours)\<rparr>\<rparr>,
     hw_auth = demo_aworld\<lparr>aw_db := web_tables\<rparr>\<rparr>"

lemma web_tables_ok: "wf_tables web_tables \<and> has_admin web_tables"
  by (simp add: wf_tables_def has_admin_def web_tables_def demo_tables_def demo_user_def demo_group_def fresh_user_def active_admin_def
      containsGroup_def DefaultAdminGroupID_def demo_session_def)

lemma web_ok:
  assumes "st \<in> set execution_statuses"
  shows "env_ok (hd_env demo_handler)" "db_ok (hd_env demo_handler) (stored (web_world st n))"
    "wf_tables (aw_db (hw_auth (web_world st n)))" "has_admin (aw_db (hw_auth (web_world st n)))"
proof -
  show "env_ok (hd_env demo_handler)" using demo_ok(1) by (simp add: demo_handler_def)
  have "demo_id \<noteq> replicate (Suc m) CHR ''u''" for m by (simp add: demo_id_def)
  moreover have "list_all json_ok (pe_recs demo_execution)" by code_simp
  ultimately show "db_ok (hd_env demo_handler) (stored (web_world st n))"
    using assms by (simp add: db_ok_def ids_def fits_def web_world_def web_execution_row_def demo_world_def demo_db_def demo_handler_def
        demo_manager_def demo_env_def demo_execution_def demo_id_def)
  show "wf_tables (aw_db (hw_auth (web_world st n)))" "has_admin (aw_db (hw_auth (web_world st n)))"
    using web_tables_ok by (simp_all add: web_world_def)
qed

end
