(* ===== verification/Api_Workflow_Props.thy ===== *)
theory Api_Workflow_Props
  imports Api_Sample
begin

text \<open>
  Properties of the purchase endpoints: the lifecycle under any sequence of requests, tasks and
  account operations, and who may approve or cancel.
\<close>

section \<open>Any sequence of requests\<close>

text \<open>C15: whatever sequence of requests, tasks of the purchase manager and account operations runs,
  and whichever statements fail, both services keep the constraints of their tables and an active
  administrator remains; no execution disappears, each moves along the lifecycle of the API, what
  is failed, canceled or revoked stays so, and a completed purchase is at most revoked.\<close>

theorem requests_follow_lifecycle:
  assumes "env_ok (hd_env h)" and "db_ok (hd_env h) (stored w)"
    and "wf_tables (aw_db (hw_auth w))" and "has_admin (aw_db (hw_auth w))" and "w' = run_api_ops h ops w"
  shows "db_ok (hd_env h) (stored w') \<and> wf_tables (aw_db (hw_auth w')) \<and> has_admin (aw_db (hw_auth w')) \<and>
    (case status_of (stored w) i of
       Some s \<Rightarrow> \<exists>t. status_of (stored w') i = Some t \<and> api_lifecycle\<^sup>*\<^sup>* s t \<and> (closed_status s \<longrightarrow> t = s) \<and>
         (s \<in> {''completed'', ''partially_completed''} \<longrightarrow> t \<in> {s, ''revocation_requested''})
     | None \<Rightarrow> (case status_of (stored w') i of None \<Rightarrow> True | Some t \<Rightarrow> \<exists>s. first_status s \<and> api_lifecycle\<^sup>*\<^sup>* s t))"
proof -
  have st: "api_step h w w'" unfolding assms(5) by (rule run_api_ops_step)
  then have l: "db_ok (hd_env h) (stored w')" "leads_by api_lifecycle (stored w) (stored w')"
    using assms(1,2) by (simp_all add: api_step_def evolves_by_def)
  have "wf_tables (aw_db (hw_auth w')) \<and> has_admin (aw_db (hw_auth w'))"
    using st assms(3,4) admin.run by (auto simp: api_step_def goes_def)
  moreover have "case status_of (stored w) i of
       Some s \<Rightarrow> \<exists>t. status_of (stored w') i = Some t \<and> api_lifecycle\<^sup>*\<^sup>* s t \<and> (closed_status s \<longrightarrow> t = s) \<and>
         (s \<in> {''completed'', ''partially_completed''} \<longrightarrow> t \<in> {s, ''revocation_requested''})
     | None \<Rightarrow> (case status_of (stored w') i of None \<Rightarrow> True | Some t \<Rightarrow> \<exists>s. first_status s \<and> api_lifecycle\<^sup>*\<^sup>* s t)"
  proof (cases "status_of (stored w) i")
    case None
    with leads_None [OF l(2)] show ?thesis by (auto split: option.split)
  next
    case (Some s)
    from leads_Some [OF l(2) Some] obtain t where t: "status_of (stored w') i = Some t" "api_lifecycle\<^sup>*\<^sup>* s t" by blast
    with Some api_closed [OF t(2)] api_completed [OF t(2)] show ?thesis by auto
  qed
  ultimately show ?thesis using l(1) by blast
qed

theorem requests_follow_lifecycle_witness:
  "\<exists>t. status_of (stored (run_api_ops demo_handler [Request (Approve demo_id ''t'') (demo_request ''bob'' []), Task ScheduledPass,
       Request (Pause demo_id) (demo_request ''carol'' ''ccarol''), Account (OLogout ''carol'')] (web_world ''completed'' 0))) demo_id = Some t \<and>
     t \<in> {''completed'', ''revocation_requested''}"
proof -
  have st: "''completed'' \<in> set execution_statuses" by (simp add: execution_statuses_def)
  have "status_of (stored (web_world ''completed'' 0)) demo_id = Some ''completed''" by code_simp
  with requests_follow_lifecycle [OF web_ok [OF st] refl, of "[Request (Approve demo_id ''t'') (demo_request ''bob'' []), Task ScheduledPass,
       Request (Pause demo_id) (demo_request ''carol'' ''ccarol''), Account (OLogout ''carol'')]" 0 demo_id]
  show ?thesis by auto
qed

section \<open>Who may approve and cancel\<close>

text \<open>C16: an approval through the API that does more than look has somebody behind it: the user of
  the request's session, with a passed anti-forgery check, who holds approve-any on purchases, or
  approve-own and made the request; or, with a token, the bearer of a stored session whose address is
  the contact of an account of the purchase, and then the token is the stored one, unless a delay is
  configured. With four-eyes approval on that person is not the recorded creator.\<close>

theorem approvals_are_authorized:
  assumes "approvePurchase h req i token w = (r, w')" and "\<not> hush w w'"
    and "sound_at h w" and "wf_tables (aw_db (hw_auth w))"
  shows "\<exists>x sn. row_of (stored w) i = Some x \<and> dual_control (stored w) sn (row_execution x) \<and>
    (request_session h req w sn \<and> (\<exists>v. hush w v \<and> fst (validateCSRF h req v) = None) \<and> row_status x \<in> {''pending'', ''notified''} \<and>
       may_act w sn ActionApproveAny ActionApproveOwn (row_execution x) \<or>
     bearer_session h req w sn \<and> token \<noteq> [] \<and> contact_of (stored w) (row_execution x) sn \<and>
       (0 < GetPurchaseDelay (config_of (stored w)) \<or> presents h w i token))"
  by (rule approval_authority [OF assms])

theorem approvals_are_authorized_witness:
  "\<exists>x sn. row_of (stored (web_world ''pending'' 0)) demo_id = Some x \<and> dual_control (stored (web_world ''pending'' 0)) sn (row_execution x)"
proof -
  let ?w = "web_world ''pending'' 0" and ?req = "demo_request ''bob'' []"
  have st: "''pending'' \<in> set execution_statuses" by (simp add: execution_statuses_def)
  obtain r w' where a: "approvePurchase demo_handler ?req demo_id ''t'' ?w = (r, w')" by fastforce
  have "pw_driven (hw_purchases (snd (approvePurchase demo_handler ?req demo_id ''t'' ?w))) = [demo_id]" by code_simp
  with a have "\<not> hush ?w w'" by (simp add: hush_def web_world_def demo_world_def)
  moreover have "sound_at demo_handler ?w" using web_ok(1,2) [OF st] by (simp add: sound_at_def)
  ultimately show ?thesis using approvals_are_authorized [OF a _ _ web_ok(3) [OF st]] by blast
qed

text \<open>C17: a cancellation through the API that does more than look comes from the user of the
  request's session, with a passed anti-forgery check, who holds cancel-any, or cancel-own and made
  the purchase, while it waits for approval; or from the bearer of a stored session whose address is
  the contact of an account of the purchase and who presents the stored token, not expired.\<close>

theorem cancellations_are_authorized:
  assumes "cancelPurchase h req i token w = (r, w')" and "\<not> hush w w'" and "sound_at h w"
  shows "\<exists>x sn. row_of (stored w) i = Some x \<and>
    (request_session h req w sn \<and> (\<exists>v. hush w v \<and> fst (validateCSRF h req v) = None) \<and>
       IsCancelable (row_execution x) \<and> row_status x \<noteq> ''scheduled'' \<and> may_act w sn ActionCancelAny ActionCancelOwn (row_execution x) \<or>
     bearer_session h req w sn \<and> contact_of (stored w) (row_execution x) sn \<and> presents h w i token)"
  by (rule cancellation_authority [OF assms])

theorem cancellations_are_authorized_witness:
  "\<exists>x. row_of (stored (web_world ''pending'' 0)) demo_id = Some x"
proof -
  let ?w = "web_world ''pending'' 0" and ?req = "demo_request ''bob'' []"
  have st: "''pending'' \<in> set execution_statuses" by (simp add: execution_statuses_def)
  obtain r w' where a: "cancelPurchase demo_handler ?req demo_id ''t'' ?w = (r, w')" by fastforce
  have "map row_status (pd_rows (stored (snd (cancelPurchase demo_handler ?req demo_id ''t'' ?w)))) = [''canceled'']" by code_simp
  with a have "\<not> hush ?w w'" using hush_rows by (fastforce simp: web_world_def web_execution_row_def)
  moreover have "sound_at demo_handler ?w" using web_ok(1,2) [OF st] by (simp add: sound_at_def)
  ultimately show ?thesis using cancellations_are_authorized [OF a] by blast
qed

section \<open>The delay\<close>

lemma delayed_token:
  assumes "0 < GetPurchaseDelay (config_of (stored w))"
  shows "approveViaToken h req e t1 w = approveViaToken h req e t2 w"
proof -
  obtain a w1 where a: "authorizeApprovalAction h req e w = (a, w1)" by fastforce
  have q1: "hush w w1" by (rule hushed.result [OF authorizeApprovalAction_looks [OF hush_refl] a])
  obtain s w2 where s: "tryGetSession h req w1 = (s, w2)" by fastforce
  have q2: "hush w w2" by (rule hush_trans [OF q1 hushed.result [OF tryGetSession_looks [OF hush_refl] s]])
  obtain d w3 where d: "requireDifferentApprover h s e w2 = (d, w3)" by fastforce
  have q3: "hush w w3" by (rule hush_trans [OF q2 hushed.result [OF requireDifferentApprover_looks [OF hush_refl] d]])
  obtain g w4 where g: "in_store (GetGlobalConfig (hd_env h)) w3 = (g, w4)" by fastforce
  have "0 < GetPurchaseDelay cfg" if "g = Inr cfg" for cfg
    using config_in_store [OF g [unfolded that]] same_config [OF hush_tables [OF q3]] assms by simp
  with a s d g show ?thesis by (simp add: approveViaToken_def split: sum.split option.split)
qed

lemma dispatch_tokens:
  assumes "\<And>v. hush w v \<Longrightarrow> g1 v = g2 v" "\<And>sn w. reaches hush w (auth sn w)" "t1 \<noteq> []" "t2 \<noteq> []"
  shows "dispatch_action auth f g1 t1 sn w = dispatch_action auth f g2 t2 sn w"
proof (cases sn)
  case None
  with assms(1) [of w] assms(3,4) show ?thesis by (simp add: dispatch_action_def)
next
  case (Some x)
  obtain a v where a: "auth x w = (a, v)" by fastforce
  from assms(1) [OF hushed.result [OF assms(2) a]] a Some assms(3,4) show ?thesis
    by (simp add: dispatch_action_def split: option.split)
qed

text \<open>with a purchase delay configured the approve link is honored whatever token it carries:
  any two non-empty tokens have the same outcome, so a contact who is signed in schedules the purchase
  with a token that was never issued, or one that has expired.\<close>

theorem delay_ignores_token:
  assumes "0 < GetPurchaseDelay (config_of (stored w))" and "t1 \<noteq> []" and "t2 \<noteq> []"
  shows "approvePurchase h req i t1 w = approvePurchase h req i t2 w"
proof -
  obtain l w1 where l: "loadApproveExecution h i w = (l, w1)" by fastforce
  have q1: "hush w w1" by (rule hushed.result [OF loadApproveExecution_looks [OF hush_refl] l])
  obtain s w2 where s: "tryGetSession h req w1 = (s, w2)" by fastforce
  have q2: "hush w w2" by (rule hush_trans [OF q1 hushed.result [OF tryGetSession_looks [OF hush_refl] s]])
  have "approveViaToken h req e t1 v = approveViaToken h req e t2 v" if "hush w2 v" for e v
    by (rule delayed_token) (use assms(1) same_config [OF hush_tables [OF hush_trans [OF q2 that]]] in simp)
  then have "dispatch_action (\<lambda>sn. authorizeSessionApprove h sn e) f (approveViaToken h req e t1) t1 s w2 =
      dispatch_action (\<lambda>sn. authorizeSessionApprove h sn e) f (approveViaToken h req e t2) t2 s w2" for e f
    by (intro dispatch_tokens authorizeSessionApprove_looks assms(2,3)) simp_all
  with l s show ?thesis by (simp add: approvePurchase_def split: option.split sum.split)
qed

theorem delay_ignores_token_witness:
  "map row_status (pd_rows (stored (snd (approvePurchase demo_handler (demo_request ''bob'' []) demo_id ''never issued'' (web_world ''pending'' 3)))))
     = [''scheduled'']"
proof -
  let ?w = "web_world ''pending'' 3"
  have d: "0 < GetPurchaseDelay (config_of (stored ?w))" by code_simp
  have "map row_status (pd_rows (stored (snd (approvePurchase demo_handler (demo_request ''bob'' []) demo_id ''t'' ?w)))) = [''scheduled'']"
    by code_simp
  moreover have "approvePurchase demo_handler (demo_request ''bob'' []) demo_id ''never issued'' ?w =
      approvePurchase demo_handler (demo_request ''bob'' []) demo_id ''t'' ?w"
    by (rule delay_ignores_token [OF d]) simp_all
  ultimately show ?thesis by (simp only:)
qed

end
