(* ===== verification/Api_Purchase_Props.thy ===== *)
theory Api_Purchase_Props
  imports Api_Sample
begin

text \<open>
  Properties of submissions, retries and planned purchases.
\<close>

section \<open>What a request may contain\<close>

lemma checked_recommendation:
  assumes "validatePurchaseRecommendation r i = Inr (r', a)"
  shows "r' = r\<lparr>rr_provider := rr_provider r', rr_service := rr_service r', rr_payment := rr_payment r'\<rparr>"
    "rr_provider r' \<in> {''aws'', ''azure'', ''gcp''}" "rr_service r' \<noteq> []" "0 < rr_count r'" "rr_term r' \<in> {1, 3}"
    "rr_payment r' \<in> set (payment_options (rr_provider r'))"
    "\<forall>m. rr_monthly r' = Some m \<longrightarrow> \<not> flt m (Fin 0)"
  using assms
  by (auto simp: validatePurchaseRecommendation_def Let_def ValidPaymentOptionsByProvider_def payment_options_def purchaseTermWhitelist_def
      split: option.splits if_splits prod.splits bool.splits)

text \<open>A payment option the provider lacks is replaced, and a changed schedule is disclosed.\<close>

lemma disclosed_payment:
  assumes "validatePurchaseRecommendation r i = Inr (r', a)"
  shows "rr_payment r' \<noteq> to_lower (trim_space (rr_payment r)) \<Longrightarrow>
      PaymentCoercionChangesSchedule (to_lower (trim_space (rr_payment r))) (rr_payment r') \<Longrightarrow>
      \<exists>p. a = Some p \<and> pj_index p = i \<and> pj_requested p = to_lower (trim_space (rr_payment r)) \<and> pj_applied p = rr_payment r'"
  using assms
  by (auto simp: validatePurchaseRecommendation_def Let_def paymentAdjustmentFor_def split: option.splits if_splits prod.splits bool.splits)

lemma checked_recommendations:
  "validate_recommendations i rs = Inr (rs', as) \<Longrightarrow> list_all2 (\<lambda>r r'. \<exists>j a. validatePurchaseRecommendation r j = Inr (r', a)) rs rs'"
  by (induction rs arbitrary: i rs' as) (auto split: sum.splits prod.splits)

text \<open>The gate: a session that is not a key's holds the verb.\<close>

lemma gate_holds:
  assumes "requirePermission h req v ResourcePurchases w = (Inr sn, w')"
  shows "sn_user sn = AdminAPIKeyActorID \<or> sn_key sn \<noteq> [] \<or> holds w (sn_user sn) v"
proof -
  have sess: "holds u (sn_user sn) v"
    if "requireSessionPermission s t v ResourcePurchases u = (Inr sn, w')" for s t u
    using that permission_holds
    by (auto simp: requireSessionPermission_def split: option.splits if_splits prod.splits sum.splits)
  have key: "sn_key sn \<noteq> []"
    if "authorizeAPIKey s k v ResourcePurchases u = (Inr (Some sn), u')" for s k u u'
    using that by (auto simp: authorizeAPIKey_def split: if_splits prod.splits sum.splits)
  show ?thesis
  proof (cases "rq_principal req")
    case (Some p)
    with assms show ?thesis using sess key
      by (cases "pl_kind p") (fastforce simp: requirePermission_def requirePrincipalPermission_def admin_session_def
          split: option.splits if_splits sum.splits prod.splits)+
  next
    case None
    show ?thesis
    proof (cases "checkAdminAPIKey h (extractAPIKey req) \<or> hd_auth h = None")
      case True
      with assms None show ?thesis by (auto simp: requirePermission_def admin_session_def split: if_splits)
    next
      case False
      then obtain s where s: "hd_auth h = Some s" "\<not> checkAdminAPIKey h (extractAPIKey req)" by blast
      obtain a w1 where a: "authorizeAPIKey s (extractAPIKey req) v ResourcePurchases w = (a, w1)" by fastforce
      have q1: "hush w w1" by (rule hushed.result [OF authorizeAPIKey_looks [OF hush_refl] a])
      obtain b w2 where b: "validate_session s (extractBearerToken req) w1 = (b, w2)" by fastforce
      have q2: "hush w w2" by (rule hush_trans [OF q1 hushed.result [OF validate_session_looks [OF hush_refl] b]])
      consider "a = Inr (Some sn)" | "requireSessionPermission s (Some (projr b)) v ResourcePurchases w2 = (Inr sn, w')"
        using assms None s a b by (auto simp: requirePermission_def Let_def split: sum.splits option.splits if_splits)
      then show ?thesis
      proof cases
        case 1
        with key a show ?thesis by blast
      next
        case 2
        from holds_earlier [OF q2 sess [OF this]] show ?thesis by blast
      qed
    qed
  qed
qed

lemma consistent_count:
  assumes "capacity_error pct i r = None" "0 < rr_recommended r" "rr_recommended r * pct < 2 ^ 63" "1 \<le> pct"
  shows "rr_count r = rr_recommended r * pct div 100"
proof -
  have p: "0 < rr_recommended r * pct" using assms(2,4) by simp
  have "to_int64 (rr_recommended r * pct) = rr_recommended r * pct"
    unfolding to_int64_def using p assms(3) by (subst mod_pos_pos_trivial) auto
  moreover have "go_div (rr_recommended r * pct) 100 = rr_recommended r * pct div 100" using p by (simp add: go_div_def)
  ultimately show ?thesis using assms(1,2) by (auto simp: capacity_error_def Let_def split: if_splits)
qed

text \<open>What the provider, the service and the payment of an offer are does not change the rest of it.\<close>

definition same_offer :: "recommendation \<Rightarrow> recommendation \<Rightarrow> bool" where
  "same_offer r r' = (r' = r\<lparr>rr_provider := rr_provider r', rr_service := rr_service r', rr_payment := rr_payment r'\<rparr>)"



section \<open>Managing planned purchases\<close>

text \<open>One row moved, by somebody who may; nothing was driven.\<close>

definition managed_move :: "('p, 'c, 'd) handler \<Rightarrow> string \<Rightarrow> string \<Rightarrow> string list \<Rightarrow> string \<Rightarrow> ('c, 'd) api_world \<Rightarrow> ('c, 'd) api_world \<Rightarrow> bool" where
  "managed_move h i verb froms target w w' = (\<exists>x sn. row_of (stored w) i = Some x \<and> row_status x \<in> set froms \<and>
     (\<forall>j. status_of (stored w') j = (if j = i then Some target else status_of (stored w) j)) \<and>
     pw_driven (hw_purchases w') = pw_driven (hw_purchases w) \<and>
     (sn_user sn = AdminAPIKeyActorID \<or> (sn_key sn \<noteq> [] \<or> holds w (sn_user sn) verb) \<and>
        (holds w (sn_user sn) ActionUpdateAny \<or> sn_user sn \<noteq> [] \<and> made_by sn (row_execution x))))"

lemma authorized_management:
  assumes "authorizeExecutionManagement h sn i w = (None, w')" "sound_at h w"
  shows "sn_user sn = AdminAPIKeyActorID \<or> holds w (sn_user sn) ActionUpdateAny \<or>
    (\<exists>x. row_of (stored w) i = Some x \<and> sn_user sn \<noteq> [] \<and> made_by sn (row_execution x))"
proof (cases "sn_user sn = AdminAPIKeyActorID \<or> hd_auth h = None")
  case True
  with assms(1) show ?thesis by (auto simp: authorizeExecutionManagement_def split: if_splits)
next
  case False
  then obtain s where s: "hd_auth h = Some s" by blast
  obtain a w1 where a: "HasPermissionAPI s (sn_user sn) ActionUpdateAny ResourcePurchases w = (a, w1)" by fastforce
  have q: "hush w w1" by (rule hushed.result [OF HasPermissionAPI_looks [OF hush_refl] a])
  consider "a = Inr True" | e w2 where "fetch_execution errNotFound h i w1 = (Inr e, w2)" "sn_user sn \<noteq> []" "made_by sn e"
    using assms(1) False s a
    by (auto simp: authorizeExecutionManagement_def split: sum.splits bool.splits if_splits prod.splits)
  then show ?thesis
  proof cases
    case 1
    with permission_holds a show ?thesis by blast
  next
    case 2
    from fetched_row [OF 2(1) sound_hush [OF q assms(2)]] obtain x where "row_of (stored w1) i = Some x" "e = row_execution x" by blast
    with 2 rows_same [OF hush_rows [OF q]] show ?thesis by auto
  qed
qed

lemma transition_moves:
  assumes "in_store (TransitionExecutionStatus env i froms target) w = (Inr e, w')" "db_ok env (stored w)"
  obtains x where "row_of (stored w) i = Some x" "row_status x \<in> set froms"
    "\<And>j. status_of (stored w') j = (if j = i then Some target else status_of (stored w) j)"
    "pw_driven (hw_purchases w') = pw_driven (hw_purchases w)" "target \<in> set execution_statuses"
proof -
  have t: "TransitionExecutionStatus env i froms target (stored w) = (Inr e, stored w')"
    and d: "pw_driven (hw_purchases w') = pw_driven (hw_purchases w)"
    using assms(1) by (auto simp: in_store_def in_purchases_def on_db_def split: prod.splits)
  from t db_okD(1) [OF assms(2)] show thesis
  proof (cases rule: Transition_cases)
    case (moved x now)
    from status_of_moved(1) [OF set_status_facts(2) moved(4,2,3)] moved d show thesis by (intro that [of x])
  qed simp
qed

lemma managed:
  assumes "manage_execution h req i verb froms target m a w = (Inr r, w')" "sound_at h w"
  shows "managed_move h i verb froms target w w'"
proof -
  obtain p w1 where p: "requirePermission h req verb ResourcePurchases w = (p, w1)" by fastforce
  then obtain sn where sn: "p = Inr sn" using assms(1) by (cases p) (auto simp: manage_execution_def split: option.splits)
  obtain c w2 where c: "requireExecutionAccess h sn i w1 = (c, w2)" by fastforce
  obtain b w3 where b: "authorizeExecutionManagement h sn i w2 = (b, w3)" by fastforce
  obtain e where e: "c = None" "b = None" "in_store (TransitionExecutionStatus (hd_env h) i froms target) w3 = (Inr e, w')"
    using assms(1) p sn c b by (auto simp: manage_execution_def split: option.splits prod.splits sum.splits)
  have q1: "hush w w1" by (rule hushed.result [OF requirePermission_looks [OF hush_refl] p])
  have q2: "hush w w2" by (rule hush_trans [OF q1 hushed.result [OF requireExecutionAccess_looks [OF hush_refl] c]])
  have q3: "hush w w3" by (rule hush_trans [OF q2 hushed.result [OF authorizeExecutionManagement_looks [OF hush_refl] b]])
  have "db_ok (hd_env h) (stored w3)" using sound_hush [OF q3 assms(2)] by (simp add: sound_at_def)
  from transition_moves [OF e(3) this] obtain x where x: "row_of (stored w3) i = Some x" "row_status x \<in> set froms"
    "\<And>j. status_of (stored w') j = (if j = i then Some target else status_of (stored w3) j)"
    "pw_driven (hw_purchases w') = pw_driven (hw_purchases w3)" by blast
  have d: "pw_driven (hw_purchases w3) = pw_driven (hw_purchases w)" using q3 by (simp add: hush_def)
  note same = rows_same [OF hush_rows [OF q3]] rows_same [OF hush_rows [OF q2]]
  have "sn_user sn = AdminAPIKeyActorID \<or> holds w (sn_user sn) ActionUpdateAny \<or> sn_user sn \<noteq> [] \<and> made_by sn (row_execution x)"
    using authorized_management [OF b [unfolded e(2)] sound_hush [OF q2 assms(2)]] holds_earlier [OF q2] x(1) same by auto
  with gate_holds [OF p [unfolded sn]] x same d show ?thesis unfolding managed_move_def by (intro exI [of _ x] exI [of _ sn]) auto
qed



section \<open>Duplicate submissions\<close>

text \<open>The same request by the same user, whatever the order of its recommendations.\<close>

definition same_submission :: "string \<Rightarrow> recommendation list \<Rightarrow> int \<Rightarrow> execution \<Rightarrow> bool" where
  "same_submission creator recs capacity e = (pe_source e = PurchaseSourceWeb \<and> derefStringOrEmpty (pe_creator e) = creator \<and>
     pe_capacity e = capacity \<and> mset (map fingerprint_tuple (pe_recs e)) = mset (map fingerprint_tuple recs))"

lemma same_key:
  assumes "same_submission creator recs capacity e"
  shows "purchaseIdempotencyKey hash (derefStringOrEmpty (pe_creator e)) (pe_recs e) (pe_capacity e) = purchaseIdempotencyKey hash creator recs capacity"
proof -
  have "sort (map fingerprint_tuple (pe_recs e)) = sort (map fingerprint_tuple recs)"
    using assms by (intro properties_for_sort) (simp_all add: same_submission_def)
  with assms show ?thesis by (simp add: purchaseIdempotencyKey_def fingerprint_text_def same_submission_def)
qed

lemma waits:
  assumes "calm env" "is_duplicate hash creator key (pv_now env (Suc (pd_statements db))) (row_execution x)"
    and "x \<in> set (pd_rows db)" "row_status x \<in> {''pending'', ''notified''}" "unexpired (clock env db) x"
    and "length (filter (\<lambda>x. row_status x \<in> {''pending'', ''notified''}) (pd_rows db)) \<le> 1000"
  shows "\<exists>d. submit_tx env hash e xs creator key db = ((None, Some d, e), db\<lparr>pd_statements := Suc (pd_statements db)\<rparr>) \<and>
    d \<in> row_execution ` set (pd_rows db) \<and> is_duplicate hash creator key (pv_now env (Suc (pd_statements db))) d"
proof -
  define ps where "ps = map row_execution (take 1000 (sort_key (\<lambda>x. pe_scheduled (xr_exec x))
     (filter (\<lambda>x. row_status x \<in> {''pending'', ''notified''} \<and> unexpired (clock env db) x) (pd_rows db))))"
  have "length (filter (\<lambda>x. row_status x \<in> {''pending'', ''notified''} \<and> unexpired (clock env db) x) (pd_rows db)) \<le> 1000"
    using assms(6) length_filter_le [of "unexpired (clock env db)" "filter (\<lambda>x. row_status x \<in> {''pending'', ''notified''}) (pd_rows db)"]
    by (simp add: conj_commute)
  then have ps: "set ps = row_execution ` {x \<in> set (pd_rows db). row_status x \<in> {''pending'', ''notified''} \<and> unexpired (clock env db) x}"
    by (simp add: ps_def)
  have g: "GetPendingExecutionsTx env db = (Inr ps, db\<lparr>pd_statements := Suc (pd_statements db)\<rparr>)"
    using assms(1) by (simp add: GetPendingExecutionsTx_def ask_def run_stmt_def calm_def ps_def)
  obtain d where d: "matchDuplicateInList hash ps creator key (pv_now env (Suc (pd_statements db))) = Some d"
    using assms(2-5) ps unfolding matchDuplicateInList_def by (fastforce simp: find_None_iff)
  then have "is_duplicate hash creator key (pv_now env (Suc (pd_statements db))) d" "d \<in> set ps"
    by (auto simp: matchDuplicateInList_def find_Some_iff)
  with g d ps show ?thesis by (auto simp: submit_tx_def clock_def)
qed



section \<open>Retries\<close>

lemma stored_fields:
  assumes "stored_execution env e = Inr s"
  shows "s = e\<lparr>pe_upfront := pe_upfront s, pe_savings := pe_savings s, pe_capacity := pe_capacity s\<rparr>"
  using assms by (auto simp: stored_execution_def Let_def split: if_splits)

text \<open>Both rows of a retry.\<close>

lemma retry_rows:
  assumes "retry_tx env e original xs db = ((None, e'), db')" "row_of db (pe_id e) = None" "pe_id e \<noteq> []" "pe_key e \<noteq> []"
    and "row_of db (pe_id original) = Some x" "pe_id original \<noteq> []"
  obtains y z s where "e' = e" "row_of db' (pe_id e) = Some y" "xr_exec y = s" "xr_canceled_by y = None"
    "s = e\<lparr>pe_upfront := pe_upfront s, pe_savings := pe_savings s, pe_capacity := pe_capacity s\<rparr>"
    "row_of db' (pe_id original) = Some z" "pe_retry (xr_exec z) = pe_retry original" "row_status z = pe_status original"
proof -
  have ne: "pe_id original \<noteq> pe_id e" using assms(2,5) by auto
  obtain r e2 db2 where s: "SavePurchaseExecutionTx env e db = ((r, e2), db2)" by (metis surj_pair)
  obtain r3 o3 db3 where o: "SavePurchaseExecutionTx env original db2 = ((r3, o3), db3)" by (metis surj_pair)
  obtain q db4 where q: "create_suppressions env xs db3 = (q, db4)" by fastforce
  have ok: "r = None" "r3 = None" "e2 = e'" "db4 = db'" using assms(1) s o q by (auto simp: retry_tx_def split: option.splits)
  from SaveTx_stores [OF s [unfolded ok] assms(3)] assms(4) obtain se n1 where
    se: "e' = e" "stored_execution env e = Inr se" "tables db2 = tables (db\<lparr>pd_rows := saved_rows n1 se (pd_rows db)\<rparr>)" by metis
  from SaveTx_stores [OF o [unfolded ok] assms(6)] obtain so n2 where
    so: "o3 = original\<lparr>pe_key := pe_key o3\<rparr>" "stored_execution env o3 = Inr so"
      "tables db3 = tables (db2\<lparr>pd_rows := saved_rows n2 so (pd_rows db2)\<rparr>)" by metis
  have rows: "pd_rows db2 = saved_rows n1 se (pd_rows db)" "pd_rows db3 = saved_rows n2 so (pd_rows db2)"
    using tables_rows [OF se(3)] tables_rows [OF so(3)] by simp_all
  have id: "pe_id se = pe_id e" "pe_id so = pe_id original" using stored_id [OF se(2)] stored_id [OF so(2)] so(1) 
    by (simp_all, metis execution.ext_inject execution.surjective execution.update_convs(26))
  have last: "row_of db' = row_of db3" using rows_same [OF conjunct1 [OF suppressions_keep [OF q]]] ok(4) by simp
  have "pe_retry so = pe_retry original \<and> pe_status so = pe_status original"
    using stored_fields [OF so(2)] so(1) by (cases so; cases o3; cases original) simp
  then show thesis
    using row_of_saved [OF rows(1)] row_of_saved [OF rows(2)] last id ne se(1) stored_fields [OF se(2)] assms(2,5)
    by (intro that [of "\<lparr>xr_exec = se, xr_canceled_by = None, xr_updated = n1\<rparr>" se "updated_row n2 so x"]) (simp_all add: updated_row_def)
qed

text \<open>A successor of a failed execution: a new row, which continues its lineage.\<close>

definition succeeds :: "execution \<Rightarrow> string \<Rightarrow> purchase_row \<Rightarrow> bool" where
  "succeeds failed j y = (row_id y = j \<and> pe_key (xr_exec y) = idempotencyLineageKey failed \<and> pe_recs (xr_exec y) = pe_recs failed \<and>
     pe_account (xr_exec y) = pe_account failed \<and> pe_plan (xr_exec y) = pe_plan failed \<and>
     pe_attempt (xr_exec y) = pe_attempt failed + 1 \<and> row_status y \<in> {''pending'', ''failed''})"

lemma persisted_retry:
  assumes "persistRetryExecution h failed sn u v w = (Inr e, w')" "sound_at h w"
    and "row_of (stored w) (pe_id failed) = Some x" "pe_id failed \<noteq> []"
  obtains y z where "row_of (stored w) (pe_id e) = None" "pe_id e \<noteq> []" "row_of (stored w') (pe_id e) = Some y" "succeeds failed (pe_id e) y"
    "pe_recs e = pe_recs failed" "pe_account e = pe_account failed" "row_of (stored w') (pe_id failed) = Some z"
    "pe_retry (xr_exec z) = Some (pe_id e)" "row_status z = pe_status failed" "pw_driven (hw_purchases w') = pw_driven (hw_purchases w)"
proof -
  obtain t w1 where t: "api_fresh (mg_token (hd_purchases h)) w = (t, w1)" by fastforce
  then obtain tok where tok: "t = Inr tok" using assms(1) by (cases t) (auto simp: persistRetryExecution_def)
  obtain i w2 where i: "api_fresh (pv_uuid (hd_env h)) w1 = (i, w2)" by fastforce
  have "api_step h w w1" using fresh_step [of h w w "mg_token (hd_purchases h)"] t by (simp add: reaches_def)
  note d = draw_uuid [OF i this]
  define n where "n = retry_execution failed sn i (api_now h w2) tok (api_now h w2 + ApprovalTokenTTL) u v"
  have n: "pe_id n = i" "pe_key n = idempotencyLineageKey failed" "pe_recs n = pe_recs failed" "pe_account n = pe_account failed"
    "pe_plan n = pe_plan failed" "pe_attempt n = pe_attempt failed + 1" "pe_status n = ''pending''"
    by (simp_all add: n_def retry_execution_def web_execution_def)
  have key: "pe_key n \<noteq> []" using assms(4) n(2) by (simp add: idempotencyLineageKey_def)
  obtain cfg w3 where cfg: "in_store (GetGlobalConfig (hd_env h)) w2 = (cfg, w3)" by fastforce
  have q: "hush w2 w3" by (rule hushed.result [OF _ cfg]) (rule store_looks, simp)
  let ?body = "retry_tx (hd_env h) n (failed\<lparr>pe_retry := Some i\<rparr>) (buildSuppressions (pe_recs failed) i (configured cfg) (api_now h w3))"
  have run: "in_store (WithTx (hd_env h) n ?body) w3 = ((None, e), w')"
    using assms(1) t tok i cfg by (auto simp: persistRetryExecution_def Let_def n_def split: option.splits prod.splits)
  then have tx: "WithTx (hd_env h) n ?body (stored w3) = ((None, e), stored w')" and dr: "pw_driven (hw_purchases w') = pw_driven (hw_purchases w3)"
    by (auto simp: in_store_def in_purchases_def on_db_def split: prod.splits)
  have same: "pd_rows (stored w3) = pd_rows (stored w)" "pw_driven (hw_purchases w3) = pw_driven (hw_purchases w)"
    using hush_rows [OF q] q t i by (auto simp: hush_def api_fresh_def in_purchases_def fresh_def on_db_def split: prod.splits)
  have new: "row_of (stored w) i = None" "i \<noteq> []"
    using drawn_hush [OF q d(1)] assms(2) rows_same [OF same(1)] by (auto simp: drawn_def unused_def ids_dom)
  from tx obtain db1 db2 where b: "tables db1 = tables (stored w3)" "?body db1 = ((None, e), db2)" "tables (stored w') = tables db2"
    by (rule WithTx_cases) auto
  have r1: "row_of db1 = row_of (stored w)" using rows_same [OF tables_rows [OF b(1)]] rows_same [OF same(1)] by simp
  have r2: "row_of (stored w') = row_of db2" using rows_same [OF tables_rows [OF b(3)]] by simp
  let ?f = "failed\<lparr>pe_retry := Some i\<rparr>"
  have c: "row_of db1 (pe_id n) = None" "pe_id n \<noteq> []" "row_of db1 (pe_id ?f) = Some x" "pe_id ?f \<noteq> []"
    using r1 n(1) new assms(3,4) by simp_all
  from retry_rows [OF b(2) c(1,2) key c(3,4)] obtain y z s where f0: "e = n" "row_of db2 (pe_id n) = Some y" "xr_exec y = s"
    "s = n\<lparr>pe_upfront := pe_upfront s, pe_savings := pe_savings s, pe_capacity := pe_capacity s\<rparr>"
    "row_of db2 (pe_id ?f) = Some z" "pe_retry (xr_exec z) = pe_retry ?f" "row_status z = pe_status ?f" by blast
  note f = f0(1) f0(2) [unfolded n(1)] f0(3,4) f0(5-7) [simplified]
  have "succeeds failed i y" unfolding succeeds_def f(3) by (subst (1 2 3 4 5 6 7) f(4)) (simp add: n)
  with f r2 n new dr same show thesis by (intro that [of y z]) simp_all
qed

lemma finalized_rows:
  assumes "finalizePurchaseStatus h e sent reason w = (st, w')" "row_of (stored w) (pe_id e) = Some y" "succeeds failed (pe_id e) y"
    and "pe_id e \<noteq> []" "pe_recs e = pe_recs failed" "pe_account e = pe_account failed"
  shows "\<exists>y. row_of (stored w') (pe_id e) = Some y \<and> succeeds failed (pe_id e) y" "i \<noteq> pe_id e \<Longrightarrow> row_of (stored w') i = row_of (stored w) i"
    "pw_driven (hw_purchases w') = pw_driven (hw_purchases w)"
proof -
  let ?e = "e\<lparr>pe_status := ''failed'', pe_error := reason\<rparr>"
  obtain r e2 db where s: "SavePurchaseExecution (hd_env h) ?e (stored w) = ((r, e2), db)" by (metis surj_pair)
  have w': "w' = w \<or> stored w' = db \<and> pw_driven (hw_purchases w') = pw_driven (hw_purchases w)"
    using assms(1) s by (auto simp: finalizePurchaseStatus_def in_store_def in_purchases_def on_db_def split: if_splits option.splits)
  have id: "pe_id ?e \<noteq> []" using assms(4) by simp
  have "(\<exists>y. row_of db (pe_id e) = Some y \<and> succeeds failed (pe_id e) y) \<and> (\<forall>i. i \<noteq> pe_id e \<longrightarrow> row_of db i = row_of (stored w) i)"
    using s id
  proof (cases rule: Save_cases)
    case (failed err)
    with rows_same [OF tables_rows [OF failed(2)]] assms(2,3) show ?thesis by simp
  next
    case (stored s now)
    have e2: "e2 = ?e\<lparr>pe_key := pe_key e2\<rparr>" using Save_result(1) [OF s id] by blast
    have f: "pe_id s = pe_id e" "pe_recs s = pe_recs e" "pe_account s = pe_account e" "pe_status s = ''failed''"
      using stored_fields [OF stored(2)] e2 by (cases s; cases e2; cases e; simp)+
    have "pd_rows db = saved_rows now s (pd_rows (stored w))" using tables_rows [OF stored(3)] by simp
    from row_of_saved [OF this] f assms(2,3,5,6) show ?thesis by (simp add: succeeds_def updated_row_def)
  qed
  with w' assms(2,3) show "\<exists>y. row_of (stored w') (pe_id e) = Some y \<and> succeeds failed (pe_id e) y"
    "i \<noteq> pe_id e \<Longrightarrow> row_of (stored w') i = row_of (stored w) i" "pw_driven (hw_purchases w') = pw_driven (hw_purchases w)" by auto
qed

lemma retry_checked:
  assumes "loadAndValidateRetryRequest h req i w = (Inr (e, sn), w')" "sound_at h w"
  obtains x where "row_of (stored w) i = Some x" "e = row_execution x" "row_status x = ''failed''" "pe_retry e \<in> {None, Some []}"
    "request_session h req w sn" "may_act w sn ActionRetryAny ActionRetryOwn e" "RedriveRefusalReason e = []"
proof -
  obtain f w1 where f: "fetch_execution missing_execution h i w = (f, w1)" by fastforce
  obtain s w2 where s: "requireSession h req w1 = (s, w2)" by fastforce
  obtain a w3 where a: "authorizeSessionRetry h sn e w2 = (a, w3)" by fastforce
  have ok: "f = Inr e" "s = Inr sn" "a = None" "pe_status e = ''failed''" "orelse (already_retried e) (checkRetryEligibilityGates e req) = None"
    using assms(1) f s a by (auto simp: loadAndValidateRetryRequest_def split: option.splits sum.splits if_splits prod.splits)
  have q1: "hush w w1" by (rule hushed.result [OF fetch_execution_looks [OF hush_refl] f])
  have q2: "hush w w2" by (rule hush_trans [OF q1 hushed.result [OF requireSession_looks [OF hush_refl] s]])
  from fetched_row [OF f [unfolded ok(1)] assms(2)] obtain x where x: "row_of (stored w) i = Some x" "e = row_execution x" by blast
  show thesis
  proof (rule that [OF x])
    show "row_status x = ''failed''" using ok(4) x(2) by (simp add: row_execution_def)
    show "pe_retry e \<in> {None, Some []}" "RedriveRefusalReason e = []"
      using ok(5) by (auto simp: already_retried_def checkRetryEligibilityGates_def Let_def split: option.splits if_splits)
    show "request_session h req w sn" by (rule session_earlier [OF q1 requireSession_row [OF s [unfolded ok(2)]]])
    show "may_act w sn ActionRetryAny ActionRetryOwn e" by (rule may_act_earlier [OF q2 authorize_acts(3)]) (use a ok(3) in simp)
  qed
qed

lemma retry_runs:
  assumes "retryPurchase h req i w = (Inr r, w')"
  obtains failed sn u v e sent reason st w1 w2 w3 w4 where "loadAndValidateRetryRequest h req i w = (Inr (failed, sn), w1)" "hush w1 w2"
    "persistRetryExecution h failed sn u v w2 = (Inr e, w3)" "hush w3 w4" "finalizePurchaseStatus h e sent reason w4 = (st, w')"
proof -
  obtain l w1 where l: "loadAndValidateRetryRequest h req i w = (l, w1)" by fastforce
  then obtain failed sn where lf: "l = Inr (failed, sn)" using assms by (cases l) (auto simp: retryPurchase_def)
  obtain u v where t: "validateAndTotalRecommendations (pe_recs failed) = Inr (u, v)"
    using assms l lf by (cases "validateAndTotalRecommendations (pe_recs failed)") (auto simp: retryPurchase_def)
  obtain c w2 where c: "enforcePurchaseConstraints h sn (pe_recs failed) w1 = (c, w2)" by fastforce
  have q2: "hush w1 w2" by (rule hushed.result [OF enforcePurchaseConstraints_looks [OF hush_refl] c])
  have cn: "c = None" using assms l lf t c by (cases c) (auto simp: retryPurchase_def)
  obtain p w3 where p: "persistRetryExecution h failed sn u v w2 = (p, w3)" by fastforce
  then obtain e where e: "p = Inr e" using assms l lf t c cn by (cases p) (auto simp: retryPurchase_def)
  obtain sent reason rcpt w4 where m: "sendPurchaseApprovalEmail h req e (pe_recs failed) u v w3 = ((sent, reason, rcpt), w4)"
    by (metis surj_pair)
  have q4: "hush w3 w4" by (rule hushed.result [OF sendPurchaseApprovalEmail_looks [OF hush_refl] m])
  obtain st w5 where f: "finalizePurchaseStatus h e sent reason w4 = (st, w5)" by fastforce
  have "w5 = w'" using assms l lf t c cn p e m f by (simp add: retryPurchase_def)
  with l lf q2 p e q4 f show thesis by (intro that) simp_all
qed

text \<open>C18: a retry that is answered with success started from a stored failed purchase that was not retried
  before and may be bought again safely, for the user of the request's session, who holds retry-any, or
  retry-own and made it; it stored one successor under an identifier no row had, with the recommendations,
  the account and the plan of the failed one, one more attempt, and the key its purchases are known by to
  the provider, so that what was already bought is not bought again; the failed row names the successor and
  stays failed, and nothing was driven.\<close>

theorem retries_continue_the_lineage:
  assumes "retryPurchase h req i w = (Inr r, w')" and "sound_at h w"
  shows "\<exists>x sn j y z. row_of (stored w) i = Some x \<and> row_status x = ''failed'' \<and> pe_retry (row_execution x) \<in> {None, Some []} \<and>
    RedriveRefusalReason (row_execution x) = [] \<and>
    request_session h req w sn \<and> may_act w sn ActionRetryAny ActionRetryOwn (row_execution x) \<and>
    row_of (stored w) j = None \<and> row_of (stored w') j = Some y \<and> succeeds (row_execution x) j y \<and>
    (\<forall>hash n. DeriveIdempotencyToken hash (idempotencyLineageKey (row_execution y)) n =
       DeriveIdempotencyToken hash (idempotencyLineageKey (row_execution x)) n) \<and>
    row_of (stored w') i = Some z \<and> row_status z = ''failed'' \<and> pe_retry (row_execution z) = Some j \<and>
    pw_driven (hw_purchases w') = pw_driven (hw_purchases w)"
proof -
  from assms(1) obtain failed sn u v e sent reason st w1 w2 w3 w4 where
    l: "loadAndValidateRetryRequest h req i w = (Inr (failed, sn), w1)" and q2: "hush w1 w2"
    and p: "persistRetryExecution h failed sn u v w2 = (Inr e, w3)" and q4: "hush w3 w4"
    and f: "finalizePurchaseStatus h e sent reason w4 = (st, w')" by (rule retry_runs)
  have q: "hush w w2" by (rule hush_trans [OF hushed.result [OF loadAndValidateRetryRequest_looks [OF hush_refl] l] q2])
  from retry_checked [OF l assms(2)] obtain x where x: "row_of (stored w) i = Some x" "failed = row_execution x" "row_status x = ''failed''"
    "pe_retry failed \<in> {None, Some []}" "request_session h req w sn" "may_act w sn ActionRetryAny ActionRetryOwn failed"
    "RedriveRefusalReason failed = []" .
  note id = retry_request(3,4) [OF l assms(2)]
  have x2: "row_of (stored w2) (pe_id failed) = Some x" using x(1) id(1) rows_same [OF hush_rows [OF q]] by simp
  from persisted_retry [OF p sound_hush [OF q assms(2)] x2 id(2)] obtain y z where
    y: "row_of (stored w2) (pe_id e) = None" "pe_id e \<noteq> []" "row_of (stored w3) (pe_id e) = Some y" "succeeds failed (pe_id e) y"
      "pe_recs e = pe_recs failed" "pe_account e = pe_account failed" and
    z: "row_of (stored w3) (pe_id failed) = Some z" "pe_retry (xr_exec z) = Some (pe_id e)" "row_status z = pe_status failed" and
    dr: "pw_driven (hw_purchases w3) = pw_driven (hw_purchases w2)" by blast
  note same = rows_same [OF hush_rows [OF q4]] rows_same [OF hush_rows [OF q]]
  have y4: "row_of (stored w4) (pe_id e) = Some y" using y(3) same by simp
  note fin = finalized_rows [OF f y4 y(4,2,5,6)]
  from fin(1) obtain y' where y': "row_of (stored w') (pe_id e) = Some y'" "succeeds failed (pe_id e) y'" by blast
  have ne: "i \<noteq> pe_id e" using x2 y(1) id(1) by auto
  have "pw_driven (hw_purchases w') = pw_driven (hw_purchases w)" using fin(3) dr q q4 by (simp add: hush_def)
  moreover have "idempotencyLineageKey (row_execution y') = idempotencyLineageKey failed"
    using y'(2) id(2) by (simp add: succeeds_def idempotencyLineageKey_def row_execution_def)
  moreover have "row_of (stored w') i = Some z" "row_status z = ''failed''" "pe_retry (row_execution z) = Some (pe_id e)"
    using fin(2) [OF ne] z id(1) same x(2,3) by (simp_all add: row_execution_def)
  moreover have "row_of (stored w) (pe_id e) = None" using y(1) same by simp
  ultimately show ?thesis using x y' unfolding x(2)
    by (intro exI [of _ x] exI [of _ sn] exI [of _ "pe_id e"] exI [of _ y'] exI [of _ z]) simp
qed

text \<open>A failed purchase of reservations, retried by the administrator.\<close>

definition failed_row :: purchase_row where
  "failed_row = \<lparr>xr_exec = demo_execution\<lparr>pe_id := demo_id, pe_status := ''failed'',
     pe_recs := [demo_rec\<lparr>rr_service := ''compute'', rr_upfront := Fin 100\<rparr>]\<rparr>, xr_canceled_by = None, xr_updated = 0\<rparr>"

definition failed_world :: "nat \<Rightarrow> (string list, (string \<times> string) list) api_world" where
  "failed_world n = (web_world ''failed'' 0)\<lparr>hw_purchases := demo_world\<lparr>pw_db := (stored (web_world ''failed'' 0))\<lparr>pd_rows :=
     [failed_row], pd_statements := n\<rparr>\<rparr>\<rparr>"

definition admin_request :: http_request where
  "admin_request = (demo_request [] [])\<lparr>rq_principal := Some \<lparr>pl_kind = PrincipalSession, pl_session = Some admin_session,
     pl_user = [], pl_email = [], pl_key = []\<rparr>\<rparr>"

lemma failed_sound: "sound_at demo_handler (failed_world 0)"
proof -
  have "demo_id \<noteq> replicate (Suc m) CHR ''u''" for m by (simp add: demo_id_def)
  moreover have "list_all json_ok [demo_rec\<lparr>rr_service := ''compute'', rr_upfront := Fin 100\<rparr>]" by code_simp
  moreover have "env_ok (hd_env demo_handler)" using demo_ok(1) by (simp add: demo_handler_def)
  ultimately show ?thesis
    by (simp add: sound_at_def db_ok_def ids_def fits_def failed_world_def failed_row_def web_world_def demo_world_def demo_db_def
        demo_handler_def demo_manager_def demo_env_def demo_execution_def demo_id_def execution_statuses_def)
qed

text \<open>The handler, one call after the other.\<close>

lemma failed_retried: "\<not> isl (fst (retryPurchase demo_handler admin_request demo_id (failed_world 0)))"
proof -
  let ?e = "row_execution failed_row"
  have f: "fetch_execution m demo_handler demo_id (failed_world n) = (Inr ?e, failed_world (Suc n))" for m n
  proof -
    have [simp]: "pe_id (xr_exec failed_row) = demo_id" by (simp add: failed_row_def)
    show ?thesis
      by (simp add: fetch_execution_def in_store_def in_purchases_def on_db_def GetExecutionByID_def queryExecutions_def ask_def
          run_stmt_def failed_world_def demo_handler_def demo_manager_def demo_env_def)
  qed
  have c: "validateUUID demo_id = None" "row_status failed_row = ''failed''"
    "orelse (already_retried ?e) (checkRetryEligibilityGates ?e admin_request) = None" by code_simp+
  have "sn_user admin_session = AdminAPIKeyActorID" by (simp add: admin_session_def)
  then have "requireSession demo_handler admin_request w = (Inr admin_session, w)"
    "authorizeSessionRetry demo_handler admin_session e w = (None, w)"
    "requirePermissionConstraints demo_handler admin_session r sets w = (None, w)" for e r sets w
    by (simp_all add: requireSession_def admin_request_def authorizeSessionRetry_def authorize_session_def requirePermissionConstraints_def
        demo_handler_def)
  note s = this
  have l: "loadAndValidateRetryRequest demo_handler admin_request demo_id (failed_world 0) = (Inr (?e, admin_session), failed_world 1)"
    by (simp add: loadAndValidateRetryRequest_def f c s)
  have "requireNonZeroCommitment (purchaseConstraintSets (pe_recs ?e)) = None" by code_simp
  then have e: "enforcePurchaseConstraints demo_handler admin_session (pe_recs ?e) w = (None, w)" for w
    by (simp add: enforcePurchaseConstraints_def s Let_def)
  have t: "validateAndTotalRecommendations (pe_recs ?e) = Inr (Fin 100, Fin 0)" by code_simp
  have "\<not> isl (fst (persistRetryExecution demo_handler ?e admin_session (Fin 100) (Fin 0) (failed_world 1)))" by code_simp
  then obtain x w3 where p: "persistRetryExecution demo_handler ?e admin_session (Fin 100) (Fin 0) (failed_world 1) = (Inr x, w3)"
    by (metis prod.collapse sum.collapse(2))
  show ?thesis by (simp only: retryPurchase_def l t e p prod.case sum.case option.case) (simp split: prod.split)
qed

theorem retries_continue_the_lineage_witness:
  "\<exists>j y. row_of (stored (snd (retryPurchase demo_handler admin_request demo_id (failed_world 0)))) j = Some y \<and>
     pe_key (xr_exec y) = ''k'' \<and> pe_attempt (xr_exec y) = 1"
proof -
  from failed_retried obtain r w' where v: "retryPurchase demo_handler admin_request demo_id (failed_world 0) = (Inr r, w')"
    by (metis prod.collapse sum.collapse(2))
  have row: "row_of (stored (failed_world 0)) demo_id = Some x \<Longrightarrow> idempotencyLineageKey (row_execution x) = ''k'' \<and> pe_attempt (row_execution x) = 0" for x
    by (auto simp: row_of_def failed_world_def failed_row_def web_world_def demo_execution_def idempotencyLineageKey_def row_execution_def
        split: if_splits)
  from retries_continue_the_lineage [OF v failed_sound] obtain x j y where "row_of (stored (failed_world 0)) demo_id = Some x"
    "row_of (stored w') j = Some y" "succeeds (row_execution x) j y" by blast
  with row [of x] v show ?thesis unfolding succeeds_def by (intro exI [of _ j] exI [of _ y]) simp
qed

end
