(* ===== verification/Api_Revoke_Props.thy ===== *)
theory Api_Revoke_Props
  imports Api_Sample
begin

text \<open>
  Properties of revocations: who may revoke by a link, and how often Azure is asked for its money.
\<close>

section \<open>By the link of a mail\<close>

text \<open>The requester shows the token of the stored purchase, in time.\<close>

definition revocable_by_token :: "('p, 'c, 'd) handler \<Rightarrow> execution \<Rightarrow> string \<Rightarrow> bool" where
  "revocable_by_token h e token = (pe_token e \<noteq> [] \<and> mg_hash (hd_purchases h) (pe_token e) = mg_hash (hd_purchases h) token \<and>
     (\<exists>now. \<not> token_expired now e \<and> (case revocation_reference e of None \<Rightarrow> True | Some t \<Rightarrow> now \<le> t + RevocationWindow)))"

lemma valid_revocation: "validateRevokeToken h now e token = None \<Longrightarrow> revocable_by_token h e token"
  by (auto simp: validateRevokeToken_def checkRevocationWindow_def revocable_by_token_def Let_def split: if_splits option.splits)



section \<open>Azure is asked once\<close>

text \<open>What neither buys nor returns anything.\<close>

definition same_cloud :: "('c, 'd) api_world \<Rightarrow> ('c, 'd) api_world \<Rightarrow> bool" where
  "same_cloud w w' = (pw_cloud (hw_purchases w') = pw_cloud (hw_purchases w))"

interpretation clouded: run_order same_cloud
  by unfold_locales (auto simp: same_cloud_def)

lemma clouds:
  assumes "same_cloud w0 w"
  shows "reaches same_cloud w0 (in_store f w)" "reaches same_cloud w0 (in_auth g w)"
  using assms by (auto simp: reaches_def same_cloud_def in_store_def in_purchases_def in_auth_def on_db_def split: prod.split)

lemma history_clouds:
  assumes "same_cloud w0 w"
  shows "reaches same_cloud w0 (load_history what h pid w)" "reaches same_cloud w0 (authorizeSessionRevoke h s sn x w)"
proof -
  show "reaches same_cloud w0 (load_history what h pid w)"
    by (simp only: load_history_def) ((intro clouds clouded.rules assms | assumption)+)
  have own: "reaches same_cloud w0 (checkRevokeOwnAccountAccess h u x w)" if "same_cloud w0 w" for u w
    by (simp only: checkRevokeOwnAccountAccess_def getAccountScope_def Let_def) ((intro clouds clouded.rules that | assumption)+)
  show "reaches same_cloud w0 (authorizeSessionRevoke h s sn x w)"
    by (simp only: authorizeSessionRevoke_def HasPermissionAPI_def) ((intro clouds clouded.rules own assms | assumption)+)
qed

lemma loaded_history:
  assumes "load_history what h pid w = (Inr x, w')"
  shows "x \<in> set (pd_history (stored w))" "hr_purchase_id x = pid"
proof -
  have "find (\<lambda>h. hr_purchase_id h = pid) (pd_history (stored w)) = Some x"
    using assms
    by (auto simp: load_history_def GetPurchaseHistoryByPurchaseID_def in_store_def in_purchases_def on_db_def
        split: prod.splits sum.splits option.splits dest!: ask_answer)
  then show "x \<in> set (pd_history (stored w))" "hr_purchase_id x = pid" by (auto simp: find_Some_iff)
qed

lemma tables_history: "tables db' = tables db \<Longrightarrow> pd_history db' = pd_history db"
  unfolding tables_def by (cases db; cases db') simp

text \<open>C21: a purchase that is recorded as returned, or whose return is under way, is never returned again:
  whoever asks, no provider is called, and the history is as it was.\<close>

theorem returns_are_not_repeated:
  assumes "loadAndRevokePurchaseHistory h s req sn pid w = (r, w')"
    and "\<forall>x \<in> set (pd_history (stored w)). hr_purchase_id x = pid \<longrightarrow> hr_revoked x \<noteq> None \<or> hr_in_flight x"
  shows "pw_cloud (hw_purchases w') = pw_cloud (hw_purchases w) \<and> pd_history (stored w') = pd_history (stored w)"
proof -
  obtain l w1 where l: "load_history ''revoke'' h pid w = (l, w1)" by fastforce
  have c0: "same_cloud w w" by (simp add: same_cloud_def)
  have c1: "same_cloud w w1" by (rule clouded.result [OF history_clouds(1) [OF c0] l])
  have q1: "hush w w1" by (rule hushed.result [OF load_history_looks [OF hush_refl] l])
  have hist: "hush w v \<Longrightarrow> pd_history (stored v) = pd_history (stored w)" for v
    by (metis hush_tables tables_history)
  show ?thesis
  proof (cases l)
    case (Inl err)
    with assms(1) l c1 hist [OF q1] show ?thesis by (auto simp: loadAndRevokePurchaseHistory_def same_cloud_def)
  next
    case (Inr x)
    from assms(2) loaded_history [OF l [unfolded Inr]] have x: "hr_revoked x \<noteq> None \<or> hr_in_flight x" by blast
    obtain a w2 where a: "authorizeSessionRevoke h s sn x w1 = (a, w2)" by fastforce
    have c2: "same_cloud w w2" by (rule clouded.result [OF history_clouds(2) [OF c1] a])
    have "hush w w2" by (rule hush_trans [OF q1 hushed.result [OF authorizeSessionRevoke_looks [OF hush_refl] a]])
    note hist [OF this]
    moreover have "w' = w2"
      using assms(1) l Inr a x by (cases "hr_revoked x") (auto simp: loadAndRevokePurchaseHistory_def split: option.splits)
    ultimately show ?thesis using c2 by (simp add: same_cloud_def)
  qed
qed

text \<open>A purchase whose return is under way, or not.\<close>

definition bought :: "bool \<Rightarrow> history_row" where
  "bought flag = \<lparr>hr_account = ''sub'', hr_purchase_id = ''r'', hr_time = 0, hr_provider = ''azure'', hr_service = ''compute'', hr_region = ''westeurope'',
     hr_type = ''vm'', hr_count = 1, hr_term = 1, hr_payment = ''upfront'', hr_upfront = Fin 1, hr_monthly = None, hr_savings = Fin 1, hr_plan = [],
     hr_plan_name = [], hr_step = 0, hr_cloud_account = Some ''acct'', hr_source = ''cudly-web'', hr_window_closes = None,
     hr_offering_class = [], hr_in_flight = flag, hr_revoked = None\<rparr>"

definition bought_world :: "bool \<Rightarrow> (string list, (string \<times> string) list) api_world" where
  "bought_world flag = (web_world ''completed'' 0)\<lparr>hw_purchases := demo_world\<lparr>pw_db := demo_db\<lparr>pd_history := [bought flag]\<rparr>\<rparr>\<rparr>"

theorem returns_are_not_repeated_witness:
  "pw_cloud (hw_purchases (snd (loadAndRevokePurchaseHistory demo_handler demo_service (demo_request ''carol'' ''ccarol'') admin_session ''r''
     (bought_world True)))) = []"
proof -
  obtain r w' where l: "loadAndRevokePurchaseHistory demo_handler demo_service (demo_request ''carol'' ''ccarol'') admin_session ''r'' (bought_world True) = (r, w')"
    by fastforce
  have "\<forall>x \<in> set (pd_history (stored (bought_world True))). hr_purchase_id x = ''r'' \<longrightarrow> hr_revoked x \<noteq> None \<or> hr_in_flight x"
    by (simp add: bought_world_def bought_def)
  with returns_are_not_repeated [OF l] l show ?thesis by (simp add: bought_world_def demo_world_def)
qed

section \<open>The sweep believes the flag\<close>

text \<open>Every history row of the purchase is recorded as revoked through the API.\<close>

definition recorded :: "string \<Rightarrow> pdb \<Rightarrow> bool" where
  "recorded pid db = (\<forall>y \<in> set (pd_history db). hr_purchase_id y = pid \<longrightarrow> hr_revoked y \<noteq> None)"

definition mark_row :: "string \<Rightarrow> gotime \<Rightarrow> string \<Rightarrow> history_row \<Rightarrow> history_row" where
  "mark_row p t via x = (if hr_purchase_id x = p \<and> hr_revoked x = None then x\<lparr>hr_revoked := Some (t, via)\<rparr> else x)"

lemma mark_writes:
  assumes "\<forall>k \<ge> pd_statements db. pv_fault env k = None" "MarkPurchaseRevoked env p t via db = (r, db')"
  shows "pd_history db' = map (mark_row p t via) (pd_history db)" "pd_statements db \<le> pd_statements db'"
proof -
  have f: "pv_fault env (pd_statements db) = None" "pv_fault env (Suc (pd_statements db)) = None" using assms(1) by simp_all
  let ?found = "\<exists>x \<in> set (pd_history db). hr_purchase_id x = p \<and> hr_revoked x = None"
  let ?db = "db\<lparr>pd_statements := Suc (pd_statements db), pd_history := map (mark_row p t via) (pd_history db)\<rparr>"
  have m: "run_stmt env (\<lambda>db. Inr (db\<lparr>pd_history := map (\<lambda>h. if hr_purchase_id h = p \<and> hr_revoked h = None
           then h\<lparr>hr_revoked := Some (t, via)\<rparr> else h) (pd_history db)\<rparr>,
         \<exists>h \<in> set (pd_history db). hr_purchase_id h = p \<and> hr_revoked h = None)) db = (Inr ?found, ?db)"
    using f(1) by (simp add: run_stmt_def mark_row_def [abs_def])
  have "pd_history db' = map (mark_row p t via) (pd_history db) \<and> pd_statements db \<le> pd_statements db'"
  proof (cases ?found)
    case True
    have "db' = ?db" using assms(2) unfolding MarkPurchaseRevoked_def m by (simp only: True prod.case sum.case bool.case prod.inject)
    then show ?thesis by simp
  next
    case False
    obtain q db2 where q: "ask env (\<lambda>db. \<exists>h \<in> set (pd_history db). hr_purchase_id h = p) ?db = (q, db2)" by fastforce
    have "db' = db2"
      using assms(2) unfolding MarkPurchaseRevoked_def m by (simp only: False prod.case sum.case bool.case q) (cases q, simp_all)
    with q f(2) show ?thesis by (auto simp: ask_def run_stmt_def)
  qed
  then show "pd_history db' = map (mark_row p t via) (pd_history db)" "pd_statements db \<le> pd_statements db'" by blast+
qed

lemma mark_records:
  assumes "\<forall>k \<ge> pd_statements db. pv_fault env k = None" "MarkPurchaseRevoked env p t via db = (r, db')"
  shows "recorded p db'" "recorded q db \<Longrightarrow> recorded q db'"
proof -
  have row: "hr_purchase_id (mark_row p t via x) = hr_purchase_id x" "hr_revoked (mark_row p t via x) = None \<longleftrightarrow> hr_revoked x = None \<and> hr_purchase_id x \<noteq> p" for x
    by (auto simp: mark_row_def)
  show "recorded p db'" "recorded q db \<Longrightarrow> recorded q db'" by (simp_all add: recorded_def mark_writes(1) [OF assms] row del: not_None_eq)
qed

lemma retries_record:
  "\<forall>k \<ge> pd_statements db. pv_fault env k = None \<Longrightarrow> mark_with_retries env p t bs db = (r, db') \<Longrightarrow>
   recorded p db' \<and> (recorded q db \<longrightarrow> recorded q db') \<and> pd_statements db \<le> pd_statements db'"
proof (induction bs arbitrary: db)
  case Nil
  then have m: "MarkPurchaseRevoked env p t ''direct-api'' db = (r, db')" by simp
  show ?case using mark_records(1) [OF Nil(1) m] mark_records(2) [OF Nil(1) m, of q] mark_writes(2) [OF Nil(1) m] by simp
next
  case (Cons b bs)
  obtain m db1 where m: "MarkPurchaseRevoked env p t ''direct-api'' db = (m, db1)" by fastforce
  note k = mark_records(1) [OF Cons.prems(1) m] mark_records(2) [OF Cons.prems(1) m, of q] mark_writes(2) [OF Cons.prems(1) m]
  have later: "\<forall>k \<ge> pd_statements db1. pv_fault env k = None" using Cons.prems(1) k(3) by (meson le_trans)
  show ?case
  proof (cases m)
    case None
    with Cons.prems(2) m have "db1 = db'" by simp
    with k show ?thesis by simp
  next
    case (Some e)
    then have "mark_with_retries env p t bs db1 = (r, db')" using Cons.prems(2) m by simp
    from Cons.IH [OF later this] k show ?thesis by simp
  qed
qed

lemma sweep_records:
  "\<forall>k \<ge> pd_statements db. pv_fault env k = None \<Longrightarrow> finalize_all env t hs acc db = (acc', db') \<Longrightarrow>
   (\<forall>x \<in> set hs. recorded (hr_purchase_id x) db') \<and> (recorded q db \<longrightarrow> recorded q db')"
proof (induction hs arbitrary: acc db q)
  case (Cons x hs)
  obtain m db1 where m: "mark_with_retries env (hr_purchase_id x) t finalizeRevocationBackoffs db = (m, db1)" by fastforce
  note k = retries_record [OF Cons.prems(1) m]
  have later: "\<forall>k \<ge> pd_statements db1. pv_fault env k = None" using Cons.prems(1) conjunct2 [OF conjunct2 [OF k]] by (meson le_trans)
  obtain acc1 where "finalize_all env t hs acc1 db1 = (acc', db')" using Cons.prems(2) m by (auto split: option.splits)
  from Cons.IH [OF later this] k show ?case by (metis set_ConsD)
qed simp

lemma finalized_in_flight:
  assumes "\<forall>k \<ge> pd_statements db. pv_fault env k = None" "FinalizeInFlightRevocations env db = (r, db')"
    and "\<forall>y \<in> set (pd_history db). hr_purchase_id y = pid \<longrightarrow> hr_in_flight y"
  shows "recorded pid db'"
proof -
  let ?db = "db\<lparr>pd_statements := Suc (pd_statements db)\<rparr>" and ?rows = "filter (\<lambda>h. hr_in_flight h \<and> hr_revoked h = None) (pd_history db)"
  have g: "GetPurchaseHistoryInFlight env db = (Inr ?rows, ?db)"
    using assms(1) by (simp add: GetPurchaseHistoryInFlight_def ask_def run_stmt_def)
  have later: "\<forall>k \<ge> pd_statements ?db. pv_fault env k = None" using assms(1) by simp
  obtain acc where f: "finalize_all env (clock env ?db) ?rows \<lparr>fz_found = int (length ?rows), fz_finalized = 0, fz_errored = 0\<rparr> ?db = (acc, db')"
    using assms(2) g by (auto simp: FinalizeInFlightRevocations_def split: prod.splits)
  note k = sweep_records [OF later f, of pid]
  show ?thesis
  proof (cases "recorded pid ?db")
    case False
    then have "\<exists>y \<in> set (pd_history db). hr_purchase_id y = pid \<and> hr_revoked y = None" by (simp add: recorded_def del: not_None_eq)
    then obtain y where "y \<in> set (pd_history db)" "hr_purchase_id y = pid" "hr_revoked y = None" by blast
    with assms(3) have "y \<in> set ?rows" "hr_purchase_id y = pid" by simp_all
    with k show ?thesis by blast
  qed (use k in blast)
qed

lemma mark_ids:
  assumes "MarkPurchaseRevoked env p t via db = (r, db')"
  shows "map hr_purchase_id (pd_history db') = map hr_purchase_id (pd_history db)"
proof -
  define f where "f = (\<lambda>db. Inr (db\<lparr>pd_history := map (\<lambda>h. if hr_purchase_id h = p \<and> hr_revoked h = None
           then h\<lparr>hr_revoked := Some (t, via)\<rparr> else h) (pd_history db)\<rparr>,
         \<exists>h \<in> set (pd_history db). hr_purchase_id h = p \<and> hr_revoked h = None) :: goerr + pdb \<times> bool)"
  obtain q db1 where q: "run_stmt env f db = (q, db1)" by fastforce
  obtain u db2 where u: "ask env (\<lambda>db. \<exists>h \<in> set (pd_history db). hr_purchase_id h = p) db1 = (u, db2)" by fastforce
  have "db' = db1 \<or> db' = db2"
    using assms q u unfolding MarkPurchaseRevoked_def f_def [symmetric] by (auto split: sum.splits bool.splits)
  moreover have "pd_history db2 = pd_history db1" by (rule tables_history [OF ask_facts [OF u]])
  moreover have "map hr_purchase_id (pd_history db1) = map hr_purchase_id (pd_history db)"
    using q by (cases "pv_fault env (pd_statements db)") (auto simp: run_stmt_def f_def)
  ultimately show ?thesis by auto
qed

lemma retry_ids: "mark_with_retries env p t bs db = (r, db') \<Longrightarrow> map hr_purchase_id (pd_history db') = map hr_purchase_id (pd_history db)"
  by (induction bs arbitrary: db) (auto dest!: mark_ids split: prod.splits option.splits)

lemma sweep_ids: "finalize_all env t hs acc db = (acc', db') \<Longrightarrow> map hr_purchase_id (pd_history db') = map hr_purchase_id (pd_history db)"
  by (induction hs arbitrary: acc db) (auto dest!: retry_ids split: prod.splits option.splits)

lemma finalized_ids:
  assumes "FinalizeInFlightRevocations env db = (r, db')"
  shows "map hr_purchase_id (pd_history db') = map hr_purchase_id (pd_history db)"
proof -
  obtain g db1 where g: "GetPurchaseHistoryInFlight env db = (g, db1)" by fastforce
  then have "pd_history db1 = pd_history db"
    by (auto simp: GetPurchaseHistoryInFlight_def dest: ask_facts split: prod.splits sum.splits intro: tables_history)
  with assms g show ?thesis by (auto simp: FinalizeInFlightRevocations_def split: sum.splits prod.splits dest!: sweep_ids)
qed

text \<open>C26: when Azure refuses the return and the statement that takes the flag back fails, the request is
  answered with the error, and yet the next sweep records the purchase as revoked, although no
  money came back and the reservation still runs.\<close>

theorem refused_return_recorded:
  assumes "order \<noteq> []" and "reservation \<noteq> []"
    and "az_calculate (hd_azure h) order reservation (to_int32 (hr_count x)) (pw_cloud (hw_purchases w)) = (Inr q, c1)"
    and "diverged expected q = None"
    and "az_return (hd_azure h) order reservation (to_int32 (hr_count x)) (qt_session q) c1 = (Some refusal, c2)"
    and "pv_fault (hd_env h) (pd_statements (stored w)) = None"
    and "pv_fault (hd_env h) (pd_statements (stored w) + 1) = Some fault"
    and "\<forall>k \<ge> pd_statements (stored w) + 2. pv_fault (hd_env h) k = None"
    and "x \<in> set (pd_history (stored w))"
    and "callAzureReturn h x order reservation expected w = (r, w1)"
    and "in_store (FinalizeInFlightRevocations (hd_env h)) w1 = (f, w2)"
  shows "isl r \<and> (\<exists>y \<in> set (pd_history (stored w2)). hr_purchase_id y = hr_purchase_id x) \<and> recorded (hr_purchase_id x) (stored w2)"
proof -
  let ?n = "pd_statements (stored w)"
  let ?flag = "\<lambda>y. if hr_purchase_id y = hr_purchase_id x then y\<lparr>hr_in_flight := True\<rparr> else y"
  let ?db = "(stored w)\<lparr>pd_statements := Suc (Suc ?n), pd_history := map ?flag (pd_history (stored w))\<rparr>"
  have "list_ex (\<lambda>y. hr_purchase_id y = hr_purchase_id x) (pd_history (stored w))" using assms(9) by (auto simp: list_ex_iff)
  then have w1: "isl r" "stored w1 = ?db"
    using assms(1-7,10)
    by (auto simp: callAzureReturn_def azureCalculateRefund_def on_azure_def in_purchases_def on_cloud_def in_store_def on_db_def
        FlipPurchaseRevocationInFlight_def ClearRevocationInFlight_def set_in_flight_def run_stmt_def handleAzureReturnError_def Let_def
        split: prod.splits)
  have fin: "FinalizeInFlightRevocations (hd_env h) (stored w1) = (f, stored w2)"
    using assms(11) by (auto simp: in_store_def in_purchases_def on_db_def split: prod.splits)
  have "recorded (hr_purchase_id x) (stored w2)"
    by (rule finalized_in_flight [OF _ fin]) (use w1(2) assms(8) in auto)
  moreover have "hr_purchase_id x \<in> set (map hr_purchase_id (pd_history (stored w1)))"
    using assms(9) unfolding w1(2) by (auto simp: comp_def if_distrib cong: if_cong)
  then have "hr_purchase_id x \<in> set (map hr_purchase_id (pd_history (stored w2)))" unfolding finalized_ids [OF fin] .
  then have "\<exists>y \<in> set (pd_history (stored w2)). hr_purchase_id y = hr_purchase_id x" by auto
  ultimately show ?thesis using w1(1) by blast
qed

text \<open>Azure refuses, and the statement after the flag is lost.\<close>

definition refusing_handler :: "(unit, string list, (string \<times> string) list) handler" where
  "refusing_handler = demo_handler\<lparr>hd_azure := demo_azure\<lparr>az_return := (\<lambda>_ _ _ _ c. (Some (Errorf ''refused'' []), c))\<rparr>,
     hd_purchases := demo_manager\<lparr>mg_env := demo_env\<lparr>pv_fault := (\<lambda>k. if k = 1 then Some (Errorf ''down'' []) else None)\<rparr>\<rparr>\<rparr>"

theorem refused_return_recorded_witness:
  "recorded ''r'' (stored (snd (in_store (FinalizeInFlightRevocations (hd_env refusing_handler))
     (snd (callAzureReturn refusing_handler (bought False) ''o'' ''r'' None (bought_world False))))))"
proof -
  let ?h = refusing_handler and ?w = "bought_world False" and ?x = "bought False"
  obtain r w1 where c: "callAzureReturn ?h ?x ''o'' ''r'' None ?w = (r, w1)" by fastforce
  obtain f w2 where f: "in_store (FinalizeInFlightRevocations (hd_env ?h)) w1 = (f, w2)" by fastforce
  have a: "az_calculate (hd_azure ?h) ''o'' ''r'' (to_int32 (hr_count ?x)) (pw_cloud (hw_purchases ?w)) =
      (Inr \<lparr>qt_session = ''q'', qt_amount = None, qt_currency = ''EUR''\<rparr>, pw_cloud (hw_purchases ?w))"
    "az_return (hd_azure ?h) ''o'' ''r'' (to_int32 (hr_count ?x)) (qt_session \<lparr>qt_session = ''q'', qt_amount = None, qt_currency = ''EUR''\<rparr>)
      (pw_cloud (hw_purchases ?w)) = (Some (Errorf ''refused'' []), pw_cloud (hw_purchases ?w))"
    by (simp_all add: refusing_handler_def demo_azure_def)
  have p: "pv_fault (hd_env ?h) = (\<lambda>k. if k = 1 then Some (Errorf ''down'' []) else None)" "pd_statements (stored ?w) = 0"
    "?x \<in> set (pd_history (stored ?w))" "hr_purchase_id ?x = ''r''"
    by (simp_all add: refusing_handler_def bought_world_def bought_def web_world_def demo_world_def demo_db_def)
  have "recorded (hr_purchase_id ?x) (stored w2)"
    using refused_return_recorded [OF _ _ a(1) _ a(2) _ _ _ p(3) c f] p(1,2) by (auto simp: diverged_def)
  with c f p(4) show ?thesis by simp
qed

end
