(* ===== verification/Api_Limits.thy ===== *)
theory Api_Limits
  imports Api_Types "HOL-Library.AList"
begin

text \<open>
  How often a caller may ask: the limits of \<open>rate_limiter.go\<close>, the limiter that counts in memory
  (\<open>inmemory_rate_limiter.go\<close>) and the one that counts in PostgreSQL (\<open>db_rate_limiter.go\<close>, with the
  table of migration 4).

  Each limiter comes with its clock, a function of the number of its readings so far. The mutexes
  make every call one step; the cleaning of the table runs in the background and is a step of its own.
  The attempts in memory are an association list with distinct keys, in an order that means nothing: what Go
  makes of iterating over the map and sorting with \<open>sort.Slice\<close> is a parameter, since equal times may come in any order.
\<close>

section \<open>Limits\<close>

record rate_limit =
  rl_max :: int
  rl_secs :: int
  rl_window :: int

text \<open>A \<open>time.Duration\<close> is an \<open>int64\<close> of nanoseconds.\<close>

definition duration_of_secs :: "int \<Rightarrow> int" where
  "duration_of_secs secs = (secs * second_ns + 2 ^ 63) mod 2 ^ 64 - 2 ^ 63"

definition NewRateLimitConfig :: "int \<Rightarrow> int \<Rightarrow> rate_limit" where
  "NewRateLimitConfig attempts secs = \<lparr>rl_max = attempts, rl_secs = secs, rl_window = duration_of_secs secs\<rparr>"

definition default_limits :: "(string \<times> rate_limit) list" where
  "default_limits =
    [(''login'', NewRateLimitConfig 5 (15 * 60)), (''forgot_password'', NewRateLimitConfig 10 (5 * 60)),
     (''reset_password'', NewRateLimitConfig 10 (15 * 60)), (''change_password'', NewRateLimitConfig 10 (15 * 60)),
     (''api_general'', NewRateLimitConfig 300 60), (''admin'', NewRateLimitConfig 30 60),
     (''approve_cancel_public'', NewRateLimitConfig 30 60), (''setup_admin'', NewRateLimitConfig 5 (15 * 60)),
     (''register'', NewRateLimitConfig 5 (15 * 60))]"

definition getDefaultRateLimits :: "string \<rightharpoonup> rate_limit" where
  "getDefaultRateLimits = map_of default_limits"

text \<open>The message of the panic, if any.\<close>

definition assertRateLimitKeysKnown :: "string list \<Rightarrow> string option" where
  "assertRateLimitKeysKnown keys =
    (case filter (\<lambda>k. getDefaultRateLimits k = None) keys of
       [] \<Rightarrow> None
     | k # _ \<Rightarrow> Some (''checkRateLimit called with unknown endpoint key '' @ k @ '': add it to getDefaultRateLimits() (issue #1016)''))"

text \<open>What \<open>NewHandler\<close> asserts.\<close>

definition asserted_keys :: "string list" where
  "asserted_keys = [''login'', ''setup_admin'', ''reset_password'', ''change_password'', ''register'', ''approve_cancel_public'']"

definition no_limit :: rate_limit where "no_limit = \<lparr>rl_max = 0, rl_secs = 0, rl_window = 0\<rparr>"

text \<open>A missing key of a Go map reads as the zero value.\<close>

definition configFor :: "(string \<rightharpoonup> rate_limit) \<Rightarrow> string \<Rightarrow> rate_limit" where
  "configFor limits endpoint =
    (case limits endpoint of
       Some cfg \<Rightarrow> cfg
     | None \<Rightarrow> (case limits ''api_general'' of Some cfg \<Rightarrow> cfg | None \<Rightarrow> no_limit))"

definition attempt_id :: "string \<Rightarrow> string \<Rightarrow> string" where
  "attempt_id key endpoint = key @ ''#ENDPOINT#'' @ endpoint"

section \<open>Counting in memory\<close>

record attempt_entry =
  at_reset :: gotime
  at_count :: int

record mem_limiter =
  ml_attempts :: "(string \<times> attempt_entry) list"
  ml_limits :: "string \<rightharpoonup> rate_limit"
  ml_ticks :: nat

record mem_env =
  me_now :: "nat \<Rightarrow> gotime"
  me_sort :: "(string \<times> gotime) list \<Rightarrow> (string \<times> gotime) list"

definition NewInMemoryRateLimiter :: mem_limiter where
  "NewInMemoryRateLimiter = \<lparr>ml_attempts = [], ml_limits = getDefaultRateLimits, ml_ticks = 0\<rparr>"

definition mem_SetLimit :: "string \<Rightarrow> rate_limit \<Rightarrow> mem_limiter \<Rightarrow> mem_limiter" where
  "mem_SetLimit endpoint cfg rl = rl\<lparr>ml_limits := (ml_limits rl)(endpoint \<mapsto> cfg)\<rparr>"

definition inMemoryRateLimitMaxEntries :: nat where "inMemoryRateLimitMaxEntries = 500"

fun evict_loop :: "nat \<Rightarrow> (string \<times> gotime) list \<Rightarrow> (string \<times> attempt_entry) list \<Rightarrow> (string \<times> attempt_entry) list" where
  "evict_loop target [] as = as"
| "evict_loop target ((k, _) # ps) as =
    (if length as \<le> target then as else evict_loop target ps (AList.delete k as))"

definition evictOldest :: "((string \<times> gotime) list \<Rightarrow> (string \<times> gotime) list) \<Rightarrow> (string \<times> attempt_entry) list \<Rightarrow>
    (string \<times> attempt_entry) list" where
  "evictOldest sorting as =
    evict_loop (inMemoryRateLimitMaxEntries * 4 div 5) (sorting (map (\<lambda>(k, e). (k, at_reset e)) as)) as"

definition evictIfAtCap :: "((string \<times> gotime) list \<Rightarrow> (string \<times> gotime) list) \<Rightarrow> gotime \<Rightarrow> (string \<times> attempt_entry) list \<Rightarrow>
    (string \<times> attempt_entry) list" where
  "evictIfAtCap sorting now as =
    (if length as < inMemoryRateLimitMaxEntries then as
     else let as = filter (\<lambda>(_, e). \<not> at_reset e < now) as in
       if length as < inMemoryRateLimitMaxEntries then as else evictOldest sorting as)"

text \<open>The verdict on an attempt, and the entry that replaces the one of its identifier.\<close>

definition mem_attempt :: "rate_limit \<Rightarrow> gotime \<Rightarrow> attempt_entry option \<Rightarrow> bool \<times> attempt_entry" where
  "mem_attempt cfg now entry =
    (case entry of
       None \<Rightarrow> (True, \<lparr>at_reset = now + rl_window cfg, at_count = 1\<rparr>)
     | Some e \<Rightarrow>
       if at_reset e < now then (True, \<lparr>at_reset = now + rl_window cfg, at_count = 1\<rparr>)
       else if rl_max cfg \<le> at_count e then (False, e)
       else (True, e\<lparr>at_count := at_count e + 1\<rparr>))"

text \<open>A nil limiter allows everything.\<close>

definition mem_Allow :: "mem_env \<Rightarrow> string \<Rightarrow> string \<Rightarrow> mem_limiter option \<Rightarrow> (goerr + bool) \<times> mem_limiter option" where
  "mem_Allow env key endpoint lm =
    (case lm of
       None \<Rightarrow> (Inr True, None)
     | Some rl \<Rightarrow>
       let cfg = configFor (ml_limits rl) endpoint;
           i = attempt_id key endpoint;
           now = me_now env (ml_ticks rl);
           as = evictIfAtCap (me_sort env) now (ml_attempts rl);
           (allowed, e) = mem_attempt cfg now (map_of as i)
       in (Inr allowed, Some (rl\<lparr>ml_attempts := AList.update i e as, ml_ticks := Suc (ml_ticks rl)\<rparr>)))"

section \<open>Counting in PostgreSQL\<close>

record rate_row =
  rt_count :: int
  rt_reset :: gotime
  rt_created :: gotime
  rt_updated :: gotime

record rate_table =
  rd_rows :: "string \<rightharpoonup> rate_row"
  rd_statements :: nat

record rate_env =
  re_now :: "nat \<Rightarrow> gotime"
  re_db_now :: "nat \<Rightarrow> gotime"
  re_fault :: "nat \<Rightarrow> goerr option"

definition rate_stmt :: "rate_env \<Rightarrow> (rate_table \<Rightarrow> goerr + rate_table \<times> 'r) \<Rightarrow> rate_table \<Rightarrow> (goerr + 'r) \<times> rate_table" where
  "rate_stmt env f t =
    (let t' = t\<lparr>rd_statements := Suc (rd_statements t)\<rparr> in
     case re_fault env (rd_statements t) of
       Some e \<Rightarrow> (Inl e, t')
     | None \<Rightarrow> (case f t' of Inl e \<Rightarrow> (Inl e, t') | Inr (t'', r) \<Rightarrow> (Inr r, t'')))"

text \<open>The column is an \<open>INTEGER\<close>: an increment past its range is an error (SQLSTATE 22003).\<close>

definition out_of_range :: goerr where "out_of_range = Typed ''pgconn.PgError'' ''22003''"

definition upsert_attempt :: "string \<Rightarrow> gotime \<Rightarrow> gotime \<Rightarrow> rate_table \<Rightarrow> goerr + rate_table \<times> (int \<times> gotime)" where
  "upsert_attempt i reset now t =
    (case rd_rows t i of
       None \<Rightarrow>
         Inr (t\<lparr>rd_rows := (rd_rows t)(i \<mapsto> \<lparr>rt_count = 1, rt_reset = reset, rt_created = now, rt_updated = now\<rparr>)\<rparr>, (1, reset))
     | Some r \<Rightarrow>
       let over = rt_reset r < now;
           n = (if over then 1 else rt_count r + 1);
           reset = (if over then reset else rt_reset r)
       in if 2 ^ 31 \<le> n then Inl out_of_range
          else Inr (t\<lparr>rd_rows := (rd_rows t)(i \<mapsto> r\<lparr>rt_count := n, rt_reset := reset, rt_updated := now\<rparr>)\<rparr>, (n, reset)))"

text \<open>The rows that expired more than a day ago, by the clock of the server.\<close>

definition cleanup_rows :: "gotime \<Rightarrow> (string \<rightharpoonup> rate_row) \<Rightarrow> string \<rightharpoonup> rate_row" where
  "cleanup_rows now rows = (\<lambda>i. case rows i of None \<Rightarrow> None | Some r \<Rightarrow> if rt_reset r < now - day_ns then None else Some r)"

text \<open>The limiter of one process; \<open>dl_pool\<close> is false where its pool is nil.\<close>

record db_limiter =
  dl_pool :: bool
  dl_limits :: "string \<rightharpoonup> rate_limit"
  dl_last :: gotime
  dl_interval :: int
  dl_running :: bool
  dl_ticks :: nat

definition NewDBRateLimiter :: "bool \<Rightarrow> db_limiter" where
  "NewDBRateLimiter pool = \<lparr>dl_pool = pool, dl_limits = getDefaultRateLimits, dl_last = 0, dl_interval = 60 * second_ns,
     dl_running = False, dl_ticks = 0\<rparr>"

definition db_SetLimit :: "string \<Rightarrow> rate_limit \<Rightarrow> db_limiter \<Rightarrow> db_limiter" where
  "db_SetLimit endpoint cfg rl = rl\<lparr>dl_limits := (dl_limits rl)(endpoint \<mapsto> cfg)\<rparr>"

definition db_clock :: "rate_env \<Rightarrow> db_limiter \<Rightarrow> gotime \<times> db_limiter" where
  "db_clock env rl = (re_now env (dl_ticks rl), rl\<lparr>dl_ticks := Suc (dl_ticks rl)\<rparr>)"

definition cleanup :: "rate_env \<Rightarrow> db_limiter \<Rightarrow> rate_table \<Rightarrow> rate_table" where
  "cleanup env rl t =
    (if \<not> dl_pool rl then t
     else snd (rate_stmt env (\<lambda>t. Inr (t\<lparr>rd_rows := cleanup_rows (re_db_now env (rd_statements t)) (rd_rows t)\<rparr>, ())) t))"

text \<open>Whether a cleaning is started, which \<open>dl_running\<close> says; it runs at some later moment, by \<open>cleanup_task\<close>.\<close>

definition maybeCleanup :: "rate_env \<Rightarrow> db_limiter \<Rightarrow> db_limiter" where
  "maybeCleanup env rl =
    (if dl_running rl then rl
     else case db_clock env rl of (now, rl) \<Rightarrow>
       if now - dl_last rl < dl_interval rl then rl
       else case db_clock env rl of (now, rl) \<Rightarrow> rl\<lparr>dl_running := True, dl_last := now\<rparr>)"

definition cleanup_task :: "rate_env \<Rightarrow> db_limiter \<times> rate_table \<Rightarrow> db_limiter \<times> rate_table" where
  "cleanup_task env = (\<lambda>(rl, t). (rl\<lparr>dl_running := False\<rparr>, cleanup env rl t))"

definition db_Allow :: "rate_env \<Rightarrow> string \<Rightarrow> string \<Rightarrow> db_limiter option \<times> rate_table \<Rightarrow>
    (goerr + bool) \<times> db_limiter option \<times> rate_table" where
  "db_Allow env key endpoint = (\<lambda>(lm, t).
    case lm of
      None \<Rightarrow> (Inr True, None, t)
    | Some rl \<Rightarrow>
      if \<not> dl_pool rl then (Inr True, Some rl, t)
      else let cfg = configFor (dl_limits rl) endpoint in
        case db_clock env rl of (now, rl) \<Rightarrow>
        (case rate_stmt env (upsert_attempt (attempt_id key endpoint) (now + rl_window cfg) now) t of
           (Inl e, t) \<Rightarrow> (Inl (wrap_err ''rate limit upsert failed: '' e), Some rl, t)
         | (Inr (n, _), t) \<Rightarrow>
           let allowed = n \<le> rl_max cfg in
           (Inr allowed, Some (if allowed \<and> n = 1 then maybeCleanup env rl else rl), t)))"

section \<open>The interface and the middleware\<close>

text \<open>A limiter over its state \<open>'r\<close>, as the handlers see it.\<close>

record 'r limiter =
  lm_allow :: "string \<Rightarrow> string \<Rightarrow> 'r \<Rightarrow> (goerr + bool) \<times> 'r"

definition AllowWithIP :: "'r limiter \<Rightarrow> string \<Rightarrow> string \<Rightarrow> 'r \<Rightarrow> (goerr + bool) \<times> 'r" where
  "AllowWithIP l ip = lm_allow l (''IP#'' @ ip)"

definition AllowWithEmail :: "'r limiter \<Rightarrow> string \<Rightarrow> string \<Rightarrow> 'r \<Rightarrow> (goerr + bool) \<times> 'r" where
  "AllowWithEmail l email = lm_allow l (''EMAIL#'' @ email)"

definition AllowWithUser :: "'r limiter \<Rightarrow> string \<Rightarrow> string \<Rightarrow> 'r \<Rightarrow> (goerr + bool) \<times> 'r" where
  "AllowWithUser l user = lm_allow l (''USER#'' @ user)"

definition too_many :: api_error where
  "too_many = NewClientError 429 ''too many requests, please try again later''"

text \<open>A limiter that fails lets the request pass.\<close>

definition checkRateLimit :: "'r limiter option \<Rightarrow> http_request \<Rightarrow> string \<Rightarrow> 'r \<Rightarrow> api_error option \<times> 'r" where
  "checkRateLimit lm req endpoint r =
    (case lm of
       None \<Rightarrow> (None, r)
     | Some l \<Rightarrow>
       (case AllowWithIP l (rq_ip req) endpoint r of
          (Inl _, r) \<Rightarrow> (None, r)
        | (Inr allowed, r) \<Rightarrow> (if allowed then None else Some too_many, r)))"

text \<open>Where guessing a credential is the risk, it does not.\<close>

definition checkRateLimitStrict :: "'r limiter option \<Rightarrow> http_request \<Rightarrow> string \<Rightarrow> 'r \<Rightarrow> api_error option \<times> 'r" where
  "checkRateLimitStrict lm req endpoint r =
    (case lm of
       None \<Rightarrow> (None, r)
     | Some l \<Rightarrow>
       (case AllowWithIP l (rq_ip req) endpoint r of
          (Inl _, r) \<Rightarrow> (Some (NewClientError 503 ''service temporarily unavailable, please try again later''), r)
        | (Inr allowed, r) \<Rightarrow> (if allowed then None else Some too_many, r)))"

text \<open>The operations of administrators are counted per user.\<close>

definition admin_limit :: "'r limiter option \<Rightarrow> string \<Rightarrow> 'r \<Rightarrow> api_error option \<times> 'r" where
  "admin_limit lm user r =
    (case lm of
       None \<Rightarrow> (None, r)
     | Some l \<Rightarrow>
       (case AllowWithUser l user ''admin'' r of
          (Inl _, r) \<Rightarrow> (None, r)
        | (Inr allowed, r) \<Rightarrow> (if allowed then None else Some (NewClientError 429 ''too many requests, please slow down''), r)))"

end
