(* ===== verification/Api_Limits_Facts.thy ===== *)
theory Api_Limits_Facts
  imports Api_Limits
begin

text \<open>
  What a limiter promises, as a locale over any limiter and whatever else happens around it: an attempt that is
  granted opens a window or takes one of its places, and a live window is never forgotten. From that
  follows how many attempts a period can grant. The locale is interpreted on the limiter in
  memory and on any number of processes that share the table.
\<close>

section \<open>Runs\<close>

text \<open>A run is a list of events; a condition may hold at each of them, and some grant an attempt.\<close>

fun all_along :: "('a \<Rightarrow> 'r \<Rightarrow> 'r) \<Rightarrow> ('a \<Rightarrow> 'r \<Rightarrow> bool) \<Rightarrow> 'r \<Rightarrow> 'a list \<Rightarrow> bool" where
  "all_along step P r [] = True"
| "all_along step P r (a # as) = (P a r \<and> all_along step P (step a r) as)"

fun count_along :: "('a \<Rightarrow> 'r \<Rightarrow> 'r) \<Rightarrow> ('a \<Rightarrow> 'r \<Rightarrow> bool) \<Rightarrow> 'r \<Rightarrow> 'a list \<Rightarrow> int" where
  "count_along step P r [] = 0"
| "count_along step P r (a # as) = (if P a r then 1 else 0) + count_along step P (step a r) as"

section \<open>Windows of attempts\<close>

text \<open>\<open>book\<close> is the end of the window of one identifier and the places taken in it; \<open>fine s\<close> says
  that an event is harmless to a period that starts at \<open>s\<close>.\<close>

locale window_counter =
  fixes step :: "'a \<Rightarrow> 'r \<Rightarrow> 'r"
    and asks :: "'a \<Rightarrow> bool"
    and granted :: "'a \<Rightarrow> 'r \<Rightarrow> bool"
    and clock :: "'a \<Rightarrow> 'r \<Rightarrow> gotime"
    and book :: "'r \<Rightarrow> (gotime \<times> int) option"
    and cfg :: rate_limit
    and ok :: "'r \<Rightarrow> bool"
    and fine :: "gotime \<Rightarrow> 'a \<Rightarrow> 'r \<Rightarrow> bool"
  assumes keeps: "ok r \<Longrightarrow> fine s a r \<Longrightarrow> ok (step a r)"
    and places: "ok r \<Longrightarrow> book r = Some (t, n) \<Longrightarrow> 1 \<le> n \<and> n \<le> rl_max cfg"
    and grant_asks: "granted a r \<Longrightarrow> asks a"
    and opens: "ok r \<Longrightarrow> fine s a r \<Longrightarrow> granted a r \<Longrightarrow> (\<And>t n. book r = Some (t, n) \<Longrightarrow> t < clock a r) \<Longrightarrow>
      book (step a r) = Some (clock a r + rl_window cfg, 1)"
    and takes: "ok r \<Longrightarrow> fine s a r \<Longrightarrow> granted a r \<Longrightarrow> book r = Some (t, n) \<Longrightarrow> \<not> t < clock a r \<Longrightarrow>
      n < rl_max cfg \<and> book (step a r) = Some (t, n + 1)"
    and remembers: "ok r \<Longrightarrow> fine s a r \<Longrightarrow> \<not> granted a r \<Longrightarrow>
      book (step a r) = book r \<or> (\<exists>t n. book r = Some (t, n) \<and> t < s \<and> book (step a r) = None)"

text \<open>The attempts a period of one window's length that starts at \<open>s\<close> can still grant.\<close>

definition budget :: "rate_limit \<Rightarrow> gotime \<Rightarrow> (gotime \<times> int) option \<Rightarrow> int" where
  "budget cfg s b =
    (case b of
       None \<Rightarrow> rl_max cfg
     | Some (t, n) \<Rightarrow>
       if s + rl_window cfg \<le> t then rl_max cfg - n
       else if t < s then rl_max cfg
       else 2 * rl_max cfg - n)"

text \<open>An event of that period: harmless, and an attempt on the identifier falls into it.\<close>

definition in_period :: "rate_limit \<Rightarrow> (gotime \<Rightarrow> 'a \<Rightarrow> 'r \<Rightarrow> bool) \<Rightarrow> ('a \<Rightarrow> bool) \<Rightarrow> ('a \<Rightarrow> 'r \<Rightarrow> gotime) \<Rightarrow> gotime \<Rightarrow>
    'a \<Rightarrow> 'r \<Rightarrow> bool" where
  "in_period cfg fine asks time_of s a r = (fine s a r \<and> (asks a \<longrightarrow> s \<le> time_of a r \<and> time_of a r \<le> s + rl_window cfg))"

context window_counter
begin

abbreviation inside :: "gotime \<Rightarrow> 'a \<Rightarrow> 'r \<Rightarrow> bool" where
  "inside \<equiv> in_period cfg fine asks clock"

lemma budget_nonneg:
  assumes "ok r" "0 \<le> rl_max cfg"
  shows "0 \<le> budget cfg s (book r)"
  using assms places [OF assms(1)] by (fastforce simp: budget_def split: option.splits prod.splits)

lemma budget_step:
  assumes o: "ok r" and w: "inside s a r" and m: "0 \<le> rl_max cfg" "0 \<le> rl_window cfg"
  shows "(if granted a r then 1 else 0) + budget cfg s (book (step a r)) \<le> budget cfg s (book r)"
proof (cases "granted a r")
  case True
  have f: "fine s a r" and c: "s \<le> clock a r" "clock a r \<le> s + rl_window cfg"
    using w grant_asks [OF True] by (auto simp: in_period_def)
  show ?thesis
  proof (cases "book r")
    case None
    with opens [OF o f True] True c show ?thesis by (simp add: budget_def)
  next
    case (Some b)
    obtain t n where b: "b = (t, n)" by (cases b)
    have n: "1 \<le> n" "n \<le> rl_max cfg" using places [OF o] Some b by auto
    show ?thesis
    proof (cases "t < clock a r")
      case True
      have "book (step a r) = Some (clock a r + rl_window cfg, 1)"
        by (rule opens [OF o f \<open>granted a r\<close>]) (use Some b True in auto)
      with Some b \<open>granted a r\<close> True c n show ?thesis by (simp add: budget_def)
    next
      case False
      from takes [OF o f \<open>granted a r\<close> Some [unfolded b] False] Some b \<open>granted a r\<close> False c n
      show ?thesis by (auto simp: budget_def)
    qed
  qed
next
  case False
  have f: "fine s a r" using w by (simp add: in_period_def)
  from remembers [OF o f False] False m show ?thesis by (auto simp: budget_def)
qed

lemma budget_along:
  assumes "ok r" "all_along step (inside s) r as" "0 \<le> rl_max cfg" "0 \<le> rl_window cfg"
  shows "count_along step granted r as \<le> budget cfg s (book r)"
  using assms
proof (induction as arbitrary: r)
  case Nil
  then show ?case by (simp add: budget_nonneg)
next
  case (Cons a as)
  then have "inside s a r" "all_along step (inside s) (step a r) as" by simp_all
  moreover from this have "ok (step a r)" unfolding in_period_def by (blast intro: keeps [OF Cons.prems(1)])
  ultimately show ?case
    using Cons.IH [of "step a r"] budget_step [OF Cons.prems(1), of s a] Cons.prems(3,4) by simp
qed

text \<open>One less than twice the limit in any such period; the limit itself when no window reaches into it.\<close>

lemma period_limit:
  assumes "ok r" "all_along step (inside s) r as" "1 \<le> rl_max cfg" "0 \<le> rl_window cfg"
  shows "count_along step granted r as \<le> 2 * rl_max cfg - 1"
    and "(\<And>t n. book r = Some (t, n) \<Longrightarrow> t < s) \<Longrightarrow> count_along step granted r as \<le> rl_max cfg"
proof -
  have m: "0 \<le> rl_max cfg" using assms(3) by simp
  note b = budget_along [OF assms(1,2) m assms(4)]
  have "budget cfg s (book r) \<le> 2 * rl_max cfg - 1"
    using places [OF assms(1)] assms(3) by (fastforce simp: budget_def split: option.splits prod.splits)
  with b show "count_along step granted r as \<le> 2 * rl_max cfg - 1" by linarith
  assume "\<And>t n. book r = Some (t, n) \<Longrightarrow> t < s"
  then have "budget cfg s (book r) = rl_max cfg"
    using assms(4) by (fastforce simp: budget_def split: option.splits prod.splits)
  with b show "count_along step granted r as \<le> rl_max cfg" by linarith
qed

end

section \<open>Identifiers\<close>

text \<open>No name of an endpoint holds the separator's sign, so the last one splits an identifier.\<close>

definition plain_name :: "string \<Rightarrow> bool" where
  "plain_name e = (CHR ''#'' \<notin> set e)"

lemma attempt_id_inj:
  assumes "plain_name e" "plain_name e'"
  shows "attempt_id k e = attempt_id k' e' \<longleftrightarrow> k = k' \<and> e = e'"
proof
  have tail: "takeWhile (\<lambda>c. c \<noteq> CHR ''#'') (rev (attempt_id q f)) = rev f" if "plain_name f" for q f
    using that by (simp add: attempt_id_def plain_name_def takeWhile_append takeWhile_eq_all_conv)
  assume i: "attempt_id k e = attempt_id k' e'"
  then have "rev e = rev e'" using tail [OF assms(1), of k] tail [OF assms(2), of k'] by simp
  with i show "k = k' \<and> e = e'" by (simp add: attempt_id_def)
qed simp

section \<open>The limiter in memory\<close>

type_synonym attempt = "string \<times> string"

definition mem_step :: "mem_env \<Rightarrow> attempt \<Rightarrow> mem_limiter \<Rightarrow> mem_limiter" where
  "mem_step env a rl = (case snd (mem_Allow env (fst a) (snd a) (Some rl)) of None \<Rightarrow> rl | Some rl \<Rightarrow> rl)"

definition mem_granted :: "mem_env \<Rightarrow> attempt \<Rightarrow> mem_limiter \<Rightarrow> bool" where
  "mem_granted env a rl = (fst (mem_Allow env (fst a) (snd a) (Some rl)) = Inr True)"

definition mem_time :: "mem_env \<Rightarrow> attempt \<Rightarrow> mem_limiter \<Rightarrow> gotime" where
  "mem_time env a rl = me_now env (ml_ticks rl)"

definition mem_book :: "string \<Rightarrow> mem_limiter \<Rightarrow> (gotime \<times> int) option" where
  "mem_book i rl = map_option (\<lambda>e. (at_reset e, at_count e)) (map_of (ml_attempts rl) i)"

definition mem_ok :: "(string \<rightharpoonup> rate_limit) \<Rightarrow> string \<Rightarrow> string \<Rightarrow> mem_limiter \<Rightarrow> bool" where
  "mem_ok L k e rl \<longleftrightarrow> ml_limits rl = L \<and> plain_name e \<and> 1 \<le> rl_max (configFor L e) \<and>
     (case mem_book (attempt_id k e) rl of None \<Rightarrow> True | Some (t, n) \<Rightarrow> 1 \<le> n \<and> n \<le> rl_max (configFor L e))"

definition roomy :: "gotime \<Rightarrow> attempt \<Rightarrow> mem_limiter \<Rightarrow> bool" where
  "roomy s a rl \<longleftrightarrow> plain_name (snd a) \<and> length (ml_attempts rl) < inMemoryRateLimitMaxEntries"

lemma mem_step_roomy:
  assumes "length (ml_attempts rl) < inMemoryRateLimitMaxEntries"
  shows "mem_step env (k, e) rl = rl\<lparr>ml_attempts := AList.update (attempt_id k e)
      (snd (mem_attempt (configFor (ml_limits rl) e) (me_now env (ml_ticks rl)) (map_of (ml_attempts rl) (attempt_id k e)))) (ml_attempts rl),
      ml_ticks := Suc (ml_ticks rl)\<rparr>"
    and "mem_granted env (k, e) rl \<longleftrightarrow>
      fst (mem_attempt (configFor (ml_limits rl) e) (me_now env (ml_ticks rl)) (map_of (ml_attempts rl) (attempt_id k e)))"
  using assms by (simp_all add: mem_step_def mem_granted_def mem_Allow_def evictIfAtCap_def Let_def split: prod.splits)

lemma mem_book_step:
  assumes "length (ml_attempts rl) < inMemoryRateLimitMaxEntries"
  shows "mem_book i (mem_step env (k, e) rl) =
    (if i = attempt_id k e then map_option (\<lambda>e. (at_reset e, at_count e))
        (Some (snd (mem_attempt (configFor (ml_limits rl) e) (me_now env (ml_ticks rl)) (map_of (ml_attempts rl) i))))
     else mem_book i rl)"
  by (simp add: mem_step_roomy [OF assms] mem_book_def update_conv')

interpretation mem: window_counter "mem_step env" "\<lambda>a. a = (k, e)"
  "\<lambda>a rl. a = (k, e) \<and> mem_granted env a rl" "mem_time env" "mem_book (attempt_id k e)" "configFor L e" "mem_ok L k e" roomy
  for env k e L
proof (unfold_locales, goal_cases)
  case (1 rl s a)
  obtain k' e' where a: "a = (k', e')" by (cases a)
  have r: "length (ml_attempts rl) < inMemoryRateLimitMaxEntries" "plain_name e'" using 1(2) a by (simp_all add: roomy_def)
  have l: "ml_limits (mem_step env a rl) = ml_limits rl" by (simp add: a mem_step_roomy(1) [OF r(1)])
  from 1(1) show ?case
    unfolding mem_ok_def a mem_book_step [OF r(1)] l [unfolded a]
    by (auto simp: mem_attempt_def mem_book_def attempt_id_inj r(2) split: option.splits if_splits)
next
  case (2 rl t n)
  then show ?case by (auto simp: mem_ok_def)
next
  case (3 a rl)
  then show ?case by simp
next
  case (4 rl s a)
  then have r: "length (ml_attempts rl) < inMemoryRateLimitMaxEntries" "ml_limits rl = L" by (simp_all add: roomy_def mem_ok_def)
  have a: "a = (k, e)" using 4(3) by simp
  from 4(4) r(2) show ?case
    unfolding a mem_book_step [OF r(1)]
    by (auto simp: mem_attempt_def mem_book_def mem_time_def split: option.splits)
next
  case (5 rl s a t n)
  then have r: "length (ml_attempts rl) < inMemoryRateLimitMaxEntries" "ml_limits rl = L" by (simp_all add: roomy_def mem_ok_def)
  have a: "a = (k, e)" using 5(3) by simp
  from 5(3-5) r(2) show ?case
    unfolding a mem_book_step [OF r(1)]
    by (auto simp: mem_step_roomy(2) [OF r(1)] mem_attempt_def mem_book_def mem_time_def split: if_splits)
next
  case (6 rl s a)
  obtain k' e' where a: "a = (k', e')" by (cases a)
  have r: "length (ml_attempts rl) < inMemoryRateLimitMaxEntries" "plain_name e'" using 6(2) a by (simp_all add: roomy_def)
  from 6(1,3) show ?case
    unfolding a mem_book_step [OF r(1)]
    by (auto simp: mem_step_roomy(2) [OF r(1)] mem_attempt_def mem_book_def mem_ok_def attempt_id_inj r(2) split: option.splits if_splits)
qed

section \<open>Processes that share the table\<close>

text \<open>Any number of processes, each with its own limiter and clock, and the table: an attempt in one of them, or
  a cleaning, by the task an attempt has started or by the worker.\<close>

record cluster =
  cl_limiters :: "nat \<Rightarrow> db_limiter"
  cl_table :: rate_table

datatype cluster_event = Ask nat string string | Tidy nat | Tick nat

fun cluster_step :: "(nat \<Rightarrow> rate_env) \<Rightarrow> cluster_event \<Rightarrow> cluster \<Rightarrow> cluster" where
  "cluster_step envs (Ask n k e) c =
    (case snd (db_Allow (envs n) k e (Some (cl_limiters c n), cl_table c)) of
       (None, t) \<Rightarrow> c\<lparr>cl_table := t\<rparr>
     | (Some rl, t) \<Rightarrow> c\<lparr>cl_limiters := (cl_limiters c)(n := rl), cl_table := t\<rparr>)"
| "cluster_step envs (Tidy n) c =
    (case cleanup_task (envs n) (cl_limiters c n, cl_table c) of
       (rl, t) \<Rightarrow> c\<lparr>cl_limiters := (cl_limiters c)(n := rl), cl_table := t\<rparr>)"
| "cluster_step envs (Tick n) c = c\<lparr>cl_table := cleanup (envs n) (cl_limiters c n) (cl_table c)\<rparr>"

fun cluster_asks :: "string \<Rightarrow> string \<Rightarrow> cluster_event \<Rightarrow> bool" where
  "cluster_asks k e (Ask n k' e') = (k' = k \<and> e' = e)"
| "cluster_asks k e (Tidy n) = False"
| "cluster_asks k e (Tick n) = False"

fun cluster_granted :: "(nat \<Rightarrow> rate_env) \<Rightarrow> string \<Rightarrow> string \<Rightarrow> cluster_event \<Rightarrow> cluster \<Rightarrow> bool" where
  "cluster_granted envs k e (Ask n k' e') c =
    (k' = k \<and> e' = e \<and> fst (db_Allow (envs n) k e (Some (cl_limiters c n), cl_table c)) = Inr True)"
| "cluster_granted envs k e (Tidy n) c = False"
| "cluster_granted envs k e (Tick n) c = False"

text \<open>The clock of the process for an attempt, that of the server for a cleaning.\<close>

fun cluster_time :: "(nat \<Rightarrow> rate_env) \<Rightarrow> cluster_event \<Rightarrow> cluster \<Rightarrow> gotime" where
  "cluster_time envs (Ask n k e) c = re_now (envs n) (dl_ticks (cl_limiters c n))"
| "cluster_time envs (Tidy n) c = re_db_now (envs n) (Suc (rd_statements (cl_table c)))"
| "cluster_time envs (Tick n) c = re_db_now (envs n) (Suc (rd_statements (cl_table c)))"

fun cluster_fine :: "(nat \<Rightarrow> rate_env) \<Rightarrow> gotime \<Rightarrow> cluster_event \<Rightarrow> cluster \<Rightarrow> bool" where
  "cluster_fine envs s (Ask n k e) c = plain_name e"
| "cluster_fine envs s (Tidy n) c = (cluster_time envs (Tidy n) c \<le> s + day_ns)"
| "cluster_fine envs s (Tick n) c = (cluster_time envs (Tick n) c \<le> s + day_ns)"

definition row_book :: "int \<Rightarrow> string \<Rightarrow> (string \<rightharpoonup> rate_row) \<Rightarrow> (gotime \<times> int) option" where
  "row_book limit i rows = map_option (\<lambda>r. (rt_reset r, min (rt_count r) limit)) (rows i)"

definition cluster_book :: "int \<Rightarrow> string \<Rightarrow> cluster \<Rightarrow> (gotime \<times> int) option" where
  "cluster_book limit i c = row_book limit i (rd_rows (cl_table c))"

definition same_limits :: "(string \<rightharpoonup> rate_limit) \<Rightarrow> cluster \<Rightarrow> bool" where
  "same_limits L c \<longleftrightarrow> (\<forall>n. dl_pool (cl_limiters c n) \<and> dl_limits (cl_limiters c n) = L)"

definition row_counted :: "string \<Rightarrow> cluster \<Rightarrow> bool" where
  "row_counted i c \<longleftrightarrow> (case rd_rows (cl_table c) i of None \<Rightarrow> True | Some r \<Rightarrow> 1 \<le> rt_count r)"

definition cluster_ok :: "(string \<rightharpoonup> rate_limit) \<Rightarrow> string \<Rightarrow> string \<Rightarrow> cluster \<Rightarrow> bool" where
  "cluster_ok L k e c \<longleftrightarrow> same_limits L c \<and> row_counted (attempt_id k e) c \<and> plain_name e \<and> 1 \<le> rl_max (configFor L e)"

text \<open>One attempt on the table, with the limiter it leaves.\<close>

lemma maybeCleanup_keeps [simp]: "dl_pool (maybeCleanup env rl) = dl_pool rl" "dl_limits (maybeCleanup env rl) = dl_limits rl"
  by (simp_all add: maybeCleanup_def db_clock_def)

lemma db_Allow_cases:
  assumes "dl_pool rl"
  obtains err rl' t' where "db_Allow env k e (Some rl, t) = (Inl err, Some rl', t')"
      "dl_pool rl'" "dl_limits rl' = dl_limits rl" "rd_rows t' = rd_rows t"
  | n reset rl' t' t1 where "db_Allow env k e (Some rl, t) = (Inr (n \<le> rl_max (configFor (dl_limits rl) e)), Some rl', t')"
      "dl_pool rl'" "dl_limits rl' = dl_limits rl" "re_fault env (rd_statements t) = None"
      "t1 = t\<lparr>rd_statements := Suc (rd_statements t)\<rparr>"
      "upsert_attempt (attempt_id k e) (re_now env (dl_ticks rl) + rl_window (configFor (dl_limits rl) e)) (re_now env (dl_ticks rl)) t1 =
        Inr (t', n, reset)"
proof (cases "re_fault env (rd_statements t)")
  case (Some err)
  show ?thesis
    by (rule that(1) [of _ "rl\<lparr>dl_ticks := Suc (dl_ticks rl)\<rparr>" "t\<lparr>rd_statements := Suc (rd_statements t)\<rparr>"])
      (use assms Some in \<open>auto simp: db_Allow_def db_clock_def rate_stmt_def Let_def\<close>)
next
  case None
  let ?t = "t\<lparr>rd_statements := Suc (rd_statements t)\<rparr>"
  let ?r = "upsert_attempt (attempt_id k e) (re_now env (dl_ticks rl) + rl_window (configFor (dl_limits rl) e)) (re_now env (dl_ticks rl)) ?t"
  show ?thesis
  proof (cases ?r)
    case (Inl err)
    show ?thesis
      by (rule that(1) [of _ "rl\<lparr>dl_ticks := Suc (dl_ticks rl)\<rparr>" ?t]) (use assms None Inl in \<open>auto simp: db_Allow_def db_clock_def rate_stmt_def Let_def\<close>)
  next
    case (Inr q)
    obtain t' n reset where "q = (t', n, reset)" by (cases q)
    let ?rl = "rl\<lparr>dl_ticks := Suc (dl_ticks rl)\<rparr>"
    from \<open>q = (t', n, reset)\<close> assms None Inr show ?thesis
      by (intro that(2) [of n "if n \<le> rl_max (configFor (dl_limits rl) e) \<and> n = 1 then maybeCleanup env ?rl else ?rl" t' ?t reset])
        (auto simp: db_Allow_def db_clock_def rate_stmt_def Let_def)
  qed
qed

lemma upsert_Inr:
  assumes "upsert_attempt i reset now t = Inr (t', n, z)"
  obtains r where "rd_rows t' = (rd_rows t)(i \<mapsto> r)" "rt_count r = n"
    "(case rd_rows t i of
        None \<Rightarrow> n = 1 \<and> rt_reset r = reset
      | Some q \<Rightarrow> if rt_reset q < now then n = 1 \<and> rt_reset r = reset else n = rt_count q + 1 \<and> rt_reset r = rt_reset q)"
proof (cases "rd_rows t i")
  case None
  show ?thesis
    by (rule that [of "\<lparr>rt_count = 1, rt_reset = reset, rt_created = now, rt_updated = now\<rparr>"])
      (use assms None in \<open>auto simp: upsert_attempt_def\<close>)
next
  case (Some q)
  show ?thesis
    by (rule that [of "q\<lparr>rt_count := n, rt_reset := (if rt_reset q < now then reset else rt_reset q), rt_updated := now\<rparr>"])
      (use assms Some in \<open>auto simp: upsert_attempt_def Let_def split: if_splits\<close>)
qed

lemma row_book_step:
  assumes "upsert_attempt i (now + w) now t = Inr (t', n, z)" "1 \<le> m"
    and "case rd_rows t i of None \<Rightarrow> True | Some r \<Rightarrow> 1 \<le> rt_count r"
  shows "row_book m i (rd_rows t') =
      (case row_book m i (rd_rows t) of
         None \<Rightarrow> Some (now + w, 1)
       | Some (r, p) \<Rightarrow> if r < now then Some (now + w, 1) else Some (r, min (p + 1) m))"
    and "case row_book m i (rd_rows t) of None \<Rightarrow> n = 1 | Some (r, p) \<Rightarrow> if r < now then n = 1 else (n \<le> m \<longleftrightarrow> p < m)"
    and "j \<noteq> i \<Longrightarrow> rd_rows t' j = rd_rows t j"
    and "case rd_rows t' i of None \<Rightarrow> False | Some r \<Rightarrow> 1 \<le> rt_count r"
proof -
  obtain r where r: "rd_rows t' = (rd_rows t)(i \<mapsto> r)" "rt_count r = n"
    "(case rd_rows t i of
        None \<Rightarrow> n = 1 \<and> rt_reset r = now + w
      | Some q \<Rightarrow> if rt_reset q < now then n = 1 \<and> rt_reset r = now + w else n = rt_count q + 1 \<and> rt_reset r = rt_reset q)"
    by (rule upsert_Inr [OF assms(1)])
  show "row_book m i (rd_rows t') =
      (case row_book m i (rd_rows t) of
         None \<Rightarrow> Some (now + w, 1)
       | Some (r, p) \<Rightarrow> if r < now then Some (now + w, 1) else Some (r, min (p + 1) m))"
    "case row_book m i (rd_rows t) of None \<Rightarrow> n = 1 | Some (r, p) \<Rightarrow> if r < now then n = 1 else (n \<le> m \<longleftrightarrow> p < m)"
    "case rd_rows t' i of None \<Rightarrow> False | Some r \<Rightarrow> 1 \<le> rt_count r"
    using r(2,3) assms(2,3) by (auto simp: row_book_def r(1) split: option.splits if_splits)
  show "rd_rows t' j = rd_rows t j" if "j \<noteq> i" using that by (simp add: r(1))
qed

lemma same_limits_upd:
  assumes "same_limits L c" "dl_pool rl" "dl_limits rl = L"
  shows "same_limits L (c\<lparr>cl_limiters := (cl_limiters c)(n := rl), cl_table := t\<rparr>)"
  using assms by (simp add: same_limits_def)

text \<open>What an event does to the row of one identifier.\<close>

lemma ask_step:
  fixes envs :: "nat \<Rightarrow> rate_env" and n :: nat
  assumes s: "same_limits L c" and q: "row_counted i c" "1 \<le> rl_max (configFor L e)" "i = attempt_id k e"
  defines "now \<equiv> cluster_time envs (Ask n k e) c" and "b \<equiv> cluster_book (rl_max (configFor L e)) i c"
    and "c' \<equiv> cluster_step envs (Ask n k e) c"
  shows "same_limits L c'" "row_counted i c'"
    and "cluster_granted envs k e (Ask n k e) c \<Longrightarrow>
      cluster_book (rl_max (configFor L e)) i c' =
        (case b of None \<Rightarrow> Some (now + rl_window (configFor L e), 1)
         | Some (r, p) \<Rightarrow> if r < now then Some (now + rl_window (configFor L e), 1) else Some (r, p + 1)) \<and>
      (case b of None \<Rightarrow> True | Some (r, p) \<Rightarrow> r < now \<or> p < rl_max (configFor L e))"
    and "\<not> cluster_granted envs k e (Ask n k e) c \<Longrightarrow> cluster_book (rl_max (configFor L e)) i c' = b"
proof -
  have p: "dl_pool (cl_limiters c n)" "dl_limits (cl_limiters c n) = L" using s by (simp_all add: same_limits_def)
  have all: "same_limits L c' \<and> row_counted i c' \<and>
    (if cluster_granted envs k e (Ask n k e) c
     then cluster_book (rl_max (configFor L e)) i c' =
        (case b of None \<Rightarrow> Some (now + rl_window (configFor L e), 1)
         | Some (r, p) \<Rightarrow> if r < now then Some (now + rl_window (configFor L e), 1) else Some (r, p + 1)) \<and>
      (case b of None \<Rightarrow> True | Some (r, p) \<Rightarrow> r < now \<or> p < rl_max (configFor L e))
     else cluster_book (rl_max (configFor L e)) i c' = b)"
  proof (cases rule: db_Allow_cases [OF p(1), of "envs n" k e "cl_table c", case_names failed counted])
    case (failed err rl' t')
    then have "c' = c\<lparr>cl_limiters := (cl_limiters c)(n := rl'), cl_table := t'\<rparr>" by (simp add: c'_def)
    with failed q(1) p s show ?thesis by (simp add: same_limits_upd row_counted_def cluster_book_def row_book_def b_def)
  next
    case (counted m reset rl' t' t1)
    have c: "c' = c\<lparr>cl_limiters := (cl_limiters c)(n := rl'), cl_table := t'\<rparr>" using counted(1) by (simp add: c'_def)
    have u: "upsert_attempt i (now + rl_window (configFor L e)) now t1 = Inr (t', m, reset)"
      using counted(6) by (simp add: q(3) now_def p(2))
    have r: "case rd_rows t1 i of None \<Rightarrow> True | Some r \<Rightarrow> 1 \<le> rt_count r" using q(1) by (simp add: counted(5) row_counted_def)
    note st = row_book_step [OF u q(2) r, unfolded counted(5), simplified]
    have g: "cluster_granted envs k e (Ask n k e) c \<longleftrightarrow> m \<le> rl_max (configFor L e)" using counted(1) by (simp add: p(2))
    have "same_limits L c'" using counted(2,3) p s by (simp add: c same_limits_upd)
    moreover have "row_counted i c'" using st(4) by (auto simp: c row_counted_def split: option.splits)
    moreover have "cluster_book (rl_max (configFor L e)) i c' =
        (case b of None \<Rightarrow> Some (now + rl_window (configFor L e), 1)
         | Some (r, p) \<Rightarrow> if r < now then Some (now + rl_window (configFor L e), 1) else Some (r, min (p + 1) (rl_max (configFor L e))))"
      using st(1) by (simp add: c cluster_book_def b_def)
    moreover have "case b of None \<Rightarrow> m = 1 | Some (r, p) \<Rightarrow> if r < now then m = 1 else (m \<le> rl_max (configFor L e) \<longleftrightarrow> p < rl_max (configFor L e))"
      using st(2) by (simp add: cluster_book_def b_def)
    moreover have "case b of None \<Rightarrow> True | Some (r, p) \<Rightarrow> p \<le> rl_max (configFor L e)"
      by (auto simp: b_def cluster_book_def row_book_def split: option.splits)
    ultimately show ?thesis using q(2) by (auto simp: g simp del: cluster_granted.simps split: option.splits prod.splits if_splits)
  qed
  show "same_limits L c'" "row_counted i c'" using all by blast+
  show "cluster_book (rl_max (configFor L e)) i c' =
        (case b of None \<Rightarrow> Some (now + rl_window (configFor L e), 1)
         | Some (r, p) \<Rightarrow> if r < now then Some (now + rl_window (configFor L e), 1) else Some (r, p + 1)) \<and>
      (case b of None \<Rightarrow> True | Some (r, p) \<Rightarrow> r < now \<or> p < rl_max (configFor L e))"
    if "cluster_granted envs k e (Ask n k e) c" using all that by (simp only: if_True)
  show "cluster_book (rl_max (configFor L e)) i c' = b" if "\<not> cluster_granted envs k e (Ask n k e) c"
    using all that by (simp only: if_False)
qed

lemma ask_frame:
  assumes "same_limits L c"
  shows "same_limits L (cluster_step envs (Ask n k e) c)"
    and "j \<noteq> attempt_id k e \<Longrightarrow> rd_rows (cl_table (cluster_step envs (Ask n k e) c)) j = rd_rows (cl_table c) j"
proof -
  have p: "dl_pool (cl_limiters c n)" "dl_limits (cl_limiters c n) = L" using assms by (simp_all add: same_limits_def)
  have "same_limits L (cluster_step envs (Ask n k e) c) \<and>
    (j \<noteq> attempt_id k e \<longrightarrow> rd_rows (cl_table (cluster_step envs (Ask n k e) c)) j = rd_rows (cl_table c) j)"
  proof (cases rule: db_Allow_cases [OF p(1), of "envs n" k e "cl_table c", case_names failed counted])
    case (failed err rl' t')
    with p assms show ?thesis by (simp add: same_limits_upd)
  next
    case (counted m reset rl' t' t1)
    obtain r where "rd_rows t' = (rd_rows t1)(attempt_id k e \<mapsto> r)" by (rule upsert_Inr [OF counted(6)])
    with counted p assms show ?thesis by (simp add: same_limits_upd)
  qed
  then show "same_limits L (cluster_step envs (Ask n k e) c)"
    "j \<noteq> attempt_id k e \<Longrightarrow> rd_rows (cl_table (cluster_step envs (Ask n k e) c)) j = rd_rows (cl_table c) j" by blast+
qed

lemma tidy_rows:
  assumes "re_db_now env (Suc (rd_statements t)) \<le> s + day_ns"
  shows "rd_rows (cleanup env rl t) i = rd_rows t i \<or>
    (\<exists>r. rd_rows t i = Some r \<and> rt_reset r < s \<and> rd_rows (cleanup env rl t) i = None)"
  using assms by (auto simp: cleanup_def rate_stmt_def cleanup_rows_def Let_def split: option.splits)

text \<open>A cleaning, as long as the server's clock is at most a day ahead of the period.\<close>

lemma clean_step:
  assumes o: "cluster_ok L k e c" and f: "cluster_fine envs s a c" and a: "a = Tidy n \<or> a = Tick n"
  defines "B \<equiv> cluster_book (rl_max (configFor L e)) (attempt_id k e)"
  shows "cluster_ok L k e (cluster_step envs a c) \<and>
    (B (cluster_step envs a c) = B c \<or> (\<exists>t m. B c = Some (t, m) \<and> t < s \<and> B (cluster_step envs a c) = None))"
proof -
  have t: "cl_table (cluster_step envs a c) = cleanup (envs n) (cl_limiters c n) (cl_table c)"
    using a by (auto simp: cleanup_task_def)
  have l: "same_limits L (cluster_step envs a c)"
    using a o by (auto simp: cleanup_task_def cluster_ok_def same_limits_def)
  from tidy_rows [of "envs n" "cl_table c" s "cl_limiters c n" "attempt_id k e"] f a
  consider "rd_rows (cl_table (cluster_step envs a c)) (attempt_id k e) = rd_rows (cl_table c) (attempt_id k e)"
    | r where "rd_rows (cl_table c) (attempt_id k e) = Some r" "rt_reset r < s"
        "rd_rows (cl_table (cluster_step envs a c)) (attempt_id k e) = None"
    by (auto simp: t)
  then show ?thesis
    using o l by cases (auto simp: cluster_ok_def row_counted_def B_def cluster_book_def row_book_def)
qed

interpretation db: window_counter "cluster_step envs" "cluster_asks k e" "cluster_granted envs k e" "cluster_time envs"
  "cluster_book (rl_max (configFor L e)) (attempt_id k e)" "configFor L e" "cluster_ok L k e" "cluster_fine envs"
  for envs k e L
proof (unfold_locales, goal_cases)
  case (1 c s a)
  show ?case
  proof (cases a)
    case (Ask n k' e')
    have "cluster_ok L k e (cluster_step envs (Ask n k' e') c)"
    proof (cases "k' = k \<and> e' = e")
      case True
      with 1(1) ask_step(1,2) [where envs = envs and n = n and L = L and c = c and k = k and e = e and i = "attempt_id k e"] show ?thesis by (simp add: cluster_ok_def)
    next
      case False
      with 1 Ask have "attempt_id k e \<noteq> attempt_id k' e'" by (auto simp: attempt_id_inj cluster_ok_def)
      with 1(1) ask_frame [where envs = envs and n = n and L = L and c = c and k = k' and e = e'] show ?thesis by (simp add: cluster_ok_def row_counted_def)
    qed
    with Ask show ?thesis by simp
  qed (use clean_step [OF 1] in blast)+
next
  case (2 c t n)
  then show ?case by (auto simp: cluster_ok_def row_counted_def cluster_book_def row_book_def)
next
  case (3 a c)
  then show ?case by (cases a) auto
next
  case (4 c s a)
  then obtain n where a: "a = Ask n k e" by (cases a) auto
  from ask_step(3) [where envs = envs and n = n and L = L and c = c and k = k and e = e and i = "attempt_id k e"] 4 show ?case
    by (auto simp: a cluster_ok_def simp del: cluster_granted.simps cluster_step.simps cluster_time.simps split: option.splits prod.splits)
next
  case (5 c s a t m)
  then obtain n where a: "a = Ask n k e" by (cases a) auto
  from ask_step(3) [where envs = envs and n = n and L = L and c = c and k = k and e = e and i = "attempt_id k e"] 5 show ?case
    by (auto simp: a cluster_ok_def simp del: cluster_granted.simps cluster_step.simps cluster_time.simps split: option.splits prod.splits)
next
  case (6 c s a)
  show ?case
  proof (cases a)
    case (Ask n k' e')
    show ?thesis
    proof (cases "k' = k \<and> e' = e")
      case True
      with 6 Ask ask_step(4) [where envs = envs and n = n and L = L and c = c and k = k and e = e and i = "attempt_id k e"] show ?thesis
        by (simp add: cluster_ok_def del: cluster_granted.simps cluster_step.simps)
    next
      case False
      with 6 Ask have "attempt_id k e \<noteq> attempt_id k' e'" by (auto simp: attempt_id_inj cluster_ok_def)
      with 6(1) ask_frame [where envs = envs and n = n and L = L and c = c and k = k' and e = e'] Ask show ?thesis by (simp add: cluster_ok_def cluster_book_def row_book_def del: cluster_step.simps)
    qed
  qed (use clean_step [OF 6(1,2)] in blast)+
qed

end
