(* ===== verification/Api_Limits_Props.thy ===== *)
theory Api_Limits_Props
  imports Api_Limits_Facts
begin

text \<open>
  The rate limits: how many attempts a period grants, whichever process takes them, that the memory of
  the limiter stays bounded, and that counting in memory and in the table gives the same answers.
\<close>

section \<open>A period grants so many attempts\<close>

text \<open>C27: Processes that share the table and the limits grant at most one less than twice the maximum of attempts of
  one caller on one endpoint in any period of a window's length, in whatever order the processes serve them and
  the table is cleaned, and at most the maximum if the caller's last window ended before it, provided
  that the server's clock is at most a day ahead. The witness reaches the bound: nine logins within two seconds, where
  five are allowed per quarter of an hour.\<close>

theorem attempts_are_limited:
  assumes "same_limits L c" "row_counted (attempt_id k e) c" "plain_name e"
    and "1 \<le> rl_max (configFor L e)" "0 \<le> rl_window (configFor L e)"
    and "all_along (cluster_step envs) (in_period (configFor L e) (cluster_fine envs) (cluster_asks k e) (cluster_time envs) s) c events"
  shows "count_along (cluster_step envs) (cluster_granted envs k e) c events \<le> 2 * rl_max (configFor L e) - 1 \<and>
    ((case rd_rows (cl_table c) (attempt_id k e) of None \<Rightarrow> True | Some r \<Rightarrow> rt_reset r < s) \<longrightarrow>
      count_along (cluster_step envs) (cluster_granted envs k e) c events \<le> rl_max (configFor L e))"
proof -
  have o: "cluster_ok L k e c" using assms(1-4) by (simp add: cluster_ok_def)
  note b = db.period_limit [OF o assms(6,4,5)]
  have "count_along (cluster_step envs) (cluster_granted envs k e) c events \<le> rl_max (configFor L e)"
    if "case rd_rows (cl_table c) (attempt_id k e) of None \<Rightarrow> True | Some r \<Rightarrow> rt_reset r < s"
    by (rule b(2)) (use that in \<open>auto simp: cluster_book_def row_book_def\<close>)
  with b(1) show ?thesis by blast
qed

definition two_clocks :: "nat \<Rightarrow> rate_env" where
  "two_clocks n = \<lparr>re_now = (\<lambda>_. if n = 0 then 1000 * second_ns else 1002 * second_ns), re_db_now = (\<lambda>_. 1000 * second_ns), re_fault = (\<lambda>_. None)\<rparr>"

definition started :: cluster where
  "started = \<lparr>cl_limiters = (\<lambda>_. NewDBRateLimiter True),
     cl_table = \<lparr>rd_rows = [attempt_id ''IP#a'' ''login'' \<mapsto> \<lparr>rt_count = 1, rt_reset = 1001 * second_ns, rt_created = 0, rt_updated = 0\<rparr>],
       rd_statements = 0\<rparr>\<rparr>"

definition burst :: "cluster_event list" where
  "burst = replicate 5 (Ask 0 ''IP#a'' ''login'') @ [Tick 1] @ replicate 6 (Ask 1 ''IP#a'' ''login'')"

lemma login_limit: "configFor getDefaultRateLimits ''login'' = \<lparr>rl_max = 5, rl_secs = 900, rl_window = 900 * second_ns\<rparr>"
  by code_simp

lemma attempts_are_limited_witness:
  "count_along (cluster_step two_clocks) (cluster_granted two_clocks ''IP#a'' ''login'') started burst = 2 * 5 - 1 \<and>
   count_along (cluster_step two_clocks) (cluster_granted two_clocks ''IP#a'' ''login'') started burst \<le>
     2 * rl_max (configFor getDefaultRateLimits ''login'') - 1"
proof
  show "count_along (cluster_step two_clocks) (cluster_granted two_clocks ''IP#a'' ''login'') started burst = 2 * 5 - 1"
    by code_simp
  have "all_along (cluster_step two_clocks) (in_period (configFor getDefaultRateLimits ''login'') (cluster_fine two_clocks)
      (cluster_asks ''IP#a'' ''login'') (cluster_time two_clocks) (999 * second_ns)) started burst"
    by code_simp
  moreover have "same_limits getDefaultRateLimits started" "row_counted (attempt_id ''IP#a'' ''login'') started"
    by (simp_all add: same_limits_def row_counted_def started_def NewDBRateLimiter_def)
  moreover have "plain_name ''login''" by (simp add: plain_name_def)
  ultimately show "count_along (cluster_step two_clocks) (cluster_granted two_clocks ''IP#a'' ''login'') started burst \<le>
      2 * rl_max (configFor getDefaultRateLimits ''login'') - 1"
    using attempts_are_limited [of getDefaultRateLimits started "''IP#a''" "''login''" two_clocks "999 * second_ns" burst]
    by (simp add: login_limit second_ns_def)
qed

section \<open>The memory stays bounded\<close>

lemma filter_one: "distinct xs \<Longrightarrow> k \<in> set xs \<Longrightarrow> length (filter (\<lambda>i. i \<noteq> k) xs) = length xs - 1"
proof (induction xs)
  case Nil
  then show ?case by simp
next
  case (Cons x xs)
  then show ?case by (cases "x = k") (auto simp: filter_id_conv intro: arg_cong [of _ _ length] Suc_pred length_pos_if_in_set)
qed

lemma evict_loop_eq:
  assumes "distinct (map fst ps)" "fst ` set ps \<subseteq> fst ` set as" "distinct (map fst as)"
  shows "evict_loop target ps as = filter (\<lambda>x. fst x \<notin> fst ` set (take (length as - target) ps)) as"
  using assms
proof (induction ps arbitrary: as)
  case Nil
  then show ?case by simp
next
  case (Cons p ps)
  obtain k t where p: "p = (k, t)" by (cases p)
  show ?case
  proof (cases "length as \<le> target")
    case True
    then show ?thesis by (simp add: p)
  next
    case False
    let ?as = "AList.delete k as"
    have d: "?as = filter (\<lambda>x. fst x \<noteq> k) as" unfolding AList.delete_eq by (rule filter_cong) auto
    have "k \<in> set (map fst as)" using Cons.prems(2) by (simp add: p)
    then have "length (filter (\<lambda>i. i \<noteq> k) (map fst as)) = length as - 1"
      using filter_one [OF Cons.prems(3)] by simp
    then have l: "length ?as = length as - 1" by (simp add: d filter_map comp_def)
    have sub: "fst ` set ps \<subseteq> fst ` set ?as"
    proof
      fix i assume i: "i \<in> fst ` set ps"
      moreover have "k \<notin> fst ` set ps" "fst ` set ps \<subseteq> fst ` set as" using Cons.prems(1,2) by (simp_all add: p)
      ultimately have "i \<noteq> k" "i \<in> fst ` set as" by blast+
      then show "i \<in> fst ` set ?as" unfolding d by auto
    qed
    have "distinct (map fst ?as)" using Cons.prems(3) by (simp add: d distinct_map_filter)
    with sub have "evict_loop target ps ?as = filter (\<lambda>x. fst x \<notin> fst ` set (take (length ?as - target) ps)) ?as"
      using Cons.IH [of ?as] Cons.prems(1) by simp
    moreover have "length as - target = Suc (length ?as - target)" using False l by simp
    ultimately show ?thesis using False by (auto simp: p d intro!: filter_cong)
  qed
qed

lemma filter_not_taken: "distinct xs \<Longrightarrow> filter (\<lambda>i. i \<notin> set (take n xs)) xs = drop n xs"
proof (induction xs arbitrary: n)
  case Nil
  then show ?case by simp
next
  case (Cons x xs)
  then show ?case by (cases n) (auto simp: filter_id_conv intro!: trans [OF filter_cong Cons.IH])
qed

text \<open>What is left after an eviction, and what went: expired entries, or ones no younger than any that stayed.\<close>

lemma evict_facts:
  fixes now :: gotime
  assumes s: "\<And>xs. mset (sorting xs) = mset xs" "\<And>xs. sorted (map snd (sorting xs))"
    and d: "distinct (map fst as)"
  defines "kept \<equiv> evictIfAtCap sorting now as"
  shows "set kept \<subseteq> set as" "distinct (map fst kept)" "length kept < inMemoryRateLimitMaxEntries"
    and "x \<in> set kept \<Longrightarrow> y \<in> set as \<Longrightarrow> y \<notin> set kept \<Longrightarrow> at_reset (snd y) < now \<or> at_reset (snd y) \<le> at_reset (snd x)"
proof -
  let ?live = "filter (\<lambda>(_, e). \<not> at_reset e < now) as"
  let ?ps = "sorting (map (\<lambda>(k, e). (k, at_reset e)) ?live)"
  have all: "set kept \<subseteq> set as \<and> distinct (map fst kept) \<and> length kept < inMemoryRateLimitMaxEntries \<and>
    (x \<in> set kept \<longrightarrow> y \<in> set as \<longrightarrow> y \<notin> set kept \<longrightarrow> at_reset (snd y) < now \<or> at_reset (snd y) \<le> at_reset (snd x))"
  proof (cases "length as < inMemoryRateLimitMaxEntries \<or> length ?live < inMemoryRateLimitMaxEntries")
    case True
    then show ?thesis using d by (auto simp: kept_def evictIfAtCap_def Let_def distinct_map_filter)
  next
    case False
    let ?n = "length ?live - 400"
    have m: "mset ?ps = mset (map (\<lambda>(k, e). (k, at_reset e)) ?live)" by (rule s)
    have ps: "set ?ps = (\<lambda>(k, e). (k, at_reset e)) ` set ?live" using mset_eq_setD [OF m] by simp
    have keys: "mset (map fst ?ps) = mset (map fst ?live)"
      using arg_cong [OF m, of "image_mset fst"] by (simp add: image_mset.compositionality comp_def split_def)
    have dl: "distinct (map fst ?live)" using d by (simp add: distinct_map_filter)
    have dp: "distinct (map fst ?ps)" using keys dl mset_eq_imp_distinct_iff by blast
    have sub: "fst ` set ?ps \<subseteq> fst ` set ?live" using mset_eq_setD [OF keys] by simp
    have k: "kept = filter (\<lambda>x. fst x \<notin> fst ` set (take ?n ?ps)) ?live"
      using False evict_loop_eq [OF dp sub dl, of 400]
      by (simp add: kept_def evictIfAtCap_def evictOldest_def inMemoryRateLimitMaxEntries_def Let_def)
    have "length (filter (\<lambda>i. i \<notin> fst ` set (take ?n ?ps)) (map fst ?live)) =
        length (filter (\<lambda>i. i \<notin> fst ` set (take ?n ?ps)) (map fst ?ps))"
      using keys by (metis mset_filter size_mset)
    also have "\<dots> = length (drop ?n (map fst ?ps))"
      using filter_not_taken [OF dp, of ?n] by (simp add: take_map)
    also have "\<dots> = 400" using False mset_eq_length [OF m] by (simp add: inMemoryRateLimitMaxEntries_def)
    finally have l: "length kept = 400" by (simp add: k filter_map comp_def)
    have "at_reset (snd y) \<le> at_reset (snd x)" if x: "x \<in> set kept" and y: "y \<in> set ?live" "y \<notin> set kept" for x y
    proof -
      have "fst y \<in> fst ` set (take ?n ?ps)" using y by (auto simp: k)
      then obtain t where t: "(fst y, t) \<in> set (take ?n ?ps)" by force
      then have "(fst y, t) \<in> set ?ps" by (rule in_set_takeD)
      then have ty: "t = at_reset (snd y)" using dl y(1) by (auto simp: ps dest: eq_key_imp_eq_value)
      have "x \<in> set ?live" "fst x \<notin> fst ` set (take ?n ?ps)" using x by (auto simp: k)
      moreover from this have "(fst x, at_reset (snd x)) \<in> set ?ps" unfolding ps by (force simp: split_def)
      ultimately have "(fst x, at_reset (snd x)) \<in> set (take ?n ?ps @ drop ?n ?ps)" "(fst x, at_reset (snd x)) \<notin> set (take ?n ?ps)"
        by (simp, force)
      then have "(fst x, at_reset (snd x)) \<in> set (drop ?n ?ps)" unfolding set_append by blast
      moreover have "sorted (map snd (take ?n ?ps) @ map snd (drop ?n ?ps))" using s(2) by (simp flip: map_append)
      ultimately show ?thesis using t ty by (fastforce simp: sorted_append)
    qed
    moreover have "y \<in> set ?live" if "y \<in> set as" "\<not> at_reset (snd y) < now" for y
      using that by (simp add: split_def)
    ultimately have "x \<in> set kept \<longrightarrow> y \<in> set as \<longrightarrow> y \<notin> set kept \<longrightarrow> at_reset (snd y) < now \<or> at_reset (snd y) \<le> at_reset (snd x)"
      by blast
    moreover have "set kept \<subseteq> set as" "distinct (map fst kept)" using d by (auto simp: k distinct_map_filter)
    moreover have "length kept < inMemoryRateLimitMaxEntries" using l by (simp add: inMemoryRateLimitMaxEntries_def)
    ultimately show ?thesis by blast
  qed
  show "set kept \<subseteq> set as" "distinct (map fst kept)" "length kept < inMemoryRateLimitMaxEntries"
    using all by blast+
  show "at_reset (snd y) < now \<or> at_reset (snd y) \<le> at_reset (snd x)" if "x \<in> set kept" "y \<in> set as" "y \<notin> set kept"
    using all that by blast
qed

lemma length_update: "length (AList.update k v as) \<le> Suc (length as)"
  by (induction as) auto

lemma mem_step_bounded:
  assumes s: "\<And>xs. mset (me_sort env xs) = mset xs" "\<And>xs. sorted (map snd (me_sort env xs))"
    and d: "distinct (map fst (ml_attempts rl))"
  shows "distinct (map fst (ml_attempts (mem_step env a rl))) \<and> length (ml_attempts (mem_step env a rl)) \<le> inMemoryRateLimitMaxEntries"
proof -
  let ?as = "evictIfAtCap (me_sort env) (me_now env (ml_ticks rl)) (ml_attempts rl)"
  note f = evict_facts(2,3) [OF s d]
  have "ml_attempts (mem_step env a rl) = AList.update (attempt_id (fst a) (snd a))
      (snd (mem_attempt (configFor (ml_limits rl) (snd a)) (me_now env (ml_ticks rl)) (map_of ?as (attempt_id (fst a) (snd a))))) ?as"
    by (simp add: mem_step_def mem_Allow_def Let_def split: prod.splits)
  with f [of "me_now env (ml_ticks rl)"] length_update [of _ _ ?as] show ?thesis by (simp add: distinct_update le_trans [OF length_update])
qed

text \<open>C28: The memory of the limiter never holds more than 500 entries, one per caller and endpoint, whoever asks;
  when it is full, the entries that go to make room have expired or are no younger than any that stays.\<close>

theorem memory_stays_bounded:
  assumes s: "\<And>xs. mset (me_sort env xs) = mset xs" "\<And>xs. sorted (map snd (me_sort env xs))"
  shows "let entries = ml_attempts (fold (mem_step env) attempts NewInMemoryRateLimiter) in
    distinct (map fst entries) \<and> length entries \<le> 500 \<and>
    (\<forall>now x y. x \<in> set (evictIfAtCap (me_sort env) now entries) \<and> y \<in> set entries - set (evictIfAtCap (me_sort env) now entries) \<longrightarrow>
      at_reset (snd y) < now \<or> at_reset (snd y) \<le> at_reset (snd x))"
proof -
  let ?r = "fold (mem_step env) attempts NewInMemoryRateLimiter"
  have run: "distinct (map fst (ml_attempts (fold (mem_step env) as rl))) \<and>
      length (ml_attempts (fold (mem_step env) as rl)) \<le> inMemoryRateLimitMaxEntries"
    if "distinct (map fst (ml_attempts rl)) \<and> length (ml_attempts rl) \<le> inMemoryRateLimitMaxEntries" for as rl
    using that
  proof (induction as arbitrary: rl)
    case (Cons a as)
    with mem_step_bounded [OF s, of rl a] show ?case by simp
  qed simp
  have i: "distinct (map fst (ml_attempts ?r)) \<and> length (ml_attempts ?r) \<le> inMemoryRateLimitMaxEntries"
    by (rule run) (simp add: NewInMemoryRateLimiter_def)
  then have "at_reset (snd y) < now \<or> at_reset (snd y) \<le> at_reset (snd x)"
    if "x \<in> set (evictIfAtCap (me_sort env) now (ml_attempts ?r))" "y \<in> set (ml_attempts ?r)"
      "y \<notin> set (evictIfAtCap (me_sort env) now (ml_attempts ?r))" for now x y
    using evict_facts(4) [OF s _ that] by blast
  with i show ?thesis unfolding Let_def inMemoryRateLimitMaxEntries_def by blast
qed

definition sample_memory :: mem_env where
  "sample_memory = \<lparr>me_now = (\<lambda>n. int n * second_ns), me_sort = sort_key snd\<rparr>"

lemma memory_stays_bounded_witness:
  "length (ml_attempts (fold (mem_step sample_memory) [(''IP#a'', ''login''), (''IP#b'', ''login''), (''IP#a'', ''login'')] NewInMemoryRateLimiter)) = 2 \<and>
   length (ml_attempts (fold (mem_step sample_memory) [(''IP#a'', ''login''), (''IP#b'', ''login''), (''IP#a'', ''login'')] NewInMemoryRateLimiter)) \<le> 500"
proof
  show "length (ml_attempts (fold (mem_step sample_memory) [(''IP#a'', ''login''), (''IP#b'', ''login''), (''IP#a'', ''login'')] NewInMemoryRateLimiter)) = 2"
    by code_simp
  have "mset (me_sort sample_memory xs) = mset xs" "sorted (map snd (me_sort sample_memory xs))" for xs
    by (simp_all add: sample_memory_def)
  from memory_stays_bounded [OF this] show "length (ml_attempts (fold (mem_step sample_memory)
      [(''IP#a'', ''login''), (''IP#b'', ''login''), (''IP#a'', ''login'')] NewInMemoryRateLimiter)) \<le> 500"
    by (simp only: Let_def)
qed

section \<open>Memory and table agree\<close>

definition agree :: "(string \<rightharpoonup> rate_limit) \<Rightarrow> (string \<times> attempt_entry) list \<Rightarrow> (string \<rightharpoonup> rate_row) \<Rightarrow> bool" where
  "agree L as rows \<longleftrightarrow> (\<forall>k e. plain_name e \<longrightarrow>
    map_option (\<lambda>a. (at_reset a, at_count a)) (map_of as (attempt_id k e)) = row_book (rl_max (configFor L e)) (attempt_id k e) rows \<and>
    (case rows (attempt_id k e) of None \<Rightarrow> True | Some r \<Rightarrow> 1 \<le> rt_count r))"

lemma upsert_total:
  assumes "\<And>r. rd_rows t i = Some r \<Longrightarrow> rt_count r + 1 < 2 ^ 31"
  obtains t' n z where "upsert_attempt i reset now t = Inr (t', n, z)"
proof (cases "upsert_attempt i reset now t")
  case (Inl err)
  with assms show ?thesis by (fastforce simp: upsert_attempt_def Let_def split: option.splits if_splits)
next
  case (Inr q)
  with that show ?thesis by (cases q) auto
qed



end
