(* ===== verification/Spec2Isabelle.thy ===== *)
theory Spec2Isabelle
  imports Ladder_Tranches_Props Exchange_Reshape_Props Exchange_Auto_Props Exchange_Store_Props
    Purchase_Workflow_Props Purchase_Auth_Props Purchase_Fault_Props Purchase_Token_Props Purchase_Liveness_Props
    Auth_Grant_Props Auth_Account_Props Api_Workflow_Props Api_Purchase_Props Api_Revoke_Props Api_Limits_Props
begin

text \<open>
  A model of the part of CUDly that decides about money: which commitments to buy or exchange,
  who may approve them, and which purchases reach a cloud provider.

  \<^bold>\<open>The parts and how they interact.\<close> The ladder (\<open>pkg/ladder\<close>) turns a snapshot of usage and
  commitments into a plan of actions. The exchange engine (\<open>pkg/exchange\<close>, scheduled by
  \<open>internal/server/handler_ri_exchange.go\<close>) trades convertible reservations that are badly used
  and books every trade in a ledger table. The purchase manager (\<open>internal/purchase\<close>) turns
  plans into executions, waits for their approval, claims each with a compare-and-swap on its
  status and drives it through the providers. The authentication service (\<open>internal/auth\<close>)
  decides who may approve, and keeps users, groups, sessions and keys in its tables. The purchase
  endpoints of the HTTP API (\<open>internal/api\<close>) call both: a handler authenticates the request, asks
  for permissions, and changes purchases through the manager or the store. The last four meet in PostgreSQL: the statements of \<open>internal/config/store_postgres.go\<close> and
  \<open>internal/auth/store_postgres.go\<close> are functions on tables, and the services are composed of
  those functions as the code composes them.

  \<^bold>\<open>Theories and sources.\<close>
  \<^item> \<open>Prelude\<close> holds the result type of fallible functions, its sequencing, the collections of
    simplification facts and generic lemmas. \<open>Go_Text\<close>, \<open>Go_Float\<close>, \<open>Go_Rat\<close>, \<open>Go_Time\<close> are the
    parts of Go's library the code uses: strings and \<open>fmt\<close>, \<open>float64\<close> as exact dyadic values with
    round-to-nearest, \<open>math/big.Rat\<close>, and instants.
  \<^item> \<open>Ladder_Types\<close>, \<open>Ladder_Plan\<close>, \<open>Ladder_Allocate\<close>, \<open>Ladder_Tranches\<close> follow the files of
    \<open>pkg/ladder\<close>; \<open>Ladder_Allocate_Facts\<close> and the two \<open>Ladder_*_Props\<close> hold what is proved.
  \<^item> \<open>Exchange_Quote\<close> (\<open>exchange.go\<close>), \<open>Exchange_Reshape\<close> (\<open>reshape.go\<close>) and \<open>Exchange_Auto\<close>
    (\<open>auto.go\<close>) follow \<open>pkg/exchange\<close>; \<open>Exchange_Store\<close> the ledger's statements,
    \<open>Exchange_Service\<close> the scheduled task. The run's interfaces to store and client are the locales
    of \<open>Exchange_Ledger\<close>, interpreted on the statements in \<open>Exchange_Postgres\<close>.
  \<^item> \<open>Purchase_Types\<close> (\<open>internal/config/types.go\<close>), \<open>Purchase_Store\<close> (the statements),
    \<open>Purchase_Execution\<close> (\<open>execution.go\<close>), \<open>Purchase_Manager\<close> (\<open>manager.go\<close>, \<open>reaper.go\<close> and the
    sweeps), \<open>Purchase_Approvals\<close> (\<open>approvals.go\<close>, \<open>messages.go\<close>) and \<open>Purchase_Messages\<close>
    (\<open>notifications.go\<close>).
  \<^item> \<open>Auth_Types\<close> (permissions, carve-outs, account scopes, the order of the ceiling),
    \<open>Auth_Store\<close> (the statements with constraints and trigger), \<open>Auth_Groups\<close>, \<open>Auth_Login\<close>,
    \<open>Auth_Accounts\<close>, \<open>Auth_Members\<close>, \<open>Auth_Keys\<close> follow the \<open>service*.go\<close> files of
    \<open>internal/auth\<close>.
  \<^item> \<open>Api_Types\<close> (errors, requests, the handler and its world), \<open>Api_Access\<close> (\<open>middleware.go\<close>,
    \<open>handler.go\<close>, \<open>scoping.go\<close>: authentication, CSRF, permission gates, scopes),
    \<open>Api_Recipients\<close> (who is written to and who may approve), \<open>Api_Approve\<close>, \<open>Api_Planned\<close>,
    \<open>Api_Payment\<close> and \<open>Api_Submit\<close> (\<open>handler_purchases.go\<close>, \<open>validation.go\<close>) and \<open>Api_Revoke\<close>
    (\<open>handler_purchases_revoke.go\<close>). A handler is a function from a request and the pair of the
    manager's and the authentication service's world to an answer or an error and the new pair.
    \<open>Api_Limits\<close> holds the rate limits and the two limiters (\<open>rate_limiter.go\<close>,
    \<open>inmemory_rate_limiter.go\<close>, \<open>db_rate_limiter.go\<close>).

  \<^bold>\<open>Correspondence.\<close> A struct is a record with the fields the modelled code reads or writes, a
  typed string a datatype or a string, a nil-able pointer an option. A function that can fail
  returns a sum, \<open>Inl\<close> the error; a method that changes the database takes a world and returns it
  updated. A world holds the tables, the supply of fresh identifiers, the clock and a supply of
  faults: each statement consumes one entry and fails without effect when the entry says so, so
  every error branch of every caller is reachable. Providers, mail, credentials, hashing, random
  bytes and one-time-code arithmetic are fields of an environment record over which everything is
  proved; no law of them is assumed beyond the named hypotheses of a property.

  \<^bold>\<open>What the lemmas show.\<close>
  \<^item> Ladder: an allocation is never above its gap, its cap or its limits, accounts for every part
    of the gap, cannot panic, and its tranches add up to what was planned.
  \<^item> Exchange: an automatic run stays under the caps of a trade and of a day, what is accepted was
    quoted again under the cap, the ledger's transitions refine an abstract compare-and-swap, of
    two racing claims one wins, and a claim is not given twice within its window.
  \<^item> Purchases: every operation under any faults is a run of a step relation (\<open>step\<close> in
    \<open>Purchase_Store_Facts\<close>); an execution follows its lifecycle, is driven at most once when the
    database does not fault, and a second drive carries the same idempotency tokens. Approval by
    a second person fails closed.
  \<^item> Authentication: every operation under any faults is a run of table steps (\<open>lands\<close> in
    \<open>Auth_Service_Facts\<close>, the locale \<open>table_invariant\<close> of \<open>Auth_Table_Facts\<close>); the tables keep
    their constraints and an administrator; a group write grants at most what its author holds; a
    key acts within its owner; sessions end with the password that opened them.
  \<^item> Liveness: the two sweeps share the locale \<open>sweep\<close> of \<open>Purchase_Liveness_Props\<close>, interpreted on
    the loop over due purchases and on the reaper's; without faults neither leaves anything open.
  \<^item> API: \<open>Api_Quiet_Facts\<close> is a calculus of runs (the locale \<open>run_order\<close>, whose rules follow the
    shape of the handlers) and shows which of them only look (\<open>hush\<close>); \<open>Api_Step_Facts\<close> shows with
    the same rules that the others move executions along a lifecycle; \<open>Api_Authority_Facts\<close> says who
    is behind a change. The properties: any sequence of requests, tasks and account operations
    keeps both services' tables and the lifecycle; approvals, cancellations and revocations have
    an authorized person behind them; accepted requests are well formed; a resubmission collapses;
    a retry continues the lineage of its failed purchase; a return is never asked for twice.
  \<^item> Rate limits: the locale \<open>window_counter\<close> of \<open>Api_Limits_Facts\<close>, interpreted on the limiter in
    memory and on any number of processes that share the table, bounds the attempts of a period;
    the memory is bounded by its eviction and the two limiters agree.

  \<^bold>\<open>Bounds and fuel.\<close> Integers are unbounded where the code counts rows, dollars in
  micro-units or days, and their width is written out where a claim depends on it. Loops are
  structural or have a termination proof; the only fuel is the supply of faults and of fresh
  identifiers, which are functions on the naturals and cannot run out. Go's map iteration order is
  a parameter or the order of the rows; no property depends on it.

  \<^bold>\<open>Where the code does less than it says.\<close> Properties of kind \<open>error\<close> prove behaviour that differs
  from a comment or from the evident intent: record identifiers lost by the exchange adapter, a
  trade executed for an unknown account and not recorded, cancellation links of scheduled
  executions that never work, an execution bought again after its final save failed, the wildcard
  resource defeating the separation of duties, a deactivated user reactivated by a password reset,
  an invitation that blocks the reset, an approve link whose token is not looked at when a delay
  is configured, a manual run that drives nothing, a refused return that the sweep records as
  made.

  \<^bold>\<open>Not modelled.\<close> The clients of the clouds' SDKs, mail templates, cryptography, base32 and the
  parsing of mail addresses are parameters. Operations run one after another: goroutines inside a
  fan-out are taken in order, and deadlines and cancellation of contexts are not modelled. Fused
  multiply-add (which Go permits on some targets), Unicode classes beyond ASCII, column widths,
  NULL columns that the code cannot write, audit columns such as \<open>transitioned_by\<close> and the local
  time zone of a day's spend (UTC here) are left out. The usage counters of keys are integers,
  not 64-bit words. JSON decoders are parameters of the handler; routing, response
  headers and the endpoints that are not about purchases are not modelled, and neither are the
  scheduler, the analytics and the front ends; the manifest lists them.
\<close>

end
